(* ===== verification/Prelude.thy ===== *)
theory Prelude
  imports Complex_Main "HOL-Library.AList" "HOL-Library.Char_ord"
begin

text \<open>
  Shared vocabulary of the development: the errors the source throws and the result type that
  carries them, the texts the source reads as decimals and instants, JSON records, the string
  operations of the language that the components use, and generic facts about results and lists.
  Nothing in this theory is specific to one component.
\<close>

section \<open>Collections of rewrite rules\<close>

named_theorems result_simps \<open>rewriting of the result monad\<close>
named_theorems decimal_simps \<open>unfolding of the decimal helpers\<close>

section \<open>Errors and results\<close>

text \<open>
  Every \<^verbatim>\<open>throw\<close> of the modelled code is a value of this type, and a function that may throw
  returns \<open>error + 'a\<close>. \<open>DecimalSyntaxError\<close> is the error with which decimal.js refuses a text,
  \<open>Failure\<close> a plain \<^verbatim>\<open>new Error(...)\<close>, tagged by a short name of the place that throws it.
\<close>

datatype error =
    InvalidFinancialDecimalInputError string
  | NonFiniteFinancialDecimalError
  | DecimalSyntaxError string
  | PaperBrokerIdempotencyConflictError string
  | PaperBrokerOrderNotFoundError string
  | Failure string

type_synonym 'a result = "error + 'a"

definition bindR :: "'a result \<Rightarrow> ('a \<Rightarrow> 'b result) \<Rightarrow> 'b result" where
  "bindR r f = (case r of Inl e \<Rightarrow> Inl e | Inr a \<Rightarrow> f a)"

fun mapR :: "('a \<Rightarrow> 'b result) \<Rightarrow> 'a list \<Rightarrow> 'b list result" where
  "mapR f [] = Inr []"
| "mapR f (x # xs) = bindR (f x) (\<lambda>y. bindR (mapR f xs) (\<lambda>ys. Inr (y # ys)))"

fun foldR :: "('a \<Rightarrow> 'b \<Rightarrow> 'b result) \<Rightarrow> 'a list \<Rightarrow> 'b \<Rightarrow> 'b result" where
  "foldR f [] s = Inr s"
| "foldR f (x # xs) s = bindR (f x s) (foldR f xs)"

fun is_ok :: "'a result \<Rightarrow> bool" where
  "is_ok (Inl e) = False"
| "is_ok (Inr a) = True"

section \<open>Numeric texts\<close>

text \<open>
  The source keeps every amount as a \<^verbatim>\<open>NumericString\<close> and reads it with decimal.js. A numeric text
  is represented by what decimal.js reads from it: \<open>Num r\<close> is any spelling of the finite value
  \<open>r\<close> (so \<open>"1"\<close> and \<open>"1.0"\<close> are the same text here), \<open>NegZero\<close> a spelling of the negative
  zero, which decimal.js keeps apart and reports as negative, \<open>NonFinite s\<close> a text it reads as
  infinite or not a number, and \<open>NotDecimal s\<close> a text it refuses. \<^verbatim>\<open>toFixed()\<close> of a finite decimal of
  value \<open>r\<close> is \<open>Num r\<close>: it never prints a sign on a zero.
\<close>

datatype numeric =
    Num rat
  | NegZero
  | NonFinite string
  | NotDecimal string

text \<open>
  What a caller may pass where the source declares \<^verbatim>\<open>unknown\<close> or \<^verbatim>\<open>FinancialDecimalInput\<close>: a string
  or a \<^verbatim>\<open>Decimal\<close> instance (\<open>Amount\<close>), a JavaScript number, or a value of another type, given by
  its \<^verbatim>\<open>typeof\<close>.
\<close>

datatype decimal_input =
    Amount numeric
  | JsNumber
  | OtherType string

fun parseFinancialDecimal :: "numeric \<Rightarrow> rat result" where
  "parseFinancialDecimal (Num r) = Inr r"
| "parseFinancialDecimal NegZero = Inr 0"
| "parseFinancialDecimal (NonFinite s) = Inl NonFiniteFinancialDecimalError"
| "parseFinancialDecimal (NotDecimal s) = Inl (DecimalSyntaxError s)"

fun parseFinancialDecimalInput :: "decimal_input \<Rightarrow> rat result" where
  "parseFinancialDecimalInput (Amount n) = parseFinancialDecimal n"
| "parseFinancialDecimalInput JsNumber = Inl (InvalidFinancialDecimalInputError ''number'')"
| "parseFinancialDecimalInput (OtherType t) = Inl (InvalidFinancialDecimalInputError t)"

text \<open>\<^verbatim>\<open>Decimal.isNegative()\<close> of the decimal read from a text looks at the sign, also of a zero.\<close>

fun isNegativeText :: "numeric \<Rightarrow> bool" where
  "isNegativeText (Num r) = (r < 0)"
| "isNegativeText NegZero = True"
| "isNegativeText (NonFinite s) = (s = ''-Infinity'')"
| "isNegativeText (NotDecimal s) = False"

fun isNegativeInput :: "decimal_input \<Rightarrow> bool" where
  "isNegativeInput (Amount n) = isNegativeText n"
| "isNegativeInput _ = False"

definition toStorageDecimalString :: "numeric \<Rightarrow> numeric result" where
  "toStorageDecimalString n = bindR (parseFinancialDecimal n) (\<lambda>r. Inr (Num r))"

text \<open>
  \<open>normalizeNumeric\<close> is the idiom \<^verbatim>\<open>try { return parseFinancialDecimal(v).toFixed() } catch { return v }\<close>
  of the fingerprint code.
\<close>

definition normalizeNumeric :: "numeric \<Rightarrow> numeric" where
  "normalizeNumeric n = (case parseFinancialDecimal n of Inl e \<Rightarrow> n | Inr r \<Rightarrow> Num r)"

section \<open>JavaScript numbers\<close>

text \<open>
  A JavaScript number, where the source uses one: a finite value (exact, since only comparisons and
  integer tests are made on it), an infinity or not a number. \<open>jsGe\<close> is \<^verbatim>\<open>>=\<close>, false on NaN.
\<close>

datatype js_number = JsFinite rat | JsInfinity | JsNegInfinity | JsNaN

fun jsGe :: "js_number \<Rightarrow> js_number \<Rightarrow> bool" where
  "jsGe (JsFinite a) (JsFinite b) = (b \<le> a)"
| "jsGe JsNaN _ = False"
| "jsGe _ JsNaN = False"
| "jsGe JsInfinity _ = True"
| "jsGe _ JsNegInfinity = True"
| "jsGe _ _ = False"

fun isSafeInteger :: "js_number \<Rightarrow> bool" where
  "isSafeInteger (JsFinite r) = (of_int \<lfloor>r\<rfloor> = r \<and> \<bar>r\<bar> \<le> 9007199254740991)"
| "isSafeInteger _ = False"

section \<open>Instants\<close>

text \<open>
  A \<^verbatim>\<open>TimestampInput\<close> (a Date or a text) is represented by the instant it denotes, in epoch
  nanoseconds, or by the text that denotes none.
\<close>

datatype timestamp = At int | BadTime string

fun readTimestampNanos :: "timestamp \<Rightarrow> int result" where
  "readTimestampNanos (At n) = Inr n"
| "readTimestampNanos (BadTime s) = Inl (Failure ''invalid timestamp'')"

section \<open>JSON records\<close>

text \<open>
  A JSON object keeps the insertion order of its keys, so a record is an association list, read
  with \<open>map_of\<close> and written with \<open>AList.update\<close>, which overwrites in place and appends new keys as
  JavaScript does. A string is \<open>JNum\<close> where the field holds an amount and \<open>JStr\<close> otherwise; both have
  \<^verbatim>\<open>typeof "string"\<close>. \<open>JTime\<close> is a Date.
\<close>

datatype json =
    JNull
  | JBool bool
  | JNumber js_number
  | JStr string
  | JNum numeric
  | JTime timestamp
  | JArr "json list"
  | JObj "(string \<times> json) list"

type_synonym json_record = "(string \<times> json) list"

fun isJsonString :: "json \<Rightarrow> bool" where
  "isJsonString (JStr s) = True"
| "isJsonString (JNum n) = True"
| "isJsonString _ = False"

section \<open>Strings\<close>

text \<open>
  \<^verbatim>\<open>trim\<close>, \<^verbatim>\<open>toUpperCase\<close>, \<^verbatim>\<open>toLowerCase\<close>, \<^verbatim>\<open>startsWith\<close> and \<^verbatim>\<open>indexOf\<close> on the ASCII texts the
  program uses for currency codes, markets and reason codes.
\<close>

definition isSpace :: "char \<Rightarrow> bool" where
  "isSpace c \<longleftrightarrow> (of_char c :: nat) \<in> {9, 10, 11, 12, 13, 32}"

definition trim :: "string \<Rightarrow> string" where
  "trim s = rev (dropWhile isSpace (rev (dropWhile isSpace s)))"

definition upperChar :: "char \<Rightarrow> char" where
  "upperChar c = (let n = of_char c :: nat in if 97 \<le> n \<and> n \<le> 122 then char_of (n - 32) else c)"

definition lowerChar :: "char \<Rightarrow> char" where
  "lowerChar c = (let n = of_char c :: nat in if 65 \<le> n \<and> n \<le> 90 then char_of (n + 32) else c)"

definition toUpperCase :: "string \<Rightarrow> string" where
  "toUpperCase s = map upperChar s"

definition toLowerCase :: "string \<Rightarrow> string" where
  "toLowerCase s = map lowerChar s"

fun startsWith :: "string \<Rightarrow> string \<Rightarrow> bool" where
  "startsWith s [] = True"
| "startsWith [] (p # ps) = False"
| "startsWith (c # cs) (p # ps) = (c = p \<and> startsWith cs ps)"

text \<open>The text after the last hyphen (the whole text if there is none): \<^verbatim>\<open>split("-").at(-1)\<close>.\<close>

fun afterLastHyphen :: "string \<Rightarrow> string" where
  "afterLastHyphen [] = []"
| "afterLastHyphen (c # cs) =
     (if CHR ''-'' \<in> set cs then afterLastHyphen cs else if c = CHR ''-'' then cs else c # cs)"

text \<open>The decimal text of a counter, as a template literal prints it.\<close>

fun natText :: "nat \<Rightarrow> string" where
  "natText n = (if n < 10 then [char_of (48 + n)] else natText (n div 10) @ [char_of (48 + n mod 10)])"

declare natText.simps [simp del]

text \<open>The position of the first row that satisfies a condition: what a unique index finds.\<close>

fun rowIndex :: "('a \<Rightarrow> bool) \<Rightarrow> 'a list \<Rightarrow> nat option" where
  "rowIndex P [] = None"
| "rowIndex P (r # rs) = (if P r then Some 0 else map_option Suc (rowIndex P rs))"

section \<open>Shared lemmas\<close>

lemma natText_value: "foldl (\<lambda>a c. a * 10 + (of_char c - 48)) 0 (natText n) = n"
proof (induction n rule: natText.induct)
  case (1 n)
  have digit: "of_char (char_of (48 + d) :: char) = 48 + d" if "d < 10" for d :: nat
    using that by simp
  show ?case
  proof (cases "n < 10")
    case True
    then show ?thesis using digit [of n] by (simp add: natText.simps [of n])
  next
    case False
    then show ?thesis using 1 digit [of "n mod 10"] by (simp add: natText.simps [of n])
  qed
qed

lemma natText_inject [simp]: "natText m = natText n \<longleftrightarrow> m = n"
  by (metis natText_value)

lemma natText_digits: "c \<in> set (natText n) \<Longrightarrow> 48 \<le> (of_char c :: nat) \<and> (of_char c :: nat) \<le> 57"
proof (induction n rule: natText.induct)
  case (1 n)
  have digit: "of_char (char_of (48 + d) :: char) = 48 + d" if "d < 10" for d :: nat
    using that by simp
  show ?case
  proof (cases "n < 10")
    case True
    then show ?thesis using 1(2) digit [of n] by (simp add: natText.simps [of n])
  next
    case False
    then have "c \<in> set (natText (n div 10)) \<or> c = char_of (48 + n mod 10)" using 1(2) by (auto simp: natText.simps [of n])
    then show ?thesis using 1(1) False digit [of "n mod 10"] by fastforce
  qed
qed

lemma bindR_simps [simp, result_simps]:
  "bindR (Inl e) f = Inl e"
  "bindR (Inr a) f = f a"
  by (simp_all add: bindR_def)

lemma is_ok_iff: "is_ok r \<longleftrightarrow> (\<exists>a. r = Inr a)"
  by (cases r) auto

lemma bindR_Inr_iff [result_simps]:
  "bindR r f = Inr b \<longleftrightarrow> (\<exists>a. r = Inr a \<and> f a = Inr b)"
  by (cases r) auto

lemma bindR_InrE:
  assumes "bindR r f = Inr b"
  obtains a where "r = Inr a" and "f a = Inr b"
  using assms by (auto simp: bindR_Inr_iff)

lemma mapR_length: "mapR f xs = Inr ys \<Longrightarrow> length ys = length xs"
  by (induction xs arbitrary: ys) (auto simp: bindR_Inr_iff)

lemma mapR_Inr_map: "(\<And>x. x \<in> set xs \<Longrightarrow> f x = Inr (g x)) \<Longrightarrow> mapR f xs = Inr (map g xs)"
  by (induction xs) auto

lemma foldR_invariant:
  assumes "foldR f xs s = Inr s'" and "I s" and "\<And>x s s'. x \<in> set xs \<Longrightarrow> I s \<Longrightarrow> f x s = Inr s' \<Longrightarrow> I s'"
  shows "I s'"
  using assms
proof (induction xs arbitrary: s)
  case (Cons x xs)
  then obtain s1 where "f x s = Inr s1" "foldR f xs s1 = Inr s'" by (auto simp: bindR_Inr_iff)
  then show ?case using Cons.IH [of s1] Cons.prems by auto
qed simp

lemma foldR_each:
  assumes "foldR f xs s = Inr s'" and "I s"
    and "\<And>x s s'. x \<in> set xs \<Longrightarrow> I s \<Longrightarrow> f x s = Inr s' \<Longrightarrow> I s' \<and> P x s'"
    and "\<And>x y s s'. x \<in> set xs \<Longrightarrow> y \<in> set xs \<Longrightarrow> I s \<Longrightarrow> P y s \<Longrightarrow> f x s = Inr s' \<Longrightarrow> P y s'"
  shows "I s' \<and> (\<forall>x \<in> set xs. P x s')"
proof -
  have "I s' \<and> (\<forall>x \<in> seen \<union> set ys. P x s')"
    if "foldR f ys s = Inr s'" "I s" "\<forall>x \<in> seen. P x s" "set ys \<subseteq> set xs" "seen \<subseteq> set xs" for ys seen s
    using that
  proof (induction ys arbitrary: s seen)
    case (Cons y ys)
    then obtain s1 where s1: "f y s = Inr s1" "foldR f ys s1 = Inr s'" by (auto elim!: bindR_InrE)
    have "I s1 \<and> P y s1" using Cons.prems assms(3) [of y s s1] s1(1) by simp
    moreover have "P x s1" if "x \<in> seen" for x using Cons.prems assms(4) [of y x s s1] s1(1) that by auto
    ultimately show ?case using Cons.IH [OF s1(2), of "insert y seen"] Cons.prems by auto
  qed simp
  from this [OF assms(1,2), of "{}"] show ?thesis by simp
qed

lemma normalizeNumeric_simps [simp]:
  "normalizeNumeric (Num r) = Num r"
  "normalizeNumeric NegZero = Num 0"
  "normalizeNumeric (NonFinite s) = NonFinite s"
  "normalizeNumeric (NotDecimal s) = NotDecimal s"
  by (simp_all add: normalizeNumeric_def)

lemma normalizeNumeric_idem [simp]: "normalizeNumeric (normalizeNumeric n) = normalizeNumeric n"
  by (cases n) simp_all

lemma parse_normalizeNumeric [simp]:
  "parseFinancialDecimal (normalizeNumeric n) = parseFinancialDecimal n"
  by (cases n) simp_all

lemma parseFinancialDecimal_InrE:
  assumes "parseFinancialDecimal n = Inr r"
  obtains "n = Num r" | "n = NegZero" "r = 0"
  using assms by (cases n) auto

lemma isNegativeText_parse: "parseFinancialDecimal n = Inr r \<Longrightarrow> r < 0 \<Longrightarrow> isNegativeText n"
  by (cases n) auto

lemma not_isNegativeText_parse: "parseFinancialDecimal n = Inr r \<Longrightarrow> \<not> isNegativeText n \<Longrightarrow> 0 \<le> r"
  by (cases n) auto

lemma rowIndex_None_iff: "rowIndex P rs = None \<longleftrightarrow> (\<forall>r \<in> set rs. \<not> P r)"
  by (induction rs) auto

lemma rowIndex_SomeD: "rowIndex P rs = Some i \<Longrightarrow> i < length rs \<and> P (rs ! i) \<and> (\<forall>j < i. \<not> P (rs ! j))"
  by (induction rs arbitrary: i) (auto split: if_splits simp: nth_Cons split: nat.splits)

lemma map_of_alist_update [simp]:
  "map_of (AList.update k v al) = (map_of al)(k \<mapsto> v)"
  by (rule update_conv')

lemma trim_idem [simp]: "trim (trim s) = trim s"
proof -
  have first: "dropWhile isSpace (rev (dropWhile isSpace xs)) = rev (dropWhile isSpace xs)"
    if "dropWhile isSpace (rev xs) = rev xs" for xs
  proof (cases "dropWhile isSpace xs")
    case (Cons y ys)
    then obtain zs where "xs = zs @ y # ys" by (metis takeWhile_dropWhile_id)
    then have "rev xs \<noteq> []" "rev (dropWhile isSpace xs) \<noteq> []" "hd (rev (dropWhile isSpace xs)) = hd (rev xs)"
      using Cons by (auto simp: hd_append)
    then show ?thesis using that by (metis dropWhile_eq_self_iff)
  next
    case Nil
    then show ?thesis by (simp only: rev.simps dropWhile.simps)
  qed
  have "dropWhile isSpace (rev (dropWhile isSpace (rev (dropWhile isSpace s)))) =
      rev (dropWhile isSpace (rev (dropWhile isSpace s)))"
    by (rule first) simp
  then show ?thesis by (simp add: trim_def)
qed

end
