(* ===== verification/Lifecycle.thy ===== *)
theory Lifecycle
  imports Prelude
begin

text \<open>
  The two state machines of \<^verbatim>\<open>src/src/domain/state-machines.ts\<close> and \<^verbatim>\<open>orders.ts\<close>: the order
  lifecycle and the kill switch, with the transition decisions and the append-only event
  candidates they produce. A third machine, that of live order proposals
  (\<^verbatim>\<open>domain/live-order-approval/state-machine.ts\<close>), has the same shape and is modelled here too
  (its Korean operator messages are left out).
  The locales state what a machine of this shape promises to its clients: a gate that no run
  bypasses, and a rank that bounds every run.
\<close>

section \<open>Order lifecycle\<close>

datatype order_status =
    CREATED | VALIDATED | RISK_APPROVED | RISK_REJECTED | SUBMITTED | ACCEPTED
  | PARTIALLY_FILLED | FILLED | CANCEL_REQUESTED | CANCELED | REJECTED | EXPIRED | FAILED
  | MANUAL_REVIEW_REQUIRED

fun orderStatusName :: "order_status \<Rightarrow> string" where
  "orderStatusName CREATED = ''CREATED''"
| "orderStatusName VALIDATED = ''VALIDATED''"
| "orderStatusName RISK_APPROVED = ''RISK_APPROVED''"
| "orderStatusName RISK_REJECTED = ''RISK_REJECTED''"
| "orderStatusName SUBMITTED = ''SUBMITTED''"
| "orderStatusName ACCEPTED = ''ACCEPTED''"
| "orderStatusName PARTIALLY_FILLED = ''PARTIALLY_FILLED''"
| "orderStatusName FILLED = ''FILLED''"
| "orderStatusName CANCEL_REQUESTED = ''CANCEL_REQUESTED''"
| "orderStatusName CANCELED = ''CANCELED''"
| "orderStatusName REJECTED = ''REJECTED''"
| "orderStatusName EXPIRED = ''EXPIRED''"
| "orderStatusName FAILED = ''FAILED''"
| "orderStatusName MANUAL_REVIEW_REQUIRED = ''MANUAL_REVIEW_REQUIRED''"

fun orderStateTransitions :: "order_status \<Rightarrow> order_status list" where
  "orderStateTransitions CREATED = [VALIDATED, REJECTED, FAILED, MANUAL_REVIEW_REQUIRED]"
| "orderStateTransitions VALIDATED = [RISK_APPROVED, RISK_REJECTED, FAILED, MANUAL_REVIEW_REQUIRED]"
| "orderStateTransitions RISK_APPROVED = [SUBMITTED, FAILED, MANUAL_REVIEW_REQUIRED]"
| "orderStateTransitions RISK_REJECTED = [MANUAL_REVIEW_REQUIRED]"
| "orderStateTransitions SUBMITTED =
     [ACCEPTED, REJECTED, FAILED, CANCEL_REQUESTED, MANUAL_REVIEW_REQUIRED]"
| "orderStateTransitions ACCEPTED =
     [PARTIALLY_FILLED, FILLED, CANCEL_REQUESTED, EXPIRED, FAILED, MANUAL_REVIEW_REQUIRED]"
| "orderStateTransitions PARTIALLY_FILLED =
     [FILLED, CANCEL_REQUESTED, CANCELED, EXPIRED, FAILED, MANUAL_REVIEW_REQUIRED]"
| "orderStateTransitions FILLED = []"
| "orderStateTransitions CANCEL_REQUESTED = [CANCELED, FAILED, MANUAL_REVIEW_REQUIRED]"
| "orderStateTransitions CANCELED = []"
| "orderStateTransitions REJECTED = []"
| "orderStateTransitions EXPIRED = []"
| "orderStateTransitions FAILED = []"
| "orderStateTransitions MANUAL_REVIEW_REQUIRED = []"

definition canTransitionOrderState :: "order_status \<Rightarrow> order_status \<Rightarrow> bool" where
  "canTransitionOrderState fromState toState \<longleftrightarrow> toState \<in> set (orderStateTransitions fromState)"

section \<open>Kill switch\<close>

datatype kill_switch_state =
    KS_NORMAL | KS_NEW_ORDERS_BLOCKED | KS_STRATEGY_PAUSED | KS_HARD_STOP
  | KS_MANUAL_REVIEW_REQUIRED

fun killSwitchStateName :: "kill_switch_state \<Rightarrow> string" where
  "killSwitchStateName KS_NORMAL = ''NORMAL''"
| "killSwitchStateName KS_NEW_ORDERS_BLOCKED = ''NEW_ORDERS_BLOCKED''"
| "killSwitchStateName KS_STRATEGY_PAUSED = ''STRATEGY_PAUSED''"
| "killSwitchStateName KS_HARD_STOP = ''HARD_STOP''"
| "killSwitchStateName KS_MANUAL_REVIEW_REQUIRED = ''MANUAL_REVIEW_REQUIRED''"

fun killSwitchStateTransitions :: "kill_switch_state \<Rightarrow> kill_switch_state list" where
  "killSwitchStateTransitions KS_NORMAL =
     [KS_NEW_ORDERS_BLOCKED, KS_STRATEGY_PAUSED, KS_HARD_STOP, KS_MANUAL_REVIEW_REQUIRED]"
| "killSwitchStateTransitions KS_NEW_ORDERS_BLOCKED =
     [KS_NORMAL, KS_STRATEGY_PAUSED, KS_HARD_STOP, KS_MANUAL_REVIEW_REQUIRED]"
| "killSwitchStateTransitions KS_STRATEGY_PAUSED =
     [KS_NORMAL, KS_NEW_ORDERS_BLOCKED, KS_HARD_STOP, KS_MANUAL_REVIEW_REQUIRED]"
| "killSwitchStateTransitions KS_HARD_STOP = [KS_MANUAL_REVIEW_REQUIRED]"
| "killSwitchStateTransitions KS_MANUAL_REVIEW_REQUIRED =
     [KS_NORMAL, KS_NEW_ORDERS_BLOCKED, KS_STRATEGY_PAUSED, KS_HARD_STOP]"

definition canTransitionKillSwitchState :: "kill_switch_state \<Rightarrow> kill_switch_state \<Rightarrow> bool" where
  "canTransitionKillSwitchState fromState toState \<longleftrightarrow>
     toState \<in> set (killSwitchStateTransitions fromState)"

record kill_switch_action_plan =
  newOrdersBlocked :: bool
  strategyEvaluationBlocked :: bool
  cancelPendingPaperOrders :: bool
  autoLiquidateOpenPositions :: bool
  requiresManualReview :: bool

fun getKillSwitchActionPlan :: "kill_switch_state \<Rightarrow> kill_switch_action_plan" where
  "getKillSwitchActionPlan KS_NORMAL =
     \<lparr>newOrdersBlocked = False, strategyEvaluationBlocked = False,
      cancelPendingPaperOrders = False, autoLiquidateOpenPositions = False,
      requiresManualReview = False\<rparr>"
| "getKillSwitchActionPlan KS_NEW_ORDERS_BLOCKED =
     \<lparr>newOrdersBlocked = True, strategyEvaluationBlocked = False,
      cancelPendingPaperOrders = False, autoLiquidateOpenPositions = False,
      requiresManualReview = False\<rparr>"
| "getKillSwitchActionPlan KS_STRATEGY_PAUSED =
     \<lparr>newOrdersBlocked = False, strategyEvaluationBlocked = True,
      cancelPendingPaperOrders = False, autoLiquidateOpenPositions = False,
      requiresManualReview = False\<rparr>"
| "getKillSwitchActionPlan KS_HARD_STOP =
     \<lparr>newOrdersBlocked = True, strategyEvaluationBlocked = True,
      cancelPendingPaperOrders = True, autoLiquidateOpenPositions = False,
      requiresManualReview = True\<rparr>"
| "getKillSwitchActionPlan KS_MANUAL_REVIEW_REQUIRED =
     \<lparr>newOrdersBlocked = True, strategyEvaluationBlocked = True,
      cancelPendingPaperOrders = False, autoLiquidateOpenPositions = False,
      requiresManualReview = True\<rparr>"

section \<open>Transition decisions and event candidates\<close>

datatype state_transition_event_kind = ORDER_STATE_TRANSITION | KILL_SWITCH_STATE_TRANSITION

record 's transition_event =
  ev_eventKind :: state_transition_event_kind
  ev_fromState :: 's
  ev_toState :: 's
  ev_accepted :: bool
  ev_reasonCode :: string
  ev_message :: string
  ev_occurredAt :: timestamp
  ev_metadata :: "json_record option"

record 's transition_decision =
  td_accepted :: bool
  td_fromState :: 's
  td_toState :: 's
  td_reasonCode :: string
  td_message :: string
  td_event :: "'s transition_event"

record 's transition_input =
  ti_fromState :: 's
  ti_toState :: 's
  ti_occurredAt :: timestamp
  ti_reasonCode :: "string option"
  ti_message :: "string option"
  ti_metadata :: "json_record option"

definition createTransitionDecision ::
  "state_transition_event_kind \<Rightarrow> bool \<Rightarrow> string \<Rightarrow> string \<Rightarrow> string \<Rightarrow> string \<Rightarrow>
   's transition_input \<Rightarrow> 's transition_decision" where
  "createTransitionDecision eventKind allowed acceptedCode rejectedCode acceptedMsg rejectedMsg inp =
     (let accepted = allowed;
          reasonCode = (case ti_reasonCode inp of Some c \<Rightarrow> c
                        | None \<Rightarrow> if accepted then acceptedCode else rejectedCode);
          message = (case ti_message inp of Some m \<Rightarrow> m
                     | None \<Rightarrow> if accepted then acceptedMsg else rejectedMsg);
          event = \<lparr>ev_eventKind = eventKind, ev_fromState = ti_fromState inp,
                   ev_toState = ti_toState inp, ev_accepted = accepted,
                   ev_reasonCode = reasonCode, ev_message = message,
                   ev_occurredAt = ti_occurredAt inp, ev_metadata = ti_metadata inp\<rparr>
      in \<lparr>td_accepted = accepted, td_fromState = ti_fromState inp, td_toState = ti_toState inp,
          td_reasonCode = reasonCode, td_message = message, td_event = event\<rparr>)"

definition transitionOrderState ::
  "order_status transition_input \<Rightarrow> order_status transition_decision" where
  "transitionOrderState inp =
     (let arrow = orderStatusName (ti_fromState inp) @ '' -> '' @ orderStatusName (ti_toState inp)
      in createTransitionDecision ORDER_STATE_TRANSITION
           (canTransitionOrderState (ti_fromState inp) (ti_toState inp))
           ''order_state_transition_accepted'' ''illegal_order_state_transition''
           (''Order state transition accepted: '' @ arrow)
           (''Illegal order state transition rejected: '' @ arrow) inp)"

definition transitionKillSwitchState ::
  "kill_switch_state transition_input \<Rightarrow> kill_switch_state transition_decision" where
  "transitionKillSwitchState inp =
     (let arrow = killSwitchStateName (ti_fromState inp) @ '' -> ''
                    @ killSwitchStateName (ti_toState inp)
      in createTransitionDecision KILL_SWITCH_STATE_TRANSITION
           (canTransitionKillSwitchState (ti_fromState inp) (ti_toState inp))
           ''kill_switch_state_transition_accepted'' ''illegal_kill_switch_state_transition''
           (''Kill switch state transition accepted: '' @ arrow)
           (''Illegal kill switch state transition rejected: '' @ arrow) inp)"

section \<open>Live order proposals\<close>

datatype proposal_status =
    P_PROPOSED | P_APPROVED | P_REJECTED | P_EXPIRED | P_SUBMITTED | P_SUBMISSION_FAILED

fun allowedLiveOrderProposalTransitions :: "proposal_status \<Rightarrow> proposal_status list" where
  "allowedLiveOrderProposalTransitions P_PROPOSED = [P_APPROVED, P_REJECTED, P_EXPIRED]"
| "allowedLiveOrderProposalTransitions P_APPROVED = [P_SUBMITTED, P_EXPIRED, P_SUBMISSION_FAILED]"
| "allowedLiveOrderProposalTransitions P_REJECTED = []"
| "allowedLiveOrderProposalTransitions P_EXPIRED = []"
| "allowedLiveOrderProposalTransitions P_SUBMITTED = []"
| "allowedLiveOrderProposalTransitions P_SUBMISSION_FAILED = []"

record proposal_transition_decision =
  pt_accepted :: bool
  pt_proposalId :: string
  pt_fromStatus :: proposal_status
  pt_toStatus :: proposal_status
  pt_reasonCode :: string
  pt_occurredAt :: timestamp
  pt_metadata :: "json_record option"

definition evaluateLiveOrderProposalTransition ::
  "string \<Rightarrow> proposal_status \<Rightarrow> proposal_status \<Rightarrow> string \<Rightarrow> timestamp \<Rightarrow> json_record option
   \<Rightarrow> proposal_transition_decision" where
  "evaluateLiveOrderProposalTransition proposalId fromStatus toStatus reasonCode occurredAt meta =
     (let common = \<lparr>pt_accepted = False, pt_proposalId = proposalId, pt_fromStatus = fromStatus,
                    pt_toStatus = toStatus, pt_reasonCode = reasonCode,
                    pt_occurredAt = occurredAt, pt_metadata = meta\<rparr>
      in if fromStatus = toStatus then common
         else if toStatus \<in> set (allowedLiveOrderProposalTransitions fromStatus)
              then common\<lparr>pt_accepted := True\<rparr>
         else common)"

definition canTransitionProposal :: "proposal_status \<Rightarrow> proposal_status \<Rightarrow> bool" where
  "canTransitionProposal s t \<longleftrightarrow>
     pt_accepted (evaluateLiveOrderProposalTransition [] s t [] (At 0) None)"

section \<open>What a machine promises\<close>

text \<open>
  A run is a list of states whose neighbours are allowed transitions. A \<^emph>\<open>gate\<close> is a state that
  every run passes before it gets \<^emph>\<open>behind\<close> it.
\<close>

locale gated_machine =
  fixes can :: "'s \<Rightarrow> 's \<Rightarrow> bool" and gate :: 's and behind :: "'s \<Rightarrow> bool"
  assumes enter: "can s t \<Longrightarrow> behind t \<Longrightarrow> \<not> behind s \<Longrightarrow> s = gate"
begin

lemma passes_gate:
  assumes "successively can (s # run)" and "\<not> behind s" and "t \<in> set run" and "behind t"
  shows "gate \<in> set (s # run)"
  using assms
proof (induction run arbitrary: s)
  case Nil
  then show ?case by simp
next
  case (Cons u run)
  show ?case
  proof (cases "behind u")
    case True
    then show ?thesis using Cons.prems enter [of s u] by simp
  next
    case False
    then have "gate \<in> set (u # run)"
      using Cons.prems by (intro Cons.IH) auto
    then show ?thesis by simp
  qed
qed

end

locale ranked_machine =
  fixes can :: "'s \<Rightarrow> 's \<Rightarrow> bool" and rank :: "'s \<Rightarrow> nat"
  assumes descends: "can s t \<Longrightarrow> rank t < rank s"
begin

lemma run_bounded: "successively can (s # run) \<Longrightarrow> length run \<le> rank s"
proof (induction run arbitrary: s)
  case Nil
  then show ?case by simp
next
  case (Cons t run)
  then have "length run \<le> rank t" and "rank t < rank s" by (auto intro: descends)
  then show ?case by simp
qed

lemma run_below: "successively can (s # run) \<Longrightarrow> t \<in> set run \<Longrightarrow> rank t < rank s"
proof (induction run arbitrary: s)
  case Nil
  then show ?case by simp
next
  case (Cons u run)
  then have "rank u < rank s" and "t = u \<or> rank t < rank u" by (auto intro: descends)
  then show ?case by auto
qed

lemma run_distinct: "successively can (s # run) \<Longrightarrow> distinct (s # run)"
proof (induction run arbitrary: s)
  case Nil
  then show ?case by simp
next
  case (Cons t run)
  then have "distinct (t # run)" using Cons.IH [of t] by simp
  moreover have "s \<notin> set (t # run)" using Cons.prems run_below [of s "t # run" s] by blast
  ultimately show ?case by simp
qed

end

section \<open>The machines of the program keep those promises\<close>

lemma canTransitionOrderState_set:
  "{t. canTransitionOrderState s t} = set (orderStateTransitions s)"
  by (simp add: canTransitionOrderState_def)

definition behindRiskApproval :: "order_status \<Rightarrow> bool" where
  "behindRiskApproval s \<longleftrightarrow>
     s \<in> {SUBMITTED, ACCEPTED, PARTIALLY_FILLED, FILLED, CANCEL_REQUESTED, CANCELED, EXPIRED}"

definition behindValidation :: "order_status \<Rightarrow> bool" where
  "behindValidation s \<longleftrightarrow> s \<in> {RISK_APPROVED, RISK_REJECTED} \<or> behindRiskApproval s"

fun orderRank :: "order_status \<Rightarrow> nat" where
  "orderRank CREATED = 7"
| "orderRank VALIDATED = 6"
| "orderRank RISK_APPROVED = 5"
| "orderRank RISK_REJECTED = 1"
| "orderRank SUBMITTED = 4"
| "orderRank ACCEPTED = 3"
| "orderRank PARTIALLY_FILLED = 2"
| "orderRank CANCEL_REQUESTED = 1"
| "orderRank _ = 0"

lemmas order_machine_defs =
  canTransitionOrderState_def behindRiskApproval_def behindValidation_def

interpretation risk_gated: gated_machine canTransitionOrderState RISK_APPROVED behindRiskApproval
proof
  fix s t
  assume "canTransitionOrderState s t" "behindRiskApproval t" "\<not> behindRiskApproval s"
  then show "s = RISK_APPROVED" by (cases s) (auto simp: order_machine_defs)
qed

interpretation validation_gated: gated_machine canTransitionOrderState VALIDATED behindValidation
proof
  fix s t
  assume "canTransitionOrderState s t" "behindValidation t" "\<not> behindValidation s"
  then show "s = VALIDATED" by (cases s) (auto simp: order_machine_defs)
qed

interpretation order_ranked: ranked_machine canTransitionOrderState orderRank
proof
  fix s t
  assume "canTransitionOrderState s t"
  then show "orderRank t < orderRank s" by (cases s) (auto simp: canTransitionOrderState_def)
qed

definition outsideHardStop :: "kill_switch_state \<Rightarrow> bool" where
  "outsideHardStop s \<longleftrightarrow> s \<in> {KS_NORMAL, KS_NEW_ORDERS_BLOCKED, KS_STRATEGY_PAUSED}"

interpretation review_gated:
  gated_machine canTransitionKillSwitchState KS_MANUAL_REVIEW_REQUIRED outsideHardStop
proof
  fix s t
  assume "canTransitionKillSwitchState s t" "outsideHardStop t" "\<not> outsideHardStop s"
  then show "s = KS_MANUAL_REVIEW_REQUIRED"
    by (cases s) (auto simp: canTransitionKillSwitchState_def outsideHardStop_def)
qed

definition proposalSubmitted :: "proposal_status \<Rightarrow> bool" where
  "proposalSubmitted s \<longleftrightarrow> s \<in> {P_SUBMITTED, P_SUBMISSION_FAILED}"

fun proposalRank :: "proposal_status \<Rightarrow> nat" where
  "proposalRank P_PROPOSED = 2"
| "proposalRank P_APPROVED = 1"
| "proposalRank _ = 0"

lemma canTransitionProposal_iff:
  "canTransitionProposal s t \<longleftrightarrow> t \<in> set (allowedLiveOrderProposalTransitions s)"
  by (cases s)
    (auto simp: canTransitionProposal_def evaluateLiveOrderProposalTransition_def Let_def
      split: if_splits)

interpretation approval_gated: gated_machine canTransitionProposal P_APPROVED proposalSubmitted
proof
  fix s t
  assume "canTransitionProposal s t" "proposalSubmitted t" "\<not> proposalSubmitted s"
  then show "s = P_APPROVED"
    by (cases s) (auto simp: canTransitionProposal_iff proposalSubmitted_def)
qed

interpretation proposal_ranked: ranked_machine canTransitionProposal proposalRank
proof
  fix s t
  assume "canTransitionProposal s t"
  then show "proposalRank t < proposalRank s" by (cases s) (auto simp: canTransitionProposal_iff)
qed

section \<open>Properties\<close>

text \<open>
  C1. An order that starts as \<open>CREATED\<close> reaches a state in which it is or was at the broker
  (submitted, accepted, filled, being canceled, canceled or expired) only after it has been
  validated and approved by the risk gate: no run of the state machine bypasses the approval.
\<close>

theorem order_submission_needs_risk_approval:
  assumes "successively canTransitionOrderState (CREATED # run)"
    and "t \<in> set run"
    and "t \<in> {SUBMITTED, ACCEPTED, PARTIALLY_FILLED, FILLED, CANCEL_REQUESTED, CANCELED, EXPIRED}"
  shows "VALIDATED \<in> set run \<and> RISK_APPROVED \<in> set run"
proof -
  have t: "behindRiskApproval t" "behindValidation t"
    using assms(3) by (auto simp: order_machine_defs)
  have "RISK_APPROVED \<in> set (CREATED # run)"
    using assms(1,2) t by (intro risk_gated.passes_gate [where t = t]) (simp_all add: order_machine_defs)
  moreover have "VALIDATED \<in> set (CREATED # run)"
    using assms(1,2) t
    by (intro validation_gated.passes_gate [where t = t]) (simp_all add: order_machine_defs)
  ultimately show ?thesis by simp
qed

theorem order_submission_needs_risk_approval_witness:
  "successively canTransitionOrderState [CREATED, VALIDATED, RISK_APPROVED, SUBMITTED] \<and>
   VALIDATED \<in> set [VALIDATED, RISK_APPROVED, SUBMITTED] \<and>
   RISK_APPROVED \<in> set [VALIDATED, RISK_APPROVED, SUBMITTED]"
proof -
  have run: "successively canTransitionOrderState [CREATED, VALIDATED, RISK_APPROVED, SUBMITTED]"
    by (simp add: canTransitionOrderState_def)
  show ?thesis using run order_submission_needs_risk_approval [OF run, of SUBMITTED] by simp
qed

text \<open>
  C2. Every run of the order state machine ends: from any state at most seven transitions are
  possible, and no state is visited twice, so an order never returns to a state it has left.
\<close>

theorem order_run_ends:
  assumes "successively canTransitionOrderState (s # run)"
  shows "length run \<le> 7 \<and> distinct (s # run)"
proof -
  have "length run \<le> orderRank s" using assms by (rule order_ranked.run_bounded)
  moreover have "orderRank s \<le> 7" by (cases s) simp_all
  ultimately show ?thesis using order_ranked.run_distinct [OF assms] by simp
qed

theorem order_run_ends_witness:
  "length [VALIDATED, RISK_APPROVED, SUBMITTED, ACCEPTED, PARTIALLY_FILLED, CANCEL_REQUESTED,
     CANCELED] \<le> 7 \<and>
   distinct [CREATED, VALIDATED, RISK_APPROVED, SUBMITTED, ACCEPTED, PARTIALLY_FILLED,
     CANCEL_REQUESTED, CANCELED]"
  by (rule order_run_ends) (simp add: canTransitionOrderState_def)

text \<open>
  Once the kill switch is in \<open>HARD_STOP\<close>, no run of its state machine leaves the stopped
  states, to \<open>NORMAL\<close>, \<open>NEW_ORDERS_BLOCKED\<close> or \<open>STRATEGY_PAUSED\<close>, without passing through
  \<open>MANUAL_REVIEW_REQUIRED\<close>.
\<close>

theorem hard_stop_recovery_needs_review:
  assumes "successively canTransitionKillSwitchState (KS_HARD_STOP # run)"
    and "t \<in> set run" and "t \<notin> {KS_HARD_STOP, KS_MANUAL_REVIEW_REQUIRED}"
  shows "KS_MANUAL_REVIEW_REQUIRED \<in> set run"
proof -
  have "outsideHardStop t" using assms(3) by (cases t) (simp_all add: outsideHardStop_def)
  then have "KS_MANUAL_REVIEW_REQUIRED \<in> set (KS_HARD_STOP # run)"
    using assms(1,2)
    by (intro review_gated.passes_gate [where t = t]) (simp_all add: outsideHardStop_def)
  then show ?thesis by simp
qed

theorem hard_stop_recovery_needs_review_witness:
  "KS_MANUAL_REVIEW_REQUIRED \<in> set [KS_MANUAL_REVIEW_REQUIRED, KS_NORMAL]"
  by (rule hard_stop_recovery_needs_review [of _ KS_NORMAL])
    (simp_all add: canTransitionKillSwitchState_def)

text \<open>
  A live order proposal is submitted to the exchange (successfully or not) only after it has
  been approved, and a proposal changes its status at most twice; a repeated status is never
  accepted as a transition.
\<close>

theorem proposal_submission_needs_approval:
  assumes "successively canTransitionProposal (P_PROPOSED # run)"
  shows "length run \<le> 2 \<and> distinct (P_PROPOSED # run) \<and>
    (P_SUBMITTED \<in> set run \<or> P_SUBMISSION_FAILED \<in> set run \<longrightarrow> P_APPROVED \<in> set run)"
proof -
  have "P_APPROVED \<in> set (P_PROPOSED # run)" if "t \<in> set run" "proposalSubmitted t" for t
    using assms that by (intro approval_gated.passes_gate [where t = t])
      (simp_all add: proposalSubmitted_def)
  then have "P_SUBMITTED \<in> set run \<or> P_SUBMISSION_FAILED \<in> set run \<longrightarrow> P_APPROVED \<in> set run"
    by (auto simp: proposalSubmitted_def)
  then show ?thesis
    using proposal_ranked.run_bounded [OF assms] proposal_ranked.run_distinct [OF assms] by simp
qed

theorem proposal_submission_needs_approval_witness:
  "length [P_APPROVED, P_SUBMITTED] \<le> 2 \<and> distinct [P_PROPOSED, P_APPROVED, P_SUBMITTED] \<and>
   P_APPROVED \<in> set [P_APPROVED, P_SUBMITTED]"
proof -
  have "successively canTransitionProposal [P_PROPOSED, P_APPROVED, P_SUBMITTED]"
    by (simp add: canTransitionProposal_iff)
  from proposal_submission_needs_approval [OF this] show ?thesis by simp
qed

end
