(* ===== verification/Decimal_Js.thy ===== *)
theory Decimal_Js
  imports Prelude
begin

text \<open>
  The arithmetic of decimal.js, the third-party library behind every amount of the program. The
  sums, differences, products and quotients of finite decimals are the exact results rounded to
  the configured precision (20 significant digits, half up, the library's defaults, which the
  program never changes); comparison, negation and absolute value are exact. The rounding is a
  parameter \<open>rnd\<close> of every definition that computes; the locale \<open>decimal_rounding\<close> lists the
  documented laws the development uses, and the default rounding is shown to satisfy them.
\<close>

section \<open>Operations\<close>

type_synonym rounding = "rat \<Rightarrow> rat"

definition dplus :: "rounding \<Rightarrow> rat \<Rightarrow> rat \<Rightarrow> rat" where
  "dplus rnd x y = rnd (x + y)"

definition dminus :: "rounding \<Rightarrow> rat \<Rightarrow> rat \<Rightarrow> rat" where
  "dminus rnd x y = rnd (x - y)"

definition dtimes :: "rounding \<Rightarrow> rat \<Rightarrow> rat \<Rightarrow> rat" where
  "dtimes rnd x y = rnd (x * y)"

text \<open>A quotient by zero is not a number or infinite in decimal.js; that is the \<open>None\<close> case.\<close>

definition ddiv :: "rounding \<Rightarrow> rat \<Rightarrow> rat \<Rightarrow> rat option" where
  "ddiv rnd x y = (if y = 0 then None else Some (rnd (x / y)))"

text \<open>\<^verbatim>\<open>mod\<close> subtracts the truncated integer quotient times the divisor, which is computed exactly.\<close>

definition dmod :: "rounding \<Rightarrow> rat \<Rightarrow> rat \<Rightarrow> rat option" where
  "dmod rnd x y = (if y = 0 then None
     else Some (rnd (x - y * of_int (if 0 \<le> x / y then \<lfloor>x / y\<rfloor> else \<lceil>x / y\<rceil>))))"

lemmas decimal_ops = dplus_def dminus_def dtimes_def ddiv_def

section \<open>The laws of rounding\<close>

locale decimal_rounding =
  fixes rnd :: rounding
  assumes rnd_zero [simp]: "rnd 0 = 0"
    and rnd_minus: "rnd (- x) = - rnd x"
    and rnd_mono: "x \<le> y \<Longrightarrow> rnd x \<le> rnd y"
    and rnd_idem [simp]: "rnd (rnd x) = rnd x"
begin

lemma rnd_nonneg: "0 \<le> x \<Longrightarrow> 0 \<le> rnd x"
  using rnd_mono [of 0 x] by simp

lemma rnd_nonpos: "x \<le> 0 \<Longrightarrow> rnd x \<le> 0"
  using rnd_mono [of x 0] by simp

lemma rnd_pos_arg: "0 < rnd x \<Longrightarrow> 0 < x"
  using rnd_nonpos [of x] by (cases "0 < x") auto

lemma rnd_le_fixed: "x \<le> y \<Longrightarrow> rnd y = y \<Longrightarrow> rnd x \<le> y"
  using rnd_mono [of x y] by simp

lemma rnd_ge_fixed: "y \<le> x \<Longrightarrow> rnd y = y \<Longrightarrow> y \<le> rnd x"
  using rnd_mono [of y x] by simp

lemma rnd_diff_swap: "rnd (x - y) = - rnd (y - x)"
  using rnd_minus [of "y - x"] by simp

lemma dplus_nonneg: "0 \<le> x \<Longrightarrow> 0 \<le> y \<Longrightarrow> 0 \<le> dplus rnd x y"
  by (simp add: dplus_def rnd_nonneg)

lemma dtimes_nonneg: "0 \<le> x \<Longrightarrow> 0 \<le> y \<Longrightarrow> 0 \<le> dtimes rnd x y"
  by (simp add: dtimes_def rnd_nonneg)

lemma dplus_mono: "x \<le> x' \<Longrightarrow> y \<le> y' \<Longrightarrow> dplus rnd x y \<le> dplus rnd x' y'"
  by (simp add: dplus_def rnd_mono)

lemma dplus_fixed [simp]: "rnd (dplus rnd x y) = dplus rnd x y"
  by (simp add: dplus_def)

lemma dminus_fixed [simp]: "rnd (dminus rnd x y) = dminus rnd x y"
  by (simp add: dminus_def)

lemma dtimes_fixed [simp]: "rnd (dtimes rnd x y) = dtimes rnd x y"
  by (simp add: dtimes_def)

end

text \<open>
  The precision: a number of at most twenty significant digits is not changed by rounding. Amounts
  of one market live on a grid, the multiples of \<open>10 ^ -k\<close>; sums and differences on the grid
  stay on it and are exact as long as they fit twenty digits.
\<close>

definition onGrid :: "nat \<Rightarrow> rat \<Rightarrow> bool" where
  "onGrid k x \<longleftrightarrow> of_int \<lfloor>x * 10 ^ k\<rfloor> = x * 10 ^ k"

definition fitsGrid :: "nat \<Rightarrow> rat \<Rightarrow> bool" where
  "fitsGrid k x \<longleftrightarrow> onGrid k x \<and> \<bar>x\<bar> * 10 ^ k \<le> 10 ^ 20"

lemma onGrid_iff: "onGrid k x \<longleftrightarrow> (\<exists>n. x * 10 ^ k = of_int n)"
  by (auto simp: onGrid_def)

lemma onGrid_0 [simp]: "onGrid k 0"
  by (simp add: onGrid_def)

lemma onGrid_plus: "onGrid k x \<Longrightarrow> onGrid k y \<Longrightarrow> onGrid k (x + y)"
  unfolding onGrid_iff by (metis distrib_right of_int_add)

lemma onGrid_minus: "onGrid k x \<Longrightarrow> onGrid k y \<Longrightarrow> onGrid k (x - y)"
  unfolding onGrid_iff by (metis left_diff_distrib of_int_diff)

lemma onGrid_min: "onGrid k x \<Longrightarrow> onGrid k y \<Longrightarrow> onGrid k (min x y)"
  by (simp add: min_def)

lemma fitsGrid_le:
  assumes "fitsGrid k b" and "onGrid k x" and "0 \<le> x" and "x \<le> b"
  shows "fitsGrid k x"
proof -
  have "\<bar>x\<bar> * 10 ^ k \<le> \<bar>b\<bar> * 10 ^ k" using assms(3,4) by (intro mult_right_mono) simp_all
  also have "\<dots> \<le> 10 ^ 20" using assms(1) by (simp add: fitsGrid_def)
  finally show ?thesis using assms(2) by (simp add: fitsGrid_def)
qed

locale decimal_js = decimal_rounding +
  assumes rnd_exact: "\<bar>n\<bar> \<le> 10 ^ 20 \<Longrightarrow> rnd (of_int n * 10 powi k) = of_int n * 10 powi k"
begin

lemma rnd_fits: "fitsGrid k x \<Longrightarrow> rnd x = x"
proof -
  assume fits: "fitsGrid k x"
  then obtain n where n: "x * 10 ^ k = of_int n" by (auto simp: fitsGrid_def onGrid_iff)
  have "\<bar>x * 10 ^ k\<bar> \<le> 10 ^ 20" using fits by (simp add: fitsGrid_def abs_mult)
  then have "\<bar>n\<bar> \<le> 10 ^ 20" unfolding n
    by (metis of_int_abs of_int_le_iff of_int_numeral of_int_power)
  moreover have "x = of_int n * 10 powi (- int k)"
    using n by (simp add: power_int_minus field_simps)
  ultimately show "rnd x = x" using rnd_exact [of n "- int k"] by simp
qed

lemma rnd_10000 [simp]: "rnd 10000 = 10000"
  using rnd_fits [of 0 10000] by (simp add: fitsGrid_def onGrid_def)

end

section \<open>The default rounding: 20 significant digits, half up\<close>

text \<open>
  The decimal exponent of a positive number: the \<open>e\<close> with \<open>10 ^ e \<le> r < 10 ^ (e + 1)\<close>, found by
  repeated division or multiplication by ten.
\<close>

function exp_up :: "rat \<Rightarrow> nat" where
  "exp_up r = (if 10 \<le> r then Suc (exp_up (r / 10)) else 0)"
  by pat_completeness auto

lemma floor_tenth:
  assumes "(1 :: rat) \<le> x"
  shows "nat \<lfloor>x / 10\<rfloor> < nat \<lfloor>x\<rfloor>"
proof -
  have f: "1 \<le> \<lfloor>x\<rfloor>" using assms by (simp add: le_floor_iff)
  have "x < of_int \<lfloor>x\<rfloor> + 1" by linarith
  moreover have "(1 :: rat) \<le> of_int \<lfloor>x\<rfloor>" using f by (metis of_int_1_le_iff)
  ultimately have "x / 10 < of_int \<lfloor>x\<rfloor>" by linarith
  then have "\<lfloor>x / 10\<rfloor> < \<lfloor>x\<rfloor>" by (simp add: floor_less_iff)
  then show ?thesis using f by linarith
qed

termination exp_up
  by (relation "measure (\<lambda>r. nat \<lfloor>r\<rfloor>)") (auto intro!: floor_tenth simp del: nat_less_eq_zless zless_nat_conj)

function exp_down :: "rat \<Rightarrow> nat" where
  "exp_down r = (if 0 < r \<and> r < 1 then Suc (exp_down (r * 10)) else 0)"
  by pat_completeness auto

lemma floor_inverse_tenth:
  assumes "0 < (r :: rat)" and "r < 1"
  shows "nat \<lfloor>inverse (r * 10)\<rfloor> < nat \<lfloor>inverse r\<rfloor>"
proof -
  have "1 \<le> inverse r" using assms by (simp add: one_le_inverse_iff)
  moreover have "inverse (r * 10) = inverse r / 10" by (simp add: field_simps)
  ultimately show ?thesis using floor_tenth [of "inverse r"] by simp
qed

termination exp_down
  by (relation "measure (\<lambda>r. nat \<lfloor>inverse r\<rfloor>)")
    (auto intro!: floor_inverse_tenth simp del: inverse_mult_distrib nat_less_eq_zless zless_nat_conj)

declare exp_up.simps [simp del] exp_down.simps [simp del]

definition decimalExponent :: "rat \<Rightarrow> int" where
  "decimalExponent r = (if 1 \<le> r then int (exp_up r) else - int (exp_down r))"

definition decimalUnit :: "rat \<Rightarrow> rat" where
  "decimalUnit r = 10 powi (decimalExponent r - 19)"

definition roundPositive :: "rat \<Rightarrow> rat" where
  "roundPositive r = of_int \<lfloor>r / decimalUnit r + 1 / 2\<rfloor> * decimalUnit r"

definition decimalRound :: rounding where
  "decimalRound r =
     (if r = 0 then 0 else if 0 < r then roundPositive r else - roundPositive (- r))"

lemma exp_up_bounds:
  "1 \<le> r \<Longrightarrow> 10 ^ exp_up r \<le> r \<and> r < 10 ^ Suc (exp_up r)"
proof (induction r rule: exp_up.induct)
  case (1 r)
  show ?case
  proof (cases "10 \<le> r")
    case True
    then have "10 ^ exp_up (r / 10) \<le> r / 10 \<and> r / 10 < 10 ^ Suc (exp_up (r / 10))"
      using 1 by simp
    then show ?thesis using True by (simp add: exp_up.simps [of r] field_simps)
  next
    case False
    then show ?thesis using 1 by (simp add: exp_up.simps [of r])
  qed
qed

lemma exp_down_bounds:
  "0 < r \<Longrightarrow> r < 1 \<Longrightarrow> 1 \<le> r * 10 ^ exp_down r \<and> r * 10 ^ exp_down r < 10"
proof (induction r rule: exp_down.induct)
  case (1 r)
  show ?case
  proof (cases "r * 10 < 1")
    case True
    then have "1 \<le> r * 10 * 10 ^ exp_down (r * 10) \<and> r * 10 * 10 ^ exp_down (r * 10) < 10"
      using 1 by simp
    then show ?thesis using 1 by (simp add: exp_down.simps [of r] mult.assoc)
  next
    case False
    then have "exp_down (r * 10) = 0" by (simp add: exp_down.simps [of "r * 10"])
    then show ?thesis using 1 False by (simp add: exp_down.simps [of r])
  qed
qed

lemma decimalExponent_bounds:
  assumes "0 < r"
  shows "10 powi decimalExponent r \<le> r" and "r < 10 powi (decimalExponent r + 1)"
proof -
  have "10 powi decimalExponent r \<le> r \<and> r < 10 powi (decimalExponent r + 1)"
  proof (cases "1 \<le> r")
    case True
    then have "decimalExponent r + 1 = int (Suc (exp_up r))" by (simp add: decimalExponent_def)
    then show ?thesis using True exp_up_bounds [OF True]
      by (simp only: power_int_of_nat) (simp add: decimalExponent_def)
  next
    case False
    then have b: "1 \<le> r * 10 ^ exp_down r \<and> r * 10 ^ exp_down r < 10"
      using assms exp_down_bounds by simp
    define p :: rat where "p = 10 ^ exp_down r"
    have p: "0 < p" "10 powi (- int (exp_down r)) = 1 / p"
      by (simp_all add: p_def power_int_minus divide_inverse)
    have "10 powi (- int (exp_down r) + 1) = 10 / p"
      using p power_int_add_1 [of "10 :: rat" "- int (exp_down r)"] by simp
    moreover have "1 / p \<le> r" and "r < 10 / p"
      using b p(1) by (simp_all add: p_def [symmetric] field_simps)
    moreover have "decimalExponent r = - int (exp_down r)"
      using False by (simp add: decimalExponent_def)
    ultimately show ?thesis using p(2) by simp
  qed
  then show "10 powi decimalExponent r \<le> r" and "r < 10 powi (decimalExponent r + 1)" by auto
qed

lemma decimalUnit_pos: "0 < decimalUnit r"
  by (simp add: decimalUnit_def)

lemma decimalUnit_scale:
  "10 ^ 19 * decimalUnit r = 10 powi decimalExponent r"
  "10 ^ 20 * decimalUnit r = 10 powi (decimalExponent r + 1)"
proof -
  have "(10 :: rat) powi 19 * 10 powi (decimalExponent r - 19) = 10 powi decimalExponent r"
    by (subst power_int_add [symmetric]) simp_all
  then show "10 ^ 19 * decimalUnit r = 10 powi decimalExponent r"
    by (simp add: decimalUnit_def)
  have "(10 :: rat) powi 20 * 10 powi (decimalExponent r - 19) = 10 powi (decimalExponent r + 1)"
    by (subst power_int_add [symmetric]) (simp_all add: add.commute)
  then show "10 ^ 20 * decimalUnit r = 10 powi (decimalExponent r + 1)"
    by (simp add: decimalUnit_def)
qed

text \<open>The rounded significand stays between \<open>10 ^ 19\<close> and \<open>10 ^ 20\<close>.\<close>

lemma significand_bounds:
  assumes "0 < r"
  shows "10 ^ 19 \<le> \<lfloor>r / decimalUnit r + 1 / 2\<rfloor>" and "\<lfloor>r / decimalUnit r + 1 / 2\<rfloor> \<le> 10 ^ 20"
proof -
  have "10 ^ 19 * decimalUnit r \<le> r" and "r < 10 ^ 20 * decimalUnit r"
    using decimalExponent_bounds [OF assms] unfolding decimalUnit_scale by simp_all
  then have "10 ^ 19 \<le> r / decimalUnit r" and "r / decimalUnit r < 10 ^ 20"
    using decimalUnit_pos [of r] by (simp_all only: pos_le_divide_eq pos_divide_less_eq)
  then show "10 ^ 19 \<le> \<lfloor>r / decimalUnit r + 1 / 2\<rfloor>" and "\<lfloor>r / decimalUnit r + 1 / 2\<rfloor> \<le> 10 ^ 20"
    by (simp_all add: le_floor_iff floor_le_iff)
qed

lemma roundPositive_bounds:
  assumes "0 < r"
  shows "10 powi decimalExponent r \<le> roundPositive r"
    and "roundPositive r \<le> 10 powi (decimalExponent r + 1)"
proof -
  note b = significand_bounds [OF assms]
  have "(10 ^ 19 :: rat) \<le> of_int \<lfloor>r / decimalUnit r + 1 / 2\<rfloor>" using b(1) by (metis of_int_le_iff of_int_numeral of_int_power)
  then show "10 powi decimalExponent r \<le> roundPositive r"
    using decimalUnit_pos [of r]
    by (simp add: roundPositive_def decimalUnit_scale [symmetric] mult_right_mono)
  have "of_int \<lfloor>r / decimalUnit r + 1 / 2\<rfloor> \<le> (10 ^ 20 :: rat)" using b(2) by (metis of_int_le_iff of_int_numeral of_int_power)
  then show "roundPositive r \<le> 10 powi (decimalExponent r + 1)"
    using decimalUnit_pos [of r]
    by (simp add: roundPositive_def decimalUnit_scale [symmetric] mult_right_mono)
qed

lemma roundPositive_pos: "0 < r \<Longrightarrow> 0 < roundPositive r"
  using roundPositive_bounds(1) [of r] by (rule less_le_trans [rotated]) simp_all

lemma decimalExponent_mono:
  assumes "0 < x" and "x \<le> y"
  shows "decimalExponent x \<le> decimalExponent y"
proof (rule ccontr)
  assume "\<not> decimalExponent x \<le> decimalExponent y"
  then have "decimalExponent y + 1 \<le> decimalExponent x" by simp
  then have "(10 :: rat) powi (decimalExponent y + 1) \<le> 10 powi decimalExponent x"
    by (simp add: power_int_increasing)
  then show False
    using decimalExponent_bounds(1) [of x] decimalExponent_bounds(2) [of y] assms by linarith
qed

lemma roundPositive_mono:
  assumes "0 < x" and "x \<le> y"
  shows "roundPositive x \<le> roundPositive y"
proof (cases "decimalExponent x = decimalExponent y")
  case True
  then have u: "decimalUnit x = decimalUnit y" by (simp add: decimalUnit_def)
  have "x / decimalUnit y \<le> y / decimalUnit y"
    using assms decimalUnit_pos [of y] by (simp add: divide_right_mono)
  then show ?thesis
    using decimalUnit_pos [of y] by (simp add: roundPositive_def u floor_mono)
next
  case False
  then have "decimalExponent x + 1 \<le> decimalExponent y"
    using decimalExponent_mono [OF assms] by simp
  then have "(10 :: rat) powi (decimalExponent x + 1) \<le> 10 powi decimalExponent y"
    by (simp add: power_int_increasing)
  then show ?thesis
    using roundPositive_bounds(2) [of x] roundPositive_bounds(1) [of y] assms by linarith
qed

lemma decimalRound_mono: "x \<le> y \<Longrightarrow> decimalRound x \<le> decimalRound y"
  using roundPositive_mono [of x y] roundPositive_mono [of "- y" "- x"]
    roundPositive_pos [of y] roundPositive_pos [of "- x"]
  by (auto simp: decimalRound_def not_less)

text \<open>A number with at most twenty significant digits is not changed.\<close>

lemma roundPositive_multiple:
  assumes "x = of_int m * decimalUnit x"
  shows "roundPositive x = x"
proof -
  have "x / decimalUnit x = of_int m"
    using assms decimalUnit_pos [of x] by (simp add: field_simps)
  then have "\<lfloor>x / decimalUnit x + 1 / 2\<rfloor> = m" by (simp add: floor_eq_iff)
  then show ?thesis using assms by (simp add: roundPositive_def)
qed

lemma roundPositive_exact:
  assumes x: "x = of_int n * 10 powi k" and n: "0 < n" "n \<le> 10 ^ 20"
  shows "roundPositive x = x"
proof (cases "decimalExponent x - 19 \<le> k")
  case True
  define d where "d = nat (k - (decimalExponent x - 19))"
  have "(10 :: rat) powi k = 10 ^ d * decimalUnit x"
    using True unfolding decimalUnit_def d_def power_int_of_nat [symmetric]
    by (subst power_int_add [symmetric]) simp_all
  then have "x = of_int (n * 10 ^ d) * decimalUnit x" by (simp add: x mult.assoc)
  then show ?thesis by (rule roundPositive_multiple)
next
  case False
  have pos: "0 < x" using n by (simp add: x)
  have "of_int n \<le> (10 ^ 20 :: rat)" using n(2) by (metis of_int_le_iff of_int_numeral of_int_power)
  then have le: "x \<le> 10 powi (k + 20)"
    unfolding x by (simp add: power_int_add mult.commute mult_left_mono)
  have "(10 :: rat) powi (k + 20) \<le> 10 powi decimalExponent x"
    using False by (intro power_int_increasing) simp_all
  then have "x = 10 powi decimalExponent x"
    using le decimalExponent_bounds(1) [OF pos] by linarith
  then have "x = of_int (10 ^ 19) * decimalUnit x"
    using decimalUnit_scale(1) [of x] by simp
  then show ?thesis by (rule roundPositive_multiple)
qed

lemma decimalRound_exact:
  assumes "x = of_int n * 10 powi k" and "\<bar>n\<bar> \<le> 10 ^ 20"
  shows "decimalRound x = x"
proof -
  have "roundPositive x = x" if "0 < n"
    using roundPositive_exact [OF assms(1) that] assms(2) that by simp
  moreover have "roundPositive (- x) = - x" if "n < 0"
    using roundPositive_exact [of "- x" "- n" k] assms that by simp
  moreover obtain p :: rat where "x = of_int n * p" and "0 < p"
    using assms(1) by (rule that) simp
  then have "x = 0 \<longleftrightarrow> n = 0" and "0 < x \<longleftrightarrow> 0 < n"
    by (auto simp: zero_less_mult_iff)
  ultimately show ?thesis by (auto simp: decimalRound_def linorder_neq_iff)
qed

lemma roundPositive_idem: "0 < r \<Longrightarrow> roundPositive (roundPositive r) = roundPositive r"
  using significand_bounds [of r]
  by (intro roundPositive_exact [where n = "\<lfloor>r / decimalUnit r + 1 / 2\<rfloor>"
        and k = "decimalExponent r - 19"])
    (simp_all add: roundPositive_def decimalUnit_def)

interpretation default: decimal_js decimalRound
proof unfold_locales
  show "decimalRound 0 = 0" by (simp add: decimalRound_def)
  show "decimalRound (- x) = - decimalRound x" for x by (simp add: decimalRound_def)
  show "x \<le> y \<Longrightarrow> decimalRound x \<le> decimalRound y" for x y by (rule decimalRound_mono)
  show "decimalRound (decimalRound x) = decimalRound x" for x
    using roundPositive_pos [of x] roundPositive_pos [of "- x"]
      roundPositive_idem [of x] roundPositive_idem [of "- x"]
    by (auto simp: decimalRound_def)
  show "\<bar>n\<bar> \<le> 10 ^ 20 \<Longrightarrow> decimalRound (of_int n * 10 powi k) = of_int n * 10 powi k" for n k
    by (rule decimalRound_exact [OF refl])
qed

text \<open>Exact arithmetic satisfies the laws too: it is the instance the worked examples compute with.\<close>

definition exactRound :: rounding where
  "exactRound r = r"

interpretation exact: decimal_js exactRound
  by unfold_locales (simp_all add: exactRound_def)

end
