(* ===== verification/Orders.thy ===== *)
theory Orders
  imports Lifecycle Decimal_Js
begin

text \<open>
  The order data of \<^verbatim>\<open>src/src/domain/orders.ts\<close> and the order book of \<^verbatim>\<open>domain/market.ts\<close>: intents,
  submissions, balances and order books. The common fields of the two intent types are one record;
  what only a limit intent has (price, post-only flag, time in force) is its \<open>oi_terms\<close>.
\<close>

datatype order_side = BUY | SELL
datatype order_type = LIMIT | MARKET
datatype time_in_force = GTC | IOC | FOK | POST_ONLY

datatype order_terms =
    LimitTerms numeric "bool option" "time_in_force option"
  | MarketTerms

record order_intent =
  oi_exchangeId :: string
  oi_market :: string
  oi_strategyId :: string
  oi_side :: order_side
  oi_requestedQuantity :: numeric
  oi_requestedNotional :: numeric
  oi_idempotencyKey :: string
  oi_reason :: string
  oi_metadata :: "json_record option"
  oi_terms :: order_terms

fun orderTypeOf :: "order_terms \<Rightarrow> order_type" where
  "orderTypeOf (LimitTerms p po tif) = LIMIT"
| "orderTypeOf MarketTerms = MARKET"

abbreviation oi_orderType :: "order_intent \<Rightarrow> order_type" where
  "oi_orderType i \<equiv> orderTypeOf (oi_terms i)"

fun sideName :: "order_side \<Rightarrow> string" where
  "sideName BUY = ''BUY''"
| "sideName SELL = ''SELL''"

fun orderTypeName :: "order_type \<Rightarrow> string" where
  "orderTypeName LIMIT = ''LIMIT''"
| "orderTypeName MARKET = ''MARKET''"

fun timeInForceName :: "time_in_force \<Rightarrow> string" where
  "timeInForceName GTC = ''GTC''"
| "timeInForceName IOC = ''IOC''"
| "timeInForceName FOK = ''FOK''"
| "timeInForceName POST_ONLY = ''POST_ONLY''"

text \<open>The evidence attached to a submission is JSON that the execution engine checks at run time.\<close>

record order_submission =
  os_intent :: order_intent
  os_costSnapshot :: json
  os_riskApproval :: json
  os_expectedLossBpsOfEquity :: "numeric option"
  os_submittedAt :: timestamp

record orderbook_level =
  lv_price :: numeric
  lv_size :: numeric

record orderbook =
  ob_exchangeId :: string
  ob_market :: string
  ob_asks :: "orderbook_level list"
  ob_bids :: "orderbook_level list"
  ob_receivedAt :: timestamp

record broker_balance =
  bb_currency :: string
  bb_available :: rat
  bb_locked :: rat
  bb_total :: rat
  bb_updatedAt :: timestamp
  bb_metadata :: "json_record option"

lemma sideName_inject [simp]: "sideName a = sideName b \<longleftrightarrow> a = b"
  by (cases a; cases b) simp_all

lemma orderTypeName_inject [simp]: "orderTypeName a = orderTypeName b \<longleftrightarrow> a = b"
  by (cases a; cases b) simp_all

lemma timeInForceName_inject [simp]: "timeInForceName a = timeInForceName b \<longleftrightarrow> a = b"
  by (cases a; cases b) simp_all

end
