(* ===== verification/Paper_Fill.thy ===== *)
theory Paper_Fill
  imports Orders "HOL-Library.Multiset"
begin

text \<open>
  The order book fill simulator, \<^verbatim>\<open>src/src/application/execution/paper-fill-simulator.ts\<close>. Amounts
  the simulator prints with \<^verbatim>\<open>toFixed()\<close> are kept as their values; amounts it reads are numeric
  texts, and a text that is no decimal makes it throw. The lemmas describe the walk over the book
  levels; the properties at the end describe whole simulations.
\<close>

section \<open>Types\<close>

datatype post_only_taker_policy = PO_REJECT | PO_PENDING

datatype fill_status =
    FS_FILLED | FS_PARTIALLY_FILLED | FS_UNFILLED | FS_POST_ONLY_REJECTED | FS_POST_ONLY_PENDING
  | FS_IOC_CANCELED | FS_FOK_CANCELED | FS_REJECTED

datatype fill_reason =
    limit_crossed_full | limit_crossed_partial | limit_not_crossed
  | post_only_would_take_rejected | post_only_would_take_pending | ioc_filled_and_canceled
  | ioc_unfilled_canceled | fok_not_filled | market_order_simulation_disabled
  | latency_snapshot_missing | orderbook_snapshot_missing | orderbook_intent_mismatch

record fill_options =
  fo_submittedAt :: "timestamp option"
  fo_latencyMs :: "js_number option"
  fo_postOnlyTakerPolicy :: "post_only_taker_policy option"
  fo_defaultTimeInForce :: "time_in_force option"
  fo_takerFeeBps :: "numeric option"

record paper_fill =
  pf_price :: rat
  pf_quantity :: rat
  pf_notional :: rat
  pf_fee :: rat

record fill_result =
  fr_status :: fill_status
  fr_orderStatus :: order_status
  fr_reasonCode :: fill_reason
  fr_requestedQuantity :: rat
  fr_filledQuantity :: rat
  fr_openQuantity :: rat
  fr_canceledQuantity :: rat
  fr_averageFillPrice :: "rat option"
  fr_totalFillNotional :: "rat option"
  fr_totalFee :: "rat option"
  fr_slippageBps :: "numeric option"
  fr_fills :: "paper_fill list"
  fr_orderbookReceivedAt :: "timestamp option"
  fr_metadata :: "json_record option"

record depth_result =
  dr_fills :: "paper_fill list"
  dr_filledQuantity :: rat
  dr_totalFillNotional :: rat
  dr_totalFee :: rat
  dr_averageFillPrice :: "rat option"
  dr_slippageBps :: "numeric option"

section \<open>Choice of the order book snapshot\<close>

fun latencyMsToNanos :: "js_number \<Rightarrow> int result" where
  "latencyMsToNanos (JsFinite ms) = Inr \<lfloor>max ms 0 * 1000000\<rfloor>"
| "latencyMsToNanos JsNegInfinity = Inr 0"
| "latencyMsToNanos JsInfinity = Inl (Failure ''Invalid latencyMs'')"
| "latencyMsToNanos JsNaN = Inl (Failure ''Invalid latencyMs'')"

fun findSnapshot :: "int \<Rightarrow> orderbook list \<Rightarrow> orderbook option result" where
  "findSnapshot executionTimestamp [] = Inr None"
| "findSnapshot executionTimestamp (b # bs) =
     bindR (readTimestampNanos (ob_receivedAt b)) (\<lambda>n.
       if executionTimestamp \<le> n then Inr (Some b) else findSnapshot executionTimestamp bs)"

definition selectExecutionOrderbook ::
  "orderbook list \<Rightarrow> fill_options \<Rightarrow> orderbook option result" where
  "selectExecutionOrderbook snapshots options =
     (case snapshots of
        [] \<Rightarrow> Inr None
      | first # _ \<Rightarrow>
          (case fo_submittedAt options of
             None \<Rightarrow> Inr (Some first)
           | Some submittedAt \<Rightarrow>
               bindR (latencyMsToNanos (case fo_latencyMs options of None \<Rightarrow> JsFinite 0 | Some l \<Rightarrow> l))
                 (\<lambda>latencyNanos. bindR (readTimestampNanos submittedAt)
                   (\<lambda>n. findSnapshot (n + latencyNanos) snapshots))))"

section \<open>Book levels in execution order\<close>

text \<open>
  The comparator parses both prices, so a sort of two or more levels throws if one price is no
  decimal; a sort of fewer levels calls no comparator. \<open>Array.prototype.sort\<close> is stable, as
  \<open>sort_key\<close> is.
\<close>

definition levelPrice :: "orderbook_level \<Rightarrow> rat" where
  "levelPrice l = (case parseFinancialDecimal (lv_price l) of Inl e \<Rightarrow> 0 | Inr r \<Rightarrow> r)"

definition sortLevels :: "(rat \<Rightarrow> rat) \<Rightarrow> orderbook_level list \<Rightarrow> orderbook_level list result" where
  "sortLevels key levels =
     (if length levels \<le> 1 then Inr levels
      else bindR (mapR (\<lambda>l. parseFinancialDecimal (lv_price l)) levels)
             (\<lambda>_. Inr (sort_key (\<lambda>l. key (levelPrice l)) levels)))"

definition sortAsks :: "orderbook_level list \<Rightarrow> orderbook_level list result" where
  "sortAsks levels = sortLevels (\<lambda>p. p) levels"

definition sortBids :: "orderbook_level list \<Rightarrow> orderbook_level list result" where
  "sortBids levels = sortLevels (\<lambda>p. - p) levels"

definition executableAt :: "order_side \<Rightarrow> rat \<Rightarrow> rat \<Rightarrow> bool" where
  "executableAt side limitPrice p = (case side of BUY \<Rightarrow> p \<le> limitPrice | SELL \<Rightarrow> limitPrice \<le> p)"

definition executionLevels :: "order_side \<Rightarrow> orderbook \<Rightarrow> orderbook_level list result" where
  "executionLevels side book =
     (case side of BUY \<Rightarrow> sortAsks (ob_asks book) | SELL \<Rightarrow> sortBids (ob_bids book))"

definition isLimitOrderImmediatelyExecutable ::
  "order_side \<Rightarrow> numeric \<Rightarrow> orderbook \<Rightarrow> bool result" where
  "isLimitOrderImmediatelyExecutable side price book =
     bindR (parseFinancialDecimal price) (\<lambda>limitPrice.
       bindR (executionLevels side book) (\<lambda>levels.
         case levels of
           [] \<Rightarrow> Inr False
         | best # _ \<Rightarrow> bindR (parseFinancialDecimal (lv_price best))
             (\<lambda>p. Inr (executableAt side limitPrice p))))"

section \<open>Walking the levels\<close>

record walk =
  w_remaining :: rat
  w_filled :: rat
  w_notional :: rat
  w_fee :: rat
  w_fills :: "paper_fill list"

definition takeLevel :: "rounding \<Rightarrow> rat \<Rightarrow> rat \<Rightarrow> rat \<Rightarrow> walk \<Rightarrow> walk" where
  "takeLevel rnd feeBps p levelSize w =
     (let fillQuantity = min (w_remaining w) levelSize;
          notional = dtimes rnd fillQuantity p;
          fee = rnd (dtimes rnd notional feeBps / 10000)
      in \<lparr>w_remaining = dminus rnd (w_remaining w) fillQuantity,
          w_filled = dplus rnd (w_filled w) fillQuantity,
          w_notional = dplus rnd (w_notional w) notional,
          w_fee = dplus rnd (w_fee w) fee,
          w_fills = w_fills w @ [\<lparr>pf_price = p, pf_quantity = fillQuantity,
                                  pf_notional = notional, pf_fee = fee\<rparr>]\<rparr>)"

fun walkLevels ::
  "rounding \<Rightarrow> order_side \<Rightarrow> rat \<Rightarrow> rat \<Rightarrow> orderbook_level list \<Rightarrow> walk \<Rightarrow> walk result" where
  "walkLevels rnd side limitPrice feeBps [] w = Inr w"
| "walkLevels rnd side limitPrice feeBps (l # ls) w =
     bindR (parseFinancialDecimal (lv_price l)) (\<lambda>p.
       if \<not> executableAt side limitPrice p \<or> w_remaining w \<le> 0 then Inr w
       else bindR (parseFinancialDecimal (lv_size l)) (\<lambda>levelSize.
         walkLevels rnd side limitPrice feeBps ls (takeLevel rnd feeBps p levelSize w)))"

text \<open>
  The slippage divides by the requested price; for a price of zero decimal.js answers an infinity
  with the sign of the quotient, or not a number.
\<close>

definition nonFiniteQuotient :: "rat \<Rightarrow> bool \<Rightarrow> numeric" where
  "nonFiniteQuotient x negativeZero =
     NonFinite (if x = 0 then ''NaN'' else if (x < 0) = negativeZero then ''Infinity''
                else ''-Infinity'')"

definition calculateSignedSlippageBps ::
  "rounding \<Rightarrow> order_side \<Rightarrow> numeric \<Rightarrow> rat \<Rightarrow> rat \<Rightarrow> numeric" where
  "calculateSignedSlippageBps rnd side priceText requestedPrice averageFillPrice =
     (let priceDiff = (case side of BUY \<Rightarrow> dminus rnd averageFillPrice requestedPrice
                       | SELL \<Rightarrow> dminus rnd requestedPrice averageFillPrice)
      in case ddiv rnd priceDiff requestedPrice of
           None \<Rightarrow> nonFiniteQuotient priceDiff (isNegativeText priceText)
         | Some ratio \<Rightarrow> Num (dtimes rnd ratio 10000))"

definition startWalk :: "rat \<Rightarrow> walk" where
  "startWalk requested =
     \<lparr>w_remaining = requested, w_filled = 0, w_notional = 0, w_fee = 0, w_fills = []\<rparr>"

definition calculateExecutableDepth ::
  "rounding \<Rightarrow> order_intent \<Rightarrow> numeric \<Rightarrow> orderbook \<Rightarrow> fill_options \<Rightarrow> depth_result result" where
  "calculateExecutableDepth rnd intent price book options =
     bindR (parseFinancialDecimal price) (\<lambda>limitPrice.
     bindR (executionLevels (oi_side intent) book) (\<lambda>levels.
     bindR (parseFinancialDecimal (case fo_takerFeeBps options of None \<Rightarrow> Num 0 | Some f \<Rightarrow> f)) (\<lambda>feeBps.
     bindR (parseFinancialDecimal (oi_requestedQuantity intent)) (\<lambda>requested.
     bindR (walkLevels rnd (oi_side intent) limitPrice feeBps levels (startWalk requested)) (\<lambda>w.
       let average = (if 0 < w_filled w then Some (rnd (w_notional w / w_filled w)) else None)
       in Inr \<lparr>dr_fills = w_fills w, dr_filledQuantity = w_filled w,
               dr_totalFillNotional = w_notional w, dr_totalFee = w_fee w,
               dr_averageFillPrice = average,
               dr_slippageBps = map_option
                 (calculateSignedSlippageBps rnd (oi_side intent) price limitPrice) average\<rparr>)))))"

section \<open>Results\<close>

definition createFillResult ::
  "fill_status \<Rightarrow> order_status \<Rightarrow> fill_reason \<Rightarrow> rat \<Rightarrow> depth_result \<Rightarrow> rat \<Rightarrow> rat \<Rightarrow> timestamp
   \<Rightarrow> json_record option \<Rightarrow> fill_result" where
  "createFillResult status orderStatus reasonCode requested depth openQuantity canceledQuantity receivedAt meta =
     \<lparr>fr_status = status, fr_orderStatus = orderStatus, fr_reasonCode = reasonCode,
      fr_requestedQuantity = requested, fr_filledQuantity = dr_filledQuantity depth,
      fr_openQuantity = openQuantity, fr_canceledQuantity = canceledQuantity,
      fr_averageFillPrice = dr_averageFillPrice depth,
      fr_totalFillNotional = Some (dr_totalFillNotional depth),
      fr_totalFee = Some (dr_totalFee depth), fr_slippageBps = dr_slippageBps depth,
      fr_fills = dr_fills depth, fr_orderbookReceivedAt = Some receivedAt, fr_metadata = meta\<rparr>"

definition createNoFillResult ::
  "fill_status \<Rightarrow> order_status \<Rightarrow> fill_reason \<Rightarrow> rat \<Rightarrow> json_record option \<Rightarrow> fill_result" where
  "createNoFillResult status orderStatus reasonCode requested meta =
     (let closesOrder = (orderStatus = CANCELED \<or> orderStatus = REJECTED)
      in \<lparr>fr_status = status, fr_orderStatus = orderStatus, fr_reasonCode = reasonCode,
          fr_requestedQuantity = requested, fr_filledQuantity = 0,
          fr_openQuantity = (if closesOrder then 0 else requested),
          fr_canceledQuantity = (if closesOrder then requested else 0),
          fr_averageFillPrice = None, fr_totalFillNotional = None, fr_totalFee = None,
          fr_slippageBps = None, fr_fills = [], fr_orderbookReceivedAt = None,
          fr_metadata = meta\<rparr>)"

definition receivedAtMetadata :: "orderbook \<Rightarrow> json_record" where
  "receivedAtMetadata book = [(''orderbook_received_at'', JTime (ob_receivedAt book))]"

definition simulatePostOnlyTakerRisk :: "fill_options \<Rightarrow> rat \<Rightarrow> orderbook \<Rightarrow> fill_result" where
  "simulatePostOnlyTakerRisk options requested book =
     (case fo_postOnlyTakerPolicy options of
        Some PO_PENDING \<Rightarrow> createNoFillResult FS_POST_ONLY_PENDING ACCEPTED
          post_only_would_take_pending requested (Some (receivedAtMetadata book))
      | _ \<Rightarrow> createNoFillResult FS_POST_ONLY_REJECTED REJECTED
          post_only_would_take_rejected requested (Some (receivedAtMetadata book)))"

definition settleDepth ::
  "rounding \<Rightarrow> time_in_force \<Rightarrow> rat \<Rightarrow> rat \<Rightarrow> orderbook \<Rightarrow> depth_result \<Rightarrow> fill_result" where
  "settleDepth rnd tif requested price book depth =
     (let openQuantity = dminus rnd requested (dr_filledQuantity depth);
          hasFill = (0 < dr_filledQuantity depth);
          fullFill = (openQuantity = 0);
          meta = Some [(''requested_price'', JNum (Num price))]
      in if tif = FOK \<and> \<not> fullFill then
           createNoFillResult FS_FOK_CANCELED CANCELED fok_not_filled requested
             (Some (receivedAtMetadata book))
         else if tif = IOC \<and> \<not> fullFill then
           (if \<not> hasFill then
              createNoFillResult FS_IOC_CANCELED CANCELED ioc_unfilled_canceled requested
                (Some (receivedAtMetadata book))
            else createFillResult FS_IOC_CANCELED CANCELED ioc_filled_and_canceled requested depth
                   0 openQuantity (ob_receivedAt book) meta)
         else if \<not> hasFill then
           createNoFillResult FS_UNFILLED ACCEPTED limit_not_crossed requested
             (Some (receivedAtMetadata book @ [(''requested_price'', JNum (Num price))]))
         else if fullFill then
           createFillResult FS_FILLED FILLED limit_crossed_full requested depth 0 0
             (ob_receivedAt book) meta
         else createFillResult FS_PARTIALLY_FILLED PARTIALLY_FILLED limit_crossed_partial requested
                depth openQuantity 0 (ob_receivedAt book) meta)"

definition mismatchMetadata :: "orderbook \<Rightarrow> order_intent \<Rightarrow> json_record" where
  "mismatchMetadata book intent =
     [(''orderbook_exchange_id'', JStr (ob_exchangeId book)),
      (''orderbook_market'', JStr (ob_market book)),
      (''intent_exchange_id'', JStr (oi_exchangeId intent)),
      (''intent_market'', JStr (oi_market intent))]"

definition effectiveTimeInForce :: "time_in_force option \<Rightarrow> fill_options \<Rightarrow> time_in_force" where
  "effectiveTimeInForce tif options =
     (case tif of Some t \<Rightarrow> t
      | None \<Rightarrow> (case fo_defaultTimeInForce options of Some t \<Rightarrow> t | None \<Rightarrow> GTC))"

definition simulateLimitOrder ::
  "rounding \<Rightarrow> order_intent \<Rightarrow> numeric \<Rightarrow> bool option \<Rightarrow> time_in_force option \<Rightarrow> orderbook
   \<Rightarrow> fill_options \<Rightarrow> rat \<Rightarrow> fill_result result" where
  "simulateLimitOrder rnd intent price postOnly tif book options requested =
     (let timeInForce = effectiveTimeInForce tif options
      in bindR (parseFinancialDecimal price) (\<lambda>requestedPrice.
         bindR (isLimitOrderImmediatelyExecutable (oi_side intent) price book) (\<lambda>wouldTake.
           if (postOnly = Some True \<or> timeInForce = POST_ONLY) \<and> wouldTake
           then Inr (simulatePostOnlyTakerRisk options requested book)
           else bindR (calculateExecutableDepth rnd intent price book options) (\<lambda>depth.
             Inr (settleDepth rnd timeInForce requested requestedPrice book depth)))))"

definition simulatePaperFill ::
  "rounding \<Rightarrow> order_intent \<Rightarrow> orderbook list \<Rightarrow> fill_options \<Rightarrow> fill_result result" where
  "simulatePaperFill rnd intent orderbooks options =
     bindR (parseFinancialDecimal (oi_requestedQuantity intent)) (\<lambda>requested.
     bindR (selectExecutionOrderbook orderbooks options) (\<lambda>selected.
       case oi_terms intent of
         MarketTerms \<Rightarrow>
           Inr (createNoFillResult FS_REJECTED REJECTED market_order_simulation_disabled requested
             (Some [(''order_type'', JStr ''MARKET'')]))
       | LimitTerms price postOnly tif \<Rightarrow>
           (case selected of
              None \<Rightarrow> Inr (createNoFillResult FS_UNFILLED ACCEPTED latency_snapshot_missing requested None)
            | Some book \<Rightarrow>
                if ob_exchangeId book \<noteq> oi_exchangeId intent \<or> ob_market book \<noteq> oi_market intent then
                  Inr (createNoFillResult FS_REJECTED REJECTED orderbook_intent_mismatch requested
                    (Some (mismatchMetadata book intent)))
                else if ob_asks book = [] \<and> ob_bids book = [] then
                  Inr (createNoFillResult FS_UNFILLED ACCEPTED orderbook_snapshot_missing requested
                    (Some (receivedAtMetadata book)))
                else simulateLimitOrder rnd intent price postOnly tif book options requested)))"

section \<open>Lemmas: the walk\<close>

lemma findSnapshot_in: "findSnapshot t bs = Inr (Some b) \<Longrightarrow> b \<in> set bs"
  by (induction bs) (auto simp: bindR_Inr_iff split: if_splits)

lemma selectExecutionOrderbook_in:
  "selectExecutionOrderbook bs options = Inr (Some b) \<Longrightarrow> b \<in> set bs"
  by (auto simp: selectExecutionOrderbook_def bindR_Inr_iff simp del: findSnapshot.simps
      dest: findSnapshot_in split: list.splits option.splits)

lemma set_sortLevels: "sortLevels key ls = Inr ls' \<Longrightarrow> set ls' = set ls"
  by (auto simp: sortLevels_def bindR_Inr_iff split: if_splits)

lemma mset_sortLevels: "sortLevels key ls = Inr ls' \<Longrightarrow> mset ls' = mset ls"
  by (auto simp: sortLevels_def bindR_Inr_iff split: if_splits)

lemma sorted_sortLevels: "sortLevels key ls = Inr ls' \<Longrightarrow> sorted (map (\<lambda>l. key (levelPrice l)) ls')"
  by (cases "length ls \<le> 1")
    (auto simp: sortLevels_def bindR_Inr_iff le_Suc_eq length_Suc_conv)

definition sideLevels :: "order_side \<Rightarrow> orderbook \<Rightarrow> orderbook_level list" where
  "sideLevels side book = (case side of BUY \<Rightarrow> ob_asks book | SELL \<Rightarrow> ob_bids book)"

definition priceKey :: "order_side \<Rightarrow> rat \<Rightarrow> rat" where
  "priceKey side p = (case side of BUY \<Rightarrow> p | SELL \<Rightarrow> - p)"

lemma executionLevels_eq: "executionLevels side book = sortLevels (priceKey side) (sideLevels side book)"
  by (cases side) (simp_all add: executionLevels_def sortAsks_def sortBids_def sideLevels_def
      priceKey_def [abs_def])

lemma set_executionLevels: "executionLevels side book = Inr ls \<Longrightarrow> set ls = set (sideLevels side book)"
  by (simp add: executionLevels_eq set_sortLevels)

lemma takeLevel_fills [simp]:
  "w_fills (takeLevel rnd feeBps p sz w) =
     w_fills w @ [\<lparr>pf_price = p, pf_quantity = min (w_remaining w) sz,
                   pf_notional = dtimes rnd (min (w_remaining w) sz) p,
                   pf_fee = rnd (dtimes rnd (dtimes rnd (min (w_remaining w) sz) p) feeBps / 10000)\<rparr>]"
  by (simp add: takeLevel_def Let_def)

text \<open>
  A fill comes from a level: its price is the level's, its quantity does not exceed the level's
  size, and its price respects the limit.
\<close>

definition fillFrom :: "order_side \<Rightarrow> rat \<Rightarrow> paper_fill \<Rightarrow> orderbook_level \<Rightarrow> bool" where
  "fillFrom side limitPrice f l \<longleftrightarrow>
     parseFinancialDecimal (lv_price l) = Inr (pf_price f) \<and> executableAt side limitPrice (pf_price f) \<and>
     (case parseFinancialDecimal (lv_size l) of Inl e \<Rightarrow> False | Inr sz \<Rightarrow> pf_quantity f \<le> sz)"

lemma walkLevels_fills:
  assumes "walkLevels rnd side limitPrice feeBps ls w = Inr w'"
  shows "\<exists>fs. w_fills w' = w_fills w @ fs \<and> length fs \<le> length ls \<and>
    list_all2 (fillFrom side limitPrice) fs (take (length fs) ls)"
  using assms
proof (induction ls arbitrary: w)
  case Nil
  then show ?case by simp
next
  case (Cons l ls)
  obtain p where p: "parseFinancialDecimal (lv_price l) = Inr p"
    using Cons.prems by (auto simp: bindR_Inr_iff)
  show ?case
  proof (cases "\<not> executableAt side limitPrice p \<or> w_remaining w \<le> 0")
    case True
    then have "w' = w" using Cons.prems p by simp
    then show ?thesis by simp
  next
    case False
    then obtain sz where sz: "parseFinancialDecimal (lv_size l) = Inr sz"
      and rest: "walkLevels rnd side limitPrice feeBps ls (takeLevel rnd feeBps p sz w) = Inr w'"
      using Cons.prems p by (auto simp: bindR_Inr_iff)
    from Cons.IH [OF rest] obtain fs where
      "w_fills w' = w_fills (takeLevel rnd feeBps p sz w) @ fs" "length fs \<le> length ls"
      "list_all2 (fillFrom side limitPrice) fs (take (length fs) ls)" by blast
    moreover define f where "f = \<lparr>pf_price = p, pf_quantity = min (w_remaining w) sz,
      pf_notional = dtimes rnd (min (w_remaining w) sz) p,
      pf_fee = rnd (dtimes rnd (dtimes rnd (min (w_remaining w) sz) p) feeBps / 10000)\<rparr>"
    moreover have "fillFrom side limitPrice f l" using False p sz by (simp add: fillFrom_def f_def)
    ultimately show ?thesis by (intro exI [where x = "f # fs"]) simp
  qed
qed

text \<open>On the grid, the walk is exact: what remains and what is filled always add up.\<close>

definition sizeOnGrid :: "nat \<Rightarrow> orderbook_level \<Rightarrow> bool" where
  "sizeOnGrid k l = (case parseFinancialDecimal (lv_size l) of Inl e \<Rightarrow> True
                     | Inr sz \<Rightarrow> onGrid k sz \<and> 0 \<le> sz)"

lemma sizeOnGridD:
  "sizeOnGrid k l \<Longrightarrow> parseFinancialDecimal (lv_size l) = Inr sz \<Longrightarrow> onGrid k sz \<and> 0 \<le> sz"
  by (simp add: sizeOnGrid_def)

definition walkExact :: "nat \<Rightarrow> rat \<Rightarrow> walk \<Rightarrow> bool" where
  "walkExact k requested w \<longleftrightarrow>
     onGrid k (w_remaining w) \<and> onGrid k (w_filled w) \<and> 0 \<le> w_remaining w \<and> 0 \<le> w_filled w \<and>
     w_filled w + w_remaining w = requested \<and> sum_list (map pf_quantity (w_fills w)) = w_filled w \<and>
     (\<forall>f \<in> set (w_fills w). 0 \<le> pf_quantity f)"

lemma walkExact_start: "onGrid k q \<Longrightarrow> 0 \<le> q \<Longrightarrow> walkExact k q (startWalk q)"
  by (simp add: walkExact_def startWalk_def)

text \<open>
  On the grid the walk is greedy: it takes every level whole until the order is used up, and it only stops
  before the last level when nothing is left to fill or the next level is beyond the limit.
\<close>

definition wholeLevel :: "paper_fill \<Rightarrow> orderbook_level \<Rightarrow> bool" where
  "wholeLevel f l \<longleftrightarrow> parseFinancialDecimal (lv_size l) = Inr (pf_quantity f)"

lemma executable_downwards:
  "sorted (map (\<lambda>l. priceKey side (levelPrice l)) (l # ls)) \<Longrightarrow> \<not> executableAt side limitPrice (levelPrice l) \<Longrightarrow>
    l' \<in> set (l # ls) \<Longrightarrow> \<not> executableAt side limitPrice (levelPrice l')"
  by (cases side) (fastforce simp: executableAt_def priceKey_def)+

lemma walkLevels_used_up: "w_remaining w \<le> 0 \<Longrightarrow> walkLevels rnd side limitPrice feeBps ls w = Inr w' \<Longrightarrow> w' = w"
  by (cases ls) (auto simp: bindR_Inr_iff)

context decimal_js
begin

lemma takeLevel_exact:
  assumes fits: "fitsGrid k requested" and inv: "walkExact k requested w"
    and sz: "onGrid k sz" "0 \<le> sz"
  shows "walkExact k requested (takeLevel rnd feeBps p sz w)"
proof -
  define q where "q = min (w_remaining w) sz"
  have q: "onGrid k q" "0 \<le> q" "q \<le> w_remaining w"
    using inv sz by (auto simp: q_def walkExact_def onGrid_min)
  have "fitsGrid k (w_remaining w - q)" and "fitsGrid k (w_filled w + q)"
    using inv q by (auto intro!: fitsGrid_le [OF fits] onGrid_minus onGrid_plus simp: walkExact_def)
  then have "dminus rnd (w_remaining w) q = w_remaining w - q"
    and "dplus rnd (w_filled w) q = w_filled w + q"
    by (simp_all add: dminus_def dplus_def rnd_fits)
  then show ?thesis
    using inv q onGrid_minus [of k "w_remaining w" q] onGrid_plus [of k "w_filled w" q]
    by (auto simp: takeLevel_def Let_def q_def [symmetric] walkExact_def)
qed

lemma walkLevels_exact:
  assumes "fitsGrid k requested" and "walkExact k requested w" and "list_all (sizeOnGrid k) ls"
    and "walkLevels rnd side limitPrice feeBps ls w = Inr w'"
  shows "walkExact k requested w'"
  using assms
proof (induction ls arbitrary: w)
  case Nil
  then show ?case by simp
next
  case (Cons l ls)
  then show ?case
    by (auto simp: bindR_Inr_iff dest: sizeOnGridD intro: takeLevel_exact split: if_splits)
qed

lemma walkLevels_greedy:
  assumes "fitsGrid k requested" and "walkExact k requested w" and "list_all (sizeOnGrid k) ls"
    and "walkLevels rnd side limitPrice feeBps ls w = Inr w'" and "sorted (map (\<lambda>l. priceKey side (levelPrice l)) ls)"
  shows "\<exists>fs. w_fills w' = w_fills w @ fs \<and> length fs \<le> length ls \<and>
    (\<forall>i < length fs. fillFrom side limitPrice (fs ! i) (ls ! i) \<and>
       (wholeLevel (fs ! i) (ls ! i) \<or> Suc i = length fs \<and> w_remaining w' = 0)) \<and>
    (w_remaining w' = 0 \<or> (\<forall>l \<in> set (drop (length fs) ls). \<not> executableAt side limitPrice (levelPrice l)))"
  using assms
proof (induction ls arbitrary: w)
  case Nil
  then show ?case by simp
next
  case (Cons l ls)
  obtain p where p: "parseFinancialDecimal (lv_price l) = Inr p" using Cons.prems(4) by (auto simp: bindR_Inr_iff)
  then have level: "levelPrice l = p" by (simp add: levelPrice_def)
  show ?case
  proof (cases "executableAt side limitPrice p \<and> 0 < w_remaining w")
    case False
    then have "w' = w" using Cons.prems(4) p by auto
    moreover have "w_remaining w = 0 \<or> (\<forall>l' \<in> set (l # ls). \<not> executableAt side limitPrice (levelPrice l'))"
      using False Cons.prems(2) executable_downwards [OF Cons.prems(5)] level by (force simp: walkExact_def)
    ultimately show ?thesis by simp
  next
    case True
    then obtain sz where sz: "parseFinancialDecimal (lv_size l) = Inr sz"
      and rest: "walkLevels rnd side limitPrice feeBps ls (takeLevel rnd feeBps p sz w) = Inr w'"
      using Cons.prems(4) p by (auto simp: bindR_Inr_iff)
    define w1 where "w1 = takeLevel rnd feeBps p sz w"
    have size: "onGrid k sz" "0 \<le> sz" using Cons.prems(3) sz by (auto dest: sizeOnGridD)
    have exact: "walkExact k requested w1" unfolding w1_def by (rule takeLevel_exact [OF Cons.prems(1,2) size])
    have left: "w_remaining w1 = w_remaining w - min (w_remaining w) sz"
      using exact Cons.prems(2) by (simp add: w1_def walkExact_def)
    define f where "f = last (w_fills w1)"
    have f: "w_fills w1 = w_fills w @ [f]" "pf_quantity f = min (w_remaining w) sz" "pf_price f = p"
      by (simp_all add: f_def w1_def)
    obtain fs where fs: "w_fills w' = w_fills w1 @ fs" "length fs \<le> length ls"
      "\<forall>i < length fs. fillFrom side limitPrice (fs ! i) (ls ! i) \<and>
         (wholeLevel (fs ! i) (ls ! i) \<or> Suc i = length fs \<and> w_remaining w' = 0)"
      "w_remaining w' = 0 \<or> (\<forall>l \<in> set (drop (length fs) ls). \<not> executableAt side limitPrice (levelPrice l))"
      using Cons.IH [OF Cons.prems(1) exact _ rest [folded w1_def]] Cons.prems(3,5) by auto
    have "wholeLevel f l \<or> fs = [] \<and> w_remaining w' = 0"
    proof (cases "sz \<le> w_remaining w")
      case True
      then show ?thesis by (simp add: wholeLevel_def sz f(2))
    next
      case False
      then have "w' = w1" using walkLevels_used_up [OF _ rest [folded w1_def]] left by simp
      then show ?thesis using fs(1) left False by simp
    qed
    moreover have "fillFrom side limitPrice f l" using True p sz f by (simp add: fillFrom_def)
    ultimately show ?thesis
      using fs f(1) by (intro exI [of _ "f # fs"]) (auto simp: nth_Cons split: nat.split)
  qed
qed

end

section \<open>Lemmas: whole simulations\<close>

lemma createNoFillResult_simps [simp]:
  "fr_fills (createNoFillResult st os rc q m) = []"
  "fr_filledQuantity (createNoFillResult st os rc q m) = 0"
  "fr_requestedQuantity (createNoFillResult st os rc q m) = q"
  "fr_orderStatus (createNoFillResult st os rc q m) = os"
  "fr_status (createNoFillResult st os rc q m) = st"
  "fr_totalFillNotional (createNoFillResult st os rc q m) = None"
  "fr_totalFee (createNoFillResult st os rc q m) = None"
  "fr_openQuantity (createNoFillResult st os rc q m) =
     (if os = CANCELED \<or> os = REJECTED then 0 else q)"
  "fr_canceledQuantity (createNoFillResult st os rc q m) =
     (if os = CANCELED \<or> os = REJECTED then q else 0)"
  by (simp_all add: createNoFillResult_def Let_def)

lemma createFillResult_simps [simp]:
  "fr_fills (createFillResult st os rc q d opn can ts m) = dr_fills d"
  "fr_filledQuantity (createFillResult st os rc q d opn can ts m) = dr_filledQuantity d"
  "fr_requestedQuantity (createFillResult st os rc q d opn can ts m) = q"
  "fr_orderStatus (createFillResult st os rc q d opn can ts m) = os"
  "fr_status (createFillResult st os rc q d opn can ts m) = st"
  "fr_totalFillNotional (createFillResult st os rc q d opn can ts m) = Some (dr_totalFillNotional d)"
  "fr_totalFee (createFillResult st os rc q d opn can ts m) = Some (dr_totalFee d)"
  "fr_openQuantity (createFillResult st os rc q d opn can ts m) = opn"
  "fr_canceledQuantity (createFillResult st os rc q d opn can ts m) = can"
  by (simp_all add: createFillResult_def)

text \<open>
  The two ways a simulation returns: without touching the book, or by settling the depth of one of
  the given order books.
\<close>

lemma simulatePostOnlyTakerRisk_nofill:
  "\<exists>st os rc m. simulatePostOnlyTakerRisk options q book = createNoFillResult st os rc q m \<and>
     os \<in> {ACCEPTED, REJECTED}"
  unfolding simulatePostOnlyTakerRisk_def
  by (cases "fo_postOnlyTakerPolicy options" rule: option.exhaust)
    (auto split: post_only_taker_policy.splits)

lemma simulateLimitOrder_cases:
  assumes "simulateLimitOrder rnd intent price po tif book options q = Inr r"
  obtains (taken) st os rc m where
      "r = createNoFillResult st os rc q m" "os \<in> {ACCEPTED, REJECTED}"
    | (settled) p taker d where
      "parseFinancialDecimal price = Inr p"
      "isLimitOrderImmediatelyExecutable (oi_side intent) price book = Inr taker"
      "\<not> ((po = Some True \<or> effectiveTimeInForce tif options = POST_ONLY) \<and> taker)"
      "calculateExecutableDepth rnd intent price book options = Inr d"
      "r = settleDepth rnd (effectiveTimeInForce tif options) q p book d"
proof -
  obtain p taker where p: "parseFinancialDecimal price = Inr p"
    and taker: "isLimitOrderImmediatelyExecutable (oi_side intent) price book = Inr taker"
    using assms by (auto simp: simulateLimitOrder_def Let_def bindR_Inr_iff)
  show thesis
  proof (cases "(po = Some True \<or> effectiveTimeInForce tif options = POST_ONLY) \<and> taker")
    case True
    then have "r = simulatePostOnlyTakerRisk options q book"
      using assms p taker by (simp add: simulateLimitOrder_def Let_def)
    then show thesis using simulatePostOnlyTakerRisk_nofill taken by metis
  next
    case False
    then obtain d where "calculateExecutableDepth rnd intent price book options = Inr d"
      and "r = settleDepth rnd (effectiveTimeInForce tif options) q p book d"
      using assms p taker by (auto simp: simulateLimitOrder_def Let_def bindR_Inr_iff)
    then show thesis using p taker False by (intro settled)
  qed
qed

lemma simulatePaperFill_cases:
  assumes "simulatePaperFill rnd intent books options = Inr r"
  obtains (nofill) q st os rc m where
      "parseFinancialDecimal (oi_requestedQuantity intent) = Inr q"
      "r = createNoFillResult st os rc q m" "os \<in> {ACCEPTED, REJECTED}"
    | (depth) q book price po tif p taker d where
      "parseFinancialDecimal (oi_requestedQuantity intent) = Inr q"
      "oi_terms intent = LimitTerms price po tif" "book \<in> set books"
      "ob_exchangeId book = oi_exchangeId intent" "ob_market book = oi_market intent"
      "parseFinancialDecimal price = Inr p"
      "isLimitOrderImmediatelyExecutable (oi_side intent) price book = Inr taker"
      "\<not> ((po = Some True \<or> effectiveTimeInForce tif options = POST_ONLY) \<and> taker)"
      "calculateExecutableDepth rnd intent price book options = Inr d"
      "r = settleDepth rnd (effectiveTimeInForce tif options) q p book d"
proof -
  obtain q sel where q: "parseFinancialDecimal (oi_requestedQuantity intent) = Inr q"
    and sel: "selectExecutionOrderbook books options = Inr sel"
    using assms by (auto simp: simulatePaperFill_def bindR_Inr_iff)
  show thesis
  proof (cases "oi_terms intent")
    case MarketTerms
    then show thesis using assms q sel by (auto simp: simulatePaperFill_def intro!: nofill)
  next
    case (LimitTerms price po tif)
    show thesis
    proof (cases sel)
      case None
      then show thesis using assms q sel LimitTerms
        by (auto simp: simulatePaperFill_def intro!: nofill)
    next
      case (Some book)
      have book: "book \<in> set books" using sel Some by (auto dest: selectExecutionOrderbook_in)
      show thesis
      proof (cases "ob_exchangeId book = oi_exchangeId intent \<and> ob_market book = oi_market intent \<and>
          \<not> (ob_asks book = [] \<and> ob_bids book = [])")
        case False
        then show thesis using assms q sel LimitTerms Some
          by (auto simp: simulatePaperFill_def split: if_splits intro!: nofill)
      next
        case True
        then have "simulateLimitOrder rnd intent price po tif book options q = Inr r"
          using assms q sel LimitTerms Some by (auto simp: simulatePaperFill_def)
        then show thesis
        proof (cases rule: simulateLimitOrder_cases)
          case (taken st os rc m)
          then show thesis using q by (auto intro: nofill)
        next
          case (settled p taker d)
          then show thesis using True book q LimitTerms by (auto intro: depth)
        qed
      qed
    qed
  qed
qed

lemma calculateExecutableDepth_walk:
  assumes "calculateExecutableDepth rnd intent price book options = Inr d"
  obtains p levels feeBps q w where
    "parseFinancialDecimal price = Inr p" "executionLevels (oi_side intent) book = Inr levels"
    "parseFinancialDecimal (oi_requestedQuantity intent) = Inr q"
    "walkLevels rnd (oi_side intent) p feeBps levels (startWalk q) = Inr w"
    "dr_fills d = w_fills w" "dr_filledQuantity d = w_filled w"
    "dr_totalFillNotional d = w_notional w" "dr_totalFee d = w_fee w"
  using assms by (auto simp: calculateExecutableDepth_def bindR_Inr_iff Let_def)

lemma settleDepth_fills: "fr_fills (settleDepth rnd tif q p book d) \<in> {[], dr_fills d}"
  by (simp add: settleDepth_def Let_def)

text \<open>The depth of a walk on the grid, and what settling makes of it.\<close>

definition dr_exact :: "nat \<Rightarrow> rat \<Rightarrow> depth_result \<Rightarrow> bool" where
  "dr_exact k q d \<longleftrightarrow> onGrid k (dr_filledQuantity d) \<and> 0 \<le> dr_filledQuantity d \<and>
     dr_filledQuantity d \<le> q \<and> sum_list (map pf_quantity (dr_fills d)) = dr_filledQuantity d"

text \<open>
  Price priority. The fills walk the levels of the book on the opposite side, sorted from the best price
  on, one fill per level from the first level: every level but the last is taken whole, and the last one
  too unless the order is used up. Levels that are left over are beyond the limit or empty, unless the
  order is used up.
\<close>

definition bestPriceFills :: "order_side \<Rightarrow> rat \<Rightarrow> rat \<Rightarrow> orderbook \<Rightarrow> paper_fill list \<Rightarrow> bool" where
  "bestPriceFills side limitPrice q book fills \<longleftrightarrow>
     (let usedUp = (sum_list (map pf_quantity fills) = q)
      in \<exists>levels. mset levels = mset (sideLevels side book) \<and> sorted (map (\<lambda>l. priceKey side (levelPrice l)) levels) \<and>
           length fills \<le> length levels \<and>
           (\<forall>i < length fills. fillFrom side limitPrice (fills ! i) (levels ! i) \<and>
              (wholeLevel (fills ! i) (levels ! i) \<or> Suc i = length fills \<and> usedUp)) \<and>
           (usedUp \<or> (\<forall>l \<in> set (drop (length fills) levels). executableAt side limitPrice (levelPrice l) \<longrightarrow>
              parseFinancialDecimal (lv_size l) = Inr 0)))"

context decimal_js
begin

lemma calculateExecutableDepth_exact:
  assumes d: "calculateExecutableDepth rnd intent price book options = Inr d"
    and q: "parseFinancialDecimal (oi_requestedQuantity intent) = Inr q" "0 \<le> q" "fitsGrid k q"
    and sizes: "list_all (sizeOnGrid k) (sideLevels (oi_side intent) book)"
  shows "dr_exact k q d"
proof -
  obtain p levels feeBps w where
    levels: "executionLevels (oi_side intent) book = Inr levels"
    and w: "walkLevels rnd (oi_side intent) p feeBps levels (startWalk q) = Inr w"
    and eq: "dr_fills d = w_fills w" "dr_filledQuantity d = w_filled w"
    using d q(1) by (auto elim: calculateExecutableDepth_walk)
  have "list_all (sizeOnGrid k) levels"
    using sizes set_executionLevels [OF levels] by (simp add: list_all_iff)
  moreover have "walkExact k q (startWalk q)" using q by (intro walkExact_start) (auto simp: fitsGrid_def)
  ultimately have "walkExact k q w" using q w by (intro walkLevels_exact [OF q(3) _ _ w])
  then show ?thesis by (simp add: dr_exact_def walkExact_def eq)
qed

lemma settleDepth_exact:
  assumes "dr_exact k q d" and "fitsGrid k q" and "0 \<le> q"
  shows "fr_requestedQuantity (settleDepth rnd tif q p book d) = q \<and>
    fr_filledQuantity (settleDepth rnd tif q p book d) + fr_openQuantity (settleDepth rnd tif q p book d)
      + fr_canceledQuantity (settleDepth rnd tif q p book d) = q \<and>
    0 \<le> fr_filledQuantity (settleDepth rnd tif q p book d) \<and>
    0 \<le> fr_openQuantity (settleDepth rnd tif q p book d) \<and>
    0 \<le> fr_canceledQuantity (settleDepth rnd tif q p book d) \<and>
    sum_list (map pf_quantity (fr_fills (settleDepth rnd tif q p book d))) =
      fr_filledQuantity (settleDepth rnd tif q p book d)"
proof -
  have "onGrid k q" using assms(2) by (simp add: fitsGrid_def)
  then have "fitsGrid k (q - dr_filledQuantity d)"
    using assms by (intro fitsGrid_le [OF assms(2)] onGrid_minus) (simp_all add: dr_exact_def)
  then have "dminus rnd q (dr_filledQuantity d) = q - dr_filledQuantity d"
    by (simp add: dminus_def rnd_fits)
  then show ?thesis using assms by (simp add: settleDepth_def Let_def dr_exact_def)
qed

lemma calculateExecutableDepth_greedy:
  assumes d: "calculateExecutableDepth rnd intent price book options = Inr d"
    and p: "parseFinancialDecimal price = Inr p"
    and q: "parseFinancialDecimal (oi_requestedQuantity intent) = Inr q" "0 \<le> q" "fitsGrid k q"
    and sizes: "list_all (sizeOnGrid k) (sideLevels (oi_side intent) book)"
  shows "bestPriceFills (oi_side intent) p q book (dr_fills d)"
    and "dr_filledQuantity d = 0 \<Longrightarrow> bestPriceFills (oi_side intent) p q book []"
proof -
  obtain levels feeBps w where
    levels: "executionLevels (oi_side intent) book = Inr levels"
    and w: "walkLevels rnd (oi_side intent) p feeBps levels (startWalk q) = Inr w"
    and eq: "dr_fills d = w_fills w" "dr_filledQuantity d = w_filled w"
    using d p q(1) by (auto elim: calculateExecutableDepth_walk)
  have same: "mset levels = mset (sideLevels (oi_side intent) book)"
    and order: "sorted (map (\<lambda>l. priceKey (oi_side intent) (levelPrice l)) levels)"
    using levels unfolding executionLevels_eq by (auto intro: mset_sortLevels sorted_sortLevels)
  have grid: "list_all (sizeOnGrid k) levels" using sizes set_executionLevels [OF levels] by (simp add: list_all_iff)
  have start: "walkExact k q (startWalk q)" using q by (intro walkExact_start) (auto simp: fitsGrid_def)
  have exact: "walkExact k q w" by (rule walkLevels_exact [OF q(3) start grid w])
  then have used: "sum_list (map pf_quantity (w_fills w)) = q \<longleftrightarrow> w_remaining w = 0" by (auto simp: walkExact_def)
  have fs: "length (w_fills w) \<le> length levels"
    "\<forall>i < length (w_fills w). fillFrom (oi_side intent) p (w_fills w ! i) (levels ! i) \<and>
       (wholeLevel (w_fills w ! i) (levels ! i) \<or> Suc i = length (w_fills w) \<and> w_remaining w = 0)"
    "w_remaining w = 0 \<or> (\<forall>l \<in> set (drop (length (w_fills w)) levels). \<not> executableAt (oi_side intent) p (levelPrice l))"
    using walkLevels_greedy [OF q(3) start grid w order] by (auto simp: startWalk_def)
  then show "bestPriceFills (oi_side intent) p q book (dr_fills d)"
    unfolding bestPriceFills_def Let_def eq used using same order by blast
  assume "dr_filledQuantity d = 0"
  then have empty: "pf_quantity f = 0" if "f \<in> set (w_fills w)" for f
    using exact that sum_list_nonneg_eq_0_iff [of "map pf_quantity (w_fills w)"] by (auto simp: eq walkExact_def)
  have "q = 0 \<or> (\<forall>l \<in> set levels. executableAt (oi_side intent) p (levelPrice l) \<longrightarrow> parseFinancialDecimal (lv_size l) = Inr 0)"
  proof (cases "w_remaining w = 0")
    case True
    then show ?thesis using exact \<open>dr_filledQuantity d = 0\<close> by (simp add: eq walkExact_def)
  next
    case False
    have "parseFinancialDecimal (lv_size l) = Inr 0" if l: "l \<in> set (take (length (w_fills w)) levels)" for l
    proof -
      obtain i where i: "i < length (w_fills w)" "l = levels ! i"
        using l fs(1) by (metis in_set_conv_nth length_take min.absorb2 nth_take)
      have "pf_quantity (w_fills w ! i) = 0" using i(1) by (intro empty nth_mem)
      then show ?thesis using fs(2) False i by (auto simp: wholeLevel_def)
    qed
    moreover have "set levels = set (take (length (w_fills w)) levels) \<union> set (drop (length (w_fills w)) levels)"
      by (metis append_take_drop_id set_append)
    ultimately show ?thesis using fs(3) False by blast
  qed
  then show "bestPriceFills (oi_side intent) p q book []"
    unfolding bestPriceFills_def Let_def using same order by auto
qed

end

text \<open>If the best level is not executable, the walk takes nothing.\<close>

lemma walkLevels_not_executable:
  assumes "walkLevels rnd side limitPrice feeBps levels w = Inr w'"
    and "levels = [] \<or> (\<exists>p. parseFinancialDecimal (lv_price (hd levels)) = Inr p \<and>
      \<not> executableAt side limitPrice p)"
  shows "w' = w"
  using assms by (cases levels) auto

lemma post_only_depth_empty:
  assumes "isLimitOrderImmediatelyExecutable (oi_side intent) price book = Inr False"
    and "calculateExecutableDepth rnd intent price book options = Inr d"
  shows "dr_fills d = [] \<and> dr_filledQuantity d = 0"
proof -
  obtain p levels feeBps q w where
    p: "parseFinancialDecimal price = Inr p"
    and levels: "executionLevels (oi_side intent) book = Inr levels"
    and w: "walkLevels rnd (oi_side intent) p feeBps levels (startWalk q) = Inr w"
    and eq: "dr_fills d = w_fills w" "dr_filledQuantity d = w_filled w"
    using assms(2) by (auto elim: calculateExecutableDepth_walk)
  have "w = startWalk q"
    using assms(1) p levels
    by (intro walkLevels_not_executable [OF w], cases levels)
      (auto simp: isLimitOrderImmediatelyExecutable_def bindR_Inr_iff)
  then show ?thesis by (simp add: eq startWalk_def)
qed

lemma settleDepth_no_fill:
  "\<not> 0 < dr_filledQuantity d \<Longrightarrow>
   fr_fills (settleDepth rnd tif q p book d) = [] \<and>
   fr_filledQuantity (settleDepth rnd tif q p book d) = 0"
  by (simp add: settleDepth_def Let_def)

lemma fills_levelPrice:
  "list_all2 (fillFrom side limitPrice) fs ls \<Longrightarrow> map pf_price fs = map levelPrice ls"
  by (induction rule: list_all2_induct) (simp_all add: fillFrom_def levelPrice_def)

text \<open>The fills of a simulation are the fills of the best levels of one book, in their order.\<close>

lemma simulatePaperFill_best_levels:
  assumes "simulatePaperFill rnd intent books options = Inr r"
    and "oi_terms intent = LimitTerms price po tif" and "parseFinancialDecimal price = Inr limitPrice"
    and "fr_fills r \<noteq> []"
  obtains book levels where "book \<in> set books"
    "executionLevels (oi_side intent) book = Inr levels"
    "list_all2 (fillFrom (oi_side intent) limitPrice) (fr_fills r) (take (length (fr_fills r)) levels)"
  using assms(1)
proof (cases rule: simulatePaperFill_cases)
  case (nofill q st os rc m)
  then show thesis using assms(4) by simp
next
  case (depth q book price' po' tif' p taker d)
  then have "price' = price" "p = limitPrice" using assms(2,3) by auto
  obtain levels feeBps w where
    levels: "executionLevels (oi_side intent) book = Inr levels"
    and w: "walkLevels rnd (oi_side intent) limitPrice feeBps levels (startWalk q) = Inr w"
    and eq: "dr_fills d = w_fills w"
    using depth(1,9) assms(3) unfolding \<open>price' = price\<close> by (auto elim: calculateExecutableDepth_walk)
  have "fr_fills r = w_fills w"
    using settleDepth_fills [of rnd "effectiveTimeInForce tif' options" q p book d] depth(10) assms(4) eq
    by auto
  then show thesis
    using walkLevels_fills [OF w] depth(3) levels by (auto simp: startWalk_def intro: that)
qed

definition bestLevelFills :: "order_side \<Rightarrow> rat \<Rightarrow> orderbook \<Rightarrow> paper_fill list \<Rightarrow> bool" where
  "bestLevelFills side limitPrice book fills \<longleftrightarrow>
     (\<exists>levels. mset levels = mset (sideLevels side book) \<and> sorted (map (\<lambda>l. priceKey side (levelPrice l)) levels) \<and>
        list_all2 (fillFrom side limitPrice) fills (take (length fills) levels))"

lemma bestLevelFillsI:
  assumes "executionLevels side book = Inr levels" and "list_all2 (fillFrom side limitPrice) fills (take (length fills) levels)"
  shows "bestLevelFills side limitPrice book fills"
  using assms unfolding bestLevelFills_def executionLevels_eq by (blast intro: mset_sortLevels sorted_sortLevels)

lemma bestLevelFills_executable:
  "bestLevelFills side limitPrice book fills \<Longrightarrow> f \<in> set fills \<Longrightarrow> executableAt side limitPrice (pf_price f)"
  by (auto simp: bestLevelFills_def list_all2_conv_all_nth in_set_conv_nth fillFrom_def)

text \<open>What an order that may rest or fill in part makes of the book it is simulated against.\<close>

lemma resting_order_takes:
  assumes sim: "simulatePaperFill rnd intent books options = Inr r"
    and terms: "oi_terms intent = LimitTerms price po tif" and limit: "parseFinancialDecimal price = Inr limitPrice"
    and q: "parseFinancialDecimal (oi_requestedQuantity intent) = Inr q"
    and book: "selectExecutionOrderbook books options = Inr (Some book)" "ob_exchangeId book = oi_exchangeId intent"
      "ob_market book = oi_market intent"
    and resting: "po \<noteq> Some True" "effectiveTimeInForce tif options \<in> {GTC, IOC}"
  shows "sideLevels (oi_side intent) book = [] \<and> fr_fills r = [] \<or>
    (\<exists>d. calculateExecutableDepth rnd intent price book options = Inr d \<and>
       fr_fills r = (if 0 < dr_filledQuantity d then dr_fills d else []))"
proof (cases "ob_asks book = [] \<and> ob_bids book = []")
  case True
  then show ?thesis using sim terms q book by (auto simp: simulatePaperFill_def sideLevels_def split: order_side.split)
next
  case False
  then have "simulateLimitOrder rnd intent price po tif book options q = Inr r"
    using sim terms q book by (auto simp: simulatePaperFill_def)
  moreover from this obtain taker where "isLimitOrderImmediatelyExecutable (oi_side intent) price book = Inr taker"
    using limit by (auto simp: simulateLimitOrder_def Let_def bindR_Inr_iff)
  ultimately obtain d where "calculateExecutableDepth rnd intent price book options = Inr d"
    "r = settleDepth rnd (effectiveTimeInForce tif options) q limitPrice book d"
    using limit resting by (auto simp: simulateLimitOrder_def Let_def bindR_Inr_iff)
  moreover have "fr_fills (settleDepth rnd T q limitPrice book d) = (if 0 < dr_filledQuantity d then dr_fills d else [])" if "T \<in> {GTC, IOC}" for T
    using that by (auto simp: settleDepth_def Let_def)
  ultimately show ?thesis using resting(2) by blast
qed

lemma simulatePaperFill_bestPriceFills:
  assumes rnd: "decimal_js rnd"
    and sim: "simulatePaperFill rnd intent books options = Inr r"
    and terms: "oi_terms intent = LimitTerms price po tif"
    and limit: "parseFinancialDecimal price = Inr limitPrice"
    and q: "parseFinancialDecimal (oi_requestedQuantity intent) = Inr q" "0 \<le> q" "fitsGrid k q"
    and sizes: "list_all (\<lambda>b. list_all (sizeOnGrid k) (ob_asks b @ ob_bids b)) books"
  shows "fr_fills r \<noteq> [] \<Longrightarrow> \<exists>book \<in> set books. bestPriceFills (oi_side intent) limitPrice q book (fr_fills r)"
    and "selectExecutionOrderbook books options = Inr (Some book) \<Longrightarrow> ob_exchangeId book = oi_exchangeId intent \<Longrightarrow>
      ob_market book = oi_market intent \<Longrightarrow> po \<noteq> Some True \<Longrightarrow> effectiveTimeInForce tif options \<in> {GTC, IOC} \<Longrightarrow>
      bestPriceFills (oi_side intent) limitPrice q book (fr_fills r)"
proof -
  have grid: "list_all (sizeOnGrid k) (sideLevels (oi_side intent) b)" if "b \<in> set books" for b
    using sizes that by (auto simp: list_all_iff sideLevels_def split: order_side.splits)
  show "\<exists>book \<in> set books. bestPriceFills (oi_side intent) limitPrice q book (fr_fills r)" if "fr_fills r \<noteq> []"
    using sim
  proof (cases rule: simulatePaperFill_cases)
    case (nofill q' st os rc m)
    then show ?thesis using that by simp
  next
    case (depth q' book price' po' tif' p taker d)
    then have "p = limitPrice" "price' = price" using terms limit by auto
    then have "bestPriceFills (oi_side intent) limitPrice q book (dr_fills d)"
      using decimal_js.calculateExecutableDepth_greedy(1) [OF rnd depth(9) depth(6) q grid [OF depth(3)]] by simp
    moreover have "fr_fills r = dr_fills d" using settleDepth_fills that unfolding depth(10) by fastforce
    ultimately show ?thesis using depth(3) by auto
  qed
  have "bestPriceFills (oi_side intent) limitPrice q book (fr_fills r)"
    if "selectExecutionOrderbook books options = Inr (Some book)" "ob_exchangeId book = oi_exchangeId intent"
      "ob_market book = oi_market intent" "po \<noteq> Some True" "effectiveTimeInForce tif options \<in> {GTC, IOC}" for book
    using resting_order_takes [OF sim terms limit q(1) that]
  proof
    assume "sideLevels (oi_side intent) book = [] \<and> fr_fills r = []"
    then show ?thesis by (auto simp: bestPriceFills_def Let_def)
  next
    assume "\<exists>d. calculateExecutableDepth rnd intent price book options = Inr d \<and>
      fr_fills r = (if 0 < dr_filledQuantity d then dr_fills d else [])"
    then obtain d where d: "calculateExecutableDepth rnd intent price book options = Inr d"
      and fills: "fr_fills r = (if 0 < dr_filledQuantity d then dr_fills d else [])" by blast
    have g: "list_all (sizeOnGrid k) (sideLevels (oi_side intent) book)"
      using that(1) by (intro grid selectExecutionOrderbook_in)
    have "0 \<le> dr_filledQuantity d"
      using decimal_js.calculateExecutableDepth_exact [OF rnd d q g] by (simp add: dr_exact_def)
    then show ?thesis using decimal_js.calculateExecutableDepth_greedy [OF rnd d limit q g] fills by auto
  qed
  then show "selectExecutionOrderbook books options = Inr (Some book) \<Longrightarrow> ob_exchangeId book = oi_exchangeId intent \<Longrightarrow>
      ob_market book = oi_market intent \<Longrightarrow> po \<noteq> Some True \<Longrightarrow> effectiveTimeInForce tif options \<in> {GTC, IOC} \<Longrightarrow>
      bestPriceFills (oi_side intent) limitPrice q book (fr_fills r)" for book
    by blast
qed

section \<open>Properties\<close>

text \<open>
  Quantity conservation. For an order quantity and book sizes that are multiples of
  \<open>10 ^ -k\<close> with a quantity of at most twenty digits, a simulation that returns splits the requested
  quantity exactly into what is filled, what stays open and what is canceled, none of them
  negative, and the recorded fills add up to the filled quantity.
\<close>

theorem simulatePaperFill_conserves_quantity:
  assumes rnd: "decimal_js rnd"
    and sim: "simulatePaperFill rnd intent books options = Inr r"
    and q: "parseFinancialDecimal (oi_requestedQuantity intent) = Inr q" "0 \<le> q" "fitsGrid k q"
    and sizes: "list_all (\<lambda>b. list_all (sizeOnGrid k) (ob_asks b @ ob_bids b)) books"
  shows "fr_requestedQuantity r = q \<and>
    fr_filledQuantity r + fr_openQuantity r + fr_canceledQuantity r = q \<and>
    0 \<le> fr_filledQuantity r \<and> 0 \<le> fr_openQuantity r \<and> 0 \<le> fr_canceledQuantity r \<and>
    sum_list (map pf_quantity (fr_fills r)) = fr_filledQuantity r"
  using sim
proof (cases rule: simulatePaperFill_cases)
  case (nofill q' st os rc m)
  then show ?thesis using q by auto
next
  case (depth q' book price po tif p taker d)
  have "list_all (sizeOnGrid k) (sideLevels (oi_side intent) book)"
    using sizes \<open>book \<in> set books\<close> by (auto simp: list_all_iff sideLevels_def split: order_side.splits)
  then have "dr_exact k q d"
    using depth(1,9) q by (intro decimal_js.calculateExecutableDepth_exact [OF rnd]) auto
  then show ?thesis using q depth(1,10) by (simp add: decimal_js.settleDepth_exact [OF rnd])
qed

text \<open>A worked example: buy 1 at 100 against asks of 0.4 at 99, 0.3 at 100 and 5 at 101.\<close>

definition exampleIntent :: "time_in_force option \<Rightarrow> bool option \<Rightarrow> order_intent" where
  "exampleIntent tif po =
     \<lparr>oi_exchangeId = ''UPBIT'', oi_market = ''KRW-BTC'', oi_strategyId = ''s1'', oi_side = BUY,
      oi_requestedQuantity = Num 1, oi_requestedNotional = Num 100, oi_idempotencyKey = ''k1'',
      oi_reason = ''entry'', oi_metadata = None, oi_terms = LimitTerms (Num 100) po tif\<rparr>"

definition exampleLevel :: "rat \<Rightarrow> rat \<Rightarrow> orderbook_level" where
  "exampleLevel p sz = \<lparr>lv_price = Num p, lv_size = Num sz\<rparr>"

definition exampleBook :: orderbook where
  "exampleBook =
     \<lparr>ob_exchangeId = ''UPBIT'', ob_market = ''KRW-BTC'',
      ob_asks = [exampleLevel 100 (3/10), exampleLevel 99 (4/10), exampleLevel 101 5],
      ob_bids = [exampleLevel 98 1], ob_receivedAt = At 5\<rparr>"

definition exampleOptions :: fill_options where
  "exampleOptions = \<lparr>fo_submittedAt = None, fo_latencyMs = None, fo_postOnlyTakerPolicy = None,
     fo_defaultTimeInForce = None, fo_takerFeeBps = Some (Num 5)\<rparr>"

lemmas fill_eval =
  simulatePaperFill_def selectExecutionOrderbook_def simulateLimitOrder_def
  isLimitOrderImmediatelyExecutable_def calculateExecutableDepth_def executionLevels_def
  sortAsks_def sortBids_def sortLevels_def levelPrice_def executableAt_def takeLevel_def
  startWalk_def settleDepth_def createFillResult_def createNoFillResult_def effectiveTimeInForce_def
  calculateSignedSlippageBps_def decimal_ops exactRound_def receivedAtMetadata_def
  simulatePostOnlyTakerRisk_def Let_def exampleIntent_def exampleBook_def exampleLevel_def
  exampleOptions_def

lemma example_partial_fill:
  "\<exists>r. simulatePaperFill exactRound (exampleIntent None None) [exampleBook] exampleOptions = Inr r \<and>
     fr_filledQuantity r = 7/10 \<and> fr_openQuantity r = 3/10 \<and> map pf_price (fr_fills r) = [99, 100]"
  by (simp add: fill_eval)

theorem simulatePaperFill_conserves_quantity_witness:
  "\<exists>r. simulatePaperFill exactRound (exampleIntent None None) [exampleBook] exampleOptions = Inr r \<and>
     fr_filledQuantity r = 7/10 \<and>
     fr_filledQuantity r + fr_openQuantity r + fr_canceledQuantity r = 1"
proof -
  obtain r where r:
    "simulatePaperFill exactRound (exampleIntent None None) [exampleBook] exampleOptions = Inr r"
    "fr_filledQuantity r = 7/10" using example_partial_fill by blast
  have "fr_filledQuantity r + fr_openQuantity r + fr_canceledQuantity r = 1"
    using simulatePaperFill_conserves_quantity [OF exact.decimal_js_axioms r(1), of 1 1]
    by (simp add: exampleIntent_def exampleBook_def exampleLevel_def sizeOnGrid_def fitsGrid_def
        onGrid_def)
  then show ?thesis using r by blast
qed

text \<open>
  C3. Price protection and price priority. Every fill of a limit order has a price no worse than the
  limit (at most it for a buy, at least it for a sell), and the fills are those of the best levels of
  one of the given books: sorted from the best price on, the i-th fill is at the i-th level, for no
  more than its size. Where the quantity and the sizes are multiples of \<open>10 ^ -k\<close> of at most twenty
  digits, the walk is greedy too: each level is taken whole, except the last one when it is more than
  the order still needs, and an order that may rest or fill in part, and is not post-only, takes from
  the book it is simulated against all that its limit and quantity allow, so that what remains in the
  book is beyond the limit or empty, or the order is used up.
\<close>

theorem simulatePaperFill_price_protection:
  assumes sim: "simulatePaperFill rnd intent books options = Inr r"
    and terms: "oi_terms intent = LimitTerms price po tif"
    and limit: "parseFinancialDecimal price = Inr limitPrice"
  shows "(\<forall>f \<in> set (fr_fills r). executableAt (oi_side intent) limitPrice (pf_price f)) \<and>
    (fr_fills r \<noteq> [] \<longrightarrow> (\<exists>book \<in> set books. bestLevelFills (oi_side intent) limitPrice book (fr_fills r))) \<and>
    (decimal_js rnd \<and> parseFinancialDecimal (oi_requestedQuantity intent) = Inr q \<and> 0 \<le> q \<and> fitsGrid k q \<and>
       list_all (\<lambda>b. list_all (sizeOnGrid k) (ob_asks b @ ob_bids b)) books \<longrightarrow>
       (fr_fills r \<noteq> [] \<longrightarrow> (\<exists>book \<in> set books. bestPriceFills (oi_side intent) limitPrice q book (fr_fills r))) \<and>
       (\<forall>book. selectExecutionOrderbook books options = Inr (Some book) \<and> ob_exchangeId book = oi_exchangeId intent \<and>
          ob_market book = oi_market intent \<and> po \<noteq> Some True \<and> effectiveTimeInForce tif options \<in> {GTC, IOC} \<longrightarrow>
          bestPriceFills (oi_side intent) limitPrice q book (fr_fills r)))"
proof -
  have best: "\<exists>book \<in> set books. bestLevelFills (oi_side intent) limitPrice book (fr_fills r)" if some: "fr_fills r \<noteq> []"
  proof -
    obtain book levels where "book \<in> set books" and levels: "executionLevels (oi_side intent) book = Inr levels"
      and fills: "list_all2 (fillFrom (oi_side intent) limitPrice) (fr_fills r) (take (length (fr_fills r)) levels)"
      using simulatePaperFill_best_levels [OF sim terms limit some] by blast
    then show ?thesis by (blast intro: bestLevelFillsI)
  qed
  moreover have "executableAt (oi_side intent) limitPrice (pf_price f)" if "f \<in> set (fr_fills r)" for f
    using best that by (metis bestLevelFills_executable empty_iff empty_set)
  ultimately show ?thesis using simulatePaperFill_bestPriceFills [OF _ sim terms limit] by blast
qed

theorem simulatePaperFill_price_protection_witness:
  "\<exists>r. simulatePaperFill exactRound (exampleIntent None None) [exampleBook] exampleOptions = Inr r \<and>
     map pf_price (fr_fills r) = [99, 100] \<and> (\<forall>f \<in> set (fr_fills r). pf_price f \<le> 100) \<and>
     bestPriceFills BUY 100 1 exampleBook (fr_fills r)"
proof -
  obtain r where r:
    "simulatePaperFill exactRound (exampleIntent None None) [exampleBook] exampleOptions = Inr r"
    "map pf_price (fr_fills r) = [99, 100]"
    using example_partial_fill by (elim exE conjE) (rule that)
  have "(\<forall>f \<in> set (fr_fills r). executableAt BUY 100 (pf_price f)) \<and>
      bestPriceFills BUY 100 1 exampleBook (fr_fills r)"
    using simulatePaperFill_price_protection [OF r(1), of "Num 100" None None 100 1 1] exact.decimal_js_axioms r(2)
    by (auto simp: exampleIntent_def exampleBook_def exampleLevel_def sizeOnGrid_def fitsGrid_def onGrid_def)
  then show ?thesis using r by (auto simp: executableAt_def)
qed

text \<open>
  C4. Time in force and post-only, where the quantity and the sizes are multiples of \<open>10 ^ -k\<close> of at
  most twenty digits. A fill-or-kill order is either not filled at all or filled completely: its
  fills add up to the requested quantity and it is reported as filled with nothing open or canceled.
  An immediate-or-cancel order is never left partially filled: what its fills leave of the requested
  quantity is canceled, none of it stays open. A post-only order never takes liquidity.
\<close>

theorem simulatePaperFill_time_in_force:
  assumes rnd: "decimal_js rnd"
    and sim: "simulatePaperFill rnd intent books options = Inr r"
    and terms: "oi_terms intent = LimitTerms price po tif"
    and q: "parseFinancialDecimal (oi_requestedQuantity intent) = Inr q" "0 \<le> q" "fitsGrid k q"
    and sizes: "list_all (\<lambda>b. list_all (sizeOnGrid k) (ob_asks b @ ob_bids b)) books"
    and T: "T = effectiveTimeInForce tif options"
  shows "(T = FOK \<longrightarrow> fr_fills r = [] \<and> fr_filledQuantity r = 0 \<or>
        fr_status r = FS_FILLED \<and> fr_filledQuantity r = q \<and> sum_list (map pf_quantity (fr_fills r)) = q \<and>
        fr_openQuantity r = 0 \<and> fr_canceledQuantity r = 0) \<and>
    (T = IOC \<longrightarrow> fr_orderStatus r \<noteq> PARTIALLY_FILLED \<and> (fr_fills r \<noteq> [] \<longrightarrow> fr_openQuantity r = 0 \<and>
        sum_list (map pf_quantity (fr_fills r)) + fr_canceledQuantity r = q)) \<and>
    (po = Some True \<or> T = POST_ONLY \<longrightarrow> fr_fills r = [] \<and> fr_filledQuantity r = 0)"
  using sim
proof (cases rule: simulatePaperFill_cases)
  case (nofill q' st os rc m)
  then show ?thesis by auto
next
  case (depth q' book price' po' tif' p taker d)
  then have eqs: "price' = price" "po' = po" "tif' = tif" "q' = q" using terms q(1) by auto
  have r: "r = settleDepth rnd T q p book d" using depth(10) by (simp add: eqs T)
  have "list_all (sizeOnGrid k) (sideLevels (oi_side intent) book)"
    using sizes depth(3) by (auto simp: list_all_iff sideLevels_def split: order_side.splits)
  then have "dr_exact k q d" by (rule decimal_js.calculateExecutableDepth_exact [OF rnd depth(9) q])
  then have exact: "fr_filledQuantity r + fr_openQuantity r + fr_canceledQuantity r = q \<and>
      sum_list (map pf_quantity (fr_fills r)) = fr_filledQuantity r"
    using decimal_js.settleDepth_exact [OF rnd _ q(3) q(2)] unfolding r by blast
  have "fr_fills r = [] \<and> fr_filledQuantity r = 0" if "po = Some True \<or> T = POST_ONLY"
  proof -
    have "\<not> taker" using that depth(8) by (auto simp: eqs T)
    then have "dr_filledQuantity d = 0" using post_only_depth_empty depth(7,9) by auto
    then show ?thesis using settleDepth_no_fill [of d] by (simp add: r)
  qed
  moreover have "T = FOK \<Longrightarrow> fr_fills r = [] \<and> fr_filledQuantity r = 0 \<or>
      fr_status r = FS_FILLED \<and> fr_openQuantity r = 0 \<and> fr_canceledQuantity r = 0"
    by (simp add: r settleDepth_def Let_def)
  moreover have "T = IOC \<Longrightarrow>
      fr_orderStatus r \<noteq> PARTIALLY_FILLED \<and> (fr_fills r \<noteq> [] \<longrightarrow> fr_openQuantity r = 0)"
    by (simp add: r settleDepth_def Let_def)
  ultimately show ?thesis using exact by fastforce
qed

lemma example_fok_ioc_post_only:
  "\<exists>r. simulatePaperFill exactRound (exampleIntent (Some FOK) None) [exampleBook] exampleOptions = Inr r \<and>
     fr_status r = FS_FOK_CANCELED"
  "\<exists>r. simulatePaperFill exactRound (exampleIntent (Some IOC) None) [exampleBook] exampleOptions = Inr r \<and>
     fr_canceledQuantity r = 3/10 \<and> fr_fills r \<noteq> []"
  "\<exists>r. simulatePaperFill exactRound (exampleIntent None (Some True)) [exampleBook] exampleOptions = Inr r"
  by (simp_all add: fill_eval)

theorem simulatePaperFill_time_in_force_witness:
  "(\<exists>r. simulatePaperFill exactRound (exampleIntent (Some FOK) None) [exampleBook] exampleOptions = Inr r \<and>
      fr_status r = FS_FOK_CANCELED \<and> fr_fills r = []) \<and>
   (\<exists>r. simulatePaperFill exactRound (exampleIntent (Some IOC) None) [exampleBook] exampleOptions = Inr r \<and>
      fr_canceledQuantity r = 3/10 \<and> fr_fills r \<noteq> [] \<and> fr_openQuantity r = 0) \<and>
   (\<exists>r. simulatePaperFill exactRound (exampleIntent None (Some True)) [exampleBook] exampleOptions = Inr r \<and>
      fr_fills r = [])"
proof -
  obtain r1 r2 r3 where
    r1: "simulatePaperFill exactRound (exampleIntent (Some FOK) None) [exampleBook]
      exampleOptions = Inr r1" "fr_status r1 = FS_FOK_CANCELED"
    and r2: "simulatePaperFill exactRound (exampleIntent (Some IOC) None) [exampleBook]
      exampleOptions = Inr r2" "fr_canceledQuantity r2 = 3/10" "fr_fills r2 \<noteq> []"
    and r3: "simulatePaperFill exactRound (exampleIntent None (Some True)) [exampleBook]
      exampleOptions = Inr r3"
    using example_fok_ioc_post_only by blast
  note applied = simulatePaperFill_time_in_force [OF exact.decimal_js_axioms, of _ "[exampleBook]" exampleOptions _ "Num 100" _ _ 1 1]
  show ?thesis
    using r1 r2 r3 applied [OF r1(1), of None "Some FOK" FOK] applied [OF r2(1), of None "Some IOC" IOC]
      applied [OF r3(1), of "Some True" None GTC]
    by (auto simp: exampleIntent_def effectiveTimeInForce_def exampleOptions_def exampleBook_def exampleLevel_def
        sizeOnGrid_def fitsGrid_def onGrid_def)
qed

end
