(* ===== verification/Paper_Broker.thy ===== *)
theory Paper_Broker
  imports Paper_Fill
begin

text \<open>
  The in-memory broker, \<^verbatim>\<open>src/src/infrastructure/paper/paper-broker.ts\<close> and its helper modules. The
  maps of the class are association lists, which keep the insertion order of a JavaScript Map. A
  method that may throw returns the new state beside its result, because it may have changed the
  state before it throws. The clock is read by the caller and passed as the instant \<open>now\<close>. The
  metadata of a broker order is the record \<open>order_evidence\<close>, one field per key.
\<close>

section \<open>Types\<close>

record balance_mutation =
  bm_baseCurrency :: string
  bm_quoteCurrency :: string
  bm_filledQuantity :: rat
  bm_openQuantity :: rat
  bm_canceledQuantity :: rat
  bm_quoteAvailableDelta :: rat
  bm_quoteLockedDelta :: rat
  bm_baseAvailableDelta :: rat
  bm_baseLockedDelta :: rat

record cancel_mutation =
  cm_baseCurrency :: string
  cm_quoteCurrency :: string
  cm_releasedCurrency :: string
  cm_releasedQuantity :: rat
  cm_canceledQuantity :: rat

record balance_rejection =
  br_currency :: string
  br_requiredQuantity :: rat
  br_availableQuantity :: rat
  br_shortageQuantity :: rat
  br_attemptedDelta :: rat

datatype balance_validation = BalanceValid | BalanceInvalid balance_rejection

record exchange_rejection =
  er_brokerExchangeId :: string
  er_intentExchangeId :: string

record paper_order_state =
  pos_status :: order_status
  pos_remainingQuantity :: rat
  pos_balanceMutationApplied :: bool
  pos_balanceRejection :: "balance_rejection option"

record order_evidence =
  oe_submittedAt :: timestamp
  oe_paperBrokerRejection :: "exchange_rejection option"
  oe_paperFillSimulation :: "fill_result option"
  oe_balanceMutation :: "balance_mutation option"
  oe_balanceMutationApplied :: "bool option"
  oe_paperBalanceRejection :: "balance_rejection option"
  oe_paperCancel :: "(timestamp \<times> cancel_mutation) option"

record broker_order =
  bo_brokerOrderId :: string
  bo_idempotencyKey :: string
  bo_exchangeId :: string
  bo_market :: string
  bo_side :: order_side
  bo_orderType :: order_type
  bo_status :: order_status
  bo_requestedQuantity :: rat
  bo_remainingQuantity :: rat
  bo_requestedPrice :: "numeric option"
  bo_acceptedAt :: "timestamp option"
  bo_updatedAt :: timestamp
  bo_metadata :: order_evidence

record balance_input =
  bi_currency :: string
  bi_available :: numeric
  bi_locked :: "numeric option"
  bi_total :: "numeric option"
  bi_updatedAt :: "timestamp option"
  bi_metadata :: "json_record option"

record paper_broker =
  pb_exchangeId :: string
  pb_fillOptions :: fill_options
  pb_brokerOrderIdPrefix :: string
  pb_ordersById :: "(string \<times> broker_order) list"
  pb_orderIdsByIdempotencyKey :: "(string \<times> string) list"
  pb_fingerprintsByIdempotencyKey :: "(string \<times> json) list"
  pb_balancesByCurrency :: "(string \<times> broker_balance) list"
  pb_orderbooksByMarket :: "(string \<times> orderbook list) list"
  pb_nextOrderSequence :: nat

section \<open>Decimal texts, currencies and markets\<close>

definition normalizeCurrency :: "string \<Rightarrow> string" where
  "normalizeCurrency currency = toUpperCase (trim currency)"

definition addDecimalStrings :: "rounding \<Rightarrow> numeric \<Rightarrow> numeric \<Rightarrow> rat result" where
  "addDecimalStrings rnd left right =
     bindR (parseFinancialDecimal left) (\<lambda>l. bindR (parseFinancialDecimal right) (\<lambda>r. Inr (dplus rnd l r)))"

definition multiplyDecimalStrings :: "rounding \<Rightarrow> numeric \<Rightarrow> numeric \<Rightarrow> rat result" where
  "multiplyDecimalStrings rnd left right =
     bindR (parseFinancialDecimal left) (\<lambda>l. bindR (parseFinancialDecimal right) (\<lambda>r. Inr (dtimes rnd l r)))"

definition parseMarketCurrencies :: "string \<Rightarrow> (string \<times> string) result" where
  "parseMarketCurrencies market =
     (let quote = takeWhile (\<lambda>c. c \<noteq> CHR ''-'') market;
          rest = dropWhile (\<lambda>c. c \<noteq> CHR ''-'') market
      in if quote = [] \<or> length rest \<le> 1
         then Inl (Failure ''Paper broker requires market codes in QUOTE-BASE format'')
         else Inr (normalizeCurrency quote, normalizeCurrency (tl rest)))"

section \<open>Balances\<close>

definition normalizeInitialBalance ::
  "rounding \<Rightarrow> balance_input \<Rightarrow> timestamp \<Rightarrow> broker_balance result" where
  "normalizeInitialBalance rnd inp fallbackUpdatedAt =
     (let lockedText = (case bi_locked inp of None \<Rightarrow> Num 0 | Some l \<Rightarrow> l)
      in bindR (parseFinancialDecimal (bi_available inp)) (\<lambda>available.
         bindR (parseFinancialDecimal lockedText) (\<lambda>locked.
         bindR (case bi_total inp of None \<Rightarrow> Inr (dplus rnd available locked)
                | Some t \<Rightarrow> parseFinancialDecimal t) (\<lambda>total.
           Inr \<lparr>bb_currency = normalizeCurrency (bi_currency inp), bb_available = available,
                bb_locked = locked, bb_total = total,
                bb_updatedAt = (case bi_updatedAt inp of None \<Rightarrow> fallbackUpdatedAt | Some t \<Rightarrow> t),
                bb_metadata = bi_metadata inp\<rparr>))))"

definition createZeroBalance :: "string \<Rightarrow> timestamp \<Rightarrow> broker_balance" where
  "createZeroBalance currency updatedAt =
     \<lparr>bb_currency = normalizeCurrency currency, bb_available = 0, bb_locked = 0, bb_total = 0,
      bb_updatedAt = updatedAt, bb_metadata = None\<rparr>"

definition applyBalanceDelta ::
  "rounding \<Rightarrow> string \<Rightarrow> rat \<Rightarrow> rat \<Rightarrow> timestamp \<Rightarrow> paper_broker \<Rightarrow> paper_broker" where
  "applyBalanceDelta rnd currency availableDelta lockedDelta updatedAt b =
     (let normalizedCurrency = normalizeCurrency currency
      in if availableDelta = 0 \<and> lockedDelta = 0 then b
         else let current = (case map_of (pb_balancesByCurrency b) normalizedCurrency of
                               Some c \<Rightarrow> c | None \<Rightarrow> createZeroBalance normalizedCurrency updatedAt);
                  available = dplus rnd (bb_available current) availableDelta;
                  locked = dplus rnd (bb_locked current) lockedDelta;
                  nextBalance = current\<lparr>bb_available := available, bb_locked := locked,
                                  bb_total := dplus rnd available locked, bb_updatedAt := updatedAt\<rparr>
              in b\<lparr>pb_balancesByCurrency :=
                     AList.update normalizedCurrency nextBalance (pb_balancesByCurrency b)\<rparr>)"

definition availableOf :: "paper_broker \<Rightarrow> string \<Rightarrow> rat" where
  "availableOf b currency = (case map_of (pb_balancesByCurrency b) currency of
     Some c \<Rightarrow> bb_available c | None \<Rightarrow> 0)"

definition validateAvailableBalance ::
  "rounding \<Rightarrow> paper_broker \<Rightarrow> string \<Rightarrow> rat \<Rightarrow> balance_validation" where
  "validateAvailableBalance rnd b currency availableDelta =
     (if \<not> availableDelta < 0 then BalanceValid
      else let normalizedCurrency = normalizeCurrency currency;
               available = availableOf b normalizedCurrency;
               required = \<bar>availableDelta\<bar>
           in if required \<le> available then BalanceValid
              else BalanceInvalid \<lparr>br_currency = normalizedCurrency, br_requiredQuantity = required,
                     br_availableQuantity = available,
                     br_shortageQuantity = dminus rnd required available,
                     br_attemptedDelta = availableDelta\<rparr>)"

definition validateBalanceMutation ::
  "rounding \<Rightarrow> paper_broker \<Rightarrow> balance_mutation \<Rightarrow> balance_validation" where
  "validateBalanceMutation rnd b m =
     (case validateAvailableBalance rnd b (bm_quoteCurrency m) (bm_quoteAvailableDelta m) of
        BalanceInvalid r \<Rightarrow> BalanceInvalid r
      | BalanceValid \<Rightarrow> validateAvailableBalance rnd b (bm_baseCurrency m) (bm_baseAvailableDelta m))"

definition applySubmissionBalanceMutation ::
  "rounding \<Rightarrow> balance_mutation \<Rightarrow> timestamp \<Rightarrow> paper_broker \<Rightarrow> paper_broker" where
  "applySubmissionBalanceMutation rnd m updatedAt b =
     applyBalanceDelta rnd (bm_baseCurrency m) (bm_baseAvailableDelta m) (bm_baseLockedDelta m) updatedAt
       (applyBalanceDelta rnd (bm_quoteCurrency m) (bm_quoteAvailableDelta m) (bm_quoteLockedDelta m)
          updatedAt b)"

definition calculateOpenQuoteLock :: "rounding \<Rightarrow> order_intent \<Rightarrow> rat \<Rightarrow> rat result" where
  "calculateOpenQuoteLock rnd intent openQuantity =
     (case oi_terms intent of
        MarketTerms \<Rightarrow> Inr 0
      | LimitTerms price po tif \<Rightarrow>
          if \<not> 0 < openQuantity then Inr 0
          else multiplyDecimalStrings rnd (Num openQuantity) price)"

definition createSubmissionBalanceMutation ::
  "rounding \<Rightarrow> order_intent \<Rightarrow> fill_result \<Rightarrow> balance_mutation result" where
  "createSubmissionBalanceMutation rnd intent sim =
     bindR (parseMarketCurrencies (oi_market intent)) (\<lambda>(quoteCurrency, baseCurrency).
       let filled = fr_filledQuantity sim;
           opn = fr_openQuantity sim;
           totalFillNotional = (case fr_totalFillNotional sim of None \<Rightarrow> 0 | Some n \<Rightarrow> n);
           totalFee = (case fr_totalFee sim of None \<Rightarrow> 0 | Some f \<Rightarrow> f);
           summary = (\<lambda>qa ql ba bl. \<lparr>bm_baseCurrency = baseCurrency, bm_quoteCurrency = quoteCurrency,
             bm_filledQuantity = filled, bm_openQuantity = opn,
             bm_canceledQuantity = fr_canceledQuantity sim, bm_quoteAvailableDelta = qa,
             bm_quoteLockedDelta = ql, bm_baseAvailableDelta = ba, bm_baseLockedDelta = bl\<rparr>)
       in case oi_side intent of
            BUY \<Rightarrow>
              bindR (calculateOpenQuoteLock rnd intent opn) (\<lambda>openQuoteLock.
                let fillQuoteDebit = dplus rnd totalFillNotional totalFee
                in Inr (summary (- dplus rnd fillQuoteDebit openQuoteLock) openQuoteLock filled 0))
          | SELL \<Rightarrow>
              Inr (summary (dminus rnd totalFillNotional totalFee) 0 (- dplus rnd filled opn) opn))"

section \<open>Orders\<close>

definition createOrderStateFromSimulation ::
  "fill_result \<Rightarrow> balance_validation \<Rightarrow> paper_order_state" where
  "createOrderStateFromSimulation sim validation =
     (case validation of
        BalanceInvalid r \<Rightarrow>
          \<lparr>pos_status = REJECTED, pos_remainingQuantity = 0, pos_balanceMutationApplied = False,
           pos_balanceRejection = Some r\<rparr>
      | BalanceValid \<Rightarrow>
          \<lparr>pos_status = fr_orderStatus sim, pos_remainingQuantity = fr_openQuantity sim,
           pos_balanceMutationApplied = True, pos_balanceRejection = None\<rparr>)"

definition createExchangeRejection :: "order_intent \<Rightarrow> string \<Rightarrow> exchange_rejection option" where
  "createExchangeRejection intent brokerExchangeId =
     (if oi_exchangeId intent = brokerExchangeId then None
      else Some \<lparr>er_brokerExchangeId = brokerExchangeId, er_intentExchangeId = oi_exchangeId intent\<rparr>)"

fun limitPriceOf :: "order_terms \<Rightarrow> numeric option" where
  "limitPriceOf (LimitTerms p po tif) = Some p"
| "limitPriceOf MarketTerms = None"

definition createRejectedBrokerOrder ::
  "order_submission \<Rightarrow> string \<Rightarrow> exchange_rejection \<Rightarrow> timestamp \<Rightarrow> broker_order result" where
  "createRejectedBrokerOrder submission brokerOrderId rejection updatedAt =
     (let intent = os_intent submission
      in bindR (parseFinancialDecimal (oi_requestedQuantity intent)) (\<lambda>requested.
           Inr \<lparr>bo_brokerOrderId = brokerOrderId, bo_idempotencyKey = oi_idempotencyKey intent,
                bo_exchangeId = oi_exchangeId intent, bo_market = oi_market intent,
                bo_side = oi_side intent, bo_orderType = oi_orderType intent, bo_status = REJECTED,
                bo_requestedQuantity = requested, bo_remainingQuantity = 0,
                bo_requestedPrice = limitPriceOf (oi_terms intent), bo_acceptedAt = None,
                bo_updatedAt = updatedAt,
                bo_metadata = \<lparr>oe_submittedAt = os_submittedAt submission,
                  oe_paperBrokerRejection = Some rejection, oe_paperFillSimulation = None,
                  oe_balanceMutation = None, oe_balanceMutationApplied = None,
                  oe_paperBalanceRejection = None, oe_paperCancel = None\<rparr>\<rparr>))"

definition isAcceptedBrokerStatus :: "order_status \<Rightarrow> bool" where
  "isAcceptedBrokerStatus status \<longleftrightarrow> status \<noteq> REJECTED \<and> status \<noteq> FAILED"

definition createBrokerOrderFromSimulation ::
  "order_submission \<Rightarrow> string \<Rightarrow> fill_result \<Rightarrow> balance_mutation \<Rightarrow> paper_order_state \<Rightarrow> timestamp
   \<Rightarrow> broker_order" where
  "createBrokerOrderFromSimulation submission brokerOrderId sim mutation orderState updatedAt =
     (let intent = os_intent submission
      in \<lparr>bo_brokerOrderId = brokerOrderId, bo_idempotencyKey = oi_idempotencyKey intent,
          bo_exchangeId = oi_exchangeId intent, bo_market = oi_market intent,
          bo_side = oi_side intent, bo_orderType = oi_orderType intent,
          bo_status = pos_status orderState, bo_requestedQuantity = fr_requestedQuantity sim,
          bo_remainingQuantity = pos_remainingQuantity orderState,
          bo_requestedPrice = limitPriceOf (oi_terms intent),
          bo_acceptedAt = (if isAcceptedBrokerStatus (pos_status orderState) then Some updatedAt else None),
          bo_updatedAt = updatedAt,
          bo_metadata = \<lparr>oe_submittedAt = os_submittedAt submission, oe_paperBrokerRejection = None,
            oe_paperFillSimulation = Some sim, oe_balanceMutation = Some mutation,
            oe_balanceMutationApplied = Some (pos_balanceMutationApplied orderState),
            oe_paperBalanceRejection = pos_balanceRejection orderState, oe_paperCancel = None\<rparr>\<rparr>)"

definition createCanceledOrder :: "broker_order \<Rightarrow> cancel_mutation \<Rightarrow> timestamp \<Rightarrow> broker_order" where
  "createCanceledOrder order cancelMutation canceledAt =
     order\<lparr>bo_status := CANCELED, bo_remainingQuantity := 0, bo_updatedAt := canceledAt,
           bo_metadata := (bo_metadata order)\<lparr>oe_paperCancel := Some (canceledAt, cancelMutation)\<rparr>\<rparr>"

definition isOpenBrokerOrder :: "broker_order \<Rightarrow> bool" where
  "isOpenBrokerOrder order \<longleftrightarrow>
     (bo_status order = SUBMITTED \<or> bo_status order = ACCEPTED \<or> bo_status order = PARTIALLY_FILLED) \<and>
     0 < bo_remainingQuantity order"

definition createSubmissionFingerprint :: "order_intent \<Rightarrow> json result" where
  "createSubmissionFingerprint intent =
     bindR (parseFinancialDecimal (oi_requestedQuantity intent)) (\<lambda>quantity.
     bindR (parseFinancialDecimal (oi_requestedNotional intent)) (\<lambda>notional.
       let common = [(''exchange_id'', JStr (oi_exchangeId intent)),
                     (''market'', JStr (oi_market intent)),
                     (''strategy_id'', JStr (oi_strategyId intent)),
                     (''side'', JStr (sideName (oi_side intent))),
                     (''order_type'', JStr (orderTypeName (oi_orderType intent))),
                     (''requested_quantity'', JNum (Num quantity)),
                     (''requested_notional'', JNum (Num notional)),
                     (''idempotency_key'', JStr (oi_idempotencyKey intent))]
       in case oi_terms intent of
            MarketTerms \<Rightarrow> Inr (JObj common)
          | LimitTerms price po tif \<Rightarrow>
              bindR (parseFinancialDecimal price) (\<lambda>p.
                Inr (JObj (common @
                  [(''requested_price'', JNum (Num p)), (''post_only'', JBool (po = Some True)),
                   (''time_in_force'', JStr (timeInForceName (case tif of None \<Rightarrow> GTC | Some t \<Rightarrow> t)))])))))"

section \<open>Order book window\<close>

definition createOrderbookKey :: "string \<Rightarrow> string \<Rightarrow> string" where
  "createOrderbookKey exchangeId market = exchangeId @ '':'' @ market"

definition instantOf :: "orderbook \<Rightarrow> int" where
  "instantOf b = (case readTimestampNanos (ob_receivedAt b) of Inl e \<Rightarrow> 0 | Inr n \<Rightarrow> n)"

definition sortSnapshots :: "orderbook list \<Rightarrow> orderbook list result" where
  "sortSnapshots bs =
     (if length bs \<le> 1 then Inr bs
      else bindR (mapR (\<lambda>b. readTimestampNanos (ob_receivedAt b)) bs) (\<lambda>_. Inr (sort_key instantOf bs)))"

definition recordOrderbookSnapshot :: "orderbook \<Rightarrow> paper_broker \<Rightarrow> paper_broker \<times> unit result" where
  "recordOrderbookSnapshot snapshot b =
     (let key = createOrderbookKey (ob_exchangeId snapshot) (ob_market snapshot);
          pushed = (case map_of (pb_orderbooksByMarket b) key of None \<Rightarrow> [snapshot]
                    | Some bs \<Rightarrow> bs @ [snapshot])
      in case sortSnapshots pushed of
           Inl e \<Rightarrow> (b\<lparr>pb_orderbooksByMarket := AList.update key pushed (pb_orderbooksByMarket b)\<rparr>, Inl e)
         | Inr ordered \<Rightarrow>
             (b\<lparr>pb_orderbooksByMarket := AList.update key ordered (pb_orderbooksByMarket b)\<rparr>, Inr ()))"

fun recordAll :: "orderbook list \<Rightarrow> paper_broker \<Rightarrow> paper_broker \<times> unit result" where
  "recordAll [] b = (b, Inr ())"
| "recordAll (s # ss) b =
     (case recordOrderbookSnapshot s b of
        (b', Inl e) \<Rightarrow> (b', Inl e)
      | (b', Inr u) \<Rightarrow> recordAll ss b')"

definition replaceOrderbookSnapshots ::
  "orderbook list \<Rightarrow> paper_broker \<Rightarrow> paper_broker \<times> unit result" where
  "replaceOrderbookSnapshots snapshots b = recordAll snapshots (b\<lparr>pb_orderbooksByMarket := []\<rparr>)"

fun shouldWaitForPostSubmitSnapshot :: "js_number option \<Rightarrow> bool" where
  "shouldWaitForPostSubmitSnapshot None = False"
| "shouldWaitForPostSubmitSnapshot (Some (JsFinite ms)) = (0 < ms)"
| "shouldWaitForPostSubmitSnapshot (Some JsInfinity) = True"
| "shouldWaitForPostSubmitSnapshot (Some JsNegInfinity) = False"
| "shouldWaitForPostSubmitSnapshot (Some JsNaN) = False"

fun scanImmediate ::
  "int \<Rightarrow> orderbook list \<Rightarrow> orderbook option \<Rightarrow> orderbook option \<Rightarrow> orderbook option result" where
  "scanImmediate submitted [] pre post = Inr (case pre of Some b \<Rightarrow> Some b | None \<Rightarrow> post)"
| "scanImmediate submitted (b # bs) pre post =
     bindR (readTimestampNanos (ob_receivedAt b)) (\<lambda>n.
       if n \<le> submitted then scanImmediate submitted bs (Some b) post
       else scanImmediate submitted bs pre (case post of None \<Rightarrow> Some b | Some p \<Rightarrow> Some p))"

definition selectImmediateExecutionOrderbook ::
  "orderbook list \<Rightarrow> timestamp \<Rightarrow> orderbook option result" where
  "selectImmediateExecutionOrderbook bs submittedAt =
     bindR (readTimestampNanos submittedAt) (\<lambda>n. scanImmediate n bs None None)"

definition readOrderbooksForIntent :: "order_intent \<Rightarrow> paper_broker \<Rightarrow> orderbook list" where
  "readOrderbooksForIntent intent b =
     (case map_of (pb_orderbooksByMarket b) (createOrderbookKey (oi_exchangeId intent) (oi_market intent)) of
        None \<Rightarrow> [] | Some bs \<Rightarrow> bs)"

definition createFillSimulationRequest ::
  "order_submission \<Rightarrow> paper_broker \<Rightarrow> (orderbook list \<times> fill_options) result" where
  "createFillSimulationRequest submission b =
     (let books = readOrderbooksForIntent (os_intent submission) b
      in if shouldWaitForPostSubmitSnapshot (fo_latencyMs (pb_fillOptions b))
         then Inr (books, (pb_fillOptions b)\<lparr>fo_submittedAt := Some (os_submittedAt submission)\<rparr>)
         else bindR (selectImmediateExecutionOrderbook books (os_submittedAt submission)) (\<lambda>immediate.
                Inr (case immediate of None \<Rightarrow> [] | Some book \<Rightarrow> [book], pb_fillOptions b)))"

section \<open>The broker port\<close>

fun initialBalances ::
  "rounding \<Rightarrow> timestamp \<Rightarrow> balance_input list \<Rightarrow> (string \<times> broker_balance) list
   \<Rightarrow> (string \<times> broker_balance) list result" where
  "initialBalances rnd now [] acc = Inr acc"
| "initialBalances rnd now (inp # inps) acc =
     bindR (normalizeInitialBalance rnd inp now) (\<lambda>balance.
       initialBalances rnd now inps (AList.update (normalizeCurrency (bi_currency inp)) balance acc))"

definition newPaperBroker ::
  "string \<Rightarrow> fill_options \<Rightarrow> string option \<Rightarrow> (string \<times> broker_balance) list \<Rightarrow> paper_broker" where
  "newPaperBroker exchangeId options prefix balancesByCurrency =
     \<lparr>pb_exchangeId = exchangeId, pb_fillOptions = options\<lparr>fo_submittedAt := None\<rparr>,
      pb_brokerOrderIdPrefix = (case prefix of None \<Rightarrow> ''paper-order'' | Some p \<Rightarrow> p),
      pb_ordersById = [], pb_orderIdsByIdempotencyKey = [], pb_fingerprintsByIdempotencyKey = [],
      pb_balancesByCurrency = balancesByCurrency, pb_orderbooksByMarket = [], pb_nextOrderSequence = 1\<rparr>"

definition createPaperBroker ::
  "rounding \<Rightarrow> string \<Rightarrow> balance_input list \<Rightarrow> orderbook list \<Rightarrow> fill_options \<Rightarrow> string option
   \<Rightarrow> timestamp \<Rightarrow> paper_broker result" where
  "createPaperBroker rnd exchangeId balances snapshots options prefix now =
     bindR (initialBalances rnd now balances []) (\<lambda>balancesByCurrency.
       case recordAll snapshots (newPaperBroker exchangeId options prefix balancesByCurrency) of
         (b, Inl e) \<Rightarrow> Inl e
       | (b, Inr u) \<Rightarrow> Inr b)"

definition createBrokerOrderId :: "paper_broker \<Rightarrow> string" where
  "createBrokerOrderId b = pb_brokerOrderIdPrefix b @ ''-'' @ natText (pb_nextOrderSequence b)"

definition storeOrder :: "broker_order \<Rightarrow> json \<Rightarrow> paper_broker \<Rightarrow> paper_broker" where
  "storeOrder order fingerprint b =
     b\<lparr>pb_ordersById := AList.update (bo_brokerOrderId order) order (pb_ordersById b),
       pb_orderIdsByIdempotencyKey :=
         AList.update (bo_idempotencyKey order) (bo_brokerOrderId order) (pb_orderIdsByIdempotencyKey b),
       pb_fingerprintsByIdempotencyKey :=
         AList.update (bo_idempotencyKey order) fingerprint (pb_fingerprintsByIdempotencyKey b)\<rparr>"

definition settleSubmission ::
  "rounding \<Rightarrow> timestamp \<Rightarrow> order_submission \<Rightarrow> string \<Rightarrow> paper_broker
   \<Rightarrow> (broker_order \<times> paper_broker) result" where
  "settleSubmission rnd now submission brokerOrderId b =
     bindR (createFillSimulationRequest submission b) (\<lambda>(books, options).
     bindR (simulatePaperFill rnd (os_intent submission) books options) (\<lambda>sim.
     bindR (createSubmissionBalanceMutation rnd (os_intent submission) sim) (\<lambda>mutation.
       let validation = validateBalanceMutation rnd b mutation;
           orderState = createOrderStateFromSimulation sim validation;
           b' = (if validation = BalanceValid then applySubmissionBalanceMutation rnd mutation now b else b)
       in Inr (createBrokerOrderFromSimulation submission brokerOrderId sim mutation orderState now, b'))))"

definition submitOrder ::
  "rounding \<Rightarrow> timestamp \<Rightarrow> order_submission \<Rightarrow> paper_broker \<Rightarrow> paper_broker \<times> broker_order result" where
  "submitOrder rnd now submission b =
     (let intent = os_intent submission; key = oi_idempotencyKey intent
      in case createSubmissionFingerprint intent of
           Inl e \<Rightarrow> (b, Inl e)
         | Inr fingerprint \<Rightarrow>
             (case map_of (pb_orderIdsByIdempotencyKey b) key of
                Some existingOrderId \<Rightarrow>
                  if map_of (pb_fingerprintsByIdempotencyKey b) key \<noteq> Some fingerprint
                  then (b, Inl (PaperBrokerIdempotencyConflictError key))
                  else (case map_of (pb_ordersById b) existingOrderId of
                          None \<Rightarrow> (b, Inl (PaperBrokerOrderNotFoundError existingOrderId))
                        | Some order \<Rightarrow> (b, Inr order))
              | None \<Rightarrow>
                  let brokerOrderId = createBrokerOrderId b;
                      b1 = b\<lparr>pb_nextOrderSequence := pb_nextOrderSequence b + 1\<rparr>
                  in case createExchangeRejection intent (pb_exchangeId b) of
                       Some rejection \<Rightarrow>
                         (case createRejectedBrokerOrder submission brokerOrderId rejection now of
                            Inl e \<Rightarrow> (b1, Inl e)
                          | Inr order \<Rightarrow> (storeOrder order fingerprint b1, Inr order))
                     | None \<Rightarrow>
                         (case settleSubmission rnd now submission brokerOrderId b1 of
                            Inl e \<Rightarrow> (b1, Inl e)
                          | Inr (order, b2) \<Rightarrow> (storeOrder order fingerprint b2, Inr order))))"

definition releaseOpenBalance ::
  "rounding \<Rightarrow> broker_order \<Rightarrow> timestamp \<Rightarrow> paper_broker \<Rightarrow> (cancel_mutation \<times> paper_broker) result" where
  "releaseOpenBalance rnd order canceledAt b =
     bindR (parseMarketCurrencies (bo_market order)) (\<lambda>(quoteCurrency, baseCurrency).
       let canceled = bo_remainingQuantity order;
           summary = (\<lambda>currency released. \<lparr>cm_baseCurrency = baseCurrency,
             cm_quoteCurrency = quoteCurrency, cm_releasedCurrency = currency,
             cm_releasedQuantity = released, cm_canceledQuantity = canceled\<rparr>)
       in case (bo_orderType order, bo_requestedPrice order) of
            (LIMIT, Some price) \<Rightarrow>
              if \<not> 0 < canceled then Inr (summary [] 0, b)
              else (case bo_side order of
                      BUY \<Rightarrow> bindR (multiplyDecimalStrings rnd (Num canceled) price) (\<lambda>released.
                        Inr (summary quoteCurrency released,
                             applyBalanceDelta rnd quoteCurrency released (- released) canceledAt b))
                    | SELL \<Rightarrow> Inr (summary baseCurrency canceled,
                             applyBalanceDelta rnd baseCurrency canceled (- canceled) canceledAt b))
          | _ \<Rightarrow> Inr (summary [] 0, b))"

definition cancelOrder ::
  "rounding \<Rightarrow> timestamp \<Rightarrow> string \<Rightarrow> paper_broker \<Rightarrow> paper_broker \<times> broker_order result" where
  "cancelOrder rnd now orderId b =
     (case map_of (pb_ordersById b) orderId of
        None \<Rightarrow> (b, Inl (PaperBrokerOrderNotFoundError orderId))
      | Some existingOrder \<Rightarrow>
          if \<not> isOpenBrokerOrder existingOrder then (b, Inr existingOrder)
          else (case releaseOpenBalance rnd existingOrder now b of
                  Inl e \<Rightarrow> (b, Inl e)
                | Inr (cancelMutation, b') \<Rightarrow>
                    let canceledOrder = createCanceledOrder existingOrder cancelMutation now
                    in (b'\<lparr>pb_ordersById :=
                             AList.update (bo_brokerOrderId canceledOrder) canceledOrder (pb_ordersById b')\<rparr>,
                        Inr canceledOrder)))"

definition getOrder :: "string \<Rightarrow> paper_broker \<Rightarrow> broker_order option" where
  "getOrder orderId b = map_of (pb_ordersById b) orderId"

definition listOpenOrders :: "string option \<Rightarrow> paper_broker \<Rightarrow> broker_order list" where
  "listOpenOrders market b =
     filter (\<lambda>order. \<not> (market \<noteq> None \<and> market \<noteq> Some (bo_market order)) \<and> isOpenBrokerOrder order)
       (map snd (pb_ordersById b))"

record balance_snapshot =
  bs_exchangeId :: string
  bs_balances :: "broker_balance list"
  bs_capturedAt :: timestamp
  bs_openOrderCount :: nat

definition getBalances :: "timestamp \<Rightarrow> paper_broker \<Rightarrow> balance_snapshot" where
  "getBalances now b =
     \<lparr>bs_exchangeId = pb_exchangeId b, bs_balances = map snd (pb_balancesByCurrency b),
      bs_capturedAt = now,
      bs_openOrderCount = length (filter isOpenBrokerOrder (map snd (pb_ordersById b)))\<rparr>"

section \<open>Sequences of operations\<close>

datatype broker_op =
    Submit timestamp order_submission
  | Cancel timestamp string
  | RecordSnapshot orderbook
  | ReplaceSnapshots "orderbook list"

fun applyOp :: "rounding \<Rightarrow> broker_op \<Rightarrow> paper_broker \<Rightarrow> paper_broker" where
  "applyOp rnd (Submit now s) b = fst (submitOrder rnd now s b)"
| "applyOp rnd (Cancel now orderId) b = fst (cancelOrder rnd now orderId b)"
| "applyOp rnd (RecordSnapshot snapshot) b = fst (recordOrderbookSnapshot snapshot b)"
| "applyOp rnd (ReplaceSnapshots snapshots) b = fst (replaceOrderbookSnapshots snapshots b)"

definition runOps :: "rounding \<Rightarrow> broker_op list \<Rightarrow> paper_broker \<Rightarrow> paper_broker" where
  "runOps rnd ops b = fold (applyOp rnd) ops b"

section \<open>Lemmas: what each step touches\<close>

lemma applyBalanceDelta_frame [simp]:
  "pb_ordersById (applyBalanceDelta rnd c a l t b) = pb_ordersById b"
  "pb_orderIdsByIdempotencyKey (applyBalanceDelta rnd c a l t b) = pb_orderIdsByIdempotencyKey b"
  "pb_fingerprintsByIdempotencyKey (applyBalanceDelta rnd c a l t b) = pb_fingerprintsByIdempotencyKey b"
  "pb_nextOrderSequence (applyBalanceDelta rnd c a l t b) = pb_nextOrderSequence b"
  "pb_brokerOrderIdPrefix (applyBalanceDelta rnd c a l t b) = pb_brokerOrderIdPrefix b"
  "pb_exchangeId (applyBalanceDelta rnd c a l t b) = pb_exchangeId b"
  by (simp_all add: applyBalanceDelta_def Let_def)

lemma applySubmissionBalanceMutation_frame [simp]:
  "pb_ordersById (applySubmissionBalanceMutation rnd m t b) = pb_ordersById b"
  "pb_orderIdsByIdempotencyKey (applySubmissionBalanceMutation rnd m t b) = pb_orderIdsByIdempotencyKey b"
  "pb_fingerprintsByIdempotencyKey (applySubmissionBalanceMutation rnd m t b) =
     pb_fingerprintsByIdempotencyKey b"
  "pb_nextOrderSequence (applySubmissionBalanceMutation rnd m t b) = pb_nextOrderSequence b"
  "pb_brokerOrderIdPrefix (applySubmissionBalanceMutation rnd m t b) = pb_brokerOrderIdPrefix b"
  by (simp_all add: applySubmissionBalanceMutation_def)

lemma recordOrderbookSnapshot_frame:
  obtains ws where "fst (recordOrderbookSnapshot snapshot b) = b\<lparr>pb_orderbooksByMarket := ws\<rparr>"
proof
  show "fst (recordOrderbookSnapshot snapshot b) =
      b\<lparr>pb_orderbooksByMarket := pb_orderbooksByMarket (fst (recordOrderbookSnapshot snapshot b))\<rparr>"
    by (simp add: recordOrderbookSnapshot_def Let_def split: sum.split)
qed

lemma recordAll_frame:
  obtains ws where "fst (recordAll snapshots b) = b\<lparr>pb_orderbooksByMarket := ws\<rparr>"
proof -
  have "\<exists>ws. fst (recordAll snapshots b) = b\<lparr>pb_orderbooksByMarket := ws\<rparr>"
  proof (induction snapshots arbitrary: b)
    case Nil
    show ?case by (intro exI [where x = "pb_orderbooksByMarket b"]) simp
  next
    case (Cons s ss)
    obtain ws where "fst (recordOrderbookSnapshot s b) = b\<lparr>pb_orderbooksByMarket := ws\<rparr>"
      by (rule recordOrderbookSnapshot_frame)
    then show ?case using Cons [of "b\<lparr>pb_orderbooksByMarket := ws\<rparr>"]
      by (auto split: prod.splits sum.splits)
  qed
  then show thesis using that by blast
qed

text \<open>The outcomes of a settled submission.\<close>

lemma settleSubmission_cases:
  assumes "settleSubmission rnd now s oid b = Inr (order, b')"
  obtains books options sim mutation where
    "simulatePaperFill rnd (os_intent s) books options = Inr sim"
    "createSubmissionBalanceMutation rnd (os_intent s) sim = Inr mutation"
    "order = createBrokerOrderFromSimulation s oid sim mutation
       (createOrderStateFromSimulation sim (validateBalanceMutation rnd b mutation)) now"
    "b' = (if validateBalanceMutation rnd b mutation = BalanceValid
           then applySubmissionBalanceMutation rnd mutation now b else b)"
  using assms by (auto simp: settleSubmission_def bindR_Inr_iff Let_def)

lemma settleSubmission_frame:
  assumes "settleSubmission rnd now s oid b = Inr (order, b')"
  shows "pb_ordersById b' = pb_ordersById b"
    "pb_orderIdsByIdempotencyKey b' = pb_orderIdsByIdempotencyKey b"
    "pb_fingerprintsByIdempotencyKey b' = pb_fingerprintsByIdempotencyKey b"
    "pb_nextOrderSequence b' = pb_nextOrderSequence b"
    "pb_brokerOrderIdPrefix b' = pb_brokerOrderIdPrefix b"
    "bo_brokerOrderId order = oid" "bo_idempotencyKey order = oi_idempotencyKey (os_intent s)"
  using assms by (auto elim!: settleSubmission_cases
      simp: createBrokerOrderFromSimulation_def Let_def)

lemma createRejectedBrokerOrder_Inr:
  assumes "createRejectedBrokerOrder s oid rejection now = Inr order"
  shows "bo_brokerOrderId order = oid" "bo_idempotencyKey order = oi_idempotencyKey (os_intent s)"
    "bo_status order = REJECTED" "bo_remainingQuantity order = 0"
    "bo_requestedPrice order = limitPriceOf (oi_terms (os_intent s))"
  using assms by (auto simp: createRejectedBrokerOrder_def Let_def bindR_Inr_iff)

lemma submitOrder_cases:
  assumes "submitOrder rnd now s b = (b', r)"
  obtains (failed) e where "r = Inl e" "b' = b \<or> b' = b\<lparr>pb_nextOrderSequence := Suc (pb_nextOrderSequence b)\<rparr>"
    | (known) fp oid order where
        "createSubmissionFingerprint (os_intent s) = Inr fp" "r = Inr order" "b' = b"
        "map_of (pb_orderIdsByIdempotencyKey b) (oi_idempotencyKey (os_intent s)) = Some oid"
        "map_of (pb_fingerprintsByIdempotencyKey b) (oi_idempotencyKey (os_intent s)) = Some fp"
        "map_of (pb_ordersById b) oid = Some order"
    | (rejected) fp rejection order where
        "createSubmissionFingerprint (os_intent s) = Inr fp" "r = Inr order"
        "map_of (pb_orderIdsByIdempotencyKey b) (oi_idempotencyKey (os_intent s)) = None"
        "createRejectedBrokerOrder s (createBrokerOrderId b) rejection now = Inr order"
        "b' = storeOrder order fp (b\<lparr>pb_nextOrderSequence := Suc (pb_nextOrderSequence b)\<rparr>)"
    | (settled) fp order b2 where
        "createSubmissionFingerprint (os_intent s) = Inr fp" "r = Inr order"
        "map_of (pb_orderIdsByIdempotencyKey b) (oi_idempotencyKey (os_intent s)) = None"
        "settleSubmission rnd now s (createBrokerOrderId b)
           (b\<lparr>pb_nextOrderSequence := Suc (pb_nextOrderSequence b)\<rparr>) = Inr (order, b2)"
        "b' = storeOrder order fp b2"
proof (cases "createSubmissionFingerprint (os_intent s)")
  case (Inl e)
  then show thesis using assms by (auto simp: submitOrder_def Let_def intro: failed)
next
  case fp: (Inr fp)
  show thesis
  proof (cases "map_of (pb_orderIdsByIdempotencyKey b) (oi_idempotencyKey (os_intent s))")
    case oid: (Some oid)
    show thesis
    proof (cases "map_of (pb_fingerprintsByIdempotencyKey b) (oi_idempotencyKey (os_intent s)) = Some fp")
      case False
      then show thesis using assms fp oid by (auto simp: submitOrder_def Let_def intro: failed)
    next
      case True
      then show thesis using assms fp oid
        by (cases "map_of (pb_ordersById b) oid") (auto simp: submitOrder_def Let_def intro: failed known)
    qed
  next
    case new: None
    show thesis
    proof (cases "createExchangeRejection (os_intent s) (pb_exchangeId b)")
      case (Some rejection)
      show thesis
      proof (cases "createRejectedBrokerOrder s (createBrokerOrderId b) rejection now")
        case (Inl e)
        have "r = Inl e" "b' = b\<lparr>pb_nextOrderSequence := Suc (pb_nextOrderSequence b)\<rparr>"
          using assms fp new Some Inl by (simp_all add: submitOrder_def Let_def)
        then show thesis by (intro failed) simp_all
      next
        case (Inr order)
        have "r = Inr order" "b' = storeOrder order fp (b\<lparr>pb_nextOrderSequence := Suc (pb_nextOrderSequence b)\<rparr>)"
          using assms fp new Some Inr by (simp_all add: submitOrder_def Let_def)
        then show thesis using fp new Inr by (intro rejected)
      qed
    next
      case None
      then show thesis using assms fp new
        by (cases "settleSubmission rnd now s (createBrokerOrderId b)
              (b\<lparr>pb_nextOrderSequence := Suc (pb_nextOrderSequence b)\<rparr>)" rule: sum.exhaust)
          (auto simp: submitOrder_def Let_def intro: failed settled)
    qed
  qed
qed

lemma cancelOrder_cases:
  assumes "cancelOrder rnd now oid b = (b', r)"
  obtains (failed) e where "r = Inl e" "b' = b"
    | (closed) order where "map_of (pb_ordersById b) oid = Some order" "\<not> isOpenBrokerOrder order"
        "r = Inr order" "b' = b"
    | (released) order cm b2 where "map_of (pb_ordersById b) oid = Some order" "isOpenBrokerOrder order"
        "releaseOpenBalance rnd order now b = Inr (cm, b2)"
        "r = Inr (createCanceledOrder order cm now)"
        "b' = b2\<lparr>pb_ordersById := AList.update (bo_brokerOrderId (createCanceledOrder order cm now))
                   (createCanceledOrder order cm now) (pb_ordersById b2)\<rparr>"
  using assms unfolding cancelOrder_def Let_def
  by (auto split: sum.splits option.splits if_splits)

lemma releaseOpenBalance_cases:
  assumes "releaseOpenBalance rnd order now b = Inr (cm, b')"
  obtains (nothing) "b' = b" "bo_orderType order = MARKET \<or> bo_requestedPrice order = None \<or>
        \<not> 0 < bo_remainingQuantity order"
    | (buy) quote base price p where "parseMarketCurrencies (bo_market order) = Inr (quote, base)"
        "bo_side order = BUY" "bo_requestedPrice order = Some price" "parseFinancialDecimal price = Inr p"
        "b' = applyBalanceDelta rnd quote (dtimes rnd (bo_remainingQuantity order) p)
           (- dtimes rnd (bo_remainingQuantity order) p) now b"
    | (sell) quote base where "parseMarketCurrencies (bo_market order) = Inr (quote, base)"
        "bo_side order = SELL"
        "b' = applyBalanceDelta rnd base (bo_remainingQuantity order) (- bo_remainingQuantity order) now b"
  using assms unfolding releaseOpenBalance_def Let_def multiplyDecimalStrings_def
  by (cases "bo_orderType order"; cases "bo_requestedPrice order"; cases "bo_side order")
    (auto simp: bindR_Inr_iff split: if_splits)

lemma releaseOpenBalance_frame:
  assumes "releaseOpenBalance rnd order now b = Inr (cm, b')"
  shows "pb_ordersById b' = pb_ordersById b"
    "pb_orderIdsByIdempotencyKey b' = pb_orderIdsByIdempotencyKey b"
    "pb_fingerprintsByIdempotencyKey b' = pb_fingerprintsByIdempotencyKey b"
    "pb_nextOrderSequence b' = pb_nextOrderSequence b"
    "pb_brokerOrderIdPrefix b' = pb_brokerOrderIdPrefix b"
  using assms by (auto elim!: releaseOpenBalance_cases)

section \<open>The index invariant\<close>

text \<open>
  The three order maps agree: every idempotency key leads to a stored order with that key and has a
  fingerprint, every stored order is found under its own id and its own key, and every id was issued
  by the counter.
\<close>

definition indexOk :: "paper_broker \<Rightarrow> bool" where
  "indexOk b \<longleftrightarrow>
     (\<forall>key oid. map_of (pb_orderIdsByIdempotencyKey b) key = Some oid \<longrightarrow>
        (\<exists>ord. map_of (pb_ordersById b) oid = Some ord \<and> bo_idempotencyKey ord = key)) \<and>
     (\<forall>oid ord. map_of (pb_ordersById b) oid = Some ord \<longrightarrow> bo_brokerOrderId ord = oid \<and>
        map_of (pb_orderIdsByIdempotencyKey b) (bo_idempotencyKey ord) = Some oid \<and>
        (\<exists>n < pb_nextOrderSequence b. oid = pb_brokerOrderIdPrefix b @ ''-'' @ natText n)) \<and>
     (\<forall>key. map_of (pb_fingerprintsByIdempotencyKey b) key = None \<longleftrightarrow>
        map_of (pb_orderIdsByIdempotencyKey b) key = None)"

lemma indexOk_cong:
  assumes "indexOk b" "pb_ordersById b' = pb_ordersById b"
    "pb_orderIdsByIdempotencyKey b' = pb_orderIdsByIdempotencyKey b"
    "pb_fingerprintsByIdempotencyKey b' = pb_fingerprintsByIdempotencyKey b"
    "pb_nextOrderSequence b \<le> pb_nextOrderSequence b'"
    "pb_brokerOrderIdPrefix b' = pb_brokerOrderIdPrefix b"
  shows "indexOk b'"
  using assms(1) less_le_trans [OF _ assms(5)] by (simp add: indexOk_def assms(2,3,4,6)) blast

lemma indexOkD:
  assumes "indexOk b"
  shows "map_of (pb_orderIdsByIdempotencyKey b) key = Some oid \<Longrightarrow>
      \<exists>ord. map_of (pb_ordersById b) oid = Some ord \<and> bo_idempotencyKey ord = key"
    and "map_of (pb_ordersById b) oid = Some ord \<Longrightarrow>
      bo_brokerOrderId ord = oid \<and> map_of (pb_orderIdsByIdempotencyKey b) (bo_idempotencyKey ord) = Some oid"
    and "map_of (pb_ordersById b) oid = Some ord \<Longrightarrow>
      \<exists>n < pb_nextOrderSequence b. oid = pb_brokerOrderIdPrefix b @ ''-'' @ natText n"
    and "map_of (pb_fingerprintsByIdempotencyKey b) key = None \<longleftrightarrow>
      map_of (pb_orderIdsByIdempotencyKey b) key = None"
  using assms unfolding indexOk_def by blast+

lemma createBrokerOrderId_fresh:
  assumes "indexOk b"
  shows "map_of (pb_ordersById b) (createBrokerOrderId b) = None"
proof (cases "map_of (pb_ordersById b) (createBrokerOrderId b)")
  case (Some ord)
  then show ?thesis using indexOkD(3) [OF assms Some] by (auto simp: createBrokerOrderId_def)
qed

text \<open>Storing a new order under the next id: the maps agree again.\<close>

lemma indexOk_store:
  assumes b: "indexOk b" and new: "map_of (pb_orderIdsByIdempotencyKey b) (bo_idempotencyKey ord) = None"
    and oid: "bo_brokerOrderId ord = createBrokerOrderId b"
    and b2: "pb_ordersById b2 = pb_ordersById b"
      "pb_orderIdsByIdempotencyKey b2 = pb_orderIdsByIdempotencyKey b"
      "pb_fingerprintsByIdempotencyKey b2 = pb_fingerprintsByIdempotencyKey b"
      "pb_nextOrderSequence b2 = Suc (pb_nextOrderSequence b)"
      "pb_brokerOrderIdPrefix b2 = pb_brokerOrderIdPrefix b"
  shows "indexOk (storeOrder ord fp b2)"
proof -
  have fresh: "map_of (pb_orderIdsByIdempotencyKey b) key \<noteq> Some (createBrokerOrderId b)" for key
    using indexOkD(1) [OF b] createBrokerOrderId_fresh [OF b] by fastforce
  have "bo_idempotencyKey o' \<noteq> bo_idempotencyKey ord" if "map_of (pb_ordersById b) oid' = Some o'" for oid' o'
    using indexOkD(2) [OF b that] new by auto
  then show ?thesis
    using b oid fresh new createBrokerOrderId_fresh [OF b]
    by (fastforce simp: indexOk_def storeOrder_def b2 createBrokerOrderId_def less_Suc_eq)
qed

lemma indexOk_submitOrder:
  assumes "indexOk b"
  shows "indexOk (fst (submitOrder rnd now s b))"
proof -
  obtain b' r where sub: "submitOrder rnd now s b = (b', r)" by (rule prod.exhaust)
  from sub have "indexOk b'"
  proof (cases rule: submitOrder_cases)
    case (failed e)
    then show ?thesis using assms by (auto elim: indexOk_cong)
  next
    case (known fp oid ord)
    then show ?thesis using assms by simp
  next
    case (rejected fp rejection ord)
    then show ?thesis using assms createRejectedBrokerOrder_Inr [OF rejected(4)]
      by (auto intro!: indexOk_store)
  next
    case (settled fp ord b2)
    then show ?thesis using assms settleSubmission_frame [OF settled(4)]
      by (auto intro!: indexOk_store [where b = b])
  qed
  then show ?thesis by (simp add: sub)
qed

lemma createCanceledOrder_simps [simp]:
  "bo_brokerOrderId (createCanceledOrder ord cm t) = bo_brokerOrderId ord"
  "bo_idempotencyKey (createCanceledOrder ord cm t) = bo_idempotencyKey ord"
  "bo_status (createCanceledOrder ord cm t) = CANCELED"
  "bo_remainingQuantity (createCanceledOrder ord cm t) = 0"
  "bo_requestedPrice (createCanceledOrder ord cm t) = bo_requestedPrice ord"
  by (simp_all add: createCanceledOrder_def)

lemma indexOk_cancelOrder:
  assumes "indexOk b"
  shows "indexOk (fst (cancelOrder rnd now oid b))"
proof -
  obtain b' r where can: "cancelOrder rnd now oid b = (b', r)" by (rule prod.exhaust)
  from can have "indexOk b'"
  proof (cases rule: cancelOrder_cases)
    case (released ord cm b2)
    note frame = releaseOpenBalance_frame [OF released(3)]
    have "bo_brokerOrderId ord = oid" using indexOkD(2) [OF assms released(1)] by simp
    then show ?thesis using assms released(1) unfolding released(5)
      by (auto simp: indexOk_def frame) (metis option.inject)
  qed (use assms in simp_all)
  then show ?thesis by (simp add: can)
qed

lemma indexOk_applyOp: "indexOk b \<Longrightarrow> indexOk (applyOp rnd op b)"
proof (cases op)
  case (RecordSnapshot snapshot)
  obtain ws where "fst (recordOrderbookSnapshot snapshot b) = b\<lparr>pb_orderbooksByMarket := ws\<rparr>"
    by (rule recordOrderbookSnapshot_frame)
  moreover assume "indexOk b"
  ultimately show ?thesis by (simp add: RecordSnapshot indexOk_cong)
next
  case (ReplaceSnapshots snapshots)
  obtain ws where "fst (recordAll snapshots (b\<lparr>pb_orderbooksByMarket := []\<rparr>)) =
      b\<lparr>pb_orderbooksByMarket := []\<rparr>\<lparr>pb_orderbooksByMarket := ws\<rparr>"
    by (rule recordAll_frame)
  moreover assume "indexOk b"
  ultimately show ?thesis by (simp add: ReplaceSnapshots replaceOrderbookSnapshots_def indexOk_cong)
qed (simp_all add: indexOk_submitOrder indexOk_cancelOrder)

lemma runOps_induct [consumes 1, case_names step]:
  assumes "P b" and "\<And>op b. op \<in> set ops \<Longrightarrow> P b \<Longrightarrow> P (applyOp rnd op b)"
  shows "P (runOps rnd ops b)"
  using assms unfolding runOps_def by (induction ops arbitrary: b) simp_all

lemma createPaperBroker_empty:
  assumes "createPaperBroker rnd exchangeId balances snapshots options prefix now = Inr b"
  shows "pb_ordersById b = []" "pb_orderIdsByIdempotencyKey b = []"
    "pb_fingerprintsByIdempotencyKey b = []" "pb_nextOrderSequence b = 1"
    "initialBalances rnd now balances [] = Inr (pb_balancesByCurrency b)"
proof -
  obtain bal where bal: "initialBalances rnd now balances [] = Inr bal"
    and res: "(case recordAll snapshots (newPaperBroker exchangeId options prefix bal) of
      (b, Inl e) \<Rightarrow> Inl e | (b, Inr u) \<Rightarrow> Inr b) = Inr b"
    using assms by (auto simp: createPaperBroker_def bindR_Inr_iff)
  obtain b0 r where rec: "recordAll snapshots (newPaperBroker exchangeId options prefix bal) = (b0, r)"
    by (rule prod.exhaust)
  then have "b = b0" using res by (cases r) simp_all
  moreover obtain ws where "fst (recordAll snapshots (newPaperBroker exchangeId options prefix bal)) =
      newPaperBroker exchangeId options prefix bal\<lparr>pb_orderbooksByMarket := ws\<rparr>"
    by (rule recordAll_frame)
  ultimately have "b = newPaperBroker exchangeId options prefix bal\<lparr>pb_orderbooksByMarket := ws\<rparr>"
    by (simp add: rec)
  then show "pb_ordersById b = []" "pb_orderIdsByIdempotencyKey b = []"
    "pb_fingerprintsByIdempotencyKey b = []" "pb_nextOrderSequence b = 1"
    "initialBalances rnd now balances [] = Inr (pb_balancesByCurrency b)"
    using bal by (simp_all add: newPaperBroker_def)
qed

section \<open>The broker port contract\<close>

text \<open>
  What the callers of a \<^verbatim>\<open>BrokerPort\<close> (\<^verbatim>\<open>application/ports\<close>) rely on when they retry: a submission
  that returned an order returns it again without another effect, at once and after any other
  submissions.
\<close>

locale broker_port =
  fixes submit :: "timestamp \<Rightarrow> 's \<Rightarrow> 'b \<Rightarrow> 'b \<times> 'o result"
    and inv :: "'b \<Rightarrow> bool"
  assumes inv_submit: "inv b \<Longrightarrow> inv (fst (submit t s b))"
    and submit_registers: "inv b \<Longrightarrow> submit t s b = (b', Inr ord) \<Longrightarrow> submit t' s b' = (b', Inr ord)"
    and registered_kept: "inv b \<Longrightarrow> submit t s b = (b, Inr ord) \<Longrightarrow>
      submit t s (fst (submit t' s' b)) = (fst (submit t' s' b), Inr ord)"
begin

definition submitAll :: "(timestamp \<times> 's) list \<Rightarrow> 'b \<Rightarrow> 'b" where
  "submitAll ss b = fold (\<lambda>(t, s) b. fst (submit t s b)) ss b"

lemma submitAll_simps [simp]:
  "submitAll [] b = b"
  "submitAll ((t, s) # ss) b = submitAll ss (fst (submit t s b))"
  by (simp_all add: submitAll_def)

lemma registered_submitAll:
  "inv b \<Longrightarrow> submit t s b = (b, Inr ord) \<Longrightarrow>
   inv (submitAll ss b) \<and> submit t s (submitAll ss b) = (submitAll ss b, Inr ord)"
proof (induction ss arbitrary: b)
  case (Cons p ss)
  then show ?case
    by (cases p) (simp add: inv_submit registered_kept [OF Cons.prems])
qed simp

lemma resubmit_after_any_run:
  assumes "inv b" and sub: "submit t s b = (b1, Inr ord)"
  shows "submit t' s (submitAll ss b1) = (submitAll ss b1, Inr ord)"
proof -
  have "inv b1" using inv_submit [OF assms(1), of t s] sub by simp
  moreover have "submit t' s b1 = (b1, Inr ord)" by (rule submit_registers [OF assms])
  ultimately show ?thesis using registered_submitAll by blast
qed

end

definition registered :: "order_submission \<Rightarrow> broker_order \<Rightarrow> paper_broker \<Rightarrow> bool" where
  "registered s ord b \<longleftrightarrow> (\<exists>fp oid. createSubmissionFingerprint (os_intent s) = Inr fp \<and>
     map_of (pb_orderIdsByIdempotencyKey b) (oi_idempotencyKey (os_intent s)) = Some oid \<and>
     map_of (pb_fingerprintsByIdempotencyKey b) (oi_idempotencyKey (os_intent s)) = Some fp \<and>
     map_of (pb_ordersById b) oid = Some ord)"

lemma registered_submit: "registered s ord b \<Longrightarrow> submitOrder rnd t s b = (b, Inr ord)"
  by (auto simp: registered_def submitOrder_def Let_def)

lemma submit_registered:
  assumes "submitOrder rnd t s b = (b', Inr ord)"
  shows "registered s ord b'"
  using assms
proof (cases rule: submitOrder_cases)
  case (rejected fp rejection ord')
  then show ?thesis using createRejectedBrokerOrder_Inr [OF rejected(4)]
    by (simp add: registered_def storeOrder_def)
next
  case (settled fp ord' b2)
  then show ?thesis using settleSubmission_frame [OF settled(4)]
    by (simp add: registered_def storeOrder_def)
qed (auto simp: registered_def)

lemma registered_storeOrder:
  assumes "registered s ord b" and "map_of (pb_ordersById b) (bo_brokerOrderId ord') = None"
    and "map_of (pb_orderIdsByIdempotencyKey b) (bo_idempotencyKey ord') = None"
    and "pb_ordersById b2 = pb_ordersById b"
    and "pb_orderIdsByIdempotencyKey b2 = pb_orderIdsByIdempotencyKey b"
    and "pb_fingerprintsByIdempotencyKey b2 = pb_fingerprintsByIdempotencyKey b"
  shows "registered s ord (storeOrder ord' fp b2)"
proof -
  obtain fp' oid where r: "createSubmissionFingerprint (os_intent s) = Inr fp'"
    "map_of (pb_orderIdsByIdempotencyKey b) (oi_idempotencyKey (os_intent s)) = Some oid"
    "map_of (pb_fingerprintsByIdempotencyKey b) (oi_idempotencyKey (os_intent s)) = Some fp'"
    "map_of (pb_ordersById b) oid = Some ord"
    using assms(1) by (auto simp: registered_def)
  then have "oid \<noteq> bo_brokerOrderId ord'" "oi_idempotencyKey (os_intent s) \<noteq> bo_idempotencyKey ord'"
    using assms(2,3) by auto
  then show ?thesis unfolding registered_def
    using r assms(4-6) by (intro exI [where x = fp'] exI [where x = oid]) (simp add: storeOrder_def)
qed

lemma registered_kept_submit:
  assumes "indexOk b" and reg: "registered s ord b"
  shows "registered s ord (fst (submitOrder rnd t' s' b))"
proof -
  obtain b' r where sub: "submitOrder rnd t' s' b = (b', r)" by (rule prod.exhaust)
  note fresh = createBrokerOrderId_fresh [OF assms(1)]
  from sub have "registered s ord b'"
  proof (cases rule: submitOrder_cases)
    case (failed e)
    then show ?thesis using reg by (auto simp: registered_def)
  next
    case (rejected fp rejection ord')
    then show ?thesis using reg fresh createRejectedBrokerOrder_Inr [OF rejected(4)]
      by (auto intro!: registered_storeOrder [where b = b])
  next
    case (settled fp ord' b2)
    then show ?thesis using reg fresh settleSubmission_frame [OF settled(4)]
      by (auto intro!: registered_storeOrder [where b = b])
  qed (use reg in simp)
  then show ?thesis by (simp add: sub)
qed

interpretation paper: broker_port "submitOrder rnd" indexOk for rnd
proof unfold_locales
  show "indexOk b \<Longrightarrow> indexOk (fst (submitOrder rnd t s b))" for b t s
    by (rule indexOk_submitOrder)
  show "submitOrder rnd t s b = (b', Inr ord) \<Longrightarrow> submitOrder rnd t' s b' = (b', Inr ord)"
    for b t s b' ord t'
    by (intro registered_submit submit_registered)
  show "submitOrder rnd t s (fst (submitOrder rnd t' s' b)) = (fst (submitOrder rnd t' s' b), Inr ord)"
    if "indexOk b" "submitOrder rnd t s b = (b, Inr ord)" for b t s t' s' ord
    using that by (intro registered_submit registered_kept_submit submit_registered)
qed

section \<open>Properties\<close>

lemma runOps_submits:
  "runOps rnd (map (\<lambda>(t, s). Submit t s) ss) b = paper.submitAll rnd ss b"
  by (induction ss arbitrary: b) (auto simp: runOps_def)

lemma indexOk_created:
  "createPaperBroker rnd exchangeId balances snapshots options prefix now = Inr b \<Longrightarrow> indexOk b"
  using createPaperBroker_empty(1-3) by (simp add: indexOk_def)

text \<open>A worked example: a broker with 1000 KRW and one order book.\<close>

definition exampleSubmission :: "time_in_force option \<Rightarrow> bool option \<Rightarrow> order_submission" where
  "exampleSubmission tif po = \<lparr>os_intent = exampleIntent tif po, os_costSnapshot = JNull,
     os_riskApproval = JNull, os_expectedLossBpsOfEquity = None, os_submittedAt = At 7\<rparr>"

definition exampleBroker :: paper_broker where
  "exampleBroker = \<lparr>pb_exchangeId = ''UPBIT'', pb_fillOptions = exampleOptions,
     pb_brokerOrderIdPrefix = ''paper-order'', pb_ordersById = [], pb_orderIdsByIdempotencyKey = [],
     pb_fingerprintsByIdempotencyKey = [],
     pb_balancesByCurrency = [(''KRW'', \<lparr>bb_currency = ''KRW'', bb_available = 1000, bb_locked = 0,
       bb_total = 1000, bb_updatedAt = At 0, bb_metadata = None\<rparr>)],
     pb_orderbooksByMarket = [(''UPBIT:KRW-BTC'', [exampleBook])], pb_nextOrderSequence = 1\<rparr>"

definition exampleBalance :: balance_input where
  "exampleBalance = \<lparr>bi_currency = ''KRW '', bi_available = Num 1000, bi_locked = None, bi_total = None,
     bi_updatedAt = None, bi_metadata = None\<rparr>"

lemmas broker_eval =
  submitOrder_def createSubmissionFingerprint_def createExchangeRejection_def settleSubmission_def
  createFillSimulationRequest_def readOrderbooksForIntent_def createOrderbookKey_def
  selectImmediateExecutionOrderbook_def createSubmissionBalanceMutation_def parseMarketCurrencies_def
  normalizeCurrency_def toUpperCase_def trim_def isSpace_def upperChar_def calculateOpenQuoteLock_def
  multiplyDecimalStrings_def validateBalanceMutation_def validateAvailableBalance_def availableOf_def
  createOrderStateFromSimulation_def applySubmissionBalanceMutation_def applyBalanceDelta_def
  createBrokerOrderFromSimulation_def storeOrder_def createBrokerOrderId_def exampleSubmission_def
  exampleBroker_def createZeroBalance_def

lemma example_created:
  "createPaperBroker exactRound ''UPBIT'' [exampleBalance] [exampleBook] exampleOptions None (At 0) =
     Inr exampleBroker"
  by (simp add: createPaperBroker_def exampleBalance_def normalizeInitialBalance_def newPaperBroker_def
      recordOrderbookSnapshot_def sortSnapshots_def Let_def broker_eval fill_eval)

lemma example_submitted:
  "\<exists>b1 ord. submitOrder exactRound (At 9) (exampleSubmission None None) exampleBroker = (b1, Inr ord) \<and>
     bo_status ord = PARTIALLY_FILLED \<and> bo_remainingQuantity ord = 3/10"
  by (simp add: broker_eval fill_eval)

text \<open>
  One order per idempotency key. After any sequence of submissions, cancellations and order book
  updates, two stored orders with the same idempotency key are the same order, every stored order
  is found under its own id, and every key in the index leads to an order with that key.
\<close>

theorem paperBroker_one_order_per_key:
  assumes "createPaperBroker rnd exchangeId balances snapshots options prefix now = Inr b0"
    and "b = runOps rnd ops b0"
  shows "(\<forall>oid oid' ord ord'. getOrder oid b = Some ord \<longrightarrow> getOrder oid' b = Some ord' \<longrightarrow>
      bo_idempotencyKey ord = bo_idempotencyKey ord' \<longrightarrow> oid = oid' \<and> ord = ord') \<and>
    (\<forall>oid ord. getOrder oid b = Some ord \<longrightarrow> bo_brokerOrderId ord = oid) \<and>
    (\<forall>key oid. map_of (pb_orderIdsByIdempotencyKey b) key = Some oid \<longrightarrow>
      (\<exists>ord. getOrder oid b = Some ord \<and> bo_idempotencyKey ord = key))"
proof -
  have ok: "indexOk b"
    unfolding assms(2) using indexOk_created [OF assms(1)] by (rule runOps_induct) (rule indexOk_applyOp)
  have "oid = oid' \<and> ord = ord'" if "getOrder oid b = Some ord" "getOrder oid' b = Some ord'"
    "bo_idempotencyKey ord = bo_idempotencyKey ord'" for oid oid' ord ord'
    using indexOkD(2) [OF ok, of oid ord] indexOkD(2) [OF ok, of oid' ord'] that by (auto simp: getOrder_def)
  then show ?thesis using indexOkD(1,2) [OF ok] by (simp add: getOrder_def)
qed

theorem paperBroker_one_order_per_key_witness:
  "\<exists>oid ord. map_of (pb_orderIdsByIdempotencyKey
       (runOps exactRound [Submit (At 9) (exampleSubmission None None),
          Submit (At 10) (exampleSubmission None None)] exampleBroker)) ''k1'' = Some oid \<and>
     getOrder oid (runOps exactRound [Submit (At 9) (exampleSubmission None None),
          Submit (At 10) (exampleSubmission None None)] exampleBroker) = Some ord \<and>
     bo_brokerOrderId ord = oid"
proof -
  define b where "b = runOps exactRound [Submit (At 9) (exampleSubmission None None),
          Submit (At 10) (exampleSubmission None None)] exampleBroker"
  obtain b1 ord where first: "submitOrder exactRound (At 9) (exampleSubmission None None) exampleBroker = (b1, Inr ord)"
    using example_submitted by blast
  have "b = b1"
    using registered_submit [OF submit_registered [OF first], of exactRound "At 10"] first
    by (simp add: b_def runOps_def)
  moreover obtain oid where "map_of (pb_orderIdsByIdempotencyKey b1) ''k1'' = Some oid"
    using submit_registered [OF first] by (auto simp: registered_def exampleSubmission_def exampleIntent_def)
  ultimately show ?thesis
    using paperBroker_one_order_per_key [OF example_created b_def] unfolding b_def by blast
qed

text \<open>
  C5. Idempotent resubmission. A submission that returned an order returns the same order again, and
  changes nothing, at any later time and after any number of other submissions in between.
\<close>

theorem submitOrder_idempotent:
  assumes "indexOk b" and "submitOrder rnd t s b = (b1, Inr ord)"
    and "b2 = runOps rnd (map (\<lambda>(t, s). Submit t s) ss) b1"
  shows "submitOrder rnd t' s b2 = (b2, Inr ord)"
  unfolding assms(3) runOps_submits by (rule paper.resubmit_after_any_run [OF assms(1,2)])

theorem submitOrder_idempotent_witness:
  "\<exists>b1 ord. submitOrder exactRound (At 9) (exampleSubmission None None) exampleBroker = (b1, Inr ord) \<and>
     bo_status ord = PARTIALLY_FILLED \<and>
     submitOrder exactRound (At 50) (exampleSubmission None None) b1 = (b1, Inr ord)"
proof -
  obtain b1 ord where first: "submitOrder exactRound (At 9) (exampleSubmission None None) exampleBroker = (b1, Inr ord)"
    "bo_status ord = PARTIALLY_FILLED" using example_submitted by blast
  have "submitOrder exactRound (At 50) (exampleSubmission None None) b1 = (b1, Inr ord)"
    using submitOrder_idempotent [OF indexOk_created [OF example_created] first(1), of b1 "[]"]
    by (simp add: runOps_def)
  then show ?thesis using first by blast
qed

text \<open>
  The terms of an intent that the fingerprint covers: two intents have the same fingerprint exactly
  when all of them agree, amounts compared by value.
\<close>

definition sameTerms :: "order_intent \<Rightarrow> order_intent \<Rightarrow> bool" where
  "sameTerms i j \<longleftrightarrow>
     oi_exchangeId i = oi_exchangeId j \<and> oi_market i = oi_market j \<and> oi_strategyId i = oi_strategyId j \<and>
     oi_side i = oi_side j \<and> oi_idempotencyKey i = oi_idempotencyKey j \<and>
     parseFinancialDecimal (oi_requestedQuantity i) = parseFinancialDecimal (oi_requestedQuantity j) \<and>
     parseFinancialDecimal (oi_requestedNotional i) = parseFinancialDecimal (oi_requestedNotional j) \<and>
     (case (oi_terms i, oi_terms j) of
        (MarketTerms, MarketTerms) \<Rightarrow> True
      | (LimitTerms p po tif, LimitTerms p' po' tif') \<Rightarrow>
          parseFinancialDecimal p = parseFinancialDecimal p' \<and> (po = Some True \<longleftrightarrow> po' = Some True) \<and>
          (case tif of None \<Rightarrow> GTC | Some t \<Rightarrow> t) = (case tif' of None \<Rightarrow> GTC | Some t \<Rightarrow> t)
      | _ \<Rightarrow> False)"

lemma createSubmissionFingerprint_eq_iff:
  assumes i: "createSubmissionFingerprint i = Inr fp" and j: "createSubmissionFingerprint j = Inr fp'"
  shows "fp = fp' \<longleftrightarrow> sameTerms i j"
proof (cases "oi_terms i"; cases "oi_terms j")
qed (use i j in \<open>auto simp: createSubmissionFingerprint_def bindR_Inr_iff Let_def sameTerms_def\<close>)

text \<open>
  Reuse of an idempotency key. Once a submission has returned an order, another submission with
  the same key never changes the broker: it returns that order if all terms of the two intents
  agree, and is refused with the conflict error if any of them differs.
\<close>

theorem submitOrder_key_reuse:
  assumes "submitOrder rnd t s b = (b1, Inr ord)"
    and "oi_idempotencyKey (os_intent s') = oi_idempotencyKey (os_intent s)"
    and "createSubmissionFingerprint (os_intent s') = Inr fp'"
  shows "submitOrder rnd t' s' b1 =
     (b1, if sameTerms (os_intent s') (os_intent s) then Inr ord
          else Inl (PaperBrokerIdempotencyConflictError (oi_idempotencyKey (os_intent s))))"
proof -
  obtain fp oid where reg: "createSubmissionFingerprint (os_intent s) = Inr fp"
    "map_of (pb_orderIdsByIdempotencyKey b1) (oi_idempotencyKey (os_intent s)) = Some oid"
    "map_of (pb_fingerprintsByIdempotencyKey b1) (oi_idempotencyKey (os_intent s)) = Some fp"
    "map_of (pb_ordersById b1) oid = Some ord"
    using submit_registered [OF assms(1)] by (auto simp: registered_def)
  then show ?thesis
    using assms(2,3) createSubmissionFingerprint_eq_iff [OF assms(3) reg(1)]
    by (auto simp: submitOrder_def Let_def)
qed

theorem submitOrder_key_reuse_witness:
  "\<exists>b1 ord. submitOrder exactRound (At 9) (exampleSubmission None None) exampleBroker = (b1, Inr ord) \<and>
     submitOrder exactRound (At 50) (exampleSubmission (Some IOC) None) b1 =
       (b1, Inl (PaperBrokerIdempotencyConflictError ''k1''))"
proof -
  obtain b1 ord where first: "submitOrder exactRound (At 9) (exampleSubmission None None) exampleBroker = (b1, Inr ord)"
    using example_submitted by blast
  obtain fp where "createSubmissionFingerprint (os_intent (exampleSubmission (Some IOC) None)) = Inr fp"
    by (simp add: createSubmissionFingerprint_def exampleSubmission_def exampleIntent_def Let_def)
  then have "submitOrder exactRound (At 50) (exampleSubmission (Some IOC) None) b1 =
       (b1, Inl (PaperBrokerIdempotencyConflictError ''k1''))"
    using submitOrder_key_reuse [OF first, of "exampleSubmission (Some IOC) None" fp "At 50"]
    by (simp add: exampleSubmission_def exampleIntent_def sameTerms_def)
  then show ?thesis using first by blast
qed

end
