(* ===== verification/Paper_Ledger.thy ===== *)
theory Paper_Ledger
  imports Paper_Broker
begin

text \<open>
  The balances of the paper broker: which operations move them and by how much. The invariant
  \<open>brokerOk\<close> is kept by every operation for well-formed submissions; a resting order that is
  canceled gives back exactly what it locked.
\<close>

section \<open>The ledger\<close>

lemma upperChar_isSpace [simp]: "isSpace (upperChar c) = isSpace c"
  by (auto simp: isSpace_def upperChar_def Let_def)

lemma upperChar_idem [simp]: "upperChar (upperChar c) = upperChar c"
  by (auto simp: upperChar_def Let_def)

lemma trim_map_upperChar: "trim (map upperChar s) = map upperChar (trim s)"
  by (simp add: trim_def dropWhile_map rev_map comp_def)

lemma normalizeCurrency_idem [simp]: "normalizeCurrency (normalizeCurrency c) = normalizeCurrency c"
  by (simp add: normalizeCurrency_def toUpperCase_def trim_map_upperChar comp_def)

lemma parseMarketCurrencies_normal:
  "parseMarketCurrencies m = Inr (quote, base) \<Longrightarrow>
   normalizeCurrency quote = quote \<and> normalizeCurrency base = base"
  by (auto simp: parseMarketCurrencies_def Let_def split: if_splits)

definition lockedOf :: "paper_broker \<Rightarrow> string \<Rightarrow> rat" where
  "lockedOf b currency = (case map_of (pb_balancesByCurrency b) currency of
     Some c \<Rightarrow> bb_locked c | None \<Rightarrow> 0)"

lemma availableOf_applyBalanceDelta:
  "availableOf (applyBalanceDelta rnd c a l t b) d =
     (if d = normalizeCurrency c \<and> \<not> (a = 0 \<and> l = 0) then dplus rnd (availableOf b d) a else availableOf b d)"
  by (cases "map_of (pb_balancesByCurrency b) (normalizeCurrency c)"; cases "a = 0 \<and> l = 0")
    (auto simp: availableOf_def applyBalanceDelta_def Let_def createZeroBalance_def)

lemma lockedOf_applyBalanceDelta:
  "lockedOf (applyBalanceDelta rnd c a l t b) d =
     (if d = normalizeCurrency c \<and> \<not> (a = 0 \<and> l = 0) then dplus rnd (lockedOf b d) l else lockedOf b d)"
  by (cases "map_of (pb_balancesByCurrency b) (normalizeCurrency c)"; cases "a = 0 \<and> l = 0")
    (auto simp: lockedOf_def applyBalanceDelta_def Let_def createZeroBalance_def)

text \<open>
  The ledger is sound when no available balance is negative and every total is the (rounded) sum of
  the available and the locked part. A balance the broker is created with may state a total of its
  own, which the broker keeps as it is until the balance is first changed: these are the balances
  \<open>given\<close>.
\<close>

definition balanceOk :: "rounding \<Rightarrow> broker_balance set \<Rightarrow> broker_balance \<Rightarrow> bool" where
  "balanceOk rnd given bal \<longleftrightarrow> 0 \<le> bb_available bal \<and>
     (bb_total bal = dplus rnd (bb_available bal) (bb_locked bal) \<or> bal \<in> given)"

definition ledgerOk :: "rounding \<Rightarrow> broker_balance set \<Rightarrow> paper_broker \<Rightarrow> bool" where
  "ledgerOk rnd given b \<longleftrightarrow> list_all (\<lambda>(c, bal). balanceOk rnd given bal) (pb_balancesByCurrency b)"

lemma list_all_alist_update:
  "list_all P al \<Longrightarrow> P (k, v) \<Longrightarrow> list_all P (AList.update k v al)"
  by (induction al) auto

lemma ledgerOk_available: "ledgerOk rnd given b \<Longrightarrow> 0 \<le> availableOf b c"
  by (auto simp: ledgerOk_def availableOf_def balanceOk_def list_all_iff dest!: map_of_SomeD split: option.splits)

lemma ledgerOk_cong:
  "ledgerOk rnd given b \<Longrightarrow> pb_balancesByCurrency b' = pb_balancesByCurrency b \<Longrightarrow> ledgerOk rnd given b'"
  by (simp add: ledgerOk_def)

text \<open>A delta that a validated mutation may carry for a currency.\<close>

lemma validateAvailableBalance_valid:
  assumes "validateAvailableBalance rnd b c a = BalanceValid" and "ledgerOk rnd given b"
  shows "0 \<le> availableOf b (normalizeCurrency c) + a"
  using assms ledgerOk_available [OF assms(2), of "normalizeCurrency c"]
  by (auto simp: validateAvailableBalance_def Let_def split: if_splits)

context decimal_rounding
begin

lemma ledgerOk_applyBalanceDelta:
  assumes "ledgerOk rnd given b" and "0 \<le> availableOf b (normalizeCurrency c) + a"
  shows "ledgerOk rnd given (applyBalanceDelta rnd c a l t b)"
proof -
  have "0 \<le> dplus rnd (availableOf b (normalizeCurrency c)) a"
    using assms(2) by (simp add: dplus_def rnd_nonneg)
  then show ?thesis using assms(1)
    by (auto simp: ledgerOk_def applyBalanceDelta_def Let_def availableOf_def createZeroBalance_def
        balanceOk_def intro!: list_all_alist_update split: option.splits if_splits)
qed

lemma ledgerOk_applySubmission:
  assumes ok: "ledgerOk rnd given b" and valid: "validateBalanceMutation rnd b m = BalanceValid"
    and distinct: "normalizeCurrency (bm_quoteCurrency m) \<noteq> normalizeCurrency (bm_baseCurrency m)"
  shows "ledgerOk rnd given (applySubmissionBalanceMutation rnd m t b)"
proof -
  have "validateAvailableBalance rnd b (bm_quoteCurrency m) (bm_quoteAvailableDelta m) = BalanceValid"
    and "validateAvailableBalance rnd b (bm_baseCurrency m) (bm_baseAvailableDelta m) = BalanceValid"
    using valid by (auto simp: validateBalanceMutation_def split: balance_validation.splits)
  then show ?thesis
    using distinct validateAvailableBalance_valid [OF _ ok] ok unfolding applySubmissionBalanceMutation_def
    by (intro ledgerOk_applyBalanceDelta) (simp_all add: availableOf_applyBalanceDelta)
qed

end

lemma createSubmissionBalanceMutation_currencies:
  assumes "createSubmissionBalanceMutation rnd intent sim = Inr m"
  shows "parseMarketCurrencies (oi_market intent) = Inr (bm_quoteCurrency m, bm_baseCurrency m)"
  using assms unfolding createSubmissionBalanceMutation_def
  by (cases "parseMarketCurrencies (oi_market intent)"; cases "oi_side intent")
    (auto simp: bindR_Inr_iff Let_def)

text \<open>
  What the broker relies on and does not check itself: a limit price is not negative, and the quote and
  the base currency of the market differ. (Canceling a buy order with a negative price would take
  from the available balance, and with both legs on one currency the two deltas of a submission are
  each checked against the same balance.)
\<close>

definition wellFormedIntent :: "order_intent \<Rightarrow> bool" where
  "wellFormedIntent intent \<longleftrightarrow>
     (case parseMarketCurrencies (oi_market intent) of Inl e \<Rightarrow> True | Inr (quote, base) \<Rightarrow> quote \<noteq> base) \<and>
     (case limitPriceOf (oi_terms intent) of None \<Rightarrow> True
      | Some price \<Rightarrow> (case parseFinancialDecimal price of Inl e \<Rightarrow> True | Inr p \<Rightarrow> 0 \<le> p))"

definition pricesOk :: "paper_broker \<Rightarrow> bool" where
  "pricesOk b \<longleftrightarrow> (\<forall>oid ord price p. map_of (pb_ordersById b) oid = Some ord \<longrightarrow>
     bo_requestedPrice ord = Some price \<longrightarrow> parseFinancialDecimal price = Inr p \<longrightarrow> 0 \<le> p)"

definition brokerOk :: "rounding \<Rightarrow> broker_balance set \<Rightarrow> paper_broker \<Rightarrow> bool" where
  "brokerOk rnd given b \<longleftrightarrow> indexOk b \<and> ledgerOk rnd given b \<and> pricesOk b"

lemma wellFormedIntentD:
  assumes "wellFormedIntent intent"
  shows "parseMarketCurrencies (oi_market intent) = Inr (quote, base) \<Longrightarrow> quote \<noteq> base"
    and "limitPriceOf (oi_terms intent) = Some price \<Longrightarrow> parseFinancialDecimal price = Inr p \<Longrightarrow> 0 \<le> p"
  using assms by (simp_all add: wellFormedIntent_def)

lemma storeOrder_frame [simp]:
  "pb_balancesByCurrency (storeOrder ord fp b) = pb_balancesByCurrency b"
  "pb_ordersById (storeOrder ord fp b) = AList.update (bo_brokerOrderId ord) ord (pb_ordersById b)"
  by (simp_all add: storeOrder_def)

lemma pricesOk_storeOrder:
  assumes "pricesOk b" and "pb_ordersById b2 = pb_ordersById b"
    and "bo_requestedPrice ord = limitPriceOf (oi_terms intent)" and "wellFormedIntent intent"
  shows "pricesOk (storeOrder ord fp b2)"
  using assms by (auto simp: pricesOk_def dest: wellFormedIntentD(2))

lemma settleSubmission_price:
  assumes "settleSubmission rnd now s oid b = Inr (ord, b')"
  shows "bo_requestedPrice ord = limitPriceOf (oi_terms (os_intent s))"
  using assms by (auto elim!: settleSubmission_cases simp: createBrokerOrderFromSimulation_def Let_def)

context decimal_rounding
begin

lemma ledgerOk_settleSubmission:
  assumes settle: "settleSubmission rnd now s oid b = Inr (ord, b')" and ok: "ledgerOk rnd given b"
    and wf: "wellFormedIntent (os_intent s)"
  shows "ledgerOk rnd given b'"
  using settle
proof (cases rule: settleSubmission_cases)
  case (1 books options sim m)
  have cur: "parseMarketCurrencies (oi_market (os_intent s)) = Inr (bm_quoteCurrency m, bm_baseCurrency m)"
    by (rule createSubmissionBalanceMutation_currencies [OF 1(2)])
  then have "normalizeCurrency (bm_quoteCurrency m) \<noteq> normalizeCurrency (bm_baseCurrency m)"
    using wellFormedIntentD(1) [OF wf cur] parseMarketCurrencies_normal [OF cur] by simp
  then show ?thesis using ok by (auto simp: 1(4) intro: ledgerOk_applySubmission)
qed

lemma brokerOk_submitOrder:
  assumes ok: "brokerOk rnd given b" and wf: "wellFormedIntent (os_intent s)"
  shows "brokerOk rnd given (fst (submitOrder rnd now s b))"
proof -
  obtain b' r where sub: "submitOrder rnd now s b = (b', r)" by (rule prod.exhaust)
  have l: "ledgerOk rnd given b" "pricesOk b" using ok by (simp_all add: brokerOk_def)
  from sub have "ledgerOk rnd given b' \<and> pricesOk b'"
  proof (cases rule: submitOrder_cases)
    case (failed e)
    then show ?thesis using l by (auto simp: pricesOk_def elim: ledgerOk_cong)
  next
    case (known fp oid ord)
    then show ?thesis using l by simp
  next
    case (rejected fp rejection ord)
    then show ?thesis
      using l wf createRejectedBrokerOrder_Inr(5) [OF rejected(4)]
      by (auto elim!: ledgerOk_cong pricesOk_storeOrder)
  next
    case (settled fp ord b2)
    have "ledgerOk rnd given b2"
      using l wf by (intro ledgerOk_settleSubmission [OF settled(4)]) (auto elim: ledgerOk_cong)
    then show ?thesis
      using l wf settleSubmission_frame(1) [OF settled(4)] settleSubmission_price [OF settled(4)]
      by (auto simp: settled(5) elim!: ledgerOk_cong pricesOk_storeOrder)
  qed
  then show ?thesis using ok indexOk_submitOrder [of b rnd now s] by (simp add: brokerOk_def sub)
qed

lemma ledgerOk_releaseOpenBalance:
  assumes rel: "releaseOpenBalance rnd ord now b = Inr (cm, b')" and ok: "ledgerOk rnd given b"
    and pos: "0 < bo_remainingQuantity ord"
    and price: "\<And>price p. bo_requestedPrice ord = Some price \<Longrightarrow> parseFinancialDecimal price = Inr p \<Longrightarrow> 0 \<le> p"
  shows "ledgerOk rnd given b'"
  using rel
proof (cases rule: releaseOpenBalance_cases)
  case nothing
  then show ?thesis using ok by simp
next
  case (buy quote base price p)
  have "0 \<le> dtimes rnd (bo_remainingQuantity ord) p"
    using pos assms(4) [OF buy(3,4)] by (simp add: dtimes_nonneg)
  then show ?thesis unfolding buy(5)
    using ledgerOk_available [OF ok, of "normalizeCurrency quote"] by (intro ledgerOk_applyBalanceDelta ok) simp
next
  case (sell quote base)
  then show ?thesis unfolding sell(3)
    using pos ledgerOk_available [OF ok, of "normalizeCurrency base"] by (intro ledgerOk_applyBalanceDelta ok) simp
qed

lemma brokerOk_cancelOrder:
  assumes ok: "brokerOk rnd given b"
  shows "brokerOk rnd given (fst (cancelOrder rnd now oid b))"
proof -
  obtain b' r where can: "cancelOrder rnd now oid b = (b', r)" by (rule prod.exhaust)
  have l: "ledgerOk rnd given b" "pricesOk b" using ok by (simp_all add: brokerOk_def)
  from can have "ledgerOk rnd given b' \<and> pricesOk b'"
  proof (cases rule: cancelOrder_cases)
    case (released ord cm b2)
    have "ledgerOk rnd given b2"
      using l released(1,2) by (intro ledgerOk_releaseOpenBalance [OF released(3)])
        (auto simp: isOpenBrokerOrder_def pricesOk_def)
    then show ?thesis using l(2) released(1) releaseOpenBalance_frame(1) [OF released(3)]
      by (auto simp: released(5) pricesOk_def elim!: ledgerOk_cong)
  qed (use l in simp_all)
  then show ?thesis using ok indexOk_cancelOrder [of b rnd now oid] by (simp add: brokerOk_def can)
qed

lemma brokerOk_orderbooks: "brokerOk rnd given b \<Longrightarrow> brokerOk rnd given (b\<lparr>pb_orderbooksByMarket := ws\<rparr>)"
  by (auto simp: brokerOk_def pricesOk_def elim: indexOk_cong ledgerOk_cong)

lemma brokerOk_applyOp:
  assumes ok: "brokerOk rnd given b" and wf: "\<And>t s. op = Submit t s \<Longrightarrow> wellFormedIntent (os_intent s)"
  shows "brokerOk rnd given (applyOp rnd op b)"
proof (cases op)
  case (RecordSnapshot snapshot)
  show ?thesis by (rule recordOrderbookSnapshot_frame [of snapshot b])
    (simp add: RecordSnapshot brokerOk_orderbooks ok)
next
  case (ReplaceSnapshots snapshots)
  show ?thesis by (rule recordAll_frame [of snapshots "b\<lparr>pb_orderbooksByMarket := []\<rparr>"])
    (simp add: ReplaceSnapshots replaceOrderbookSnapshots_def brokerOk_orderbooks ok)
qed (simp_all add: brokerOk_submitOrder brokerOk_cancelOrder ok wf)

end

section \<open>Lemmas: resting and rejected orders\<close>

lemma settleDepth_resting:
  "fr_orderStatus (settleDepth rnd tif q p book d) \<in> {ACCEPTED, REJECTED} \<Longrightarrow>
   \<exists>m. settleDepth rnd tif q p book d = createNoFillResult FS_UNFILLED ACCEPTED limit_not_crossed q m"
  by (auto simp: settleDepth_def Let_def split: if_splits)

lemma simulatePaperFill_resting:
  assumes "simulatePaperFill rnd intent books options = Inr r" and "fr_orderStatus r \<in> {ACCEPTED, REJECTED}"
  obtains q st rc m where "parseFinancialDecimal (oi_requestedQuantity intent) = Inr q"
    "r = createNoFillResult st (fr_orderStatus r) rc q m"
  using assms(1)
proof (cases rule: simulatePaperFill_cases)
  case (nofill q st os rc m)
  then show thesis by (auto intro: that)
next
  case (depth q book price po tif p taker d)
  then obtain m where "r = createNoFillResult FS_UNFILLED ACCEPTED limit_not_crossed q m"
    using settleDepth_resting assms(2) by metis
  then show thesis using depth(1) by (auto intro: that)
qed

lemma createOrderStateFromSimulation_status:
  "pos_status (createOrderStateFromSimulation sim v) =
     (if v = BalanceValid then fr_orderStatus sim else REJECTED)"
  "pos_remainingQuantity (createOrderStateFromSimulation sim v) =
     (if v = BalanceValid then fr_openQuantity sim else 0)"
  by (cases v; simp add: createOrderStateFromSimulation_def)+

lemma createBrokerOrderFromSimulation_simps [simp]:
  "bo_status (createBrokerOrderFromSimulation s oid sim m st now) = pos_status st"
  "bo_remainingQuantity (createBrokerOrderFromSimulation s oid sim m st now) = pos_remainingQuantity st"
  "bo_requestedPrice (createBrokerOrderFromSimulation s oid sim m st now) = limitPriceOf (oi_terms (os_intent s))"
  "bo_orderType (createBrokerOrderFromSimulation s oid sim m st now) = oi_orderType (os_intent s)"
  "bo_side (createBrokerOrderFromSimulation s oid sim m st now) = oi_side (os_intent s)"
  "bo_market (createBrokerOrderFromSimulation s oid sim m st now) = oi_market (os_intent s)"
  "oe_balanceMutation (bo_metadata (createBrokerOrderFromSimulation s oid sim m st now)) = Some m"
  by (simp_all add: createBrokerOrderFromSimulation_def Let_def)

lemma applyBalanceDelta_zero [simp]: "applyBalanceDelta rnd c 0 0 t b = b"
  by (simp add: applyBalanceDelta_def)

context decimal_rounding
begin

lemma nofill_mutation:
  assumes "createSubmissionBalanceMutation rnd intent (createNoFillResult st os rc q mt) = Inr m"
    and "opn = (if os = CANCELED \<or> os = REJECTED then 0 else q)"
  shows "oi_side intent = BUY \<Longrightarrow> calculateOpenQuoteLock rnd intent opn = Inr (bm_quoteLockedDelta m) \<and>
      bm_quoteAvailableDelta m = - rnd (bm_quoteLockedDelta m) \<and>
      bm_baseAvailableDelta m = 0 \<and> bm_baseLockedDelta m = 0"
    and "oi_side intent = SELL \<Longrightarrow> bm_quoteAvailableDelta m = 0 \<and> bm_quoteLockedDelta m = 0 \<and>
      bm_baseAvailableDelta m = - rnd opn \<and> bm_baseLockedDelta m = opn"
  using assms unfolding createSubmissionBalanceMutation_def
  by (auto simp: bindR_Inr_iff Let_def dplus_def dminus_def)

lemma rejected_mutation_is_void:
  assumes "createSubmissionBalanceMutation rnd intent (createNoFillResult st REJECTED rc q mt) = Inr m"
  shows "applySubmissionBalanceMutation rnd m t b = b"
  using nofill_mutation [OF assms refl]
  by (cases "oi_side intent")
    (auto simp: applySubmissionBalanceMutation_def calculateOpenQuoteLock_def split: order_terms.splits)

lemma settleSubmission_rejected:
  assumes "settleSubmission rnd now s oid b = Inr (ord, b')" and "bo_status ord = REJECTED"
  shows "b' = b"
  using assms(1)
proof (cases rule: settleSubmission_cases)
  case (1 books options sim m)
  show ?thesis
  proof (cases "validateBalanceMutation rnd b m = BalanceValid")
    case True
    then have "fr_orderStatus sim = REJECTED"
      using assms(2) by (simp add: 1(3) createOrderStateFromSimulation_status)
    then obtain q st rc mt where "sim = createNoFillResult st REJECTED rc q mt"
      using simulatePaperFill_resting [OF 1(1)] by (metis insert_iff)
    then show ?thesis using rejected_mutation_is_void 1(2,4) by simp
  qed (simp add: 1(4))
qed

end

text \<open>
  The amounts of an order that rests on the book, for the exact restoration of the ledger: all of
  them multiples of \<open>10 ^ -k\<close> within the precision.
\<close>

definition exactLock :: "nat \<Rightarrow> paper_broker \<Rightarrow> string \<Rightarrow> rat \<Rightarrow> bool" where
  "exactLock k b c lck \<longleftrightarrow> fitsGrid k (availableOf b c) \<and> fitsGrid k (lockedOf b c) \<and> fitsGrid k lck \<and>
     fitsGrid k (lockedOf b c + lck)"

lemma balance_views_cong:
  assumes "pb_balancesByCurrency b = pb_balancesByCurrency b'"
  shows "availableOf b c = availableOf b' c" "lockedOf b c = lockedOf b' c"
  using assms by (simp_all add: availableOf_def lockedOf_def)

context decimal_js
begin

lemma delta_roundtrip:
  assumes lock: "exactLock k b (normalizeCurrency c) lck" and range: "0 \<le> lck" "lck \<le> availableOf b (normalizeCurrency c)"
    and b1: "pb_balancesByCurrency b1 = pb_balancesByCurrency (applyBalanceDelta rnd c (- lck) lck t b)"
  shows "availableOf (applyBalanceDelta rnd c lck (- lck) t' b1) d = availableOf b d"
    and "lockedOf (applyBalanceDelta rnd c lck (- lck) t' b1) d = lockedOf b d"
proof -
  let ?n = "normalizeCurrency c"
  have fits: "fitsGrid k (availableOf b ?n)" "fitsGrid k (lockedOf b ?n)" "fitsGrid k (lockedOf b ?n + lck)" "onGrid k lck"
    using lock by (auto simp: exactLock_def fitsGrid_def)
  have "fitsGrid k (availableOf b ?n - lck)"
    using fits range by (intro fitsGrid_le [OF fits(1)]) (auto simp: fitsGrid_def intro: onGrid_minus)
  then have exact: "rnd (availableOf b ?n - lck) = availableOf b ?n - lck" "rnd (availableOf b ?n) = availableOf b ?n"
    "rnd (lockedOf b ?n + lck) = lockedOf b ?n + lck" "rnd (lockedOf b ?n) = lockedOf b ?n"
    using fits(1-3) by (simp_all add: rnd_fits)
  show "availableOf (applyBalanceDelta rnd c lck (- lck) t' b1) d = availableOf b d"
    "lockedOf (applyBalanceDelta rnd c lck (- lck) t' b1) d = lockedOf b d"
    by (simp_all add: availableOf_applyBalanceDelta lockedOf_applyBalanceDelta balance_views_cong [OF b1]
        dplus_def exact)
qed

text \<open>What an order that rests on the book has locked, and what canceling it releases.\<close>

lemma settleSubmission_resting:
  assumes settle: "settleSubmission rnd now s oid b = Inr (ord, b2)"
    and resting: "bo_status ord = ACCEPTED" "isOpenBrokerOrder ord"
    and m: "oe_balanceMutation (bo_metadata ord) = Some m"
  obtains price po tif where
    "parseMarketCurrencies (bo_market ord) = Inr (bm_quoteCurrency m, bm_baseCurrency m)"
    "bo_side ord = oi_side (os_intent s)" "oi_terms (os_intent s) = LimitTerms price po tif"
    "bo_orderType ord = LIMIT" "bo_requestedPrice ord = Some price" "0 < bo_remainingQuantity ord"
    "validateBalanceMutation rnd b m = BalanceValid" "b2 = applySubmissionBalanceMutation rnd m now b"
    "oi_side (os_intent s) = BUY \<Longrightarrow>
       calculateOpenQuoteLock rnd (os_intent s) (bo_remainingQuantity ord) = Inr (bm_quoteLockedDelta m) \<and>
       bm_quoteAvailableDelta m = - rnd (bm_quoteLockedDelta m) \<and>
       bm_baseAvailableDelta m = 0 \<and> bm_baseLockedDelta m = 0"
    "oi_side (os_intent s) = SELL \<Longrightarrow> bm_quoteAvailableDelta m = 0 \<and> bm_quoteLockedDelta m = 0 \<and>
       bm_baseAvailableDelta m = - rnd (bo_remainingQuantity ord) \<and> bm_baseLockedDelta m = bo_remainingQuantity ord"
  using settle
proof (cases rule: settleSubmission_cases)
  case (1 books options sim m')
  have [simp]: "m' = m" using m by (simp add: 1(3))
  have valid: "validateBalanceMutation rnd b m = BalanceValid" and status: "fr_orderStatus sim = ACCEPTED"
    using resting(1) by (auto simp: 1(3) createOrderStateFromSimulation_status split: if_splits)
  then obtain q st rc mt where q: "parseFinancialDecimal (oi_requestedQuantity (os_intent s)) = Inr q"
    and sim: "sim = createNoFillResult st ACCEPTED rc q mt"
    using simulatePaperFill_resting [OF 1(1)] by (metis insert_iff)
  have rem: "bo_remainingQuantity ord = q" and pos: "0 < q"
    using resting(2) valid by (auto simp: 1(3) createOrderStateFromSimulation_status sim isOpenBrokerOrder_def)
  note mut = nofill_mutation [OF 1(2) [unfolded sim], of q, simplified]
  obtain price po tif where "oi_terms (os_intent s) = LimitTerms price po tif"
    using 1(1) status by (cases "oi_terms (os_intent s)") (auto simp: simulatePaperFill_def bindR_Inr_iff)
  then show thesis
    using that [of price po tif] valid createSubmissionBalanceMutation_currencies [OF 1(2)] pos mut
    by (simp add: 1(4) rem) (simp add: 1(3))
qed

lemma validated_debit_covered:
  assumes "validateAvailableBalance rnd b c (- lck) = BalanceValid" "normalizeCurrency c = c"
    "0 \<le> lck" "ledgerOk rnd given b"
  shows "lck \<le> availableOf b c"
  using validateAvailableBalance_valid [OF assms(1,4)] assms(2) by simp

lemma release_restores:
  assumes settle: "settleSubmission rnd now s oid b = Inr (ord, b2)"
    and resting: "bo_status ord = ACCEPTED" "isOpenBrokerOrder ord" and wf: "wellFormedIntent (os_intent s)"
    and ledger: "ledgerOk rnd given b" and m: "oe_balanceMutation (bo_metadata ord) = Some m"
    and amounts: "exactLock k b (bm_quoteCurrency m) (bm_quoteLockedDelta m)"
      "exactLock k b (bm_baseCurrency m) (bm_baseLockedDelta m)"
    and rel: "releaseOpenBalance rnd ord t' b1 = Inr (cm, b')"
    and b1: "pb_balancesByCurrency b1 = pb_balancesByCurrency b2"
  shows "availableOf b' c = availableOf b c \<and> lockedOf b' c = lockedOf b c"
proof (rule settleSubmission_resting [OF settle resting m])
  fix price po tif
  let ?q = "bo_remainingQuantity ord"
  assume cur: "parseMarketCurrencies (bo_market ord) = Inr (bm_quoteCurrency m, bm_baseCurrency m)"
    and side: "bo_side ord = oi_side (os_intent s)" and terms: "oi_terms (os_intent s) = LimitTerms price po tif"
    and ord: "bo_orderType ord = LIMIT" "bo_requestedPrice ord = Some price" and pos: "0 < ?q"
    and valid: "validateBalanceMutation rnd b m = BalanceValid"
    and b2: "b2 = applySubmissionBalanceMutation rnd m now b"
    and buy: "oi_side (os_intent s) = BUY \<Longrightarrow>
       calculateOpenQuoteLock rnd (os_intent s) ?q = Inr (bm_quoteLockedDelta m) \<and>
       bm_quoteAvailableDelta m = - rnd (bm_quoteLockedDelta m) \<and>
       bm_baseAvailableDelta m = 0 \<and> bm_baseLockedDelta m = 0"
    and sell: "oi_side (os_intent s) = SELL \<Longrightarrow> bm_quoteAvailableDelta m = 0 \<and> bm_quoteLockedDelta m = 0 \<and>
       bm_baseAvailableDelta m = - rnd ?q \<and> bm_baseLockedDelta m = ?q"
  note normal = parseMarketCurrencies_normal [OF cur]
  have both: "validateAvailableBalance rnd b (bm_quoteCurrency m) (bm_quoteAvailableDelta m) = BalanceValid"
    "validateAvailableBalance rnd b (bm_baseCurrency m) (bm_baseAvailableDelta m) = BalanceValid"
    using valid by (auto simp: validateBalanceMutation_def split: balance_validation.splits)
  show ?thesis
  proof (cases "oi_side (os_intent s)")
    case BUY
    obtain p where p: "parseFinancialDecimal price = Inr p" and lck: "bm_quoteLockedDelta m = dtimes rnd ?q p"
      using buy [OF BUY] pos
      by (auto simp: calculateOpenQuoteLock_def terms multiplyDecimalStrings_def bindR_Inr_iff)
    have nn: "0 \<le> dtimes rnd ?q p" using pos wellFormedIntentD(2) [OF wf _ p] by (simp add: terms dtimes_nonneg)
    have qa: "bm_quoteAvailableDelta m = - dtimes rnd ?q p" using buy [OF BUY] by (simp add: lck)
    have "dtimes rnd ?q p \<le> availableOf b (bm_quoteCurrency m)"
      using validated_debit_covered [OF both(1) [unfolded qa]] normal nn ledger by simp
    moreover have "b' = applyBalanceDelta rnd (bm_quoteCurrency m) (dtimes rnd ?q p) (- dtimes rnd ?q p) t' b1"
      using rel cur side BUY p by (auto elim!: releaseOpenBalance_cases simp: ord pos)
    ultimately show ?thesis
      using delta_roundtrip [of k b "bm_quoteCurrency m" "dtimes rnd ?q p" b1 now t' c] amounts(1) nn normal
        buy [OF BUY] b1 by (simp add: b2 applySubmissionBalanceMutation_def lck qa)
  next
    case SELL
    have fixed: "rnd ?q = ?q" using amounts(2) sell [OF SELL] rnd_fits by (auto simp: exactLock_def)
    then have "?q \<le> availableOf b (bm_baseCurrency m)"
      using validated_debit_covered [of b "bm_baseCurrency m" ?q] both(2) normal pos ledger sell [OF SELL] by simp
    moreover have "b' = applyBalanceDelta rnd (bm_baseCurrency m) ?q (- ?q) t' b1"
      using rel cur side SELL by (auto elim!: releaseOpenBalance_cases simp: ord pos)
    ultimately show ?thesis
      using delta_roundtrip [of k b "bm_baseCurrency m" ?q b1 now t' c] amounts(2) pos normal
        sell [OF SELL] b1 by (simp add: b2 applySubmissionBalanceMutation_def fixed)
  qed
qed

lemma release_succeeds:
  assumes settle: "settleSubmission rnd now s oid b = Inr (ord, b2)"
    and resting: "bo_status ord = ACCEPTED" "isOpenBrokerOrder ord"
    and m: "oe_balanceMutation (bo_metadata ord) = Some m"
  shows "\<exists>cm b'. releaseOpenBalance rnd ord t' b1 = Inr (cm, b')"
proof (rule settleSubmission_resting [OF assms])
  fix price po tif
  assume facts: "parseMarketCurrencies (bo_market ord) = Inr (bm_quoteCurrency m, bm_baseCurrency m)"
    "bo_side ord = oi_side (os_intent s)" "oi_terms (os_intent s) = LimitTerms price po tif"
    "bo_orderType ord = LIMIT" "bo_requestedPrice ord = Some price" "0 < bo_remainingQuantity ord"
    and buy: "oi_side (os_intent s) = BUY \<Longrightarrow>
       calculateOpenQuoteLock rnd (os_intent s) (bo_remainingQuantity ord) = Inr (bm_quoteLockedDelta m) \<and>
       bm_quoteAvailableDelta m = - rnd (bm_quoteLockedDelta m) \<and>
       bm_baseAvailableDelta m = 0 \<and> bm_baseLockedDelta m = 0"
  show ?thesis
  proof (cases "oi_side (os_intent s)")
    case BUY
    obtain p where "parseFinancialDecimal price = Inr p"
      using buy [OF BUY] facts
      by (auto simp: calculateOpenQuoteLock_def multiplyDecimalStrings_def bindR_Inr_iff)
    then show ?thesis
      using facts BUY by (simp add: releaseOpenBalance_def multiplyDecimalStrings_def Let_def)
  next
    case SELL
    then show ?thesis using facts by (simp add: releaseOpenBalance_def Let_def)
  qed
qed

end

section \<open>Properties\<close>

definition nonnegativeInput :: "balance_input \<Rightarrow> bool" where
  "nonnegativeInput i \<longleftrightarrow> (case parseFinancialDecimal (bi_available i) of Inl e \<Rightarrow> True | Inr a \<Rightarrow> 0 \<le> a)"

lemma initialBalances_all:
  assumes "initialBalances rnd now inputs acc = Inr bals"
    and "\<And>i bal. i \<in> set inputs \<Longrightarrow> normalizeInitialBalance rnd i now = Inr bal \<Longrightarrow> P bal"
    and "list_all (\<lambda>(c, bal). P bal) acc"
  shows "list_all (\<lambda>(c, bal). P bal) bals"
  using assms
proof (induction inputs arbitrary: acc)
  case (Cons i inputs)
  then obtain bal where bal: "normalizeInitialBalance rnd i now = Inr bal"
    and rest: "initialBalances rnd now inputs (AList.update (normalizeCurrency (bi_currency i)) bal acc) = Inr bals"
    by (auto simp: bindR_Inr_iff)
  have "P bal" by (rule Cons.prems(2) [OF _ bal]) simp
  then show ?case using Cons.prems by (intro Cons.IH [OF rest]) (auto intro!: list_all_alist_update)
qed simp

lemma normalizeInitialBalance_ok:
  assumes "normalizeInitialBalance rnd i now = Inr bal"
  shows "nonnegativeInput i \<Longrightarrow> 0 \<le> bb_available bal"
    and "bi_total i = None \<Longrightarrow> bb_total bal = dplus rnd (bb_available bal) (bb_locked bal)"
  using assms by (auto simp: normalizeInitialBalance_def nonnegativeInput_def bindR_Inr_iff Let_def)

lemma brokerOk_created:
  assumes created: "createPaperBroker rnd exchangeId balances snapshots options prefix now = Inr b"
    and nonneg: "list_all nonnegativeInput balances"
  shows "brokerOk rnd (set (map snd (pb_balancesByCurrency b))) b"
    and "list_all (\<lambda>i. bi_total i = None) balances \<Longrightarrow> brokerOk rnd {} b"
proof -
  note bals = createPaperBroker_empty(5) [OF created]
  have rest: "indexOk b" "pricesOk b"
    using indexOk_created [OF created] createPaperBroker_empty(1) [OF created] by (simp_all add: pricesOk_def)
  have "list_all (\<lambda>(c, bal). 0 \<le> bb_available bal) (pb_balancesByCurrency b)"
    using nonneg by (intro initialBalances_all [OF bals]) (auto simp: list_all_iff dest: normalizeInitialBalance_ok(1))
  then show "brokerOk rnd (set (map snd (pb_balancesByCurrency b))) b"
    using rest by (force simp: brokerOk_def ledgerOk_def balanceOk_def list_all_iff)
  show "brokerOk rnd {} b" if "list_all (\<lambda>i. bi_total i = None) balances"
  proof -
    have "list_all (\<lambda>(c, bal). balanceOk rnd {} bal) (pb_balancesByCurrency b)"
      using that nonneg by (intro initialBalances_all [OF bals])
        (auto simp: list_all_iff balanceOk_def dest: normalizeInitialBalance_ok)
    then show ?thesis using rest by (simp add: brokerOk_def ledgerOk_def)
  qed
qed

fun wellFormedOp :: "broker_op \<Rightarrow> bool" where
  "wellFormedOp (Submit t s) = wellFormedIntent (os_intent s)"
| "wellFormedOp _ = True"

lemma brokerOk_runOps:
  assumes "decimal_rounding rnd" and "brokerOk rnd given b" and "list_all wellFormedOp ops"
  shows "brokerOk rnd given (runOps rnd ops b)"
  using assms(2)
proof (rule runOps_induct)
  fix op b' assume "op \<in> set ops" "brokerOk rnd given b'"
  then show "brokerOk rnd given (applyOp rnd op b')"
    using assms(3) by (intro decimal_rounding.brokerOk_applyOp [OF assms(1)]) (auto simp: list_all_iff)
qed

text \<open>
  C6. Solvency. A paper broker created with available balances that are not negative never has a
  negative available balance, whatever submissions, cancellations and order book updates it processes
  in whatever order, as long as the orders submitted have a limit price that is not negative and a
  market of two different currencies. Every balance it reports is either untouched since the broker
  was created or has a total that is the sum of its available and its locked part; where no total was
  given at creation, all totals are such sums.
\<close>

theorem paperBroker_stays_solvent:
  assumes rnd: "decimal_js rnd"
    and created: "createPaperBroker rnd exchangeId balances snapshots options prefix now = Inr b0"
    and nonneg: "list_all nonnegativeInput balances" and ops: "list_all wellFormedOp ops"
  shows "list_all (\<lambda>bal. 0 \<le> bb_available bal \<and>
      (bb_total bal = dplus rnd (bb_available bal) (bb_locked bal) \<or> bal \<in> set (bs_balances (getBalances t b0))))
    (bs_balances (getBalances t (runOps rnd ops b0))) \<and>
    (list_all (\<lambda>i. bi_total i = None) balances \<longrightarrow>
      list_all (\<lambda>bal. bb_total bal = dplus rnd (bb_available bal) (bb_locked bal))
        (bs_balances (getBalances t (runOps rnd ops b0))))"
proof -
  note keeps = brokerOk_runOps [OF decimal_js.axioms(1) [OF rnd] _ ops]
  show ?thesis
    using keeps [OF brokerOk_created(1) [OF created nonneg]] keeps [OF brokerOk_created(2) [OF created nonneg]]
    by (fastforce simp: brokerOk_def ledgerOk_def getBalances_def balanceOk_def list_all_iff)
qed

lemma example_wellFormed: "wellFormedIntent (os_intent (exampleSubmission tif po))"
  by (simp add: wellFormedIntent_def exampleSubmission_def exampleIntent_def parseMarketCurrencies_def
      normalizeCurrency_def toUpperCase_def trim_def isSpace_def upperChar_def Let_def)

lemma example_nonnegative: "list_all nonnegativeInput [exampleBalance]"
  by (simp add: nonnegativeInput_def exampleBalance_def)

theorem paperBroker_stays_solvent_witness:
  "list_all (\<lambda>bal. 0 \<le> bb_available bal \<and>
       bb_total bal = dplus exactRound (bb_available bal) (bb_locked bal)) (bs_balances (getBalances (At 60)
     (runOps exactRound [Submit (At 9) (exampleSubmission None None), Cancel (At 10) ''paper-order-1'']
        exampleBroker)))"
  using paperBroker_stays_solvent [OF exact.decimal_js_axioms example_created example_nonnegative,
    of "[Submit (At 9) (exampleSubmission None None), Cancel (At 10) ''paper-order-1'']" "At 60"]
  by (auto simp: example_wellFormed list_all_iff exampleBalance_def)

text \<open>
  Rejected orders move no balance. A submission that ends with a rejected order (wrong exchange,
  missing funds, refused by the simulator) or with an error leaves all balances as they were.
\<close>

theorem submitOrder_rejected_moves_no_balance:
  assumes rnd: "decimal_js rnd" and sub: "submitOrder rnd t s b = (b', r)"
    and rejected: "case r of Inl e \<Rightarrow> True | Inr ord \<Rightarrow> bo_status ord = REJECTED"
  shows "pb_balancesByCurrency b' = pb_balancesByCurrency b"
  using sub
proof (cases rule: submitOrder_cases)
  case (settled fp ord b2)
  then have "b2 = b\<lparr>pb_nextOrderSequence := Suc (pb_nextOrderSequence b)\<rparr>"
    using decimal_rounding.settleSubmission_rejected [OF decimal_js.axioms(1) [OF rnd] settled(4)] rejected
    by simp
  then show ?thesis by (simp add: settled(5))
qed auto

definition poorBroker :: paper_broker where
  "poorBroker = exampleBroker\<lparr>pb_balancesByCurrency := []\<rparr>"

lemma example_poor:
  "\<exists>b1 ord. submitOrder exactRound (At 9) (exampleSubmission None None) poorBroker = (b1, Inr ord) \<and>
     bo_status ord = REJECTED \<and> bo_acceptedAt ord = None"
  by (simp add: broker_eval fill_eval poorBroker_def isAcceptedBrokerStatus_def)

theorem submitOrder_rejected_moves_no_balance_witness:
  "\<exists>b1 ord. submitOrder exactRound (At 9) (exampleSubmission None None) poorBroker = (b1, Inr ord) \<and>
     bo_status ord = REJECTED \<and> pb_balancesByCurrency b1 = []"
proof -
  obtain b1 ord where sub: "submitOrder exactRound (At 9) (exampleSubmission None None) poorBroker = (b1, Inr ord)"
    "bo_status ord = REJECTED" using example_poor by blast
  have "pb_balancesByCurrency b1 = []"
    using submitOrder_rejected_moves_no_balance [OF exact.decimal_js_axioms sub(1)] sub(2)
    by (simp add: poorBroker_def)
  then show ?thesis using sub by blast
qed

text \<open>
  Cancellation gives back what was locked. If a new submission leaves an unfilled order resting
  on the book, canceling that order succeeds, ends it as canceled, and restores the available and
  the locked balance of every currency exactly, provided the amounts fit the precision of decimal.js.
\<close>

theorem cancelOrder_restores_balances:
  assumes rnd: "decimal_js rnd" and ok: "brokerOk rnd given b" and wf: "wellFormedIntent (os_intent s)"
    and new: "map_of (pb_orderIdsByIdempotencyKey b) (oi_idempotencyKey (os_intent s)) = None"
    and sub: "submitOrder rnd t s b = (b1, Inr ord)"
    and resting: "bo_status ord = ACCEPTED" "isOpenBrokerOrder ord"
    and m: "oe_balanceMutation (bo_metadata ord) = Some m"
    and amounts: "exactLock k b (bm_quoteCurrency m) (bm_quoteLockedDelta m)"
      "exactLock k b (bm_baseCurrency m) (bm_baseLockedDelta m)"
  shows "\<exists>b2 ord2. cancelOrder rnd t' (bo_brokerOrderId ord) b1 = (b2, Inr ord2) \<and>
    bo_status ord2 = CANCELED \<and> bo_remainingQuantity ord2 = 0 \<and>
    (\<forall>c. availableOf b2 c = availableOf b c \<and> lockedOf b2 c = lockedOf b c)"
  using sub
proof (cases rule: submitOrder_cases)
  case (known fp oid ord')
  then show ?thesis using new by simp
next
  case (rejected fp rejection ord')
  then show ?thesis using resting(1) createRejectedBrokerOrder_Inr(3) [OF rejected(4)] by simp
next
  case (settled fp ord' b2)
  define b0 where "b0 = b\<lparr>pb_nextOrderSequence := Suc (pb_nextOrderSequence b)\<rparr>"
  have settle: "settleSubmission rnd t s (createBrokerOrderId b) b0 = Inr (ord, b2)"
    using settled(2,4) by (simp add: b0_def)
  have views: "availableOf b0 c = availableOf b c" "lockedOf b0 c = lockedOf b c" for c
    by (simp_all add: b0_def availableOf_def lockedOf_def)
  obtain cm b' where rel: "releaseOpenBalance rnd ord t' b1 = Inr (cm, b')"
    using decimal_js.release_succeeds [OF rnd settle resting m] by blast
  have "availableOf b' c = availableOf b c \<and> lockedOf b' c = lockedOf b c" for c
    using decimal_js.release_restores [OF rnd settle resting wf _ m _ _ rel, of given k c] ok amounts settled(2,5)
    by (simp add: views exactLock_def brokerOk_def) (simp add: ledgerOk_def b0_def)
  moreover have "map_of (pb_ordersById b1) (bo_brokerOrderId ord) = Some ord"
    using settled(2,5) by simp
  ultimately show ?thesis
    using resting(2) rel by (simp add: cancelOrder_def Let_def availableOf_def lockedOf_def)
qed auto

definition restingIntent :: order_intent where
  "restingIntent = (exampleIntent None None)\<lparr>oi_terms := LimitTerms (Num 90) None None\<rparr>"

definition restingSubmission :: order_submission where
  "restingSubmission = (exampleSubmission None None)\<lparr>os_intent := restingIntent\<rparr>"

lemma example_resting:
  "\<exists>b1 ord m. submitOrder exactRound (At 9) restingSubmission exampleBroker = (b1, Inr ord) \<and>
     bo_status ord = ACCEPTED \<and> isOpenBrokerOrder ord \<and> oe_balanceMutation (bo_metadata ord) = Some m \<and>
     bm_quoteCurrency m = ''KRW'' \<and> bm_baseCurrency m = ''BTC'' \<and>
     bm_quoteLockedDelta m = 90 \<and> bm_baseLockedDelta m = 0"
  by (simp add: broker_eval fill_eval restingSubmission_def restingIntent_def isOpenBrokerOrder_def)

lemma example_brokerOk: "brokerOk exactRound {} exampleBroker"
  by (rule brokerOk_created(2) [OF example_created example_nonnegative]) (simp add: exampleBalance_def)

theorem cancelOrder_restores_balances_witness:
  "\<exists>b1 ord b2 ord2. submitOrder exactRound (At 9) restingSubmission exampleBroker = (b1, Inr ord) \<and>
     bo_status ord = ACCEPTED \<and>
     cancelOrder exactRound (At 10) (bo_brokerOrderId ord) b1 = (b2, Inr ord2) \<and>
     bo_status ord2 = CANCELED \<and> availableOf b2 ''KRW'' = 1000 \<and> lockedOf b2 ''KRW'' = 0"
proof -
  obtain b1 ord m where ex: "submitOrder exactRound (At 9) restingSubmission exampleBroker = (b1, Inr ord)"
     "bo_status ord = ACCEPTED" "isOpenBrokerOrder ord" "oe_balanceMutation (bo_metadata ord) = Some m"
     "bm_quoteCurrency m = ''KRW''" "bm_baseCurrency m = ''BTC''"
     "bm_quoteLockedDelta m = 90" "bm_baseLockedDelta m = 0"
    using example_resting by blast
  have "wellFormedIntent (os_intent restingSubmission)"
    by (simp add: restingSubmission_def restingIntent_def wellFormedIntent_def exampleIntent_def
        parseMarketCurrencies_def normalizeCurrency_def toUpperCase_def trim_def isSpace_def upperChar_def)
  moreover have "map_of (pb_orderIdsByIdempotencyKey exampleBroker) (oi_idempotencyKey (os_intent restingSubmission)) = None"
    by (simp add: exampleBroker_def)
  moreover have "exactLock 0 exampleBroker (bm_quoteCurrency m) (bm_quoteLockedDelta m)"
      "exactLock 0 exampleBroker (bm_baseCurrency m) (bm_baseLockedDelta m)"
    by (simp_all add: ex exactLock_def availableOf_def lockedOf_def exampleBroker_def fitsGrid_def onGrid_def)
  ultimately obtain b2 ord2 where "cancelOrder exactRound (At 10) (bo_brokerOrderId ord) b1 = (b2, Inr ord2)"
    "bo_status ord2 = CANCELED" "\<forall>c. availableOf b2 c = availableOf exampleBroker c \<and> lockedOf b2 c = lockedOf exampleBroker c"
    using cancelOrder_restores_balances [OF exact.decimal_js_axioms example_brokerOk _ _ ex(1-4), of 0 "At 10"]
    by blast
  then show ?thesis using ex(1,2) by (auto simp: availableOf_def lockedOf_def exampleBroker_def)
qed

text \<open>
  Cancellation is final and idempotent. When a cancellation returns, the order it returns is the
  stored one, it is no longer open and no longer listed among the open orders, and canceling it
  again changes nothing.
\<close>

theorem cancelOrder_closes:
  assumes ok: "indexOk b" and can: "cancelOrder rnd t oid b = (b1, Inr ord)"
  shows "getOrder oid b1 = Some ord \<and> \<not> isOpenBrokerOrder ord \<and> ord \<notin> set (listOpenOrders market b1) \<and>
    cancelOrder rnd t' oid b1 = (b1, Inr ord)"
  using can
proof (cases rule: cancelOrder_cases)
  case (released ord' cm b2)
  have "bo_brokerOrderId ord' = oid" using indexOkD(2) [OF ok released(1)] by simp
  then have "getOrder oid b1 = Some ord" using released(4,5) by (simp add: getOrder_def)
  moreover have "\<not> isOpenBrokerOrder ord" using released(4) by (simp add: isOpenBrokerOrder_def)
  ultimately show ?thesis by (simp add: cancelOrder_def listOpenOrders_def getOrder_def)
qed (auto simp: getOrder_def cancelOrder_def listOpenOrders_def)

theorem cancelOrder_closes_witness:
  "\<exists>b1 ord b2 ord2. submitOrder exactRound (At 9) restingSubmission exampleBroker = (b1, Inr ord) \<and>
     cancelOrder exactRound (At 10) (bo_brokerOrderId ord) b1 = (b2, Inr ord2) \<and>
     getOrder (bo_brokerOrderId ord) b2 = Some ord2 \<and>
     cancelOrder exactRound (At 11) (bo_brokerOrderId ord) b2 = (b2, Inr ord2)"
proof -
  obtain b1 ord where sub: "submitOrder exactRound (At 9) restingSubmission exampleBroker = (b1, Inr ord)"
    "\<exists>cm b2. releaseOpenBalance exactRound ord (At 10) b1 = Inr (cm, b2)" "isOpenBrokerOrder ord"
    by (simp add: broker_eval fill_eval restingSubmission_def restingIntent_def isOpenBrokerOrder_def
        releaseOpenBalance_def)
  have ok: "indexOk b1"
    using indexOk_submitOrder [OF indexOk_created [OF example_created], of exactRound "At 9" restingSubmission] sub(1)
    by simp
  have "\<exists>oid. map_of (pb_ordersById b1) oid = Some ord"
    using submit_registered [OF sub(1)] by (auto simp: registered_def)
  then have "map_of (pb_ordersById b1) (bo_brokerOrderId ord) = Some ord" using indexOkD(2) [OF ok] by auto
  then obtain b2 ord2 where "cancelOrder exactRound (At 10) (bo_brokerOrderId ord) b1 = (b2, Inr ord2)"
    using sub(2,3) by (auto simp: cancelOrder_def Let_def)
  then show ?thesis using sub(1) cancelOrder_closes [OF ok] by blast
qed

end
