(* ===== verification/Risk_Gate.thy ===== *)
theory Risk_Gate
  imports Orders
begin

text \<open>
  The risk gate, \<^verbatim>\<open>src/src/application/risk/risk-gate.ts\<close> and the policies under
  \<^verbatim>\<open>application/risk/risk-gate/\<close>, over the data of \<^verbatim>\<open>domain/risk.ts\<close>. Each policy turns a part of the
  context into evaluations; the gate collects them and approves when none fails. The human-readable
  message of an evaluation is left out; its status, reason code, severity, action, threshold snapshot
  and metadata are kept. A figure of a snapshot is what the caller passed, of any type, since the
  gate reads it as \<^verbatim>\<open>unknown\<close>; an absent property is \<open>OtherType ''undefined''\<close>.
\<close>

section \<open>Types\<close>

datatype risk_status = R_PASS | R_FAIL | R_WARN
datatype risk_severity = SEV_INFO | SEV_WARN | SEV_BLOCKING | SEV_CRITICAL

datatype risk_block_action =
    RB_ALLOW | RB_BLOCK_NEW_ORDER | RB_PAUSE_STRATEGY | RB_HARD_STOP | RB_MANUAL_REVIEW_REQUIRED

datatype infrastructure_signal =
    STALE_MARKET_DATA | WEBSOCKET_DISCONNECTED | WEBSOCKET_RECONNECTING | DB_WRITE_FAILURE
  | DUPLICATE_ORDER_IDEMPOTENCY_KEY | BALANCE_POSITION_MISMATCH | NOTIFICATION_FAILURE

fun signalName :: "infrastructure_signal \<Rightarrow> string" where
  "signalName STALE_MARKET_DATA = ''STALE_MARKET_DATA''"
| "signalName WEBSOCKET_DISCONNECTED = ''WEBSOCKET_DISCONNECTED''"
| "signalName WEBSOCKET_RECONNECTING = ''WEBSOCKET_RECONNECTING''"
| "signalName DB_WRITE_FAILURE = ''DB_WRITE_FAILURE''"
| "signalName DUPLICATE_ORDER_IDEMPOTENCY_KEY = ''DUPLICATE_ORDER_IDEMPOTENCY_KEY''"
| "signalName BALANCE_POSITION_MISMATCH = ''BALANCE_POSITION_MISMATCH''"
| "signalName NOTIFICATION_FAILURE = ''NOTIFICATION_FAILURE''"

record risk_limit_thresholds =
  rl_dailyLossLimitBps :: numeric
  rl_weeklyLossLimitBps :: numeric
  rl_maxDrawdownBps :: numeric
  rl_maxOrderNotionalBpsOfEquity :: numeric
  rl_maxExpectedLossBpsOfEquity :: numeric
  rl_btcEthMaxPositionBpsOfEquity :: numeric
  rl_altMaxPositionBpsOfEquity :: numeric
  rl_totalAltMaxPositionBpsOfEquity :: numeric
  rl_maxConsecutiveStrategyLosses :: js_number

definition defaultRiskLimitThresholds :: risk_limit_thresholds where
  "defaultRiskLimitThresholds =
     \<lparr>rl_dailyLossLimitBps = Num 100, rl_weeklyLossLimitBps = Num 300, rl_maxDrawdownBps = Num 500,
      rl_maxOrderNotionalBpsOfEquity = Num 100, rl_maxExpectedLossBpsOfEquity = Num 20,
      rl_btcEthMaxPositionBpsOfEquity = Num 2000, rl_altMaxPositionBpsOfEquity = Num 500,
      rl_totalAltMaxPositionBpsOfEquity = Num 1500, rl_maxConsecutiveStrategyLosses = JsFinite 3\<rparr>"

record risk_threshold_snapshot =
  ts_thresholds :: risk_limit_thresholds
  ts_capturedAt :: timestamp
  ts_source :: string

definition createRiskThresholdSnapshot ::
  "risk_limit_thresholds \<Rightarrow> timestamp \<Rightarrow> string option \<Rightarrow> risk_threshold_snapshot" where
  "createRiskThresholdSnapshot thresholds capturedAt source =
     \<lparr>ts_thresholds = thresholds, ts_capturedAt = capturedAt,
      ts_source = (case source of None \<Rightarrow> ''runtime.risk.thresholds'' | Some s \<Rightarrow> s)\<rparr>"

record risk_evaluation =
  re_status :: risk_status
  re_reasonCode :: string
  re_severity :: risk_severity
  re_action :: risk_block_action
  re_thresholdSnapshot :: "risk_threshold_snapshot option"
  re_metadata :: "json_record option"

record risk_gate_result =
  rg_status :: risk_status
  rg_approved :: bool
  rg_action :: risk_block_action
  rg_evaluations :: "risk_evaluation list"
  rg_failedEvaluations :: "risk_evaluation list"
  rg_warningEvaluations :: "risk_evaluation list"
  rg_thresholdSnapshot :: risk_threshold_snapshot

record account_risk_snapshot =
  ar_equityKrw :: decimal_input
  ar_dailyRealizedPnlBps :: decimal_input
  ar_weeklyRealizedPnlBps :: decimal_input
  ar_maxDrawdownBps :: decimal_input
  ar_capturedAt :: timestamp

record position_risk_snapshot =
  pr_exchangeId :: string
  pr_market :: string
  pr_strategyId :: "string option"
  pr_notionalKrw :: decimal_input
  pr_notionalBpsOfEquity :: decimal_input
  pr_unrealizedPnlBps :: decimal_input
  pr_capturedAt :: timestamp

record strategy_risk_snapshot =
  sr_strategyId :: string
  sr_consecutiveLosses :: js_number
  sr_capturedAt :: timestamp

record infrastructure_risk_snapshot =
  ir_signal :: infrastructure_signal
  ir_exchangeId :: "string option"
  ir_market :: "string option"
  ir_strategyId :: "string option"
  ir_orderId :: "string option"
  ir_idempotencyKey :: "string option"
  ir_observedAt :: timestamp
  ir_metadata :: "json_record option"

record risk_gate_context =
  rc_orderIntent :: order_intent
  rc_account :: account_risk_snapshot
  rc_positions :: "position_risk_snapshot list"
  rc_strategy :: strategy_risk_snapshot
  rc_infrastructureSignals :: "infrastructure_risk_snapshot list"
  rc_thresholdSnapshot :: risk_threshold_snapshot
  rc_observedAt :: timestamp
  rc_expectedLossBpsOfEquity :: "decimal_input option"
  rc_metadata :: "json_record option"

record parsed_thresholds =
  pt_dailyLossLimitBps :: rat
  pt_weeklyLossLimitBps :: rat
  pt_maxDrawdownBps :: rat
  pt_maxOrderNotionalBpsOfEquity :: rat
  pt_maxExpectedLossBpsOfEquity :: rat
  pt_btcEthMaxPositionBpsOfEquity :: rat
  pt_altMaxPositionBpsOfEquity :: rat
  pt_totalAltMaxPositionBpsOfEquity :: rat
  pt_maxConsecutiveStrategyLosses :: js_number

text \<open>A figure that was read, an evaluation that explains why it could not be, or neither.\<close>

record decimal_read =
  dv_value :: "rat option"
  dv_evaluation :: "risk_evaluation option"

record market_exposure =
  me_market :: string
  me_bpsOfEquity :: rat

section \<open>Evaluations\<close>

definition pass :: "string \<Rightarrow> json_record option \<Rightarrow> risk_evaluation" where
  "pass reasonCode metadata =
     \<lparr>re_status = R_PASS, re_reasonCode = reasonCode, re_severity = SEV_INFO, re_action = RB_ALLOW,
      re_thresholdSnapshot = None, re_metadata = metadata\<rparr>"

definition warn :: "string \<Rightarrow> json_record option \<Rightarrow> risk_evaluation" where
  "warn reasonCode metadata =
     \<lparr>re_status = R_WARN, re_reasonCode = reasonCode, re_severity = SEV_WARN, re_action = RB_ALLOW,
      re_thresholdSnapshot = None, re_metadata = metadata\<rparr>"

definition failWith :: "string \<Rightarrow> risk_block_action \<Rightarrow> json_record option \<Rightarrow> risk_evaluation" where
  "failWith reasonCode action metadata =
     \<lparr>re_status = R_FAIL, re_reasonCode = reasonCode,
      re_severity = (if action = RB_HARD_STOP \<or> action = RB_MANUAL_REVIEW_REQUIRED then SEV_CRITICAL
                     else SEV_BLOCKING),
      re_action = action, re_thresholdSnapshot = None, re_metadata = metadata\<rparr>"

definition withThresholdSnapshot :: "risk_threshold_snapshot \<Rightarrow> risk_evaluation \<Rightarrow> risk_evaluation" where
  "withThresholdSnapshot snapshot e = e\<lparr>re_thresholdSnapshot := Some snapshot\<rparr>"

definition withThresholdSnapshots ::
  "risk_threshold_snapshot \<Rightarrow> risk_evaluation list \<Rightarrow> risk_evaluation list" where
  "withThresholdSnapshots snapshot es = map (withThresholdSnapshot snapshot) es"

section \<open>Reading figures\<close>

abbreviation unread :: "string \<Rightarrow> string \<Rightarrow> json_record \<Rightarrow> decimal_read" where
  "unread fieldName reasonCode metadata \<equiv>
     \<lparr>dv_value = None, dv_evaluation = Some (failWith reasonCode RB_MANUAL_REVIEW_REQUIRED
        (Some ((''field_name'', JStr fieldName) # metadata)))\<rparr>"

definition readDecimal :: "decimal_input \<Rightarrow> string \<Rightarrow> string \<Rightarrow> json_record \<Rightarrow> decimal_read" where
  "readDecimal v fieldName reasonCode metadata =
     (case parseFinancialDecimalInput v of
        Inl e \<Rightarrow> unread fieldName reasonCode metadata
      | Inr r \<Rightarrow> \<lparr>dv_value = Some r, dv_evaluation = None\<rparr>)"

definition readNonNegativeDecimal :: "decimal_input \<Rightarrow> string \<Rightarrow> string \<Rightarrow> json_record \<Rightarrow> decimal_read" where
  "readNonNegativeDecimal v fieldName reasonCode metadata =
     (let read = readDecimal v fieldName reasonCode metadata
      in if dv_value read = None \<or> dv_evaluation read \<noteq> None then read
         else if isNegativeInput v then unread fieldName reasonCode metadata
         else read)"

definition readPositiveDecimal :: "decimal_input \<Rightarrow> string \<Rightarrow> string \<Rightarrow> json_record \<Rightarrow> decimal_read" where
  "readPositiveDecimal v fieldName reasonCode metadata =
     (let read = readNonNegativeDecimal v fieldName reasonCode metadata
      in if dv_value read = None \<or> dv_evaluation read \<noteq> None then read
         else if dv_value read = Some 0 then unread fieldName reasonCode metadata
         else read)"

definition readEvaluation :: "decimal_read \<Rightarrow> risk_evaluation list" where
  "readEvaluation read = (case dv_evaluation read of None \<Rightarrow> [] | Some e \<Rightarrow> [e])"

definition parseNonNegativeThreshold :: "numeric \<Rightarrow> string \<Rightarrow> rat result" where
  "parseNonNegativeThreshold v fieldName =
     bindR (parseFinancialDecimal v) (\<lambda>d.
       if isNegativeText v then Inl (Failure (fieldName @ '' must not be negative'')) else Inr d)"

definition parseThresholds :: "risk_limit_thresholds \<Rightarrow> parsed_thresholds result" where
  "parseThresholds t =
     bindR (parseNonNegativeThreshold (rl_dailyLossLimitBps t) ''daily_loss_limit_bps'') (\<lambda>daily.
     bindR (parseNonNegativeThreshold (rl_weeklyLossLimitBps t) ''weekly_loss_limit_bps'') (\<lambda>weekly.
     bindR (parseNonNegativeThreshold (rl_maxDrawdownBps t) ''max_drawdown_bps'') (\<lambda>drawdown.
     bindR (parseNonNegativeThreshold (rl_maxOrderNotionalBpsOfEquity t) ''max_order_notional_bps_of_equity'') (\<lambda>notional.
     bindR (parseNonNegativeThreshold (rl_maxExpectedLossBpsOfEquity t) ''max_expected_loss_bps_of_equity'') (\<lambda>loss.
     bindR (parseNonNegativeThreshold (rl_btcEthMaxPositionBpsOfEquity t) ''btc_eth_max_position_bps_of_equity'') (\<lambda>btcEth.
     bindR (parseNonNegativeThreshold (rl_altMaxPositionBpsOfEquity t) ''alt_max_position_bps_of_equity'') (\<lambda>alt.
     bindR (parseNonNegativeThreshold (rl_totalAltMaxPositionBpsOfEquity t) ''total_alt_max_position_bps_of_equity'') (\<lambda>totalAlt.
       Inr \<lparr>pt_dailyLossLimitBps = daily, pt_weeklyLossLimitBps = weekly, pt_maxDrawdownBps = drawdown,
            pt_maxOrderNotionalBpsOfEquity = notional, pt_maxExpectedLossBpsOfEquity = loss,
            pt_btcEthMaxPositionBpsOfEquity = btcEth, pt_altMaxPositionBpsOfEquity = alt,
            pt_totalAltMaxPositionBpsOfEquity = totalAlt,
            pt_maxConsecutiveStrategyLosses = rl_maxConsecutiveStrategyLosses t\<rparr>))))))))"

section \<open>Loss limits\<close>

abbreviation bpsMetadata :: "string \<Rightarrow> rat \<Rightarrow> rat \<Rightarrow> json_record option" where
  "bpsMetadata key v threshold \<equiv>
     Some [(key, JNum (Num v)), (''threshold_bps'', JNum (Num threshold))]"

definition limitEvaluation :: "rat option \<Rightarrow> (rat \<Rightarrow> bool) \<Rightarrow> string \<Rightarrow> string \<Rightarrow> string \<Rightarrow> rat \<Rightarrow> risk_evaluation list" where
  "limitEvaluation v reached failCode passCode key threshold =
     (case v of
        None \<Rightarrow> []
      | Some x \<Rightarrow>
          [if reached x then failWith failCode RB_BLOCK_NEW_ORDER (bpsMetadata key x threshold)
           else pass passCode (bpsMetadata key x threshold)])"

definition evaluateLossLimits :: "risk_gate_context \<Rightarrow> parsed_thresholds \<Rightarrow> risk_evaluation list" where
  "evaluateLossLimits context thresholds =
     (let account = rc_account context;
          dailyLossBps = readDecimal (ar_dailyRealizedPnlBps account) ''account.daily_realized_pnl_bps''
            ''daily_loss_bps_invalid'' [];
          weeklyLossBps = readDecimal (ar_weeklyRealizedPnlBps account) ''account.weekly_realized_pnl_bps''
            ''weekly_loss_bps_invalid'' [];
          maxDrawdownBps = readNonNegativeDecimal (ar_maxDrawdownBps account) ''account.max_drawdown_bps''
            ''max_drawdown_bps_invalid'' []
      in withThresholdSnapshots (rc_thresholdSnapshot context)
           (readEvaluation dailyLossBps @ readEvaluation weeklyLossBps @ readEvaluation maxDrawdownBps
            @ limitEvaluation (dv_value dailyLossBps) (\<lambda>x. x \<le> - pt_dailyLossLimitBps thresholds)
                ''daily_loss_limit_exceeded'' ''daily_loss_limit_clear'' ''daily_realized_pnl_bps''
                (pt_dailyLossLimitBps thresholds)
            @ limitEvaluation (dv_value weeklyLossBps) (\<lambda>x. x \<le> - pt_weeklyLossLimitBps thresholds)
                ''weekly_loss_limit_exceeded'' ''weekly_loss_limit_clear'' ''weekly_realized_pnl_bps''
                (pt_weeklyLossLimitBps thresholds)
            @ limitEvaluation (dv_value maxDrawdownBps) (\<lambda>x. pt_maxDrawdownBps thresholds \<le> x)
                ''max_drawdown_limit_exceeded'' ''max_drawdown_limit_clear'' ''max_drawdown_bps''
                (pt_maxDrawdownBps thresholds)))"

section \<open>Order notional\<close>

definition evaluateOrderNotionalLimit ::
  "risk_gate_context \<Rightarrow> parsed_thresholds \<Rightarrow> rat \<Rightarrow> risk_evaluation" where
  "evaluateOrderNotionalLimit context thresholds orderNotionalBps =
     (let metadata = Some [(''order_notional_bps_of_equity'', JNum (Num orderNotionalBps)),
            (''requested_notional_krw'', JNum (oi_requestedNotional (rc_orderIntent context))),
            (''threshold_bps'', JNum (Num (pt_maxOrderNotionalBpsOfEquity thresholds)))]
      in withThresholdSnapshot (rc_thresholdSnapshot context)
           (if pt_maxOrderNotionalBpsOfEquity thresholds < orderNotionalBps
            then failWith ''order_notional_limit_exceeded'' RB_BLOCK_NEW_ORDER metadata
            else pass ''order_notional_limit_clear'' metadata))"

definition attachSnapshot :: "risk_threshold_snapshot \<Rightarrow> decimal_read \<Rightarrow> decimal_read" where
  "attachSnapshot snapshot read =
     \<lparr>dv_value = None, dv_evaluation = map_option (withThresholdSnapshot snapshot) (dv_evaluation read)\<rparr>"

definition readCanonicalOrderNotional ::
  "rounding \<Rightarrow> order_intent \<Rightarrow> rat \<Rightarrow> risk_threshold_snapshot \<Rightarrow> decimal_read" where
  "readCanonicalOrderNotional rnd intent requestedNotional snapshot =
     (case oi_terms intent of
        MarketTerms \<Rightarrow> \<lparr>dv_value = Some requestedNotional, dv_evaluation = None\<rparr>
      | LimitTerms price po tif \<Rightarrow>
          let requestedPrice = readPositiveDecimal (Amount price) ''order_intent.requested_price''
                ''order_price_invalid'' []
          in case dv_value requestedPrice of
               None \<Rightarrow> attachSnapshot snapshot requestedPrice
             | Some p \<Rightarrow>
                 let requestedQuantity = readPositiveDecimal (Amount (oi_requestedQuantity intent))
                       ''order_intent.requested_quantity'' ''order_quantity_invalid'' []
                 in case dv_value requestedQuantity of
                      None \<Rightarrow> attachSnapshot snapshot requestedQuantity
                    | Some q \<Rightarrow>
                        let calculatedNotional = dtimes rnd p q
                        in if calculatedNotional \<noteq> requestedNotional
                           then \<lparr>dv_value = None, dv_evaluation = Some (withThresholdSnapshot snapshot
                                  (failWith ''order_notional_mismatch'' RB_BLOCK_NEW_ORDER
                                    (Some [(''requested_notional_krw'', JNum (Num requestedNotional)),
                                           (''calculated_notional_krw'', JNum (Num calculatedNotional)),
                                           (''requested_price'', JNum (Num p)),
                                           (''requested_quantity'', JNum (Num q))])))\<rparr>
                           else \<lparr>dv_value = Some calculatedNotional, dv_evaluation = None\<rparr>)"

definition calculateOrderNotionalBps ::
  "rounding \<Rightarrow> order_intent \<Rightarrow> rat \<Rightarrow> risk_threshold_snapshot \<Rightarrow> decimal_read" where
  "calculateOrderNotionalBps rnd intent equityKrw snapshot =
     (let requestedNotional = readPositiveDecimal (Amount (oi_requestedNotional intent))
            ''order_intent.requested_notional'' ''order_notional_invalid'' []
      in case dv_value requestedNotional of
           None \<Rightarrow> attachSnapshot snapshot requestedNotional
         | Some n \<Rightarrow>
             let canonicalNotional = readCanonicalOrderNotional rnd intent n snapshot
             in case dv_value canonicalNotional of
                  None \<Rightarrow> canonicalNotional
                | Some c \<Rightarrow> \<lparr>dv_value = Some (dtimes rnd (rnd (c / equityKrw)) 10000), dv_evaluation = None\<rparr>)"

section \<open>Position exposure\<close>

definition isBtcOrEthMarket :: "string \<Rightarrow> bool" where
  "isBtcOrEthMarket market \<longleftrightarrow>
     (let baseAsset = toUpperCase (afterLastHyphen market) in baseAsset = ''BTC'' \<or> baseAsset = ''ETH'')"

definition isAltMarket :: "string \<Rightarrow> bool" where
  "isAltMarket market \<longleftrightarrow> \<not> isBtcOrEthMarket market"

definition optionalText :: "string \<Rightarrow> string option \<Rightarrow> json_record" where
  "optionalText key v = (case v of None \<Rightarrow> [] | Some t \<Rightarrow> [(key, JStr t)])"

definition readPositionBps :: "position_risk_snapshot \<Rightarrow> decimal_read" where
  "readPositionBps position =
     readNonNegativeDecimal (pr_notionalBpsOfEquity position) ''position.notional_bps_of_equity''
       ''position_notional_bps_invalid''
       ((''market'', JStr (pr_market position)) # optionalText ''strategy_id'' (pr_strategyId position))"

text \<open>The JavaScript Map of exposures is an association list: \<open>AList.update\<close> keeps the place of a key.\<close>

definition exposureOf :: "(string \<times> rat) list \<Rightarrow> string \<Rightarrow> rat" where
  "exposureOf exposures market = (case map_of exposures market of None \<Rightarrow> 0 | Some x \<Rightarrow> x)"

fun createCurrentExposureByMarket ::
  "rounding \<Rightarrow> position_risk_snapshot list \<Rightarrow> (string \<times> rat) list \<Rightarrow> (string \<times> rat) list" where
  "createCurrentExposureByMarket rnd [] exposures = exposures"
| "createCurrentExposureByMarket rnd (p # ps) exposures =
     (case dv_value (readPositionBps p) of
        None \<Rightarrow> createCurrentExposureByMarket rnd ps exposures
      | Some v \<Rightarrow> createCurrentExposureByMarket rnd ps
          (AList.update (pr_market p) (dplus rnd (exposureOf exposures (pr_market p)) v) exposures))"

definition calculateCandidateExposureDeltaBps :: "order_side \<Rightarrow> rat \<Rightarrow> rat \<Rightarrow> rat" where
  "calculateCandidateExposureDeltaBps side orderNotionalBps currentTargetExposureBps =
     (case side of BUY \<Rightarrow> orderNotionalBps | SELL \<Rightarrow> - min orderNotionalBps currentTargetExposureBps)"

definition clampAtZero :: "rat \<Rightarrow> rat" where
  "clampAtZero v = (if v < 0 then 0 else v)"

definition createProjectedExposures ::
  "(string \<times> rat) list \<Rightarrow> string \<Rightarrow> rat \<Rightarrow> market_exposure list" where
  "createProjectedExposures current targetMarket projected =
     map (\<lambda>(market, bps). \<lparr>me_market = market, me_bpsOfEquity = bps\<rparr>)
       (AList.update targetMarket projected current)"

definition toExposureMetadata :: "market_exposure list \<Rightarrow> json" where
  "toExposureMetadata exposures = JArr (map (\<lambda>x. JObj [(''market'', JStr (me_market x)),
     (''bps_of_equity'', JNum (Num (me_bpsOfEquity x)))]) exposures)"

record exposure_target =
  xt_targetMarket :: string
  xt_currentTargetExposureBps :: rat
  xt_candidateExposureDeltaBps :: rat
  xt_projectedTargetExposureBps :: rat

definition breachMetadata :: "exposure_target \<Rightarrow> rat \<Rightarrow> market_exposure list \<Rightarrow> json_record option" where
  "breachMetadata target threshold breaches =
     Some [(''target_market'', JStr (xt_targetMarket target)),
       (''current_target_position_bps_of_equity'', JNum (Num (xt_currentTargetExposureBps target))),
       (''candidate_exposure_delta_bps_of_equity'', JNum (Num (xt_candidateExposureDeltaBps target))),
       (''projected_target_position_bps_of_equity'', JNum (Num (xt_projectedTargetExposureBps target))),
       (''threshold_bps'', JNum (Num threshold)),
       (''breached_markets'', toExposureMetadata breaches)]"

definition clearMetadata :: "exposure_target \<Rightarrow> rat \<Rightarrow> json_record option" where
  "clearMetadata target threshold =
     Some [(''market'', JStr (xt_targetMarket target)),
       (''projected_position_bps_of_equity'', JNum (Num (xt_projectedTargetExposureBps target))),
       (''threshold_bps'', JNum (Num threshold))]"

definition evaluateBtcEthExposureLimit ::
  "risk_gate_context \<Rightarrow> parsed_thresholds \<Rightarrow> market_exposure list \<Rightarrow> exposure_target \<Rightarrow> risk_evaluation list" where
  "evaluateBtcEthExposureLimit context thresholds projectedExposures target =
     (let threshold = pt_btcEthMaxPositionBpsOfEquity thresholds;
          breaches = filter (\<lambda>x. isBtcOrEthMarket (me_market x) \<and> threshold < me_bpsOfEquity x) projectedExposures
      in if breaches \<noteq> [] then
           [withThresholdSnapshot (rc_thresholdSnapshot context)
             (failWith ''btc_eth_position_limit_exceeded'' RB_BLOCK_NEW_ORDER
               (breachMetadata target threshold breaches))]
         else if \<not> isBtcOrEthMarket (xt_targetMarket target) then []
         else
           [withThresholdSnapshot (rc_thresholdSnapshot context)
             (pass ''btc_eth_position_limit_clear'' (clearMetadata target threshold))])"

definition totalAltExposure :: "rounding \<Rightarrow> market_exposure list \<Rightarrow> rat" where
  "totalAltExposure rnd exposures =
     foldl (\<lambda>s x. if isAltMarket (me_market x) then dplus rnd s (me_bpsOfEquity x) else s) 0 exposures"

definition evaluateAltExposureLimits ::
  "rounding \<Rightarrow> risk_gate_context \<Rightarrow> parsed_thresholds \<Rightarrow> market_exposure list \<Rightarrow> exposure_target
   \<Rightarrow> risk_evaluation list" where
  "evaluateAltExposureLimits rnd context thresholds projectedExposures target =
     (let threshold = pt_altMaxPositionBpsOfEquity thresholds;
          singleAltBreaches = filter (\<lambda>x. isAltMarket (me_market x) \<and> threshold < me_bpsOfEquity x) projectedExposures;
          projectedTotal = totalAltExposure rnd projectedExposures;
          totalThreshold = pt_totalAltMaxPositionBpsOfEquity thresholds;
          totalMetadata = Some [(''target_market'', JStr (xt_targetMarket target)),
            (''projected_total_alt_position_bps_of_equity'', JNum (Num projectedTotal)),
            (''threshold_bps'', JNum (Num totalThreshold))]
      in (if singleAltBreaches \<noteq> [] then
            [withThresholdSnapshot (rc_thresholdSnapshot context)
              (failWith ''single_alt_position_limit_exceeded'' RB_BLOCK_NEW_ORDER
                (breachMetadata target threshold singleAltBreaches))]
          else if isAltMarket (xt_targetMarket target) then
            [withThresholdSnapshot (rc_thresholdSnapshot context)
              (pass ''single_alt_position_limit_clear'' (clearMetadata target threshold))]
          else [])
         @ [withThresholdSnapshot (rc_thresholdSnapshot context)
              (if totalThreshold < projectedTotal
               then failWith ''total_alt_position_limit_exceeded'' RB_BLOCK_NEW_ORDER totalMetadata
               else pass ''total_alt_position_limit_clear'' totalMetadata)])"

definition exposureTarget :: "rounding \<Rightarrow> order_intent \<Rightarrow> (string \<times> rat) list \<Rightarrow> rat \<Rightarrow> exposure_target" where
  "exposureTarget rnd intent current orderNotionalBps =
     (let currentTarget = exposureOf current (oi_market intent);
          delta = calculateCandidateExposureDeltaBps (oi_side intent) orderNotionalBps currentTarget
      in \<lparr>xt_targetMarket = oi_market intent, xt_currentTargetExposureBps = currentTarget,
          xt_candidateExposureDeltaBps = delta,
          xt_projectedTargetExposureBps = clampAtZero (dplus rnd currentTarget delta)\<rparr>)"

definition evaluatePositionExposureLimits ::
  "rounding \<Rightarrow> risk_gate_context \<Rightarrow> parsed_thresholds \<Rightarrow> rat \<Rightarrow> risk_evaluation list" where
  "evaluatePositionExposureLimits rnd context thresholds orderNotionalBps =
     (let invalid = concat (map (\<lambda>p. readEvaluation (readPositionBps p)) (rc_positions context))
      in if invalid \<noteq> [] then map (withThresholdSnapshot (rc_thresholdSnapshot context)) invalid
         else let current = createCurrentExposureByMarket rnd (rc_positions context) [];
                  target = exposureTarget rnd (rc_orderIntent context) current orderNotionalBps;
                  projected = createProjectedExposures current (xt_targetMarket target)
                    (xt_projectedTargetExposureBps target)
              in evaluateBtcEthExposureLimit context thresholds projected target
                 @ evaluateAltExposureLimits rnd context thresholds projected target)"

section \<open>Expected loss, strategy losses and infrastructure\<close>

text \<open>What \<^verbatim>\<open>parseFinancialDecimal\<close> sees of a JSON value that is not \<^verbatim>\<open>null\<close>.\<close>

fun jsonInput :: "json \<Rightarrow> decimal_input" where
  "jsonInput (JNum n) = Amount n"
| "jsonInput (JStr s) = Amount (NotDecimal s)"
| "jsonInput (JNumber n) = JsNumber"
| "jsonInput (JBool b) = OtherType ''boolean''"
| "jsonInput _ = OtherType ''object''"

definition metadataValue :: "json_record option \<Rightarrow> string \<Rightarrow> json option" where
  "metadataValue metadata key =
     (case metadata of
        None \<Rightarrow> None
      | Some m \<Rightarrow> (case map_of m key of None \<Rightarrow> None | Some JNull \<Rightarrow> None | Some v \<Rightarrow> Some v))"

definition orElse :: "'a option \<Rightarrow> 'a option \<Rightarrow> 'a option" where
  "orElse x y = (case x of None \<Rightarrow> y | Some v \<Rightarrow> Some v)"

definition readExpectedLossBpsOfEquity :: "risk_gate_context \<Rightarrow> decimal_read" where
  "readExpectedLossBpsOfEquity context =
     (let metadata = oi_metadata (rc_orderIntent context);
          fromMetadata = orElse (metadataValue metadata ''expected_loss_bps_of_equity'')
            (metadataValue metadata ''expectedLossBpsOfEquity'')
      in case orElse (rc_expectedLossBpsOfEquity context) (map_option jsonInput fromMetadata) of
           None \<Rightarrow> \<lparr>dv_value = None, dv_evaluation = None\<rparr>
         | Some v \<Rightarrow> readNonNegativeDecimal v ''risk_gate.expected_loss_bps_of_equity''
             ''expected_loss_bps_invalid'' [])"

definition evaluateExpectedLossLimit ::
  "risk_gate_context \<Rightarrow> parsed_thresholds \<Rightarrow> risk_evaluation" where
  "evaluateExpectedLossLimit context thresholds =
     (let expectedLoss = readExpectedLossBpsOfEquity context;
          threshold = pt_maxExpectedLossBpsOfEquity thresholds
      in withThresholdSnapshot (rc_thresholdSnapshot context)
           (case dv_evaluation expectedLoss of
              Some e \<Rightarrow> e
            | None \<Rightarrow>
                (case dv_value expectedLoss of
                   None \<Rightarrow> failWith ''expected_loss_missing'' RB_BLOCK_NEW_ORDER None
                 | Some x \<Rightarrow>
                     if threshold < x
                     then failWith ''expected_loss_limit_exceeded'' RB_BLOCK_NEW_ORDER
                            (bpsMetadata ''expected_loss_bps_of_equity'' x threshold)
                     else pass ''expected_loss_limit_clear''
                            (bpsMetadata ''expected_loss_bps_of_equity'' x threshold))))"

definition evaluateConsecutiveStrategyLosses ::
  "risk_gate_context \<Rightarrow> parsed_thresholds \<Rightarrow> risk_evaluation" where
  "evaluateConsecutiveStrategyLosses context thresholds =
     (let strategy = rc_strategy context; intent = rc_orderIntent context;
          metadata = Some [(''strategy_id'', JStr (sr_strategyId strategy)),
            (''consecutive_losses'', JNumber (sr_consecutiveLosses strategy)),
            (''threshold_count'', JNumber (pt_maxConsecutiveStrategyLosses thresholds))]
      in withThresholdSnapshot (rc_thresholdSnapshot context)
           (if sr_strategyId strategy \<noteq> oi_strategyId intent then
              failWith ''strategy_snapshot_mismatch'' RB_MANUAL_REVIEW_REQUIRED
                (Some [(''order_strategy_id'', JStr (oi_strategyId intent)),
                       (''snapshot_strategy_id'', JStr (sr_strategyId strategy))])
            else if \<not> isSafeInteger (sr_consecutiveLosses strategy) \<or>
                    \<not> jsGe (sr_consecutiveLosses strategy) (JsFinite 0) then
              failWith ''consecutive_strategy_losses_invalid'' RB_MANUAL_REVIEW_REQUIRED None
            else if jsGe (sr_consecutiveLosses strategy) (pt_maxConsecutiveStrategyLosses thresholds) then
              failWith ''consecutive_strategy_loss_limit_exceeded'' RB_PAUSE_STRATEGY metadata
            else pass ''consecutive_strategy_loss_limit_clear'' metadata))"

definition createInfrastructureSignalMetadata :: "infrastructure_risk_snapshot \<Rightarrow> json_record" where
  "createInfrastructureSignalMetadata s =
     [(''signal'', JStr (signalName (ir_signal s))), (''observed_at'', JTime (ir_observedAt s))]
     @ optionalText ''exchange_id'' (ir_exchangeId s) @ optionalText ''market'' (ir_market s)
     @ optionalText ''strategy_id'' (ir_strategyId s) @ optionalText ''order_id'' (ir_orderId s)
     @ optionalText ''idempotency_key'' (ir_idempotencyKey s)
     @ (case ir_metadata s of None \<Rightarrow> [] | Some m \<Rightarrow> [(''metadata'', JObj m)])"

definition evaluateInfrastructureSignal :: "infrastructure_risk_snapshot \<Rightarrow> risk_evaluation" where
  "evaluateInfrastructureSignal s =
     (let metadata = Some (createInfrastructureSignalMetadata s)
      in case ir_signal s of
           STALE_MARKET_DATA \<Rightarrow> failWith ''stale_market_data'' RB_BLOCK_NEW_ORDER metadata
         | WEBSOCKET_DISCONNECTED \<Rightarrow> failWith ''websocket_disconnected'' RB_BLOCK_NEW_ORDER metadata
         | WEBSOCKET_RECONNECTING \<Rightarrow> failWith ''websocket_reconnecting'' RB_BLOCK_NEW_ORDER metadata
         | DB_WRITE_FAILURE \<Rightarrow> failWith ''db_write_failure'' RB_HARD_STOP metadata
         | DUPLICATE_ORDER_IDEMPOTENCY_KEY \<Rightarrow>
             failWith ''duplicate_order_idempotency_key'' RB_HARD_STOP metadata
         | BALANCE_POSITION_MISMATCH \<Rightarrow>
             failWith ''balance_position_mismatch'' RB_MANUAL_REVIEW_REQUIRED metadata
         | NOTIFICATION_FAILURE \<Rightarrow> warn ''notification_failure'' metadata)"

definition evaluateInfrastructureSignals :: "infrastructure_risk_snapshot list \<Rightarrow> risk_evaluation list" where
  "evaluateInfrastructureSignals signals =
     (if signals = [] then [pass ''infrastructure_signals_clear'' None]
      else map evaluateInfrastructureSignal signals)"

section \<open>The gate\<close>

fun actionPriority :: "risk_block_action \<Rightarrow> nat" where
  "actionPriority RB_ALLOW = 0"
| "actionPriority RB_PAUSE_STRATEGY = 1"
| "actionPriority RB_BLOCK_NEW_ORDER = 2"
| "actionPriority RB_MANUAL_REVIEW_REQUIRED = 3"
| "actionPriority RB_HARD_STOP = 4"

definition selectMostRestrictiveAction :: "risk_evaluation list \<Rightarrow> risk_block_action" where
  "selectMostRestrictiveAction evaluations =
     foldl (\<lambda>selected e. if actionPriority selected < actionPriority (re_action e) then re_action e else selected)
       RB_ALLOW evaluations"

definition createRiskGateResult ::
  "risk_evaluation list \<Rightarrow> risk_threshold_snapshot \<Rightarrow> risk_gate_result" where
  "createRiskGateResult evaluations snapshot =
     (let failed = filter (\<lambda>e. re_status e = R_FAIL) evaluations;
          warnings = filter (\<lambda>e. re_status e = R_WARN) evaluations;
          action = selectMostRestrictiveAction evaluations
      in \<lparr>rg_status = (if failed \<noteq> [] then R_FAIL else if warnings \<noteq> [] then R_WARN else R_PASS),
          rg_approved = (failed = [] \<and> action = RB_ALLOW), rg_action = action,
          rg_evaluations = evaluations, rg_failedEvaluations = failed,
          rg_warningEvaluations = warnings, rg_thresholdSnapshot = snapshot\<rparr>)"

definition riskEvaluations :: "rounding \<Rightarrow> risk_gate_context \<Rightarrow> parsed_thresholds \<Rightarrow> risk_evaluation list" where
  "riskEvaluations rnd context thresholds =
     (let equity = readPositiveDecimal (ar_equityKrw (rc_account context)) ''account.equity_krw''
            ''account_equity_invalid'' [];
          orderNotionalBps = (case dv_value equity of
              None \<Rightarrow> \<lparr>dv_value = None, dv_evaluation = None\<rparr>
            | Some e \<Rightarrow> calculateOrderNotionalBps rnd (rc_orderIntent context) e (rc_thresholdSnapshot context))
      in evaluateLossLimits context thresholds
         @ readEvaluation equity
         @ readEvaluation orderNotionalBps
         @ (case dv_value orderNotionalBps of
              None \<Rightarrow> []
            | Some n \<Rightarrow> evaluateOrderNotionalLimit context thresholds n
                # evaluatePositionExposureLimits rnd context thresholds n)
         @ [evaluateExpectedLossLimit context thresholds,
            evaluateConsecutiveStrategyLosses context thresholds]
         @ evaluateInfrastructureSignals (rc_infrastructureSignals context))"

definition evaluateRiskGate :: "rounding \<Rightarrow> risk_gate_context \<Rightarrow> risk_gate_result result" where
  "evaluateRiskGate rnd context =
     bindR (parseThresholds (ts_thresholds (rc_thresholdSnapshot context))) (\<lambda>thresholds.
       Inr (createRiskGateResult (riskEvaluations rnd context thresholds) (rc_thresholdSnapshot context)))"

section \<open>Lemmas: statuses and actions\<close>

text \<open>An evaluation fails exactly when it asks for an action other than letting the order pass.\<close>

definition evalOk :: "risk_evaluation \<Rightarrow> bool" where
  "evalOk e \<longleftrightarrow> (re_status e = R_FAIL \<longleftrightarrow> re_action e \<noteq> RB_ALLOW)"

definition failFree :: "risk_evaluation list \<Rightarrow> bool" where
  "failFree es \<longleftrightarrow> list_all (\<lambda>e. re_status e \<noteq> R_FAIL) es"

named_theorems gate_simps \<open>statuses of the evaluations of the risk gate\<close>

lemma status_simps [simp, gate_simps]:
  "re_status (pass c m) = R_PASS" "re_action (pass c m) = RB_ALLOW"
  "re_status (warn c m) = R_WARN" "re_action (warn c m) = RB_ALLOW"
  "re_status (failWith c a m) = R_FAIL" "re_action (failWith c a m) = a"
  "re_status (withThresholdSnapshot t e) = re_status e" "re_action (withThresholdSnapshot t e) = re_action e"
  by (simp_all add: pass_def warn_def failWith_def withThresholdSnapshot_def)

lemma evalOk_simps [simp]:
  "evalOk (pass c m)" "evalOk (warn c m)" "evalOk (failWith c a m) \<longleftrightarrow> a \<noteq> RB_ALLOW"
  "evalOk (withThresholdSnapshot t e) = evalOk e"
  by (simp_all add: evalOk_def)

lemma failFree_simps [simp, gate_simps]:
  "failFree []" "failFree (e # es) \<longleftrightarrow> re_status e \<noteq> R_FAIL \<and> failFree es"
  "failFree (es @ fs) \<longleftrightarrow> failFree es \<and> failFree fs"
  "failFree (map (withThresholdSnapshot t) es) = failFree es"
  by (auto simp: failFree_def list_all_iff)

text \<open>Reads: a value or an explaining evaluation, never both.\<close>

definition readOk :: "decimal_read \<Rightarrow> bool" where
  "readOk r \<longleftrightarrow> (case dv_evaluation r of None \<Rightarrow> dv_value r \<noteq> None | Some e \<Rightarrow>
     dv_value r = None \<and> re_status e = R_FAIL \<and> re_action e = RB_MANUAL_REVIEW_REQUIRED)"

lemma readDecimal_ok: "readOk (readDecimal v f c m)"
  by (simp add: readOk_def readDecimal_def split: sum.split)

lemma readNonNegativeDecimal_ok: "readOk (readNonNegativeDecimal v f c m)"
  using readDecimal_ok [of v f c m] by (simp add: readNonNegativeDecimal_def Let_def readOk_def)

lemma readPositiveDecimal_ok: "readOk (readPositiveDecimal v f c m)"
  using readNonNegativeDecimal_ok [of v f c m] by (simp add: readPositiveDecimal_def Let_def readOk_def)

lemmas reads_ok = readDecimal_ok readNonNegativeDecimal_ok readPositiveDecimal_ok

lemma readDecimal_value: "dv_value (readDecimal v f c m) = Some x \<longleftrightarrow> parseFinancialDecimalInput v = Inr x"
  by (auto simp: readDecimal_def split: sum.split)

lemma readNonNegativeDecimal_value:
  "dv_value (readNonNegativeDecimal v f c m) = Some x \<longleftrightarrow>
     parseFinancialDecimalInput v = Inr x \<and> \<not> isNegativeInput v"
  by (auto simp: readNonNegativeDecimal_def readDecimal_def Let_def split: sum.split)

lemma isNegativeInput_parse:
  "parseFinancialDecimalInput v = Inr x \<Longrightarrow> \<not> isNegativeInput v \<Longrightarrow> 0 \<le> x"
  by (cases v) (auto simp: not_isNegativeText_parse)

lemma positive_not_negative: "parseFinancialDecimalInput v = Inr x \<Longrightarrow> 0 < x \<Longrightarrow> \<not> isNegativeInput v"
  by (cases v rule: isNegativeInput.cases) (auto elim: parseFinancialDecimal_InrE)

lemma readPositiveDecimal_value:
  "dv_value (readPositiveDecimal v f c m) = Some x \<longleftrightarrow> parseFinancialDecimalInput v = Inr x \<and> 0 < x"
proof -
  have "dv_value (readPositiveDecimal v f c m) = Some x \<longleftrightarrow>
      dv_value (readNonNegativeDecimal v f c m) = Some x \<and> x \<noteq> 0"
    using readNonNegativeDecimal_ok [of v f c m]
    by (auto simp: readPositiveDecimal_def Let_def readOk_def split: option.splits)
  then show ?thesis
    using isNegativeInput_parse [of v x] positive_not_negative [of v x]
    by (auto simp: readNonNegativeDecimal_value)
qed

lemma readEvaluation_failFree: "readOk r \<Longrightarrow> failFree (readEvaluation r) \<longleftrightarrow> dv_value r \<noteq> None"
  by (simp add: readOk_def readEvaluation_def split: option.splits)

lemma readOk_cases:
  assumes "readOk r"
  obtains (readable) x where "r = \<lparr>dv_value = Some x, dv_evaluation = None\<rparr>"
    | (refused) e where "r = \<lparr>dv_value = None, dv_evaluation = Some e\<rparr>" "re_status e = R_FAIL"
        "re_action e = RB_MANUAL_REVIEW_REQUIRED"
  using assms by (cases r) (auto simp: readOk_def split: option.splits)

section \<open>Lemmas: what each policy requires\<close>

definition lossLimitsRespected :: "risk_gate_context \<Rightarrow> parsed_thresholds \<Rightarrow> bool" where
  "lossLimitsRespected context t \<longleftrightarrow>
     (\<exists>daily weekly drawdown.
        parseFinancialDecimalInput (ar_dailyRealizedPnlBps (rc_account context)) = Inr daily \<and>
        parseFinancialDecimalInput (ar_weeklyRealizedPnlBps (rc_account context)) = Inr weekly \<and>
        parseFinancialDecimalInput (ar_maxDrawdownBps (rc_account context)) = Inr drawdown \<and>
        \<not> isNegativeInput (ar_maxDrawdownBps (rc_account context)) \<and>
        - pt_dailyLossLimitBps t < daily \<and> - pt_weeklyLossLimitBps t < weekly \<and> drawdown < pt_maxDrawdownBps t)"

lemma limitEvaluation_failFree:
  "failFree (limitEvaluation v reached fc pc key th) \<longleftrightarrow> (\<forall>x. v = Some x \<longrightarrow> \<not> reached x)"
  by (simp add: limitEvaluation_def split: option.split)

lemma evaluateLossLimits_failFree:
  "failFree (evaluateLossLimits context t) \<longleftrightarrow> lossLimitsRespected context t"
  unfolding evaluateLossLimits_def Let_def withThresholdSnapshots_def failFree_simps
    readEvaluation_failFree [OF readDecimal_ok] readEvaluation_failFree [OF readNonNegativeDecimal_ok]
    limitEvaluation_failFree lossLimitsRespected_def not_None_eq readDecimal_value readNonNegativeDecimal_value
  by (auto simp: not_le)

text \<open>
  The order's notional, which for a limit order must be its price times its quantity, and the same in
  basis points of the equity, as the gate computes it.
\<close>

definition orderNotional :: "rounding \<Rightarrow> order_intent \<Rightarrow> rat \<Rightarrow> bool" where
  "orderNotional rnd intent n \<longleftrightarrow>
     parseFinancialDecimal (oi_requestedNotional intent) = Inr n \<and> 0 < n \<and>
     (case oi_terms intent of
        MarketTerms \<Rightarrow> True
      | LimitTerms price po tif \<Rightarrow>
          (\<exists>p q. parseFinancialDecimal price = Inr p \<and> 0 < p \<and>
             parseFinancialDecimal (oi_requestedQuantity intent) = Inr q \<and> 0 < q \<and> dtimes rnd p q = n))"

definition gateNotionalBps :: "rounding \<Rightarrow> risk_gate_context \<Rightarrow> rat \<Rightarrow> bool" where
  "gateNotionalBps rnd context bps \<longleftrightarrow>
     (\<exists>equity notional. parseFinancialDecimalInput (ar_equityKrw (rc_account context)) = Inr equity \<and> 0 < equity \<and>
        orderNotional rnd (rc_orderIntent context) notional \<and>
        bps = dtimes rnd (rnd (notional / equity)) 10000)"

definition blocked :: "decimal_read \<Rightarrow> bool" where
  "blocked r \<longleftrightarrow> dv_value r = None \<and> \<not> failFree (readEvaluation r)"

lemma attachSnapshot_blocked: "readOk r \<Longrightarrow> dv_value r = None \<Longrightarrow> blocked (attachSnapshot t r)"
  by (auto simp: readOk_def blocked_def attachSnapshot_def readEvaluation_def split: option.splits)

lemma readCanonicalOrderNotional_cases:
  assumes "parseFinancialDecimal (oi_requestedNotional intent) = Inr n" and "0 < n"
  shows "orderNotional rnd intent n \<and>
      readCanonicalOrderNotional rnd intent n t = \<lparr>dv_value = Some n, dv_evaluation = None\<rparr> \<or>
    \<not> orderNotional rnd intent n \<and> blocked (readCanonicalOrderNotional rnd intent n t)"
proof (cases "oi_terms intent")
  case (LimitTerms price po tif)
  define rp where "rp = readPositiveDecimal (Amount price) ''order_intent.requested_price'' ''order_price_invalid'' []"
  define rq where "rq = readPositiveDecimal (Amount (oi_requestedQuantity intent))
    ''order_intent.requested_quantity'' ''order_quantity_invalid'' []"
  have p: "dv_value rp = Some x \<longleftrightarrow> parseFinancialDecimal price = Inr x \<and> 0 < x" for x
    by (simp add: rp_def readPositiveDecimal_value)
  have q: "dv_value rq = Some x \<longleftrightarrow> parseFinancialDecimal (oi_requestedQuantity intent) = Inr x \<and> 0 < x" for x
    by (simp add: rq_def readPositiveDecimal_value)
  have ok: "readOk rp" "readOk rq" by (simp_all add: rp_def rq_def reads_ok)
  show ?thesis
  proof (cases "dv_value rp")
    case None
    then have "\<not> (parseFinancialDecimal price = Inr x \<and> 0 < x)" for x using p by auto
    then show ?thesis using None attachSnapshot_blocked [OF ok(1)] LimitTerms
      by (auto simp: orderNotional_def readCanonicalOrderNotional_def Let_def rp_def [symmetric])
  next
    case x: (Some x)
    show ?thesis
    proof (cases "dv_value rq")
      case None
      then have "\<not> (parseFinancialDecimal (oi_requestedQuantity intent) = Inr y \<and> 0 < y)" for y using q by auto
      then show ?thesis using None attachSnapshot_blocked [OF ok(2)] LimitTerms x
        by (auto simp: orderNotional_def readCanonicalOrderNotional_def Let_def rp_def [symmetric] rq_def [symmetric])
    next
      case (Some y)
      then show ?thesis using LimitTerms x p [of x] q [of y] assms
        by (auto simp: orderNotional_def readCanonicalOrderNotional_def Let_def rp_def [symmetric] rq_def [symmetric]
            blocked_def readEvaluation_def)
    qed
  qed
qed (use assms in \<open>simp add: readCanonicalOrderNotional_def orderNotional_def\<close>)

abbreviation equityRead :: "risk_gate_context \<Rightarrow> decimal_read" where
  "equityRead context \<equiv> readPositiveDecimal (ar_equityKrw (rc_account context)) ''account.equity_krw''
     ''account_equity_invalid'' []"

definition notionalRead :: "rounding \<Rightarrow> risk_gate_context \<Rightarrow> decimal_read" where
  "notionalRead rnd context = (case dv_value (equityRead context) of
      None \<Rightarrow> \<lparr>dv_value = None, dv_evaluation = None\<rparr>
    | Some e \<Rightarrow> calculateOrderNotionalBps rnd (rc_orderIntent context) e (rc_thresholdSnapshot context))"

lemma calculateOrderNotionalBps_cases:
  "(\<exists>n. orderNotional rnd intent n \<and> calculateOrderNotionalBps rnd intent e t =
      \<lparr>dv_value = Some (dtimes rnd (rnd (n / e)) 10000), dv_evaluation = None\<rparr>) \<or>
   blocked (calculateOrderNotionalBps rnd intent e t) \<and> (\<forall>n. \<not> orderNotional rnd intent n)"
proof -
  define rn where "rn = readPositiveDecimal (Amount (oi_requestedNotional intent))
    ''order_intent.requested_notional'' ''order_notional_invalid'' []"
  have rn: "dv_value rn = Some x \<longleftrightarrow> parseFinancialDecimal (oi_requestedNotional intent) = Inr x \<and> 0 < x" for x
    by (simp add: rn_def readPositiveDecimal_value)
  have other: "orderNotional rnd intent x \<Longrightarrow> dv_value rn = Some x" for x
    by (simp add: rn orderNotional_def)
  show ?thesis
  proof (cases "dv_value rn")
    case None
    have "readOk rn" by (simp add: rn_def reads_ok)
    then show ?thesis using attachSnapshot_blocked [of rn t] None other
      by (auto simp: calculateOrderNotionalBps_def Let_def rn_def [symmetric])
  next
    case (Some n)
    then have n: "parseFinancialDecimal (oi_requestedNotional intent) = Inr n" "0 < n" using rn [of n] by auto
    note calc = calculateOrderNotionalBps_def Let_def rn_def [symmetric] Some
    show ?thesis
      using readCanonicalOrderNotional_cases [OF n, of rnd t]
    proof (elim disjE conjE)
      assume "orderNotional rnd intent n"
        "readCanonicalOrderNotional rnd intent n t = \<lparr>dv_value = Some n, dv_evaluation = None\<rparr>"
      then show ?thesis by (intro disjI1 exI [where x = n]) (simp add: calc)
    next
      assume not: "\<not> orderNotional rnd intent n" and "blocked (readCanonicalOrderNotional rnd intent n t)"
      then have "blocked (calculateOrderNotionalBps rnd intent e t)" by (simp add: calc blocked_def)
      moreover have "\<not> orderNotional rnd intent x" for x using other [of x] not Some by auto
      ultimately show ?thesis by simp
    qed
  qed
qed

lemma notionalRead_value:
  "dv_value (notionalRead rnd context) = Some bps \<longleftrightarrow> gateNotionalBps rnd context bps"
proof (cases "dv_value (equityRead context)")
  case None
  then have "\<not> (parseFinancialDecimalInput (ar_equityKrw (rc_account context)) = Inr x \<and> 0 < x)" for x
    using readPositiveDecimal_value by (metis option.distinct(1))
  then show ?thesis by (auto simp: notionalRead_def None gateNotionalBps_def)
next
  case (Some e)
  have unique: "orderNotional rnd i n \<Longrightarrow> orderNotional rnd i n' \<Longrightarrow> n = n'" for i n n'
    by (simp add: orderNotional_def)
  have "parseFinancialDecimalInput (ar_equityKrw (rc_account context)) = Inr e \<and> 0 < e"
    using Some by (simp add: readPositiveDecimal_value)
  then show ?thesis
    using calculateOrderNotionalBps_cases [of rnd "rc_orderIntent context" e "rc_thresholdSnapshot context"]
    by (auto simp: notionalRead_def Some gateNotionalBps_def blocked_def dest: unique)
qed

lemma notionalRead_failFree:
  "failFree (readEvaluation (equityRead context) @ readEvaluation (notionalRead rnd context)) \<longleftrightarrow>
     (\<exists>bps. gateNotionalBps rnd context bps)"
proof -
  have "failFree (readEvaluation (equityRead context)) \<longleftrightarrow> dv_value (equityRead context) \<noteq> None"
    by (rule readEvaluation_failFree) (rule readPositiveDecimal_ok)
  moreover have "failFree (readEvaluation (notionalRead rnd context)) \<longleftrightarrow> dv_value (notionalRead rnd context) \<noteq> None"
    if "dv_value (equityRead context) = Some e" for e
    using calculateOrderNotionalBps_cases [of rnd "rc_orderIntent context" e "rc_thresholdSnapshot context"]
    by (auto simp: notionalRead_def that blocked_def) (auto simp: readEvaluation_def)
  moreover have "dv_value (equityRead context) = None \<Longrightarrow> dv_value (notionalRead rnd context) = None"
    by (simp add: notionalRead_def)
  ultimately have "failFree (readEvaluation (equityRead context) @ readEvaluation (notionalRead rnd context)) \<longleftrightarrow>
      dv_value (notionalRead rnd context) \<noteq> None"
    by (cases "dv_value (equityRead context)") auto
  then show ?thesis by (simp add: notionalRead_value)
qed

text \<open>The exposures after the order, market by market, and the limits on them.\<close>

definition projectedExposures :: "rounding \<Rightarrow> risk_gate_context \<Rightarrow> rat \<Rightarrow> market_exposure list" where
  "projectedExposures rnd context bps =
     (let current = createCurrentExposureByMarket rnd (rc_positions context) [];
          target = exposureTarget rnd (rc_orderIntent context) current bps
      in createProjectedExposures current (xt_targetMarket target) (xt_projectedTargetExposureBps target))"

definition exposuresRespected :: "rounding \<Rightarrow> risk_gate_context \<Rightarrow> parsed_thresholds \<Rightarrow> rat \<Rightarrow> bool" where
  "exposuresRespected rnd context t bps \<longleftrightarrow>
     (\<forall>p \<in> set (rc_positions context). \<not> isNegativeInput (pr_notionalBpsOfEquity p) \<and>
        is_ok (parseFinancialDecimalInput (pr_notionalBpsOfEquity p))) \<and>
     (\<forall>x \<in> set (projectedExposures rnd context bps). me_bpsOfEquity x \<le>
        (if isBtcOrEthMarket (me_market x) then pt_btcEthMaxPositionBpsOfEquity t
         else pt_altMaxPositionBpsOfEquity t)) \<and>
     totalAltExposure rnd (projectedExposures rnd context bps) \<le> pt_totalAltMaxPositionBpsOfEquity t"

lemma readPositionBps_ok: "readOk (readPositionBps p)"
  by (simp add: readPositionBps_def reads_ok)

lemma is_ok_bindR: "is_ok (bindR r f) \<longleftrightarrow> is_ok r \<and> is_ok (f (projr r))"
  by (cases r) auto

lemma invalid_positions_empty:
  "concat (map (\<lambda>p. readEvaluation (readPositionBps p)) ps) = [] \<longleftrightarrow>
     (\<forall>p \<in> set ps. \<not> isNegativeInput (pr_notionalBpsOfEquity p) \<and>
        is_ok (parseFinancialDecimalInput (pr_notionalBpsOfEquity p)))"
proof -
  have "readEvaluation (readPositionBps p) = [] \<longleftrightarrow> (\<exists>x. dv_value (readPositionBps p) = Some x)" for p
    using readPositionBps_ok [of p] by (auto simp: readOk_def readEvaluation_def split: option.splits)
  then show ?thesis by (auto simp: readPositionBps_def readNonNegativeDecimal_value is_ok_iff)
qed

lemma positions_all_fail:
  "failFree (concat (map (\<lambda>p. readEvaluation (readPositionBps p)) ps)) \<longleftrightarrow>
     concat (map (\<lambda>p. readEvaluation (readPositionBps p)) ps) = []"
proof -
  have "failFree (readEvaluation (readPositionBps p)) \<longleftrightarrow> readEvaluation (readPositionBps p) = []" for p
    using readPositionBps_ok [of p] by (auto simp: readOk_def readEvaluation_def split: option.splits)
  then show ?thesis by (induction ps) auto
qed

lemma evaluateBtcEthExposureLimit_failFree:
  "failFree (evaluateBtcEthExposureLimit context t xs target) \<longleftrightarrow>
     (\<forall>x \<in> set xs. isBtcOrEthMarket (me_market x) \<longrightarrow> me_bpsOfEquity x \<le> pt_btcEthMaxPositionBpsOfEquity t)"
  by (auto simp: evaluateBtcEthExposureLimit_def Let_def filter_empty_conv not_less)

lemma evaluateAltExposureLimits_failFree:
  "failFree (evaluateAltExposureLimits rnd context t xs target) \<longleftrightarrow>
     (\<forall>x \<in> set xs. isAltMarket (me_market x) \<longrightarrow> me_bpsOfEquity x \<le> pt_altMaxPositionBpsOfEquity t) \<and>
     totalAltExposure rnd xs \<le> pt_totalAltMaxPositionBpsOfEquity t"
  by (auto simp: evaluateAltExposureLimits_def Let_def filter_empty_conv not_less)

lemma evaluatePositionExposureLimits_failFree:
  "failFree (evaluatePositionExposureLimits rnd context t bps) \<longleftrightarrow> exposuresRespected rnd context t bps"
proof (cases "concat (map (\<lambda>p. readEvaluation (readPositionBps p)) (rc_positions context)) = []")
  case True
  then show ?thesis
    by (auto simp: evaluatePositionExposureLimits_def Let_def evaluateBtcEthExposureLimit_failFree
        evaluateAltExposureLimits_failFree exposuresRespected_def invalid_positions_empty [symmetric]
        projectedExposures_def isAltMarket_def simp del: concat_eq_Nil_conv)
next
  case False
  then show ?thesis
    by (simp add: evaluatePositionExposureLimits_def Let_def positions_all_fail exposuresRespected_def
        invalid_positions_empty [symmetric] del: concat_eq_Nil_conv)
qed

definition expectedLossRespected :: "risk_gate_context \<Rightarrow> parsed_thresholds \<Rightarrow> bool" where
  "expectedLossRespected context t \<longleftrightarrow>
     (\<exists>x. dv_value (readExpectedLossBpsOfEquity context) = Some x \<and> x \<le> pt_maxExpectedLossBpsOfEquity t)"

definition strategyRespected :: "risk_gate_context \<Rightarrow> parsed_thresholds \<Rightarrow> bool" where
  "strategyRespected context t \<longleftrightarrow>
     sr_strategyId (rc_strategy context) = oi_strategyId (rc_orderIntent context) \<and>
     isSafeInteger (sr_consecutiveLosses (rc_strategy context)) \<and>
     jsGe (sr_consecutiveLosses (rc_strategy context)) (JsFinite 0) \<and>
     \<not> jsGe (sr_consecutiveLosses (rc_strategy context)) (pt_maxConsecutiveStrategyLosses t)"

lemma readExpectedLoss_cases:
  obtains "readExpectedLossBpsOfEquity context = \<lparr>dv_value = None, dv_evaluation = None\<rparr>"
    | "readOk (readExpectedLossBpsOfEquity context)"
  by (cases "orElse (rc_expectedLossBpsOfEquity context) (map_option jsonInput
        (orElse (metadataValue (oi_metadata (rc_orderIntent context)) ''expected_loss_bps_of_equity'')
          (metadataValue (oi_metadata (rc_orderIntent context)) ''expectedLossBpsOfEquity'')))")
    (auto simp: readExpectedLossBpsOfEquity_def Let_def reads_ok)

lemma evaluateExpectedLossLimit_status:
  "re_status (evaluateExpectedLossLimit context t) \<noteq> R_FAIL \<longleftrightarrow> expectedLossRespected context t"
proof (cases rule: readExpectedLoss_cases [of "context"])
  case 1
  then show ?thesis by (simp add: evaluateExpectedLossLimit_def expectedLossRespected_def)
next
  case 2
  then show ?thesis
    by (cases rule: readOk_cases) (auto simp: evaluateExpectedLossLimit_def Let_def expectedLossRespected_def)
qed

lemma evaluateConsecutiveStrategyLosses_status:
  "re_status (evaluateConsecutiveStrategyLosses context t) \<noteq> R_FAIL \<longleftrightarrow> strategyRespected context t"
  by (auto simp: evaluateConsecutiveStrategyLosses_def Let_def strategyRespected_def)

lemma evaluateInfrastructureSignals_failFree:
  "failFree (evaluateInfrastructureSignals ss) \<longleftrightarrow> (\<forall>s \<in> set ss. ir_signal s = NOTIFICATION_FAILURE)"
proof -
  have "re_status (evaluateInfrastructureSignal s) \<noteq> R_FAIL \<longleftrightarrow> ir_signal s = NOTIFICATION_FAILURE" for s
    by (cases "ir_signal s") (simp_all add: evaluateInfrastructureSignal_def Let_def)
  then show ?thesis by (auto simp: evaluateInfrastructureSignals_def failFree_def list_all_iff)
qed

text \<open>Everything the gate demands of an order it approves.\<close>

definition withinRiskLimits :: "rounding \<Rightarrow> risk_gate_context \<Rightarrow> parsed_thresholds \<Rightarrow> bool" where
  "withinRiskLimits rnd context t \<longleftrightarrow>
     lossLimitsRespected context t \<and>
     (\<exists>bps. gateNotionalBps rnd context bps \<and> bps \<le> pt_maxOrderNotionalBpsOfEquity t \<and>
        exposuresRespected rnd context t bps) \<and>
     expectedLossRespected context t \<and> strategyRespected context t \<and>
     (\<forall>s \<in> set (rc_infrastructureSignals context). ir_signal s = NOTIFICATION_FAILURE)"

lemma evaluateOrderNotionalLimit_status:
  "re_status (evaluateOrderNotionalLimit context t n) \<noteq> R_FAIL \<longleftrightarrow> n \<le> pt_maxOrderNotionalBpsOfEquity t"
  by (auto simp: evaluateOrderNotionalLimit_def Let_def)

lemma riskEvaluations_eq:
  "riskEvaluations rnd context t =
     evaluateLossLimits context t @ (readEvaluation (equityRead context) @ readEvaluation (notionalRead rnd context))
     @ (case dv_value (notionalRead rnd context) of
          None \<Rightarrow> []
        | Some n \<Rightarrow> evaluateOrderNotionalLimit context t n # evaluatePositionExposureLimits rnd context t n)
     @ evaluateExpectedLossLimit context t # evaluateConsecutiveStrategyLosses context t
     # evaluateInfrastructureSignals (rc_infrastructureSignals context)"
  by (simp add: riskEvaluations_def Let_def notionalRead_def)

lemma riskEvaluations_failFree: "failFree (riskEvaluations rnd context t) \<longleftrightarrow> withinRiskLimits rnd context t"
proof -
  have "failFree (case dv_value (notionalRead rnd context) of None \<Rightarrow> []
      | Some n \<Rightarrow> evaluateOrderNotionalLimit context t n # evaluatePositionExposureLimits rnd context t n) \<longleftrightarrow>
      (\<forall>n. gateNotionalBps rnd context n \<longrightarrow> n \<le> pt_maxOrderNotionalBpsOfEquity t \<and> exposuresRespected rnd context t n)"
    by (auto simp: notionalRead_value [symmetric] evaluateOrderNotionalLimit_status
        evaluatePositionExposureLimits_failFree split: option.split)
  moreover have "gateNotionalBps rnd context n \<Longrightarrow> gateNotionalBps rnd context m \<Longrightarrow> n = m" for n m
    by (simp add: notionalRead_value [symmetric])
  ultimately show ?thesis
    unfolding riskEvaluations_eq failFree_simps(2,3) notionalRead_failFree [unfolded failFree_simps(3)]
      evaluateLossLimits_failFree evaluateExpectedLossLimit_status evaluateConsecutiveStrategyLosses_status
      evaluateInfrastructureSignals_failFree withinRiskLimits_def
    by blast
qed

section \<open>Lemmas: the strictest action\<close>

lemma selectMostRestrictiveAction_snoc:
  "selectMostRestrictiveAction (es @ [e]) =
     (if actionPriority (selectMostRestrictiveAction es) < actionPriority (re_action e) then re_action e
      else selectMostRestrictiveAction es)"
  by (simp add: selectMostRestrictiveAction_def)

lemma selectMostRestrictiveAction_max:
  "e \<in> set es \<Longrightarrow> actionPriority (re_action e) \<le> actionPriority (selectMostRestrictiveAction es)"
  by (induction es rule: rev_induct) (auto simp: selectMostRestrictiveAction_snoc)

lemma selectMostRestrictiveAction_in:
  "selectMostRestrictiveAction es = RB_ALLOW \<or> (\<exists>e \<in> set es. re_action e = selectMostRestrictiveAction es)"
proof (induction es rule: rev_induct)
  case Nil
  show ?case by (simp add: selectMostRestrictiveAction_def)
next
  case (snoc e es)
  then show ?case by (auto simp: selectMostRestrictiveAction_snoc)
qed

lemma actionPriority_0 [simp]: "actionPriority a = 0 \<longleftrightarrow> a = RB_ALLOW"
  by (cases a) simp_all

lemma actionPriority_inject [simp]: "actionPriority a = actionPriority b \<longleftrightarrow> a = b"
  by (cases a; cases b) simp_all

lemma readOk_evalOk: "readOk r \<Longrightarrow> list_all evalOk (readEvaluation r)"
  by (auto simp: readOk_def readEvaluation_def evalOk_def split: option.splits)

lemma list_all_evalOk_attach:
  "readOk r \<Longrightarrow> list_all evalOk (readEvaluation (attachSnapshot t r))"
  by (auto simp: readOk_def readEvaluation_def attachSnapshot_def evalOk_def split: option.splits)

lemma readEvaluation_simps [simp]:
  "readEvaluation \<lparr>dv_value = v, dv_evaluation = None\<rparr> = []"
  "readEvaluation \<lparr>dv_value = v, dv_evaluation = Some e\<rparr> = [e]"
  by (simp_all add: readEvaluation_def)

lemma calculateOrderNotionalBps_evalOk:
  "list_all evalOk (readEvaluation (calculateOrderNotionalBps rnd intent e t))"
  unfolding calculateOrderNotionalBps_def readCanonicalOrderNotional_def Let_def
  by (auto simp: list_all_evalOk_attach [OF readPositiveDecimal_ok] split: option.split order_terms.split)

lemma riskEvaluations_evalOk: "list_all evalOk (riskEvaluations rnd context t)"
proof -
  have "list_all evalOk (evaluateLossLimits context t)"
    unfolding evaluateLossLimits_def Let_def withThresholdSnapshots_def
    by (simp add: list.pred_map comp_def readOk_evalOk reads_ok limitEvaluation_def split: option.split)
  moreover have "list_all evalOk (readEvaluation (equityRead context))"
    by (simp add: readOk_evalOk reads_ok)
  moreover have "list_all evalOk (readEvaluation (notionalRead rnd context))"
    by (simp add: notionalRead_def calculateOrderNotionalBps_evalOk split: option.split)
  moreover have "evalOk (evaluateOrderNotionalLimit context t n)" for n
    by (simp add: evaluateOrderNotionalLimit_def Let_def)
  moreover have "list_all evalOk (concat (map (\<lambda>p. readEvaluation (readPositionBps p)) ps))" for ps
    by (induction ps) (simp_all add: readOk_evalOk readPositionBps_ok)
  then have "list_all evalOk (evaluatePositionExposureLimits rnd context t n)" for n
    by (simp add: evaluatePositionExposureLimits_def Let_def list.pred_map comp_def
        evaluateBtcEthExposureLimit_def evaluateAltExposureLimits_def del: concat_eq_Nil_conv)
  moreover have "evalOk (evaluateExpectedLossLimit context t)"
  proof (cases rule: readExpectedLoss_cases [of "context"])
    case 1
    then show ?thesis by (simp add: evaluateExpectedLossLimit_def)
  next
    case 2
    then show ?thesis by (cases rule: readOk_cases) (auto simp: evaluateExpectedLossLimit_def Let_def evalOk_def)
  qed
  moreover have "evalOk (evaluateConsecutiveStrategyLosses context t)"
    by (simp add: evaluateConsecutiveStrategyLosses_def Let_def)
  moreover have "evalOk (evaluateInfrastructureSignal s)" for s
    by (cases "ir_signal s") (simp_all add: evaluateInfrastructureSignal_def Let_def)
  then have "list_all evalOk (evaluateInfrastructureSignals ss)" for ss
    by (simp add: evaluateInfrastructureSignals_def list_all_iff)
  ultimately show ?thesis by (simp add: riskEvaluations_eq split: option.split)
qed

lemma createRiskGateResult_approved:
  assumes "list_all evalOk es"
  shows "rg_approved (createRiskGateResult es t) \<longleftrightarrow> failFree es"
    and "rg_approved (createRiskGateResult es t) \<longleftrightarrow> rg_action (createRiskGateResult es t) = RB_ALLOW"
    and "rg_approved (createRiskGateResult es t) \<longleftrightarrow> rg_status (createRiskGateResult es t) \<noteq> R_FAIL"
proof -
  have "failFree es \<Longrightarrow> selectMostRestrictiveAction es = RB_ALLOW"
    using selectMostRestrictiveAction_in [of es] assms by (auto simp: failFree_def list_all_iff evalOk_def)
  moreover have "selectMostRestrictiveAction es = RB_ALLOW \<Longrightarrow> failFree es"
    using selectMostRestrictiveAction_max [of _ es] assms by (fastforce simp: failFree_def list_all_iff evalOk_def)
  moreover have "filter (\<lambda>e. re_status e = R_FAIL) es = [] \<longleftrightarrow> failFree es"
    by (simp add: failFree_def list_all_iff filter_empty_conv)
  ultimately show "rg_approved (createRiskGateResult es t) \<longleftrightarrow> failFree es"
    "rg_approved (createRiskGateResult es t) \<longleftrightarrow> rg_action (createRiskGateResult es t) = RB_ALLOW"
    "rg_approved (createRiskGateResult es t) \<longleftrightarrow> rg_status (createRiskGateResult es t) \<noteq> R_FAIL"
    by (auto simp: createRiskGateResult_def Let_def)
qed

section \<open>Lemmas: exposure per market\<close>

text \<open>The exposure of one market: the figures of its positions, added up in order.\<close>

definition positionFigure :: "position_risk_snapshot \<Rightarrow> rat" where
  "positionFigure p = (case dv_value (readPositionBps p) of None \<Rightarrow> 0 | Some x \<Rightarrow> x)"

definition marketExposure :: "rounding \<Rightarrow> position_risk_snapshot list \<Rightarrow> string \<Rightarrow> rat" where
  "marketExposure rnd ps m = foldl (dplus rnd) 0 (map positionFigure
     (filter (\<lambda>p. pr_market p = m \<and> dv_value (readPositionBps p) \<noteq> None) ps))"

definition exposureAfterOrder :: "rounding \<Rightarrow> risk_gate_context \<Rightarrow> rat \<Rightarrow> string \<Rightarrow> rat" where
  "exposureAfterOrder rnd context bps m =
     (let current = marketExposure rnd (rc_positions context) m
      in if m \<noteq> oi_market (rc_orderIntent context) then current
         else case oi_side (rc_orderIntent context) of
                BUY \<Rightarrow> clampAtZero (dplus rnd current bps)
              | SELL \<Rightarrow> clampAtZero (dplus rnd current (- min bps current)))"

definition classLimit :: "parsed_thresholds \<Rightarrow> string \<Rightarrow> rat" where
  "classLimit t m = (if isBtcOrEthMarket m then pt_btcEthMaxPositionBpsOfEquity t else pt_altMaxPositionBpsOfEquity t)"

lemma exposureOf_update:
  "exposureOf (AList.update k v xs) m = (if m = k then v else exposureOf xs m)"
  by (simp add: exposureOf_def)

lemma createCurrentExposureByMarket_exposure:
  "exposureOf (createCurrentExposureByMarket rnd ps acc) m =
     foldl (dplus rnd) (exposureOf acc m) (map positionFigure
       (filter (\<lambda>p. pr_market p = m \<and> dv_value (readPositionBps p) \<noteq> None) ps))"
  by (induction ps arbitrary: acc) (auto simp: exposureOf_update positionFigure_def split: option.split)

lemma exposureOf_current:
  "exposureOf (createCurrentExposureByMarket rnd ps []) m = marketExposure rnd ps m"
  by (simp add: createCurrentExposureByMarket_exposure marketExposure_def) (simp add: exposureOf_def)

lemma parseNonNegativeThreshold_nonneg: "parseNonNegativeThreshold v f = Inr d \<Longrightarrow> 0 \<le> d"
  by (auto simp: parseNonNegativeThreshold_def bindR_Inr_iff dest: not_isNegativeText_parse split: if_splits)

lemma parseThresholds_nonneg:
  assumes "parseThresholds t = Inr p"
  shows "0 \<le> pt_btcEthMaxPositionBpsOfEquity p" "0 \<le> pt_altMaxPositionBpsOfEquity p"
  using assms unfolding parseThresholds_def
  by (elim bindR_InrE, auto dest: parseNonNegativeThreshold_nonneg)+

lemma projected_class_limit:
  assumes respected: "exposuresRespected rnd context t bps"
    and nonneg: "0 \<le> pt_btcEthMaxPositionBpsOfEquity t" "0 \<le> pt_altMaxPositionBpsOfEquity t"
  shows "exposureAfterOrder rnd context bps m \<le> classLimit t m"
proof -
  define current where "current = createCurrentExposureByMarket rnd (rc_positions context) []"
  define target where "target = exposureTarget rnd (rc_orderIntent context) current bps"
  define after where "after = AList.update (xt_targetMarket target) (xt_projectedTargetExposureBps target) current"
  have market: "xt_targetMarket target = oi_market (rc_orderIntent context)"
    by (simp add: target_def exposureTarget_def Let_def)
  have "exposureOf after m = exposureAfterOrder rnd context bps m"
    by (simp add: after_def exposureOf_update exposureAfterOrder_def market Let_def exposureOf_current [symmetric]
        current_def [symmetric])
      (simp add: target_def exposureTarget_def Let_def calculateCandidateExposureDeltaBps_def split: order_side.split)
  moreover have "exposureOf after m \<le> classLimit t m"
  proof (cases "map_of after m")
    case None
    then show ?thesis using nonneg by (simp add: exposureOf_def classLimit_def)
  next
    case (Some x)
    then have "\<lparr>me_market = m, me_bpsOfEquity = x\<rparr> \<in> set (projectedExposures rnd context bps)"
      by (auto simp: projectedExposures_def createProjectedExposures_def Let_def current_def [symmetric]
          target_def [symmetric] after_def [symmetric] dest!: map_of_SomeD)
    then have "x \<le> classLimit t m"
      using respected unfolding exposuresRespected_def classLimit_def by fastforce
    then show ?thesis using Some by (simp add: exposureOf_def)
  qed
  ultimately show ?thesis by simp
qed

section \<open>Properties\<close>

lemma evaluateRiskGate_result:
  assumes "parseThresholds (ts_thresholds (rc_thresholdSnapshot context)) = Inr t"
  shows "evaluateRiskGate rnd context =
    Inr (createRiskGateResult (riskEvaluations rnd context t) (rc_thresholdSnapshot context))"
  using assms by (simp add: evaluateRiskGate_def)

text \<open>
  C8. What approval means. With valid thresholds the gate always returns a result, and it approves
  an order exactly when every requirement holds: the daily and weekly results are above the loss
  limits and the drawdown is below its limit; the equity is positive, the notional is positive and,
  for a limit order, equals price times quantity; the notional is within its share of the equity;
  every position figure is valid and all exposures after the order are within their limits; the
  expected loss is given and within its limit; the strategy snapshot belongs to the order's strategy
  and shows fewer losses in a row than allowed; and no infrastructure signal other than a failed
  notification is active. An unreadable or missing figure never counts as acceptable.
\<close>

theorem evaluateRiskGate_approves_iff:
  assumes "parseThresholds (ts_thresholds (rc_thresholdSnapshot context)) = Inr t"
  shows "\<exists>r. evaluateRiskGate rnd context = Inr r \<and>
    (rg_approved r \<longleftrightarrow> withinRiskLimits rnd context t) \<and>
    (rg_approved r \<longleftrightarrow> rg_action r = RB_ALLOW) \<and> (rg_approved r \<longleftrightarrow> rg_status r \<noteq> R_FAIL)"
  using evaluateRiskGate_result [OF assms, of rnd]
    createRiskGateResult_approved [OF riskEvaluations_evalOk, of rnd "context" t "rc_thresholdSnapshot context"]
    riskEvaluations_failFree [of rnd "context" t] by blast

definition exampleSnapshot :: risk_threshold_snapshot where
  "exampleSnapshot = createRiskThresholdSnapshot defaultRiskLimitThresholds (At 1) None"

definition exampleRiskIntent :: order_intent where
  "exampleRiskIntent =
     \<lparr>oi_exchangeId = ''UPBIT'', oi_market = ''KRW-BTC'', oi_strategyId = ''s1'', oi_side = BUY,
      oi_requestedQuantity = Num 2, oi_requestedNotional = Num 100, oi_idempotencyKey = ''k1'',
      oi_reason = ''entry'', oi_metadata = None, oi_terms = LimitTerms (Num 50) None None\<rparr>"

definition exampleRiskContext :: "rat \<Rightarrow> risk_gate_context" where
  "exampleRiskContext equity =
     \<lparr>rc_orderIntent = exampleRiskIntent,
      rc_account = \<lparr>ar_equityKrw = Amount (Num equity), ar_dailyRealizedPnlBps = Amount (Num (- 5)),
        ar_weeklyRealizedPnlBps = Amount (Num 0), ar_maxDrawdownBps = Amount (Num 10), ar_capturedAt = At 1\<rparr>,
      rc_positions = [], rc_strategy = \<lparr>sr_strategyId = ''s1'', sr_consecutiveLosses = JsFinite 1, sr_capturedAt = At 1\<rparr>,
      rc_infrastructureSignals = [], rc_thresholdSnapshot = exampleSnapshot, rc_observedAt = At 1,
      rc_expectedLossBpsOfEquity = Some (Amount (Num 7)), rc_metadata = None\<rparr>"

definition exampleThresholds :: parsed_thresholds where
  "exampleThresholds = \<lparr>pt_dailyLossLimitBps = 100, pt_weeklyLossLimitBps = 300, pt_maxDrawdownBps = 500,
     pt_maxOrderNotionalBpsOfEquity = 100, pt_maxExpectedLossBpsOfEquity = 20,
     pt_btcEthMaxPositionBpsOfEquity = 2000, pt_altMaxPositionBpsOfEquity = 500,
     pt_totalAltMaxPositionBpsOfEquity = 1500, pt_maxConsecutiveStrategyLosses = JsFinite 3\<rparr>"

lemma example_thresholds:
  "parseThresholds (ts_thresholds (rc_thresholdSnapshot (exampleRiskContext e))) = Inr exampleThresholds"
  by (simp add: exampleRiskContext_def exampleSnapshot_def createRiskThresholdSnapshot_def
      defaultRiskLimitThresholds_def parseThresholds_def parseNonNegativeThreshold_def exampleThresholds_def)

lemmas gate_eval =
  riskEvaluations_def readPositiveDecimal_def readNonNegativeDecimal_def readDecimal_def readEvaluation_def
  calculateOrderNotionalBps_def readCanonicalOrderNotional_def evaluateLossLimits_def
  withThresholdSnapshots_def limitEvaluation_def evaluateOrderNotionalLimit_def
  evaluatePositionExposureLimits_def exposureTarget_def exposureOf_def calculateCandidateExposureDeltaBps_def
  clampAtZero_def createProjectedExposures_def evaluateBtcEthExposureLimit_def evaluateAltExposureLimits_def
  totalAltExposure_def isAltMarket_def isBtcOrEthMarket_def evaluateExpectedLossLimit_def
  readExpectedLossBpsOfEquity_def orElse_def evaluateConsecutiveStrategyLosses_def
  evaluateInfrastructureSignals_def exampleRiskContext_def exampleRiskIntent_def exampleThresholds_def
  decimal_ops exactRound_def toUpperCase_def upperChar_def Let_def

lemma example_within: "withinRiskLimits exactRound (exampleRiskContext 10000) exampleThresholds"
  unfolding riskEvaluations_failFree [symmetric] by (simp add: gate_eval)

lemma example_not_within: "\<not> withinRiskLimits exactRound (exampleRiskContext 9999) exampleThresholds"
  unfolding riskEvaluations_failFree [symmetric] by (simp add: gate_eval)

theorem evaluateRiskGate_approves_iff_witness:
  "(\<exists>r. evaluateRiskGate exactRound (exampleRiskContext 10000) = Inr r \<and> rg_approved r) \<and>
   (\<exists>r. evaluateRiskGate exactRound (exampleRiskContext 9999) = Inr r \<and> \<not> rg_approved r)"
  using evaluateRiskGate_approves_iff [OF example_thresholds, of exactRound 10000]
    evaluateRiskGate_approves_iff [OF example_thresholds, of exactRound 9999]
    example_within example_not_within by blast

text \<open>
  The strictest action wins. The action of a result is at least as strict as the action of every
  evaluation, in the order allow, pause strategy, block new orders, manual review, hard stop, and it
  is the action of one of them unless it is allow. In particular an active database write failure or
  duplicate idempotency key always yields a hard stop.
\<close>

theorem evaluateRiskGate_strictest_action:
  assumes "evaluateRiskGate rnd context = Inr r"
  shows "(\<forall>e \<in> set (rg_evaluations r). actionPriority (re_action e) \<le> actionPriority (rg_action r)) \<and>
    (rg_action r = RB_ALLOW \<or> (\<exists>e \<in> set (rg_evaluations r). re_action e = rg_action r)) \<and>
    ((\<exists>s \<in> set (rc_infrastructureSignals context).
        ir_signal s \<in> {DB_WRITE_FAILURE, DUPLICATE_ORDER_IDEMPOTENCY_KEY}) \<longrightarrow> rg_action r = RB_HARD_STOP)"
proof -
  obtain t where r: "r = createRiskGateResult (riskEvaluations rnd context t) (rc_thresholdSnapshot context)"
    using assms by (auto simp: evaluateRiskGate_def bindR_Inr_iff)
  have strict: "\<forall>e \<in> set (rg_evaluations r). actionPriority (re_action e) \<le> actionPriority (rg_action r)"
    "rg_action r = RB_ALLOW \<or> (\<exists>e \<in> set (rg_evaluations r). re_action e = rg_action r)"
    using selectMostRestrictiveAction_max selectMostRestrictiveAction_in
    by (simp_all add: r createRiskGateResult_def Let_def)
  moreover have "rg_action r = RB_HARD_STOP" if "s \<in> set (rc_infrastructureSignals context)"
    "ir_signal s \<in> {DB_WRITE_FAILURE, DUPLICATE_ORDER_IDEMPOTENCY_KEY}" for s
  proof -
    have "evaluateInfrastructureSignal s \<in> set (rg_evaluations r)"
      using that(1) by (auto simp: r createRiskGateResult_def Let_def riskEvaluations_eq evaluateInfrastructureSignals_def)
    moreover have "re_action (evaluateInfrastructureSignal s) = RB_HARD_STOP"
      using that(2) by (auto simp: evaluateInfrastructureSignal_def)
    ultimately have "actionPriority RB_HARD_STOP \<le> actionPriority (rg_action r)" using strict(1) by force
    then show ?thesis by (cases "rg_action r") simp_all
  qed
  ultimately show ?thesis by blast
qed

definition exampleBrokenContext :: risk_gate_context where
  "exampleBrokenContext = (exampleRiskContext 10000)\<lparr>rc_infrastructureSignals :=
     [\<lparr>ir_signal = DB_WRITE_FAILURE, ir_exchangeId = None, ir_market = None, ir_strategyId = None,
       ir_orderId = None, ir_idempotencyKey = None, ir_observedAt = At 2, ir_metadata = None\<rparr>]\<rparr>"

theorem evaluateRiskGate_strictest_action_witness:
  "\<exists>r. evaluateRiskGate exactRound exampleBrokenContext = Inr r \<and> rg_action r = RB_HARD_STOP"
proof -
  have "parseThresholds (ts_thresholds (rc_thresholdSnapshot exampleBrokenContext)) = Inr exampleThresholds"
    using example_thresholds [of 10000] by (simp add: exampleBrokenContext_def)
  from evaluateRiskGate_result [OF this, of exactRound]
  show ?thesis using evaluateRiskGate_strictest_action by (fastforce simp: exampleBrokenContext_def)
qed

text \<open>
  Thresholds are checked first. The gate throws exactly when one of the eight decimal thresholds
  is not a decimal, not finite or negative (a negative zero included); no evaluation softens a broken
  configuration.
\<close>

theorem evaluateRiskGate_returns_iff:
  "is_ok (evaluateRiskGate rnd context) \<longleftrightarrow>
     list_all (\<lambda>v. is_ok (parseFinancialDecimal v) \<and> \<not> isNegativeText v)
       (map (\<lambda>f. f (ts_thresholds (rc_thresholdSnapshot context)))
          [rl_dailyLossLimitBps, rl_weeklyLossLimitBps, rl_maxDrawdownBps, rl_maxOrderNotionalBpsOfEquity,
           rl_maxExpectedLossBpsOfEquity, rl_btcEthMaxPositionBpsOfEquity, rl_altMaxPositionBpsOfEquity,
           rl_totalAltMaxPositionBpsOfEquity])"
proof -
  have "is_ok (parseNonNegativeThreshold v f) \<longleftrightarrow> is_ok (parseFinancialDecimal v) \<and> \<not> isNegativeText v" for v f
    by (auto simp: parseNonNegativeThreshold_def is_ok_bindR)
  then show ?thesis
    by (simp add: evaluateRiskGate_def parseThresholds_def is_ok_bindR)
qed

text \<open>
  Exposure limits per market. If the gate approves an order, then in every market, the order's
  own and every other, the exposure after the order (the positions of that market added up, plus the
  order's notional for a buy, minus at most what is held for a sell) is within the limit of the
  market's class.
\<close>

theorem evaluateRiskGate_exposure_per_market:
  assumes "evaluateRiskGate rnd context = Inr r" and "rg_approved r"
    and t: "parseThresholds (ts_thresholds (rc_thresholdSnapshot context)) = Inr t"
  shows "\<exists>bps. gateNotionalBps rnd context bps \<and> bps \<le> pt_maxOrderNotionalBpsOfEquity t \<and>
    (\<forall>m. exposureAfterOrder rnd context bps m \<le> classLimit t m)"
proof -
  have "withinRiskLimits rnd context t"
    using assms(1,2) createRiskGateResult_approved(1) [OF riskEvaluations_evalOk] riskEvaluations_failFree
    by (auto simp: evaluateRiskGate_result [OF t])
  then show ?thesis
    using projected_class_limit [OF _ parseThresholds_nonneg [OF t]] unfolding withinRiskLimits_def by blast
qed

theorem evaluateRiskGate_exposure_per_market_witness:
  "\<exists>bps. gateNotionalBps exactRound (exampleRiskContext 10000) bps \<and>
     exposureAfterOrder exactRound (exampleRiskContext 10000) bps ''KRW-BTC'' \<le> 2000"
proof -
  have "rg_approved (createRiskGateResult (riskEvaluations exactRound (exampleRiskContext 10000) exampleThresholds)
      (rc_thresholdSnapshot (exampleRiskContext 10000)))"
    using createRiskGateResult_approved(1) [OF riskEvaluations_evalOk] riskEvaluations_failFree example_within by blast
  then obtain bps where "gateNotionalBps exactRound (exampleRiskContext 10000) bps"
    "\<forall>m. exposureAfterOrder exactRound (exampleRiskContext 10000) bps m \<le> classLimit exampleThresholds m"
    using evaluateRiskGate_exposure_per_market [OF evaluateRiskGate_result [OF example_thresholds] _ example_thresholds]
    by blast
  moreover have "classLimit exampleThresholds ''KRW-BTC'' = 2000"
    by (simp add: classLimit_def isBtcOrEthMarket_def exampleThresholds_def toUpperCase_def upperChar_def)
  ultimately show ?thesis by metis
qed

end
