(* ===== verification/Risk_Runtime.thy ===== *)
theory Risk_Runtime
  imports Risk_Gate Paper_Broker
begin

text \<open>
  The runtime around the risk gate, \<^verbatim>\<open>src/src/application/risk/risk-gate-runtime.ts\<close> and its modules: it
  evaluates the gate again for the current candidate, adds the checks only the runtime can make
  (does the candidate match the evaluated one, does the kill switch block, is the order in a state
  that may be decided), and turns the result into state transitions, risk events, audit events and
  action plans. The event store is a port, so it is a parameter. JSON records that the source fills
  with \<^verbatim>\<open>undefined\<close> carry \<open>JNull\<close> there; the human-readable message of an evaluation is left out.
\<close>

section \<open>Types\<close>

record runtime_decision_input =
  ri_orderId :: string
  ri_orderStatus :: order_status
  ri_orderIntent :: order_intent
  ri_expectedLossBpsOfEquity :: "numeric option"
  ri_currentKillSwitchState :: kill_switch_state
  ri_riskGateContext :: risk_gate_context
  ri_actor :: string
  ri_correlationId :: string
  ri_pendingPaperOrders :: "broker_order list"

record cancel_action =
  ca_brokerOrderId :: string
  ca_idempotencyKey :: string
  ca_market :: string
  ca_status :: order_status

record hard_stop_plan =
  hs_actionPlan :: kill_switch_action_plan
  hs_cancelActions :: "cancel_action list"

record strategy_pause_plan =
  sp_strategyId :: string
  sp_newOrdersBlocked :: bool
  sp_strategyEvaluationBlocked :: bool

datatype persisted_severity = P_INFO | P_WARN | P_ERROR | P_CRITICAL

record risk_event =
  rv_riskType :: string
  rv_action :: risk_block_action
  rv_occurredAt :: timestamp
  rv_severity :: persisted_severity
  rv_market :: string
  rv_strategyId :: string
  rv_orderId :: string
  rv_payload :: json_record

datatype audit_event_type = AE_STATE_TRANSITION | AE_RISK_REJECTION

record audit_event =
  ae_eventType :: audit_event_type
  ae_severity :: persisted_severity
  ae_occurredAt :: timestamp
  ae_actor :: string
  ae_reasonCode :: string
  ae_orderId :: string
  ae_strategyId :: string
  ae_metadata :: json_record
  ae_correlationId :: string

record runtime_decision_plan =
  rp_riskGateResult :: risk_gate_result
  rp_orderStateTransition :: "order_status transition_decision"
  rp_killSwitchStateTransition :: "kill_switch_state transition_decision option"
  rp_riskEvents :: "risk_event list"
  rp_auditEvents :: "audit_event list"
  rp_hardStopActionPlan :: "hard_stop_plan option"
  rp_strategyPauseActionPlan :: "strategy_pause_plan option"

section \<open>Payloads\<close>

fun riskStatusName :: "risk_status \<Rightarrow> string" where
  "riskStatusName R_PASS = ''PASS''"
| "riskStatusName R_FAIL = ''FAIL''"
| "riskStatusName R_WARN = ''WARN''"

fun riskActionName :: "risk_block_action \<Rightarrow> string" where
  "riskActionName RB_ALLOW = ''ALLOW''"
| "riskActionName RB_BLOCK_NEW_ORDER = ''BLOCK_NEW_ORDER''"
| "riskActionName RB_PAUSE_STRATEGY = ''PAUSE_STRATEGY''"
| "riskActionName RB_HARD_STOP = ''HARD_STOP''"
| "riskActionName RB_MANUAL_REVIEW_REQUIRED = ''MANUAL_REVIEW_REQUIRED''"

fun severityName :: "risk_severity \<Rightarrow> string" where
  "severityName SEV_INFO = ''INFO''"
| "severityName SEV_WARN = ''WARN''"
| "severityName SEV_BLOCKING = ''BLOCKING''"
| "severityName SEV_CRITICAL = ''CRITICAL''"

definition thresholdSnapshotJson :: "risk_threshold_snapshot \<Rightarrow> json" where
  "thresholdSnapshotJson s =
     (let t = ts_thresholds s in JObj
       [(''thresholds'', JObj
          [(''dailyLossLimitBps'', JNum (rl_dailyLossLimitBps t)),
           (''weeklyLossLimitBps'', JNum (rl_weeklyLossLimitBps t)),
           (''maxDrawdownBps'', JNum (rl_maxDrawdownBps t)),
           (''maxOrderNotionalBpsOfEquity'', JNum (rl_maxOrderNotionalBpsOfEquity t)),
           (''maxExpectedLossBpsOfEquity'', JNum (rl_maxExpectedLossBpsOfEquity t)),
           (''btcEthMaxPositionBpsOfEquity'', JNum (rl_btcEthMaxPositionBpsOfEquity t)),
           (''altMaxPositionBpsOfEquity'', JNum (rl_altMaxPositionBpsOfEquity t)),
           (''totalAltMaxPositionBpsOfEquity'', JNum (rl_totalAltMaxPositionBpsOfEquity t)),
           (''maxConsecutiveStrategyLosses'', JNumber (rl_maxConsecutiveStrategyLosses t))]),
        (''capturedAt'', JTime (ts_capturedAt s)), (''source'', JStr (ts_source s))])"

definition createRiskGateDecisionMetadata :: "risk_gate_result \<Rightarrow> strategy_risk_snapshot \<Rightarrow> json_record" where
  "createRiskGateDecisionMetadata r strategy =
     [(''status'', JStr (riskStatusName (rg_status r))), (''approved'', JBool (rg_approved r)),
      (''action'', JStr (riskActionName (rg_action r))),
      (''threshold_snapshot'', thresholdSnapshotJson (rg_thresholdSnapshot r)),
      (''strategy_id'', JStr (sr_strategyId strategy)),
      (''failed_reason_codes'', JArr (map (\<lambda>e. JStr (re_reasonCode e)) (rg_failedEvaluations r))),
      (''warning_reason_codes'', JArr (map (\<lambda>e. JStr (re_reasonCode e)) (rg_warningEvaluations r)))]"

definition toRiskGateEvaluationPayload :: "risk_evaluation \<Rightarrow> json_record" where
  "toRiskGateEvaluationPayload e =
     [(''status'', JStr (riskStatusName (re_status e))), (''reason_code'', JStr (re_reasonCode e)),
      (''severity'', JStr (severityName (re_severity e))), (''action'', JStr (riskActionName (re_action e)))]
     @ (case re_thresholdSnapshot e of None \<Rightarrow> [] | Some s \<Rightarrow> [(''threshold_snapshot'', thresholdSnapshotJson s)])
     @ (case re_metadata e of None \<Rightarrow> [] | Some m \<Rightarrow> [(''metadata'', JObj m)])"

fun eventKindName :: "state_transition_event_kind \<Rightarrow> string" where
  "eventKindName ORDER_STATE_TRANSITION = ''ORDER_STATE_TRANSITION''"
| "eventKindName KILL_SWITCH_STATE_TRANSITION = ''KILL_SWITCH_STATE_TRANSITION''"

definition toStateTransitionPayload :: "('s \<Rightarrow> string) \<Rightarrow> 's transition_event \<Rightarrow> json_record" where
  "toStateTransitionPayload name ev =
     [(''event_kind'', JStr (eventKindName (ev_eventKind ev))), (''from_state'', JStr (name (ev_fromState ev))),
      (''to_state'', JStr (name (ev_toState ev))), (''accepted'', JBool (ev_accepted ev)),
      (''reason_code'', JStr (ev_reasonCode ev)), (''message'', JStr (ev_message ev))]
     @ (case ev_metadata ev of None \<Rightarrow> [] | Some m \<Rightarrow> [(''metadata'', JObj m)])"

definition toOrderIntentPayloadFromIntent :: "order_intent \<Rightarrow> json_record" where
  "toOrderIntentPayloadFromIntent intent =
     [(''exchange_id'', JStr (oi_exchangeId intent)), (''market'', JStr (oi_market intent)),
      (''strategy_id'', JStr (oi_strategyId intent)), (''side'', JStr (sideName (oi_side intent))),
      (''order_type'', JStr (orderTypeName (oi_orderType intent))),
      (''requested_quantity'', JNum (oi_requestedQuantity intent)),
      (''requested_notional'', JNum (oi_requestedNotional intent)),
      (''idempotency_key'', JStr (oi_idempotencyKey intent)), (''reason'', JStr (oi_reason intent))]
     @ (case limitPriceOf (oi_terms intent) of None \<Rightarrow> [] | Some p \<Rightarrow> [(''requested_price'', JNum p)])
     @ (case oi_metadata intent of None \<Rightarrow> [] | Some m \<Rightarrow> [(''metadata'', JObj m)])"

definition toOrderIntentPayload :: "risk_gate_context \<Rightarrow> json_record" where
  "toOrderIntentPayload context = toOrderIntentPayloadFromIntent (rc_orderIntent context)"

fun jsonText :: "json \<Rightarrow> numeric option" where
  "jsonText (JStr s) = Some (NotDecimal s)"
| "jsonText (JNum n) = Some n"
| "jsonText _ = None"

text \<open>An order id in metadata is compared as a text, so only a \<open>JStr\<close> can equal one.\<close>

definition readStringMetadata :: "json_record option \<Rightarrow> string \<Rightarrow> json option" where
  "readStringMetadata metadata key =
     (case metadata of None \<Rightarrow> None
      | Some m \<Rightarrow> (case map_of m key of None \<Rightarrow> None | Some v \<Rightarrow> if isJsonString v then Some v else None))"

section \<open>Does the candidate match the evaluated one?\<close>

definition mismatchEntry :: "string \<Rightarrow> json \<Rightarrow> json \<Rightarrow> json_record" where
  "mismatchEntry fieldName runtimeValue riskGateValue =
     (if runtimeValue \<noteq> riskGateValue
      then [(fieldName @ ''_runtime'', runtimeValue), (fieldName @ ''_risk_gate'', riskGateValue)] else [])"

fun inputJson :: "decimal_input \<Rightarrow> json" where
  "inputJson (Amount n) = JNum (normalizeNumeric n)"
| "inputJson JsNumber = JNumber JsNaN"
| "inputJson (OtherType t) = JArr [JStr t]"

text \<open>
  The comparison of decimals: both sides are normalised if they parse and compared as texts. The
  runtime's side is a text or absent; a value of the context that is neither (\<open>JsNumber\<close>,
  \<open>OtherType\<close>, whose exact value is not kept) is never equal to it.
\<close>

definition decimalMismatch :: "string \<Rightarrow> decimal_input option \<Rightarrow> decimal_input option \<Rightarrow> json_record" where
  "decimalMismatch fieldName runtimeValue riskGateValue =
     mismatchEntry fieldName (case runtimeValue of None \<Rightarrow> JNull | Some v \<Rightarrow> inputJson v)
       (case riskGateValue of None \<Rightarrow> JNull | Some v \<Rightarrow> inputJson v)"

definition readOrderIntentExpectedLossBps :: "order_intent \<Rightarrow> numeric option" where
  "readOrderIntentExpectedLossBps intent =
     (case orElse (metadataValue (oi_metadata intent) ''expected_loss_bps_of_equity'')
             (metadataValue (oi_metadata intent) ''expectedLossBpsOfEquity'') of
        None \<Rightarrow> None | Some v \<Rightarrow> jsonText v)"

definition readRiskGateExpectedLossBps :: "risk_gate_context \<Rightarrow> decimal_input option" where
  "readRiskGateExpectedLossBps context =
     orElse (rc_expectedLossBpsOfEquity context)
       (map_option Amount (readOrderIntentExpectedLossBps (rc_orderIntent context)))"

definition readRuntimeExpectedLossBps :: "runtime_decision_input \<Rightarrow> decimal_input option" where
  "readRuntimeExpectedLossBps inp =
     map_option Amount (orElse (ri_expectedLossBpsOfEquity inp) (readOrderIntentExpectedLossBps (ri_orderIntent inp)))"

definition candidateMismatches :: "runtime_decision_input \<Rightarrow> json_record" where
  "candidateMismatches inp =
     (let intent = rc_orderIntent (ri_riskGateContext inp); runtime = ri_orderIntent inp
      in (if ri_correlationId inp \<noteq> oi_idempotencyKey runtime
          then [(''correlation_id'', JStr (ri_correlationId inp)),
                (''runtime_order_intent_idempotency_key'', JStr (oi_idempotencyKey runtime))] else [])
         @ (case readStringMetadata (oi_metadata intent) ''order_id'' of
              None \<Rightarrow> []
            | Some v \<Rightarrow> if v \<noteq> JStr (ri_orderId inp)
                then [(''order_id'', JStr (ri_orderId inp)), (''order_intent_metadata_order_id'', v)] else [])
         @ mismatchEntry ''order_intent_exchange_id'' (JStr (oi_exchangeId runtime)) (JStr (oi_exchangeId intent))
         @ mismatchEntry ''order_intent_market'' (JStr (oi_market runtime)) (JStr (oi_market intent))
         @ mismatchEntry ''order_intent_strategy_id'' (JStr (oi_strategyId runtime)) (JStr (oi_strategyId intent))
         @ mismatchEntry ''order_intent_side'' (JStr (sideName (oi_side runtime))) (JStr (sideName (oi_side intent)))
         @ mismatchEntry ''order_intent_order_type'' (JStr (orderTypeName (oi_orderType runtime)))
             (JStr (orderTypeName (oi_orderType intent)))
         @ decimalMismatch ''order_intent_requested_quantity'' (Some (Amount (oi_requestedQuantity runtime)))
             (Some (Amount (oi_requestedQuantity intent)))
         @ decimalMismatch ''order_intent_requested_notional'' (Some (Amount (oi_requestedNotional runtime)))
             (Some (Amount (oi_requestedNotional intent)))
         @ decimalMismatch ''order_intent_requested_price'' (map_option Amount (limitPriceOf (oi_terms runtime)))
             (map_option Amount (limitPriceOf (oi_terms intent)))
         @ mismatchEntry ''order_intent_idempotency_key'' (JStr (oi_idempotencyKey runtime))
             (JStr (oi_idempotencyKey intent))
         @ decimalMismatch ''order_intent_expected_loss_bps_of_equity'' (readRuntimeExpectedLossBps inp)
             (readRiskGateExpectedLossBps (ri_riskGateContext inp)))"

definition manualReviewEvaluation :: "runtime_decision_input \<Rightarrow> string \<Rightarrow> json_record \<Rightarrow> risk_evaluation" where
  "manualReviewEvaluation inp reasonCode metadata =
     \<lparr>re_status = R_FAIL, re_reasonCode = reasonCode, re_severity = SEV_CRITICAL,
      re_action = RB_MANUAL_REVIEW_REQUIRED,
      re_thresholdSnapshot = Some (rc_thresholdSnapshot (ri_riskGateContext inp)), re_metadata = Some metadata\<rparr>"

definition createRuntimeCandidateMismatchEvaluation :: "runtime_decision_input \<Rightarrow> risk_evaluation option" where
  "createRuntimeCandidateMismatchEvaluation inp =
     (let mismatches = candidateMismatches inp
      in if mismatches = [] then None
         else Some (manualReviewEvaluation inp ''risk_gate_runtime_candidate_mismatch''
           [(''order_id'', JStr (ri_orderId inp)),
            (''order_intent'', JObj (toOrderIntentPayload (ri_riskGateContext inp))),
            (''mismatches'', JObj mismatches)]))"

definition createIllegalRiskGateOrderStateTransitionEvaluation ::
  "runtime_decision_input \<Rightarrow> order_status transition_decision \<Rightarrow> risk_evaluation" where
  "createIllegalRiskGateOrderStateTransitionEvaluation inp transition =
     manualReviewEvaluation inp ''risk_gate_illegal_order_state_transition''
       [(''order_id'', JStr (ri_orderId inp)),
        (''from_state'', JStr (orderStatusName (td_fromState transition))),
        (''to_state'', JStr (orderStatusName (td_toState transition))),
        (''state_transition_reason_code'', JStr (td_reasonCode transition)),
        (''state_transition_message'', JStr (td_message transition)),
        (''order_intent'', JObj (toOrderIntentPayload (ri_riskGateContext inp)))]"

section \<open>Kill switch\<close>

definition actionPlanJson :: "kill_switch_action_plan \<Rightarrow> json" where
  "actionPlanJson p = JObj
     [(''newOrdersBlocked'', JBool (newOrdersBlocked p)),
      (''strategyEvaluationBlocked'', JBool (strategyEvaluationBlocked p)),
      (''cancelPendingPaperOrders'', JBool (cancelPendingPaperOrders p)),
      (''autoLiquidateOpenPositions'', JBool (autoLiquidateOpenPositions p)),
      (''requiresManualReview'', JBool (requiresManualReview p))]"

definition toCurrentKillSwitchRiskAction ::
  "kill_switch_state \<Rightarrow> kill_switch_action_plan \<Rightarrow> risk_block_action" where
  "toCurrentKillSwitchRiskAction state actionPlan =
     (if state = KS_HARD_STOP then RB_HARD_STOP
      else if state = KS_MANUAL_REVIEW_REQUIRED \<or> requiresManualReview actionPlan then RB_MANUAL_REVIEW_REQUIRED
      else if state = KS_STRATEGY_PAUSED then RB_PAUSE_STRATEGY
      else RB_BLOCK_NEW_ORDER)"

definition createCurrentKillSwitchBlockingEvaluation :: "runtime_decision_input \<Rightarrow> risk_evaluation option" where
  "createCurrentKillSwitchBlockingEvaluation inp =
     (let state = ri_currentKillSwitchState inp; actionPlan = getKillSwitchActionPlan state
      in if \<not> newOrdersBlocked actionPlan \<and> \<not> requiresManualReview actionPlan then None
         else let action = toCurrentKillSwitchRiskAction state actionPlan
              in Some \<lparr>re_status = R_FAIL, re_reasonCode = ''current_kill_switch_blocks_new_order'',
                   re_severity = (if action = RB_HARD_STOP \<or> action = RB_MANUAL_REVIEW_REQUIRED
                                  then SEV_CRITICAL else SEV_BLOCKING),
                   re_action = action,
                   re_thresholdSnapshot = Some (rc_thresholdSnapshot (ri_riskGateContext inp)),
                   re_metadata = Some [(''kill_switch_state'', JStr (killSwitchStateName state)),
                     (''action_plan'', actionPlanJson actionPlan),
                     (''order_intent'', JObj (toOrderIntentPayload (ri_riskGateContext inp)))]\<rparr>)"

text \<open>\<open>reduce\<close> without an initial value throws on an empty array; the callers pass at least one action.\<close>

fun selectDominantRiskAction :: "risk_block_action list \<Rightarrow> risk_block_action result" where
  "selectDominantRiskAction [] = Inl (Failure ''reduce of empty array'')"
| "selectDominantRiskAction (a # as) =
     Inr (foldl (\<lambda>selected action. if actionPriority selected < actionPriority action then action else selected) a as)"

fun killSwitchStateByAction :: "risk_block_action \<Rightarrow> kill_switch_state" where
  "killSwitchStateByAction RB_ALLOW = KS_NORMAL"
| "killSwitchStateByAction RB_BLOCK_NEW_ORDER = KS_NEW_ORDERS_BLOCKED"
| "killSwitchStateByAction RB_PAUSE_STRATEGY = KS_NORMAL"
| "killSwitchStateByAction RB_HARD_STOP = KS_HARD_STOP"
| "killSwitchStateByAction RB_MANUAL_REVIEW_REQUIRED = KS_MANUAL_REVIEW_REQUIRED"

fun killSwitchStatePriority :: "kill_switch_state \<Rightarrow> nat" where
  "killSwitchStatePriority KS_NORMAL = 0"
| "killSwitchStatePriority KS_STRATEGY_PAUSED = 1"
| "killSwitchStatePriority KS_NEW_ORDERS_BLOCKED = 2"
| "killSwitchStatePriority KS_MANUAL_REVIEW_REQUIRED = 3"
| "killSwitchStatePriority KS_HARD_STOP = 4"

definition selectTargetKillSwitchState :: "kill_switch_state \<Rightarrow> risk_block_action \<Rightarrow> kill_switch_state" where
  "selectTargetKillSwitchState currentState action =
     (let targetState = killSwitchStateByAction action
      in if killSwitchStatePriority currentState < killSwitchStatePriority targetState then targetState
         else currentState)"

definition createKillSwitchTransition ::
  "runtime_decision_input \<Rightarrow> risk_gate_result \<Rightarrow> kill_switch_state transition_decision option" where
  "createKillSwitchTransition inp r =
     (let targetState = selectTargetKillSwitchState (ri_currentKillSwitchState inp) (rg_action r)
      in if targetState = ri_currentKillSwitchState inp then None
         else Some (transitionKillSwitchState
           \<lparr>ti_fromState = ri_currentKillSwitchState inp, ti_toState = targetState,
            ti_occurredAt = rc_observedAt (ri_riskGateContext inp),
            ti_reasonCode = Some (''risk_gate_'' @ toLowerCase (riskActionName (rg_action r))),
            ti_message = Some (''RiskGate action moves kill switch to '' @ killSwitchStateName targetState),
            ti_metadata = Some (createRiskGateDecisionMetadata r (rc_strategy (ri_riskGateContext inp)))\<rparr>))"

definition createRiskOrderStateTransition ::
  "runtime_decision_input \<Rightarrow> risk_gate_result \<Rightarrow> order_status transition_decision" where
  "createRiskOrderStateTransition inp r =
     transitionOrderState
       \<lparr>ti_fromState = ri_orderStatus inp,
        ti_toState = (if rg_approved r then RISK_APPROVED else RISK_REJECTED),
        ti_occurredAt = rc_observedAt (ri_riskGateContext inp),
        ti_reasonCode = Some (if rg_approved r then ''risk_gate_order_approved'' else ''risk_gate_order_rejected''),
        ti_message = Some (if rg_approved r then ''RiskGate approved order candidate''
                           else ''RiskGate rejected order candidate''),
        ti_metadata = Some (createRiskGateDecisionMetadata r (rc_strategy (ri_riskGateContext inp)))\<rparr>"

section \<open>Fail-closed evaluations\<close>

definition appendFailClosedEvaluations ::
  "risk_gate_result \<Rightarrow> risk_evaluation list \<Rightarrow> risk_gate_result result" where
  "appendFailClosedEvaluations r es =
     (if es = [] then Inr r
      else bindR (selectDominantRiskAction (rg_action r # map re_action es)) (\<lambda>action.
        Inr (r\<lparr>rg_status := R_FAIL, rg_approved := False, rg_action := action,
               rg_evaluations := rg_evaluations r @ es,
               rg_failedEvaluations := rg_failedEvaluations r @ es\<rparr>)))"

definition optionList :: "'a option list \<Rightarrow> 'a list" where
  "optionList xs = concat (map (\<lambda>x. case x of None \<Rightarrow> [] | Some v \<Rightarrow> [v]) xs)"

definition applyRuntimeFailClosedEvaluations ::
  "runtime_decision_input \<Rightarrow> risk_gate_result \<Rightarrow> risk_gate_result result" where
  "applyRuntimeFailClosedEvaluations inp r =
     appendFailClosedEvaluations r
       (optionList [createRuntimeCandidateMismatchEvaluation inp, createCurrentKillSwitchBlockingEvaluation inp])"

definition shouldCreateStrategyPauseActionPlan :: "risk_gate_result \<Rightarrow> bool" where
  "shouldCreateStrategyPauseActionPlan r \<longleftrightarrow>
     list_ex (\<lambda>e. re_action e = RB_PAUSE_STRATEGY) (rg_failedEvaluations r)"

section \<open>Action plans and events\<close>

definition pendingPaperOrderStatusesRequiringCancel :: "order_status list" where
  "pendingPaperOrderStatusesRequiringCancel = [SUBMITTED, ACCEPTED, PARTIALLY_FILLED]"

definition createHardStopRuntimeActionPlan :: "broker_order list \<Rightarrow> hard_stop_plan" where
  "createHardStopRuntimeActionPlan pendingPaperOrders =
     \<lparr>hs_actionPlan = getKillSwitchActionPlan KS_HARD_STOP,
      hs_cancelActions = map (\<lambda>ord. \<lparr>ca_brokerOrderId = bo_brokerOrderId ord,
          ca_idempotencyKey = bo_idempotencyKey ord, ca_market = bo_market ord, ca_status = bo_status ord\<rparr>)
        (filter (\<lambda>ord. bo_status ord \<in> set pendingPaperOrderStatusesRequiringCancel) pendingPaperOrders)\<rparr>"

definition createStrategyPauseRuntimeActionPlan :: "strategy_risk_snapshot \<Rightarrow> strategy_pause_plan" where
  "createStrategyPauseRuntimeActionPlan strategy =
     \<lparr>sp_strategyId = sr_strategyId strategy, sp_newOrdersBlocked = False, sp_strategyEvaluationBlocked = True\<rparr>"

fun toPersistedRiskEventSeverity :: "risk_severity \<Rightarrow> persisted_severity" where
  "toPersistedRiskEventSeverity SEV_BLOCKING = P_ERROR"
| "toPersistedRiskEventSeverity SEV_INFO = P_INFO"
| "toPersistedRiskEventSeverity SEV_WARN = P_WARN"
| "toPersistedRiskEventSeverity SEV_CRITICAL = P_CRITICAL"

definition createRiskEvents :: "runtime_decision_input \<Rightarrow> risk_gate_result \<Rightarrow> risk_event list" where
  "createRiskEvents inp r =
     (let context = ri_riskGateContext inp
      in map (\<lambda>e. \<lparr>rv_riskType = re_reasonCode e, rv_action = re_action e, rv_occurredAt = rc_observedAt context,
               rv_severity = toPersistedRiskEventSeverity (re_severity e),
               rv_market = oi_market (rc_orderIntent context), rv_strategyId = oi_strategyId (rc_orderIntent context),
               rv_orderId = ri_orderId inp,
               rv_payload = [(''evaluation'', JObj (toRiskGateEvaluationPayload e)),
                 (''risk_gate'', JObj (createRiskGateDecisionMetadata r (rc_strategy context))),
                 (''order_intent'', JObj (toOrderIntentPayload context)),
                 (''correlation_id'', JStr (ri_correlationId inp))]\<rparr>)
           (rg_failedEvaluations r @ rg_warningEvaluations r))"

definition createStateTransitionAuditEvent ::
  "runtime_decision_input \<Rightarrow> risk_gate_result \<Rightarrow> ('s \<Rightarrow> string) \<Rightarrow> 's transition_event \<Rightarrow> string \<Rightarrow> audit_event" where
  "createStateTransitionAuditEvent inp r name ev auditKind =
     \<lparr>ae_eventType = AE_STATE_TRANSITION, ae_severity = (if ev_accepted ev then P_INFO else P_WARN),
      ae_occurredAt = ev_occurredAt ev, ae_actor = ri_actor inp, ae_reasonCode = ev_reasonCode ev,
      ae_orderId = ri_orderId inp, ae_strategyId = oi_strategyId (rc_orderIntent (ri_riskGateContext inp)),
      ae_metadata = [(''audit_kind'', JStr auditKind),
        (''state_transition'', JObj (toStateTransitionPayload name ev)),
        (''risk_gate'', JObj (createRiskGateDecisionMetadata r (rc_strategy (ri_riskGateContext inp))))],
      ae_correlationId = ri_correlationId inp\<rparr>"

definition toAuditSeverity :: "risk_block_action \<Rightarrow> persisted_severity" where
  "toAuditSeverity action =
     (if action = RB_HARD_STOP \<or> action = RB_MANUAL_REVIEW_REQUIRED then P_CRITICAL else P_WARN)"

definition createRiskRejectionAuditEvent :: "runtime_decision_input \<Rightarrow> risk_gate_result \<Rightarrow> audit_event" where
  "createRiskRejectionAuditEvent inp r =
     \<lparr>ae_eventType = AE_RISK_REJECTION, ae_severity = toAuditSeverity (rg_action r),
      ae_occurredAt = rc_observedAt (ri_riskGateContext inp), ae_actor = ri_actor inp,
      ae_reasonCode = (case rg_failedEvaluations r of [] \<Rightarrow> ''risk_gate_rejected'' | e # _ \<Rightarrow> re_reasonCode e),
      ae_orderId = ri_orderId inp, ae_strategyId = oi_strategyId (rc_orderIntent (ri_riskGateContext inp)),
      ae_metadata = [(''audit_kind'', JStr ''RISK_GATE_REJECTION''),
        (''risk_gate'', JObj (createRiskGateDecisionMetadata r (rc_strategy (ri_riskGateContext inp)))),
        (''order_intent'', JObj (toOrderIntentPayload (ri_riskGateContext inp)))],
      ae_correlationId = ri_correlationId inp\<rparr>"

definition cancelActionJson :: "cancel_action \<Rightarrow> json" where
  "cancelActionJson c = JObj
     [(''action'', JStr ''PLAN_CANCEL_PENDING_PAPER_ORDER''), (''brokerOrderId'', JStr (ca_brokerOrderId c)),
      (''idempotencyKey'', JStr (ca_idempotencyKey c)), (''market'', JStr (ca_market c)),
      (''status'', JStr (orderStatusName (ca_status c)))]"

definition createHardStopActionPlanAuditEvent :: "runtime_decision_input \<Rightarrow> hard_stop_plan \<Rightarrow> audit_event" where
  "createHardStopActionPlanAuditEvent inp plan =
     \<lparr>ae_eventType = AE_RISK_REJECTION, ae_severity = P_CRITICAL,
      ae_occurredAt = rc_observedAt (ri_riskGateContext inp), ae_actor = ri_actor inp,
      ae_reasonCode = ''hard_stop_action_plan_created'', ae_orderId = ri_orderId inp,
      ae_strategyId = oi_strategyId (rc_orderIntent (ri_riskGateContext inp)),
      ae_metadata = [(''audit_kind'', JStr ''HARD_STOP_ACTION_PLAN''),
        (''cancel_pending_paper_orders'', JBool (cancelPendingPaperOrders (hs_actionPlan plan))),
        (''auto_liquidate_open_positions'', JBool (autoLiquidateOpenPositions (hs_actionPlan plan))),
        (''requires_manual_review'', JBool (requiresManualReview (hs_actionPlan plan))),
        (''pending_paper_order_cancel_actions'', JArr (map cancelActionJson (hs_cancelActions plan)))],
      ae_correlationId = ri_correlationId inp\<rparr>"

definition createStrategyPauseActionPlanAuditEvent ::
  "runtime_decision_input \<Rightarrow> risk_gate_result \<Rightarrow> bool \<Rightarrow> strategy_pause_plan \<Rightarrow> audit_event" where
  "createStrategyPauseActionPlanAuditEvent inp r killSwitchUnchanged plan =
     \<lparr>ae_eventType = AE_RISK_REJECTION, ae_severity = P_WARN,
      ae_occurredAt = rc_observedAt (ri_riskGateContext inp), ae_actor = ri_actor inp,
      ae_reasonCode = ''strategy_pause_action_plan_created'', ae_orderId = ri_orderId inp,
      ae_strategyId = sr_strategyId (rc_strategy (ri_riskGateContext inp)),
      ae_metadata = [(''audit_kind'', JStr ''STRATEGY_PAUSE_ACTION_PLAN''),
        (''strategy_pause_action'', JObj [(''action'', JStr ''PLAN_PAUSE_STRATEGY''),
           (''strategyId'', JStr (sp_strategyId plan)), (''newOrdersBlocked'', JBool (sp_newOrdersBlocked plan)),
           (''strategyEvaluationBlocked'', JBool (sp_strategyEvaluationBlocked plan))]),
        (''global_new_orders_blocked'', JBool (rg_action r \<noteq> RB_PAUSE_STRATEGY)),
        (''global_kill_switch_unchanged'', JBool killSwitchUnchanged)],
      ae_correlationId = ri_correlationId inp\<rparr>"

definition createRiskGateAuditEvents ::
  "runtime_decision_input \<Rightarrow> risk_gate_result \<Rightarrow> order_status transition_decision
   \<Rightarrow> kill_switch_state transition_decision option \<Rightarrow> hard_stop_plan option \<Rightarrow> strategy_pause_plan option
   \<Rightarrow> audit_event list" where
  "createRiskGateAuditEvents inp r orderTransition killSwitchTransition hardStop pause =
     [createStateTransitionAuditEvent inp r orderStatusName (td_event orderTransition)
        ''RISK_GATE_ORDER_STATE_TRANSITION'']
     @ (if \<not> rg_approved r then [createRiskRejectionAuditEvent inp r] else [])
     @ (case killSwitchTransition of None \<Rightarrow> []
        | Some t \<Rightarrow> [createStateTransitionAuditEvent inp r killSwitchStateName (td_event t)
            ''RISK_GATE_KILL_SWITCH_STATE_TRANSITION''])
     @ (case hardStop of None \<Rightarrow> [] | Some plan \<Rightarrow> [createHardStopActionPlanAuditEvent inp plan])
     @ (case pause of None \<Rightarrow> []
        | Some plan \<Rightarrow> [createStrategyPauseActionPlanAuditEvent inp r (killSwitchTransition = None) plan])"

section \<open>The decision plan\<close>

definition decideOrder ::
  "rounding \<Rightarrow> runtime_decision_input \<Rightarrow> (risk_gate_result \<times> order_status transition_decision) result" where
  "decideOrder rnd inp =
     bindR (evaluateRiskGate rnd (ri_riskGateContext inp)) (\<lambda>gateResult.
     bindR (applyRuntimeFailClosedEvaluations inp gateResult) (\<lambda>r.
     let orderStateTransition = createRiskOrderStateTransition inp r
     in if td_accepted orderStateTransition then Inr (r, orderStateTransition)
        else bindR (appendFailClosedEvaluations r
                 [createIllegalRiskGateOrderStateTransitionEvaluation inp orderStateTransition]) (\<lambda>r'.
               Inr (r', createRiskOrderStateTransition inp r'))))"

definition assemblePlan ::
  "runtime_decision_input \<Rightarrow> risk_gate_result \<Rightarrow> order_status transition_decision \<Rightarrow> runtime_decision_plan" where
  "assemblePlan inp r orderStateTransition =
     (let killSwitchStateTransition = createKillSwitchTransition inp r;
          hardStopActionPlan =
            (if rg_action r = RB_HARD_STOP then Some (createHardStopRuntimeActionPlan (ri_pendingPaperOrders inp))
             else None);
          strategyPauseActionPlan =
            (if shouldCreateStrategyPauseActionPlan r
             then Some (createStrategyPauseRuntimeActionPlan (rc_strategy (ri_riskGateContext inp))) else None)
      in \<lparr>rp_riskGateResult = r, rp_orderStateTransition = orderStateTransition,
          rp_killSwitchStateTransition = killSwitchStateTransition,
          rp_riskEvents = createRiskEvents inp r,
          rp_auditEvents = createRiskGateAuditEvents inp r orderStateTransition
            killSwitchStateTransition hardStopActionPlan strategyPauseActionPlan,
          rp_hardStopActionPlan = hardStopActionPlan,
          rp_strategyPauseActionPlan = strategyPauseActionPlan\<rparr>)"

definition createRiskGateRuntimeDecisionPlan ::
  "rounding \<Rightarrow> runtime_decision_input \<Rightarrow> runtime_decision_plan result" where
  "createRiskGateRuntimeDecisionPlan rnd inp =
     bindR (decideOrder rnd inp) (\<lambda>(r, orderStateTransition). Inr (assemblePlan inp r orderStateTransition))"

text \<open>The evidence of one decision, appended to the event store in one call.\<close>

record decision_evidence =
  de_orderId :: string
  de_correlationId :: string
  de_orderEvent :: "order_status transition_event"
  de_killSwitchEvent :: "kill_switch_state transition_event option"
  de_riskEvents :: "risk_event list"
  de_auditEvents :: "audit_event list"

definition createDecisionEvidence :: "runtime_decision_input \<Rightarrow> runtime_decision_plan \<Rightarrow> decision_evidence" where
  "createDecisionEvidence inp plan =
     \<lparr>de_orderId = ri_orderId inp, de_correlationId = ri_correlationId inp,
      de_orderEvent = td_event (rp_orderStateTransition plan),
      de_killSwitchEvent = map_option td_event (rp_killSwitchStateTransition plan),
      de_riskEvents = rp_riskEvents plan, de_auditEvents = rp_auditEvents plan\<rparr>"

definition persistRiskGateRuntimeDecision ::
  "rounding \<Rightarrow> (decision_evidence \<Rightarrow> 'store \<Rightarrow> 'store \<times> 'receipt result) \<Rightarrow> runtime_decision_input \<Rightarrow> 'store
   \<Rightarrow> 'store \<times> (runtime_decision_plan \<times> 'receipt) result" where
  "persistRiskGateRuntimeDecision rnd appendDecisionEvidence inp store =
     (case createRiskGateRuntimeDecisionPlan rnd inp of
        Inl e \<Rightarrow> (store, Inl e)
      | Inr plan \<Rightarrow>
          (case appendDecisionEvidence (createDecisionEvidence inp plan) store of
             (store', Inl e) \<Rightarrow> (store', Inl e)
           | (store', Inr receipt) \<Rightarrow> (store', Inr (plan, receipt))))"

section \<open>Lemmas: the candidate\<close>

text \<open>
  The candidate matches the evaluated order when identifiers agree and amounts are equal by value
  (or, if they do not parse, as texts).
\<close>

fun sameAmount :: "numeric option \<Rightarrow> decimal_input option \<Rightarrow> bool" where
  "sameAmount None None = True"
| "sameAmount (Some m) (Some (Amount n)) = (normalizeNumeric m = normalizeNumeric n)"
| "sameAmount _ _ = False"

definition candidateMatches :: "runtime_decision_input \<Rightarrow> bool" where
  "candidateMatches inp \<longleftrightarrow>
     (let intent = rc_orderIntent (ri_riskGateContext inp); runtime = ri_orderIntent inp
      in ri_correlationId inp = oi_idempotencyKey runtime \<and>
         (case readStringMetadata (oi_metadata intent) ''order_id'' of None \<Rightarrow> True | Some v \<Rightarrow> v = JStr (ri_orderId inp)) \<and>
         oi_exchangeId runtime = oi_exchangeId intent \<and> oi_market runtime = oi_market intent \<and>
         oi_strategyId runtime = oi_strategyId intent \<and> oi_side runtime = oi_side intent \<and>
         oi_orderType runtime = oi_orderType intent \<and>
         sameAmount (Some (oi_requestedQuantity runtime)) (Some (Amount (oi_requestedQuantity intent))) \<and>
         sameAmount (Some (oi_requestedNotional runtime)) (Some (Amount (oi_requestedNotional intent))) \<and>
         sameAmount (limitPriceOf (oi_terms runtime)) (map_option Amount (limitPriceOf (oi_terms intent))) \<and>
         oi_idempotencyKey runtime = oi_idempotencyKey intent \<and>
         sameAmount (orElse (ri_expectedLossBpsOfEquity inp) (readOrderIntentExpectedLossBps runtime))
           (readRiskGateExpectedLossBps (ri_riskGateContext inp)))"

lemma mismatchEntry_empty [simp]: "mismatchEntry f a b = [] \<longleftrightarrow> a = b"
  by (simp add: mismatchEntry_def)

lemma decimalMismatch_empty [simp]: "decimalMismatch f (map_option Amount x) y = [] \<longleftrightarrow> sameAmount x y"
  by (cases x; cases y rule: option.exhaust; simp add: decimalMismatch_def)
    (metis decimal_input.exhaust inputJson.simps json.distinct json.inject sameAmount.simps)+

lemma candidateMismatches_empty: "candidateMismatches inp = [] \<longleftrightarrow> candidateMatches inp"
  using decimalMismatch_empty [of _ "Some _"]
  by (auto simp: candidateMismatches_def candidateMatches_def Let_def readRuntimeExpectedLossBps_def
      split: option.split)

section \<open>Lemmas: results of the runtime\<close>

text \<open>What every result satisfies: approval, action and failed evaluations agree.\<close>

definition resultOk :: "risk_gate_result \<Rightarrow> bool" where
  "resultOk r \<longleftrightarrow> (rg_approved r \<longleftrightarrow> rg_action r = RB_ALLOW) \<and> (rg_approved r \<longleftrightarrow> rg_failedEvaluations r = []) \<and>
     (\<forall>e \<in> set (rg_failedEvaluations r). re_action e \<noteq> RB_ALLOW \<and>
        actionPriority (re_action e) \<le> actionPriority (rg_action r))"

lemma foldl_stricter:
  "\<forall>b \<in> insert x (set xs). actionPriority b \<le> actionPriority
     (foldl (\<lambda>selected action. if actionPriority selected < actionPriority action then action else selected) x xs)"
proof (induction xs rule: rev_induct)
  case (snoc y ys)
  then show ?case by (auto simp: not_less intro: order_trans less_imp_le)
qed simp

lemma selectDominantRiskAction_ge:
  assumes "selectDominantRiskAction as = Inr a" and "b \<in> set as"
  shows "actionPriority b \<le> actionPriority a"
  using assms foldl_stricter by (cases as) auto

lemma evaluateRiskGate_resultOk:
  assumes "evaluateRiskGate rnd context = Inr r"
  shows "resultOk r"
proof -
  obtain t where r: "r = createRiskGateResult (riskEvaluations rnd context t) (rc_thresholdSnapshot context)"
    using assms by (auto simp: evaluateRiskGate_def bindR_Inr_iff)
  have "re_action e \<noteq> RB_ALLOW" if "e \<in> set (rg_failedEvaluations r)" for e
    using that riskEvaluations_evalOk [of rnd "context" t]
    by (auto simp: r createRiskGateResult_def Let_def evalOk_def list_all_iff)
  moreover have "rg_approved r \<longleftrightarrow> rg_failedEvaluations r = []"
    using createRiskGateResult_approved(1) [OF riskEvaluations_evalOk, of rnd "context" t]
    by (simp add: r failFree_def list_all_iff filter_empty_conv) (simp add: createRiskGateResult_def Let_def filter_empty_conv)
  ultimately show ?thesis
    using createRiskGateResult_approved(2) [OF riskEvaluations_evalOk] selectMostRestrictiveAction_max
    by (auto simp: resultOk_def r createRiskGateResult_def Let_def)
qed

lemma appendFailClosedEvaluations_cases:
  assumes "appendFailClosedEvaluations r es = Inr r'" and "resultOk r"
    and "\<forall>e \<in> set es. re_action e \<noteq> RB_ALLOW"
  shows "resultOk r' \<and> (rg_approved r' \<longleftrightarrow> rg_approved r \<and> es = []) \<and>
    actionPriority (rg_action r) \<le> actionPriority (rg_action r')"
proof (cases "es = []")
  case True
  then show ?thesis using assms by (simp add: appendFailClosedEvaluations_def)
next
  case False
  then obtain a where a: "selectDominantRiskAction (rg_action r # map re_action es) = Inr a"
    and r': "r' = r\<lparr>rg_status := R_FAIL, rg_approved := False, rg_action := a,
      rg_evaluations := rg_evaluations r @ es, rg_failedEvaluations := rg_failedEvaluations r @ es\<rparr>"
    using assms(1) by (auto simp: appendFailClosedEvaluations_def simp del: selectDominantRiskAction.simps elim!: bindR_InrE)
  have le: "actionPriority (rg_action r) \<le> actionPriority a" "e \<in> set es \<Longrightarrow> actionPriority (re_action e) \<le> actionPriority a" for e
    using selectDominantRiskAction_ge [OF a] by auto
  have "a \<noteq> RB_ALLOW"
  proof
    assume "a = RB_ALLOW"
    moreover obtain e where "e \<in> set es" using False by (cases es) auto
    ultimately show False using le(2) assms(3) by force
  qed
  then show ?thesis using assms(2,3) False le by (auto simp: resultOk_def r' intro: order_trans)
qed

lemma append_total: "\<exists>r'. appendFailClosedEvaluations r es = Inr r'"
  by (cases es) (simp_all add: appendFailClosedEvaluations_def)

lemma runtime_evaluations_fail:
  "e \<in> set (optionList [createRuntimeCandidateMismatchEvaluation inp, createCurrentKillSwitchBlockingEvaluation inp])
   \<Longrightarrow> re_action e \<noteq> RB_ALLOW"
  by (auto simp: optionList_def createRuntimeCandidateMismatchEvaluation_def createCurrentKillSwitchBlockingEvaluation_def
      manualReviewEvaluation_def toCurrentKillSwitchRiskAction_def Let_def split: if_splits option.splits)

definition killSwitchAllowsOrders :: "kill_switch_state \<Rightarrow> bool" where
  "killSwitchAllowsOrders s \<longleftrightarrow> s \<in> {KS_NORMAL, KS_STRATEGY_PAUSED}"

lemma runtime_evaluations_empty:
  "optionList [createRuntimeCandidateMismatchEvaluation inp, createCurrentKillSwitchBlockingEvaluation inp] = [] \<longleftrightarrow>
     candidateMatches inp \<and> killSwitchAllowsOrders (ri_currentKillSwitchState inp)"
  by (cases "ri_currentKillSwitchState inp")
    (auto simp: optionList_def createRuntimeCandidateMismatchEvaluation_def createCurrentKillSwitchBlockingEvaluation_def
      killSwitchAllowsOrders_def Let_def candidateMismatches_empty)

lemma createRiskOrderStateTransition_simps [simp]:
  "td_accepted (createRiskOrderStateTransition inp r) =
     canTransitionOrderState (ri_orderStatus inp) (if rg_approved r then RISK_APPROVED else RISK_REJECTED)"
  "td_fromState (createRiskOrderStateTransition inp r) = ri_orderStatus inp"
  "td_toState (createRiskOrderStateTransition inp r) = (if rg_approved r then RISK_APPROVED else RISK_REJECTED)"
  by (simp_all add: createRiskOrderStateTransition_def transitionOrderState_def createTransitionDecision_def Let_def)

lemma only_validated_decided:
  "canTransitionOrderState s RISK_APPROVED \<longleftrightarrow> s = VALIDATED"
  "canTransitionOrderState s RISK_REJECTED \<longleftrightarrow> s = VALIDATED"
  by (cases s; simp add: canTransitionOrderState_def)+

text \<open>The pieces of a decision plan.\<close>

lemma decideOrder_cases:
  assumes "decideOrder rnd inp = Inr (r, t)"
  obtains gate where "evaluateRiskGate rnd (ri_riskGateContext inp) = Inr gate" "resultOk r"
    "rg_approved r \<longleftrightarrow> rg_approved gate \<and> candidateMatches inp \<and>
       killSwitchAllowsOrders (ri_currentKillSwitchState inp) \<and> ri_orderStatus inp = VALIDATED"
    "actionPriority (rg_action gate) \<le> actionPriority (rg_action r)"
    "t = createRiskOrderStateTransition inp r"
proof -
  obtain gate c where gate: "evaluateRiskGate rnd (ri_riskGateContext inp) = Inr gate"
    and c: "applyRuntimeFailClosedEvaluations inp gate = Inr c"
    using assms by (auto simp: decideOrder_def bindR_Inr_iff)
  have c_ok: "resultOk c" "rg_approved c \<longleftrightarrow> rg_approved gate \<and> candidateMatches inp \<and>
      killSwitchAllowsOrders (ri_currentKillSwitchState inp)"
    "actionPriority (rg_action gate) \<le> actionPriority (rg_action c)"
    using appendFailClosedEvaluations_cases [OF c [unfolded applyRuntimeFailClosedEvaluations_def]
      evaluateRiskGate_resultOk [OF gate]] runtime_evaluations_fail [of _ inp]
    by (auto simp: runtime_evaluations_empty)
  have acc: "td_accepted (createRiskOrderStateTransition inp c) \<longleftrightarrow> ri_orderStatus inp = VALIDATED"
    by (simp add: only_validated_decided)
  show thesis
  proof (cases "ri_orderStatus inp = VALIDATED")
    case True
    then have "r = c" "t = createRiskOrderStateTransition inp c"
      using assms acc by (auto simp: decideOrder_def gate c Let_def)
    then show thesis using that [OF gate] c_ok True by simp
  next
    case False
    then have "appendFailClosedEvaluations c [createIllegalRiskGateOrderStateTransitionEvaluation inp
        (createRiskOrderStateTransition inp c)] = Inr r" and t: "t = createRiskOrderStateTransition inp r"
      using assms acc by (auto simp: decideOrder_def gate c Let_def bindR_Inr_iff)
    from appendFailClosedEvaluations_cases [OF this(1) c_ok(1)]
    have "resultOk r" "\<not> rg_approved r" "actionPriority (rg_action c) \<le> actionPriority (rg_action r)"
      by (auto simp: createIllegalRiskGateOrderStateTransitionEvaluation_def manualReviewEvaluation_def)
    then show thesis using that [OF gate] c_ok(3) False t by auto
  qed
qed

lemma plan_cases:
  assumes "createRiskGateRuntimeDecisionPlan rnd inp = Inr plan"
  obtains gate r where "evaluateRiskGate rnd (ri_riskGateContext inp) = Inr gate" "resultOk r"
    "rg_approved r \<longleftrightarrow> rg_approved gate \<and> candidateMatches inp \<and>
       killSwitchAllowsOrders (ri_currentKillSwitchState inp) \<and> ri_orderStatus inp = VALIDATED"
    "actionPriority (rg_action gate) \<le> actionPriority (rg_action r)"
    "plan = assemblePlan inp r (createRiskOrderStateTransition inp r)"
proof -
  obtain r t where dec: "decideOrder rnd inp = Inr (r, t)" and plan: "plan = assemblePlan inp r t"
    using assms by (auto simp: createRiskGateRuntimeDecisionPlan_def bindR_Inr_iff)
  show thesis using decideOrder_cases [OF dec] plan that by metis
qed

lemma decision_plan_exists:
  assumes "evaluateRiskGate rnd (ri_riskGateContext inp) = Inr gate"
  shows "\<exists>plan. createRiskGateRuntimeDecisionPlan rnd inp = Inr plan"
proof -
  obtain c where c: "applyRuntimeFailClosedEvaluations inp gate = Inr c"
    using append_total unfolding applyRuntimeFailClosedEvaluations_def by metis
  obtain r where r: "appendFailClosedEvaluations c [createIllegalRiskGateOrderStateTransitionEvaluation inp
      (createRiskOrderStateTransition inp c)] = Inr r" using append_total by metis
  show ?thesis by (simp add: createRiskGateRuntimeDecisionPlan_def decideOrder_def assms c r Let_def
      del: createRiskOrderStateTransition_simps)
qed

section \<open>Lemmas: the kill switch\<close>

definition killSwitchAfter :: "runtime_decision_input \<Rightarrow> runtime_decision_plan \<Rightarrow> kill_switch_state" where
  "killSwitchAfter inp plan = (case rp_killSwitchStateTransition plan of
     None \<Rightarrow> ri_currentKillSwitchState inp | Some t \<Rightarrow> td_toState t)"

lemma stricter_state_reachable:
  "killSwitchStatePriority s < killSwitchStatePriority s' \<Longrightarrow> canTransitionKillSwitchState s s'"
  by (cases s; cases s') (simp_all add: canTransitionKillSwitchState_def)

lemma createKillSwitchTransition_None_iff:
  "createKillSwitchTransition inp r = None \<longleftrightarrow>
     killSwitchStatePriority (killSwitchStateByAction (rg_action r)) \<le> killSwitchStatePriority (ri_currentKillSwitchState inp)"
  by (auto simp: createKillSwitchTransition_def selectTargetKillSwitchState_def Let_def)

lemma createKillSwitchTransition_Some:
  assumes "createKillSwitchTransition inp r = Some t"
  shows "td_fromState t = ri_currentKillSwitchState inp" "td_toState t = killSwitchStateByAction (rg_action r)"
    "killSwitchStatePriority (ri_currentKillSwitchState inp) < killSwitchStatePriority (td_toState t)" "td_accepted t"
    "ev_fromState (td_event t) = td_fromState t" "ev_toState (td_event t) = td_toState t" "ev_accepted (td_event t)"
  using assms stricter_state_reachable
  by (auto simp: createKillSwitchTransition_def selectTargetKillSwitchState_def Let_def transitionKillSwitchState_def
      createTransitionDecision_def split: if_splits)

lemma approved_plan_unblocked:
  assumes "createRiskGateRuntimeDecisionPlan rnd inp = Inr plan" and "rg_approved (rp_riskGateResult plan)"
  shows "killSwitchAllowsOrders (ri_currentKillSwitchState inp)"
proof (rule plan_cases [OF assms(1)])
  fix gate r
  assume "rg_approved r \<longleftrightarrow> rg_approved gate \<and> candidateMatches inp \<and>
       killSwitchAllowsOrders (ri_currentKillSwitchState inp) \<and> ri_orderStatus inp = VALIDATED"
    and "plan = assemblePlan inp r (createRiskOrderStateTransition inp r)"
  then show ?thesis using assms(2) by (simp add: assemblePlan_def Let_def)
qed

section \<open>Properties\<close>

text \<open>
  C9. When the runtime approves an order. A plan approves exactly when the gate approves the
  evaluated context, the current candidate matches the evaluated order in every identifier and
  amount, the kill switch does not block new orders, and the order is in the state VALIDATED; the
  recorded transition then leads to RISK_APPROVED and is accepted. Otherwise it leads to
  RISK_REJECTED.
\<close>

theorem runtime_plan_approves_iff:
  assumes "createRiskGateRuntimeDecisionPlan rnd inp = Inr plan"
    and "evaluateRiskGate rnd (ri_riskGateContext inp) = Inr gate"
  shows "(rg_approved (rp_riskGateResult plan) \<longleftrightarrow> rg_approved gate \<and> candidateMatches inp \<and>
      ri_currentKillSwitchState inp \<in> {KS_NORMAL, KS_STRATEGY_PAUSED} \<and> ri_orderStatus inp = VALIDATED) \<and>
    td_toState (rp_orderStateTransition plan) =
      (if rg_approved (rp_riskGateResult plan) then RISK_APPROVED else RISK_REJECTED) \<and>
    td_fromState (rp_orderStateTransition plan) = ri_orderStatus inp \<and>
    (td_accepted (rp_orderStateTransition plan) \<longleftrightarrow> ri_orderStatus inp = VALIDATED)"
proof -
  obtain gate' r where gate': "evaluateRiskGate rnd (ri_riskGateContext inp) = Inr gate'"
    and r: "rg_approved r \<longleftrightarrow> rg_approved gate' \<and> candidateMatches inp \<and>
       killSwitchAllowsOrders (ri_currentKillSwitchState inp) \<and> ri_orderStatus inp = VALIDATED"
    and plan: "plan = assemblePlan inp r (createRiskOrderStateTransition inp r)"
    using plan_cases [OF assms(1)] by metis
  have parts: "rp_riskGateResult plan = r" "rp_orderStateTransition plan = createRiskOrderStateTransition inp r"
    by (simp_all add: plan assemblePlan_def Let_def)
  show ?thesis
    using r gate' assms(2) unfolding parts createRiskOrderStateTransition_simps
    by (simp add: only_validated_decided killSwitchAllowsOrders_def)
qed

definition exampleDecision :: "kill_switch_state \<Rightarrow> runtime_decision_input" where
  "exampleDecision ks = \<lparr>ri_orderId = ''o1'', ri_orderStatus = VALIDATED, ri_orderIntent = exampleRiskIntent,
     ri_expectedLossBpsOfEquity = Some (Num 7), ri_currentKillSwitchState = ks,
     ri_riskGateContext = exampleRiskContext 10000, ri_actor = ''risk'', ri_correlationId = ''k1'',
     ri_pendingPaperOrders = []\<rparr>"

lemma example_candidate: "candidateMatches (exampleDecision ks)"
  by (simp add: candidateMatches_def exampleDecision_def exampleRiskContext_def readStringMetadata_def Let_def
      exampleRiskIntent_def orElse_def readRiskGateExpectedLossBps_def)

lemma example_gate:
  obtains gate where "evaluateRiskGate exactRound (ri_riskGateContext (exampleDecision ks)) = Inr gate" "rg_approved gate"
proof -
  have ctx: "ri_riskGateContext (exampleDecision ks) = exampleRiskContext 10000" by (simp add: exampleDecision_def)
  have "rg_approved (createRiskGateResult (riskEvaluations exactRound (exampleRiskContext 10000) exampleThresholds)
      (rc_thresholdSnapshot (exampleRiskContext 10000)))"
    using createRiskGateResult_approved(1) [OF riskEvaluations_evalOk] riskEvaluations_failFree example_within by blast
  then show thesis using that evaluateRiskGate_result [OF example_thresholds] unfolding ctx by blast
qed

theorem runtime_plan_approves_iff_witness:
  "(\<exists>plan. createRiskGateRuntimeDecisionPlan exactRound (exampleDecision KS_NORMAL) = Inr plan \<and>
      rg_approved (rp_riskGateResult plan) \<and> td_toState (rp_orderStateTransition plan) = RISK_APPROVED) \<and>
   (\<exists>plan. createRiskGateRuntimeDecisionPlan exactRound (exampleDecision KS_NEW_ORDERS_BLOCKED) = Inr plan \<and>
      \<not> rg_approved (rp_riskGateResult plan))"
proof -
  obtain g1 where g1: "evaluateRiskGate exactRound (ri_riskGateContext (exampleDecision KS_NORMAL)) = Inr g1" "rg_approved g1"
    by (rule example_gate)
  obtain g2 where g2: "evaluateRiskGate exactRound (ri_riskGateContext (exampleDecision KS_NEW_ORDERS_BLOCKED)) = Inr g2"
    by (rule example_gate)
  obtain p1 p2 where p: "createRiskGateRuntimeDecisionPlan exactRound (exampleDecision KS_NORMAL) = Inr p1"
    "createRiskGateRuntimeDecisionPlan exactRound (exampleDecision KS_NEW_ORDERS_BLOCKED) = Inr p2"
    using decision_plan_exists [OF g1(1)] decision_plan_exists [OF g2] by blast
  have "rg_approved (rp_riskGateResult p1) \<and> td_toState (rp_orderStateTransition p1) = RISK_APPROVED"
    using runtime_plan_approves_iff [OF p(1) g1(1)] g1(2) example_candidate by (simp add: exampleDecision_def)
  moreover have "\<not> rg_approved (rp_riskGateResult p2)"
    using runtime_plan_approves_iff [OF p(2) g2] by (simp add: exampleDecision_def)
  ultimately show ?thesis using p by blast
qed

text \<open>
  C10. The kill switch only tightens. A risk decision never lowers the kill switch: the state after
  the plan is the stricter of the current state and the state its action calls for, a transition in
  the plan is always accepted by the state machine and strictly raises the level, and a hard stop
  action always leaves the system in HARD_STOP.
\<close>

theorem runtime_kill_switch_tightens:
  assumes "createRiskGateRuntimeDecisionPlan rnd inp = Inr plan"
  shows "killSwitchStatePriority (killSwitchAfter inp plan) =
      max (killSwitchStatePriority (ri_currentKillSwitchState inp))
        (killSwitchStatePriority (killSwitchStateByAction (rg_action (rp_riskGateResult plan)))) \<and>
    (\<forall>t. rp_killSwitchStateTransition plan = Some t \<longrightarrow> td_accepted t \<and>
       td_fromState t = ri_currentKillSwitchState inp \<and>
       killSwitchStatePriority (td_fromState t) < killSwitchStatePriority (td_toState t)) \<and>
    (rg_action (rp_riskGateResult plan) = RB_HARD_STOP \<longrightarrow> killSwitchAfter inp plan = KS_HARD_STOP)"
proof -
  obtain r where plan: "plan = assemblePlan inp r (createRiskOrderStateTransition inp r)"
    using plan_cases [OF assms] by metis
  have parts: "rp_riskGateResult plan = r" "rp_killSwitchStateTransition plan = createKillSwitchTransition inp r"
    by (simp_all add: plan assemblePlan_def Let_def)
  have level: "killSwitchStatePriority (killSwitchAfter inp plan) =
      max (killSwitchStatePriority (ri_currentKillSwitchState inp)) (killSwitchStatePriority (killSwitchStateByAction (rg_action r)))"
  proof (cases "createKillSwitchTransition inp r")
    case None
    then show ?thesis using createKillSwitchTransition_None_iff [of inp r] by (simp add: killSwitchAfter_def parts)
  next
    case (Some t)
    then show ?thesis using createKillSwitchTransition_Some(2,3) [OF Some] by (simp add: killSwitchAfter_def parts)
  qed
  moreover have "killSwitchStatePriority s = 4 \<Longrightarrow> s = KS_HARD_STOP" for s by (cases s) simp_all
  moreover have "killSwitchStatePriority s \<le> 4" for s by (cases s) simp_all
  ultimately have "rg_action r = RB_HARD_STOP \<Longrightarrow> killSwitchAfter inp plan = KS_HARD_STOP" by simp
  moreover have "td_accepted t \<and> td_fromState t = ri_currentKillSwitchState inp \<and>
      killSwitchStatePriority (td_fromState t) < killSwitchStatePriority (td_toState t)"
    if "createKillSwitchTransition inp r = Some t" for t
    using createKillSwitchTransition_Some [OF that] by simp
  ultimately show ?thesis unfolding parts using level by blast
qed

theorem runtime_kill_switch_tightens_witness:
  "\<exists>plan. createRiskGateRuntimeDecisionPlan exactRound (exampleDecision KS_MANUAL_REVIEW_REQUIRED) = Inr plan \<and>
     3 \<le> killSwitchStatePriority (killSwitchAfter (exampleDecision KS_MANUAL_REVIEW_REQUIRED) plan)"
proof -
  obtain g where "evaluateRiskGate exactRound (ri_riskGateContext (exampleDecision KS_MANUAL_REVIEW_REQUIRED)) = Inr g"
    by (rule example_gate)
  then obtain plan where plan: "createRiskGateRuntimeDecisionPlan exactRound (exampleDecision KS_MANUAL_REVIEW_REQUIRED) = Inr plan"
    using decision_plan_exists by blast
  have "3 \<le> killSwitchStatePriority (killSwitchAfter (exampleDecision KS_MANUAL_REVIEW_REQUIRED) plan)"
    using runtime_kill_switch_tightens [OF plan] by (simp add: exampleDecision_def)
  then show ?thesis using plan by blast
qed

text \<open>
  Every rejection leaves evidence. A plan that does not approve carries at least one failed
  evaluation, asks for a restrictive action, records one risk event per failed or warning evaluation
  under its reason code, and contains a rejection audit event; a hard stop plan exists exactly for
  the hard stop action, and it cancels exactly the pending orders that the broker may still work on.
\<close>

theorem runtime_rejection_evidence:
  assumes "createRiskGateRuntimeDecisionPlan rnd inp = Inr plan" and "r = rp_riskGateResult plan"
  shows "(\<not> rg_approved r \<longrightarrow> rg_failedEvaluations r \<noteq> [] \<and> rg_action r \<noteq> RB_ALLOW \<and>
      createRiskRejectionAuditEvent inp r \<in> set (rp_auditEvents plan)) \<and>
    map rv_riskType (rp_riskEvents plan) = map re_reasonCode (rg_failedEvaluations r @ rg_warningEvaluations r) \<and>
    (rp_hardStopActionPlan plan \<noteq> None \<longleftrightarrow> rg_action r = RB_HARD_STOP) \<and>
    (\<forall>hs. rp_hardStopActionPlan plan = Some hs \<longrightarrow>
       map ca_brokerOrderId (hs_cancelActions hs) = map bo_brokerOrderId
         (filter (\<lambda>ord. bo_status ord \<in> {SUBMITTED, ACCEPTED, PARTIALLY_FILLED}) (ri_pendingPaperOrders inp)) \<and>
       autoLiquidateOpenPositions (hs_actionPlan hs) = False)"
proof -
  obtain r' where ok: "resultOk r'" and plan: "plan = assemblePlan inp r' (createRiskOrderStateTransition inp r')"
    using plan_cases [OF assms(1)] by metis
  have [simp]: "r' = r" using assms(2) by (simp add: plan assemblePlan_def Let_def)
  show ?thesis using ok
    by (auto simp: plan assemblePlan_def Let_def resultOk_def createRiskGateAuditEvents_def createRiskEvents_def
        createHardStopRuntimeActionPlan_def pendingPaperOrderStatusesRequiringCancel_def comp_def)
qed

theorem runtime_rejection_evidence_witness:
  "\<exists>plan. createRiskGateRuntimeDecisionPlan exactRound (exampleDecision KS_HARD_STOP) = Inr plan \<and>
     rg_failedEvaluations (rp_riskGateResult plan) \<noteq> []"
proof -
  obtain g where g: "evaluateRiskGate exactRound (ri_riskGateContext (exampleDecision KS_HARD_STOP)) = Inr g"
    by (rule example_gate)
  then obtain plan where plan: "createRiskGateRuntimeDecisionPlan exactRound (exampleDecision KS_HARD_STOP) = Inr plan"
    using decision_plan_exists by blast
  have "\<not> rg_approved (rp_riskGateResult plan)"
    using approved_plan_unblocked [OF plan] by (auto simp: killSwitchAllowsOrders_def exampleDecision_def)
  then show ?thesis using plan runtime_rejection_evidence [OF plan refl] by blast
qed

end
