(* ===== verification/Execution_Persistence.thy ===== *)
theory Execution_Persistence
  imports Paper_Ledger Risk_Runtime
begin

text \<open>
  How the outcome of a paper order becomes durable: \<^verbatim>\<open>src/src/infrastructure/db/execution-persistence.ts\<close>
  and its modules check the broker's order against the submission and against its own fill evidence,
  insert the order row under its idempotency key, expand the final status into lifecycle events, and
  book the fills into the position of the strategy, all in one transaction.
  A table is a list of rows; a row's id is its position. PostgreSQL and decimal.js are parameters,
  collected in \<open>numeric_env\<close>: storing a value in a \<^verbatim>\<open>numeric(36, s)\<close> column, the division of the position
  update, \<^verbatim>\<open>Decimal.toDecimalPlaces\<close>, and the rounding of sums. The CHECK constraints of
  \<^verbatim>\<open>migrations/000002_orders.sql\<close> are modelled; the reading of timestamp columns is not.
\<close>

section \<open>Parameters\<close>

record numeric_env =
  ne_round :: rounding
  ne_decimalPlaces :: "nat \<Rightarrow> rat \<Rightarrow> rat"
  ne_column :: "nat \<Rightarrow> rat \<Rightarrow> rat result"
  ne_divide :: "rat \<Rightarrow> rat \<Rightarrow> rat"

section \<open>Rows\<close>

record persist_input =
  pi_submission :: order_submission
  pi_brokerOrder :: broker_order
  pi_correlationId :: "string option"
  pi_simulatedLatencyMs :: "js_number option"

record order_reason =
  on_reason :: string
  on_brokerOrderId :: string
  on_brokerStatus :: order_status
  on_costSnapshot :: json
  on_riskApproval :: json
  on_intentMetadata :: "json_record option"
  on_expectedLossBpsOfEquity :: "numeric option"
  on_brokerMetadata :: order_evidence

record order_row =
  ow_exchange :: string
  ow_market :: string
  ow_strategyId :: string
  ow_side :: order_side
  ow_orderType :: order_type
  ow_status :: order_status
  ow_idempotencyKey :: string
  ow_requestedPrice :: "rat option"
  ow_requestedQuantity :: rat
  ow_requestedNotional :: rat
  ow_reason :: order_reason
  ow_createdAt :: timestamp
  ow_updatedAt :: timestamp

record fill_model =
  fm_brokerOrderId :: string
  fm_brokerStatus :: order_status
  fm_paperFillSimulation :: "fill_result option"
  fm_brokerMetadata :: order_evidence
  fm_simulatedLatencyMs :: "js_number option"

record paper_order_row =
  pw_orderId :: nat
  pw_postOnly :: bool
  pw_timeInForce :: "time_in_force option"
  pw_simulatedLatencyMs :: "js_number option"
  pw_fillModel :: fill_model
  pw_submittedAt :: timestamp
  pw_acceptedAt :: "timestamp option"
  pw_completedAt :: "timestamp option"

record fill_row =
  fw_orderId :: nat
  fw_exchange :: string
  fw_market :: string
  fw_side :: order_side
  fw_price :: rat
  fw_quantity :: rat
  fw_fee :: rat
  fw_feeCurrency :: string
  fw_filledAt :: timestamp

record order_event_row =
  ew_orderId :: nat
  ew_eventType :: state_transition_event_kind
  ew_fromStatus :: order_status
  ew_toStatus :: order_status
  ew_accepted :: bool
  ew_reasonCode :: string
  ew_message :: string
  ew_correlationId :: "string option"
  ew_payloadJson :: json_record
  ew_occurredAt :: timestamp

record position_row =
  po_exchange :: string
  po_market :: string
  po_strategyId :: string
  po_quantity :: rat
  po_averageEntryPrice :: rat
  po_realizedPnl :: rat
  po_unrealizedPnl :: rat
  po_updatedAt :: timestamp

record execution_db =
  xd_orders :: "order_row list"
  xd_paperOrders :: "paper_order_row list"
  xd_orderEvents :: "order_event_row list"
  xd_fills :: "fill_row list"
  xd_positions :: "position_row list"

record persist_result =
  px_created :: bool
  px_order :: order_row
  px_paperOrder :: "paper_order_row option"
  px_fills :: "fill_row list"
  px_position :: "position_row option"
  px_orderEvents :: "order_event_row list"

section \<open>Comparison of amounts\<close>

definition decimalStringEquals :: "numeric \<Rightarrow> numeric \<Rightarrow> bool result" where
  "decimalStringEquals left right =
     bindR (parseFinancialDecimal left) (\<lambda>l. bindR (parseFinancialDecimal right) (\<lambda>r. Inr (l = r)))"

definition decimalStringEqualsAtScale :: "numeric_env \<Rightarrow> rat \<Rightarrow> rat \<Rightarrow> nat \<Rightarrow> bool" where
  "decimalStringEqualsAtScale env left right scale \<longleftrightarrow>
     ne_decimalPlaces env scale left = ne_decimalPlaces env scale right"

definition nullableDecimalStringEquals :: "numeric_env \<Rightarrow> rat option \<Rightarrow> rat option \<Rightarrow> nat \<Rightarrow> bool" where
  "nullableDecimalStringEquals env left right scale =
     (case (left, right) of
        (Some l, Some r) \<Rightarrow> decimalStringEqualsAtScale env l r scale
      | _ \<Rightarrow> left = right)"

section \<open>Evidence in the broker's order\<close>

definition readPaperFillSimulation :: "broker_order \<Rightarrow> fill_result option" where
  "readPaperFillSimulation ord = oe_paperFillSimulation (bo_metadata ord)"

definition readPaperCancelEvidence :: "broker_order \<Rightarrow> rat option" where
  "readPaperCancelEvidence ord =
     map_option (\<lambda>(canceledAt, mutation). cm_canceledQuantity mutation) (oe_paperCancel (bo_metadata ord))"

definition assertBrokerOrderMatchesSubmission :: "persist_input \<Rightarrow> unit result" where
  "assertBrokerOrderMatchesSubmission inp =
     (let intent = os_intent (pi_submission inp); ord = pi_brokerOrder inp;
          identity = (bo_idempotencyKey ord = oi_idempotencyKey intent \<and> bo_exchangeId ord = oi_exchangeId intent \<and>
            bo_market ord = oi_market intent \<and> bo_side ord = oi_side intent \<and> bo_orderType ord = oi_orderType intent)
      in bindR (decimalStringEquals (Num (bo_requestedQuantity ord)) (oi_requestedQuantity intent)) (\<lambda>quantity.
         bindR (case oi_terms intent of
             MarketTerms \<Rightarrow> Inr True
           | LimitTerms price postOnly tif \<Rightarrow>
               (case bo_requestedPrice ord of None \<Rightarrow> Inr False | Some p \<Rightarrow> decimalStringEquals p price)) (\<lambda>price.
           if identity \<and> quantity \<and> price then Inr ()
           else Inl (Failure ''broker order does not match execution submission''))))"

text \<open>What is filled, open and canceled once a cancellation is taken into account.\<close>

record effective_quantities =
  eq_requestedQuantity :: rat
  eq_filledQuantity :: rat
  eq_openQuantity :: rat
  eq_canceledQuantity :: rat

definition createEffectiveSimulationQuantities ::
  "rounding \<Rightarrow> broker_order \<Rightarrow> fill_result \<Rightarrow> effective_quantities result" where
  "createEffectiveSimulationQuantities rnd ord sim =
     (let plain = \<lparr>eq_requestedQuantity = fr_requestedQuantity sim, eq_filledQuantity = fr_filledQuantity sim,
            eq_openQuantity = fr_openQuantity sim, eq_canceledQuantity = fr_canceledQuantity sim\<rparr>
      in case readPaperCancelEvidence ord of
           None \<Rightarrow> Inr plain
         | Some canceled \<Rightarrow>
             if bo_status ord \<noteq> CANCELED then Inr plain
             else if canceled \<noteq> fr_openQuantity sim then
               Inl (Failure ''paper cancel quantity does not match open simulation quantity'')
             else Inr (plain\<lparr>eq_openQuantity := 0,
               eq_canceledQuantity := dplus rnd (fr_canceledQuantity sim) canceled\<rparr>))"

definition assertStateSpecificQuantityInvariants :: "broker_order \<Rightarrow> effective_quantities \<Rightarrow> unit result" where
  "assertStateSpecificQuantityInvariants ord q =
     (if bo_status ord = FILLED then
        (if eq_filledQuantity q \<noteq> eq_requestedQuantity q \<or> eq_openQuantity q \<noteq> 0 \<or> eq_canceledQuantity q \<noteq> 0
         then Inl (Failure ''filled paper execution quantity breakdown is inconsistent'')
         else if bo_remainingQuantity ord \<noteq> 0
         then Inl (Failure ''filled paper execution must not have remaining quantity'')
         else Inr ())
      else if bo_status ord = PARTIALLY_FILLED then
        (if \<not> 0 < eq_filledQuantity q \<or> \<not> 0 < eq_openQuantity q \<or>
            \<not> eq_openQuantity q < eq_requestedQuantity q \<or> eq_canceledQuantity q \<noteq> 0
         then Inl (Failure ''partially filled paper execution requires positive open quantity below requested quantity'')
         else Inr ())
      else if bo_status ord = CANCELED then
        (if bo_remainingQuantity ord \<noteq> 0 \<or> eq_openQuantity q \<noteq> 0
         then Inl (Failure ''canceled paper execution must not have remaining quantity'')
         else if \<not> 0 < eq_canceledQuantity q \<or> \<not> eq_filledQuantity q < eq_requestedQuantity q
         then Inl (Failure ''canceled paper execution requires positive canceled quantity below requested quantity'')
         else Inr ())
      else if bo_status ord = ACCEPTED then
        (if eq_filledQuantity q \<noteq> 0 \<or> eq_canceledQuantity q \<noteq> 0 \<or> eq_openQuantity q \<noteq> eq_requestedQuantity q
         then Inl (Failure ''accepted paper execution must keep the full requested quantity open'')
         else Inr ())
      else Inr ())"

definition assertSimulationStatusCompatible :: "broker_order \<Rightarrow> fill_result \<Rightarrow> unit result" where
  "assertSimulationStatusCompatible ord sim =
     (if fr_orderStatus sim = bo_status ord \<or>
         bo_status ord = CANCELED \<and> readPaperCancelEvidence ord \<noteq> None \<or>
         bo_status ord = REJECTED \<and> oe_paperBalanceRejection (bo_metadata ord) \<noteq> None
      then Inr () else Inl (Failure ''paper simulation order status does not match broker order status''))"

definition assertSimulationQuantityMatchesBrokerOrder ::
  "numeric_env \<Rightarrow> broker_order \<Rightarrow> fill_result \<Rightarrow> unit result" where
  "assertSimulationQuantityMatchesBrokerOrder env ord sim =
     bindR (createEffectiveSimulationQuantities (ne_round env) ord sim) (\<lambda>q.
       if dplus (ne_round env) (dplus (ne_round env) (eq_filledQuantity q) (eq_openQuantity q)) (eq_canceledQuantity q)
          \<noteq> eq_requestedQuantity q
       then Inl (Failure ''paper simulation quantities do not add up to requested quantity'')
       else if bo_status ord = REJECTED then Inr ()
       else if \<not> decimalStringEqualsAtScale env (bo_requestedQuantity ord) (fr_requestedQuantity sim) 18
       then Inl (Failure ''paper simulation requested quantity does not match broker order requested quantity'')
       else if bo_remainingQuantity ord \<noteq> eq_openQuantity q
       then Inl (Failure ''paper simulation open quantity does not match broker order remaining quantity'')
       else assertStateSpecificQuantityInvariants ord q)"

definition assertFillEvidenceMatchesBrokerStatus :: "numeric_env \<Rightarrow> broker_order \<Rightarrow> unit result" where
  "assertFillEvidenceMatchesBrokerStatus env ord =
     (case readPaperFillSimulation ord of
        None \<Rightarrow> if bo_status ord = FILLED \<or> bo_status ord = PARTIALLY_FILLED
          then Inl (Failure ''filled paper execution requires fill evidence'') else Inr ()
      | Some sim \<Rightarrow>
          if (bo_status ord = FILLED \<or> bo_status ord = PARTIALLY_FILLED) \<and>
             (fr_fills sim = [] \<or> \<not> 0 < fr_filledQuantity sim)
          then Inl (Failure ''filled paper execution requires fill evidence'')
          else bindR (assertSimulationStatusCompatible ord sim) (\<lambda>_.
            bindR (assertSimulationQuantityMatchesBrokerOrder env ord sim) (\<lambda>_.
              if foldl (\<lambda>sum f. dplus (ne_round env) sum (pf_quantity f)) 0 (fr_fills sim) \<noteq> fr_filledQuantity sim
              then Inl (Failure ''paper fill evidence quantity does not match simulation filled quantity'')
              else if 0 < fr_filledQuantity sim \<and> fr_fills sim = []
              then Inl (Failure ''positive paper fill quantity requires at least one fill row'')
              else Inr ())))"

section \<open>Row mapping\<close>

definition createOrderReasonPayload :: "persist_input \<Rightarrow> order_reason" where
  "createOrderReasonPayload inp =
     (let s = pi_submission inp; ord = pi_brokerOrder inp in
      \<lparr>on_reason = oi_reason (os_intent s), on_brokerOrderId = bo_brokerOrderId ord, on_brokerStatus = bo_status ord,
       on_costSnapshot = os_costSnapshot s, on_riskApproval = os_riskApproval s,
       on_intentMetadata = oi_metadata (os_intent s), on_expectedLossBpsOfEquity = os_expectedLossBpsOfEquity s,
       on_brokerMetadata = bo_metadata ord\<rparr>)"

definition toExecutionOrderRowInput :: "persist_input \<Rightarrow> order_row result" where
  "toExecutionOrderRowInput inp =
     (let s = pi_submission inp; intent = os_intent s in
      bindR (case limitPriceOf (oi_terms intent) of
          None \<Rightarrow> Inr None
        | Some p \<Rightarrow> bindR (parseFinancialDecimal p) (\<lambda>r. Inr (Some r))) (\<lambda>price.
      bindR (parseFinancialDecimal (oi_requestedQuantity intent)) (\<lambda>quantity.
      bindR (parseFinancialDecimal (oi_requestedNotional intent)) (\<lambda>notional.
        Inr \<lparr>ow_exchange = oi_exchangeId intent, ow_market = oi_market intent, ow_strategyId = oi_strategyId intent,
             ow_side = oi_side intent, ow_orderType = oi_orderType intent, ow_status = RISK_APPROVED,
             ow_idempotencyKey = oi_idempotencyKey intent, ow_requestedPrice = price, ow_requestedQuantity = quantity,
             ow_requestedNotional = notional, ow_reason = createOrderReasonPayload inp,
             ow_createdAt = os_submittedAt s, ow_updatedAt = os_submittedAt s\<rparr>))))"

definition createPaperOrderFillModelPayload :: "persist_input \<Rightarrow> fill_model" where
  "createPaperOrderFillModelPayload inp =
     (let ord = pi_brokerOrder inp in
      \<lparr>fm_brokerOrderId = bo_brokerOrderId ord, fm_brokerStatus = bo_status ord,
       fm_paperFillSimulation = readPaperFillSimulation ord, fm_brokerMetadata = bo_metadata ord,
       fm_simulatedLatencyMs = pi_simulatedLatencyMs inp\<rparr>)"

fun toPaperOrderTimeInForce :: "time_in_force option \<Rightarrow> time_in_force option" where
  "toPaperOrderTimeInForce None = None"
| "toPaperOrderTimeInForce (Some POST_ONLY) = None"
| "toPaperOrderTimeInForce (Some tif) = Some tif"

definition isTerminalOrderStatus :: "order_status \<Rightarrow> bool" where
  "isTerminalOrderStatus status \<longleftrightarrow>
     status \<in> {FILLED, CANCELED, REJECTED, EXPIRED, FAILED, MANUAL_REVIEW_REQUIRED}"

definition toPaperOrderRowInput :: "nat \<Rightarrow> persist_input \<Rightarrow> paper_order_row" where
  "toPaperOrderRowInput orderId inp =
     (let s = pi_submission inp; ord = pi_brokerOrder inp in
      \<lparr>pw_orderId = orderId,
       pw_postOnly = (case oi_terms (os_intent s) of MarketTerms \<Rightarrow> False
         | LimitTerms price postOnly tif \<Rightarrow> postOnly = Some True \<or> tif = Some POST_ONLY),
       pw_timeInForce = (case oi_terms (os_intent s) of MarketTerms \<Rightarrow> None
         | LimitTerms price postOnly tif \<Rightarrow> toPaperOrderTimeInForce tif),
       pw_simulatedLatencyMs = pi_simulatedLatencyMs inp, pw_fillModel = createPaperOrderFillModelPayload inp,
       pw_submittedAt = os_submittedAt s, pw_acceptedAt = bo_acceptedAt ord,
       pw_completedAt = (if isTerminalOrderStatus (bo_status ord) then Some (bo_updatedAt ord) else None)\<rparr>)"

definition shouldPersistFillRows :: "order_status \<Rightarrow> fill_result \<Rightarrow> bool" where
  "shouldPersistFillRows brokerStatus sim \<longleftrightarrow>
     brokerStatus = FILLED \<or> brokerStatus = PARTIALLY_FILLED \<or> brokerStatus = CANCELED \<and> 0 < fr_filledQuantity sim"

definition parseMarketQuoteCurrency :: "string \<Rightarrow> string result" where
  "parseMarketQuoteCurrency market =
     (let quote = takeWhile (\<lambda>c. c \<noteq> CHR ''-'') market; rest = dropWhile (\<lambda>c. c \<noteq> CHR ''-'') market
      in if quote = [] \<or> length rest \<le> 1
         then Inl (Failure ''execution persistence requires market codes in QUOTE-BASE format'')
         else Inr (toUpperCase (trim quote)))"

definition toFillRowInputs :: "nat \<Rightarrow> persist_input \<Rightarrow> fill_row list result" where
  "toFillRowInputs orderId inp =
     (let ord = pi_brokerOrder inp in
      case readPaperFillSimulation ord of
        None \<Rightarrow> Inr []
      | Some sim \<Rightarrow>
          if fr_fills sim = [] \<or> \<not> shouldPersistFillRows (bo_status ord) sim then Inr []
          else bindR (parseMarketQuoteCurrency (bo_market ord)) (\<lambda>quoteCurrency.
            Inr (map (\<lambda>f. \<lparr>fw_orderId = orderId, fw_exchange = bo_exchangeId ord, fw_market = bo_market ord,
                fw_side = bo_side ord, fw_price = pf_price f, fw_quantity = pf_quantity f, fw_fee = pf_fee f,
                fw_feeCurrency = quoteCurrency,
                fw_filledAt = (case fr_orderbookReceivedAt sim of None \<Rightarrow> bo_updatedAt ord | Some t \<Rightarrow> t)\<rparr>)
              (fr_fills sim))))"

section \<open>Lifecycle events\<close>

fun fillReasonName :: "fill_reason \<Rightarrow> string" where
  "fillReasonName limit_crossed_full = ''limit_crossed_full''"
| "fillReasonName limit_crossed_partial = ''limit_crossed_partial''"
| "fillReasonName limit_not_crossed = ''limit_not_crossed''"
| "fillReasonName post_only_would_take_rejected = ''post_only_would_take_rejected''"
| "fillReasonName post_only_would_take_pending = ''post_only_would_take_pending''"
| "fillReasonName ioc_filled_and_canceled = ''ioc_filled_and_canceled''"
| "fillReasonName ioc_unfilled_canceled = ''ioc_unfilled_canceled''"
| "fillReasonName fok_not_filled = ''fok_not_filled''"
| "fillReasonName market_order_simulation_disabled = ''market_order_simulation_disabled''"
| "fillReasonName latency_snapshot_missing = ''latency_snapshot_missing''"
| "fillReasonName orderbook_snapshot_missing = ''orderbook_snapshot_missing''"
| "fillReasonName orderbook_intent_mismatch = ''orderbook_intent_mismatch''"

definition hasPaperFills :: "persist_input \<Rightarrow> bool" where
  "hasPaperFills inp \<longleftrightarrow>
     (case readPaperFillSimulation (pi_brokerOrder inp) of None \<Rightarrow> False | Some sim \<Rightarrow> fr_fills sim \<noteq> [])"

definition createPaperExecutionTargetStatuses :: "persist_input \<Rightarrow> order_status list result" where
  "createPaperExecutionTargetStatuses inp =
     (case bo_status (pi_brokerOrder inp) of
        SUBMITTED \<Rightarrow> Inr [SUBMITTED]
      | ACCEPTED \<Rightarrow> Inr [SUBMITTED, ACCEPTED]
      | PARTIALLY_FILLED \<Rightarrow> Inr [SUBMITTED, ACCEPTED, PARTIALLY_FILLED]
      | FILLED \<Rightarrow> Inr [SUBMITTED, ACCEPTED, FILLED]
      | CANCELED \<Rightarrow> if hasPaperFills inp
          then Inr [SUBMITTED, ACCEPTED, PARTIALLY_FILLED, CANCEL_REQUESTED, CANCELED]
          else Inr [SUBMITTED, ACCEPTED, CANCEL_REQUESTED, CANCELED]
      | REJECTED \<Rightarrow> Inr [SUBMITTED, REJECTED]
      | EXPIRED \<Rightarrow> Inr [SUBMITTED, ACCEPTED, EXPIRED]
      | FAILED \<Rightarrow> Inr [SUBMITTED, FAILED]
      | MANUAL_REVIEW_REQUIRED \<Rightarrow> Inr [SUBMITTED, MANUAL_REVIEW_REQUIRED]
      | _ \<Rightarrow> Inl (Failure ''paper execution final status is not persistable from RISK_APPROVED''))"

definition selectTransitionTimestamp :: "order_status \<Rightarrow> persist_input \<Rightarrow> timestamp" where
  "selectTransitionTimestamp toState inp =
     (if toState = SUBMITTED then os_submittedAt (pi_submission inp)
      else if toState = ACCEPTED then
        (case bo_acceptedAt (pi_brokerOrder inp) of None \<Rightarrow> bo_updatedAt (pi_brokerOrder inp) | Some t \<Rightarrow> t)
      else bo_updatedAt (pi_brokerOrder inp))"

definition createPaperExecutionReasonCode :: "order_status \<Rightarrow> order_status \<Rightarrow> string" where
  "createPaperExecutionReasonCode fromState toState =
     ''paper_execution_'' @ toLowerCase (orderStatusName fromState) @ ''_to_'' @ toLowerCase (orderStatusName toState)"

definition createStateTransitionMetadata :: "persist_input \<Rightarrow> json_record" where
  "createStateTransitionMetadata inp =
     (let ord = pi_brokerOrder inp in
      [(''source'', JStr ''paper_execution_persistence''), (''broker_order_id'', JStr (bo_brokerOrderId ord)),
       (''idempotency_key'', JStr (bo_idempotencyKey ord)), (''broker_status'', JStr (orderStatusName (bo_status ord))),
       (''remaining_quantity'', JNum (Num (bo_remainingQuantity ord)))]
      @ (case readPaperFillSimulation ord of None \<Rightarrow> []
         | Some sim \<Rightarrow> [(''paper_fill_reason_code'', JStr (fillReasonName (fr_reasonCode sim)))]))"

fun expandTransitions ::
  "persist_input \<Rightarrow> order_status \<Rightarrow> order_status list \<Rightarrow> order_status transition_event list result" where
  "expandTransitions inp fromState [] = Inr []"
| "expandTransitions inp fromState (toState # rest) =
     (let decision = transitionOrderState
        \<lparr>ti_fromState = fromState, ti_toState = toState, ti_occurredAt = selectTransitionTimestamp toState inp,
         ti_reasonCode = Some (createPaperExecutionReasonCode fromState toState),
         ti_message = Some (''Paper execution state transition: '' @ orderStatusName fromState @ '' -> ''
           @ orderStatusName toState),
         ti_metadata = Some (createStateTransitionMetadata inp)\<rparr>
      in if \<not> td_accepted decision then Inl (Failure ''paper execution produced illegal order transition'')
         else bindR (expandTransitions inp toState rest) (\<lambda>events. Inr (td_event decision # events)))"

definition createPaperExecutionStateTransitionEvents ::
  "persist_input \<Rightarrow> order_status transition_event list result" where
  "createPaperExecutionStateTransitionEvents inp =
     bindR (createPaperExecutionTargetStatuses inp) (expandTransitions inp RISK_APPROVED)"

definition toOrderEventRow ::
  "nat \<Rightarrow> string option \<Rightarrow> order_status transition_event \<Rightarrow> order_event_row result" where
  "toOrderEventRow orderId correlationId ev =
     (if ev_eventKind ev \<noteq> ORDER_STATE_TRANSITION
      then Inl (Failure ''order_events only accepts ORDER_STATE_TRANSITION events'')
      else Inr \<lparr>ew_orderId = orderId, ew_eventType = ev_eventKind ev, ew_fromStatus = ev_fromState ev,
        ew_toStatus = ev_toState ev, ew_accepted = ev_accepted ev, ew_reasonCode = ev_reasonCode ev,
        ew_message = ev_message ev, ew_correlationId = correlationId,
        ew_payloadJson = toStateTransitionPayload orderStatusName ev, ew_occurredAt = ev_occurredAt ev\<rparr>)"

section \<open>Tables\<close>

text \<open>What a table makes of a row handed to it: columns round or refuse, constraints refuse.\<close>

definition blankText :: "string \<Rightarrow> bool" where
  "blankText s = list_all (\<lambda>c. c = CHR '' '') s"

definition checkRow :: "bool \<Rightarrow> 'r \<Rightarrow> 'r result" where
  "checkRow ok row = (if ok then Inr row else Inl (Failure ''check constraint violated''))"

definition storeOrderRow :: "numeric_env \<Rightarrow> order_row \<Rightarrow> order_row result" where
  "storeOrderRow env row =
     bindR (case ow_requestedPrice row of None \<Rightarrow> Inr None
       | Some p \<Rightarrow> bindR (ne_column env 18 p) (\<lambda>p'. Inr (Some p'))) (\<lambda>price.
     bindR (ne_column env 18 (ow_requestedQuantity row)) (\<lambda>quantity.
     bindR (ne_column env 8 (ow_requestedNotional row)) (\<lambda>notional.
       checkRow (\<not> blankText (ow_market row) \<and> (case price of None \<Rightarrow> True | Some p \<Rightarrow> 0 < p) \<and> 0 < quantity \<and> 0 < notional)
         (row\<lparr>ow_requestedPrice := price, ow_requestedQuantity := quantity, ow_requestedNotional := notional\<rparr>))))"

definition storePaperOrderRow :: "paper_order_row \<Rightarrow> paper_order_row result" where
  "storePaperOrderRow row =
     checkRow (case pw_simulatedLatencyMs row of None \<Rightarrow> True
       | Some (JsFinite r) \<Rightarrow> of_int \<lfloor>r\<rfloor> = r \<and> 0 \<le> r \<and> r \<le> 2147483647 | _ \<Rightarrow> False) row"

definition storeFillRow :: "numeric_env \<Rightarrow> fill_row \<Rightarrow> fill_row result" where
  "storeFillRow env row =
     bindR (ne_column env 18 (fw_price row)) (\<lambda>price.
     bindR (ne_column env 18 (fw_quantity row)) (\<lambda>quantity.
     bindR (ne_column env 18 (fw_fee row)) (\<lambda>fee.
       checkRow (\<not> blankText (fw_market row) \<and> 0 < price \<and> 0 < quantity \<and> 0 \<le> fee)
         (row\<lparr>fw_price := price, fw_quantity := quantity, fw_fee := fee\<rparr>))))"

definition storePositionRow :: "numeric_env \<Rightarrow> position_row \<Rightarrow> position_row result" where
  "storePositionRow env row =
     bindR (ne_column env 18 (po_quantity row)) (\<lambda>quantity.
     bindR (ne_column env 18 (po_averageEntryPrice row)) (\<lambda>average.
     bindR (ne_column env 8 (po_realizedPnl row)) (\<lambda>realized.
     bindR (ne_column env 8 (po_unrealizedPnl row)) (\<lambda>unrealized.
       checkRow (\<not> blankText (po_market row) \<and> 0 \<le> quantity \<and> 0 \<le> average)
         (row\<lparr>po_quantity := quantity, po_averageEntryPrice := average, po_realizedPnl := realized,
              po_unrealizedPnl := unrealized\<rparr>)))))"

section \<open>Events and snapshot\<close>

definition advanceOrderRow ::
  "nat \<Rightarrow> order_status transition_event \<Rightarrow> order_row list \<Rightarrow> order_row list result" where
  "advanceOrderRow orderId ev rows =
     (if orderId < length rows \<and> ow_status (rows ! orderId) = ev_fromState ev
      then Inr (rows[orderId := (rows ! orderId)\<lparr>ow_status := ev_toState ev, ow_updatedAt := ev_occurredAt ev\<rparr>])
      else Inl (Failure ''paper execution order transition target order not found or current status mismatch''))"

fun appendEvents ::
  "nat \<Rightarrow> string option \<Rightarrow> order_status transition_event list \<Rightarrow> execution_db
   \<Rightarrow> (execution_db \<times> order_event_row list) result" where
  "appendEvents orderId correlationId [] db = Inr (db, [])"
| "appendEvents orderId correlationId (ev # evs) db =
     bindR (toOrderEventRow orderId correlationId ev) (\<lambda>row.
     bindR (advanceOrderRow orderId ev (xd_orders db)) (\<lambda>orders.
     bindR (appendEvents orderId correlationId evs
         (db\<lparr>xd_orders := orders, xd_orderEvents := xd_orderEvents db @ [row]\<rparr>)) (\<lambda>(db', rows).
       Inr (db', row # rows))))"

definition appendPaperExecutionStateEvents ::
  "nat \<Rightarrow> persist_input \<Rightarrow> execution_db \<Rightarrow> (execution_db \<times> order_event_row list) result" where
  "appendPaperExecutionStateEvents orderId inp db =
     bindR (createPaperExecutionStateTransitionEvents inp) (\<lambda>evs. appendEvents orderId (pi_correlationId inp) evs db)"

section \<open>Fills and positions\<close>

definition insertPaperExecutionFills ::
  "numeric_env \<Rightarrow> nat \<Rightarrow> persist_input \<Rightarrow> execution_db \<Rightarrow> (execution_db \<times> fill_row list) result" where
  "insertPaperExecutionFills env orderId inp db =
     bindR (toFillRowInputs orderId inp) (\<lambda>rows.
     bindR (mapR (storeFillRow env) rows) (\<lambda>stored.
       Inr (db\<lparr>xd_fills := xd_fills db @ stored\<rparr>, stored)))"

definition positionOf :: "order_row \<Rightarrow> position_row \<Rightarrow> bool" where
  "positionOf ord p \<longleftrightarrow> po_exchange p = ow_exchange ord \<and> po_market p = ow_market ord \<and> po_strategyId p = ow_strategyId ord"

definition upsertBuyPositionFill ::
  "numeric_env \<Rightarrow> order_row \<Rightarrow> fill_row \<Rightarrow> position_row list \<Rightarrow> (position_row list \<times> position_row) result" where
  "upsertBuyPositionFill env ord fill rows =
     bindR (storePositionRow env \<lparr>po_exchange = ow_exchange ord, po_market = ow_market ord,
         po_strategyId = ow_strategyId ord, po_quantity = fw_quantity fill, po_averageEntryPrice = fw_price fill,
         po_realizedPnl = 0, po_unrealizedPnl = 0, po_updatedAt = fw_filledAt fill\<rparr>) (\<lambda>excluded.
       case rowIndex (positionOf ord) rows of
         None \<Rightarrow> Inr (rows @ [excluded], excluded)
       | Some i \<Rightarrow>
           (let p = rows ! i; quantity = po_quantity p + po_quantity excluded in
            bindR (storePositionRow env (p\<lparr>po_quantity := quantity,
                po_averageEntryPrice := (if quantity = 0 then 0
                  else ne_divide env (po_quantity p * po_averageEntryPrice p
                    + po_quantity excluded * po_averageEntryPrice excluded) quantity),
                po_updatedAt := po_updatedAt excluded\<rparr>)) (\<lambda>p'.
              Inr (rows[i := p'], p'))))"

definition applySellPositionFill ::
  "numeric_env \<Rightarrow> order_row \<Rightarrow> fill_row \<Rightarrow> position_row list \<Rightarrow> (position_row list \<times> position_row option) result" where
  "applySellPositionFill env ord fill rows =
     (case rowIndex (positionOf ord) rows of
        None \<Rightarrow> Inr (rows, None)
      | Some i \<Rightarrow>
          (let p = rows ! i; quantity = max (po_quantity p - fw_quantity fill) 0 in
           bindR (storePositionRow env (p\<lparr>
               po_realizedPnl := po_realizedPnl p
                 + (fw_price fill - po_averageEntryPrice p) * min (po_quantity p) (fw_quantity fill),
               po_quantity := quantity,
               po_averageEntryPrice := (if quantity = 0 then 0 else po_averageEntryPrice p),
               po_updatedAt := fw_filledAt fill\<rparr>)) (\<lambda>p'.
             Inr (rows[i := p'], Some p'))))"

fun upsertPositionFromFills ::
  "numeric_env \<Rightarrow> order_row \<Rightarrow> fill_row list \<Rightarrow> position_row option \<Rightarrow> position_row list
   \<Rightarrow> (position_row list \<times> position_row option) result" where
  "upsertPositionFromFills env ord [] position rows = Inr (rows, position)"
| "upsertPositionFromFills env ord (fill # fills) position rows =
     (case fw_side fill of
        BUY \<Rightarrow> bindR (upsertBuyPositionFill env ord fill rows) (\<lambda>(rows', p).
          upsertPositionFromFills env ord fills (Some p) rows')
      | SELL \<Rightarrow> bindR (applySellPositionFill env ord fill rows) (\<lambda>(rows', p).
          upsertPositionFromFills env ord fills p rows'))"

section \<open>The transaction\<close>

definition assertExistingOrderMatchesInput :: "numeric_env \<Rightarrow> order_row \<Rightarrow> persist_input \<Rightarrow> unit result" where
  "assertExistingOrderMatchesInput env existing inp =
     bindR (toExecutionOrderRowInput inp) (\<lambda>expected.
       if ow_exchange existing = ow_exchange expected \<and> ow_market existing = ow_market expected \<and>
          ow_strategyId existing = ow_strategyId expected \<and> ow_side existing = ow_side expected \<and>
          ow_orderType existing = ow_orderType expected \<and>
          nullableDecimalStringEquals env (ow_requestedPrice existing) (ow_requestedPrice expected) 18 \<and>
          decimalStringEqualsAtScale env (ow_requestedQuantity existing) (ow_requestedQuantity expected) 18 \<and>
          decimalStringEqualsAtScale env (ow_requestedNotional existing) (ow_requestedNotional expected) 8
       then Inr () else Inl (Failure ''paper execution idempotency key conflict''))"

definition writeExecution ::
  "numeric_env \<Rightarrow> nat \<Rightarrow> persist_input \<Rightarrow> execution_db \<Rightarrow> (execution_db \<times> persist_result) result" where
  "writeExecution env orderId inp db =
     bindR (storePaperOrderRow (toPaperOrderRowInput orderId inp)) (\<lambda>paperOrder.
     bindR (appendPaperExecutionStateEvents orderId inp
         (db\<lparr>xd_paperOrders := xd_paperOrders db @ [paperOrder]\<rparr>)) (\<lambda>(db1, events).
     bindR (insertPaperExecutionFills env orderId inp db1) (\<lambda>(db2, fills).
     bindR (upsertPositionFromFills env (xd_orders db2 ! orderId) fills None (xd_positions db2)) (\<lambda>(positions, position).
       Inr (db2\<lparr>xd_positions := positions\<rparr>,
            \<lparr>px_created = True, px_order = xd_orders db2 ! orderId, px_paperOrder = Some paperOrder, px_fills = fills,
             px_position = position, px_orderEvents = events\<rparr>)))))"

definition persistPaperExecutionInTransaction ::
  "numeric_env \<Rightarrow> persist_input \<Rightarrow> execution_db \<Rightarrow> (execution_db \<times> persist_result) result" where
  "persistPaperExecutionInTransaction env inp db =
     bindR (assertBrokerOrderMatchesSubmission inp) (\<lambda>_.
     bindR (assertFillEvidenceMatchesBrokerStatus env (pi_brokerOrder inp)) (\<lambda>_.
     bindR (toExecutionOrderRowInput inp) (\<lambda>input.
     bindR (storeOrderRow env input) (\<lambda>row.
       case rowIndex (\<lambda>r. ow_idempotencyKey r = oi_idempotencyKey (os_intent (pi_submission inp))) (xd_orders db) of
         Some i \<Rightarrow>
           bindR (assertExistingOrderMatchesInput env (xd_orders db ! i) inp) (\<lambda>_.
             Inr (db, \<lparr>px_created = False, px_order = xd_orders db ! i, px_paperOrder = None, px_fills = [],
               px_position = None, px_orderEvents = []\<rparr>))
       | None \<Rightarrow> writeExecution env (length (xd_orders db)) inp (db\<lparr>xd_orders := xd_orders db @ [row]\<rparr>)))))"

text \<open>A transaction that throws leaves no trace.\<close>

definition persistPaperExecution ::
  "numeric_env \<Rightarrow> persist_input \<Rightarrow> execution_db \<Rightarrow> execution_db \<times> persist_result result" where
  "persistPaperExecution env inp db =
     (case persistPaperExecutionInTransaction env inp db of
        Inl e \<Rightarrow> (db, Inl e) | Inr (db', r) \<Rightarrow> (db', Inr r))"

definition persistAll :: "numeric_env \<Rightarrow> persist_input list \<Rightarrow> execution_db \<Rightarrow> execution_db" where
  "persistAll env inps db = fold (\<lambda>inp db. fst (persistPaperExecution env inp db)) inps db"

section \<open>Lemmas: lifecycle events\<close>

fun legalPath :: "order_status \<Rightarrow> order_status list \<Rightarrow> bool" where
  "legalPath fromState [] = True"
| "legalPath fromState (toState # rest) = (canTransitionOrderState fromState toState \<and> legalPath toState rest)"

definition legalEvent :: "order_status transition_event \<Rightarrow> bool" where
  "legalEvent ev \<longleftrightarrow> ev_eventKind ev = ORDER_STATE_TRANSITION \<and> ev_accepted ev \<and>
     canTransitionOrderState (ev_fromState ev) (ev_toState ev)"

lemma targetStatuses_legal:
  assumes "createPaperExecutionTargetStatuses inp = Inr ts"
  shows "legalPath RISK_APPROVED ts" and "ts \<noteq> []" and "last ts = bo_status (pi_brokerOrder inp)"
  using assms unfolding createPaperExecutionTargetStatuses_def
  by (cases "bo_status (pi_brokerOrder inp)"; auto simp: canTransitionOrderState_def split: if_splits)+

lemma expandTransitions_legal:
  assumes "legalPath fromState ts"
  shows "\<exists>evs. expandTransitions inp fromState ts = Inr evs \<and> list_all legalEvent evs \<and> map ev_toState evs = ts"
  using assms
proof (induction ts arbitrary: fromState)
  case (Cons t ts)
  then obtain evs where "expandTransitions inp t ts = Inr evs" "list_all legalEvent evs" "map ev_toState evs = ts" by auto
  then show ?case using Cons.prems
    by (simp add: transitionOrderState_def createTransitionDecision_def Let_def) (simp add: legalEvent_def)
qed simp

lemma stateTransitionEvents_legal:
  assumes "createPaperExecutionStateTransitionEvents inp = Inr evs"
  shows "list_all legalEvent evs" and "evs \<noteq> []" and "ev_toState (last evs) = bo_status (pi_brokerOrder inp)"
    and "createPaperExecutionTargetStatuses inp = Inr (map ev_toState evs)"
proof -
  obtain ts where ts: "createPaperExecutionTargetStatuses inp = Inr ts" "expandTransitions inp RISK_APPROVED ts = Inr evs"
    using assms by (auto simp: createPaperExecutionStateTransitionEvents_def bindR_Inr_iff)
  note legal = targetStatuses_legal [OF ts(1)]
  have evs: "list_all legalEvent evs" "map ev_toState evs = ts"
    using expandTransitions_legal [OF legal(1), of inp] ts(2) by auto
  show "evs \<noteq> []" using evs(2) legal(2) by auto
  then show "ev_toState (last evs) = bo_status (pi_brokerOrder inp)"
    using evs(2) legal(3) last_map [of evs ev_toState] by simp
  show "list_all legalEvent evs" "createPaperExecutionTargetStatuses inp = Inr (map ev_toState evs)"
    using evs ts(1) by simp_all
qed

text \<open>The event log of one order, read back.\<close>

fun replayEvents :: "order_event_row list \<Rightarrow> order_status \<Rightarrow> order_status option" where
  "replayEvents [] status = Some status"
| "replayEvents (e # es) status =
     (if ew_accepted e \<and> ew_fromStatus e = status \<and> canTransitionOrderState status (ew_toStatus e)
      then replayEvents es (ew_toStatus e) else None)"

lemma replayEvents_append: "replayEvents (es @ fs) status = Option.bind (replayEvents es status) (replayEvents fs)"
  by (induction es arbitrary: status) auto

text \<open>What appending the events of one order does to the tables.\<close>

definition sameOrder :: "order_row \<Rightarrow> order_row \<Rightarrow> bool" where
  "sameOrder r r' \<longleftrightarrow> r' = r\<lparr>ow_status := ow_status r', ow_updatedAt := ow_updatedAt r'\<rparr>"

lemma sameOrder_fields:
  assumes "sameOrder r r'"
  shows "ow_idempotencyKey r' = ow_idempotencyKey r" "ow_market r' = ow_market r" "ow_side r' = ow_side r"
    "ow_exchange r' = ow_exchange r" "ow_strategyId r' = ow_strategyId r" "ow_orderType r' = ow_orderType r"
    "ow_requestedPrice r' = ow_requestedPrice r" "ow_requestedQuantity r' = ow_requestedQuantity r"
    "ow_requestedNotional r' = ow_requestedNotional r"
  using assms unfolding sameOrder_def by (metis order_row.simps order_row.surjective order_row.update_convs)+

lemma appendEvents_effect:
  assumes "appendEvents orderId cid evs db = Inr (db', rows)" and "list_all legalEvent evs" and "orderId < length (xd_orders db)"
  shows "\<exists>r'. db' = db\<lparr>xd_orders := (xd_orders db)[orderId := r'], xd_orderEvents := xd_orderEvents db @ rows\<rparr> \<and>
    sameOrder (xd_orders db ! orderId) r' \<and> list_all (\<lambda>e. ew_orderId e = orderId) rows \<and>
    replayEvents rows (ow_status (xd_orders db ! orderId)) = Some (ow_status r') \<and>
    map ew_toStatus rows = map ev_toState evs"
  using assms
proof (induction evs arbitrary: db rows)
  case Nil
  then show ?case by (intro exI [where x = "xd_orders db ! orderId"]) (simp add: sameOrder_def)
next
  case (Cons ev evs)
  define r1 where "r1 = (xd_orders db ! orderId)\<lparr>ow_status := ev_toState ev, ow_updatedAt := ev_occurredAt ev\<rparr>"
  obtain row rest where row: "toOrderEventRow orderId cid ev = Inr row" and
    fromState: "ow_status (xd_orders db ! orderId) = ev_fromState ev" and
    rest: "appendEvents orderId cid evs (db\<lparr>xd_orders := (xd_orders db)[orderId := r1],
        xd_orderEvents := xd_orderEvents db @ [row]\<rparr>) = Inr (db', rest)" and rows: "rows = row # rest"
    using Cons.prems(1) by (auto simp: bindR_Inr_iff advanceOrderRow_def r1_def split: if_splits)
  have fields: "ew_orderId row = orderId" "ew_fromStatus row = ev_fromState ev" "ew_toStatus row = ev_toState ev" "ew_accepted row"
    using row Cons.prems(2) by (auto simp: toOrderEventRow_def legalEvent_def split: if_splits)
  obtain r' where r': "db' = db\<lparr>xd_orders := ((xd_orders db)[orderId := r1])[orderId := r'],
        xd_orderEvents := (xd_orderEvents db @ [row]) @ rest\<rparr>" "sameOrder r1 r'"
      "list_all (\<lambda>e. ew_orderId e = orderId) rest" "replayEvents rest (ow_status r1) = Some (ow_status r')"
      "map ew_toStatus rest = map ev_toState evs"
    using Cons.IH [OF rest] Cons.prems(2,3) by auto
  have "sameOrder (xd_orders db ! orderId) r'" using r'(2) by (simp add: sameOrder_def r1_def)
  then show ?case using r' fields fromState Cons.prems(2) rows
    by (intro exI [where x = r']) (auto simp: r1_def legalEvent_def)
qed

lemma appendEvents_succeeds:
  assumes "expandTransitions inp fromState ts = Inr evs" and "orderId < length (xd_orders db)"
    and "ow_status (xd_orders db ! orderId) = fromState"
  shows "\<exists>db' rows. appendEvents orderId cid evs db = Inr (db', rows)"
  using assms
proof (induction ts arbitrary: fromState evs db)
  case (Cons t ts)
  obtain ev rest where ev: "evs = ev # rest" "ev_eventKind ev = ORDER_STATE_TRANSITION" "ev_fromState ev = fromState"
      "ev_toState ev = t" and rest: "expandTransitions inp t ts = Inr rest"
    using Cons.prems(1)
    by (auto simp: bindR_Inr_iff transitionOrderState_def createTransitionDecision_def Let_def split: if_splits)
  define orders where "orders = (xd_orders db)[orderId := (xd_orders db ! orderId)\<lparr>ow_status := t, ow_updatedAt := ev_occurredAt ev\<rparr>]"
  have step: "advanceOrderRow orderId ev (xd_orders db) = Inr orders"
    using Cons.prems(2,3) by (simp add: advanceOrderRow_def orders_def ev)
  obtain row where row: "toOrderEventRow orderId cid ev = Inr row" using ev(2) by (simp add: toOrderEventRow_def)
  have "\<exists>db' rows. appendEvents orderId cid rest (db\<lparr>xd_orders := orders, xd_orderEvents := xd_orderEvents db @ [row]\<rparr>) = Inr (db', rows)"
    using Cons.prems(2) by (intro Cons.IH [OF rest]) (simp_all add: orders_def)
  then show ?case using step row by (auto simp: ev(1))
qed simp

lemma appendStateEvents_succeeds:
  assumes "createPaperExecutionTargetStatuses inp = Inr ts" and "orderId < length (xd_orders db)"
    and "ow_status (xd_orders db ! orderId) = RISK_APPROVED"
  obtains db' rows where "appendPaperExecutionStateEvents orderId inp db = Inr (db', rows)"
proof -
  obtain evs where evs: "expandTransitions inp RISK_APPROVED ts = Inr evs"
    using expandTransitions_legal [OF targetStatuses_legal(1) [OF assms(1)]] by blast
  then show thesis
    using that appendEvents_succeeds [OF evs assms(2,3), of "pi_correlationId inp"] assms(1)
    by (auto simp: appendPaperExecutionStateEvents_def createPaperExecutionStateTransitionEvents_def)
qed

lemma appendStateEvents_frame:
  assumes "appendPaperExecutionStateEvents orderId inp db = Inr (db', rows)" and "orderId < length (xd_orders db)"
  obtains row where "db' = db\<lparr>xd_orders := (xd_orders db)[orderId := row], xd_orderEvents := xd_orderEvents db @ rows\<rparr>"
    "sameOrder (xd_orders db ! orderId) row"
proof -
  obtain evs where evs: "createPaperExecutionStateTransitionEvents inp = Inr evs"
      "appendEvents orderId (pi_correlationId inp) evs db = Inr (db', rows)"
    using assms(1) by (auto simp: appendPaperExecutionStateEvents_def bindR_Inr_iff)
  then show thesis using that appendEvents_effect [OF evs(2) stateTransitionEvents_legal(1) [OF evs(1)] assms(2)] by blast
qed

section \<open>Lemmas: what a transaction writes\<close>

lemma checkRow_Inr [simp]: "checkRow ok row = Inr r \<longleftrightarrow> ok \<and> r = row"
  by (auto simp: checkRow_def)

lemma assertBrokerOrderMatchesSubmissionD:
  assumes "assertBrokerOrderMatchesSubmission inp = Inr ()"
  shows "bo_idempotencyKey (pi_brokerOrder inp) = oi_idempotencyKey (os_intent (pi_submission inp))"
    "bo_exchangeId (pi_brokerOrder inp) = oi_exchangeId (os_intent (pi_submission inp))"
    "bo_market (pi_brokerOrder inp) = oi_market (os_intent (pi_submission inp))"
    "bo_side (pi_brokerOrder inp) = oi_side (os_intent (pi_submission inp))"
    "bo_orderType (pi_brokerOrder inp) = oi_orderType (os_intent (pi_submission inp))"
  using assms by (auto simp: assertBrokerOrderMatchesSubmission_def Let_def bindR_Inr_iff split: if_splits)

lemma toExecutionOrderRowInput_fields:
  assumes "toExecutionOrderRowInput inp = Inr row"
  shows "ow_status row = RISK_APPROVED" "ow_idempotencyKey row = oi_idempotencyKey (os_intent (pi_submission inp))"
    "ow_market row = oi_market (os_intent (pi_submission inp))" "ow_side row = oi_side (os_intent (pi_submission inp))"
    "ow_exchange row = oi_exchangeId (os_intent (pi_submission inp))"
    "ow_strategyId row = oi_strategyId (os_intent (pi_submission inp))"
    "ow_orderType row = oi_orderType (os_intent (pi_submission inp))"
  using assms by (auto simp: toExecutionOrderRowInput_def Let_def bindR_Inr_iff)

lemma storeOrderRow_fields:
  assumes "storeOrderRow env row = Inr row'"
  shows "ow_status row' = ow_status row" "ow_idempotencyKey row' = ow_idempotencyKey row" "ow_market row' = ow_market row"
    "ow_side row' = ow_side row" "ow_exchange row' = ow_exchange row" "ow_strategyId row' = ow_strategyId row"
    "ow_orderType row' = ow_orderType row"
  using assms by (auto simp: storeOrderRow_def bindR_Inr_iff)

definition fillRowOk :: "nat \<Rightarrow> order_row \<Rightarrow> fill_row \<Rightarrow> bool" where
  "fillRowOk orderId ord f \<longleftrightarrow> fw_orderId f = orderId \<and> fw_market f = ow_market ord \<and> fw_side f = ow_side ord \<and>
     0 < fw_price f \<and> 0 < fw_quantity f \<and> 0 \<le> fw_fee f \<and> ow_status ord \<in> {FILLED, PARTIALLY_FILLED, CANCELED}"

definition bookedFill :: "nat \<Rightarrow> broker_order \<Rightarrow> fill_row \<Rightarrow> bool" where
  "bookedFill orderId ord f \<longleftrightarrow> fw_orderId f = orderId \<and> fw_market f = bo_market ord \<and> fw_side f = bo_side ord \<and>
     bo_status ord \<in> {FILLED, PARTIALLY_FILLED, CANCELED} \<and> 0 < fw_price f \<and> 0 < fw_quantity f \<and> 0 \<le> fw_fee f"

lemma toFillRowInputs_rows:
  assumes "toFillRowInputs orderId inp = Inr rows" and "f \<in> set rows"
  shows "fw_orderId f = orderId \<and> fw_market f = bo_market (pi_brokerOrder inp) \<and> fw_side f = bo_side (pi_brokerOrder inp) \<and>
    bo_status (pi_brokerOrder inp) \<in> {FILLED, PARTIALLY_FILLED, CANCELED}"
  using assms by (auto simp: toFillRowInputs_def Let_def bindR_Inr_iff shouldPersistFillRows_def
      split: option.splits if_splits)

lemma mapR_in:
  assumes "mapR g xs = Inr ys" and "y \<in> set ys"
  shows "\<exists>x \<in> set xs. g x = Inr y"
  using assms by (induction xs arbitrary: ys) (auto simp: bindR_Inr_iff)

lemma insertPaperExecutionFills_effect:
  assumes "insertPaperExecutionFills env orderId inp db = Inr (db', fills)"
  shows "db' = db\<lparr>xd_fills := xd_fills db @ fills\<rparr>"
    and "f \<in> set fills \<Longrightarrow> bookedFill orderId (pi_brokerOrder inp) f"
proof -
  obtain rows where rows: "toFillRowInputs orderId inp = Inr rows" "mapR (storeFillRow env) rows = Inr fills"
    "db' = db\<lparr>xd_fills := xd_fills db @ fills\<rparr>"
    using assms by (auto simp: insertPaperExecutionFills_def bindR_Inr_iff)
  then show "db' = db\<lparr>xd_fills := xd_fills db @ fills\<rparr>" by simp
  assume "f \<in> set fills"
  then obtain f0 where "f0 \<in> set rows" "storeFillRow env f0 = Inr f" using mapR_in [OF rows(2)] by blast
  then show "bookedFill orderId (pi_brokerOrder inp) f"
    using toFillRowInputs_rows [OF rows(1)] by (auto simp: storeFillRow_def bindR_Inr_iff bookedFill_def)
qed

text \<open>Positions: one row per exchange, market and strategy, never negative.\<close>

abbreviation positionKey :: "position_row \<Rightarrow> string \<times> string \<times> string" where
  "positionKey p \<equiv> (po_exchange p, po_market p, po_strategyId p)"

definition positionsOk :: "position_row list \<Rightarrow> bool" where
  "positionsOk rows \<longleftrightarrow> distinct (map positionKey rows) \<and> list_all (\<lambda>p. 0 \<le> po_quantity p \<and> 0 \<le> po_averageEntryPrice p) rows"

lemma storePositionRow_Inr:
  assumes "storePositionRow env p = Inr p'"
  shows "positionKey p' = positionKey p" "0 \<le> po_quantity p'" "0 \<le> po_averageEntryPrice p'"
    "ne_column env 18 (po_quantity p) = Inr (po_quantity p')"
  using assms by (auto simp: storePositionRow_def bindR_Inr_iff)

lemma positionsOk_update:
  assumes "positionsOk rows" and "i < length rows" and "positionKey p' = positionKey (rows ! i)"
    and "0 \<le> po_quantity p'" and "0 \<le> po_averageEntryPrice p'"
  shows "positionsOk (rows[i := p'])"
proof -
  have "map positionKey (rows[i := p']) = map positionKey rows"
    using assms(2,3) by (simp add: map_update list_update_same_conv)
  moreover have "set (rows[i := p']) \<subseteq> insert p' (set rows)" by (rule set_update_subset_insert)
  ultimately show ?thesis using assms(1,4,5) unfolding positionsOk_def list_all_iff by auto
qed

text \<open>The two statements that book a fill, by whether the position's row exists.\<close>

abbreviation orderKey :: "order_row \<Rightarrow> string \<times> string \<times> string" where
  "orderKey ord \<equiv> (ow_exchange ord, ow_market ord, ow_strategyId ord)"

lemma positionOf_iff: "positionOf ord p \<longleftrightarrow> positionKey p = orderKey ord"
  by (auto simp: positionOf_def)

lemma upsertBuy_cases:
  assumes "upsertBuyPositionFill env ord f rows = Inr (rows', p)"
  obtains (opens) "rowIndex (positionOf ord) rows = None" "rows' = rows @ [p]" "positionKey p = orderKey ord"
      "0 \<le> po_quantity p" "0 \<le> po_averageEntryPrice p" "ne_column env 18 (fw_quantity f) = Inr (po_quantity p)"
    | (adds) i e where "rowIndex (positionOf ord) rows = Some i" "rows' = rows[i := p]" "positionKey p = orderKey ord"
      "0 \<le> po_quantity p" "0 \<le> po_averageEntryPrice p" "ne_column env 18 (fw_quantity f) = Inr e"
      "ne_column env 18 (po_quantity (rows ! i) + e) = Inr (po_quantity p)"
proof -
  obtain ex where ex: "storePositionRow env \<lparr>po_exchange = ow_exchange ord, po_market = ow_market ord,
      po_strategyId = ow_strategyId ord, po_quantity = fw_quantity f, po_averageEntryPrice = fw_price f,
      po_realizedPnl = 0, po_unrealizedPnl = 0, po_updatedAt = fw_filledAt f\<rparr> = Inr ex"
    using assms by (auto simp: upsertBuyPositionFill_def bindR_Inr_iff)
  note stored = storePositionRow_Inr [OF ex, simplified]
  show thesis
  proof (cases "rowIndex (positionOf ord) rows")
    case None
    then have "rows' = rows @ [ex]" "p = ex" using assms ex by (auto simp: upsertBuyPositionFill_def)
    then show thesis using None stored by (intro opens) simp_all
  next
    case (Some i)
    have key: "positionKey (rows ! i) = orderKey ord" using rowIndex_SomeD [OF Some] by (simp add: positionOf_iff)
    obtain p0 where p0: "storePositionRow env p0 = Inr p" "positionKey p0 = orderKey ord"
        "po_quantity p0 = po_quantity (rows ! i) + po_quantity ex" "rows' = rows[i := p]"
      using assms ex Some key by (auto simp: upsertBuyPositionFill_def Let_def bindR_Inr_iff)
    then show thesis using Some stored(4) storePositionRow_Inr [OF p0(1)] by (intro adds) simp_all
  qed
qed

lemma applySell_cases:
  assumes "applySellPositionFill env ord f rows = Inr (rows', p)"
  obtains (absent) "rowIndex (positionOf ord) rows = None" "rows' = rows" "p = None"
    | (takes) i p' where "rowIndex (positionOf ord) rows = Some i" "rows' = rows[i := p']" "p = Some p'"
      "positionKey p' = orderKey ord" "0 \<le> po_quantity p'" "0 \<le> po_averageEntryPrice p'"
      "ne_column env 18 (max (po_quantity (rows ! i) - fw_quantity f) 0) = Inr (po_quantity p')"
proof (cases "rowIndex (positionOf ord) rows")
  case None
  then show thesis using assms by (intro absent) (auto simp: applySellPositionFill_def)
next
  case (Some i)
  have key: "positionKey (rows ! i) = orderKey ord" using rowIndex_SomeD [OF Some] by (simp add: positionOf_iff)
  obtain p0 p' where p0: "storePositionRow env p0 = Inr p'" "positionKey p0 = orderKey ord" "p = Some p'"
      "po_quantity p0 = max (po_quantity (rows ! i) - fw_quantity f) 0" "rows' = rows[i := p']"
    using assms Some key by (auto simp: applySellPositionFill_def Let_def bindR_Inr_iff)
  then show thesis using Some storePositionRow_Inr [OF p0(1)] by (intro takes) simp_all
qed

lemma positionsOk_append:
  assumes "positionsOk rows" and "rowIndex (positionOf ord) rows = None" and "positionKey p = orderKey ord"
    and "0 \<le> po_quantity p" and "0 \<le> po_averageEntryPrice p"
  shows "positionsOk (rows @ [p])"
  using assms by (auto simp: positionsOk_def rowIndex_None_iff positionOf_iff)

lemma rowIndex_positionKey: "rowIndex (positionOf ord) rows = Some i \<Longrightarrow> i < length rows \<and> positionKey (rows ! i) = orderKey ord"
  by (auto dest!: rowIndex_SomeD simp: positionOf_iff)

lemma upsertBuy_ok:
  assumes "upsertBuyPositionFill env ord f rows = Inr (rows', p)" and ok: "positionsOk rows"
  shows "positionsOk rows'"
  using assms(1)
proof (cases rule: upsertBuy_cases)
  case opens
  then show ?thesis using positionsOk_append [OF ok] by simp
next
  case (adds i e)
  then show ?thesis using positionsOk_update [OF ok] rowIndex_positionKey [OF adds(1)] by simp
qed

lemma applySell_ok:
  assumes "applySellPositionFill env ord f rows = Inr (rows', p)" and ok: "positionsOk rows"
  shows "positionsOk rows'"
  using assms(1)
proof (cases rule: applySell_cases)
  case absent
  then show ?thesis using ok by simp
next
  case (takes i p')
  then show ?thesis using positionsOk_update [OF ok] rowIndex_positionKey [OF takes(1)] by simp
qed

lemma upsertPositions_ok:
  assumes "upsertPositionFromFills env ord fills p0 rows = Inr (rows', p)" and "positionsOk rows"
  shows "positionsOk rows'"
  using assms
  by (induction fills arbitrary: p0 rows)
    (auto simp: bindR_Inr_iff split: order_side.splits dest: upsertBuy_ok applySell_ok)

text \<open>What a transaction that creates the order leaves behind.\<close>

lemma writeExecution_effect:
  assumes wrote: "writeExecution env orderId inp db = Inr (db', r)" and len: "orderId < length (xd_orders db)"
    and approved: "ow_status (xd_orders db ! orderId) = RISK_APPROVED"
  obtains row events fills positions where
    "db' = db\<lparr>xd_orders := (xd_orders db)[orderId := row], xd_paperOrders := xd_paperOrders db @ [toPaperOrderRowInput orderId inp],
       xd_orderEvents := xd_orderEvents db @ events, xd_fills := xd_fills db @ fills, xd_positions := positions\<rparr>"
    "sameOrder (xd_orders db ! orderId) row" "ow_status row = bo_status (pi_brokerOrder inp)"
    "list_all (\<lambda>e. ew_orderId e = orderId) events" "replayEvents events RISK_APPROVED = Some (ow_status row)"
    "\<And>f. f \<in> set fills \<Longrightarrow> bookedFill orderId (pi_brokerOrder inp) f"
    "upsertPositionFromFills env row fills None (xd_positions db) = Inr (positions, px_position r)"
    "px_created r" "px_order r = row" "px_fills r = fills" "px_orderEvents r = events"
proof -
  let ?db0 = "db\<lparr>xd_paperOrders := xd_paperOrders db @ [toPaperOrderRowInput orderId inp]\<rparr>"
  obtain db1 events db2 fills positions position where
    ev: "appendPaperExecutionStateEvents orderId inp ?db0 = Inr (db1, events)" and
    fills: "insertPaperExecutionFills env orderId inp db1 = Inr (db2, fills)" and
    pos: "upsertPositionFromFills env (xd_orders db2 ! orderId) fills None (xd_positions db2) = Inr (positions, position)" and
    db': "db' = db2\<lparr>xd_positions := positions\<rparr>" and
    r: "r = \<lparr>px_created = True, px_order = xd_orders db2 ! orderId, px_paperOrder = Some (toPaperOrderRowInput orderId inp),
      px_fills = fills, px_position = position, px_orderEvents = events\<rparr>"
    using wrote by (auto simp: writeExecution_def storePaperOrderRow_def bindR_Inr_iff)
  obtain evs where evs: "createPaperExecutionStateTransitionEvents inp = Inr evs"
      "appendEvents orderId (pi_correlationId inp) evs ?db0 = Inr (db1, events)"
    using ev by (auto simp: appendPaperExecutionStateEvents_def bindR_Inr_iff)
  note legal = stateTransitionEvents_legal [OF evs(1)]
  obtain row where row: "db1 = ?db0\<lparr>xd_orders := (xd_orders db)[orderId := row], xd_orderEvents := xd_orderEvents db @ events\<rparr>"
      "sameOrder (xd_orders db ! orderId) row" "list_all (\<lambda>e. ew_orderId e = orderId) events"
      "replayEvents events RISK_APPROVED = Some (ow_status row)" "map ew_toStatus events = map ev_toState evs"
    using appendEvents_effect [OF evs(2) legal(1)] len approved by auto
  have replay_last: "replayEvents es st = Some st' \<Longrightarrow> es \<noteq> [] \<Longrightarrow> st' = last (map ew_toStatus es)" for es st st'
    by (induction es arbitrary: st) (auto split: if_splits)
  have "events \<noteq> []" using row(5) legal(2) by auto
  then have "ow_status row = last (map ev_toState evs)" using replay_last [OF row(4)] row(5) by simp
  then have status: "ow_status row = bo_status (pi_brokerOrder inp)" using legal(2,3) by (simp add: last_map)
  note f = insertPaperExecutionFills_effect [OF fills]
  have nth: "xd_orders db2 ! orderId = row" using f(1) row(1) len by simp
  show thesis
  proof (rule that)
    show "db' = db\<lparr>xd_orders := (xd_orders db)[orderId := row], xd_paperOrders := xd_paperOrders db @ [toPaperOrderRowInput orderId inp],
       xd_orderEvents := xd_orderEvents db @ events, xd_fills := xd_fills db @ fills, xd_positions := positions\<rparr>"
      by (simp add: db' f(1) row(1))
    show "upsertPositionFromFills env row fills None (xd_positions db) = Inr (positions, px_position r)"
      using pos nth by (simp add: f(1) row(1) r)
  qed (use row(2-4) status f(2) nth r in simp_all)
qed

section \<open>The database invariant\<close>

definition dbOk :: "execution_db \<Rightarrow> bool" where
  "dbOk db \<longleftrightarrow> distinct (map ow_idempotencyKey (xd_orders db)) \<and>
     (\<forall>i < length (xd_orders db). replayEvents (filter (\<lambda>e. ew_orderId e = i) (xd_orderEvents db)) RISK_APPROVED =
        Some (ow_status (xd_orders db ! i))) \<and>
     (\<forall>e \<in> set (xd_orderEvents db). ew_orderId e < length (xd_orders db)) \<and>
     (\<forall>f \<in> set (xd_fills db). fw_orderId f < length (xd_orders db) \<and> fillRowOk (fw_orderId f) (xd_orders db ! fw_orderId f) f) \<and>
     positionsOk (xd_positions db)"

definition emptyDb :: execution_db where
  "emptyDb = \<lparr>xd_orders = [], xd_paperOrders = [], xd_orderEvents = [], xd_fills = [], xd_positions = []\<rparr>"

lemma dbOk_empty: "dbOk emptyDb"
  by (simp add: dbOk_def emptyDb_def positionsOk_def)

text \<open>The three outcomes of a call: refused, found, or written.\<close>

lemma persistPaperExecution_cases:
  assumes "persistPaperExecution env inp db = (db', r)"
  obtains (refused) e where "r = Inl e" "db' = db"
    | (found) i res where "r = Inr res" "db' = db" "\<not> px_created res" "px_order res = xd_orders db ! i" "px_fills res = []"
        "rowIndex (\<lambda>o'. ow_idempotencyKey o' = oi_idempotencyKey (os_intent (pi_submission inp))) (xd_orders db) = Some i"
    | (written) input row res where "r = Inr res"
        "rowIndex (\<lambda>o'. ow_idempotencyKey o' = oi_idempotencyKey (os_intent (pi_submission inp))) (xd_orders db) = None"
        "assertBrokerOrderMatchesSubmission inp = Inr ()"
        "toExecutionOrderRowInput inp = Inr input" "storeOrderRow env input = Inr row"
        "writeExecution env (length (xd_orders db)) inp (db\<lparr>xd_orders := xd_orders db @ [row]\<rparr>) = Inr (db', res)"
proof (cases "persistPaperExecutionInTransaction env inp db")
  case (Inl e)
  then show thesis using assms by (intro refused) (auto simp: persistPaperExecution_def)
next
  case (Inr p)
  obtain res where res: "p = (db', res)" "r = Inr res"
    using assms Inr by (auto simp: persistPaperExecution_def split: prod.splits)
  obtain input row where checks: "assertBrokerOrderMatchesSubmission inp = Inr ()"
      "assertFillEvidenceMatchesBrokerStatus env (pi_brokerOrder inp) = Inr ()"
      "toExecutionOrderRowInput inp = Inr input" "storeOrderRow env input = Inr row"
    using Inr by (auto simp: persistPaperExecutionInTransaction_def bindR_Inr_iff)
  show thesis
  proof (cases "rowIndex (\<lambda>o'. ow_idempotencyKey o' = oi_idempotencyKey (os_intent (pi_submission inp))) (xd_orders db)")
    case None
    then show thesis using Inr checks res by (intro written) (auto simp: persistPaperExecutionInTransaction_def)
  next
    case (Some i)
    then show thesis using Inr checks res
      by (intro found [of res i]) (auto simp: persistPaperExecutionInTransaction_def bindR_Inr_iff)
  qed
qed

lemma written_effect:
  assumes "assertBrokerOrderMatchesSubmission inp = Inr ()"
    and input: "toExecutionOrderRowInput inp = Inr input" and row: "storeOrderRow env input = Inr row"
    and wrote: "writeExecution env (length (xd_orders db)) inp (db\<lparr>xd_orders := xd_orders db @ [row]\<rparr>) = Inr (db', res)"
  obtains row' events fills positions where
    "db' = db\<lparr>xd_orders := xd_orders db @ [row'], xd_paperOrders := xd_paperOrders db @ [toPaperOrderRowInput (length (xd_orders db)) inp],
       xd_orderEvents := xd_orderEvents db @ events, xd_fills := xd_fills db @ fills, xd_positions := positions\<rparr>"
    "sameOrder row row'" "ow_status row' = bo_status (pi_brokerOrder inp)"
    "list_all (\<lambda>e. ew_orderId e = length (xd_orders db)) events" "replayEvents events RISK_APPROVED = Some (ow_status row')"
    "\<And>f. f \<in> set fills \<Longrightarrow> bookedFill (length (xd_orders db)) (pi_brokerOrder inp) f"
    "upsertPositionFromFills env row' fills None (xd_positions db) = Inr (positions, px_position res)"
    "px_created res" "px_order res = row'" "px_fills res = fills" "px_orderEvents res = events"
proof (rule writeExecution_effect [OF wrote])
  show "ow_status (xd_orders (db\<lparr>xd_orders := xd_orders db @ [row]\<rparr>) ! length (xd_orders db)) = RISK_APPROVED"
    using toExecutionOrderRowInput_fields(1) [OF input] storeOrderRow_fields(1) [OF row] by simp
qed (use that in simp_all)

lemma dbOk_written:
  assumes ok: "dbOk db"
    and new: "rowIndex (\<lambda>o'. ow_idempotencyKey o' = oi_idempotencyKey (os_intent (pi_submission inp))) (xd_orders db) = None"
    and match: "assertBrokerOrderMatchesSubmission inp = Inr ()"
    and input: "toExecutionOrderRowInput inp = Inr input" and stored: "storeOrderRow env input = Inr row"
    and wrote: "writeExecution env (length (xd_orders db)) inp (db\<lparr>xd_orders := xd_orders db @ [row]\<rparr>) = Inr (db', res)"
  shows "dbOk db'"
  using match input stored wrote
proof (cases rule: written_effect)
  case (1 row' events fills positions)
  let ?n = "length (xd_orders db)"
  note fields = sameOrder_fields [OF 1(2)] storeOrderRow_fields [OF stored] toExecutionOrderRowInput_fields [OF input]
    assertBrokerOrderMatchesSubmissionD [OF match]
  have orders: "xd_orders db' = xd_orders db @ [row']" by (simp add: 1(1))
  have fresh: "ow_idempotencyKey row' \<notin> set (map ow_idempotencyKey (xd_orders db))"
    using new by (auto simp: fields rowIndex_None_iff)
  have "replayEvents (filter (\<lambda>e. ew_orderId e = i) (xd_orderEvents db')) RISK_APPROVED = Some (ow_status (xd_orders db' ! i))"
    if "i < length (xd_orders db')" for i
  proof (cases "i < ?n")
    case True
    have "filter (\<lambda>e. ew_orderId e = i) events = []" using 1(4) True by (auto simp: list_all_iff filter_empty_conv)
    then show ?thesis using ok True by (simp add: orders 1(1) dbOk_def nth_append)
  next
    case False
    then have "i = ?n" using that by (simp add: orders)
    moreover have "filter (\<lambda>e. ew_orderId e = ?n) events = events" using 1(4) by (simp add: list_all_iff filter_id_conv)
    moreover have "filter (\<lambda>e. ew_orderId e = ?n) (xd_orderEvents db) = []"
      using ok by (auto simp: dbOk_def filter_empty_conv)
    ultimately show ?thesis using 1(5) by (simp add: orders 1(1))
  qed
  moreover have "fw_orderId f < length (xd_orders db') \<and> fillRowOk (fw_orderId f) (xd_orders db' ! fw_orderId f) f"
    if "f \<in> set (xd_fills db')" for f
  proof (cases "f \<in> set fills")
    case True
    then show ?thesis using 1(6) [OF True] by (simp add: orders bookedFill_def fillRowOk_def fields 1(3))
  next
    case False
    then have "f \<in> set (xd_fills db)" using that by (simp add: 1(1))
    then show ?thesis using ok by (auto simp: dbOk_def orders nth_append)
  qed
  moreover have "positionsOk (xd_positions db')"
    using upsertPositions_ok [OF 1(7)] ok by (simp add: 1(1) dbOk_def)
  moreover have "\<forall>e \<in> set (xd_orderEvents db'). ew_orderId e < length (xd_orders db')"
    using ok 1(4) by (auto simp: 1(1) dbOk_def list_all_iff)
  ultimately show ?thesis using ok fresh unfolding dbOk_def by (simp add: orders)
qed

lemma dbOk_persist:
  assumes ok: "dbOk db"
  shows "dbOk (fst (persistPaperExecution env inp db))"
proof -
  obtain db' r where run: "persistPaperExecution env inp db = (db', r)" by (rule prod.exhaust)
  from run have "dbOk db'"
  proof (cases rule: persistPaperExecution_cases)
    case (written input row res)
    then show ?thesis using dbOk_written [OF ok] by blast
  qed (use ok in simp_all)
  then show ?thesis by (simp add: run)
qed

lemma dbOk_persistAll: "dbOk db \<Longrightarrow> dbOk (persistAll env inps db)"
  unfolding persistAll_def by (induction inps arbitrary: db) (simp_all add: dbOk_persist)

end
