(* ===== verification/Persistence_Booking.thy ===== *)
theory Persistence_Booking
  imports Execution_Persistence
begin

text \<open>
  What the persistence of paper executions promises: the order log replays, every outcome is booked
  exactly once, and a position holds what the fills add up to. The locale states what is relied on of
  decimal.js and of PostgreSQL's numeric columns; it is interpreted for columns that round half away
  from zero, as PostgreSQL documents it.
\<close>

section \<open>Numeric columns\<close>

locale numeric_storage =
  fixes env :: numeric_env
  assumes rounding: "decimal_js (ne_round env)"
    and column_grid: "ne_column env k x = Inr y \<Longrightarrow> onGrid k y"
    and column_exact: "ne_column env k x = Inr y \<Longrightarrow> onGrid k x \<Longrightarrow> y = x"
    and places_column: "ne_column env k x = Inr y \<Longrightarrow> ne_decimalPlaces env k y = ne_decimalPlaces env k x"

definition roundAt :: "nat \<Rightarrow> rat \<Rightarrow> rat" where
  "roundAt k x = (if 0 \<le> x then of_int \<lfloor>x * 10 ^ k + 1 / 2\<rfloor> / 10 ^ k else - (of_int \<lfloor>- x * 10 ^ k + 1 / 2\<rfloor> / 10 ^ k))"

definition storageEnv :: "rounding \<Rightarrow> numeric_env" where
  "storageEnv rnd = \<lparr>ne_round = rnd, ne_decimalPlaces = roundAt,
     ne_column = (\<lambda>k x. if \<bar>roundAt k x\<bar> < 10 ^ (36 - k) then Inr (roundAt k x) else Inl (Failure ''numeric field overflow'')),
     ne_divide = (/)\<rparr>"

lemma roundAt_grid: "onGrid k (roundAt k x)"
proof -
  have "roundAt k x * 10 ^ k = of_int (if 0 \<le> x then \<lfloor>x * 10 ^ k + 1 / 2\<rfloor> else - \<lfloor>- x * 10 ^ k + 1 / 2\<rfloor>)"
    by (simp add: roundAt_def)
  then show ?thesis unfolding onGrid_iff by blast
qed

lemma roundAt_exact: "onGrid k x \<Longrightarrow> roundAt k x = x"
proof -
  assume "onGrid k x"
  then obtain n where n: "x * 10 ^ k = of_int n" by (auto simp: onGrid_iff)
  have "\<lfloor>of_int m + 1 / 2 :: rat\<rfloor> = m" for m :: int by linarith
  moreover have "- x * 10 ^ k = of_int (- n)" using n by simp
  ultimately show "roundAt k x = x" unfolding roundAt_def using n
    by (metis (no_types, lifting) add.inverse_inverse nonzero_mult_div_cancel_right mult_minus_left of_int_minus
        power_not_zero zero_neq_numeral)
qed

lemma storageEnv_laws: "decimal_js rnd \<Longrightarrow> numeric_storage (storageEnv rnd)"
  by unfold_locales
    (auto simp: storageEnv_def roundAt_grid roundAt_exact decimal_js_def decimal_rounding_def decimal_js_axioms_def split: if_splits)

interpretation default_storage: numeric_storage "storageEnv decimalRound"
  by (rule storageEnv_laws) (rule default.decimal_js_axioms)

interpretation exact_storage: numeric_storage "storageEnv exactRound"
  by (rule storageEnv_laws) (rule exact.decimal_js_axioms)

section \<open>Rows are kept\<close>

lemma persist_orders_grow:
  "\<exists>added. xd_orders (fst (persistPaperExecution env inp db)) = xd_orders db @ added"
proof -
  obtain db' r where run: "persistPaperExecution env inp db = (db', r)" by (rule prod.exhaust)
  from run have "\<exists>added. xd_orders db' = xd_orders db @ added"
  proof (cases rule: persistPaperExecution_cases)
    case (written input row res)
    from written(3-6) show ?thesis by (cases rule: written_effect) simp
  qed simp_all
  then show ?thesis by (simp add: run)
qed

lemma persistAll_orders_grow: "\<exists>added. xd_orders (persistAll env inps db) = xd_orders db @ added"
proof (induction inps arbitrary: db)
  case (Cons inp inps)
  obtain a where a: "xd_orders (fst (persistPaperExecution env inp db)) = xd_orders db @ a"
    using persist_orders_grow by blast
  obtain a' where "xd_orders (persistAll env inps (fst (persistPaperExecution env inp db))) =
      xd_orders (fst (persistPaperExecution env inp db)) @ a'" using Cons.IH by blast
  then show ?case by (simp add: persistAll_def a)
qed (simp add: persistAll_def)

section \<open>A repeated call finds its order\<close>

lemma rowIndex_distinct:
  assumes "distinct (map f rows)" and "i < length rows" and "f (rows ! i) = key"
  shows "rowIndex (\<lambda>r. f r = key) rows = Some i"
proof (cases "rowIndex (\<lambda>r. f r = key) rows")
  case None
  then show ?thesis using assms(2,3) by (auto simp: rowIndex_None_iff)
next
  case (Some j)
  then show ?thesis using assms rowIndex_SomeD [OF Some]
    by (metis length_map nth_eq_iff_index_eq nth_map)
qed

context numeric_storage
begin

lemma stored_row_matches:
  assumes "toExecutionOrderRowInput inp = Inr input" and "storeOrderRow env input = Inr row" and "sameOrder row row'"
  shows "assertExistingOrderMatchesInput env row' inp = Inr ()"
proof -
  have "nullableDecimalStringEquals env (ow_requestedPrice row) (ow_requestedPrice input) 18"
    "decimalStringEqualsAtScale env (ow_requestedQuantity row) (ow_requestedQuantity input) 18"
    "decimalStringEqualsAtScale env (ow_requestedNotional row) (ow_requestedNotional input) 8"
    using assms(2) places_column
    by (cases "ow_requestedPrice input"; auto simp: storeOrderRow_def bindR_Inr_iff nullableDecimalStringEquals_def
        decimalStringEqualsAtScale_def)+
  then show ?thesis
    using assms(1) storeOrderRow_fields [OF assms(2)] sameOrder_fields [OF assms(3)]
    by (simp add: assertExistingOrderMatchesInput_def)
qed

text \<open>A row that a call returned is found, and accepted, by the same call ever after.\<close>

lemma persist_again:
  assumes run: "persistPaperExecution env inp db = (db1, Inr r)"
    and ok: "dbOk db2" and grown: "xd_orders db2 = xd_orders db1 @ added"
  shows "\<exists>r'. persistPaperExecution env inp db2 = (db2, Inr r') \<and> \<not> px_created r' \<and> px_order r' = px_order r \<and> px_fills r' = []"
proof -
  let ?key = "oi_idempotencyKey (os_intent (pi_submission inp))"
  obtain input row where checks: "assertBrokerOrderMatchesSubmission inp = Inr ()"
      "assertFillEvidenceMatchesBrokerStatus env (pi_brokerOrder inp) = Inr ()"
      "toExecutionOrderRowInput inp = Inr input" "storeOrderRow env input = Inr row"
    using run by (auto simp: persistPaperExecution_def persistPaperExecutionInTransaction_def bindR_Inr_iff split: sum.splits)
  have "\<exists>i < length (xd_orders db1). xd_orders db1 ! i = px_order r \<and> ow_idempotencyKey (px_order r) = ?key \<and>
      assertExistingOrderMatchesInput env (px_order r) inp = Inr ()"
    using run
  proof (cases rule: persistPaperExecution_cases)
    case (found i res)
    then have "assertExistingOrderMatchesInput env (xd_orders db ! i) inp = Inr ()"
      using run checks by (auto simp: persistPaperExecution_def persistPaperExecutionInTransaction_def bindR_Inr_iff split: sum.splits)
    then show ?thesis using found rowIndex_SomeD [OF found(6)] by auto
  next
    case (written input' row' res)
    from written(3-6) show ?thesis
    proof (cases rule: written_effect)
      case (1 row'' events fills positions)
      then show ?thesis
        using stored_row_matches [OF written(4,5) 1(2)] sameOrder_fields(1) [OF 1(2)] storeOrderRow_fields(2) [OF written(5)]
          toExecutionOrderRowInput_fields(2) [OF written(4)] written(1)
        by (intro exI [where x = "length (xd_orders db)"]) simp
    qed
  qed simp
  then obtain i where i1: "i < length (xd_orders db1)" "xd_orders db1 ! i = px_order r" and
      i2: "ow_idempotencyKey (px_order r) = ?key" "assertExistingOrderMatchesInput env (px_order r) inp = Inr ()" by blast
  then have i: "i < length (xd_orders db2)" "xd_orders db2 ! i = px_order r" using grown by (simp_all add: nth_append)
  then have "rowIndex (\<lambda>o'. ow_idempotencyKey o' = ?key) (xd_orders db2) = Some i"
    using ok i2 by (intro rowIndex_distinct) (simp_all add: dbOk_def)
  then show ?thesis
    using checks i i2 by (simp add: persistPaperExecution_def persistPaperExecutionInTransaction_def)
qed

end

section \<open>Positions hold the sum of the fills\<close>

definition onColumns :: "position_row list \<Rightarrow> bool" where
  "onColumns rows = list_all (\<lambda>p. onGrid 18 (po_quantity p)) rows"

definition heldQuantity :: "string \<times> string \<times> string \<Rightarrow> position_row list \<Rightarrow> rat" where
  "heldQuantity key rows = (case rowIndex (\<lambda>p. positionKey p = key) rows of None \<Rightarrow> 0 | Some i \<Rightarrow> po_quantity (rows ! i))"

definition bookFill :: "rat \<Rightarrow> fill_row \<Rightarrow> rat" where
  "bookFill held f = (case fw_side f of BUY \<Rightarrow> held + fw_quantity f | SELL \<Rightarrow> max (held - fw_quantity f) 0)"

lemma positionOf_key: "positionOf ord = (\<lambda>p. positionKey p = orderKey ord)"
  by (auto simp: positionOf_def)

lemma rowIndex_append:
  "rowIndex P (rows @ [p]) = (case rowIndex P rows of Some i \<Rightarrow> Some i | None \<Rightarrow> if P p then Some (length rows) else None)"
  by (induction rows) (auto split: option.splits)

lemma rowIndex_update:
  assumes "i < length rows" and "P p \<longleftrightarrow> P (rows ! i)"
  shows "rowIndex P (rows[i := p]) = rowIndex P rows"
  using assms by (induction rows arbitrary: i) (auto split: nat.splits)

lemma heldQuantity_append:
  assumes "rowIndex (\<lambda>p. positionKey p = key') rows = None" and "positionKey p = key'"
  shows "heldQuantity key (rows @ [p]) = (if key = key' then po_quantity p else heldQuantity key rows)"
  using assms by (auto simp: heldQuantity_def rowIndex_append nth_append dest: rowIndex_SomeD split: option.splits)

lemma heldQuantity_update:
  assumes "distinct (map positionKey rows)" and "i < length rows" and "positionKey p = positionKey (rows ! i)"
  shows "heldQuantity key (rows[i := p]) = (if key = positionKey (rows ! i) then po_quantity p else heldQuantity key rows)"
proof -
  have same: "rowIndex (\<lambda>p. positionKey p = key) (rows[i := p]) = rowIndex (\<lambda>p. positionKey p = key) rows"
    using assms(2,3) by (intro rowIndex_update) auto
  show ?thesis
  proof (cases "key = positionKey (rows ! i)")
    case True
    then have "rowIndex (\<lambda>p. positionKey p = key) rows = Some i" using assms by (intro rowIndex_distinct) simp_all
    then show ?thesis using assms(2) unfolding heldQuantity_def same by (simp add: True)
  next
    case False
    have "j \<noteq> i" if "rowIndex (\<lambda>p. positionKey p = key) rows = Some j" for j
      using rowIndex_SomeD [OF that] False by metis
    then show ?thesis using False unfolding heldQuantity_def same
      by (cases "rowIndex (\<lambda>p. positionKey p = key) rows") simp_all
  qed
qed

context numeric_storage
begin

lemma buy_books:
  assumes "upsertBuyPositionFill env ord f rows = Inr (rows', p)" and ok: "positionsOk rows" "onColumns rows"
    and f: "onGrid 18 (fw_quantity f)"
  shows "onColumns rows' \<and> (\<forall>key. heldQuantity key rows' =
    (if key = orderKey ord then heldQuantity key rows + fw_quantity f else heldQuantity key rows))"
  using assms(1)
proof (cases rule: upsertBuy_cases)
  case opens
  have "po_quantity p = fw_quantity f" using column_exact [OF opens(6) f] .
  moreover have "heldQuantity (orderKey ord) rows = 0" using opens(1) by (simp add: heldQuantity_def positionOf_key)
  ultimately show ?thesis using ok(2) f opens(1,2,3) heldQuantity_append [of "orderKey ord" rows p]
    by (simp add: onColumns_def positionOf_key)
next
  case (adds i e)
  note i = rowIndex_positionKey [OF adds(1)]
  have e: "e = fw_quantity f" using column_exact [OF adds(6) f] .
  have "onGrid 18 (po_quantity (rows ! i))" using ok(2) i by (simp add: onColumns_def list_all_length)
  then have p: "po_quantity p = po_quantity (rows ! i) + fw_quantity f"
    using column_exact [OF adds(7)] f by (simp add: e onGrid_plus)
  have held: "heldQuantity (orderKey ord) rows = po_quantity (rows ! i)"
    using adds(1) by (simp add: heldQuantity_def positionOf_key)
  have "onColumns (rows[i := p])" using ok(2) column_grid [OF adds(7)] i
    by (simp add: onColumns_def list_all_length nth_list_update)
  then show ?thesis using ok(1) i p held heldQuantity_update [of rows i p] by (simp add: adds(2,3) positionsOk_def)
qed

lemma sell_books:
  assumes "applySellPositionFill env ord f rows = Inr (rows', p)" and ok: "positionsOk rows" "onColumns rows"
    and f: "onGrid 18 (fw_quantity f)" "0 < fw_quantity f"
  shows "onColumns rows' \<and> (\<forall>key. heldQuantity key rows' =
    (if key = orderKey ord then max (heldQuantity key rows - fw_quantity f) 0 else heldQuantity key rows))"
  using assms(1)
proof (cases rule: applySell_cases)
  case absent
  have "heldQuantity (orderKey ord) rows = 0" using absent(1) by (simp add: heldQuantity_def positionOf_key)
  then show ?thesis using ok(2) f(2) by (simp add: absent)
next
  case (takes i p')
  note i = rowIndex_positionKey [OF takes(1)]
  have "onGrid 18 (po_quantity (rows ! i))" using ok(2) i by (simp add: onColumns_def list_all_length)
  then have "onGrid 18 (max (po_quantity (rows ! i) - fw_quantity f) 0)" using f(1) by (simp add: max_def onGrid_minus)
  then have p: "po_quantity p' = max (po_quantity (rows ! i) - fw_quantity f) 0" using column_exact [OF takes(7)] by simp
  have held: "heldQuantity (orderKey ord) rows = po_quantity (rows ! i)"
    using takes(1) by (simp add: heldQuantity_def positionOf_key)
  have "onColumns (rows[i := p'])" using ok(2) column_grid [OF takes(7)] i
    by (simp add: onColumns_def list_all_length nth_list_update)
  then show ?thesis using ok(1) i p held heldQuantity_update [of rows i p'] by (simp add: takes(2,4) positionsOk_def)
qed

lemma fills_book:
  assumes "upsertPositionFromFills env ord fills p0 rows = Inr (rows', p)" and "positionsOk rows" "onColumns rows"
    and "\<forall>f \<in> set fills. onGrid 18 (fw_quantity f) \<and> 0 < fw_quantity f"
  shows "onColumns rows' \<and> (\<forall>key. heldQuantity key rows' =
    (if key = orderKey ord then foldl bookFill (heldQuantity key rows) fills else heldQuantity key rows))"
  using assms
proof (induction fills arbitrary: p0 rows)
  case Nil
  then show ?case by simp
next
  case (Cons f fills)
  show ?case
  proof (cases "fw_side f")
    case BUY
    then obtain rows1 p1 where step: "upsertBuyPositionFill env ord f rows = Inr (rows1, p1)"
        "upsertPositionFromFills env ord fills (Some p1) rows1 = Inr (rows', p)"
      using Cons.prems(1) by (auto simp: bindR_Inr_iff)
    then show ?thesis
      using Cons.IH [OF step(2) upsertBuy_ok [OF step(1)]] buy_books [OF step(1)] Cons.prems BUY by (simp add: bookFill_def)
  next
    case SELL
    then obtain rows1 p1 where step: "applySellPositionFill env ord f rows = Inr (rows1, p1)"
        "upsertPositionFromFills env ord fills p1 rows1 = Inr (rows', p)"
      using Cons.prems(1) by (auto simp: bindR_Inr_iff)
    then show ?thesis
      using Cons.IH [OF step(2) applySell_ok [OF step(1)]] sell_books [OF step(1)] Cons.prems SELL by (simp add: bookFill_def)
  qed
qed

lemma stored_fills_grid:
  assumes "insertPaperExecutionFills env orderId inp db = Inr (db', fills)" and "f \<in> set fills"
  shows "onGrid 18 (fw_quantity f)"
proof -
  obtain rows where "mapR (storeFillRow env) rows = Inr fills"
    using assms(1) by (auto simp: insertPaperExecutionFills_def bindR_Inr_iff)
  from mapR_in [OF this assms(2)] obtain f0 where "storeFillRow env f0 = Inr f" by auto
  then have "ne_column env 18 (fw_quantity f0) = Inr (fw_quantity f)" by (auto simp: storeFillRow_def bindR_Inr_iff)
  then show ?thesis by (rule column_grid)
qed

lemma written_fills_grid:
  assumes "writeExecution env orderId inp db = Inr (db', r)" and "f \<in> set (px_fills r)"
  shows "onGrid 18 (fw_quantity f)"
proof -
  obtain db1 db2 where "insertPaperExecutionFills env orderId inp db1 = Inr (db2, px_fills r)"
    using assms(1) by (auto simp: writeExecution_def bindR_Inr_iff)
  then show ?thesis using stored_fills_grid assms(2) by blast
qed

lemma persist_books:
  assumes run: "persistPaperExecution env inp db = (db', r)" and ok: "positionsOk (xd_positions db)" "onColumns (xd_positions db)"
  shows "onColumns (xd_positions db') \<and> (case r of Inl e \<Rightarrow> db' = db | Inr res \<Rightarrow> \<forall>key. heldQuantity key (xd_positions db') =
    (if key = orderKey (px_order res) then foldl bookFill (heldQuantity key (xd_positions db)) (px_fills res)
     else heldQuantity key (xd_positions db)))"
  using run
proof (cases rule: persistPaperExecution_cases)
  case (refused e)
  then show ?thesis using ok by simp
next
  case (found i res)
  then show ?thesis using ok by simp
next
  case (written input row res)
  from written(3-6) show ?thesis
  proof (cases rule: written_effect)
    case (1 row' events fills positions)
    have "\<forall>f \<in> set fills. onGrid 18 (fw_quantity f) \<and> 0 < fw_quantity f"
      using written_fills_grid [OF written(6)] 1(6,10) by (auto simp: bookedFill_def)
    then show ?thesis using fills_book [OF 1(7) ok] 1(1,9,10) written(1) by simp
  qed
qed

lemma onColumns_persistAll:
  assumes "dbOk db" and "onColumns (xd_positions db)"
  shows "onColumns (xd_positions (persistAll env inps db))"
  using assms
proof (induction inps arbitrary: db)
  case (Cons inp inps)
  obtain db' r where run: "persistPaperExecution env inp db = (db', r)" by (rule prod.exhaust)
  have "dbOk db'" using dbOk_persist [OF Cons.prems(1), of env inp] by (simp add: run)
  moreover have "onColumns (xd_positions db')" using persist_books [OF run] Cons.prems by (simp add: dbOk_def)
  ultimately show ?case using Cons.IH [of db'] by (simp add: persistAll_def run)
qed (simp add: persistAll_def)

end

section \<open>Example\<close>

lemma storageEnv_column: "onGrid k x \<Longrightarrow> \<bar>x\<bar> < 10 ^ (36 - k) \<Longrightarrow> ne_column (storageEnv rnd) k x = Inr x"
  by (simp add: storageEnv_def roundAt_exact)

lemma storageEnv_fields: "ne_round (storageEnv rnd) = rnd" "ne_divide (storageEnv rnd) = (/)"
  by (simp_all add: storageEnv_def)

text \<open>A buy of 1 at 100 that fills 0.4 at 95 and 0.4 at 97; 0.2 stay open.\<close>

definition exampleSim :: fill_result where
  "exampleSim = \<lparr>fr_status = FS_PARTIALLY_FILLED, fr_orderStatus = PARTIALLY_FILLED, fr_reasonCode = limit_crossed_partial,
     fr_requestedQuantity = 1, fr_filledQuantity = 8/10, fr_openQuantity = 2/10, fr_canceledQuantity = 0,
     fr_averageFillPrice = Some 96, fr_totalFillNotional = Some (384/5), fr_totalFee = Some (24/625),
     fr_slippageBps = None,
     fr_fills = [\<lparr>pf_price = 95, pf_quantity = 4/10, pf_notional = 38, pf_fee = 19/1000\<rparr>,
       \<lparr>pf_price = 97, pf_quantity = 4/10, pf_notional = 194/5, pf_fee = 97/5000\<rparr>],
     fr_orderbookReceivedAt = Some (At 5), fr_metadata = None\<rparr>"

definition exampleOrder :: broker_order where
  "exampleOrder = \<lparr>bo_brokerOrderId = ''paper-order-1'', bo_idempotencyKey = ''k1'', bo_exchangeId = ''UPBIT'',
     bo_market = ''KRW-BTC'', bo_side = BUY, bo_orderType = LIMIT, bo_status = PARTIALLY_FILLED, bo_requestedQuantity = 1,
     bo_remainingQuantity = 2/10, bo_requestedPrice = Some (Num 100), bo_acceptedAt = Some (At 9), bo_updatedAt = At 9,
     bo_metadata = \<lparr>oe_submittedAt = At 7, oe_paperBrokerRejection = None, oe_paperFillSimulation = Some exampleSim,
       oe_balanceMutation = None, oe_balanceMutationApplied = Some True, oe_paperBalanceRejection = None, oe_paperCancel = None\<rparr>\<rparr>"

definition exampleInput :: persist_input where
  "exampleInput = \<lparr>pi_submission = exampleSubmission None None, pi_brokerOrder = exampleOrder, pi_correlationId = Some ''c1'',
     pi_simulatedLatencyMs = None\<rparr>"

lemmas persist_eval =
  assertBrokerOrderMatchesSubmission_def decimalStringEquals_def assertFillEvidenceMatchesBrokerStatus_def
  readPaperFillSimulation_def readPaperCancelEvidence_def assertSimulationStatusCompatible_def
  assertSimulationQuantityMatchesBrokerOrder_def createEffectiveSimulationQuantities_def decimalStringEqualsAtScale_def
  assertStateSpecificQuantityInvariants_def checkRow_def blankText_def storeFillRow_def toFillRowInputs_def
  shouldPersistFillRows_def parseMarketQuoteCurrency_def storePositionRow_def exactRound_def decimal_ops
  exampleInput_def exampleOrder_def exampleSim_def exampleSubmission_def exampleIntent_def Let_def
  storageEnv_column storageEnv_fields onGrid_def trim_def isSpace_def toUpperCase_def upperChar_def

lemma example_checks:
  "assertBrokerOrderMatchesSubmission exampleInput = Inr ()"
  "assertFillEvidenceMatchesBrokerStatus (storageEnv exactRound) (pi_brokerOrder exampleInput) = Inr ()"
  by (simp_all add: persist_eval)

lemma example_row:
  obtains input row where "toExecutionOrderRowInput exampleInput = Inr input" "storeOrderRow (storageEnv exactRound) input = Inr row"
    "ow_status row = RISK_APPROVED" "orderKey row = (''UPBIT'', ''KRW-BTC'', ''s1'')"
  by (simp add: toExecutionOrderRowInput_def storeOrderRow_def persist_eval)

lemma example_fills:
  "\<exists>fills. insertPaperExecutionFills (storageEnv exactRound) 0 exampleInput db = Inr (db\<lparr>xd_fills := xd_fills db @ fills\<rparr>, fills) \<and>
     map fw_quantity fills = [4/10, 4/10] \<and> map fw_price fills = [95, 97] \<and> map fw_side fills = [BUY, BUY]"
  by (simp add: insertPaperExecutionFills_def persist_eval)

lemma example_positions:
  assumes "map fw_quantity fills = [4/10, 4/10]" and "map fw_price fills = [95, 97]" and "map fw_side fills = [BUY, BUY]"
    and "ow_market ord = ''KRW-BTC''"
  shows "\<exists>positions p. upsertPositionFromFills (storageEnv exactRound) ord fills None [] = Inr (positions, p)"
proof -
  obtain f1 f2 where f: "fills = [f1, f2]" using assms(1) by (cases fills; cases "tl fills") auto
  then have q: "fw_quantity f1 = 2/5" "fw_quantity f2 = 2/5" "fw_price f1 = 95" "fw_price f2 = 97" "fw_side f1 = BUY" "fw_side f2 = BUY"
    using assms(1-3) by simp_all
  show ?thesis using assms(4) by (simp add: f q upsertBuyPositionFill_def positionOf_def persist_eval)
qed

lemma example_persisted:
  obtains db r where "persistPaperExecution (storageEnv exactRound) exampleInput emptyDb = (db, Inr r)" "px_created r"
    "orderKey (px_order r) = (''UPBIT'', ''KRW-BTC'', ''s1'')" "map fw_quantity (px_fills r) = [4/10, 4/10]"
    "map fw_side (px_fills r) = [BUY, BUY]"
proof -
  let ?env = "storageEnv exactRound"
  obtain input row where row: "toExecutionOrderRowInput exampleInput = Inr input" "storeOrderRow ?env input = Inr row"
    "ow_status row = RISK_APPROVED" "orderKey row = (''UPBIT'', ''KRW-BTC'', ''s1'')" by (rule example_row)
  let ?db0 = "emptyDb\<lparr>xd_orders := [row], xd_paperOrders := [toPaperOrderRowInput 0 exampleInput]\<rparr>"
  have "createPaperExecutionTargetStatuses exampleInput = Inr [SUBMITTED, ACCEPTED, PARTIALLY_FILLED]"
    by (simp add: createPaperExecutionTargetStatuses_def exampleInput_def exampleOrder_def)
  from appendStateEvents_succeeds [OF this, of 0 ?db0] row(3) obtain db1 events where
    ev: "appendPaperExecutionStateEvents 0 exampleInput ?db0 = Inr (db1, events)" by auto
  from appendStateEvents_frame [OF ev] obtain row' where db1: "db1 = ?db0\<lparr>xd_orders := [row'], xd_orderEvents := events\<rparr>"
    "sameOrder row row'" by (auto simp: emptyDb_def)
  have key: "orderKey row' = (''UPBIT'', ''KRW-BTC'', ''s1'')" using sameOrder_fields [OF db1(2)] row(4) by simp
  obtain fills where fills: "insertPaperExecutionFills ?env 0 exampleInput db1 = Inr (db1\<lparr>xd_fills := xd_fills db1 @ fills\<rparr>, fills)"
    "map fw_quantity fills = [4/10, 4/10]" "map fw_price fills = [95, 97]" "map fw_side fills = [BUY, BUY]"
    using example_fills [of db1] by (elim exE conjE) (rule that)
  obtain positions p where pos: "upsertPositionFromFills ?env row' fills None [] = Inr (positions, p)"
    using example_positions [OF fills(2-4), of row'] key by auto
  have "storePaperOrderRow (toPaperOrderRowInput 0 exampleInput) = Inr (toPaperOrderRowInput 0 exampleInput)"
    by (simp add: storePaperOrderRow_def toPaperOrderRowInput_def exampleInput_def Let_def)
  moreover have "xd_positions db1 = []" "xd_orders db1 = [row']" by (simp_all add: db1(1) emptyDb_def)
  ultimately obtain db r where w: "writeExecution ?env 0 exampleInput (emptyDb\<lparr>xd_orders := [row]\<rparr>) = Inr (db, r)"
      "px_created r" "px_order r = row'" "px_fills r = fills"
    using ev fills(1) pos by (simp add: writeExecution_def emptyDb_def)
  have "persistPaperExecution ?env exampleInput emptyDb = (db, Inr r)"
    using example_checks row(1,2) w(1) by (simp add: persistPaperExecution_def persistPaperExecutionInTransaction_def emptyDb_def)
  then show thesis using w(2-4) key fills(2,4) by (intro that [of db r]) simp_all
qed

section \<open>Properties\<close>

text \<open>
  C16. The durable records agree with each other. After any sequence of calls, successful or refused,
  no two order rows share an idempotency key; the events of each order, in the order of the log, lead
  by legal transitions from RISK_APPROVED to the status of its row; every fill belongs to an order that
  was executed at least in part, in the same market and on the same side, with positive price and
  quantity; and there is at most one position per exchange, market and strategy, never negative.
\<close>

theorem persisted_records_agree:
  assumes "db = persistAll env inps emptyDb"
  shows "distinct (map ow_idempotencyKey (xd_orders db)) \<and>
    (\<forall>i < length (xd_orders db). replayEvents (filter (\<lambda>e. ew_orderId e = i) (xd_orderEvents db)) RISK_APPROVED =
       Some (ow_status (xd_orders db ! i))) \<and>
    (\<forall>f \<in> set (xd_fills db). fw_orderId f < length (xd_orders db) \<and>
       fillRowOk (fw_orderId f) (xd_orders db ! fw_orderId f) f) \<and>
    distinct (map positionKey (xd_positions db)) \<and>
    (\<forall>p \<in> set (xd_positions db). 0 \<le> po_quantity p \<and> 0 \<le> po_averageEntryPrice p)"
  using dbOk_persistAll [OF dbOk_empty, of env inps] unfolding assms dbOk_def positionsOk_def list_all_iff by simp

theorem persisted_records_agree_witness:
  "\<exists>db. db = persistAll (storageEnv exactRound) [exampleInput] emptyDb \<and> length (xd_orders db) = 1 \<and>
     replayEvents (filter (\<lambda>e. ew_orderId e = 0) (xd_orderEvents db)) RISK_APPROVED = Some PARTIALLY_FILLED"
proof -
  obtain db r where run: "persistPaperExecution (storageEnv exactRound) exampleInput emptyDb = (db, Inr r)" "px_created r"
    by (rule example_persisted)
  have db: "db = persistAll (storageEnv exactRound) [exampleInput] emptyDb" by (simp add: persistAll_def run)
  have "\<exists>row. xd_orders db = [row] \<and> ow_status row = PARTIALLY_FILLED" using run(1)
  proof (cases rule: persistPaperExecution_cases)
    case (written input row res)
    from written(3-6) show ?thesis by (cases rule: written_effect) (simp add: emptyDb_def exampleInput_def exampleOrder_def)
  qed (use run in \<open>simp_all add: emptyDb_def\<close>)
  then have "length (xd_orders db) = 1" "ow_status (xd_orders db ! 0) = PARTIALLY_FILLED" by auto
  then show ?thesis using persisted_records_agree [OF db] db by auto
qed

text \<open>
  C17. Every outcome is booked exactly once. When a call returns, the position of the order's strategy
  in its market has moved by exactly the returned fills (bought quantities added, sold quantities taken
  off, never below zero) and no other position has changed; and whatever calls follow, repeating the
  call changes nothing, returns the same order row and reports that nothing was created.
\<close>

theorem persist_books_once:
  assumes env: "numeric_storage env" and db: "db = persistAll env earlier emptyDb"
    and run: "persistPaperExecution env inp db = (db1, Inr r)" and db2: "db2 = persistAll env later db1"
  shows "heldQuantity (orderKey (px_order r)) (xd_positions db1) =
      foldl bookFill (heldQuantity (orderKey (px_order r)) (xd_positions db)) (px_fills r) \<and>
    (\<forall>key. key \<noteq> orderKey (px_order r) \<longrightarrow> heldQuantity key (xd_positions db1) = heldQuantity key (xd_positions db)) \<and>
    (\<exists>r'. persistPaperExecution env inp db2 = (db2, Inr r') \<and> \<not> px_created r' \<and> px_order r' = px_order r \<and> px_fills r' = [])"
proof -
  have ok: "dbOk db" using dbOk_persistAll [OF dbOk_empty] by (simp add: db)
  have ok1: "dbOk db1" using dbOk_persist [OF ok, of env inp] by (simp add: run)
  have "onColumns (xd_positions emptyDb)" by (simp add: onColumns_def emptyDb_def)
  then have "onColumns (xd_positions db)"
    unfolding db by (rule numeric_storage.onColumns_persistAll [OF env dbOk_empty])
  then have "\<forall>key. heldQuantity key (xd_positions db1) = (if key = orderKey (px_order r)
      then foldl bookFill (heldQuantity key (xd_positions db)) (px_fills r) else heldQuantity key (xd_positions db))"
    using numeric_storage.persist_books [OF env run] ok by (simp add: dbOk_def)
  moreover obtain added where "xd_orders db2 = xd_orders db1 @ added"
    using persistAll_orders_grow [of env later db1] by (auto simp: db2)
  moreover have "dbOk db2" using dbOk_persistAll [OF ok1] by (simp add: db2)
  ultimately show ?thesis using numeric_storage.persist_again [OF env run] by simp
qed

theorem persist_books_once_witness:
  "\<exists>db1 r. persistPaperExecution (storageEnv exactRound) exampleInput emptyDb = (db1, Inr r) \<and>
     heldQuantity (''UPBIT'', ''KRW-BTC'', ''s1'') (xd_positions db1) = 8/10 \<and>
     fst (persistPaperExecution (storageEnv exactRound) exampleInput db1) = db1"
proof -
  obtain db1 r where run: "persistPaperExecution (storageEnv exactRound) exampleInput emptyDb = (db1, Inr r)" "px_created r"
    "orderKey (px_order r) = (''UPBIT'', ''KRW-BTC'', ''s1'')" "map fw_quantity (px_fills r) = [4/10, 4/10]"
    "map fw_side (px_fills r) = [BUY, BUY]" by (rule example_persisted)
  obtain f1 f2 where f: "px_fills r = [f1, f2]" using run(4) by (cases "px_fills r"; cases "tl (px_fills r)") auto
  then have sides: "fw_side f1 = BUY" "fw_side f2 = BUY" and sum: "fw_quantity f1 + fw_quantity f2 = 8/10"
    using run(4,5) by simp_all
  have books: "heldQuantity (orderKey (px_order r)) (xd_positions db1) =
      foldl bookFill (heldQuantity (orderKey (px_order r)) (xd_positions emptyDb)) (px_fills r)"
    "\<exists>r'. persistPaperExecution (storageEnv exactRound) exampleInput db1 = (db1, Inr r')"
    using persist_books_once [of "storageEnv exactRound" emptyDb "[]" exampleInput db1 r db1 "[]"]
      exact_storage.numeric_storage_axioms run(1) by (auto simp: persistAll_def)
  have "heldQuantity (''UPBIT'', ''KRW-BTC'', ''s1'') (xd_positions db1) = fw_quantity f1 + fw_quantity f2"
    using books(1) unfolding run(3) f by (simp add: bookFill_def sides heldQuantity_def emptyDb_def)
  then show ?thesis using run(1) sum books(2) by auto
qed

end
