(* ===== verification/Paper_Evidence.thy ===== *)
theory Paper_Evidence
  imports Persistence_Booking
begin

text \<open>
  Why the paper broker's orders can always be persisted: the fill simulator's results are balanced,
  the broker keeps them in its orders through submission, rejection and cancellation, and the checks
  of \<open>Execution_Persistence\<close> accept every order with such evidence. Amounts are taken from a grid of
  \<open>10 ^ -k\<close> on which decimal.js adds exactly.
\<close>

section \<open>Balanced simulations\<close>

definition simBalanced :: "rounding \<Rightarrow> nat \<Rightarrow> fill_result \<Rightarrow> bool" where
  "simBalanced rnd k r \<longleftrightarrow> 0 < fr_requestedQuantity r \<and> fitsGrid k (fr_requestedQuantity r) \<and>
     onGrid k (fr_filledQuantity r) \<and> onGrid k (fr_openQuantity r) \<and> onGrid k (fr_canceledQuantity r) \<and>
     0 \<le> fr_filledQuantity r \<and> 0 \<le> fr_openQuantity r \<and> 0 \<le> fr_canceledQuantity r \<and>
     fr_filledQuantity r + fr_openQuantity r + fr_canceledQuantity r = fr_requestedQuantity r \<and>
     foldl (\<lambda>sum f. dplus rnd sum (pf_quantity f)) 0 (fr_fills r) = fr_filledQuantity r"

text \<open>What each order status says about the three parts.\<close>

definition statusFits :: "fill_result \<Rightarrow> bool" where
  "statusFits r = (case fr_orderStatus r of
       ACCEPTED \<Rightarrow> fr_filledQuantity r = 0 \<and> fr_canceledQuantity r = 0
     | PARTIALLY_FILLED \<Rightarrow> 0 < fr_filledQuantity r \<and> 0 < fr_openQuantity r \<and> fr_canceledQuantity r = 0
     | FILLED \<Rightarrow> fr_openQuantity r = 0 \<and> fr_canceledQuantity r = 0
     | CANCELED \<Rightarrow> fr_openQuantity r = 0 \<and> 0 < fr_canceledQuantity r
     | REJECTED \<Rightarrow> fr_openQuantity r = 0
     | _ \<Rightarrow> False)"

lemma takeLevel_sum:
  "foldl (\<lambda>sum f. dplus rnd sum (pf_quantity f)) 0 (w_fills w) = w_filled w \<Longrightarrow>
   foldl (\<lambda>sum f. dplus rnd sum (pf_quantity f)) 0 (w_fills (takeLevel rnd feeBps p sz w)) =
     w_filled (takeLevel rnd feeBps p sz w)"
  by (simp add: takeLevel_def Let_def)

lemma walkLevels_sum:
  assumes "walkLevels rnd side limitPrice feeBps ls w = Inr w'"
    and "foldl (\<lambda>sum f. dplus rnd sum (pf_quantity f)) 0 (w_fills w) = w_filled w"
  shows "foldl (\<lambda>sum f. dplus rnd sum (pf_quantity f)) 0 (w_fills w') = w_filled w'"
  using assms
proof (induction ls arbitrary: w)
  case Nil
  then show ?case by simp
next
  case (Cons l ls)
  show ?case using Cons.prems Cons.IH takeLevel_sum
    by (auto simp: bindR_Inr_iff split: if_splits)
qed

context decimal_js
begin

lemma settleDepth_balanced:
  assumes d: "dr_exact k q d" and q: "fitsGrid k q" "0 < q"
    and sum: "foldl (\<lambda>sum f. dplus rnd sum (pf_quantity f)) 0 (dr_fills d) = dr_filledQuantity d"
  shows "simBalanced rnd k (settleDepth rnd tif q p book d) \<and> statusFits (settleDepth rnd tif q p book d)"
proof -
  have grid: "onGrid k q" using q by (simp add: fitsGrid_def)
  have fits: "fitsGrid k (q - dr_filledQuantity d)"
    using assms grid by (intro fitsGrid_le [OF q(1)] onGrid_minus) (simp_all add: dr_exact_def)
  then have "dminus rnd q (dr_filledQuantity d) = q - dr_filledQuantity d"
    by (simp add: dminus_def rnd_fits)
  then show ?thesis using assms grid fits
    by (auto simp: settleDepth_def Let_def dr_exact_def simBalanced_def statusFits_def fitsGrid_def)
qed

lemma simulatePaperFill_balanced:
  assumes sim: "simulatePaperFill rnd intent books options = Inr r"
    and q: "parseFinancialDecimal (oi_requestedQuantity intent) = Inr q" "0 < q" "fitsGrid k q"
    and sizes: "\<forall>b \<in> set books. list_all (sizeOnGrid k) (ob_asks b @ ob_bids b)"
  shows "simBalanced rnd k r \<and> statusFits r \<and> fr_requestedQuantity r = q"
  using sim
proof (cases rule: simulatePaperFill_cases)
  case (nofill q' st os rc m)
  then show ?thesis using q by (auto simp: simBalanced_def statusFits_def fitsGrid_def)
next
  case (depth q' book price po tif p taker d)
  have [simp]: "q' = q" using depth(1) q by simp
  have "list_all (sizeOnGrid k) (sideLevels (oi_side intent) book)"
    using sizes depth(3) by (auto simp: list_all_iff sideLevels_def split: order_side.splits)
  then have "dr_exact k q d" using depth(9) q by (intro calculateExecutableDepth_exact) simp_all
  moreover have "foldl (\<lambda>sum f. dplus rnd sum (pf_quantity f)) 0 (dr_fills d) = dr_filledQuantity d"
    using depth(9) by (elim calculateExecutableDepth_walk) (auto dest: walkLevels_sum simp: startWalk_def)
  ultimately have "simBalanced rnd k r \<and> statusFits r"
    unfolding depth(10) using settleDepth_balanced q by simp
  moreover have "fr_requestedQuantity r = q"
    unfolding depth(10) by (simp add: settleDepth_def Let_def)
  ultimately show ?thesis by simp
qed

end

section \<open>Evidence in broker orders\<close>

definition evidenceOk :: "rounding \<Rightarrow> nat \<Rightarrow> broker_order \<Rightarrow> bool" where
  "evidenceOk rnd k ord =
     (case readPaperFillSimulation ord of
        None \<Rightarrow> bo_status ord = REJECTED
      | Some sim \<Rightarrow> simBalanced rnd k sim \<and> statusFits sim \<and> bo_requestedQuantity ord = fr_requestedQuantity sim \<and>
          (bo_status ord = fr_orderStatus sim \<and> readPaperCancelEvidence ord = None \<and>
             bo_remainingQuantity ord = fr_openQuantity sim \<or>
           bo_status ord = REJECTED \<and> readPaperCancelEvidence ord = None \<and>
             oe_paperBalanceRejection (bo_metadata ord) \<noteq> None \<or>
           bo_status ord = CANCELED \<and> readPaperCancelEvidence ord = Some (fr_openQuantity sim) \<and>
             0 < fr_openQuantity sim \<and> fr_canceledQuantity sim = 0 \<and> bo_remainingQuantity ord = 0))"

lemma statusFits_range: "statusFits sim \<Longrightarrow> fr_orderStatus sim \<in> {ACCEPTED, PARTIALLY_FILLED, FILLED, CANCELED, REJECTED}"
  by (auto simp: statusFits_def split: order_status.splits)

context decimal_js
begin

lemma balanced_sum:
  assumes "simBalanced rnd k sim"
  shows "dplus rnd (dplus rnd (fr_filledQuantity sim) (fr_openQuantity sim)) (fr_canceledQuantity sim) = fr_requestedQuantity sim"
    and "dplus rnd (fr_canceledQuantity sim) (fr_openQuantity sim) = fr_canceledQuantity sim + fr_openQuantity sim"
    and "dplus rnd (dplus rnd (fr_filledQuantity sim) 0) (fr_canceledQuantity sim + fr_openQuantity sim) = fr_requestedQuantity sim"
proof -
  have req: "fitsGrid k (fr_requestedQuantity sim)" and total: "fr_requestedQuantity sim =
      fr_filledQuantity sim + fr_openQuantity sim + fr_canceledQuantity sim"
    and b: "onGrid k (fr_filledQuantity sim)" "onGrid k (fr_openQuantity sim)" "onGrid k (fr_canceledQuantity sim)"
      "0 \<le> fr_filledQuantity sim" "0 \<le> fr_openQuantity sim" "0 \<le> fr_canceledQuantity sim"
    using assms by (simp_all add: simBalanced_def)
  note fits = fitsGrid_le [OF req]
  have exact: "dplus rnd x y = x + y" if "onGrid k x" "onGrid k y" "0 \<le> x" "0 \<le> y" "x + y \<le> fr_requestedQuantity sim" for x y
  proof -
    have "fitsGrid k (x + y)" using that by (intro fits onGrid_plus) simp_all
    then show ?thesis by (simp add: dplus_def rnd_fits)
  qed
  show "dplus rnd (dplus rnd (fr_filledQuantity sim) (fr_openQuantity sim)) (fr_canceledQuantity sim) = fr_requestedQuantity sim"
    using b total by (simp add: exact onGrid_plus)
  show "dplus rnd (fr_canceledQuantity sim) (fr_openQuantity sim) = fr_canceledQuantity sim + fr_openQuantity sim"
    using b total by (simp add: exact)
  show "dplus rnd (dplus rnd (fr_filledQuantity sim) 0) (fr_canceledQuantity sim + fr_openQuantity sim) = fr_requestedQuantity sim"
    using b total by (simp add: exact onGrid_plus)
qed

lemma filled_has_fills:
  assumes "simBalanced rnd k sim" and "fr_filledQuantity sim \<noteq> 0"
  shows "fr_fills sim \<noteq> []"
  using assms by (auto simp: simBalanced_def)

end

text \<open>The checks of the persistence layer accept every order with such evidence.\<close>

lemma quantity_check_accepts:
  assumes rnd: "decimal_js (ne_round env)" and ev: "evidenceOk (ne_round env) k ord"
    and sim: "readPaperFillSimulation ord = Some sim"
  shows "assertSimulationQuantityMatchesBrokerOrder env ord sim = Inr ()"
proof -
  have b: "simBalanced (ne_round env) k sim" and st: "statusFits sim" and q: "bo_requestedQuantity ord = fr_requestedQuantity sim"
    using ev sim by (simp_all add: evidenceOk_def)
  note sums = decimal_js.balanced_sum [OF rnd b]
  note parts = b [unfolded simBalanced_def]
  consider (same) "bo_status ord = fr_orderStatus sim" "readPaperCancelEvidence ord = None" "bo_remainingQuantity ord = fr_openQuantity sim"
    | (rejected) "bo_status ord = REJECTED" "readPaperCancelEvidence ord = None"
    | (canceled) "bo_status ord = CANCELED" "readPaperCancelEvidence ord = Some (fr_openQuantity sim)"
        "0 < fr_openQuantity sim" "fr_canceledQuantity sim = 0" "bo_remainingQuantity ord = 0"
    using ev sim by (auto simp: evidenceOk_def)
  then show ?thesis
  proof cases
    case same
    then show ?thesis using st parts sums(1) statusFits_range [OF st]
      by (auto simp: assertSimulationQuantityMatchesBrokerOrder_def createEffectiveSimulationQuantities_def Let_def q
          decimalStringEqualsAtScale_def assertStateSpecificQuantityInvariants_def statusFits_def)
  next
    case rejected
    then show ?thesis using sums(1)
      by (simp add: assertSimulationQuantityMatchesBrokerOrder_def createEffectiveSimulationQuantities_def Let_def)
  next
    case canceled
    then show ?thesis using parts sums(2,3)
      by (auto simp: assertSimulationQuantityMatchesBrokerOrder_def createEffectiveSimulationQuantities_def Let_def q
          decimalStringEqualsAtScale_def assertStateSpecificQuantityInvariants_def)
  qed
qed

lemma evidence_check_accepts:
  assumes rnd: "decimal_js (ne_round env)" and ev: "evidenceOk (ne_round env) k ord"
  shows "assertFillEvidenceMatchesBrokerStatus env ord = Inr ()"
proof (cases "readPaperFillSimulation ord")
  case None
  then show ?thesis using ev by (simp add: evidenceOk_def assertFillEvidenceMatchesBrokerStatus_def)
next
  case (Some sim)
  have b: "simBalanced (ne_round env) k sim" and st: "statusFits sim" using ev Some by (simp_all add: evidenceOk_def)
  have fills: "fr_fills sim \<noteq> []" if "fr_filledQuantity sim \<noteq> 0"
    using that decimal_js.filled_has_fills [OF rnd b] by simp
  have filled: "0 < fr_filledQuantity sim" if "bo_status ord = FILLED \<or> bo_status ord = PARTIALLY_FILLED"
    using that ev Some b st by (auto simp: evidenceOk_def statusFits_def simBalanced_def)
  have "assertSimulationStatusCompatible ord sim = Inr ()"
    using ev Some by (auto simp: evidenceOk_def assertSimulationStatusCompatible_def)
  moreover have "assertSimulationQuantityMatchesBrokerOrder env ord sim = Inr ()"
    using quantity_check_accepts [OF rnd ev Some] .
  moreover have "foldl (\<lambda>sum f. dplus (ne_round env) sum (pf_quantity f)) 0 (fr_fills sim) = fr_filledQuantity sim"
    using b by (simp add: simBalanced_def)
  moreover have "\<not> ((bo_status ord = FILLED \<or> bo_status ord = PARTIALLY_FILLED) \<and>
      (fr_fills sim = [] \<or> \<not> 0 < fr_filledQuantity sim))"
    using fills filled by force
  moreover have "\<not> (0 < fr_filledQuantity sim \<and> fr_fills sim = [])" using fills by force
  ultimately show ?thesis
    unfolding assertFillEvidenceMatchesBrokerStatus_def Some by simp
qed

lemma evidenceOk_status:
  "evidenceOk rnd k ord \<Longrightarrow> bo_status ord \<in> {ACCEPTED, PARTIALLY_FILLED, FILLED, CANCELED, REJECTED}"
  by (auto simp: evidenceOk_def dest: statusFits_range split: option.splits)

section \<open>The broker keeps its evidence\<close>

definition bookOnGrid :: "nat \<Rightarrow> orderbook \<Rightarrow> bool" where
  "bookOnGrid k b = list_all (sizeOnGrid k) (ob_asks b @ ob_bids b)"

definition quantityOnGrid :: "nat \<Rightarrow> order_intent \<Rightarrow> bool" where
  "quantityOnGrid k intent =
     (case parseFinancialDecimal (oi_requestedQuantity intent) of Inl e \<Rightarrow> True | Inr q \<Rightarrow> 0 < q \<and> fitsGrid k q)"

fun gridOp :: "nat \<Rightarrow> broker_op \<Rightarrow> bool" where
  "gridOp k (Submit now s) = quantityOnGrid k (os_intent s)"
| "gridOp k (Cancel now orderId) = True"
| "gridOp k (RecordSnapshot book) = bookOnGrid k book"
| "gridOp k (ReplaceSnapshots books) = list_all (bookOnGrid k) books"

definition gridBroker :: "rounding \<Rightarrow> nat \<Rightarrow> paper_broker \<Rightarrow> bool" where
  "gridBroker rnd k b \<longleftrightarrow> list_all (\<lambda>(oid, ord). evidenceOk rnd k ord) (pb_ordersById b) \<and>
     list_all (\<lambda>(key, books). list_all (bookOnGrid k) books) (pb_orderbooksByMarket b)"

lemma gridBroker_cong:
  "gridBroker rnd k b \<Longrightarrow> pb_ordersById b' = pb_ordersById b \<Longrightarrow> pb_orderbooksByMarket b' = pb_orderbooksByMarket b \<Longrightarrow>
   gridBroker rnd k b'"
  by (simp add: gridBroker_def)

lemma orderbooks_frame [simp]:
  "pb_orderbooksByMarket (applyBalanceDelta rnd c a l t b) = pb_orderbooksByMarket b"
  "pb_orderbooksByMarket (applySubmissionBalanceMutation rnd m t b) = pb_orderbooksByMarket b"
  "pb_orderbooksByMarket (storeOrder ord fp b) = pb_orderbooksByMarket b"
  by (simp_all add: applyBalanceDelta_def applySubmissionBalanceMutation_def storeOrder_def Let_def)

lemma gridBroker_store:
  "gridBroker rnd k b \<Longrightarrow> evidenceOk rnd k ord \<Longrightarrow> gridBroker rnd k (storeOrder ord fp b)"
  by (simp add: gridBroker_def) (simp add: storeOrder_def list_all_alist_update)

lemma readOrderbooks_onGrid:
  "gridBroker rnd k b \<Longrightarrow> book \<in> set (readOrderbooksForIntent intent b) \<Longrightarrow> bookOnGrid k book"
  by (cases "map_of (pb_orderbooksByMarket b) (createOrderbookKey (oi_exchangeId intent) (oi_market intent))")
    (auto simp: gridBroker_def readOrderbooksForIntent_def list_all_iff dest!: map_of_SomeD)

lemma scanImmediate_in:
  "scanImmediate n bs pre post = Inr (Some b) \<Longrightarrow> b \<in> set bs \<union> set_option pre \<union> set_option post"
  by (induction bs arbitrary: pre post) (fastforce simp: bindR_Inr_iff split: if_splits option.splits)+

lemma createFillSimulationRequest_in:
  assumes "createFillSimulationRequest s b = Inr (books, options)"
  shows "set books \<subseteq> set (readOrderbooksForIntent (os_intent s) b)"
  using assms scanImmediate_in [of _ "readOrderbooksForIntent (os_intent s) b" None None]
  by (auto simp: createFillSimulationRequest_def selectImmediateExecutionOrderbook_def bindR_Inr_iff Let_def
      split: if_splits option.splits)

context decimal_js
begin

lemma settleSubmission_evidence:
  assumes set: "settleSubmission rnd now s oid b = Inr (ord, b')" and ok: "gridBroker rnd k b"
    and q: "quantityOnGrid k (os_intent s)"
  shows "evidenceOk rnd k ord"
proof -
  obtain books options sim m where req: "createFillSimulationRequest s b = Inr (books, options)"
    and sim: "simulatePaperFill rnd (os_intent s) books options = Inr sim"
    and ord: "ord = createBrokerOrderFromSimulation s oid sim m
       (createOrderStateFromSimulation sim (validateBalanceMutation rnd b m)) now"
    using set by (auto simp: settleSubmission_def bindR_Inr_iff Let_def)
  obtain r where r: "parseFinancialDecimal (oi_requestedQuantity (os_intent s)) = Inr r"
    using sim by (auto simp: simulatePaperFill_def bindR_Inr_iff)
  have "\<forall>book \<in> set books. list_all (sizeOnGrid k) (ob_asks book @ ob_bids book)"
    using createFillSimulationRequest_in [OF req] readOrderbooks_onGrid [OF ok] by (auto simp: bookOnGrid_def)
  then have "simBalanced rnd k sim \<and> statusFits sim \<and> fr_requestedQuantity sim = r"
    using q r by (intro simulatePaperFill_balanced [OF sim r]) (simp_all add: quantityOnGrid_def)
  then show ?thesis
    by (cases "validateBalanceMutation rnd b m")
      (simp_all add: ord evidenceOk_def createBrokerOrderFromSimulation_def createOrderStateFromSimulation_def
        readPaperFillSimulation_def readPaperCancelEvidence_def Let_def)
qed

lemma gridBroker_submitOrder:
  assumes ok: "gridBroker rnd k b" and q: "quantityOnGrid k (os_intent s)"
  shows "gridBroker rnd k (fst (submitOrder rnd now s b))"
proof -
  obtain b' r where sub: "submitOrder rnd now s b = (b', r)" by (rule prod.exhaust)
  let ?b1 = "b\<lparr>pb_nextOrderSequence := Suc (pb_nextOrderSequence b)\<rparr>"
  have ok1: "gridBroker rnd k ?b1" using ok by (rule gridBroker_cong) simp_all
  from sub have "gridBroker rnd k b'"
  proof (cases rule: submitOrder_cases)
    case (failed e)
    then show ?thesis using ok ok1 by auto
  next
    case (known fp oid ord)
    then show ?thesis using ok by simp
  next
    case (rejected fp rejection ord)
    have "evidenceOk rnd k ord" using rejected(4)
      by (auto simp: createRejectedBrokerOrder_def Let_def bindR_Inr_iff evidenceOk_def readPaperFillSimulation_def)
    then show ?thesis using gridBroker_store [OF ok1] rejected(5) by simp
  next
    case (settled fp ord b2)
    have "gridBroker rnd k b2"
      using ok1 settleSubmission_frame(1) [OF settled(4)] settled(4)
      by (auto elim!: gridBroker_cong settleSubmission_cases)
    then show ?thesis using settled(5) settleSubmission_evidence [OF settled(4) ok1 q] by (simp add: gridBroker_store)
  qed
  then show ?thesis by (simp add: sub)
qed

end

lemma evidenceOk_open:
  assumes "evidenceOk rnd k ord" and "isOpenBrokerOrder ord"
  obtains sim where "readPaperFillSimulation ord = Some sim" "simBalanced rnd k sim" "statusFits sim"
    "bo_requestedQuantity ord = fr_requestedQuantity sim" "bo_remainingQuantity ord = fr_openQuantity sim"
    "readPaperCancelEvidence ord = None" "fr_canceledQuantity sim = 0" "0 < fr_openQuantity sim"
  using assms by (auto simp: evidenceOk_def isOpenBrokerOrder_def statusFits_def split: option.splits order_status.splits)

lemma evidenceOk_canceled:
  assumes "evidenceOk rnd k ord" and "isOpenBrokerOrder ord" and "cm_canceledQuantity cm = bo_remainingQuantity ord"
  shows "evidenceOk rnd k (createCanceledOrder ord cm now)"
  using assms(1,2)
proof (cases rule: evidenceOk_open)
  case (1 sim)
  then show ?thesis using assms(3)
    by (simp add: evidenceOk_def createCanceledOrder_def readPaperFillSimulation_def readPaperCancelEvidence_def)
qed

lemma releaseOpenBalance_canceled:
  assumes "releaseOpenBalance rnd ord now b = Inr (cm, b')"
  shows "cm_canceledQuantity cm = bo_remainingQuantity ord" and "pb_orderbooksByMarket b' = pb_orderbooksByMarket b"
proof -
  show "cm_canceledQuantity cm = bo_remainingQuantity ord"
    using assms unfolding releaseOpenBalance_def Let_def
    by (cases "bo_orderType ord"; cases "bo_requestedPrice ord"; cases "bo_side ord")
      (auto simp: bindR_Inr_iff split: if_splits)
  show "pb_orderbooksByMarket b' = pb_orderbooksByMarket b"
    using assms by (cases rule: releaseOpenBalance_cases) simp_all
qed

lemma gridBroker_cancelOrder:
  assumes ok: "gridBroker rnd k b"
  shows "gridBroker rnd k (fst (cancelOrder rnd now oid b))"
proof -
  obtain b' r where can: "cancelOrder rnd now oid b = (b', r)" by (rule prod.exhaust)
  from can have "gridBroker rnd k b'"
  proof (cases rule: cancelOrder_cases)
    case (released ord cm b2)
    have "evidenceOk rnd k ord" using ok released(1) by (auto simp: gridBroker_def list_all_iff dest: map_of_SomeD)
    then have "evidenceOk rnd k (createCanceledOrder ord cm now)"
      using evidenceOk_canceled released(2) releaseOpenBalance_canceled(1) [OF released(3)] by blast
    then show ?thesis
      using ok releaseOpenBalance_frame(1) [OF released(3)] releaseOpenBalance_canceled(2) [OF released(3)]
      by (simp add: released(5) gridBroker_def list_all_alist_update)
  qed (use ok in simp_all)
  then show ?thesis by (simp add: can)
qed

lemma gridBroker_record:
  assumes "gridBroker rnd k b" and "bookOnGrid k book"
  shows "gridBroker rnd k (fst (recordOrderbookSnapshot book b))"
proof -
  let ?key = "createOrderbookKey (ob_exchangeId book) (ob_market book)"
  define pushed where "pushed = (case map_of (pb_orderbooksByMarket b) ?key of None \<Rightarrow> [book] | Some bs \<Rightarrow> bs @ [book])"
  have pushed: "list_all (bookOnGrid k) pushed"
    using assms by (cases "map_of (pb_orderbooksByMarket b) ?key")
      (auto simp: pushed_def gridBroker_def list_all_iff dest!: map_of_SomeD)
  have "list_all (bookOnGrid k) ordered" if "sortSnapshots pushed = Inr ordered" for ordered
    using that pushed by (auto simp: sortSnapshots_def bindR_Inr_iff list_all_iff split: if_splits)
  then show ?thesis using assms pushed
    by (auto simp: recordOrderbookSnapshot_def Let_def pushed_def [symmetric] gridBroker_def list_all_alist_update
        split: sum.splits)
qed

lemma gridBroker_recordAll:
  "gridBroker rnd k b \<Longrightarrow> list_all (bookOnGrid k) books \<Longrightarrow> gridBroker rnd k (fst (recordAll books b))"
proof (induction books arbitrary: b)
  case (Cons book books)
  then show ?case using gridBroker_record [of rnd k b book]
    by (auto split: prod.splits sum.splits)
qed simp

context decimal_js
begin

lemma gridBroker_applyOp:
  assumes "gridBroker rnd k b" and "gridOp k op"
  shows "gridBroker rnd k (applyOp rnd op b)"
proof (cases op)
  case (ReplaceSnapshots books)
  have "gridBroker rnd k (b\<lparr>pb_orderbooksByMarket := []\<rparr>)" using assms(1) by (simp add: gridBroker_def)
  then show ?thesis using assms(2) by (simp add: ReplaceSnapshots replaceOrderbookSnapshots_def gridBroker_recordAll)
qed (use assms in \<open>simp_all add: gridBroker_submitOrder gridBroker_cancelOrder gridBroker_record\<close>)

lemma gridBroker_runOps:
  assumes "gridBroker rnd k b" and "list_all (gridOp k) ops"
  shows "gridBroker rnd k (runOps rnd ops b)"
  by (rule runOps_induct [where P = "gridBroker rnd k"])
    (use assms in \<open>simp_all add: list_all_iff gridBroker_applyOp\<close>)

end

lemma gridBroker_created:
  assumes "createPaperBroker rnd exchangeId balances snapshots options prefix now = Inr b"
    and "list_all (bookOnGrid k) snapshots"
  shows "gridBroker rnd k b"
proof -
  obtain bal where res: "(case recordAll snapshots (newPaperBroker exchangeId options prefix bal) of
      (b, Inl e) \<Rightarrow> Inl e | (b, Inr u) \<Rightarrow> Inr b) = Inr b"
    using assms(1) by (auto simp: createPaperBroker_def bindR_Inr_iff)
  have "gridBroker rnd k (newPaperBroker exchangeId options prefix bal)"
    by (simp add: gridBroker_def newPaperBroker_def)
  then have "gridBroker rnd k (fst (recordAll snapshots (newPaperBroker exchangeId options prefix bal)))"
    using assms(2) by (rule gridBroker_recordAll)
  moreover obtain b0 u where "recordAll snapshots (newPaperBroker exchangeId options prefix bal) = (b0, u)"
    by (rule prod.exhaust)
  ultimately show ?thesis using res by (cases u) simp_all
qed

section \<open>A fresh submission and its order\<close>

lemma fresh_order_matches:
  assumes sub: "submitOrder rnd now s b = (b', Inr ord)"
    and fresh: "map_of (pb_orderIdsByIdempotencyKey b) (oi_idempotencyKey (os_intent s)) = None"
    and inp: "pi_submission inp = s" "pi_brokerOrder inp = ord"
  shows "assertBrokerOrderMatchesSubmission inp = Inr ()"
proof -
  obtain q where q: "parseFinancialDecimal (oi_requestedQuantity (os_intent s)) = Inr q"
    and price: "\<And>p. limitPriceOf (oi_terms (os_intent s)) = Some p \<Longrightarrow> \<exists>r. parseFinancialDecimal p = Inr r"
  proof -
    obtain fp where "createSubmissionFingerprint (os_intent s) = Inr fp" using sub by (cases rule: submitOrder_cases) auto
    then show thesis using that
      by (cases "oi_terms (os_intent s)") (auto simp: createSubmissionFingerprint_def bindR_Inr_iff Let_def)
  qed
  have "bo_idempotencyKey ord = oi_idempotencyKey (os_intent s) \<and> bo_exchangeId ord = oi_exchangeId (os_intent s) \<and>
      bo_market ord = oi_market (os_intent s) \<and> bo_side ord = oi_side (os_intent s) \<and>
      bo_orderType ord = oi_orderType (os_intent s) \<and> bo_requestedQuantity ord = q \<and>
      bo_requestedPrice ord = limitPriceOf (oi_terms (os_intent s))"
    using sub
  proof (cases rule: submitOrder_cases)
    case (rejected fp rejection order)
    then show ?thesis using q by (auto simp: createRejectedBrokerOrder_def Let_def bindR_Inr_iff)
  next
    case (settled fp order b2)
    from settled(4) obtain books options sim m st where
      sim: "simulatePaperFill rnd (os_intent s) books options = Inr sim" and
      ord: "order = createBrokerOrderFromSimulation s (createBrokerOrderId b) sim m st now"
      by (elim settleSubmission_cases) blast
    have "fr_requestedQuantity sim = q"
      using sim by (cases rule: simulatePaperFill_cases) (use q in \<open>auto simp: settleDepth_def Let_def\<close>)
    then show ?thesis using settled(2) by (simp add: ord createBrokerOrderFromSimulation_def Let_def)
  qed (use fresh in simp_all)
  then show ?thesis using q price
    by (cases "oi_terms (os_intent s)")
      (auto simp: assertBrokerOrderMatchesSubmission_def decimalStringEquals_def inp Let_def)
qed

section \<open>Properties\<close>

text \<open>
  C18. The persistence layer accepts what the paper broker does. For quantities and book sizes on a
  grid of \<open>10 ^ -k\<close> with positive quantities of at most twenty digits, every order the broker holds
  after any sequence of submissions, cancellations and order book updates passes the check of its fill
  evidence, and its status expands into lifecycle events that lead by legal transitions from
  RISK_APPROVED to that status; and the order returned for a fresh key matches its submission.
\<close>

theorem paper_orders_persistable:
  assumes rnd: "decimal_js (ne_round env)"
    and created: "createPaperBroker (ne_round env) exchangeId balances snapshots options prefix now = Inr b0"
    and grid: "list_all (bookOnGrid k) snapshots" "list_all (gridOp k) ops"
    and b: "b = runOps (ne_round env) ops b0"
  shows "(\<forall>oid inp. getOrder oid b = Some (pi_brokerOrder inp) \<longrightarrow>
      assertFillEvidenceMatchesBrokerStatus env (pi_brokerOrder inp) = Inr () \<and>
      (\<exists>evs. createPaperExecutionStateTransitionEvents inp = Inr evs \<and> legalPath RISK_APPROVED (map ev_toState evs) \<and>
         ev_toState (last evs) = bo_status (pi_brokerOrder inp))) \<and>
    (\<forall>now inp b'. submitOrder (ne_round env) now (pi_submission inp) b = (b', Inr (pi_brokerOrder inp)) \<longrightarrow>
      map_of (pb_orderIdsByIdempotencyKey b) (oi_idempotencyKey (os_intent (pi_submission inp))) = None \<longrightarrow>
      assertBrokerOrderMatchesSubmission inp = Inr ())"
proof -
  have "gridBroker (ne_round env) k b"
    unfolding b using gridBroker_created [OF created grid(1)] decimal_js.gridBroker_runOps [OF rnd _ grid(2)] by blast
  then have ok: "evidenceOk (ne_round env) k ord" if "getOrder oid b = Some ord" for oid ord
    using that by (auto simp: getOrder_def gridBroker_def list_all_iff dest: map_of_SomeD)
  have events: "\<exists>evs. createPaperExecutionStateTransitionEvents inp = Inr evs \<and> legalPath RISK_APPROVED (map ev_toState evs) \<and>
      ev_toState (last evs) = bo_status (pi_brokerOrder inp)"
    if status: "bo_status (pi_brokerOrder inp) \<in> {ACCEPTED, PARTIALLY_FILLED, FILLED, CANCELED, REJECTED}" for inp
  proof -
    obtain ts where ts: "createPaperExecutionTargetStatuses inp = Inr ts"
      using status by (cases "hasPaperFills inp") (auto simp: createPaperExecutionTargetStatuses_def)
    then obtain evs where evs: "createPaperExecutionStateTransitionEvents inp = Inr evs"
      using expandTransitions_legal [OF targetStatuses_legal(1) [OF ts], of inp]
      by (auto simp: createPaperExecutionStateTransitionEvents_def)
    then show ?thesis using stateTransitionEvents_legal(3,4) [OF evs] targetStatuses_legal(1) by blast
  qed
  show ?thesis
    using evidence_check_accepts [OF rnd ok] events evidenceOk_status [OF ok] fresh_order_matches by blast
qed

lemma example_canceled:
  "\<exists>ord. getOrder (createBrokerOrderId exampleBroker) (runOps exactRound [Submit (At 9) (exampleSubmission None None), Cancel (At 10) (createBrokerOrderId exampleBroker)]
     exampleBroker) = Some ord \<and> bo_status ord = CANCELED"
  by (simp add: runOps_def getOrder_def cancelOrder_def releaseOpenBalance_def isOpenBrokerOrder_def createCanceledOrder_def
      broker_eval fill_eval)

theorem paper_orders_persistable_witness:
  "\<exists>ord. getOrder (createBrokerOrderId exampleBroker) (runOps exactRound [Submit (At 9) (exampleSubmission None None), Cancel (At 10) (createBrokerOrderId exampleBroker)]
     exampleBroker) = Some ord \<and> bo_status ord = CANCELED \<and>
     assertFillEvidenceMatchesBrokerStatus (storageEnv exactRound) ord = Inr ()"
proof -
  let ?ops = "[Submit (At 9) (exampleSubmission None None), Cancel (At 10) (createBrokerOrderId exampleBroker)]"
  obtain ord where ord: "getOrder (createBrokerOrderId exampleBroker) (runOps exactRound ?ops exampleBroker) = Some ord" "bo_status ord = CANCELED"
    using example_canceled by blast
  have env: "ne_round (storageEnv exactRound) = exactRound" by (simp add: storageEnv_def)
  have grid: "list_all (bookOnGrid 1) [exampleBook]" "list_all (gridOp 1) ?ops"
    by (simp_all add: bookOnGrid_def exampleBook_def exampleLevel_def sizeOnGrid_def onGrid_def quantityOnGrid_def
        exampleSubmission_def exampleIntent_def fitsGrid_def)
  have "getOrder (createBrokerOrderId exampleBroker) (runOps exactRound ?ops exampleBroker) =
      Some (pi_brokerOrder (exampleInput\<lparr>pi_brokerOrder := ord\<rparr>))" using ord(1) by simp
  then have "assertFillEvidenceMatchesBrokerStatus (storageEnv exactRound) ord = Inr ()"
    using paper_orders_persistable [of "storageEnv exactRound", unfolded env, OF exact.decimal_js_axioms example_created grid refl]
    by fastforce
  then show ?thesis using ord by blast
qed

text \<open>
  A book level of size zero within the limit becomes a fill of quantity zero, which the fill table
  refuses: such an execution cannot be persisted.
\<close>

definition emptyLevelBook :: orderbook where
  "emptyLevelBook = exampleBook\<lparr>ob_asks := [exampleLevel 99 0, exampleLevel 100 1]\<rparr>"

lemma zero_size_level_not_persistable:
  "\<exists>r. simulatePaperFill exactRound (exampleIntent None None) [emptyLevelBook] exampleOptions = Inr r \<and>
     fr_orderStatus r = FILLED \<and> map pf_quantity (fr_fills r) = [0, 1] \<and>
     (\<forall>row. fw_quantity row = 0 \<longrightarrow> \<not> is_ok (storeFillRow (storageEnv exactRound) row))"
proof -
  have refused: "\<not> is_ok (storeFillRow (storageEnv exactRound) row)" if "fw_quantity row = 0" for row
  proof (cases "storeFillRow (storageEnv exactRound) row")
    case (Inr row')
    then have "ne_column (storageEnv exactRound) 18 0 = Inr (fw_quantity row')" "0 < fw_quantity row'"
      using that by (auto simp: storeFillRow_def bindR_Inr_iff)
    then show ?thesis using exact_storage.column_exact by fastforce
  qed simp
  show ?thesis using refused by (simp add: emptyLevelBook_def fill_eval)
qed

end
