(* ===== verification/Cost_Model.thy ===== *)
theory Cost_Model
  imports Decimal_Js
begin

text \<open>
  The cost model, \<^verbatim>\<open>src/src/domain/cost.ts\<close>: it reads seven figures in basis points, refuses a
  candidate whose figures are missing or invalid, and allows it only when the expected return covers
  the total cost plus a safety buffer. The human-readable messages are left out; a decision keeps its
  kind, reason code and the JSON snapshot that later stages check. A field that is \<^verbatim>\<open>undefined\<close> or
  \<^verbatim>\<open>null\<close> is \<open>None\<close>. The time of the evaluation is copied into the snapshot as it is; that
  \<^verbatim>\<open>toISOString\<close> throws for a \<^verbatim>\<open>Date\<close> that is not valid is not modelled.
\<close>

section \<open>Types\<close>

datatype cost_field =
    CF_expectedReturnBps | CF_entryFeeBps | CF_exitFeeBps | CF_spreadCostBpsP75
  | CF_expectedSlippageBpsP95 | CF_cancelRequotePenaltyBps | CF_safetyBufferBps

datatype cost_reason =
    cost_margin_ok | cost_margin_insufficient | missing_cost_input | invalid_cost_input

datatype cost_kind = COST_ALLOW | COST_REJECT

datatype safety_buffer_category = BTC_ETH | TOP_ALT

record cost_input =
  ci_exchangeId :: string
  ci_market :: string
  ci_expectedReturnBps :: "decimal_input option"
  ci_entryFeeBps :: "decimal_input option"
  ci_exitFeeBps :: "decimal_input option"
  ci_spreadCostBpsP75 :: "decimal_input option"
  ci_expectedSlippageBpsP95 :: "decimal_input option"
  ci_cancelRequotePenaltyBps :: "decimal_input option"
  ci_safetyBufferBps :: "decimal_input option"
  ci_safetyBufferMarketCategory :: "safety_buffer_category option"
  ci_evaluatedAt :: "timestamp option"

record parsed_costs =
  pc_values :: "cost_field \<Rightarrow> rat option"
  pc_missing :: "cost_field list"
  pc_invalid :: "cost_field list"

record cost_decision =
  cd_kind :: cost_kind
  cd_tradeAllowed :: bool
  cd_reasonCode :: cost_reason
  cd_snapshot :: json_record

fun costFieldName :: "cost_field \<Rightarrow> string" where
  "costFieldName CF_expectedReturnBps = ''expected_return_bps''"
| "costFieldName CF_entryFeeBps = ''entry_fee_bps''"
| "costFieldName CF_exitFeeBps = ''exit_fee_bps''"
| "costFieldName CF_spreadCostBpsP75 = ''spread_cost_bps_p75''"
| "costFieldName CF_expectedSlippageBpsP95 = ''expected_slippage_bps_p95''"
| "costFieldName CF_cancelRequotePenaltyBps = ''cancel_requote_penalty_bps''"
| "costFieldName CF_safetyBufferBps = ''safety_buffer_bps''"

fun costReasonName :: "cost_reason \<Rightarrow> string" where
  "costReasonName cost_margin_ok = ''cost_margin_ok''"
| "costReasonName cost_margin_insufficient = ''cost_margin_insufficient''"
| "costReasonName missing_cost_input = ''missing_cost_input''"
| "costReasonName invalid_cost_input = ''invalid_cost_input''"

section \<open>Reading the inputs\<close>

text \<open>The bindings: the input of a required field, and whether it may be negative.\<close>

fun costInputOf :: "cost_field \<Rightarrow> cost_input \<Rightarrow> decimal_input option" where
  "costInputOf CF_expectedReturnBps i = ci_expectedReturnBps i"
| "costInputOf CF_entryFeeBps i = ci_entryFeeBps i"
| "costInputOf CF_exitFeeBps i = ci_exitFeeBps i"
| "costInputOf CF_spreadCostBpsP75 i = ci_spreadCostBpsP75 i"
| "costInputOf CF_expectedSlippageBpsP95 i = ci_expectedSlippageBpsP95 i"
| "costInputOf CF_cancelRequotePenaltyBps i = ci_cancelRequotePenaltyBps i"
| "costInputOf CF_safetyBufferBps i = ci_safetyBufferBps i"

definition REQUIRED_COST_INPUTS :: "(cost_field \<times> bool) list" where
  "REQUIRED_COST_INPUTS =
     [(CF_expectedReturnBps, True), (CF_entryFeeBps, False), (CF_exitFeeBps, False),
      (CF_spreadCostBpsP75, False), (CF_expectedSlippageBpsP95, False),
      (CF_cancelRequotePenaltyBps, False)]"

definition parseCostDecimal :: "decimal_input \<Rightarrow> bool \<Rightarrow> rat option" where
  "parseCostDecimal inp allowNegative =
     (case parseFinancialDecimalInput inp of
        Inl e \<Rightarrow> None
      | Inr v \<Rightarrow> if \<not> allowNegative \<and> isNegativeInput inp then None else Some v)"

definition parseCostInputField ::
  "decimal_input option \<Rightarrow> cost_field \<times> bool \<Rightarrow> parsed_costs \<Rightarrow> parsed_costs" where
  "parseCostInputField inputValue binding parsed =
     (case inputValue of
        None \<Rightarrow> parsed\<lparr>pc_missing := pc_missing parsed @ [fst binding]\<rparr>
      | Some v \<Rightarrow>
          (case parseCostDecimal v (snd binding) of
             None \<Rightarrow> parsed\<lparr>pc_invalid := pc_invalid parsed @ [fst binding]\<rparr>
           | Some d \<Rightarrow> parsed\<lparr>pc_values := (pc_values parsed)(fst binding := Some d)\<rparr>))"

definition resolveDefaultSafetyBufferBps ::
  "string \<Rightarrow> safety_buffer_category option \<Rightarrow> numeric option" where
  "resolveDefaultSafetyBufferBps market marketCategory =
     (if market = ''KRW-BTC'' \<or> market = ''KRW-ETH'' \<or> marketCategory = Some BTC_ETH then Some (Num 10)
      else if marketCategory = Some TOP_ALT then Some (Num 20)
      else None)"

definition configuredSafetyBuffer :: "cost_input \<Rightarrow> decimal_input option" where
  "configuredSafetyBuffer inp =
     (case ci_safetyBufferBps inp of
        Some v \<Rightarrow> Some v
      | None \<Rightarrow> map_option Amount
          (resolveDefaultSafetyBufferBps (ci_market inp) (ci_safetyBufferMarketCategory inp)))"

definition parseSafetyBuffer :: "cost_input \<Rightarrow> parsed_costs \<Rightarrow> parsed_costs" where
  "parseSafetyBuffer inp parsed =
     (case configuredSafetyBuffer inp of
        None \<Rightarrow> parsed\<lparr>pc_missing := pc_missing parsed @ [CF_safetyBufferBps]\<rparr>
      | Some v \<Rightarrow>
          (case parseCostDecimal v False of
             None \<Rightarrow> parsed\<lparr>pc_invalid := pc_invalid parsed @ [CF_safetyBufferBps]\<rparr>
           | Some d \<Rightarrow> parsed\<lparr>pc_values := (pc_values parsed)(CF_safetyBufferBps := Some d)\<rparr>))"

definition parseCosts :: "cost_input \<Rightarrow> parsed_costs" where
  "parseCosts inp =
     parseSafetyBuffer inp
       (fold (\<lambda>binding. parseCostInputField (costInputOf (fst binding) inp) binding)
          REQUIRED_COST_INPUTS \<lparr>pc_values = (\<lambda>_. None), pc_missing = [], pc_invalid = []\<rparr>)"

section \<open>The decision\<close>

record cost_outcome =
  co_tradeAllowed :: bool
  co_reasonCode :: cost_reason
  co_costBps :: "rat option"
  co_requiredReturnBps :: "rat option"
  co_marginBps :: "rat option"
  co_missingFields :: "cost_field list"
  co_invalidFields :: "cost_field list"

definition SNAPSHOT_KEYS_BY_PARSED_KEY :: "cost_field list" where
  "SNAPSHOT_KEYS_BY_PARSED_KEY =
     [CF_expectedReturnBps, CF_entryFeeBps, CF_exitFeeBps, CF_spreadCostBpsP75,
      CF_expectedSlippageBpsP95, CF_cancelRequotePenaltyBps, CF_safetyBufferBps]"

definition optionalNumeric :: "string \<Rightarrow> rat option \<Rightarrow> json_record" where
  "optionalNumeric key v = (case v of None \<Rightarrow> [] | Some r \<Rightarrow> [(key, JNum (Num r))])"

definition optionalFields :: "string \<Rightarrow> cost_field list \<Rightarrow> json_record" where
  "optionalFields key fs =
     (if fs = [] then [] else [(key, JArr (map (\<lambda>f. JStr (costFieldName f)) fs))])"

definition buildSnapshot :: "cost_input \<Rightarrow> parsed_costs \<Rightarrow> cost_outcome \<Rightarrow> json_record" where
  "buildSnapshot inp parsed outcome =
     [(''exchange_id'', JStr (ci_exchangeId inp)),
      (''market'', JStr (ci_market inp)),
      (''trade_allowed'', JBool (co_tradeAllowed outcome)),
      (''reason_code'', JStr (costReasonName (co_reasonCode outcome)))]
     @ concat (map (\<lambda>f. optionalNumeric (costFieldName f) (pc_values parsed f)) SNAPSHOT_KEYS_BY_PARSED_KEY)
     @ optionalNumeric ''cost_bps'' (co_costBps outcome)
     @ optionalNumeric ''required_return_bps'' (co_requiredReturnBps outcome)
     @ optionalNumeric ''margin_bps'' (co_marginBps outcome)
     @ optionalFields ''missing_fields'' (co_missingFields outcome)
     @ optionalFields ''invalid_fields'' (co_invalidFields outcome)
     @ (case ci_evaluatedAt inp of None \<Rightarrow> [] | Some t \<Rightarrow> [(''evaluated_at'', JTime t)])"

definition createRejectedDecision :: "cost_input \<Rightarrow> parsed_costs \<Rightarrow> cost_reason \<Rightarrow> cost_decision" where
  "createRejectedDecision inp parsed reason =
     \<lparr>cd_kind = COST_REJECT, cd_tradeAllowed = False, cd_reasonCode = reason,
      cd_snapshot = buildSnapshot inp parsed
        \<lparr>co_tradeAllowed = False, co_reasonCode = reason, co_costBps = None,
         co_requiredReturnBps = None, co_marginBps = None,
         co_missingFields = pc_missing parsed, co_invalidFields = pc_invalid parsed\<rparr>\<rparr>"

definition requireParsed :: "parsed_costs \<Rightarrow> cost_field \<Rightarrow> rat result" where
  "requireParsed parsed field =
     (case pc_values parsed field of
        None \<Rightarrow> Inl (Failure ''Cost model internal parse invariant failed'')
      | Some v \<Rightarrow> Inr v)"

definition evaluateCost :: "rounding \<Rightarrow> cost_input \<Rightarrow> cost_decision result" where
  "evaluateCost rnd inp =
     (let parsed = parseCosts inp
      in if pc_missing parsed \<noteq> [] \<or> pc_invalid parsed \<noteq> []
         then Inr (createRejectedDecision inp parsed
                (if pc_invalid parsed \<noteq> [] then invalid_cost_input else missing_cost_input))
         else bindR (requireParsed parsed CF_expectedReturnBps) (\<lambda>expectedReturnBps.
           bindR (requireParsed parsed CF_entryFeeBps) (\<lambda>entryFeeBps.
           bindR (requireParsed parsed CF_exitFeeBps) (\<lambda>exitFeeBps.
           bindR (requireParsed parsed CF_spreadCostBpsP75) (\<lambda>spreadCostBpsP75.
           bindR (requireParsed parsed CF_expectedSlippageBpsP95) (\<lambda>expectedSlippageBpsP95.
           bindR (requireParsed parsed CF_cancelRequotePenaltyBps) (\<lambda>cancelRequotePenaltyBps.
           bindR (requireParsed parsed CF_safetyBufferBps) (\<lambda>safetyBufferBps.
             let costBps = dplus rnd (dplus rnd (dplus rnd (dplus rnd entryFeeBps exitFeeBps)
                   spreadCostBpsP75) expectedSlippageBpsP95) cancelRequotePenaltyBps;
                 requiredReturnBps = dplus rnd costBps safetyBufferBps;
                 marginBps = dminus rnd expectedReturnBps requiredReturnBps;
                 tradeAllowed = (requiredReturnBps \<le> expectedReturnBps);
                 reason = (if tradeAllowed then cost_margin_ok else cost_margin_insufficient)
             in Inr \<lparr>cd_kind = (if tradeAllowed then COST_ALLOW else COST_REJECT),
                     cd_tradeAllowed = tradeAllowed, cd_reasonCode = reason,
                     cd_snapshot = buildSnapshot inp parsed
                       \<lparr>co_tradeAllowed = tradeAllowed, co_reasonCode = reason,
                        co_costBps = Some costBps, co_requiredReturnBps = Some requiredReturnBps,
                        co_marginBps = Some marginBps, co_missingFields = [],
                        co_invalidFields = []\<rparr>\<rparr>))))))))"

section \<open>Lemmas: what is read from an input\<close>

text \<open>The figure a candidate declares for a field, the default buffer included, and its reading.\<close>

definition declaredCost :: "cost_input \<Rightarrow> cost_field \<Rightarrow> decimal_input option" where
  "declaredCost inp f = (if f = CF_safetyBufferBps then configuredSafetyBuffer inp else costInputOf f inp)"

definition readCost :: "cost_input \<Rightarrow> cost_field \<Rightarrow> rat option" where
  "readCost inp f = Option.bind (declaredCost inp f) (\<lambda>v. parseCostDecimal v (f = CF_expectedReturnBps))"

text \<open>\<open>parseCosts\<close> sorts every field into read, missing and invalid.\<close>

definition readStep :: "cost_input \<Rightarrow> cost_field \<Rightarrow> parsed_costs \<Rightarrow> parsed_costs" where
  "readStep inp f parsed =
     \<lparr>pc_values = (pc_values parsed)(f := (case readCost inp f of None \<Rightarrow> pc_values parsed f | v \<Rightarrow> v)),
      pc_missing = pc_missing parsed @ (if declaredCost inp f = None then [f] else []),
      pc_invalid = pc_invalid parsed @ (if declaredCost inp f \<noteq> None \<and> readCost inp f = None then [f] else [])\<rparr>"

lemma parseCosts_steps: "parseCosts inp = fold (readStep inp) SNAPSHOT_KEYS_BY_PARSED_KEY
    \<lparr>pc_values = (\<lambda>_. None), pc_missing = [], pc_invalid = []\<rparr>"
proof -
  have "parseCostInputField (costInputOf f inp) (f, f = CF_expectedReturnBps) p = readStep inp f p"
    if "f \<noteq> CF_safetyBufferBps" for f p
    using that by (auto simp: parseCostInputField_def readStep_def declaredCost_def readCost_def split: option.split)
  from this [of CF_expectedReturnBps] this [of CF_entryFeeBps] this [of CF_exitFeeBps]
    this [of CF_spreadCostBpsP75] this [of CF_expectedSlippageBpsP95] this [of CF_cancelRequotePenaltyBps]
  have "fold (\<lambda>binding. parseCostInputField (costInputOf (fst binding) inp) binding) REQUIRED_COST_INPUTS p =
      fold (readStep inp) (butlast SNAPSHOT_KEYS_BY_PARSED_KEY) p" for p
    by (simp add: REQUIRED_COST_INPUTS_def SNAPSHOT_KEYS_BY_PARSED_KEY_def)
  moreover have "parseSafetyBuffer inp p = readStep inp CF_safetyBufferBps p" for p
    by (auto simp: parseSafetyBuffer_def readStep_def declaredCost_def readCost_def split: option.split)
  ultimately show ?thesis by (simp add: parseCosts_def SNAPSHOT_KEYS_BY_PARSED_KEY_def)
qed

lemma fold_readStep:
  "pc_missing (fold (readStep inp) fs p) = pc_missing p @ filter (\<lambda>f. declaredCost inp f = None) fs"
  "pc_invalid (fold (readStep inp) fs p) =
     pc_invalid p @ filter (\<lambda>f. declaredCost inp f \<noteq> None \<and> readCost inp f = None) fs"
  "pc_values (fold (readStep inp) fs p) f =
     (if f \<in> set fs \<and> readCost inp f \<noteq> None then readCost inp f else pc_values p f)"
  by (induction fs arbitrary: p) (auto simp: readStep_def split: option.split)

lemma all_cost_fields: "set SNAPSHOT_KEYS_BY_PARSED_KEY = UNIV"
proof -
  have "f \<in> set SNAPSHOT_KEYS_BY_PARSED_KEY" for f
    by (cases f) (simp_all add: SNAPSHOT_KEYS_BY_PARSED_KEY_def)
  then show ?thesis by auto
qed

lemma parseCosts_simps:
  "pc_missing (parseCosts inp) = filter (\<lambda>f. declaredCost inp f = None) SNAPSHOT_KEYS_BY_PARSED_KEY"
  "pc_invalid (parseCosts inp) =
     filter (\<lambda>f. declaredCost inp f \<noteq> None \<and> readCost inp f = None) SNAPSHOT_KEYS_BY_PARSED_KEY"
  "pc_values (parseCosts inp) f = readCost inp f"
  by (simp_all add: parseCosts_steps fold_readStep all_cost_fields)

lemma readCost_undeclared: "declaredCost inp f = None \<Longrightarrow> readCost inp f = None"
  by (simp add: readCost_def)

lemma parseCosts_complete_iff:
  "pc_missing (parseCosts inp) = [] \<and> pc_invalid (parseCosts inp) = [] \<longleftrightarrow> (\<forall>f. readCost inp f \<noteq> None)"
  unfolding parseCosts_simps filter_empty_conv all_cost_fields by (metis readCost_undeclared UNIV_I)

lemma parseCostDecimal_nonneg: "parseCostDecimal v False = Some r \<Longrightarrow> 0 \<le> r"
  by (cases v) (auto simp: parseCostDecimal_def not_isNegativeText_parse split: sum.splits if_splits)

lemma readCost_nonneg:
  assumes "readCost inp f = Some v" and "f \<noteq> CF_expectedReturnBps"
  shows "0 \<le> v"
  using assms by (cases "declaredCost inp f") (auto simp: readCost_def dest: parseCostDecimal_nonneg)

section \<open>Lemmas: the decision\<close>

definition costFigure :: "cost_input \<Rightarrow> cost_field \<Rightarrow> rat" where
  "costFigure inp f = (case readCost inp f of None \<Rightarrow> 0 | Some v \<Rightarrow> v)"

definition costSum :: "rounding \<Rightarrow> cost_input \<Rightarrow> rat" where
  "costSum rnd inp = foldl (dplus rnd) (costFigure inp CF_entryFeeBps)
     (map (costFigure inp) [CF_exitFeeBps, CF_spreadCostBpsP75, CF_expectedSlippageBpsP95,
        CF_cancelRequotePenaltyBps])"

definition roundedRequiredReturn :: "rounding \<Rightarrow> cost_input \<Rightarrow> rat" where
  "roundedRequiredReturn rnd inp = dplus rnd (costSum rnd inp) (costFigure inp CF_safetyBufferBps)"

text \<open>The exact required return: all six costs, the buffer included, added up.\<close>

definition requiredReturn :: "cost_input \<Rightarrow> rat" where
  "requiredReturn inp = (\<Sum>f \<leftarrow> tl SNAPSHOT_KEYS_BY_PARSED_KEY. costFigure inp f)"

definition computedOutcome :: "rounding \<Rightarrow> cost_input \<Rightarrow> cost_outcome" where
  "computedOutcome rnd inp =
     (let allowed = (roundedRequiredReturn rnd inp \<le> costFigure inp CF_expectedReturnBps)
      in \<lparr>co_tradeAllowed = allowed,
          co_reasonCode = (if allowed then cost_margin_ok else cost_margin_insufficient),
          co_costBps = Some (costSum rnd inp),
          co_requiredReturnBps = Some (roundedRequiredReturn rnd inp),
          co_marginBps = Some (dminus rnd (costFigure inp CF_expectedReturnBps) (roundedRequiredReturn rnd inp)),
          co_missingFields = [], co_invalidFields = []\<rparr>)"

lemma requireParsed_complete:
  "readCost inp f \<noteq> None \<Longrightarrow> requireParsed (parseCosts inp) f = Inr (costFigure inp f)"
  by (auto simp: requireParsed_def parseCosts_simps costFigure_def)

lemma evaluateCost_cases:
  obtains (incomplete) f where "readCost inp f = None"
      "evaluateCost rnd inp = Inr (createRejectedDecision inp (parseCosts inp)
         (if pc_invalid (parseCosts inp) \<noteq> [] then invalid_cost_input else missing_cost_input))"
    | (complete) "\<forall>f. readCost inp f \<noteq> None"
      "evaluateCost rnd inp = Inr \<lparr>cd_kind = (if co_tradeAllowed (computedOutcome rnd inp) then COST_ALLOW else COST_REJECT),
         cd_tradeAllowed = co_tradeAllowed (computedOutcome rnd inp),
         cd_reasonCode = co_reasonCode (computedOutcome rnd inp),
         cd_snapshot = buildSnapshot inp (parseCosts inp) (computedOutcome rnd inp)\<rparr>"
proof (cases "\<forall>f. readCost inp f \<noteq> None")
  case True
  then have "pc_missing (parseCosts inp) = []" "pc_invalid (parseCosts inp) = []"
    using parseCosts_complete_iff by blast+
  then show thesis using True
    by (intro complete)
      (simp_all add: evaluateCost_def Let_def requireParsed_complete computedOutcome_def costSum_def
        roundedRequiredReturn_def)
next
  case False
  then have "pc_missing (parseCosts inp) \<noteq> [] \<or> pc_invalid (parseCosts inp) \<noteq> []"
    using parseCosts_complete_iff by blast
  then show thesis using False incomplete by (auto simp: evaluateCost_def Let_def)
qed

lemma map_of_optionalNumeric:
  "map_of (optionalNumeric k v) k' = (if k' = k then map_option (\<lambda>r. JNum (Num r)) v else None)"
  by (simp add: optionalNumeric_def split: option.split)

lemma map_of_optionalFields:
  "map_of (optionalFields k fs) k' =
     (if k' = k \<and> fs \<noteq> [] then Some (JArr (map (\<lambda>f. JStr (costFieldName f)) fs)) else None)"
  by (simp add: optionalFields_def)

lemma map_of_optionalNumerics:
  "k \<notin> costFieldName ` set fs \<Longrightarrow> map_of (concat (map (\<lambda>f. optionalNumeric (costFieldName f) (v f)) fs)) k = None"
  by (induction fs) (auto simp: optionalNumeric_def map_add_def split: option.split)

lemma buildSnapshot_field_lists:
  "map_of (buildSnapshot inp parsed outcome) ''missing_fields'' =
     map_of (optionalFields ''missing_fields'' (co_missingFields outcome)) ''missing_fields''"
  "map_of (buildSnapshot inp parsed outcome) ''invalid_fields'' =
     map_of (optionalFields ''invalid_fields'' (co_invalidFields outcome)) ''invalid_fields''"
proof -
  have figures: "map_of (concat (map (\<lambda>f. optionalNumeric (costFieldName f) (pc_values parsed f))
      SNAPSHOT_KEYS_BY_PARSED_KEY)) k = None" if "k \<in> {''missing_fields'', ''invalid_fields''}" for k
    using that by (intro map_of_optionalNumerics) (auto simp: SNAPSHOT_KEYS_BY_PARSED_KEY_def)
  have evaluated: "map_of (case ci_evaluatedAt inp of None \<Rightarrow> [] | Some t \<Rightarrow> [(''evaluated_at'', JTime t)]) k = None"
    if "k \<noteq> ''evaluated_at''" for k using that by (simp split: option.split)
  show "map_of (buildSnapshot inp parsed outcome) ''missing_fields'' =
     map_of (optionalFields ''missing_fields'' (co_missingFields outcome)) ''missing_fields''"
    "map_of (buildSnapshot inp parsed outcome) ''invalid_fields'' =
     map_of (optionalFields ''invalid_fields'' (co_invalidFields outcome)) ''invalid_fields''"
    by (simp_all add: buildSnapshot_def map_of_optionalNumeric map_of_optionalFields figures evaluated
        map_add_def option.case_eq_if)
qed

lemma costFigure_nonneg: "f \<noteq> CF_expectedReturnBps \<Longrightarrow> 0 \<le> costFigure inp f"
  by (auto simp: costFigure_def readCost_nonneg split: option.split)

context decimal_js
begin

lemma dplus_partial:
  assumes "fitsGrid k bound" and "onGrid k x" "onGrid k y" and "0 \<le> x + y" "x + y \<le> bound"
  shows "dplus rnd x y = x + y"
  using assms rnd_fits fitsGrid_le [OF assms(1), of "x + y"] by (simp add: dplus_def onGrid_plus)

lemma roundedRequiredReturn_exact:
  assumes grid: "\<And>f. onGrid k (costFigure inp f)" and fits: "fitsGrid k (requiredReturn inp)"
  shows "roundedRequiredReturn rnd inp = requiredReturn inp"
proof -
  note nn = costFigure_nonneg [of CF_entryFeeBps inp] costFigure_nonneg [of CF_exitFeeBps inp]
    costFigure_nonneg [of CF_spreadCostBpsP75 inp] costFigure_nonneg [of CF_expectedSlippageBpsP95 inp]
    costFigure_nonneg [of CF_cancelRequotePenaltyBps inp] costFigure_nonneg [of CF_safetyBufferBps inp]
  have total: "requiredReturn inp = costFigure inp CF_entryFeeBps + costFigure inp CF_exitFeeBps +
      costFigure inp CF_spreadCostBpsP75 + costFigure inp CF_expectedSlippageBpsP95 +
      costFigure inp CF_cancelRequotePenaltyBps + costFigure inp CF_safetyBufferBps"
    by (simp add: requiredReturn_def SNAPSHOT_KEYS_BY_PARSED_KEY_def)
  show ?thesis
    using nn grid by (simp add: roundedRequiredReturn_def costSum_def total
        dplus_partial [OF fits [unfolded total]] onGrid_plus)
qed

end

section \<open>Properties\<close>

text \<open>
  C7. The cost rule. The cost model always decides. For figures that are multiples of \<open>10 ^ -k\<close> and
  add up within the precision, it allows a candidate exactly when all seven figures are present and
  valid and the expected return is at least the exact sum of the fees, the spread, the slippage, the
  requote penalty and the safety buffer.
\<close>

theorem evaluateCost_allows_iff:
  assumes rnd: "decimal_js rnd" and grid: "\<And>f. onGrid k (costFigure inp f)"
    and fits: "fitsGrid k (requiredReturn inp)"
  shows "\<exists>d. evaluateCost rnd inp = Inr d \<and>
    (cd_tradeAllowed d \<longleftrightarrow> (\<forall>f. readCost inp f \<noteq> None) \<and>
       requiredReturn inp \<le> costFigure inp CF_expectedReturnBps)"
proof (cases rule: evaluateCost_cases [of inp rnd])
  case (incomplete f)
  then show ?thesis by (auto simp: createRejectedDecision_def)
next
  case complete
  then show ?thesis
    by (simp add: computedOutcome_def Let_def decimal_js.roundedRequiredReturn_exact [OF rnd grid fits])
qed

definition exampleCosts :: "rat \<Rightarrow> cost_input" where
  "exampleCosts expected = \<lparr>ci_exchangeId = ''UPBIT'', ci_market = ''KRW-BTC'',
     ci_expectedReturnBps = Some (Amount (Num expected)), ci_entryFeeBps = Some (Amount (Num 5)),
     ci_exitFeeBps = Some (Amount (Num 5)), ci_spreadCostBpsP75 = Some (Amount (Num 3)),
     ci_expectedSlippageBpsP95 = Some (Amount (Num 4)), ci_cancelRequotePenaltyBps = Some (Amount (Num 1)),
     ci_safetyBufferBps = None, ci_safetyBufferMarketCategory = None, ci_evaluatedAt = Some (At 3)\<rparr>"

lemma example_figures:
  "readCost (exampleCosts e) f = Some (case f of CF_expectedReturnBps \<Rightarrow> e | CF_entryFeeBps \<Rightarrow> 5
     | CF_exitFeeBps \<Rightarrow> 5 | CF_spreadCostBpsP75 \<Rightarrow> 3 | CF_expectedSlippageBpsP95 \<Rightarrow> 4
     | CF_cancelRequotePenaltyBps \<Rightarrow> 1 | CF_safetyBufferBps \<Rightarrow> 10)"
  by (cases f) (simp_all add: readCost_def declaredCost_def configuredSafetyBuffer_def exampleCosts_def
      resolveDefaultSafetyBufferBps_def parseCostDecimal_def)

lemma example_required: "requiredReturn (exampleCosts e) = 28"
  by (simp add: requiredReturn_def SNAPSHOT_KEYS_BY_PARSED_KEY_def costFigure_def example_figures)

theorem evaluateCost_allows_iff_witness:
  "(\<exists>d. evaluateCost exactRound (exampleCosts 28) = Inr d \<and> cd_tradeAllowed d) \<and>
   (\<exists>d. evaluateCost exactRound (exampleCosts 27) = Inr d \<and> \<not> cd_tradeAllowed d)"
proof -
  have grid: "onGrid 0 (costFigure (exampleCosts e) f)" if "e \<in> {27, 28}" for e f
    using that by (cases f) (auto simp: costFigure_def example_figures onGrid_def)
  have fits: "fitsGrid 0 (requiredReturn (exampleCosts e))" for e
    by (simp add: example_required fitsGrid_def onGrid_def)
  have "\<exists>d. evaluateCost exactRound (exampleCosts e) = Inr d \<and> (cd_tradeAllowed d \<longleftrightarrow> 28 \<le> e)"
    if "e \<in> {27, 28}" for e
    using evaluateCost_allows_iff [OF exact.decimal_js_axioms grid [OF that] fits] that
    by (auto simp: example_figures example_required costFigure_def)
  from this [of 28] this [of 27] show ?thesis by simp
qed

definition fieldList :: "(cost_field \<Rightarrow> bool) \<Rightarrow> json option" where
  "fieldList P = (if filter P SNAPSHOT_KEYS_BY_PARSED_KEY = [] then None
     else Some (JArr (map (\<lambda>f. JStr (costFieldName f)) (filter P SNAPSHOT_KEYS_BY_PARSED_KEY))))"

text \<open>
  Missing and invalid figures. Whatever the rounding, the cost model returns a decision; it never
  allows a candidate when a figure is absent or does not parse or is negative where that is not
  allowed; an invalid figure is reported before a missing one; and the snapshot lists exactly the
  missing and exactly the invalid fields, in the order of the fields.
\<close>

theorem evaluateCost_fails_closed:
  "\<exists>d. evaluateCost rnd inp = Inr d \<and>
     (cd_tradeAllowed d \<longleftrightarrow> cd_kind d = COST_ALLOW) \<and> (cd_tradeAllowed d \<longleftrightarrow> cd_reasonCode d = cost_margin_ok) \<and>
     map_of (cd_snapshot d) ''trade_allowed'' = Some (JBool (cd_tradeAllowed d)) \<and>
     (cd_reasonCode d = invalid_cost_input \<longleftrightarrow> (\<exists>f. declaredCost inp f \<noteq> None \<and> readCost inp f = None)) \<and>
     (cd_reasonCode d = missing_cost_input \<longleftrightarrow> (\<exists>f. declaredCost inp f = None) \<and>
        \<not> (\<exists>f. declaredCost inp f \<noteq> None \<and> readCost inp f = None)) \<and>
     map_of (cd_snapshot d) ''missing_fields'' = fieldList (\<lambda>f. declaredCost inp f = None) \<and>
     map_of (cd_snapshot d) ''invalid_fields'' =
       fieldList (\<lambda>f. declaredCost inp f \<noteq> None \<and> readCost inp f = None)"
proof (cases rule: evaluateCost_cases [of inp rnd])
  case (incomplete f)
  have "pc_invalid (parseCosts inp) \<noteq> [] \<longleftrightarrow> (\<exists>f. declaredCost inp f \<noteq> None \<and> readCost inp f = None)"
    by (simp add: parseCosts_simps filter_empty_conv all_cost_fields)
  then show ?thesis using incomplete(1)
    by (auto simp: incomplete(2) createRejectedDecision_def buildSnapshot_field_lists map_of_optionalFields
        parseCosts_simps fieldList_def) (simp_all add: buildSnapshot_def)
next
  case complete
  then have "declaredCost inp f \<noteq> None" for f using readCost_undeclared by blast
  then show ?thesis using complete(1)
    by (simp add: complete(2) computedOutcome_def Let_def buildSnapshot_field_lists map_of_optionalFields
        fieldList_def filter_empty_conv) (simp add: buildSnapshot_def)
qed

text \<open>
Evidence of an allowed candidate. When a candidate is allowed, its snapshot names its exchange
  and market, carries the allow mark and reason, and records a required return that the recorded
  expected return covers, a margin that is not negative, and costs that are not negative.
\<close>

theorem evaluateCost_allowed_snapshot:
  assumes rnd: "decimal_js rnd" and dec: "evaluateCost rnd inp = Inr d" and allowed: "cd_tradeAllowed d"
  shows "map_of (cd_snapshot d) ''exchange_id'' = Some (JStr (ci_exchangeId inp)) \<and>
    map_of (cd_snapshot d) ''market'' = Some (JStr (ci_market inp)) \<and>
    map_of (cd_snapshot d) ''trade_allowed'' = Some (JBool True) \<and>
    map_of (cd_snapshot d) ''reason_code'' = Some (JStr ''cost_margin_ok'') \<and>
    (\<exists>e r m c. map_of (cd_snapshot d) ''expected_return_bps'' = Some (JNum (Num e)) \<and>
       map_of (cd_snapshot d) ''required_return_bps'' = Some (JNum (Num r)) \<and>
       map_of (cd_snapshot d) ''margin_bps'' = Some (JNum (Num m)) \<and>
       map_of (cd_snapshot d) ''cost_bps'' = Some (JNum (Num c)) \<and> r \<le> e \<and> 0 \<le> m \<and> 0 \<le> c \<and> 0 \<le> r)"
proof (cases rule: evaluateCost_cases [of inp rnd])
  case (incomplete f)
  then show ?thesis using dec allowed by (auto simp: createRejectedDecision_def)
next
  case complete
  have cost: "0 \<le> costSum rnd inp"
    by (simp add: costSum_def costFigure_nonneg decimal_rounding.dplus_nonneg [OF decimal_js.axioms(1) [OF rnd]])
  then have req: "0 \<le> roundedRequiredReturn rnd inp"
    by (simp add: roundedRequiredReturn_def costFigure_nonneg
        decimal_rounding.dplus_nonneg [OF decimal_js.axioms(1) [OF rnd]])
  have le: "roundedRequiredReturn rnd inp \<le> costFigure inp CF_expectedReturnBps"
    using dec allowed complete(2) by (auto simp: computedOutcome_def Let_def)
  then have margin: "0 \<le> dminus rnd (costFigure inp CF_expectedReturnBps) (roundedRequiredReturn rnd inp)"
    by (simp add: dminus_def decimal_rounding.rnd_nonneg [OF decimal_js.axioms(1) [OF rnd]])
  have some: "readCost inp f = Some (costFigure inp f)" for f
    using spec [OF complete(1), of f] by (auto simp: costFigure_def)
  have d: "cd_snapshot d = buildSnapshot inp (parseCosts inp) (computedOutcome rnd inp)"
    using dec complete(2) by auto
  show ?thesis
    using cost req le margin
    by (simp add: d buildSnapshot_def computedOutcome_def Let_def optionalNumeric_def
        SNAPSHOT_KEYS_BY_PARSED_KEY_def parseCosts_simps some)
qed

theorem evaluateCost_allowed_snapshot_witness:
  "\<exists>d. evaluateCost exactRound (exampleCosts 30) = Inr d \<and> cd_tradeAllowed d \<and>
     map_of (cd_snapshot d) ''reason_code'' = Some (JStr ''cost_margin_ok'')"
proof -
  obtain d where d: "evaluateCost exactRound (exampleCosts 30) = Inr d" "cd_tradeAllowed d"
    by (rule evaluateCost_cases [of "exampleCosts 30" exactRound])
      (simp_all add: example_figures computedOutcome_def roundedRequiredReturn_def costSum_def
        costFigure_def decimal_ops exactRound_def)
  then show ?thesis using evaluateCost_allowed_snapshot [OF exact.decimal_js_axioms d] by blast
qed

end
