(* ===== verification/Execution_Validation.thy ===== *)
theory Execution_Validation
  imports Risk_Runtime Cost_Model
begin

text \<open>
  The last check before a broker is called, \<^verbatim>\<open>src/src/application/execution/execution-engine/\<close>: the
  safety configuration, the evidence that the cost model and the risk gate attach to an order, the
  fingerprint of a candidate with its comparison, and \<open>validateExecutionSubmission\<close>, which a
  submission must pass. A function that returns \<^verbatim>\<open>undefined\<close> when it has no objection returns \<open>None\<close>.
  The message of a rejection is left out; its reason code and metadata are kept, with \<open>JNull\<close> for
  \<^verbatim>\<open>undefined\<close>. A text of a record is a JSON string, \<open>JStr\<close> or, for an amount, \<open>JNum\<close>.
\<close>

section \<open>Configuration, rejections\<close>

record safety_config =
  sc_liveTradingEnabled :: bool
  sc_marketOrderEnabled :: bool
  sc_entryMarketOrderEnabled :: bool
  sc_paperNoKey :: bool

record safety_overrides =
  so_liveTradingEnabled :: "bool option"
  so_marketOrderEnabled :: "bool option"
  so_entryMarketOrderEnabled :: "bool option"
  so_paperNoKey :: "bool option"

definition defaultPaperExecutionSafetyConfig :: safety_config where
  "defaultPaperExecutionSafetyConfig =
     \<lparr>sc_liveTradingEnabled = False, sc_marketOrderEnabled = False,
      sc_entryMarketOrderEnabled = False, sc_paperNoKey = True\<rparr>"

definition createExecutionSafetyConfig :: "safety_overrides \<Rightarrow> safety_config" where
  "createExecutionSafetyConfig overrides =
     (let d = defaultPaperExecutionSafetyConfig in
      \<lparr>sc_liveTradingEnabled = case_option (sc_liveTradingEnabled d) id (so_liveTradingEnabled overrides),
       sc_marketOrderEnabled = case_option (sc_marketOrderEnabled d) id (so_marketOrderEnabled overrides),
       sc_entryMarketOrderEnabled =
         case_option (sc_entryMarketOrderEnabled d) id (so_entryMarketOrderEnabled overrides),
       sc_paperNoKey = case_option (sc_paperNoKey d) id (so_paperNoKey overrides)\<rparr>)"

datatype execution_rejection_reason =
    idempotency_key_missing | idempotency_key_collision | live_trading_disabled
  | paper_no_key_required | market_order_disabled | entry_market_order_disabled
  | order_amount_invalid | cost_snapshot_missing | cost_snapshot_not_allowed
  | cost_snapshot_mismatch | risk_approval_missing | risk_approval_not_approved
  | risk_approval_mismatch | exit_cost_evidence_on_entry | exit_cost_evidence_invalid
  | exit_position_scope_mismatch | exit_sell_quantity_exceeds_position
  | exit_sell_quantity_mismatch_position

record execution_rejection =
  xr_reasonCode :: execution_rejection_reason
  xr_metadata :: "json_record option"

definition reject :: "execution_rejection_reason \<Rightarrow> json_record option \<Rightarrow> execution_rejection option" where
  "reject reasonCode metadata = Some \<lparr>xr_reasonCode = reasonCode, xr_metadata = metadata\<rparr>"

text \<open>The guards of a validation are tried in order; the first objection is the result.\<close>

fun firstRejection :: "execution_rejection option list \<Rightarrow> execution_rejection option" where
  "firstRejection [] = None"
| "firstRejection (None # rs) = firstRejection rs"
| "firstRejection (Some r # rs) = Some r"

section \<open>Reading JSON\<close>

text \<open>A property of a JSON value, absent on anything but an object.\<close>

fun property :: "json \<Rightarrow> string \<Rightarrow> json option" where
  "property (JObj kvs) key = map_of kvs key"
| "property _ key = None"

definition orNull :: "json option \<Rightarrow> json" where
  "orNull v = (case v of None \<Rightarrow> JNull | Some w \<Rightarrow> w)"

definition asString :: "json option \<Rightarrow> json option" where
  "asString v = (case v of None \<Rightarrow> None | Some w \<Rightarrow> if isJsonString w then Some w else None)"

fun asBoolean :: "json option \<Rightarrow> json option" where
  "asBoolean (Some (JBool b)) = Some (JBool b)"
| "asBoolean _ = None"

definition readStringRecordValue :: "json_record \<Rightarrow> string \<Rightarrow> json option" where
  "readStringRecordValue r key = asString (map_of r key)"

definition readBooleanRecordValue :: "json_record \<Rightarrow> string \<Rightarrow> json option" where
  "readBooleanRecordValue r key = asBoolean (map_of r key)"

fun isNonEmptyRecord :: "json option \<Rightarrow> bool" where
  "isNonEmptyRecord (Some (JObj kvs)) = (kvs \<noteq> [])"
| "isNonEmptyRecord _ = False"

fun isNonEmptyString :: "json option \<Rightarrow> bool" where
  "isNonEmptyString (Some (JStr s)) = (s \<noteq> [])"
| "isNonEmptyString (Some (JNum n)) = (n \<noteq> NotDecimal [])"
| "isNonEmptyString _ = False"

fun hasProblemFieldList :: "json option \<Rightarrow> bool" where
  "hasProblemFieldList None = False"
| "hasProblemFieldList (Some (JArr xs)) = (xs \<noteq> [])"
| "hasProblemFieldList (Some _) = True"

definition isApprovalCapableRiskStatus :: "json option \<Rightarrow> bool" where
  "isApprovalCapableRiskStatus v \<longleftrightarrow> v = Some (JStr ''PASS'') \<or> v = Some (JStr ''WARN'')"

text \<open>The text of a JSON string, normalised where it is a decimal, and its value where it is one.\<close>

definition normalizedText :: "json option \<Rightarrow> json option" where
  "normalizedText v = map_option (\<lambda>n. JNum (normalizeNumeric n)) (Option.bind v jsonText)"

definition readNormalizedFinancialDecimalString :: "json option \<Rightarrow> json option" where
  "readNormalizedFinancialDecimalString v =
     Option.bind (Option.bind v jsonText)
       (\<lambda>n. case parseFinancialDecimal n of Inl e \<Rightarrow> None | Inr r \<Rightarrow> Some (JNum (Num r)))"

section \<open>Fingerprints of a candidate\<close>

definition readOrderIntentPositionEffect :: "order_intent \<Rightarrow> json option" where
  "readOrderIntentPositionEffect intent =
     orElse (readStringMetadata (oi_metadata intent) ''position_effect'')
       (readStringMetadata (oi_metadata intent) ''positionEffect'')"

definition isEntryMarketOrderIntent :: "order_intent \<Rightarrow> bool" where
  "isEntryMarketOrderIntent intent \<longleftrightarrow>
     readOrderIntentPositionEffect intent \<noteq> Some (JStr ''REDUCE'') \<and>
     readOrderIntentPositionEffect intent \<noteq> Some (JStr ''EXIT'')"

definition readIntentExpectedLossBps :: "order_intent \<Rightarrow> numeric option" where
  "readIntentExpectedLossBps intent =
     Option.bind (orElse (readStringMetadata (oi_metadata intent) ''expected_loss_bps_of_equity'')
        (readStringMetadata (oi_metadata intent) ''expectedLossBpsOfEquity'')) jsonText"

definition readContextExpectedLossBps :: "risk_gate_context \<Rightarrow> decimal_input option" where
  "readContextExpectedLossBps context =
     orElse (rc_expectedLossBpsOfEquity context)
       (map_option Amount (readIntentExpectedLossBps (rc_orderIntent context)))"

definition readSubmissionExpectedLossBps :: "order_submission \<Rightarrow> decimal_input option" where
  "readSubmissionExpectedLossBps submission =
     map_option Amount (orElse (os_expectedLossBpsOfEquity submission)
       (readIntentExpectedLossBps (os_intent submission)))"

fun limitOptionFields :: "order_terms \<Rightarrow> json_record" where
  "limitOptionFields (LimitTerms price postOnly timeInForce) =
     [(''requested_price'', JNum (normalizeNumeric price)),
      (''post_only'', JBool (postOnly = Some True)),
      (''time_in_force'', JStr (timeInForceName (case timeInForce of None \<Rightarrow> GTC | Some t \<Rightarrow> t)))]"
| "limitOptionFields MarketTerms = []"

definition createOrderIntentEvidence :: "order_intent \<Rightarrow> decimal_input option \<Rightarrow> json_record" where
  "createOrderIntentEvidence intent expectedLoss =
     [(''exchange_id'', JStr (oi_exchangeId intent)), (''market'', JStr (oi_market intent)),
      (''strategy_id'', JStr (oi_strategyId intent)), (''side'', JStr (sideName (oi_side intent))),
      (''order_type'', JStr (orderTypeName (oi_orderType intent))),
      (''requested_quantity'', JNum (normalizeNumeric (oi_requestedQuantity intent))),
      (''requested_notional'', JNum (normalizeNumeric (oi_requestedNotional intent))),
      (''idempotency_key'', JStr (oi_idempotencyKey intent))]
     @ (case readOrderIntentPositionEffect intent of None \<Rightarrow> [] | Some e \<Rightarrow> [(''position_effect'', e)])
     @ limitOptionFields (oi_terms intent)
     @ (case expectedLoss of None \<Rightarrow> [] | Some v \<Rightarrow> [(''expected_loss_bps_of_equity'', inputJson v)])"

definition mismatch :: "string \<Rightarrow> json option \<Rightarrow> json option \<Rightarrow> json_record" where
  "mismatch fieldName evidenceValue runtimeValue =
     (if evidenceValue \<noteq> runtimeValue
      then [(fieldName @ ''_evidence'', orNull evidenceValue), (fieldName @ ''_runtime'', orNull runtimeValue)]
      else [])"

definition stringMismatch :: "string \<Rightarrow> json option \<Rightarrow> json option \<Rightarrow> json_record" where
  "stringMismatch fieldName evidenceValue runtimeValue = mismatch fieldName (asString evidenceValue) runtimeValue"

definition booleanMismatch :: "string \<Rightarrow> json option \<Rightarrow> json option \<Rightarrow> json_record" where
  "booleanMismatch fieldName evidenceValue runtimeValue = mismatch fieldName (asBoolean evidenceValue) runtimeValue"

definition evidenceDecimalMismatch :: "string \<Rightarrow> json option \<Rightarrow> json option \<Rightarrow> json_record" where
  "evidenceDecimalMismatch fieldName evidenceValue runtimeValue =
     mismatch fieldName (normalizedText evidenceValue) (normalizedText runtimeValue)"

definition requiredDecimalMismatch :: "string \<Rightarrow> json option \<Rightarrow> json option \<Rightarrow> json_record" where
  "requiredDecimalMismatch fieldName evidenceValue runtimeValue =
     (let e = readNormalizedFinancialDecimalString evidenceValue;
          r = readNormalizedFinancialDecimalString runtimeValue
      in if e = None \<or> r = None \<or> e \<noteq> r
         then [(fieldName @ ''_evidence'', orNull e), (fieldName @ ''_runtime'', orNull r)] else [])"

definition compareOrderIntentEvidence :: "json_record \<Rightarrow> json_record \<Rightarrow> json_record" where
  "compareOrderIntentEvidence evidence runtime =
     concat (map (\<lambda>f. stringMismatch f (map_of evidence f) (readStringRecordValue runtime f))
       [''exchange_id'', ''market'', ''strategy_id'', ''side'', ''order_type'', ''idempotency_key'', ''position_effect''])
     @ booleanMismatch ''post_only'' (map_of evidence ''post_only'') (readBooleanRecordValue runtime ''post_only'')
     @ stringMismatch ''time_in_force'' (map_of evidence ''time_in_force'') (readStringRecordValue runtime ''time_in_force'')
     @ concat (map (\<lambda>f. evidenceDecimalMismatch f (map_of evidence f) (readStringRecordValue runtime f))
       [''requested_quantity'', ''requested_notional'', ''requested_price''])
     @ requiredDecimalMismatch ''expected_loss_bps_of_equity'' (map_of evidence ''expected_loss_bps_of_equity'')
         (readStringRecordValue runtime ''expected_loss_bps_of_equity'')"

definition submissionFingerprint :: "order_submission \<Rightarrow> json_record" where
  "submissionFingerprint s = createOrderIntentEvidence (os_intent s) (readSubmissionExpectedLossBps s)"

definition compareSubmissionFingerprint :: "order_submission \<Rightarrow> json \<Rightarrow> json_record" where
  "compareSubmissionFingerprint s evidence =
     (case evidence of JObj kvs \<Rightarrow> compareOrderIntentEvidence kvs (submissionFingerprint s)
      | _ \<Rightarrow> compareOrderIntentEvidence [] (submissionFingerprint s))"

section \<open>Evidence\<close>

definition createExecutionRiskApprovalEvidence :: "risk_gate_result \<Rightarrow> risk_gate_context \<Rightarrow> json_record" where
  "createExecutionRiskApprovalEvidence r context =
     [(''source'', JStr ''risk_gate''), (''approved'', JBool (rg_approved r)),
      (''status'', JStr (riskStatusName (rg_status r))), (''action'', JStr (riskActionName (rg_action r))),
      (''order_intent'', JObj (createOrderIntentEvidence (rc_orderIntent context) (readContextExpectedLossBps context))),
      (''threshold_snapshot'', thresholdSnapshotJson (rc_thresholdSnapshot context)),
      (''failed_evaluation_reason_codes'', JArr (map (\<lambda>e. JStr (re_reasonCode e)) (rg_failedEvaluations r))),
      (''warning_evaluation_reason_codes'', JArr (map (\<lambda>e. JStr (re_reasonCode e)) (rg_warningEvaluations r)))]"

definition createExecutionCostSnapshotEvidence ::
  "json_record \<Rightarrow> order_intent \<Rightarrow> decimal_input option \<Rightarrow> json_record" where
  "createExecutionCostSnapshotEvidence snapshot intent expectedLoss =
     AList.update ''order_intent'' (JObj (createOrderIntentEvidence intent expectedLoss))
       (AList.update ''source'' (JStr ''cost_model'') snapshot)"

definition createExecutionExitCostEvidence ::
  "order_intent \<Rightarrow> json_record \<Rightarrow> numeric \<Rightarrow> numeric \<Rightarrow> decimal_input option \<Rightarrow> json_record" where
  "createExecutionExitCostEvidence intent positionScope exitCostBps exitSlippageBps expectedLoss =
     [(''source'', JStr ''exit_cost_model''), (''exit_cost_allowed'', JBool True),
      (''exit_cost_reason_code'', JStr ''exit_cost_margin_ok''),
      (''exit_cost_bps'', JNum exitCostBps), (''exit_slippage_bps'', JNum exitSlippageBps),
      (''position_scope'', JObj positionScope),
      (''order_intent'', JObj (createOrderIntentEvidence intent expectedLoss))]"

section \<open>Validation\<close>

definition validateMarketOrderSafety :: "order_intent \<Rightarrow> safety_config \<Rightarrow> execution_rejection option" where
  "validateMarketOrderSafety intent config =
     (if oi_orderType intent \<noteq> MARKET then None
      else if \<not> sc_marketOrderEnabled config then
        reject market_order_disabled (Some [(''order_type'', JStr ''MARKET'')])
      else if isEntryMarketOrderIntent intent \<and> \<not> sc_entryMarketOrderEnabled config then
        reject entry_market_order_disabled (Some [(''order_type'', JStr ''MARKET''),
          (''position_effect'', orNull (readOrderIntentPositionEffect intent))])
      else None)"

definition isPositiveText :: "numeric \<Rightarrow> bool" where
  "isPositiveText n \<longleftrightarrow> (case parseFinancialDecimal n of Inl e \<Rightarrow> False | Inr r \<Rightarrow> 0 < r)"

definition invalidPositiveDecimalField :: "string \<Rightarrow> numeric \<Rightarrow> string list" where
  "invalidPositiveDecimalField fieldName n = (if isPositiveText n then [] else [fieldName])"

definition validateOrderAmounts :: "order_intent \<Rightarrow> execution_rejection option" where
  "validateOrderAmounts intent =
     (let invalidFields = invalidPositiveDecimalField ''requested_quantity'' (oi_requestedQuantity intent)
            @ invalidPositiveDecimalField ''requested_notional'' (oi_requestedNotional intent)
            @ (case limitPriceOf (oi_terms intent) of None \<Rightarrow> []
               | Some p \<Rightarrow> invalidPositiveDecimalField ''requested_price'' p)
      in if invalidFields = [] then None
         else reject order_amount_invalid (Some [(''invalid_fields'', JArr (map JStr invalidFields))]))"

definition isNonNegativeField :: "json option \<Rightarrow> bool" where
  "isNonNegativeField v \<longleftrightarrow> isNonEmptyString v \<and>
     (case Option.bind v jsonText of None \<Rightarrow> False
      | Some n \<Rightarrow> is_ok (parseFinancialDecimal n) \<and> \<not> isNegativeText n)"

definition collectInvalidExitCostFields :: "json \<Rightarrow> string list" where
  "collectInvalidExitCostFields snapshot =
     filter (\<lambda>f. \<not> isNonNegativeField (property snapshot f)) [''exit_cost_bps'', ''exit_slippage_bps'']"

definition validateExitEvidenceUse :: "order_submission \<Rightarrow> json \<Rightarrow> execution_rejection option" where
  "validateExitEvidenceUse s snapshot =
     (let intent = os_intent s; positionEffect = readOrderIntentPositionEffect intent;
          exitReasonCode = readStringMetadata (oi_metadata intent) ''exit_reason_code'';
          exitRuleId = readStringMetadata (oi_metadata intent) ''exit_rule_id'';
          invalidFields = collectInvalidExitCostFields snapshot
      in if isEntryMarketOrderIntent intent then
           reject exit_cost_evidence_on_entry (Some [(''source'', orNull (property snapshot ''source'')),
             (''position_effect'', orNull positionEffect)])
         else if oi_side intent \<noteq> SELL then
           reject exit_cost_evidence_on_entry (Some [(''source'', orNull (property snapshot ''source'')),
             (''side'', JStr (sideName (oi_side intent))), (''position_effect'', orNull positionEffect)])
         else if exitReasonCode = None \<or> exitRuleId = None then
           reject exit_cost_evidence_invalid (Some [(''missing_exit_reason_code'', JBool (exitReasonCode = None)),
             (''missing_exit_rule_id'', JBool (exitRuleId = None))])
         else if property snapshot ''exit_cost_allowed'' \<noteq> Some (JBool True) \<or>
            property snapshot ''exit_cost_reason_code'' \<noteq> Some (JStr ''exit_cost_margin_ok'') \<or>
            invalidFields \<noteq> [] then
           reject exit_cost_evidence_invalid (Some (
             [(''exit_cost_allowed'', orNull (property snapshot ''exit_cost_allowed'')),
              (''exit_cost_reason_code'', orNull (property snapshot ''exit_cost_reason_code''))]
             @ (if invalidFields \<noteq> [] then [(''invalid_fields'', JArr (map JStr invalidFields))] else [])))
         else None)"

definition validateExitScope :: "order_submission \<Rightarrow> json option \<Rightarrow> execution_rejection option" where
  "validateExitScope s scope =
     (let intent = os_intent s; p = property (orNull scope)
      in if \<not> isNonEmptyRecord scope then reject exit_cost_evidence_invalid None
         else if p ''market'' \<noteq> Some (JStr (oi_market intent)) \<or>
            p ''strategy_id'' \<noteq> Some (JStr (oi_strategyId intent)) \<or>
            \<not> isNonEmptyString (p ''total_quantity'') then
           reject exit_position_scope_mismatch (Some [(''scope_market'', orNull (p ''market'')),
             (''scope_strategy_id'', orNull (p ''strategy_id'')),
             (''scope_total_quantity'', orNull (p ''total_quantity'')),
             (''intent_market'', JStr (oi_market intent)), (''intent_strategy_id'', JStr (oi_strategyId intent))])
         else if \<not> (case Option.bind (p ''total_quantity'') jsonText of None \<Rightarrow> False | Some n \<Rightarrow> isPositiveText n) then
           reject exit_position_scope_mismatch (Some [(''scope_total_quantity'', orNull (p ''total_quantity''))])
         else None)"

definition validateExitFingerprint :: "order_submission \<Rightarrow> json option \<Rightarrow> execution_rejection option" where
  "validateExitFingerprint s fingerprint =
     (if fingerprint = None then None
      else if \<not> isNonEmptyRecord fingerprint then reject cost_snapshot_mismatch None
      else let mismatches = compareSubmissionFingerprint s (orNull fingerprint)
           in if mismatches \<noteq> [] then reject cost_snapshot_mismatch (Some [(''mismatches'', JObj mismatches)])
              else None)"

definition validateEntryCost :: "order_submission \<Rightarrow> json \<Rightarrow> execution_rejection option" where
  "validateEntryCost s snapshot =
     (let intent = os_intent s; p = property snapshot;
          mismatches =
            stringMismatch ''cost_snapshot_exchange_id'' (p ''exchange_id'') (Some (JStr (oi_exchangeId intent)))
            @ stringMismatch ''cost_snapshot_market'' (p ''market'') (Some (JStr (oi_market intent)))
            @ compareSubmissionFingerprint s (orNull (p ''order_intent''))
      in if oi_side intent = SELL then
           reject exit_cost_evidence_invalid (Some [(''source'', orNull (p ''source'')),
             (''side'', JStr ''SELL''), (''position_effect'', orNull (readOrderIntentPositionEffect intent))])
         else if p ''source'' \<noteq> Some (JStr ''cost_model'') \<or> p ''trade_allowed'' \<noteq> Some (JBool True) \<or>
            p ''reason_code'' \<noteq> Some (JStr ''cost_margin_ok'') \<or>
            hasProblemFieldList (p ''missing_fields'') \<or> hasProblemFieldList (p ''invalid_fields'') then
           reject cost_snapshot_not_allowed (Some (map (\<lambda>f. (f, orNull (p f)))
             [''source'', ''trade_allowed'', ''reason_code'', ''missing_fields'', ''invalid_fields'']))
         else if \<not> isNonEmptyRecord (p ''order_intent'') then reject cost_snapshot_mismatch None
         else if mismatches \<noteq> [] then reject cost_snapshot_mismatch (Some [(''mismatches'', JObj mismatches)])
         else None)"

definition validateCostSnapshot :: "order_submission \<Rightarrow> execution_rejection option" where
  "validateCostSnapshot s =
     (let snapshot = os_costSnapshot s
      in if \<not> isNonEmptyRecord (Some snapshot) then reject cost_snapshot_missing None
         else if property snapshot ''source'' = Some (JStr ''exit_cost_model'') then
           firstRejection [validateExitEvidenceUse s snapshot,
             validateExitScope s (property snapshot ''position_scope''),
             validateExitFingerprint s (property snapshot ''order_intent'')]
         else validateEntryCost s snapshot)"

definition exitMetadataKeys :: "string list" where
  "exitMetadataKeys = [''position_effect'', ''exit_reason_code'', ''exit_rule_id'', ''exit_cost_bps'', ''exit_slippage_bps'']"

definition validateExitCostEvidence :: "order_submission \<Rightarrow> execution_rejection option" where
  "validateExitCostEvidence s =
     (let intent = os_intent s; isExitIntent = (\<not> isEntryMarketOrderIntent intent);
          found = filter (\<lambda>key. readStringMetadata (oi_metadata intent) key \<noteq> None) exitMetadataKeys
      in if isExitIntent \<and> oi_side intent \<noteq> SELL then
           reject exit_cost_evidence_on_entry (Some [(''side'', JStr (sideName (oi_side intent))),
             (''position_effect'', orNull (readOrderIntentPositionEffect intent))])
         else if \<not> isExitIntent \<and> found \<noteq> [] then
           reject exit_cost_evidence_on_entry (Some [(''found_exit_metadata'', JArr (map JStr found))])
         else None)"

definition validateExitSellPositionScope :: "order_submission \<Rightarrow> execution_rejection option" where
  "validateExitSellPositionScope s =
     (let intent = os_intent s; positionScope = property (os_costSnapshot s) ''position_scope'';
          totalQuantity = asString (property (orNull positionScope) ''total_quantity'')
      in if oi_side intent \<noteq> SELL then None
         else if \<not> isNonEmptyRecord positionScope \<or> totalQuantity = None then None
         else case (parseFinancialDecimal (oi_requestedQuantity intent),
                    map_option parseFinancialDecimal (Option.bind totalQuantity jsonText)) of
             (Inr requestedQty, Some (Inr openQty)) \<Rightarrow>
               (if openQty < requestedQty then
                  reject exit_sell_quantity_exceeds_position (Some
                    [(''requested_quantity'', JNum (oi_requestedQuantity intent)),
                     (''open_position_quantity'', orNull totalQuantity)])
                else if readOrderIntentPositionEffect intent = Some (JStr ''EXIT'') \<and> requestedQty \<noteq> openQty then
                  reject exit_sell_quantity_mismatch_position (Some
                    [(''requested_quantity'', JNum (oi_requestedQuantity intent)),
                     (''open_position_quantity'', orNull totalQuantity), (''position_effect'', JStr ''EXIT'')])
                else None)
           | _ \<Rightarrow> None)"

definition validateRiskApproval :: "order_submission \<Rightarrow> execution_rejection option" where
  "validateRiskApproval s =
     (let p = property (os_riskApproval s);
          mismatches = compareSubmissionFingerprint s (orNull (p ''order_intent''))
      in if \<not> isNonEmptyRecord (Some (os_riskApproval s)) then reject risk_approval_missing None
         else if p ''source'' \<noteq> Some (JStr ''risk_gate'') \<or> p ''approved'' \<noteq> Some (JBool True) \<or>
            p ''action'' \<noteq> Some (JStr ''ALLOW'') \<or> \<not> isApprovalCapableRiskStatus (p ''status'') \<or>
            hasProblemFieldList (p ''failed_evaluation_reason_codes'') then
           reject risk_approval_not_approved (Some (map (\<lambda>f. (f, orNull (p f)))
             [''source'', ''approved'', ''action'', ''status'', ''failed_evaluation_reason_codes'']))
         else if \<not> isNonEmptyRecord (p ''order_intent'') then reject risk_approval_missing None
         else if mismatches \<noteq> [] then reject risk_approval_mismatch (Some [(''mismatches'', JObj mismatches)])
         else None)"

definition validateExecutionSubmission :: "order_submission \<Rightarrow> safety_config \<Rightarrow> execution_rejection option" where
  "validateExecutionSubmission s config =
     firstRejection
       [if trim (oi_idempotencyKey (os_intent s)) = [] then reject idempotency_key_missing None else None,
        if sc_liveTradingEnabled config then reject live_trading_disabled None else None,
        if \<not> sc_paperNoKey config then reject paper_no_key_required None else None,
        validateMarketOrderSafety (os_intent s) config,
        validateOrderAmounts (os_intent s),
        validateCostSnapshot s,
        validateExitCostEvidence s,
        validateExitSellPositionScope s,
        validateRiskApproval s]"

section \<open>Lemmas: fingerprints\<close>

named_theorems fingerprint_simps \<open>what a fingerprint holds under each key\<close>

lemma map_of_optional_entry:
  "map_of (case v of None \<Rightarrow> [] | Some w \<Rightarrow> [(k, f w)]) k' = (if k' = k then map_option f v else None)"
  by (simp split: option.split)

lemma map_of_limitOptionFields:
  "map_of (limitOptionFields terms) k =
     (case terms of MarketTerms \<Rightarrow> None
      | LimitTerms price postOnly tif \<Rightarrow>
          if k = ''requested_price'' then Some (JNum (normalizeNumeric price))
          else if k = ''post_only'' then Some (JBool (postOnly = Some True))
          else if k = ''time_in_force'' then
            Some (JStr (timeInForceName (case tif of None \<Rightarrow> GTC | Some t \<Rightarrow> t)))
          else None)"
  by (cases terms) simp_all

lemma fingerprint_lookup [fingerprint_simps]:
  "map_of (createOrderIntentEvidence i l) ''exchange_id'' = Some (JStr (oi_exchangeId i))"
  "map_of (createOrderIntentEvidence i l) ''market'' = Some (JStr (oi_market i))"
  "map_of (createOrderIntentEvidence i l) ''strategy_id'' = Some (JStr (oi_strategyId i))"
  "map_of (createOrderIntentEvidence i l) ''side'' = Some (JStr (sideName (oi_side i)))"
  "map_of (createOrderIntentEvidence i l) ''order_type'' = Some (JStr (orderTypeName (oi_orderType i)))"
  "map_of (createOrderIntentEvidence i l) ''idempotency_key'' = Some (JStr (oi_idempotencyKey i))"
  "map_of (createOrderIntentEvidence i l) ''requested_quantity'' = Some (JNum (normalizeNumeric (oi_requestedQuantity i)))"
  "map_of (createOrderIntentEvidence i l) ''requested_notional'' = Some (JNum (normalizeNumeric (oi_requestedNotional i)))"
  by (simp_all add: createOrderIntentEvidence_def)

lemma fingerprint_optional_lookup [fingerprint_simps]:
  "map_of (createOrderIntentEvidence i l) ''position_effect'' = readOrderIntentPositionEffect i"
  "map_of (createOrderIntentEvidence i l) ''requested_price'' = map_of (limitOptionFields (oi_terms i)) ''requested_price''"
  "map_of (createOrderIntentEvidence i l) ''post_only'' = map_of (limitOptionFields (oi_terms i)) ''post_only''"
  "map_of (createOrderIntentEvidence i l) ''time_in_force'' = map_of (limitOptionFields (oi_terms i)) ''time_in_force''"
  "map_of (createOrderIntentEvidence i l) ''expected_loss_bps_of_equity'' = map_option inputJson l"
  by (cases "readOrderIntentPositionEffect i"; cases l; cases "oi_terms i";
      simp add: createOrderIntentEvidence_def)+

lemma readStringMetadata_string: "asString (readStringMetadata m k) = readStringMetadata m k"
  by (simp add: readStringMetadata_def asString_def split: option.split)

lemma positionEffect_string [simp]:
  "asString (readOrderIntentPositionEffect i) = readOrderIntentPositionEffect i"
  by (cases "readStringMetadata (oi_metadata i) ''position_effect''")
    (use readStringMetadata_string in \<open>auto simp: readOrderIntentPositionEffect_def orElse_def dest: sym\<close>)

lemma asString_simps [simp]:
  "asString (Some (JStr s)) = Some (JStr s)" "asString (Some (JNum n)) = Some (JNum n)" "asString None = None"
  by (simp_all add: asString_def)

lemma mismatch_empty_iff [simp]: "mismatch f a b = [] \<longleftrightarrow> a = b"
  by (simp add: mismatch_def)

lemma requiredDecimalMismatch_empty_iff:
  "requiredDecimalMismatch f a b = [] \<longleftrightarrow>
     (\<exists>v. readNormalizedFinancialDecimalString a = Some v \<and> readNormalizedFinancialDecimalString b = Some v)"
  by (auto simp: requiredDecimalMismatch_def Let_def)

text \<open>The value of an expected loss, where it is a text that parses.\<close>

definition lossValue :: "decimal_input option \<Rightarrow> rat option" where
  "lossValue l = (case l of Some (Amount n) \<Rightarrow> (case parseFinancialDecimal n of Inl e \<Rightarrow> None | Inr r \<Rightarrow> Some r) | _ \<Rightarrow> None)"

definition equalAmount :: "numeric \<Rightarrow> numeric \<Rightarrow> bool" where
  "equalAmount a b \<longleftrightarrow> normalizeNumeric a = normalizeNumeric b"

fun sameLimitOptions :: "order_terms \<Rightarrow> order_terms \<Rightarrow> bool" where
  "sameLimitOptions (LimitTerms p po tif) (LimitTerms p' po' tif') =
     (equalAmount p p' \<and> (po = Some True) = (po' = Some True) \<and>
      case_option GTC id tif = case_option GTC id tif')"
| "sameLimitOptions MarketTerms MarketTerms = True"
| "sameLimitOptions _ _ = False"

text \<open>Two candidates are the same for the engine: what it means that a fingerprint matches.\<close>

definition sameCandidate ::
  "order_intent \<Rightarrow> decimal_input option \<Rightarrow> order_intent \<Rightarrow> decimal_input option \<Rightarrow> bool" where
  "sameCandidate i l i' l' \<longleftrightarrow>
     oi_exchangeId i = oi_exchangeId i' \<and> oi_market i = oi_market i' \<and> oi_strategyId i = oi_strategyId i' \<and>
     oi_side i = oi_side i' \<and> oi_idempotencyKey i = oi_idempotencyKey i' \<and>
     readOrderIntentPositionEffect i = readOrderIntentPositionEffect i' \<and>
     equalAmount (oi_requestedQuantity i) (oi_requestedQuantity i') \<and>
     equalAmount (oi_requestedNotional i) (oi_requestedNotional i') \<and>
     sameLimitOptions (oi_terms i) (oi_terms i') \<and>
     lossValue l \<noteq> None \<and> lossValue l = lossValue l'"

lemma read_inputJson:
  "readNormalizedFinancialDecimalString (map_option inputJson l) = map_option (\<lambda>r. JNum (Num r)) (lossValue l)"
proof (cases l)
  case (Some v)
  then show ?thesis
    by (cases v; cases "case v of Amount n \<Rightarrow> parseFinancialDecimal n | _ \<Rightarrow> Inr 0")
      (auto simp: readNormalizedFinancialDecimalString_def lossValue_def)
qed (simp add: readNormalizedFinancialDecimalString_def lossValue_def)

lemma read_asString:
  "readNormalizedFinancialDecimalString (asString v) = readNormalizedFinancialDecimalString v"
proof (cases v)
  case (Some w)
  then show ?thesis by (cases w) (simp_all add: readNormalizedFinancialDecimalString_def asString_def)
qed simp

lemma normalizedText_simps [simp]:
  "normalizedText (Some (JNum n)) = Some (JNum (normalizeNumeric n))" "normalizedText None = None"
  by (simp_all add: normalizedText_def)

lemma sameLimitOptions_iff:
  "sameLimitOptions t t' \<longleftrightarrow> orderTypeOf t = orderTypeOf t' \<and>
     asBoolean (map_of (limitOptionFields t) ''post_only'') = asBoolean (map_of (limitOptionFields t') ''post_only'') \<and>
     asString (map_of (limitOptionFields t) ''time_in_force'') = asString (map_of (limitOptionFields t') ''time_in_force'') \<and>
     normalizedText (map_of (limitOptionFields t) ''requested_price'') =
       normalizedText (asString (map_of (limitOptionFields t') ''requested_price''))"
  by (cases t; cases t') (auto simp: equalAmount_def split: option.splits)

lemma compare_fingerprints_iff:
  "compareOrderIntentEvidence (createOrderIntentEvidence i l) (createOrderIntentEvidence i' l') = [] \<longleftrightarrow>
     sameCandidate i l i' l'"
proof -
  have loss: "requiredDecimalMismatch f (map_option inputJson l) (asString (map_option inputJson l')) = [] \<longleftrightarrow>
      lossValue l \<noteq> None \<and> lossValue l = lossValue l'" for f
    by (auto simp: requiredDecimalMismatch_empty_iff read_asString read_inputJson)
  show ?thesis
    unfolding sameCandidate_def sameLimitOptions_iff
    by (auto simp: compareOrderIntentEvidence_def stringMismatch_def booleanMismatch_def
        evidenceDecimalMismatch_def readStringRecordValue_def readBooleanRecordValue_def
        fingerprint_simps loss equalAmount_def)
qed

section \<open>Lemmas: what each guard accepts\<close>

lemma firstRejection_None_iff: "firstRejection rs = None \<longleftrightarrow> (\<forall>r \<in> set rs. r = None)"
  by (induction rs rule: firstRejection.induct) auto

lemma reject_not_None [simp]: "reject c m \<noteq> None" "None \<noteq> reject c m"
  by (simp_all add: reject_def)

lemma guard_None_iff [simp]: "(if c then reject x m else None) = None \<longleftrightarrow> \<not> c"
  by simp

lemma reject_if_None_iff [simp]: "(if c then reject x m else k) = None \<longleftrightarrow> \<not> c \<and> k = None"
  by simp

definition orderTypeAllowed :: "order_intent \<Rightarrow> safety_config \<Rightarrow> bool" where
  "orderTypeAllowed intent config \<longleftrightarrow> oi_orderType intent = LIMIT \<or>
     sc_marketOrderEnabled config \<and> (isEntryMarketOrderIntent intent \<longrightarrow> sc_entryMarketOrderEnabled config)"

lemma validateMarketOrderSafety_None_iff:
  "validateMarketOrderSafety intent config = None \<longleftrightarrow> orderTypeAllowed intent config"
  by (cases "oi_orderType intent") (auto simp: validateMarketOrderSafety_def orderTypeAllowed_def)

definition positiveAmounts :: "order_intent \<Rightarrow> bool" where
  "positiveAmounts intent \<longleftrightarrow> isPositiveText (oi_requestedQuantity intent) \<and>
     isPositiveText (oi_requestedNotional intent) \<and>
     (case limitPriceOf (oi_terms intent) of None \<Rightarrow> True | Some p \<Rightarrow> isPositiveText p)"

lemma validateOrderAmounts_None_iff: "validateOrderAmounts intent = None \<longleftrightarrow> positiveAmounts intent"
  by (auto simp: validateOrderAmounts_def positiveAmounts_def invalidPositiveDecimalField_def Let_def
      split: option.split)

text \<open>A fingerprint in a piece of evidence that fits the submission.\<close>

definition fingerprintFits :: "order_submission \<Rightarrow> json option \<Rightarrow> bool" where
  "fingerprintFits s v \<longleftrightarrow>
     (\<exists>kvs. v = Some (JObj kvs) \<and> compareOrderIntentEvidence kvs (submissionFingerprint s) = [])"

lemma isNonEmptyRecordE:
  assumes "isNonEmptyRecord v"
  obtains kvs where "v = Some (JObj kvs)" "kvs \<noteq> []"
  using assms by (cases v rule: isNonEmptyRecord.cases) auto

lemma compare_nothing: "compareOrderIntentEvidence [] (submissionFingerprint s) \<noteq> []"
  by (simp add: compareOrderIntentEvidence_def submissionFingerprint_def stringMismatch_def
      readStringRecordValue_def fingerprint_simps)

lemma fingerprintFits_iff:
  "isNonEmptyRecord v \<and> compareSubmissionFingerprint s (orNull v) = [] \<longleftrightarrow> fingerprintFits s v"
  by (cases v rule: isNonEmptyRecord.cases)
    (use compare_nothing in \<open>auto simp: fingerprintFits_def compareSubmissionFingerprint_def orNull_def\<close>)

definition riskEvidenceOk :: "order_submission \<Rightarrow> bool" where
  "riskEvidenceOk s \<longleftrightarrow> (let p = property (os_riskApproval s) in
     p ''source'' = Some (JStr ''risk_gate'') \<and> p ''approved'' = Some (JBool True) \<and>
     p ''action'' = Some (JStr ''ALLOW'') \<and> p ''status'' \<in> {Some (JStr ''PASS''), Some (JStr ''WARN'')} \<and>
     p ''failed_evaluation_reason_codes'' \<in> {None, Some (JArr [])} \<and> fingerprintFits s (p ''order_intent''))"

lemma hasProblemFieldList_iff: "\<not> hasProblemFieldList v \<longleftrightarrow> v \<in> {None, Some (JArr [])}"
  by (cases v rule: hasProblemFieldList.cases) auto

lemma property_record: "property j k = Some v \<Longrightarrow> isNonEmptyRecord (Some j)"
  by (cases j) auto

lemma validateRiskApproval_None_iff: "validateRiskApproval s = None \<longleftrightarrow> riskEvidenceOk s"
proof -
  have "validateRiskApproval s = None \<longleftrightarrow> (let p = property (os_riskApproval s) in
      isNonEmptyRecord (Some (os_riskApproval s)) \<and>
      p ''source'' = Some (JStr ''risk_gate'') \<and> p ''approved'' = Some (JBool True) \<and>
      p ''action'' = Some (JStr ''ALLOW'') \<and> isApprovalCapableRiskStatus (p ''status'') \<and>
      \<not> hasProblemFieldList (p ''failed_evaluation_reason_codes'') \<and>
      isNonEmptyRecord (p ''order_intent'') \<and> compareSubmissionFingerprint s (orNull (p ''order_intent'')) = [])"
    by (auto simp: validateRiskApproval_def Let_def)
  also have "\<dots> \<longleftrightarrow> riskEvidenceOk s"
    unfolding riskEvidenceOk_def Let_def fingerprintFits_iff [symmetric] isApprovalCapableRiskStatus_def
      hasProblemFieldList_iff
    by (auto dest: property_record)
  finally show ?thesis .
qed

definition entryCostOk :: "order_submission \<Rightarrow> bool" where
  "entryCostOk s \<longleftrightarrow> (let p = property (os_costSnapshot s) in
     p ''source'' = Some (JStr ''cost_model'') \<and> p ''trade_allowed'' = Some (JBool True) \<and>
     p ''reason_code'' = Some (JStr ''cost_margin_ok'') \<and>
     p ''missing_fields'' \<in> {None, Some (JArr [])} \<and> p ''invalid_fields'' \<in> {None, Some (JArr [])} \<and>
     p ''exchange_id'' = Some (JStr (oi_exchangeId (os_intent s))) \<and>
     p ''market'' = Some (JStr (oi_market (os_intent s))) \<and> fingerprintFits s (p ''order_intent''))"

lemma asString_JStr_iff: "asString v = Some (JStr t) \<longleftrightarrow> v = Some (JStr t)"
  by (auto simp: asString_def split: option.splits)

lemma validateEntryCost_None_iff:
  "validateEntryCost s (os_costSnapshot s) = None \<longleftrightarrow> oi_side (os_intent s) = BUY \<and> entryCostOk s"
proof -
  have "validateEntryCost s (os_costSnapshot s) = None \<longleftrightarrow> (let p = property (os_costSnapshot s) in
      oi_side (os_intent s) \<noteq> SELL \<and>
      p ''source'' = Some (JStr ''cost_model'') \<and> p ''trade_allowed'' = Some (JBool True) \<and>
      p ''reason_code'' = Some (JStr ''cost_margin_ok'') \<and>
      \<not> hasProblemFieldList (p ''missing_fields'') \<and> \<not> hasProblemFieldList (p ''invalid_fields'') \<and>
      asString (p ''exchange_id'') = Some (JStr (oi_exchangeId (os_intent s))) \<and>
      asString (p ''market'') = Some (JStr (oi_market (os_intent s))) \<and>
      isNonEmptyRecord (p ''order_intent'') \<and> compareSubmissionFingerprint s (orNull (p ''order_intent'')) = [])"
    by (auto simp: validateEntryCost_def Let_def stringMismatch_def)
  also have "\<dots> \<longleftrightarrow> oi_side (os_intent s) = BUY \<and> entryCostOk s"
    unfolding entryCostOk_def Let_def fingerprintFits_iff [symmetric] hasProblemFieldList_iff asString_JStr_iff
    by (cases "oi_side (os_intent s)") auto
  finally show ?thesis .
qed

text \<open>The quantity of the open position that exit evidence declares for the market and strategy of the order.\<close>

definition scopeQuantity :: "order_submission \<Rightarrow> rat option" where
  "scopeQuantity s = (let scope = property (os_costSnapshot s) ''position_scope''; p = property (orNull scope) in
     if p ''market'' = Some (JStr (oi_market (os_intent s))) \<and>
        p ''strategy_id'' = Some (JStr (oi_strategyId (os_intent s)))
     then (case p ''total_quantity'' of Some (JNum n) \<Rightarrow> (case parseFinancialDecimal n of Inl e \<Rightarrow> None | Inr r \<Rightarrow> Some r)
           | _ \<Rightarrow> None)
     else None)"

lemma property_orNull_record: "property (orNull v) k = Some w \<Longrightarrow> isNonEmptyRecord v"
  by (cases v) (auto simp: orNull_def dest: property_record)

lemma positive_jsonText:
  "(case Option.bind v jsonText of None \<Rightarrow> False | Some n \<Rightarrow> isPositiveText n) \<longleftrightarrow>
     (\<exists>n. v = Some (JNum n) \<and> isPositiveText n)"
proof (cases v)
  case (Some w)
  then show ?thesis by (cases w) (auto simp: isPositiveText_def)
qed simp

lemma isPositiveText_iff: "isPositiveText n \<longleftrightarrow> (\<exists>r. parseFinancialDecimal n = Inr r \<and> 0 < r)"
  by (simp add: isPositiveText_def split: sum.split)

lemma validateExitScope_None_iff:
  "validateExitScope s (property (os_costSnapshot s) ''position_scope'') = None \<longleftrightarrow>
     (\<exists>r. scopeQuantity s = Some r \<and> 0 < r)"
proof -
  let ?scope = "property (os_costSnapshot s) ''position_scope''"
  let ?p = "property (orNull ?scope)"
  have "validateExitScope s ?scope = None \<longleftrightarrow> isNonEmptyRecord ?scope \<and>
      ?p ''market'' = Some (JStr (oi_market (os_intent s))) \<and>
      ?p ''strategy_id'' = Some (JStr (oi_strategyId (os_intent s))) \<and>
      isNonEmptyString (?p ''total_quantity'') \<and>
      (\<exists>n. ?p ''total_quantity'' = Some (JNum n) \<and> isPositiveText n)"
    unfolding validateExitScope_def Let_def positive_jsonText reject_if_None_iff by auto
  also have "\<dots> \<longleftrightarrow> ?p ''market'' = Some (JStr (oi_market (os_intent s))) \<and>
      ?p ''strategy_id'' = Some (JStr (oi_strategyId (os_intent s))) \<and>
      (\<exists>n r. ?p ''total_quantity'' = Some (JNum n) \<and> parseFinancialDecimal n = Inr r \<and> 0 < r)"
    by (auto simp: isPositiveText_iff dest: property_orNull_record)
  also have "\<dots> \<longleftrightarrow> (\<exists>r. scopeQuantity s = Some r \<and> 0 < r)"
    by (auto simp: scopeQuantity_def Let_def split: option.splits json.splits sum.splits)
  finally show ?thesis .
qed

definition exitCostOk :: "order_submission \<Rightarrow> bool" where
  "exitCostOk s \<longleftrightarrow> (let p = property (os_costSnapshot s); metadata = oi_metadata (os_intent s) in
     p ''source'' = Some (JStr ''exit_cost_model'') \<and> p ''exit_cost_allowed'' = Some (JBool True) \<and>
     p ''exit_cost_reason_code'' = Some (JStr ''exit_cost_margin_ok'') \<and>
     isNonNegativeField (p ''exit_cost_bps'') \<and> isNonNegativeField (p ''exit_slippage_bps'') \<and>
     readStringMetadata metadata ''exit_reason_code'' \<noteq> None \<and> readStringMetadata metadata ''exit_rule_id'' \<noteq> None \<and>
     (p ''order_intent'' = None \<or> fingerprintFits s (p ''order_intent'')))"

text \<open>How much an exit order may sell of the open position: not more, and all of it if it is an exit.\<close>

definition exitQuantityOk :: "order_submission \<Rightarrow> bool" where
  "exitQuantityOk s \<longleftrightarrow> (\<exists>openQty q. scopeQuantity s = Some openQty \<and>
     parseFinancialDecimal (oi_requestedQuantity (os_intent s)) = Inr q \<and> 0 < q \<and> q \<le> openQty \<and>
     (readOrderIntentPositionEffect (os_intent s) = Some (JStr ''EXIT'') \<longrightarrow> q = openQty))"

lemma collectInvalid_empty_iff:
  "collectInvalidExitCostFields j = [] \<longleftrightarrow>
     isNonNegativeField (property j ''exit_cost_bps'') \<and> isNonNegativeField (property j ''exit_slippage_bps'')"
  by (simp add: collectInvalidExitCostFields_def)

lemma validateExitFingerprint_None_iff:
  "validateExitFingerprint s v = None \<longleftrightarrow> v = None \<or> fingerprintFits s v"
  unfolding fingerprintFits_iff [symmetric] by (auto simp: validateExitFingerprint_def Let_def)

lemma validateExitEvidenceUse_None_iff:
  "validateExitEvidenceUse s j = None \<longleftrightarrow>
     \<not> isEntryMarketOrderIntent (os_intent s) \<and> oi_side (os_intent s) = SELL \<and>
     readStringMetadata (oi_metadata (os_intent s)) ''exit_reason_code'' \<noteq> None \<and>
     readStringMetadata (oi_metadata (os_intent s)) ''exit_rule_id'' \<noteq> None \<and>
     property j ''exit_cost_allowed'' = Some (JBool True) \<and>
     property j ''exit_cost_reason_code'' = Some (JStr ''exit_cost_margin_ok'') \<and>
     collectInvalidExitCostFields j = []"
  unfolding validateExitEvidenceUse_def Let_def reject_if_None_iff
  by (simp only: de_Morgan_disj not_not simp_thms conj_assoc)

lemma validateCostSnapshot_None_iff:
  "validateCostSnapshot s = None \<longleftrightarrow>
     (case oi_side (os_intent s) of
        BUY \<Rightarrow> entryCostOk s
      | SELL \<Rightarrow> exitCostOk s \<and> \<not> isEntryMarketOrderIntent (os_intent s) \<and> (\<exists>r. scopeQuantity s = Some r \<and> 0 < r))"
proof (cases "property (os_costSnapshot s) ''source'' = Some (JStr ''exit_cost_model'')")
  case True
  have "\<not> entryCostOk s" using True by (simp add: entryCostOk_def)
  moreover have "isNonEmptyRecord (Some (os_costSnapshot s))" by (rule property_record [OF True])
  ultimately show ?thesis using True
    unfolding validateCostSnapshot_def Let_def
    by (cases "oi_side (os_intent s)")
      (simp_all add: firstRejection_None_iff validateExitEvidenceUse_None_iff validateExitScope_None_iff
        validateExitFingerprint_None_iff collectInvalid_empty_iff exitCostOk_def Let_def conj_ac)
next
  case False
  have "validateCostSnapshot s = None \<longleftrightarrow> isNonEmptyRecord (Some (os_costSnapshot s)) \<and>
      oi_side (os_intent s) = BUY \<and> entryCostOk s"
    using False by (simp add: validateCostSnapshot_def Let_def validateEntryCost_None_iff)
  moreover have "entryCostOk s \<Longrightarrow> isNonEmptyRecord (Some (os_costSnapshot s))"
    by (rule property_record [where k = "''source''"]) (simp add: entryCostOk_def Let_def)
  ultimately show ?thesis using False by (cases "oi_side (os_intent s)") (auto simp: exitCostOk_def)
qed

text \<open>An entry carries none of the exit metadata.\<close>

definition noExitMetadata :: "order_intent \<Rightarrow> bool" where
  "noExitMetadata intent \<longleftrightarrow> (\<forall>key \<in> set exitMetadataKeys. readStringMetadata (oi_metadata intent) key = None)"

lemma validateExitCostEvidence_None_iff:
  "validateExitCostEvidence s = None \<longleftrightarrow>
     (if isEntryMarketOrderIntent (os_intent s) then noExitMetadata (os_intent s) else oi_side (os_intent s) = SELL)"
  by (simp add: validateExitCostEvidence_def Let_def noExitMetadata_def filter_empty_conv)

lemma scopeQuantity_record:
  assumes "scopeQuantity s = Some r"
  obtains n where "isNonEmptyRecord (property (os_costSnapshot s) ''position_scope'')"
    and "property (orNull (property (os_costSnapshot s) ''position_scope'')) ''total_quantity'' = Some (JNum n)"
    and "parseFinancialDecimal n = Inr r"
proof -
  let ?p = "property (orNull (property (os_costSnapshot s) ''position_scope''))"
  obtain n where n: "?p ''total_quantity'' = Some (JNum n)" "parseFinancialDecimal n = Inr r"
    using assms by (auto simp: scopeQuantity_def Let_def split: if_splits option.splits json.splits sum.splits)
  show thesis by (rule that [OF property_orNull_record [OF n(1)] n])
qed

lemma validateExitSellPositionScope_None_iff:
  assumes "oi_side (os_intent s) = SELL" and "scopeQuantity s = Some openQty"
    and "isPositiveText (oi_requestedQuantity (os_intent s))"
  shows "validateExitSellPositionScope s = None \<longleftrightarrow> exitQuantityOk s"
proof -
  obtain n where n: "isNonEmptyRecord (property (os_costSnapshot s) ''position_scope'')"
    "property (orNull (property (os_costSnapshot s) ''position_scope'')) ''total_quantity'' = Some (JNum n)"
    "parseFinancialDecimal n = Inr openQty"
    by (rule scopeQuantity_record [OF assms(2)])
  obtain q where "parseFinancialDecimal (oi_requestedQuantity (os_intent s)) = Inr q" "0 < q"
    using assms(3) by (auto simp: isPositiveText_iff)
  then show ?thesis using assms(1,2) n
    by (auto simp: validateExitSellPositionScope_def Let_def exitQuantityOk_def not_less)
qed

lemma validateExitSellPositionScope_BUY: "oi_side (os_intent s) = BUY \<Longrightarrow> validateExitSellPositionScope s = None"
  by (simp add: validateExitSellPositionScope_def)

text \<open>What the engine accepts, said by the side of the order.\<close>

definition acceptable :: "order_submission \<Rightarrow> safety_config \<Rightarrow> bool" where
  "acceptable s config \<longleftrightarrow> (let intent = os_intent s in
     trim (oi_idempotencyKey intent) \<noteq> [] \<and> \<not> sc_liveTradingEnabled config \<and> sc_paperNoKey config \<and>
     orderTypeAllowed intent config \<and> positiveAmounts intent \<and> riskEvidenceOk s \<and>
     (case oi_side intent of
        BUY \<Rightarrow> entryCostOk s \<and> isEntryMarketOrderIntent intent \<and> noExitMetadata intent
      | SELL \<Rightarrow> exitCostOk s \<and> \<not> isEntryMarketOrderIntent intent \<and> exitQuantityOk s))"

lemma exitQuantityOk_scope: "exitQuantityOk s \<Longrightarrow> \<exists>r. scopeQuantity s = Some r \<and> 0 < r"
  by (force simp: exitQuantityOk_def)

lemma validate_accepts_iff: "validateExecutionSubmission s config = None \<longleftrightarrow> acceptable s config"
proof -
  let ?i = "os_intent s"
  have "validateExecutionSubmission s config = None \<longleftrightarrow>
      trim (oi_idempotencyKey ?i) \<noteq> [] \<and> \<not> sc_liveTradingEnabled config \<and> sc_paperNoKey config \<and>
      orderTypeAllowed ?i config \<and> positiveAmounts ?i \<and> riskEvidenceOk s \<and>
      validateCostSnapshot s = None \<and> validateExitCostEvidence s = None \<and> validateExitSellPositionScope s = None"
    by (simp add: validateExecutionSubmission_def firstRejection_None_iff validateMarketOrderSafety_None_iff
        validateOrderAmounts_None_iff validateRiskApproval_None_iff conj_ac)
  also have "\<dots> \<longleftrightarrow> acceptable s config"
  proof (cases "oi_side ?i")
    case BUY
    then show ?thesis
      by (auto simp: acceptable_def Let_def validateCostSnapshot_None_iff validateExitCostEvidence_None_iff
          validateExitSellPositionScope_BUY split: if_splits)
  next
    case SELL
    have "positiveAmounts ?i \<Longrightarrow> (\<exists>r. scopeQuantity s = Some r \<and> 0 < r) \<and> validateExitSellPositionScope s = None \<longleftrightarrow>
        exitQuantityOk s"
      using validateExitSellPositionScope_None_iff [OF SELL] exitQuantityOk_scope
      by (fastforce simp: positiveAmounts_def)
    then show ?thesis using SELL
      by (auto simp: acceptable_def Let_def validateCostSnapshot_None_iff validateExitCostEvidence_None_iff)
  qed
  finally show ?thesis .
qed

lemma equalAmount_refl [simp]: "equalAmount a a"
  by (simp add: equalAmount_def)

lemma sameLimitOptions_refl [simp]: "sameLimitOptions t t"
  by (cases t) simp_all

lemma sameCandidate_refl: "sameCandidate i l i l \<longleftrightarrow> lossValue l \<noteq> None"
  by (simp add: sameCandidate_def)

lemma fingerprintFits_created:
  "fingerprintFits s (Some (JObj (createOrderIntentEvidence i l))) \<longleftrightarrow>
     sameCandidate i l (os_intent s) (readSubmissionExpectedLossBps s)"
  by (simp add: fingerprintFits_def submissionFingerprint_def compare_fingerprints_iff)

text \<open>
  Evidence written from a result of the gate is valid for a submission exactly when the gate approved
  the very candidate that is submitted.
\<close>

lemma gate_evidence_ok_iff:
  assumes "evaluateRiskGate rnd c = Inr r" and "os_riskApproval s = JObj (createExecutionRiskApprovalEvidence r c)"
  shows "riskEvidenceOk s \<longleftrightarrow> rg_approved r \<and>
    sameCandidate (rc_orderIntent c) (readContextExpectedLossBps c) (os_intent s) (readSubmissionExpectedLossBps s)"
proof -
  obtain t where r: "r = createRiskGateResult (riskEvaluations rnd c t) (rc_thresholdSnapshot c)"
    using assms(1) by (auto simp: evaluateRiskGate_def bindR_Inr_iff)
  have gate: "rg_approved r \<longleftrightarrow> rg_action r = RB_ALLOW" "rg_approved r \<longleftrightarrow> rg_status r \<noteq> R_FAIL"
    "rg_approved r \<longleftrightarrow> rg_failedEvaluations r = []"
    using createRiskGateResult_approved(2,3) [OF riskEvaluations_evalOk] evaluateRiskGate_resultOk [OF assms(1)]
    by (simp_all add: r resultOk_def)
  have names: "riskActionName a = ''ALLOW'' \<longleftrightarrow> a = RB_ALLOW" "riskStatusName st \<in> {''PASS'', ''WARN''} \<longleftrightarrow> st \<noteq> R_FAIL" for a st
    by (cases a; simp) (cases st; simp)
  show ?thesis
    using gate names by (auto simp: riskEvidenceOk_def assms(2) createExecutionRiskApprovalEvidence_def Let_def
        fingerprintFits_created)
qed

section \<open>Properties\<close>

text \<open>
  C11. What the execution engine accepts. A submission passes validation exactly when its key is not
  blank, the configuration is the paper-only one, its order type is enabled, all its amounts are
  positive decimals, the risk approval is an approving result of the gate for this very candidate,
  and, for a buy, an allowing cost snapshot for this very candidate is attached and no exit metadata,
  for a sell, valid exit evidence for an open position of at least the requested quantity.
\<close>

theorem validateExecutionSubmission_accepts_iff:
  "validateExecutionSubmission s config = None \<longleftrightarrow>
     (let intent = os_intent s in
      trim (oi_idempotencyKey intent) \<noteq> [] \<and> \<not> sc_liveTradingEnabled config \<and> sc_paperNoKey config \<and>
      orderTypeAllowed intent config \<and> positiveAmounts intent \<and> riskEvidenceOk s \<and>
      (case oi_side intent of
         BUY \<Rightarrow> entryCostOk s \<and> isEntryMarketOrderIntent intent \<and> noExitMetadata intent
       | SELL \<Rightarrow> exitCostOk s \<and> \<not> isEntryMarketOrderIntent intent \<and> exitQuantityOk s))"
  unfolding validate_accepts_iff acceptable_def ..

text \<open>
A fingerprint identifies the candidate. Comparing the fingerprints of two candidates reports no
  difference exactly when exchange, market, strategy, side, order type, key and position effect are
  equal, the amounts have equal values, the limit options mean the same, and both carry the same
  expected loss; a candidate without a readable expected loss matches nothing, not even itself.
\<close>

theorem compareOrderIntentEvidence_empty_iff:
  "compareOrderIntentEvidence (createOrderIntentEvidence i l) (createOrderIntentEvidence i' l') = [] \<longleftrightarrow>
     sameCandidate i l i' l'"
  by (rule compare_fingerprints_iff)

text \<open>
  An exit never sells more than is held. A sell that passes validation carries evidence of an open
  position of the same market and strategy, its quantity is positive and at most that position, and
  it is the whole position if the order is marked as an exit.
\<close>

theorem accepted_sell_within_position:
  assumes "validateExecutionSubmission s config = None" and "oi_side (os_intent s) = SELL"
  shows "\<exists>n openQty q.
    property (orNull (property (os_costSnapshot s) ''position_scope'')) ''market'' = Some (JStr (oi_market (os_intent s))) \<and>
    property (orNull (property (os_costSnapshot s) ''position_scope'')) ''strategy_id'' = Some (JStr (oi_strategyId (os_intent s))) \<and>
    property (orNull (property (os_costSnapshot s) ''position_scope'')) ''total_quantity'' = Some (JNum n) \<and>
    parseFinancialDecimal n = Inr openQty \<and>
    parseFinancialDecimal (oi_requestedQuantity (os_intent s)) = Inr q \<and> 0 < q \<and> q \<le> openQty \<and>
    readOrderIntentPositionEffect (os_intent s) \<in> {Some (JStr ''REDUCE''), Some (JStr ''EXIT'')} \<and>
    (readOrderIntentPositionEffect (os_intent s) = Some (JStr ''EXIT'') \<longrightarrow> q = openQty)"
proof -
  have acc: "exitQuantityOk s" "\<not> isEntryMarketOrderIntent (os_intent s)"
    using assms by (simp_all add: validate_accepts_iff acceptable_def Let_def)
  then obtain openQty q where "scopeQuantity s = Some openQty"
    "parseFinancialDecimal (oi_requestedQuantity (os_intent s)) = Inr q" "0 < q" "q \<le> openQty"
    "readOrderIntentPositionEffect (os_intent s) = Some (JStr ''EXIT'') \<longrightarrow> q = openQty"
    by (auto simp: exitQuantityOk_def)
  then show ?thesis using acc(2) scopeQuantity_record [of s openQty]
    by (auto simp: scopeQuantity_def Let_def isEntryMarketOrderIntent_def split: if_splits)
qed

definition exampleExitIntent :: order_intent where
  "exampleExitIntent = exampleRiskIntent\<lparr>oi_side := SELL, oi_metadata := Some
     [(''position_effect'', JStr ''EXIT''), (''exit_reason_code'', JStr ''take_profit''), (''exit_rule_id'', JStr ''r1'')]\<rparr>"

definition exampleExitSubmission :: order_submission where
  "exampleExitSubmission =
     \<lparr>os_intent = exampleExitIntent,
      os_costSnapshot = JObj (createExecutionExitCostEvidence exampleExitIntent
        [(''market'', JStr ''KRW-BTC''), (''strategy_id'', JStr ''s1''), (''total_quantity'', JNum (Num 2))]
        (Num 5) (Num 3) (Some (Amount (Num 7)))),
      os_riskApproval = JObj [(''source'', JStr ''risk_gate''), (''approved'', JBool True), (''status'', JStr ''PASS''),
        (''action'', JStr ''ALLOW''),
        (''order_intent'', JObj (createOrderIntentEvidence exampleExitIntent (Some (Amount (Num 7)))))],
      os_expectedLossBpsOfEquity = Some (Num 7), os_submittedAt = At 7\<rparr>"

lemma exampleExit_loss: "readSubmissionExpectedLossBps exampleExitSubmission = Some (Amount (Num 7))"
  by (simp add: readSubmissionExpectedLossBps_def exampleExitSubmission_def orElse_def)

lemma exampleExit_accepted: "validateExecutionSubmission exampleExitSubmission defaultPaperExecutionSafetyConfig = None"
proof -
  have fits: "fingerprintFits exampleExitSubmission
      (Some (JObj (createOrderIntentEvidence exampleExitIntent (Some (Amount (Num 7))))))"
    unfolding fingerprintFits_created exampleExit_loss
    by (simp add: sameCandidate_refl lossValue_def exampleExitSubmission_def)
  have "riskEvidenceOk exampleExitSubmission" "exitCostOk exampleExitSubmission"
    using fits by (simp_all add: riskEvidenceOk_def exitCostOk_def exampleExitSubmission_def exampleExitIntent_def
        createExecutionExitCostEvidence_def isNonNegativeField_def readStringMetadata_def)
  moreover have "exitQuantityOk exampleExitSubmission" "positiveAmounts exampleExitIntent"
    by (simp_all add: exitQuantityOk_def scopeQuantity_def exampleExitSubmission_def exampleExitIntent_def
        exampleRiskIntent_def createExecutionExitCostEvidence_def orNull_def positiveAmounts_def isPositiveText_def)
  ultimately show ?thesis
    by (simp add: validate_accepts_iff acceptable_def exampleExitSubmission_def exampleExitIntent_def
        exampleRiskIntent_def defaultPaperExecutionSafetyConfig_def orderTypeAllowed_def trim_def isSpace_def
        isEntryMarketOrderIntent_def readOrderIntentPositionEffect_def readStringMetadata_def orElse_def)
qed

theorem accepted_sell_within_position_witness:
  "\<exists>q. parseFinancialDecimal (oi_requestedQuantity (os_intent exampleExitSubmission)) = Inr q \<and> 0 < q \<and> q = 2"
  using accepted_sell_within_position [OF exampleExit_accepted]
  by (auto simp: exampleExitSubmission_def exampleExitIntent_def exampleRiskIntent_def
      createExecutionExitCostEvidence_def orNull_def readOrderIntentPositionEffect_def readStringMetadata_def orElse_def)

end
