(* ===== verification/Execution_Service.thy ===== *)
theory Execution_Service
  imports Execution_Validation
begin

text \<open>
  The engine that calls the broker, \<^verbatim>\<open>src/src/application/execution/execution-engine/service.ts\<close>.
  \<open>submitOrder\<close> is asynchronous: the code up to the first \<^verbatim>\<open>await\<close> (validation, look-up of the key
  among the submissions in flight, the broker call, registration of the call) runs without
  interruption, then the request waits for the promise of a broker call. So a request is a step
  \<open>receive\<close>, the settling of a promise a step \<open>settleCall\<close>, and the resumption of a request that
  waits for a settled promise, with the \<^verbatim>\<open>finally\<close> of the request that made the call, a step
  \<open>resume\<close>; between them anything else may happen, also to the broker. A broker is a state with a
  submit function, as in the locale \<open>broker_port\<close>; its effect takes place when it is called, as in
  the paper broker. A promise is the index of its call.
\<close>

section \<open>State\<close>

record in_flight =
  fl_fingerprint :: json_record
  fl_brokerSubmission :: nat

record 'o broker_call =
  bc_submission :: order_submission
  bc_result :: "'o result"
  bc_settled :: bool

record waiting_request =
  wr_submission :: order_submission
  wr_call :: nat
  wr_owner :: bool

text \<open>How a request ends; \<open>EX_FAILED\<close> is a rejection of the returned promise by the broker's error.\<close>

datatype 'o execution_result =
    EX_SUBMITTED 'o
  | EX_DUPLICATE_SUPPRESSED 'o
  | EX_REJECTED execution_rejection
  | EX_FAILED error

record ('b, 'o) engine =
  en_broker :: 'b
  en_safetyConfig :: safety_config
  en_inFlightByIdempotencyKey :: "(string \<times> in_flight) list"
  en_calls :: "'o broker_call list"
  en_waiting :: "(nat \<times> waiting_request) list"
  en_results :: "(nat \<times> order_submission \<times> 'o execution_result) list"
  en_nextRequest :: nat

definition createExecutionEngine :: "'b \<Rightarrow> safety_overrides \<Rightarrow> ('b, 'o) engine" where
  "createExecutionEngine broker overrides =
     \<lparr>en_broker = broker, en_safetyConfig = createExecutionSafetyConfig overrides,
      en_inFlightByIdempotencyKey = [], en_calls = [], en_waiting = [], en_results = [], en_nextRequest = 0\<rparr>"

section \<open>Steps\<close>

definition answer :: "nat \<Rightarrow> order_submission \<Rightarrow> 'o execution_result \<Rightarrow> ('b, 'o) engine \<Rightarrow> ('b, 'o) engine" where
  "answer i s r en = en\<lparr>en_results := en_results en @ [(i, s, r)]\<rparr>"

definition callBroker ::
  "(order_submission \<Rightarrow> 'b \<Rightarrow> 'b \<times> 'o result) \<Rightarrow> order_submission \<Rightarrow> ('b, 'o) engine \<Rightarrow> ('b, 'o) engine" where
  "callBroker submit s en =
     (case submit s (en_broker en) of (broker, r) \<Rightarrow>
        en\<lparr>en_broker := broker,
           en_calls := en_calls en @ [\<lparr>bc_submission = s, bc_result = r, bc_settled = False\<rparr>],
           en_inFlightByIdempotencyKey := AList.update (oi_idempotencyKey (os_intent s))
             \<lparr>fl_fingerprint = submissionFingerprint s, fl_brokerSubmission = length (en_calls en)\<rparr>
             (en_inFlightByIdempotencyKey en),
           en_waiting := en_waiting en @ [(en_nextRequest en,
             \<lparr>wr_submission = s, wr_call = length (en_calls en), wr_owner = True\<rparr>)]\<rparr>)"

definition receive ::
  "(order_submission \<Rightarrow> 'b \<Rightarrow> 'b \<times> 'o result) \<Rightarrow> order_submission \<Rightarrow> ('b, 'o) engine \<Rightarrow> ('b, 'o) engine" where
  "receive submit s en =
     (let i = en_nextRequest en; key = oi_idempotencyKey (os_intent s);
          en' = (case validateExecutionSubmission s (en_safetyConfig en) of
              Some rejection \<Rightarrow> answer i s (EX_REJECTED rejection) en
            | None \<Rightarrow>
               (case map_of (en_inFlightByIdempotencyKey en) key of
                  Some existing \<Rightarrow>
                    (let mismatches = compareOrderIntentEvidence (fl_fingerprint existing) (submissionFingerprint s)
                     in if mismatches \<noteq> [] then
                          answer i s (EX_REJECTED \<lparr>xr_reasonCode = idempotency_key_collision,
                            xr_metadata = Some [(''idempotency_key'', JStr key), (''mismatches'', JObj mismatches)]\<rparr>) en
                        else en\<lparr>en_waiting := en_waiting en @ [(i,
                            \<lparr>wr_submission = s, wr_call = fl_brokerSubmission existing, wr_owner = False\<rparr>)]\<rparr>)
                | None \<Rightarrow> callBroker submit s en))
      in en'\<lparr>en_nextRequest := Suc i\<rparr>)"

definition settleCall :: "nat \<Rightarrow> ('b, 'o) engine \<Rightarrow> ('b, 'o) engine" where
  "settleCall c en =
     (if c < length (en_calls en)
      then en\<lparr>en_calls := (en_calls en)[c := (en_calls en ! c)\<lparr>bc_settled := True\<rparr>]\<rparr> else en)"

definition outcomeOf :: "bool \<Rightarrow> 'o result \<Rightarrow> 'o execution_result" where
  "outcomeOf owner r =
     (case r of Inl e \<Rightarrow> EX_FAILED e
      | Inr ord \<Rightarrow> if owner then EX_SUBMITTED ord else EX_DUPLICATE_SUPPRESSED ord)"

definition resume :: "nat \<Rightarrow> ('b, 'o) engine \<Rightarrow> ('b, 'o) engine" where
  "resume i en =
     (case map_of (en_waiting en) i of
        None \<Rightarrow> en
      | Some w \<Rightarrow>
          if wr_call w < length (en_calls en) \<and> bc_settled (en_calls en ! wr_call w) then
            answer i (wr_submission w) (outcomeOf (wr_owner w) (bc_result (en_calls en ! wr_call w)))
              (en\<lparr>en_waiting := AList.delete i (en_waiting en),
                  en_inFlightByIdempotencyKey :=
                    (if wr_owner w then AList.delete (oi_idempotencyKey (os_intent (wr_submission w)))
                        (en_inFlightByIdempotencyKey en)
                     else en_inFlightByIdempotencyKey en)\<rparr>)
          else en)"

text \<open>
  The steps of an engine over a broker. Each call of the broker happens at some instant \<open>t\<close>. The
  environment may move the broker at any time, as \<open>env\<close> allows.
\<close>

inductive engine_step ::
  "(timestamp \<Rightarrow> order_submission \<Rightarrow> 'b \<Rightarrow> 'b \<times> 'o result) \<Rightarrow> ('b \<Rightarrow> 'b \<Rightarrow> bool) \<Rightarrow>
   ('b, 'o) engine \<Rightarrow> ('b, 'o) engine \<Rightarrow> bool"
  for submit env where
  request: "engine_step submit env en (receive (submit t) s en)"
| settle: "c < length (en_calls en) \<Longrightarrow> engine_step submit env en (settleCall c en)"
| resumption: "map_of (en_waiting en) i = Some w \<Longrightarrow> bc_settled (en_calls en ! wr_call w) \<Longrightarrow>
    engine_step submit env en (resume i en)"
| environment: "env (en_broker en) b \<Longrightarrow> engine_step submit env en (en\<lparr>en_broker := b\<rparr>)"

inductive reachable_engine ::
  "(timestamp \<Rightarrow> order_submission \<Rightarrow> 'b \<Rightarrow> 'b \<times> 'o result) \<Rightarrow> ('b \<Rightarrow> 'b \<Rightarrow> bool) \<Rightarrow> 'b \<Rightarrow> safety_overrides \<Rightarrow>
   ('b, 'o) engine \<Rightarrow> bool"
  for submit env broker overrides where
  created: "reachable_engine submit env broker overrides (createExecutionEngine broker overrides)"
| stepped: "reachable_engine submit env broker overrides en \<Longrightarrow> engine_step submit env en en' \<Longrightarrow>
    reachable_engine submit env broker overrides en'"

section \<open>Invariant\<close>

text \<open>
  How the parts of the state agree: every waiting request waits for a call that was made; an entry in
  flight names a call with its key, for a submission with its fingerprint; the requests that made a
  call and still wait are, one to one, the entries in flight; and a call that is not settled has a
  request that waits for it and made it.
\<close>

definition requestsOk :: "('b, 'o) engine \<Rightarrow> bool" where
  "requestsOk en \<longleftrightarrow> distinct (map fst (en_waiting en)) \<and> distinct (map fst (en_results en)) \<and>
     (\<forall>i \<in> fst ` set (en_waiting en) \<union> fst ` set (en_results en). i < en_nextRequest en) \<and>
     fst ` set (en_waiting en) \<inter> fst ` set (en_results en) = {} \<and>
     (\<forall>i < en_nextRequest en. i \<in> fst ` set (en_waiting en) \<or> i \<in> fst ` set (en_results en))"

definition waitsFor :: "('b, 'o) engine \<Rightarrow> waiting_request \<Rightarrow> bool" where
  "waitsFor en w \<longleftrightarrow> wr_call w < length (en_calls en) \<and>
     (let c = bc_submission (en_calls en ! wr_call w) in
      if wr_owner w then c = wr_submission w
      else sameCandidate (os_intent c) (readSubmissionExpectedLossBps c)
             (os_intent (wr_submission w)) (readSubmissionExpectedLossBps (wr_submission w)))"

abbreviation wr_key :: "waiting_request \<Rightarrow> string" where
  "wr_key w \<equiv> oi_idempotencyKey (os_intent (wr_submission w))"

abbreviation owner :: "('b, 'o) engine \<Rightarrow> nat \<Rightarrow> waiting_request \<Rightarrow> bool" where
  "owner en i w \<equiv> (i, w) \<in> set (en_waiting en) \<and> wr_owner w"

definition inFlightOk :: "('b, 'o) engine \<Rightarrow> bool" where
  "inFlightOk en \<longleftrightarrow>
     (\<forall>i w. (i, w) \<in> set (en_waiting en) \<longrightarrow> waitsFor en w) \<and>
     (\<forall>i w. owner en i w \<longrightarrow> map_of (en_inFlightByIdempotencyKey en) (wr_key w) =
        Some \<lparr>fl_fingerprint = submissionFingerprint (wr_submission w), fl_brokerSubmission = wr_call w\<rparr>) \<and>
     (\<forall>key f. map_of (en_inFlightByIdempotencyKey en) key = Some f \<longrightarrow> (\<exists>i w. owner en i w \<and> wr_key w = key)) \<and>
     (\<forall>i w j v. owner en i w \<longrightarrow> owner en j v \<longrightarrow> wr_key w = wr_key v \<longrightarrow> i = j) \<and>
     (\<forall>c < length (en_calls en). \<not> bc_settled (en_calls en ! c) \<longrightarrow> (\<exists>i w. owner en i w \<and> wr_call w = c)) \<and>
     (\<forall>call \<in> set (en_calls en). validateExecutionSubmission (bc_submission call) (en_safetyConfig en) = None)"

lemma inFlightOkI:
  assumes "\<And>i w. (i, w) \<in> set (en_waiting en) \<Longrightarrow> waitsFor en w"
    and "\<And>i w. owner en i w \<Longrightarrow> map_of (en_inFlightByIdempotencyKey en) (wr_key w) =
        Some \<lparr>fl_fingerprint = submissionFingerprint (wr_submission w), fl_brokerSubmission = wr_call w\<rparr>"
    and "\<And>key f. map_of (en_inFlightByIdempotencyKey en) key = Some f \<Longrightarrow> \<exists>i w. owner en i w \<and> wr_key w = key"
    and "\<And>i w j v. owner en i w \<Longrightarrow> owner en j v \<Longrightarrow> wr_key w = wr_key v \<Longrightarrow> i = j"
    and "\<And>c. c < length (en_calls en) \<Longrightarrow> \<not> bc_settled (en_calls en ! c) \<Longrightarrow> \<exists>i w. owner en i w \<and> wr_call w = c"
    and "\<And>call. call \<in> set (en_calls en) \<Longrightarrow> validateExecutionSubmission (bc_submission call) (en_safetyConfig en) = None"
  shows "inFlightOk en"
  using assms unfolding inFlightOk_def by blast

lemma inFlightOkD:
  assumes "inFlightOk en"
  shows "(i, w) \<in> set (en_waiting en) \<Longrightarrow> waitsFor en w"
    and "owner en i w \<Longrightarrow> map_of (en_inFlightByIdempotencyKey en) (wr_key w) =
        Some \<lparr>fl_fingerprint = submissionFingerprint (wr_submission w), fl_brokerSubmission = wr_call w\<rparr>"
    and "map_of (en_inFlightByIdempotencyKey en) key = Some f \<Longrightarrow> \<exists>i w. owner en i w \<and> wr_key w = key"
    and "owner en i w \<Longrightarrow> owner en j v \<Longrightarrow> wr_key w = wr_key v \<Longrightarrow> i = j"
    and "c < length (en_calls en) \<Longrightarrow> \<not> bc_settled (en_calls en ! c) \<Longrightarrow> \<exists>i w. owner en i w \<and> wr_call w = c"
    and "call \<in> set (en_calls en) \<Longrightarrow> validateExecutionSubmission (bc_submission call) (en_safetyConfig en) = None"
  using assms unfolding inFlightOk_def by blast+

text \<open>An answer is what validation or the collision check said, or what a settled broker call returned.\<close>

definition sameSubmission :: "order_submission \<Rightarrow> order_submission \<Rightarrow> bool" where
  "sameSubmission s s' \<longleftrightarrow> sameCandidate (os_intent s) (readSubmissionExpectedLossBps s)
     (os_intent s') (readSubmissionExpectedLossBps s')"

fun justified :: "('b, 'o) engine \<Rightarrow> order_submission \<Rightarrow> 'o execution_result \<Rightarrow> bool" where
  "justified en s (EX_SUBMITTED ord) \<longleftrightarrow>
     (\<exists>call \<in> set (en_calls en). bc_settled call \<and> bc_result call = Inr ord \<and> bc_submission call = s)"
| "justified en s (EX_DUPLICATE_SUPPRESSED ord) \<longleftrightarrow>
     (\<exists>call \<in> set (en_calls en). bc_settled call \<and> bc_result call = Inr ord \<and> sameSubmission (bc_submission call) s)"
| "justified en s (EX_FAILED e) \<longleftrightarrow>
     (\<exists>call \<in> set (en_calls en). bc_settled call \<and> bc_result call = Inl e \<and>
        (bc_submission call = s \<or> sameSubmission (bc_submission call) s))"
| "justified en s (EX_REJECTED r) \<longleftrightarrow>
     validateExecutionSubmission s (en_safetyConfig en) = Some r \<or> xr_reasonCode r = idempotency_key_collision"

text \<open>What a request does: it is refused, joins a call in flight, or makes a call.\<close>

lemma receive_cases [consumes 1, case_names refused joined called]:
  assumes "en' = receive submit s en"
  obtains r where "en' = (answer (en_nextRequest en) s (EX_REJECTED r) en)\<lparr>en_nextRequest := Suc (en_nextRequest en)\<rparr>"
      "justified en s (EX_REJECTED r)"
  | f where "validateExecutionSubmission s (en_safetyConfig en) = None"
      "map_of (en_inFlightByIdempotencyKey en) (oi_idempotencyKey (os_intent s)) = Some f"
      "compareOrderIntentEvidence (fl_fingerprint f) (submissionFingerprint s) = []"
      "en' = en\<lparr>en_waiting := en_waiting en @ [(en_nextRequest en,
         \<lparr>wr_submission = s, wr_call = fl_brokerSubmission f, wr_owner = False\<rparr>)],
         en_nextRequest := Suc (en_nextRequest en)\<rparr>"
  | "validateExecutionSubmission s (en_safetyConfig en) = None"
      "map_of (en_inFlightByIdempotencyKey en) (oi_idempotencyKey (os_intent s)) = None"
      "en' = (callBroker submit s en)\<lparr>en_nextRequest := Suc (en_nextRequest en)\<rparr>"
proof (cases "validateExecutionSubmission s (en_safetyConfig en)")
  case (Some r)
  then show thesis using assms that(1) by (simp add: receive_def Let_def)
next
  case None
  show thesis
  proof (cases "map_of (en_inFlightByIdempotencyKey en) (oi_idempotencyKey (os_intent s))")
    case new: None
    then show thesis using assms None that(3) by (simp add: receive_def Let_def)
  next
    case (Some f)
    then show thesis using assms None that(1) that(2) [OF None Some]
      by (cases "compareOrderIntentEvidence (fl_fingerprint f) (submissionFingerprint s) = []")
        (simp_all add: receive_def Let_def)
  qed
qed

lemma waitsFor_cong:
  "waitsFor en w \<Longrightarrow> en_calls en' = en_calls en \<Longrightarrow> waitsFor en' w"
  by (simp add: waitsFor_def)

lemma waitsFor_append:
  "waitsFor en w \<Longrightarrow> en_calls en' = en_calls en @ cs \<Longrightarrow> waitsFor en' w"
  by (auto simp: waitsFor_def nth_append)

lemma callBroker_simps [simp]:
  "en_waiting (callBroker submit s en) = en_waiting en @ [(en_nextRequest en,
     \<lparr>wr_submission = s, wr_call = length (en_calls en), wr_owner = True\<rparr>)]"
  "en_results (callBroker submit s en) = en_results en"
  "en_nextRequest (callBroker submit s en) = en_nextRequest en"
  "en_safetyConfig (callBroker submit s en) = en_safetyConfig en"
  "en_broker (callBroker submit s en) = fst (submit s (en_broker en))"
  "en_calls (callBroker submit s en) = en_calls en @
     [\<lparr>bc_submission = s, bc_result = snd (submit s (en_broker en)), bc_settled = False\<rparr>]"
  "map_of (en_inFlightByIdempotencyKey (callBroker submit s en)) = (map_of (en_inFlightByIdempotencyKey en))
     (oi_idempotencyKey (os_intent s) \<mapsto>
       \<lparr>fl_fingerprint = submissionFingerprint s, fl_brokerSubmission = length (en_calls en)\<rparr>)"
  by (simp_all add: callBroker_def split: prod.split)

lemma answer_simps [simp]:
  "en_waiting (answer i s r en) = en_waiting en" "en_calls (answer i s r en) = en_calls en"
  "en_results (answer i s r en) = en_results en @ [(i, s, r)]"
  "en_inFlightByIdempotencyKey (answer i s r en) = en_inFlightByIdempotencyKey en"
  "en_nextRequest (answer i s r en) = en_nextRequest en" "en_broker (answer i s r en) = en_broker en"
  "en_safetyConfig (answer i s r en) = en_safetyConfig en"
  by (simp_all add: answer_def)

lemma inFlightOk_cong:
  assumes "inFlightOk en" and "en_waiting en' = en_waiting en" "en_calls en' = en_calls en"
    "en_inFlightByIdempotencyKey en' = en_inFlightByIdempotencyKey en" "en_safetyConfig en' = en_safetyConfig en"
  shows "inFlightOk en'"
  using assms(1) unfolding inFlightOk_def waitsFor_def assms(2-5) .

lemma inFlightOk_joined:
  assumes ok: "inFlightOk en"
    and f: "map_of (en_inFlightByIdempotencyKey en) (oi_idempotencyKey (os_intent s)) = Some f"
    and match: "compareOrderIntentEvidence (fl_fingerprint f) (submissionFingerprint s) = []"
    and en': "en_waiting en' = en_waiting en @ [(i, \<lparr>wr_submission = s, wr_call = fl_brokerSubmission f, wr_owner = False\<rparr>)]"
      "en_calls en' = en_calls en" "en_inFlightByIdempotencyKey en' = en_inFlightByIdempotencyKey en"
      "en_safetyConfig en' = en_safetyConfig en"
  shows "inFlightOk en'"
proof -
  obtain j v where v: "owner en j v" "wr_key v = oi_idempotencyKey (os_intent s)"
    using inFlightOkD(3) [OF ok f] by blast
  have fv: "f = \<lparr>fl_fingerprint = submissionFingerprint (wr_submission v), fl_brokerSubmission = wr_call v\<rparr>"
    using inFlightOkD(2) [OF ok v(1)] v(2) f by simp
  have "waitsFor en v" using inFlightOkD(1) [OF ok] v(1) by blast
  then have "waitsFor en' \<lparr>wr_submission = s, wr_call = fl_brokerSubmission f, wr_owner = False\<rparr>"
    using match v(1) fv by (simp add: waitsFor_def en' submissionFingerprint_def compare_fingerprints_iff)
  then have waits: "waitsFor en' w" if "(k, w) \<in> set (en_waiting en')" for k w
    using that waitsFor_cong [OF inFlightOkD(1) [OF ok] en'(2)] by (auto simp: en'(1))
  have own: "owner en' k w \<longleftrightarrow> owner en k w" for k w
    by (auto simp: en'(1))
  show ?thesis
    unfolding inFlightOk_def own en'(2-4) using waits inFlightOkD(2-6) [OF ok] by blast
qed

lemma inFlightOk_called:
  assumes ok: "inFlightOk en"
    and new: "map_of (en_inFlightByIdempotencyKey en) (oi_idempotencyKey (os_intent s)) = None"
    and valid: "validateExecutionSubmission s (en_safetyConfig en) = None"
  shows "inFlightOk (callBroker submit s en)"
proof (rule inFlightOkI)
  let ?en = "callBroker submit s en"
  let ?w = "\<lparr>wr_submission = s, wr_call = length (en_calls en), wr_owner = True\<rparr>"
  have old: "wr_key w \<noteq> oi_idempotencyKey (os_intent s)" if "owner en k w" for k w
    using inFlightOkD(2) [OF ok that] new by auto
  have own: "owner ?en k w \<longleftrightarrow> owner en k w \<or> (k, w) = (en_nextRequest en, ?w)" for k w
    by auto
  show "waitsFor ?en w" if "(k, w) \<in> set (en_waiting ?en)" for k w
  proof (cases "(k, w) \<in> set (en_waiting en)")
    case True
    then show ?thesis by (intro waitsFor_append [OF inFlightOkD(1) [OF ok True]]) simp
  next
    case False
    then have "w = ?w" using that by simp
    then show ?thesis by (simp add: waitsFor_def)
  qed
  show "map_of (en_inFlightByIdempotencyKey ?en) (wr_key w) =
      Some \<lparr>fl_fingerprint = submissionFingerprint (wr_submission w), fl_brokerSubmission = wr_call w\<rparr>"
    if "owner ?en k w" for k w
    using that old inFlightOkD(2) [OF ok] unfolding own by auto
  show "\<exists>k w. owner ?en k w \<and> wr_key w = key"
    if "map_of (en_inFlightByIdempotencyKey ?en) key = Some f" for key f
  proof (cases "key = oi_idempotencyKey (os_intent s)")
    case True
    then show ?thesis unfolding own by (intro exI [where x = "en_nextRequest en"] exI [where x = ?w]) simp
  next
    case False
    then show ?thesis using that inFlightOkD(3) [OF ok, of key f] unfolding own by auto
  qed
  show "k = l" if "owner ?en k w" "owner ?en l v" "wr_key w = wr_key v" for k w l v
  proof (cases "owner en k w \<and> owner en l v")
    case True
    then show ?thesis using inFlightOkD(4) [OF ok] that(3) by blast
  next
    case False
    then show ?thesis using that old [of k w] old [of l v] unfolding own by auto
  qed
  show "\<exists>k w. owner ?en k w \<and> wr_call w = c"
    if "c < length (en_calls ?en)" "\<not> bc_settled (en_calls ?en ! c)" for c
  proof (cases "c < length (en_calls en)")
    case True
    then show ?thesis using that inFlightOkD(5) [OF ok True] unfolding own by (auto simp: nth_append)
  next
    case False
    then have "c = length (en_calls en)" using that(1) by simp
    then show ?thesis unfolding own by (intro exI [where x = "en_nextRequest en"] exI [where x = ?w]) simp
  qed
  show "validateExecutionSubmission (bc_submission call) (en_safetyConfig ?en) = None"
    if "call \<in> set (en_calls ?en)" for call
    using that valid inFlightOkD(6) [OF ok] by auto
qed

lemma inFlightOk_receive:
  assumes ok: "inFlightOk en"
  shows "inFlightOk (receive submit s en)"
proof -
  obtain en' where en': "en' = receive submit s en" by simp
  then have "inFlightOk en'"
  proof (cases rule: receive_cases)
    case (refused r)
    then show ?thesis by (intro inFlightOk_cong [OF ok]) simp_all
  next
    case (joined f)
    then show ?thesis by (intro inFlightOk_joined [OF ok joined(2,3)]) simp_all
  next
    case called
    then show ?thesis
      by (intro inFlightOk_cong [OF inFlightOk_called [OF ok called(2,1)]]) simp_all
  qed
  then show ?thesis by (simp add: en')
qed

lemma settleCall_simps [simp]:
  "en_waiting (settleCall c en) = en_waiting en" "en_results (settleCall c en) = en_results en"
  "en_nextRequest (settleCall c en) = en_nextRequest en" "en_broker (settleCall c en) = en_broker en"
  "en_inFlightByIdempotencyKey (settleCall c en) = en_inFlightByIdempotencyKey en"
  "en_safetyConfig (settleCall c en) = en_safetyConfig en"
  "length (en_calls (settleCall c en)) = length (en_calls en)"
  by (simp_all add: settleCall_def)

lemma settleCall_nth:
  "k < length (en_calls en) \<Longrightarrow> en_calls (settleCall c en) ! k =
     (if k = c then (en_calls en ! k)\<lparr>bc_settled := True\<rparr> else en_calls en ! k)"
  by (simp add: settleCall_def nth_list_update)

lemma inFlightOk_settleCall:
  assumes ok: "inFlightOk en"
  shows "inFlightOk (settleCall c en)"
proof (rule inFlightOkI, unfold settleCall_simps)
  show "waitsFor (settleCall c en) w" if "(k, w) \<in> set (en_waiting en)" for k w
    using inFlightOkD(1) [OF ok that] by (auto simp: waitsFor_def settleCall_nth Let_def split: if_splits)
  show "\<exists>k w. owner en k w \<and> wr_call w = d" if "d < length (en_calls en)" "\<not> bc_settled (en_calls (settleCall c en) ! d)" for d
    using that inFlightOkD(5) [OF ok that(1)] by (auto simp: settleCall_nth split: if_splits)
  show "validateExecutionSubmission (bc_submission call) (en_safetyConfig en) = None"
    if call: "call \<in> set (en_calls (settleCall c en))" for call
  proof -
    obtain k where "k < length (en_calls en)" "call = en_calls (settleCall c en) ! k"
      using call by (auto simp: in_set_conv_nth)
    then show ?thesis using inFlightOkD(6) [OF ok nth_mem] by (simp add: settleCall_nth)
  qed
qed (use inFlightOkD [OF ok] in blast)+

text \<open>What a resumption does: it answers the request, and its owner frees the key.\<close>

definition released :: "nat \<Rightarrow> waiting_request \<Rightarrow> ('b, 'o) engine \<Rightarrow> ('b, 'o) engine" where
  "released i w en = en\<lparr>en_waiting := AList.delete i (en_waiting en),
     en_inFlightByIdempotencyKey := (if wr_owner w then AList.delete (wr_key w) (en_inFlightByIdempotencyKey en)
       else en_inFlightByIdempotencyKey en)\<rparr>"

lemma resume_eq:
  assumes "map_of (en_waiting en) i = Some w" and "bc_settled (en_calls en ! wr_call w)"
    and "wr_call w < length (en_calls en)"
  shows "resume i en =
    answer i (wr_submission w) (outcomeOf (wr_owner w) (bc_result (en_calls en ! wr_call w))) (released i w en)"
  using assms by (simp add: resume_def released_def)

lemma set_delete_iff [simp]: "(j, v) \<in> set (AList.delete i al) \<longleftrightarrow> (j, v) \<in> set al \<and> j \<noteq> i"
  by (auto simp: AList.delete_eq)

lemma released_simps [simp]:
  "(j, v) \<in> set (en_waiting (released i w en)) \<longleftrightarrow> (j, v) \<in> set (en_waiting en) \<and> j \<noteq> i"
  "en_waiting (released i w en) = AList.delete i (en_waiting en)"
  "en_calls (released i w en) = en_calls en" "en_results (released i w en) = en_results en"
  "en_nextRequest (released i w en) = en_nextRequest en" "en_broker (released i w en) = en_broker en"
  "en_safetyConfig (released i w en) = en_safetyConfig en"
  "map_of (en_inFlightByIdempotencyKey (released i w en)) key =
     (if wr_owner w \<and> key = wr_key w then None else map_of (en_inFlightByIdempotencyKey en) key)"
  by (auto simp: released_def delete_conv')

lemma inFlightOk_released:
  assumes ok: "inFlightOk en" and w: "map_of (en_waiting en) i = Some w"
    and distinct: "distinct (map fst (en_waiting en))" and settled: "bc_settled (en_calls en ! wr_call w)"
  shows "inFlightOk (released i w en)"
proof (rule inFlightOkI)
  let ?en = "released i w en"
  have own: "owner ?en j v \<longleftrightarrow> owner en j v \<and> j \<noteq> i" for j v
    by (simp only: released_simps(1)) blast
  have mem: "(i, w) \<in> set (en_waiting en)" using w by (rule map_of_SomeD)
  have same: "v = w" if "(i, v) \<in> set (en_waiting en)" for v
    using distinct that w by simp
  have other: "wr_key v \<noteq> wr_key w" if "owner en j v" "j \<noteq> i" "wr_owner w" for j v
    using inFlightOkD(4) [OF ok, of j v i w] that mem by blast
  show "waitsFor ?en v" if "(j, v) \<in> set (en_waiting ?en)" for j v
    using that by (intro waitsFor_cong [OF inFlightOkD(1) [OF ok, of j]]) auto
  show "map_of (en_inFlightByIdempotencyKey ?en) (wr_key v) =
      Some \<lparr>fl_fingerprint = submissionFingerprint (wr_submission v), fl_brokerSubmission = wr_call v\<rparr>"
    if "owner ?en j v" for j v
    using that other inFlightOkD(2) [OF ok] unfolding own released_simps(8) by auto
  show "\<exists>j v. owner ?en j v \<and> wr_key v = key"
    if f: "map_of (en_inFlightByIdempotencyKey ?en) key = Some f" for key f
  proof -
    have key: "\<not> (wr_owner w \<and> key = wr_key w)" "map_of (en_inFlightByIdempotencyKey en) key = Some f"
      using f unfolding released_simps(8) by (auto split: if_splits)
    then obtain j v where v: "owner en j v" "wr_key v = key" using inFlightOkD(3) [OF ok] by blast
    then have "j \<noteq> i" using key(1) same by blast
    then show ?thesis using v unfolding own by blast
  qed
  show "j = k" if "owner ?en j v" "owner ?en k u" "wr_key v = wr_key u" for j v k u
    using that inFlightOkD(4) [OF ok] unfolding own by blast
  show "\<exists>j v. owner ?en j v \<and> wr_call v = c"
    if "c < length (en_calls ?en)" "\<not> bc_settled (en_calls ?en ! c)" for c
    using that inFlightOkD(5) [OF ok, of c] settled same unfolding own released_simps(3) by blast
  show "validateExecutionSubmission (bc_submission call) (en_safetyConfig ?en) = None"
    if "call \<in> set (en_calls ?en)" for call
    using that inFlightOkD(6) [OF ok] by simp
qed

section \<open>Requests\<close>

text \<open>Every request has a number; it waits or it has exactly one answer.\<close>

lemma requestsOk_alt:
  "requestsOk en \<longleftrightarrow> distinct (map fst (en_waiting en) @ map fst (en_results en)) \<and>
     set (map fst (en_waiting en) @ map fst (en_results en)) = {..<en_nextRequest en}"
  by (auto simp: requestsOk_def)

lemma requestsOk_receive:
  assumes "requestsOk en"
  shows "requestsOk (receive submit s en)"
proof -
  obtain en' where en': "en' = receive submit s en" by simp
  then have "requestsOk en'"
    by (cases rule: receive_cases) (use assms in \<open>auto simp: requestsOk_alt lessThan_Suc\<close>)
  then show ?thesis by (simp add: en')
qed

lemma requestsOk_released:
  assumes ok: "requestsOk en" and "map_of (en_waiting en) i = Some w"
  shows "requestsOk (answer i s r (released i w en))"
proof -
  have "i \<in> set (map fst (en_waiting en))" using map_of_SomeD [OF assms(2)] by force
  then show ?thesis using ok unfolding requestsOk_alt by (auto simp: delete_keys distinct_removeAll)
qed

definition resultsOk :: "('b, 'o) engine \<Rightarrow> bool" where
  "resultsOk en \<longleftrightarrow> (\<forall>i s r. (i, s, r) \<in> set (en_results en) \<longrightarrow> justified en s r)"

lemma justified_mono:
  assumes "justified en s r" and "en_safetyConfig en' = en_safetyConfig en"
    and "\<And>call. call \<in> set (en_calls en) \<Longrightarrow> bc_settled call \<Longrightarrow> call \<in> set (en_calls en')"
  shows "justified en' s r"
  using assms by (cases r) auto

lemma settled_kept: "call \<in> set (en_calls en) \<Longrightarrow> bc_settled call \<Longrightarrow> call \<in> set (en_calls (settleCall c en))"
proof -
  assume "call \<in> set (en_calls en)" and settled: "bc_settled call"
  then obtain k where k: "k < length (en_calls en)" "en_calls en ! k = call" by (auto simp: in_set_conv_nth)
  then have "en_calls (settleCall c en) ! k = call" using settled by (cases call) (auto simp: settleCall_nth)
  then show ?thesis using k(1) by (metis nth_mem settleCall_simps(7))
qed

lemma resultsOk_mono:
  assumes "resultsOk en" and "set (en_results en') \<subseteq> set (en_results en)" and "en_safetyConfig en' = en_safetyConfig en"
    and "\<And>call. call \<in> set (en_calls en) \<Longrightarrow> bc_settled call \<Longrightarrow> call \<in> set (en_calls en')"
  shows "resultsOk en'"
  using assms(1,2) justified_mono [OF _ assms(3,4)] unfolding resultsOk_def by blast

lemma resultsOk_answer:
  assumes "resultsOk en" and "justified en s r"
  shows "resultsOk (answer i s r en)"
  using assms justified_mono [of en _ _ "answer i s r en"] unfolding resultsOk_def by auto

lemma justified_outcome:
  assumes "waitsFor en w" and "bc_settled (en_calls en ! wr_call w)" and "en_calls en' = en_calls en"
  shows "justified en' (wr_submission w) (outcomeOf (wr_owner w) (bc_result (en_calls en ! wr_call w)))"
proof -
  let ?call = "en_calls en ! wr_call w"
  have "?call \<in> set (en_calls en')" using assms(1,3) by (simp add: waitsFor_def)
  moreover have "if wr_owner w then bc_submission ?call = wr_submission w
      else sameSubmission (bc_submission ?call) (wr_submission w)"
    using assms(1) by (simp add: waitsFor_def Let_def sameSubmission_def split: if_splits)
  ultimately show ?thesis using assms(2) by (auto simp: outcomeOf_def split: sum.split if_splits)
qed

lemma resultsOk_receive:
  assumes ok: "resultsOk en"
  shows "resultsOk (receive submit s en)"
proof -
  obtain en' where en': "en' = receive submit s en" by simp
  then have "resultsOk en'"
  proof (cases rule: receive_cases)
    case (refused r)
    then show ?thesis
      by (intro resultsOk_mono [OF resultsOk_answer [OF ok refused(2), of "en_nextRequest en"]]) simp_all
  next
    case (joined f)
    then show ?thesis by (intro resultsOk_mono [OF ok]) simp_all
  next
    case called
    then show ?thesis by (intro resultsOk_mono [OF ok]) simp_all
  qed
  then show ?thesis by (simp add: en')
qed

definition engineOk :: "('b, 'o) engine \<Rightarrow> bool" where
  "engineOk en \<longleftrightarrow> requestsOk en \<and> inFlightOk en \<and> resultsOk en"

lemma engineOk_created: "engineOk (createExecutionEngine broker overrides)"
  by (simp add: engineOk_def createExecutionEngine_def requestsOk_def inFlightOk_def resultsOk_def)

lemma engineOk_receive: "engineOk en \<Longrightarrow> engineOk (receive submit s en)"
  by (simp add: engineOk_def requestsOk_receive inFlightOk_receive resultsOk_receive)

lemma engineOk_settleCall: "engineOk en \<Longrightarrow> engineOk (settleCall c en)"
  using resultsOk_mono [of en "settleCall c en"] settled_kept [of _ en c]
  by (simp add: engineOk_def inFlightOk_settleCall requestsOk_def)

lemma engineOk_resume:
  assumes ok: "engineOk en" and w: "map_of (en_waiting en) i = Some w" and settled: "bc_settled (en_calls en ! wr_call w)"
  shows "engineOk (resume i en)"
proof -
  let ?out = "outcomeOf (wr_owner w) (bc_result (en_calls en ! wr_call w))"
  have parts: "requestsOk en" "inFlightOk en" "resultsOk en" using ok by (simp_all add: engineOk_def)
  have waits: "waitsFor en w" using inFlightOkD(1) [OF parts(2) map_of_SomeD [OF w]] .
  have eq: "resume i en = answer i (wr_submission w) ?out (released i w en)"
    by (rule resume_eq [OF w settled]) (use waits in \<open>simp add: waitsFor_def\<close>)
  have "inFlightOk (resume i en)" unfolding eq
    by (rule inFlightOk_cong [OF inFlightOk_released [OF parts(2) w _ settled]])
      (use parts(1) in \<open>simp_all add: requestsOk_def\<close>)
  moreover have "resultsOk (resume i en)" unfolding eq
    by (intro resultsOk_answer resultsOk_mono [OF parts(3)] justified_outcome [OF waits settled]) simp_all
  ultimately show ?thesis
    unfolding engineOk_def eq using requestsOk_released [OF parts(1) w] by simp
qed

lemma engineOk_step: "engine_step submit env en en' \<Longrightarrow> engineOk en \<Longrightarrow> engineOk en'"
proof (induction rule: engine_step.induct)
  case (environment en b)
  then show ?case
    using inFlightOk_cong [of en "en\<lparr>en_broker := b\<rparr>"] resultsOk_mono [of en "en\<lparr>en_broker := b\<rparr>"]
    by (simp add: engineOk_def requestsOk_def)
qed (simp_all add: engineOk_receive engineOk_settleCall engineOk_resume)

lemma reachable_engineOk: "reachable_engine submit env broker overrides en \<Longrightarrow> engineOk en"
  by (induction rule: reachable_engine.induct) (simp_all add: engineOk_created engineOk_step)

section \<open>Draining\<close>

lemma drain_one:
  assumes ok: "engineOk en" and w: "en_waiting en = (i, w) # ws"
  obtains en' where "(engine_step submit env)\<^sup>*\<^sup>* en en'" and "engineOk en'"
    and "en_waiting en' = ws" and "en_broker en' = en_broker en" and "length (en_calls en') = length (en_calls en)"
    and "en_nextRequest en' = en_nextRequest en"
proof -
  let ?c = "wr_call w" let ?en1 = "settleCall ?c en" let ?en2 = "resume i ?en1"
  have ok1: "engineOk ?en1" by (rule engineOk_settleCall [OF ok])
  have c: "?c < length (en_calls en)"
    using ok w inFlightOkD(1) [of en i w] by (simp add: engineOk_def waitsFor_def)
  have w1: "map_of (en_waiting ?en1) i = Some w" by (simp add: w)
  have settled: "bc_settled (en_calls ?en1 ! ?c)" using c by (simp add: settleCall_nth)
  have eq: "?en2 = answer i (wr_submission w) (outcomeOf (wr_owner w) (bc_result (en_calls ?en1 ! ?c))) (released i w ?en1)"
    by (rule resume_eq [OF w1 settled]) (simp add: c)
  have "i \<notin> fst ` set ws" using ok w by (simp add: engineOk_def requestsOk_def)
  then have "en_waiting ?en2 = ws" unfolding eq by (simp add: w)
  moreover have "(engine_step submit env)\<^sup>*\<^sup>* en ?en2"
    using engine_step.settle [OF c, of submit env] engine_step.resumption [OF w1 settled, of submit env] by auto
  ultimately show thesis
    by (intro that [of ?en2] engineOk_resume [OF ok1 w1 settled]) (simp_all add: eq)
qed

lemma drain:
  assumes "engineOk en"
  shows "\<exists>en'. (engine_step submit env)\<^sup>*\<^sup>* en en' \<and> engineOk en' \<and> en_waiting en' = [] \<and>
    en_broker en' = en_broker en \<and> length (en_calls en') = length (en_calls en) \<and> en_nextRequest en' = en_nextRequest en"
  using assms
proof (induction "en_waiting en" arbitrary: en)
  case Nil
  then show ?case by auto
next
  case (Cons p ws)
  obtain i w where "p = (i, w)" by (rule prod.exhaust)
  then obtain en1 where en1: "(engine_step submit env)\<^sup>*\<^sup>* en en1" "engineOk en1"
    "en_waiting en1 = ws" "en_broker en1 = en_broker en" "length (en_calls en1) = length (en_calls en)"
    "en_nextRequest en1 = en_nextRequest en"
    using drain_one [OF Cons.prems] Cons.hyps(2) by metis
  then show ?case using Cons.hyps(1) [of en1] by (auto intro: rtranclp_trans)
qed

lemma idle_no_in_flight:
  assumes "inFlightOk en" and "en_waiting en = []"
  shows "en_inFlightByIdempotencyKey en = []"
proof (cases "en_inFlightByIdempotencyKey en")
  case (Cons p ps)
  then have "map_of (en_inFlightByIdempotencyKey en) (fst p) = Some (snd p)" by (cases p) simp
  then show ?thesis using inFlightOkD(3) [OF assms(1)] assms(2) by fastforce
qed

section \<open>Engine and idempotent broker\<close>

text \<open>
  An engine over a broker that keeps the contract \<open>broker_port\<close>, in an environment that keeps the
  registered orders as they are (market data arrives, other orders are placed).
\<close>

locale execution_broker = broker_port submit inv
  for submit :: "timestamp \<Rightarrow> order_submission \<Rightarrow> 'b \<Rightarrow> 'b \<times> 'o result" and inv :: "'b \<Rightarrow> bool" +
  fixes env :: "'b \<Rightarrow> 'b \<Rightarrow> bool"
  assumes env_inv: "env b b' \<Longrightarrow> inv b \<Longrightarrow> inv b'"
    and env_registered: "env b b' \<Longrightarrow> inv b \<Longrightarrow> submit t s b = (b, Inr ord) \<Longrightarrow> submit t s b' = (b', Inr ord)"
begin

definition callsRegistered :: "('b, 'o) engine \<Rightarrow> bool" where
  "callsRegistered en \<longleftrightarrow> inv (en_broker en) \<and> (\<forall>call \<in> set (en_calls en). \<forall>ord t. bc_result call = Inr ord \<longrightarrow>
     submit t (bc_submission call) (en_broker en) = (en_broker en, Inr ord))"

lemma callsRegistered_call:
  assumes ok: "callsRegistered en"
  shows "callsRegistered (callBroker (submit t0) s en)"
proof -
  let ?b = "en_broker en" let ?b' = "fst (submit t0 s ?b)"
  have inv: "inv ?b" using ok by (simp add: callsRegistered_def)
  have new: "submit t s ?b' = (?b', Inr ord)" if "snd (submit t0 s ?b) = Inr ord" for t ord
    by (rule submit_registers [OF inv, of t0 s]) (simp add: that [symmetric])
  have old: "submit t (bc_submission call) ?b' = (?b', Inr ord)"
    if "call \<in> set (en_calls en)" "bc_result call = Inr ord" for call ord t
    by (rule registered_kept [OF inv]) (use ok that in \<open>simp add: callsRegistered_def\<close>)
  show ?thesis unfolding callsRegistered_def using inv_submit [OF inv] new old by auto
qed

lemma callsRegistered_receive: "callsRegistered en \<Longrightarrow> callsRegistered (receive (submit t) s en)"
proof -
  assume ok: "callsRegistered en"
  obtain en' where en': "en' = receive (submit t) s en" by simp
  then have "callsRegistered en'"
    by (cases rule: receive_cases) (use ok callsRegistered_call [OF ok] in \<open>simp_all add: callsRegistered_def\<close>)
  then show ?thesis by (simp add: en')
qed

lemma settled_from:
  assumes "call \<in> set (en_calls (settleCall c en))"
  obtains call' where "call' \<in> set (en_calls en)" "bc_submission call = bc_submission call'" "bc_result call = bc_result call'"
proof -
  obtain k where k: "k < length (en_calls en)" "call = en_calls (settleCall c en) ! k"
    using assms by (auto simp: in_set_conv_nth)
  then show thesis by (intro that [of "en_calls en ! k"]) (simp_all add: settleCall_nth)
qed

lemma callsRegistered_step: "engine_step submit env en en' \<Longrightarrow> callsRegistered en \<Longrightarrow> callsRegistered en'"
proof (induction rule: engine_step.induct)
  case (settle c en)
  then show ?case unfolding callsRegistered_def by (auto elim: settled_from)
next
  case (resumption en i w)
  have "en_calls (resume i en) = en_calls en" "en_broker (resume i en) = en_broker en"
    by (simp_all add: resume_def split: option.split)
  then show ?case using resumption by (simp add: callsRegistered_def)
next
  case (environment en b)
  then show ?case using env_inv env_registered by (auto simp: callsRegistered_def)
qed (rule callsRegistered_receive)

lemma reachable_registered:
  "reachable_engine submit env broker overrides en \<Longrightarrow> inv broker \<Longrightarrow> callsRegistered en"
proof (induction rule: reachable_engine.induct)
  case created
  then show ?case by (simp add: callsRegistered_def createExecutionEngine_def)
next
  case (stepped en en')
  then show ?case by (blast intro: callsRegistered_step)
qed

lemma registered_answer:
  assumes "callsRegistered en" and "justified en s (EX_SUBMITTED ord)"
  shows "submit t s (en_broker en) = (en_broker en, Inr ord)"
  using assms unfolding callsRegistered_def by auto

text \<open>A retry of the same submission is answered with the same order, however often and whenever it comes.\<close>

lemma retry_same_order:
  assumes "reachable_engine submit env broker overrides en" and "inv broker"
    and "(i, s, EX_SUBMITTED ord) \<in> set (en_results en)" and "(j, s, EX_SUBMITTED ord') \<in> set (en_results en)"
  shows "ord = ord'"
proof -
  have "resultsOk en" using reachable_engineOk [OF assms(1)] by (simp add: engineOk_def)
  then have "justified en s (EX_SUBMITTED ord)" "justified en s (EX_SUBMITTED ord')"
    using assms(3,4) unfolding resultsOk_def by blast+
  then show ?thesis using registered_answer [OF reachable_registered [OF assms(1,2)], of s] by (metis Pair_inject sum.inject(2))
qed

end

text \<open>The paper broker as the engine's broker, with market data arriving at any time.\<close>

definition marketDataMoves :: "paper_broker \<Rightarrow> paper_broker \<Rightarrow> bool" where
  "marketDataMoves b b' \<longleftrightarrow> (\<exists>snapshot. b' = fst (recordOrderbookSnapshot snapshot b)) \<or>
     (\<exists>snapshots. b' = fst (replaceOrderbookSnapshots snapshots b))"

lemma marketDataMoves_frame:
  assumes "marketDataMoves b b'"
  obtains ws where "b' = b\<lparr>pb_orderbooksByMarket := ws\<rparr>"
  using assms unfolding marketDataMoves_def
proof (elim disjE exE)
  fix snapshot assume "b' = fst (recordOrderbookSnapshot snapshot b)"
  then show thesis using recordOrderbookSnapshot_frame [of snapshot b] that by metis
next
  fix snapshots assume "b' = fst (replaceOrderbookSnapshots snapshots b)"
  then show thesis using recordAll_frame [of snapshots "b\<lparr>pb_orderbooksByMarket := []\<rparr>"] that
    by (auto simp: replaceOrderbookSnapshots_def)
qed

interpretation paper_engine: execution_broker "submitOrder rnd" indexOk marketDataMoves for rnd
proof unfold_locales
  show "indexOk b'" if "marketDataMoves b b'" "indexOk b" for b b'
    using that by (elim marketDataMoves_frame) (simp add: indexOk_cong)
  show "submitOrder rnd t s b' = (b', Inr ord)"
    if moves: "marketDataMoves b b'" and sub: "submitOrder rnd t s b = (b, Inr ord)" for b b' t s ord
  proof -
    obtain ws where "b' = b\<lparr>pb_orderbooksByMarket := ws\<rparr>" using moves by (rule marketDataMoves_frame)
    then show ?thesis using submit_registered [OF sub] by (intro registered_submit) (simp add: registered_def)
  qed
qed

section \<open>A worked example\<close>

text \<open>
  A buy of one unit for at most 100 with allowing evidence; it is submitted, submitted again while the
  first call is in flight, and once more after the first call has been answered.
\<close>

definition exampleFingerprint :: json where
  "exampleFingerprint = JObj (createOrderIntentEvidence (exampleIntent None None) (Some (Amount (Num 7))))"

definition exampleEntrySubmission :: order_submission where
  "exampleEntrySubmission = (exampleSubmission None None)\<lparr>
     os_costSnapshot := JObj (createExecutionCostSnapshotEvidence
       [(''exchange_id'', JStr ''UPBIT''), (''market'', JStr ''KRW-BTC''), (''trade_allowed'', JBool True),
        (''reason_code'', JStr ''cost_margin_ok'')] (exampleIntent None None) (Some (Amount (Num 7)))),
     os_riskApproval := JObj [(''source'', JStr ''risk_gate''), (''approved'', JBool True), (''status'', JStr ''PASS''),
       (''action'', JStr ''ALLOW''), (''order_intent'', exampleFingerprint)],
     os_expectedLossBpsOfEquity := Some (Num 7)\<rparr>"

lemma exampleEntry_intent: "os_intent exampleEntrySubmission = exampleIntent None None"
  by (simp add: exampleEntrySubmission_def exampleSubmission_def)

lemma exampleEntry_fits: "fingerprintFits exampleEntrySubmission (Some exampleFingerprint)"
  unfolding exampleFingerprint_def fingerprintFits_created
  by (simp add: sameCandidate_refl exampleEntry_intent readSubmissionExpectedLossBps_def orElse_def
      exampleEntrySubmission_def lossValue_def exampleSubmission_def)

lemma exampleEntry_accepted:
  "validateExecutionSubmission exampleEntrySubmission defaultPaperExecutionSafetyConfig = None"
proof -
  have "riskEvidenceOk exampleEntrySubmission" "entryCostOk exampleEntrySubmission"
    using exampleEntry_fits
    by (simp_all add: riskEvidenceOk_def entryCostOk_def exampleEntry_intent)
      (simp_all add: exampleEntrySubmission_def createExecutionCostSnapshotEvidence_def exampleFingerprint_def
        exampleIntent_def)
  moreover have "positiveAmounts (exampleIntent None None)"
    by (simp add: positiveAmounts_def exampleIntent_def isPositiveText_def)
  moreover have "isEntryMarketOrderIntent (exampleIntent None None)" "noExitMetadata (exampleIntent None None)"
    by (simp_all add: isEntryMarketOrderIntent_def noExitMetadata_def readOrderIntentPositionEffect_def
        readStringMetadata_def orElse_def exampleIntent_def)
  ultimately show ?thesis
    by (simp add: validate_accepts_iff acceptable_def exampleEntry_intent defaultPaperExecutionSafetyConfig_def
        orderTypeAllowed_def)
      (simp add: exampleIntent_def trim_def isSpace_def)
qed

definition noOverrides :: safety_overrides where
  "noOverrides = \<lparr>so_liveTradingEnabled = None, so_marketOrderEnabled = None,
     so_entryMarketOrderEnabled = None, so_paperNoKey = None\<rparr>"

definition exampleEngine :: "nat \<Rightarrow> (paper_broker, broker_order) engine" where
  "exampleEngine n = (let submit = submitOrder exactRound (At 9) in
     fold (\<lambda>f. f) (take n [receive submit exampleEntrySubmission, receive submit exampleEntrySubmission,
       settleCall 0, resume 0, resume 1, receive submit exampleEntrySubmission, settleCall 1, resume 2])
       (createExecutionEngine exampleBroker noOverrides))"

lemma submitOrder_ignores_evidence:
  "submitOrder rnd t (s\<lparr>os_costSnapshot := c, os_riskApproval := r, os_expectedLossBpsOfEquity := l\<rparr>) b =
   submitOrder rnd t s b"
proof -
  let ?s = "s\<lparr>os_costSnapshot := c, os_riskApproval := r, os_expectedLossBpsOfEquity := l\<rparr>"
  have parts: "os_intent ?s = os_intent s" "os_submittedAt ?s = os_submittedAt s" by simp_all
  show ?thesis
    unfolding submitOrder_def settleSubmission_def createFillSimulationRequest_def
      createRejectedBrokerOrder_def createBrokerOrderFromSimulation_def Let_def parts ..
qed

lemma exampleEntry_submitted:
  obtains b ord where "submitOrder exactRound (At 9) exampleEntrySubmission exampleBroker = (b, Inr ord)"
    and "bo_status ord = PARTIALLY_FILLED"
    and "submitOrder exactRound (At 9) exampleEntrySubmission b = (b, Inr ord)"
proof -
  obtain b ord where sub: "submitOrder exactRound (At 9) exampleEntrySubmission exampleBroker = (b, Inr ord)"
    "bo_status ord = PARTIALLY_FILLED"
    using example_submitted by (auto simp: exampleEntrySubmission_def submitOrder_ignores_evidence)
  then show thesis by (intro that [of b ord] registered_submit [OF submit_registered])
qed

lemma exampleEngine_steps:
  "exampleEngine 0 = createExecutionEngine exampleBroker noOverrides"
  "exampleEngine 1 = receive (submitOrder exactRound (At 9)) exampleEntrySubmission (exampleEngine 0)"
  "exampleEngine 2 = receive (submitOrder exactRound (At 9)) exampleEntrySubmission (exampleEngine 1)"
  "exampleEngine 3 = settleCall 0 (exampleEngine 2)" "exampleEngine 4 = resume 0 (exampleEngine 3)"
  "exampleEngine 5 = resume 1 (exampleEngine 4)"
  "exampleEngine 6 = receive (submitOrder exactRound (At 9)) exampleEntrySubmission (exampleEngine 5)"
  "exampleEngine 7 = settleCall 1 (exampleEngine 6)" "exampleEngine 8 = resume 2 (exampleEngine 7)"
  by (simp_all add: exampleEngine_def Let_def)

lemma exampleEngine_states:
  obtains b ord where
    "exampleEngine 2 = \<lparr>en_broker = b, en_safetyConfig = defaultPaperExecutionSafetyConfig,
       en_inFlightByIdempotencyKey = [(''k1'', \<lparr>fl_fingerprint = submissionFingerprint exampleEntrySubmission, fl_brokerSubmission = 0\<rparr>)],
       en_calls = [\<lparr>bc_submission = exampleEntrySubmission, bc_result = Inr ord, bc_settled = False\<rparr>],
       en_waiting = [(0, \<lparr>wr_submission = exampleEntrySubmission, wr_call = 0, wr_owner = True\<rparr>),
         (1, \<lparr>wr_submission = exampleEntrySubmission, wr_call = 0, wr_owner = False\<rparr>)],
       en_results = [], en_nextRequest = 2\<rparr>"
    and "exampleEngine 6 = \<lparr>en_broker = b, en_safetyConfig = defaultPaperExecutionSafetyConfig,
       en_inFlightByIdempotencyKey = [(''k1'', \<lparr>fl_fingerprint = submissionFingerprint exampleEntrySubmission, fl_brokerSubmission = 1\<rparr>)],
       en_calls = [\<lparr>bc_submission = exampleEntrySubmission, bc_result = Inr ord, bc_settled = True\<rparr>,
         \<lparr>bc_submission = exampleEntrySubmission, bc_result = Inr ord, bc_settled = False\<rparr>],
       en_waiting = [(2, \<lparr>wr_submission = exampleEntrySubmission, wr_call = 1, wr_owner = True\<rparr>)],
       en_results = [(0, exampleEntrySubmission, EX_SUBMITTED ord), (1, exampleEntrySubmission, EX_DUPLICATE_SUPPRESSED ord)],
       en_nextRequest = 3\<rparr>"
    and "bo_status ord = PARTIALLY_FILLED"
proof -
  obtain b ord where sub: "submitOrder exactRound (At 9) exampleEntrySubmission exampleBroker = (b, Inr ord)"
    "bo_status ord = PARTIALLY_FILLED" "submitOrder exactRound (At 9) exampleEntrySubmission b = (b, Inr ord)"
    by (rule exampleEntry_submitted)
  have config: "createExecutionSafetyConfig noOverrides = defaultPaperExecutionSafetyConfig"
    by (simp add: createExecutionSafetyConfig_def noOverrides_def defaultPaperExecutionSafetyConfig_def)
  have key: "oi_idempotencyKey (exampleIntent None None) = ''k1''" by (simp add: exampleIntent_def)
  have match: "compareOrderIntentEvidence (submissionFingerprint exampleEntrySubmission)
      (submissionFingerprint exampleEntrySubmission) = []"
    by (simp add: submissionFingerprint_def compare_fingerprints_iff sameCandidate_refl lossValue_def
        readSubmissionExpectedLossBps_def exampleEntrySubmission_def orElse_def)
  note eval = createExecutionEngine_def receive_def callBroker_def answer_def settleCall_def resume_def outcomeOf_def
    Let_def config key match exampleEntry_accepted exampleEntry_intent sub
  have e2: "exampleEngine 2 = \<lparr>en_broker = b, en_safetyConfig = defaultPaperExecutionSafetyConfig,
       en_inFlightByIdempotencyKey = [(''k1'', \<lparr>fl_fingerprint = submissionFingerprint exampleEntrySubmission, fl_brokerSubmission = 0\<rparr>)],
       en_calls = [\<lparr>bc_submission = exampleEntrySubmission, bc_result = Inr ord, bc_settled = False\<rparr>],
       en_waiting = [(0, \<lparr>wr_submission = exampleEntrySubmission, wr_call = 0, wr_owner = True\<rparr>),
         (1, \<lparr>wr_submission = exampleEntrySubmission, wr_call = 0, wr_owner = False\<rparr>)],
       en_results = [], en_nextRequest = 2\<rparr>"
    unfolding exampleEngine_steps(1-3) by (simp add: eval)
  show thesis
    by (rule that [OF e2 _ sub(2)], unfold exampleEngine_steps(4-7) e2) (simp add: eval)
qed

lemma exampleEngine_reachable:
  "reachable_engine (submitOrder exactRound) marketDataMoves exampleBroker noOverrides (exampleEngine 2)"
  "reachable_engine (submitOrder exactRound) marketDataMoves exampleBroker noOverrides (exampleEngine 8)"
proof -
  let ?R = "\<lambda>n. reachable_engine (submitOrder exactRound) marketDataMoves exampleBroker noOverrides (exampleEngine n)"
  let ?w = "\<lambda>c own. \<lparr>wr_submission = exampleEntrySubmission, wr_call = c, wr_owner = own\<rparr>"
  obtain b ord where e2: "exampleEngine 2 = \<lparr>en_broker = b, en_safetyConfig = defaultPaperExecutionSafetyConfig,
       en_inFlightByIdempotencyKey = [(''k1'', \<lparr>fl_fingerprint = submissionFingerprint exampleEntrySubmission, fl_brokerSubmission = 0\<rparr>)],
       en_calls = [\<lparr>bc_submission = exampleEntrySubmission, bc_result = Inr ord, bc_settled = False\<rparr>],
       en_waiting = [(0, \<lparr>wr_submission = exampleEntrySubmission, wr_call = 0, wr_owner = True\<rparr>),
         (1, \<lparr>wr_submission = exampleEntrySubmission, wr_call = 0, wr_owner = False\<rparr>)],
       en_results = [], en_nextRequest = 2\<rparr>"
    and e6: "length (en_calls (exampleEngine 6)) = 2"
      "en_waiting (exampleEngine 6) = [(2, \<lparr>wr_submission = exampleEntrySubmission, wr_call = 1, wr_owner = True\<rparr>)]"
    by (rule exampleEngine_states) auto
  note step = reachable_engine.stepped
  have "?R 1" unfolding exampleEngine_steps(2)
    by (rule step [OF _ request]) (simp add: exampleEngine_steps(1) created)
  then show r2: "?R 2" unfolding exampleEngine_steps(3) by (rule step [OF _ request])
  have "?R 3" unfolding exampleEngine_steps(4) by (rule step [OF r2 settle]) (simp add: e2)
  then have "?R 4" unfolding exampleEngine_steps(5)
    by (rule step [OF _ resumption [where i = 0 and w = "?w 0 True"]]) (simp_all add: exampleEngine_steps(4) e2 settleCall_def)
  then have "?R 5" unfolding exampleEngine_steps(6)
    by (rule step [OF _ resumption [where i = 1 and w = "?w 0 False"]]) (simp_all add: exampleEngine_steps(4,5) e2 settleCall_def resume_def answer_def)
  then have "?R 6" unfolding exampleEngine_steps(7) by (rule step [OF _ request])
  then have "?R 7" unfolding exampleEngine_steps(8) by (rule step [OF _ settle]) (simp add: e6)
  then show "?R 8" unfolding exampleEngine_steps(9)
    by (rule step [OF _ resumption [where i = 2 and w = "?w 1 True"]]) (simp_all add: exampleEngine_steps(8) e6 settleCall_nth)
qed

section \<open>Properties\<close>

text \<open>
  C12. One broker call per key at a time. In every reachable state of the engine, over any broker and
  in any environment, two broker calls with the same idempotency key that have not settled are the
  same call, and the broker was only ever called with submissions that pass validation.
\<close>

theorem engine_one_call_per_key:
  assumes reach: "reachable_engine submit env broker overrides en"
  shows "(\<forall>c < length (en_calls en). \<forall>d < length (en_calls en).
      \<not> bc_settled (en_calls en ! c) \<longrightarrow> \<not> bc_settled (en_calls en ! d) \<longrightarrow>
      oi_idempotencyKey (os_intent (bc_submission (en_calls en ! c))) =
      oi_idempotencyKey (os_intent (bc_submission (en_calls en ! d))) \<longrightarrow> c = d) \<and>
    (\<forall>call \<in> set (en_calls en). validateExecutionSubmission (bc_submission call) (en_safetyConfig en) = None)"
proof (intro conjI allI impI ballI)
  have ok: "inFlightOk en" "requestsOk en" using reachable_engineOk [OF reach] by (simp_all add: engineOk_def)
  fix c d
  assume cd: "c < length (en_calls en)" "d < length (en_calls en)"
    "\<not> bc_settled (en_calls en ! c)" "\<not> bc_settled (en_calls en ! d)"
    and key: "oi_idempotencyKey (os_intent (bc_submission (en_calls en ! c))) =
      oi_idempotencyKey (os_intent (bc_submission (en_calls en ! d)))"
  obtain i w j v where own: "owner en i w" "wr_call w = c" "owner en j v" "wr_call v = d"
    using inFlightOkD(5) [OF ok(1)] cd by meson
  have "wr_key w = wr_key v"
    using inFlightOkD(1) [OF ok(1)] own key unfolding waitsFor_def by (metis (mono_tags, lifting))
  then have "i = j" using inFlightOkD(4) [OF ok(1) own(1,3)] by simp
  then have "w = v" using own ok(2) by (metis eq_key_imp_eq_value requestsOk_def)
  then show "c = d" using own by simp
next
  fix call assume "call \<in> set (en_calls en)"
  then show "validateExecutionSubmission (bc_submission call) (en_safetyConfig en) = None"
    using reachable_engineOk [OF reach] by (simp add: engineOk_def inFlightOk_def)
qed

theorem engine_one_call_per_key_witness:
  "\<exists>call. en_calls (exampleEngine 2) = [call] \<and> \<not> bc_settled call \<and>
     validateExecutionSubmission (bc_submission call) (en_safetyConfig (exampleEngine 2)) = None"
proof -
  obtain call where "en_calls (exampleEngine 2) = [call]" "\<not> bc_settled call" by (rule exampleEngine_states) simp
  then show ?thesis using engine_one_call_per_key [OF exampleEngine_reachable(1)] by simp
qed

text \<open>
  Every request is answered once, and truthfully. In every reachable state each request that came
  in either waits or has exactly one answer. An order reported as submitted is what the broker
  returned for that very submission, one reported for a suppressed duplicate is what the broker
  returned for a submission of the same candidate, and a rejection is that of validation or of the
  collision check.
\<close>

theorem engine_answers_once:
  assumes "reachable_engine submit env broker overrides en"
  shows "distinct (map fst (en_waiting en) @ map fst (en_results en)) \<and>
    set (map fst (en_waiting en) @ map fst (en_results en)) = {..<en_nextRequest en} \<and>
    list_all (\<lambda>(i, s, r). justified en s r) (en_results en)"
  using reachable_engineOk [OF assms] unfolding engineOk_def requestsOk_alt resultsOk_def list_all_iff by blast

theorem engine_answers_once_witness:
  "map fst (en_waiting (exampleEngine 2)) = [0, 1] \<and> distinct (map fst (en_waiting (exampleEngine 2)) @ map fst (en_results (exampleEngine 2)))"
proof -
  have "map fst (en_waiting (exampleEngine 2)) = [0, 1]" by (rule exampleEngine_states) simp
  then show ?thesis using engine_answers_once [OF exampleEngine_reachable(1)] by blast
qed

text \<open>
  C13. The engine can always come to rest. From every reachable state, settling the calls that were
  made and resuming the requests that wait leads, without another broker call and without a change of
  the broker, to a state in which no request waits, every request is answered and no key is left in
  flight: the in-flight guard neither blocks a key for good nor leaks.
\<close>

theorem engine_comes_to_rest:
  assumes "reachable_engine submit env broker overrides en"
  shows "\<exists>en'. (engine_step submit env)\<^sup>*\<^sup>* en en' \<and> en_waiting en' = [] \<and> en_inFlightByIdempotencyKey en' = [] \<and>
    en_broker en' = en_broker en \<and> length (en_calls en') = length (en_calls en) \<and>
    set (map fst (en_results en')) = {..<en_nextRequest en}"
proof -
  obtain en' where en': "(engine_step submit env)\<^sup>*\<^sup>* en en'" "engineOk en'" "en_waiting en' = []"
    "en_broker en' = en_broker en" "length (en_calls en') = length (en_calls en)" "en_nextRequest en' = en_nextRequest en"
    using drain [OF reachable_engineOk [OF assms]] by blast
  then have "en_inFlightByIdempotencyKey en' = []" "set (map fst (en_results en')) = {..<en_nextRequest en}"
    using idle_no_in_flight unfolding engineOk_def requestsOk_alt by auto
  with en' show ?thesis by blast
qed

theorem engine_comes_to_rest_witness:
  "\<exists>en'. (engine_step (submitOrder exactRound) marketDataMoves)\<^sup>*\<^sup>* (exampleEngine 2) en' \<and> en_waiting en' = [] \<and>
     set (map fst (en_results en')) = {0, 1}"
proof -
  have "en_nextRequest (exampleEngine 2) = 2" by (rule exampleEngine_states) simp
  then have "{..<en_nextRequest (exampleEngine 2)} = {0, 1}" by auto
  then show ?thesis using engine_comes_to_rest [OF exampleEngine_reachable(1)] by auto
qed

text \<open>
A retry never creates a second order. Over the paper broker, with market data arriving at any
  time, any two answers "submitted" to the same submission report the same order, whether the second
  request came while the first was in flight or long after.
\<close>

theorem engine_retry_same_order:
  assumes "reachable_engine (submitOrder rnd) marketDataMoves broker overrides en" and "indexOk broker"
    and "(i, s, EX_SUBMITTED ord) \<in> set (en_results en)" and "(j, s, EX_SUBMITTED ord') \<in> set (en_results en)"
  shows "ord = ord'"
  by (rule paper_engine.retry_same_order [OF assms])

theorem engine_retry_same_order_witness:
  "\<exists>ord ord'. map snd (en_results (exampleEngine 8)) = [(exampleEntrySubmission, EX_SUBMITTED ord),
     (exampleEntrySubmission, EX_DUPLICATE_SUPPRESSED ord), (exampleEntrySubmission, EX_SUBMITTED ord')] \<and> ord = ord'"
proof -
  obtain ord ord' where r: "en_results (exampleEngine 8) = [(0, exampleEntrySubmission, EX_SUBMITTED ord),
     (1, exampleEntrySubmission, EX_DUPLICATE_SUPPRESSED ord), (2, exampleEntrySubmission, EX_SUBMITTED ord')]"
    by (rule exampleEngine_states)
      (simp add: exampleEngine_steps(8,9) settleCall_def resume_def answer_def outcomeOf_def)
  then have "ord = ord'"
    using engine_retry_same_order [OF exampleEngine_reachable(2) indexOk_created [OF example_created],
        of 0 exampleEntrySubmission ord 2 ord'] by simp
  then show ?thesis using r by simp
qed

end
