(* ===== verification/Kill_Switch_Control.thy ===== *)
theory Kill_Switch_Control
  imports Risk_Runtime
begin

text \<open>
  The kill switch as operators and automatic guards control it:
  \<^verbatim>\<open>src/src/application/risk/kill-switch-control.ts\<close> decides a request against the durable state, and
  \<^verbatim>\<open>src/src/infrastructure/db/kill-switch-control.ts\<close> applies it in a database transaction that also
  stores an audit event, a risk event and, for a hard stop, a job that cancels pending orders.
  A transaction first reads the durable row and later updates it on condition that its state is still
  the one read; under PostgreSQL's default isolation other transactions may commit in between, so the
  two are separate steps. An inserted row gets its position as its id. The text of an instant,
  \<^verbatim>\<open>Date.toISOString\<close>, is the parameter \<open>isoText\<close>.
\<close>

section \<open>Requests\<close>

datatype control_target = CT_NEW_ORDERS_BLOCKED | CT_HARD_STOP | CT_MANUAL_REVIEW_REQUIRED | CT_NORMAL

fun targetState :: "control_target \<Rightarrow> kill_switch_state" where
  "targetState CT_NEW_ORDERS_BLOCKED = KS_NEW_ORDERS_BLOCKED"
| "targetState CT_HARD_STOP = KS_HARD_STOP"
| "targetState CT_MANUAL_REVIEW_REQUIRED = KS_MANUAL_REVIEW_REQUIRED"
| "targetState CT_NORMAL = KS_NORMAL"

definition targetName :: "control_target \<Rightarrow> string" where
  "targetName t = killSwitchStateName (targetState t)"

definition killSwitchControlTargetStates :: "control_target list" where
  "killSwitchControlTargetStates = [CT_NEW_ORDERS_BLOCKED, CT_HARD_STOP, CT_MANUAL_REVIEW_REQUIRED, CT_NORMAL]"

definition isKillSwitchControlTargetState :: "json \<Rightarrow> bool" where
  "isKillSwitchControlTargetState v \<longleftrightarrow> v \<in> set (map (\<lambda>t. JStr (targetName t)) killSwitchControlTargetStates)"

record control_request =
  cr_targetState :: control_target
  cr_reasonCode :: string
  cr_correlationId :: string
  cr_actor :: "string option"
  cr_message :: "string option"
  cr_metadata :: "json_record option"
  cr_occurredAt :: "timestamp option"

record control_result =
  cs_transition :: "kill_switch_state transition_decision"
  cs_actionPlan :: kill_switch_action_plan
  cs_reasonMatchesTarget :: bool
  cs_recommendedTargetState :: "control_target option"

section \<open>Reason codes\<close>

definition canonicalizeKillSwitchReasonCode :: "string \<Rightarrow> string" where
  "canonicalizeKillSwitchReasonCode reasonCode = toLowerCase (trim reasonCode)"

definition killSwitchTargetStateByReasonCode :: "(string \<times> control_target) list" where
  "killSwitchTargetStateByReasonCode =
     [(''audit_persistence_failure'', CT_HARD_STOP), (''db_write_failure'', CT_HARD_STOP),
      (''duplicate_order_idempotency_key'', CT_HARD_STOP), (''fill_order_accounting_mismatch'', CT_HARD_STOP),
      (''live_order_api_misuse_detected'', CT_HARD_STOP), (''order_idempotency_violation'', CT_HARD_STOP),
      (''risk_limit_calculation_unavailable'', CT_HARD_STOP),
      (''public_websocket_lag'', CT_NEW_ORDERS_BLOCKED), (''quote_freshness_insufficient'', CT_NEW_ORDERS_BLOCKED),
      (''stale_market_data'', CT_NEW_ORDERS_BLOCKED), (''transient_external_data_gap'', CT_NEW_ORDERS_BLOCKED),
      (''live_reconcile_mismatch'', CT_NEW_ORDERS_BLOCKED),
      (''abnormal_state_operator_review_required'', CT_MANUAL_REVIEW_REQUIRED),
      (''live_reconcile_identity_conflict'', CT_MANUAL_REVIEW_REQUIRED),
      (''notification_consecutive_failure'', CT_MANUAL_REVIEW_REQUIRED),
      (''notification_failure_threshold_exceeded'', CT_MANUAL_REVIEW_REQUIRED),
      (''report_generation_repeated_failure'', CT_MANUAL_REVIEW_REQUIRED)]"

definition mapKillSwitchReasonToTargetState :: "string \<Rightarrow> control_target option" where
  "mapKillSwitchReasonToTargetState reasonCode =
     map_of killSwitchTargetStateByReasonCode (canonicalizeKillSwitchReasonCode reasonCode)"

section \<open>Decision\<close>

definition isLiveReconcileReason :: "string \<Rightarrow> bool" where
  "isLiveReconcileReason reasonCode \<longleftrightarrow> startsWith reasonCode ''live_reconcile_''"

definition resolveLiveReconcileEffectiveTargetState ::
  "kill_switch_state \<Rightarrow> control_target \<Rightarrow> string \<Rightarrow> control_target option" where
  "resolveLiveReconcileEffectiveTargetState currentState requested reasonCode =
     (if isLiveReconcileReason reasonCode \<and> currentState = KS_STRATEGY_PAUSED \<and> requested = CT_NEW_ORDERS_BLOCKED
      then Some CT_MANUAL_REVIEW_REQUIRED else None)"

definition isLiveReconcileDowngrade :: "kill_switch_state \<Rightarrow> control_target \<Rightarrow> string \<Rightarrow> bool" where
  "isLiveReconcileDowngrade currentState target reasonCode \<longleftrightarrow>
     isLiveReconcileReason reasonCode \<and>
     (let c = getKillSwitchActionPlan currentState; t = getKillSwitchActionPlan (targetState target)
      in newOrdersBlocked c \<and> \<not> newOrdersBlocked t \<or>
         strategyEvaluationBlocked c \<and> \<not> strategyEvaluationBlocked t \<or>
         cancelPendingPaperOrders c \<and> \<not> cancelPendingPaperOrders t \<or>
         requiresManualReview c \<and> \<not> requiresManualReview t \<or>
         autoLiquidateOpenPositions c \<and> \<not> autoLiquidateOpenPositions t)"

definition readMetadataString :: "json option \<Rightarrow> json option" where
  "readMetadataString v = (case v of Some (JStr s) \<Rightarrow> if trim s \<noteq> [] then Some (JStr s) else None
     | Some (JNum n) \<Rightarrow> if n \<noteq> NotDecimal [] then Some (JNum n) else None | _ \<Rightarrow> None)"

definition createControlTransitionMetadata ::
  "string \<Rightarrow> string \<Rightarrow> string \<Rightarrow> control_target \<Rightarrow> control_target option \<Rightarrow> bool \<Rightarrow> control_target option \<Rightarrow>
   json_record option \<Rightarrow> json_record" where
  "createControlTransitionMetadata actor correlationId reasonCode requested effective matches recommended metadata =
     (let given = (case metadata of None \<Rightarrow> [] | Some m \<Rightarrow> m);
          source = (case readMetadataString (map_of given ''source'') of None \<Rightarrow> JStr ''http_control'' | Some v \<Rightarrow> v);
          fields = [(''source'', JStr ''http_control''), (''control_request_source'', source), (''actor'', JStr actor),
            (''correlation_id'', JStr correlationId), (''requested_reason_code'', JStr reasonCode),
            (''requested_target_state'', JStr (targetName requested)), (''reason_matches_target'', JBool matches)]
            @ (case effective of None \<Rightarrow> [] | Some t \<Rightarrow> [(''effective_target_state'', JStr (targetName t))])
            @ (case recommended of None \<Rightarrow> [] | Some t \<Rightarrow> [(''recommended_target_state'', JStr (targetName t))])
      in fold (\<lambda>(k, v). AList.update k v) fields given)"

definition refusedDecision ::
  "kill_switch_state \<Rightarrow> kill_switch_state \<Rightarrow> timestamp \<Rightarrow> string \<Rightarrow> string \<Rightarrow> json_record \<Rightarrow>
   kill_switch_state transition_decision" where
  "refusedDecision fromState toState occurredAt code message metadata =
     \<lparr>td_accepted = False, td_fromState = fromState, td_toState = toState, td_reasonCode = code, td_message = message,
      td_event = \<lparr>ev_eventKind = KILL_SWITCH_STATE_TRANSITION, ev_fromState = fromState, ev_toState = toState,
        ev_accepted = False, ev_reasonCode = code, ev_message = message, ev_occurredAt = occurredAt,
        ev_metadata = Some metadata\<rparr>\<rparr>"

definition createReasonTargetMismatchDecision ::
  "kill_switch_state \<Rightarrow> control_target \<Rightarrow> timestamp \<Rightarrow> string \<Rightarrow> control_target \<Rightarrow> json_record \<Rightarrow>
   kill_switch_state transition_decision" where
  "createReasonTargetMismatchDecision fromState target occurredAt reasonCode recommended metadata =
     refusedDecision fromState (targetState target) occurredAt ''kill_switch_reason_target_mismatch''
       (''Kill switch reason '' @ reasonCode @ '' maps to '' @ targetName recommended @ '', not '' @ targetName target) metadata"

definition createLiveReconcileDowngradeBlockedDecision ::
  "kill_switch_state \<Rightarrow> control_target \<Rightarrow> timestamp \<Rightarrow> string \<Rightarrow> json_record \<Rightarrow> kill_switch_state transition_decision" where
  "createLiveReconcileDowngradeBlockedDecision fromState target occurredAt reasonCode metadata =
     refusedDecision fromState (targetState target) occurredAt ''live_reconcile_downgrade_blocked''
       (''Live reconcile cannot downgrade kill switch state: '' @ killSwitchStateName fromState @ '' -> '' @ targetName target)
       (AList.update ''requested_reason_code'' (JStr reasonCode) metadata)"

definition createKillSwitchControlDecision ::
  "timestamp \<Rightarrow> control_request \<Rightarrow> kill_switch_state \<Rightarrow> control_result" where
  "createKillSwitchControlDecision now req currentState =
     (let actor = (case cr_actor req of None \<Rightarrow> ''http-control'' | Some a \<Rightarrow> a);
          reasonCode = canonicalizeKillSwitchReasonCode (cr_reasonCode req);
          recommended = mapKillSwitchReasonToTargetState reasonCode;
          effective = (case resolveLiveReconcileEffectiveTargetState currentState (cr_targetState req) reasonCode of
              None \<Rightarrow> cr_targetState req | Some t \<Rightarrow> t);
          promoted = (effective \<noteq> cr_targetState req);
          matches = (recommended = None \<or> recommended = Some (cr_targetState req) \<or> promoted);
          occurredAt = (case cr_occurredAt req of None \<Rightarrow> now | Some t \<Rightarrow> t);
          allowed = canTransitionKillSwitchState currentState (targetState effective);
          metadata = createControlTransitionMetadata actor (cr_correlationId req) reasonCode (cr_targetState req)
            (if promoted then Some effective else None) matches recommended (cr_metadata req);
          transition =
            (if isLiveReconcileDowngrade currentState effective reasonCode then
               createLiveReconcileDowngradeBlockedDecision currentState effective occurredAt reasonCode metadata
             else if matches then
               transitionKillSwitchState
                 \<lparr>ti_fromState = currentState, ti_toState = targetState effective, ti_occurredAt = occurredAt,
                  ti_reasonCode = (if allowed then Some reasonCode else None),
                  ti_message = (if allowed then Some (case cr_message req of Some m \<Rightarrow> m
                     | None \<Rightarrow> ''HTTP control requested kill switch transition: '' @ killSwitchStateName currentState
                         @ '' -> '' @ targetName effective) else None),
                  ti_metadata = Some metadata\<rparr>
             else createReasonTargetMismatchDecision currentState effective occurredAt reasonCode (the recommended) metadata)
      in \<lparr>cs_transition = transition,
          cs_actionPlan = getKillSwitchActionPlan (if td_accepted transition then targetState effective else currentState),
          cs_reasonMatchesTarget = matches, cs_recommendedTargetState = recommended\<rparr>)"

definition createKillSwitchControlConflictResult ::
  "control_result \<Rightarrow> kill_switch_state option \<Rightarrow> timestamp \<Rightarrow> control_result" where
  "createKillSwitchControlConflictResult attempted observed occurredAt =
     (let tr = cs_transition attempted;
          given = (case ev_metadata (td_event tr) of None \<Rightarrow> [] | Some m \<Rightarrow> m);
          metadata = AList.update ''conflict'' (JBool True) given;
          metadata' = (case observed of None \<Rightarrow> metadata
            | Some s \<Rightarrow> AList.update ''observed_state'' (JStr (killSwitchStateName s)) metadata);
          message = ''Kill switch state changed before control transition could be committed'' @
            (case observed of None \<Rightarrow> [] | Some s \<Rightarrow> '': observed '' @ killSwitchStateName s)
      in \<lparr>cs_transition = refusedDecision (td_fromState tr) (td_toState tr) occurredAt ''kill_switch_state_conflict''
            message metadata',
          cs_actionPlan = getKillSwitchActionPlan (case observed of None \<Rightarrow> td_fromState tr | Some s \<Rightarrow> s),
          cs_reasonMatchesTarget = cs_reasonMatchesTarget attempted,
          cs_recommendedTargetState = cs_recommendedTargetState attempted\<rparr>)"

section \<open>Jobs and rows\<close>

record cancel_job =
  cj_jobType :: string
  cj_idempotencyKey :: string
  cj_payloadJson :: json_record
  cj_runAfter :: timestamp
  cj_maxAttempts :: nat

definition hardStopPendingPaperOrderCancelJobType :: string where
  "hardStopPendingPaperOrderCancelJobType = ''hard_stop_pending_paper_order_cancel''"

definition actionPlanPayload :: "kill_switch_action_plan \<Rightarrow> json" where
  "actionPlanPayload p = JObj
     [(''new_orders_blocked'', JBool (newOrdersBlocked p)),
      (''strategy_evaluation_blocked'', JBool (strategyEvaluationBlocked p)),
      (''cancel_pending_paper_orders'', JBool (cancelPendingPaperOrders p)),
      (''auto_liquidate_open_positions'', JBool (autoLiquidateOpenPositions p)),
      (''requires_manual_review'', JBool (requiresManualReview p))]"

definition createHardStopPendingPaperOrderCancelJobPlan ::
  "(timestamp \<Rightarrow> string) \<Rightarrow> kill_switch_state transition_decision \<Rightarrow> kill_switch_action_plan \<Rightarrow> string \<Rightarrow> string \<Rightarrow>
   timestamp \<Rightarrow> cancel_job" where
  "createHardStopPendingPaperOrderCancelJobPlan isoText tr plan reasonCode correlationId occurredAt =
     \<lparr>cj_jobType = hardStopPendingPaperOrderCancelJobType,
      cj_idempotencyKey = hardStopPendingPaperOrderCancelJobType @ '':'' @ killSwitchStateName (td_fromState tr) @ '':''
        @ killSwitchStateName (td_toState tr) @ '':'' @ isoText occurredAt @ '':'' @ correlationId,
      cj_payloadJson = [(''correlation_id'', JStr correlationId), (''reason_code'', JStr reasonCode),
        (''from_state'', JStr (killSwitchStateName (td_fromState tr))),
        (''to_state'', JStr (killSwitchStateName (td_toState tr))), (''occurred_at'', JStr (isoText occurredAt)),
        (''action_plan'', actionPlanPayload plan)],
      cj_runAfter = occurredAt, cj_maxAttempts = 3\<rparr>"

record kill_switch_row =
  kr_state :: kill_switch_state
  kr_reasonCode :: string
  kr_correlationId :: string
  kr_payloadJson :: json_record
  kr_updatedAt :: timestamp

record control_audit_row =
  ca_severity :: persisted_severity
  ca_correlationId :: string
  ca_payloadJson :: json_record
  ca_occurredAt :: timestamp

record control_risk_row =
  cv_riskType :: string
  cv_severity :: persisted_severity
  cv_action :: string
  cv_payloadJson :: json_record
  cv_occurredAt :: timestamp

record control_db =
  db_killSwitch :: "kill_switch_row option"
  db_auditEvents :: "control_audit_row list"
  db_riskEvents :: "control_risk_row list"
  db_jobs :: "cancel_job list"

record applied_result =
  ap_result :: control_result
  ap_auditEventId :: nat
  ap_riskEventId :: nat
  ap_hardStopCancelJob :: "(string \<times> nat \<times> bool) option"

definition toStateTransitionAuditRow ::
  "kill_switch_state transition_event \<Rightarrow> string \<Rightarrow> string \<Rightarrow> control_audit_row" where
  "toStateTransitionAuditRow ev actor correlationId =
     \<lparr>ca_severity = (if ev_accepted ev then P_INFO else P_WARN), ca_correlationId = correlationId,
      ca_payloadJson = AList.update ''reason_code'' (JStr (ev_reasonCode ev))
        (AList.update ''actor'' (JStr actor) (toStateTransitionPayload killSwitchStateName ev)),
      ca_occurredAt = ev_occurredAt ev\<rparr>"

definition toKillSwitchControlRiskAction :: "control_result \<Rightarrow> string" where
  "toKillSwitchControlRiskAction r =
     (if \<not> td_accepted (cs_transition r) then ''REJECT_KILL_SWITCH_TRANSITION''
      else case td_toState (cs_transition r) of
        KS_NORMAL \<Rightarrow> ''RESTORE_NORMAL'' | KS_NEW_ORDERS_BLOCKED \<Rightarrow> ''BLOCK_NEW_ORDERS'' | KS_HARD_STOP \<Rightarrow> ''HARD_STOP''
      | KS_MANUAL_REVIEW_REQUIRED \<Rightarrow> ''MANUAL_REVIEW_REQUIRED'' | KS_STRATEGY_PAUSED \<Rightarrow> ''PAUSE_STRATEGY'')"

definition toKillSwitchControlRiskSeverity :: "control_result \<Rightarrow> persisted_severity" where
  "toKillSwitchControlRiskSeverity r =
     (if \<not> td_accepted (cs_transition r) then P_WARN
      else if td_toState (cs_transition r) = KS_HARD_STOP \<or> td_toState (cs_transition r) = KS_MANUAL_REVIEW_REQUIRED
      then P_CRITICAL
      else if td_toState (cs_transition r) = KS_NORMAL then P_INFO else P_WARN)"

definition createRiskEventPayload :: "control_result \<Rightarrow> string \<Rightarrow> nat \<Rightarrow> json_record" where
  "createRiskEventPayload r correlationId auditEventId =
     (let tr = cs_transition r in
      [(''audit_kind'', JStr ''KILL_SWITCH_CONTROL''), (''audit_event_id'', JStr (natText auditEventId)),
       (''correlation_id'', JStr correlationId), (''from_state'', JStr (killSwitchStateName (td_fromState tr))),
       (''to_state'', JStr (killSwitchStateName (td_toState tr))), (''accepted'', JBool (td_accepted tr)),
       (''reason_code'', JStr (td_reasonCode tr)), (''message'', JStr (td_message tr)),
       (''reason_matches_target'', JBool (cs_reasonMatchesTarget r)), (''action_plan'', actionPlanPayload (cs_actionPlan r))]
      @ (case cs_recommendedTargetState r of None \<Rightarrow> []
         | Some t \<Rightarrow> [(''recommended_target_state'', JStr (targetName t))]))"

definition createKillSwitchSnapshotPayload :: "control_result \<Rightarrow> json_record" where
  "createKillSwitchSnapshotPayload r =
     (let tr = cs_transition r in
      [(''event_kind'', JStr (eventKindName (ev_eventKind (td_event tr)))),
       (''from_state'', JStr (killSwitchStateName (td_fromState tr))),
       (''to_state'', JStr (killSwitchStateName (td_toState tr))), (''accepted'', JBool (td_accepted tr)),
       (''reason_code'', JStr (td_reasonCode tr)), (''message'', JStr (td_message tr)),
       (''action_plan'', actionPlanPayload (cs_actionPlan r))]
      @ (case ev_metadata (td_event tr) of None \<Rightarrow> [] | Some m \<Rightarrow> [(''metadata'', JObj m)]))"

section \<open>Transactions\<close>

text \<open>\<^verbatim>\<open>insert ... on conflict do nothing\<close>: the job's id, and whether this call created it.\<close>

definition jobIndex :: "string \<Rightarrow> cancel_job list \<Rightarrow> nat option" where
  "jobIndex key jobs = rowIndex (\<lambda>j. cj_idempotencyKey j = key) jobs"

definition enqueueHardStopCancelJob :: "cancel_job \<Rightarrow> cancel_job list \<Rightarrow> cancel_job list \<times> (string \<times> nat \<times> bool)" where
  "enqueueHardStopCancelJob job jobs =
     (case jobIndex (cj_idempotencyKey job) jobs of
        None \<Rightarrow> (jobs @ [job], (cj_idempotencyKey job, length jobs, True))
      | Some i \<Rightarrow> (jobs, (cj_idempotencyKey job, i, False)))"

text \<open>The conditional update of the durable row and what it makes of the decision.\<close>

definition advanceState ::
  "control_request \<Rightarrow> timestamp \<Rightarrow> control_result \<Rightarrow> control_db \<Rightarrow> control_result \<times> control_db" where
  "advanceState req occurredAt r db =
     (if \<not> td_accepted (cs_transition r) then (r, db)
      else case db_killSwitch db of
        Some row \<Rightarrow>
          if kr_state row = td_fromState (cs_transition r) then
            (r, db\<lparr>db_killSwitch := Some \<lparr>kr_state = td_toState (cs_transition r),
                kr_reasonCode = td_reasonCode (cs_transition r), kr_correlationId = cr_correlationId req,
                kr_payloadJson = createKillSwitchSnapshotPayload r, kr_updatedAt = occurredAt\<rparr>\<rparr>)
          else (createKillSwitchControlConflictResult r (Some (kr_state row)) occurredAt, db)
      | None \<Rightarrow> (createKillSwitchControlConflictResult r None occurredAt, db))"

definition recordEvidence ::
  "control_request \<Rightarrow> timestamp \<Rightarrow> string \<Rightarrow> control_result \<Rightarrow> control_db \<Rightarrow> control_db" where
  "recordEvidence req occurredAt actor r db =
     db\<lparr>db_auditEvents := db_auditEvents db @ [toStateTransitionAuditRow (td_event (cs_transition r)) actor (cr_correlationId req)],
        db_riskEvents := db_riskEvents db @ [\<lparr>cv_riskType = td_reasonCode (cs_transition r),
          cv_severity = toKillSwitchControlRiskSeverity r, cv_action = toKillSwitchControlRiskAction r,
          cv_payloadJson = AList.update ''action'' (JStr (toKillSwitchControlRiskAction r))
            (AList.update ''risk_type'' (JStr (td_reasonCode (cs_transition r)))
              (createRiskEventPayload r (cr_correlationId req) (length (db_auditEvents db)))),
          cv_occurredAt = occurredAt\<rparr>]\<rparr>"

definition needsCancelJob :: "control_result \<Rightarrow> bool" where
  "needsCancelJob r \<longleftrightarrow> td_accepted (cs_transition r) \<and> td_toState (cs_transition r) = KS_HARD_STOP \<and>
     cancelPendingPaperOrders (cs_actionPlan r)"

text \<open>A transaction that has read the durable state: the request with its defaults filled in, and that state.\<close>

record control_tx =
  tx_request :: control_request
  tx_occurredAt :: timestamp
  tx_actor :: string
  tx_current :: kill_switch_state

definition beginControl :: "timestamp \<Rightarrow> string option \<Rightarrow> control_request \<Rightarrow> control_db \<Rightarrow> control_tx result" where
  "beginControl now defaultActor req db =
     (case db_killSwitch db of
        None \<Rightarrow> Inl (Failure ''global kill switch state row was not found'')
      | Some row \<Rightarrow>
          let occurredAt = (case cr_occurredAt req of None \<Rightarrow> now | Some t \<Rightarrow> t);
              actor = (case cr_actor req of Some a \<Rightarrow> a
                | None \<Rightarrow> (case defaultActor of Some a \<Rightarrow> a | None \<Rightarrow> ''http-control''))
          in Inr \<lparr>tx_request = req\<lparr>cr_actor := Some actor, cr_occurredAt := Some occurredAt\<rparr>,
                  tx_occurredAt = occurredAt, tx_actor = actor, tx_current = kr_state row\<rparr>)"

definition commitControl :: "(timestamp \<Rightarrow> string) \<Rightarrow> control_tx \<Rightarrow> control_db \<Rightarrow> applied_result \<times> control_db" where
  "commitControl isoText tx db =
     (let decision = createKillSwitchControlDecision (tx_occurredAt tx) (tx_request tx) (tx_current tx) in
      case advanceState (tx_request tx) (tx_occurredAt tx) decision db of (r, db1) \<Rightarrow>
        let db2 = recordEvidence (tx_request tx) (tx_occurredAt tx) (tx_actor tx) r db1;
            applied = \<lparr>ap_result = r, ap_auditEventId = length (db_auditEvents db), ap_riskEventId = length (db_riskEvents db),
              ap_hardStopCancelJob = None\<rparr>
        in if needsCancelJob r then
             case enqueueHardStopCancelJob (createHardStopPendingPaperOrderCancelJobPlan isoText (cs_transition r)
                 (cs_actionPlan r) (td_reasonCode (cs_transition r)) (cr_correlationId (tx_request tx)) (tx_occurredAt tx))
                 (db_jobs db2) of
               (jobs, job) \<Rightarrow> (applied\<lparr>ap_hardStopCancelJob := Some job\<rparr>, db2\<lparr>db_jobs := jobs\<rparr>)
           else (applied, db2))"

text \<open>
  Requests of any number of clients, interleaved: a transaction reads the row, later it commits. The machine
  covers control requests; the risk gate, which moves the same row when it stores an accepted transition of
  its own (\<^verbatim>\<open>updateKillSwitchSnapshot\<close> in \<^verbatim>\<open>risk-gate-runtime-event-store.ts\<close>), is not part of it.
\<close>

inductive control_step ::
  "(timestamp \<Rightarrow> string) \<Rightarrow> control_tx list \<times> control_db \<Rightarrow> control_tx list \<times> control_db \<Rightarrow> bool"
  for isoText where
  begins: "beginControl now defaultActor req db = Inr tx \<Longrightarrow> control_step isoText (txs, db) (txs @ [tx], db)"
| commits: "i < length txs \<Longrightarrow> commitControl isoText (txs ! i) db = (r, db') \<Longrightarrow>
    control_step isoText (txs, db) (take i txs @ drop (Suc i) txs, db')"

section \<open>Lemmas: decisions\<close>

text \<open>The state a request aims at, and whether its reason fits it.\<close>

definition effectiveTarget :: "control_request \<Rightarrow> kill_switch_state \<Rightarrow> control_target" where
  "effectiveTarget req currentState =
     (if isLiveReconcileReason (canonicalizeKillSwitchReasonCode (cr_reasonCode req)) \<and>
         currentState = KS_STRATEGY_PAUSED \<and> cr_targetState req = CT_NEW_ORDERS_BLOCKED
      then CT_MANUAL_REVIEW_REQUIRED else cr_targetState req)"

definition reasonFits :: "control_request \<Rightarrow> kill_switch_state \<Rightarrow> bool" where
  "reasonFits req currentState \<longleftrightarrow>
     mapKillSwitchReasonToTargetState (cr_reasonCode req) \<in> {None, Some (cr_targetState req)} \<or>
     effectiveTarget req currentState \<noteq> cr_targetState req"

lemma lowerChar_isSpace [simp]: "isSpace (lowerChar c) = isSpace c"
  by (auto simp: isSpace_def lowerChar_def Let_def)

lemma lowerChar_idem [simp]: "lowerChar (lowerChar c) = lowerChar c"
  by (auto simp: lowerChar_def Let_def)

lemma canonicalize_idem:
  "canonicalizeKillSwitchReasonCode (canonicalizeKillSwitchReasonCode r) = canonicalizeKillSwitchReasonCode r"
proof -
  have "trim (map lowerChar s) = map lowerChar (trim s)" for s
    by (simp add: trim_def dropWhile_map rev_map comp_def)
  then show ?thesis by (simp add: canonicalizeKillSwitchReasonCode_def toLowerCase_def comp_def)
qed

lemma decision_simps:
  assumes "tr = cs_transition (createKillSwitchControlDecision now req currentState)"
  shows "td_accepted tr \<longleftrightarrow>
      \<not> isLiveReconcileDowngrade currentState (effectiveTarget req currentState) (canonicalizeKillSwitchReasonCode (cr_reasonCode req)) \<and>
      reasonFits req currentState \<and> canTransitionKillSwitchState currentState (targetState (effectiveTarget req currentState))"
    and "td_fromState tr = currentState" and "td_toState tr = targetState (effectiveTarget req currentState)"
    and "ev_accepted (td_event tr) = td_accepted tr" and "ev_fromState (td_event tr) = td_fromState tr"
    and "ev_toState (td_event tr) = td_toState tr"
    and "ev_occurredAt (td_event tr) = (case cr_occurredAt req of None \<Rightarrow> now | Some t \<Rightarrow> t)"
proof -
  have eff: "(case resolveLiveReconcileEffectiveTargetState currentState (cr_targetState req)
        (canonicalizeKillSwitchReasonCode (cr_reasonCode req)) of None \<Rightarrow> cr_targetState req | Some t \<Rightarrow> t) =
      effectiveTarget req currentState"
    by (simp add: resolveLiveReconcileEffectiveTargetState_def effectiveTarget_def)
  have fits: "(mapKillSwitchReasonToTargetState (canonicalizeKillSwitchReasonCode (cr_reasonCode req)) = None \<or>
      mapKillSwitchReasonToTargetState (canonicalizeKillSwitchReasonCode (cr_reasonCode req)) = Some (cr_targetState req) \<or>
      effectiveTarget req currentState \<noteq> cr_targetState req) = reasonFits req currentState"
    by (auto simp: reasonFits_def mapKillSwitchReasonToTargetState_def canonicalize_idem)
  note defs = assms createKillSwitchControlDecision_def Let_def eff fits refusedDecision_def
    createLiveReconcileDowngradeBlockedDecision_def createReasonTargetMismatchDecision_def
    transitionKillSwitchState_def createTransitionDecision_def
  show "td_accepted tr \<longleftrightarrow>
      \<not> isLiveReconcileDowngrade currentState (effectiveTarget req currentState) (canonicalizeKillSwitchReasonCode (cr_reasonCode req)) \<and>
      reasonFits req currentState \<and> canTransitionKillSwitchState currentState (targetState (effectiveTarget req currentState))"
    unfolding defs by simp
  show "td_fromState tr = currentState" "td_toState tr = targetState (effectiveTarget req currentState)"
    "ev_accepted (td_event tr) = td_accepted tr" "ev_fromState (td_event tr) = td_fromState tr"
    "ev_toState (td_event tr) = td_toState tr"
    "ev_occurredAt (td_event tr) = (case cr_occurredAt req of None \<Rightarrow> now | Some t \<Rightarrow> t)"
    unfolding defs by simp_all
qed

lemma decision_plan:
  "cs_actionPlan (createKillSwitchControlDecision now req currentState) = getKillSwitchActionPlan
     (if td_accepted (cs_transition (createKillSwitchControlDecision now req currentState))
      then targetState (effectiveTarget req currentState) else currentState)"
  by (simp add: createKillSwitchControlDecision_def Let_def effectiveTarget_def
      resolveLiveReconcileEffectiveTargetState_def)

section \<open>Lemmas: transactions\<close>

lemma killSwitchStateName_inject [simp]: "killSwitchStateName a = killSwitchStateName b \<longleftrightarrow> a = b"
  by (cases a; cases b) simp_all

text \<open>
  Reading the audit log back: an accepted transition must start where the log stands and be legal for
  the state machine; a refused one moves nothing.
\<close>

definition auditMove :: "control_audit_row \<Rightarrow> kill_switch_state \<Rightarrow> kill_switch_state option" where
  "auditMove row s =
     (if map_of (ca_payloadJson row) ''accepted'' = Some (JBool True) then
        if map_of (ca_payloadJson row) ''from_state'' = Some (JStr (killSwitchStateName s)) then
          List.find (\<lambda>t. map_of (ca_payloadJson row) ''to_state'' = Some (JStr (killSwitchStateName t)))
            (killSwitchStateTransitions s)
        else None
      else Some s)"

fun replayAudit :: "control_audit_row list \<Rightarrow> kill_switch_state \<Rightarrow> kill_switch_state option" where
  "replayAudit [] s = Some s"
| "replayAudit (row # rows) s = Option.bind (auditMove row s) (replayAudit rows)"

lemma replayAudit_snoc: "replayAudit (rows @ [row]) s = Option.bind (replayAudit rows s) (auditMove row)"
  by (induction rows arbitrary: s) (auto split: Option.bind_split)

lemma audit_lookup [simp]:
  "map_of (ca_payloadJson (toStateTransitionAuditRow ev actor c)) ''accepted'' = Some (JBool (ev_accepted ev))"
  "map_of (ca_payloadJson (toStateTransitionAuditRow ev actor c)) ''from_state'' = Some (JStr (killSwitchStateName (ev_fromState ev)))"
  "map_of (ca_payloadJson (toStateTransitionAuditRow ev actor c)) ''to_state'' = Some (JStr (killSwitchStateName (ev_toState ev)))"
  by (simp_all add: toStateTransitionAuditRow_def toStateTransitionPayload_def)

lemma find_eq_member: "x \<in> set xs \<Longrightarrow> List.find (\<lambda>y. x = y) xs = Some x"
  by (induction xs) auto

lemma auditMove_event:
  "auditMove (toStateTransitionAuditRow ev actor c) s =
     (if ev_accepted ev then
        if ev_fromState ev = s \<and> canTransitionKillSwitchState s (ev_toState ev) then Some (ev_toState ev) else None
      else Some s)"
proof -
  have "List.find (\<lambda>t. ev_toState ev = t) (killSwitchStateTransitions s) =
      (if canTransitionKillSwitchState s (ev_toState ev) then Some (ev_toState ev) else None)"
    by (auto simp: canTransitionKillSwitchState_def find_eq_member find_None_iff)
  then show ?thesis by (simp add: auditMove_def)
qed

text \<open>What a commit does to the durable row and to the audit log.\<close>

lemma advanceState_cases [consumes 1, case_names refused advanced conflict]:
  assumes "advanceState req occurredAt r db = (r', db')"
  obtains "\<not> td_accepted (cs_transition r)" "r' = r" "db' = db"
  | row row' where "td_accepted (cs_transition r)" "r' = r" "db_killSwitch db = Some row"
      "kr_state row = td_fromState (cs_transition r)" "db' = db\<lparr>db_killSwitch := Some row'\<rparr>"
      "kr_state row' = td_toState (cs_transition r)"
  | "\<not> td_accepted (cs_transition r')" "\<not> ev_accepted (td_event (cs_transition r'))" "db' = db"
  using assms
  by (auto simp: advanceState_def createKillSwitchControlConflictResult_def refusedDecision_def Let_def
      split: if_splits option.splits)

lemma recordEvidence_simps [simp]:
  "db_killSwitch (recordEvidence req t actor r db) = db_killSwitch db"
  "db_jobs (recordEvidence req t actor r db) = db_jobs db"
  "db_auditEvents (recordEvidence req t actor r db) =
     db_auditEvents db @ [toStateTransitionAuditRow (td_event (cs_transition r)) actor (cr_correlationId req)]"
  "length (db_riskEvents (recordEvidence req t actor r db)) = Suc (length (db_riskEvents db))"
  by (simp_all add: recordEvidence_def)

definition cancelJobKey :: "(timestamp \<Rightarrow> string) \<Rightarrow> control_audit_row \<Rightarrow> kill_switch_state \<Rightarrow> string" where
  "cancelJobKey isoText row fromState =
     hardStopPendingPaperOrderCancelJobType @ '':'' @ killSwitchStateName fromState @ '':'' @ ''HARD_STOP'' @ '':''
       @ isoText (ca_occurredAt row) @ '':'' @ ca_correlationId row"

lemma jobIndex_None_iff: "jobIndex key jobs = None \<longleftrightarrow> key \<notin> set (map cj_idempotencyKey jobs)"
  by (auto simp: jobIndex_def rowIndex_None_iff)

lemma enqueue_cases:
  assumes "enqueueHardStopCancelJob job jobs = (jobs', x)"
  obtains "jobs' = jobs @ [job]" "cj_idempotencyKey job \<notin> set (map cj_idempotencyKey jobs)"
  | "jobs' = jobs" "cj_idempotencyKey job \<in> set (map cj_idempotencyKey jobs)"
proof (cases "jobIndex (cj_idempotencyKey job) jobs")
  case None
  then show thesis using assms that(1) jobIndex_None_iff [of "cj_idempotencyKey job" jobs]
    by (simp add: enqueueHardStopCancelJob_def)
next
  case (Some i)
  then show thesis using assms that(2) jobIndex_None_iff [of "cj_idempotencyKey job" jobs]
    by (simp add: enqueueHardStopCancelJob_def)
qed

lemma enqueue_keys:
  assumes "enqueueHardStopCancelJob job jobs = (jobs', x)"
  shows "set (map cj_idempotencyKey jobs') = insert (cj_idempotencyKey job) (set (map cj_idempotencyKey jobs))"
    and "distinct (map cj_idempotencyKey jobs) \<Longrightarrow> distinct (map cj_idempotencyKey jobs')"
  by (rule enqueue_cases [OF assms]; force)+

text \<open>
  The invariant of the control tables: the audit log, read back from the state the row was created
  with, ends in the durable state; every audit event has its risk event; a job key occurs once; and
  every committed hard stop has its cancel job.
\<close>

definition hardStopEvidence :: "control_audit_row \<Rightarrow> kill_switch_state \<Rightarrow> bool" where
  "hardStopEvidence row fromState \<longleftrightarrow> map_of (ca_payloadJson row) ''accepted'' = Some (JBool True) \<and>
     map_of (ca_payloadJson row) ''from_state'' = Some (JStr (killSwitchStateName fromState)) \<and>
     map_of (ca_payloadJson row) ''to_state'' = Some (JStr ''HARD_STOP'')"

definition controlOk :: "(timestamp \<Rightarrow> string) \<Rightarrow> kill_switch_state \<Rightarrow> control_db \<Rightarrow> bool" where
  "controlOk isoText s0 db \<longleftrightarrow>
     (\<exists>row. db_killSwitch db = Some row \<and> replayAudit (db_auditEvents db) s0 = Some (kr_state row)) \<and>
     length (db_riskEvents db) = length (db_auditEvents db) \<and>
     distinct (map cj_idempotencyKey (db_jobs db)) \<and>
     (\<forall>row \<in> set (db_auditEvents db). \<forall>fromState. hardStopEvidence row fromState \<longrightarrow>
        cancelJobKey isoText row fromState \<in> set (map cj_idempotencyKey (db_jobs db)))"

definition txOk :: "control_tx \<Rightarrow> bool" where
  "txOk tx \<longleftrightarrow> cr_occurredAt (tx_request tx) = Some (tx_occurredAt tx)"

lemma txOk_begin: "beginControl now actor req db = Inr tx \<Longrightarrow> txOk tx"
  by (auto simp: beginControl_def txOk_def Let_def split: option.splits)

lemma commitControl_cases:
  assumes "commitControl isoText tx db = (a, db')"
  obtains r db1 jobs where
    "advanceState (tx_request tx) (tx_occurredAt tx)
       (createKillSwitchControlDecision (tx_occurredAt tx) (tx_request tx) (tx_current tx)) db = (r, db1)"
    "db' = (recordEvidence (tx_request tx) (tx_occurredAt tx) (tx_actor tx) r db1)\<lparr>db_jobs := jobs\<rparr>"
    "ap_result a = r"
    "if needsCancelJob r then \<exists>x. enqueueHardStopCancelJob (createHardStopPendingPaperOrderCancelJobPlan isoText
        (cs_transition r) (cs_actionPlan r) (td_reasonCode (cs_transition r)) (cr_correlationId (tx_request tx))
        (tx_occurredAt tx)) (db_jobs db1) = (jobs, x)
     else jobs = db_jobs db1"
proof -
  obtain r db1 where adv: "advanceState (tx_request tx) (tx_occurredAt tx)
       (createKillSwitchControlDecision (tx_occurredAt tx) (tx_request tx) (tx_current tx)) db = (r, db1)"
    by (rule prod.exhaust)
  show thesis
  proof (cases "needsCancelJob r")
    case True
    obtain jobs x where enq: "enqueueHardStopCancelJob (createHardStopPendingPaperOrderCancelJobPlan isoText
        (cs_transition r) (cs_actionPlan r) (td_reasonCode (cs_transition r)) (cr_correlationId (tx_request tx))
        (tx_occurredAt tx)) (db_jobs db1) = (jobs, x)" by (rule prod.exhaust)
    then show thesis using assms True
      by (cases x, intro that [OF adv, of jobs]) (auto simp: commitControl_def Let_def adv)
  next
    case False
    then show thesis using assms by (intro that [OF adv, of "db_jobs db1"]) (auto simp: commitControl_def Let_def adv)
  qed
qed

lemma needsCancelJob_hardStop:
  assumes adv: "advanceState req occurredAt (createKillSwitchControlDecision now req s) db = (r, db1)"
    and "td_accepted (cs_transition r)"
  shows "needsCancelJob r \<longleftrightarrow> td_toState (cs_transition r) = KS_HARD_STOP"
proof -
  have "r = createKillSwitchControlDecision now req s"
    using adv assms(2) by (cases rule: advanceState_cases) auto
  then show ?thesis using assms(2) by (auto simp: needsCancelJob_def decision_plan decision_simps(3) [OF refl])
qed

text \<open>The event that a commit stores agrees with its decision, and its instant is that of the transaction.\<close>

lemma committed_event:
  assumes adv: "advanceState (tx_request tx) (tx_occurredAt tx)
       (createKillSwitchControlDecision (tx_occurredAt tx) (tx_request tx) (tx_current tx)) db = (r, db1)"
    and tx: "txOk tx"
  shows "ev_accepted (td_event (cs_transition r)) = td_accepted (cs_transition r)"
    and "td_accepted (cs_transition r) \<Longrightarrow> ev_fromState (td_event (cs_transition r)) = td_fromState (cs_transition r) \<and>
      ev_toState (td_event (cs_transition r)) = td_toState (cs_transition r) \<and>
      ev_occurredAt (td_event (cs_transition r)) = tx_occurredAt tx \<and>
      canTransitionKillSwitchState (td_fromState (cs_transition r)) (td_toState (cs_transition r))"
proof -
  let ?d = "createKillSwitchControlDecision (tx_occurredAt tx) (tx_request tx) (tx_current tx)"
  note d = decision_simps [OF refl, of "tx_occurredAt tx" "tx_request tx" "tx_current tx"]
  have "r = ?d \<or> \<not> td_accepted (cs_transition r) \<and> \<not> ev_accepted (td_event (cs_transition r))"
    using adv by (cases rule: advanceState_cases) auto
  then show "ev_accepted (td_event (cs_transition r)) = td_accepted (cs_transition r)"
    and "td_accepted (cs_transition r) \<Longrightarrow> ev_fromState (td_event (cs_transition r)) = td_fromState (cs_transition r) \<and>
      ev_toState (td_event (cs_transition r)) = td_toState (cs_transition r) \<and>
      ev_occurredAt (td_event (cs_transition r)) = tx_occurredAt tx \<and>
      canTransitionKillSwitchState (td_fromState (cs_transition r)) (td_toState (cs_transition r))"
    using d tx by (auto simp: txOk_def)
qed

lemma hardStopEvidence_event:
  "hardStopEvidence (toStateTransitionAuditRow ev actor c) s \<longleftrightarrow>
     ev_accepted ev \<and> ev_fromState ev = s \<and> ev_toState ev = KS_HARD_STOP"
  using killSwitchStateName_inject [of "ev_toState ev" KS_HARD_STOP] by (auto simp: hardStopEvidence_def)

lemma controlOk_commit:
  assumes ok: "controlOk isoText s0 db" and com: "commitControl isoText tx db = (a, db')" and tx: "txOk tx"
  shows "controlOk isoText s0 db'"
  using com
proof (cases rule: commitControl_cases)
  case (1 r db1 jobs)
  let ?ev = "td_event (cs_transition r)"
  let ?row = "toStateTransitionAuditRow ?ev (tx_actor tx) (cr_correlationId (tx_request tx))"
  obtain row where row: "db_killSwitch db = Some row" "replayAudit (db_auditEvents db) s0 = Some (kr_state row)"
    using ok by (auto simp: controlOk_def)
  note event = committed_event [OF 1(1) tx]
  have frame: "db_auditEvents db1 = db_auditEvents db" "db_riskEvents db1 = db_riskEvents db" "db_jobs db1 = db_jobs db"
    using 1(1) by (cases rule: advanceState_cases; simp)+
  have moved: "\<exists>row'. db_killSwitch db1 = Some row' \<and> auditMove ?row (kr_state row) = Some (kr_state row')"
    using 1(1)
  proof (cases rule: advanceState_cases)
    case (advanced row1 row2)
    then show ?thesis using row(1) event by (auto simp: auditMove_event)
  qed (use row(1) event in \<open>auto simp: auditMove_event\<close>)
  have jobs: "distinct (map cj_idempotencyKey jobs)" "set (map cj_idempotencyKey (db_jobs db)) \<subseteq> set (map cj_idempotencyKey jobs)"
    using 1(4) ok enqueue_keys by (auto simp: frame controlOk_def split: if_splits)
  have "cancelJobKey isoText ?row s \<in> set (map cj_idempotencyKey jobs)" if "hardStopEvidence ?row s" for s
  proof -
    have acc: "td_accepted (cs_transition r)" "td_fromState (cs_transition r) = s" "td_toState (cs_transition r) = KS_HARD_STOP"
      using that event by (auto simp: hardStopEvidence_event)
    then have "needsCancelJob r" using needsCancelJob_hardStop [OF 1(1)] by simp
    then have "cj_idempotencyKey (createHardStopPendingPaperOrderCancelJobPlan isoText (cs_transition r) (cs_actionPlan r)
        (td_reasonCode (cs_transition r)) (cr_correlationId (tx_request tx)) (tx_occurredAt tx)) \<in> set (map cj_idempotencyKey jobs)"
      using 1(4) enqueue_keys(1) by fastforce
    then show ?thesis using acc event(2)
      by (simp add: cancelJobKey_def createHardStopPendingPaperOrderCancelJobPlan_def toStateTransitionAuditRow_def)
  qed
  then show ?thesis using ok moved jobs row
    unfolding controlOk_def by (auto simp: 1(2) frame replayAudit_snoc)
qed

lemma control_step_inv:
  assumes "control_step isoText (txs, db) (txs', db')" and "controlOk isoText s0 db" and "\<forall>tx \<in> set txs. txOk tx"
  shows "controlOk isoText s0 db' \<and> (\<forall>tx \<in> set txs'. txOk tx)"
  using assms(1)
proof (cases rule: control_step.cases)
  case (begins now defaultActor req tx)
  then show ?thesis using assms(2,3) txOk_begin by auto
next
  case (commits i r)
  then show ?thesis using assms(2,3) controlOk_commit [OF assms(2) commits(3)]
    by (auto dest: in_set_takeD in_set_dropD)
qed

lemma control_run_inv:
  assumes "(control_step isoText)\<^sup>*\<^sup>* (txs, db) (txs', db')" and "controlOk isoText s0 db" and "\<forall>tx \<in> set txs. txOk tx"
  shows "controlOk isoText s0 db'"
proof -
  have "controlOk isoText s0 (snd p) \<and> (\<forall>tx \<in> set (fst p). txOk tx)" if "(control_step isoText)\<^sup>*\<^sup>* (txs, db) p" for p
    using that
  proof (induction rule: rtranclp_induct)
    case base
    then show ?case using assms by simp
  next
    case (step p q)
    then show ?case using control_step_inv [of isoText "fst p" "snd p" "fst q" "snd q" s0] by simp
  qed
  from this [OF assms(1)] show ?thesis by simp
qed

section \<open>Properties\<close>

definition planAtLeast :: "kill_switch_action_plan \<Rightarrow> kill_switch_action_plan \<Rightarrow> bool" where
  "planAtLeast p q \<longleftrightarrow> (newOrdersBlocked q \<longrightarrow> newOrdersBlocked p) \<and>
     (strategyEvaluationBlocked q \<longrightarrow> strategyEvaluationBlocked p) \<and>
     (cancelPendingPaperOrders q \<longrightarrow> cancelPendingPaperOrders p) \<and>
     (requiresManualReview q \<longrightarrow> requiresManualReview p) \<and>
     (autoLiquidateOpenPositions q \<longrightarrow> autoLiquidateOpenPositions p)"

text \<open>
  C14. What a control request may do. A request is accepted only along a legal transition; a reason that
  is known to ask for another state than the requested one is refused unless the request is promoted;
  and a request whose reason comes from live reconciliation never loosens anything: the plan that
  holds after it blocks at least what the plan of the durable state blocked.
\<close>

theorem control_request_limits:
  assumes "r = createKillSwitchControlDecision now req currentState"
  shows "(td_accepted (cs_transition r) \<longrightarrow>
      canTransitionKillSwitchState currentState (td_toState (cs_transition r)) \<and>
      cs_actionPlan r = getKillSwitchActionPlan (td_toState (cs_transition r)) \<and>
      (\<forall>t. mapKillSwitchReasonToTargetState (cr_reasonCode req) = Some t \<longrightarrow>
         td_toState (cs_transition r) = targetState t \<or>
         currentState = KS_STRATEGY_PAUSED \<and> td_toState (cs_transition r) = KS_MANUAL_REVIEW_REQUIRED)) \<and>
    (\<not> td_accepted (cs_transition r) \<longrightarrow> cs_actionPlan r = getKillSwitchActionPlan currentState) \<and>
    (startsWith (canonicalizeKillSwitchReasonCode (cr_reasonCode req)) ''live_reconcile_'' \<longrightarrow>
      planAtLeast (cs_actionPlan r) (getKillSwitchActionPlan currentState))"
proof -
  let ?eff = "effectiveTarget req currentState"
  note d = decision_simps [OF arg_cong [OF assms, of cs_transition]]
  have plan: "cs_actionPlan r = getKillSwitchActionPlan
      (if td_accepted (cs_transition r) then targetState ?eff else currentState)"
    unfolding assms by (rule decision_plan)
  have "planAtLeast (getKillSwitchActionPlan (targetState ?eff)) (getKillSwitchActionPlan currentState)"
    if "startsWith (canonicalizeKillSwitchReasonCode (cr_reasonCode req)) ''live_reconcile_''" "td_accepted (cs_transition r)"
    using that d(1) by (auto simp: planAtLeast_def isLiveReconcileDowngrade_def isLiveReconcileReason_def Let_def)
  moreover have "planAtLeast p p" for p by (simp add: planAtLeast_def)
  moreover have "targetState ?eff = targetState t \<or>
      currentState = KS_STRATEGY_PAUSED \<and> targetState ?eff = KS_MANUAL_REVIEW_REQUIRED"
    if "td_accepted (cs_transition r)" "mapKillSwitchReasonToTargetState (cr_reasonCode req) = Some t" for t
  proof (cases "?eff = cr_targetState req")
    case True
    then show ?thesis using that d(1) by (simp add: reasonFits_def)
  next
    case False
    then show ?thesis by (auto simp: effectiveTarget_def split: if_splits)
  qed
  ultimately show ?thesis using d(1,3) plan by simp
qed

definition exampleReconcileRequest :: control_request where
  "exampleReconcileRequest = \<lparr>cr_targetState = CT_NEW_ORDERS_BLOCKED, cr_reasonCode = '' live_reconcile_mismatch'',
     cr_correlationId = ''c1'', cr_actor = None, cr_message = None, cr_metadata = None, cr_occurredAt = None\<rparr>"

lemma exampleReconcile_reason:
  "canonicalizeKillSwitchReasonCode (cr_reasonCode exampleReconcileRequest) = ''live_reconcile_mismatch''"
  by (simp add: exampleReconcileRequest_def canonicalizeKillSwitchReasonCode_def trim_def isSpace_def toLowerCase_def
      lowerChar_def)

theorem control_request_limits_witness:
  "cs_actionPlan (createKillSwitchControlDecision (At 1) exampleReconcileRequest KS_STRATEGY_PAUSED) =
     getKillSwitchActionPlan KS_MANUAL_REVIEW_REQUIRED \<and>
   strategyEvaluationBlocked (cs_actionPlan (createKillSwitchControlDecision (At 1) exampleReconcileRequest KS_STRATEGY_PAUSED)) \<and>
   cs_actionPlan (createKillSwitchControlDecision (At 1) exampleReconcileRequest KS_HARD_STOP) =
     getKillSwitchActionPlan KS_HARD_STOP"
proof -
  note limits = control_request_limits [OF refl, of "At 1" exampleReconcileRequest]
  have live: "startsWith (canonicalizeKillSwitchReasonCode (cr_reasonCode exampleReconcileRequest)) ''live_reconcile_''"
    by (simp add: exampleReconcile_reason)
  have target: "effectiveTarget exampleReconcileRequest KS_STRATEGY_PAUSED = CT_MANUAL_REVIEW_REQUIRED"
    using live by (simp add: effectiveTarget_def isLiveReconcileReason_def) (simp add: exampleReconcileRequest_def)
  have "strategyEvaluationBlocked (cs_actionPlan (createKillSwitchControlDecision (At 1) exampleReconcileRequest KS_STRATEGY_PAUSED))"
    using limits [of KS_STRATEGY_PAUSED] live by (simp add: planAtLeast_def)
  moreover have "td_accepted (cs_transition (createKillSwitchControlDecision (At 1) exampleReconcileRequest KS_STRATEGY_PAUSED))"
    by (auto simp: decision_simps(1) [OF refl] target reasonFits_def isLiveReconcileDowngrade_def
        canTransitionKillSwitchState_def) (simp add: exampleReconcileRequest_def)
  moreover have "\<not> td_accepted (cs_transition (createKillSwitchControlDecision (At 1) exampleReconcileRequest KS_HARD_STOP))"
    by (simp add: decision_simps(1) [OF refl] canTransitionKillSwitchState_def effectiveTarget_def exampleReconcileRequest_def)
  ultimately show ?thesis using limits [of KS_HARD_STOP] by (simp add: decision_plan target)
qed

text \<open>
  C15. The audit log accounts for the durable state. Whatever requests arrive and however their
  transactions interleave, the accepted events of the audit log, in the order of commit, are legal
  transitions that follow each other from the state the row was created with to the state it has now;
  each audit event has its risk event; and every committed hard stop has its cancel job, under a key
  that no other job has.
\<close>

theorem audit_log_accounts_for_state:
  assumes run: "(control_step isoText)\<^sup>*\<^sup>* ([], db0) (txs, db)" and start: "db_killSwitch db0 = Some row0"
    and empty: "db_auditEvents db0 = []" "db_riskEvents db0 = []" "db_jobs db0 = []"
  shows "\<exists>row. db_killSwitch db = Some row \<and> replayAudit (db_auditEvents db) (kr_state row0) = Some (kr_state row) \<and>
    length (db_riskEvents db) = length (db_auditEvents db) \<and> distinct (map cj_idempotencyKey (db_jobs db)) \<and>
    (\<forall>a fromState. a \<in> set (db_auditEvents db) \<longrightarrow> hardStopEvidence a fromState \<longrightarrow>
       cancelJobKey isoText a fromState \<in> set (map cj_idempotencyKey (db_jobs db)))"
proof -
  have "controlOk isoText (kr_state row0) db0" using start empty by (simp add: controlOk_def)
  then have "controlOk isoText (kr_state row0) db" using control_run_inv [OF run] by simp
  then show ?thesis unfolding controlOk_def by blast
qed

definition exampleControlDb :: control_db where
  "exampleControlDb = \<lparr>db_killSwitch = Some \<lparr>kr_state = KS_NORMAL, kr_reasonCode = ''init'', kr_correlationId = ''c0'',
     kr_payloadJson = [], kr_updatedAt = At 0\<rparr>, db_auditEvents = [], db_riskEvents = [], db_jobs = []\<rparr>"

definition exampleStopRequest :: control_request where
  "exampleStopRequest = \<lparr>cr_targetState = CT_HARD_STOP, cr_reasonCode = ''db_write_failure'', cr_correlationId = ''c2'',
     cr_actor = Some ''op'', cr_message = None, cr_metadata = None, cr_occurredAt = Some (At 5)\<rparr>"

definition exampleStopTx :: control_tx where
  "exampleStopTx = \<lparr>tx_request = exampleStopRequest, tx_occurredAt = At 5, tx_actor = ''op'', tx_current = KS_NORMAL\<rparr>"

text \<open>Two hard stops read the normal state; the first commits, the second finds a conflict.\<close>

lemma exampleStop_run:
  "(control_step isoText)\<^sup>*\<^sup>* ([], exampleControlDb)
     ([], snd (commitControl isoText exampleStopTx (snd (commitControl isoText exampleStopTx exampleControlDb))))"
proof -
  let ?db1 = "snd (commitControl isoText exampleStopTx exampleControlDb)"
  have opens: "beginControl (At 9) None exampleStopRequest exampleControlDb = Inr exampleStopTx"
    by (simp add: beginControl_def exampleControlDb_def exampleStopTx_def exampleStopRequest_def Let_def)
  have "control_step isoText ([], exampleControlDb) ([exampleStopTx], exampleControlDb)"
    using control_step.begins [OF opens, of isoText "[]"] by simp
  moreover have "control_step isoText ([exampleStopTx], exampleControlDb) ([exampleStopTx, exampleStopTx], exampleControlDb)"
    using control_step.begins [OF opens, of isoText "[exampleStopTx]"] by simp
  moreover have "control_step isoText ([exampleStopTx, exampleStopTx], exampleControlDb) ([exampleStopTx], ?db1)"
    using control_step.commits [of 0 "[exampleStopTx, exampleStopTx]" isoText exampleControlDb] by (simp add: prod_eq_iff)
  moreover have "control_step isoText ([exampleStopTx], ?db1) ([], snd (commitControl isoText exampleStopTx ?db1))"
    using control_step.commits [of 0 "[exampleStopTx]" isoText ?db1] by (simp add: prod_eq_iff)
  ultimately show ?thesis by (meson converse_rtranclp_into_rtranclp rtranclp.rtrancl_refl)
qed

lemma exampleStop_accepted:
  "td_accepted (cs_transition (createKillSwitchControlDecision (At 5) exampleStopRequest KS_NORMAL))"
  "effectiveTarget exampleStopRequest KS_NORMAL = CT_HARD_STOP"
proof -
  have reason: "canonicalizeKillSwitchReasonCode (cr_reasonCode exampleStopRequest) = ''db_write_failure''"
    by (simp add: exampleStopRequest_def canonicalizeKillSwitchReasonCode_def trim_def isSpace_def toLowerCase_def lowerChar_def)
  show eff: "effectiveTarget exampleStopRequest KS_NORMAL = CT_HARD_STOP"
    by (simp add: effectiveTarget_def) (simp add: exampleStopRequest_def)
  have "reasonFits exampleStopRequest KS_NORMAL"
    unfolding reasonFits_def mapKillSwitchReasonToTargetState_def reason
    by (simp add: killSwitchTargetStateByReasonCode_def exampleStopRequest_def)
  then show "td_accepted (cs_transition (createKillSwitchControlDecision (At 5) exampleStopRequest KS_NORMAL))"
    unfolding decision_simps(1) [OF refl] eff reason
    by (simp add: isLiveReconcileDowngrade_def canTransitionKillSwitchState_def)
qed

theorem audit_log_accounts_for_state_witness:
  "\<exists>row. db_killSwitch (snd (commitControl (\<lambda>_. ''t'') exampleStopTx (snd (commitControl (\<lambda>_. ''t'') exampleStopTx exampleControlDb)))) =
       Some row \<and>
     kr_state row = KS_HARD_STOP \<and>
     replayAudit (db_auditEvents (snd (commitControl (\<lambda>_. ''t'') exampleStopTx (snd (commitControl (\<lambda>_. ''t'') exampleStopTx
       exampleControlDb))))) KS_NORMAL = Some (kr_state row)"
proof -
  let ?commit = "\<lambda>db. snd (commitControl (\<lambda>_. ''t'') exampleStopTx db)"
  obtain row0 where start: "db_killSwitch exampleControlDb = Some row0" "kr_state row0 = KS_NORMAL"
    "db_auditEvents exampleControlDb = []" "db_riskEvents exampleControlDb = []" "db_jobs exampleControlDb = []"
    by (simp add: exampleControlDb_def)
  obtain row where row: "db_killSwitch (?commit (?commit exampleControlDb)) = Some row"
    "replayAudit (db_auditEvents (?commit (?commit exampleControlDb))) KS_NORMAL = Some (kr_state row)"
    using audit_log_accounts_for_state [OF exampleStop_run start(1,3-5), of "\<lambda>_. ''t''"] start(2) by auto
  let ?d = "createKillSwitchControlDecision (At 5) exampleStopRequest KS_NORMAL"
  have d: "td_accepted (cs_transition ?d)" "td_fromState (cs_transition ?d) = KS_NORMAL" "td_toState (cs_transition ?d) = KS_HARD_STOP"
    using exampleStop_accepted decision_simps(2,3) [OF refl] by simp_all
  have state: "map_option kr_state (db_killSwitch (?commit db)) = Some KS_HARD_STOP"
    if "map_option kr_state (db_killSwitch db) \<in> {Some KS_NORMAL, Some KS_HARD_STOP}" for db
    using that d by (auto simp: commitControl_def advanceState_def exampleStopTx_def Let_def split: prod.split if_splits)
  have "map_option kr_state (db_killSwitch (?commit (?commit exampleControlDb))) = Some KS_HARD_STOP"
    by (rule state, rule insertI2) (use state [of exampleControlDb] in \<open>simp add: exampleControlDb_def\<close>)
  then show ?thesis using row by auto
qed

end
