(* ===== verification/Js_Date.thy ===== *)
theory Js_Date
  imports Prelude "HOL-Library.Monad_Syntax"
begin

text \<open>
  The part of JavaScript's \<^verbatim>\<open>Date\<close> that the exit rules use, after the definitions of ECMAScript
  (\<^verbatim>\<open>DayFromYear\<close>, \<^verbatim>\<open>MakeDay\<close>, \<^verbatim>\<open>Date.UTC\<close> and the UTC getters), and the wall-clock parser of
  \<^verbatim>\<open>src/src/application/exit-engine/rules.ts\<close> built on it. The parser accepts a text exactly when it
  has the syntax of the pattern and names a day of the calendar; the proof is at the end.
  Parsing a text with an offset (\<^verbatim>\<open>new Date(text)\<close>) and printing a Date depend on the engine and on the
  time zone of the process, so they are the fields of the parameter \<open>date_env\<close>.
\<close>

section \<open>Dates\<close>

text \<open>A \<^verbatim>\<open>TimestampInput\<close>: a Date, valid with its epoch milliseconds or invalid, or a text.\<close>

datatype time_input =
    DateInput "int option"
  | TextInput string

record date_env =
  de_parse :: "string \<Rightarrow> int option"
  de_toString :: "int option \<Rightarrow> string"
  de_toISOString :: "int \<Rightarrow> string"

fun newDate :: "date_env \<Rightarrow> time_input \<Rightarrow> int option" where
  "newDate env (DateInput t) = t"
| "newDate env (TextInput s) = de_parse env s"

fun stringOfTime :: "date_env \<Rightarrow> time_input \<Rightarrow> string" where
  "stringOfTime env (DateInput t) = de_toString env t"
| "stringOfTime env (TextInput s) = s"

text \<open>A timestamp in a JSON record: a text stays a text.\<close>

fun timeJson :: "time_input \<Rightarrow> json" where
  "timeJson (DateInput None) = JTime (BadTime ''Invalid Date'')"
| "timeJson (DateInput (Some ms)) = JTime (At (ms * 1000000))"
| "timeJson (TextInput s) = JStr s"

section \<open>The UTC calendar\<close>

definition leapYear :: "int \<Rightarrow> bool" where
  "leapYear y \<longleftrightarrow> y mod 4 = 0 \<and> (y mod 100 \<noteq> 0 \<or> y mod 400 = 0)"

definition monthLengths :: "int \<Rightarrow> int list" where
  "monthLengths y = [31, if leapYear y then 29 else 28, 31, 30, 31, 30, 31, 31, 30, 31, 30, 31]"

text \<open>Days from 1970-01-01 to the first of January of a year, and to a day of a month (0 is January).\<close>

definition dayFromYear :: "int \<Rightarrow> int" where
  "dayFromYear y = 365 * (y - 1970) + (y - 1969) div 4 - (y - 1901) div 100 + (y - 1601) div 400"

definition makeDay :: "int \<Rightarrow> nat \<Rightarrow> int \<Rightarrow> int" where
  "makeDay y m d = dayFromYear y + sum_list (take m (monthLengths y)) + d - 1"

text \<open>\<^verbatim>\<open>Date.UTC\<close> reads a year of two digits as one of the twentieth century.\<close>

definition dateUTC :: "int \<Rightarrow> nat \<Rightarrow> int \<Rightarrow> int \<Rightarrow> int \<Rightarrow> int \<Rightarrow> int \<Rightarrow> int" where
  "dateUTC year month day hour minute second ms =
     (let y = (if 0 \<le> year \<and> year \<le> 99 then 1900 + year else year)
      in makeDay y month day * 86400000 + hour * 3600000 + minute * 60000 + second * 1000 + ms)"

text \<open>The year of a day is the last one that begins no later, found from an estimate from below.\<close>

function yearUp :: "int \<Rightarrow> int \<Rightarrow> int" where
  "yearUp y n = (if dayFromYear (y + 1) \<le> n then yearUp (y + 1) n else y)"
  by pat_completeness auto

lemma div_Suc: "0 < n \<Longrightarrow> (x + 1) div n = x div n + (if (x + 1) mod n = 0 then 1 else 0)" for x n :: int
proof -
  assume n: "0 < n"
  have x: "x + 1 = n * (x div n) + (x mod n + 1)" by simp
  have r: "0 \<le> x mod n" "x mod n < n" using n by simp_all
  show ?thesis
  proof (cases "x mod n + 1 = n")
    case True
    then have "x + 1 = n * (x div n + 1)" using x by (simp add: algebra_simps)
    then show ?thesis using n by simp
  next
    case False
    then have "x mod n + 1 < n" using r by linarith
    then have "(x + 1) div n = x div n" "(x + 1) mod n = x mod n + 1"
      using r int_div_pos_eq [OF x] int_mod_pos_eq [OF x] by simp_all
    then show ?thesis using r by simp
  qed
qed

lemma div_next:
  fixes y n c d :: int
  assumes "0 < n" and "n dvd c" and "d = c + 1"
  shows "(y + 1 - d) div n = (y - d) div n + (if y mod n = 0 then 1 else 0)"
proof -
  have e: "y + 1 - d = (y - d) + 1" "(y - d) + 1 = y - c" using assms(3) by simp_all
  have m: "(y - c) mod n = 0 \<longleftrightarrow> y mod n = 0"
    unfolding mod_eq_0_iff_dvd by (rule dvd_diff_left_iff [OF assms(2)])
  show ?thesis unfolding e(1) div_Suc [OF assms(1)] unfolding e(2) m ..
qed

lemma dayFromYear_Suc: "dayFromYear (y + 1) = dayFromYear y + (if leapYear y then 366 else 365)"
proof -
  define u where "u n = (if y mod n = 0 then 1 else 0 :: int)" for n
  define a b c where "a = (y - 1969) div 4" and "b = (y - 1901) div 100" and "c = (y - 1601) div 400"
  have divs: "(y + 1 - 1969) div 4 = a + u 4" "(y + 1 - 1901) div 100 = b + u 100"
    "(y + 1 - 1601) div 400 = c + u 400"
    unfolding a_def b_def c_def u_def
    by (rule div_next [where c = 1968] div_next [where c = 1900] div_next [where c = 1600], simp, simp, simp)+
  have "dayFromYear y = 365 * (y - 1970) + a - b + c"
    by (simp only: dayFromYear_def a_def b_def c_def)
  moreover have "dayFromYear (y + 1) = 365 * (y + 1 - 1970) + (a + u 4) - (b + u 100) + (c + u 400)"
    by (simp only: dayFromYear_def divs)
  ultimately have step: "dayFromYear (y + 1) = dayFromYear y + 365 + u 4 - u 100 + u 400"
    by (simp add: algebra_simps)
  have "y mod 400 = 0 \<Longrightarrow> y mod 100 = 0" "y mod 100 = 0 \<Longrightarrow> y mod 4 = 0"
    using dvd_trans [of 100 400 y] dvd_trans [of 4 100 y] by (simp_all add: mod_eq_0_iff_dvd)
  then have "u 4 - u 100 + u 400 = (if leapYear y then 1 else 0)"
    unfolding u_def leapYear_def
    by (cases "y mod 400 = 0"; cases "y mod 100 = 0"; cases "y mod 4 = 0")
      (simp_all only: if_True if_False simp_thms not_True_eq_False not_False_eq_True, simp_all)
  then show ?thesis unfolding step by (cases "leapYear y") simp_all
qed

termination yearUp
  by (relation "measure (\<lambda>(y, n). nat (n - dayFromYear y))") (auto simp: dayFromYear_Suc split: if_splits)

declare yearUp.simps [simp del]

definition utcFullYear :: "int \<Rightarrow> int" where
  "utcFullYear t = (let n = t div 86400000 in yearUp (1970 + (if n < 0 then n div 365 else n div 366)) n)"

text \<open>Month and day of the month, walking the months of the year from a day within it.\<close>

fun walkMonths :: "nat \<Rightarrow> int list \<Rightarrow> int \<Rightarrow> nat \<times> int" where
  "walkMonths m [] n = (m, n + 1)"
| "walkMonths m (l # ls) n = (if n < l then (m, n + 1) else walkMonths (Suc m) ls (n - l))"

definition utcMonthDate :: "int \<Rightarrow> nat \<times> int" where
  "utcMonthDate t = (let y = utcFullYear t in walkMonths 0 (monthLengths y) (t div 86400000 - dayFromYear y))"

definition utcHours :: "int \<Rightarrow> int" where
  "utcHours t = t mod 86400000 div 3600000"

definition utcMinutes :: "int \<Rightarrow> int" where
  "utcMinutes t = t mod 3600000 div 60000"

definition utcSeconds :: "int \<Rightarrow> int" where
  "utcSeconds t = t mod 60000 div 1000"

definition utcMilliseconds :: "int \<Rightarrow> int" where
  "utcMilliseconds t = t mod 1000"

section \<open>The syntax of a wall clock\<close>

definition isDigit :: "char \<Rightarrow> bool" where
  "isDigit c \<longleftrightarrow> c \<in> set ''0123456789''"

definition digitsValue :: "string \<Rightarrow> int" where
  "digitsValue s = foldl (\<lambda>a c. a * 10 + (of_char c - 48)) 0 s"

text \<open>\<open>number n s\<close> reads exactly \<open>n\<close> digits, \<open>expect\<close> one of the given characters.\<close>

definition number :: "nat \<Rightarrow> string \<Rightarrow> (int \<times> string) option" where
  "number n s = (if n \<le> length s \<and> list_all isDigit (take n s) then Some (digitsValue (take n s), drop n s) else None)"

fun expect :: "string \<Rightarrow> string \<Rightarrow> string option" where
  "expect cs [] = None"
| "expect cs (c # s) = (if c \<in> set cs then Some s else None)"

text \<open>The captures of the pattern: year, month, day, hour, minute, second and the digits of the fraction.\<close>

record wall_clock =
  wc_year :: int
  wc_month :: int
  wc_day :: int
  wc_hour :: int
  wc_minute :: int
  wc_second :: int
  wc_fraction :: string

definition matchTime :: "wall_clock \<Rightarrow> string \<Rightarrow> wall_clock option" where
  "matchTime w s = (if s = [] then Some w else do {
     s \<leftarrow> expect ''T '' s;
     (h, s) \<leftarrow> number 2 s;
     let w = w\<lparr>wc_hour := h\<rparr>;
     if s = [] then Some w else do {
       s \<leftarrow> expect '':'' s;
       (mi, s) \<leftarrow> number 2 s;
       let w = w\<lparr>wc_minute := mi\<rparr>;
       if s = [] then Some w else do {
         s \<leftarrow> expect '':'' s;
         (sec, s) \<leftarrow> number 2 s;
         let w = w\<lparr>wc_second := sec\<rparr>;
         if s = [] then Some w else do {
           f \<leftarrow> expect ''.'' s;
           if 1 \<le> length f \<and> length f \<le> 9 \<and> list_all isDigit f then Some (w\<lparr>wc_fraction := f\<rparr>) else None}}}})"

definition matchWallClock :: "string \<Rightarrow> wall_clock option" where
  "matchWallClock s = do {
     (y, s) \<leftarrow> number 4 s;
     s \<leftarrow> expect ''-'' s;
     (mo, s) \<leftarrow> number 2 s;
     s \<leftarrow> expect ''-'' s;
     (d, s) \<leftarrow> number 2 s;
     matchTime \<lparr>wc_year = y, wc_month = mo, wc_day = d, wc_hour = 0, wc_minute = 0, wc_second = 0,
       wc_fraction = []\<rparr> s}"

text \<open>\<^verbatim>\<open>Number(fractionRaw.padEnd(3, "0").slice(0, 3))\<close>, and zero without a fraction.\<close>

definition millisecondOf :: "string \<Rightarrow> int" where
  "millisecondOf f = (if f = [] then 0 else digitsValue (take 3 (f @ replicate (3 - length f) CHR ''0'')))"

definition parseWallClockIsoTimestamp :: "string \<Rightarrow> int option" where
  "parseWallClockIsoTimestamp s = (case matchWallClock s of None \<Rightarrow> None
   | Some w \<Rightarrow>
     (let year = wc_year w; month = wc_month w; day = wc_day w; hour = wc_hour w; minute = wc_minute w;
          second = wc_second w; ms = millisecondOf (wc_fraction w)
      in if month < 1 \<or> month > 12 \<or> day < 1 \<or> day > 31 \<or> hour < 0 \<or> hour > 23 \<or> minute < 0 \<or> minute > 59 \<or>
           second < 0 \<or> second > 59 then None
         else let t = dateUTC year (nat (month - 1)) day hour minute second ms
              in if utcFullYear t \<noteq> year \<or> int (fst (utcMonthDate t)) \<noteq> month - 1 \<or> snd (utcMonthDate t) \<noteq> day \<or>
                   utcHours t \<noteq> hour \<or> utcMinutes t \<noteq> minute \<or> utcSeconds t \<noteq> second \<or> utcMilliseconds t \<noteq> ms
                 then None else Some t))"

section \<open>Time zones in a text\<close>

text \<open>The pattern \<^verbatim>\<open>(?:[zZ]|[+-]\d{2}:?\d{2})$\<close>: what it matches, and where in a text.\<close>

fun matchesZone :: "string \<Rightarrow> bool" where
  "matchesZone [c] = (c = CHR ''z'' \<or> c = CHR ''Z'')"
| "matchesZone [sg, a, b, c, d] = (sg \<in> set ''+-'' \<and> list_all isDigit [a, b, c, d])"
| "matchesZone [sg, a, b, col, c, d] = (sg \<in> set ''+-'' \<and> col = CHR '':'' \<and> list_all isDigit [a, b, c, d])"
| "matchesZone _ = False"

definition zoneLength :: "string \<Rightarrow> nat option" where
  "zoneLength s = find (\<lambda>n. n \<le> length s \<and> matchesZone (drop (length s - n) s)) [1, 5, 6]"

definition hasExplicitTimezone :: "string \<Rightarrow> bool" where
  "hasExplicitTimezone s \<longleftrightarrow> zoneLength s \<noteq> None"

definition withoutZone :: "string \<Rightarrow> string" where
  "withoutZone s = (case zoneLength s of None \<Rightarrow> s | Some n \<Rightarrow> take (length s - n) s)"

section \<open>The parser accepts the days of the calendar\<close>

lemma dayFromYear_mono: "y \<le> y' \<Longrightarrow> dayFromYear y \<le> dayFromYear y'"
proof (induction "nat (y' - y)" arbitrary: y')
  case (Suc k)
  then have "dayFromYear y \<le> dayFromYear (y' - 1)" by simp
  also have "\<dots> \<le> dayFromYear y'" using dayFromYear_Suc [of "y' - 1"] by simp
  finally show ?case .
qed simp

lemma yearUp_eq:
  assumes "y \<le> y'" and "dayFromYear y' \<le> n" and "n < dayFromYear (y' + 1)"
  shows "yearUp y n = y'"
  using assms
proof (induction y n rule: yearUp.induct)
  case (1 y n)
  show ?case
  proof (cases "y = y'")
    case True
    then show ?thesis using 1(4) by (simp add: yearUp.simps [of y' n])
  next
    case False
    then have "dayFromYear (y + 1) \<le> n" using 1 dayFromYear_mono [of "y + 1" y'] by simp
    then show ?thesis using 1 False by (simp add: yearUp.simps [of y n])
  qed
qed

lemma year_estimate: "dayFromYear (1970 + (if n < 0 then n div 365 else n div 366)) \<le> n"
proof -
  have start: "dayFromYear 1970 = 0" by (simp add: dayFromYear_def)
  have neg: "dayFromYear (1970 + k) \<le> 365 * k" if "k \<le> 0" for k
    using that
  proof (induction rule: int_le_induct)
    case (step k)
    then show ?case using dayFromYear_Suc [of "1969 + k"] by (simp add: algebra_simps split: if_splits)
  qed (simp add: start)
  have pos: "dayFromYear (1970 + k) \<le> 366 * k" if "0 \<le> k" for k
    using that
  proof (induction rule: int_ge_induct)
    case (step k)
    then show ?case using dayFromYear_Suc [of "1970 + k"] by (simp add: algebra_simps split: if_splits)
  qed (simp add: start)
  show ?thesis
  proof (cases "n < 0")
    case True
    then have "n div 365 \<le> 0" "365 * (n div 365) \<le> n" by simp_all
    then show ?thesis using neg [of "n div 365"] True by simp
  next
    case False
    then have "0 \<le> n div 366" "366 * (n div 366) \<le> n" by simp_all
    then show ?thesis using pos [of "n div 366"] False by simp
  qed
qed


lemma utcFullYear_makeDay:
  assumes "dayFromYear y \<le> t div 86400000" and "t div 86400000 < dayFromYear (y + 1)"
  shows "utcFullYear t = y"
proof -
  let ?n = "t div 86400000"
  let ?e = "1970 + (if ?n < 0 then ?n div 365 else ?n div 366)"
  have "\<not> y < ?e" using assms(2) year_estimate [of ?n] dayFromYear_mono [of "y + 1" ?e] by fastforce
  then show ?thesis using assms by (simp add: utcFullYear_def Let_def yearUp_eq)
qed

lemma walkMonths_ge: "m \<le> fst (walkMonths m ls n)"
proof (induction m ls n rule: walkMonths.induct)
  case (2 m l ls n)
  then show ?case by (cases "n < l") simp_all
qed simp

lemma walkMonths_eq_iff:
  assumes "k < length ls" and "0 \<le> e" and "list_all (\<lambda>l. 0 \<le> l) ls"
  shows "walkMonths m ls (sum_list (take k ls) + e) = (m + k, e + 1) \<longleftrightarrow> e < ls ! k"
  using assms
proof (induction ls arbitrary: m k)
  case (Cons l ls)
  have nonneg: "0 \<le> sum_list (take k' ls)" for k'
    using Cons.prems(3) by (auto simp: list_all_iff intro!: sum_list_nonneg dest: in_set_takeD)
  show ?case
  proof (cases k)
    case 0
    show ?thesis using walkMonths_ge [of "Suc m" ls "e - l"] 0 by auto
  next
    case (Suc k')
    then show ?thesis using Cons.IH [of k' "Suc m"] Cons.prems nonneg [of k'] by (simp add: algebra_simps)
  qed
qed simp

lemma monthLengths_facts [simp]: "length (monthLengths y) = 12" "list_all (\<lambda>l. 0 \<le> l) (monthLengths y)"
  by (simp_all add: monthLengths_def)

lemma sum_monthLengths: "sum_list (monthLengths y) = (if leapYear y then 366 else 365)"
  by (simp add: monthLengths_def)

text \<open>A day of a month no longer than 31 days lies in the year: only February, April, \<open>\<dots>\<close> can overflow, never December.\<close>

lemma makeDay_within_year:
  assumes "m < 12" and "1 \<le> d" and "d \<le> 31"
  shows "dayFromYear y \<le> makeDay y m d" and "makeDay y m d < dayFromYear (y + 1)"
proof -
  have "0 \<le> sum_list (take m (monthLengths y))"
    using monthLengths_facts(2) [of y] by (auto simp: list_all_iff intro!: sum_list_nonneg dest: in_set_takeD)
  then show "dayFromYear y \<le> makeDay y m d" using assms by (simp add: makeDay_def)
  have rest: "31 \<le> sum_list (drop m (monthLengths y))"
  proof -
    have "31 = sum_list (drop 11 (monthLengths y))" by (simp add: monthLengths_def)
    also have "drop 11 (monthLengths y) = drop (11 - m) (drop m (monthLengths y))" using assms(1) by simp
    finally have "31 + sum_list (take (11 - m) (drop m (monthLengths y))) = sum_list (drop m (monthLengths y))"
      by (metis add.commute append_take_drop_id sum_list_append)
    moreover have "0 \<le> sum_list (take (11 - m) (drop m (monthLengths y)))"
      using monthLengths_facts(2) [of y]
      by (auto simp: list_all_iff intro!: sum_list_nonneg dest!: in_set_takeD in_set_dropD)
    ultimately show ?thesis by linarith
  qed
  have "sum_list (take m (monthLengths y)) + sum_list (drop m (monthLengths y)) = sum_list (monthLengths y)"
    by (metis append_take_drop_id sum_list_append)
  then show "makeDay y m d < dayFromYear (y + 1)"
    using rest assms by (simp add: makeDay_def dayFromYear_Suc sum_monthLengths split: if_splits)
qed

text \<open>What a wall clock must satisfy: a year the engine does not reinterpret, a day of its month, a time of day.\<close>

definition calendarTime :: "wall_clock \<Rightarrow> bool" where
  "calendarTime w \<longleftrightarrow> 100 \<le> wc_year w \<and> 1 \<le> wc_month w \<and> wc_month w \<le> 12 \<and>
     1 \<le> wc_day w \<and> wc_day w \<le> monthLengths (wc_year w) ! nat (wc_month w - 1) \<and>
     0 \<le> wc_hour w \<and> wc_hour w \<le> 23 \<and> 0 \<le> wc_minute w \<and> wc_minute w \<le> 59 \<and> 0 \<le> wc_second w \<and> wc_second w \<le> 59"

definition wallClockMillis :: "wall_clock \<Rightarrow> int" where
  "wallClockMillis w = makeDay (wc_year w) (nat (wc_month w - 1)) (wc_day w) * 86400000 + wc_hour w * 3600000 +
     wc_minute w * 60000 + wc_second w * 1000 + millisecondOf (wc_fraction w)"

lemma div_mod_parts: "0 \<le> r \<Longrightarrow> r < n \<Longrightarrow> (q * n + r) div n = q \<and> (q * n + r) mod n = r" for q r n :: int
  by simp

lemma clock_parts:
  fixes day h mi s ms :: int
  assumes "0 \<le> h" "h \<le> 23" "0 \<le> mi" "mi \<le> 59" "0 \<le> s" "s \<le> 59" "0 \<le> ms" "ms \<le> 999"
  defines "t \<equiv> day * 86400000 + h * 3600000 + mi * 60000 + s * 1000 + ms"
  shows "t div 86400000 = day" "utcHours t = h" "utcMinutes t = mi" "utcSeconds t = s" "utcMilliseconds t = ms"
proof -
  define hour minute second where "hour = mi * 60000 + s * 1000 + ms" and "minute = s * 1000 + ms"
    and "second = ms"
  have bounds: "0 \<le> hour" "hour < 3600000" "0 \<le> minute" "minute < 60000"
    "0 \<le> h * 3600000 + hour" "h * 3600000 + hour < 86400000"
    using assms(1-8) by (simp_all add: hour_def minute_def)
  have t: "t = day * 86400000 + (h * 3600000 + hour)" "t = (day * 24 + h) * 3600000 + hour"
    "t = ((day * 24 + h) * 60 + mi) * 60000 + minute" "t = (((day * 24 + h) * 60 + mi) * 60 + s) * 1000 + ms"
    by (simp_all add: t_def hour_def minute_def)
  show "t div 86400000 = day" unfolding t(1) using bounds div_mod_parts by blast
  have "t mod 86400000 = h * 3600000 + hour" unfolding t(1) using bounds div_mod_parts by blast
  then show "utcHours t = h" using bounds div_mod_parts by (simp add: utcHours_def)
  have "t mod 3600000 = mi * 60000 + minute" unfolding t(2)
    using div_mod_parts [OF bounds(1,2)] unfolding hour_def minute_def add.assoc by blast
  then show "utcMinutes t = mi" using bounds div_mod_parts by (simp add: utcMinutes_def)
  have "t mod 60000 = s * 1000 + ms" unfolding t(3)
    using div_mod_parts [OF bounds(3,4)] unfolding minute_def by blast
  then show "utcSeconds t = s" using assms(7,8) div_mod_parts by (simp add: utcSeconds_def)
  show "utcMilliseconds t = ms" unfolding t(4) utcMilliseconds_def using assms(7,8) by (intro div_mod_parts [THEN conjunct2]) simp_all
qed

lemma digit_value: "isDigit c \<Longrightarrow> 0 \<le> of_char c - (48::int) \<and> of_char c - (48::int) \<le> 9"
  by (auto simp: isDigit_def)

lemma digitsValue_bounds: "list_all isDigit s \<Longrightarrow> 0 \<le> digitsValue s \<and> digitsValue s < 10 ^ length s"
proof (induction s rule: rev_induct)
  case (snoc c s)
  then show ?case using digit_value [of c] by (simp add: digitsValue_def)
qed (simp add: digitsValue_def)

lemma number_bounds: "number n s = Some (v, r) \<Longrightarrow> 0 \<le> v \<and> v < 10 ^ n"
  using digitsValue_bounds [of "take n s"] by (auto simp: number_def min_absorb2 split: if_splits)

lemma millisecondOf_bounds:
  assumes "list_all isDigit f"
  shows "0 \<le> millisecondOf f \<and> millisecondOf f \<le> 999"
proof -
  let ?g = "take 3 (f @ replicate (3 - length f) CHR ''0'')"
  have "isDigit CHR ''0''" by (simp add: isDigit_def)
  then have "list_all isDigit ?g" using assms unfolding list_all_iff
    by (metis Un_iff empty_iff in_set_replicate in_set_takeD set_append)
  moreover have "length ?g = 3" by simp
  ultimately have "0 \<le> digitsValue ?g" "digitsValue ?g < 10 ^ 3" using digitsValue_bounds [of ?g] by metis+
  then show ?thesis unfolding millisecondOf_def by simp
qed

lemma matchTime_frame:
  assumes "matchTime w s = Some w'" and "list_all isDigit (wc_fraction w)"
  shows "wc_year w' = wc_year w \<and> list_all isDigit (wc_fraction w')"
  using assms by (auto simp: matchTime_def Let_def bind_eq_Some_conv split: if_splits)

lemma matchWallClock_bounds:
  assumes "matchWallClock s = Some w"
  shows "0 \<le> wc_year w" and "list_all isDigit (wc_fraction w)"
  using assms by (auto simp: matchWallClock_def bind_eq_Some_conv dest!: matchTime_frame number_bounds)

text \<open>Among wall clocks of the right syntax the parser accepts those of the calendar, and reads them as UTC.\<close>

lemma parseWallClock_eq:
  assumes "matchWallClock s = Some w"
  shows "parseWallClockIsoTimestamp s = (if calendarTime w then Some (wallClockMillis w) else None)"
proof (cases "1 \<le> wc_month w \<and> wc_month w \<le> 12 \<and> 1 \<le> wc_day w \<and> wc_day w \<le> 31 \<and> 0 \<le> wc_hour w \<and> wc_hour w \<le> 23 \<and>
    0 \<le> wc_minute w \<and> wc_minute w \<le> 59 \<and> 0 \<le> wc_second w \<and> wc_second w \<le> 59")
  case True
  define y where "y = (if wc_year w \<le> 99 then 1900 + wc_year w else wc_year w)"
  define m where "m = nat (wc_month w - 1)"
  define t where "t = dateUTC (wc_year w) m (wc_day w) (wc_hour w) (wc_minute w) (wc_second w) (millisecondOf (wc_fraction w))"
  note ms = millisecondOf_bounds [OF matchWallClock_bounds(2) [OF assms]]
  have m: "m < 12" "int m = wc_month w - 1" unfolding m_def using True by linarith+
  have t: "t = makeDay y m (wc_day w) * 86400000 + wc_hour w * 3600000 + wc_minute w * 60000 + wc_second w * 1000 +
      millisecondOf (wc_fraction w)"
    using matchWallClock_bounds(1) [OF assms] by (simp add: t_def dateUTC_def y_def)
  have parts: "t div 86400000 = makeDay y m (wc_day w)" "utcHours t = wc_hour w" "utcMinutes t = wc_minute w"
    "utcSeconds t = wc_second w" "utcMilliseconds t = millisecondOf (wc_fraction w)"
    unfolding t using clock_parts True ms by simp_all
  have year: "utcFullYear t = y"
    using makeDay_within_year [OF m(1)] True by (intro utcFullYear_makeDay) (simp_all add: parts(1))
  have "utcMonthDate t = (m, wc_day w) \<longleftrightarrow> wc_day w \<le> monthLengths y ! m"
    using walkMonths_eq_iff [of m "monthLengths y" "wc_day w - 1" 0] m True
    by (simp add: utcMonthDate_def Let_def year parts(1) makeDay_def algebra_simps) linarith
  then have month: "int (fst (utcMonthDate t)) = wc_month w - 1 \<and> snd (utcMonthDate t) = wc_day w \<longleftrightarrow>
      wc_day w \<le> monthLengths y ! m"
    using m(2) by (metis fst_conv snd_conv prod.collapse of_nat_eq_iff)
  have "parseWallClockIsoTimestamp s = (if y = wc_year w \<and> wc_day w \<le> monthLengths y ! m then Some t else None)"
    using assms True month parts(2-) year
    by (simp add: parseWallClockIsoTimestamp_def Let_def not_less flip: m_def t_def) auto
  moreover have "y = wc_year w \<longleftrightarrow> 100 \<le> wc_year w" by (simp add: y_def)
  ultimately show ?thesis using True t
    by (auto simp: calendarTime_def wallClockMillis_def m_def)
next
  case False
  have "monthLengths (wc_year w) ! nat (wc_month w - 1) \<le> 31" if "wc_month w \<le> 12"
  proof -
    have "list_all (\<lambda>l. l \<le> 31) (monthLengths (wc_year w))" by (simp add: monthLengths_def)
    then show ?thesis using that by (auto simp: list_all_length)
  qed
  then have "\<not> calendarTime w" using False by (auto simp: calendarTime_def)
  then show ?thesis using assms False by (auto simp: parseWallClockIsoTimestamp_def Let_def not_le)
qed

lemma parseWallClock_no_match: "matchWallClock s = None \<Longrightarrow> parseWallClockIsoTimestamp s = None"
  by (simp add: parseWallClockIsoTimestamp_def)

end
