(* ===== verification/Exit_Rules.thy ===== *)
theory Exit_Rules
  imports Js_Date Decimal_Js
begin

text \<open>
  The exit rules of \<^verbatim>\<open>src/src/application/exit-engine/rules.ts\<close> and the engine that aggregates them,
  \<^verbatim>\<open>rule-engine.ts\<close>, over the data of \<^verbatim>\<open>src/src/domain/exit.ts\<close>. A rule is a pure function of the context;
  a factory that refuses its options is an error result. Intentions of signals come from outside the
  type system and are checked at run time, so they are texts here. The one-line trace messages of the
  evaluations are not modelled; the message of a decision, which becomes the reason of an order, is the
  parameter \<open>render\<close> applied to what the source prints into it.
\<close>

section \<open>Data\<close>

datatype exit_intention = XI_REDUCE | XI_EXIT
datatype exit_decision_kind = XD_HOLD | XD_REDUCE | XD_EXIT | XD_BLOCK

fun exitIntentionName :: "exit_intention \<Rightarrow> string" where
  "exitIntentionName XI_REDUCE = ''REDUCE''"
| "exitIntentionName XI_EXIT = ''EXIT''"

text \<open>Only a triggered evaluation carries an intention.\<close>

datatype exit_rule_status =
    XS_PASS
  | XS_TRIGGERED exit_intention
  | XS_BLOCKED
  | XS_UNAVAILABLE

record exit_rule_evaluation =
  xe_ruleId :: string
  xe_status :: exit_rule_status
  xe_reasonCode :: string
  xe_metadata :: "json_record option"

record exit_position_snapshot =
  xp_exchangeId :: string
  xp_market :: string
  xp_quantity :: numeric
  xp_averageEntryPrice :: numeric
  xp_currentPrice :: numeric
  xp_unrealizedPnlBps :: numeric
  xp_notionalKrw :: numeric
  xp_strategyId :: "string option"
  xp_observedAt :: time_input

record exit_policy_snapshot =
  pol_minOrderNotional :: numeric
  pol_tickSize :: numeric
  pol_dustThreshold :: numeric
  pol_exitCostBps :: numeric
  pol_exitSlippageBps :: numeric
  pol_source :: string
  pol_capturedAt :: time_input

record exit_trailing_state =
  xt_anchorPrice :: numeric
  xt_anchorObservedAt :: time_input
  xt_trailBps :: "numeric option"

text \<open>A signal of a strategy or of the risk gate; a strategy's full exit has no ratio.\<close>

record exit_signal =
  sg_intention :: string
  sg_exchangeId :: string
  sg_market :: string
  sg_strategyId :: string
  sg_reductionRatio :: "numeric option"
  sg_reasonCode :: string
  sg_reason :: string
  sg_observedAt :: time_input

datatype exit_timezone = TZ_UTC | TZ_KST

fun timezoneName :: "exit_timezone \<Rightarrow> string" where
  "timezoneName TZ_UTC = ''UTC''"
| "timezoneName TZ_KST = ''KST''"

record exit_time_config =
  tc_deadline :: time_input
  tc_timezone :: exit_timezone

record exit_rule_context =
  xc_exchangeId :: string
  xc_market :: string
  xc_observedAt :: time_input
  xc_strategyId :: string
  xc_position :: exit_position_snapshot
  xc_policySnapshot :: exit_policy_snapshot
  xc_trailingState :: "exit_trailing_state option"
  xc_strategyExitSignal :: "exit_signal option"
  xc_timeBasedConfig :: "exit_time_config option"
  xc_riskReductionSignal :: "exit_signal option"

record exit_rule =
  er_id :: string
  er_evaluate :: "exit_rule_context \<Rightarrow> exit_rule_evaluation"

section \<open>Helpers\<close>

definition evaluation :: "string \<Rightarrow> exit_rule_status \<Rightarrow> string \<Rightarrow> json_record option \<Rightarrow> exit_rule_evaluation" where
  "evaluation ruleId status reasonCode metadata =
     \<lparr>xe_ruleId = ruleId, xe_status = status, xe_reasonCode = reasonCode, xe_metadata = metadata\<rparr>"

definition pass :: "string \<Rightarrow> string \<Rightarrow> json_record option \<Rightarrow> exit_rule_evaluation" where
  "pass ruleId reasonCode metadata = evaluation ruleId XS_PASS reasonCode metadata"

definition triggered :: "string \<Rightarrow> string \<Rightarrow> exit_intention \<Rightarrow> json_record option \<Rightarrow> exit_rule_evaluation" where
  "triggered ruleId reasonCode exitIntention metadata = evaluation ruleId (XS_TRIGGERED exitIntention) reasonCode metadata"

definition blocked :: "string \<Rightarrow> string \<Rightarrow> json_record option \<Rightarrow> exit_rule_evaluation" where
  "blocked ruleId reasonCode metadata = evaluation ruleId XS_BLOCKED reasonCode metadata"

definition unavailable :: "string \<Rightarrow> string \<Rightarrow> exit_rule_evaluation" where
  "unavailable ruleId reasonCode = evaluation ruleId XS_UNAVAILABLE reasonCode None"

lemmas evaluation_defs = pass_def triggered_def blocked_def unavailable_def evaluation_def

definition parseRuleDecimal :: "numeric \<Rightarrow> string \<Rightarrow> rat result" where
  "parseRuleDecimal n fieldName =
     bindR (parseFinancialDecimal n) (\<lambda>d. if d \<le> 0 then Inl (Failure fieldName) else Inr d)"

definition parseDecimal :: "numeric \<Rightarrow> rat option" where
  "parseDecimal n = (case parseFinancialDecimal n of Inl e \<Rightarrow> None | Inr r \<Rightarrow> Some r)"

section \<open>Stop loss, take profit and trailing stop\<close>

definition createStopLossExitRule :: "numeric \<Rightarrow> exit_rule result" where
  "createStopLossExitRule stopLossOption =
     bindR (parseRuleDecimal stopLossOption ''stop_loss_bps'') (\<lambda>stopLossBps. Inr
       \<lparr>er_id = ''stop_loss_exit'', er_evaluate = (\<lambda>context.
          case parseDecimal (xp_unrealizedPnlBps (xc_position context)) of
            None \<Rightarrow> unavailable ''stop_loss_exit'' ''stop_loss_unavailable''
          | Some unrealized \<Rightarrow>
              let threshold = - stopLossBps
              in if unrealized \<le> threshold then
                   triggered ''stop_loss_exit'' ''stop_loss_triggered'' XI_EXIT (Some
                     [(''unrealized_pnl_bps'', JNum (Num unrealized)), (''stop_loss_bps'', JNum (Num stopLossBps))])
                 else pass ''stop_loss_exit'' ''stop_loss_clear'' None)\<rparr>)"

definition createTakeProfitExitRule :: "numeric \<Rightarrow> exit_rule result" where
  "createTakeProfitExitRule takeProfitOption =
     bindR (parseRuleDecimal takeProfitOption ''take_profit_bps'') (\<lambda>takeProfitBps. Inr
       \<lparr>er_id = ''take_profit_exit'', er_evaluate = (\<lambda>context.
          case parseDecimal (xp_unrealizedPnlBps (xc_position context)) of
            None \<Rightarrow> unavailable ''take_profit_exit'' ''take_profit_unavailable''
          | Some unrealized \<Rightarrow>
              if takeProfitBps \<le> unrealized then
                triggered ''take_profit_exit'' ''take_profit_triggered'' XI_EXIT (Some
                  [(''unrealized_pnl_bps'', JNum (Num unrealized)), (''take_profit_bps'', JNum (Num takeProfitBps))])
              else pass ''take_profit_exit'' ''take_profit_clear'' None)\<rparr>)"

text \<open>The trail of the state, the default where it is not set, or nothing where it is invalid.\<close>

definition readTrailBps :: "rat \<Rightarrow> numeric option \<Rightarrow> rat option" where
  "readTrailBps defaultTrailBps trailBpsRaw =
     (if trailBpsRaw = None \<or> trailBpsRaw = Some (NotDecimal []) then Some defaultTrailBps
      else case Option.bind trailBpsRaw parseDecimal of
          None \<Rightarrow> None
        | Some parsed \<Rightarrow> if parsed \<le> 0 then None else Some parsed)"

definition dropBps :: "rounding \<Rightarrow> rat \<Rightarrow> rat \<Rightarrow> rat" where
  "dropBps rnd anchorPrice currentPrice =
     dtimes rnd (case ddiv rnd (dminus rnd anchorPrice currentPrice) anchorPrice of None \<Rightarrow> 0 | Some q \<Rightarrow> q) 10000"

definition evaluateTrailingStop :: "rounding \<Rightarrow> date_env \<Rightarrow> rat \<Rightarrow> exit_rule_context \<Rightarrow> exit_rule_evaluation" where
  "evaluateTrailingStop rnd env defaultTrailBps context =
     (case xc_trailingState context of
        None \<Rightarrow> unavailable ''trailing_stop_exit'' ''trailing_state_missing''
      | Some state \<Rightarrow>
       (case readTrailBps defaultTrailBps (xt_trailBps state) of
          None \<Rightarrow> blocked ''trailing_stop_exit'' ''trailing_trail_bps_invalid'' None
        | Some trailBps \<Rightarrow>
         (case parseDecimal (xt_anchorPrice state) of
            None \<Rightarrow> blocked ''trailing_stop_exit'' ''trailing_anchor_invalid'' None
          | Some anchorPrice \<Rightarrow>
            if \<not> 0 < anchorPrice then blocked ''trailing_stop_exit'' ''trailing_anchor_invalid'' None
            else
             (case parseDecimal (xp_currentPrice (xc_position context)) of
                None \<Rightarrow> blocked ''trailing_stop_exit'' ''trailing_price_invalid'' None
              | Some currentPrice \<Rightarrow>
                if \<not> 0 < currentPrice then blocked ''trailing_stop_exit'' ''trailing_price_invalid'' None
                else
                 (case newDate env (xt_anchorObservedAt state) of
                    None \<Rightarrow> blocked ''trailing_stop_exit'' ''trailing_anchor_observed_at_invalid'' None
                  | Some anchorObservedAt \<Rightarrow>
                    let drop = dropBps rnd anchorPrice currentPrice;
                        figures = [(''anchor_price'', JNum (Num anchorPrice)), (''current_price'', JNum (Num currentPrice)),
                          (''drop_bps'', JNum (Num drop)), (''trail_bps'', JNum (Num trailBps))]
                    in if trailBps \<le> drop then
                         triggered ''trailing_stop_exit'' ''trailing_stop_triggered'' XI_EXIT
                           (Some (figures @ [(''anchor_observed_at'', JStr (de_toISOString env anchorObservedAt))]))
                       else pass ''trailing_stop_exit'' ''trailing_stop_clear'' (Some figures))))))"

definition createTrailingStopExitRule :: "rounding \<Rightarrow> date_env \<Rightarrow> numeric \<Rightarrow> exit_rule result" where
  "createTrailingStopExitRule rnd env defaultTrailOption =
     bindR (parseRuleDecimal defaultTrailOption ''default_trail_bps'') (\<lambda>defaultTrailBps. Inr
       \<lparr>er_id = ''trailing_stop_exit'', er_evaluate = evaluateTrailingStop rnd env defaultTrailBps\<rparr>)"

section \<open>The deadline\<close>

text \<open>A deadline is a wall clock of its time zone; a text with an offset of its own is refused before.\<close>

fun parseDeadlineTimestamp :: "time_input \<Rightarrow> exit_timezone \<Rightarrow> int option" where
  "parseDeadlineTimestamp (DateInput t) timezone = t"
| "parseDeadlineTimestamp (TextInput s) timezone =
     (if trim s = [] then None
      else case parseWallClockIsoTimestamp (trim s) of
          None \<Rightarrow> None
        | Some utc \<Rightarrow> Some (utc - (if timezone = TZ_KST then 9 * 60 else 0) * 60000))"

fun hasExplicitDeadlineOffset :: "time_input \<Rightarrow> bool" where
  "hasExplicitDeadlineOffset (DateInput t) = False"
| "hasExplicitDeadlineOffset (TextInput s) = hasExplicitTimezone (trim s)"

datatype observed_at_result = OA_ok int | OA_timezone_missing | OA_invalid

fun parseObservedAtTimestamp :: "date_env \<Rightarrow> time_input \<Rightarrow> observed_at_result" where
  "parseObservedAtTimestamp env (DateInput t) = (case t of None \<Rightarrow> OA_invalid | Some ms \<Rightarrow> OA_ok ms)"
| "parseObservedAtTimestamp env (TextInput s) =
     (let trimmed = trim s
      in if trimmed = [] then OA_invalid
         else if \<not> hasExplicitTimezone trimmed then
           (if matchWallClock trimmed \<noteq> None then OA_timezone_missing else OA_invalid)
         else if parseWallClockIsoTimestamp (withoutZone trimmed) = None then OA_invalid
         else (case de_parse env trimmed of None \<Rightarrow> OA_invalid | Some ms \<Rightarrow> OA_ok ms))"

definition evaluateTimeBased :: "date_env \<Rightarrow> exit_rule_context \<Rightarrow> exit_rule_evaluation" where
  "evaluateTimeBased env context =
     (case xc_timeBasedConfig context of
        None \<Rightarrow> pass ''time_based_exit'' ''time_based_not_configured'' None
      | Some config \<Rightarrow>
        if hasExplicitDeadlineOffset (tc_deadline config) then
          blocked ''time_based_exit'' ''time_based_deadline_timezone_mixed'' None
        else
         (case parseObservedAtTimestamp env (xc_observedAt context) of
            OA_timezone_missing \<Rightarrow> blocked ''time_based_exit'' ''time_based_observed_at_timezone_missing'' None
          | OA_invalid \<Rightarrow> blocked ''time_based_exit'' ''time_based_observed_at_invalid'' None
          | OA_ok observedAt \<Rightarrow>
             (case parseDeadlineTimestamp (tc_deadline config) (tc_timezone config) of
                None \<Rightarrow> blocked ''time_based_exit'' ''time_based_deadline_invalid'' None
              | Some deadline \<Rightarrow>
                if deadline \<le> observedAt then
                  triggered ''time_based_exit'' ''time_based_triggered'' XI_EXIT (Some
                    [(''deadline'', timeJson (tc_deadline config)),
                     (''timezone'', JStr (timezoneName (tc_timezone config))),
                     (''observed_at'', JStr (stringOfTime env (xc_observedAt context)))])
                else pass ''time_based_exit'' ''time_based_not_reached'' None)))"

definition createTimeBasedExitRule :: "date_env \<Rightarrow> exit_rule" where
  "createTimeBasedExitRule env = \<lparr>er_id = ''time_based_exit'', er_evaluate = evaluateTimeBased env\<rparr>"

section \<open>Signals\<close>

definition isExitIntention :: "string \<Rightarrow> exit_intention option" where
  "isExitIntention s = (if s = ''REDUCE'' then Some XI_REDUCE else if s = ''EXIT'' then Some XI_EXIT else None)"

text \<open>A strategy id that is set and not blank.\<close>

definition namedStrategy :: "string option \<Rightarrow> string option" where
  "namedStrategy s = (case s of None \<Rightarrow> None | Some t \<Rightarrow> if trim t = [] then None else Some (trim t))"

definition matchesScopedSignal :: "exit_signal \<Rightarrow> exit_rule_context \<Rightarrow> bool" where
  "matchesScopedSignal signal context =
     (if sg_exchangeId signal \<noteq> xc_exchangeId context \<or> sg_market signal \<noteq> xc_market context then False
      else let signalStrategy = trim (sg_strategyId signal);
               contextStrategy = trim (xc_strategyId context);
               positionStrategy = namedStrategy (xp_strategyId (xc_position context))
      in if signalStrategy = [] then False
         else if contextStrategy \<noteq> [] \<and> signalStrategy \<noteq> contextStrategy then False
         else if positionStrategy \<noteq> None \<and> positionStrategy \<noteq> Some signalStrategy then False
         else contextStrategy \<noteq> [] \<or> positionStrategy \<noteq> None)"

definition scopeMetadata :: "exit_signal \<Rightarrow> exit_rule_context \<Rightarrow> json_record" where
  "scopeMetadata signal context =
     [(''signal_exchange_id'', JStr (sg_exchangeId signal)), (''context_exchange_id'', JStr (xc_exchangeId context)),
      (''signal_market'', JStr (sg_market signal)), (''context_market'', JStr (xc_market context)),
      (''signal_strategy_id'', JStr (sg_strategyId signal)), (''context_strategy_id'', JStr (xc_strategyId context)),
      (''position_strategy_id'', JStr (case xp_strategyId (xc_position context) of None \<Rightarrow> [] | Some t \<Rightarrow> t))]"

definition ratioField :: "numeric option \<Rightarrow> json_record" where
  "ratioField n = (case n of None \<Rightarrow> [] | Some v \<Rightarrow> [(''reduction_ratio'', JNum v)])"

definition evaluateStrategySignal :: "date_env \<Rightarrow> exit_rule_context \<Rightarrow> exit_rule_evaluation" where
  "evaluateStrategySignal env context =
     (case xc_strategyExitSignal context of
        None \<Rightarrow> pass ''strategy_exit_signal'' ''strategy_exit_no_signal'' None
      | Some signal \<Rightarrow>
       (case isExitIntention (sg_intention signal) of
          None \<Rightarrow> blocked ''strategy_exit_signal'' ''strategy_exit_intention_invalid''
            (Some [(''signal_intention'', JStr (sg_intention signal))])
        | Some intention \<Rightarrow>
          if \<not> matchesScopedSignal signal context then
            blocked ''strategy_exit_signal'' ''strategy_exit_scope_mismatch'' (Some (scopeMetadata signal context))
          else if intention = XI_REDUCE \<and>
            (case Option.bind (sg_reductionRatio signal) parseDecimal of None \<Rightarrow> True | Some r \<Rightarrow> r \<le> 0 \<or> 1 \<le> r) then
            blocked ''strategy_exit_signal'' ''strategy_exit_reduction_ratio_invalid''
              (Some (ratioField (sg_reductionRatio signal)))
          else triggered ''strategy_exit_signal'' (sg_reasonCode signal) intention (Some
            ([(''signal_exchange_id'', JStr (sg_exchangeId signal)), (''signal_market'', JStr (sg_market signal)),
              (''signal_strategy_id'', JStr (sg_strategyId signal)), (''signal_intention'', JStr (sg_intention signal))]
             @ (if intention = XI_REDUCE then ratioField (sg_reductionRatio signal) else [])
             @ [(''signal_observed_at'', JStr (stringOfTime env (sg_observedAt signal)))]))))"

definition createStrategyExitSignalRule :: "date_env \<Rightarrow> exit_rule" where
  "createStrategyExitSignalRule env = \<lparr>er_id = ''strategy_exit_signal'', er_evaluate = evaluateStrategySignal env\<rparr>"

fun matchesReductionRatioWithIntention :: "rat \<Rightarrow> exit_intention \<Rightarrow> bool" where
  "matchesReductionRatioWithIntention ratio XI_EXIT = (ratio = 1)"
| "matchesReductionRatioWithIntention ratio XI_REDUCE = (ratio < 1)"

definition evaluateRiskReduction :: "date_env \<Rightarrow> exit_rule_context \<Rightarrow> exit_rule_evaluation" where
  "evaluateRiskReduction env context =
     (case xc_riskReductionSignal context of
        None \<Rightarrow> pass ''risk_reduction_exit'' ''risk_reduction_no_signal'' None
      | Some signal \<Rightarrow>
       (case isExitIntention (sg_intention signal) of
          None \<Rightarrow> blocked ''risk_reduction_exit'' ''risk_reduction_intention_invalid''
            (Some [(''signal_intention'', JStr (sg_intention signal))])
        | Some intention \<Rightarrow>
          if \<not> matchesScopedSignal signal context then
            blocked ''risk_reduction_exit'' ''risk_reduction_scope_mismatch'' (Some (scopeMetadata signal context))
          else
           (case Option.bind (sg_reductionRatio signal) parseDecimal of
              None \<Rightarrow> blocked ''risk_reduction_exit'' ''risk_reduction_ratio_invalid''
                (Some (ratioField (sg_reductionRatio signal)))
            | Some ratio \<Rightarrow>
              if ratio \<le> 0 \<or> 1 < ratio then
                blocked ''risk_reduction_exit'' ''risk_reduction_ratio_invalid''
                  (Some (ratioField (sg_reductionRatio signal)))
              else if \<not> matchesReductionRatioWithIntention ratio intention then
                blocked ''risk_reduction_exit'' ''risk_reduction_ratio_intention_mismatch'' (Some
                  [(''reduction_ratio'', JNum (Num ratio)), (''signal_intention'', JStr (sg_intention signal))])
              else triggered ''risk_reduction_exit'' (sg_reasonCode signal) intention (Some
                [(''signal_exchange_id'', JStr (sg_exchangeId signal)), (''signal_market'', JStr (sg_market signal)),
                 (''signal_strategy_id'', JStr (sg_strategyId signal)), (''reduction_ratio'', JNum (Num ratio)),
                 (''signal_intention'', JStr (sg_intention signal)),
                 (''signal_observed_at'', JStr (stringOfTime env (sg_observedAt signal)))]))))"

definition createRiskReductionExitRule :: "date_env \<Rightarrow> exit_rule" where
  "createRiskReductionExitRule env = \<lparr>er_id = ''risk_reduction_exit'', er_evaluate = evaluateRiskReduction env\<rparr>"

record default_exit_rules_options =
  do_stopLossBps :: numeric
  do_takeProfitBps :: numeric
  do_defaultTrailBps :: numeric

definition createDefaultExitRules :: "rounding \<Rightarrow> date_env \<Rightarrow> default_exit_rules_options \<Rightarrow> exit_rule list result" where
  "createDefaultExitRules rnd env options =
     bindR (createStopLossExitRule (do_stopLossBps options)) (\<lambda>stopLoss.
     bindR (createTakeProfitExitRule (do_takeProfitBps options)) (\<lambda>takeProfit.
     bindR (createTrailingStopExitRule rnd env (do_defaultTrailBps options)) (\<lambda>trailing.
       Inr [stopLoss, takeProfit, trailing, createTimeBasedExitRule env, createStrategyExitSignalRule env,
            createRiskReductionExitRule env])))"

section \<open>The engine\<close>

record exit_decision =
  xd_kind :: exit_decision_kind
  xd_ruleEvaluations :: "exit_rule_evaluation list"
  xd_triggeredRules :: "exit_rule_evaluation list"
  xd_blockedRules :: "exit_rule_evaluation list"
  xd_reasonCode :: string
  xd_userMessage :: string
  xd_observedAt :: time_input

text \<open>The labels of the rules in a message: one per known rule, one for all others.\<close>

datatype rule_label =
    L_positionQuantity | L_stopLoss | L_takeProfit | L_trailingStop | L_timeBased | L_strategySignal
  | L_riskReduction | L_unknown

definition exitRuleUserLabel :: "string \<Rightarrow> rule_label" where
  "exitRuleUserLabel ruleId = (case map_of
     [(''exit_position_scope'', L_positionQuantity), (''stop_loss_exit'', L_stopLoss), (''take_profit_exit'', L_takeProfit),
      (''trailing_stop_exit'', L_trailingStop), (''time_based_exit'', L_timeBased),
      (''strategy_exit_signal'', L_strategySignal), (''risk_reduction_exit'', L_riskReduction)] ruleId of
     None \<Rightarrow> L_unknown | Some l \<Rightarrow> l)"

definition formatRuleLabels :: "exit_rule_evaluation list \<Rightarrow> rule_label list" where
  "formatRuleLabels evaluations =
     (let labels = rev (remdups (rev (map (\<lambda>e. exitRuleUserLabel (xe_ruleId e)) evaluations)))
      in if labels \<noteq> [] then labels else [L_unknown])"

fun isTriggeredEvaluation :: "exit_rule_evaluation \<Rightarrow> bool" where
  "isTriggeredEvaluation e = (case xe_status e of XS_TRIGGERED i \<Rightarrow> True | _ \<Rightarrow> False)"

definition blockedPositionScope :: "string \<Rightarrow> exit_rule_context \<Rightarrow> exit_rule_evaluation" where
  "blockedPositionScope reasonCode context =
     blocked ''exit_position_scope'' reasonCode (Some
       [(''context_exchange_id'', JStr (xc_exchangeId context)), (''context_market'', JStr (xc_market context)),
        (''context_strategy_id'', JStr (xc_strategyId context)),
        (''position_exchange_id'', JStr (xp_exchangeId (xc_position context))),
        (''position_market'', JStr (xp_market (xc_position context))),
        (''position_strategy_id'', JStr (case xp_strategyId (xc_position context) of None \<Rightarrow> [] | Some t \<Rightarrow> t)),
        (''position_quantity'', JNum (xp_quantity (xc_position context)))])"

definition evaluateExitPositionScope :: "exit_rule_context \<Rightarrow> exit_rule_evaluation option" where
  "evaluateExitPositionScope context =
     (let position = xc_position context; contextStrategy = trim (xc_strategyId context);
          positionStrategy = namedStrategy (xp_strategyId position)
      in if xp_exchangeId position \<noteq> xc_exchangeId context \<or> xp_market position \<noteq> xc_market context then
           Some (blockedPositionScope ''exit_position_scope_mismatch'' context)
         else if contextStrategy \<noteq> [] \<and> positionStrategy = None then
           Some (blockedPositionScope ''exit_position_scope_mismatch'' context)
         else if contextStrategy \<noteq> [] \<and> positionStrategy \<noteq> None \<and> positionStrategy \<noteq> Some contextStrategy then
           Some (blockedPositionScope ''exit_position_scope_mismatch'' context)
         else (case parseFinancialDecimal (xp_quantity position) of
             Inl e \<Rightarrow> Some (blockedPositionScope ''exit_position_quantity_invalid'' context)
           | Inr quantity \<Rightarrow> if 0 < quantity then None else Some (blockedPositionScope ''exit_no_position'' context)))"

definition resolveExitDecision :: "exit_rule_evaluation list \<Rightarrow> exit_decision_kind" where
  "resolveExitDecision triggeredRules =
     (if triggeredRules = [] then XD_HOLD
      else if list_ex (\<lambda>e. xe_status e = XS_TRIGGERED XI_EXIT) triggeredRules then XD_EXIT
      else if list_ex (\<lambda>e. xe_status e = XS_TRIGGERED XI_REDUCE) triggeredRules then XD_REDUCE
      else XD_HOLD)"

text \<open>The reason code of a decision, and the rules its message names.\<close>

fun buildExitReason :: "exit_decision_kind \<Rightarrow> exit_rule_evaluation list \<Rightarrow> exit_rule_evaluation list \<Rightarrow> string \<times> rule_label list" where
  "buildExitReason XD_BLOCK triggeredRules blockedRules = (''exit_blocked'', formatRuleLabels blockedRules)"
| "buildExitReason XD_EXIT triggeredRules blockedRules =
     (''exit_triggered'', formatRuleLabels (filter (\<lambda>e. xe_status e = XS_TRIGGERED XI_EXIT) triggeredRules))"
| "buildExitReason XD_REDUCE triggeredRules blockedRules =
     (''reduce_triggered'', formatRuleLabels (filter (\<lambda>e. xe_status e = XS_TRIGGERED XI_REDUCE) triggeredRules))"
| "buildExitReason XD_HOLD triggeredRules blockedRules = (''exit_hold'', [])"

type_synonym message_renderer = "exit_decision_kind \<Rightarrow> rule_label list \<Rightarrow> string"

definition summarize :: "message_renderer \<Rightarrow> exit_rule_evaluation list \<Rightarrow> exit_rule_context \<Rightarrow> exit_decision" where
  "summarize render evaluations context =
     (let scopedEvaluations = (case evaluateExitPositionScope context of
            None \<Rightarrow> evaluations | Some block \<Rightarrow> evaluations @ [block]);
          triggeredRules = filter isTriggeredEvaluation scopedEvaluations;
          blockedRules = filter (\<lambda>e. xe_status e = XS_BLOCKED \<or> xe_status e = XS_UNAVAILABLE) scopedEvaluations;
          kind = resolveExitDecision triggeredRules;
          blockedExists = list_ex (\<lambda>e. xe_status e = XS_BLOCKED) scopedEvaluations;
          finalKind = (if blockedExists then XD_BLOCK else kind);
          reason = buildExitReason finalKind triggeredRules blockedRules
      in \<lparr>xd_kind = finalKind, xd_ruleEvaluations = scopedEvaluations, xd_triggeredRules = triggeredRules,
          xd_blockedRules = blockedRules, xd_reasonCode = fst reason,
          xd_userMessage = render finalKind (snd reason), xd_observedAt = xc_observedAt context\<rparr>)"

definition evaluateExitRules :: "message_renderer \<Rightarrow> exit_rule list \<Rightarrow> exit_rule_context \<Rightarrow> exit_decision" where
  "evaluateExitRules render rules context = summarize render (map (\<lambda>rule. er_evaluate rule context) rules) context"

section \<open>What the decision must be\<close>

text \<open>
  The specification of the decision, over the facts of the context. A position is in scope when it is
  of the context's exchange, market and strategy and has a positive quantity.
\<close>

definition positionInScope :: "exit_rule_context \<Rightarrow> bool" where
  "positionInScope c \<longleftrightarrow> xp_exchangeId (xc_position c) = xc_exchangeId c \<and> xp_market (xc_position c) = xc_market c \<and>
     (trim (xc_strategyId c) = [] \<or> map_option trim (xp_strategyId (xc_position c)) = Some (trim (xc_strategyId c))) \<and>
     (\<exists>q. parseFinancialDecimal (xp_quantity (xc_position c)) = Inr q \<and> 0 < q)"

definition positiveAmount :: "numeric \<Rightarrow> rat \<Rightarrow> bool" where
  "positiveAmount n r \<longleftrightarrow> parseFinancialDecimal n = Inr r \<and> 0 < r"

text \<open>The trail of a trailing state: its own if it is set, else the default.\<close>

definition trailOf :: "rat \<Rightarrow> exit_trailing_state \<Rightarrow> rat \<Rightarrow> bool" where
  "trailOf def st trail \<longleftrightarrow> (case xt_trailBps st of None \<Rightarrow> trail = def
     | Some n \<Rightarrow> if n = NotDecimal [] then trail = def else positiveAmount n trail)"

text \<open>A trailing state that can be evaluated, with anchor, price and trail.\<close>

definition trailingFigures :: "date_env \<Rightarrow> rat \<Rightarrow> exit_rule_context \<Rightarrow> exit_trailing_state \<Rightarrow> rat \<Rightarrow> rat \<Rightarrow> rat \<Rightarrow> bool" where
  "trailingFigures env def c st anchor price trail \<longleftrightarrow>
     positiveAmount (xt_anchorPrice st) anchor \<and> positiveAmount (xp_currentPrice (xc_position c)) price \<and>
     trailOf def st trail \<and> newDate env (xt_anchorObservedAt st) \<noteq> None"

text \<open>The instant of a deadline: a Date, or a wall clock of the calendar, without offset, in the given zone.\<close>

definition deadlineInstant :: "exit_time_config \<Rightarrow> int \<Rightarrow> bool" where
  "deadlineInstant config t \<longleftrightarrow> (case tc_deadline config of
     DateInput d \<Rightarrow> d = Some t
   | TextInput s \<Rightarrow> \<not> hasExplicitTimezone (trim s) \<and> (\<exists>w. matchWallClock (trim s) = Some w \<and> calendarTime w \<and>
       t = wallClockMillis w - (case tc_timezone config of TZ_UTC \<Rightarrow> 0 | TZ_KST \<Rightarrow> 9 * 3600000)))"

text \<open>The instant of an observation: a Date, or a text with an explicit offset whose wall clock is of the calendar.\<close>

definition observedInstant :: "date_env \<Rightarrow> time_input \<Rightarrow> int \<Rightarrow> bool" where
  "observedInstant env v t \<longleftrightarrow> (case v of
     DateInput d \<Rightarrow> d = Some t
   | TextInput s \<Rightarrow> hasExplicitTimezone (trim s) \<and> de_parse env (trim s) = Some t \<and>
       (\<exists>w. matchWallClock (withoutZone (trim s)) = Some w \<and> calendarTime w))"

text \<open>A signal for the context's position, and the reduction each kind of signal must state.\<close>

definition signalInScope :: "exit_signal \<Rightarrow> exit_rule_context \<Rightarrow> bool" where
  "signalInScope sg c \<longleftrightarrow> sg_exchangeId sg = xc_exchangeId c \<and> sg_market sg = xc_market c \<and>
     (\<exists>st. st \<noteq> [] \<and> trim (sg_strategyId sg) = st \<and> trim (xc_strategyId c) \<in> {[], st} \<and>
        namedStrategy (xp_strategyId (xc_position c)) \<in> {None, Some st} \<and>
        (trim (xc_strategyId c) = st \<or> namedStrategy (xp_strategyId (xc_position c)) = Some st))"

definition ratioBetween :: "exit_signal \<Rightarrow> (rat \<Rightarrow> bool) \<Rightarrow> bool" where
  "ratioBetween sg P \<longleftrightarrow> (\<exists>n r. sg_reductionRatio sg = Some n \<and> parseFinancialDecimal n = Inr r \<and> P r)"

definition strategySignal :: "exit_rule_context \<Rightarrow> exit_signal \<Rightarrow> exit_intention \<Rightarrow> bool" where
  "strategySignal c sg i \<longleftrightarrow> sg_intention sg = exitIntentionName i \<and> signalInScope sg c \<and>
     (i = XI_REDUCE \<longrightarrow> ratioBetween sg (\<lambda>r. 0 < r \<and> r < 1))"

definition riskSignal :: "exit_rule_context \<Rightarrow> exit_signal \<Rightarrow> exit_intention \<Rightarrow> bool" where
  "riskSignal c sg i \<longleftrightarrow> sg_intention sg = exitIntentionName i \<and> signalInScope sg c \<and>
     ratioBetween sg (\<lambda>r. if i = XI_EXIT then r = 1 else 0 < r \<and> r < 1)"

section \<open>Lemmas\<close>

lemma parseDecimal_Some_iff: "parseDecimal n = Some r \<longleftrightarrow> parseFinancialDecimal n = Inr r"
  by (simp add: parseDecimal_def split: sum.split)

lemma parseDecimal_None_iff: "parseDecimal n = None \<longleftrightarrow> (\<forall>r. parseFinancialDecimal n \<noteq> Inr r)"
  by (simp add: parseDecimal_def split: sum.split)

lemma exit_status_simps [simp]:
  "xe_status (pass i c m) = XS_PASS" "xe_status (triggered i c x m) = XS_TRIGGERED x"
  "xe_status (blocked i c m) = XS_BLOCKED" "xe_status (unavailable i c) = XS_UNAVAILABLE"
  by (simp_all add: evaluation_defs)

lemma parseRuleDecimal_Inr_iff: "parseRuleDecimal n f = Inr d \<longleftrightarrow> positiveAmount n d"
  by (cases "parseFinancialDecimal n") (auto simp: parseRuleDecimal_def positiveAmount_def)

lemma blockedPositionScope_status [simp]: "xe_status (blockedPositionScope r c) = XS_BLOCKED"
  by (simp add: blockedPositionScope_def)

lemma evaluateExitPositionScope_None_iff: "evaluateExitPositionScope c = None \<longleftrightarrow> positionInScope c"
  by (cases "xp_strategyId (xc_position c)")
    (auto simp: evaluateExitPositionScope_def positionInScope_def Let_def namedStrategy_def split: sum.split)

lemma evaluateExitPositionScope_status:
  "evaluateExitPositionScope c = Some e \<Longrightarrow> xe_status e = XS_BLOCKED"
  by (auto simp: evaluateExitPositionScope_def Let_def split: if_splits sum.splits)

lemma summarize_kind:
  "xd_kind (summarize render es c) =
     (if \<not> positionInScope c \<or> (\<exists>e \<in> set es. xe_status e = XS_BLOCKED) then XD_BLOCK
      else if \<exists>e \<in> set es. xe_status e = XS_TRIGGERED XI_EXIT then XD_EXIT
      else if \<exists>e \<in> set es. xe_status e = XS_TRIGGERED XI_REDUCE then XD_REDUCE else XD_HOLD)"
proof (cases "evaluateExitPositionScope c")
  case None
  then have "positionInScope c" by (simp add: evaluateExitPositionScope_None_iff)
  moreover have "resolveExitDecision (filter isTriggeredEvaluation es) =
      (if \<exists>e \<in> set es. xe_status e = XS_TRIGGERED XI_EXIT then XD_EXIT
       else if \<exists>e \<in> set es. xe_status e = XS_TRIGGERED XI_REDUCE then XD_REDUCE else XD_HOLD)"
  proof -
    have "list_ex (\<lambda>e. xe_status e = XS_TRIGGERED i) (filter isTriggeredEvaluation es) \<longleftrightarrow>
        (\<exists>e \<in> set es. xe_status e = XS_TRIGGERED i)" for i
      by (force simp: list_ex_iff)
    moreover have "filter isTriggeredEvaluation es = [] \<Longrightarrow> xe_status e \<noteq> XS_TRIGGERED i" if "e \<in> set es" for e i
      using that by (force simp: filter_empty_conv)
    ultimately show ?thesis by (simp add: resolveExitDecision_def)
  qed
  ultimately show ?thesis using None by (auto simp: summarize_def Let_def list_ex_iff)
next
  case (Some e)
  then have "\<not> positionInScope c" by (simp flip: evaluateExitPositionScope_None_iff)
  then show ?thesis using Some evaluateExitPositionScope_status [OF Some]
    by (simp add: summarize_def Let_def list_ex_iff)
qed

text \<open>Each rule of the set: when it blocks and with which intention it triggers.\<close>

lemma positiveAmount_unique: "positiveAmount n r \<Longrightarrow> positiveAmount n r' \<Longrightarrow> r = r'"
  by (simp add: positiveAmount_def)

lemma readTrailBps_Some_iff: "readTrailBps def (xt_trailBps st) = Some t \<longleftrightarrow> trailOf def st t"
  by (auto simp: readTrailBps_def trailOf_def positiveAmount_def parseDecimal_def not_le split: option.split sum.split if_splits)

lemma evaluateTrailingStop_status:
  "xe_status (evaluateTrailingStop rnd env def c) =
     (case xc_trailingState c of None \<Rightarrow> XS_UNAVAILABLE
      | Some st \<Rightarrow> if \<exists>a p t. trailingFigures env def c st a p t \<and> t \<le> dropBps rnd a p then XS_TRIGGERED XI_EXIT
                  else if \<exists>a p t. trailingFigures env def c st a p t then XS_PASS else XS_BLOCKED)"
proof (cases "xc_trailingState c")
  case (Some st)
  show ?thesis
  proof (cases "\<exists>a p t. trailingFigures env def c st a p t")
    case True
    then obtain a p t where f: "trailingFigures env def c st a p t" by blast
    have unique: "trailingFigures env def c st a' p' t' \<longleftrightarrow> a' = a \<and> p' = p \<and> t' = t" for a' p' t'
      using f positiveAmount_unique by (auto simp: trailingFigures_def simp flip: readTrailBps_Some_iff)
    have "parseDecimal (xt_anchorPrice st) = Some a" "parseDecimal (xp_currentPrice (xc_position c)) = Some p"
      "0 < a" "0 < p" "readTrailBps def (xt_trailBps st) = Some t"
      using f by (simp_all add: trailingFigures_def positiveAmount_def readTrailBps_Some_iff parseDecimal_Some_iff)
    moreover obtain d where "newDate env (xt_anchorObservedAt st) = Some d"
      using f by (auto simp: trailingFigures_def)
    ultimately show ?thesis using Some True by (simp add: evaluateTrailingStop_def Let_def unique)
  next
    case False
    then have "xe_status (evaluateTrailingStop rnd env def c) = XS_BLOCKED"
      using Some by (auto simp: evaluateTrailingStop_def trailingFigures_def positiveAmount_def Let_def
          readTrailBps_Some_iff parseDecimal_Some_iff split: option.split)
    then show ?thesis using Some False by auto
  qed
qed (simp add: evaluateTrailingStop_def)

lemma parseDeadline_Some_iff:
  "\<not> hasExplicitDeadlineOffset (tc_deadline g) \<and> parseDeadlineTimestamp (tc_deadline g) (tc_timezone g) = Some t \<longleftrightarrow>
     deadlineInstant g t"
proof (cases "tc_deadline g")
  case (TextInput s)
  show ?thesis
  proof (cases "matchWallClock (trim s)")
    case None
    then show ?thesis using TextInput by (simp add: deadlineInstant_def parseWallClock_no_match)
  next
    case (Some w)
    moreover have "matchWallClock [] = None" by (simp add: matchWallClock_def number_def)
    ultimately have "trim s \<noteq> []" by auto
    then show ?thesis using TextInput Some
      by (cases "tc_timezone g") (auto simp: deadlineInstant_def parseWallClock_eq)
  qed
qed (auto simp: deadlineInstant_def)

lemma parseObservedAt_ok_iff: "parseObservedAtTimestamp env v = OA_ok t \<longleftrightarrow> observedInstant env v t"
proof (cases v)
  case (DateInput d)
  then show ?thesis by (cases d) (simp_all add: observedInstant_def)
next
  case (TextInput s)
  have "parseWallClockIsoTimestamp u = None \<longleftrightarrow> \<not> (\<exists>w. matchWallClock u = Some w \<and> calendarTime w)" for u
    by (cases "matchWallClock u") (auto simp: parseWallClock_no_match parseWallClock_eq)
  moreover have "\<not> hasExplicitTimezone []" by (simp add: hasExplicitTimezone_def zoneLength_def)
  ultimately show ?thesis using TextInput
    by (auto simp: observedInstant_def Let_def split: option.split)
qed

definition deadlineBroken :: "date_env \<Rightarrow> exit_rule_context \<Rightarrow> exit_time_config \<Rightarrow> bool" where
  "deadlineBroken env c g \<longleftrightarrow> \<not> (\<exists>d. deadlineInstant g d) \<or> \<not> (\<exists>t. observedInstant env (xc_observedAt c) t)"

lemma evaluateTimeBased_status:
  "xe_status (evaluateTimeBased env c) =
     (case xc_timeBasedConfig c of None \<Rightarrow> XS_PASS
      | Some g \<Rightarrow> if deadlineBroken env c g then XS_BLOCKED
          else if \<exists>d t. deadlineInstant g d \<and> observedInstant env (xc_observedAt c) t \<and> d \<le> t then XS_TRIGGERED XI_EXIT
          else XS_PASS)"
proof (cases "xc_timeBasedConfig c")
  case (Some g)
  show ?thesis
    using Some unfolding deadlineBroken_def parseDeadline_Some_iff [symmetric] parseObservedAt_ok_iff [symmetric]
    by (auto simp: evaluateTimeBased_def split: observed_at_result.split option.split)
qed (simp add: evaluateTimeBased_def)

lemma isExitIntention_Some_iff: "isExitIntention s = Some i \<longleftrightarrow> s = exitIntentionName i"
  by (cases i) (auto simp: isExitIntention_def)

lemma matchesScopedSignal_iff: "matchesScopedSignal sg c \<longleftrightarrow> signalInScope sg c"
  by (auto simp: matchesScopedSignal_def signalInScope_def Let_def)

lemma exitIntentionName_inject [simp]: "exitIntentionName i = exitIntentionName j \<longleftrightarrow> i = j"
  by (cases i; cases j) simp_all

lemma evaluateStrategySignal_status:
  "xe_status (evaluateStrategySignal env c) =
     (case xc_strategyExitSignal c of None \<Rightarrow> XS_PASS
      | Some sg \<Rightarrow> if strategySignal c sg XI_EXIT then XS_TRIGGERED XI_EXIT
          else if strategySignal c sg XI_REDUCE then XS_TRIGGERED XI_REDUCE else XS_BLOCKED)"
proof (cases "xc_strategyExitSignal c")
  case (Some sg)
  have ratio: "\<not> (case Option.bind (sg_reductionRatio sg) parseDecimal of None \<Rightarrow> True | Some r \<Rightarrow> r \<le> 0 \<or> 1 \<le> r) \<longleftrightarrow>
      ratioBetween sg (\<lambda>r. 0 < r \<and> r < 1)"
    by (cases "sg_reductionRatio sg") (auto simp: ratioBetween_def not_le parseDecimal_def split: sum.split)
  show ?thesis
  proof (cases "isExitIntention (sg_intention sg)")
    case None
    then have "sg_intention sg \<noteq> ''REDUCE''" "sg_intention sg \<noteq> ''EXIT''" by (auto simp: isExitIntention_def)
    then show ?thesis using Some None by (simp add: evaluateStrategySignal_def strategySignal_def)
  next
    case (Some i)
    then have "sg_intention sg = exitIntentionName i" by (simp add: isExitIntention_Some_iff)
    then show ?thesis using \<open>xc_strategyExitSignal c = Some sg\<close> Some ratio
      by (cases i) (auto simp: evaluateStrategySignal_def strategySignal_def matchesScopedSignal_iff)
  qed
qed (simp add: evaluateStrategySignal_def)

lemma evaluateRiskReduction_status:
  "xe_status (evaluateRiskReduction env c) =
     (case xc_riskReductionSignal c of None \<Rightarrow> XS_PASS
      | Some sg \<Rightarrow> if riskSignal c sg XI_EXIT then XS_TRIGGERED XI_EXIT
          else if riskSignal c sg XI_REDUCE then XS_TRIGGERED XI_REDUCE else XS_BLOCKED)"
proof (cases "xc_riskReductionSignal c")
  case (Some sg)
  show ?thesis
  proof (cases "isExitIntention (sg_intention sg)")
    case None
    then have "sg_intention sg \<noteq> ''REDUCE''" "sg_intention sg \<noteq> ''EXIT''" by (auto simp: isExitIntention_def)
    then show ?thesis using Some None by (simp add: evaluateRiskReduction_def riskSignal_def)
  next
    case (Some i)
    then have "sg_intention sg = exitIntentionName i" by (simp add: isExitIntention_Some_iff)
    then show ?thesis using \<open>xc_riskReductionSignal c = Some sg\<close> Some
      by (cases "sg_reductionRatio sg"; cases i)
        (auto simp: evaluateRiskReduction_def riskSignal_def matchesScopedSignal_iff ratioBetween_def
          parseDecimal_def split: sum.split)
  qed
qed (simp add: evaluateRiskReduction_def)

lemma trailing_status_iffs:
  "xe_status (evaluateTrailingStop rnd env def c) = XS_BLOCKED \<longleftrightarrow>
     (\<exists>st. xc_trailingState c = Some st \<and> \<not> (\<exists>a p t. trailingFigures env def c st a p t))"
  "xe_status (evaluateTrailingStop rnd env def c) = XS_TRIGGERED i \<longleftrightarrow>
     i = XI_EXIT \<and> (\<exists>st a p t. xc_trailingState c = Some st \<and> trailingFigures env def c st a p t \<and> t \<le> dropBps rnd a p)"
  unfolding evaluateTrailingStop_status by (auto split: option.split)

lemma deadline_status_iffs:
  "xe_status (evaluateTimeBased env c) = XS_BLOCKED \<longleftrightarrow> (\<exists>g. xc_timeBasedConfig c = Some g \<and> deadlineBroken env c g)"
  "xe_status (evaluateTimeBased env c) = XS_TRIGGERED i \<longleftrightarrow> i = XI_EXIT \<and>
     (\<exists>g d t. xc_timeBasedConfig c = Some g \<and> deadlineInstant g d \<and> observedInstant env (xc_observedAt c) t \<and> d \<le> t)"
  unfolding evaluateTimeBased_status by (auto simp: deadlineBroken_def split: option.split)

lemma strategy_status_iffs:
  "xe_status (evaluateStrategySignal env c) = XS_BLOCKED \<longleftrightarrow>
     (\<exists>sg. xc_strategyExitSignal c = Some sg \<and> \<not> (\<exists>i. strategySignal c sg i))"
  "xe_status (evaluateStrategySignal env c) = XS_TRIGGERED i \<longleftrightarrow>
     (\<exists>sg. xc_strategyExitSignal c = Some sg \<and> strategySignal c sg i)"
proof -
  have some: "(\<exists>i. strategySignal c sg i) \<longleftrightarrow> strategySignal c sg XI_EXIT \<or> strategySignal c sg XI_REDUCE" for sg
    by (metis exit_intention.exhaust)
  have one: "strategySignal c sg i \<Longrightarrow> strategySignal c sg j \<Longrightarrow> i = j" for sg i j
    by (simp add: strategySignal_def)
  show "xe_status (evaluateStrategySignal env c) = XS_BLOCKED \<longleftrightarrow>
     (\<exists>sg. xc_strategyExitSignal c = Some sg \<and> \<not> (\<exists>i. strategySignal c sg i))"
    unfolding evaluateStrategySignal_status some by (auto split: option.split)
  show "xe_status (evaluateStrategySignal env c) = XS_TRIGGERED i \<longleftrightarrow>
     (\<exists>sg. xc_strategyExitSignal c = Some sg \<and> strategySignal c sg i)"
    unfolding evaluateStrategySignal_status by (cases i) (auto split: option.split dest: one)
qed

lemma risk_status_iffs:
  "xe_status (evaluateRiskReduction env c) = XS_BLOCKED \<longleftrightarrow>
     (\<exists>sg. xc_riskReductionSignal c = Some sg \<and> \<not> (\<exists>i. riskSignal c sg i))"
  "xe_status (evaluateRiskReduction env c) = XS_TRIGGERED i \<longleftrightarrow>
     (\<exists>sg. xc_riskReductionSignal c = Some sg \<and> riskSignal c sg i)"
proof -
  have some: "(\<exists>i. riskSignal c sg i) \<longleftrightarrow> riskSignal c sg XI_EXIT \<or> riskSignal c sg XI_REDUCE" for sg
    by (metis exit_intention.exhaust)
  have one: "riskSignal c sg i \<Longrightarrow> riskSignal c sg j \<Longrightarrow> i = j" for sg i j
    by (simp add: riskSignal_def)
  show "xe_status (evaluateRiskReduction env c) = XS_BLOCKED \<longleftrightarrow>
     (\<exists>sg. xc_riskReductionSignal c = Some sg \<and> \<not> (\<exists>i. riskSignal c sg i))"
    unfolding evaluateRiskReduction_status some by (auto split: option.split)
  show "xe_status (evaluateRiskReduction env c) = XS_TRIGGERED i \<longleftrightarrow>
     (\<exists>sg. xc_riskReductionSignal c = Some sg \<and> riskSignal c sg i)"
    unfolding evaluateRiskReduction_status by (cases i) (auto split: option.split dest: one)
qed

lemma threshold_status_iffs:
  fixes c :: exit_rule_context and reached :: "rat \<Rightarrow> bool"
  defines "s \<equiv> case parseDecimal (xp_unrealizedPnlBps (xc_position c)) of None \<Rightarrow> XS_UNAVAILABLE
          | Some u \<Rightarrow> if reached u then XS_TRIGGERED XI_EXIT else XS_PASS"
  shows "s = XS_BLOCKED \<longleftrightarrow> False"
    and "s = XS_TRIGGERED i \<longleftrightarrow>
      i = XI_EXIT \<and> (\<exists>u. parseFinancialDecimal (xp_unrealizedPnlBps (xc_position c)) = Inr u \<and> reached u)"
  unfolding s_def by (auto simp: parseDecimal_def split: sum.split)

lemmas rule_status_iffs = trailing_status_iffs deadline_status_iffs strategy_status_iffs risk_status_iffs
  threshold_status_iffs

lemma default_rules_Inr:
  assumes "createDefaultExitRules rnd env options = Inr rules"
  obtains sl tp tr where "positiveAmount (do_stopLossBps options) sl" "positiveAmount (do_takeProfitBps options) tp"
    "positiveAmount (do_defaultTrailBps options) tr"
    "map (\<lambda>r. xe_status (er_evaluate r c)) rules =
       [case parseDecimal (xp_unrealizedPnlBps (xc_position c)) of None \<Rightarrow> XS_UNAVAILABLE
          | Some u \<Rightarrow> if u \<le> - sl then XS_TRIGGERED XI_EXIT else XS_PASS,
        case parseDecimal (xp_unrealizedPnlBps (xc_position c)) of None \<Rightarrow> XS_UNAVAILABLE
          | Some u \<Rightarrow> if tp \<le> u then XS_TRIGGERED XI_EXIT else XS_PASS,
        xe_status (evaluateTrailingStop rnd env tr c), xe_status (evaluateTimeBased env c),
        xe_status (evaluateStrategySignal env c), xe_status (evaluateRiskReduction env c)]"
proof -
  obtain sl tp tr where r: "parseRuleDecimal (do_stopLossBps options) ''stop_loss_bps'' = Inr sl"
    "parseRuleDecimal (do_takeProfitBps options) ''take_profit_bps'' = Inr tp"
    "parseRuleDecimal (do_defaultTrailBps options) ''default_trail_bps'' = Inr tr"
    using assms by (auto simp: createDefaultExitRules_def createStopLossExitRule_def createTakeProfitExitRule_def
        createTrailingStopExitRule_def bindR_Inr_iff)
  show thesis
  proof (rule that [of sl tp tr])
    show "map (\<lambda>r. xe_status (er_evaluate r c)) rules =
       [case parseDecimal (xp_unrealizedPnlBps (xc_position c)) of None \<Rightarrow> XS_UNAVAILABLE
          | Some u \<Rightarrow> if u \<le> - sl then XS_TRIGGERED XI_EXIT else XS_PASS,
        case parseDecimal (xp_unrealizedPnlBps (xc_position c)) of None \<Rightarrow> XS_UNAVAILABLE
          | Some u \<Rightarrow> if tp \<le> u then XS_TRIGGERED XI_EXIT else XS_PASS,
        xe_status (evaluateTrailingStop rnd env tr c), xe_status (evaluateTimeBased env c),
        xe_status (evaluateStrategySignal env c), xe_status (evaluateRiskReduction env c)]"
      using assms r by (auto simp: createDefaultExitRules_def createStopLossExitRule_def createTakeProfitExitRule_def
          createTrailingStopExitRule_def createTimeBasedExitRule_def createStrategyExitSignalRule_def
          createRiskReductionExitRule_def Let_def split: option.split)
  qed (use r in \<open>simp_all add: parseRuleDecimal_Inr_iff\<close>)
qed

section \<open>Properties\<close>

text \<open>
  C19. What the default exit rules decide. With options that are positive decimals, the decision is to
  block exactly when the position is out of scope or a trailing state, a deadline or a signal is present
  and cannot be evaluated; otherwise to exit exactly when the loss reaches the stop loss, the gain the
  take profit, the fall from the anchor the trail, the observation the deadline in its own time zone, or
  a signal demands an exit; otherwise to reduce exactly when a signal demands a reduction; and to hold in
  every other case. A profit that is no decimal does not block: stop loss and take profit are then
  unavailable, and the other rules decide.
\<close>

theorem default_exit_decision:
  assumes "createDefaultExitRules rnd env options = Inr rules"
  shows "\<exists>sl tp tr. positiveAmount (do_stopLossBps options) sl \<and> positiveAmount (do_takeProfitBps options) tp \<and>
    positiveAmount (do_defaultTrailBps options) tr \<and>
    xd_kind (evaluateExitRules render rules c) =
     (if \<not> positionInScope c \<or>
         (\<exists>st. xc_trailingState c = Some st \<and> \<not> (\<exists>a p t. trailingFigures env tr c st a p t)) \<or>
         (\<exists>g. xc_timeBasedConfig c = Some g \<and> deadlineBroken env c g) \<or>
         (\<exists>sg. xc_strategyExitSignal c = Some sg \<and> \<not> (\<exists>i. strategySignal c sg i)) \<or>
         (\<exists>sg. xc_riskReductionSignal c = Some sg \<and> \<not> (\<exists>i. riskSignal c sg i))
      then XD_BLOCK
      else if (\<exists>u. parseFinancialDecimal (xp_unrealizedPnlBps (xc_position c)) = Inr u \<and> (u \<le> - sl \<or> tp \<le> u)) \<or>
         (\<exists>st a p t. xc_trailingState c = Some st \<and> trailingFigures env tr c st a p t \<and> t \<le> dropBps rnd a p) \<or>
         (\<exists>g d t. xc_timeBasedConfig c = Some g \<and> deadlineInstant g d \<and> observedInstant env (xc_observedAt c) t \<and> d \<le> t) \<or>
         (\<exists>sg. xc_strategyExitSignal c = Some sg \<and> strategySignal c sg XI_EXIT) \<or>
         (\<exists>sg. xc_riskReductionSignal c = Some sg \<and> riskSignal c sg XI_EXIT)
      then XD_EXIT
      else if (\<exists>sg. xc_strategyExitSignal c = Some sg \<and> strategySignal c sg XI_REDUCE) \<or>
         (\<exists>sg. xc_riskReductionSignal c = Some sg \<and> riskSignal c sg XI_REDUCE)
      then XD_REDUCE else XD_HOLD)"
proof -
  obtain sl tp tr where o: "positiveAmount (do_stopLossBps options) sl" "positiveAmount (do_takeProfitBps options) tp"
    "positiveAmount (do_defaultTrailBps options) tr"
    and st: "map (\<lambda>r. xe_status (er_evaluate r c)) rules =
       [case parseDecimal (xp_unrealizedPnlBps (xc_position c)) of None \<Rightarrow> XS_UNAVAILABLE
          | Some u \<Rightarrow> if u \<le> - sl then XS_TRIGGERED XI_EXIT else XS_PASS,
        case parseDecimal (xp_unrealizedPnlBps (xc_position c)) of None \<Rightarrow> XS_UNAVAILABLE
          | Some u \<Rightarrow> if tp \<le> u then XS_TRIGGERED XI_EXIT else XS_PASS,
        xe_status (evaluateTrailingStop rnd env tr c), xe_status (evaluateTimeBased env c),
        xe_status (evaluateStrategySignal env c), xe_status (evaluateRiskReduction env c)]"
    by (rule default_rules_Inr [OF assms])
  have any: "(\<exists>e \<in> set (map (\<lambda>r. er_evaluate r c) rules). xe_status e = x) \<longleftrightarrow>
      list_ex (\<lambda>y. y = x) (map (\<lambda>r. xe_status (er_evaluate r c)) rules)" for x
    by (auto simp: list_ex_iff)
  show ?thesis
    by (rule exI [of _ sl], rule exI [of _ tp], rule exI [of _ tr], intro conjI, (rule o)+)
      (simp only: evaluateExitRules_def summarize_kind any st list_ex_Nil_iff list_ex_Cons_iff rule_status_iffs
        simp_thms exit_intention.distinct conj_disj_distribL ex_disj_distrib disj_assoc)
qed

text \<open>A position with a small gain whose deadline, nine in the morning of Korea, has just passed.\<close>

definition exampleDateEnv :: date_env where
  "exampleDateEnv = \<lparr>de_parse = (\<lambda>s. if s = ''2025-01-02T00:00:00Z'' then Some 1735776000000 else None),
     de_toString = (\<lambda>t. []), de_toISOString = (\<lambda>t. [])\<rparr>"

definition exampleExitOptions :: default_exit_rules_options where
  "exampleExitOptions = \<lparr>do_stopLossBps = Num 100, do_takeProfitBps = Num 200, do_defaultTrailBps = Num 50\<rparr>"

definition exampleExitPosition :: exit_position_snapshot where
  "exampleExitPosition = \<lparr>xp_exchangeId = ''upbit_krw_spot'', xp_market = ''KRW-BTC'', xp_quantity = Num 2,
     xp_averageEntryPrice = Num 10000, xp_currentPrice = Num 10010, xp_unrealizedPnlBps = Num 10,
     xp_notionalKrw = Num 20020, xp_strategyId = Some ''s1'', xp_observedAt = DateInput (Some 0)\<rparr>"

definition exampleExitPolicy :: exit_policy_snapshot where
  "exampleExitPolicy = \<lparr>pol_minOrderNotional = Num 5000, pol_tickSize = Num 10, pol_dustThreshold = Num 0,
     pol_exitCostBps = Num 5, pol_exitSlippageBps = Num 3, pol_source = ''config'', pol_capturedAt = DateInput (Some 0)\<rparr>"

definition exampleExitContext :: exit_rule_context where
  "exampleExitContext = \<lparr>xc_exchangeId = ''upbit_krw_spot'', xc_market = ''KRW-BTC'',
     xc_observedAt = TextInput ''2025-01-02T00:00:00Z'', xc_strategyId = ''s1'', xc_position = exampleExitPosition,
     xc_policySnapshot = exampleExitPolicy, xc_trailingState = None, xc_strategyExitSignal = None,
     xc_timeBasedConfig = Some \<lparr>tc_deadline = TextInput ''2025-01-02T09:00'', tc_timezone = TZ_KST\<rparr>,
     xc_riskReductionSignal = None\<rparr>"

lemma example_zone:
  "trim ''2025-01-02T00:00:00Z'' = ''2025-01-02T00:00:00Z''" "trim ''2025-01-02T09:00'' = ''2025-01-02T09:00''"
  "hasExplicitTimezone ''2025-01-02T00:00:00Z''" "\<not> hasExplicitTimezone ''2025-01-02T09:00''"
  "withoutZone ''2025-01-02T00:00:00Z'' = ''2025-01-02T00:00:00''"
  by (simp_all add: trim_def isSpace_def hasExplicitTimezone_def zoneLength_def withoutZone_def isDigit_def)

lemma example_clocks:
  "matchWallClock ''2025-01-02T09:00'' = Some \<lparr>wc_year = 2025, wc_month = 1, wc_day = 2, wc_hour = 9, wc_minute = 0,
     wc_second = 0, wc_fraction = []\<rparr>"
  "matchWallClock ''2025-01-02T00:00:00'' = Some \<lparr>wc_year = 2025, wc_month = 1, wc_day = 2, wc_hour = 0, wc_minute = 0,
     wc_second = 0, wc_fraction = []\<rparr>"
  by (simp_all add: matchWallClock_def matchTime_def number_def isDigit_def digitsValue_def)

lemma example_deadline:
  "deadlineInstant \<lparr>tc_deadline = TextInput ''2025-01-02T09:00'', tc_timezone = TZ_KST\<rparr> 1735776000000"
  by (simp add: deadlineInstant_def example_zone example_clocks calendarTime_def monthLengths_def leapYear_def
      wallClockMillis_def makeDay_def dayFromYear_def millisecondOf_def)

lemma example_observed: "observedInstant exampleDateEnv (TextInput ''2025-01-02T00:00:00Z'') 1735776000000"
  by (simp add: observedInstant_def example_zone example_clocks calendarTime_def monthLengths_def leapYear_def
      exampleDateEnv_def)

lemma example_default_rules: "is_ok (createDefaultExitRules rnd env exampleExitOptions)"
  by (simp add: createDefaultExitRules_def createStopLossExitRule_def createTakeProfitExitRule_def
      createTrailingStopExitRule_def parseRuleDecimal_def exampleExitOptions_def)

theorem default_exit_decision_witness:
  "\<exists>rules. createDefaultExitRules decimalRound exampleDateEnv exampleExitOptions = Inr rules \<and>
     xd_kind (evaluateExitRules (\<lambda>k l. []) rules exampleExitContext) = XD_EXIT"
proof -
  obtain rules where rules: "createDefaultExitRules decimalRound exampleDateEnv exampleExitOptions = Inr rules"
    using example_default_rules [of decimalRound exampleDateEnv]
    by (cases "createDefaultExitRules decimalRound exampleDateEnv exampleExitOptions") auto
  let ?c = exampleExitContext
  let ?g = "\<lparr>tc_deadline = TextInput ''2025-01-02T09:00'', tc_timezone = TZ_KST\<rparr>"
  have f: "xc_trailingState ?c = None" "xc_strategyExitSignal ?c = None" "xc_riskReductionSignal ?c = None"
    "xc_timeBasedConfig ?c = Some ?g" "xc_observedAt ?c = TextInput ''2025-01-02T00:00:00Z''" "positionInScope ?c"
    by (simp_all add: positionInScope_def exampleExitContext_def exampleExitPosition_def)
  have due: "\<not> deadlineBroken exampleDateEnv ?c ?g"
    "\<exists>d t. deadlineInstant ?g d \<and> observedInstant exampleDateEnv (TextInput ''2025-01-02T00:00:00Z'') t \<and> d \<le> t"
    using example_deadline example_observed f(5) unfolding deadlineBroken_def by auto
  have "xd_kind (evaluateExitRules (\<lambda>k l. []) rules ?c) = XD_EXIT"
    using default_exit_decision [OF rules, of "\<lambda>k l. []" ?c] f due by simp
  then show ?thesis using rules by blast
qed

end
