(* ===== verification/Exit_Submission.thy ===== *)
theory Exit_Submission
  imports Exit_Rules Execution_Validation
begin

text \<open>
  From an exit decision to an order: the sizing of \<^verbatim>\<open>src/src/application/exit-engine/sizing.ts\<close>, the
  construction of the submission in \<^verbatim>\<open>submission.ts\<close>, and the order for what a partial fill leaves, in
  \<^verbatim>\<open>remaining-intent.ts\<close>. The explanatory texts of a sizing are not modelled; its flags and its
  rejection code are. The lemmas relate a valid sizing to the exact conditions on its input and show
  that the execution engine accepts what the exit engine submits.
\<close>

section \<open>Sizing\<close>

record exit_position_scope =
  ps_market :: string
  ps_strategyId :: string
  ps_totalQuantity :: numeric
  ps_observedAt :: time_input

record exit_sizing_options =
  so_market :: string
  so_strategyId :: string
  so_requestedQuantity :: numeric
  so_positionScope :: exit_position_scope
  so_policySnapshot :: exit_policy_snapshot
  so_currentPrice :: numeric
  so_requestedPrice :: numeric

record exit_sizing =
  sz_requestedQuantity :: numeric
  sz_requestedPrice :: numeric
  sz_executableQuantity :: numeric
  sz_dustQuantity :: numeric
  sz_belowMinOrderNotional :: bool
  sz_remainingBelowMinOrderNotional :: bool
  sz_exceedsPosition :: bool
  sz_valid :: bool
  sz_rejectionReason :: "string option"

definition invalid :: "string \<Rightarrow> numeric \<Rightarrow> numeric \<Rightarrow> exit_sizing" where
  "invalid rejectionReason requestedQuantity requestedPrice =
     \<lparr>sz_requestedQuantity = requestedQuantity, sz_requestedPrice = requestedPrice, sz_executableQuantity = Num 0,
      sz_dustQuantity = Num 0, sz_belowMinOrderNotional = False, sz_remainingBelowMinOrderNotional = False,
      sz_exceedsPosition = False, sz_valid = False, sz_rejectionReason = Some rejectionReason\<rparr>"

text \<open>The checks once every value is parsed, in the order of the source.\<close>

definition sizeParsed ::
  "rounding \<Rightarrow> exit_sizing_options \<Rightarrow> rat \<Rightarrow> rat \<Rightarrow> rat \<Rightarrow> rat \<Rightarrow> rat \<Rightarrow> rat \<Rightarrow> rat \<Rightarrow> exit_sizing" where
  "sizeParsed rnd options requestedQty totalQty dustThreshold minOrderNotional tickSize currentPrice requestedPrice =
     (let bad = (\<lambda>reason. invalid reason (so_requestedQuantity options) (so_requestedPrice options));
          refused = (\<lambda>reason. invalid reason (Num requestedQty) (Num requestedPrice));
          remainingAfterSell = dminus rnd totalQty requestedQty;
          hasDust = (0 < remainingAfterSell \<and> remainingAfterSell \<le> dustThreshold);
          executableNotional = dtimes rnd requestedQty requestedPrice;
          remainingNotional = dtimes rnd remainingAfterSell currentPrice
      in if \<not> 0 < minOrderNotional then bad ''exit_policy_invalid''
         else if isNegativeText (pol_dustThreshold (so_policySnapshot options)) then bad ''exit_policy_invalid''
         else if \<not> 0 < tickSize then bad ''exit_policy_invalid''
         else if \<not> 0 < currentPrice then bad ''exit_price_invalid''
         else if \<not> 0 < requestedPrice then bad ''exit_price_invalid''
         else if dmod rnd requestedPrice tickSize \<noteq> Some 0 then bad ''exit_price_tick_mismatch''
         else if totalQty \<le> 0 then invalid ''exit_no_position'' (so_requestedQuantity options) (Num requestedPrice)
         else if requestedQty \<le> 0 then invalid ''exit_quantity_invalid'' (so_requestedQuantity options) (Num requestedPrice)
         else if totalQty < requestedQty then (refused ''position_exceeded'')\<lparr>sz_exceedsPosition := True\<rparr>
         else if executableNotional < minOrderNotional then
           (refused ''below_min_order_notional'')\<lparr>sz_belowMinOrderNotional := True\<rparr>
         else if hasDust then (refused ''dust_remainder'')\<lparr>sz_dustQuantity := Num remainingAfterSell\<rparr>
         else if 0 < remainingAfterSell \<and> remainingNotional < minOrderNotional then
           (refused ''remaining_below_min_order_notional'')\<lparr>sz_remainingBelowMinOrderNotional := True\<rparr>
         else \<lparr>sz_requestedQuantity = Num requestedQty, sz_requestedPrice = Num requestedPrice,
                sz_executableQuantity = Num requestedQty, sz_dustQuantity = Num 0, sz_belowMinOrderNotional = False,
                sz_remainingBelowMinOrderNotional = False, sz_exceedsPosition = False, sz_valid = True,
                sz_rejectionReason = None\<rparr>)"

definition evaluateExitSizing :: "rounding \<Rightarrow> exit_sizing_options \<Rightarrow> exit_sizing" where
  "evaluateExitSizing rnd options =
     (let scope = so_positionScope options; policy = so_policySnapshot options;
          bad = (\<lambda>reason. invalid reason (so_requestedQuantity options) (so_requestedPrice options))
      in if so_market options \<noteq> ps_market scope \<or> so_strategyId options \<noteq> ps_strategyId scope then
           bad ''exit_position_scope_mismatch''
         else (case (parseDecimal (so_requestedQuantity options), parseDecimal (ps_totalQuantity scope),
                     parseDecimal (pol_dustThreshold policy), parseDecimal (pol_minOrderNotional policy),
                     parseDecimal (pol_tickSize policy), parseDecimal (so_currentPrice options),
                     parseDecimal (so_requestedPrice options)) of
             (Some requestedQty, Some totalQty, Some dustThreshold, Some minOrderNotional, Some tickSize,
              Some currentPrice, Some requestedPrice) \<Rightarrow>
                sizeParsed rnd options requestedQty totalQty dustThreshold minOrderNotional tickSize currentPrice
                  requestedPrice
           | _ \<Rightarrow> bad ''exit_sizing_parse_error''))"

section \<open>Submission\<close>

record exit_submission_input =
  es_decision :: exit_decision
  es_sizing :: exit_sizing
  es_positionScope :: exit_position_scope
  es_policySnapshot :: exit_policy_snapshot
  es_currentPrice :: numeric
  es_riskApproval :: json_record
  es_idempotencyKey :: string
  es_expectedLossBpsOfEquity :: "numeric option"
  es_submittedAt :: timestamp

definition resolveExitIntention :: "exit_decision \<Rightarrow> exit_intention" where
  "resolveExitIntention decision = (if xd_kind decision = XD_EXIT then XI_EXIT else XI_REDUCE)"

definition isFullExitQuantity :: "exit_sizing \<Rightarrow> exit_position_scope \<Rightarrow> bool" where
  "isFullExitQuantity sizing scope =
     (case (parseFinancialDecimal (sz_executableQuantity sizing), parseFinancialDecimal (ps_totalQuantity scope)) of
        (Inr q, Inr totalQty) \<Rightarrow> q = totalQty | _ \<Rightarrow> False)"

fun joinPlus :: "string list \<Rightarrow> string" where
  "joinPlus [] = []"
| "joinPlus [s] = s"
| "joinPlus (s # ss) = s @ ''+'' @ joinPlus ss"

definition resolveExitRuleId :: "exit_decision \<Rightarrow> string" where
  "resolveExitRuleId decision =
     (let ids = map xe_ruleId (xd_triggeredRules decision) in if ids \<noteq> [] then joinPlus ids else ''exit_unknown'')"

definition calculateExitNotional :: "rounding \<Rightarrow> numeric \<Rightarrow> numeric \<Rightarrow> rat option" where
  "calculateExitNotional rnd price quantity =
     (case (parseFinancialDecimal price, parseFinancialDecimal quantity) of
        (Inr p, Inr q) \<Rightarrow> if \<not> 0 < p \<or> \<not> 0 < q then None else Some (dtimes rnd p q) | _ \<Rightarrow> None)"

text \<open>The metadata of an exit order and the order itself.\<close>

record exit_metadata =
  xm_positionEffect :: exit_intention
  xm_exitReasonCode :: string
  xm_exitRuleId :: string
  xm_positionScope :: exit_position_scope
  xm_exitCostBps :: numeric
  xm_exitSlippageBps :: numeric
  xm_requote :: json_record

record exit_order_intent =
  xo_exchangeId :: string
  xo_market :: string
  xo_strategyId :: string
  xo_requestedQuantity :: numeric
  xo_requestedNotional :: numeric
  xo_idempotencyKey :: string
  xo_reason :: string
  xo_requestedPrice :: numeric
  xo_postOnly :: "bool option"
  xo_timeInForce :: "time_in_force option"
  xo_metadata :: exit_metadata

definition scopeJson :: "exit_position_scope \<Rightarrow> json" where
  "scopeJson scope = JObj [(''market'', JStr (ps_market scope)), (''strategyId'', JStr (ps_strategyId scope)),
     (''totalQuantity'', JNum (ps_totalQuantity scope)), (''observedAt'', timeJson (ps_observedAt scope))]"

definition metadataJson :: "exit_metadata \<Rightarrow> json_record" where
  "metadataJson m =
     [(''position_effect'', JStr (exitIntentionName (xm_positionEffect m))),
      (''exit_reason_code'', JStr (xm_exitReasonCode m)), (''exit_rule_id'', JStr (xm_exitRuleId m)),
      (''position_scope'', scopeJson (xm_positionScope m)), (''exit_cost_bps'', JNum (xm_exitCostBps m)),
      (''exit_slippage_bps'', JNum (xm_exitSlippageBps m))] @ xm_requote m"

text \<open>An exit order as the order intent it is: a limit sell.\<close>

definition toOrderIntent :: "exit_order_intent \<Rightarrow> order_intent" where
  "toOrderIntent x =
     \<lparr>oi_exchangeId = xo_exchangeId x, oi_market = xo_market x, oi_strategyId = xo_strategyId x, oi_side = SELL,
      oi_requestedQuantity = xo_requestedQuantity x, oi_requestedNotional = xo_requestedNotional x,
      oi_idempotencyKey = xo_idempotencyKey x, oi_reason = xo_reason x,
      oi_metadata = Some (metadataJson (xo_metadata x)),
      oi_terms = LimitTerms (xo_requestedPrice x) (xo_postOnly x) (xo_timeInForce x)\<rparr>"

definition exitCostSnapshot :: "exit_policy_snapshot \<Rightarrow> exit_position_scope \<Rightarrow> json" where
  "exitCostSnapshot policy scope = JObj
     [(''source'', JStr ''exit_cost_model''), (''exit_cost_allowed'', JBool True),
      (''exit_cost_reason_code'', JStr ''exit_cost_margin_ok''),
      (''exit_cost_bps'', JNum (pol_exitCostBps policy)), (''exit_slippage_bps'', JNum (pol_exitSlippageBps policy)),
      (''position_scope'', JObj [(''market'', JStr (ps_market scope)), (''strategy_id'', JStr (ps_strategyId scope)),
         (''total_quantity'', JNum (ps_totalQuantity scope))])]"

definition createExitSubmission :: "rounding \<Rightarrow> exit_submission_input \<Rightarrow> (order_submission \<times> exit_order_intent) option" where
  "createExitSubmission rnd inp =
     (let sizing = es_sizing inp; decision = es_decision inp; scope = es_positionScope inp;
          policy = es_policySnapshot inp; key = trim (es_idempotencyKey inp)
      in if \<not> sz_valid sizing then None
         else if xd_kind decision \<noteq> XD_REDUCE \<and> xd_kind decision \<noteq> XD_EXIT then None
         else if resolveExitIntention decision = XI_EXIT \<and> \<not> isFullExitQuantity sizing scope then None
         else if key = [] then None
         else (case calculateExitNotional rnd (sz_requestedPrice sizing) (sz_executableQuantity sizing) of
             None \<Rightarrow> None
           | Some notional \<Rightarrow>
               let intent =
                     \<lparr>xo_exchangeId = ''upbit_krw_spot'', xo_market = ps_market scope, xo_strategyId = ps_strategyId scope,
                      xo_requestedQuantity = sz_executableQuantity sizing, xo_requestedNotional = Num notional,
                      xo_idempotencyKey = key, xo_reason = xd_userMessage decision,
                      xo_requestedPrice = sz_requestedPrice sizing, xo_postOnly = None, xo_timeInForce = Some GTC,
                      xo_metadata = \<lparr>xm_positionEffect = resolveExitIntention decision,
                        xm_exitReasonCode = xd_reasonCode decision, xm_exitRuleId = resolveExitRuleId decision,
                        xm_positionScope = scope, xm_exitCostBps = pol_exitCostBps policy,
                        xm_exitSlippageBps = pol_exitSlippageBps policy, xm_requote = []\<rparr>\<rparr>
               in Some (\<lparr>os_intent = toOrderIntent intent, os_costSnapshot = exitCostSnapshot policy scope,
                         os_riskApproval = JObj (es_riskApproval inp),
                         os_expectedLossBpsOfEquity = es_expectedLossBpsOfEquity inp,
                         os_submittedAt = es_submittedAt inp\<rparr>, intent)))"

section \<open>What a partial fill leaves\<close>

record partial_fill_remaining =
  pr_filledQuantity :: rat
  pr_remainingQuantity :: rat
  pr_requestedQuantity :: numeric
  pr_isDust :: bool
  pr_cancelRequired :: bool
  pr_requiresNewIntent :: bool
  pr_originalExitIntention :: exit_intention

text \<open>The quantity sold so far; the broker's remaining quantity is a decimal, the intent's may not be.\<close>

definition remainingFilledQuantity :: "rounding \<Rightarrow> broker_order \<Rightarrow> exit_order_intent \<Rightarrow> rat" where
  "remainingFilledQuantity rnd brokerOrder intent =
     (case parseFinancialDecimal (xo_requestedQuantity intent) of
        Inl e \<Rightarrow> 0 | Inr requested \<Rightarrow> dminus rnd requested (bo_remainingQuantity brokerOrder))"

definition isDustRemaining :: "rat \<Rightarrow> numeric \<Rightarrow> bool" where
  "isDustRemaining remaining dustThreshold =
     (case parseFinancialDecimal dustThreshold of Inl e \<Rightarrow> False | Inr t \<Rightarrow> 0 < remaining \<and> remaining \<le> t)"

definition evaluatePartialFillRemaining ::
  "rounding \<Rightarrow> broker_order \<Rightarrow> exit_order_intent \<Rightarrow> numeric option \<Rightarrow> bool option \<Rightarrow> partial_fill_remaining" where
  "evaluatePartialFillRemaining rnd brokerOrder intent dustOption requoteAfterCancel =
     (let remaining = bo_remainingQuantity brokerOrder;
          dustThreshold = (case dustOption of None \<Rightarrow> Num (1 / 10000) | Some t \<Rightarrow> t);
          base = \<lparr>pr_filledQuantity = remainingFilledQuantity rnd brokerOrder intent, pr_remainingQuantity = remaining,
            pr_requestedQuantity = xo_requestedQuantity intent, pr_isDust = False, pr_cancelRequired = True,
            pr_requiresNewIntent = False, pr_originalExitIntention = xm_positionEffect (xo_metadata intent)\<rparr>
      in if remaining = 0 then base\<lparr>pr_remainingQuantity := 0, pr_cancelRequired := False\<rparr>
         else if isDustRemaining remaining dustThreshold then base\<lparr>pr_isDust := True\<rparr>
         else base\<lparr>pr_requiresNewIntent := (case requoteAfterCancel of None \<Rightarrow> True | Some r \<Rightarrow> r)\<rparr>)"

record remaining_options =
  ro_lineageId :: "string option"
  ro_requoteSequence :: "nat option"
  ro_requestedPrice :: "numeric option"

text \<open>\<^verbatim>\<open>[^A-Za-z0-9_-]+\<close> becomes one underscore; underscores at both ends are dropped.\<close>

definition keyChar :: "char \<Rightarrow> bool" where
  "keyChar c \<longleftrightarrow> (let n = of_char c :: nat in 65 \<le> n \<and> n \<le> 90 \<or> 97 \<le> n \<and> n \<le> 122 \<or> 48 \<le> n \<and> n \<le> 57 \<or> n = 95 \<or> n = 45)"

fun collapseOthers :: "bool \<Rightarrow> string \<Rightarrow> string" where
  "collapseOthers inRun [] = []"
| "collapseOthers inRun (c # cs) =
     (if keyChar c then c # collapseOthers False cs
      else if inRun then collapseOthers True cs else CHR ''_'' # collapseOthers True cs)"

definition sanitizeIdempotencySegment :: "string \<Rightarrow> string" where
  "sanitizeIdempotencySegment s =
     (let underscore = (\<lambda>c. c = CHR ''_'');
          sanitized = rev (dropWhile underscore (rev (dropWhile underscore (collapseOthers False (trim s)))))
      in if sanitized \<noteq> [] then sanitized else ''remaining'')"

text \<open>\<open>textOf\<close> is the decimal text of a quantity, which only the default lineage of a key spells out.\<close>

definition createRemainingExitIntent ::
  "rounding \<Rightarrow> (rat \<Rightarrow> string) \<Rightarrow> (string \<Rightarrow> string) \<Rightarrow> exit_order_intent \<Rightarrow> rat \<Rightarrow> remaining_options \<Rightarrow> exit_order_intent option" where
  "createRemainingExitIntent rnd textOf retryReason original remainingQuantity options =
     (if remainingQuantity = 0 then None
      else let lineage = (case ro_lineageId options of None \<Rightarrow> sanitizeIdempotencySegment (textOf remainingQuantity) | Some l \<Rightarrow> l);
               requoteSeq = (case ro_requoteSequence options of None \<Rightarrow> 1 | Some n \<Rightarrow> n);
               price = (case ro_requestedPrice options of None \<Rightarrow> xo_requestedPrice original | Some p \<Rightarrow> p);
               m = xo_metadata original
      in case calculateExitNotional rnd price (Num remainingQuantity) of
           None \<Rightarrow> None
         | Some notional \<Rightarrow> Some
             \<lparr>xo_exchangeId = xo_exchangeId original, xo_market = xo_market original,
              xo_strategyId = xo_strategyId original, xo_requestedQuantity = Num remainingQuantity,
              xo_requestedNotional = Num notional,
              xo_idempotencyKey = xo_idempotencyKey original @ ''-requote-'' @ lineage @ ''-'' @ natText requoteSeq,
              xo_reason = retryReason (xo_reason original), xo_requestedPrice = price, xo_postOnly = None,
              xo_timeInForce = Some (case xo_timeInForce original of None \<Rightarrow> GTC | Some t \<Rightarrow> t),
              xo_metadata = m\<lparr>
                xm_positionScope := (if xm_positionEffect m = XI_EXIT
                  then (xm_positionScope m)\<lparr>ps_totalQuantity := Num remainingQuantity\<rparr> else xm_positionScope m),
                xm_exitReasonCode := xm_exitReasonCode m @ ''_requote'',
                xm_requote :=
                  AList.update ''requote_remaining_quantity'' (JNum (Num remainingQuantity))
                   (AList.update ''requote_sequence'' (JNumber (JsFinite (of_nat requoteSeq)))
                   (AList.update ''requote_lineage_id'' (JStr lineage)
                   (AList.update ''requote_parent_idempotency_key'' (JStr (xo_idempotencyKey original))
                     (xm_requote m))))\<rparr>\<rparr>)"

section \<open>Lemmas\<close>

text \<open>What a valid sizing means, over the values of its input.\<close>

definition sizingOk :: "rounding \<Rightarrow> exit_sizing_options \<Rightarrow> rat \<Rightarrow> rat \<Rightarrow> rat \<Rightarrow> bool" where
  "sizingOk rnd options q openQty price \<longleftrightarrow>
     so_market options = ps_market (so_positionScope options) \<and>
     so_strategyId options = ps_strategyId (so_positionScope options) \<and>
     parseFinancialDecimal (so_requestedQuantity options) = Inr q \<and> 0 < q \<and>
     parseFinancialDecimal (ps_totalQuantity (so_positionScope options)) = Inr openQty \<and> q \<le> openQty \<and>
     parseFinancialDecimal (so_requestedPrice options) = Inr price \<and> 0 < price \<and>
     (\<exists>dust minimum tick current.
        parseFinancialDecimal (pol_dustThreshold (so_policySnapshot options)) = Inr dust \<and>
        \<not> isNegativeText (pol_dustThreshold (so_policySnapshot options)) \<and>
        parseFinancialDecimal (pol_minOrderNotional (so_policySnapshot options)) = Inr minimum \<and> 0 < minimum \<and>
        parseFinancialDecimal (pol_tickSize (so_policySnapshot options)) = Inr tick \<and> 0 < tick \<and>
        parseFinancialDecimal (so_currentPrice options) = Inr current \<and> 0 < current \<and>
        dmod rnd price tick = Some 0 \<and> minimum \<le> dtimes rnd q price \<and>
        (0 < dminus rnd openQty q \<longrightarrow>
           dust < dminus rnd openQty q \<and> minimum \<le> dtimes rnd (dminus rnd openQty q) current))"

lemma invalid_fields [simp]: "sz_valid (invalid r q p) = False" "sz_executableQuantity (invalid r q p) = Num 0"
  by (simp_all add: invalid_def)

lemma sizeParsed_valid_iff:
  "sz_valid (sizeParsed rnd options q openQty dust minimum tick current price) \<longleftrightarrow>
     0 < minimum \<and> \<not> isNegativeText (pol_dustThreshold (so_policySnapshot options)) \<and> 0 < tick \<and> 0 < current \<and>
     0 < price \<and> dmod rnd price tick = Some 0 \<and> 0 < openQty \<and> 0 < q \<and> q \<le> openQty \<and>
     minimum \<le> dtimes rnd q price \<and>
     (0 < dminus rnd openQty q \<longrightarrow>
        dust < dminus rnd openQty q \<and> minimum \<le> dtimes rnd (dminus rnd openQty q) current)"
  by (auto simp: sizeParsed_def Let_def not_less)

lemma sizeParsed_valid_fields:
  "sz_valid (sizeParsed rnd options q openQty dust minimum tick current price) \<Longrightarrow>
     sz_executableQuantity (sizeParsed rnd options q openQty dust minimum tick current price) = Num q \<and>
     sz_requestedPrice (sizeParsed rnd options q openQty dust minimum tick current price) = Num price"
  by (auto simp: sizeParsed_def Let_def split: if_splits)

lemma evaluateExitSizing_valid:
  assumes "sz_valid (evaluateExitSizing rnd options)"
  obtains q openQty price where "sizingOk rnd options q openQty price"
    and "sz_executableQuantity (evaluateExitSizing rnd options) = Num q"
    and "sz_requestedPrice (evaluateExitSizing rnd options) = Num price"
proof -
  obtain q openQty dust minimum tick current price where
    eq: "evaluateExitSizing rnd options = sizeParsed rnd options q openQty dust minimum tick current price"
    and p: "so_market options = ps_market (so_positionScope options)"
      "so_strategyId options = ps_strategyId (so_positionScope options)"
      "parseDecimal (so_requestedQuantity options) = Some q"
      "parseDecimal (ps_totalQuantity (so_positionScope options)) = Some openQty"
      "parseDecimal (pol_dustThreshold (so_policySnapshot options)) = Some dust"
      "parseDecimal (pol_minOrderNotional (so_policySnapshot options)) = Some minimum"
      "parseDecimal (pol_tickSize (so_policySnapshot options)) = Some tick"
      "parseDecimal (so_currentPrice options) = Some current"
      "parseDecimal (so_requestedPrice options) = Some price"
    using assms by (auto simp: evaluateExitSizing_def Let_def split: if_splits option.splits)
  have "sizingOk rnd options q openQty price"
    using assms [unfolded eq sizeParsed_valid_iff] p by (auto simp: sizingOk_def parseDecimal_Some_iff)
  then show thesis using that sizeParsed_valid_fields assms unfolding eq by blast
qed

lemma createExitSubmission_Some:
  assumes "createExitSubmission rnd inp = Some (s, x)"
  shows "sz_valid (es_sizing inp)" and "xd_kind (es_decision inp) \<in> {XD_EXIT, XD_REDUCE}"
    and "resolveExitIntention (es_decision inp) = XI_EXIT \<Longrightarrow> isFullExitQuantity (es_sizing inp) (es_positionScope inp)"
    and "trim (es_idempotencyKey inp) \<noteq> []" and "os_intent s = toOrderIntent x"
    and "os_costSnapshot s = exitCostSnapshot (es_policySnapshot inp) (es_positionScope inp)"
    and "os_riskApproval s = JObj (es_riskApproval inp)"
    and "os_expectedLossBpsOfEquity s = es_expectedLossBpsOfEquity inp"
    and "xo_idempotencyKey x = trim (es_idempotencyKey inp)"
    and "xo_market x = ps_market (es_positionScope inp)" and "xo_strategyId x = ps_strategyId (es_positionScope inp)"
    and "xo_requestedQuantity x = sz_executableQuantity (es_sizing inp)"
    and "xo_requestedPrice x = sz_requestedPrice (es_sizing inp)"
    and "xm_positionEffect (xo_metadata x) = resolveExitIntention (es_decision inp)"
    and "xm_requote (xo_metadata x) = []" and "xo_timeInForce x = Some GTC"
    and "map_option Num (calculateExitNotional rnd (sz_requestedPrice (es_sizing inp)) (sz_executableQuantity (es_sizing inp))) =
       Some (xo_requestedNotional x)"
  using assms by (auto simp: createExitSubmission_def Let_def split: if_splits option.splits)

lemma exit_metadata_lookup [simp]:
  "oi_metadata (toOrderIntent x) = Some (metadataJson (xo_metadata x))"
  "oi_side (toOrderIntent x) = SELL" "oi_market (toOrderIntent x) = xo_market x"
  "oi_strategyId (toOrderIntent x) = xo_strategyId x" "oi_idempotencyKey (toOrderIntent x) = xo_idempotencyKey x"
  "oi_requestedQuantity (toOrderIntent x) = xo_requestedQuantity x"
  "oi_requestedNotional (toOrderIntent x) = xo_requestedNotional x"
  "oi_terms (toOrderIntent x) = LimitTerms (xo_requestedPrice x) (xo_postOnly x) (xo_timeInForce x)"
  by (simp_all add: toOrderIntent_def)

lemma exit_position_effect [simp]:
  "readOrderIntentPositionEffect (toOrderIntent x) = Some (JStr (exitIntentionName (xm_positionEffect (xo_metadata x))))"
  by (simp add: readOrderIntentPositionEffect_def readStringMetadata_def metadataJson_def orElse_def)

lemma exit_not_entry [simp]: "\<not> isEntryMarketOrderIntent (toOrderIntent x)"
  by (cases "xm_positionEffect (xo_metadata x)") (simp_all add: isEntryMarketOrderIntent_def)

lemma exit_expected_loss:
  assumes "createExitSubmission rnd inp = Some (s, x)"
  shows "readSubmissionExpectedLossBps s = map_option Amount (es_expectedLossBpsOfEquity inp)"
proof -
  have "readIntentExpectedLossBps (toOrderIntent x) = None"
    using createExitSubmission_Some(15) [OF assms]
    by (simp add: readIntentExpectedLossBps_def readStringMetadata_def metadataJson_def orElse_def)
  then show ?thesis using createExitSubmission_Some(5,8) [OF assms]
    by (cases "es_expectedLossBpsOfEquity inp") (simp_all add: readSubmissionExpectedLossBps_def orElse_def)
qed

lemma exit_submission_amounts:
  assumes "createExitSubmission rnd inp = Some (s, x)"
    and "es_sizing inp = evaluateExitSizing rnd options" and "so_positionScope options = es_positionScope inp"
  shows "positiveAmounts (os_intent s)" and "exitQuantityOk s"
proof -
  obtain q openQty price where ok: "sizingOk rnd options q openQty price"
    and f: "sz_executableQuantity (es_sizing inp) = Num q" "sz_requestedPrice (es_sizing inp) = Num price"
    using evaluateExitSizing_valid createExitSubmission_Some(1) [OF assms(1)] assms(2) by metis
  note x = createExitSubmission_Some [OF assms(1)]
  have pos: "0 < q" "0 < price" "q \<le> openQty" "0 < rnd (q * price)"
    and openQty: "parseFinancialDecimal (ps_totalQuantity (es_positionScope inp)) = Inr openQty"
    using ok unfolding sizingOk_def assms(3) dtimes_def by (auto intro: less_le_trans)
  have "xo_requestedNotional x = Num (rnd (price * q))"
    using x(17) pos by (simp add: f calculateExitNotional_def dtimes_def)
  then show "positiveAmounts (os_intent s)"
    using pos by (simp add: positiveAmounts_def isPositiveText_def x(5,12,13) f mult.commute)
  have "scopeQuantity s = Some openQty"
    by (simp add: scopeQuantity_def Let_def x(5,6,10,11) exitCostSnapshot_def orNull_def openQty)
  moreover have "q = openQty" if "resolveExitIntention (es_decision inp) = XI_EXIT"
    using x(3) [OF that] by (simp add: isFullExitQuantity_def f openQty)
  ultimately show "exitQuantityOk s"
    using pos by (cases "resolveExitIntention (es_decision inp)") (simp_all add: exitQuantityOk_def x(5,12,14) f)
qed

lemma exit_submission_costs:
  assumes "createExitSubmission rnd inp = Some (s, x)"
    and "is_ok (parseFinancialDecimal (pol_exitCostBps (es_policySnapshot inp)))"
      "\<not> isNegativeText (pol_exitCostBps (es_policySnapshot inp))"
    and "is_ok (parseFinancialDecimal (pol_exitSlippageBps (es_policySnapshot inp)))"
      "\<not> isNegativeText (pol_exitSlippageBps (es_policySnapshot inp))"
  shows "exitCostOk s"
proof -
  have "isNonNegativeField (Some (JNum n))" if "is_ok (parseFinancialDecimal n)" "\<not> isNegativeText n" for n
    using that by (cases n) (simp_all add: isNonNegativeField_def)
  then show ?thesis using assms(2-) createExitSubmission_Some(5,6) [OF assms(1)]
    by (simp add: exitCostOk_def Let_def exitCostSnapshot_def readStringMetadata_def metadataJson_def)
qed

section \<open>Properties\<close>

text \<open>
  C20. The engine accepts what the exit engine submits. When the sizing of an exit is computed for the
  position in question, a submission is built exactly for valid sizings of decisions to exit or to reduce
  with a usable key, where an exit sells the whole position; and such a submission, with the evidence of a
  risk gate that approved this order and expected loss, passes every check of the execution engine in its
  paper configuration.
\<close>

theorem exit_order_accepted:
  assumes sizing: "es_sizing inp = evaluateExitSizing rnd options" "so_positionScope options = es_positionScope inp"
    and gate: "evaluateRiskGate rnd c = Inr r" "rg_approved r" "es_riskApproval inp = createExecutionRiskApprovalEvidence r c"
    and loss: "lossValue (readContextExpectedLossBps c) = Some l"
      "lossValue (map_option Amount (es_expectedLossBpsOfEquity inp)) = Some l"
    and costs: "is_ok (parseFinancialDecimal (pol_exitCostBps (es_policySnapshot inp)))"
      "\<not> isNegativeText (pol_exitCostBps (es_policySnapshot inp))"
      "is_ok (parseFinancialDecimal (pol_exitSlippageBps (es_policySnapshot inp)))"
      "\<not> isNegativeText (pol_exitSlippageBps (es_policySnapshot inp))"
    and config: "\<not> sc_liveTradingEnabled config" "sc_paperNoKey config"
  shows "(createExitSubmission rnd inp \<noteq> None \<longleftrightarrow>
      sz_valid (es_sizing inp) \<and> xd_kind (es_decision inp) \<in> {XD_EXIT, XD_REDUCE} \<and>
      (xd_kind (es_decision inp) = XD_EXIT \<longrightarrow> isFullExitQuantity (es_sizing inp) (es_positionScope inp)) \<and>
      trim (es_idempotencyKey inp) \<noteq> []) \<and>
    (\<forall>s x. createExitSubmission rnd inp = Some (s, x) \<longrightarrow> rc_orderIntent c = toOrderIntent x \<longrightarrow>
      validateExecutionSubmission s config = None)"
proof (intro conjI allI impI)
  have "calculateExitNotional rnd (sz_requestedPrice (es_sizing inp)) (sz_executableQuantity (es_sizing inp)) \<noteq> None"
    if v: "sz_valid (es_sizing inp)"
  proof -
    obtain q openQty price where "sizingOk rnd options q openQty price"
      "sz_executableQuantity (es_sizing inp) = Num q" "sz_requestedPrice (es_sizing inp) = Num price"
      using evaluateExitSizing_valid v sizing(1) by metis
    then show ?thesis by (simp add: calculateExitNotional_def sizingOk_def)
  qed
  then show "createExitSubmission rnd inp \<noteq> None \<longleftrightarrow>
      sz_valid (es_sizing inp) \<and> xd_kind (es_decision inp) \<in> {XD_EXIT, XD_REDUCE} \<and>
      (xd_kind (es_decision inp) = XD_EXIT \<longrightarrow> isFullExitQuantity (es_sizing inp) (es_positionScope inp)) \<and>
      trim (es_idempotencyKey inp) \<noteq> []"
    by (auto simp: createExitSubmission_def Let_def resolveExitIntention_def)
next
  fix s x
  assume created: "createExitSubmission rnd inp = Some (s, x)" and intent: "rc_orderIntent c = toOrderIntent x"
  note f = createExitSubmission_Some [OF created]
  have "riskEvidenceOk s"
    using gate loss intent gate_evidence_ok_iff [OF gate(1), of s]
    by (simp add: f(5,7) sameCandidate_def exit_expected_loss [OF created])
  moreover have "exitCostOk s" "positiveAmounts (toOrderIntent x)" "exitQuantityOk s"
    using exit_submission_costs [OF created costs] exit_submission_amounts [OF created sizing] by (simp_all add: f(5))
  ultimately show "validateExecutionSubmission s config = None"
    using config f(4) by (simp add: validate_accepts_iff acceptable_def Let_def f(5,9) orderTypeAllowed_def)
qed

text \<open>The whole of a position of two coins is sold at 10010 after the take profit was reached.\<close>

definition exampleScope :: exit_position_scope where
  "exampleScope = \<lparr>ps_market = ''KRW-BTC'', ps_strategyId = ''s1'', ps_totalQuantity = Num 2,
     ps_observedAt = DateInput (Some 0)\<rparr>"

definition exampleSizingOptions :: exit_sizing_options where
  "exampleSizingOptions = \<lparr>so_market = ''KRW-BTC'', so_strategyId = ''s1'', so_requestedQuantity = Num 2,
     so_positionScope = exampleScope, so_policySnapshot = exampleExitPolicy, so_currentPrice = Num 10010,
     so_requestedPrice = Num 10010\<rparr>"

definition exampleExitDecision :: exit_decision where
  "exampleExitDecision = summarize (\<lambda>k l. ''take profit'')
     [triggered ''take_profit_exit'' ''take_profit_triggered'' XI_EXIT None] exampleExitContext"

definition exampleExitOrder :: exit_order_intent where
  "exampleExitOrder = \<lparr>xo_exchangeId = ''upbit_krw_spot'', xo_market = ''KRW-BTC'', xo_strategyId = ''s1'',
     xo_requestedQuantity = Num 2, xo_requestedNotional = Num 20020, xo_idempotencyKey = ''exit-1'',
     xo_reason = ''take profit'', xo_requestedPrice = Num 10010, xo_postOnly = None, xo_timeInForce = Some GTC,
     xo_metadata = \<lparr>xm_positionEffect = XI_EXIT, xm_exitReasonCode = ''exit_triggered'', xm_exitRuleId = ''take_profit_exit'',
       xm_positionScope = exampleScope, xm_exitCostBps = Num 5, xm_exitSlippageBps = Num 3, xm_requote = []\<rparr>\<rparr>"

definition exampleExitGate :: risk_gate_context where
  "exampleExitGate = (exampleRiskContext 10000000)\<lparr>rc_orderIntent := toOrderIntent exampleExitOrder\<rparr>"

definition exampleExitInput :: "risk_gate_result \<Rightarrow> exit_submission_input" where
  "exampleExitInput r = \<lparr>es_decision = exampleExitDecision, es_sizing = evaluateExitSizing exactRound exampleSizingOptions,
     es_positionScope = exampleScope, es_policySnapshot = exampleExitPolicy, es_currentPrice = Num 10010,
     es_riskApproval = createExecutionRiskApprovalEvidence r exampleExitGate, es_idempotencyKey = ''exit-1'',
     es_expectedLossBpsOfEquity = Some (Num 7), es_submittedAt = At 0\<rparr>"

lemma example_sizing: "evaluateExitSizing exactRound exampleSizingOptions =
  \<lparr>sz_requestedQuantity = Num 2, sz_requestedPrice = Num 10010, sz_executableQuantity = Num 2, sz_dustQuantity = Num 0,
   sz_belowMinOrderNotional = False, sz_remainingBelowMinOrderNotional = False, sz_exceedsPosition = False,
   sz_valid = True, sz_rejectionReason = None\<rparr>"
  by (simp add: evaluateExitSizing_def exampleSizingOptions_def exampleScope_def exampleExitPolicy_def parseDecimal_def
      sizeParsed_def dmod_def decimal_ops exactRound_def)

lemma example_decision: "xd_kind exampleExitDecision = XD_EXIT" "xd_reasonCode exampleExitDecision = ''exit_triggered''"
  "xd_userMessage exampleExitDecision = ''take profit''" "resolveExitRuleId exampleExitDecision = ''take_profit_exit''"
  "resolveExitIntention exampleExitDecision = XI_EXIT"
proof -
  have "evaluateExitPositionScope exampleExitContext = None"
    by (simp add: evaluateExitPositionScope_None_iff positionInScope_def exampleExitContext_def exampleExitPosition_def)
  then show "xd_kind exampleExitDecision = XD_EXIT" "xd_reasonCode exampleExitDecision = ''exit_triggered''"
    "xd_userMessage exampleExitDecision = ''take profit''" "resolveExitRuleId exampleExitDecision = ''take_profit_exit''"
    "resolveExitIntention exampleExitDecision = XI_EXIT"
    by (simp_all add: exampleExitDecision_def summarize_def Let_def resolveExitDecision_def evaluation_defs resolveExitRuleId_def
        resolveExitIntention_def)
qed

lemma example_exit_submission:
  "\<exists>s. createExitSubmission exactRound (exampleExitInput r) = Some (s, exampleExitOrder)"
  by (simp add: createExitSubmission_def Let_def exampleExitInput_def example_sizing example_decision isFullExitQuantity_def
      exampleScope_def calculateExitNotional_def dtimes_def exactRound_def exampleExitOrder_def exampleExitPolicy_def
      trim_def isSpace_def)

lemma example_exit_gate: "\<exists>r. evaluateRiskGate exactRound exampleExitGate = Inr r \<and> rg_approved r"
proof -
  have t: "parseThresholds (ts_thresholds (rc_thresholdSnapshot exampleExitGate)) = Inr exampleThresholds"
    using example_thresholds by (simp add: exampleExitGate_def)
  have "withinRiskLimits exactRound exampleExitGate exampleThresholds"
    unfolding riskEvaluations_failFree [symmetric] by (simp add: gate_eval exampleExitGate_def exampleExitOrder_def toOrderIntent_def)
  then show ?thesis
    using createRiskGateResult_approved(1) [OF riskEvaluations_evalOk, of exactRound exampleExitGate exampleThresholds]
    by (auto simp: evaluateRiskGate_result [OF t] riskEvaluations_failFree)
qed

theorem exit_order_accepted_witness:
  "\<exists>r s. evaluateRiskGate exactRound exampleExitGate = Inr r \<and>
     createExitSubmission exactRound (exampleExitInput r) = Some (s, exampleExitOrder) \<and>
     validateExecutionSubmission s defaultPaperExecutionSafetyConfig = None"
proof -
  obtain r where r: "evaluateRiskGate exactRound exampleExitGate = Inr r" "rg_approved r"
    using example_exit_gate by blast
  obtain s where s: "createExitSubmission exactRound (exampleExitInput r) = Some (s, exampleExitOrder)"
    using example_exit_submission by blast
  have "validateExecutionSubmission s defaultPaperExecutionSafetyConfig = None"
    using exit_order_accepted [of "exampleExitInput r" exactRound exampleSizingOptions exampleExitGate r 7
        defaultPaperExecutionSafetyConfig] r s
    by (simp add: exampleExitInput_def exampleSizingOptions_def exampleExitGate_def exampleRiskContext_def
        readContextExpectedLossBps_def orElse_def lossValue_def exampleExitPolicy_def defaultPaperExecutionSafetyConfig_def)
  then show ?thesis using r s by blast
qed

end
