(* ===== verification/Exit_Runtime.thy ===== *)
theory Exit_Runtime
  imports Exit_Submission Execution_Service Execution_Persistence
begin

text \<open>
  The runtime of the exit engine, \<^verbatim>\<open>src/src/application/exit-engine/runtime.ts\<close>, and the evidence it writes,
  \<^verbatim>\<open>runtime-evidence.ts\<close>. The ports (execution engine, broker, persistence, evidence writer, alert dispatch)
  are functions on a world of any type, which a call returns changed; a rejected promise is an error
  result. The messages for people in evidence and alerts are not modelled; the reason of a failure, which
  is part of a payload, is the parameter \<open>rt_failureText\<close>, and the texts of dates and decimals inside keys
  are parameters as well. The trace of an item repeats entries of its payload and is left out. A date that is
  not valid has no ISO text: the source throws there.
\<close>

section \<open>Evidence\<close>

record evidence_item =
  ei_evidenceKind :: string
  ei_category :: string
  ei_reasonCode :: string
  ei_occurredAt :: "int option"
  ei_source :: string
  ei_sourceId :: string
  ei_payload :: json_record
  ei_evidenceFingerprint :: string

datatype exit_execution_status =
  XX_FILLED | XX_PARTIALLY_FILLED | XX_OPEN | XX_REJECTED | XX_FAILED | XX_CANCELED

fun exitExecutionStatusName :: "exit_execution_status \<Rightarrow> string" where
  "exitExecutionStatusName XX_FILLED = ''FILLED''"
| "exitExecutionStatusName XX_PARTIALLY_FILLED = ''PARTIALLY_FILLED''"
| "exitExecutionStatusName XX_OPEN = ''OPEN''"
| "exitExecutionStatusName XX_REJECTED = ''REJECTED''"
| "exitExecutionStatusName XX_FAILED = ''FAILED''"
| "exitExecutionStatusName XX_CANCELED = ''CANCELED''"

datatype failure_detail =
    FD_none
  | FD_error error
  | FD_rejection execution_rejection
  | FD_status order_status

record runtime_env =
  rt_dates :: date_env
  rt_decimalText :: "rat \<Rightarrow> string"
  rt_failureText :: "string \<Rightarrow> failure_detail \<Rightarrow> string"
  rt_retryReason :: "string \<Rightarrow> string"

fun exitDecisionKindName :: "exit_decision_kind \<Rightarrow> string" where
  "exitDecisionKindName XD_HOLD = ''HOLD''"
| "exitDecisionKindName XD_REDUCE = ''REDUCE''"
| "exitDecisionKindName XD_EXIT = ''EXIT''"
| "exitDecisionKindName XD_BLOCK = ''BLOCK''"

fun exitDecisionToCategory :: "exit_decision_kind \<Rightarrow> string" where
  "exitDecisionToCategory XD_EXIT = ''SELL''"
| "exitDecisionToCategory XD_REDUCE = ''SELL''"
| "exitDecisionToCategory XD_HOLD = ''HOLD''"
| "exitDecisionToCategory XD_BLOCK = ''DISCARD''"

fun exitExecutionToCategory :: "exit_execution_status \<Rightarrow> string" where
  "exitExecutionToCategory XX_REJECTED = ''EXECUTION_REJECTED''"
| "exitExecutionToCategory XX_FAILED = ''EXECUTION_REJECTED''"
| "exitExecutionToCategory _ = ''EXECUTED''"

definition createExitStrategyEvidence :: "runtime_env \<Rightarrow> exit_decision \<Rightarrow> string \<Rightarrow> string \<Rightarrow> evidence_item result" where
  "createExitStrategyEvidence env decision market strategyId =
     (case newDate (rt_dates env) (xd_observedAt decision) of
        None \<Rightarrow> Inl (Failure ''Invalid time value'')
      | Some occurredAt \<Rightarrow> Inr
          \<lparr>ei_evidenceKind = ''STRATEGY_DECISION'', ei_category = exitDecisionToCategory (xd_kind decision),
           ei_reasonCode = xd_reasonCode decision, ei_occurredAt = Some occurredAt, ei_source = ''exit-engine'',
           ei_sourceId = strategyId,
           ei_payload = [(''exit_kind'', JStr (exitDecisionKindName (xd_kind decision))),
             (''reason_code'', JStr (xd_reasonCode decision)),
             (''triggered_rules'', JArr (map (\<lambda>r. JStr (xe_ruleId r)) (xd_triggeredRules decision))),
             (''blocked_rules'', JArr (map (\<lambda>r. JStr (xe_ruleId r)) (xd_blockedRules decision))),
             (''user_message'', JStr (xd_userMessage decision))],
           ei_evidenceFingerprint = ''exit-strategy-'' @ xd_reasonCode decision @ ''-'' @ market @ ''-'' @ strategyId @ ''-''
             @ de_toISOString (rt_dates env) occurredAt\<rparr>)"

record exit_execution_input =
  xx_correlationId :: string
  xx_executionStatus :: exit_execution_status
  xx_filledQuantity :: rat
  xx_remainingQuantity :: numeric
  xx_exitIntention :: exit_intention
  xx_market :: string
  xx_strategyId :: string
  xx_evidenceKey :: string

definition createExitExecutionEvidence :: "exit_execution_input \<Rightarrow> int option \<Rightarrow> evidence_item" where
  "createExitExecutionEvidence inp occurredAt =
     (let status = xx_executionStatus inp; remaining = xx_remainingQuantity inp;
          isPartialFill = (status = XX_PARTIALLY_FILLED \<and> remaining \<noteq> Num 0);
          isOpen = (status = XX_OPEN \<and> remaining \<noteq> Num 0);
          isCanceled = (status = XX_CANCELED);
          isRejected = (status = XX_REJECTED \<or> status = XX_FAILED)
      in \<lparr>ei_evidenceKind = ''EXECUTION_RESULT'', ei_category = exitExecutionToCategory status,
          ei_reasonCode = exitExecutionStatusName status, ei_occurredAt = occurredAt, ei_source = ''exit-execution'',
          ei_sourceId = xx_correlationId inp,
          ei_payload = [(''execution_status'', JStr (exitExecutionStatusName status)),
            (''exit_intention'', JStr (exitIntentionName (xx_exitIntention inp))),
            (''filled_quantity'', JNum (Num (xx_filledQuantity inp))), (''remaining_quantity'', JNum remaining),
            (''market'', JStr (xx_market inp)), (''strategy_id'', JStr (xx_strategyId inp))]
            @ (if isPartialFill then [(''partial_fill_remaining_action'', JStr ''cancel_or_requote_required'')] else [])
            @ (if isOpen then [(''open_order_remaining_action'', JStr ''cancel_or_requote_required'')] else [])
            @ (if isCanceled then [(''cancel_requote_status'', JStr ''open_remaining_canceled'')] else [])
            @ (if isRejected then [(''new_entry_block_required'', JBool True), (''manual_review_required'', JBool True)] else []),
          ei_evidenceFingerprint = xx_evidenceKey inp\<rparr>)"

text \<open>The two ways in which a remainder is closed without a new order share their shape.\<close>

definition closedRemainder ::
  "string \<Rightarrow> string \<Rightarrow> json_record \<Rightarrow> json_record \<Rightarrow> broker_order \<Rightarrow> partial_fill_remaining \<Rightarrow> exit_intention \<Rightarrow> exit_position_scope
   \<Rightarrow> string \<Rightarrow> int option \<Rightarrow> evidence_item" where
  "closedRemainder reasonCode cancelStatus canceledFigures figures canceled remaining intention scope key occurredAt =
     \<lparr>ei_evidenceKind = ''EXECUTION_RESULT'', ei_category = ''EXECUTED'', ei_reasonCode = reasonCode,
      ei_occurredAt = occurredAt, ei_source = ''exit-execution'', ei_sourceId = bo_brokerOrderId canceled,
      ei_payload = [(''execution_status'', JStr ''CANCELED''), (''exit_intention'', JStr (exitIntentionName intention)),
        (''filled_quantity'', JNum (Num (pr_filledQuantity remaining))),
        (''remaining_quantity'', JNum (Num (pr_remainingQuantity remaining)))] @ canceledFigures
        @ [(''broker_remaining_quantity_after_cancel'', JNum (Num (bo_remainingQuantity canceled)))] @ figures
        @ [(''remaining_exit_intent_created'', JBool False), (''cancel_requote_status'', JStr cancelStatus),
           (''market'', JStr (ps_market scope)), (''strategy_id'', JStr (ps_strategyId scope))],
      ei_evidenceFingerprint = key\<rparr>"

definition createExitRemainingDustEvidence ::
  "broker_order \<Rightarrow> partial_fill_remaining \<Rightarrow> numeric \<Rightarrow> exit_intention \<Rightarrow> exit_position_scope \<Rightarrow> int option \<Rightarrow> evidence_item" where
  "createExitRemainingDustEvidence canceled remaining dustThreshold intention scope occurredAt =
     closedRemainder ''exit_remaining_dust_closed'' ''dust_remaining_canceled''
       [(''canceled_quantity'', JNum (Num (pr_remainingQuantity remaining)))] [(''dust_threshold'', JNum dustThreshold)]
       canceled remaining intention scope (''exit-dust-'' @ bo_brokerOrderId canceled) occurredAt"

definition createExitRemainingBelowMinNotionalEvidence ::
  "broker_order \<Rightarrow> partial_fill_remaining \<Rightarrow> rat \<Rightarrow> numeric \<Rightarrow> exit_intention \<Rightarrow> exit_position_scope \<Rightarrow> int option \<Rightarrow> evidence_item" where
  "createExitRemainingBelowMinNotionalEvidence canceled remaining remainingNotional minOrderNotional intention scope occurredAt =
     closedRemainder ''exit_remaining_below_min_notional_closed'' ''remaining_below_min_order_notional'' []
       [(''remaining_notional'', JNum (Num remainingNotional)), (''min_order_notional'', JNum minOrderNotional)]
       canceled remaining intention scope (''exit-min-notional-'' @ bo_brokerOrderId canceled) occurredAt"

definition createExitFailureManualReviewEvidence ::
  "string \<Rightarrow> string \<Rightarrow> string \<Rightarrow> string \<Rightarrow> int option \<Rightarrow> string \<Rightarrow> evidence_item" where
  "createExitFailureManualReviewEvidence reason reasonCode market strategyId occurredAt key =
     \<lparr>ei_evidenceKind = ''EXECUTION_RESULT'', ei_category = ''EXECUTION_REJECTED'', ei_reasonCode = reasonCode,
      ei_occurredAt = occurredAt, ei_source = ''exit-execution'', ei_sourceId = strategyId,
      ei_payload = [(''exit_failure_reason'', JStr reason), (''exit_failure_reason_code'', JStr reasonCode),
        (''new_orders_blocked'', JBool True), (''manual_review_required'', JBool True),
        (''market'', JStr market), (''strategy_id'', JStr strategyId)],
      ei_evidenceFingerprint = key\<rparr>"

definition createExitPnLStatusEvidence ::
  "string \<Rightarrow> string \<Rightarrow> numeric \<Rightarrow> numeric option \<Rightarrow> int option \<Rightarrow> string \<Rightarrow> evidence_item" where
  "createExitPnLStatusEvidence market strategyId remainingQuantity averageExitPrice occurredAt key =
     \<lparr>ei_evidenceKind = ''PNL_STATUS_CONTEXT'', ei_category = ''EXECUTED'', ei_reasonCode = ''exit_pnl_status'',
      ei_occurredAt = occurredAt, ei_source = ''exit-execution'', ei_sourceId = strategyId,
      ei_payload = [(''market'', JStr market), (''strategy_id'', JStr strategyId),
        (''remaining_position_quantity'', JNum remainingQuantity),
        (''average_exit_price'', case averageExitPrice of None \<Rightarrow> JNull | Some p \<Rightarrow> JNum p),
        (''position_closed'', JBool (remainingQuantity = Num 0))],
      ei_evidenceFingerprint = key\<rparr>"

section \<open>Ports\<close>

datatype live_ops_event_kind =
  LO_ORDER_SUBMITTED | LO_ORDER_FILLED | LO_ORDER_PARTIALLY_FILLED | LO_CANCEL_REQUESTED | LO_CANCEL_CONFIRMED

fun liveOpsEventKindName :: "live_ops_event_kind \<Rightarrow> string" where
  "liveOpsEventKindName LO_ORDER_SUBMITTED = ''ORDER_SUBMITTED''"
| "liveOpsEventKindName LO_ORDER_FILLED = ''ORDER_FILLED''"
| "liveOpsEventKindName LO_ORDER_PARTIALLY_FILLED = ''ORDER_PARTIALLY_FILLED''"
| "liveOpsEventKindName LO_CANCEL_REQUESTED = ''CANCEL_REQUESTED''"
| "liveOpsEventKindName LO_CANCEL_CONFIRMED = ''CANCEL_CONFIRMED''"

text \<open>
  The event of an alert. Time, market, side, quantity and identifiers are those of the broker order it
  holds; environment and run mode are constants of the dispatch port.
\<close>

record live_ops_event =
  lo_eventKind :: live_ops_event_kind
  lo_brokerOrder :: broker_order
  lo_idempotencyKey :: string
  lo_strategyId :: string
  lo_notionalKrw :: numeric
  lo_evidenceId :: string
  lo_requestedPrice :: "numeric option"
  lo_filledQuantity :: "rat option"
  lo_remainingQuantity :: rat
  lo_safeDetails :: json_record

record 'w exit_ports =
  port_submitOrder :: "order_submission \<Rightarrow> 'w \<Rightarrow> 'w \<times> broker_order execution_result"
  port_cancelOrder :: "string \<Rightarrow> 'w \<Rightarrow> 'w \<times> broker_order result"
  port_persist :: "(persist_input \<Rightarrow> 'w \<Rightarrow> 'w \<times> unit result) option"
  port_writer :: "(evidence_item list \<Rightarrow> 'w \<Rightarrow> 'w \<times> unit result) option"
  port_alerts :: "(live_ops_event \<Rightarrow> 'w \<Rightarrow> 'w \<times> unit result) option"

record exit_runtime_input =
  xi_decision :: exit_decision
  xi_sizing :: exit_sizing
  xi_positionScope :: exit_position_scope
  xi_policySnapshot :: exit_policy_snapshot
  xi_currentPrice :: numeric
  xi_riskApproval :: json_record
  xi_idempotencyKey :: string
  xi_submittedAt :: timestamp
  xi_expectedLossBpsOfEquity :: "numeric option"

datatype exit_runtime_status =
    NO_EXIT_INTENT | EXECUTION_REJECTED | EXECUTION_SUBMITTED | REMAINING_CANCEL_REQUOTE_CREATED
  | REMAINING_CANCEL_FAILED

datatype port_status = PS_NOT_APPLICABLE | PS_NOT_CONFIGURED | PS_RECORDED | PS_UNAVAILABLE

record exit_runtime_result =
  rr_status :: exit_runtime_status
  rr_submission :: "order_submission option"
  rr_executionResult :: "broker_order execution_result option"
  rr_canceledOrder :: "broker_order option"
  rr_remainingIntent :: "exit_order_intent option"
  rr_evidenceItems :: "evidence_item list"
  rr_executionPersistenceStatus :: port_status
  rr_evidenceWriteStatus :: port_status

section \<open>Helpers\<close>

fun toDateMillis :: "timestamp \<Rightarrow> int option" where
  "toDateMillis (At n) = Some (n div 1000000)"
| "toDateMillis (BadTime s) = None"

definition isTriggeredExitDecision :: "exit_decision \<Rightarrow> bool" where
  "isTriggeredExitDecision decision \<longleftrightarrow> xd_kind decision = XD_REDUCE \<or> xd_kind decision = XD_EXIT"

definition shouldSurfaceSizingFailure :: "exit_decision \<Rightarrow> exit_sizing \<Rightarrow> bool" where
  "shouldSurfaceSizingFailure decision sizing \<longleftrightarrow> \<not> sz_valid sizing \<and> isTriggeredExitDecision decision"

definition isBrokerTerminalFailure :: "order_status \<Rightarrow> bool" where
  "isBrokerTerminalFailure status \<longleftrightarrow> status = REJECTED \<or> status = FAILED"

definition hasOpenRemainingQuantity :: "broker_order \<Rightarrow> bool" where
  "hasOpenRemainingQuantity order \<longleftrightarrow>
     (bo_status order = SUBMITTED \<or> bo_status order = ACCEPTED \<or> bo_status order = PARTIALLY_FILLED) \<and>
     0 < bo_remainingQuantity order"

definition calculateFilledQuantity :: "rounding \<Rightarrow> exit_order_intent \<Rightarrow> broker_order \<Rightarrow> rat" where
  "calculateFilledQuantity rnd intent order =
     (if isBrokerTerminalFailure (bo_status order) then 0 else remainingFilledQuantity rnd order intent)"

definition readBrokerRemainingQuantityForExecutionEvidence :: "exit_order_intent \<Rightarrow> broker_order \<Rightarrow> numeric" where
  "readBrokerRemainingQuantityForExecutionEvidence intent order =
     (if isBrokerTerminalFailure (bo_status order) then xo_requestedQuantity intent else Num (bo_remainingQuantity order))"

definition calculateRemainingPositionQuantity :: "rounding \<Rightarrow> exit_position_scope \<Rightarrow> rat \<Rightarrow> numeric" where
  "calculateRemainingPositionQuantity rnd scope filled =
     (case parseFinancialDecimal (ps_totalQuantity scope) of
        Inl e \<Rightarrow> ps_totalQuantity scope
      | Inr openQty \<Rightarrow> let remaining = dminus rnd openQty filled in if remaining \<le> 0 then Num 0 else Num remaining)"

text \<open>The notional of the remainder, and whether it is below the minimum; nothing if a value does not parse.\<close>

definition evaluateRemainingBelowMinOrderNotional ::
  "rounding \<Rightarrow> exit_order_intent \<Rightarrow> rat \<Rightarrow> exit_policy_snapshot \<Rightarrow> (bool \<times> rat) option" where
  "evaluateRemainingBelowMinOrderNotional rnd intent remaining policy =
     (case (parseFinancialDecimal (xo_requestedPrice intent), parseFinancialDecimal (pol_minOrderNotional policy)) of
        (Inr price, Inr minimum) \<Rightarrow> let notional = dtimes rnd price remaining in Some (notional < minimum, notional)
      | _ \<Rightarrow> None)"

fun mapBrokerOrderStatus :: "order_status \<Rightarrow> exit_execution_status" where
  "mapBrokerOrderStatus FILLED = XX_FILLED"
| "mapBrokerOrderStatus PARTIALLY_FILLED = XX_PARTIALLY_FILLED"
| "mapBrokerOrderStatus SUBMITTED = XX_OPEN"
| "mapBrokerOrderStatus ACCEPTED = XX_OPEN"
| "mapBrokerOrderStatus CANCELED = XX_CANCELED"
| "mapBrokerOrderStatus REJECTED = XX_REJECTED"
| "mapBrokerOrderStatus _ = XX_FAILED"

definition readRiskApprovalExpectedLossBps :: "json_record \<Rightarrow> numeric option" where
  "readRiskApprovalExpectedLossBps riskApproval =
     (case map_of riskApproval ''order_intent'' of
        Some (JObj kvs) \<Rightarrow> Option.bind (readStringRecordValue kvs ''expected_loss_bps_of_equity'') jsonText
      | _ \<Rightarrow> None)"

definition createInputEventScope :: "runtime_env \<Rightarrow> exit_runtime_input \<Rightarrow> string result" where
  "createInputEventScope env inp =
     (let key = trim (xi_idempotencyKey inp); stableKey = (if key \<noteq> [] then key else ''missing-idempotency-key'')
      in case toDateMillis (xi_submittedAt inp) of
           None \<Rightarrow> Inl (Failure ''Invalid time value'')
         | Some ms \<Rightarrow> Inr (stableKey @ ''-'' @ de_toISOString (rt_dates env) ms))"

section \<open>Appending evidence\<close>

definition manualReview ::
  "runtime_env \<Rightarrow> string \<Rightarrow> failure_detail \<Rightarrow> exit_position_scope \<Rightarrow> string \<Rightarrow> evidence_item" where
  "manualReview env reasonCode detail scope eventScopeId =
     createExitFailureManualReviewEvidence (rt_failureText env reasonCode detail) reasonCode (ps_market scope)
       (ps_strategyId scope) (newDate (rt_dates env) (ps_observedAt scope))
       (''exit-failure-'' @ reasonCode @ ''-'' @ ps_market scope @ ''-'' @ ps_strategyId scope @ ''-'' @ eventScopeId)"

definition rejectedExecutionEvidence ::
  "runtime_env \<Rightarrow> exit_runtime_input \<Rightarrow> exit_order_intent \<Rightarrow> execution_rejection \<Rightarrow> evidence_item list" where
  "rejectedExecutionEvidence env inp intent rejection =
     (let scope = xi_positionScope inp; at_ms = toDateMillis (xi_submittedAt inp)
      in [createExitExecutionEvidence
            \<lparr>xx_correlationId = xo_idempotencyKey intent, xx_executionStatus = XX_REJECTED, xx_filledQuantity = 0,
             xx_remainingQuantity = sz_executableQuantity (xi_sizing inp),
             xx_exitIntention = xm_positionEffect (xo_metadata intent), xx_market = ps_market scope,
             xx_strategyId = ps_strategyId scope,
             xx_evidenceKey = ''exit-execution-rejected-'' @ xo_idempotencyKey intent\<rparr> at_ms,
          createExitFailureManualReviewEvidence
            (rt_failureText env ''exit_execution_rejected'' (FD_rejection rejection)) ''exit_execution_rejected''
            (ps_market scope) (ps_strategyId scope) at_ms (''exit-failure-'' @ xo_idempotencyKey intent)])"

definition submittedExecutionEvidence ::
  "rounding \<Rightarrow> exit_runtime_input \<Rightarrow> exit_order_intent \<Rightarrow> broker_order \<Rightarrow> evidence_item list" where
  "submittedExecutionEvidence rnd inp intent order =
     (let scope = xi_positionScope inp; status = mapBrokerOrderStatus (bo_status order);
          filled = calculateFilledQuantity rnd intent order; at_ms = toDateMillis (bo_updatedAt order)
      in [createExitExecutionEvidence
            \<lparr>xx_correlationId = bo_brokerOrderId order, xx_executionStatus = status, xx_filledQuantity = filled,
             xx_remainingQuantity = readBrokerRemainingQuantityForExecutionEvidence intent order,
             xx_exitIntention = xm_positionEffect (xo_metadata intent), xx_market = ps_market scope,
             xx_strategyId = ps_strategyId scope,
             xx_evidenceKey = ''exit-execution-'' @ bo_brokerOrderId order @ ''-'' @ exitExecutionStatusName status\<rparr> at_ms,
          createExitPnLStatusEvidence (ps_market scope) (ps_strategyId scope)
            (calculateRemainingPositionQuantity rnd scope filled) (bo_requestedPrice order) at_ms
            (''exit-pnl-'' @ bo_brokerOrderId order)])"

definition canceledExecutionEvidence ::
  "exit_runtime_input \<Rightarrow> exit_order_intent \<Rightarrow> broker_order \<Rightarrow> rat \<Rightarrow> evidence_item" where
  "canceledExecutionEvidence inp intent canceled filled =
     createExitExecutionEvidence
       \<lparr>xx_correlationId = bo_brokerOrderId canceled, xx_executionStatus = XX_CANCELED, xx_filledQuantity = filled,
        xx_remainingQuantity = Num (bo_remainingQuantity canceled),
        xx_exitIntention = xm_positionEffect (xo_metadata intent), xx_market = ps_market (xi_positionScope inp),
        xx_strategyId = ps_strategyId (xi_positionScope inp),
        xx_evidenceKey = ''exit-execution-'' @ bo_brokerOrderId canceled @ ''-CANCELED''\<rparr>
       (toDateMillis (bo_updatedAt canceled))"

section \<open>Calling the ports\<close>

definition appendExitEvidenceSafely :: "'w exit_ports \<Rightarrow> evidence_item list \<Rightarrow> 'w \<Rightarrow> 'w \<times> port_status" where
  "appendExitEvidenceSafely ports items w =
     (case port_writer ports of
        None \<Rightarrow> (w, PS_NOT_CONFIGURED)
      | Some appendItems \<Rightarrow> (case appendItems items w of (w', r) \<Rightarrow> (w', if is_ok r then PS_RECORDED else PS_UNAVAILABLE)))"

definition persistExitExecutionSafely ::
  "runtime_env \<Rightarrow> 'w exit_ports \<Rightarrow> exit_runtime_input \<Rightarrow> order_submission \<Rightarrow> broker_order \<Rightarrow> evidence_item list \<Rightarrow> 'w
   \<Rightarrow> 'w \<times> evidence_item list \<times> port_status" where
  "persistExitExecutionSafely env ports inp submission order items w =
     (case port_persist ports of
        None \<Rightarrow> (w, items, PS_NOT_CONFIGURED)
      | Some persist \<Rightarrow>
         (case persist \<lparr>pi_submission = submission, pi_brokerOrder = order,
              pi_correlationId = Some (bo_brokerOrderId order), pi_simulatedLatencyMs = None\<rparr> w of
            (w', Inr u) \<Rightarrow> (w', items, PS_RECORDED)
          | (w', Inl e) \<Rightarrow> (w', items @ [manualReview env ''exit_execution_persistence_unavailable'' (FD_error e)
                (xi_positionScope inp) (bo_brokerOrderId order)], PS_UNAVAILABLE)))"

text \<open>An alert never changes the outcome: its failure is swallowed.\<close>

definition dispatchExitLiveOpsAlertSafely ::
  "'w exit_ports \<Rightarrow> exit_runtime_input \<Rightarrow> order_submission \<Rightarrow> broker_order \<Rightarrow> live_ops_event_kind \<Rightarrow> string
   \<Rightarrow> rat option \<Rightarrow> json_record \<Rightarrow> 'w \<Rightarrow> 'w" where
  "dispatchExitLiveOpsAlertSafely ports inp submission order kind evidenceId filled details w =
     (case port_alerts ports of
        None \<Rightarrow> w
      | Some dispatch \<Rightarrow> fst (dispatch
          \<lparr>lo_eventKind = kind, lo_brokerOrder = order, lo_idempotencyKey = oi_idempotencyKey (os_intent submission),
           lo_strategyId = ps_strategyId (xi_positionScope inp),
           lo_notionalKrw = oi_requestedNotional (os_intent submission), lo_evidenceId = evidenceId,
           lo_requestedPrice = (case bo_requestedPrice order of Some p \<Rightarrow> Some p
             | None \<Rightarrow> (case oi_terms (os_intent submission) of LimitTerms p po tif \<Rightarrow> Some p | MarketTerms \<Rightarrow> None)),
           lo_filledQuantity = filled, lo_remainingQuantity = bo_remainingQuantity order,
           lo_safeDetails = [(''source'', JStr ''exit_paper_runtime''), (''reason_code'', JStr (liveOpsEventKindName kind))] @ details\<rparr> w))"

fun toExitFillLiveOpsEventKind :: "order_status \<Rightarrow> live_ops_event_kind option" where
  "toExitFillLiveOpsEventKind FILLED = Some LO_ORDER_FILLED"
| "toExitFillLiveOpsEventKind PARTIALLY_FILLED = Some LO_ORDER_PARTIALLY_FILLED"
| "toExitFillLiveOpsEventKind _ = None"

definition dispatchExitFillLiveOpsAlertSafely ::
  "runtime_env \<Rightarrow> 'w exit_ports \<Rightarrow> exit_runtime_input \<Rightarrow> order_submission \<Rightarrow> broker_order \<Rightarrow> rat \<Rightarrow> 'w \<Rightarrow> 'w" where
  "dispatchExitFillLiveOpsAlertSafely env ports inp submission order filled w =
     (case toExitFillLiveOpsEventKind (bo_status order) of
        None \<Rightarrow> w
      | Some kind \<Rightarrow> dispatchExitLiveOpsAlertSafely ports inp submission order kind
          (''exit-fill:'' @ bo_brokerOrderId order @ '':'' @ orderStatusName (bo_status order) @ '':''
            @ rt_decimalText env filled @ '':'' @ rt_decimalText env (bo_remainingQuantity order))
          (Some filled)
          [(''exit_runtime_status'', JStr (if kind = LO_ORDER_FILLED then ''EXIT_ORDER_FILLED'' else ''EXIT_ORDER_PARTIALLY_FILLED'')),
           (''broker_order_status'', JStr (orderStatusName (bo_status order)))] w)"

section \<open>The runtime\<close>

text \<open>The end of every path: the evidence is handed to the writer and the result returned.\<close>

definition finish :: "'w exit_ports \<Rightarrow> exit_runtime_result \<Rightarrow> 'w \<Rightarrow> 'w \<times> exit_runtime_result" where
  "finish ports r w = (case appendExitEvidenceSafely ports (rr_evidenceItems r) w of
     (w', status) \<Rightarrow> (w', r\<lparr>rr_evidenceWriteStatus := status\<rparr>))"

definition plainResult :: "exit_runtime_status \<Rightarrow> evidence_item list \<Rightarrow> exit_runtime_result" where
  "plainResult status items =
     \<lparr>rr_status = status, rr_submission = None, rr_executionResult = None, rr_canceledOrder = None,
      rr_remainingIntent = None, rr_evidenceItems = items, rr_executionPersistenceStatus = PS_NOT_APPLICABLE,
      rr_evidenceWriteStatus = PS_NOT_CONFIGURED\<rparr>"

text \<open>Persist the final broker order, then finish.\<close>

definition persistAndFinish ::
  "runtime_env \<Rightarrow> 'w exit_ports \<Rightarrow> exit_runtime_input \<Rightarrow> order_submission \<Rightarrow> broker_order \<Rightarrow> exit_runtime_result \<Rightarrow> 'w
   \<Rightarrow> 'w \<times> exit_runtime_result" where
  "persistAndFinish env ports inp submission order r w =
     (case persistExitExecutionSafely env ports inp submission order (rr_evidenceItems r) w of
        (w', items, status) \<Rightarrow>
          finish ports (r\<lparr>rr_evidenceItems := items, rr_executionPersistenceStatus := status\<rparr>) w')"

definition cancelRemaining ::
  "rounding \<Rightarrow> runtime_env \<Rightarrow> 'w exit_ports \<Rightarrow> exit_runtime_input \<Rightarrow> order_submission \<Rightarrow> exit_order_intent \<Rightarrow> broker_order
   \<Rightarrow> exit_runtime_result \<Rightarrow> 'w \<Rightarrow> 'w \<times> exit_runtime_result" where
  "cancelRemaining rnd env ports inp submission intent order r w =
     (let scope = xi_positionScope inp; policy = xi_policySnapshot inp;
          remaining = evaluatePartialFillRemaining rnd order intent (Some (pol_dustThreshold policy)) None
      in case port_cancelOrder ports (bo_brokerOrderId order) w of
           (w1, Inl e) \<Rightarrow>
             persistAndFinish env ports inp submission order
               (r\<lparr>rr_status := REMAINING_CANCEL_FAILED, rr_evidenceItems := rr_evidenceItems r
                   @ [manualReview env ''exit_remaining_cancel_failed'' (FD_error e) scope (bo_brokerOrderId order)]\<rparr>) w1
         | (w1, Inr canceled) \<Rightarrow>
             let alertDetails = (\<lambda>status. [(''exit_runtime_status'', JStr status),
                   (''original_broker_order_id'', JStr (bo_brokerOrderId order)),
                   (''cancel_result_status'', JStr (orderStatusName (bo_status canceled)))]);
                 w2 = dispatchExitLiveOpsAlertSafely ports inp submission canceled LO_CANCEL_REQUESTED
                   (''exit-cancel-requested:'' @ bo_brokerOrderId order) None (alertDetails ''REMAINING_CANCEL_REQUESTED'') w1
             in if bo_status canceled \<noteq> CANCELED \<or> bo_remainingQuantity canceled \<noteq> 0 then
                  persistAndFinish env ports inp submission canceled
                    (r\<lparr>rr_status := REMAINING_CANCEL_FAILED, rr_canceledOrder := Some canceled,
                       rr_evidenceItems := rr_evidenceItems r
                         @ [manualReview env ''exit_remaining_cancel_open'' FD_none scope (bo_brokerOrderId canceled)]\<rparr>) w2
                else
                  let w3 = dispatchExitLiveOpsAlertSafely ports inp submission canceled LO_CANCEL_CONFIRMED
                        (''exit-cancel-confirmed:'' @ bo_brokerOrderId order) None (alertDetails ''REMAINING_CANCEL_CONFIRMED'') w2;
                      intention = xm_positionEffect (xo_metadata intent);
                      updated = toDateMillis (bo_updatedAt canceled);
                      belowMin = (if pr_requiresNewIntent remaining
                        then evaluateRemainingBelowMinOrderNotional rnd intent (pr_remainingQuantity remaining) policy else None);
                      items = rr_evidenceItems r
                        @ [canceledExecutionEvidence inp intent canceled (pr_filledQuantity remaining)]
                        @ (if pr_isDust remaining then [createExitRemainingDustEvidence canceled remaining
                             (pol_dustThreshold policy) intention scope updated] else [])
                        @ (case belowMin of Some (True, notional) \<Rightarrow>
                             [createExitRemainingBelowMinNotionalEvidence canceled remaining notional
                                (pol_minOrderNotional policy) intention scope updated] | _ \<Rightarrow> []);
                      requote = (if pr_requiresNewIntent remaining \<and> \<not> (case belowMin of Some (b, n) \<Rightarrow> b | None \<Rightarrow> False)
                        then createRemainingExitIntent rnd (rt_decimalText env) (rt_retryReason env) intent
                          (pr_remainingQuantity remaining)
                          \<lparr>ro_lineageId = Some (bo_brokerOrderId order), ro_requoteSequence = Some 1, ro_requestedPrice = None\<rparr>
                        else None)
                  in persistAndFinish env ports inp submission canceled
                       (r\<lparr>rr_status := (if requote = None then EXECUTION_SUBMITTED else REMAINING_CANCEL_REQUOTE_CREATED),
                          rr_canceledOrder := Some canceled, rr_remainingIntent := requote, rr_evidenceItems := items\<rparr>) w3)"

definition handleBrokerOrder ::
  "rounding \<Rightarrow> runtime_env \<Rightarrow> 'w exit_ports \<Rightarrow> exit_runtime_input \<Rightarrow> order_submission \<Rightarrow> exit_order_intent \<Rightarrow> broker_order
   \<Rightarrow> exit_runtime_result \<Rightarrow> 'w \<Rightarrow> 'w \<times> exit_runtime_result" where
  "handleBrokerOrder rnd env ports inp submission intent order r0 w =
     (let r = r0\<lparr>rr_evidenceItems := rr_evidenceItems r0 @ submittedExecutionEvidence rnd inp intent order\<rparr>
      in if isBrokerTerminalFailure (bo_status order) then
           persistAndFinish env ports inp submission order
             (r\<lparr>rr_status := EXECUTION_REJECTED, rr_evidenceItems := rr_evidenceItems r
                 @ [manualReview env ''exit_broker_order_terminal_failure'' (FD_status (bo_status order))
                      (xi_positionScope inp) (bo_brokerOrderId order)]\<rparr>) w
         else
           let w1 = dispatchExitLiveOpsAlertSafely ports inp submission order LO_ORDER_SUBMITTED
                 (''exit-submitted:'' @ bo_brokerOrderId order) None
                 [(''exit_runtime_status'', JStr ''EXECUTION_SUBMITTED''),
                  (''broker_order_status'', JStr (orderStatusName (bo_status order)))] w;
               w2 = dispatchExitFillLiveOpsAlertSafely env ports inp submission order
                 (calculateFilledQuantity rnd intent order) w1
           in if \<not> hasOpenRemainingQuantity order then
                persistAndFinish env ports inp submission order (r\<lparr>rr_status := EXECUTION_SUBMITTED\<rparr>) w2
              else cancelRemaining rnd env ports inp submission intent order r w2)"

definition toSubmissionInput :: "exit_runtime_input \<Rightarrow> exit_submission_input" where
  "toSubmissionInput inp =
     \<lparr>es_decision = xi_decision inp, es_sizing = xi_sizing inp, es_positionScope = xi_positionScope inp,
      es_policySnapshot = xi_policySnapshot inp, es_currentPrice = xi_currentPrice inp,
      es_riskApproval = xi_riskApproval inp, es_idempotencyKey = xi_idempotencyKey inp,
      es_expectedLossBpsOfEquity = (case xi_expectedLossBpsOfEquity inp of
         None \<Rightarrow> readRiskApprovalExpectedLossBps (xi_riskApproval inp) | Some l \<Rightarrow> Some l),
      es_submittedAt = xi_submittedAt inp\<rparr>"

definition submitExit ::
  "rounding \<Rightarrow> runtime_env \<Rightarrow> 'w exit_ports \<Rightarrow> exit_runtime_input \<Rightarrow> order_submission \<Rightarrow> exit_order_intent
   \<Rightarrow> evidence_item list \<Rightarrow> 'w \<Rightarrow> 'w \<times> exit_runtime_result result" where
  "submitExit rnd env ports inp submission intent items w =
     (case port_submitOrder ports submission w of (w1, outcome) \<Rightarrow>
       let base = (plainResult EXECUTION_REJECTED items)\<lparr>rr_submission := Some submission\<rparr>;
           r = base\<lparr>rr_executionResult := Some outcome\<rparr>;
           ok = (\<lambda>(w', res). (w', Inr res))
       in case outcome of
            EX_FAILED e \<Rightarrow>
             (case createInputEventScope env inp of
                Inl err \<Rightarrow> (w1, Inl err)
              | Inr scopeId \<Rightarrow> ok (finish ports (base\<lparr>rr_evidenceItems := items
                  @ [manualReview env ''exit_broker_submit_failed'' (FD_error e) (xi_positionScope inp) scopeId]\<rparr>) w1))
          | EX_REJECTED rejection \<Rightarrow>
              ok (finish ports (r\<lparr>rr_evidenceItems := items @ rejectedExecutionEvidence env inp intent rejection\<rparr>) w1)
          | EX_SUBMITTED order \<Rightarrow> ok (handleBrokerOrder rnd env ports inp submission intent order r w1)
          | EX_DUPLICATE_SUPPRESSED order \<Rightarrow> ok (handleBrokerOrder rnd env ports inp submission intent order r w1))"

definition runExitPaperRuntime ::
  "rounding \<Rightarrow> runtime_env \<Rightarrow> 'w exit_ports \<Rightarrow> exit_runtime_input \<Rightarrow> 'w \<Rightarrow> 'w \<times> exit_runtime_result result" where
  "runExitPaperRuntime rnd env ports inp w =
     (let scope = xi_positionScope inp;
          rejected = (\<lambda>items reasonCode. case createInputEventScope env inp of
              Inl e \<Rightarrow> (w, Inl e)
            | Inr scopeId \<Rightarrow> (case finish ports (plainResult EXECUTION_REJECTED
                (items @ [manualReview env reasonCode FD_none scope scopeId])) w of (w', r) \<Rightarrow> (w', Inr r)))
      in case createExitStrategyEvidence env (xi_decision inp) (ps_market scope) (ps_strategyId scope) of
           Inl e \<Rightarrow> (w, Inl e)
         | Inr strategyEvidence \<Rightarrow>
             if shouldSurfaceSizingFailure (xi_decision inp) (xi_sizing inp) then
               rejected [strategyEvidence]
                 (case sz_rejectionReason (xi_sizing inp) of None \<Rightarrow> ''exit_sizing_invalid'' | Some reason \<Rightarrow> reason)
             else (case createExitSubmission rnd (toSubmissionInput inp) of
                 None \<Rightarrow>
                   if isTriggeredExitDecision (xi_decision inp) then
                     rejected [strategyEvidence] ''exit_submission_construction_failed''
                   else (case finish ports (plainResult NO_EXIT_INTENT [strategyEvidence]) w of (w', r) \<Rightarrow> (w', Inr r))
               | Some (submission, intent) \<Rightarrow> submitExit rnd env ports inp submission intent [strategyEvidence] w))"

section \<open>Lemmas\<close>

text \<open>An item that stops new entries and asks for a review.\<close>

definition reviewItem :: "evidence_item \<Rightarrow> bool" where
  "reviewItem e \<longleftrightarrow> ei_category e = ''EXECUTION_REJECTED'' \<and>
     map_of (ei_payload e) ''new_orders_blocked'' = Some (JBool True) \<and>
     map_of (ei_payload e) ''manual_review_required'' = Some (JBool True)"

lemma reviewItem_created [simp]: "reviewItem (createExitFailureManualReviewEvidence reason code market strategy at_ms key)"
  by (simp add: reviewItem_def createExitFailureManualReviewEvidence_def)

lemma reviewItem_manualReview [simp]: "reviewItem (manualReview env code detail scope eventId)"
  by (simp add: manualReview_def)

text \<open>
  The calls a run makes of its ports, with their answers. A history is performed from one world to another
  when each call, made in the world the previous one left, gets the answer the history records.
\<close>

datatype exit_call =
    Submits order_submission "broker_order execution_result"
  | Cancels string "broker_order result"
  | Persists persist_input "unit result"
  | Writes "evidence_item list" "unit result"
  | Alerts live_ops_event "unit result"

definition answers :: "('a \<Rightarrow> 'w \<Rightarrow> 'w \<times> 'b) option \<Rightarrow> 'a \<Rightarrow> 'b \<Rightarrow> 'w \<Rightarrow> 'w \<Rightarrow> bool" where
  "answers port arg reply w w' \<longleftrightarrow> (case port of None \<Rightarrow> False | Some call \<Rightarrow> call arg w = (w', reply))"

fun makesCall :: "'w exit_ports \<Rightarrow> exit_call \<Rightarrow> 'w \<Rightarrow> 'w \<Rightarrow> bool" where
  "makesCall ports (Submits s outcome) = answers (Some (port_submitOrder ports)) s outcome"
| "makesCall ports (Cancels i outcome) = answers (Some (port_cancelOrder ports)) i outcome"
| "makesCall ports (Persists input outcome) = answers (port_persist ports) input outcome"
| "makesCall ports (Writes items outcome) = answers (port_writer ports) items outcome"
| "makesCall ports (Alerts event outcome) = answers (port_alerts ports) event outcome"

primrec performs :: "'w exit_ports \<Rightarrow> 'w \<Rightarrow> exit_call list \<Rightarrow> 'w \<Rightarrow> bool" where
  "performs ports w [] w' \<longleftrightarrow> w' = w"
| "performs ports w (call # history) w' \<longleftrightarrow> (\<exists>w1. makesCall ports call w w1 \<and> performs ports w1 history w')"

lemma performs_append: "performs ports w (xs @ ys) w' \<longleftrightarrow> (\<exists>w1. performs ports w xs w1 \<and> performs ports w1 ys w')"
  by (induction xs arbitrary: w) auto

fun isAlert :: "exit_call \<Rightarrow> bool" where
  "isAlert (Alerts event outcome) = True"
| "isAlert _ = False"

text \<open>The calls that matter: alerts report, and change nothing.\<close>

definition calls :: "exit_call list \<Rightarrow> exit_call list" where
  "calls history = filter (\<lambda>call. \<not> isAlert call) history"

lemma calls_simps [simp]:
  "calls [] = []" "calls (xs @ ys) = calls xs @ calls ys"
  "calls (Submits s outcome # xs) = Submits s outcome # calls xs" "calls (Cancels i reply # xs) = Cancels i reply # calls xs"
  "calls (Persists input stored # xs) = Persists input stored # calls xs" "calls (Writes items stored # xs) = Writes items stored # calls xs"
  by (simp_all add: calls_def)

definition writeCalls :: "'w exit_ports \<Rightarrow> evidence_item list \<Rightarrow> unit result \<Rightarrow> exit_call list" where
  "writeCalls ports items reply = (if port_writer ports = None then [] else [Writes items reply])"

definition persistCalls :: "'w exit_ports \<Rightarrow> order_submission \<Rightarrow> broker_order \<Rightarrow> unit result \<Rightarrow> exit_call list" where
  "persistCalls ports s ord reply = (if port_persist ports = None then []
     else [Persists \<lparr>pi_submission = s, pi_brokerOrder = ord, pi_correlationId = Some (bo_brokerOrderId ord), pi_simulatedLatencyMs = None\<rparr> reply])"

lemma calls_ports [simp]:
  "calls (writeCalls ports items reply) = writeCalls ports items reply"
  "calls (persistCalls ports s ord reply) = persistCalls ports s ord reply"
  by (simp_all add: writeCalls_def persistCalls_def)

lemma finish_calls:
  assumes "finish ports r w = (w', r')"
  shows "\<exists>reply status. performs ports w (writeCalls ports (rr_evidenceItems r) reply) w' \<and> r' = r\<lparr>rr_evidenceWriteStatus := status\<rparr>"
  using assms
  by (cases "port_writer ports")
    (auto simp: finish_def appendExitEvidenceSafely_def writeCalls_def answers_def split: prod.splits)

text \<open>What the last two steps of a path leave of the result, whatever the ports do.\<close>

definition extends :: "exit_runtime_result \<Rightarrow> exit_runtime_result \<Rightarrow> bool" where
  "extends r r' \<longleftrightarrow> rr_status r' = rr_status r \<and> rr_submission r' = rr_submission r \<and>
     rr_executionResult r' = rr_executionResult r \<and> rr_canceledOrder r' = rr_canceledOrder r \<and>
     rr_remainingIntent r' = rr_remainingIntent r \<and> set (rr_evidenceItems r) \<subseteq> set (rr_evidenceItems r')"

definition hasReview :: "exit_runtime_result \<Rightarrow> bool" where
  "hasReview r \<longleftrightarrow> list_ex reviewItem (rr_evidenceItems r)"

lemma hasReview_extends: "extends r r' \<Longrightarrow> hasReview r \<Longrightarrow> hasReview r'"
  by (auto simp: extends_def hasReview_def list_ex_iff)

lemma persistAndFinish_calls:
  assumes "persistAndFinish env ports inp s ord r w = (w', r')"
  shows "\<exists>stored reply. performs ports w (persistCalls ports s ord stored @ writeCalls ports (rr_evidenceItems r') reply) w' \<and>
    extends r r' \<and> (rr_executionPersistenceStatus r' = PS_UNAVAILABLE \<longleftrightarrow> port_persist ports \<noteq> None \<and> \<not> is_ok stored) \<and>
    (rr_executionPersistenceStatus r' = PS_UNAVAILABLE \<longrightarrow> hasReview r')"
proof (cases "port_persist ports")
  case None
  then show ?thesis
    using assms by (auto simp: persistAndFinish_def persistExitExecutionSafely_def persistCalls_def extends_def dest!: finish_calls)
next
  case (Some persist)
  obtain w1 stored where persist: "persist \<lparr>pi_submission = s, pi_brokerOrder = ord,
      pi_correlationId = Some (bo_brokerOrderId ord), pi_simulatedLatencyMs = None\<rparr> w = (w1, stored)" by fastforce
  then have "performs ports w (persistCalls ports s ord stored) w1" by (simp add: persistCalls_def Some answers_def)
  moreover obtain items status where "finish ports (r\<lparr>rr_evidenceItems := items, rr_executionPersistenceStatus := status\<rparr>) w1 = (w', r')"
    and items: "set (rr_evidenceItems r) \<subseteq> set items" "status = (if is_ok stored then PS_RECORDED else PS_UNAVAILABLE)"
      "\<not> is_ok stored \<Longrightarrow> list_ex reviewItem items"
  proof (cases stored)
    case (Inl e)
    then show thesis
      using assms persist by (intro that [of PS_UNAVAILABLE "rr_evidenceItems r @ [manualReview env
          ''exit_execution_persistence_unavailable'' (FD_error e) (xi_positionScope inp) (bo_brokerOrderId ord)]"])
        (auto simp: persistAndFinish_def persistExitExecutionSafely_def Some)
  next
    case (Inr u)
    then show thesis
      using assms persist by (intro that [of PS_RECORDED "rr_evidenceItems r"])
        (auto simp: persistAndFinish_def persistExitExecutionSafely_def Some)
  qed
  moreover from this(1) obtain reply where "performs ports w1 (writeCalls ports items reply) w'"
      "extends (r\<lparr>rr_evidenceItems := items\<rparr>) r'" "rr_evidenceItems r' = items" "rr_executionPersistenceStatus r' = status"
    by (auto simp: extends_def dest!: finish_calls)
  ultimately show ?thesis
    by (intro exI [of _ stored] exI [of _ reply]) (auto simp: performs_append extends_def hasReview_def Some)
qed

lemma alert_calls:
  "\<exists>history. performs ports w history (dispatchExitLiveOpsAlertSafely ports inp s ord kind evidenceId filled details w) \<and> calls history = []"
proof (cases "port_alerts ports")
  case None
  then show ?thesis by (intro exI [of _ "[]"]) (simp add: dispatchExitLiveOpsAlertSafely_def)
next
  case (Some dispatch)
  have "performs ports w [Alerts event (snd (dispatch event w))] (fst (dispatch event w))" for event
    by (simp add: answers_def Some)
  then show ?thesis unfolding dispatchExitLiveOpsAlertSafely_def Some option.case by (fastforce simp: calls_def)
qed

lemma fill_alert_calls:
  "\<exists>history. performs ports w history (dispatchExitFillLiveOpsAlertSafely env ports inp s ord filled w) \<and> calls history = []"
proof (cases "toExitFillLiveOpsEventKind (bo_status ord)")
  case None
  then show ?thesis by (intro exI [of _ "[]"]) (simp add: dispatchExitFillLiveOpsAlertSafely_def)
qed (simp add: dispatchExitFillLiveOpsAlertSafely_def alert_calls)

lemma createRemainingExitIntent_Some:
  assumes "createRemainingExitIntent rnd textOf retry x q options = Some x'"
  shows "0 < q" and "xo_requestedQuantity x' = Num q" and "ro_requestedPrice options = None \<Longrightarrow> xo_requestedPrice x' = xo_requestedPrice x"
    and "xo_idempotencyKey x' \<noteq> xo_idempotencyKey x"
    and "ro_requestedPrice options = None \<Longrightarrow>
      \<exists>p. parseFinancialDecimal (xo_requestedPrice x) = Inr p \<and> xo_requestedNotional x' = Num (dtimes rnd p q)"
  using assms
  by (auto simp: createRemainingExitIntent_def Let_def calculateExitNotional_def
      split: if_splits option.splits sum.splits)

lemma evaluatePartialFillRemaining_simps [simp]:
  "pr_remainingQuantity (evaluatePartialFillRemaining rnd ord x dust requote) = bo_remainingQuantity ord"
  by (auto simp: evaluatePartialFillRemaining_def Let_def)

text \<open>A new intent for the remainder is at least the minimum notional, whenever that can be computed.\<close>

lemma remainder_requoted_ok:
  assumes "createRemainingExitIntent rnd textOf retry x q \<lparr>ro_lineageId = l, ro_requoteSequence = n, ro_requestedPrice = None\<rparr> = Some x'"
    and "\<not> (case evaluateRemainingBelowMinOrderNotional rnd x q policy of Some (b, m) \<Rightarrow> b | None \<Rightarrow> False)"
    and "parseFinancialDecimal (pol_minOrderNotional policy) = Inr minimum"
  shows "\<exists>notional. xo_requestedNotional x' = Num notional \<and> minimum \<le> notional"
proof -
  obtain p where "parseFinancialDecimal (xo_requestedPrice x) = Inr p" "xo_requestedNotional x' = Num (dtimes rnd p q)"
    using createRemainingExitIntent_Some(5)[OF assms(1)] by auto
  with assms(2,3) show ?thesis by (auto simp: evaluateRemainingBelowMinOrderNotional_def Let_def not_less)
qed

text \<open>
  An order of the broker that is still open, an answer to a cancellation that leaves it open, and the
  order that takes over what was left.
\<close>

definition stillOpen :: "broker_order \<Rightarrow> bool" where
  "stillOpen ord \<longleftrightarrow> bo_status ord \<in> {SUBMITTED, ACCEPTED, PARTIALLY_FILLED} \<and> 0 < bo_remainingQuantity ord"

definition leavesOpen :: "broker_order result \<Rightarrow> bool" where
  "leavesOpen reply \<longleftrightarrow> (case reply of Inl e \<Rightarrow> True
     | Inr canceled \<Rightarrow> bo_status canceled \<noteq> CANCELED \<or> bo_remainingQuantity canceled \<noteq> 0)"

definition requotes :: "exit_runtime_input \<Rightarrow> exit_order_intent \<Rightarrow> broker_order \<Rightarrow> exit_order_intent \<Rightarrow> bool" where
  "requotes inp x ord x' \<longleftrightarrow> 0 < bo_remainingQuantity ord \<and> xo_requestedQuantity x' = Num (bo_remainingQuantity ord) \<and>
     xo_requestedPrice x' = xo_requestedPrice x \<and> xo_idempotencyKey x' \<noteq> xo_idempotencyKey x \<and>
     (\<forall>minimum. parseFinancialDecimal (pol_minOrderNotional (xi_policySnapshot inp)) = Inr minimum \<longrightarrow>
        (\<exists>notional. xo_requestedNotional x' = Num notional \<and> minimum \<le> notional))"

text \<open>What a run reports of an order the broker returned, given the answer to a cancellation.\<close>

definition reportsOrder ::
  "exit_runtime_input \<Rightarrow> exit_order_intent \<Rightarrow> broker_order \<Rightarrow> broker_order result \<Rightarrow> exit_runtime_result \<Rightarrow> exit_runtime_result \<Rightarrow> bool" where
  "reportsOrder inp x ord reply r0 r \<longleftrightarrow> rr_submission r = rr_submission r0 \<and> rr_executionResult r = rr_executionResult r0 \<and>
     rr_status r = (if bo_status ord \<in> {REJECTED, FAILED} then EXECUTION_REJECTED
       else if stillOpen ord \<and> leavesOpen reply then REMAINING_CANCEL_FAILED
       else if rr_remainingIntent r = None then EXECUTION_SUBMITTED else REMAINING_CANCEL_REQUOTE_CREATED) \<and>
     (bo_status ord \<in> {REJECTED, FAILED} \<or> stillOpen ord \<and> leavesOpen reply \<longrightarrow> hasReview r) \<and>
     (\<forall>x'. rr_remainingIntent r = Some x' \<longrightarrow> stillOpen ord \<and> \<not> leavesOpen reply \<and> requotes inp x ord x')"

lemma reportsOrder_extends: "extends r r' \<Longrightarrow> reportsOrder inp x ord reply r0 r \<Longrightarrow> reportsOrder inp x ord reply r0 r'"
  by (auto simp: reportsOrder_def extends_def hasReview_def list_ex_iff)

definition storedOrder :: "broker_order \<Rightarrow> broker_order result \<Rightarrow> broker_order" where
  "storedOrder ord reply = (if stillOpen ord then (case reply of Inl e \<Rightarrow> ord | Inr canceled \<Rightarrow> canceled) else ord)"

definition orderCalls :: "'w exit_ports \<Rightarrow> order_submission \<Rightarrow> broker_order \<Rightarrow> broker_order result \<Rightarrow> unit result \<Rightarrow> exit_call list" where
  "orderCalls ports s ord reply stored =
     (if stillOpen ord then [Cancels (bo_brokerOrderId ord) reply] else []) @ persistCalls ports s (storedOrder ord reply) stored"

text \<open>The calls and the report of a path over an order of the broker.\<close>

definition orderHandled ::
  "'w exit_ports \<Rightarrow> exit_runtime_input \<Rightarrow> order_submission \<Rightarrow> exit_order_intent \<Rightarrow> broker_order \<Rightarrow> exit_runtime_result
   \<Rightarrow> 'w \<Rightarrow> 'w \<Rightarrow> exit_runtime_result \<Rightarrow> bool" where
  "orderHandled ports inp s x ord r0 w w' r \<longleftrightarrow> (\<exists>history reply stored written.
     performs ports w history w' \<and>
     calls history = orderCalls ports s ord reply stored @ writeCalls ports (rr_evidenceItems r) written \<and>
     reportsOrder inp x ord reply r0 r \<and>
     (rr_executionPersistenceStatus r = PS_UNAVAILABLE \<longleftrightarrow> port_persist ports \<noteq> None \<and> \<not> is_ok stored) \<and>
     (rr_executionPersistenceStatus r = PS_UNAVAILABLE \<longrightarrow> hasReview r))"

text \<open>Every path ends by storing the order and writing the evidence.\<close>

lemma orderHandledI:
  assumes before: "performs ports w history w1"
      "calls history = (if stillOpen ord then [Cancels (bo_brokerOrderId ord) reply] else [])"
    and last: "persistAndFinish env ports inp s (storedOrder ord reply) ready w1 = (w', r)"
    and reports: "reportsOrder inp x ord reply r0 ready"
  shows "orderHandled ports inp s x ord r0 w w' r"
proof -
  obtain stored written where
    "performs ports w1 (persistCalls ports s (storedOrder ord reply) stored @ writeCalls ports (rr_evidenceItems r) written) w'"
    "extends ready r" "rr_executionPersistenceStatus r = PS_UNAVAILABLE \<longleftrightarrow> port_persist ports \<noteq> None \<and> \<not> is_ok stored"
    "rr_executionPersistenceStatus r = PS_UNAVAILABLE \<longrightarrow> hasReview r"
    using persistAndFinish_calls [OF last] by (elim exE conjE)
  then show ?thesis
    using before reportsOrder_extends [OF _ reports] unfolding orderHandled_def orderCalls_def
    by (intro exI [of _ "history @ persistCalls ports s (storedOrder ord reply) stored @ writeCalls ports (rr_evidenceItems r) written"]
        exI [of _ reply] exI [of _ stored] exI [of _ written]) (auto simp: performs_append)
qed

lemma cancelRemaining_handled:
  assumes run: "cancelRemaining rnd env ports inp s x ord r w1 = (w', r')" and "stillOpen ord"
    and start: "rr_remainingIntent r = None" "rr_submission r = rr_submission r0" "rr_executionResult r = rr_executionResult r0"
    and before: "performs ports w history w1" "calls history = []"
  shows "orderHandled ports inp s x ord r0 w w' r'"
proof (cases "port_cancelOrder ports (bo_brokerOrderId ord) w1")
  case (Pair w2 reply)
  have live: "bo_status ord \<notin> {REJECTED, FAILED}" using assms(2) by (auto simp: stillOpen_def)
  have cancel: "performs ports w (history @ [Cancels (bo_brokerOrderId ord) reply]) w2"
    using before Pair by (auto simp: performs_append answers_def)
  show ?thesis
  proof (cases reply)
    case (Inl e)
    have last: "persistAndFinish env ports inp s (storedOrder ord reply)
        (r\<lparr>rr_status := REMAINING_CANCEL_FAILED, rr_evidenceItems := rr_evidenceItems r
          @ [manualReview env ''exit_remaining_cancel_failed'' (FD_error e) (xi_positionScope inp) (bo_brokerOrderId ord)]\<rparr>) w2 = (w', r')"
      using run Pair Inl assms(2) by (simp add: cancelRemaining_def Let_def storedOrder_def)
    show ?thesis
      by (rule orderHandledI [OF cancel _ last]) (use start live assms(2) before Inl in
        \<open>simp_all add: reportsOrder_def leavesOpen_def hasReview_def\<close>)
  next
    case (Inr canceled)
    define w3 where "w3 = dispatchExitLiveOpsAlertSafely ports inp s canceled LO_CANCEL_REQUESTED
          (''exit-cancel-requested:'' @ bo_brokerOrderId ord) None [(''exit_runtime_status'', JStr ''REMAINING_CANCEL_REQUESTED''),
             (''original_broker_order_id'', JStr (bo_brokerOrderId ord)),
             (''cancel_result_status'', JStr (orderStatusName (bo_status canceled)))] w2"
    have "\<exists>alert. performs ports w2 alert w3 \<and> calls alert = []" unfolding w3_def by (rule alert_calls)
    then obtain alert where alert: "performs ports w2 alert w3" "calls alert = []" by blast
    have asked: "performs ports w ((history @ [Cancels (bo_brokerOrderId ord) reply]) @ alert) w3"
      using cancel alert(1) unfolding performs_append [of _ _ _ alert] by blast
    have stored: "storedOrder ord reply = canceled" using assms(2) by (simp add: storedOrder_def Inr)
    show ?thesis
    proof (cases "leavesOpen reply")
      case True
      have last: "persistAndFinish env ports inp s (storedOrder ord reply)
          (r\<lparr>rr_status := REMAINING_CANCEL_FAILED, rr_canceledOrder := Some canceled, rr_evidenceItems := rr_evidenceItems r
            @ [manualReview env ''exit_remaining_cancel_open'' FD_none (xi_positionScope inp) (bo_brokerOrderId canceled)]\<rparr>) w3 = (w', r')"
        using run True unfolding cancelRemaining_def Let_def Pair Inr stored [unfolded Inr] w3_def leavesOpen_def by simp
      show ?thesis
        by (rule orderHandledI [OF asked _ last]) (use start live assms(2) before alert True in
          \<open>simp_all add: reportsOrder_def hasReview_def\<close>)
    next
      case False
      define rem where "rem = evaluatePartialFillRemaining rnd ord x (Some (pol_dustThreshold (xi_policySnapshot inp))) None"
      define below where "below = (if pr_requiresNewIntent rem
        then evaluateRemainingBelowMinOrderNotional rnd x (bo_remainingQuantity ord) (xi_policySnapshot inp) else None)"
      define requote where "requote = (if pr_requiresNewIntent rem \<and> \<not> (case below of Some (b, n) \<Rightarrow> b | None \<Rightarrow> False)
        then createRemainingExitIntent rnd (rt_decimalText env) (rt_retryReason env) x (bo_remainingQuantity ord)
          \<lparr>ro_lineageId = Some (bo_brokerOrderId ord), ro_requoteSequence = Some 1, ro_requestedPrice = None\<rparr> else None)"
      obtain confirm w4 items where confirm: "performs ports w3 confirm w4" "calls confirm = []"
        and last: "persistAndFinish env ports inp s (storedOrder ord reply)
          (r\<lparr>rr_status := (if requote = None then EXECUTION_SUBMITTED else REMAINING_CANCEL_REQUOTE_CREATED),
             rr_canceledOrder := Some canceled, rr_remainingIntent := requote, rr_evidenceItems := items\<rparr>) w4 = (w', r')"
      proof -
        have "\<exists>details items. persistAndFinish env ports inp s canceled
          (r\<lparr>rr_status := (if requote = None then EXECUTION_SUBMITTED else REMAINING_CANCEL_REQUOTE_CREATED),
             rr_canceledOrder := Some canceled, rr_remainingIntent := requote, rr_evidenceItems := items\<rparr>)
          (dispatchExitLiveOpsAlertSafely ports inp s canceled LO_CANCEL_CONFIRMED (''exit-cancel-confirmed:'' @ bo_brokerOrderId ord)
             None details w3) = (w', r')"
          using run False unfolding cancelRemaining_def Let_def Pair Inr requote_def below_def rem_def w3_def leavesOpen_def
          by (simp only: prod.case sum.case if_False evaluatePartialFillRemaining_simps) blast
        then obtain details items where final: "persistAndFinish env ports inp s canceled
          (r\<lparr>rr_status := (if requote = None then EXECUTION_SUBMITTED else REMAINING_CANCEL_REQUOTE_CREATED),
             rr_canceledOrder := Some canceled, rr_remainingIntent := requote, rr_evidenceItems := items\<rparr>)
          (dispatchExitLiveOpsAlertSafely ports inp s canceled LO_CANCEL_CONFIRMED (''exit-cancel-confirmed:'' @ bo_brokerOrderId ord)
             None details w3) = (w', r')" by (elim exE)
        obtain confirm where "performs ports w3 confirm (dispatchExitLiveOpsAlertSafely ports inp s canceled LO_CANCEL_CONFIRMED
            (''exit-cancel-confirmed:'' @ bo_brokerOrderId ord) None details w3) \<and> calls confirm = []"
          by (rule exE [OF alert_calls]) (rule that)
        then show thesis using that final unfolding stored by blast
      qed
      have new: "requotes inp x ord x'" if "requote = Some x'" for x'
        using that remainder_requoted_ok unfolding requotes_def
        by (auto simp: requote_def below_def dest: createRemainingExitIntent_Some(1-4) split: if_splits)
      have confirmed: "performs ports w (((history @ [Cancels (bo_brokerOrderId ord) reply]) @ alert) @ confirm) w4"
        using asked confirm(1) unfolding performs_append [of _ _ _ confirm] by blast
      show ?thesis
        by (rule orderHandledI [OF confirmed _ last]) (use start live assms(2) before alert confirm False new in
          \<open>simp_all add: reportsOrder_def\<close>)
    qed
  qed
qed

lemma handleBrokerOrder_handled:
  assumes run: "handleBrokerOrder rnd env ports inp s x ord r0 w = (w', r)" and start: "rr_remainingIntent r0 = None"
  shows "orderHandled ports inp s x ord r0 w w' r"
proof (cases "bo_status ord \<in> {REJECTED, FAILED}")
  case True
  then have "\<not> stillOpen ord" "isBrokerTerminalFailure (bo_status ord)" by (auto simp: stillOpen_def isBrokerTerminalFailure_def)
  then show ?thesis
    using run start True by (intro orderHandledI [of ports w "[]" w])
      (auto simp: handleBrokerOrder_def storedOrder_def reportsOrder_def hasReview_def)
next
  case False
  then have live: "\<not> isBrokerTerminalFailure (bo_status ord)" by (simp add: isBrokerTerminalFailure_def)
  have is_open: "hasOpenRemainingQuantity ord \<longleftrightarrow> stillOpen ord" by (auto simp: hasOpenRemainingQuantity_def stillOpen_def)
  define r1 where "r1 = r0\<lparr>rr_evidenceItems := rr_evidenceItems r0 @ submittedExecutionEvidence rnd inp x ord\<rparr>"
  have "\<exists>history w2. performs ports w history w2 \<and> calls history = [] \<and>
      (if stillOpen ord then cancelRemaining rnd env ports inp s x ord r1 w2 = (w', r)
       else persistAndFinish env ports inp s ord (r1\<lparr>rr_status := EXECUTION_SUBMITTED\<rparr>) w2 = (w', r))"
  proof -
    define w1 where "w1 = dispatchExitLiveOpsAlertSafely ports inp s ord LO_ORDER_SUBMITTED (''exit-submitted:'' @ bo_brokerOrderId ord) None
      [(''exit_runtime_status'', JStr ''EXECUTION_SUBMITTED''), (''broker_order_status'', JStr (orderStatusName (bo_status ord)))] w"
    define w2 where "w2 = dispatchExitFillLiveOpsAlertSafely env ports inp s ord (calculateFilledQuantity rnd x ord) w1"
    have "\<exists>h1. performs ports w h1 w1 \<and> calls h1 = []" unfolding w1_def by (rule alert_calls)
    moreover have "\<exists>h2. performs ports w1 h2 w2 \<and> calls h2 = []" unfolding w2_def by (rule fill_alert_calls)
    ultimately obtain h1 h2 where "performs ports w h1 w1" "calls h1 = []" "performs ports w1 h2 w2" "calls h2 = []" by blast
    moreover have "if stillOpen ord then cancelRemaining rnd env ports inp s x ord r1 w2 = (w', r)
        else persistAndFinish env ports inp s ord (r1\<lparr>rr_status := EXECUTION_SUBMITTED\<rparr>) w2 = (w', r)"
      using run live is_open by (cases "stillOpen ord") (simp_all add: handleBrokerOrder_def Let_def r1_def w1_def w2_def)
    ultimately show ?thesis by (intro exI [of _ "h1 @ h2"] exI [of _ w2]) (auto simp: performs_append)
  qed
  then obtain history w2 where history: "performs ports w history w2" "calls history = []"
    and next_step: "if stillOpen ord then cancelRemaining rnd env ports inp s x ord r1 w2 = (w', r)
       else persistAndFinish env ports inp s ord (r1\<lparr>rr_status := EXECUTION_SUBMITTED\<rparr>) w2 = (w', r)"
    by blast
  show ?thesis
  proof (cases "stillOpen ord")
    case True
    then show ?thesis using next_step start history by (intro cancelRemaining_handled [where r = r1]) (simp_all add: r1_def)
  next
    case False
    then show ?thesis
      using next_step start history \<open>bo_status ord \<notin> {REJECTED, FAILED}\<close>
      by (intro orderHandledI [OF history(1), where env = env and ready = "r1\<lparr>rr_status := EXECUTION_SUBMITTED\<rparr>" and reply = "Inr ord"])
        (simp_all add: r1_def storedOrder_def reportsOrder_def)
  qed
qed

text \<open>
  The calls of a whole run: the order built is submitted, an order that comes back open is canceled, the
  order in its final state is stored, and the evidence is written. The other definitions say which of these
  calls went wrong.
\<close>

fun returnedOrder :: "'o execution_result \<Rightarrow> 'o option" where
  "returnedOrder (EX_SUBMITTED ord) = Some ord"
| "returnedOrder (EX_DUPLICATE_SUPPRESSED ord) = Some ord"
| "returnedOrder _ = None"

definition exitCalls ::
  "'w exit_ports \<Rightarrow> order_submission option \<Rightarrow> broker_order execution_result \<Rightarrow> broker_order result \<Rightarrow> unit result \<Rightarrow> unit result
   \<Rightarrow> evidence_item list \<Rightarrow> exit_call list" where
  "exitCalls ports built outcome reply stored written items =
     (case built of
        None \<Rightarrow> []
      | Some s \<Rightarrow> Submits s outcome #
          (case returnedOrder outcome of None \<Rightarrow> [] | Some ord \<Rightarrow> orderCalls ports s ord reply stored))
     @ writeCalls ports items written"

definition refused :: "broker_order execution_result \<Rightarrow> bool" where
  "refused outcome \<longleftrightarrow> (case returnedOrder outcome of None \<Rightarrow> True | Some ord \<Rightarrow> bo_status ord \<in> {REJECTED, FAILED})"

definition submitFailed :: "exit_call list \<Rightarrow> bool" where
  "submitFailed history \<longleftrightarrow> (\<exists>s outcome. Submits s outcome \<in> set history \<and> refused outcome)"

definition cancelFailed :: "exit_call list \<Rightarrow> bool" where
  "cancelFailed history \<longleftrightarrow> (\<exists>i reply. Cancels i reply \<in> set history \<and> leavesOpen reply)"

definition storeFailed :: "exit_call list \<Rightarrow> bool" where
  "storeFailed history \<longleftrightarrow> (\<exists>input e. Persists input (Inl e) \<in> set history)"

definition failsClosed ::
  "'w exit_ports \<Rightarrow> exit_runtime_input \<Rightarrow> (order_submission \<times> exit_order_intent) option \<Rightarrow> exit_call list \<Rightarrow> exit_runtime_result \<Rightarrow> bool" where
  "failsClosed ports inp built history r \<longleftrightarrow>
     (\<exists>outcome reply stored written.
        history = exitCalls ports (map_option fst built) outcome reply stored written (rr_evidenceItems r)) \<and>
     rr_submission r = map_option fst built \<and>
     (rr_status r = NO_EXIT_INTENT \<longleftrightarrow> \<not> isTriggeredExitDecision (xi_decision inp)) \<and>
     (rr_status r = EXECUTION_REJECTED \<longleftrightarrow> isTriggeredExitDecision (xi_decision inp) \<and> (built = None \<or> submitFailed history)) \<and>
     (rr_status r = REMAINING_CANCEL_FAILED \<longleftrightarrow> cancelFailed history) \<and>
     (rr_executionPersistenceStatus r = PS_UNAVAILABLE \<longleftrightarrow> storeFailed history) \<and>
     (isTriggeredExitDecision (xi_decision inp) \<and> built = None \<or> submitFailed history \<or> cancelFailed history \<or> storeFailed history
        \<longrightarrow> list_ex reviewItem (rr_evidenceItems r)) \<and>
     (\<forall>x'. rr_remainingIntent r = Some x' \<longrightarrow> (\<exists>s x outcome ord canceled.
        built = Some (s, x) \<and> Submits s outcome \<in> set history \<and> returnedOrder outcome = Some ord \<and>
        Cancels (bo_brokerOrderId ord) (Inr canceled) \<in> set history \<and>
        bo_status canceled = CANCELED \<and> bo_remainingQuantity canceled = 0 \<and> requotes inp x ord x'))"

lemma finished_failsClosed:
  assumes "finish ports r0 w = (w', r)" and "rr_remainingIntent r0 = None" "rr_executionPersistenceStatus r0 \<noteq> PS_UNAVAILABLE"
    and "rr_submission r0 = map_option fst built" and "\<And>ord. returnedOrder outcome \<noteq> Some ord"
    and "rr_status r0 = (if isTriggeredExitDecision (xi_decision inp) then EXECUTION_REJECTED else NO_EXIT_INTENT)"
    and "isTriggeredExitDecision (xi_decision inp) \<Longrightarrow> list_ex reviewItem (rr_evidenceItems r0)"
    and "built \<noteq> None \<Longrightarrow> isTriggeredExitDecision (xi_decision inp)"
  shows "\<exists>history. performs ports w history w' \<and>
    failsClosed ports inp built ((case built of None \<Rightarrow> [] | Some (s, x) \<Rightarrow> [Submits s outcome]) @ calls history) r"
proof -
  obtain reply status where written: "performs ports w (writeCalls ports (rr_evidenceItems r0) reply) w'"
    and r: "r = r0\<lparr>rr_evidenceWriteStatus := status\<rparr>"
    using finish_calls [OF assms(1)] by blast
  have none: "returnedOrder outcome = None" using assms(5) by (cases "returnedOrder outcome") auto
  let ?calls = "(case built of None \<Rightarrow> [] | Some (s, x) \<Rightarrow> [Submits s outcome]) @ writeCalls ports (rr_evidenceItems r0) reply"
  have failed: "submitFailed ?calls \<longleftrightarrow> built \<noteq> None" "\<not> cancelFailed ?calls" "\<not> storeFailed ?calls"
    by (auto simp: submitFailed_def cancelFailed_def storeFailed_def refused_def none writeCalls_def split: option.split)
  have "failsClosed ports inp built ?calls r"
    unfolding failsClosed_def
  proof (intro conjI)
    show "\<exists>outcome' reply' stored written. ?calls = exitCalls ports (map_option fst built) outcome' reply' stored written (rr_evidenceItems r)"
      by (intro exI [of _ outcome] exI [of _ "Inl undefined"] exI [of _ reply] exI [of _ reply])
        (simp add: exitCalls_def none r split: option.split)
  qed (use assms(2,3,4,6,7,8) failed in \<open>auto simp: r\<close>)
  then show ?thesis using written by (intro exI [of _ "writeCalls ports (rr_evidenceItems r0) reply"]) simp
qed

lemma handled_failsClosed:
  assumes handled: "orderHandled ports inp s x ord r0 w w' r" and ord: "returnedOrder outcome = Some ord"
    and r0: "rr_submission r0 = Some s" and triggered: "isTriggeredExitDecision (xi_decision inp)"
  shows "\<exists>history. performs ports w history w' \<and> failsClosed ports inp (Some (s, x)) (Submits s outcome # calls history) r"
proof -
  obtain history reply stored written where h: "performs ports w history w'"
      "calls history = orderCalls ports s ord reply stored @ writeCalls ports (rr_evidenceItems r) written"
    and reports: "reportsOrder inp x ord reply r0 r"
    and store: "rr_executionPersistenceStatus r = PS_UNAVAILABLE \<longleftrightarrow> port_persist ports \<noteq> None \<and> \<not> is_ok stored"
      "rr_executionPersistenceStatus r = PS_UNAVAILABLE \<longrightarrow> hasReview r"
    using handled unfolding orderHandled_def by (elim exE conjE)
  let ?calls = "Submits s outcome # calls history"
  note made = h(2) orderCalls_def persistCalls_def writeCalls_def
  have "submitFailed ?calls \<longleftrightarrow> refused outcome" by (auto simp: submitFailed_def made)
  moreover have "cancelFailed ?calls \<longleftrightarrow> stillOpen ord \<and> leavesOpen reply" by (auto simp: cancelFailed_def made)
  moreover have "storeFailed ?calls \<longleftrightarrow> port_persist ports \<noteq> None \<and> (\<exists>e. stored = Inl e)" by (auto simp: storeFailed_def made)
  moreover have "(\<exists>e. stored = Inl e) \<longleftrightarrow> \<not> is_ok stored" by (cases stored) simp_all
  ultimately have failed: "submitFailed ?calls \<longleftrightarrow> bo_status ord \<in> {REJECTED, FAILED}"
    "cancelFailed ?calls \<longleftrightarrow> stillOpen ord \<and> leavesOpen reply"
    "storeFailed ?calls \<longleftrightarrow> rr_executionPersistenceStatus r = PS_UNAVAILABLE"
    using store(1) by (simp_all add: refused_def ord)
  have live: "\<not> (stillOpen ord \<and> bo_status ord \<in> {REJECTED, FAILED})" by (auto simp: stillOpen_def)
  have "failsClosed ports inp (Some (s, x)) ?calls r"
    unfolding failsClosed_def failed
  proof (intro conjI)
    show "\<exists>outcome' reply' stored' written'. ?calls =
        exitCalls ports (map_option fst (Some (s, x))) outcome' reply' stored' written' (rr_evidenceItems r)"
      by (intro exI [of _ outcome] exI [of _ reply] exI [of _ stored] exI [of _ written]) (simp add: exitCalls_def ord h(2))
    show "\<forall>x'. rr_remainingIntent r = Some x' \<longrightarrow> (\<exists>s' x'' outcome' ord' canceled. Some (s, x) = Some (s', x'') \<and>
        Submits s' outcome' \<in> set ?calls \<and> returnedOrder outcome' = Some ord' \<and> Cancels (bo_brokerOrderId ord') (Inr canceled) \<in> set ?calls \<and>
        bo_status canceled = CANCELED \<and> bo_remainingQuantity canceled = 0 \<and> requotes inp x'' ord' x')"
    proof (intro allI impI)
      fix x' assume "rr_remainingIntent r = Some x'"
      then have requote: "stillOpen ord" "\<not> leavesOpen reply" "requotes inp x ord x'" using reports by (auto simp: reportsOrder_def)
      then obtain canceled where "reply = Inr canceled" "bo_status canceled = CANCELED" "bo_remainingQuantity canceled = 0"
        by (auto simp: leavesOpen_def split: sum.splits)
      then show "\<exists>s' x'' outcome' ord' canceled. Some (s, x) = Some (s', x'') \<and>
        Submits s' outcome' \<in> set ?calls \<and> returnedOrder outcome' = Some ord' \<and> Cancels (bo_brokerOrderId ord') (Inr canceled) \<in> set ?calls \<and>
        bo_status canceled = CANCELED \<and> bo_remainingQuantity canceled = 0 \<and> requotes inp x'' ord' x'"
        using requote ord by (auto simp: h(2) orderCalls_def)
    qed
  qed (use reports live store(2) triggered r0 in \<open>auto simp: reportsOrder_def hasReview_def split: if_splits\<close>)
  with h(1) show ?thesis by blast
qed

text \<open>A run that returns, and one that throws: only the texts of dates that are not valid make it throw.\<close>

lemma submitExit_failsClosed:
  assumes run: "submitExit rnd env ports inp s x items w = (w', Inr r)" and triggered: "isTriggeredExitDecision (xi_decision inp)"
  shows "\<exists>history. performs ports w history w' \<and> failsClosed ports inp (Some (s, x)) (calls history) r"
proof -
  obtain w1 outcome where submit: "port_submitOrder ports s w = (w1, outcome)" by fastforce
  have rest: "\<exists>history. performs ports w1 history w' \<and> failsClosed ports inp (Some (s, x)) (Submits s outcome # calls history) r"
  proof (cases "returnedOrder outcome")
    case (Some ord)
    then obtain r0 where "handleBrokerOrder rnd env ports inp s x ord r0 w1 = (w', r)" "rr_remainingIntent r0 = None" "rr_submission r0 = Some s"
      using run submit by (cases outcome) (auto simp: submitExit_def Let_def plainResult_def split: prod.splits)
    then show ?thesis using Some triggered by (intro handled_failsClosed handleBrokerOrder_handled)
  next
    case None
    then obtain r0 where "finish ports r0 w1 = (w', r)" "rr_remainingIntent r0 = None" "rr_executionPersistenceStatus r0 \<noteq> PS_UNAVAILABLE"
        "rr_submission r0 = Some s" "rr_status r0 = EXECUTION_REJECTED" "list_ex reviewItem (rr_evidenceItems r0)"
      using run submit by (cases outcome)
        (auto simp: submitExit_def Let_def plainResult_def rejectedExecutionEvidence_def split: prod.splits sum.splits)
    then show ?thesis
      using finished_failsClosed [of ports r0 w1 w' r "Some (s, x)" outcome inp] None triggered by simp
  qed
  then obtain history where "performs ports w1 history w'" "failsClosed ports inp (Some (s, x)) (Submits s outcome # calls history) r"
    by blast
  with submit show ?thesis by (intro exI [of _ "Submits s outcome # history"]) (auto simp: answers_def)
qed

lemma submitExit_throws:
  assumes "submitExit rnd env ports inp s x items w = (w', Inl e)"
  shows "\<exists>failure. performs ports w [Submits s (EX_FAILED failure)] w'"
proof -
  obtain w1 outcome where "port_submitOrder ports s w = (w1, outcome)" by fastforce
  with assms show ?thesis
    by (cases outcome) (auto simp: submitExit_def Let_def answers_def split: prod.splits sum.splits)
qed

lemma run_cases:
  assumes "runExitPaperRuntime rnd env ports inp w = (w', res)"
  obtains (throws) e where "res = Inl e" "w' = w"
    | (held) items r where "res = Inr r" "createExitSubmission rnd (toSubmissionInput inp) = None"
      "\<not> isTriggeredExitDecision (xi_decision inp)" "finish ports (plainResult NO_EXIT_INTENT items) w = (w', r)"
    | (blocked) i e r where "res = Inr r" "createExitSubmission rnd (toSubmissionInput inp) = None"
      "isTriggeredExitDecision (xi_decision inp)" "reviewItem e"
      "finish ports (plainResult EXECUTION_REJECTED [i, e]) w = (w', r)"
    | (submitted) s x items where "createExitSubmission rnd (toSubmissionInput inp) = Some (s, x)"
      "isTriggeredExitDecision (xi_decision inp)" "submitExit rnd env ports inp s x items w = (w', res)"
proof -
  have none: "createExitSubmission rnd (toSubmissionInput inp) = None"
    if "\<not> sz_valid (xi_sizing inp) \<or> \<not> isTriggeredExitDecision (xi_decision inp)"
    using that by (auto simp: createExitSubmission_def toSubmissionInput_def isTriggeredExitDecision_def Let_def)
  show thesis
    using assms none throws held blocked [OF _ _ _ reviewItem_manualReview] submitted
    by (auto simp: runExitPaperRuntime_def Let_def shouldSurfaceSizingFailure_def
        split: if_splits sum.splits option.splits prod.splits)
qed

section \<open>Properties\<close>

text \<open>
  C21. The exit runtime fails closed, whatever the engine, the broker, the store, the evidence writer and
  the alerts answer. A run that returns makes, alerts aside, exactly these calls, in this order: it submits
  the order built from the decision and the sizing, if there is one; it cancels the order the broker
  returns, by its id, if that is still open; it stores the submission with the order in its final state,
  if a store is configured; and it writes the evidence of its result. It reports that there is nothing to
  do exactly for decisions that ask for no order, a rejection exactly when an order was asked for and none
  could be built or the engine or the broker refused it, a failed cancellation exactly when the cancel call
  failed or left the order open, and an unavailable store exactly when storing failed; each of these
  failures leaves an item that blocks new orders and asks for a review. A new intent appears only after the
  rest of the order was canceled with nothing left open: it asks for the quantity that was open, at the
  same price, under another key, and is not below the minimum notional. A run that throws has called
  nothing, or submitted the order built and got an error.
\<close>

theorem exit_runtime_fail_closed:
  assumes run: "runExitPaperRuntime rnd env ports inp w = (w', res)"
    and built: "createExitSubmission rnd (toSubmissionInput inp) = built"
  shows "\<exists>history. performs ports w history w' \<and>
    (case res of
       Inr r \<Rightarrow> failsClosed ports inp built (calls history) r
     | Inl e \<Rightarrow> history = [] \<or> (\<exists>s x failure. built = Some (s, x) \<and> history = [Submits s (EX_FAILED failure)]))"
  using run
proof (cases rule: run_cases)
  case (throws e)
  then show ?thesis by (intro exI [of _ "[]"]) simp
next
  case (held items r)
  then show ?thesis
    using finished_failsClosed [OF held(4), of None "EX_FAILED undefined" inp] built by (simp add: plainResult_def)
next
  case (blocked i e r)
  then show ?thesis
    using finished_failsClosed [OF blocked(5), of None "EX_FAILED undefined" inp] built by (simp add: plainResult_def)
next
  case (submitted s x items)
  show ?thesis
  proof (cases res)
    case (Inl e)
    then show ?thesis using submitExit_throws [of rnd env ports inp s x items w w' e] submitted built by fastforce
  next
    case (Inr r)
    then show ?thesis using submitExit_failsClosed [of rnd env ports inp s x items w w' r] submitted built by simp
  qed
qed

text \<open>
  Half of an exit is filled and the rest canceled, while the store is down; the world of the ports is the
  list of their calls.
\<close>

definition exampleRuntimeEnv :: runtime_env where
  "exampleRuntimeEnv = \<lparr>rt_dates = \<lparr>de_parse = (\<lambda>s. Some 0), de_toString = (\<lambda>t. []), de_toISOString = (\<lambda>t. ''1970'')\<rparr>,
     rt_decimalText = (\<lambda>q. ''1''), rt_failureText = (\<lambda>code d. code), rt_retryReason = (\<lambda>s. s)\<rparr>"

definition exampleExitBrokerOrder :: "order_evidence \<Rightarrow> order_status \<Rightarrow> rat \<Rightarrow> broker_order" where
  "exampleExitBrokerOrder evidence status remaining =
     \<lparr>bo_brokerOrderId = ''paper-1'', bo_idempotencyKey = ''exit-1'', bo_exchangeId = ''upbit_krw_spot'', bo_market = ''KRW-BTC'',
      bo_side = SELL, bo_orderType = LIMIT, bo_status = status, bo_requestedQuantity = 2, bo_remainingQuantity = remaining,
      bo_requestedPrice = Some (Num 10010), bo_acceptedAt = Some (At 0), bo_updatedAt = At 0, bo_metadata = evidence\<rparr>"

definition exampleExitPorts :: "order_evidence \<Rightarrow> string list exit_ports" where
  "exampleExitPorts evidence =
     \<lparr>port_submitOrder = (\<lambda>s w. (w @ [''submit''], EX_SUBMITTED (exampleExitBrokerOrder evidence PARTIALLY_FILLED 1))),
      port_cancelOrder = (\<lambda>i w. (w @ [''cancel''], Inr (exampleExitBrokerOrder evidence CANCELED 0))),
      port_persist = Some (\<lambda>p w. (w @ [''persist''], Inl (Failure ''connection lost''))),
      port_writer = Some (\<lambda>items w. (w @ [''evidence''], Inr ())), port_alerts = None\<rparr>"

definition exampleRuntimeInput :: exit_runtime_input where
  "exampleRuntimeInput = \<lparr>xi_decision = exampleExitDecision, xi_sizing = evaluateExitSizing exactRound exampleSizingOptions,
     xi_positionScope = exampleScope, xi_policySnapshot = exampleExitPolicy, xi_currentPrice = Num 10010,
     xi_riskApproval = [], xi_idempotencyKey = ''exit-1'', xi_submittedAt = At 0,
     xi_expectedLossBpsOfEquity = Some (Num 7)\<rparr>"

lemma example_runtime_submission:
  "\<exists>s. createExitSubmission exactRound (toSubmissionInput exampleRuntimeInput) = Some (s, exampleExitOrder)"
  by (simp add: createExitSubmission_def Let_def toSubmissionInput_def exampleRuntimeInput_def example_sizing example_decision
      isFullExitQuantity_def exampleScope_def calculateExitNotional_def dtimes_def exactRound_def exampleExitOrder_def
      exampleExitPolicy_def trim_def isSpace_def)

lemma example_runtime_order:
  "\<exists>r. handleBrokerOrder exactRound exampleRuntimeEnv (exampleExitPorts ev) exampleRuntimeInput s exampleExitOrder
       (exampleExitBrokerOrder ev PARTIALLY_FILLED 1) r0 w = (w @ [''cancel'', ''persist'', ''evidence''], r) \<and>
     rr_status r = REMAINING_CANCEL_REQUOTE_CREATED \<and> rr_executionPersistenceStatus r = PS_UNAVAILABLE"
  by (simp add: handleBrokerOrder_def cancelRemaining_def exampleExitPorts_def exampleExitBrokerOrder_def Let_def
      isBrokerTerminalFailure_def hasOpenRemainingQuantity_def dispatchExitLiveOpsAlertSafely_def
      dispatchExitFillLiveOpsAlertSafely_def evaluatePartialFillRemaining_def isDustRemaining_def exampleRuntimeInput_def
      exampleExitPolicy_def exampleExitOrder_def evaluateRemainingBelowMinOrderNotional_def createRemainingExitIntent_def
      calculateExitNotional_def dtimes_def exactRound_def persistAndFinish_def persistExitExecutionSafely_def finish_def
      appendExitEvidenceSafely_def)

theorem exit_runtime_fail_closed_witness:
  "\<exists>r ev history s. runExitPaperRuntime exactRound exampleRuntimeEnv (exampleExitPorts ev) exampleRuntimeInput [] =
       ([''submit'', ''cancel'', ''persist'', ''evidence''], Inr r) \<and>
     performs (exampleExitPorts ev) [] history [''submit'', ''cancel'', ''persist'', ''evidence''] \<and>
     failsClosed (exampleExitPorts ev) exampleRuntimeInput (Some (s, exampleExitOrder)) (calls history) r \<and>
     rr_status r = REMAINING_CANCEL_REQUOTE_CREATED \<and> storeFailed (calls history) \<and> list_ex reviewItem (rr_evidenceItems r)"
proof -
  fix ev
  obtain s where s: "createExitSubmission exactRound (toSubmissionInput exampleRuntimeInput) = Some (s, exampleExitOrder)"
    using example_runtime_submission by blast
  obtain item where item: "createExitStrategyEvidence exampleRuntimeEnv (xi_decision exampleRuntimeInput)
      (ps_market (xi_positionScope exampleRuntimeInput)) (ps_strategyId (xi_positionScope exampleRuntimeInput)) = Inr item"
    by (simp add: createExitStrategyEvidence_def exampleRuntimeInput_def exampleRuntimeEnv_def exampleExitDecision_def
        summarize_def Let_def exampleExitContext_def)
  have "\<not> shouldSurfaceSizingFailure (xi_decision exampleRuntimeInput) (xi_sizing exampleRuntimeInput)"
    by (simp add: shouldSurfaceSizingFailure_def exampleRuntimeInput_def example_sizing)
  then have run: "runExitPaperRuntime exactRound exampleRuntimeEnv (exampleExitPorts ev) exampleRuntimeInput [] =
      submitExit exactRound exampleRuntimeEnv (exampleExitPorts ev) exampleRuntimeInput s exampleExitOrder [item] []"
    by (simp add: runExitPaperRuntime_def item s)
  define r0 where "r0 = (plainResult EXECUTION_REJECTED [item])\<lparr>rr_submission := Some s,
      rr_executionResult := Some (EX_SUBMITTED (exampleExitBrokerOrder ev PARTIALLY_FILLED 1))\<rparr>"
  obtain r where "runExitPaperRuntime exactRound exampleRuntimeEnv (exampleExitPorts ev) exampleRuntimeInput [] =
       ([''submit'', ''cancel'', ''persist'', ''evidence''], Inr r)"
    "rr_status r = REMAINING_CANCEL_REQUOTE_CREATED" "rr_executionPersistenceStatus r = PS_UNAVAILABLE"
  proof -
    have "port_submitOrder (exampleExitPorts ev) s [] =
        ([''submit''], EX_SUBMITTED (exampleExitBrokerOrder ev PARTIALLY_FILLED 1))"
      by (simp add: exampleExitPorts_def)
    with example_runtime_order [of ev s r0 "[''submit'']"] show thesis
      using that by (auto simp: run submitExit_def Let_def r0_def)
  qed
  note r = this
  obtain history where history: "performs (exampleExitPorts ev) [] history [''submit'', ''cancel'', ''persist'', ''evidence'']"
    "failsClosed (exampleExitPorts ev) exampleRuntimeInput (Some (s, exampleExitOrder)) (calls history) r"
    using exit_runtime_fail_closed [OF r(1) s] by auto
  moreover from history(2) r(3) have "storeFailed (calls history)" "list_ex reviewItem (rr_evidenceItems r)"
    by (simp_all add: failsClosed_def)
  ultimately show ?thesis using r by blast
qed

end
