(* ===== verification/Pnl_Ledger.thy ===== *)
theory Pnl_Ledger
  imports Orders "HOL-Library.List_Lexorder" "HOL-Library.Product_Lexorder"
begin

text \<open>
  The facts of profit and loss accounting, \<^verbatim>\<open>src/src/application/pnl-accounting/types.ts\<close>, and the ledger of
  \<^verbatim>\<open>calculator.ts\<close>: fills in execution order, the search for a fill that needs an opening position, the
  replay of fills by average cost and the opening positions a ledger is seeded with. A thrown invariant
  error is an error result. The messages of missing reasons are texts for people and are left out. A
  timestamp that the source prints as ISO text is kept in epoch milliseconds.
\<close>

section \<open>Facts\<close>

record fill_fact =
  ff_orderId :: string
  ff_strategyId :: string
  ff_market :: string
  ff_side :: order_side
  ff_price :: numeric
  ff_quantity :: numeric
  ff_fee :: numeric
  ff_feeCurrency :: string
  ff_liquidity :: string
  ff_filledAt :: timestamp

record position_fact =
  pf_strategyId :: string
  pf_market :: string
  pf_quantity :: numeric
  pf_averageEntryPrice :: "numeric option"
  pf_realizedPnl :: numeric
  pf_unrealizedPnl :: "numeric option"
  pf_updatedAt :: timestamp
  pf_source :: string

text \<open>
  The order of texts by \<^verbatim>\<open>localeCompare\<close> is the order of their collation keys, which depend on the locale
  and are a parameter: the key of the JSON text of a value, and of a plain text.
\<close>

record pnl_env =
  pe_collateJson :: "json \<Rightarrow> nat list"
  pe_collate :: "string \<Rightarrow> nat list"

definition scopeKey :: "string \<Rightarrow> string option \<Rightarrow> string" where
  "scopeKey strategyId market =
     strategyId @ ''::'' @ (case market of None \<Rightarrow> ''*'' | Some m \<Rightarrow> m)"

definition parseNonNegativeDecimal :: "numeric \<Rightarrow> rat result" where
  "parseNonNegativeDecimal n = bindR (parseFinancialDecimal n) (\<lambda>d.
     if isNegativeText n then Inl (Failure ''value must be non-negative'') else Inr d)"

fun timeMillis :: "timestamp \<Rightarrow> int option" where
  "timeMillis (At n) = Some (n div 1000000)"
| "timeMillis (BadTime s) = None"

definition toTime :: "timestamp \<Rightarrow> int result" where
  "toTime t = (case timeMillis t of
     None \<Rightarrow> Inl (Failure ''PnL accounting timestamp must be valid'') | Some ms \<Rightarrow> Inr ms)"

section \<open>Execution order\<close>

fun sideSortRank :: "order_side \<Rightarrow> nat" where
  "sideSortRank BUY = 0"
| "sideSortRank SELL = 1"

definition createFillTieBreakKey :: "fill_fact \<Rightarrow> json" where
  "createFillTieBreakKey fill = JArr [JStr (ff_strategyId fill), JStr (ff_market fill), JStr (ff_orderId fill),
     JNum (ff_price fill), JNum (ff_quantity fill), JNum (ff_fee fill), JStr (ff_feeCurrency fill),
     JStr (ff_liquidity fill)]"

definition compareFillFact :: "pnl_env \<Rightarrow> fill_fact \<Rightarrow> int \<times> nat \<times> nat list" where
  "compareFillFact env fill =
     (case timeMillis (ff_filledAt fill) of None \<Rightarrow> 0 | Some ms \<Rightarrow> ms, sideSortRank (ff_side fill),
      pe_collateJson env (createFillTieBreakKey fill))"

text \<open>
  The sort is stable. It compares every element of a list of two or more, so each timestamp is read; a
  list of at most one element is not compared.
\<close>

definition sortFillsByExecutionTime :: "pnl_env \<Rightarrow> fill_fact list \<Rightarrow> fill_fact list result" where
  "sortFillsByExecutionTime env fills =
     (if length fills \<le> 1 then Inr fills
      else bindR (mapR (\<lambda>f. toTime (ff_filledAt f)) fills) (\<lambda>times. Inr (sort_key (compareFillFact env) fills)))"

section \<open>The ledger\<close>

record position_ledger =
  pl_quantity :: rat
  pl_costBasisKrw :: rat
  pl_market :: string
  pl_strategyId :: string
  pl_initialAverageEntryPrice :: "rat option"
  pl_fallbackUnrealizedPnlKrw :: "rat option"

text \<open>The map of positions keeps the order in which keys were added.\<close>

record ledger =
  lg_cashKrw :: rat
  lg_realizedPnlKrw :: rat
  lg_positions :: "(string \<times> position_ledger) list"
  lg_filledOrderIds :: "string list"
  lg_filledCount :: nat

definition createEmptyLedger :: ledger where
  "createEmptyLedger = \<lparr>lg_cashKrw = 0, lg_realizedPnlKrw = 0, lg_positions = [], lg_filledOrderIds = [], lg_filledCount = 0\<rparr>"

definition getOrCreatePositionLedger :: "ledger \<Rightarrow> string \<Rightarrow> string \<Rightarrow> string \<Rightarrow> position_ledger" where
  "getOrCreatePositionLedger l key strategyId market =
     (case map_of (lg_positions l) key of
        Some pos \<Rightarrow> pos
      | None \<Rightarrow> \<lparr>pl_quantity = 0, pl_costBasisKrw = 0, pl_market = market, pl_strategyId = strategyId,
                 pl_initialAverageEntryPrice = None, pl_fallbackUnrealizedPnlKrw = None\<rparr>)"

definition setPosition :: "string \<Rightarrow> position_ledger \<Rightarrow> ledger \<Rightarrow> ledger" where
  "setPosition key pos l = l\<lparr>lg_positions := AList.update key pos (lg_positions l)\<rparr>"

definition countOrder :: "string \<Rightarrow> ledger \<Rightarrow> ledger" where
  "countOrder orderId l =
     (if orderId \<in> set (lg_filledOrderIds l) then l
      else l\<lparr>lg_filledOrderIds := lg_filledOrderIds l @ [orderId], lg_filledCount := Suc (lg_filledCount l)\<rparr>)"

definition buyFill :: "rounding \<Rightarrow> rat \<Rightarrow> rat \<Rightarrow> rat \<Rightarrow> string \<Rightarrow> position_ledger \<Rightarrow> ledger \<Rightarrow> ledger" where
  "buyFill rnd quantity notional feeKrw key pos l =
     (let fillCostKrw = dplus rnd notional feeKrw
      in setPosition key (pos\<lparr>pl_quantity := dplus rnd (pl_quantity pos) quantity,
                              pl_costBasisKrw := dplus rnd (pl_costBasisKrw pos) fillCostKrw\<rparr>)
           (l\<lparr>lg_cashKrw := dminus rnd (lg_cashKrw l) fillCostKrw\<rparr>))"

definition sellFill :: "rounding \<Rightarrow> rat \<Rightarrow> rat \<Rightarrow> rat \<Rightarrow> string \<Rightarrow> position_ledger \<Rightarrow> ledger \<Rightarrow> ledger result" where
  "sellFill rnd quantity notional feeKrw key pos l =
     (if pl_quantity pos < quantity then Inl (Failure ''SELL fill exceeds open position'')
      else let averageCostKrw = (case ddiv rnd (pl_costBasisKrw pos) (pl_quantity pos) of None \<Rightarrow> 0 | Some a \<Rightarrow> a);
               realizedCostBasisKrw = dtimes rnd averageCostKrw quantity;
               remaining = dminus rnd (pl_quantity pos) quantity
           in Inr (setPosition key (pos\<lparr>pl_quantity := remaining,
                     pl_costBasisKrw := (if remaining = 0 then 0 else dminus rnd (pl_costBasisKrw pos) realizedCostBasisKrw)\<rparr>)
                (l\<lparr>lg_realizedPnlKrw := dplus rnd (lg_realizedPnlKrw l)
                     (dminus rnd (dminus rnd notional realizedCostBasisKrw) feeKrw),
                   lg_cashKrw := dplus rnd (lg_cashKrw l) (dminus rnd notional feeKrw)\<rparr>)))"

definition applyFill :: "rounding \<Rightarrow> fill_fact \<Rightarrow> ledger \<Rightarrow> ledger result" where
  "applyFill rnd fill l =
     bindR (parseNonNegativeDecimal (ff_quantity fill)) (\<lambda>quantity.
     bindR (parseNonNegativeDecimal (ff_price fill)) (\<lambda>price.
     bindR (parseNonNegativeDecimal (ff_fee fill)) (\<lambda>fee.
       let notional = dtimes rnd quantity price; feeKrw = (if ff_feeCurrency fill = ''KRW'' then fee else 0)
       in if quantity = 0 then Inr l
          else let l1 = countOrder (ff_orderId fill) l; key = scopeKey (ff_strategyId fill) (Some (ff_market fill));
                   pos = getOrCreatePositionLedger l1 key (ff_strategyId fill) (ff_market fill)
               in case ff_side fill of
                    BUY \<Rightarrow> Inr (buyFill rnd quantity notional feeKrw key pos l1)
                  | SELL \<Rightarrow> sellFill rnd quantity notional feeKrw key pos l1)))"

fun applyFillsToLedger :: "rounding \<Rightarrow> fill_fact list \<Rightarrow> ledger \<Rightarrow> ledger result" where
  "applyFillsToLedger rnd [] l = Inr l"
| "applyFillsToLedger rnd (fill # fills) l = bindR (applyFill rnd fill l) (applyFillsToLedger rnd fills)"

text \<open>The first fill, in execution order, that sells more than the fills before it bought.\<close>

fun scanOpeningSeed :: "rounding \<Rightarrow> fill_fact list \<Rightarrow> rat \<Rightarrow> int option result" where
  "scanOpeningSeed rnd [] quantity = Inr None"
| "scanOpeningSeed rnd (fill # fills) quantity =
     bindR (parseNonNegativeDecimal (ff_quantity fill)) (\<lambda>fillQuantity.
       if fillQuantity = 0 then scanOpeningSeed rnd fills quantity
       else case ff_side fill of
              BUY \<Rightarrow> scanOpeningSeed rnd fills (dplus rnd quantity fillQuantity)
            | SELL \<Rightarrow> if quantity < fillQuantity then bindR (toTime (ff_filledAt fill)) (\<lambda>t. Inr (Some t))
                else scanOpeningSeed rnd fills (dminus rnd quantity fillQuantity))"

definition ofScope :: "string \<Rightarrow> string \<Rightarrow> fill_fact \<Rightarrow> bool" where
  "ofScope strategyId market fill \<longleftrightarrow> ff_strategyId fill = strategyId \<and> ff_market fill = market"

definition findOpeningPositionSeedRequiredAt ::
  "rounding \<Rightarrow> pnl_env \<Rightarrow> fill_fact list \<Rightarrow> string \<Rightarrow> string \<Rightarrow> int option result" where
  "findOpeningPositionSeedRequiredAt rnd env fills strategyId market =
     bindR (sortFillsByExecutionTime env (filter (ofScope strategyId market) fills)) (\<lambda>sorted_fills.
       scanOpeningSeed rnd sorted_fills 0)"

section \<open>Opening positions\<close>

definition parseOptional :: "numeric option \<Rightarrow> rat option result" where
  "parseOptional x = (case x of None \<Rightarrow> Inr None | Some n \<Rightarrow> bindR (parseFinancialDecimal n) (\<lambda>d. Inr (Some d)))"

text \<open>
  An entry with an open quantity is not overwritten. A quantity text of zero leaves the entry as it is,
  with or without the source's test for the text \<^verbatim>\<open>"0"\<close>, which only saves the parse.
\<close>

definition seedFromReconcile :: "rounding \<Rightarrow> position_fact \<Rightarrow> ledger \<Rightarrow> ledger result" where
  "seedFromReconcile rnd pos l =
     (let key = scopeKey (pf_strategyId pos) (Some (pf_market pos));
          entry = getOrCreatePositionLedger l key (pf_strategyId pos) (pf_market pos)
      in if 0 < pl_quantity entry then Inr l
         else bindR (parseOptional (pf_averageEntryPrice pos)) (\<lambda>avgPrice.
              bindR (parseNonNegativeDecimal (pf_quantity pos)) (\<lambda>qty.
                let entry1 = entry\<lparr>pl_initialAverageEntryPrice := avgPrice\<rparr>
                in Inr (setPosition key (case avgPrice of
                     Some avg \<Rightarrow> if 0 < qty then entry1\<lparr>pl_quantity := qty, pl_costBasisKrw := dtimes rnd qty avg\<rparr> else entry1
                   | None \<Rightarrow> entry1) l))))"

definition seedFromPosition :: "rounding \<Rightarrow> position_fact \<Rightarrow> ledger \<Rightarrow> ledger result" where
  "seedFromPosition rnd pos l =
     (let key = scopeKey (pf_strategyId pos) (Some (pf_market pos));
          entry = getOrCreatePositionLedger l key (pf_strategyId pos) (pf_market pos)
      in if 0 < pl_quantity entry then Inr l
         else bindR (parseOptional (pf_averageEntryPrice pos)) (\<lambda>avgPrice.
              bindR (parseOptional (pf_unrealizedPnl pos)) (\<lambda>unrealized.
              bindR (parseNonNegativeDecimal (pf_quantity pos)) (\<lambda>qty.
                let entry1 = entry\<lparr>pl_initialAverageEntryPrice := avgPrice, pl_fallbackUnrealizedPnlKrw := unrealized\<rparr>;
                    entry2 = (if 0 < qty then entry1\<lparr>pl_quantity := qty\<rparr> else entry1)
                in Inr (setPosition key (case avgPrice of
                     Some avg \<Rightarrow> if 0 < qty then entry2\<lparr>pl_costBasisKrw := dtimes rnd qty avg\<rparr> else entry2
                   | None \<Rightarrow> entry2) l)))))"

definition seedLedgerFromReconcile :: "rounding \<Rightarrow> position_fact list \<Rightarrow> ledger \<Rightarrow> ledger result" where
  "seedLedgerFromReconcile rnd = foldR (seedFromReconcile rnd)"

definition seedLedgerFromPositions :: "rounding \<Rightarrow> position_fact list \<Rightarrow> ledger \<Rightarrow> ledger result" where
  "seedLedgerFromPositions rnd = foldR (seedFromPosition rnd)"

section \<open>Lemmas\<close>

text \<open>The quantity held under a key, and what a fill does to it.\<close>

definition heldAt :: "ledger \<Rightarrow> string \<Rightarrow> rat" where
  "heldAt l key = (case map_of (lg_positions l) key of None \<Rightarrow> 0 | Some pos \<Rightarrow> pl_quantity pos)"

definition fillKey :: "fill_fact \<Rightarrow> string" where
  "fillKey fill = scopeKey (ff_strategyId fill) (Some (ff_market fill))"

definition fillQuantityOf :: "fill_fact \<Rightarrow> rat" where
  "fillQuantityOf fill = (case parseNonNegativeDecimal (ff_quantity fill) of Inl e \<Rightarrow> 0 | Inr q \<Rightarrow> q)"

definition validFill :: "fill_fact \<Rightarrow> bool" where
  "validFill fill \<longleftrightarrow> is_ok (parseNonNegativeDecimal (ff_quantity fill)) \<and>
     is_ok (parseNonNegativeDecimal (ff_price fill)) \<and> is_ok (parseNonNegativeDecimal (ff_fee fill)) \<and>
     timeMillis (ff_filledAt fill) \<noteq> None"

definition nextHeld :: "rounding \<Rightarrow> fill_fact \<Rightarrow> rat \<Rightarrow> rat" where
  "nextHeld rnd fill q = (if fillQuantityOf fill = 0 then q
     else case ff_side fill of BUY \<Rightarrow> dplus rnd q (fillQuantityOf fill) | SELL \<Rightarrow> dminus rnd q (fillQuantityOf fill))"

definition oversells :: "fill_fact \<Rightarrow> rat \<Rightarrow> bool" where
  "oversells fill q \<longleftrightarrow> ff_side fill = SELL \<and> fillQuantityOf fill \<noteq> 0 \<and> q < fillQuantityOf fill"

fun coveredFrom :: "rounding \<Rightarrow> fill_fact list \<Rightarrow> rat \<Rightarrow> bool" where
  "coveredFrom rnd [] q = True"
| "coveredFrom rnd (fill # fills) q \<longleftrightarrow> \<not> oversells fill q \<and> coveredFrom rnd fills (nextHeld rnd fill q)"

lemma parseNonNegativeDecimal_nonneg: "parseNonNegativeDecimal n = Inr d \<Longrightarrow> 0 \<le> d"
  by (cases n) (auto simp: parseNonNegativeDecimal_def split: if_splits)

lemma getOrCreate_quantity: "pl_quantity (getOrCreatePositionLedger l key s m) = heldAt l key"
  by (simp add: getOrCreatePositionLedger_def heldAt_def split: option.split)

lemma heldAt_setPosition: "heldAt (setPosition key pos l) k = (if k = key then pl_quantity pos else heldAt l k)"
  by (simp add: heldAt_def setPosition_def)

lemma heldAt_update [simp]: "heldAt (l\<lparr>lg_cashKrw := c\<rparr>) k = heldAt l k" "heldAt (l\<lparr>lg_realizedPnlKrw := r\<rparr>) k = heldAt l k"
  by (simp_all add: heldAt_def)

lemma countOrder_positions [simp]: "lg_positions (countOrder i l) = lg_positions l"
  "lg_cashKrw (countOrder i l) = lg_cashKrw l" "lg_realizedPnlKrw (countOrder i l) = lg_realizedPnlKrw l"
  by (simp_all add: countOrder_def)

lemma heldAt_countOrder [simp]: "heldAt (countOrder i l) k = heldAt l k"
  by (simp add: heldAt_def)

lemma applyFill_ok_iff:
  assumes "validFill fill"
  shows "is_ok (applyFill rnd fill l) \<longleftrightarrow> \<not> oversells fill (heldAt l (fillKey fill))"
  using assms
  by (auto simp: validFill_def is_ok_iff applyFill_def oversells_def fillQuantityOf_def sellFill_def getOrCreate_quantity
      fillKey_def Let_def split: order_side.split)

lemma applyFill_cases:
  assumes "applyFill rnd fill l = Inr l'"
  obtains (zero) "fillQuantityOf fill = 0" "l' = l"
    | (bought) pos notional feeKrw where "ff_side fill = BUY" "fillQuantityOf fill \<noteq> 0"
      "pos = getOrCreatePositionLedger (countOrder (ff_orderId fill) l) (fillKey fill) (ff_strategyId fill) (ff_market fill)"
      "l' = buyFill rnd (fillQuantityOf fill) notional feeKrw (fillKey fill) pos (countOrder (ff_orderId fill) l)"
    | (sold) pos notional feeKrw where "ff_side fill = SELL" "fillQuantityOf fill \<noteq> 0"
      "pos = getOrCreatePositionLedger (countOrder (ff_orderId fill) l) (fillKey fill) (ff_strategyId fill) (ff_market fill)"
      "sellFill rnd (fillQuantityOf fill) notional feeKrw (fillKey fill) pos (countOrder (ff_orderId fill) l) = Inr l'"
proof -
  obtain q p f where p: "parseNonNegativeDecimal (ff_quantity fill) = Inr q"
    "parseNonNegativeDecimal (ff_price fill) = Inr p" "parseNonNegativeDecimal (ff_fee fill) = Inr f"
    using assms by (auto simp: applyFill_def bindR_Inr_iff)
  then have q: "fillQuantityOf fill = q" by (simp add: fillQuantityOf_def)
  show thesis
  proof (cases "q = 0")
    case True
    then show ?thesis using zero q assms p by (simp add: applyFill_def Let_def)
  next
    case False
    then show ?thesis
      using assms p q bought [OF _ _ refl] sold [OF _ _ refl]
      by (cases "ff_side fill") (auto simp: applyFill_def Let_def fillKey_def)
  qed
qed

lemma applyFill_held:
  assumes "applyFill rnd fill l = Inr l'"
  shows "heldAt l' k = (if k = fillKey fill then nextHeld rnd fill (heldAt l k) else heldAt l k)"
  using assms
proof (cases rule: applyFill_cases)
  case (bought pos notional feeKrw)
  then show ?thesis by (simp add: nextHeld_def buyFill_def Let_def heldAt_setPosition getOrCreate_quantity)
next
  case (sold pos notional feeKrw)
  then show ?thesis
    by (auto simp: nextHeld_def sellFill_def Let_def heldAt_setPosition getOrCreate_quantity split: if_splits)
qed (simp add: nextHeld_def)

lemma replay_ok_iff:
  "\<forall>f \<in> set fills. validFill f \<Longrightarrow>
   is_ok (applyFillsToLedger rnd fills l) \<longleftrightarrow>
     (\<forall>k. coveredFrom rnd (filter (\<lambda>f. fillKey f = k) fills) (heldAt l k))"
proof (induction fills arbitrary: l)
  case (Cons fill fills)
  show ?case
  proof (cases "applyFill rnd fill l")
    case (Inl e)
    then have "oversells fill (heldAt l (fillKey fill))" using applyFill_ok_iff [of fill rnd l] Cons.prems by simp
    then show ?thesis using Inl by auto
  next
    case (Inr l')
    then have no: "\<not> oversells fill (heldAt l (fillKey fill))" using applyFill_ok_iff [of fill rnd l] Cons.prems by simp
    have "is_ok (applyFillsToLedger rnd fills l') \<longleftrightarrow>
        (\<forall>k. coveredFrom rnd (filter (\<lambda>f. fillKey f = k) fills) (heldAt l' k))"
      using Cons by simp
    then show ?thesis using Inr no applyFill_held [OF Inr] by auto
  qed
qed simp

lemma scan_None_iff:
  "\<forall>f \<in> set fills. validFill f \<Longrightarrow> scanOpeningSeed rnd fills q = Inr None \<longleftrightarrow> coveredFrom rnd fills q"
  by (induction fills arbitrary: q)
    (auto simp: validFill_def is_ok_iff oversells_def nextHeld_def fillQuantityOf_def bindR_Inr_iff split: order_side.split)

text \<open>Keys of scopes are distinct as long as strategy names contain no colon.\<close>

lemma scopeKey_Some_inject:
  assumes "CHR '':'' \<notin> set s" and "CHR '':'' \<notin> set s'"
  shows "scopeKey s (Some m) = scopeKey s' (Some m') \<longleftrightarrow> s = s' \<and> m = m'"
proof
  assume eq: "scopeKey s (Some m) = scopeKey s' (Some m')"
  have strategy: "takeWhile (\<lambda>c. c \<noteq> CHR '':'') (scopeKey t (Some n)) = t" if "CHR '':'' \<notin> set t" for t n
    using that by (induction t) (auto simp: scopeKey_def)
  show "s = s' \<and> m = m'"
    using strategy [OF assms(1), of m] strategy [OF assms(2), of m'] eq by (auto simp: scopeKey_def)
qed auto

lemma sortFills_valid:
  assumes "\<forall>f \<in> set fills. validFill f"
  shows "sortFillsByExecutionTime env fills = Inr (sort_key (compareFillFact env) fills)"
proof (cases "length fills \<le> 1")
  case True
  then have "sort_key (compareFillFact env) fills = fills"
    by (cases fills) auto
  then show ?thesis using True by (simp add: sortFillsByExecutionTime_def)
next
  case False
  have "\<forall>f \<in> set fills. \<exists>t. toTime (ff_filledAt f) = Inr t"
    using assms by (auto simp: validFill_def toTime_def)
  then have "\<exists>ts. mapR (\<lambda>f. toTime (ff_filledAt f)) fills = Inr ts"
    by (induction fills) (auto simp: bindR_Inr_iff)
  then show ?thesis using False by (auto simp: sortFillsByExecutionTime_def)
qed

section \<open>The books balance\<close>

definition signedQuantity :: "fill_fact \<Rightarrow> rat" where
  "signedQuantity fill = (case ff_side fill of BUY \<Rightarrow> fillQuantityOf fill | SELL \<Rightarrow> - fillQuantityOf fill)"

definition costBasisTotal :: "ledger \<Rightarrow> rat" where
  "costBasisTotal l = sum_list (map (\<lambda>p. pl_costBasisKrw (snd p)) (lg_positions l))"

definition ledgerOk :: "ledger \<Rightarrow> bool" where
  "ledgerOk l \<longleftrightarrow> distinct (map fst (lg_positions l)) \<and>
     (\<forall>p \<in> set (lg_positions l). 0 \<le> pl_quantity (snd p) \<and> (pl_quantity (snd p) = 0 \<longrightarrow> pl_costBasisKrw (snd p) = 0))"

lemma sum_update:
  fixes g :: "'v \<Rightarrow> rat"
  assumes "distinct (map fst al)"
  shows "sum_list (map (\<lambda>p. g (snd p)) (AList.update k v al)) =
    sum_list (map (\<lambda>p. g (snd p)) al) - (case map_of al k of None \<Rightarrow> 0 | Some w \<Rightarrow> g w) + g v"
  using assms
proof (induction al)
  case (Cons p al)
  then show ?case by (cases p) auto
qed simp

lemma set_update: "p \<in> set (AList.update k v al) \<Longrightarrow> p = (k, v) \<or> p \<in> set al"
  by (induction al) (auto split: if_splits)

lemma getOrCreate_ok:
  assumes "ledgerOk l"
  shows "0 \<le> heldAt l k" and "pos = getOrCreatePositionLedger l k s m \<Longrightarrow> pl_quantity pos = 0 \<Longrightarrow> pl_costBasisKrw pos = 0"
proof -
  have "map_of (lg_positions l) k = Some p \<Longrightarrow> 0 \<le> pl_quantity p \<and> (pl_quantity p = 0 \<longrightarrow> pl_costBasisKrw p = 0)" for p
    using assms by (auto simp: ledgerOk_def dest!: map_of_SomeD)
  then show "0 \<le> heldAt l k" and "pos = getOrCreatePositionLedger l k s m \<Longrightarrow> pl_quantity pos = 0 \<Longrightarrow> pl_costBasisKrw pos = 0"
    by (auto simp: heldAt_def getOrCreatePositionLedger_def split: option.splits)
qed

lemma ledgerOk_setPosition:
  assumes "ledgerOk l" and "0 \<le> pl_quantity pos" and "pl_quantity pos = 0 \<longrightarrow> pl_costBasisKrw pos = 0"
  shows "ledgerOk (setPosition k pos l)"
  using assms by (auto simp: ledgerOk_def setPosition_def distinct_update dest!: set_update)

lemma ledgerOk_update [simp]: "ledgerOk (l\<lparr>lg_cashKrw := c\<rparr>) = ledgerOk l" "ledgerOk (l\<lparr>lg_realizedPnlKrw := r\<rparr>) = ledgerOk l"
  "ledgerOk (countOrder i l) = ledgerOk l" "costBasisTotal (countOrder i l) = costBasisTotal l"
  by (simp_all add: ledgerOk_def costBasisTotal_def)

lemma costBasisTotal_setPosition:
  assumes "ledgerOk l" and "lg_positions l' = lg_positions l" and "pos = getOrCreatePositionLedger l k s m"
  shows "costBasisTotal (setPosition k pos' l') = costBasisTotal l - pl_costBasisKrw pos + pl_costBasisKrw pos'"
  using assms
  by (simp add: costBasisTotal_def setPosition_def ledgerOk_def sum_update getOrCreatePositionLedger_def split: option.split)

lemma fillQuantityOf_nonneg: "0 \<le> fillQuantityOf fill"
  by (auto simp: fillQuantityOf_def dest: parseNonNegativeDecimal_nonneg split: sum.split)

lemma applyFill_exact:
  assumes run: "applyFill exactRound fill l = Inr l'" and ok: "ledgerOk l"
  shows "ledgerOk l' \<and> lg_cashKrw l' + costBasisTotal l' - lg_realizedPnlKrw l' =
    lg_cashKrw l + costBasisTotal l - lg_realizedPnlKrw l"
  using run
proof (cases rule: applyFill_cases)
  case zero
  then show ?thesis using ok by simp
next
  case (bought pos notional feeKrw)
  have ok1: "ledgerOk (countOrder (ff_orderId fill) l)" using ok by simp
  have "0 \<le> pl_quantity pos" using getOrCreate_ok(1) [OF ok1] bought(3) by (simp add: getOrCreate_quantity)
  then have "ledgerOk l'"
    using bought(2,4) ok fillQuantityOf_nonneg [of fill]
    by (auto simp: buyFill_def Let_def decimal_ops exactRound_def intro!: ledgerOk_setPosition)
  moreover have "costBasisTotal l' = costBasisTotal l + (notional + feeKrw)"
    using costBasisTotal_setPosition [OF ok1 _ bought(3)] bought(4)
    by (simp add: buyFill_def Let_def decimal_ops exactRound_def)
  ultimately show ?thesis using bought(4) by (simp add: buyFill_def Let_def decimal_ops exactRound_def setPosition_def)
next
  case (sold pos notional feeKrw)
  have ok1: "ledgerOk (countOrder (ff_orderId fill) l)" using ok by simp
  define cost where "cost = pl_costBasisKrw pos / pl_quantity pos * fillQuantityOf fill"
  define pos' where "pos' = pos\<lparr>pl_quantity := pl_quantity pos - fillQuantityOf fill,
    pl_costBasisKrw := (if pl_quantity pos - fillQuantityOf fill = 0 then 0 else pl_costBasisKrw pos - cost)\<rparr>"
  have enough: "fillQuantityOf fill \<le> pl_quantity pos" using sold(4) by (simp add: sellFill_def split: if_splits)
  then have pos: "pl_quantity pos \<noteq> 0" using sold(2) fillQuantityOf_nonneg [of fill] by auto
  then have l': "l' = setPosition (fillKey fill) pos' ((countOrder (ff_orderId fill) l)
      \<lparr>lg_realizedPnlKrw := lg_realizedPnlKrw l + (notional - cost - feeKrw), lg_cashKrw := lg_cashKrw l + (notional - feeKrw)\<rparr>)"
    using sold(4) enough
    by (cases "pl_quantity pos = fillQuantityOf fill")
      (auto simp: sellFill_def Let_def decimal_ops exactRound_def cost_def pos'_def)
  have "ledgerOk l'" unfolding l' using ok enough by (intro ledgerOk_setPosition) (simp_all add: pos'_def)
  moreover have "pl_costBasisKrw pos' = pl_costBasisKrw pos - cost"
    using pos by (simp add: pos'_def cost_def)
  ultimately show ?thesis
    using costBasisTotal_setPosition [OF ok1 _ sold(3)] by (simp add: l') (simp add: setPosition_def)
qed

lemma replay_exact:
  assumes "applyFillsToLedger exactRound fills l = Inr l'" and "ledgerOk l"
  shows "ledgerOk l' \<and> lg_cashKrw l' + costBasisTotal l' - lg_realizedPnlKrw l' =
    lg_cashKrw l + costBasisTotal l - lg_realizedPnlKrw l"
  using assms
proof (induction fills arbitrary: l)
  case (Cons fill fills)
  then obtain l1 where l1: "applyFill exactRound fill l = Inr l1" "applyFillsToLedger exactRound fills l1 = Inr l'"
    by (auto simp: bindR_Inr_iff)
  then show ?case using applyFill_exact [OF l1(1) Cons.prems(2)] Cons.IH [OF l1(2)] by simp
qed simp

lemma replay_held_exact:
  "applyFillsToLedger exactRound fills l = Inr l' \<Longrightarrow>
   heldAt l' k = heldAt l k + sum_list (map signedQuantity (filter (\<lambda>f. fillKey f = k) fills))"
proof (induction fills arbitrary: l)
  case (Cons fill fills)
  then obtain l1 where l1: "applyFill exactRound fill l = Inr l1" "applyFillsToLedger exactRound fills l1 = Inr l'"
    by (auto simp: bindR_Inr_iff)
  have "nextHeld exactRound fill q = q + signedQuantity fill" for q
    by (cases "ff_side fill") (simp_all add: nextHeld_def signedQuantity_def decimal_ops exactRound_def)
  then show ?case using Cons.IH [OF l1(2)] applyFill_held [OF l1(1)] by simp
qed simp

lemma costBasisTotal_flat:
  assumes "ledgerOk l" and "\<forall>k. heldAt l k = 0"
  shows "costBasisTotal l = 0"
proof -
  have "pl_costBasisKrw (snd p) = 0" if "p \<in> set (lg_positions l)" for p
  proof -
    have "map_of (lg_positions l) (fst p) = Some (snd p)" using that assms(1) by (simp add: ledgerOk_def)
    then have "pl_quantity (snd p) = 0" using assms(2) by (auto simp: heldAt_def split: option.splits)
    then show ?thesis using that assms(1) by (auto simp: ledgerOk_def)
  qed
  then have eq: "map (\<lambda>p. pl_costBasisKrw (snd p)) (lg_positions l) = map (\<lambda>p. 0) (lg_positions l)" by simp
  show ?thesis unfolding costBasisTotal_def eq by simp
qed

lemma scan_Some:
  assumes "scanOpeningSeed rnd fills q = Inr (Some t)"
  shows "\<exists>before fill after. fills = before @ fill # after \<and> coveredFrom rnd before q \<and>
    oversells fill (fold (nextHeld rnd) before q) \<and> timeMillis (ff_filledAt fill) = Some t"
  using assms
proof (induction fills arbitrary: q)
  case (Cons fill fills)
  show ?case
  proof (cases "oversells fill q")
    case True
    then have "timeMillis (ff_filledAt fill) = Some t"
      using Cons.prems by (auto simp: oversells_def fillQuantityOf_def bindR_Inr_iff toTime_def split: sum.splits option.splits)
    then show ?thesis using True by (intro exI [of _ "[]"]) auto
  next
    case False
    then have "scanOpeningSeed rnd fills (nextHeld rnd fill q) = Inr (Some t)"
      using Cons.prems
      by (cases "ff_side fill") (auto simp: oversells_def fillQuantityOf_def bindR_Inr_iff nextHeld_def split: if_splits)
    then obtain before f after where "fills = before @ f # after" "coveredFrom rnd before (nextHeld rnd fill q)"
      "oversells f (fold (nextHeld rnd) before (nextHeld rnd fill q))" "timeMillis (ff_filledAt f) = Some t"
      using Cons.IH by blast
    then show ?thesis using False by (intro exI [of _ "fill # before"]) auto
  qed
qed simp

lemma heldAt_empty [simp]: "heldAt createEmptyLedger k = 0" "ledgerOk createEmptyLedger" "costBasisTotal createEmptyLedger = 0"
  "lg_cashKrw createEmptyLedger = 0" "lg_realizedPnlKrw createEmptyLedger = 0"
  by (simp_all add: heldAt_def createEmptyLedger_def ledgerOk_def costBasisTotal_def)

section \<open>Properties\<close>

text \<open>
  C22. Replaying fills, with exact arithmetic. Whatever was in the ledger before, cash plus the cost of what
  is held minus the realized profit stays the same, so profit is realized exactly when cash exceeds cost;
  the quantity of every scope moves by what its fills bought minus what they sold and never becomes
  negative; and a ledger that started empty and ends flat has realized exactly its change of cash.
\<close>

theorem replay_books_balance:
  assumes "applyFillsToLedger exactRound fills l = Inr l'" and "ledgerOk l"
  shows "lg_cashKrw l' + costBasisTotal l' - lg_realizedPnlKrw l' = lg_cashKrw l + costBasisTotal l - lg_realizedPnlKrw l \<and>
    (\<forall>k. 0 \<le> heldAt l' k \<and>
       heldAt l' k = heldAt l k + sum_list (map signedQuantity (filter (\<lambda>f. fillKey f = k) fills))) \<and>
    (l = createEmptyLedger \<and> (\<forall>k. heldAt l' k = 0) \<longrightarrow> lg_realizedPnlKrw l' = lg_cashKrw l')"
  using replay_exact [OF assms] getOrCreate_ok(1) [of l'] costBasisTotal_flat [of l'] replay_held_exact [OF assms(1)]
  by auto

text \<open>
  C23. The search for a missing opening position is exact, whatever the rounding. Fills replay from an
  empty ledger without a sale of more than is held exactly when the search finds nothing in any of their
  scopes; and a time it does find is that of the first fill, in execution order, that sells more than
  the fills of its scope bought before.
\<close>

theorem opening_seed_search_exact:
  assumes valid: "\<forall>f \<in> set fills. validFill f \<and> CHR '':'' \<notin> set (ff_strategyId f)"
  shows "(is_ok (bindR (sortFillsByExecutionTime env fills) (\<lambda>fs. applyFillsToLedger rnd fs createEmptyLedger)) \<longleftrightarrow>
      (\<forall>f \<in> set fills. findOpeningPositionSeedRequiredAt rnd env fills (ff_strategyId f) (ff_market f) = Inr None)) \<and>
    (\<forall>s m t. findOpeningPositionSeedRequiredAt rnd env fills s m = Inr (Some t) \<longrightarrow>
      (\<exists>before fill after. filter (ofScope s m) (sort_key (compareFillFact env) fills) = before @ fill # after \<and>
         coveredFrom rnd before 0 \<and> oversells fill (fold (nextHeld rnd) before 0) \<and> timeMillis (ff_filledAt fill) = Some t))"
proof -
  define sorted_fills where "sorted_fills = sort_key (compareFillFact env) fills"
  have all: "sortFillsByExecutionTime env fills = Inr sorted_fills" using valid by (simp add: sortFills_valid sorted_fills_def)
  have scope: "findOpeningPositionSeedRequiredAt rnd env fills s m = scanOpeningSeed rnd (filter (ofScope s m) sorted_fills) 0" for s m
    using valid by (simp add: findOpeningPositionSeedRequiredAt_def sortFills_valid filter_sort sorted_fills_def)
  have set: "set sorted_fills = set fills" by (simp add: sorted_fills_def)
  have none: "findOpeningPositionSeedRequiredAt rnd env fills s m = Inr None \<longleftrightarrow> coveredFrom rnd (filter (ofScope s m) sorted_fills) 0" for s m
    unfolding scope using valid set by (intro scan_None_iff) auto
  have key: "filter (\<lambda>g. fillKey g = fillKey f) sorted_fills = filter (ofScope (ff_strategyId f) (ff_market f)) sorted_fills"
    if "f \<in> set fills" for f
    using that valid set by (intro filter_cong) (auto simp: fillKey_def ofScope_def scopeKey_Some_inject)
  have "(\<forall>k. coveredFrom rnd (filter (\<lambda>f. fillKey f = k) sorted_fills) 0) \<longleftrightarrow>
      (\<forall>f \<in> set fills. coveredFrom rnd (filter (ofScope (ff_strategyId f) (ff_market f)) sorted_fills) 0)" (is "?L \<longleftrightarrow> ?R")
  proof
    assume ?L
    then show ?R using key by metis
  next
    assume R: ?R
    show ?L
    proof
      fix k
      show "coveredFrom rnd (filter (\<lambda>f. fillKey f = k) sorted_fills) 0"
      proof (cases "\<exists>f \<in> set fills. fillKey f = k")
        case True
        then show ?thesis using R key by metis
      next
        case False
        then have "filter (\<lambda>f. fillKey f = k) sorted_fills = []" using set by (auto simp: filter_empty_conv)
        then show ?thesis by simp
      qed
    qed
  qed
  then have "is_ok (applyFillsToLedger rnd sorted_fills createEmptyLedger) \<longleftrightarrow>
      (\<forall>f \<in> set fills. findOpeningPositionSeedRequiredAt rnd env fills (ff_strategyId f) (ff_market f) = Inr None)"
    using replay_ok_iff [of sorted_fills rnd createEmptyLedger] valid set none by simp
  then show ?thesis using all scan_Some by (simp add: scope sorted_fills_def)
qed

text \<open>Two coins are bought at 100 and sold at 110, each time for a fee of 1; or only the sale is known.\<close>

definition exampleFill :: "order_side \<Rightarrow> rat \<Rightarrow> int \<Rightarrow> fill_fact" where
  "exampleFill side price ms = \<lparr>ff_orderId = sideName side, ff_strategyId = ''s1'', ff_market = ''KRW-BTC'', ff_side = side,
     ff_price = Num price, ff_quantity = Num 2, ff_fee = Num 1, ff_feeCurrency = ''KRW'', ff_liquidity = ''TAKER'',
     ff_filledAt = At (ms * 1000000)\<rparr>"

definition examplePnlEnv :: pnl_env where
  "examplePnlEnv = \<lparr>pe_collateJson = (\<lambda>j. []), pe_collate = map of_char\<rparr>"

lemma exampleFill_valid: "validFill (exampleFill side price ms) \<longleftrightarrow> 0 \<le> price"
  by (simp add: validFill_def exampleFill_def parseNonNegativeDecimal_def not_less)

lemma example_replay:
  "\<exists>l'. applyFillsToLedger exactRound [exampleFill BUY 100 1, exampleFill SELL 110 2] createEmptyLedger = Inr l' \<and>
     lg_realizedPnlKrw l' = 18"
  by (simp add: applyFill_def exampleFill_def parseNonNegativeDecimal_def Let_def buyFill_def sellFill_def countOrder_def
      createEmptyLedger_def getOrCreatePositionLedger_def setPosition_def decimal_ops exactRound_def)

theorem replay_books_balance_witness:
  "\<exists>l'. applyFillsToLedger exactRound [exampleFill BUY 100 1, exampleFill SELL 110 2] createEmptyLedger = Inr l' \<and>
     (\<forall>k. heldAt l' k = 0) \<and> lg_realizedPnlKrw l' = 18 \<and> lg_cashKrw l' = 18"
proof -
  obtain l' where l': "applyFillsToLedger exactRound [exampleFill BUY 100 1, exampleFill SELL 110 2] createEmptyLedger = Inr l'"
    "lg_realizedPnlKrw l' = 18"
    using example_replay by blast
  have "\<forall>k. heldAt l' k = 0"
    using replay_books_balance [OF l'(1)]
    by (simp add: signedQuantity_def fillQuantityOf_def exampleFill_def parseNonNegativeDecimal_def fillKey_def)
  then show ?thesis using l' replay_books_balance [OF l'(1)] by auto
qed

theorem opening_seed_search_exact_witness:
  "findOpeningPositionSeedRequiredAt exactRound examplePnlEnv [exampleFill SELL 110 2] ''s1'' ''KRW-BTC'' = Inr (Some 2) \<and>
   \<not> is_ok (bindR (sortFillsByExecutionTime examplePnlEnv [exampleFill SELL 110 2])
     (\<lambda>fs. applyFillsToLedger exactRound fs createEmptyLedger))"
proof -
  have found: "findOpeningPositionSeedRequiredAt exactRound examplePnlEnv [exampleFill SELL 110 2] ''s1'' ''KRW-BTC'' = Inr (Some 2)"
    by (simp add: findOpeningPositionSeedRequiredAt_def ofScope_def exampleFill_def sortFillsByExecutionTime_def
        parseNonNegativeDecimal_def toTime_def)
  have "\<forall>f \<in> set [exampleFill SELL 110 2]. validFill f \<and> CHR '':'' \<notin> set (ff_strategyId f)"
    by (simp add: exampleFill_valid) (simp add: exampleFill_def)
  from opening_seed_search_exact [OF this, of examplePnlEnv exactRound] found show ?thesis
    by (simp add: exampleFill_def)
qed

end
