(* ===== verification/Pnl_Sources.thy ===== *)
theory Pnl_Sources
  imports Pnl_Ledger
begin

text \<open>
  Which facts profit and loss accounting uses: the stored snapshots that are current
  (\<open>selectEffectiveSnapshots\<close> of \<^verbatim>\<open>src/src/application/pnl-accounting/calculator.ts\<close>), the scopes they cover
  (\<^verbatim>\<open>source-priority.ts\<close>), and the restriction of the input to target scopes.
\<close>

section \<open>Facts\<close>

record snapshot_fact =
  sf_strategyId :: string
  sf_market :: "string option"
  sf_capturedAt :: timestamp
  sf_equity :: numeric
  sf_realizedPnl :: numeric
  sf_unrealizedPnl :: numeric
  sf_drawdownBps :: numeric
  sf_payloadJson :: "json_record option"

record reconcile_fact =
  rf_strategyId :: string
  rf_market :: string
  rf_quantity :: "numeric option"
  rf_recoveryStatus :: string
  rf_averageEntryPrice :: "numeric option"
  rf_reconciledAt :: timestamp
  rf_averageEntrySource :: "string option"

record mark_price_fact =
  mf_market :: string
  mf_priceKrw :: numeric
  mf_observedAt :: "timestamp option"
  mf_source :: string

record cash_fact =
  cf_availableKrw :: numeric
  cf_lockedKrw :: numeric
  cf_totalKrw :: numeric
  cf_source :: string
  cf_observedAt :: timestamp

record cost_quality_fact =
  qf_strategyId :: string
  qf_market :: string
  qf_spreadCostBps :: "numeric option"
  qf_slippageBps :: "numeric option"
  qf_cancelRequotePenaltyBps :: "numeric option"
  qf_source :: string

record missing_reason =
  mr_reasonCode :: string
  mr_scope :: string
  mr_source :: string

datatype pnl_status = CALCULATED | PARTIAL | UNAVAILABLE | MANUAL_REVIEW_REQUIRED

record accounting_scope =
  as_strategyId :: string
  as_market :: "string option"
  as_capturedAt :: int
  as_source :: string
  as_status :: pnl_status

record pnl_trace =
  tr_runId :: "string option"
  tr_correlationId :: "string option"
  tr_sourceTables :: "string list option"
  tr_lastSourceTimestamp :: "timestamp option"

text \<open>A list of target scopes that is missing has the same effect as an empty one.\<close>

record pnl_input =
  ai_capturedAt :: "timestamp option"
  ai_targetScopes :: "accounting_scope list"
  ai_fills :: "fill_fact list"
  ai_positions :: "position_fact list"
  ai_markPrices :: "mark_price_fact list"
  ai_cash :: "cash_fact option"
  ai_costQuality :: "cost_quality_fact list"
  ai_pnlSnapshots :: "snapshot_fact list"
  ai_reconcileFacts :: "reconcile_fact list"
  ai_trace :: pnl_trace

definition missing :: "string \<Rightarrow> string \<Rightarrow> string \<Rightarrow> missing_reason" where
  "missing reasonCode reasonScope src = \<lparr>mr_reasonCode = reasonCode, mr_scope = reasonScope, mr_source = src\<rparr>"

section \<open>Coverage\<close>

definition isCoveredBySnapshot :: "snapshot_fact list \<Rightarrow> string \<Rightarrow> string \<Rightarrow> bool" where
  "isCoveredBySnapshot snapshots strategyId market \<longleftrightarrow>
     (\<exists>s \<in> set snapshots. case sf_market s of
        None \<Rightarrow> sf_strategyId s = strategyId
      | Some m \<Rightarrow> scopeKey (sf_strategyId s) (Some m) = scopeKey strategyId (Some market))"

definition isCoveredByFill :: "fill_fact list \<Rightarrow> string \<Rightarrow> string \<Rightarrow> bool" where
  "isCoveredByFill fills strategyId market \<longleftrightarrow> scopeKey strategyId (Some market) \<in> fillKey ` set fills"

definition positionKey :: "position_fact \<Rightarrow> string" where
  "positionKey pos = scopeKey (pf_strategyId pos) (Some (pf_market pos))"

definition isCoveredByPosition :: "position_fact list \<Rightarrow> string \<Rightarrow> string \<Rightarrow> bool" where
  "isCoveredByPosition positions strategyId market \<longleftrightarrow> scopeKey strategyId (Some market) \<in> positionKey ` set positions"

text \<open>The scopes of fills: one per strategy, then one per strategy and market, in the order of a map.\<close>

definition resolveFillScopes :: "fill_fact list \<Rightarrow> (string \<times> string \<times> string option) list" where
  "resolveFillScopes fills =
     foldl (\<lambda>scopes f. AList.update (fillKey f) (ff_strategyId f, Some (ff_market f)) scopes)
       (map (\<lambda>s. (scopeKey s None, s, None)) (rev (remdups (rev (map ff_strategyId fills))))) fills"

section \<open>Target scopes\<close>

definition matchesScopedFact :: "accounting_scope list \<Rightarrow> string \<Rightarrow> string \<Rightarrow> bool" where
  "matchesScopedFact targets strategyId market \<longleftrightarrow>
     (\<exists>t \<in> set targets. case as_market t of
        None \<Rightarrow> as_strategyId t = strategyId
      | Some m \<Rightarrow> scopeKey (as_strategyId t) (Some m) = scopeKey strategyId (Some market))"

definition matchesSnapshot :: "accounting_scope list \<Rightarrow> string \<Rightarrow> string option \<Rightarrow> bool" where
  "matchesSnapshot targets strategyId market \<longleftrightarrow>
     (\<exists>t \<in> set targets. case as_market t of
        None \<Rightarrow> as_strategyId t = strategyId
      | Some m \<Rightarrow> market \<noteq> None \<and> scopeKey (as_strategyId t) (Some m) = scopeKey strategyId market)"

definition resolveTargetMarkPriceMarkets ::
  "accounting_scope list \<Rightarrow> fill_fact list \<Rightarrow> position_fact list \<Rightarrow> reconcile_fact list \<Rightarrow> string list" where
  "resolveTargetMarkPriceMarkets targets fills positions reconcileFacts =
     concat (map (\<lambda>t. case as_market t of None \<Rightarrow> [] | Some m \<Rightarrow> [m]) targets)
       @ map ff_market fills @ map pf_market positions @ map rf_market reconcileFacts"

definition applyTargetScopeFilter :: "pnl_input \<Rightarrow> pnl_input" where
  "applyTargetScopeFilter inp =
     (let targets = ai_targetScopes inp
      in if targets = [] then inp
         else let fills = filter (\<lambda>f. matchesScopedFact targets (ff_strategyId f) (ff_market f)) (ai_fills inp);
                  positions = filter (\<lambda>p. matchesScopedFact targets (pf_strategyId p) (pf_market p)) (ai_positions inp);
                  costQuality = filter (\<lambda>q. matchesScopedFact targets (qf_strategyId q) (qf_market q)) (ai_costQuality inp);
                  reconcileFacts = filter (\<lambda>r. matchesScopedFact targets (rf_strategyId r) (rf_market r)) (ai_reconcileFacts inp);
                  markets = resolveTargetMarkPriceMarkets targets fills positions reconcileFacts
              in inp\<lparr>ai_fills := fills, ai_positions := positions,
                     ai_markPrices := filter (\<lambda>m. mf_market m \<in> set markets) (ai_markPrices inp),
                     ai_costQuality := costQuality,
                     ai_pnlSnapshots := filter (\<lambda>s. matchesSnapshot targets (sf_strategyId s) (sf_market s)) (ai_pnlSnapshots inp),
                     ai_reconcileFacts := reconcileFacts\<rparr>)"

section \<open>Current snapshots\<close>

definition createSnapshotTieBreakKey :: "snapshot_fact \<Rightarrow> json result" where
  "createSnapshotTieBreakKey s =
     bindR (toTime (sf_capturedAt s)) (\<lambda>t.
     bindR (parseFinancialDecimal (sf_equity s)) (\<lambda>equity.
     bindR (parseFinancialDecimal (sf_realizedPnl s)) (\<lambda>realized.
     bindR (parseFinancialDecimal (sf_unrealizedPnl s)) (\<lambda>unrealized.
     bindR (parseFinancialDecimal (sf_drawdownBps s)) (\<lambda>drawdown.
       Inr (JArr [JStr (sf_strategyId s), (case sf_market s of None \<Rightarrow> JNull | Some m \<Rightarrow> JStr m), JNum (Num (of_int t)),
         JNum (Num equity), JNum (Num realized), JNum (Num unrealized), JNum (Num drawdown)]))))))"

text \<open>\<^verbatim>\<open>compareSnapshotCandidate(left, right) > 0\<close>\<close>

definition snapshotPrecedes :: "pnl_env \<Rightarrow> snapshot_fact \<Rightarrow> snapshot_fact \<Rightarrow> bool result" where
  "snapshotPrecedes env left right =
     bindR (toTime (sf_capturedAt left)) (\<lambda>leftTime.
     bindR (toTime (sf_capturedAt right)) (\<lambda>rightTime.
       if leftTime \<noteq> rightTime then Inr (rightTime < leftTime)
       else bindR (createSnapshotTieBreakKey left) (\<lambda>l. bindR (createSnapshotTieBreakKey right) (\<lambda>r.
              Inr (pe_collateJson env r < pe_collateJson env l)))))"

type_synonym snapshot_index = "(string \<times> (string option \<times> snapshot_fact) list) list"

definition keepLatest :: "pnl_env \<Rightarrow> snapshot_fact \<Rightarrow> snapshot_index \<Rightarrow> snapshot_index result" where
  "keepLatest env s index =
     (let byMarket = (case map_of index (sf_strategyId s) of None \<Rightarrow> [] | Some b \<Rightarrow> b);
          store = (\<lambda>b. AList.update (sf_strategyId s) b index)
      in case map_of byMarket (sf_market s) of
           None \<Rightarrow> Inr (store (AList.update (sf_market s) s byMarket))
         | Some existing \<Rightarrow> bindR (snapshotPrecedes env s existing) (\<lambda>newer.
             Inr (store (if newer then AList.update (sf_market s) s byMarket else byMarket))))"

text \<open>What a strategy contributes, of its latest snapshots per market.\<close>

definition selectLayer :: "snapshot_fact list \<Rightarrow> (snapshot_fact list \<times> missing_reason list) result" where
  "selectLayer snapshots =
     (let markets = filter (\<lambda>s. sf_market s \<noteq> None) snapshots
      in case find (\<lambda>s. sf_market s = None) snapshots of
           None \<Rightarrow> Inr (markets, [])
         | Some aggregate \<Rightarrow>
             if markets = [] then Inr ([aggregate], [])
             else bindR (toTime (sf_capturedAt aggregate)) (\<lambda>aggregateTime.
                  bindR (mapR (\<lambda>s. toTime (sf_capturedAt s)) markets) (\<lambda>times.
                    if Max (set times) \<le> aggregateTime then Inr ([aggregate], [])
                    else Inr (map fst (filter (\<lambda>(s, t). aggregateTime < t) (zip markets times)),
                      [missing ''SNAPSHOT_COVERAGE_PARTIAL'' (scopeKey (sf_strategyId aggregate) None) ''pnl_snapshots'']))))"

text \<open>Grouping by strategy keeps the order in which strategies and their markets first appear.\<close>

definition excludeMarketSnapshotsCoveredByAggregate ::
  "snapshot_fact list list \<Rightarrow> (snapshot_fact list \<times> missing_reason list) result" where
  "excludeMarketSnapshotsCoveredByAggregate byStrategy =
     bindR (mapR selectLayer byStrategy) (\<lambda>layers. Inr (concat (map fst layers), concat (map snd layers)))"

definition compareSnapshotScope :: "pnl_env \<Rightarrow> snapshot_fact \<Rightarrow> nat list \<times> nat list" where
  "compareSnapshotScope env s =
     (pe_collate env (sf_strategyId s), pe_collate env (case sf_market s of None \<Rightarrow> [] | Some m \<Rightarrow> m))"

definition selectEffectiveSnapshots :: "pnl_env \<Rightarrow> snapshot_fact list \<Rightarrow> (snapshot_fact list \<times> missing_reason list) result" where
  "selectEffectiveSnapshots env snapshots =
     bindR (foldR (keepLatest env) snapshots []) (\<lambda>index.
     bindR (excludeMarketSnapshotsCoveredByAggregate (map (\<lambda>(strategyId, byMarket). map snd byMarket) index)) (\<lambda>(selected, reasons).
       Inr (sort_key (compareSnapshotScope env) selected, reasons)))"

fun jsonTextOf :: "json option \<Rightarrow> string option" where
  "jsonTextOf (Some (JStr s)) = Some s"
| "jsonTextOf _ = None"

definition isSnapshotPayloadMissingReason :: "json \<Rightarrow> missing_reason option" where
  "isSnapshotPayloadMissingReason j =
     (case j of
        JObj kvs \<Rightarrow>
         (case (jsonTextOf (map_of kvs ''message''), jsonTextOf (map_of kvs ''reasonCode''), jsonTextOf (map_of kvs ''scope''),
                jsonTextOf (map_of kvs ''source'')) of
            (Some m, Some c, Some sc, Some src) \<Rightarrow> Some (missing c sc src)
          | _ \<Rightarrow> None)
      | _ \<Rightarrow> None)"

definition payloadField :: "snapshot_fact \<Rightarrow> string \<Rightarrow> json option" where
  "payloadField s key = Option.bind (sf_payloadJson s) (\<lambda>kvs. map_of kvs key)"

definition extractSnapshotPayloadMissingReasons :: "snapshot_fact list \<Rightarrow> missing_reason list" where
  "extractSnapshotPayloadMissingReasons snapshots =
     concat (map (\<lambda>s. case payloadField s ''missingReasons'' of
       Some (JArr rs) \<Rightarrow> List.map_filter isSnapshotPayloadMissingReason rs | _ \<Rightarrow> []) snapshots)"

fun pnlStatusName :: "pnl_status \<Rightarrow> string" where
  "pnlStatusName CALCULATED = ''CALCULATED''"
| "pnlStatusName PARTIAL = ''PARTIAL''"
| "pnlStatusName UNAVAILABLE = ''UNAVAILABLE''"
| "pnlStatusName MANUAL_REVIEW_REQUIRED = ''MANUAL_REVIEW_REQUIRED''"

definition isPnLAccountingStatus :: "json option \<Rightarrow> pnl_status option" where
  "isPnLAccountingStatus v = Option.bind (jsonTextOf v)
     (\<lambda>s. find (\<lambda>st. pnlStatusName st = s) [CALCULATED, PARTIAL, UNAVAILABLE, MANUAL_REVIEW_REQUIRED])"

definition resolveSnapshotStatus :: "snapshot_fact \<Rightarrow> pnl_status" where
  "resolveSnapshotStatus s =
     (case isPnLAccountingStatus (payloadField s ''status'') of None \<Rightarrow> CALCULATED | Some st \<Rightarrow> st)"

definition addSnapshot :: "rounding \<Rightarrow> snapshot_fact \<Rightarrow> rat \<times> rat \<times> rat \<Rightarrow> (rat \<times> rat \<times> rat) result" where
  "addSnapshot rnd s = (\<lambda>(equity, realized, unrealized).
     bindR (parseFinancialDecimal (sf_equity s)) (\<lambda>e.
     bindR (parseFinancialDecimal (sf_realizedPnl s)) (\<lambda>r.
     bindR (parseFinancialDecimal (sf_unrealizedPnl s)) (\<lambda>u.
       Inr (dplus rnd equity e, dplus rnd realized r, dplus rnd unrealized u)))))"

text \<open>Equity, realized and unrealized profit of the snapshots; nothing when there is none.\<close>

definition summarizeSnapshots :: "rounding \<Rightarrow> snapshot_fact list \<Rightarrow> (rat \<times> rat \<times> rat) option result" where
  "summarizeSnapshots rnd snapshots =
     (if snapshots = [] then Inr None
      else bindR (foldR (addSnapshot rnd) snapshots (0, 0, 0)) (\<lambda>totals. Inr (Some totals)))"

end
