(* ===== verification/Pnl_Calculator.thy ===== *)
theory Pnl_Calculator
  imports Pnl_Sources
begin

text \<open>
  The calculation of \<^verbatim>\<open>src/src/application/pnl-accounting/calculator.ts\<close>, stage by stage: reconciled and stored
  positions that may open the ledger, the replay of the fills, the valuation of what is held, costs, scopes
  and the overall status. A value the calculation cannot establish is missing (\<open>None\<close>), never zero, and
  every gap leaves a reason.
\<close>

section \<open>Reconciled and stored positions\<close>

text \<open>
  The state of the two collecting loops: reasons for gaps, scopes whose fills may not be replayed, the
  positions kept for seeding and for reports, scopes whose realized profit has a gap, and whether a
  position of unknown size was met.
\<close>

record collected =
  co_missing :: "missing_reason list"
  co_blocked :: "string list"
  co_reconciled :: "position_fact list"
  co_fallback :: "position_fact list"
  co_opening :: "position_fact list"
  co_realizedGap :: "string list"
  co_unknown :: bool

definition noteMissing :: "missing_reason \<Rightarrow> collected \<Rightarrow> collected" where
  "noteMissing r c = c\<lparr>co_missing := co_missing c @ [r]\<rparr>"

abbreviation reconcileTable :: string where
  "reconcileTable \<equiv> ''live_reconcile_position_snapshots''"

text \<open>A reconciled position as a position fact; a missing quantity becomes zero.\<close>

definition toPositionLike :: "reconcile_fact \<Rightarrow> position_fact" where
  "toPositionLike r =
     \<lparr>pf_strategyId = rf_strategyId r, pf_market = rf_market r,
      pf_quantity = (case rf_quantity r of None \<Rightarrow> Num 0 | Some q \<Rightarrow> q), pf_averageEntryPrice = rf_averageEntryPrice r,
      pf_realizedPnl = Num 0, pf_unrealizedPnl = None, pf_updatedAt = rf_reconciledAt r,
      pf_source = reconcileTable @ '':'' @ (case rf_averageEntrySource r of None \<Rightarrow> ''reconciled'' | Some s \<Rightarrow> s)\<rparr>"

text \<open>The last two tests of a recoverable fact: its average price and its quantity.\<close>

definition takeRecoverable :: "reconcile_fact \<Rightarrow> collected \<Rightarrow> collected" where
  "takeRecoverable r c =
     (let key = scopeKey (rf_strategyId r) (Some (rf_market r))
      in if rf_averageEntryPrice r = None then
           (noteMissing (missing ''AVERAGE_ENTRY_MISSING'' key
              (case rf_averageEntrySource r of None \<Rightarrow> reconcileTable | Some s \<Rightarrow> s)) c)\<lparr>co_unknown := True\<rparr>
         else let c1 = (if rf_quantity r = None
                 then (noteMissing (missing ''POSITION_QUANTITY_MISSING'' key reconcileTable) c)\<lparr>co_unknown := True\<rparr> else c)
              in c1\<lparr>co_reconciled := co_reconciled c1 @ [toPositionLike r]\<rparr>)"

definition collectReconcile ::
  "rounding \<Rightarrow> pnl_env \<Rightarrow> pnl_input \<Rightarrow> snapshot_fact list \<Rightarrow> reconcile_fact \<Rightarrow> collected \<Rightarrow> collected result" where
  "collectReconcile rnd env inp snapshots r c =
     (let s = rf_strategyId r; m = rf_market r; key = scopeKey s (Some m); hasFill = isCoveredByFill (ai_fills inp) s m
      in if isCoveredBySnapshot snapshots s m then Inr c
         else if rf_recoveryStatus r \<noteq> ''RECOVERABLE'' then
           Inr (if hasFill then c
                else (noteMissing (missing (if rf_recoveryStatus r = ''MANUAL_REVIEW_REQUIRED'' then ''MANUAL_REVIEW_REQUIRED''
                        else ''RECOVERABLE_ONLY'') key reconcileTable) c)\<lparr>co_unknown := True\<rparr>)
         else bindR (findOpeningPositionSeedRequiredAt rnd env (ai_fills inp) s m) (\<lambda>requiredAt.
           if hasFill \<and> requiredAt = None then Inr c
           else if isCoveredByPosition (ai_positions inp) s m then Inr c
           else (case requiredAt of
               None \<Rightarrow> Inr (takeRecoverable r c)
             | Some t \<Rightarrow> bindR (toTime (rf_reconciledAt r)) (\<lambda>at_ms.
                 Inr (if t < at_ms then (noteMissing (missing ''FILL_OPENING_POSITION_SOURCE_MISSING'' key reconcileTable) c)
                        \<lparr>co_blocked := co_blocked c @ [key], co_unknown := True\<rparr>
                      else takeRecoverable r c)))))"

text \<open>The steps of the loop over stored positions, each under its condition.\<close>

definition checkAverage :: "string \<Rightarrow> bool \<Rightarrow> collected \<Rightarrow> collected" where
  "checkAverage key cond c = (if cond then noteMissing (missing ''AVERAGE_ENTRY_MISSING'' key ''positions'') c else c)"

definition keepOpening :: "position_fact \<Rightarrow> bool \<Rightarrow> collected \<Rightarrow> collected" where
  "keepOpening p cond c = (if cond then c\<lparr>co_opening := co_opening c @ [p]\<rparr> else c)"

definition blockReplay :: "string \<Rightarrow> bool \<Rightarrow> collected \<Rightarrow> collected" where
  "blockReplay key cond c =
     (if cond then (noteMissing (missing ''FILL_OPENING_POSITION_SOURCE_MISSING'' key ''positions'') c)
        \<lparr>co_blocked := co_blocked c @ [key], co_realizedGap := List.insert key (co_realizedGap c)\<rparr> else c)"

definition noteUnadjusted :: "string \<Rightarrow> bool \<Rightarrow> collected \<Rightarrow> collected" where
  "noteUnadjusted key cond c =
     (if cond \<and> key \<notin> set (co_realizedGap c)
      then (noteMissing (missing ''POSITION_REALIZED_PNL_UNADJUSTED'' key ''positions'') c)
        \<lparr>co_realizedGap := List.insert key (co_realizedGap c)\<rparr> else c)"

definition keepFallback :: "position_fact \<Rightarrow> collected \<Rightarrow> collected" where
  "keepFallback p c = c\<lparr>co_fallback := co_fallback c @ [p]\<rparr>"

definition collectPosition ::
  "rounding \<Rightarrow> pnl_env \<Rightarrow> pnl_input \<Rightarrow> snapshot_fact list \<Rightarrow> position_fact \<Rightarrow> collected \<Rightarrow> collected result" where
  "collectPosition rnd env inp snapshots p c =
     (let s = pf_strategyId p; m = pf_market p; key = scopeKey s (Some m); hasFill = isCoveredByFill (ai_fills inp) s m
      in if isCoveredBySnapshot snapshots s m then Inr c
         else bindR (findOpeningPositionSeedRequiredAt rnd env (ai_fills inp) s m) (\<lambda>requiredAt.
           bindR (case requiredAt of None \<Rightarrow> Inr True | Some t \<Rightarrow> bindR (toTime (pf_updatedAt p)) (\<lambda>u. Inr (u \<le> t))) (\<lambda>usable.
           bindR (parseNonNegativeDecimal (pf_quantity p)) (\<lambda>quantity.
             Inr (keepFallback p
               (noteUnadjusted key (\<not> hasFill)
               (blockReplay key (requiredAt \<noteq> None \<and> \<not> usable)
               (keepOpening p (\<not> hasFill \<or> requiredAt \<noteq> None)
               (checkAverage key (0 < quantity \<and> pf_averageEntryPrice p = None) c)))))))))"

section \<open>Mark prices\<close>

fun includesText :: "string \<Rightarrow> string \<Rightarrow> bool" where
  "includesText [] p = (p = [])"
| "includesText (c # cs) p = (startsWith (c # cs) p \<or> includesText cs p)"

definition markPriceSourceRank :: "string \<Rightarrow> nat" where
  "markPriceSourceRank src = (let normalized = toLowerCase src
     in if includesText normalized ''bid'' then 2 else if includesText normalized ''last'' then 1 else 0)"

definition createMarkPriceTieBreakKey :: "mark_price_fact \<Rightarrow> json" where
  "createMarkPriceTieBreakKey m = JArr [JStr (mf_market m), JNum (mf_priceKrw m), JStr (mf_source m)]"

text \<open>A price without a time is older than any other.\<close>

definition observedTimeOrUnknown :: "mark_price_fact \<Rightarrow> int option result" where
  "observedTimeOrUnknown m = (case mf_observedAt m of None \<Rightarrow> Inr None | Some t \<Rightarrow> bindR (toTime t) (\<lambda>ms. Inr (Some ms)))"

definition laterTime :: "int option \<Rightarrow> int option \<Rightarrow> bool" where
  "laterTime a b = (case (a, b) of (Some x, Some y) \<Rightarrow> y < x | (Some x, None) \<Rightarrow> True | _ \<Rightarrow> False)"

text \<open>\<^verbatim>\<open>compareMarkPriceCandidate(left, right) > 0\<close>\<close>

definition markPricePrecedes :: "pnl_env \<Rightarrow> mark_price_fact \<Rightarrow> mark_price_fact \<Rightarrow> bool result" where
  "markPricePrecedes env left right =
     bindR (observedTimeOrUnknown left) (\<lambda>leftTime. bindR (observedTimeOrUnknown right) (\<lambda>rightTime.
       Inr (if leftTime \<noteq> rightTime then laterTime leftTime rightTime
            else if markPriceSourceRank (mf_source left) \<noteq> markPriceSourceRank (mf_source right)
              then markPriceSourceRank (mf_source right) < markPriceSourceRank (mf_source left)
            else pe_collateJson env (createMarkPriceTieBreakKey right) < pe_collateJson env (createMarkPriceTieBreakKey left))))"

definition keepLatestMarkPrice ::
  "pnl_env \<Rightarrow> mark_price_fact \<Rightarrow> (string \<times> mark_price_fact) list \<Rightarrow> (string \<times> mark_price_fact) list result" where
  "keepLatestMarkPrice env m latest =
     (case map_of latest (mf_market m) of
        None \<Rightarrow> Inr (AList.update (mf_market m) m latest)
      | Some existing \<Rightarrow> bindR (markPricePrecedes env m existing) (\<lambda>newer.
          Inr (if newer then AList.update (mf_market m) m latest else latest)))"

definition buildMarkPriceMap :: "pnl_env \<Rightarrow> mark_price_fact list \<Rightarrow> (string \<times> rat) list result" where
  "buildMarkPriceMap env markPrices =
     bindR (foldR (keepLatestMarkPrice env) markPrices []) (\<lambda>latest.
       mapR (\<lambda>(market, m). bindR (parseNonNegativeDecimal (mf_priceKrw m)) (\<lambda>p. Inr (market, p))) latest)"

section \<open>Valuation\<close>

record position_detail =
  pd_strategyId :: string
  pd_market :: string
  pd_quantity :: rat
  pd_averageEntryPrice :: "rat option"
  pd_marketValueKrw :: "rat option"
  pd_unrealizedPnlKrw :: "rat option"
  pd_exposureBps :: "rat option"

definition reportedMarket :: "position_ledger \<Rightarrow> string" where
  "reportedMarket pos = (if pl_market pos = ''__aggregate__'' then [] else pl_market pos)"

fun marketValueFrom :: "rounding \<Rightarrow> (string \<times> rat) list \<Rightarrow> position_ledger list \<Rightarrow> rat \<Rightarrow> rat option" where
  "marketValueFrom rnd prices [] acc = Some acc"
| "marketValueFrom rnd prices (pos # poss) acc =
     (if pl_quantity pos = 0 then marketValueFrom rnd prices poss acc
      else case map_of prices (reportedMarket pos) of
             None \<Rightarrow> None
           | Some p \<Rightarrow> marketValueFrom rnd prices poss (dplus rnd acc (dtimes rnd (pl_quantity pos) p)))"

definition computeLedgerMarketValueForExposure :: "rounding \<Rightarrow> ledger \<Rightarrow> (string \<times> rat) list \<Rightarrow> rat option" where
  "computeLedgerMarketValueForExposure rnd l prices = marketValueFrom rnd prices (map snd (lg_positions l)) 0"

definition exposureEquity ::
  "rounding \<Rightarrow> rat option \<Rightarrow> rat option \<Rightarrow> rat option \<Rightarrow> bool \<Rightarrow> rat option" where
  "exposureEquity rnd totalMarketValue cash snapshotEquity hasTargets =
     (case totalMarketValue of
        None \<Rightarrow> None
      | Some v \<Rightarrow> (case snapshotEquity of
            Some e \<Rightarrow> if cash = None then None else Some (dplus rnd e v)
          | None \<Rightarrow> (case cash of Some c \<Rightarrow> if hasTargets then None else Some (dplus rnd c v) | None \<Rightarrow> None)))"

definition averageEntryPriceOf :: "rounding \<Rightarrow> position_ledger \<Rightarrow> rat option" where
  "averageEntryPriceOf rnd pos =
     (if 0 < pl_quantity pos \<and> 0 < pl_costBasisKrw pos then ddiv rnd (pl_costBasisKrw pos) (pl_quantity pos)
      else pl_initialAverageEntryPrice pos)"

definition unrealizedOf :: "rounding \<Rightarrow> rat option \<Rightarrow> position_ledger \<Rightarrow> rat option" where
  "unrealizedOf rnd markPrice pos =
     (case markPrice of
        None \<Rightarrow> pl_fallbackUnrealizedPnlKrw pos
      | Some p \<Rightarrow> (case averageEntryPriceOf rnd pos of
            Some avg \<Rightarrow> if 0 < pl_costBasisKrw pos
              then Some (dminus rnd (dtimes rnd (pl_quantity pos) p) (pl_costBasisKrw pos))
              else Some (dminus rnd (dtimes rnd (pl_quantity pos) p) (dtimes rnd (pl_quantity pos) avg))
          | None \<Rightarrow> pl_fallbackUnrealizedPnlKrw pos))"

definition exposureBpsOf :: "rounding \<Rightarrow> rat option \<Rightarrow> rat option \<Rightarrow> rat option" where
  "exposureBpsOf rnd marketValue equity =
     (case (marketValue, equity) of
        (Some v, Some e) \<Rightarrow> if 0 < e then map_option (\<lambda>q. dtimes rnd q 10000) (ddiv rnd v e) else None
      | _ \<Rightarrow> None)"

definition positionDetail :: "rounding \<Rightarrow> (string \<times> rat) list \<Rightarrow> rat option \<Rightarrow> position_ledger \<Rightarrow> position_detail" where
  "positionDetail rnd prices equity pos =
     (let markPrice = map_of prices (reportedMarket pos);
          marketValue = map_option (\<lambda>p. dtimes rnd (pl_quantity pos) p) markPrice
      in \<lparr>pd_strategyId = pl_strategyId pos, pd_market = reportedMarket pos, pd_quantity = pl_quantity pos,
          pd_averageEntryPrice = averageEntryPriceOf rnd pos, pd_marketValueKrw = marketValue,
          pd_unrealizedPnlKrw = unrealizedOf rnd markPrice pos, pd_exposureBps = exposureBpsOf rnd marketValue equity\<rparr>)"

definition unpricedReason :: "(string \<times> rat) list \<Rightarrow> string \<times> position_ledger \<Rightarrow> missing_reason list" where
  "unpricedReason prices = (\<lambda>(key, pos). if map_of prices (reportedMarket pos) \<noteq> None then []
     else [missing ''NO_MARK_PRICE'' (if pl_market pos = ''__aggregate__'' then scopeKey (pl_strategyId pos) None else key) ''mark_prices''])"

definition openPositions :: "ledger \<Rightarrow> (string \<times> position_ledger) list" where
  "openPositions l = filter (\<lambda>(key, pos). pl_quantity pos \<noteq> 0) (lg_positions l)"

definition calculatePositionDetails ::
  "rounding \<Rightarrow> ledger \<Rightarrow> (string \<times> rat) list \<Rightarrow> rat option \<Rightarrow> rat option \<Rightarrow> bool \<Rightarrow> position_detail list \<times> missing_reason list" where
  "calculatePositionDetails rnd l prices cash snapshotEquity hasTargets =
     (let equity = exposureEquity rnd (computeLedgerMarketValueForExposure rnd l prices) cash snapshotEquity hasTargets
      in (map (\<lambda>(key, pos). positionDetail rnd prices equity pos) (openPositions l),
          concat (map (unpricedReason prices) (openPositions l))))"

fun sumAll :: "rounding \<Rightarrow> rat option list \<Rightarrow> rat \<Rightarrow> rat option" where
  "sumAll rnd [] acc = Some acc"
| "sumAll rnd (None # xs) acc = None"
| "sumAll rnd (Some x # xs) acc = sumAll rnd xs (dplus rnd acc x)"

definition computePositionMarketValue :: "rounding \<Rightarrow> position_detail list \<Rightarrow> rat option" where
  "computePositionMarketValue rnd details = sumAll rnd (map pd_marketValueKrw details) 0"

definition computeUnrealizedPnl :: "rounding \<Rightarrow> position_detail list \<Rightarrow> rat option" where
  "computeUnrealizedPnl rnd details = sumAll rnd (map pd_unrealizedPnlKrw details) 0"

definition sumDecimalParts :: "rounding \<Rightarrow> (bool \<times> rat option) list \<Rightarrow> rat option" where
  "sumDecimalParts rnd parts =
     (let active = map snd (filter fst parts) in if active = [] then None else sumAll rnd active 0)"

section \<open>Costs\<close>

definition addMissingReasonOnce :: "missing_reason \<Rightarrow> missing_reason list \<Rightarrow> missing_reason list" where
  "addMissingReasonOnce r rs = (if r \<in> set rs then rs else rs @ [r])"

definition addFee :: "rounding \<Rightarrow> fill_fact \<Rightarrow> (string \<times> rat) list \<Rightarrow> (string \<times> rat) list result" where
  "addFee rnd f fees = bindR (parseNonNegativeDecimal (ff_fee f)) (\<lambda>fee.
     Inr (AList.update (ff_feeCurrency f)
       (dplus rnd (case map_of fees (ff_feeCurrency f) of None \<Rightarrow> 0 | Some x \<Rightarrow> x) fee) fees))"

definition aggregateFeesByCurrency :: "rounding \<Rightarrow> fill_fact list \<Rightarrow> (string \<times> rat) list result" where
  "aggregateFeesByCurrency rnd fills = foldR (addFee rnd) fills []"

definition buildFeeTotals :: "pnl_env \<Rightarrow> (string \<times> rat) list \<Rightarrow> (string \<times> rat) list" where
  "buildFeeTotals env fees = sort_key (\<lambda>(currency, amount). pe_collate env currency) fees"

definition noteForeignFee :: "fill_fact \<Rightarrow> missing_reason list \<Rightarrow> missing_reason list result" where
  "noteForeignFee f rs =
     (if ff_feeCurrency f = ''KRW'' then Inr rs
      else bindR (parseNonNegativeDecimal (ff_fee f)) (\<lambda>fee.
        Inr (if fee = 0 then rs
             else addMissingReasonOnce (missing ''NON_KRW_FEE_CONVERSION_MISSING'' (fillKey f) ''fills'') rs)))"

definition appendNonKrwFeeMissingReasons :: "fill_fact list \<Rightarrow> missing_reason list \<Rightarrow> missing_reason list result" where
  "appendNonKrwFeeMissingReasons = foldR noteForeignFee"

record quality_metric =
  qm_value :: "rat option"
  qm_available :: bool
  qm_sampleCount :: nat
  qm_source :: string

text \<open>A metric counts as observed when its text is there and not empty.\<close>

definition observedText :: "numeric option \<Rightarrow> numeric list" where
  "observedText x = (case x of None \<Rightarrow> [] | Some n \<Rightarrow> if n = NotDecimal [] then [] else [n])"

definition aggregateQualityMetric ::
  "rounding \<Rightarrow> (cost_quality_fact \<Rightarrow> numeric option) \<Rightarrow> cost_quality_fact list \<Rightarrow> quality_metric result" where
  "aggregateQualityMetric rnd field facts =
     bindR (mapR parseFinancialDecimal (concat (map (\<lambda>q. observedText (field q)) facts))) (\<lambda>values.
       Inr (if values = [] then \<lparr>qm_value = None, qm_available = False, qm_sampleCount = 0, qm_source = ''unavailable''\<rparr>
            else \<lparr>qm_value = ddiv rnd (foldl (dplus rnd) 0 values) (of_nat (length values)), qm_available = True,
                  qm_sampleCount = length values, qm_source = ''cost_quality_facts''\<rparr>))"

definition hasCostQualityMetric :: "cost_quality_fact list \<Rightarrow> string \<Rightarrow> string \<Rightarrow> (cost_quality_fact \<Rightarrow> numeric option) \<Rightarrow> bool" where
  "hasCostQualityMetric facts strategyId market field \<longleftrightarrow>
     (\<exists>q \<in> set facts. qf_strategyId q = strategyId \<and> qf_market q = market \<and> observedText (field q) \<noteq> [])"

definition requireFor ::
  "string \<Rightarrow> string \<Rightarrow> numeric \<Rightarrow> (string \<times> string \<times> string) list \<Rightarrow> (string \<times> string \<times> string) list result" where
  "requireFor strategyId market quantity required = bindR (parseNonNegativeDecimal quantity) (\<lambda>q.
     Inr (if 0 < q then AList.update (scopeKey strategyId (Some market)) (strategyId, market) required else required))"

definition resolveCostQualityScopeRequirements ::
  "pnl_env \<Rightarrow> fill_fact list \<Rightarrow> position_fact list \<Rightarrow> position_fact list \<Rightarrow> (string \<times> string) list result" where
  "resolveCostQualityScopeRequirements env fills fallback reconciled =
     bindR (foldR (\<lambda>f. requireFor (ff_strategyId f) (ff_market f) (ff_quantity f)) fills []) (\<lambda>r1.
     bindR (foldR (\<lambda>p. requireFor (pf_strategyId p) (pf_market p) (pf_quantity p)) (fallback @ reconciled) r1) (\<lambda>r2.
       Inr (sort_key (\<lambda>(s, m). pe_collate env (scopeKey s (Some m))) (map snd r2))))"

definition noteUnobserved ::
  "cost_quality_fact list \<Rightarrow> string \<times> string \<Rightarrow> (cost_quality_fact \<Rightarrow> numeric option) \<times> string \<Rightarrow> missing_reason list
   \<Rightarrow> missing_reason list" where
  "noteUnobserved facts required metric rs =
     (if hasCostQualityMetric facts (fst required) (snd required) (fst metric) then rs
      else addMissingReasonOnce (missing (snd metric) (scopeKey (fst required) (Some (snd required))) ''cost_quality_facts'') rs)"

definition appendCostQualityMissingReasons ::
  "(string \<times> string) list \<Rightarrow> cost_quality_fact list \<Rightarrow> missing_reason list \<Rightarrow> missing_reason list" where
  "appendCostQualityMissingReasons requirements facts rs =
     fold (\<lambda>required. fold (noteUnobserved facts required)
         [(qf_spreadCostBps, ''SPREAD_COST_SOURCE_MISSING''), (qf_slippageBps, ''SLIPPAGE_SOURCE_MISSING''),
          (qf_cancelRequotePenaltyBps, ''CANCEL_REQUOTE_SOURCE_MISSING'')]) requirements rs"

section \<open>Times\<close>

text \<open>An empty text counts as no time where the source tests for truth.\<close>

definition presentTime :: "timestamp option \<Rightarrow> timestamp list" where
  "presentTime t = (case t of None \<Rightarrow> [] | Some x \<Rightarrow> if x = BadTime [] then [] else [x])"

definition findLastSourceTimestamp :: "pnl_input \<Rightarrow> int option result" where
  "findLastSourceTimestamp inp =
     bindR (mapR toTime (map ff_filledAt (ai_fills inp) @ map pf_updatedAt (ai_positions inp)
         @ concat (map (\<lambda>m. presentTime (mf_observedAt m)) (ai_markPrices inp)) @ map sf_capturedAt (ai_pnlSnapshots inp)
         @ presentTime (map_option cf_observedAt (ai_cash inp)) @ map rf_reconciledAt (ai_reconcileFacts inp))) (\<lambda>times.
       Inr (if times = [] then None else Some (Max (set times))))"

definition resolveCalculationCapturedAt :: "pnl_input \<Rightarrow> int result" where
  "resolveCalculationCapturedAt inp =
     (case ai_capturedAt inp of
        Some t \<Rightarrow> toTime t
      | None \<Rightarrow> (case tr_lastSourceTimestamp (ai_trace inp) of
            Some t \<Rightarrow> toTime t
          | None \<Rightarrow> bindR (findLastSourceTimestamp inp) (\<lambda>last_ms. Inr (case last_ms of None \<Rightarrow> 0 | Some ms \<Rightarrow> ms))))"

definition buildTrace :: "pnl_input \<Rightarrow> snapshot_fact list \<Rightarrow> pnl_trace result" where
  "buildTrace inp snapshots =
     (let tables = (if ai_fills inp \<noteq> [] then [''fills''] else []) @ (if snapshots \<noteq> [] then [''pnl_snapshots''] else [])
            @ (if ai_positions inp \<noteq> [] then [''positions''] else [])
            @ (if ai_reconcileFacts inp \<noteq> [] then [reconcileTable] else []);
          trace = ai_trace inp
      in bindR (findLastSourceTimestamp inp) (\<lambda>last_ms.
           Inr (trace\<lparr>tr_sourceTables := (if tables \<noteq> [] then Some tables else tr_sourceTables trace),
                      tr_lastSourceTimestamp := (case last_ms of Some ms \<Rightarrow> Some (At (ms * 1000000)) | None \<Rightarrow> tr_lastSourceTimestamp trace)\<rparr>)))"

section \<open>Scopes and status\<close>

definition shouldIncludeOutputScope :: "accounting_scope list \<Rightarrow> string \<Rightarrow> string option \<Rightarrow> bool" where
  "shouldIncludeOutputScope targets strategyId market \<longleftrightarrow> targets = [] \<or>
     (\<exists>t \<in> set targets. as_strategyId t = strategyId \<and> (as_market t = None \<or> as_market t = market))"

text \<open>A scope is added under its key unless it is filtered out or the key is taken.\<close>

definition addScope ::
  "accounting_scope list \<Rightarrow> string \<Rightarrow> string option \<Rightarrow> bool \<Rightarrow> string \<Rightarrow> (int \<times> pnl_status) result
   \<Rightarrow> string list \<times> accounting_scope list \<Rightarrow> (string list \<times> accounting_scope list) result" where
  "addScope targets strategyId market skip src details = (\<lambda>(seen, scopes).
     let key = scopeKey strategyId market
     in if \<not> shouldIncludeOutputScope targets strategyId market \<or> key \<in> set seen \<or> skip then Inr (seen, scopes)
        else bindR details (\<lambda>(ms, st). Inr (seen @ [key],
          scopes @ [\<lparr>as_strategyId = strategyId, as_market = market, as_capturedAt = ms, as_source = src, as_status = st\<rparr>])))"

definition findOpenPositionsForScope :: "ledger \<Rightarrow> string \<Rightarrow> string option \<Rightarrow> position_ledger list" where
  "findOpenPositionsForScope l strategyId market =
     filter (\<lambda>p. pl_strategyId p = strategyId \<and> (market = None \<or> market = Some (pl_market p)) \<and> 0 < pl_quantity p)
       (map snd (lg_positions l))"

definition hasMarkPrice :: "pnl_input \<Rightarrow> string \<Rightarrow> bool" where
  "hasMarkPrice inp market \<longleftrightarrow> market \<in> mf_market ` set (ai_markPrices inp)"

definition resolveFillScopeCapturedAt :: "fill_fact list \<Rightarrow> string \<Rightarrow> string option \<Rightarrow> int \<Rightarrow> int result" where
  "resolveFillScopeCapturedAt fills strategyId market fallback =
     bindR (mapR (\<lambda>f. toTime (ff_filledAt f))
       (filter (\<lambda>f. ff_strategyId f = strategyId \<and> (market = None \<or> market = Some (ff_market f))) fills)) (\<lambda>times.
       Inr (if times = [] then fallback else Max (set times)))"

definition snapshotScope :: "pnl_input \<Rightarrow> snapshot_fact \<Rightarrow> string list \<times> accounting_scope list \<Rightarrow> (string list \<times> accounting_scope list) result" where
  "snapshotScope inp s = addScope (ai_targetScopes inp) (sf_strategyId s) (sf_market s) False ''pnl_snapshots''
     (bindR (toTime (sf_capturedAt s)) (\<lambda>ms. Inr (ms, resolveSnapshotStatus s)))"

definition reviewScope ::
  "pnl_input \<Rightarrow> snapshot_fact list \<Rightarrow> fill_fact list \<Rightarrow> reconcile_fact \<Rightarrow> string list \<times> accounting_scope list
   \<Rightarrow> (string list \<times> accounting_scope list) result" where
  "reviewScope inp snapshots fills r = addScope (ai_targetScopes inp) (rf_strategyId r) (Some (rf_market r))
     (isCoveredBySnapshot snapshots (rf_strategyId r) (rf_market r) \<or> isCoveredByFill fills (rf_strategyId r) (rf_market r)
      \<or> rf_recoveryStatus r = ''RECOVERABLE'') reconcileTable
     (bindR (toTime (rf_reconciledAt r)) (\<lambda>ms. Inr (ms, MANUAL_REVIEW_REQUIRED)))"

definition fillScope ::
  "pnl_input \<Rightarrow> fill_fact list \<Rightarrow> ledger \<Rightarrow> int \<Rightarrow> string \<times> string \<times> string option \<Rightarrow> string list \<times> accounting_scope list
   \<Rightarrow> (string list \<times> accounting_scope list) result" where
  "fillScope inp fills l fallback = (\<lambda>(key, s, m). addScope (ai_targetScopes inp) s m False ''fills''
     (bindR (resolveFillScopeCapturedAt fills s m fallback) (\<lambda>ms.
       Inr (ms, if list_ex (\<lambda>p. \<not> hasMarkPrice inp (pl_market p)) (findOpenPositionsForScope l s m) then PARTIAL else CALCULATED))))"

definition recoverableScope ::
  "pnl_input \<Rightarrow> snapshot_fact list \<Rightarrow> reconcile_fact \<Rightarrow> string list \<times> accounting_scope list
   \<Rightarrow> (string list \<times> accounting_scope list) result" where
  "recoverableScope inp snapshots r = addScope (ai_targetScopes inp) (rf_strategyId r) (Some (rf_market r))
     (isCoveredBySnapshot snapshots (rf_strategyId r) (rf_market r) \<or> rf_recoveryStatus r \<noteq> ''RECOVERABLE''
      \<or> isCoveredByPosition (ai_positions inp) (rf_strategyId r) (rf_market r)) reconcileTable
     (bindR (case rf_quantity r of None \<Rightarrow> Inr False | Some q \<Rightarrow> bindR (parseNonNegativeDecimal q) (\<lambda>x. Inr (0 < x))) (\<lambda>open_quantity.
      bindR (toTime (rf_reconciledAt r)) (\<lambda>ms.
        Inr (ms, if rf_averageEntryPrice r = None then MANUAL_REVIEW_REQUIRED
                 else if rf_quantity r = None \<or> open_quantity \<and> \<not> hasMarkPrice inp (rf_market r) then PARTIAL else CALCULATED))))"

definition positionScope ::
  "pnl_input \<Rightarrow> snapshot_fact list \<Rightarrow> position_fact \<Rightarrow> string list \<times> accounting_scope list
   \<Rightarrow> (string list \<times> accounting_scope list) result" where
  "positionScope inp snapshots p = addScope (ai_targetScopes inp) (pf_strategyId p) (Some (pf_market p))
     (isCoveredBySnapshot snapshots (pf_strategyId p) (pf_market p)) ''positions''
     (bindR (parseNonNegativeDecimal (pf_quantity p)) (\<lambda>quantity.
      bindR (toTime (pf_updatedAt p)) (\<lambda>ms.
        Inr (ms, if 0 < quantity \<and> (pf_averageEntryPrice p = None \<or> \<not> hasMarkPrice inp (pf_market p)) then PARTIAL else CALCULATED))))"

definition buildScopes ::
  "pnl_input \<Rightarrow> snapshot_fact list \<Rightarrow> fill_fact list \<Rightarrow> ledger \<Rightarrow> int \<Rightarrow> accounting_scope list result" where
  "buildScopes inp snapshots fills l capturedAt =
     bindR (foldR (snapshotScope inp) snapshots ([], [])) (\<lambda>s1.
     bindR (foldR (reviewScope inp snapshots fills) (ai_reconcileFacts inp) s1) (\<lambda>s2.
     bindR (foldR (fillScope inp fills l capturedAt) (resolveFillScopes fills) s2) (\<lambda>s3.
     bindR (foldR (recoverableScope inp snapshots) (ai_reconcileFacts inp) s3) (\<lambda>s4.
     bindR (foldR (positionScope inp snapshots) (ai_positions inp) s4) (\<lambda>(seen, scopes).
       Inr (if scopes = [] then [\<lparr>as_strategyId = ''global'', as_market = None, as_capturedAt = capturedAt,
              as_source = ''unavailable'', as_status = UNAVAILABLE\<rparr>] else scopes))))))"

definition determineStatus :: "accounting_scope list \<Rightarrow> missing_reason list \<Rightarrow> pnl_input \<Rightarrow> pnl_status" where
  "determineStatus scopes reasons inp =
     (let statuses = set (map as_status scopes)
      in if scopes = [] then UNAVAILABLE
         else if MANUAL_REVIEW_REQUIRED \<in> statuses then MANUAL_REVIEW_REQUIRED
         else if UNAVAILABLE \<in> statuses \<and> reasons \<noteq> [] then UNAVAILABLE
         else if PARTIAL \<in> statuses then PARTIAL
         else if reasons \<noteq> [] then PARTIAL
         else if statuses \<subseteq> {CALCULATED} then CALCULATED
         else if ai_fills inp \<noteq> [] \<or> ai_positions inp \<noteq> [] \<or> ai_pnlSnapshots inp \<noteq> [] \<or> ai_reconcileFacts inp \<noteq> []
           then PARTIAL else UNAVAILABLE)"

section \<open>The calculation\<close>

record pnl_stage =
  sg_snapshots :: "snapshot_fact list"
  sg_totals :: "(rat \<times> rat \<times> rat) option"
  sg_collected :: collected
  sg_fills :: "fill_fact list"
  sg_ledger :: ledger

definition replayable :: "snapshot_fact list \<Rightarrow> string list \<Rightarrow> fill_fact \<Rightarrow> bool" where
  "replayable snapshots blockedScopes f \<longleftrightarrow>
     \<not> isCoveredBySnapshot snapshots (ff_strategyId f) (ff_market f) \<and> fillKey f \<notin> set blockedScopes"

text \<open>From the facts to the ledger.\<close>

definition prepareLedger :: "rounding \<Rightarrow> pnl_env \<Rightarrow> pnl_input \<Rightarrow> pnl_stage result" where
  "prepareLedger rnd env inp =
     bindR (selectEffectiveSnapshots env (ai_pnlSnapshots inp)) (\<lambda>(snapshots, reasons).
     bindR (summarizeSnapshots rnd snapshots) (\<lambda>totals.
     bindR (foldR (collectReconcile rnd env inp snapshots) (ai_reconcileFacts inp)
       \<lparr>co_missing = reasons @ extractSnapshotPayloadMissingReasons snapshots, co_blocked = [], co_reconciled = [],
        co_fallback = [], co_opening = [], co_realizedGap = [], co_unknown = False\<rparr>) (\<lambda>c1.
     bindR (foldR (collectPosition rnd env inp snapshots) (ai_positions inp) c1) (\<lambda>c2.
     bindR (sortFillsByExecutionTime env (filter (replayable snapshots (co_blocked c2)) (ai_fills inp))) (\<lambda>fills.
     bindR (seedLedgerFromReconcile rnd (co_reconciled c2) createEmptyLedger) (\<lambda>l1.
     bindR (seedLedgerFromPositions rnd (co_opening c2) l1) (\<lambda>l2.
     bindR (applyFillsToLedger rnd fills l2) (\<lambda>l.
       Inr \<lparr>sg_snapshots = snapshots, sg_totals = totals, sg_collected = c2, sg_fills = fills, sg_ledger = l\<rparr>))))))))"

text \<open>The figures over the ledger, the cash and the prices.\<close>

record pnl_figures =
  fg_realized :: "rat option"
  fg_unrealized :: "rat option"
  fg_total :: "rat option"
  fg_marketValue :: "rat option"
  fg_equity :: "rat option"
  fg_details :: "position_detail list"
  fg_missing :: "missing_reason list"

definition hasLedgerTradingData :: "pnl_stage \<Rightarrow> bool" where
  "hasLedgerTradingData st \<longleftrightarrow> sg_fills st \<noteq> [] \<or> co_fallback (sg_collected st) \<noteq> [] \<or>
     co_reconciled (sg_collected st) \<noteq> [] \<and> \<not> co_unknown (sg_collected st)"

definition resolveTargetScopeReasonScope :: "accounting_scope list \<Rightarrow> string" where
  "resolveTargetScopeReasonScope targets =
     (case targets of [t] \<Rightarrow> scopeKey (as_strategyId t) (as_market t) | _ \<Rightarrow> ''global'')"

definition totalEquity ::
  "rounding \<Rightarrow> bool \<Rightarrow> bool \<Rightarrow> rat option \<Rightarrow> rat option \<Rightarrow> rat option \<Rightarrow> rat option" where
  "totalEquity rnd gap sizeOpen snapshotEquity cash marketValue =
     (if gap then None
      else case snapshotEquity of
             Some e \<Rightarrow> (case marketValue of
                 None \<Rightarrow> if sizeOpen then None else Some e
               | Some v \<Rightarrow> Some (dplus rnd e v))
           | None \<Rightarrow> (case (cash, marketValue) of (Some c, Some v) \<Rightarrow> Some (dplus rnd c v) | _ \<Rightarrow> None))"

definition computeFigures :: "rounding \<Rightarrow> pnl_input \<Rightarrow> pnl_stage \<Rightarrow> rat option \<Rightarrow> (string \<times> rat) list \<Rightarrow> pnl_figures" where
  "computeFigures rnd inp st cash prices =
     (let c = sg_collected st; snapshotEquity = map_option fst (sg_totals st); hasTargets = (ai_targetScopes inp \<noteq> []);
          m1 = (if cash = None \<and> snapshotEquity = None
            then co_missing c @ [missing ''NO_CASH_SOURCE'' ''global'' ''cash''] else co_missing c);
          (details, unpriced) = calculatePositionDetails rnd (sg_ledger st) prices cash snapshotEquity hasTargets;
          m2 = m1 @ unpriced;
          marketValue = (if co_unknown c then None else if sg_snapshots st \<noteq> [] \<and> details = [] then None
            else computePositionMarketValue rnd details);
          ledgerUnrealized = (if co_unknown c then None else computeUnrealizedPnl rnd details);
          realized = (if co_unknown c \<or> co_realizedGap c \<noteq> [] then None
            else sumDecimalParts rnd [(sg_snapshots st \<noteq> [], map_option (\<lambda>t. fst (snd t)) (sg_totals st)),
              (hasLedgerTradingData st, Some (lg_realizedPnlKrw (sg_ledger st)))]);
          unrealized = (if co_unknown c then None
            else sumDecimalParts rnd [(sg_snapshots st \<noteq> [], map_option (\<lambda>t. snd (snd t)) (sg_totals st)),
              (hasLedgerTradingData st, ledgerUnrealized)]);
          mixedGap = (snapshotEquity \<noteq> None \<and> cash = None \<and> marketValue \<noteq> None \<and> details \<noteq> []);
          m3 = (if mixedGap then addMissingReasonOnce (missing ''NO_CASH_SOURCE'' ''global'' ''cash'') m2 else m2);
          scopedGap = (hasTargets \<and> snapshotEquity = None \<and> cash \<noteq> None \<and> marketValue \<noteq> None);
          m4 = (if scopedGap then addMissingReasonOnce
              (missing ''SCOPED_CASH_SOURCE_MISSING'' (resolveTargetScopeReasonScope (ai_targetScopes inp)) ''cash'') m3 else m3)
      in \<lparr>fg_realized = realized, fg_unrealized = unrealized,
          fg_total = (case (realized, unrealized) of (Some r, Some u) \<Rightarrow> Some (dplus rnd r u) | _ \<Rightarrow> None),
          fg_marketValue = marketValue,
          fg_equity = totalEquity rnd (mixedGap \<or> scopedGap) (details \<noteq> [] \<or> co_unknown c) snapshotEquity cash marketValue,
          fg_details = details, fg_missing = m4\<rparr>)"

record pnl_output =
  ao_scopes :: "accounting_scope list"
  ao_status :: pnl_status
  ao_realizedPnlKrw :: "rat option"
  ao_unrealizedPnlKrw :: "rat option"
  ao_totalPnlKrw :: "rat option"
  ao_cashKrw :: "rat option"
  ao_positionMarketValueKrw :: "rat option"
  ao_equityKrw :: "rat option"
  ao_positions :: "position_detail list"
  ao_feeTotals :: "(string \<times> rat) list"
  ao_spreadCost :: quality_metric
  ao_slippage :: quality_metric
  ao_cancelRequote :: quality_metric
  ao_missingReasons :: "missing_reason list"
  ao_trace :: pnl_trace

definition whenTrading :: "pnl_stage \<Rightarrow> rat option \<Rightarrow> rat option" where
  "whenTrading st x = (if hasLedgerTradingData st \<or> sg_snapshots st \<noteq> [] then x else None)"

definition assembleOutput ::
  "pnl_input \<Rightarrow> pnl_stage \<Rightarrow> rat option \<Rightarrow> pnl_figures \<Rightarrow> (string \<times> rat) list \<Rightarrow> quality_metric \<Rightarrow> quality_metric \<Rightarrow> quality_metric
   \<Rightarrow> missing_reason list \<Rightarrow> accounting_scope list \<Rightarrow> pnl_trace \<Rightarrow> pnl_output" where
  "assembleOutput inp st cash fg feeTotals spread slippage requote reasons scopes trace =
     \<lparr>ao_scopes = scopes, ao_status = determineStatus scopes reasons inp,
      ao_realizedPnlKrw = whenTrading st (fg_realized fg), ao_unrealizedPnlKrw = whenTrading st (fg_unrealized fg),
      ao_totalPnlKrw = whenTrading st (fg_total fg), ao_cashKrw = cash, ao_positionMarketValueKrw = fg_marketValue fg,
      ao_equityKrw = fg_equity fg, ao_positions = fg_details fg, ao_feeTotals = feeTotals, ao_spreadCost = spread,
      ao_slippage = slippage, ao_cancelRequote = requote, ao_missingReasons = reasons, ao_trace = trace\<rparr>"

definition readCash :: "pnl_input \<Rightarrow> rat option result" where
  "readCash inp = (case ai_cash inp of None \<Rightarrow> Inr None
     | Some cf \<Rightarrow> bindR (parseFinancialDecimal (cf_totalKrw cf)) (\<lambda>x. Inr (Some x)))"

definition calculateFiltered :: "rounding \<Rightarrow> pnl_env \<Rightarrow> pnl_input \<Rightarrow> pnl_output result" where
  "calculateFiltered rnd env inp =
     bindR (prepareLedger rnd env inp) (\<lambda>st.
     bindR (readCash inp) (\<lambda>cash.
     bindR (buildMarkPriceMap env (ai_markPrices inp)) (\<lambda>prices.
       let fg = computeFigures rnd inp st cash prices in
     bindR (aggregateFeesByCurrency rnd (ai_fills inp)) (\<lambda>fees.
     bindR (appendNonKrwFeeMissingReasons (ai_fills inp) (fg_missing fg)) (\<lambda>m1.
     bindR (aggregateQualityMetric rnd qf_spreadCostBps (ai_costQuality inp)) (\<lambda>spread.
     bindR (aggregateQualityMetric rnd qf_slippageBps (ai_costQuality inp)) (\<lambda>slippage.
     bindR (aggregateQualityMetric rnd qf_cancelRequotePenaltyBps (ai_costQuality inp)) (\<lambda>requote.
     bindR (resolveCostQualityScopeRequirements env (ai_fills inp) (co_fallback (sg_collected st)) (co_reconciled (sg_collected st))) (\<lambda>required.
     bindR (resolveCalculationCapturedAt inp) (\<lambda>capturedAt.
     bindR (buildScopes inp (sg_snapshots st) (sg_fills st) (sg_ledger st) capturedAt) (\<lambda>scopes.
     bindR (buildTrace inp (sg_snapshots st)) (\<lambda>trace.
       Inr (assembleOutput inp st cash fg (buildFeeTotals env fees) spread slippage requote
         (appendCostQualityMissingReasons required (ai_costQuality inp) m1) scopes trace)))))))))))))"

definition calculatePnLAccounting :: "rounding \<Rightarrow> pnl_env \<Rightarrow> pnl_input \<Rightarrow> pnl_output result" where
  "calculatePnLAccounting rnd env inp = calculateFiltered rnd env (applyTargetScopeFilter inp)"

section \<open>Lemmas\<close>

text \<open>Every gap the collecting loops meet has left a reason.\<close>

definition gapsNoted :: "collected \<Rightarrow> bool" where
  "gapsNoted c \<longleftrightarrow> (co_missing c = [] \<longrightarrow> \<not> co_unknown c \<and> co_realizedGap c = [] \<and> co_blocked c = [])"

lemma gapsNoted_reconcile: "collectReconcile rnd env inp snapshots r c = Inr c' \<Longrightarrow> gapsNoted c \<Longrightarrow> gapsNoted c'"
  by (auto simp: collectReconcile_def takeRecoverable_def gapsNoted_def noteMissing_def bindR_Inr_iff Let_def
      split: if_splits option.splits)

lemma insert_not_Nil [simp]: "List.insert x xs \<noteq> []"
  by (simp add: List.insert_def) auto

lemma gapsNoted_steps:
  "gapsNoted c \<Longrightarrow> gapsNoted (checkAverage key b c)" "gapsNoted c \<Longrightarrow> gapsNoted (keepOpening p b c)"
  "gapsNoted c \<Longrightarrow> gapsNoted (blockReplay key b c)" "gapsNoted c \<Longrightarrow> gapsNoted (noteUnadjusted key b c)"
  "gapsNoted c \<Longrightarrow> gapsNoted (keepFallback p c)"
  by (simp_all add: gapsNoted_def checkAverage_def keepOpening_def blockReplay_def noteUnadjusted_def keepFallback_def noteMissing_def)

lemma gapsNoted_position: "collectPosition rnd env inp snapshots p c = Inr c' \<Longrightarrow> gapsNoted c \<Longrightarrow> gapsNoted c'"
  by (auto simp: collectPosition_def bindR_Inr_iff Let_def intro!: gapsNoted_steps split: if_splits)

lemma prepareLedger_gapsNoted:
  assumes "prepareLedger rnd env inp = Inr st"
  shows "gapsNoted (sg_collected st)"
proof -
  from assms obtain snapshots reasons c1 where
    c1: "foldR (collectReconcile rnd env inp snapshots) (ai_reconcileFacts inp)
       \<lparr>co_missing = reasons @ extractSnapshotPayloadMissingReasons snapshots, co_blocked = [], co_reconciled = [],
        co_fallback = [], co_opening = [], co_realizedGap = [], co_unknown = False\<rparr> = Inr c1"
    and c2: "foldR (collectPosition rnd env inp snapshots) (ai_positions inp) c1 = Inr (sg_collected st)"
    by (auto simp: prepareLedger_def bindR_Inr_iff)
  have "gapsNoted c1" by (rule foldR_invariant [OF c1]) (auto simp: gapsNoted_def [of "\<lparr>co_missing = _, co_blocked = _, co_reconciled = _,
        co_fallback = _, co_opening = _, co_realizedGap = _, co_unknown = _\<rparr>"] dest: gapsNoted_reconcile)
  then show ?thesis by (rule foldR_invariant [OF c2]) (rule gapsNoted_position)
qed

lemma prepareLedger_totals:
  "prepareLedger rnd env inp = Inr st \<Longrightarrow> sg_totals st = None \<longleftrightarrow> sg_snapshots st = []"
  by (auto simp: prepareLedger_def summarizeSnapshots_def bindR_Inr_iff split: if_splits)

lemma sumAll_Some: "(\<forall>x \<in> set xs. x \<noteq> None) \<Longrightarrow> \<exists>v. sumAll rnd xs acc = Some v"
  by (induction xs arbitrary: acc) auto

lemma sumDecimalParts_Some:
  "list_ex fst parts \<Longrightarrow> (\<forall>p \<in> set parts. fst p \<longrightarrow> snd p \<noteq> None) \<Longrightarrow> \<exists>v. sumDecimalParts rnd parts = Some v"
  unfolding sumDecimalParts_def Let_def
  by (auto simp: list_ex_iff filter_empty_conv intro!: sumAll_Some)

lemma unpriced_empty_iff:
  "concat (map (unpricedReason prices) ps) = [] \<longleftrightarrow> (\<forall>p \<in> set ps. map_of prices (reportedMarket (snd p)) \<noteq> None)"
  by (auto simp: unpricedReason_def split: if_splits)

lemma addMissingReasonOnce_not_Nil [simp]: "addMissingReasonOnce r rs \<noteq> []"
  by (auto simp: addMissingReasonOnce_def)

text \<open>Reasons are only ever added.\<close>

lemma appendNonKrw_grows: "appendNonKrwFeeMissingReasons fills rs = Inr rs' \<Longrightarrow> rs' = [] \<Longrightarrow> rs = []"
  unfolding appendNonKrwFeeMissingReasons_def
  by (erule foldR_invariant [where I = "\<lambda>x. x = [] \<longrightarrow> rs = []", THEN mp])
    (auto simp: noteForeignFee_def bindR_Inr_iff split: if_splits)

lemma fold_noteUnobserved: "rs \<noteq> [] \<Longrightarrow> fold (noteUnobserved facts required) metrics rs \<noteq> []"
  by (induction metrics arbitrary: rs) (auto simp: noteUnobserved_def)

lemma fold_requirements: "rs \<noteq> [] \<Longrightarrow> fold (\<lambda>required. fold (noteUnobserved facts required) metrics) requirements rs \<noteq> []"
  by (induction requirements arbitrary: rs) (simp_all add: fold_noteUnobserved)

lemma appendCostQuality_grows: "appendCostQualityMissingReasons requirements facts rs = [] \<Longrightarrow> rs = []"
  unfolding appendCostQualityMissingReasons_def using fold_requirements by blast

lemma determineStatus_CALCULATED:
  "determineStatus scopes reasons inp = CALCULATED \<longleftrightarrow> scopes \<noteq> [] \<and> reasons = [] \<and> (\<forall>s \<in> set scopes. as_status s = CALCULATED)"
  by (auto simp: determineStatus_def Let_def)

lemma positionDetail_figures:
  assumes "map_of prices (reportedMarket pos) \<noteq> None"
  shows "pd_marketValueKrw (positionDetail rnd prices equity pos) \<noteq> None"
    and "pd_averageEntryPrice (positionDetail rnd prices equity pos) \<noteq> None \<longrightarrow>
      pd_unrealizedPnlKrw (positionDetail rnd prices equity pos) \<noteq> None"
  using assms by (auto simp: positionDetail_def unrealizedOf_def Let_def)

lemma details_cases:
  assumes "calculatePositionDetails rnd l prices cash snapshotEquity hasTargets = (details, unpriced)" and "unpriced = []"
  shows "\<forall>d \<in> set details. pd_marketValueKrw d \<noteq> None"
    and "\<forall>d \<in> set details. pd_averageEntryPrice d \<noteq> None \<longrightarrow> pd_unrealizedPnlKrw d \<noteq> None"
proof -
  obtain equity where d: "details = map (\<lambda>(key, pos). positionDetail rnd prices equity pos) (openPositions l)"
    and u: "concat (map (unpricedReason prices) (openPositions l)) = []"
    using assms by (auto simp: calculatePositionDetails_def Let_def)
  have "map_of prices (reportedMarket (snd p)) \<noteq> None" if "p \<in> set (openPositions l)" for p
    using u that unfolding unpriced_empty_iff by blast
  then show "\<forall>d \<in> set details. pd_marketValueKrw d \<noteq> None"
    and "\<forall>d \<in> set details. pd_averageEntryPrice d \<noteq> None \<longrightarrow> pd_unrealizedPnlKrw d \<noteq> None"
    using positionDetail_figures unfolding d by fastforce+
qed

text \<open>With no reason missing, the figures are there.\<close>

lemma computeFigures_complete:
  assumes none: "fg_missing (computeFigures rnd inp st cash prices) = []"
    and gaps: "gapsNoted (sg_collected st)" and totals: "sg_totals st = None \<longleftrightarrow> sg_snapshots st = []"
  shows "\<exists>e. fg_equity (computeFigures rnd inp st cash prices) = Some e"
    and "\<forall>d \<in> set (fg_details (computeFigures rnd inp st cash prices)). pd_marketValueKrw d \<noteq> None"
    and "hasLedgerTradingData st \<or> sg_snapshots st \<noteq> [] \<Longrightarrow>
      \<exists>v. fg_realized (computeFigures rnd inp st cash prices) = Some v"
    and "hasLedgerTradingData st \<or> sg_snapshots st \<noteq> [] \<Longrightarrow>
      \<forall>d \<in> set (fg_details (computeFigures rnd inp st cash prices)). pd_averageEntryPrice d \<noteq> None \<Longrightarrow>
      \<exists>v. fg_unrealized (computeFigures rnd inp st cash prices) = Some v"
proof -
  define snapEq where "snapEq = map_option fst (sg_totals st)"
  obtain details unpriced where d: "calculatePositionDetails rnd (sg_ledger st) prices cash snapEq (ai_targetScopes inp \<noteq> []) = (details, unpriced)"
    by fastforce
  note unfolded = none [unfolded computeFigures_def Let_def snapEq_def [symmetric] d prod.case pnl_figures.simps]
  have c: "co_missing (sg_collected st) = []" and u: "unpriced = []" and cash: "cash \<noteq> None \<or> snapEq \<noteq> None"
    using unfolded by (auto split: if_splits)
  then have g: "\<not> co_unknown (sg_collected st)" "co_realizedGap (sg_collected st) = []"
    using gaps by (simp_all add: gapsNoted_def)
  define mv where "mv = (if sg_snapshots st \<noteq> [] \<and> details = [] then None else computePositionMarketValue rnd details)"
  have mv_some: "mv \<noteq> None" if "\<not> (sg_snapshots st \<noteq> [] \<and> details = [])"
    using that sumAll_Some [of "map pd_marketValueKrw details" rnd 0] details_cases(1) [OF d u]
    by (auto simp: mv_def computePositionMarketValue_def)
  have gaps: "\<not> (snapEq \<noteq> None \<and> cash = None \<and> mv \<noteq> None \<and> details \<noteq> [])"
    "\<not> (ai_targetScopes inp \<noteq> [] \<and> snapEq = None \<and> cash \<noteq> None \<and> mv \<noteq> None)"
    using unfolded g by (auto simp: mv_def split: if_splits)
  have snap: "snapEq = None \<longleftrightarrow> sg_snapshots st = []" using totals by (simp add: snapEq_def)
  have mv_eq: "(if co_unknown (sg_collected st) then None else if sg_snapshots st \<noteq> [] \<and> details = [] then None
      else computePositionMarketValue rnd details) = mv"
    using g by (simp add: mv_def)
  have equity: "fg_equity (computeFigures rnd inp st cash prices) = totalEquity rnd False (details \<noteq> []) snapEq cash mv"
    unfolding computeFigures_def Let_def snapEq_def [symmetric] d prod.case pnl_figures.simps mv_eq
    by (simp only: gaps g simp_thms)
  have fig: "fg_details (computeFigures rnd inp st cash prices) = details"
    "fg_realized (computeFigures rnd inp st cash prices) =
       sumDecimalParts rnd [(sg_snapshots st \<noteq> [], map_option (\<lambda>t. fst (snd t)) (sg_totals st)),
              (hasLedgerTradingData st, Some (lg_realizedPnlKrw (sg_ledger st)))]"
    "fg_unrealized (computeFigures rnd inp st cash prices) =
       sumDecimalParts rnd [(sg_snapshots st \<noteq> [], map_option (\<lambda>t. snd (snd t)) (sg_totals st)),
              (hasLedgerTradingData st, computeUnrealizedPnl rnd details)]"
    unfolding computeFigures_def Let_def snapEq_def [symmetric] d prod.case pnl_figures.simps
    using g by simp_all
  show "\<exists>e. fg_equity (computeFigures rnd inp st cash prices) = Some e"
    unfolding equity using cash mv_some snap by (auto simp: totalEquity_def split: option.splits)
  show "\<forall>d \<in> set (fg_details (computeFigures rnd inp st cash prices)). pd_marketValueKrw d \<noteq> None"
    unfolding fig using details_cases(1) [OF d u] .
  assume trading: "hasLedgerTradingData st \<or> sg_snapshots st \<noteq> []"
  then show "\<exists>v. fg_realized (computeFigures rnd inp st cash prices) = Some v"
    unfolding fig using totals by (intro sumDecimalParts_Some) auto
  assume "\<forall>d \<in> set (fg_details (computeFigures rnd inp st cash prices)). pd_averageEntryPrice d \<noteq> None"
  then have "computeUnrealizedPnl rnd details \<noteq> None"
    using details_cases(2) [OF d u] sumAll_Some [of "map pd_unrealizedPnlKrw details" rnd 0]
    unfolding fig by (auto simp: computeUnrealizedPnl_def)
  then show "\<exists>v. fg_unrealized (computeFigures rnd inp st cash prices) = Some v"
    unfolding fig using trading totals by (intro sumDecimalParts_Some) auto
qed

lemma foldR_reaches:
  assumes "foldR f xs s = Inr s'" and "x \<in> set xs" and "\<And>s s'. f x s = Inr s' \<Longrightarrow> P s'"
    and "\<And>y s s'. y \<in> set xs \<Longrightarrow> P s \<Longrightarrow> f y s = Inr s' \<Longrightarrow> P s'"
  shows "P s'"
  using assms
proof (induction xs arbitrary: s)
  case (Cons y ys)
  from Cons.prems(1) obtain s1 where s1: "f y s = Inr s1" "foldR f ys s1 = Inr s'" by (auto simp: bindR_Inr_iff)
  show ?case
  proof (cases "x = y")
    case True
    then have "P s1" using Cons.prems(3) s1(1) by blast
    then show ?thesis using foldR_invariant [OF s1(2), of P] Cons.prems(4) by auto
  next
    case False
    then have "x \<in> set ys" using Cons.prems(2) by simp
    then show ?thesis
    proof (rule Cons.IH [OF s1(2)])
      show "f x s = Inr s' \<Longrightarrow> P s'" for s s' by (rule Cons.prems(3))
      show "z \<in> set ys \<Longrightarrow> P s \<Longrightarrow> f z s = Inr s' \<Longrightarrow> P s'" for z s s' using Cons.prems(4) [of z s s'] by simp
    qed
  qed
qed simp

lemma isCovered_Nil [simp]: "\<not> isCoveredBySnapshot [] s m" "\<not> isCoveredByFill [] s m" "\<not> isCoveredByPosition [] s m"
  by (simp_all add: isCoveredBySnapshot_def isCoveredByFill_def isCoveredByPosition_def)

lemma step_fields [simp]:
  "co_missing (keepOpening p b c) = co_missing c" "co_missing (keepFallback p c) = co_missing c"
  "co_reconciled (checkAverage key b c) = co_reconciled c" "co_reconciled (keepOpening p b c) = co_reconciled c"
  "co_reconciled (blockReplay key b c) = co_reconciled c" "co_reconciled (noteUnadjusted key b c) = co_reconciled c"
  "co_reconciled (keepFallback p c) = co_reconciled c" "co_fallback (keepFallback p c) = co_fallback c @ [p]"
  "co_fallback (checkAverage key b c) = co_fallback c" "co_fallback (keepOpening p b c) = co_fallback c"
  "co_fallback (blockReplay key b c) = co_fallback c" "co_fallback (noteUnadjusted key b c) = co_fallback c"
  by (simp_all add: checkAverage_def keepOpening_def blockReplay_def noteUnadjusted_def keepFallback_def noteMissing_def)

lemma collectReconcile_keeps:
  "collectReconcile rnd env inp snapshots r c = Inr c' \<Longrightarrow> co_missing c \<noteq> [] \<or> co_reconciled c \<noteq> [] \<Longrightarrow>
   co_missing c' \<noteq> [] \<or> co_reconciled c' \<noteq> []"
  by (auto simp: collectReconcile_def takeRecoverable_def noteMissing_def bindR_Inr_iff Let_def
      split: if_splits option.splits)

lemma collectReconcile_alone:
  assumes "collectReconcile rnd env inp [] r c = Inr c'" and "ai_fills inp = []" and "ai_positions inp = []"
  shows "co_missing c' \<noteq> [] \<or> co_reconciled c' \<noteq> []"
  using assms
  by (auto simp: collectReconcile_def takeRecoverable_def noteMissing_def bindR_Inr_iff Let_def
      split: if_splits option.splits)

lemma collectPosition_fallback:
  "collectPosition rnd env inp snapshots p c = Inr c' \<Longrightarrow>
   (if isCoveredBySnapshot snapshots (pf_strategyId p) (pf_market p) then c' = c else co_fallback c' = co_fallback c @ [p])"
  by (auto simp: collectPosition_def bindR_Inr_iff Let_def split: if_splits)

text \<open>An input from which nothing is taken, with no reason noted, is empty.\<close>

lemma prepareLedger_nothing:
  assumes run: "prepareLedger rnd env inp = Inr st" and none: "co_missing (sg_collected st) = []"
    and idle: "\<not> hasLedgerTradingData st" "sg_snapshots st = []"
  shows "ai_fills inp = []" and "ai_positions inp = []" and "ai_reconcileFacts inp = []" and "sg_fills st = []"
proof -
  define c where "c = sg_collected st"
  have gaps: "\<not> co_unknown c" "co_blocked c = []"
    using prepareLedger_gapsNoted [OF run] none by (simp_all add: gapsNoted_def c_def)
  then have empty: "sg_fills st = []" "co_fallback c = []" "co_reconciled c = []"
    using idle by (auto simp: hasLedgerTradingData_def c_def)
  from run obtain c0 c1 where
    c1: "foldR (collectReconcile rnd env inp []) (ai_reconcileFacts inp) c0 = Inr c1"
    and c2: "foldR (collectPosition rnd env inp []) (ai_positions inp) c1 = Inr c"
    and fills: "sortFillsByExecutionTime env (filter (replayable [] (co_blocked c)) (ai_fills inp)) = Inr (sg_fills st)"
    using idle(2) by (auto simp: prepareLedger_def bindR_Inr_iff c_def)
  show f: "ai_fills inp = []"
  proof -
    have "filter (replayable [] []) (ai_fills inp) = ai_fills inp" by (simp add: replayable_def)
    then have "sortFillsByExecutionTime env (ai_fills inp) = Inr []" using fills gaps(2) empty(1) by simp
    then have "length (ai_fills inp) = 0"
      by (auto simp: sortFillsByExecutionTime_def bindR_Inr_iff split: if_splits) (metis length_0_conv length_sort)
    then show ?thesis by simp
  qed
  show p: "ai_positions inp = []"
  proof (rule ccontr)
    assume "ai_positions inp \<noteq> []"
    then obtain p where "p \<in> set (ai_positions inp)" by (cases "ai_positions inp") auto
    then have "co_fallback c \<noteq> []"
      by (rule foldR_reaches [OF c2, where P = "\<lambda>c. co_fallback c \<noteq> []"]) (auto dest!: collectPosition_fallback split: if_splits)
    then show False using empty by simp
  qed
  show "ai_reconcileFacts inp = []"
  proof (rule ccontr)
    assume "ai_reconcileFacts inp \<noteq> []"
    then obtain r where "r \<in> set (ai_reconcileFacts inp)" by (cases "ai_reconcileFacts inp") auto
    then have "co_missing c1 \<noteq> [] \<or> co_reconciled c1 \<noteq> []"
    proof (rule foldR_reaches [OF c1])
      show "collectReconcile rnd env inp [] r s = Inr s' \<Longrightarrow> co_missing s' \<noteq> [] \<or> co_reconciled s' \<noteq> []" for s s'
        using collectReconcile_alone [OF _ f p] by blast
    qed (rule collectReconcile_keeps)
    then have "co_missing c \<noteq> [] \<or> co_reconciled c \<noteq> []"
      using c2 p by simp
    then show False using none empty by (simp add: c_def)
  qed
  show "sg_fills st = []" by (rule empty)
qed

lemma buildScopes_nothing:
  "ai_positions inp = [] \<Longrightarrow> ai_reconcileFacts inp = [] \<Longrightarrow> buildScopes inp [] [] l t = Inr scopes \<Longrightarrow>
   \<exists>s \<in> set scopes. as_status s = UNAVAILABLE"
  by (auto simp: buildScopes_def resolveFillScopes_def)

lemma assembleOutput_fields [simp]:
  "ao_scopes (assembleOutput inp st cash fg fees spread slippage requote reasons scopes trace) = scopes"
  "ao_missingReasons (assembleOutput inp st cash fg fees spread slippage requote reasons scopes trace) = reasons"
  "ao_status (assembleOutput inp st cash fg fees spread slippage requote reasons scopes trace) = determineStatus scopes reasons inp"
  "ao_equityKrw (assembleOutput inp st cash fg fees spread slippage requote reasons scopes trace) = fg_equity fg"
  "ao_positions (assembleOutput inp st cash fg fees spread slippage requote reasons scopes trace) = fg_details fg"
  "ao_positionMarketValueKrw (assembleOutput inp st cash fg fees spread slippage requote reasons scopes trace) = fg_marketValue fg"
  "ao_realizedPnlKrw (assembleOutput inp st cash fg fees spread slippage requote reasons scopes trace) = whenTrading st (fg_realized fg)"
  "ao_unrealizedPnlKrw (assembleOutput inp st cash fg fees spread slippage requote reasons scopes trace) = whenTrading st (fg_unrealized fg)"
  "ao_totalPnlKrw (assembleOutput inp st cash fg fees spread slippage requote reasons scopes trace) = whenTrading st (fg_total fg)"
  by (simp_all add: assembleOutput_def)

lemma calculateFiltered_stages:
  "calculateFiltered rnd env inp = Inr out \<longleftrightarrow>
    (\<exists>st cash prices fees m1 spread slippage requote required capturedAt scopes trace.
      prepareLedger rnd env inp = Inr st \<and> readCash inp = Inr cash \<and> buildMarkPriceMap env (ai_markPrices inp) = Inr prices \<and>
      aggregateFeesByCurrency rnd (ai_fills inp) = Inr fees \<and>
      appendNonKrwFeeMissingReasons (ai_fills inp) (fg_missing (computeFigures rnd inp st cash prices)) = Inr m1 \<and>
      aggregateQualityMetric rnd qf_spreadCostBps (ai_costQuality inp) = Inr spread \<and>
      aggregateQualityMetric rnd qf_slippageBps (ai_costQuality inp) = Inr slippage \<and>
      aggregateQualityMetric rnd qf_cancelRequotePenaltyBps (ai_costQuality inp) = Inr requote \<and>
      resolveCostQualityScopeRequirements env (ai_fills inp) (co_fallback (sg_collected st)) (co_reconciled (sg_collected st)) = Inr required \<and>
      resolveCalculationCapturedAt inp = Inr capturedAt \<and>
      buildScopes inp (sg_snapshots st) (sg_fills st) (sg_ledger st) capturedAt = Inr scopes \<and>
      buildTrace inp (sg_snapshots st) = Inr trace \<and>
      out = assembleOutput inp st cash (computeFigures rnd inp st cash prices) (buildFeeTotals env fees) spread slippage requote
         (appendCostQualityMissingReasons required (ai_costQuality inp) m1) scopes trace)" (is "?run \<longleftrightarrow> ?stages")
proof
  assume ?run
  then show ?stages
    unfolding calculateFiltered_def Let_def bindR_Inr_iff sum.inject
    by (elim exE conjE) (intro exI conjI; (assumption | erule sym))
next
  assume ?stages
  then show ?run by (elim exE conjE) (simp only: calculateFiltered_def Let_def bindR_simps)
qed

lemma fg_total_eq:
  "fg_total (computeFigures rnd inp st cash prices) =
    (case (fg_realized (computeFigures rnd inp st cash prices), fg_unrealized (computeFigures rnd inp st cash prices)) of
       (Some r, Some u) \<Rightarrow> Some (dplus rnd r u) | _ \<Rightarrow> None)"
  unfolding computeFigures_def Let_def prod.case_eq_if pnl_figures.simps by (rule refl)

section \<open>Properties\<close>

text \<open>
  C24. An accounting that reports CALCULATED is complete: no reason is missing and every scope is
  calculated; realized profit and equity are there, and every open position has a market value. If every
  open position has an average entry price, unrealized profit is there too and the total is its sum with
  the realized profit. Conversely a single missing reason keeps the status from being CALCULATED.
\<close>

theorem calculated_is_complete:
  assumes "calculatePnLAccounting rnd env inp = Inr out" and "ao_status out = CALCULATED"
  shows "ao_missingReasons out = [] \<and> (\<forall>s \<in> set (ao_scopes out). as_status s = CALCULATED) \<and>
    (\<exists>e. ao_equityKrw out = Some e) \<and> (\<forall>d \<in> set (ao_positions out). pd_marketValueKrw d \<noteq> None) \<and>
    (\<exists>r. ao_realizedPnlKrw out = Some r \<and>
       ((\<forall>d \<in> set (ao_positions out). pd_averageEntryPrice d \<noteq> None) \<longrightarrow>
         (\<exists>u. ao_unrealizedPnlKrw out = Some u \<and> ao_totalPnlKrw out = Some (dplus rnd r u))))"
proof -
  define inp0 where "inp0 = applyTargetScopeFilter inp"
  from assms(1) have run: "calculateFiltered rnd env inp0 = Inr out" by (simp add: calculatePnLAccounting_def inp0_def)
  then obtain st cash prices m1 required t where st: "prepareLedger rnd env inp0 = Inr st"
    and out: "ao_equityKrw out = fg_equity (computeFigures rnd inp0 st cash prices)"
      "ao_realizedPnlKrw out = whenTrading st (fg_realized (computeFigures rnd inp0 st cash prices))"
      "ao_unrealizedPnlKrw out = whenTrading st (fg_unrealized (computeFigures rnd inp0 st cash prices))"
      "ao_totalPnlKrw out = whenTrading st (fg_total (computeFigures rnd inp0 st cash prices))"
      "ao_positions out = fg_details (computeFigures rnd inp0 st cash prices)"
    and reasons: "appendNonKrwFeeMissingReasons (ai_fills inp0) (fg_missing (computeFigures rnd inp0 st cash prices)) = Inr m1"
      "ao_missingReasons out = appendCostQualityMissingReasons required (ai_costQuality inp0) m1"
    and scopes: "buildScopes inp0 (sg_snapshots st) (sg_fills st) (sg_ledger st) t = Inr (ao_scopes out)"
    and status: "ao_status out = determineStatus (ao_scopes out) (ao_missingReasons out) inp0"
    unfolding calculateFiltered_stages by auto
  have complete: "ao_missingReasons out = []" "\<forall>s \<in> set (ao_scopes out). as_status s = CALCULATED"
    using assms(2) status determineStatus_CALCULATED by metis+
  then have none: "fg_missing (computeFigures rnd inp0 st cash prices) = []"
    using reasons appendNonKrw_grows appendCostQuality_grows by metis
  note fig = computeFigures_complete [OF none prepareLedger_gapsNoted [OF st] prepareLedger_totals [OF st]]
  have trading: "hasLedgerTradingData st \<or> sg_snapshots st \<noteq> []"
  proof (rule ccontr)
    assume idle: "\<not> (hasLedgerTradingData st \<or> sg_snapshots st \<noteq> [])"
    have "co_missing (sg_collected st) = []"
      using none by (simp add: computeFigures_def Let_def addMissingReasonOnce_def split: if_splits prod.splits)
    from prepareLedger_nothing [OF st this] idle show False
      using buildScopes_nothing [of inp0 "sg_ledger st" t] scopes complete(2) by fastforce
  qed
  then show ?thesis
    unfolding out whenTrading_def fg_total_eq using complete fig by fastforce
qed

text \<open>
  Two coins bought at 100 for a fee of 1 are held at a price of 110 beside 1000 in cash.
\<close>

definition examplePnlInput :: "snapshot_fact list \<Rightarrow> fill_fact list \<Rightarrow> pnl_input" where
  "examplePnlInput snapshots fills =
     \<lparr>ai_capturedAt = Some (At 5000000), ai_targetScopes = [], ai_fills = fills, ai_positions = [],
      ai_markPrices = [\<lparr>mf_market = ''KRW-BTC'', mf_priceKrw = Num 110, mf_observedAt = Some (At 3000000), mf_source = ''bid''\<rparr>],
      ai_cash = Some \<lparr>cf_availableKrw = Num 1000, cf_lockedKrw = Num 0, cf_totalKrw = Num 1000, cf_source = ''broker'',
        cf_observedAt = At 3000000\<rparr>,
      ai_costQuality = map (\<lambda>s. \<lparr>qf_strategyId = s, qf_market = ''KRW-BTC'', qf_spreadCostBps = Some (Num 1),
        qf_slippageBps = Some (Num 2), qf_cancelRequotePenaltyBps = Some (Num 0), qf_source = ''fixture''\<rparr>) [''s1'', ''s2''],
      ai_pnlSnapshots = snapshots, ai_reconcileFacts = [],
      ai_trace = \<lparr>tr_runId = None, tr_correlationId = None, tr_sourceTables = None, tr_lastSourceTimestamp = None\<rparr>\<rparr>"

lemma example_calculated:
  "(case calculatePnLAccounting exactRound examplePnlEnv (examplePnlInput [] [exampleFill BUY 100 1]) of
     Inr out \<Rightarrow> ao_status out = CALCULATED \<and> ao_totalPnlKrw out = Some 19 | Inl e \<Rightarrow> False)"
  by code_simp

theorem calculated_is_complete_witness:
  "\<exists>out e. calculatePnLAccounting exactRound examplePnlEnv (examplePnlInput [] [exampleFill BUY 100 1]) = Inr out \<and>
     ao_status out = CALCULATED \<and> ao_totalPnlKrw out = Some 19 \<and> ao_missingReasons out = [] \<and> ao_equityKrw out = Some e"
proof -
  obtain out where out: "calculatePnLAccounting exactRound examplePnlEnv (examplePnlInput [] [exampleFill BUY 100 1]) = Inr out"
    "ao_status out = CALCULATED" "ao_totalPnlKrw out = Some 19"
    using example_calculated by (auto split: sum.splits)
  then show ?thesis using calculated_is_complete [OF out(1,2)] by auto
qed

end
