(* ===== verification/Pnl_Coverage.thy ===== *)
theory Pnl_Coverage
  imports Pnl_Calculator
begin

text \<open>
  What a stored snapshot covers is not counted twice: fills, positions and reconciled facts of covered
  scopes have no influence on the figures of \<open>calculatePnLAccounting\<close>.
\<close>

definition uncovered :: "snapshot_fact list \<Rightarrow> string \<Rightarrow> string \<Rightarrow> bool" where
  "uncovered snapshots s m \<longleftrightarrow> \<not> isCoveredBySnapshot snapshots s m"

definition dropCovered :: "snapshot_fact list \<Rightarrow> pnl_input \<Rightarrow> pnl_input" where
  "dropCovered snapshots inp =
     inp\<lparr>ai_fills := filter (\<lambda>f. uncovered snapshots (ff_strategyId f) (ff_market f)) (ai_fills inp),
         ai_positions := filter (\<lambda>p. uncovered snapshots (pf_strategyId p) (pf_market p)) (ai_positions inp),
         ai_reconcileFacts := filter (\<lambda>r. uncovered snapshots (rf_strategyId r) (rf_market r)) (ai_reconcileFacts inp)\<rparr>"

definition plainStrategies :: "pnl_input \<Rightarrow> bool" where
  "plainStrategies inp \<longleftrightarrow>
     (\<forall>s \<in> ff_strategyId ` set (ai_fills inp) \<union> pf_strategyId ` set (ai_positions inp) \<union> rf_strategyId ` set (ai_reconcileFacts inp).
        CHR '':'' \<notin> set s)"

lemma foldR_filter:
  assumes "\<And>x. x \<in> set xs \<Longrightarrow> P x \<Longrightarrow> g x = f x" and "\<And>x s. x \<in> set xs \<Longrightarrow> \<not> P x \<Longrightarrow> f x s = Inr s"
  shows "foldR g (filter P xs) s = foldR f xs s"
  using assms by (induction xs arbitrary: s) (auto simp: bindR_def split: sum.split)

text \<open>A fold succeeds when it succeeds on each element, in whatever state.\<close>

lemma foldR_ok:
  assumes "\<And>x s. x \<in> set xs \<Longrightarrow> ok x \<Longrightarrow> is_ok (f x s)" and "\<forall>x \<in> set xs. ok x"
  shows "is_ok (foldR f xs s)"
  using assms
proof (induction xs arbitrary: s)
  case (Cons x xs)
  from Cons.prems obtain s1 where "f x s = Inr s1" using is_ok_iff by fastforce
  moreover have "is_ok (foldR f xs s1)" using Cons.prems by (intro Cons.IH) auto
  ultimately show ?case by simp
qed simp

lemma foldR_each_ok:
  assumes "foldR f xs s = Inr s'" and "\<And>x s s'. f x s = Inr s' \<Longrightarrow> ok x"
  shows "\<forall>x \<in> set xs. ok x"
  using assms(1) by (induction xs arbitrary: s) (auto simp: bindR_Inr_iff intro: assms(2))

lemma foldR_filter_ok:
  assumes "foldR f xs s = Inr s'" and "\<And>x s. is_ok (f x s) \<longleftrightarrow> ok x"
  shows "is_ok (foldR f (filter P xs) t)"
proof (rule foldR_ok [where ok = ok])
  show "\<forall>x \<in> set (filter P xs). ok x" using foldR_each_ok [OF assms(1), of ok] assms(2) is_ok_iff by fastforce
qed (simp add: assms(2))

lemma mapR_ok_iff: "is_ok (mapR f xs) \<longleftrightarrow> (\<forall>x \<in> set xs. is_ok (f x))"
  by (induction xs) (auto simp: is_ok_iff bindR_Inr_iff)

lemma is_ok_bind_Inr: "is_ok (bindR r (\<lambda>x. Inr (g x))) \<longleftrightarrow> is_ok r"
  by (cases r) simp_all

section \<open>The ledger\<close>

lemma fill_coverage_dropped:
  assumes "plainStrategies inp" and "CHR '':'' \<notin> set s" and "uncovered snapshots s m"
  shows "isCoveredByFill (ai_fills (dropCovered snapshots inp)) s m \<longleftrightarrow> isCoveredByFill (ai_fills inp) s m"
proof -
  have "uncovered snapshots (ff_strategyId f) (ff_market f)" if "f \<in> set (ai_fills inp)" "scopeKey s (Some m) = fillKey f" for f
    using that assms by (auto simp: fillKey_def plainStrategies_def scopeKey_Some_inject)
  then show ?thesis by (auto simp: isCoveredByFill_def dropCovered_def)
qed

lemma position_coverage_dropped:
  assumes "plainStrategies inp" and "CHR '':'' \<notin> set s" and "uncovered snapshots s m"
  shows "isCoveredByPosition (ai_positions (dropCovered snapshots inp)) s m \<longleftrightarrow> isCoveredByPosition (ai_positions inp) s m"
proof -
  have "uncovered snapshots (pf_strategyId p) (pf_market p)" if "p \<in> set (ai_positions inp)" "scopeKey s (Some m) = positionKey p" for p
    using that assms by (auto simp: positionKey_def plainStrategies_def scopeKey_Some_inject)
  then show ?thesis by (auto simp: isCoveredByPosition_def dropCovered_def)
qed

lemma opening_seed_dropped:
  assumes "uncovered snapshots s m"
  shows "findOpeningPositionSeedRequiredAt rnd env (ai_fills (dropCovered snapshots inp)) s m =
    findOpeningPositionSeedRequiredAt rnd env (ai_fills inp) s m"
proof -
  have "filter (ofScope s m) (filter (\<lambda>f. uncovered snapshots (ff_strategyId f) (ff_market f)) (ai_fills inp)) =
      filter (ofScope s m) (ai_fills inp)"
    unfolding filter_filter using assms by (intro filter_cong) (auto simp: ofScope_def)
  then show ?thesis by (simp add: findOpeningPositionSeedRequiredAt_def dropCovered_def)
qed

lemma collectReconcile_dropped:
  assumes "plainStrategies inp" and "r \<in> set (ai_reconcileFacts inp)" and "uncovered snapshots (rf_strategyId r) (rf_market r)"
  shows "collectReconcile rnd env (dropCovered snapshots inp) snapshots r = collectReconcile rnd env inp snapshots r"
proof -
  have s: "CHR '':'' \<notin> set (rf_strategyId r)" using assms by (auto simp: plainStrategies_def)
  show ?thesis
    unfolding collectReconcile_def Let_def fill_coverage_dropped [OF assms(1) s assms(3)]
      position_coverage_dropped [OF assms(1) s assms(3)] opening_seed_dropped [OF assms(3)]
    by (rule refl)
qed

lemma collectPosition_dropped:
  assumes "plainStrategies inp" and "p \<in> set (ai_positions inp)" and "uncovered snapshots (pf_strategyId p) (pf_market p)"
  shows "collectPosition rnd env (dropCovered snapshots inp) snapshots p = collectPosition rnd env inp snapshots p"
proof -
  have s: "CHR '':'' \<notin> set (pf_strategyId p)" using assms by (auto simp: plainStrategies_def)
  show ?thesis
    unfolding collectPosition_def Let_def fill_coverage_dropped [OF assms(1) s assms(3)] opening_seed_dropped [OF assms(3)]
    by (rule refl)
qed

lemma covered_skipped:
  "\<not> uncovered snapshots (rf_strategyId r) (rf_market r) \<Longrightarrow> collectReconcile rnd env inp snapshots r c = Inr c"
  "\<not> uncovered snapshots (pf_strategyId p) (pf_market p) \<Longrightarrow> collectPosition rnd env inp snapshots p c = Inr c"
  by (simp_all add: uncovered_def collectReconcile_def collectPosition_def Let_def)

lemma replayable_dropped:
  "filter (replayable snapshots blockedScopes) (ai_fills (dropCovered snapshots inp)) = filter (replayable snapshots blockedScopes) (ai_fills inp)"
  unfolding dropCovered_def by (simp add: filter_filter) (intro filter_cong, auto simp: replayable_def uncovered_def)

lemma folds_dropped:
  assumes "plainStrategies inp"
  shows "foldR (collectReconcile rnd env (dropCovered snapshots inp) snapshots) (ai_reconcileFacts (dropCovered snapshots inp)) c =
      foldR (collectReconcile rnd env inp snapshots) (ai_reconcileFacts inp) c"
    and "foldR (collectPosition rnd env (dropCovered snapshots inp) snapshots) (ai_positions (dropCovered snapshots inp)) c =
      foldR (collectPosition rnd env inp snapshots) (ai_positions inp) c"
proof -
  have "ai_reconcileFacts (dropCovered snapshots inp) = filter (\<lambda>r. uncovered snapshots (rf_strategyId r) (rf_market r)) (ai_reconcileFacts inp)"
    "ai_positions (dropCovered snapshots inp) = filter (\<lambda>p. uncovered snapshots (pf_strategyId p) (pf_market p)) (ai_positions inp)"
    by (simp_all add: dropCovered_def)
  then show "foldR (collectReconcile rnd env (dropCovered snapshots inp) snapshots) (ai_reconcileFacts (dropCovered snapshots inp)) c =
      foldR (collectReconcile rnd env inp snapshots) (ai_reconcileFacts inp) c"
    and "foldR (collectPosition rnd env (dropCovered snapshots inp) snapshots) (ai_positions (dropCovered snapshots inp)) c =
      foldR (collectPosition rnd env inp snapshots) (ai_positions inp) c"
    using collectReconcile_dropped [OF assms] collectPosition_dropped [OF assms] covered_skipped
    by (simp_all add: foldR_filter)
qed

lemma prepareLedger_dropped:
  assumes "plainStrategies inp" and "selectEffectiveSnapshots env (ai_pnlSnapshots inp) = Inr (snapshots, reasons)"
  shows "prepareLedger rnd env (dropCovered snapshots inp) = prepareLedger rnd env inp"
proof -
  have "ai_pnlSnapshots (dropCovered snapshots inp) = ai_pnlSnapshots inp" by (simp add: dropCovered_def)
  then show ?thesis
    unfolding prepareLedger_def using assms(2) by (simp add: folds_dropped [OF assms(1)] replayable_dropped)
qed

section \<open>Scopes and reports\<close>

lemma dropCovered_fields [simp]:
  "ai_capturedAt (dropCovered snapshots inp) = ai_capturedAt inp" "ai_targetScopes (dropCovered snapshots inp) = ai_targetScopes inp"
  "ai_markPrices (dropCovered snapshots inp) = ai_markPrices inp" "ai_cash (dropCovered snapshots inp) = ai_cash inp"
  "ai_costQuality (dropCovered snapshots inp) = ai_costQuality inp" "ai_pnlSnapshots (dropCovered snapshots inp) = ai_pnlSnapshots inp"
  "ai_trace (dropCovered snapshots inp) = ai_trace inp"
  by (simp_all add: dropCovered_def)

lemma addScope_skip: "addScope targets s m True src details state = Inr state"
  by (cases state) (simp add: addScope_def)

lemma buildScopes_dropped:
  assumes "plainStrategies inp"
  shows "buildScopes (dropCovered snapshots inp) snapshots fills l t = buildScopes inp snapshots fills l t"
proof -
  have lists: "ai_reconcileFacts (dropCovered snapshots inp) = filter (\<lambda>r. uncovered snapshots (rf_strategyId r) (rf_market r)) (ai_reconcileFacts inp)"
    "ai_positions (dropCovered snapshots inp) = filter (\<lambda>p. uncovered snapshots (pf_strategyId p) (pf_market p)) (ai_positions inp)"
    by (simp_all add: dropCovered_def)
  have same: "snapshotScope (dropCovered snapshots inp) = snapshotScope inp" "fillScope (dropCovered snapshots inp) = fillScope inp"
    "reviewScope (dropCovered snapshots inp) = reviewScope inp" "positionScope (dropCovered snapshots inp) = positionScope inp"
    by (intro ext, simp add: snapshotScope_def fillScope_def reviewScope_def positionScope_def hasMarkPrice_def)+
  have recoverable: "recoverableScope (dropCovered snapshots inp) snapshots r = recoverableScope inp snapshots r"
    if "r \<in> set (ai_reconcileFacts inp)" "uncovered snapshots (rf_strategyId r) (rf_market r)" for r
  proof -
    have s: "CHR '':'' \<notin> set (rf_strategyId r)" using that(1) assms by (auto simp: plainStrategies_def)
    show ?thesis
      unfolding recoverableScope_def hasMarkPrice_def dropCovered_fields position_coverage_dropped [OF assms s that(2)]
      by (rule refl)
  qed
  have skipped: "reviewScope inp snapshots fills r state = Inr state" "recoverableScope inp snapshots r state = Inr state"
    if "\<not> uncovered snapshots (rf_strategyId r) (rf_market r)" for r state
    using that by (simp_all add: reviewScope_def recoverableScope_def uncovered_def addScope_skip)
  have "positionScope inp snapshots p state = Inr state" if "\<not> uncovered snapshots (pf_strategyId p) (pf_market p)" for p state
    using that by (simp add: positionScope_def uncovered_def addScope_skip)
  then have "foldR (positionScope inp snapshots) (ai_positions (dropCovered snapshots inp)) state =
      foldR (positionScope inp snapshots) (ai_positions inp) state" for state
    unfolding lists by (intro foldR_filter) simp_all
  moreover have "foldR (reviewScope inp snapshots fills) (ai_reconcileFacts (dropCovered snapshots inp)) state =
      foldR (reviewScope inp snapshots fills) (ai_reconcileFacts inp) state" for state
    unfolding lists by (intro foldR_filter) (simp_all add: skipped)
  moreover have "foldR (recoverableScope (dropCovered snapshots inp) snapshots) (ai_reconcileFacts (dropCovered snapshots inp)) state =
      foldR (recoverableScope inp snapshots) (ai_reconcileFacts inp) state" for state
    unfolding lists by (intro foldR_filter) (simp_all add: skipped recoverable)
  ultimately show ?thesis by (simp add: buildScopes_def same)
qed

lemma reports_dropped_ok:
  assumes "aggregateFeesByCurrency rnd (ai_fills inp) = Inr fees"
    and "appendNonKrwFeeMissingReasons (ai_fills inp) rs = Inr rs'"
    and "resolveCostQualityScopeRequirements env (ai_fills inp) fallback reconciled = Inr required"
    and "buildTrace inp snapshots = Inr trace"
  shows "is_ok (aggregateFeesByCurrency rnd (ai_fills (dropCovered snapshots inp)))"
    and "is_ok (appendNonKrwFeeMissingReasons (ai_fills (dropCovered snapshots inp)) rs)"
    and "is_ok (resolveCostQualityScopeRequirements env (ai_fills (dropCovered snapshots inp)) fallback reconciled)"
    and "is_ok (buildTrace (dropCovered snapshots inp) snapshots)"
proof -
  have fills: "ai_fills (dropCovered snapshots inp) = filter (\<lambda>f. uncovered snapshots (ff_strategyId f) (ff_market f)) (ai_fills inp)"
    by (simp add: dropCovered_def)
  show "is_ok (aggregateFeesByCurrency rnd (ai_fills (dropCovered snapshots inp)))"
    using assms(1) unfolding fills aggregateFeesByCurrency_def
    by (rule foldR_filter_ok [where ok = "\<lambda>f. is_ok (parseNonNegativeDecimal (ff_fee f))"]) (simp add: addFee_def is_ok_iff bindR_Inr_iff)
  show "is_ok (appendNonKrwFeeMissingReasons (ai_fills (dropCovered snapshots inp)) rs)"
    using assms(2) unfolding fills appendNonKrwFeeMissingReasons_def
    by (rule foldR_filter_ok [where ok = "\<lambda>f. ff_feeCurrency f = ''KRW'' \<or> is_ok (parseNonNegativeDecimal (ff_fee f))"])
      (simp add: noteForeignFee_def is_ok_iff bindR_Inr_iff)
  have require: "is_ok (requireFor s m q st) \<longleftrightarrow> is_ok (parseNonNegativeDecimal q)" for s m q st
    by (simp add: requireFor_def is_ok_iff bindR_Inr_iff)
  from assms(3) obtain r1 r2 where r1: "foldR (\<lambda>f. requireFor (ff_strategyId f) (ff_market f) (ff_quantity f)) (ai_fills inp) [] = Inr r1"
    and r2: "foldR (\<lambda>p. requireFor (pf_strategyId p) (pf_market p) (pf_quantity p)) (fallback @ reconciled) r1 = Inr r2"
    by (auto simp: resolveCostQualityScopeRequirements_def bindR_Inr_iff)
  have "is_ok (foldR (\<lambda>f. requireFor (ff_strategyId f) (ff_market f) (ff_quantity f)) (ai_fills (dropCovered snapshots inp)) [])"
    unfolding fills by (rule foldR_filter_ok [OF r1]) (rule require)
  then obtain q1 where q1: "foldR (\<lambda>f. requireFor (ff_strategyId f) (ff_market f) (ff_quantity f)) (ai_fills (dropCovered snapshots inp)) [] = Inr q1"
    by (auto simp: is_ok_iff)
  have "is_ok (foldR (\<lambda>p. requireFor (pf_strategyId p) (pf_market p) (pf_quantity p)) (filter (\<lambda>p. True) (fallback @ reconciled)) q1)"
    by (rule foldR_filter_ok [OF r2]) (rule require)
  then show "is_ok (resolveCostQualityScopeRequirements env (ai_fills (dropCovered snapshots inp)) fallback reconciled)"
    using q1 by (auto simp: resolveCostQualityScopeRequirements_def is_ok_iff)
  have "is_ok (findLastSourceTimestamp inp)" using assms(4) by (auto simp: buildTrace_def Let_def bindR_Inr_iff)
  then have "is_ok (findLastSourceTimestamp (dropCovered snapshots inp))"
    unfolding findLastSourceTimestamp_def dropCovered_def is_ok_bind_Inr mapR_ok_iff by auto
  then show "is_ok (buildTrace (dropCovered snapshots inp) snapshots)"
    by (auto simp: buildTrace_def Let_def is_ok_iff bindR_Inr_iff)
qed

section \<open>Properties\<close>

text \<open>
  C25. Nothing is counted twice. Let the calculation be asked for a given time, for all scopes, over
  strategies whose names contain no colon. If it succeeds, then leaving out every fill, stored position
  and reconciled fact of a scope that the current snapshots cover changes none of its figures: scopes,
  realized, unrealized and total profit, market value, equity and positions are the same.
\<close>

theorem covered_facts_have_no_influence:
  assumes run: "calculatePnLAccounting rnd env inp = Inr out"
    and snapshots: "selectEffectiveSnapshots env (ai_pnlSnapshots inp) = Inr (snapshots, reasons)"
    and whole: "ai_targetScopes inp = []" "ai_capturedAt inp = Some t" "plainStrategies inp"
  shows "\<exists>out'. calculatePnLAccounting rnd env (dropCovered snapshots inp) = Inr out' \<and>
    ao_scopes out' = ao_scopes out \<and> ao_realizedPnlKrw out' = ao_realizedPnlKrw out \<and>
    ao_unrealizedPnlKrw out' = ao_unrealizedPnlKrw out \<and> ao_totalPnlKrw out' = ao_totalPnlKrw out \<and>
    ao_positionMarketValueKrw out' = ao_positionMarketValueKrw out \<and> ao_equityKrw out' = ao_equityKrw out \<and>
    ao_positions out' = ao_positions out"
proof -
  define inp' where "inp' = dropCovered snapshots inp"
  from run whole(1) have "calculateFiltered rnd env inp = Inr out"
    by (simp add: calculatePnLAccounting_def applyTargetScopeFilter_def)
  then obtain st cash prices fees m1 spread slippage requote required capturedAt scopes trace where
    stages: "prepareLedger rnd env inp = Inr st" "readCash inp = Inr cash" "buildMarkPriceMap env (ai_markPrices inp) = Inr prices"
      "aggregateFeesByCurrency rnd (ai_fills inp) = Inr fees"
      "appendNonKrwFeeMissingReasons (ai_fills inp) (fg_missing (computeFigures rnd inp st cash prices)) = Inr m1"
      "aggregateQualityMetric rnd qf_spreadCostBps (ai_costQuality inp) = Inr spread"
      "aggregateQualityMetric rnd qf_slippageBps (ai_costQuality inp) = Inr slippage"
      "aggregateQualityMetric rnd qf_cancelRequotePenaltyBps (ai_costQuality inp) = Inr requote"
      "resolveCostQualityScopeRequirements env (ai_fills inp) (co_fallback (sg_collected st)) (co_reconciled (sg_collected st)) = Inr required"
      "resolveCalculationCapturedAt inp = Inr capturedAt"
      "buildScopes inp (sg_snapshots st) (sg_fills st) (sg_ledger st) capturedAt = Inr scopes"
      "buildTrace inp (sg_snapshots st) = Inr trace"
    and out: "out = assembleOutput inp st cash (computeFigures rnd inp st cash prices) (buildFeeTotals env fees) spread slippage requote
         (appendCostQualityMissingReasons required (ai_costQuality inp) m1) scopes trace"
    unfolding calculateFiltered_stages by blast
  have sn: "sg_snapshots st = snapshots" using stages(1) snapshots by (auto simp: prepareLedger_def bindR_Inr_iff)
  have figures: "computeFigures rnd inp' st cash prices = computeFigures rnd inp st cash prices"
    by (simp only: computeFigures_def inp'_def dropCovered_fields)
  have same: "prepareLedger rnd env inp' = Inr st" "readCash inp' = Inr cash" "buildMarkPriceMap env (ai_markPrices inp') = Inr prices"
    "ai_costQuality inp' = ai_costQuality inp" "resolveCalculationCapturedAt inp' = Inr capturedAt"
    "buildScopes inp' (sg_snapshots st) (sg_fills st) (sg_ledger st) capturedAt = Inr scopes"
    using stages prepareLedger_dropped [OF whole(3) snapshots, of rnd] buildScopes_dropped [OF whole(3), of snapshots] whole(2)
    by (simp_all add: inp'_def sn readCash_def resolveCalculationCapturedAt_def)
  obtain fees' m1' required' trace' where rest: "aggregateFeesByCurrency rnd (ai_fills inp') = Inr fees'"
    "appendNonKrwFeeMissingReasons (ai_fills inp') (fg_missing (computeFigures rnd inp' st cash prices)) = Inr m1'"
    "resolveCostQualityScopeRequirements env (ai_fills inp') (co_fallback (sg_collected st)) (co_reconciled (sg_collected st)) = Inr required'"
    "buildTrace inp' (sg_snapshots st) = Inr trace'"
    using reports_dropped_ok [OF stages(4,5,9,12)] unfolding inp'_def [symmetric] sn figures is_ok_iff by (auto simp: inp'_def)
  define out' where "out' = assembleOutput inp' st cash (computeFigures rnd inp' st cash prices) (buildFeeTotals env fees') spread slippage requote
         (appendCostQualityMissingReasons required' (ai_costQuality inp') m1') scopes trace'"
  have "calculateFiltered rnd env inp' = Inr out'"
    unfolding calculateFiltered_stages using same rest stages(6-8) out'_def by metis
  then have "calculatePnLAccounting rnd env inp' = Inr out'"
    using whole(1) by (simp add: calculatePnLAccounting_def applyTargetScopeFilter_def inp'_def)
  then show ?thesis unfolding inp'_def [symmetric] by (simp add: out out'_def figures)
qed

text \<open>The second strategy has a stored snapshot, which covers its own fill.\<close>

definition exampleSnapshot :: snapshot_fact where
  "exampleSnapshot = \<lparr>sf_strategyId = ''s2'', sf_market = None, sf_capturedAt = At 4000000, sf_equity = Num 500,
     sf_realizedPnl = Num 7, sf_unrealizedPnl = Num 0, sf_drawdownBps = Num 0, sf_payloadJson = None\<rparr>"

abbreviation exampleCoveredFill :: fill_fact where
  "exampleCoveredFill \<equiv> (exampleFill BUY 50 1)\<lparr>ff_strategyId := ''s2''\<rparr>"

lemma example_covered_run:
  "(case calculatePnLAccounting exactRound examplePnlEnv (examplePnlInput [exampleSnapshot] [exampleFill BUY 100 1, exampleCoveredFill]) of
     Inr out \<Rightarrow> ao_totalPnlKrw out = Some 26 \<and> ao_equityKrw out = Some 720 | Inl e \<Rightarrow> False)"
  by code_simp

lemma example_snapshots:
  "selectEffectiveSnapshots examplePnlEnv (ai_pnlSnapshots (examplePnlInput [exampleSnapshot] fills)) = Inr ([exampleSnapshot], [])"
  by (simp add: examplePnlInput_def selectEffectiveSnapshots_def keepLatest_def excludeMarketSnapshotsCoveredByAggregate_def
      selectLayer_def exampleSnapshot_def)

theorem covered_facts_have_no_influence_witness:
  "\<exists>out out'. calculatePnLAccounting exactRound examplePnlEnv
       (examplePnlInput [exampleSnapshot] [exampleFill BUY 100 1, exampleCoveredFill]) = Inr out \<and>
     calculatePnLAccounting exactRound examplePnlEnv (examplePnlInput [exampleSnapshot] [exampleFill BUY 100 1]) = Inr out' \<and>
     ao_totalPnlKrw out = Some 26 \<and> ao_totalPnlKrw out' = Some 26 \<and> ao_equityKrw out' = Some 720"
proof -
  obtain out where out: "calculatePnLAccounting exactRound examplePnlEnv
      (examplePnlInput [exampleSnapshot] [exampleFill BUY 100 1, exampleCoveredFill]) = Inr out"
    "ao_totalPnlKrw out = Some 26" "ao_equityKrw out = Some 720"
    using example_covered_run by (auto split: sum.splits)
  have "dropCovered [exampleSnapshot] (examplePnlInput [exampleSnapshot] [exampleFill BUY 100 1, exampleCoveredFill]) =
      examplePnlInput [exampleSnapshot] [exampleFill BUY 100 1]"
    by (simp add: dropCovered_def examplePnlInput_def uncovered_def isCoveredBySnapshot_def exampleSnapshot_def exampleFill_def)
  moreover have "plainStrategies (examplePnlInput [exampleSnapshot] [exampleFill BUY 100 1, exampleCoveredFill])"
    by (simp add: plainStrategies_def examplePnlInput_def exampleFill_def)
  ultimately show ?thesis
    using covered_facts_have_no_influence [OF out(1) example_snapshots, of "At 5000000"] out
    by (auto simp: examplePnlInput_def)
qed

end
