(* ===== verification/Pnl_Closeout.thy ===== *)
theory Pnl_Closeout
  imports Pnl_Calculator Persistence_Booking "HOL-Library.Char_ord"
begin

text \<open>
  The closeout run: \<^verbatim>\<open>application/pnl-accounting/closeout.ts\<close>. It loads the facts, calculates, measures the
  drawdown against earlier snapshots, fingerprints the result and hands it to a repository. The provider
  of facts and the repository are ports; the digest is a parameter of the text it is taken of, and a
  text is represented by the values it is printed from.
\<close>

section \<open>Drawdown\<close>

text \<open>The scope that a repository would store: the strategy aggregate, or the only scope there is.\<close>

definition selectPersistableScopes :: "accounting_scope list \<Rightarrow> accounting_scope list" where
  "selectPersistableScopes scopes =
     (let aggregates = filter (\<lambda>s. as_market s = None) scopes
      in if 1 < length (remdups (map as_strategyId scopes)) then []
         else if length aggregates = 1 then aggregates
         else if 1 < length aggregates then []
         else if length scopes = 1 then scopes
         else [])"

definition scopeKeyOf :: "accounting_scope \<Rightarrow> string" where
  "scopeKeyOf s = scopeKey (as_strategyId s) (as_market s)"

definition selectPersistableScopeKeys :: "accounting_scope list \<Rightarrow> string list" where
  "selectPersistableScopeKeys scopes = map scopeKeyOf (selectPersistableScopes scopes)"

text \<open>A snapshot is a candidate for the peak if it was taken earlier and has the scope to be stored.\<close>

definition peakCandidate :: "string list \<Rightarrow> int \<Rightarrow> snapshot_fact \<Rightarrow> bool" where
  "peakCandidate keys since s \<longleftrightarrow>
     (case timeMillis (sf_capturedAt s) of None \<Rightarrow> False | Some t \<Rightarrow> t < since) \<and>
     scopeKey (sf_strategyId s) (sf_market s) \<in> set keys"

definition raisePeak :: "string list \<Rightarrow> int \<Rightarrow> snapshot_fact \<Rightarrow> rat \<Rightarrow> rat result" where
  "raisePeak keys since s peak =
     (if peakCandidate keys since s
      then bindR (parseFinancialDecimal (sf_equity s)) (\<lambda>equity. Inr (if peak < equity then equity else peak))
      else Inr peak)"

definition computeDrawdownBps :: "numeric_env \<Rightarrow> pnl_output \<Rightarrow> snapshot_fact list \<Rightarrow> int \<Rightarrow> rat result" where
  "computeDrawdownBps env out snapshots since =
     (case ao_equityKrw out of
        None \<Rightarrow> Inr 0
      | Some current \<Rightarrow>
         let keys = selectPersistableScopeKeys (ao_scopes out); rnd = ne_round env
         in if keys = [] then Inr 0
            else bindR (foldR (raisePeak keys since) snapshots current) (\<lambda>peak.
              if peak \<le> 0 \<or> peak \<le> current then Inr 0
              else case ddiv rnd (dminus rnd peak current) peak of
                     None \<Rightarrow> Inr 0
                   | Some share \<Rightarrow> Inr (ne_decimalPlaces env 2 (dtimes rnd share 10000))))"

section \<open>Time and fingerprint\<close>

definition normalizeCapturedAt :: "timestamp \<Rightarrow> int result" where
  "normalizeCapturedAt t = (case timeMillis t of None \<Rightarrow> Inl (Failure ''Invalid time value'') | Some ms \<Rightarrow> Inr ms)"

definition resolveOutputCapturedAt :: "pnl_output \<Rightarrow> int" where
  "resolveOutputCapturedAt out =
     (let times = map as_capturedAt (ao_scopes out)
            @ (case Option.bind (tr_lastSourceTimestamp (ao_trace out)) timeMillis of None \<Rightarrow> [] | Some ms \<Rightarrow> [ms])
      in if times = [] then 0 else Max (set times))"

definition scopeEntry :: "accounting_scope \<Rightarrow> string" where
  "scopeEntry s = as_strategyId s @ ''|'' @ (case as_market s of None \<Rightarrow> ''*'' | Some m \<Rightarrow> m) @ ''|''
     @ pnlStatusName (as_status s) @ ''|'' @ as_source s"

definition amountOrNull :: "rat option \<Rightarrow> json" where
  "amountOrNull x = (case x of None \<Rightarrow> JNull | Some a \<Rightarrow> JNum (Num a))"

definition metricJson :: "quality_metric \<Rightarrow> json" where
  "metricJson m = JObj [(''value'', amountOrNull (qm_value m)), (''available'', JBool (qm_available m)),
     (''sampleCount'', JNum (Num (of_nat (qm_sampleCount m)))), (''source'', JStr (qm_source m))]"

definition detailFields :: "position_detail \<Rightarrow> json_record" where
  "detailFields d = [(''quantity'', JNum (Num (pd_quantity d))), (''averageEntryPrice'', amountOrNull (pd_averageEntryPrice d)),
     (''marketValueKrw'', amountOrNull (pd_marketValueKrw d)), (''unrealizedPnlKrw'', amountOrNull (pd_unrealizedPnlKrw d)),
     (''exposureBps'', amountOrNull (pd_exposureBps d))]"

text \<open>
  The digest of the values the fingerprint text is printed from; entries of scopes are sorted by code
  units, currencies and positions by collation.
\<close>

definition computePnlSnapshotSourceFingerprint :: "(json \<Rightarrow> string) \<Rightarrow> pnl_env \<Rightarrow> pnl_output \<Rightarrow> int \<Rightarrow> string" where
  "computePnlSnapshotSourceFingerprint sha256 env out captured =
     sha256 (JArr [JTime (At (captured * 1000000)),
       JArr (map JStr (sort (map scopeEntry (ao_scopes out)))),
       JStr (pnlStatusName (ao_status out)),
       amountOrNull (ao_realizedPnlKrw out), amountOrNull (ao_unrealizedPnlKrw out), amountOrNull (ao_totalPnlKrw out),
       amountOrNull (ao_equityKrw out), amountOrNull (ao_cashKrw out), amountOrNull (ao_positionMarketValueKrw out),
       JObj [(''feeTotals'', JArr (map (\<lambda>(currency, amount). JArr [JStr currency, JNum (Num amount)])
                (sort_key (\<lambda>f. pe_collate env (fst f)) (ao_feeTotals out)))),
             (''spreadCost'', metricJson (ao_spreadCost out)), (''slippage'', metricJson (ao_slippage out)),
             (''cancelRequote'', metricJson (ao_cancelRequote out))],
       JArr (map (\<lambda>d. JObj ([(''strategyId'', JStr (pd_strategyId d)), (''market'', JStr (pd_market d))] @ detailFields d))
         (sort_key (\<lambda>d. pe_collate env (pd_strategyId d @ ''|'' @ pd_market d)) (ao_positions out)))])"

section \<open>The run\<close>

record pnl_data_provider =
  dp_load :: "int option \<Rightarrow> pnl_input result"
  dp_history :: "(int \<Rightarrow> snapshot_fact list result) option"

record persist_pnl_input =
  ps_output :: pnl_output
  ps_capturedAt :: timestamp
  ps_drawdownBps :: rat
  ps_sourceFingerprint :: string

record closeout_env =
  ce_numeric :: numeric_env
  ce_pnl :: pnl_env
  ce_sha256 :: "json \<Rightarrow> string"

record 'r closeout_result =
  cl_output :: pnl_output
  cl_persisted :: 'r
  cl_sourceFingerprint :: string
  cl_capturedAt :: int
  cl_drawdownBps :: rat

definition loadHistory :: "pnl_data_provider \<Rightarrow> int \<Rightarrow> snapshot_fact list result" where
  "loadHistory provider captured = (case dp_history provider of None \<Rightarrow> Inr [] | Some h \<Rightarrow> h captured)"

text \<open>What is handed to the repository; an error on the way there reaches the caller before any write.\<close>

definition prepareCloseout :: "closeout_env \<Rightarrow> pnl_data_provider \<Rightarrow> timestamp option \<Rightarrow> (persist_pnl_input \<times> int) result" where
  "prepareCloseout env provider capturedAt =
     bindR (case capturedAt of None \<Rightarrow> Inr None | Some t \<Rightarrow> bindR (normalizeCapturedAt t) (\<lambda>ms. Inr (Some ms))) (\<lambda>explicit.
     bindR (dp_load provider explicit) (\<lambda>accountingInput.
     bindR (calculatePnLAccounting (ne_round (ce_numeric env)) (ce_pnl env) accountingInput) (\<lambda>out.
       let captured = (case explicit of None \<Rightarrow> resolveOutputCapturedAt out | Some ms \<Rightarrow> ms) in
     bindR (loadHistory provider captured) (\<lambda>history.
     bindR (computeDrawdownBps (ce_numeric env) out history captured) (\<lambda>drawdown.
       Inr (\<lparr>ps_output = out, ps_capturedAt = At (captured * 1000000), ps_drawdownBps = drawdown,
              ps_sourceFingerprint = computePnlSnapshotSourceFingerprint (ce_sha256 env) (ce_pnl env) out captured\<rparr>, captured))))))"

definition runPnLAccountingCloseout ::
  "closeout_env \<Rightarrow> pnl_data_provider \<Rightarrow> (persist_pnl_input \<Rightarrow> 'w \<Rightarrow> 'r result \<times> 'w) \<Rightarrow> timestamp option \<Rightarrow> 'w
   \<Rightarrow> 'r closeout_result result \<times> 'w" where
  "runPnLAccountingCloseout env provider persist capturedAt w =
     (case prepareCloseout env provider capturedAt of
        Inl e \<Rightarrow> (Inl e, w)
      | Inr (request, captured) \<Rightarrow>
         (case persist request w of
            (Inl e, w') \<Rightarrow> (Inl e, w')
          | (Inr persisted, w') \<Rightarrow>
             (Inr \<lparr>cl_output = ps_output request, cl_persisted = persisted,
                   cl_sourceFingerprint = ps_sourceFingerprint request, cl_capturedAt = captured,
                   cl_drawdownBps = ps_drawdownBps request\<rparr>, w')))"

section \<open>Lemmas\<close>

context decimal_js
begin

lemma share_bounds:
  assumes "0 < peak" "current < peak" "rnd peak = peak"
  shows "0 \<le> rnd (rnd (rnd (peak - current) / peak) * 10000)"
    "0 \<le> current \<Longrightarrow> rnd (rnd (rnd (peak - current) / peak) * 10000) \<le> 10000"
proof -
  have loss: "0 \<le> rnd (peak - current)" using assms by (intro rnd_nonneg) simp
  then show "0 \<le> rnd (rnd (rnd (peak - current) / peak) * 10000)" using assms by (intro rnd_nonneg mult_nonneg_nonneg) auto
  have one: "rnd 1 = 1" using rnd_exact [of 1 0] by simp
  assume "0 \<le> current"
  then have "rnd (peak - current) \<le> peak" using rnd_le_fixed [OF _ assms(3), of "peak - current"] by simp
  then have "rnd (peak - current) / peak \<le> 1" using assms(1) by simp
  then have "rnd (rnd (peak - current) / peak) \<le> 1" using rnd_le_fixed [OF _ one] by simp
  then show "rnd (rnd (rnd (peak - current) / peak) * 10000) \<le> 10000" using rnd_le_fixed [OF _ rnd_10000] by simp
qed

end

text \<open>Printing with a fixed number of places keeps order and leaves amounts on that grid alone.\<close>

locale decimal_places = numeric_storage +
  assumes places_mono: "x \<le> y \<Longrightarrow> ne_decimalPlaces env k x \<le> ne_decimalPlaces env k y"
    and places_exact: "onGrid k x \<Longrightarrow> ne_decimalPlaces env k x = x"
begin

lemma places_bounds:
  assumes "0 \<le> x"
  shows "0 \<le> ne_decimalPlaces env k x" "x \<le> 10000 \<Longrightarrow> ne_decimalPlaces env k x \<le> 10000"
proof -
  have whole: "onGrid k 10000"
    unfolding onGrid_iff by (rule exI [of _ "10000 * 10 ^ k"]) simp
  show "0 \<le> ne_decimalPlaces env k x" using places_mono [OF assms, of k] places_exact [of k 0] by simp
  show "x \<le> 10000 \<Longrightarrow> ne_decimalPlaces env k x \<le> 10000"
    using places_mono [of x 10000 k] places_exact [OF whole] by simp
qed

end

lemma roundAt_mono: "x \<le> y \<Longrightarrow> roundAt k x \<le> roundAt k y"
proof (cases "0 \<le> x \<longleftrightarrow> 0 \<le> y")
  case True
  assume "x \<le> y"
  then have "x * 10 ^ k \<le> y * 10 ^ k" by (simp add: mult_right_mono)
  then have "\<lfloor>x * 10 ^ k + 1 / 2\<rfloor> \<le> \<lfloor>y * 10 ^ k + 1 / 2\<rfloor>" "\<lfloor>- y * 10 ^ k + 1 / 2\<rfloor> \<le> \<lfloor>- x * 10 ^ k + 1 / 2\<rfloor>"
    by (auto intro!: floor_mono)
  then show ?thesis using True by (auto simp: roundAt_def divide_right_mono)
next
  case False
  assume "x \<le> y"
  then have xy: "x < 0" "0 \<le> y" using False by auto
  then have "0 \<le> - x * 10 ^ k" "0 \<le> y * 10 ^ k" by (auto simp: mult_nonpos_nonneg)
  then have "0 \<le> \<lfloor>- x * 10 ^ k + 1 / 2\<rfloor>" "0 \<le> \<lfloor>y * 10 ^ k + 1 / 2\<rfloor>" by linarith+
  then have "roundAt k x \<le> 0" "0 \<le> roundAt k y" using xy by (auto simp: roundAt_def)
  then show ?thesis by simp
qed

interpretation default_places: decimal_places "storageEnv decimalRound"
  by unfold_locales (simp_all add: storageEnv_def roundAt_mono roundAt_exact)

interpretation exact_places: decimal_places "storageEnv exactRound"
  by unfold_locales (simp_all add: storageEnv_def roundAt_mono roundAt_exact)

text \<open>The equities that compete for the peak.\<close>

definition earlierEquities :: "pnl_output \<Rightarrow> snapshot_fact list \<Rightarrow> int \<Rightarrow> rat set" where
  "earlierEquities out snapshots since =
     {e. \<exists>s \<in> set snapshots. peakCandidate (selectPersistableScopeKeys (ao_scopes out)) since s \<and>
          parseFinancialDecimal (sf_equity s) = Inr e}"

lemma peak_greatest:
  assumes "foldR (raisePeak keys since) snapshots current = Inr peak"
  shows "peak = current \<or> (\<exists>s \<in> set snapshots. peakCandidate keys since s \<and> parseFinancialDecimal (sf_equity s) = Inr peak)"
    "current \<le> peak" "\<forall>s \<in> set snapshots. \<forall>e. peakCandidate keys since s \<longrightarrow> parseFinancialDecimal (sf_equity s) = Inr e \<longrightarrow> e \<le> peak"
  using assms
proof (atomize (full), induction snapshots arbitrary: current)
  case (Cons s snapshots)
  from Cons.prems obtain next_peak where step: "raisePeak keys since s current = Inr next_peak"
    and rest: "foldR (raisePeak keys since) snapshots next_peak = Inr peak"
    by (auto simp: bindR_Inr_iff)
  have kept: "next_peak = current \<or> peakCandidate keys since s \<and> parseFinancialDecimal (sf_equity s) = Inr next_peak"
    "current \<le> next_peak" "\<And>e. peakCandidate keys since s \<Longrightarrow> parseFinancialDecimal (sf_equity s) = Inr e \<Longrightarrow> e \<le> next_peak"
    using step by (auto simp: raisePeak_def bindR_Inr_iff split: if_splits)
  show ?case using Cons.IH [OF rest] kept by (auto intro: order_trans)
qed simp

lemma drawdown_cases:
  assumes "computeDrawdownBps env out snapshots since = Inr d" "ao_equityKrw out = Some current"
  obtains (flat) "d = 0" "\<forall>e \<in> earlierEquities out snapshots since. e \<le> 0 \<or> e \<le> current"
  | (down) peak where "peak \<in> earlierEquities out snapshots since" "\<forall>e \<in> earlierEquities out snapshots since. e \<le> peak"
      "0 < peak" "current < peak" and
      "d = ne_decimalPlaces env 2 (ne_round env (ne_round env (ne_round env (peak - current) / peak) * 10000))"
proof (cases "selectPersistableScopeKeys (ao_scopes out) = []")
  case True
  then show thesis using assms by (intro flat) (auto simp: computeDrawdownBps_def earlierEquities_def peakCandidate_def)
next
  case False
  then obtain peak where peak: "foldR (raisePeak (selectPersistableScopeKeys (ao_scopes out)) since) snapshots current = Inr peak"
    and d: "d = (if peak \<le> 0 \<or> peak \<le> current then 0 else
        ne_decimalPlaces env 2 (ne_round env (ne_round env (ne_round env (peak - current) / peak) * 10000)))"
    using assms by (auto simp: computeDrawdownBps_def Let_def bindR_Inr_iff ddiv_def dminus_def dtimes_def split: if_splits)
  note greatest = peak_greatest [OF peak]
  show thesis
  proof (cases "peak \<le> 0 \<or> peak \<le> current")
    case True
    then show thesis using d greatest(3) by (intro flat) (force simp: earlierEquities_def)+
  next
    case False
    then show thesis using d greatest by (intro down [of peak]) (auto simp: earlierEquities_def)
  qed
qed

section \<open>Properties\<close>

text \<open>
  C26. The drawdown of a closeout measures the loss since the peak. It is never negative, and at most the
  whole peak unless equity itself is negative. Only snapshots taken before, of the very scope that will
  be stored, count: if none of them exceeds the current equity it is zero, and otherwise it is the
  distance from the greatest of them, in basis points of it, printed with two places.
\<close>

theorem drawdown_measures_loss:
  assumes env: "decimal_places env" and run: "computeDrawdownBps env out snapshots since = Inr d"
    and current: "ao_equityKrw out = Some current"
    and fits: "\<forall>e \<in> earlierEquities out snapshots since. ne_round env e = e"
  shows "0 \<le> d \<and> (0 \<le> current \<longrightarrow> d \<le> 10000) \<and>
    ((\<forall>e \<in> earlierEquities out snapshots since. e \<le> current) \<longrightarrow> d = 0) \<and>
    (\<forall>peak \<in> earlierEquities out snapshots since.
       (\<forall>e \<in> earlierEquities out snapshots since. e \<le> peak) \<and> 0 < peak \<and> current < peak \<longrightarrow>
       d = ne_decimalPlaces env 2 (ne_round env (ne_round env (ne_round env (peak - current) / peak) * 10000)))"
  using run current
proof (cases rule: drawdown_cases)
  case flat
  then show ?thesis by force
next
  case (down peak)
  note js = numeric_storage.rounding [OF decimal_places.axioms(1) [OF env]]
  have "ne_round env peak = peak" using fits down(1) by blast
  note share = decimal_js.share_bounds [OF js down(3,4) this]
  have "0 \<le> d" "0 \<le> current \<longrightarrow> d \<le> 10000"
    using decimal_places.places_bounds [OF env share(1)] share(2) by (auto simp: down(5))
  moreover have "other = peak" if "other \<in> earlierEquities out snapshots since"
      "\<forall>e \<in> earlierEquities out snapshots since. e \<le> other" for other
    using that down(1,2) by (auto intro: antisym)
  moreover have "\<not> (\<forall>e \<in> earlierEquities out snapshots since. e \<le> current)"
    using down(1,4) not_le by blast
  ultimately show ?thesis using down(5) by blast
qed

text \<open>Equity of 900 after a peak of 1000, of the same aggregate scope.\<close>

definition exampleMetric :: quality_metric where
  "exampleMetric = \<lparr>qm_value = None, qm_available = False, qm_sampleCount = 0, qm_source = ''unavailable''\<rparr>"

definition exampleOutput :: pnl_output where
  "exampleOutput =
     \<lparr>ao_scopes = [\<lparr>as_strategyId = ''s'', as_market = None, as_capturedAt = 5, as_source = ''fills'', as_status = CALCULATED\<rparr>],
      ao_status = CALCULATED, ao_realizedPnlKrw = Some (- 100), ao_unrealizedPnlKrw = Some 0, ao_totalPnlKrw = Some (- 100),
      ao_cashKrw = Some 900, ao_positionMarketValueKrw = Some 0, ao_equityKrw = Some 900, ao_positions = [], ao_feeTotals = [],
      ao_spreadCost = exampleMetric, ao_slippage = exampleMetric, ao_cancelRequote = exampleMetric, ao_missingReasons = [],
      ao_trace = \<lparr>tr_runId = None, tr_correlationId = None, tr_sourceTables = None, tr_lastSourceTimestamp = None\<rparr>\<rparr>"

definition peakSnapshot :: snapshot_fact where
  "peakSnapshot = \<lparr>sf_strategyId = ''s'', sf_market = None, sf_capturedAt = At 4000000, sf_equity = Num 1000, sf_realizedPnl = Num 0,
     sf_unrealizedPnl = Num 0, sf_drawdownBps = Num 0, sf_payloadJson = None\<rparr>"

lemma example_drawdown: "computeDrawdownBps (storageEnv exactRound) exampleOutput [peakSnapshot] 5 = Inr 1000"
  by code_simp

theorem drawdown_measures_loss_witness:
  "computeDrawdownBps (storageEnv exactRound) exampleOutput [peakSnapshot] 5 = Inr 1000 \<and> (0::rat) \<le> 1000 \<and> (1000::rat) \<le> 10000 \<and>
   1000 \<in> earlierEquities exampleOutput [peakSnapshot] 5 \<and>
   \<not> (\<forall>e \<in> earlierEquities exampleOutput [peakSnapshot] 5. e \<le> 900)"
proof -
  have current: "ao_equityKrw exampleOutput = Some 900" by (simp add: exampleOutput_def)
  have "\<forall>e \<in> earlierEquities exampleOutput [peakSnapshot] 5. ne_round (storageEnv exactRound) e = e"
    by (simp add: storageEnv_def exactRound_def)
  note fact = drawdown_measures_loss [OF exact_places.decimal_places_axioms example_drawdown current this]
  have "peakCandidate (selectPersistableScopeKeys (ao_scopes exampleOutput)) 5 peakSnapshot"
    "parseFinancialDecimal (sf_equity peakSnapshot) = Inr 1000" by code_simp+
  then have "1000 \<in> earlierEquities exampleOutput [peakSnapshot] 5" by (auto simp: earlierEquities_def)
  then show ?thesis using fact example_drawdown by auto
qed

end
