(* ===== verification/Pnl_Repository.thy ===== *)
theory Pnl_Repository
  imports Pnl_Closeout "HOL-Library.Multiset"
begin

text \<open>
  The repository of profit snapshots: \<^verbatim>\<open>infrastructure/db/pnl-accounting/row-mapper.ts\<close> and
  \<^verbatim>\<open>repository.ts\<close>, over the table \<^verbatim>\<open>pnl_snapshots\<close> with the columns and checks of
  \<^verbatim>\<open>migrations/000003_market_data_hypertables.sql\<close>. The table has no unique key; an advisory lock held to
  the end of the transaction serialises writers of the same snapshot. The transactions are steps of a
  machine over the committed rows. The hash of the lock key and the texts for people are parameters.
\<close>

section \<open>Rows\<close>

record pnl_row =
  sr_strategyId :: string
  sr_market :: "string option"
  sr_capturedAt :: int
  sr_equity :: rat
  sr_realizedPnl :: rat
  sr_unrealizedPnl :: rat
  sr_drawdownBps :: rat
  sr_payload :: json_record

record repository_env =
  re_numeric :: numeric_env
  re_message :: "missing_reason \<Rightarrow> string"
  re_lockKey :: "int \<Rightarrow> string \<Rightarrow> string \<Rightarrow> string \<Rightarrow> int"

definition optionalText :: "string \<Rightarrow> string option \<Rightarrow> json_record" where
  "optionalText key x = (case x of None \<Rightarrow> [] | Some s \<Rightarrow> [(key, JStr s)])"

definition metricPayload :: "quality_metric \<Rightarrow> json" where
  "metricPayload m = JObj [(''value'', amountOrNull (qm_value m)), (''available'', JBool (qm_available m)),
     (''sampleCount'', JNum (Num (of_nat (qm_sampleCount m))))]"

definition toPositionDetailPayload :: "position_detail \<Rightarrow> json" where
  "toPositionDetailPayload d = JObj ((''market'', JStr (pd_market d)) # detailFields d)"

definition positionPayload :: "pnl_output \<Rightarrow> accounting_scope \<Rightarrow> json_record" where
  "positionPayload out scope =
     (case as_market scope of
        None \<Rightarrow>
         let details = map toPositionDetailPayload (filter (\<lambda>d. pd_strategyId d = as_strategyId scope) (ao_positions out))
         in if details = [] then [] else [(''positionDetails'', JArr details)]
      | Some m \<Rightarrow>
         (case find (\<lambda>d. pd_strategyId d = as_strategyId scope \<and> pd_market d = m) (ao_positions out) of
            None \<Rightarrow> [] | Some d \<Rightarrow> [(''positionDetail'', JObj (detailFields d))]))"

definition reasonPayload :: "repository_env \<Rightarrow> missing_reason \<Rightarrow> json" where
  "reasonPayload env r = JObj [(''message'', JStr (re_message env r)), (''reasonCode'', JStr (mr_reasonCode r)),
     (''scope'', JStr (mr_scope r)), (''source'', JStr (mr_source r))]"

definition tracePayload :: "pnl_trace \<Rightarrow> json_record" where
  "tracePayload t =
     (if tr_runId t \<noteq> None \<or> tr_correlationId t \<noteq> None \<or> (case tr_sourceTables t of None \<Rightarrow> False | Some ts \<Rightarrow> ts \<noteq> []) \<or>
         tr_lastSourceTimestamp t \<noteq> None
      then [(''trace'', JObj (optionalText ''runId'' (tr_runId t) @ optionalText ''correlationId'' (tr_correlationId t)
              @ (case tr_sourceTables t of None \<Rightarrow> [] | Some ts \<Rightarrow> [(''sourceTables'', JArr (map JStr ts))])
              @ (case tr_lastSourceTimestamp t of None \<Rightarrow> [] | Some l \<Rightarrow> [(''lastSourceTimestamp'', JTime l)])))]
      else [])"

definition buildPnlSnapshotPayload :: "repository_env \<Rightarrow> pnl_output \<Rightarrow> accounting_scope \<Rightarrow> string \<Rightarrow> json_record" where
  "buildPnlSnapshotPayload env out scope fingerprint =
     [(''status'', JStr (pnlStatusName (as_status scope))),
      (''feeTotals'', JArr (map (\<lambda>(currency, amount). JObj [(''currency'', JStr currency), (''amount'', JNum (Num amount))]) (ao_feeTotals out))),
      (''spreadCost'', metricPayload (ao_spreadCost out)), (''slippage'', metricPayload (ao_slippage out)),
      (''cancelRequote'', metricPayload (ao_cancelRequote out)), (''cashKrw'', amountOrNull (ao_cashKrw out)),
      (''sourceFingerprint'', JStr fingerprint)]
     @ positionPayload out scope
     @ (if ao_missingReasons out = [] then [] else [(''missingReasons'', JArr (map (reasonPayload env) (ao_missingReasons out)))])
     @ tracePayload (ao_trace out)"

definition toRow :: "repository_env \<Rightarrow> persist_pnl_input \<Rightarrow> int \<Rightarrow> rat \<Rightarrow> rat \<Rightarrow> rat \<Rightarrow> accounting_scope \<Rightarrow> pnl_row" where
  "toRow env inp captured equity realized unrealized scope =
     \<lparr>sr_strategyId = as_strategyId scope, sr_market = as_market scope, sr_capturedAt = captured, sr_equity = equity,
      sr_realizedPnl = realized, sr_unrealizedPnl = unrealized, sr_drawdownBps = ps_drawdownBps inp,
      sr_payload = buildPnlSnapshotPayload env (ps_output inp) scope (ps_sourceFingerprint inp)\<rparr>"

text \<open>Nothing is stored unless equity, realized and unrealized profit are all known.\<close>

definition toPnlSnapshotRowInputs :: "repository_env \<Rightarrow> persist_pnl_input \<Rightarrow> pnl_row list result" where
  "toPnlSnapshotRowInputs env inp =
     bindR (normalizeCapturedAt (ps_capturedAt inp)) (\<lambda>captured.
       let out = ps_output inp
       in case (ao_equityKrw out, ao_realizedPnlKrw out, ao_unrealizedPnlKrw out) of
            (Some equity, Some realized, Some unrealized) \<Rightarrow>
             Inr (map (toRow env inp captured equity realized unrealized) (selectPersistableScopes (ao_scopes out)))
          | _ \<Rightarrow> Inr [])"

section \<open>The table\<close>

text \<open>
  Amounts have eight decimal places; the drawdown has six and at most eighteen digits.
\<close>

definition insertRow :: "repository_env \<Rightarrow> pnl_row \<Rightarrow> pnl_row result" where
  "insertRow env row =
     bindR (ne_column (re_numeric env) 8 (sr_equity row)) (\<lambda>equity.
     bindR (ne_column (re_numeric env) 8 (sr_realizedPnl row)) (\<lambda>realized.
     bindR (ne_column (re_numeric env) 8 (sr_unrealizedPnl row)) (\<lambda>unrealized.
     bindR (ne_column (re_numeric env) 6 (sr_drawdownBps row)) (\<lambda>drawdown.
       checkRow (\<bar>drawdown\<bar> < 10 ^ 12 \<and> 0 \<le> equity \<and> 0 \<le> drawdown \<and>
           (case sr_market row of None \<Rightarrow> True | Some m \<Rightarrow> \<not> blankText m))
         (row\<lparr>sr_equity := equity, sr_realizedPnl := realized, sr_unrealizedPnl := unrealized, sr_drawdownBps := drawdown\<rparr>)))))"

definition sameSnapshot :: "pnl_row \<Rightarrow> string \<Rightarrow> pnl_row \<Rightarrow> bool" where
  "sameSnapshot row fingerprint r \<longleftrightarrow>
     sr_strategyId r = sr_strategyId row \<and> sr_capturedAt r = sr_capturedAt row \<and> sr_market r = sr_market row \<and>
     map_of (sr_payload r) ''sourceFingerprint'' = Some (JStr fingerprint)"

text \<open>One transaction over the rows of a snapshot, with nobody else writing.\<close>

fun persistRows :: "repository_env \<Rightarrow> string \<Rightarrow> pnl_row list \<Rightarrow> pnl_row list \<Rightarrow> (bool \<times> pnl_row list \<times> pnl_row list) result" where
  "persistRows env fingerprint [] table = Inr (False, [], table)"
| "persistRows env fingerprint (row # rows) table =
     (case find (sameSnapshot row fingerprint) table of
        Some existing \<Rightarrow>
         bindR (persistRows env fingerprint rows table) (\<lambda>(inserted, snapshots, table'). Inr (inserted, existing # snapshots, table'))
      | None \<Rightarrow>
         bindR (insertRow env row) (\<lambda>stored.
         bindR (persistRows env fingerprint rows (table @ [stored])) (\<lambda>(inserted, snapshots, table'). Inr (True, stored # snapshots, table'))))"

record persist_pnl_result =
  sp_inserted :: bool
  sp_snapshots :: "pnl_row list"

definition persistPnlSnapshot :: "repository_env \<Rightarrow> persist_pnl_input \<Rightarrow> pnl_row list \<Rightarrow> persist_pnl_result result \<times> pnl_row list" where
  "persistPnlSnapshot env inp table =
     (case toPnlSnapshotRowInputs env inp of
        Inl e \<Rightarrow> (Inl e, table)
      | Inr rows \<Rightarrow>
         if rows = [] then (Inr \<lparr>sp_inserted = False, sp_snapshots = []\<rparr>, table)
         else case persistRows env (ps_sourceFingerprint inp) rows table of
                Inl e \<Rightarrow> (Inl e, table)
              | Inr (inserted, snapshots, table') \<Rightarrow> (Inr \<lparr>sp_inserted = inserted, sp_snapshots = snapshots\<rparr>, table'))"

section \<open>Concurrent transactions\<close>

datatype tx_phase = WAITING | LOCKED | FOUND pnl_row | ABSENT | INSERTED pnl_row | COMMITTED bool pnl_row | ROLLED_BACK

record snapshot_tx =
  st_row :: pnl_row
  st_fingerprint :: string
  st_phase :: tx_phase

definition lockPnlSnapshotScope :: "repository_env \<Rightarrow> snapshot_tx \<Rightarrow> int" where
  "lockPnlSnapshotScope env t =
     re_lockKey env (sr_capturedAt (st_row t)) (sr_strategyId (st_row t))
       (case sr_market (st_row t) of None \<Rightarrow> ''*'' | Some m \<Rightarrow> m) (st_fingerprint t)"

fun holdsLock :: "tx_phase \<Rightarrow> bool" where
  "holdsLock LOCKED = True"
| "holdsLock (FOUND r) = True"
| "holdsLock ABSENT = True"
| "holdsLock (INSERTED r) = True"
| "holdsLock _ = False"

definition lookUp :: "pnl_row list \<Rightarrow> snapshot_tx \<Rightarrow> tx_phase" where
  "lookUp table t = (case find (sameSnapshot (st_row t) (st_fingerprint t)) table of Some r \<Rightarrow> FOUND r | None \<Rightarrow> ABSENT)"

definition insertPhase :: "repository_env \<Rightarrow> snapshot_tx \<Rightarrow> tx_phase" where
  "insertPhase env t = (case insertRow env (st_row t) of Inr r \<Rightarrow> INSERTED r | Inl e \<Rightarrow> ROLLED_BACK)"

definition commitPhase :: "tx_phase \<Rightarrow> pnl_row list \<Rightarrow> (tx_phase \<times> pnl_row list) option" where
  "commitPhase p table =
     (case p of FOUND r \<Rightarrow> Some (COMMITTED False r, table) | INSERTED r \<Rightarrow> Some (COMMITTED True r, table @ [r]) | _ \<Rightarrow> None)"

text \<open>
  A transaction is opened for the row of a snapshot, waits for its lock, looks for the snapshot among the
  committed rows, inserts if it is absent, and commits, which makes the row visible and frees the lock.
  It may be rolled back at any time before.
\<close>

inductive snapshot_step :: "repository_env \<Rightarrow> snapshot_tx list \<times> pnl_row list \<Rightarrow> snapshot_tx list \<times> pnl_row list \<Rightarrow> bool"
  for env where
  opens: "toPnlSnapshotRowInputs env inp = Inr [row] \<Longrightarrow>
    snapshot_step env (txs, table) (txs @ [\<lparr>st_row = row, st_fingerprint = ps_sourceFingerprint inp, st_phase = WAITING\<rparr>], table)"
| locks: "i < length txs \<Longrightarrow> st_phase (txs ! i) = WAITING \<Longrightarrow>
    \<forall>t \<in> set txs. holdsLock (st_phase t) \<longrightarrow> lockPnlSnapshotScope env t \<noteq> lockPnlSnapshotScope env (txs ! i) \<Longrightarrow>
    snapshot_step env (txs, table) (txs[i := (txs ! i)\<lparr>st_phase := LOCKED\<rparr>], table)"
| looks: "i < length txs \<Longrightarrow> st_phase (txs ! i) = LOCKED \<Longrightarrow>
    snapshot_step env (txs, table) (txs[i := (txs ! i)\<lparr>st_phase := lookUp table (txs ! i)\<rparr>], table)"
| inserts: "i < length txs \<Longrightarrow> st_phase (txs ! i) = ABSENT \<Longrightarrow>
    snapshot_step env (txs, table) (txs[i := (txs ! i)\<lparr>st_phase := insertPhase env (txs ! i)\<rparr>], table)"
| commits: "i < length txs \<Longrightarrow> commitPhase (st_phase (txs ! i)) table = Some (p, table') \<Longrightarrow>
    snapshot_step env (txs, table) (txs[i := (txs ! i)\<lparr>st_phase := p\<rparr>], table')"
| rolls_back: "i < length txs \<Longrightarrow> (\<forall>b r. st_phase (txs ! i) \<noteq> COMMITTED b r) \<Longrightarrow>
    snapshot_step env (txs, table) (txs[i := (txs ! i)\<lparr>st_phase := ROLLED_BACK\<rparr>], table)"

section \<open>Lemmas\<close>

definition snapshotKey :: "pnl_row \<Rightarrow> string \<times> int \<times> string option \<times> json option" where
  "snapshotKey r = (sr_strategyId r, sr_capturedAt r, sr_market r, map_of (sr_payload r) ''sourceFingerprint'')"

definition fingerprinted :: "snapshot_tx \<Rightarrow> bool" where
  "fingerprinted t \<longleftrightarrow> map_of (sr_payload (st_row t)) ''sourceFingerprint'' = Some (JStr (st_fingerprint t))"

lemma at_most_one_scope: "length (selectPersistableScopes scopes) \<le> 1"
  by (simp add: selectPersistableScopes_def Let_def)

lemma toRow_simps [simp]:
  "snapshotKey (toRow env inp captured e r u scope) =
     (as_strategyId scope, captured, as_market scope, Some (JStr (ps_sourceFingerprint inp)))"
  by (simp add: toRow_def snapshotKey_def buildPnlSnapshotPayload_def)

lemma rowInputs_cases:
  assumes "toPnlSnapshotRowInputs env inp = Inr rows"
  obtains "rows = []" "ao_equityKrw (ps_output inp) = None \<or> ao_realizedPnlKrw (ps_output inp) = None \<or> ao_unrealizedPnlKrw (ps_output inp) = None"
  | captured e r u where "normalizeCapturedAt (ps_capturedAt inp) = Inr captured" "ao_equityKrw (ps_output inp) = Some e"
      "ao_realizedPnlKrw (ps_output inp) = Some r" "ao_unrealizedPnlKrw (ps_output inp) = Some u"
      "rows = map (toRow env inp captured e r u) (selectPersistableScopes (ao_scopes (ps_output inp)))"
  using assms
  by (cases "ao_equityKrw (ps_output inp)"; cases "ao_realizedPnlKrw (ps_output inp)"; cases "ao_unrealizedPnlKrw (ps_output inp)")
    (auto simp: toPnlSnapshotRowInputs_def bindR_Inr_iff Let_def)

lemma rows_fingerprinted:
  assumes "toPnlSnapshotRowInputs env inp = Inr rows"
  shows "length rows \<le> 1"
    "\<forall>row \<in> set rows. map_of (sr_payload row) ''sourceFingerprint'' = Some (JStr (ps_sourceFingerprint inp))"
  using assms at_most_one_scope [of "ao_scopes (ps_output inp)"]
  by (cases rule: rowInputs_cases; auto simp: toRow_def buildPnlSnapshotPayload_def)+

lemma insertRow_key: "insertRow env row = Inr r \<Longrightarrow> snapshotKey r = snapshotKey row"
  by (auto simp: insertRow_def bindR_Inr_iff snapshotKey_def)

lemma sameSnapshot_iff:
  "fingerprinted t \<Longrightarrow> sameSnapshot (st_row t) (st_fingerprint t) r \<longleftrightarrow> snapshotKey r = snapshotKey (st_row t)"
  by (auto simp: sameSnapshot_def snapshotKey_def fingerprinted_def)

lemma same_key_same_lock:
  "fingerprinted t \<Longrightarrow> fingerprinted u \<Longrightarrow> snapshotKey (st_row t) = snapshotKey (st_row u) \<Longrightarrow>
   lockPnlSnapshotScope env t = lockPnlSnapshotScope env u"
  by (simp add: lockPnlSnapshotScope_def snapshotKey_def fingerprinted_def)

text \<open>The rows that committed transactions inserted.\<close>

fun insertedRow :: "tx_phase \<Rightarrow> pnl_row list" where
  "insertedRow (COMMITTED True r) = [r]"
| "insertedRow _ = []"

definition written :: "snapshot_tx list \<Rightarrow> pnl_row list" where
  "written txs = concat (map (\<lambda>t. insertedRow (st_phase t)) txs)"

text \<open>What a transaction knows of the committed rows in each phase.\<close>

fun phaseOk :: "pnl_row list \<Rightarrow> pnl_row \<Rightarrow> tx_phase \<Rightarrow> bool" where
  "phaseOk table row (FOUND r) \<longleftrightarrow> r \<in> set table \<and> snapshotKey r = snapshotKey row"
| "phaseOk table row ABSENT \<longleftrightarrow> snapshotKey row \<notin> snapshotKey ` set table"
| "phaseOk table row (INSERTED r) \<longleftrightarrow> snapshotKey r = snapshotKey row \<and> snapshotKey row \<notin> snapshotKey ` set table"
| "phaseOk table row (COMMITTED b r) \<longleftrightarrow> r \<in> set table \<and> snapshotKey r = snapshotKey row"
| "phaseOk table row _ \<longleftrightarrow> True"

definition exclusive :: "repository_env \<Rightarrow> snapshot_tx list \<Rightarrow> bool" where
  "exclusive env txs \<longleftrightarrow> (\<forall>i < length txs. \<forall>j < length txs. i \<noteq> j \<longrightarrow> holdsLock (st_phase (txs ! i)) \<longrightarrow> holdsLock (st_phase (txs ! j)) \<longrightarrow>
     lockPnlSnapshotScope env (txs ! i) \<noteq> lockPnlSnapshotScope env (txs ! j))"

definition repositoryOk :: "repository_env \<Rightarrow> pnl_row list \<Rightarrow> snapshot_tx list \<times> pnl_row list \<Rightarrow> bool" where
  "repositoryOk env before s \<longleftrightarrow>
     distinct (map snapshotKey (snd s)) \<and> mset (snd s) = mset before + mset (written (fst s)) \<and> exclusive env (fst s) \<and>
     (\<forall>t \<in> set (fst s). fingerprinted t \<and> phaseOk (snd s) (st_row t) (st_phase t))"

lemma repositoryOk_tx:
  assumes "repositoryOk env before (txs, table)" "i < length txs"
  shows "fingerprinted (txs ! i)" "phaseOk table (st_row (txs ! i)) (st_phase (txs ! i))"
  using assms by (simp_all add: repositoryOk_def)

lemma phase_update [simp]:
  "lockPnlSnapshotScope env (t\<lparr>st_phase := p\<rparr>) = lockPnlSnapshotScope env t" "fingerprinted (t\<lparr>st_phase := p\<rparr>) = fingerprinted t"
  by (simp_all add: lockPnlSnapshotScope_def fingerprinted_def)

lemma exclusive_update:
  assumes ok: "exclusive env txs" and i: "i < length txs"
    and lock: "holdsLock p \<Longrightarrow> holdsLock (st_phase (txs ! i)) \<or>
      (\<forall>t \<in> set txs. holdsLock (st_phase t) \<longrightarrow> lockPnlSnapshotScope env t \<noteq> lockPnlSnapshotScope env (txs ! i))"
  shows "exclusive env (txs[i := (txs ! i)\<lparr>st_phase := p\<rparr>])"
proof -
  have apart: "lockPnlSnapshotScope env (txs ! i) \<noteq> lockPnlSnapshotScope env (txs ! j)"
    if "holdsLock p" "j < length txs" "j \<noteq> i" "holdsLock (st_phase (txs ! j))" for j
    using lock [OF that(1)] ok i that(2-4) unfolding exclusive_def by (metis nth_mem)
  show ?thesis
    unfolding exclusive_def length_list_update
  proof (intro allI impI)
    fix a b
    assume "a < length txs" "b < length txs" "a \<noteq> b"
      "holdsLock (st_phase (txs[i := (txs ! i)\<lparr>st_phase := p\<rparr>] ! a))" "holdsLock (st_phase (txs[i := (txs ! i)\<lparr>st_phase := p\<rparr>] ! b))"
    then show "lockPnlSnapshotScope env (txs[i := (txs ! i)\<lparr>st_phase := p\<rparr>] ! a)
        \<noteq> lockPnlSnapshotScope env (txs[i := (txs ! i)\<lparr>st_phase := p\<rparr>] ! b)"
      using apart [of a] apart [of b] ok by (cases "a = i"; cases "b = i") (auto simp: exclusive_def)
  qed
qed

lemma written_update:
  assumes "i < length txs" "insertedRow (st_phase (txs ! i)) = []"
  shows "mset (written (txs[i := t])) = mset (written txs) + mset (insertedRow (st_phase t))"
proof -
  have "written (take i txs @ (txs ! i) # drop (Suc i) txs) = written (take i txs) @ written (drop (Suc i) txs)"
    using assms(2) by (simp add: written_def)
  then have "written txs = written (take i txs) @ written (drop (Suc i) txs)" using id_take_nth_drop [OF assms(1)] by metis
  then show ?thesis using assms(1) by (simp add: upd_conv_take_nth_drop written_def)
qed

text \<open>A step of one transaction that leaves the committed rows alone.\<close>

lemma repositoryOk_phase:
  assumes ok: "repositoryOk env before (txs, table)" and i: "i < length txs"
    and p: "phaseOk table (st_row (txs ! i)) p" "insertedRow (st_phase (txs ! i)) = []" "insertedRow p = []"
    and lock: "holdsLock p \<Longrightarrow> holdsLock (st_phase (txs ! i)) \<or>
      (\<forall>t \<in> set txs. holdsLock (st_phase t) \<longrightarrow> lockPnlSnapshotScope env t \<noteq> lockPnlSnapshotScope env (txs ! i))"
  shows "repositoryOk env before (txs[i := (txs ! i)\<lparr>st_phase := p\<rparr>], table)"
proof -
  have "exclusive env (txs[i := (txs ! i)\<lparr>st_phase := p\<rparr>])"
    using ok i lock by (intro exclusive_update) (simp_all add: repositoryOk_def)
  moreover have "mset (written (txs[i := (txs ! i)\<lparr>st_phase := p\<rparr>])) = mset (written txs)"
    using written_update [OF i p(2)] p(3) by simp
  moreover have "fingerprinted t \<and> phaseOk table (st_row t) (st_phase t)" if "t \<in> set (txs[i := (txs ! i)\<lparr>st_phase := p\<rparr>])" for t
    using set_update_subset_insert [of txs i] that ok i p(1) by (fastforce simp: repositoryOk_def)
  ultimately show ?thesis using ok by (simp add: repositoryOk_def)
qed

lemma phaseOk_grow:
  assumes "phaseOk table row p" "holdsLock p \<longrightarrow> snapshotKey r \<noteq> snapshotKey row"
  shows "phaseOk (table @ [r]) row p"
  using assms by (cases p) auto

text \<open>The lock keeps every other transaction on the same snapshot from having looked.\<close>

lemma repositoryOk_commit:
  assumes ok: "repositoryOk env before (txs, table)" and i: "i < length txs" and p: "st_phase (txs ! i) = INSERTED r"
  shows "repositoryOk env before (txs[i := (txs ! i)\<lparr>st_phase := COMMITTED True r\<rparr>], table @ [r])"
proof -
  have r: "snapshotKey r = snapshotKey (st_row (txs ! i))" "snapshotKey r \<notin> snapshotKey ` set table" "fingerprinted (txs ! i)"
    using repositoryOk_tx [OF ok i] p by auto
  have other: "phaseOk (table @ [r]) (st_row (txs ! j)) (st_phase (txs ! j))" if "j < length txs" "j \<noteq> i" for j
  proof (rule phaseOk_grow)
    show "phaseOk table (st_row (txs ! j)) (st_phase (txs ! j))" using ok that by (simp add: repositoryOk_def)
    have "lockPnlSnapshotScope env (txs ! i) \<noteq> lockPnlSnapshotScope env (txs ! j)" if "holdsLock (st_phase (txs ! j))"
      using ok i p \<open>j < length txs\<close> \<open>j \<noteq> i\<close> that by (simp add: repositoryOk_def exclusive_def)
    then show "holdsLock (st_phase (txs ! j)) \<longrightarrow> snapshotKey r \<noteq> snapshotKey (st_row (txs ! j))"
      using same_key_same_lock [of "txs ! i" "txs ! j"] r ok that by (auto simp: repositoryOk_def)
  qed
  have "fingerprinted t \<and> phaseOk (table @ [r]) (st_row t) (st_phase t)"
    if t: "t \<in> set (txs[i := (txs ! i)\<lparr>st_phase := COMMITTED True r\<rparr>])" for t
  proof -
    from t obtain j where j: "j < length txs" "t = (txs[i := (txs ! i)\<lparr>st_phase := COMMITTED True r\<rparr>]) ! j"
      by (metis in_set_conv_nth length_list_update)
    then show ?thesis using other r ok i by (cases "j = i") (auto simp: repositoryOk_def)
  qed
  moreover have "exclusive env (txs[i := (txs ! i)\<lparr>st_phase := COMMITTED True r\<rparr>])"
    using ok i by (intro exclusive_update) (simp_all add: repositoryOk_def)
  moreover have "mset (written (txs[i := (txs ! i)\<lparr>st_phase := COMMITTED True r\<rparr>])) = mset (written txs) + {#r#}"
    using written_update [OF i, of "(txs ! i)\<lparr>st_phase := COMMITTED True r\<rparr>"] p by simp
  ultimately show ?thesis using ok r(2) by (simp add: repositoryOk_def)
qed

lemma repositoryOk_step:
  assumes "snapshot_step env s s'" "repositoryOk env before s"
  shows "repositoryOk env before s'"
  using assms
proof (induction rule: snapshot_step.induct)
  case (opens inp row txs table)
  have "fingerprinted \<lparr>st_row = row, st_fingerprint = ps_sourceFingerprint inp, st_phase = WAITING\<rparr>"
    using rows_fingerprinted(2) [OF opens(1)] by (simp add: fingerprinted_def)
  then show ?case using opens(2)
    by (auto simp: repositoryOk_def written_def exclusive_def nth_append less_Suc_eq)
next
  case (locks i txs table)
  then show ?case by (intro repositoryOk_phase) auto
next
  case (looks i txs table)
  then have "fingerprinted (txs ! i)" by (simp add: repositoryOk_def)
  then have "phaseOk table (st_row (txs ! i)) (lookUp table (txs ! i))"
    by (auto simp: lookUp_def sameSnapshot_iff find_Some_iff find_None_iff split: option.split)
  then show ?case using looks
    by (intro repositoryOk_phase) (auto simp: lookUp_def split: option.splits)
next
  case (inserts i txs table)
  then have "phaseOk table (st_row (txs ! i)) ABSENT" using repositoryOk_tx [OF inserts(3,1)] by simp
  then have "phaseOk table (st_row (txs ! i)) (insertPhase env (txs ! i))"
    by (auto simp: insertPhase_def insertRow_key split: sum.split)
  then show ?case using inserts
    by (intro repositoryOk_phase) (auto simp: insertPhase_def split: sum.splits)
next
  case (commits i txs table p table')
  show ?case
  proof (cases "st_phase (txs ! i)")
    case (FOUND r)
    then have "phaseOk table (st_row (txs ! i)) (FOUND r)" using repositoryOk_tx [OF commits(3,1)] by simp
    then show ?thesis using commits FOUND by (auto simp: commitPhase_def intro!: repositoryOk_phase)
  next
    case (INSERTED r)
    then show ?thesis using commits repositoryOk_commit by (auto simp: commitPhase_def)
  qed (use commits in \<open>auto simp: commitPhase_def\<close>)
next
  case (rolls_back i txs table)
  have "insertedRow (st_phase (txs ! i)) = []" using rolls_back(2) by (cases "st_phase (txs ! i)") auto
  then show ?case using rolls_back by (intro repositoryOk_phase) auto
qed

lemma repositoryOk_run:
  assumes "(snapshot_step env)\<^sup>*\<^sup>* ([], before) s" "distinct (map snapshotKey before)"
  shows "repositoryOk env before s"
  using assms(1)
proof (induction rule: rtranclp_induct)
  case base
  then show ?case using assms(2) by (simp add: repositoryOk_def written_def exclusive_def)
next
  case (step s s')
  then show ?case using repositoryOk_step by blast
qed

lemma written_mem: "t \<in> set txs \<Longrightarrow> st_phase t = COMMITTED True r \<Longrightarrow> r \<in> set (written txs)"
  by (force simp: written_def)

section \<open>Properties\<close>

text \<open>
  C27. Concurrent closeouts store a snapshot once. However transactions for any snapshots interleave, and
  whichever of them are rolled back, no two committed rows have the same strategy, market, time and
  fingerprint; the table holds what it held before and exactly the rows that committed transactions
  report as inserted, none of them twice; and all transactions that committed for the same snapshot
  return the same row.
\<close>

theorem concurrent_snapshots_stored_once:
  assumes run: "(snapshot_step env)\<^sup>*\<^sup>* ([], before) (txs, table)" and before: "distinct (map snapshotKey before)"
  shows "distinct (map snapshotKey table) \<and> mset table = mset before + mset (written txs) \<and>
    (\<forall>t \<in> set txs. \<forall>u \<in> set txs. \<forall>a b r q. st_phase t = COMMITTED a r \<and> st_phase u = COMMITTED b q \<and>
       snapshotKey (st_row t) = snapshotKey (st_row u) \<longrightarrow> r = q)"
proof -
  have ok: "repositoryOk env before (txs, table)" by (rule repositoryOk_run [OF run before])
  then have inj: "inj_on snapshotKey (set table)" by (simp add: repositoryOk_def distinct_map)
  have known: "r \<in> set table \<and> snapshotKey r = snapshotKey (st_row t)" if "t \<in> set txs" "st_phase t = COMMITTED b r" for t b r
    using ok that by (fastforce simp: repositoryOk_def)
  have "r = q" if "t \<in> set txs" "u \<in> set txs" "st_phase t = COMMITTED a r" "st_phase u = COMMITTED b q"
      "snapshotKey (st_row t) = snapshotKey (st_row u)" for t u a b r q
    using known [OF that(1,3)] known [OF that(2,4)] that(5) inj_onD [OF inj] by metis
  then show ?thesis using ok by (auto simp: repositoryOk_def)
qed

section \<open>The closeout over the repository\<close>

lemma persist_cases:
  assumes "persistPnlSnapshot env inp table = (Inr res, table')"
  obtains (nothing) "toPnlSnapshotRowInputs env inp = Inr []" "res = \<lparr>sp_inserted = False, sp_snapshots = []\<rparr>" "table' = table"
  | (found) row existing where "toPnlSnapshotRowInputs env inp = Inr [row]"
      "find (sameSnapshot row (ps_sourceFingerprint inp)) table = Some existing"
      "res = \<lparr>sp_inserted = False, sp_snapshots = [existing]\<rparr>" "table' = table"
  | (new) row stored where "toPnlSnapshotRowInputs env inp = Inr [row]"
      "find (sameSnapshot row (ps_sourceFingerprint inp)) table = None" "insertRow env row = Inr stored"
      "res = \<lparr>sp_inserted = True, sp_snapshots = [stored]\<rparr>" "table' = table @ [stored]"
proof -
  from assms obtain rows where rows: "toPnlSnapshotRowInputs env inp = Inr rows"
    by (auto simp: persistPnlSnapshot_def split: sum.splits)
  have "rows = [] \<or> (\<exists>row. rows = [row])" using rows_fingerprinted(1) [OF rows] by (cases rows) auto
  then consider "rows = []" | row where "rows = [row]" by blast
  then show thesis
  proof cases
    case 1
    then have "toPnlSnapshotRowInputs env inp = Inr []" "res = \<lparr>sp_inserted = False, sp_snapshots = []\<rparr>" "table' = table"
      using assms rows by (simp_all add: persistPnlSnapshot_def)
    then show thesis by (rule nothing)
  next
    case (2 row)
    show thesis
    proof (cases "find (sameSnapshot row (ps_sourceFingerprint inp)) table")
      case None
      then obtain stored where "insertRow env row = Inr stored" "res = \<lparr>sp_inserted = True, sp_snapshots = [stored]\<rparr>" "table' = table @ [stored]"
        using assms rows 2 by (cases "insertRow env row") (auto simp: persistPnlSnapshot_def)
      then show thesis using rows 2 None by (intro new) simp_all
    next
      case (Some existing)
      then show thesis using assms rows 2 by (intro found) (auto simp: persistPnlSnapshot_def)
    qed
  qed
qed

lemma persist_error: "persistPnlSnapshot env inp table = (Inl e, table') \<Longrightarrow> table' = table"
  by (auto simp: persistPnlSnapshot_def split: sum.splits if_splits)

lemma persist_snapshots_known:
  assumes "persistPnlSnapshot env inp table = (Inr res, table')" "r \<in> set (sp_snapshots res)"
  shows "r \<in> set table'" "\<exists>row. toPnlSnapshotRowInputs env inp = Inr [row] \<and> snapshotKey r = snapshotKey row"
proof -
  have known: "snapshotKey existing = snapshotKey row"
    if "toPnlSnapshotRowInputs env inp = Inr [row]" "find (sameSnapshot row (ps_sourceFingerprint inp)) table = Some existing" for row existing
    using that rows_fingerprinted(2) [OF that(1)] by (auto simp: find_Some_iff sameSnapshot_def snapshotKey_def)
  show "r \<in> set table'"
    using assms(1) by (cases rule: persist_cases) (use assms(2) in \<open>auto simp: find_Some_iff\<close>)
  show "\<exists>row. toPnlSnapshotRowInputs env inp = Inr [row] \<and> snapshotKey r = snapshotKey row"
    using assms(1) by (cases rule: persist_cases) (use assms(2) known insertRow_key in auto)
qed

text \<open>Rows for another drawdown have the same keys, so the same snapshot is found.\<close>

lemma rowInputs_drawdown:
  "toPnlSnapshotRowInputs env (inp\<lparr>ps_drawdownBps := d\<rparr>) =
     map_sum id (map (\<lambda>row. row\<lparr>sr_drawdownBps := d\<rparr>)) (toPnlSnapshotRowInputs env inp)"
  by (cases "normalizeCapturedAt (ps_capturedAt inp)")
    (auto simp: toPnlSnapshotRowInputs_def Let_def toRow_def split: option.split)

lemma sameSnapshot_drawdown [simp]: "sameSnapshot (row\<lparr>sr_drawdownBps := d\<rparr>) = sameSnapshot row"
  by (simp add: fun_eq_iff sameSnapshot_def)

lemma find_append: "find P (xs @ ys) = (case find P xs of None \<Rightarrow> find P ys | Some x \<Rightarrow> Some x)"
  by (induction xs) auto

lemma persist_retried:
  assumes "persistPnlSnapshot env inp table = (Inr res, table')"
  shows "persistPnlSnapshot env (inp\<lparr>ps_drawdownBps := d\<rparr>) (table' @ later) = (Inr (res\<lparr>sp_inserted := False\<rparr>), table' @ later)"
  using assms
proof (cases rule: persist_cases)
  case nothing
  then show ?thesis by (simp add: persistPnlSnapshot_def rowInputs_drawdown)
next
  case (found row existing)
  then show ?thesis by (simp add: persistPnlSnapshot_def rowInputs_drawdown find_append)
next
  case (new row stored)
  have "sameSnapshot row (ps_sourceFingerprint inp) stored"
    using insertRow_key [OF new(3)] rows_fingerprinted(2) [OF new(1)] by (auto simp: sameSnapshot_def snapshotKey_def)
  then show ?thesis using new by (simp add: persistPnlSnapshot_def rowInputs_drawdown find_append)
qed

lemma closeout_cases:
  assumes "runPnLAccountingCloseout env provider persist capturedAt w = (Inr res, w')"
  obtains request where "prepareCloseout env provider capturedAt = Inr (request, cl_capturedAt res)"
    "persist request w = (Inr (cl_persisted res), w')" "cl_output res = ps_output request"
    "cl_sourceFingerprint res = ps_sourceFingerprint request"
  using assms by (auto simp: runPnLAccountingCloseout_def split: sum.splits prod.splits)

text \<open>A provider with the same facts leads to the same request but for the drawdown.\<close>

lemma prepareCloseout_facts:
  assumes "prepareCloseout env provider capturedAt = Inr (request, captured)"
    and "prepareCloseout env provider' capturedAt = Inr (request', captured')" and "dp_load provider' = dp_load provider"
  shows "request' = request\<lparr>ps_drawdownBps := ps_drawdownBps request'\<rparr>" "captured' = captured"
  using assms by (auto simp: prepareCloseout_def Let_def bindR_Inr_iff split: option.splits)

lemma prepareCloseout_time:
  "prepareCloseout env provider capturedAt = Inr (request, captured) \<Longrightarrow> normalizeCapturedAt (ps_capturedAt request) = Inr captured"
  by (auto simp: prepareCloseout_def Let_def bindR_Inr_iff normalizeCapturedAt_def)

lemma selectPersistableScopes_subset: "scope \<in> set (selectPersistableScopes scopes) \<Longrightarrow> scope \<in> set scopes"
  by (auto simp: selectPersistableScopes_def Let_def split: if_splits)

text \<open>
  A closeout stores its snapshot once, retries included. It adds at most one row to the table, which
  it reports as inserted, and reports no snapshot exactly when a figure is unknown or no single scope
  stands for the result. Every snapshot it reports is in the table under the time and fingerprint of the
  run. Running it again on the same facts, against any history and after any other rows were added, adds
  nothing and reports the same snapshots; a run that fails leaves the table alone.
\<close>

theorem closeout_stores_once:
  assumes run: "runPnLAccountingCloseout env provider (persistPnlSnapshot repo) capturedAt table = (Inr res, table')"
  shows "(\<exists>added. table' = table @ added \<and> length added \<le> 1 \<and> (sp_inserted (cl_persisted res) \<longleftrightarrow> added \<noteq> [])) \<and>
    (sp_snapshots (cl_persisted res) = [] \<longleftrightarrow>
       ao_equityKrw (cl_output res) = None \<or> ao_realizedPnlKrw (cl_output res) = None \<or> ao_unrealizedPnlKrw (cl_output res) = None \<or>
       selectPersistableScopes (ao_scopes (cl_output res)) = []) \<and>
    (\<forall>r \<in> set (sp_snapshots (cl_persisted res)). r \<in> set table' \<and>
       (\<exists>scope \<in> set (ao_scopes (cl_output res)). snapshotKey r =
          (as_strategyId scope, cl_capturedAt res, as_market scope, Some (JStr (cl_sourceFingerprint res))))) \<and>
    (\<forall>provider' later res' table''. dp_load provider' = dp_load provider \<and>
       runPnLAccountingCloseout env provider' (persistPnlSnapshot repo) capturedAt (table' @ later) = (Inr res', table'') \<longrightarrow>
       table'' = table' @ later \<and> cl_persisted res' = (cl_persisted res)\<lparr>sp_inserted := False\<rparr>) \<and>
    (\<forall>other e table''. runPnLAccountingCloseout env other (persistPnlSnapshot repo) capturedAt table = (Inl e, table'') \<longrightarrow> table'' = table)"
proof (intro conjI)
  from run obtain request where prepared: "prepareCloseout env provider capturedAt = Inr (request, cl_capturedAt res)"
    and persisted: "persistPnlSnapshot repo request table = (Inr (cl_persisted res), table')"
    and out: "cl_output res = ps_output request" "cl_sourceFingerprint res = ps_sourceFingerprint request"
    by (rule closeout_cases)
  show "\<exists>added. table' = table @ added \<and> length added \<le> 1 \<and> (sp_inserted (cl_persisted res) \<longleftrightarrow> added \<noteq> [])"
    using persisted by (cases rule: persist_cases) auto
  from persisted obtain rows where rows: "toPnlSnapshotRowInputs repo request = Inr rows"
    and empty: "sp_snapshots (cl_persisted res) = [] \<longleftrightarrow> rows = []" by (cases rule: persist_cases) auto
  from rows show "sp_snapshots (cl_persisted res) = [] \<longleftrightarrow>
      ao_equityKrw (cl_output res) = None \<or> ao_realizedPnlKrw (cl_output res) = None \<or> ao_unrealizedPnlKrw (cl_output res) = None \<or>
      selectPersistableScopes (ao_scopes (cl_output res)) = []"
    unfolding out empty by (cases rule: rowInputs_cases) auto
  have stored: "\<exists>scope \<in> set (ao_scopes (cl_output res)). snapshotKey r =
      (as_strategyId scope, cl_capturedAt res, as_market scope, Some (JStr (cl_sourceFingerprint res)))"
    if r: "r \<in> set (sp_snapshots (cl_persisted res))" for r
  proof -
    obtain row where row: "toPnlSnapshotRowInputs repo request = Inr [row]" "snapshotKey r = snapshotKey row"
      using persist_snapshots_known(2) [OF persisted r] by blast
    from row(1) show ?thesis
      by (cases rule: rowInputs_cases)
        (use row(2) prepareCloseout_time [OF prepared] out selectPersistableScopes_subset in \<open>fastforce\<close>)+
  qed
  then show "\<forall>r \<in> set (sp_snapshots (cl_persisted res)). r \<in> set table' \<and>
      (\<exists>scope \<in> set (ao_scopes (cl_output res)). snapshotKey r =
        (as_strategyId scope, cl_capturedAt res, as_market scope, Some (JStr (cl_sourceFingerprint res))))"
    using persist_snapshots_known(1) [OF persisted] by blast
  show "\<forall>provider' later res' table''. dp_load provider' = dp_load provider \<and>
      runPnLAccountingCloseout env provider' (persistPnlSnapshot repo) capturedAt (table' @ later) = (Inr res', table'') \<longrightarrow>
      table'' = table' @ later \<and> cl_persisted res' = (cl_persisted res)\<lparr>sp_inserted := False\<rparr>"
  proof (intro allI impI, elim conjE)
    fix provider' later res' table''
    assume same: "dp_load provider' = dp_load provider"
      and again: "runPnLAccountingCloseout env provider' (persistPnlSnapshot repo) capturedAt (table' @ later) = (Inr res', table'')"
    from again obtain request' where prepared': "prepareCloseout env provider' capturedAt = Inr (request', cl_capturedAt res')"
      and persisted': "persistPnlSnapshot repo request' (table' @ later) = (Inr (cl_persisted res'), table'')"
      by (rule closeout_cases)
    note request' = prepareCloseout_facts(1) [OF prepared prepared' same]
    show "table'' = table' @ later \<and> cl_persisted res' = (cl_persisted res)\<lparr>sp_inserted := False\<rparr>"
      using persist_retried [OF persisted, of "ps_drawdownBps request'" later] persisted' unfolding request' [symmetric] by simp
  qed
  show "\<forall>other e table''. runPnLAccountingCloseout env other (persistPnlSnapshot repo) capturedAt table = (Inl e, table'') \<longrightarrow> table'' = table"
    using persist_error by (auto simp: runPnLAccountingCloseout_def split: sum.splits prod.splits)
qed

lemma payload_restored:
  assumes "sf_payloadJson s = Some (buildPnlSnapshotPayload env out scope fingerprint)"
  shows "resolveSnapshotStatus s = as_status scope \<and> extractSnapshotPayloadMissingReasons [s] = ao_missingReasons out"
proof -
  have one: "isSnapshotPayloadMissingReason (reasonPayload env r) = Some r" for r
    by (simp add: reasonPayload_def isSnapshotPayloadMissingReason_def missing_def)
  have reasons: "List.map_filter isSnapshotPayloadMissingReason (map (reasonPayload env) rs) = rs" for rs
    by (induction rs) (simp_all add: one List.map_filter_simps)
  have free: "map_of (positionPayload out scope) ''missingReasons'' = None" "map_of (tracePayload t) ''missingReasons'' = None" for t
    by (auto simp: positionPayload_def tracePayload_def Let_def split: option.split)
  have "payloadField s ''missingReasons'' =
      (if ao_missingReasons out = [] then None else Some (JArr (map (reasonPayload env) (ao_missingReasons out))))"
    using assms free by (auto simp: payloadField_def buildPnlSnapshotPayload_def map_of_append map_add_def)
  then have "extractSnapshotPayloadMissingReasons [s] = ao_missingReasons out"
    by (simp add: extractSnapshotPayloadMissingReasons_def reasons)
  moreover have "payloadField s ''status'' = Some (JStr (pnlStatusName (as_status scope)))"
    using assms by (simp add: payloadField_def buildPnlSnapshotPayload_def)
  then have "resolveSnapshotStatus s = as_status scope"
    by (cases "as_status scope") (simp_all add: resolveSnapshotStatus_def isPnLAccountingStatus_def)
  ultimately show ?thesis by simp
qed

text \<open>
  C28. Evidence survives storage. When a result is stored as a new row, the row is that of one of its
  scopes, and the calculator that reads a snapshot with the payload of that row finds the status of this
  scope (which may differ from the overall status of the result, and is what the payload records) and
  exactly the missing reasons of the result, so a partial scope stays partial when it is used again.
\<close>

theorem stored_evidence_restored:
  assumes persisted: "persistPnlSnapshot env inp table = (Inr res, table')" and inserted: "sp_inserted res"
  shows "\<exists>row. \<exists>scope \<in> set (ao_scopes (ps_output inp)). table' = table @ [row] \<and>
    sr_strategyId row = as_strategyId scope \<and> sr_market row = as_market scope \<and>
    (\<forall>s. sf_payloadJson s = Some (sr_payload row) \<longrightarrow> resolveSnapshotStatus s = as_status scope \<and>
       extractSnapshotPayloadMissingReasons [s] = ao_missingReasons (ps_output inp))"
  using persisted
proof (cases rule: persist_cases)
  case (new row stored)
  from new(1) obtain captured e r u scope where row: "row = toRow env inp captured e r u scope"
    and "scope \<in> set (selectPersistableScopes (ao_scopes (ps_output inp)))"
    by (cases rule: rowInputs_cases) auto
  moreover have "sr_strategyId stored = sr_strategyId row" "sr_market stored = sr_market row" "sr_payload stored = sr_payload row"
    using new(3) by (auto simp: insertRow_def bindR_Inr_iff)
  ultimately show ?thesis
    using new(5) payload_restored by (intro exI [of _ stored] bexI [of _ scope])
      (auto simp: toRow_def dest: selectPersistableScopes_subset)
qed (use inserted in simp_all)

section \<open>Examples\<close>

definition exampleRepo :: repository_env where
  "exampleRepo = \<lparr>re_numeric = storageEnv exactRound, re_message = mr_reasonCode, re_lockKey = (\<lambda>captured strategyId market fingerprint. captured)\<rparr>"

definition exampleRequest :: persist_pnl_input where
  "exampleRequest = \<lparr>ps_output = exampleOutput, ps_capturedAt = At 5000000, ps_drawdownBps = 1000, ps_sourceFingerprint = ''f''\<rparr>"

definition exampleRow :: pnl_row where
  "exampleRow = toRow exampleRepo exampleRequest 5 900 (- 100) 0 (hd (ao_scopes exampleOutput))"

definition exampleTx :: "tx_phase \<Rightarrow> snapshot_tx" where
  "exampleTx p = \<lparr>st_row = exampleRow, st_fingerprint = ''f'', st_phase = p\<rparr>"

lemma exampleTx_simps [simp]: "st_phase (exampleTx p) = p" "(exampleTx p)\<lparr>st_phase := q\<rparr> = exampleTx q"
  by (simp_all add: exampleTx_def)

lemma exampleRow_input: "toPnlSnapshotRowInputs exampleRepo exampleRequest = Inr [exampleRow]"
  by (simp add: toPnlSnapshotRowInputs_def exampleRequest_def normalizeCapturedAt_def exampleOutput_def exampleRow_def
      selectPersistableScopes_def)

lemma exampleRow_stored: "insertPhase exampleRepo (exampleTx p) = INSERTED exampleRow"
proof -
  have "insertRow exampleRepo exampleRow = Inr exampleRow" by code_simp
  then show ?thesis by (simp add: insertPhase_def exampleTx_def)
qed

lemma exampleRow_found: "lookUp [] (exampleTx p) = ABSENT" "lookUp [exampleRow] (exampleTx p) = FOUND exampleRow"
proof -
  have "sameSnapshot exampleRow ''f'' exampleRow" by code_simp
  then show "lookUp [] (exampleTx p) = ABSENT" "lookUp [exampleRow] (exampleTx p) = FOUND exampleRow"
    by (simp_all add: lookUp_def exampleTx_def)
qed

text \<open>Two transactions for one snapshot; the second opens while the first holds the lock.\<close>

lemma example_two_writers:
  "(snapshot_step exampleRepo)\<^sup>*\<^sup>* ([], []) ([exampleTx (COMMITTED True exampleRow), exampleTx (COMMITTED False exampleRow)], [exampleRow])"
proof -
  let ?S = "snapshot_step exampleRepo"
  have start: "?S (txs, table) (txs @ [exampleTx WAITING], table)" for txs table
    using snapshot_step.opens [OF exampleRow_input, of txs table] by (simp add: exampleTx_def exampleRequest_def)
  note step = rtranclp.rtrancl_into_rtrancl
  have "?S\<^sup>*\<^sup>* ([], []) ([exampleTx WAITING], [])" using start [of "[]" "[]"] by auto
  from step [OF this, of "([exampleTx LOCKED], [])"] snapshot_step.locks [of 0 "[exampleTx WAITING]" exampleRepo "[]"]
  have "?S\<^sup>*\<^sup>* ([], []) ([exampleTx LOCKED], [])" by simp
  from step [OF this, of "([exampleTx ABSENT], [])"] snapshot_step.looks [of 0 "[exampleTx LOCKED]" exampleRepo "[]"]
  have "?S\<^sup>*\<^sup>* ([], []) ([exampleTx ABSENT], [])" by (simp add: exampleRow_found)
  from step [OF this, of "([exampleTx ABSENT, exampleTx WAITING], [])"] start [of "[exampleTx ABSENT]" "[]"]
  have "?S\<^sup>*\<^sup>* ([], []) ([exampleTx ABSENT, exampleTx WAITING], [])" by simp
  from step [OF this] snapshot_step.inserts [of 0 "[exampleTx ABSENT, exampleTx WAITING]" exampleRepo "[]"]
  have "?S\<^sup>*\<^sup>* ([], []) ([exampleTx (INSERTED exampleRow), exampleTx WAITING], [])" by (simp add: exampleRow_stored)
  from step [OF this] snapshot_step.commits [of 0 "[exampleTx (INSERTED exampleRow), exampleTx WAITING]" "[]"]
  have "?S\<^sup>*\<^sup>* ([], []) ([exampleTx (COMMITTED True exampleRow), exampleTx WAITING], [exampleRow])" by (simp add: commitPhase_def)
  from step [OF this] snapshot_step.locks [of 1 "[exampleTx (COMMITTED True exampleRow), exampleTx WAITING]" exampleRepo "[exampleRow]"]
  have "?S\<^sup>*\<^sup>* ([], []) ([exampleTx (COMMITTED True exampleRow), exampleTx LOCKED], [exampleRow])" by simp
  from step [OF this] snapshot_step.looks [of 1 "[exampleTx (COMMITTED True exampleRow), exampleTx LOCKED]" exampleRepo "[exampleRow]"]
  have "?S\<^sup>*\<^sup>* ([], []) ([exampleTx (COMMITTED True exampleRow), exampleTx (FOUND exampleRow)], [exampleRow])" by (simp add: exampleRow_found)
  from step [OF this] snapshot_step.commits [of 1 "[exampleTx (COMMITTED True exampleRow), exampleTx (FOUND exampleRow)]" "[exampleRow]"]
  show ?thesis by (simp add: commitPhase_def)
qed

theorem concurrent_snapshots_stored_once_witness:
  "(snapshot_step exampleRepo)\<^sup>*\<^sup>* ([], []) ([exampleTx (COMMITTED True exampleRow), exampleTx (COMMITTED False exampleRow)], [exampleRow]) \<and>
   distinct (map snapshotKey [exampleRow]) \<and>
   mset [exampleRow] = {#} + mset (written [exampleTx (COMMITTED True exampleRow), exampleTx (COMMITTED False exampleRow)])"
  using concurrent_snapshots_stored_once [OF example_two_writers] example_two_writers by simp

text \<open>A closeout of one open position, run twice.\<close>

definition exampleProvider :: pnl_data_provider where
  "exampleProvider = \<lparr>dp_load = (\<lambda>captured. Inr (examplePnlInput [] [exampleFill BUY 100 1])), dp_history = None\<rparr>"

definition exampleCloseoutEnv :: closeout_env where
  "exampleCloseoutEnv = \<lparr>ce_numeric = storageEnv exactRound, ce_pnl = examplePnlEnv, ce_sha256 = (\<lambda>j. ''f'')\<rparr>"

definition exampleCloseout :: "pnl_row list \<Rightarrow> persist_pnl_result closeout_result result \<times> pnl_row list" where
  "exampleCloseout = runPnLAccountingCloseout exampleCloseoutEnv exampleProvider (persistPnlSnapshot exampleRepo) None"

lemma example_closeout:
  "is_ok (fst (exampleCloseout []))" "is_ok (fst (exampleCloseout (snd (exampleCloseout []))))"
  "length (snd (exampleCloseout [])) = 1"
  by code_simp+

theorem closeout_stores_once_witness:
  "\<exists>res table res'. exampleCloseout [] = (Inr res, table) \<and> length table = 1 \<and> sp_inserted (cl_persisted res) \<and>
     exampleCloseout table = (Inr res', table) \<and> \<not> sp_inserted (cl_persisted res')"
proof -
  obtain res table where run: "exampleCloseout [] = (Inr res, table)" using example_closeout(1) by (metis is_ok_iff prod.collapse)
  obtain res' table' where again: "exampleCloseout table = (Inr res', table')"
    using example_closeout(2) run by (metis is_ok_iff prod.collapse snd_conv)
  note once = closeout_stores_once [OF run [unfolded exampleCloseout_def]]
  have one: "length table = 1" using example_closeout(3) run by simp
  have "table' = table @ [] \<and> cl_persisted res' = (cl_persisted res)\<lparr>sp_inserted := False\<rparr>"
    using once again [unfolded exampleCloseout_def] by (metis append_Nil2)
  moreover have "sp_inserted (cl_persisted res)" using once one by auto
  ultimately show ?thesis using run again one by auto
qed

text \<open>A partial scope with a missing mark price, in a result that is otherwise calculated.\<close>

definition partialRequest :: persist_pnl_input where
  "partialRequest = exampleRequest\<lparr>ps_output := exampleOutput\<lparr>
     ao_scopes := [(hd (ao_scopes exampleOutput))\<lparr>as_status := PARTIAL\<rparr>],
     ao_missingReasons := [missing ''NO_MARK_PRICE'' ''s::m'' ''mark_prices'']\<rparr>\<rparr>"

lemma example_partial_stored: "(case persistPnlSnapshot exampleRepo partialRequest [] of (Inr res, table) \<Rightarrow> sp_inserted res | _ \<Rightarrow> False)"
  by code_simp

theorem stored_evidence_restored_witness:
  "\<exists>res row. persistPnlSnapshot exampleRepo partialRequest [] = (Inr res, [row]) \<and>
     resolveSnapshotStatus (peakSnapshot\<lparr>sf_payloadJson := Some (sr_payload row)\<rparr>) = PARTIAL \<and>
     extractSnapshotPayloadMissingReasons [peakSnapshot\<lparr>sf_payloadJson := Some (sr_payload row)\<rparr>] =
       [missing ''NO_MARK_PRICE'' ''s::m'' ''mark_prices'']"
proof -
  obtain res table where run: "persistPnlSnapshot exampleRepo partialRequest [] = (Inr res, table)" "sp_inserted res"
    using example_partial_stored by (auto split: prod.splits sum.splits)
  show ?thesis using stored_evidence_restored [OF run] run by (auto simp: partialRequest_def exampleRequest_def)
qed

end
