(* ===== verification/Pnl_Queries.thy ===== *)
theory Pnl_Queries
  imports Pnl_Repository
begin

text \<open>
  What is read back: the reconciled positions of finished runs (\<^verbatim>\<open>loadReconcileFacts\<close> of
  \<^verbatim>\<open>infrastructure/db/pnl-accounting/repository.ts\<close>) and the status of the latest snapshot
  (\<^verbatim>\<open>status-provider.ts\<close>). A query is a selection of the rows of its tables; rows of equal time keep the
  order of the table. A failing database is the absence of its rows.
\<close>

section \<open>Reconciled positions\<close>

record reconcile_record =
  rr_id :: string
  rr_runId :: string
  rr_runStatus :: string
  rr_runStartedAt :: timestamp
  rr_runFinishedAt :: "timestamp option"
  rr_exchange :: string
  rr_market :: string
  rr_strategyId :: string
  rr_quantity :: numeric
  rr_averageEntryPrice :: "numeric option"
  rr_recoveryStatus :: string
  rr_source :: string
  rr_capturedAt :: int
  rr_evidence :: json_record

record load_reconcile_input =
  li_strategyId :: "string option"
  li_market :: "string option"
  li_since :: "int option"

definition matchesQuery :: "load_reconcile_input \<Rightarrow> reconcile_record \<Rightarrow> bool" where
  "matchesQuery inp r \<longleftrightarrow>
     rr_runStatus r \<in> {''COMPLETED'', ''MANUAL_REVIEW_REQUIRED''} \<and>
     (case li_strategyId inp of None \<Rightarrow> True | Some s \<Rightarrow> rr_strategyId r = s) \<and>
     (case li_market inp of None \<Rightarrow> True | Some m \<Rightarrow> rr_market r = m) \<and>
     (case li_since inp of None \<Rightarrow> True | Some t \<Rightarrow> t \<le> rr_capturedAt r)"

definition toRunTieBreakMs :: "reconcile_record \<Rightarrow> int" where
  "toRunTieBreakMs r =
     (case timeMillis (case rr_runFinishedAt r of Some t \<Rightarrow> t | None \<Rightarrow> rr_runStartedAt r) of None \<Rightarrow> 0 | Some ms \<Rightarrow> ms)"

text \<open>Freshness: capture time in milliseconds, time of the run, and the names of run and row.\<close>

definition compareReconcileRecordFreshness :: "pnl_env \<Rightarrow> reconcile_record \<Rightarrow> int \<times> int \<times> nat list" where
  "compareReconcileRecordFreshness env r =
     (rr_capturedAt r div 1000000, toRunTieBreakMs r, pe_collate env (rr_runId r @ '':'' @ rr_id r))"

definition recordKey :: "reconcile_record \<Rightarrow> string" where
  "recordKey r = rr_strategyId r @ ''::'' @ rr_market r"

definition keepFresher :: "pnl_env \<Rightarrow> reconcile_record \<Rightarrow> (string \<times> reconcile_record) list \<Rightarrow> (string \<times> reconcile_record) list" where
  "keepFresher env r latest =
     (case map_of latest (recordKey r) of
        None \<Rightarrow> AList.update (recordKey r) r latest
      | Some existing \<Rightarrow>
         if compareReconcileRecordFreshness env existing < compareReconcileRecordFreshness env r
         then AList.update (recordKey r) r latest else latest)"

definition deduplicateReconcileRecords :: "pnl_env \<Rightarrow> reconcile_record list \<Rightarrow> reconcile_record list" where
  "deduplicateReconcileRecords env records = map snd (fold (keepFresher env) records [])"

definition toReconcileFact :: "reconcile_record \<Rightarrow> reconcile_fact" where
  "toReconcileFact r =
     \<lparr>rf_strategyId = rr_strategyId r, rf_market = rr_market r, rf_quantity = Some (rr_quantity r),
      rf_recoveryStatus = rr_recoveryStatus r, rf_averageEntryPrice = rr_averageEntryPrice r,
      rf_reconciledAt = At (rr_capturedAt r), rf_averageEntrySource = Some (rr_source r)\<rparr>"

definition loadReconcileFacts :: "pnl_env \<Rightarrow> load_reconcile_input \<Rightarrow> reconcile_record list \<Rightarrow> reconcile_record list \<times> reconcile_fact list" where
  "loadReconcileFacts env inp rows =
     (let records = sort_key (\<lambda>r. - rr_capturedAt r) (filter (matchesQuery inp) rows)
      in (records, map toReconcileFact (deduplicateReconcileRecords env records)))"

section \<open>Status of the latest snapshot\<close>

datatype read_status = OK | NOT_FOUND | READ_UNAVAILABLE

record pnl_status_summary =
  ss_readStatus :: read_status
  ss_latestCapturedAt :: "int option"
  ss_latestEquityKrw :: "rat option"
  ss_latestRealizedPnlKrw :: "rat option"
  ss_latestUnrealizedPnlKrw :: "rat option"
  ss_latestDrawdownBps :: "rat option"
  ss_latestSource :: "string option"
  ss_latestStatus :: "string option"
  ss_snapshotCount :: nat
  ss_reason :: string

text \<open>The scope of a status: no market at all, the aggregate, or one market.\<close>

datatype market_filter = ANY_MARKET | AGGREGATE_ONLY | MARKET string

fun latestMarket :: "market_filter \<Rightarrow> pnl_row \<Rightarrow> bool" where
  "latestMarket ANY_MARKET r \<longleftrightarrow> sr_market r = None"
| "latestMarket AGGREGATE_ONLY r \<longleftrightarrow> sr_market r = None"
| "latestMarket (MARKET m) r \<longleftrightarrow> sr_market r = Some m"

fun countedMarket :: "market_filter \<Rightarrow> pnl_row \<Rightarrow> bool" where
  "countedMarket ANY_MARKET r \<longleftrightarrow> True"
| "countedMarket AGGREGATE_ONLY r \<longleftrightarrow> sr_market r = None"
| "countedMarket (MARKET m) r \<longleftrightarrow> sr_market r = Some m"

definition emptyStatus :: "read_status \<Rightarrow> string \<Rightarrow> pnl_status_summary" where
  "emptyStatus status reason =
     \<lparr>ss_readStatus = status, ss_latestCapturedAt = None, ss_latestEquityKrw = None, ss_latestRealizedPnlKrw = None,
      ss_latestUnrealizedPnlKrw = None, ss_latestDrawdownBps = None, ss_latestSource = None, ss_latestStatus = None,
      ss_snapshotCount = 0, ss_reason = reason\<rparr>"

definition ofStrategy :: "string option \<Rightarrow> pnl_row \<Rightarrow> bool" where
  "ofStrategy strategy r \<longleftrightarrow> (case strategy of None \<Rightarrow> True | Some s \<Rightarrow> sr_strategyId r = s)"

definition summaryOf :: "pnl_row \<Rightarrow> nat \<Rightarrow> pnl_status_summary" where
  "summaryOf r rowCount =
     \<lparr>ss_readStatus = OK, ss_latestCapturedAt = Some (sr_capturedAt r), ss_latestEquityKrw = Some (sr_equity r),
      ss_latestRealizedPnlKrw = Some (sr_realizedPnl r), ss_latestUnrealizedPnlKrw = Some (sr_unrealizedPnl r),
      ss_latestDrawdownBps = Some (sr_drawdownBps r),
      ss_latestSource = (case jsonTextOf (map_of (sr_payload r) ''sourceFingerprint'') of None \<Rightarrow> None | Some f \<Rightarrow> Some ''pnl_snapshots''),
      ss_latestStatus = jsonTextOf (map_of (sr_payload r) ''status''), ss_snapshotCount = rowCount, ss_reason = ''pnl_snapshot_latest_read''\<rparr>"

definition getStatus :: "string option \<Rightarrow> market_filter \<Rightarrow> pnl_row list option \<Rightarrow> pnl_status_summary" where
  "getStatus strategy market database =
     (case database of
        None \<Rightarrow> emptyStatus READ_UNAVAILABLE ''pnl_snapshot_query_failed''
      | Some table \<Rightarrow>
         (case sort_key (\<lambda>r. - sr_capturedAt r) (filter (\<lambda>r. ofStrategy strategy r \<and> latestMarket market r) table) of
            [] \<Rightarrow> emptyStatus NOT_FOUND ''pnl_snapshot_not_found''
          | r # rs \<Rightarrow> summaryOf r (length (filter (\<lambda>r. ofStrategy strategy r \<and> countedMarket market r) table))))"

section \<open>Lemmas\<close>

definition freshest :: "pnl_env \<Rightarrow> reconcile_record set \<Rightarrow> reconcile_record \<Rightarrow> bool" where
  "freshest env records r \<longleftrightarrow> r \<in> records \<and>
     (\<forall>x \<in> records. recordKey x = recordKey r \<longrightarrow> compareReconcileRecordFreshness env x \<le> compareReconcileRecordFreshness env r)"

definition latestOk :: "pnl_env \<Rightarrow> reconcile_record set \<Rightarrow> (string \<times> reconcile_record) list \<Rightarrow> bool" where
  "latestOk env records latest \<longleftrightarrow> distinct (map fst latest) \<and> fst ` set latest = recordKey ` records \<and>
     (\<forall>(k, r) \<in> set latest. k = recordKey r \<and> freshest env records r)"

lemma latestOk_keep:
  assumes "latestOk env records latest"
  shows "latestOk env (insert r records) (keepFresher env r latest)"
proof -
  have entry: "map_of latest k = Some e \<longleftrightarrow> (k, e) \<in> set latest" for k e
    using assms by (auto simp: latestOk_def)
  have kept: "k = recordKey e \<and> freshest env records e" if "(k, e) \<in> set latest" for k e
    using assms that by (auto simp: latestOk_def)
  have keys: "distinct (map fst latest)" "fst ` set latest = recordKey ` records" using assms by (auto simp: latestOk_def)
  have other: "freshest env (insert r records) e" if "(k, e) \<in> set latest" "k \<noteq> recordKey r" for k e
    using kept [OF that(1)] that(2) by (auto simp: freshest_def)
  have replaced: "latestOk env (insert r records) (AList.update (recordKey r) r latest)" if new: "freshest env (insert r records) r"
  proof -
    have "k = recordKey e \<and> freshest env (insert r records) e" if "(k, e) \<in> set (AList.update (recordKey r) r latest)" for k e
    proof (cases "k = recordKey r")
      case True
      have "map_of (AList.update (recordKey r) r latest) k = Some e" by (rule map_of_is_SomeI [OF distinct_update [OF keys(1)] that])
      then have "e = r" using True by (simp add: update_conv')
      then show ?thesis using True new by simp
    next
      case False
      then have "(k, e) \<in> set latest" using set_update [OF that] by auto
      then show ?thesis using kept other False by blast
    qed
    then show ?thesis using keys by (auto simp: latestOk_def distinct_update dom_update)
  qed
  show ?thesis
  proof (cases "map_of latest (recordKey r)")
    case None
    then have "recordKey r \<notin> recordKey ` records" using keys(2) by (simp add: map_of_eq_None_iff)
    then have "\<forall>x \<in> records. recordKey x \<noteq> recordKey r" by (metis imageI)
    then have "freshest env (insert r records) r" by (auto simp: freshest_def)
    then show ?thesis using replaced None by (simp add: keepFresher_def)
  next
    case (Some e)
    then have member: "(recordKey r, e) \<in> set latest" by (rule map_of_SomeD)
    then have e: "recordKey e = recordKey r" "freshest env records e" using kept [OF member] by simp_all
    show ?thesis
    proof (cases "compareReconcileRecordFreshness env e < compareReconcileRecordFreshness env r")
      case True
      then have "freshest env (insert r records) r" using e by (fastforce simp: freshest_def)
      then show ?thesis using replaced Some True by (simp add: keepFresher_def)
    next
      case False
      then have "freshest env (insert r records) e" using e by (auto simp: freshest_def)
      moreover have "x = e" if "(recordKey r, x) \<in> set latest" for x
        using that member keys(1) by (simp add: eq_key_imp_eq_value)
      ultimately have all_kept: "k = recordKey x \<and> freshest env (insert r records) x" if "(k, x) \<in> set latest" for k x
        using that kept [OF that] other [OF that] by (cases "k = recordKey r") simp_all
      have "recordKey r \<in> recordKey ` records" using e unfolding freshest_def by (metis imageI)
      then have "latestOk env (insert r records) latest" using keys all_kept by (auto simp: latestOk_def)
      then show ?thesis using False Some by (simp add: keepFresher_def)
    qed
  qed
qed

lemma latestOk_fold: "latestOk env records latest \<Longrightarrow> latestOk env (set rs \<union> records) (fold (keepFresher env) rs latest)"
proof (induction rs arbitrary: records latest)
  case (Cons r rs)
  then show ?case using Cons.IH [OF latestOk_keep [OF Cons.prems, of r]] by (simp add: insert_commute)
qed simp

lemma deduplicate_latest:
  "distinct (map recordKey (deduplicateReconcileRecords env records))"
  "recordKey ` set (deduplicateReconcileRecords env records) = recordKey ` set records"
  "r \<in> set (deduplicateReconcileRecords env records) \<Longrightarrow> freshest env (set records) r"
proof -
  have ok: "latestOk env (set records) (fold (keepFresher env) records [])"
    using latestOk_fold [of env "{}" "[]" records] by (simp add: latestOk_def)
  have key: "map recordKey (map snd latest) = map fst latest" if "\<forall>(k, r) \<in> set latest. k = recordKey r" for latest
    using that by (induction latest) auto
  have "map recordKey (deduplicateReconcileRecords env records) = map fst (fold (keepFresher env) records [])"
    unfolding deduplicateReconcileRecords_def using ok by (intro key) (auto simp: latestOk_def)
  then show "distinct (map recordKey (deduplicateReconcileRecords env records))"
    "recordKey ` set (deduplicateReconcileRecords env records) = recordKey ` set records"
    using ok by (simp_all add: latestOk_def flip: set_map)
  show "r \<in> set (deduplicateReconcileRecords env records) \<Longrightarrow> freshest env (set records) r"
    using ok by (auto simp: latestOk_def deduplicateReconcileRecords_def)
qed

section \<open>Properties\<close>

text \<open>
  C29. Reconciled positions reach the calculation once and fresh. The facts have one entry for each scope
  that some row of a finished run matching the query has, and none for other scopes; the entry is that of
  a row than which no such row of its scope is fresher, by capture time, then by time of the run. Where
  freshness tells the rows of a scope apart, the facts do not depend on the order of the rows.
\<close>

theorem reconcile_facts_latest:
  shows "distinct (map recordKey (deduplicateReconcileRecords env (fst (loadReconcileFacts env inp rows)))) \<and>
    snd (loadReconcileFacts env inp rows) = map toReconcileFact (deduplicateReconcileRecords env (fst (loadReconcileFacts env inp rows))) \<and>
    recordKey ` set (deduplicateReconcileRecords env (fst (loadReconcileFacts env inp rows))) = recordKey ` {r \<in> set rows. matchesQuery inp r} \<and>
    (\<forall>r \<in> set (deduplicateReconcileRecords env (fst (loadReconcileFacts env inp rows))). freshest env {r \<in> set rows. matchesQuery inp r} r) \<and>
    (\<forall>rows'. set rows' = set rows \<and> inj_on (\<lambda>r. (recordKey r, compareReconcileRecordFreshness env r)) (set rows) \<longrightarrow>
       set (snd (loadReconcileFacts env inp rows')) = set (snd (loadReconcileFacts env inp rows)))"
proof -
  have set_records: "set (fst (loadReconcileFacts env inp rs)) = {r \<in> set rs. matchesQuery inp r}" for rs
    by (auto simp: loadReconcileFacts_def Let_def)
  have facts: "snd (loadReconcileFacts env inp rs) = map toReconcileFact (deduplicateReconcileRecords env (fst (loadReconcileFacts env inp rs)))" for rs
    by (simp add: loadReconcileFacts_def Let_def)
  have latest: "distinct (map recordKey (deduplicateReconcileRecords env (fst (loadReconcileFacts env inp rs))))"
    "recordKey ` set (deduplicateReconcileRecords env (fst (loadReconcileFacts env inp rs))) = recordKey ` {r \<in> set rs. matchesQuery inp r}"
    "r \<in> set (deduplicateReconcileRecords env (fst (loadReconcileFacts env inp rs))) \<Longrightarrow> freshest env {r \<in> set rs. matchesQuery inp r} r" for rs r
    using deduplicate_latest [where env = env and records = "fst (loadReconcileFacts env inp rs)"] unfolding set_records by blast+
  have same: "set (deduplicateReconcileRecords env (fst (loadReconcileFacts env inp rows'))) \<subseteq>
      set (deduplicateReconcileRecords env (fst (loadReconcileFacts env inp rows'')))"
    if eq: "set rows' = set rows" "set rows'' = set rows" and inj: "inj_on (\<lambda>r. (recordKey r, compareReconcileRecordFreshness env r)) (set rows)" for rows' rows''
  proof
    fix r
    assume "r \<in> set (deduplicateReconcileRecords env (fst (loadReconcileFacts env inp rows')))"
    then have r: "freshest env {r \<in> set rows. matchesQuery inp r} r" using latest(3) eq by metis
    then have "recordKey r \<in> recordKey ` set (deduplicateReconcileRecords env (fst (loadReconcileFacts env inp rows'')))"
      unfolding latest(2) eq by (auto simp: freshest_def)
    then obtain q where q: "q \<in> set (deduplicateReconcileRecords env (fst (loadReconcileFacts env inp rows'')))" "recordKey q = recordKey r" by auto
    then have "freshest env {r \<in> set rows. matchesQuery inp r} q" using latest(3) eq by metis
    then have "compareReconcileRecordFreshness env q = compareReconcileRecordFreshness env r" "q \<in> set rows" "r \<in> set rows"
      using r q(2) by (auto simp: freshest_def intro: antisym)
    then have "q = r" using q(2) inj by (auto simp: inj_on_def)
    then show "r \<in> set (deduplicateReconcileRecords env (fst (loadReconcileFacts env inp rows'')))" using q by simp
  qed
  have "set (snd (loadReconcileFacts env inp rows')) = set (snd (loadReconcileFacts env inp rows))"
    if "set rows' = set rows \<and> inj_on (\<lambda>r. (recordKey r, compareReconcileRecordFreshness env r)) (set rows)" for rows'
    unfolding facts using same [of rows' rows] same [of rows rows'] that by auto
  then show ?thesis using latest facts by blast
qed

text \<open>Two runs saw the same position; the later one needs review.\<close>

definition exampleRecord :: "int \<Rightarrow> string \<Rightarrow> reconcile_record" where
  "exampleRecord captured status =
     \<lparr>rr_id = ''i'', rr_runId = ''r'', rr_runStatus = ''COMPLETED'', rr_runStartedAt = At 0, rr_runFinishedAt = None, rr_exchange = ''UPBIT'',
      rr_market = ''KRW-BTC'', rr_strategyId = ''s'', rr_quantity = Num 1, rr_averageEntryPrice = None, rr_recoveryStatus = status,
      rr_source = ''local'', rr_capturedAt = captured, rr_evidence = []\<rparr>"

definition exampleRecords :: "reconcile_record list" where
  "exampleRecords = [exampleRecord 1000000 ''RECOVERABLE'', exampleRecord 2000000 ''MANUAL_REVIEW_REQUIRED'']"

definition everyRecord :: load_reconcile_input where
  "everyRecord = \<lparr>li_strategyId = None, li_market = None, li_since = None\<rparr>"

lemma example_reconcile_facts:
  "map rf_recoveryStatus (snd (loadReconcileFacts examplePnlEnv everyRecord exampleRecords)) = [''MANUAL_REVIEW_REQUIRED'']"
  by code_simp

theorem reconcile_facts_latest_witness:
  "map rf_recoveryStatus (snd (loadReconcileFacts examplePnlEnv everyRecord exampleRecords)) = [''MANUAL_REVIEW_REQUIRED''] \<and>
   set (snd (loadReconcileFacts examplePnlEnv everyRecord (rev exampleRecords))) =
     set (snd (loadReconcileFacts examplePnlEnv everyRecord exampleRecords))"
proof -
  have "inj_on (\<lambda>r. (recordKey r, compareReconcileRecordFreshness examplePnlEnv r)) (set exampleRecords)"
    by (simp add: inj_on_def exampleRecords_def exampleRecord_def compareReconcileRecordFreshness_def)
  then show ?thesis using reconcile_facts_latest [of examplePnlEnv everyRecord exampleRecords] example_reconcile_facts by auto
qed

text \<open>
  The status tells a missing snapshot from a failing database and never shows a stale figure. It
  reads OK exactly when the database answers and has a snapshot of the scope asked for, and then shows
  the figures of one that no other snapshot of that scope is later than; so right after a closeout that
  stored a snapshot later than all others of its scope, the status shows the figures of that closeout.
\<close>

theorem status_shows_latest:
  shows "(ss_readStatus (getStatus strategy market database) = OK \<longleftrightarrow>
      (\<exists>table. database = Some table \<and> (\<exists>r \<in> set table. ofStrategy strategy r \<and> latestMarket market r))) \<and>
    (ss_readStatus (getStatus strategy market database) = READ_UNAVAILABLE \<longleftrightarrow> database = None) \<and>
    (\<forall>table r. database = Some table \<and> r \<in> set table \<and> ofStrategy strategy r \<and> latestMarket market r \<and>
       (\<forall>x \<in> set table. ofStrategy strategy x \<and> latestMarket market x \<and> x \<noteq> r \<longrightarrow> sr_capturedAt x < sr_capturedAt r) \<longrightarrow>
       (\<exists>n. getStatus strategy market database = summaryOf r n))"
proof (cases database)
  case None
  then show ?thesis by (simp add: getStatus_def emptyStatus_def)
next
  case (Some table)
  define rows where "rows = sort_key (\<lambda>r. - sr_capturedAt r) (filter (\<lambda>r. ofStrategy strategy r \<and> latestMarket market r) table)"
  have set_rows: "set rows = {r \<in> set table. ofStrategy strategy r \<and> latestMarket market r}" by (auto simp: rows_def)
  have status: "getStatus strategy market (Some table) = (case rows of [] \<Rightarrow> emptyStatus NOT_FOUND ''pnl_snapshot_not_found''
      | r # rs \<Rightarrow> summaryOf r (length (filter (\<lambda>r. ofStrategy strategy r \<and> countedMarket market r) table)))"
    by (simp add: getStatus_def rows_def)
  show ?thesis
  proof (cases rows)
    case Nil
    then show ?thesis using set_rows Some by (auto simp: status emptyStatus_def)
  next
    case (Cons q rs)
    have "sorted (map (\<lambda>r. - sr_capturedAt r) rows)" by (simp add: rows_def)
    then have first: "\<forall>x \<in> set rs. sr_capturedAt x \<le> sr_capturedAt q" by (auto simp: Cons)
    have "r = q" if "r \<in> set rows" "\<forall>x \<in> set rows. x \<noteq> r \<longrightarrow> sr_capturedAt x < sr_capturedAt r" for r
      using that first Cons by force
    then show ?thesis using set_rows Some Cons by (auto simp: status summaryOf_def)
  qed
qed

theorem status_shows_latest_witness:
  "\<exists>n. getStatus None ANY_MARKET (Some [exampleRow]) = summaryOf exampleRow n"
proof -
  have "ofStrategy None exampleRow \<and> latestMarket ANY_MARKET exampleRow" by code_simp
  then show ?thesis using status_shows_latest [of None ANY_MARKET "Some [exampleRow]"] by auto
qed

end
