(* ===== verification/Entry_Rules.thy ===== *)
theory Entry_Rules
  imports Risk_Runtime Cost_Model
begin

text \<open>
  The rules a candidate passes before it becomes an order: \<^verbatim>\<open>domain/rules.ts\<close>,
  \<^verbatim>\<open>application/rules/basic-rules.ts\<close> and \<^verbatim>\<open>rule-engine.ts\<close>. A rule is a function of its context that may
  throw; features are given by key, and a feature that is null counts as absent. The texts of messages
  are left out.
\<close>

section \<open>Contexts and evaluations\<close>

datatype rule_status = RULE_PASS | RULE_FAIL | RULE_WARN

record rule_evaluation =
  ru_status :: rule_status
  ru_reasonCode :: string
  ru_metadata :: "json_record option"

record market_status =
  ms_exchangeId :: string
  ms_market :: string
  ms_tradable :: bool
  ms_warning :: bool
  ms_caution :: bool
  ms_reasonCodes :: "string list"

record rule_context =
  rx_exchangeId :: string
  rx_market :: string
  rx_universe :: "string list option"
  rx_marketStatus :: "market_status option"
  rx_features :: "(string \<times> decimal_input) list"
  rx_costDecision :: "cost_decision option"
  rx_orderIntent :: "order_intent option"
  rx_expectedLossBpsOfEquity :: "numeric option"
  rx_riskGateContext :: "risk_gate_context option"

type_synonym rule = "rule_context \<Rightarrow> rule_evaluation result"

definition rulePass :: "string \<Rightarrow> json_record option \<Rightarrow> rule_evaluation" where
  "rulePass reasonCode metadata = \<lparr>ru_status = RULE_PASS, ru_reasonCode = reasonCode, ru_metadata = metadata\<rparr>"

definition ruleFail :: "string \<Rightarrow> json_record option \<Rightarrow> rule_evaluation" where
  "ruleFail reasonCode metadata = \<lparr>ru_status = RULE_FAIL, ru_reasonCode = reasonCode, ru_metadata = metadata\<rparr>"

definition ruleWarn :: "string \<Rightarrow> json_record option \<Rightarrow> rule_evaluation" where
  "ruleWarn reasonCode metadata = \<lparr>ru_status = RULE_WARN, ru_reasonCode = reasonCode, ru_metadata = metadata\<rparr>"

section \<open>Reading decimals\<close>

definition parseRuleThreshold :: "numeric \<Rightarrow> string \<Rightarrow> rat result" where
  "parseRuleThreshold n fieldName = bindR (parseFinancialDecimal n) (\<lambda>d.
     if isNegativeText n then Inl (Failure (fieldName @ '' must not be negative'')) else Inr d)"

text \<open>A feature that is absent or does not read as a decimal is missing; its sign is kept beside its value.\<close>

definition readFeatureDecimal :: "rule_context \<Rightarrow> string \<Rightarrow> (rat \<times> bool) option" where
  "readFeatureDecimal ctx key =
     (case map_of (rx_features ctx) key of
        None \<Rightarrow> None
      | Some v \<Rightarrow> (case parseFinancialDecimalInput v of Inl e \<Rightarrow> None | Inr d \<Rightarrow> Some (d, isNegativeInput v)))"

datatype rule_decimal_read = READ_OK rat | READ_MISSING | READ_INVALID

definition readOrderIntentMetadataDecimal :: "rule_context \<Rightarrow> string \<Rightarrow> rule_decimal_read" where
  "readOrderIntentMetadataDecimal ctx key =
     (case Option.bind (rx_orderIntent ctx) (\<lambda>intent. metadataValue (oi_metadata intent) key) of
        None \<Rightarrow> READ_MISSING
      | Some v \<Rightarrow>
         (case jsonText v of
            None \<Rightarrow> READ_INVALID
          | Some n \<Rightarrow> (case parseFinancialDecimal n of
              Inl e \<Rightarrow> READ_INVALID | Inr d \<Rightarrow> if isNegativeText n then READ_INVALID else READ_OK d)))"

section \<open>Rules\<close>

definition createUniverseAllowedRule :: "string list \<Rightarrow> rule" where
  "createUniverseAllowedRule optionMarkets ctx =
     (let allowed = (case rx_universe ctx of Some ms \<Rightarrow> ms | None \<Rightarrow> optionMarkets)
      in Inr (if rx_market ctx \<notin> set allowed
         then ruleFail ''universe_not_allowed'' (Some [(''market'', JStr (rx_market ctx)), (''allowed_markets'', JArr (map JStr allowed))])
         else rulePass ''universe_allowed'' None))"

definition marketWarningAbsentRule :: rule where
  "marketWarningAbsentRule ctx =
     Inr (case rx_marketStatus ctx of
        None \<Rightarrow> ruleFail ''market_status_missing'' None
      | Some s \<Rightarrow>
         if ms_exchangeId s \<noteq> rx_exchangeId ctx \<or> ms_market s \<noteq> rx_market ctx
         then ruleFail ''market_status_mismatch'' (Some [(''context_exchange_id'', JStr (rx_exchangeId ctx)),
           (''context_market'', JStr (rx_market ctx)), (''status_exchange_id'', JStr (ms_exchangeId s)), (''status_market'', JStr (ms_market s))])
         else if \<not> ms_tradable s then ruleFail ''market_not_tradable'' (Some [(''reason_codes'', JArr (map JStr (ms_reasonCodes s)))])
         else if ms_warning s then ruleFail ''market_warning_present'' None
         else if ms_caution s then ruleFail ''market_caution_present'' None
         else rulePass ''market_warning_absent'' None)"

definition createSpreadOkRule :: "rat \<Rightarrow> rule" where
  "createSpreadOkRule maxSpreadBps ctx =
     Inr (case readFeatureDecimal ctx ''spread_bps'' of
        None \<Rightarrow> ruleFail ''feature_missing_spread_bps'' None
      | Some (spread, negative) \<Rightarrow>
         let both = [(''spread_bps'', JNum (Num spread)), (''max_spread_bps'', JNum (Num maxSpreadBps))]
         in if negative then ruleFail ''spread_negative'' (Some [(''spread_bps'', JNum (Num spread))])
            else if maxSpreadBps < spread then ruleFail ''spread_too_wide'' (Some both)
            else rulePass ''spread_ok'' (Some both))"

definition createDepthSufficientRule :: "rat \<Rightarrow> rule" where
  "createDepthSufficientRule minDepthKrw ctx =
     Inr (case readFeatureDecimal ctx ''depth_krw'' of
        None \<Rightarrow> ruleFail ''feature_missing_depth_krw'' None
      | Some (depth, negative) \<Rightarrow>
         let both = [(''depth_krw'', JNum (Num depth)), (''min_depth_krw'', JNum (Num minDepthKrw))]
         in if depth < minDepthKrw then ruleFail ''depth_insufficient'' (Some both)
            else rulePass ''depth_sufficient'' (Some both))"

definition costMarginOkRule :: rule where
  "costMarginOkRule ctx =
     Inr (case rx_costDecision ctx of
        None \<Rightarrow> ruleFail ''cost_decision_missing'' None
      | Some d \<Rightarrow>
         if \<not> cd_tradeAllowed d then ruleFail (costReasonName (cd_reasonCode d)) (Some [(''cost_snapshot'', JObj (cd_snapshot d))])
         else rulePass ''cost_margin_ok'' (Some [(''cost_snapshot'', JObj (cd_snapshot d))]))"

definition riskOkPlaceholderRule :: rule where
  "riskOkPlaceholderRule ctx =
     Inr (ruleWarn ''risk_ok_placeholder'' (Some [(''placeholder'', JBool True), (''active_risk_gate_evaluated'', JBool False),
       (''execution_approval'', JBool False)]))"

text \<open>Mismatches between the candidate of the rule and the one given to the risk gate.\<close>

definition ruleMismatch :: "string \<Rightarrow> json \<Rightarrow> json \<Rightarrow> json_record" where
  "ruleMismatch fieldName ruleValue riskGateValue =
     (if ruleValue \<noteq> riskGateValue
      then [(fieldName @ ''_rule'', ruleValue), (fieldName @ ''_risk_gate'', riskGateValue)] else [])"

definition ruleDecimalMismatch :: "string \<Rightarrow> decimal_input option \<Rightarrow> decimal_input option \<Rightarrow> json_record" where
  "ruleDecimalMismatch fieldName ruleValue riskGateValue =
     ruleMismatch fieldName (case ruleValue of None \<Rightarrow> JNull | Some v \<Rightarrow> inputJson v)
       (case riskGateValue of None \<Rightarrow> JNull | Some v \<Rightarrow> inputJson v)"

definition readRuleContextExpectedLossBps :: "rule_context \<Rightarrow> order_intent \<Rightarrow> numeric option" where
  "readRuleContextExpectedLossBps ctx intent = orElse (rx_expectedLossBpsOfEquity ctx) (readOrderIntentExpectedLossBps intent)"

definition createOrderIntentMismatchMetadata :: "rule_context \<Rightarrow> order_intent \<Rightarrow> risk_gate_context \<Rightarrow> json_record" where
  "createOrderIntentMismatchMetadata ctx ruleIntent gate =
     (let riskIntent = rc_orderIntent gate
      in (if rx_exchangeId ctx \<noteq> oi_exchangeId riskIntent
          then [(''context_exchange_id'', JStr (rx_exchangeId ctx)), (''risk_gate_exchange_id'', JStr (oi_exchangeId riskIntent))] else [])
         @ (if rx_market ctx \<noteq> oi_market riskIntent
          then [(''context_market'', JStr (rx_market ctx)), (''risk_gate_market'', JStr (oi_market riskIntent))] else [])
         @ ruleMismatch ''order_intent_exchange_id'' (JStr (oi_exchangeId ruleIntent)) (JStr (oi_exchangeId riskIntent))
         @ ruleMismatch ''order_intent_market'' (JStr (oi_market ruleIntent)) (JStr (oi_market riskIntent))
         @ ruleMismatch ''order_intent_strategy_id'' (JStr (oi_strategyId ruleIntent)) (JStr (oi_strategyId riskIntent))
         @ ruleMismatch ''order_intent_side'' (JStr (sideName (oi_side ruleIntent))) (JStr (sideName (oi_side riskIntent)))
         @ ruleMismatch ''order_intent_order_type'' (JStr (orderTypeName (oi_orderType ruleIntent)))
             (JStr (orderTypeName (oi_orderType riskIntent)))
         @ ruleDecimalMismatch ''order_intent_requested_quantity'' (Some (Amount (oi_requestedQuantity ruleIntent)))
             (Some (Amount (oi_requestedQuantity riskIntent)))
         @ ruleDecimalMismatch ''order_intent_requested_notional'' (Some (Amount (oi_requestedNotional ruleIntent)))
             (Some (Amount (oi_requestedNotional riskIntent)))
         @ ruleDecimalMismatch ''order_intent_requested_price'' (map_option Amount (limitPriceOf (oi_terms ruleIntent)))
             (map_option Amount (limitPriceOf (oi_terms riskIntent)))
         @ ruleDecimalMismatch ''order_intent_expected_loss_bps_of_equity''
             (map_option Amount (readRuleContextExpectedLossBps ctx ruleIntent)) (readRiskGateExpectedLossBps gate)
         @ ruleMismatch ''order_intent_idempotency_key'' (JStr (oi_idempotencyKey ruleIntent)) (JStr (oi_idempotencyKey riskIntent)))"

abbreviation notEvaluated :: json_record where
  "notEvaluated \<equiv> [(''active_risk_gate_evaluated'', JBool False), (''execution_approval'', JBool False)]"

definition validateRiskGateRuleCandidate :: "rule_context \<Rightarrow> risk_gate_context \<Rightarrow> rule_evaluation option" where
  "validateRiskGateRuleCandidate ctx gate =
     (let riskIntent = rc_orderIntent gate
      in case rx_orderIntent ctx of
           None \<Rightarrow> Some (ruleFail ''risk_gate_order_intent_missing'' (Some (notEvaluated
             @ [(''risk_gate_exchange_id'', JStr (oi_exchangeId riskIntent)), (''risk_gate_market'', JStr (oi_market riskIntent)),
                (''risk_gate_idempotency_key'', JStr (oi_idempotencyKey riskIntent))])))
         | Some ruleIntent \<Rightarrow>
             let mismatches = createOrderIntentMismatchMetadata ctx ruleIntent gate
             in if mismatches = [] then None
                else Some (ruleFail ''risk_gate_context_mismatch'' (Some (notEvaluated @ [(''mismatches'', JObj mismatches)]))))"

definition toRiskGateEvaluationMetadata :: "risk_evaluation \<Rightarrow> json" where
  "toRiskGateEvaluationMetadata e =
     JObj ([(''status'', JStr (riskStatusName (re_status e))), (''reason_code'', JStr (re_reasonCode e)),
       (''severity'', JStr (severityName (re_severity e))), (''action'', JStr (riskActionName (re_action e)))]
       @ (case re_metadata e of None \<Rightarrow> [] | Some m \<Rightarrow> [(''metadata'', JObj m)]))"

definition toRiskGateRuleMetadata :: "risk_gate_result \<Rightarrow> json_record" where
  "toRiskGateRuleMetadata r =
     [(''active_risk_gate_evaluated'', JBool True), (''execution_approval'', JBool (rg_approved r)),
      (''risk_gate_status'', JStr (riskStatusName (rg_status r))), (''risk_gate_action'', JStr (riskActionName (rg_action r))),
      (''threshold_snapshot'', thresholdSnapshotJson (rg_thresholdSnapshot r)),
      (''failed_evaluations'', JArr (map toRiskGateEvaluationMetadata (rg_failedEvaluations r))),
      (''warning_evaluations'', JArr (map toRiskGateEvaluationMetadata (rg_warningEvaluations r)))]"

definition createRiskOkRule :: "(risk_gate_context \<Rightarrow> risk_gate_result result) \<Rightarrow> rule" where
  "createRiskOkRule gateOf ctx =
     (case rx_riskGateContext ctx of
        None \<Rightarrow> Inr (ruleFail ''risk_gate_context_missing'' (Some notEvaluated))
      | Some gate \<Rightarrow>
         (case validateRiskGateRuleCandidate ctx gate of
            Some mismatch \<Rightarrow> Inr mismatch
          | None \<Rightarrow> bindR (gateOf gate) (\<lambda>r.
              Inr (if rg_approved r then rulePass ''risk_gate_approved'' (Some (toRiskGateRuleMetadata r))
                   else ruleFail ''risk_gate_rejected'' (Some (toRiskGateRuleMetadata r))))))"

definition createStopLossRule :: "rat \<Rightarrow> rule" where
  "createStopLossRule defaultStopLossBps ctx =
     Inr (case readFeatureDecimal ctx ''unrealized_pnl_bps'' of
        None \<Rightarrow> rulePass ''stop_loss_not_applicable'' None
      | Some (pnl, negative) \<Rightarrow>
         (let candidate = readOrderIntentMetadataDecimal ctx ''stop_loss_bps''
          in if candidate = READ_INVALID
             then ruleFail ''stop_loss_bps_invalid'' (Some [(''source'', JStr ''order_intent.metadata.stop_loss_bps'')])
             else let stopLoss = (case candidate of READ_OK d \<Rightarrow> d | _ \<Rightarrow> defaultStopLossBps);
                      evidence = [(''stop_loss_bps'', JNum (Num stopLoss)), (''stop_loss_bps_source'',
                        JStr (if candidate = READ_MISSING then ''rule.default_stop_loss_bps'' else ''order_intent.metadata.stop_loss_bps''))]
                  in if pnl \<le> - stopLoss
                     then ruleWarn ''stop_loss_triggered'' (Some ((''unrealized_pnl_bps'', JNum (Num pnl)) # evidence))
                     else rulePass ''stop_loss_clear'' (Some evidence)))"

definition createTakeProfitRule :: "rat \<Rightarrow> rule" where
  "createTakeProfitRule takeProfitBps ctx =
     Inr (case readFeatureDecimal ctx ''unrealized_pnl_bps'' of
        None \<Rightarrow> rulePass ''take_profit_not_applicable'' None
      | Some (pnl, negative) \<Rightarrow>
         if takeProfitBps \<le> pnl
         then ruleWarn ''take_profit_triggered'' (Some [(''unrealized_pnl_bps'', JNum (Num pnl)), (''take_profit_bps'', JNum (Num takeProfitBps))])
         else rulePass ''take_profit_clear'' None)"

section \<open>Default rules and engine\<close>

record default_rules_options =
  do_allowedMarkets :: "string list"
  do_maxSpreadBps :: numeric
  do_minDepthKrw :: numeric
  do_stopLossBps :: numeric
  do_takeProfitBps :: numeric

text \<open>The thresholds are parsed while the rules are created, in the order in which the rules are listed.\<close>

definition createDefaultRules :: "rule \<Rightarrow> default_rules_options \<Rightarrow> rule list result" where
  "createDefaultRules riskRule opts =
     bindR (parseRuleThreshold (do_maxSpreadBps opts) ''max_spread_bps'') (\<lambda>maxSpread.
     bindR (parseRuleThreshold (do_minDepthKrw opts) ''min_depth_krw'') (\<lambda>minDepth.
     bindR (parseRuleThreshold (do_stopLossBps opts) ''stop_loss_bps'') (\<lambda>stopLoss.
     bindR (parseRuleThreshold (do_takeProfitBps opts) ''take_profit_bps'') (\<lambda>takeProfit.
       Inr [createUniverseAllowedRule (do_allowedMarkets opts), marketWarningAbsentRule, createSpreadOkRule maxSpread,
         createDepthSufficientRule minDepth, costMarginOkRule, riskRule, createStopLossRule stopLoss, createTakeProfitRule takeProfit]))))"

definition createDefaultM5Rules :: "rounding \<Rightarrow> default_rules_options \<Rightarrow> rule list result" where
  "createDefaultM5Rules rnd = createDefaultRules (createRiskOkRule (evaluateRiskGate rnd))"

definition createDefaultM4Rules :: "default_rules_options \<Rightarrow> rule list result" where
  "createDefaultM4Rules = createDefaultRules riskOkPlaceholderRule"

record rule_engine_result =
  rn_status :: rule_status
  rn_passed :: bool
  rn_evaluations :: "rule_evaluation list"
  rn_failedEvaluations :: "rule_evaluation list"
  rn_warningEvaluations :: "rule_evaluation list"

definition summarizeRuleEvaluations :: "rule_evaluation list \<Rightarrow> rule_engine_result" where
  "summarizeRuleEvaluations evaluations =
     (let failed = filter (\<lambda>e. ru_status e = RULE_FAIL) evaluations; warned = filter (\<lambda>e. ru_status e = RULE_WARN) evaluations;
          status = (if failed \<noteq> [] then RULE_FAIL else if warned \<noteq> [] then RULE_WARN else RULE_PASS)
      in \<lparr>rn_status = status, rn_passed = (status = RULE_PASS), rn_evaluations = evaluations, rn_failedEvaluations = failed,
          rn_warningEvaluations = warned\<rparr>)"

definition evaluateRules :: "rule list \<Rightarrow> rule_context \<Rightarrow> rule_engine_result result" where
  "evaluateRules rules ctx = bindR (mapR (\<lambda>rule. rule ctx) rules) (\<lambda>evaluations. Inr (summarizeRuleEvaluations evaluations))"

section \<open>Specification\<close>

definition marketOpen :: "rule_context \<Rightarrow> bool" where
  "marketOpen ctx \<longleftrightarrow> (\<exists>s. rx_marketStatus ctx = Some s \<and> ms_exchangeId s = rx_exchangeId ctx \<and> ms_market s = rx_market ctx \<and>
     ms_tradable s \<and> \<not> ms_warning s \<and> \<not> ms_caution s)"

definition liquid :: "rat \<Rightarrow> rat \<Rightarrow> rule_context \<Rightarrow> bool" where
  "liquid maxSpread minDepth ctx \<longleftrightarrow>
     (\<exists>spread. readFeatureDecimal ctx ''spread_bps'' = Some (spread, False) \<and> spread \<le> maxSpread) \<and>
     (\<exists>depth negative. readFeatureDecimal ctx ''depth_krw'' = Some (depth, negative) \<and> minDepth \<le> depth)"

definition sameRuleCandidate :: "rule_context \<Rightarrow> risk_gate_context \<Rightarrow> bool" where
  "sameRuleCandidate ctx gate \<longleftrightarrow> (\<exists>intent. rx_orderIntent ctx = Some intent \<and>
     (let risk = rc_orderIntent gate
      in rx_exchangeId ctx = oi_exchangeId risk \<and> rx_market ctx = oi_market risk \<and>
         oi_exchangeId intent = oi_exchangeId risk \<and> oi_market intent = oi_market risk \<and> oi_strategyId intent = oi_strategyId risk \<and>
         oi_side intent = oi_side risk \<and> oi_orderType intent = oi_orderType risk \<and>
         sameAmount (Some (oi_requestedQuantity intent)) (Some (Amount (oi_requestedQuantity risk))) \<and>
         sameAmount (Some (oi_requestedNotional intent)) (Some (Amount (oi_requestedNotional risk))) \<and>
         sameAmount (limitPriceOf (oi_terms intent)) (map_option Amount (limitPriceOf (oi_terms risk))) \<and>
         sameAmount (readRuleContextExpectedLossBps ctx intent) (readRiskGateExpectedLossBps gate) \<and>
         oi_idempotencyKey intent = oi_idempotencyKey risk))"

definition exitMark :: "rat \<Rightarrow> rat \<Rightarrow> rule_context \<Rightarrow> rat \<Rightarrow> bool" where
  "exitMark stopLoss takeProfit ctx pnl \<longleftrightarrow>
     pnl \<le> - (case readOrderIntentMetadataDecimal ctx ''stop_loss_bps'' of READ_OK d \<Rightarrow> d | _ \<Rightarrow> stopLoss) \<or> takeProfit \<le> pnl"

section \<open>Lemmas\<close>

named_theorems rule_status_simps

lemma rule_kinds [rule_status_simps]:
  "ru_status (rulePass c m) = RULE_PASS" "ru_status (ruleFail c m) = RULE_FAIL" "ru_status (ruleWarn c m) = RULE_WARN"
  by (simp_all add: rulePass_def ruleFail_def ruleWarn_def)

lemma ruleMismatch_empty [simp]: "ruleMismatch f a b = [] \<longleftrightarrow> a = b"
  by (simp add: ruleMismatch_def)

lemma ruleDecimalMismatch_eq: "ruleDecimalMismatch f x y = [] \<longleftrightarrow> decimalMismatch f x y = []"
  by (simp add: ruleDecimalMismatch_def decimalMismatch_def)

lemma validate_candidate_None_iff: "validateRiskGateRuleCandidate ctx gate = None \<longleftrightarrow> sameRuleCandidate ctx gate"
  using decimalMismatch_empty [of _ "Some _"]
  by (auto simp: validateRiskGateRuleCandidate_def sameRuleCandidate_def createOrderIntentMismatchMetadata_def Let_def
      ruleDecimalMismatch_eq split: option.split)

text \<open>Each of the first six rules passes exactly under its condition and fails otherwise.\<close>

abbreviation decides :: "rule_evaluation \<Rightarrow> bool \<Rightarrow> bool" where
  "decides e ok \<equiv> ru_status e = (if ok then RULE_PASS else RULE_FAIL)"

lemma universe_rule:
  "\<exists>e. createUniverseAllowedRule ms ctx = Inr e \<and> decides e (rx_market ctx \<in> set (case rx_universe ctx of Some us \<Rightarrow> us | None \<Rightarrow> ms))"
  by (simp add: createUniverseAllowedRule_def Let_def rule_status_simps)

lemma market_rule: "\<exists>e. marketWarningAbsentRule ctx = Inr e \<and> decides e (marketOpen ctx)"
  by (auto simp: marketWarningAbsentRule_def marketOpen_def rule_status_simps split: option.split)

lemma liquidity_rules:
  "\<exists>e f. createSpreadOkRule maxSpread ctx = Inr e \<and> createDepthSufficientRule minDepth ctx = Inr f \<and>
     (ru_status e = RULE_PASS \<and> ru_status f = RULE_PASS \<longleftrightarrow> liquid maxSpread minDepth ctx) \<and>
     ru_status e \<noteq> RULE_WARN \<and> ru_status f \<noteq> RULE_WARN"
  by (auto simp: createSpreadOkRule_def createDepthSufficientRule_def liquid_def Let_def rule_status_simps split: option.split)

lemma cost_rule: "\<exists>e. costMarginOkRule ctx = Inr e \<and> decides e (\<exists>d. rx_costDecision ctx = Some d \<and> cd_tradeAllowed d)"
  by (auto simp: costMarginOkRule_def rule_status_simps split: option.split)

lemma gate_decision:
  assumes "parseThresholds (ts_thresholds (rc_thresholdSnapshot g)) = Inr t"
  shows "\<exists>r. evaluateRiskGate rnd g = Inr r \<and> (rg_approved r \<longleftrightarrow> withinRiskLimits rnd g t)"
  using evaluateRiskGate_result [OF assms, of rnd]
    createRiskGateResult_approved [OF riskEvaluations_evalOk, of rnd g t "rc_thresholdSnapshot g"]
    riskEvaluations_failFree [of rnd g t] by blast

definition gateApproves :: "rounding \<Rightarrow> rule_context \<Rightarrow> bool" where
  "gateApproves rnd ctx \<longleftrightarrow> (\<exists>g t. rx_riskGateContext ctx = Some g \<and> sameRuleCandidate ctx g \<and>
     parseThresholds (ts_thresholds (rc_thresholdSnapshot g)) = Inr t \<and> withinRiskLimits rnd g t)"

definition entryAdmissible :: "rounding \<Rightarrow> string list \<Rightarrow> rat \<Rightarrow> rat \<Rightarrow> rule_context \<Rightarrow> bool" where
  "entryAdmissible rnd markets maxSpread minDepth ctx \<longleftrightarrow>
     rx_market ctx \<in> set (case rx_universe ctx of Some us \<Rightarrow> us | None \<Rightarrow> markets) \<and> marketOpen ctx \<and>
     liquid maxSpread minDepth ctx \<and> (\<exists>d. rx_costDecision ctx = Some d \<and> cd_tradeAllowed d) \<and> gateApproves rnd ctx \<and>
     (readFeatureDecimal ctx ''unrealized_pnl_bps'' \<noteq> None \<longrightarrow> readOrderIntentMetadataDecimal ctx ''stop_loss_bps'' \<noteq> READ_INVALID)"

lemma risk_rule:
  assumes "\<And>g. rx_riskGateContext ctx = Some g \<Longrightarrow> is_ok (parseThresholds (ts_thresholds (rc_thresholdSnapshot g)))"
  shows "\<exists>e. createRiskOkRule (evaluateRiskGate rnd) ctx = Inr e \<and> decides e (gateApproves rnd ctx)"
proof (cases "rx_riskGateContext ctx")
  case None
  then show ?thesis by (simp add: createRiskOkRule_def gateApproves_def rule_status_simps)
next
  case (Some g)
  obtain t where t: "parseThresholds (ts_thresholds (rc_thresholdSnapshot g)) = Inr t"
    using assms [OF Some] unfolding is_ok_iff by (elim exE)
  obtain r where r: "evaluateRiskGate rnd g = Inr r" "rg_approved r \<longleftrightarrow> withinRiskLimits rnd g t" using gate_decision [OF t] by blast
  show ?thesis
  proof (cases "validateRiskGateRuleCandidate ctx g")
    case None
    then show ?thesis using Some t r validate_candidate_None_iff [of ctx g]
      by (simp add: createRiskOkRule_def gateApproves_def rule_status_simps)
  next
    case (Some mismatch)
    then have "ru_status mismatch = RULE_FAIL"
      by (auto simp: validateRiskGateRuleCandidate_def Let_def rule_status_simps split: option.splits if_splits)
    then show ?thesis using Some \<open>rx_riskGateContext ctx = Some g\<close> validate_candidate_None_iff [of ctx g]
      by (simp add: createRiskOkRule_def gateApproves_def)
  qed
qed

text \<open>The last two rules never fail a candidate for its figures; they mark a position that should be left.\<close>

lemma exit_rules:
  "\<exists>e f. createStopLossRule stopLoss ctx = Inr e \<and> createTakeProfitRule takeProfit ctx = Inr f \<and>
     (ru_status e = RULE_FAIL \<longleftrightarrow> readFeatureDecimal ctx ''unrealized_pnl_bps'' \<noteq> None \<and>
        readOrderIntentMetadataDecimal ctx ''stop_loss_bps'' = READ_INVALID) \<and> ru_status f \<noteq> RULE_FAIL \<and>
     (ru_status e \<noteq> RULE_FAIL \<longrightarrow> (ru_status e = RULE_WARN \<or> ru_status f = RULE_WARN \<longleftrightarrow>
        (\<exists>pnl negative. readFeatureDecimal ctx ''unrealized_pnl_bps'' = Some (pnl, negative) \<and> exitMark stopLoss takeProfit ctx pnl)))"
  by (cases "readFeatureDecimal ctx ''unrealized_pnl_bps''"; cases "readOrderIntentMetadataDecimal ctx ''stop_loss_bps''")
    (auto simp: createStopLossRule_def createTakeProfitRule_def exitMark_def Let_def rule_status_simps split: if_splits)

lemma summarize_status:
  "rn_status (summarizeRuleEvaluations es) = RULE_FAIL \<longleftrightarrow> (\<exists>e \<in> set es. ru_status e = RULE_FAIL)"
  "rn_passed (summarizeRuleEvaluations es) \<longleftrightarrow>
     rn_status (summarizeRuleEvaluations es) \<noteq> RULE_FAIL \<and> (\<forall>e \<in> set es. ru_status e \<noteq> RULE_WARN)"
  "rn_evaluations (summarizeRuleEvaluations es) = es"
  by (auto simp: summarizeRuleEvaluations_def Let_def filter_empty_conv)

lemma parseRuleThreshold_Inr: "parseRuleThreshold n f = Inr d \<longleftrightarrow> parseFinancialDecimal n = Inr d \<and> \<not> isNegativeText n"
  by (auto simp: parseRuleThreshold_def bindR_Inr_iff)

section \<open>Properties\<close>

text \<open>
  C30. What the entry rules demand. With the default rules a candidate is not failed exactly when its
  market is in the universe and open without warning or caution, the spread is read, not negative and
  within its limit, the depth is read and sufficient, a cost decision allows it, the risk gate is given
  the same candidate and finds it within its limits, and a stop-loss of its own, where one is needed, can
  be read; it passes exactly when moreover no open profit or loss has reached its mark. All eight rules
  leave an evaluation. With the older rules, whose risk rule is a placeholder, nothing ever passes.
\<close>

theorem entry_rules_verdict:
  assumes rules: "createDefaultM5Rules rnd opts = Inr rules"
    and figures: "parseFinancialDecimal (do_maxSpreadBps opts) = Inr maxSpread" "parseFinancialDecimal (do_minDepthKrw opts) = Inr minDepth"
      "parseFinancialDecimal (do_stopLossBps opts) = Inr stopLoss" "parseFinancialDecimal (do_takeProfitBps opts) = Inr takeProfit"
    and gate: "\<And>g. rx_riskGateContext ctx = Some g \<Longrightarrow> is_ok (parseThresholds (ts_thresholds (rc_thresholdSnapshot g)))"
  shows "(\<exists>r. evaluateRules rules ctx = Inr r \<and> length (rn_evaluations r) = 8 \<and>
      (rn_status r \<noteq> RULE_FAIL \<longleftrightarrow> entryAdmissible rnd (do_allowedMarkets opts) maxSpread minDepth ctx) \<and>
      (rn_passed r \<longleftrightarrow> rn_status r \<noteq> RULE_FAIL \<and>
         (\<forall>pnl negative. readFeatureDecimal ctx ''unrealized_pnl_bps'' = Some (pnl, negative) \<longrightarrow> \<not> exitMark stopLoss takeProfit ctx pnl))) \<and>
    (\<forall>older r. createDefaultM4Rules opts = Inr older \<and> evaluateRules older ctx = Inr r \<longrightarrow> \<not> rn_passed r)"
proof
  obtain e1 where e1: "createUniverseAllowedRule (do_allowedMarkets opts) ctx = Inr e1"
    "decides e1 (rx_market ctx \<in> set (case rx_universe ctx of Some us \<Rightarrow> us | None \<Rightarrow> do_allowedMarkets opts))" using universe_rule by blast
  obtain e2 where e2: "marketWarningAbsentRule ctx = Inr e2" "decides e2 (marketOpen ctx)" using market_rule by blast
  obtain e3 e4 where e34: "createSpreadOkRule maxSpread ctx = Inr e3" "createDepthSufficientRule minDepth ctx = Inr e4"
    "ru_status e3 = RULE_PASS \<and> ru_status e4 = RULE_PASS \<longleftrightarrow> liquid maxSpread minDepth ctx"
    "ru_status e3 \<noteq> RULE_WARN" "ru_status e4 \<noteq> RULE_WARN" using liquidity_rules by blast
  obtain e5 where e5: "costMarginOkRule ctx = Inr e5" "decides e5 (\<exists>d. rx_costDecision ctx = Some d \<and> cd_tradeAllowed d)" using cost_rule by blast
  obtain e6 where e6: "createRiskOkRule (evaluateRiskGate rnd) ctx = Inr e6" "decides e6 (gateApproves rnd ctx)" using risk_rule gate by blast
  obtain e7 e8 where e78: "createStopLossRule stopLoss ctx = Inr e7" "createTakeProfitRule takeProfit ctx = Inr e8"
    "ru_status e7 = RULE_FAIL \<longleftrightarrow> readFeatureDecimal ctx ''unrealized_pnl_bps'' \<noteq> None \<and>
      readOrderIntentMetadataDecimal ctx ''stop_loss_bps'' = READ_INVALID" "ru_status e8 \<noteq> RULE_FAIL"
    "ru_status e7 \<noteq> RULE_FAIL \<longrightarrow> (ru_status e7 = RULE_WARN \<or> ru_status e8 = RULE_WARN \<longleftrightarrow>
      (\<exists>pnl negative. readFeatureDecimal ctx ''unrealized_pnl_bps'' = Some (pnl, negative) \<and> exitMark stopLoss takeProfit ctx pnl))"
    using exit_rules by blast
  have "evaluateRules rules ctx = Inr (summarizeRuleEvaluations [e1, e2, e3, e4, e5, e6, e7, e8])"
    using rules figures e1(1) e2(1) e34(1,2) e5(1) e6(1) e78(1,2)
    by (auto simp: createDefaultM5Rules_def createDefaultRules_def bindR_Inr_iff parseRuleThreshold_Inr evaluateRules_def)
  moreover have kinds: "ru_status e = RULE_PASS \<longleftrightarrow> ru_status e \<noteq> RULE_FAIL \<and> ru_status e \<noteq> RULE_WARN" for e by (cases "ru_status e") auto
  have "ru_status e3 \<noteq> RULE_FAIL \<and> ru_status e4 \<noteq> RULE_FAIL \<longleftrightarrow> liquid maxSpread minDepth ctx" using e34(3-5) kinds by metis
  then have "rn_status (summarizeRuleEvaluations [e1, e2, e3, e4, e5, e6, e7, e8]) \<noteq> RULE_FAIL \<longleftrightarrow> entryAdmissible rnd (do_allowedMarkets opts) maxSpread minDepth ctx"
    using e1(2) e2(2) e5(2) e6(2) e78(3,4) by (simp add: summarize_status entryAdmissible_def) blast
  moreover have "rn_passed (summarizeRuleEvaluations [e1, e2, e3, e4, e5, e6, e7, e8]) \<longleftrightarrow>
      rn_status (summarizeRuleEvaluations [e1, e2, e3, e4, e5, e6, e7, e8]) \<noteq> RULE_FAIL \<and>
      (\<forall>pnl negative. readFeatureDecimal ctx ''unrealized_pnl_bps'' = Some (pnl, negative) \<longrightarrow> \<not> exitMark stopLoss takeProfit ctx pnl)"
  proof (cases "rn_status (summarizeRuleEvaluations [e1, e2, e3, e4, e5, e6, e7, e8]) = RULE_FAIL")
    case False
    have "ru_status e \<noteq> RULE_WARN" if "e \<in> {e1, e2, e3, e4, e5, e6}" for e
      using that e1(2) e2(2) e34(4,5) e5(2) e6(2) by (auto split: if_splits)
    moreover have "ru_status e7 \<noteq> RULE_FAIL" using False by (simp add: summarize_status)
    ultimately show ?thesis using False e78(5) by (simp add: summarize_status(2)) blast
  qed (simp add: summarize_status(2))
  ultimately show "\<exists>r. evaluateRules rules ctx = Inr r \<and> length (rn_evaluations r) = 8 \<and>
      (rn_status r \<noteq> RULE_FAIL \<longleftrightarrow> entryAdmissible rnd (do_allowedMarkets opts) maxSpread minDepth ctx) \<and>
      (rn_passed r \<longleftrightarrow> rn_status r \<noteq> RULE_FAIL \<and>
         (\<forall>pnl negative. readFeatureDecimal ctx ''unrealized_pnl_bps'' = Some (pnl, negative) \<longrightarrow> \<not> exitMark stopLoss takeProfit ctx pnl))"
    by (intro exI [of _ "summarizeRuleEvaluations [e1, e2, e3, e4, e5, e6, e7, e8]"] conjI) (simp_all add: summarize_status(3))
  show "\<forall>older r. createDefaultM4Rules opts = Inr older \<and> evaluateRules older ctx = Inr r \<longrightarrow> \<not> rn_passed r"
    by (auto simp: createDefaultM4Rules_def createDefaultRules_def evaluateRules_def bindR_Inr_iff summarize_status(2) riskOkPlaceholderRule_def
        rule_status_simps)
qed

text \<open>A candidate within all limits at an equity of 10000, and the same one where its spread is too wide.\<close>

definition exampleRuleOptions :: default_rules_options where
  "exampleRuleOptions = \<lparr>do_allowedMarkets = [oi_market exampleRiskIntent], do_maxSpreadBps = Num 10, do_minDepthKrw = Num 1000,
     do_stopLossBps = Num 50, do_takeProfitBps = Num 80\<rparr>"

definition exampleRuleContext :: "rat \<Rightarrow> rule_context" where
  "exampleRuleContext spread =
     \<lparr>rx_exchangeId = oi_exchangeId exampleRiskIntent, rx_market = oi_market exampleRiskIntent, rx_universe = None,
      rx_marketStatus = Some \<lparr>ms_exchangeId = oi_exchangeId exampleRiskIntent, ms_market = oi_market exampleRiskIntent,
        ms_tradable = True, ms_warning = False, ms_caution = False, ms_reasonCodes = []\<rparr>,
      rx_features = [(''spread_bps'', Amount (Num spread)), (''depth_krw'', Amount (Num 5000))],
      rx_costDecision = Some \<lparr>cd_kind = COST_ALLOW, cd_tradeAllowed = True, cd_reasonCode = cost_margin_ok, cd_snapshot = []\<rparr>,
      rx_orderIntent = Some exampleRiskIntent, rx_expectedLossBpsOfEquity = Some (Num 7), rx_riskGateContext = Some (exampleRiskContext 10000)\<rparr>"

lemma exampleRule_facts:
  "gateApproves exactRound (exampleRuleContext spread)" "marketOpen (exampleRuleContext spread)"
  "liquid 10 1000 (exampleRuleContext spread) \<longleftrightarrow> 0 \<le> spread \<and> spread \<le> 10"
  "readFeatureDecimal (exampleRuleContext spread) ''unrealized_pnl_bps'' = None"
proof -
  have "sameRuleCandidate (exampleRuleContext spread) (exampleRiskContext 10000)"
    by (simp add: sameRuleCandidate_def exampleRuleContext_def exampleRiskContext_def readRuleContextExpectedLossBps_def
        readRiskGateExpectedLossBps_def orElse_def Let_def exampleRiskIntent_def)
  then show "gateApproves exactRound (exampleRuleContext spread)"
    using example_thresholds [of 10000] example_within by (auto simp: gateApproves_def exampleRuleContext_def)
  show "marketOpen (exampleRuleContext spread)" "liquid 10 1000 (exampleRuleContext spread) \<longleftrightarrow> 0 \<le> spread \<and> spread \<le> 10"
    "readFeatureDecimal (exampleRuleContext spread) ''unrealized_pnl_bps'' = None"
    by (auto simp: marketOpen_def liquid_def readFeatureDecimal_def exampleRuleContext_def)
qed

theorem entry_rules_verdict_witness:
  "\<exists>rules. createDefaultM5Rules exactRound exampleRuleOptions = Inr rules \<and>
     (\<exists>r. evaluateRules rules (exampleRuleContext 10) = Inr r \<and> rn_passed r) \<and>
     (\<exists>r. evaluateRules rules (exampleRuleContext 11) = Inr r \<and> rn_status r = RULE_FAIL)"
proof -
  obtain rules where rules: "createDefaultM5Rules exactRound exampleRuleOptions = Inr rules"
    by (simp add: createDefaultM5Rules_def createDefaultRules_def exampleRuleOptions_def parseRuleThreshold_def)
  have "parseFinancialDecimal (do_maxSpreadBps exampleRuleOptions) = Inr 10" "parseFinancialDecimal (do_minDepthKrw exampleRuleOptions) = Inr 1000"
    "parseFinancialDecimal (do_stopLossBps exampleRuleOptions) = Inr 50" "parseFinancialDecimal (do_takeProfitBps exampleRuleOptions) = Inr 80"
    by (simp_all add: exampleRuleOptions_def)
  moreover have "is_ok (parseThresholds (ts_thresholds (rc_thresholdSnapshot g)))" if "rx_riskGateContext (exampleRuleContext spread) = Some g" for spread g
    using that example_thresholds [of 10000] by (auto simp: exampleRuleContext_def)
  ultimately have verdict: "\<exists>r. evaluateRules rules (exampleRuleContext spread) = Inr r \<and>
      (rn_status r \<noteq> RULE_FAIL \<longleftrightarrow> entryAdmissible exactRound (do_allowedMarkets exampleRuleOptions) 10 1000 (exampleRuleContext spread)) \<and>
      (rn_passed r \<longleftrightarrow> rn_status r \<noteq> RULE_FAIL)" for spread
    using entry_rules_verdict [OF rules, of 10 1000 50 80 "exampleRuleContext spread"] exampleRule_facts(4) by fastforce
  have "entryAdmissible exactRound (do_allowedMarkets exampleRuleOptions) 10 1000 (exampleRuleContext spread) \<longleftrightarrow> 0 \<le> spread \<and> spread \<le> 10" for spread
    using exampleRule_facts [of spread] by (auto simp: entryAdmissible_def exampleRuleContext_def exampleRuleOptions_def)
  then show ?thesis using rules verdict [of 10] verdict [of 11] by auto
qed

end
