(* ===== verification/Order_Groups.thy ===== *)
theory Order_Groups
  imports Prelude
begin

text \<open>
  How many orders a list of stored exchange snapshots speaks of: the union-find computations of
  \<^verbatim>\<open>src/src/infrastructure/db/live-reconcile/repository.ts\<close>. An order is seen under an exchange id, under an
  identifier, or under both; a snapshot with both ties them together. The map of parents is an association
  list, which \<^verbatim>\<open>find\<close> shortens as it goes; \<^verbatim>\<open>find\<close> may only be called on a map without cycles, so that it is a
  \<open>partial_function\<close> that the theory shows to return. Both counts are shown to be what they are meant to
  be in terms of the generated equivalence of keys, through the interface \<open>representatives\<close>.
\<close>

section \<open>The forest\<close>

type_synonym parents = "(string \<times> string) list"

partial_function (option) findRoot :: "string \<Rightarrow> parents \<Rightarrow> (string \<times> parents) option" where
  "findRoot key parent =
     (case map_of parent key of
        None \<Rightarrow> Some (key, AList.update key key parent)
      | Some existing \<Rightarrow>
         if existing = key then Some (key, parent)
         else Option.bind (findRoot existing parent) (\<lambda>(rootKey, parent'). Some (rootKey, AList.update key rootKey parent')))"

declare findRoot.simps [code]

definition joinKeys :: "string \<Rightarrow> string \<Rightarrow> parents \<Rightarrow> parents option" where
  "joinKeys left right parent =
     Option.bind (findRoot left parent) (\<lambda>(leftRoot, p1).
     Option.bind (findRoot right p1) (\<lambda>(rightRoot, p2).
     Some (if leftRoot \<noteq> rightRoot then AList.update rightRoot leftRoot p2 else p2)))"

section \<open>The counts\<close>

record order_observation =
  ob_exchangeOrderId :: "string option"
  ob_identifier :: "string option"
  ob_status :: string
  ob_capturedAtMs :: int

definition exchangeOrderKey :: "order_observation \<Rightarrow> string option" where
  "exchangeOrderKey row = map_option (\<lambda>u. ''exchange:'' @ u) (ob_exchangeOrderId row)"

definition identifierKey :: "order_observation \<Rightarrow> string option" where
  "identifierKey row = map_option (\<lambda>i. ''identifier:'' @ i) (ob_identifier row)"

fun foldO :: "('a \<Rightarrow> 's \<Rightarrow> 's option) \<Rightarrow> 'a list \<Rightarrow> 's \<Rightarrow> 's option" where
  "foldO f [] s = Some s"
| "foldO f (x # xs) s = Option.bind (f x s) (foldO f xs)"

definition canonicalStep :: "order_observation \<Rightarrow> nat \<times> parents \<Rightarrow> (nat \<times> parents) option" where
  "canonicalStep row = (\<lambda>(fingerprintOnly, parent).
     (case (exchangeOrderKey row, identifierKey row) of
        (None, None) \<Rightarrow> Some (fingerprintOnly + 1, parent)
      | (Some e, None) \<Rightarrow> map_option (\<lambda>(r, p). (fingerprintOnly, p)) (findRoot e parent)
      | (None, Some i) \<Rightarrow> map_option (\<lambda>(r, p). (fingerprintOnly, p)) (findRoot i parent)
      | (Some e, Some i) \<Rightarrow>
         Option.bind (findRoot e parent) (\<lambda>(r, p1).
         Option.bind (findRoot i p1) (\<lambda>(r, p2).
         map_option (Pair fingerprintOnly) (joinKeys e i p2)))))"

definition collectRoot :: "string \<Rightarrow> string list \<times> parents \<Rightarrow> (string list \<times> parents) option" where
  "collectRoot key = (\<lambda>(roots, parent). map_option (\<lambda>(rootKey, parent'). (List.insert rootKey roots, parent')) (findRoot key parent))"

definition countCanonicalExchangeOrderSnapshots :: "order_observation list \<Rightarrow> nat option" where
  "countCanonicalExchangeOrderSnapshots rows =
     Option.bind (foldO canonicalStep rows (0, [])) (\<lambda>(fingerprintOnly, parent).
     map_option (\<lambda>(roots, parent'). length roots + fingerprintOnly) (foldO collectRoot (map fst parent) ([], parent)))"

definition isOpenExchangeOrderStatus :: "string \<Rightarrow> bool" where
  "isOpenExchangeOrderStatus status \<longleftrightarrow> status \<in> {''wait'', ''watch'', ''open'', ''OPEN''}"

definition observationKey :: "order_observation \<Rightarrow> string option" where
  "observationKey row = (case exchangeOrderKey row of Some e \<Rightarrow> Some e | None \<Rightarrow> identifierKey row)"

definition bridgeStep :: "order_observation \<Rightarrow> parents \<Rightarrow> parents option" where
  "bridgeStep row parent =
     (case (exchangeOrderKey row, identifierKey row) of
        (Some e, Some i) \<Rightarrow> joinKeys e i parent
      | _ \<Rightarrow> Some parent)"

definition keepLatest :: "string \<Rightarrow> int \<Rightarrow> string \<Rightarrow> (string \<times> int \<times> string) list \<Rightarrow> (string \<times> int \<times> string) list" where
  "keepLatest rootKey capturedAtMs status groups =
     (case map_of groups rootKey of
        None \<Rightarrow> AList.update rootKey (capturedAtMs, status) groups
      | Some (existingMs, s) \<Rightarrow>
         if existingMs \<le> capturedAtMs then AList.update rootKey (capturedAtMs, status) groups else groups)"

definition groupStep ::
  "order_observation \<Rightarrow> (string \<times> int \<times> string) list \<times> parents \<Rightarrow> ((string \<times> int \<times> string) list \<times> parents) option" where
  "groupStep row = (\<lambda>(groups, parent).
     (case observationKey row of
        None \<Rightarrow> Some (groups, parent)
      | Some key \<Rightarrow> map_option (\<lambda>(rootKey, parent'). (keepLatest rootKey (ob_capturedAtMs row) (ob_status row) groups, parent'))
          (findRoot key parent)))"

definition countCanonicalOpenExchangeOrderSnapshots :: "order_observation list \<Rightarrow> nat option" where
  "countCanonicalOpenExchangeOrderSnapshots rows =
     Option.bind (foldO bridgeStep rows []) (\<lambda>parent.
     map_option (\<lambda>(groups, parent').
         length (filter (\<lambda>row. observationKey row = None \<and> isOpenExchangeOrderStatus (ob_status row)) rows)
         + length (filter (\<lambda>(rootKey, ms, status). isOpenExchangeOrderStatus status) groups))
       (foldO groupStep rows ([], parent)))"

section \<open>What they count\<close>

text \<open>Two keys name the same order when a chain of snapshots ties them together.\<close>

definition identityKeys :: "order_observation \<Rightarrow> string set" where
  "identityKeys row = set_option (exchangeOrderKey row) \<union> set_option (identifierKey row)"

definition sameOrder :: "order_observation list \<Rightarrow> (string \<times> string) set" where
  "sameOrder rows = (\<Union>row \<in> set rows. identityKeys row \<times> identityKeys row)\<^sup>+"

text \<open>A later snapshot of the same order; of two taken at the same time, the one stored last.\<close>

definition superseded :: "order_observation list \<Rightarrow> nat \<Rightarrow> bool" where
  "superseded rows i \<longleftrightarrow> (\<exists>j < length rows. \<exists>k \<in> identityKeys (rows ! i). \<exists>l \<in> identityKeys (rows ! j).
     (k, l) \<in> sameOrder rows \<and>
     (ob_capturedAtMs (rows ! i) < ob_capturedAtMs (rows ! j) \<or>
      ob_capturedAtMs (rows ! i) = ob_capturedAtMs (rows ! j) \<and> i < j))"

section \<open>The interface of the forest\<close>

text \<open>
  \<open>rep s\<close> maps the keys that the state \<open>s\<close> knows to their representatives. Looking a key up makes it
  known; joining two keys replaces the representative of the second by that of the first.
\<close>

definition reprIn :: "(string \<rightharpoonup> string) \<Rightarrow> string \<Rightarrow> string" where
  "reprIn m k = (case m k of Some r \<Rightarrow> r | None \<Rightarrow> k)"

definition learn :: "string \<Rightarrow> (string \<rightharpoonup> string) \<Rightarrow> (string \<rightharpoonup> string)" where
  "learn k m = m(k \<mapsto> reprIn m k)"

definition redirect :: "string \<Rightarrow> string \<Rightarrow> (string \<rightharpoonup> string) \<Rightarrow> (string \<rightharpoonup> string)" where
  "redirect k l m = map_option (\<lambda>r. if r = reprIn m l then reprIn m k else r) \<circ> learn l (learn k m)"

definition groupsOf :: "(string \<rightharpoonup> string) \<Rightarrow> (string \<times> string) set" where
  "groupsOf m = {(x, y). \<exists>r. m x = Some r \<and> m y = Some r}"

lemma trans_groupsOf: "trans (groupsOf m)"
  by (auto simp: trans_def groupsOf_def)

lemma learn_keeps: "m x = Some r \<Longrightarrow> learn k m x = Some r"
  by (auto simp: learn_def reprIn_def)

lemma learn_known: "learn k m k = Some (reprIn m k)"
  by (simp add: learn_def)

lemma learn_both:
  "learn l (learn k m) k = Some (reprIn m k)" "learn l (learn k m) l = Some (reprIn m l)"
  by (auto simp: learn_def reprIn_def)

lemma learn_new: "learn k m x = Some r \<Longrightarrow> m x = Some r \<or> x = k \<and> m k = None \<and> r = k"
  by (auto simp: learn_def reprIn_def split: if_splits option.splits)

lemma learn_groups:
  assumes "\<And>k r. m k = Some r \<Longrightarrow> m r = Some r"
  shows "groupsOf (learn k m) = insert (k, k) (groupsOf m)"
proof (cases "m k")
  case None
  then have "m x \<noteq> Some k" for x using assms [of x k] by auto
  then show ?thesis using None by (auto simp: groupsOf_def learn_def reprIn_def split: if_splits)
next
  case (Some r)
  then have "learn k m = m" by (simp add: learn_def reprIn_def fun_upd_idem)
  then show ?thesis using Some by (auto simp: groupsOf_def)
qed

lemma learn_idem:
  assumes "\<And>k r. m k = Some r \<Longrightarrow> m r = Some r" "learn k m x = Some r"
  shows "learn k m r = Some r"
  using learn_new [OF assms(2)] assms(1) learn_keeps [of m r r k] learn_known [of k m] by (auto simp: reprIn_def)

lemma redirect_groups:
  assumes idem: "\<And>k r. m k = Some r \<Longrightarrow> m r = Some r"
  shows "groupsOf (redirect k l m) = (groupsOf m \<union> {k, l} \<times> {k, l})\<^sup>+"
proof
  let ?n = "learn l (learn k m)" and ?a = "reprIn m k" and ?b = "reprIn m l" and ?T = "(groupsOf m \<union> {k, l} \<times> {k, l})\<^sup>+"
  have n: "?n k = Some ?a" "?n l = Some ?b" by (rule learn_both)+
  have G: "groupsOf ?n = insert (l, l) (insert (k, k) (groupsOf m))"
    using learn_groups [of "learn k m" l] learn_groups [of m k] idem learn_idem [of m k] by metis
  have sub: "groupsOf ?n \<subseteq> ?T" unfolding G by auto
  show "groupsOf (redirect k l m) \<subseteq> ?T"
  proof clarify
    fix x y assume "(x, y) \<in> groupsOf (redirect k l m)"
    then obtain p q where p: "?n x = Some p" and q: "?n y = Some q"
      and pq: "(if p = ?b then ?a else p) = (if q = ?b then ?a else q)"
      by (auto simp: groupsOf_def redirect_def)
    have step: "?n u = Some r \<Longrightarrow> ?n v = Some r \<Longrightarrow> (u, v) \<in> ?T" for u v r
      using sub by (auto simp: groupsOf_def)
    have kl: "(k, l) \<in> ?T" "(l, k) \<in> ?T" by auto
    consider "p = q" | "p = ?b" "q = ?a" | "p = ?a" "q = ?b" using pq by (auto split: if_splits)
    then show "(x, y) \<in> ?T"
    proof cases
      case 1 then show ?thesis using step p q by blast
    next
      case 2
      have "(x, l) \<in> ?T" "(k, y) \<in> ?T" using step [OF p [unfolded 2] n(2)] step [OF n(1) q [unfolded 2]] .
      then show ?thesis using kl(2) by (meson trancl_trans)
    next
      case 3
      have "(x, k) \<in> ?T" "(l, y) \<in> ?T" using step [OF p [unfolded 3] n(1)] step [OF n(2) q [unfolded 3]] .
      then show ?thesis using kl(1) by (meson trancl_trans)
    qed
  qed
  have known: "?n x = Some r \<Longrightarrow> ?n y = Some r \<Longrightarrow> (x, y) \<in> groupsOf (redirect k l m)" for x y r
    by (simp add: groupsOf_def redirect_def)
  have "groupsOf m \<subseteq> groupsOf (redirect k l m)"
    using known learn_keeps by (auto simp: groupsOf_def [of m])
  moreover have "{k, l} \<times> {k, l} \<subseteq> groupsOf (redirect k l m)"
    using n by (auto simp: groupsOf_def redirect_def)
  ultimately have "?T \<subseteq> (groupsOf (redirect k l m))\<^sup>+" by (intro trancl_mono_subset) simp
  then show "?T \<subseteq> groupsOf (redirect k l m)" by (simp add: trancl_id trans_groupsOf)
qed

locale representatives =
  fixes good :: "'s \<Rightarrow> bool"
    and rep :: "'s \<Rightarrow> string \<rightharpoonup> string"
    and look :: "string \<Rightarrow> 's \<Rightarrow> (string \<times> 's) option"
    and join :: "string \<Rightarrow> string \<Rightarrow> 's \<Rightarrow> 's option"
  assumes rep_idem: "good s \<Longrightarrow> rep s k = Some r \<Longrightarrow> rep s r = Some r"
    and look_ok: "good s \<Longrightarrow> \<exists>s'. look k s = Some (reprIn (rep s) k, s') \<and> good s' \<and> rep s' = learn k (rep s)"
    and join_ok: "good s \<Longrightarrow> \<exists>s'. join k l s = Some s' \<and> good s' \<and> rep s' = redirect k l (rep s)"
begin

lemma look_groups:
  assumes "good s"
  shows "\<exists>s'. look k s = Some (reprIn (rep s) k, s') \<and> good s' \<and> rep s' = learn k (rep s) \<and>
    groupsOf (rep s') = insert (k, k) (groupsOf (rep s))"
  using look_ok [OF assms] learn_groups [of "rep s" k] rep_idem [OF assms] by metis

lemma join_groups:
  assumes "good s"
  shows "\<exists>s'. join k l s = Some s' \<and> good s' \<and> groupsOf (rep s') = (groupsOf (rep s) \<union> {k, l} \<times> {k, l})\<^sup>+"
  using join_ok [OF assms] redirect_groups [of "rep s" k l] rep_idem [OF assms] by metis

end

section \<open>The forest implements it\<close>

inductive leads :: "(string \<rightharpoonup> string) \<Rightarrow> string \<Rightarrow> string \<Rightarrow> bool" for m where
  leads_here: "m k = Some k \<Longrightarrow> leads m k k"
| leads_up: "m k = Some p \<Longrightarrow> p \<noteq> k \<Longrightarrow> leads m p r \<Longrightarrow> leads m k r"

definition forest :: "parents \<Rightarrow> bool" where
  "forest parent \<longleftrightarrow> (\<forall>k \<in> dom (map_of parent). \<exists>r. leads (map_of parent) k r)"

definition rootIn :: "(string \<rightharpoonup> string) \<Rightarrow> string \<rightharpoonup> string" where
  "rootIn m k = (if \<exists>r. leads m k r then Some (THE r. leads m k r) else None)"

lemma leads_root: "leads m k r \<Longrightarrow> m r = Some r"
  by (induction rule: leads.induct)

lemma leads_known: "leads m k r \<Longrightarrow> k \<in> dom m"
  by (cases rule: leads.cases) auto

lemma leads_det: "leads m k r \<Longrightarrow> leads m k s \<Longrightarrow> r = s"
proof (induction arbitrary: s rule: leads.induct)
  case (leads_here k)
  from leads_here(2,1) show ?case by (cases rule: leads.cases) simp_all
next
  case (leads_up k p r)
  from leads_up.prems leads_up.hyps(1,2) have "leads m p s" by (cases rule: leads.cases) simp_all
  then show ?case by (rule leads_up.IH)
qed

lemma rootIn_iff: "rootIn m k = Some r \<longleftrightarrow> leads m k r"
proof -
  have "(THE r. leads m k r) = r" if "leads m k r" for r using that leads_det [of m k] by (intro the_equality)
  then show ?thesis by (auto simp: rootIn_def)
qed

text \<open>A change of the map that keeps the keys and leads each of them somewhere known is settled by that.\<close>

lemma rootIn_changed:
  assumes "\<And>x t. leads m x t \<Longrightarrow> leads n x (f t)" "\<forall>k \<in> dom m. \<exists>r. leads m k r" "dom n \<subseteq> dom m"
  shows "rootIn n = map_option f \<circ> rootIn m" "\<forall>k \<in> dom n. \<exists>r. leads n k r"
proof -
  show "rootIn n = map_option f \<circ> rootIn m"
  proof
    fix x
    show "rootIn n x = (map_option f \<circ> rootIn m) x"
    proof (cases "rootIn m x")
      case None
      then have "\<not> leads m x t" for t using rootIn_iff [of m x t] by simp
      then have "x \<notin> dom n" using assms(2,3) by blast
      then have "rootIn n x = None" using leads_known [of n x] rootIn_iff [of n x] by (cases "rootIn n x") auto
      then show ?thesis using None by simp
    next
      case (Some t)
      then have "rootIn n x = Some (f t)" using assms(1) [of x t] rootIn_iff by simp
      then show ?thesis using Some by simp
    qed
  qed
  show "\<forall>k \<in> dom n. \<exists>r. leads n k r" using assms by blast
qed

lemma leads_compress:
  assumes "leads m k r" "leads m x s"
  shows "leads (m(k \<mapsto> r)) x s"
  using assms(2)
proof (induction rule: leads.induct)
  case (leads_here x)
  then show ?case using leads_det [OF assms(1)] leads.leads_here [of m x]
    by (cases "x = k") (auto intro: leads.leads_here)
next
  case (leads_up x p s)
  show ?case
  proof (cases "x = k")
    case True
    have "s = r" using leads_det [OF assms(1)] leads.leads_up [OF leads_up(1-3)] True by blast
    moreover have "r \<noteq> k" using leads_root [OF assms(1)] leads_up True by auto
    ultimately show ?thesis
      using True leads_root [OF assms(1)] by (intro leads.leads_up [of _ x r]) (auto intro: leads.leads_here)
  next
    case False
    then show ?thesis using leads_up by (intro leads.leads_up [of _ x p]) auto
  qed
qed

lemma leads_link:
  assumes "m a = Some a" "m b = Some b" "a \<noteq> b" "leads m x t"
  shows "leads (m(b \<mapsto> a)) x (if t = b then a else t)"
  using assms(4)
proof (induction rule: leads.induct)
  case (leads_here x)
  have "leads (m(b \<mapsto> a)) a a" using assms by (intro leads.leads_here) simp
  then have "leads (m(b \<mapsto> a)) b a" using assms by (intro leads.leads_up [of _ b a]) simp_all
  moreover have "leads (m(b \<mapsto> a)) x x" if "x \<noteq> b" using leads_here that by (intro leads.leads_here) simp
  ultimately show ?case by (cases "x = b") (simp_all del: fun_upd_apply)
next
  case (leads_up x p r)
  then have "x \<noteq> b" using assms by auto
  then show ?case using leads_up by (intro leads.leads_up [of _ x p]) auto
qed

lemma leads_new:
  assumes "m k = None" "leads m x t"
  shows "leads (m(k \<mapsto> k)) x t"
  using assms(2)
proof (induction rule: leads.induct)
  case (leads_here x) then show ?case using assms(1) by (intro leads.leads_here) auto
next
  case (leads_up x p r) then show ?case using assms(1) by (intro leads.leads_up [of _ x p]) auto
qed

lemma find_known:
  assumes "forest parent"
  shows "leads (map_of parent) k r \<Longrightarrow>
    \<exists>p. findRoot k parent = Some (r, p) \<and> forest p \<and> rootIn (map_of p) = rootIn (map_of parent)"
proof (induction rule: leads.induct)
  case (leads_here k)
  then have "findRoot k parent = Some (k, parent)" by (subst findRoot.simps) simp
  then show ?case using assms by simp
next
  case (leads_up k up r)
  from leads_up.IH obtain p where p: "findRoot up parent = Some (r, p)" "forest p" "rootIn (map_of p) = rootIn (map_of parent)" by blast
  have "leads (map_of parent) k r" by (rule leads.leads_up [OF leads_up.hyps])
  then have k: "leads (map_of p) k r" using p(3) rootIn_iff by metis
  have dom: "dom ((map_of p)(k \<mapsto> r)) \<subseteq> dom (map_of p)" using leads_known [OF k] by auto
  have all: "\<forall>k \<in> dom (map_of p). \<exists>r. leads (map_of p) k r" using p(2) by (simp add: forest_def)
  have "rootIn ((map_of p)(k \<mapsto> r)) = rootIn (map_of p)" "\<forall>x \<in> dom ((map_of p)(k \<mapsto> r)). \<exists>s. leads ((map_of p)(k \<mapsto> r)) x s"
    using rootIn_changed [of "map_of p" "(map_of p)(k \<mapsto> r)" "\<lambda>t. t", OF leads_compress [OF k] all dom] by (auto simp: option.map_ident)
  moreover have "findRoot k parent = Some (r, AList.update k r p)"
    using leads_up p by (subst findRoot.simps) simp
  ultimately show ?case using p by (auto simp: forest_def update_conv')
qed

lemma rootIn_new:
  assumes "\<forall>x \<in> dom m. \<exists>r. leads m x r" "m k = None"
  shows "rootIn (m(k \<mapsto> k)) = (rootIn m)(k \<mapsto> k)" "\<forall>x \<in> dom (m(k \<mapsto> k)). \<exists>r. leads (m(k \<mapsto> k)) x r"
proof -
  have here: "leads (m(k \<mapsto> k)) k k" by (intro leads.leads_here) simp
  have "leads (m(k \<mapsto> k)) x t \<longleftrightarrow> leads m x t" if ne: "x \<noteq> k" for x t
  proof
    assume n: "leads (m(k \<mapsto> k)) x t"
    then obtain s where s: "leads m x s" using assms(1) leads_known [OF n] ne by auto
    then show "leads m x t" using leads_det [OF n leads_new [of m k, OF assms(2) s]] by simp
  qed (rule leads_new [of m k, OF assms(2)])
  then have same: "leads (m(k \<mapsto> k)) x = leads m x" if "x \<noteq> k" for x using that by (intro ext) simp
  have other: "rootIn (m(k \<mapsto> k)) x = rootIn m x" if "x \<noteq> k" for x
    unfolding rootIn_def same [OF that] ..
  show "rootIn (m(k \<mapsto> k)) = (rootIn m)(k \<mapsto> k)"
  proof
    fix x
    show "rootIn (m(k \<mapsto> k)) x = ((rootIn m)(k \<mapsto> k)) x"
      by (cases "x = k") (simp_all only: fun_upd_same fun_upd_other other here [folded rootIn_iff] not_False_eq_True)
  qed
  show "\<forall>x \<in> dom (m(k \<mapsto> k)). \<exists>r. leads (m(k \<mapsto> k)) x r"
  proof
    fix x assume "x \<in> dom (m(k \<mapsto> k))"
    then show "\<exists>r. leads (m(k \<mapsto> k)) x r"
      using here assms(1) leads_new [of m k x, OF assms(2)] by (cases "x = k") auto
  qed
qed

lemma find_ok:
  assumes "forest parent"
  shows "\<exists>p. findRoot k parent = Some (reprIn (rootIn (map_of parent)) k, p) \<and> forest p \<and>
    rootIn (map_of p) = learn k (rootIn (map_of parent))"
proof (cases "rootIn (map_of parent) k")
  case (Some r)
  then have "learn k (rootIn (map_of parent)) = rootIn (map_of parent)" "reprIn (rootIn (map_of parent)) k = r"
    by (simp_all add: learn_def reprIn_def fun_upd_idem)
  then show ?thesis using find_known [OF assms] Some by (auto simp: rootIn_iff)
next
  case None
  have all: "\<forall>x \<in> dom (map_of parent). \<exists>r. leads (map_of parent) x r" using assms by (simp add: forest_def)
  then have new: "map_of parent k = None" using None rootIn_iff [of "map_of parent" k] by fastforce
  have "findRoot k parent = Some (k, AList.update k k parent)" using new by (subst findRoot.simps) simp
  then show ?thesis using rootIn_new [OF all new] None by (simp add: learn_def reprIn_def forest_def update_conv')
qed

lemma learn_reprIn: "reprIn (learn k m) l = reprIn m l"
  by (auto simp: learn_def reprIn_def)

lemma join_forest:
  assumes "forest parent"
  shows "\<exists>p. joinKeys k l parent = Some p \<and> forest p \<and> rootIn (map_of p) = redirect k l (rootIn (map_of parent))"
proof -
  let ?m = "rootIn (map_of parent)"
  obtain p1 where p1: "findRoot k parent = Some (reprIn ?m k, p1)" "forest p1" "rootIn (map_of p1) = learn k ?m"
    using find_ok [OF assms] by blast
  obtain p2 where p2: "findRoot l p1 = Some (reprIn ?m l, p2)" "forest p2" "rootIn (map_of p2) = learn l (learn k ?m)"
    using find_ok [OF p1(2), of l] p1(3) learn_reprIn by metis
  show ?thesis
  proof (cases "reprIn ?m k = reprIn ?m l")
    case True
    then have "redirect k l ?m = learn l (learn k ?m)" by (auto simp: redirect_def fun_eq_iff option.map_ident cong: if_cong)
    then show ?thesis using True p1 p2 by (simp add: joinKeys_def)
  next
    case False
    let ?a = "reprIn ?m k" and ?b = "reprIn ?m l"
    have roots: "map_of p2 ?a = Some ?a" "map_of p2 ?b = Some ?b"
      using learn_both [of l k ?m] p2(3) leads_root rootIn_iff by metis+
    have all: "\<forall>x \<in> dom (map_of p2). \<exists>r. leads (map_of p2) x r" using p2(2) by (simp add: forest_def)
    have dom: "dom ((map_of p2)(?b \<mapsto> ?a)) \<subseteq> dom (map_of p2)" using roots by auto
    have "rootIn ((map_of p2)(?b \<mapsto> ?a)) = map_option (\<lambda>t. if t = ?b then ?a else t) \<circ> rootIn (map_of p2)"
      "\<forall>x \<in> dom ((map_of p2)(?b \<mapsto> ?a)). \<exists>s. leads ((map_of p2)(?b \<mapsto> ?a)) x s"
      using rootIn_changed [where f = "\<lambda>t. if t = ?b then ?a else t", OF leads_link [OF roots False] all dom] by simp_all
    moreover have "joinKeys k l parent = Some (AList.update ?b ?a p2)" using p1 p2 False by (simp add: joinKeys_def)
    ultimately show ?thesis by (simp add: forest_def update_conv' redirect_def p2(3))
  qed
qed

interpretation uf: representatives forest "\<lambda>parent. rootIn (map_of parent)" findRoot joinKeys
proof unfold_locales
  fix parent k r assume "rootIn (map_of parent) k = Some r"
  then show "rootIn (map_of parent) r = Some r"
    unfolding rootIn_iff by (auto intro: leads.leads_here dest: leads_root)
next
  fix parent k assume "forest parent"
  then show "\<exists>p. findRoot k parent = Some (reprIn (rootIn (map_of parent)) k, p) \<and> forest p \<and>
      rootIn (map_of p) = learn k (rootIn (map_of parent))" by (rule find_ok)
next
  fix parent k l assume "forest parent"
  then show "\<exists>p. joinKeys k l parent = Some p \<and> forest p \<and> rootIn (map_of p) = redirect k l (rootIn (map_of parent))"
    by (rule join_forest)
qed

section \<open>The number of orders\<close>

definition orderKeys :: "order_observation list \<Rightarrow> string set" where
  "orderKeys rows = (\<Union>row \<in> set rows. identityKeys row)"

lemma rootIn_idem: "rootIn m k = Some r \<Longrightarrow> rootIn m r = Some r"
  unfolding rootIn_iff by (auto intro: leads.leads_here dest: leads_root)

lemma forest_dom: "forest parent \<Longrightarrow> dom (rootIn (map_of parent)) = set (map fst parent)"
  using leads_known [of "map_of parent"] rootIn_iff [of "map_of parent"]
  by (fastforce simp: forest_def dom_map_of_conv_image_fst [symmetric])

lemma forest_empty: "forest []" "groupsOf (rootIn (map_of [])) = {}"
  using leads_known [of Map.empty] rootIn_iff [of Map.empty] by (auto simp: forest_def groupsOf_def)

lemma Domain_groupsOf: "Domain (groupsOf m) = dom m"
  by (auto simp: groupsOf_def)

lemma card_representatives:
  assumes idem: "\<And>k r. m k = Some r \<Longrightarrow> m r = Some r"
  shows "card (dom m // groupsOf m) = card (ran m)"
proof -
  have "dom m // groupsOf m = (\<lambda>r. {x. m x = Some r}) ` ran m"
  proof
    show "dom m // groupsOf m \<subseteq> (\<lambda>r. {x. m x = Some r}) ` ran m"
      by (auto simp: quotient_def groupsOf_def ran_def)
    show "(\<lambda>r. {x. m x = Some r}) ` ran m \<subseteq> dom m // groupsOf m"
    proof clarify
      fix r assume "r \<in> ran m"
      then have "m r = Some r" using idem by (auto simp: ran_def)
      then have "{x. m x = Some r} = groupsOf m `` {r}" "r \<in> dom m" by (auto simp: groupsOf_def)
      then show "{x. m x = Some r} \<in> dom m // groupsOf m" by (auto simp: quotient_def)
    qed
  qed
  moreover have "inj_on (\<lambda>r. {x. m x = Some r}) (ran m)"
  proof (rule inj_onI)
    fix r s assume "r \<in> ran m" and eq: "{x. m x = Some r} = {x. m x = Some s}"
    then have "m r = Some r" using idem by (auto simp: ran_def)
    then have "m r = Some s" using eq by blast
    then show "r = s" using \<open>m r = Some r\<close> by simp
  qed
  ultimately show ?thesis by (simp add: card_image)
qed

lemma trancl_absorb: "(A\<^sup>+ \<union> B)\<^sup>+ = (A \<union> B)\<^sup>+"
proof
  have "A\<^sup>+ \<union> B \<subseteq> (A \<union> B)\<^sup>+" using trancl_mono_subset [of A "A \<union> B"] by auto
  then show "(A\<^sup>+ \<union> B)\<^sup>+ \<subseteq> (A \<union> B)\<^sup>+"
    using trancl_mono_subset [of "A\<^sup>+ \<union> B" "(A \<union> B)\<^sup>+"] by (simp only: trancl_id [OF trans_trancl])
  show "(A \<union> B)\<^sup>+ \<subseteq> (A\<^sup>+ \<union> B)\<^sup>+" by (intro trancl_mono_subset) auto
qed

lemma canonicalStep_groups:
  assumes "forest parent"
  shows "\<exists>p. canonicalStep row (n, parent) = Some ((if identityKeys row = {} then n + 1 else n), p) \<and> forest p \<and>
    groupsOf (rootIn (map_of p)) = (groupsOf (rootIn (map_of parent)) \<union> identityKeys row \<times> identityKeys row)\<^sup>+"
proof -
  let ?G = "groupsOf (rootIn (map_of parent))"
  have single: "\<exists>p. findRoot k parent = Some (reprIn (rootIn (map_of parent)) k, p) \<and> forest p \<and>
      groupsOf (rootIn (map_of p)) = (?G \<union> {k} \<times> {k})\<^sup>+" for k
  proof -
    obtain p where p: "findRoot k parent = Some (reprIn (rootIn (map_of parent)) k, p)" "forest p"
      "groupsOf (rootIn (map_of p)) = insert (k, k) ?G" using uf.look_groups [OF assms, of k] by blast
    have "(insert (k, k) ?G)\<^sup>+ = insert (k, k) ?G" unfolding p(3) [symmetric] by (rule trancl_id [OF trans_groupsOf])
    then show ?thesis using p by auto
  qed
  show ?thesis
  proof (cases "exchangeOrderKey row"; cases "identifierKey row")
    assume k: "exchangeOrderKey row = None" "identifierKey row = None"
    then show ?thesis using assms by (simp add: canonicalStep_def identityKeys_def trancl_id trans_groupsOf)
  next
    fix i assume k: "exchangeOrderKey row = None" "identifierKey row = Some i"
    then show ?thesis using single [of i] by (auto simp: canonicalStep_def identityKeys_def)
  next
    fix e assume k: "exchangeOrderKey row = Some e" "identifierKey row = None"
    then show ?thesis using single [of e] by (auto simp: canonicalStep_def identityKeys_def)
  next
    fix e i assume k: "exchangeOrderKey row = Some e" "identifierKey row = Some i"
    obtain p1 where p1: "findRoot e parent = Some (reprIn (rootIn (map_of parent)) e, p1)" "forest p1"
      "groupsOf (rootIn (map_of p1)) = insert (e, e) ?G" using uf.look_groups [OF assms, of e] by blast
    obtain p2 where p2: "findRoot i p1 = Some (reprIn (rootIn (map_of p1)) i, p2)" "forest p2"
      "groupsOf (rootIn (map_of p2)) = insert (i, i) (groupsOf (rootIn (map_of p1)))" using uf.look_groups [OF p1(2), of i] by blast
    obtain p3 where p3: "joinKeys e i p2 = Some p3" "forest p3"
      "groupsOf (rootIn (map_of p3)) = (groupsOf (rootIn (map_of p2)) \<union> {e, i} \<times> {e, i})\<^sup>+"
      using uf.join_groups [OF p2(2), of e i] by blast
    have "groupsOf (rootIn (map_of p2)) \<union> {e, i} \<times> {e, i} = ?G \<union> {e, i} \<times> {e, i}" unfolding p2(3) p1(3) by auto
    moreover have "identityKeys row = {e, i}" using k by (auto simp: identityKeys_def)
    ultimately show ?thesis using k p1 p2 p3 by (simp add: canonicalStep_def)
  qed
qed

lemma canonical_groups:
  "forest parent \<Longrightarrow> \<exists>p. foldO canonicalStep rows (n, parent) = Some (n + length (filter (\<lambda>row. identityKeys row = {}) rows), p) \<and> forest p \<and>
    groupsOf (rootIn (map_of p)) = (groupsOf (rootIn (map_of parent)) \<union> (\<Union>row \<in> set rows. identityKeys row \<times> identityKeys row))\<^sup>+"
proof (induction rows arbitrary: n parent)
  case Nil
  then show ?case by (simp add: trancl_id trans_groupsOf)
next
  case (Cons row rows)
  obtain p where p: "canonicalStep row (n, parent) = Some ((if identityKeys row = {} then n + 1 else n), p)" "forest p"
    "groupsOf (rootIn (map_of p)) = (groupsOf (rootIn (map_of parent)) \<union> identityKeys row \<times> identityKeys row)\<^sup>+"
    using canonicalStep_groups [OF Cons.prems] by blast
  obtain q where q: "foldO canonicalStep rows ((if identityKeys row = {} then n + 1 else n), p) =
      Some ((if identityKeys row = {} then n + 1 else n) + length (filter (\<lambda>row. identityKeys row = {}) rows), q)" "forest q"
    "groupsOf (rootIn (map_of q)) = (groupsOf (rootIn (map_of p)) \<union> (\<Union>row \<in> set rows. identityKeys row \<times> identityKeys row))\<^sup>+"
    using Cons.IH [OF p(2)] by blast
  have "foldO canonicalStep (row # rows) (n, parent) = Some (n + length (filter (\<lambda>row. identityKeys row = {}) (row # rows)), q)"
    using p(1) q(1) by (cases "identityKeys row = {}") simp_all
  then show ?case using q(2,3) unfolding p(3) by (simp add: trancl_absorb Un_assoc)
qed

lemma collect_roots:
  "forest parent \<Longrightarrow> set keys \<subseteq> dom (rootIn (map_of parent)) \<Longrightarrow>
    \<exists>p. foldO collectRoot keys (roots, parent) = Some (fold List.insert (map (reprIn (rootIn (map_of parent))) keys) roots, p)"
proof (induction keys arbitrary: roots parent)
  case Nil then show ?case by simp
next
  case (Cons k keys)
  obtain p where p: "findRoot k parent = Some (reprIn (rootIn (map_of parent)) k, p)" "forest p"
    "rootIn (map_of p) = learn k (rootIn (map_of parent))" using uf.look_ok [OF Cons.prems(1)] by blast
  have "rootIn (map_of p) = rootIn (map_of parent)"
    using Cons.prems(2) unfolding p(3) by (auto simp: learn_def reprIn_def fun_upd_idem)
  then show ?case using Cons.IH [OF p(2)] Cons.prems(2) p(1) by (simp add: collectRoot_def)
qed

lemma length_fold_insert: "distinct roots \<Longrightarrow> length (fold List.insert xs roots) = card (set roots \<union> set xs)"
  by (induction xs arbitrary: roots) (auto simp: distinct_card insert_absorb Un_commute)

text \<open>
  C36. The number of orders that a list of stored snapshots speaks of is the number of classes of keys that
  snapshots tie together, plus the snapshots without any key; the computation always returns.
\<close>

theorem canonical_orders_counted:
  "countCanonicalExchangeOrderSnapshots rows =
    Some (card (orderKeys rows // sameOrder rows) + length (filter (\<lambda>row. identityKeys row = {}) rows))"
proof -
  let ?none = "length (filter (\<lambda>row. identityKeys row = {}) rows)"
  obtain p where p: "foldO canonicalStep rows (0, []) = Some (?none, p)" "forest p" "groupsOf (rootIn (map_of p)) = sameOrder rows"
    using canonical_groups [OF forest_empty(1), of rows 0] unfolding forest_empty(2) Un_empty_left sameOrder_def [symmetric] add_0 by blast
  let ?m = "rootIn (map_of p)"
  have dom: "dom ?m = set (map fst p)" by (rule forest_dom [OF p(2)])
  have keys: "dom ?m = orderKeys rows"
    unfolding Domain_groupsOf [symmetric] p(3) by (auto simp: sameOrder_def orderKeys_def)
  obtain p' where collected: "foldO collectRoot (map fst p) ([], p) = Some (fold List.insert (map (reprIn ?m) (map fst p)) [], p')"
    using collect_roots [OF p(2), of "map fst p" "[]"] dom by blast
  have "reprIn ?m ` dom ?m = ran ?m" by (force simp: reprIn_def ran_def image_def)
  then have "set (map (reprIn ?m) (map fst p)) = ran ?m" unfolding dom by (simp add: image_image)
  then have "length (fold List.insert (map (reprIn ?m) (map fst p)) []) = card (ran ?m)" by (simp only: length_fold_insert distinct.simps set_simps Un_empty_left)
  also have "\<dots> = card (orderKeys rows // sameOrder rows)"
    using card_representatives [of ?m] rootIn_idem keys p(3) by metis
  finally show ?thesis using p(1) collected by (simp add: countCanonicalExchangeOrderSnapshots_def)
qed

section \<open>The number of open orders\<close>

text \<open>A list of snapshots by representative, and the rows that no later row of the same order replaces.\<close>

type_synonym tagged = "string option \<times> int \<times> string"

definition latestGroups :: "tagged list \<Rightarrow> (string \<times> int \<times> string) list" where
  "latestGroups xs = fold (\<lambda>(tag, ms, status) groups. case tag of None \<Rightarrow> groups | Some r \<Rightarrow> keepLatest r ms status groups) xs []"

definition beats :: "tagged list \<Rightarrow> nat \<Rightarrow> nat \<Rightarrow> bool" where
  "beats xs j i \<longleftrightarrow> fst (xs ! j) = fst (xs ! i) \<and>
     (fst (snd (xs ! i)) < fst (snd (xs ! j)) \<or> fst (snd (xs ! i)) = fst (snd (xs ! j)) \<and> i < j)"

definition latestAt :: "tagged list \<Rightarrow> string \<Rightarrow> nat \<Rightarrow> bool" where
  "latestAt xs r i \<longleftrightarrow> i < length xs \<and> fst (xs ! i) = Some r \<and> \<not> (\<exists>j < length xs. beats xs j i)"

lemma latestAt_unique: "latestAt xs r i \<Longrightarrow> latestAt xs r j \<Longrightarrow> i = j"
  by (auto simp: latestAt_def beats_def) (metis linorder_neqE)

lemma latestAt_snoc:
  "i < length xs \<Longrightarrow> latestAt (xs @ [(tag, ms, status)]) r i \<longleftrightarrow> latestAt xs r i \<and> \<not> (tag = Some r \<and> fst (snd (xs ! i)) \<le> ms)"
  by (auto simp: latestAt_def Ex_less_Suc beats_def nth_append)

lemma latestAt_last:
  "latestAt (xs @ [(tag, ms, status)]) r (length xs) \<longleftrightarrow>
    tag = Some r \<and> (\<forall>j < length xs. fst (xs ! j) = Some r \<longrightarrow> fst (snd (xs ! j)) \<le> ms)"
  by (auto simp: latestAt_def beats_def nth_append less_Suc_eq not_less)

lemma latestGroups_distinct: "distinct (map fst (latestGroups xs))"
proof (induction xs rule: rev_induct)
  case (snoc x xs)
  then show ?case
    by (cases x) (auto simp: latestGroups_def keepLatest_def distinct_update split: option.splits)
qed (simp add: latestGroups_def)

lemma latestAt_snoc_ex:
  "(\<exists>i. latestAt (xs @ [(tag, ms, status)]) r i \<and> v = snd ((xs @ [(tag, ms, status)]) ! i)) \<longleftrightarrow>
      (\<exists>i. latestAt xs r i \<and> v = snd (xs ! i) \<and> \<not> (tag = Some r \<and> fst v \<le> ms)) \<or> latestAt (xs @ [(tag, ms, status)]) r (length xs) \<and> v = (ms, status)"
proof
  assume "\<exists>i. latestAt (xs @ [(tag, ms, status)]) r i \<and> v = snd ((xs @ [(tag, ms, status)]) ! i)"
  then obtain i where i: "latestAt (xs @ [(tag, ms, status)]) r i" "v = snd ((xs @ [(tag, ms, status)]) ! i)" by blast
  show "(\<exists>i. latestAt xs r i \<and> v = snd (xs ! i) \<and> \<not> (tag = Some r \<and> fst v \<le> ms)) \<or> latestAt (xs @ [(tag, ms, status)]) r (length xs) \<and> v = (ms, status)"
  proof (cases "i < length xs")
    case True then show ?thesis using i latestAt_snoc [OF True] by (auto simp: nth_append)
  next
    case False
    then have "i = length xs" using i(1) by (simp add: latestAt_def)
    then show ?thesis using i by simp
  qed
next
  assume "(\<exists>i. latestAt xs r i \<and> v = snd (xs ! i) \<and> \<not> (tag = Some r \<and> fst v \<le> ms)) \<or> latestAt (xs @ [(tag, ms, status)]) r (length xs) \<and> v = (ms, status)"
  then show "\<exists>i. latestAt (xs @ [(tag, ms, status)]) r i \<and> v = snd ((xs @ [(tag, ms, status)]) ! i)"
  proof
    assume "\<exists>i. latestAt xs r i \<and> v = snd (xs ! i) \<and> \<not> (tag = Some r \<and> fst v \<le> ms)"
    then obtain i where i: "latestAt xs r i" "v = snd (xs ! i)" "\<not> (tag = Some r \<and> fst v \<le> ms)" by blast
    then have "i < length xs" by (simp add: latestAt_def)
    then show ?thesis using i latestAt_snoc [of i xs tag ms status r] by (intro exI [of _ i]) (simp add: nth_append)
  qed (intro exI [of _ "length xs"], simp)
qed

lemma latestGroups_iff:
  "(\<forall>r v. map_of (latestGroups xs) r = Some v \<longleftrightarrow> (\<exists>i. latestAt xs r i \<and> v = snd (xs ! i))) \<and>
   (\<forall>j < length xs. \<forall>r. fst (xs ! j) = Some r \<longrightarrow> (\<exists>t s. map_of (latestGroups xs) r = Some (t, s) \<and> fst (snd (xs ! j)) \<le> t))"
proof (induction xs rule: rev_induct)
  case Nil
  then show ?case by (simp add: latestGroups_def latestAt_def)
next
  case (snoc x xs)
  obtain tag ms status where x: "x = (tag, ms, status)" by (cases x)
  note sim = snoc.IH [THEN conjunct1, rule_format] and bound = snoc.IH [THEN conjunct2, rule_format]
  let ?g = "map_of (latestGroups xs)" and ?g' = "map_of (latestGroups (xs @ [x]))" and ?n = "length xs"
  have step: "?g' = (case tag of None \<Rightarrow> ?g | Some r \<Rightarrow>
      (case ?g r of None \<Rightarrow> ?g(r \<mapsto> (ms, status)) | Some (t, s) \<Rightarrow> if t \<le> ms then ?g(r \<mapsto> (ms, status)) else ?g))"
    by (auto simp: latestGroups_def x keepLatest_def update_conv' split: option.splits)
  have wins: "latestAt (xs @ [x]) r ?n \<longleftrightarrow> tag = Some r \<and> (\<forall>t s. ?g r = Some (t, s) \<longrightarrow> t \<le> ms)" for r
  proof -
    have "(\<forall>j < ?n. fst (xs ! j) = Some r \<longrightarrow> fst (snd (xs ! j)) \<le> ms) \<longleftrightarrow> (\<forall>t s. ?g r = Some (t, s) \<longrightarrow> t \<le> ms)"
    proof safe
      fix t s assume all: "\<forall>j < ?n. fst (xs ! j) = Some r \<longrightarrow> fst (snd (xs ! j)) \<le> ms" and g: "?g r = Some (t, s)"
      then obtain i where "latestAt xs r i" "(t, s) = snd (xs ! i)" using sim by blast
      then show "t \<le> ms" using all by (metis fst_conv latestAt_def)
    next
      fix j assume all: "\<forall>t s. ?g r = Some (t, s) \<longrightarrow> t \<le> ms" and j: "j < ?n" "fst (xs ! j) = Some r"
      then show "fst (snd (xs ! j)) \<le> ms" using bound [OF j] order_trans by blast
    qed
    then show ?thesis unfolding x latestAt_last by simp
  qed
  have "?g' r = Some v \<longleftrightarrow> (\<exists>i. latestAt (xs @ [x]) r i \<and> v = snd ((xs @ [x]) ! i))" for r v
  proof -
    have "?g' r = Some v \<longleftrightarrow> (?g r = Some v \<and> \<not> (tag = Some r \<and> fst v \<le> ms)) \<or>
        (tag = Some r \<and> (\<forall>t s. ?g r = Some (t, s) \<longrightarrow> t \<le> ms) \<and> v = (ms, status))"
      unfolding step by (cases tag; cases "?g r"; cases v) (auto split: option.splits)
    then show ?thesis unfolding x latestAt_snoc_ex wins [unfolded x] sim by blast
  qed
  moreover have "\<exists>t s. ?g' r = Some (t, s) \<and> fst (snd ((xs @ [x]) ! j)) \<le> t"
    if j: "j < length (xs @ [x])" "fst ((xs @ [x]) ! j) = Some r" for j r
  proof (cases "j < ?n")
    case True
    then obtain t s where "?g r = Some (t, s)" "fst (snd (xs ! j)) \<le> t" using bound [OF True] j(2) by (auto simp: nth_append)
    then show ?thesis using True unfolding step by (auto simp: nth_append split: option.splits)
  next
    case False
    then have "j = ?n" using j(1) by simp
    then show ?thesis using j(2) unfolding step by (auto simp: x split: option.splits)
  qed
  ultimately show ?case by blast
qed

lemma open_groups_counted:
  "length (filter (\<lambda>(r, ms, status). isOpenExchangeOrderStatus status) (latestGroups xs)) =
    card {i. i < length xs \<and> fst (xs ! i) \<noteq> None \<and> isOpenExchangeOrderStatus (snd (snd (xs ! i))) \<and> \<not> (\<exists>j < length xs. beats xs j i)}"
  (is "length (filter ?P ?L) = card ?A")
proof -
  let ?f = "\<lambda>i. (the (fst (xs ! i)), snd (xs ! i))"
  have A: "i \<in> ?A \<longleftrightarrow> (\<exists>r. latestAt xs r i) \<and> isOpenExchangeOrderStatus (snd (snd (xs ! i)))" for i
    by (auto simp: latestAt_def)
  have L: "(r, v) \<in> set ?L \<longleftrightarrow> (\<exists>i. latestAt xs r i \<and> v = snd (xs ! i))" for r v
    using latestGroups_iff [of xs, THEN conjunct1, rule_format, of r v] map_of_eq_Some_iff [OF latestGroups_distinct, of xs r v] by blast
  have root: "latestAt xs r i \<Longrightarrow> the (fst (xs ! i)) = r" for r i by (simp add: latestAt_def)
  have "set (filter ?P ?L) = ?f ` ?A"
  proof (rule set_eqI)
    fix y :: "string \<times> int \<times> string"
    obtain r v where y: "y = (r, v)" by (cases y)
    show "y \<in> set (filter ?P ?L) \<longleftrightarrow> y \<in> ?f ` ?A"
      unfolding y image_iff Bex_def A using root by (simp add: L case_prod_beta) metis
  qed
  moreover have "inj_on ?f ?A"
  proof (rule inj_onI)
    fix i j assume "i \<in> ?A" "j \<in> ?A" and eq: "?f i = ?f j"
    then obtain r s where i: "latestAt xs r i" and j: "latestAt xs s j" unfolding A by blast
    have "r = s" using eq root [OF i] root [OF j] by simp
    then show "i = j" using latestAt_unique i j by blast
  qed
  moreover have "distinct (filter ?P ?L)" using latestGroups_distinct [of xs] by (auto simp: distinct_map)
  ultimately show ?thesis by (simp only: card_image distinct_card [symmetric])
qed

definition bridgePairs :: "order_observation \<Rightarrow> (string \<times> string) set" where
  "bridgePairs row = (if exchangeOrderKey row \<noteq> None \<and> identifierKey row \<noteq> None then identityKeys row \<times> identityKeys row else {})"

lemma bridge_groups:
  "forest parent \<Longrightarrow> \<exists>p. foldO bridgeStep rows parent = Some p \<and> forest p \<and>
    groupsOf (rootIn (map_of p)) = (groupsOf (rootIn (map_of parent)) \<union> (\<Union>row \<in> set rows. bridgePairs row))\<^sup>+"
proof (induction rows arbitrary: parent)
  case Nil
  then show ?case by (simp add: trancl_id trans_groupsOf)
next
  case (Cons row rows)
  have "\<exists>p. bridgeStep row parent = Some p \<and> forest p \<and>
      groupsOf (rootIn (map_of p)) = (groupsOf (rootIn (map_of parent)) \<union> bridgePairs row)\<^sup>+"
  proof (cases "\<exists>e i. exchangeOrderKey row = Some e \<and> identifierKey row = Some i")
    case True
    then obtain e i where k: "exchangeOrderKey row = Some e" "identifierKey row = Some i" by blast
    then have "bridgePairs row = {e, i} \<times> {e, i}" by (auto simp: bridgePairs_def identityKeys_def)
    then show ?thesis using k uf.join_groups [OF Cons.prems, of e i] by (simp add: bridgeStep_def)
  next
    case False
    then have "bridgePairs row = {}" "bridgeStep row parent = Some parent"
      by (auto simp: bridgePairs_def bridgeStep_def split: option.splits)
    then show ?thesis using Cons.prems by (simp add: trancl_id trans_groupsOf)
  qed
  then obtain p where p: "bridgeStep row parent = Some p" "forest p"
    "groupsOf (rootIn (map_of p)) = (groupsOf (rootIn (map_of parent)) \<union> bridgePairs row)\<^sup>+" by blast
  show ?case using Cons.IH [OF p(2)] p(1) unfolding p(3) by (simp add: trancl_absorb Un_assoc)
qed

definition tagRow :: "(string \<rightharpoonup> string) \<Rightarrow> order_observation \<Rightarrow> tagged" where
  "tagRow m row = (map_option (reprIn m) (observationKey row), ob_capturedAtMs row, ob_status row)"

lemma group_rows:
  "forest parent \<Longrightarrow> rootIn (map_of parent) = m \<Longrightarrow> \<exists>p. foldO groupStep rows (groups, parent) =
    Some (fold (\<lambda>(tag, ms, status) groups. case tag of None \<Rightarrow> groups | Some r \<Rightarrow> keepLatest r ms status groups) (map (tagRow m) rows) groups, p)"
proof (induction rows arbitrary: groups parent m)
  case Nil then show ?case by simp
next
  case (Cons row rows)
  show ?case
  proof (cases "observationKey row")
    case None
    then show ?thesis using Cons.IH [OF Cons.prems(1) Cons.prems(2)] by (simp add: groupStep_def tagRow_def)
  next
    case (Some k)
    obtain p where p: "findRoot k parent = Some (reprIn m k, p)" "forest p" "rootIn (map_of p) = learn k m"
      using uf.look_ok [OF Cons.prems(1), of k] Cons.prems(2) by auto
    have "reprIn (learn k m) = reprIn m" by (intro ext) (rule learn_reprIn)
    then have "tagRow (learn k m) = tagRow m" by (simp add: tagRow_def [abs_def])
    then show ?thesis using Cons.IH [OF p(2,3)] p(1) Some by (simp add: groupStep_def tagRow_def)
  qed
qed

lemma same_tag:
  assumes idem: "\<And>k r. m k = Some r \<Longrightarrow> m r = Some r"
  shows "reprIn m k = reprIn m l \<longleftrightarrow> k = l \<or> (k, l) \<in> groupsOf m"
  using idem [of k l] idem [of l k] by (cases "m k"; cases "m l") (auto simp: reprIn_def groupsOf_def)

lemma sameOrder_bridges:
  assumes "k \<in> orderKeys rows"
  shows "(k, l) \<in> sameOrder rows \<longleftrightarrow> k = l \<or> (k, l) \<in> (\<Union>row \<in> set rows. bridgePairs row)\<^sup>+"
proof
  let ?B = "\<Union>row \<in> set rows. bridgePairs row"
  have "(\<Union>row \<in> set rows. identityKeys row \<times> identityKeys row) \<subseteq> ?B\<^sup>*"
    by (fastforce simp: bridgePairs_def identityKeys_def)
  then have "sameOrder rows \<subseteq> (?B\<^sup>*)\<^sup>+" unfolding sameOrder_def by (rule trancl_mono_subset)
  then have "sameOrder rows \<subseteq> ?B\<^sup>*" by (simp add: trancl_id trans_rtrancl)
  then show "k = l \<or> (k, l) \<in> ?B\<^sup>+" if "(k, l) \<in> sameOrder rows" using that by (auto simp: rtrancl_eq_or_trancl)
  have "?B\<^sup>+ \<subseteq> sameOrder rows" unfolding sameOrder_def by (intro trancl_mono_subset) (auto simp: bridgePairs_def split: if_splits)
  then show "(k, l) \<in> sameOrder rows" if "k = l \<or> (k, l) \<in> ?B\<^sup>+"
    using that assms by (auto simp: orderKeys_def sameOrder_def)
qed

lemma observationKey_in: "observationKey row = Some k \<Longrightarrow> k \<in> identityKeys row"
  by (auto simp: observationKey_def identityKeys_def split: option.splits)

lemma observationKey_None: "observationKey row = None \<longleftrightarrow> identityKeys row = {}"
  by (auto simp: observationKey_def identityKeys_def split: option.splits)

lemma row_keys_related: "row \<in> set rows \<Longrightarrow> k \<in> identityKeys row \<Longrightarrow> l \<in> identityKeys row \<Longrightarrow> (k, l) \<in> sameOrder rows"
  by (auto simp: sameOrder_def)

lemma beats_superseded:
  assumes m: "\<And>k r. m k = Some r \<Longrightarrow> m r = Some r" "groupsOf m = (\<Union>row \<in> set rows. bridgePairs row)\<^sup>+"
    and i: "i < length rows" and keyed: "observationKey (rows ! i) \<noteq> None"
  shows "(\<exists>j < length rows. beats (map (tagRow m) rows) j i) \<longleftrightarrow> superseded rows i"
proof -
  obtain k where k: "observationKey (rows ! i) = Some k" "k \<in> identityKeys (rows ! i)" using keyed observationKey_in by blast
  have tag: "fst (tagRow m (rows ! j)) = fst (tagRow m (rows ! i)) \<longleftrightarrow>
      (\<exists>k \<in> identityKeys (rows ! i). \<exists>l \<in> identityKeys (rows ! j). (k, l) \<in> sameOrder rows)" if j: "j < length rows" for j
  proof (cases "observationKey (rows ! j)")
    case None
    then show ?thesis using k(1) observationKey_None [THEN iffD1, OF None] by (simp add: tagRow_def)
  next
    case (Some l)
    have "k \<in> orderKeys rows" using i k by (auto simp: orderKeys_def)
    moreover have "reprIn m k = reprIn m l \<longleftrightarrow> k = l \<or> (k, l) \<in> groupsOf m" by (rule same_tag) (rule m(1))
    ultimately have "reprIn m l = reprIn m k \<longleftrightarrow> (k, l) \<in> sameOrder rows" using sameOrder_bridges m(2) by metis
    moreover have "(k, l) \<in> sameOrder rows \<longleftrightarrow>
        (\<exists>k \<in> identityKeys (rows ! i). \<exists>l \<in> identityKeys (rows ! j). (k, l) \<in> sameOrder rows)"
      using k(2) observationKey_in [OF Some] row_keys_related [OF nth_mem [OF i]] row_keys_related [OF nth_mem [OF j]]
      by (metis (no_types, lifting) sameOrder_def trancl_trans)
    ultimately show ?thesis using k Some by (simp add: tagRow_def)
  qed
  have "beats (map (tagRow m) rows) j i \<longleftrightarrow> fst (tagRow m (rows ! j)) = fst (tagRow m (rows ! i)) \<and>
      (ob_capturedAtMs (rows ! i) < ob_capturedAtMs (rows ! j) \<or> ob_capturedAtMs (rows ! i) = ob_capturedAtMs (rows ! j) \<and> i < j)"
    if "j < length rows" for j using that i by (simp add: beats_def) (simp add: tagRow_def)
  then show ?thesis using tag unfolding superseded_def by blast
qed

text \<open>
  C37. The number of open orders that a list of stored snapshots speaks of is the number of open snapshots that
  no later snapshot of the same order replaces, by whatever chain of identifiers the two are tied; the
  computation always returns.
\<close>

theorem open_orders_counted:
  "countCanonicalOpenExchangeOrderSnapshots rows =
    Some (card {i. i < length rows \<and> isOpenExchangeOrderStatus (ob_status (rows ! i)) \<and> \<not> superseded rows i})"
proof -
  obtain p where p: "foldO bridgeStep rows [] = Some p" "forest p"
    "groupsOf (rootIn (map_of p)) = (\<Union>row \<in> set rows. bridgePairs row)\<^sup>+"
    using bridge_groups [OF forest_empty(1), of rows] unfolding forest_empty(2) Un_empty_left by blast
  let ?m = "rootIn (map_of p)" and ?open = "\<lambda>i. isOpenExchangeOrderStatus (ob_status (rows ! i))"
  let ?xs = "map (tagRow ?m) rows"
  obtain q where q: "foldO groupStep rows ([], p) = Some (latestGroups ?xs, q)"
    using group_rows [OF p(2) refl, of rows "[]"] unfolding latestGroups_def by blast
  let ?none = "{i. i < length rows \<and> observationKey (rows ! i) = None \<and> ?open i}"
  let ?some = "{i. i < length rows \<and> observationKey (rows ! i) \<noteq> None \<and> ?open i \<and> \<not> superseded rows i}"
  have "length (filter (\<lambda>row. observationKey row = None \<and> isOpenExchangeOrderStatus (ob_status row)) rows) = card ?none"
    by (simp add: length_filter_conv_card)
  moreover have "length (filter (\<lambda>(r, ms, status). isOpenExchangeOrderStatus status) (latestGroups ?xs)) = card ?some"
  proof -
    have eq: "(\<exists>j < length rows. beats ?xs j i) \<longleftrightarrow> superseded rows i" if "i < length rows" "observationKey (rows ! i) \<noteq> None" for i
      using rootIn_idem p(3) that by (rule beats_superseded)
    have "i < length ?xs \<and> fst (?xs ! i) \<noteq> None \<and> isOpenExchangeOrderStatus (snd (snd (?xs ! i))) \<and> \<not> (\<exists>j < length ?xs. beats ?xs j i) \<longleftrightarrow>
        i < length rows \<and> observationKey (rows ! i) \<noteq> None \<and> ?open i \<and> \<not> superseded rows i" for i
      using eq [of i] by (cases "i < length rows"; cases "observationKey (rows ! i)") (auto simp: tagRow_def)
    then show ?thesis using open_groups_counted [of ?xs] by simp
  qed
  moreover have "{i. i < length rows \<and> ?open i \<and> \<not> superseded rows i} = ?none \<union> ?some"
    using observationKey_None by (auto simp: superseded_def)
  moreover have "card (?none \<union> ?some) = card ?none + card ?some" by (rule card_Un_disjoint) auto
  ultimately show ?thesis using p(1) q by (simp add: countCanonicalOpenExchangeOrderSnapshots_def)
qed

end
