(* ===== verification/Reconcile_Orders.thy ===== *)
theory Reconcile_Orders
  imports Orders Js_Date
begin

text \<open>
  The comparison of local open orders with what the exchange reports: \<^verbatim>\<open>domain/live-reconcile.ts\<close>,
  \<^verbatim>\<open>application/live-reconcile/identity.ts\<close> and \<^verbatim>\<open>mismatch-policy.ts\<close>. An exchange snapshot and a local
  order are the same order when they share the identifier or the uuid and agree on market, side, quantity
  and price; equal terms alone only count when neither side has an identity. The sets of the loops are
  lists; the set of matched exchange snapshots, which compares objects, holds their positions.

  The theory shows that no local order is matched twice, that an order is only advanced on a strong
  identity along a legal transition, and that a run without findings leaves every local order matched by
  a snapshot that agrees with it. Texts of messages are left out.
\<close>

section \<open>Snapshots\<close>

datatype snapshot_source = SRC_open | SRC_closed | SRC_lookup | SRC_ws

fun sourceName :: "snapshot_source \<Rightarrow> string" where
  "sourceName SRC_open = ''open''"
| "sourceName SRC_closed = ''closed''"
| "sourceName SRC_lookup = ''lookup''"
| "sourceName SRC_ws = ''ws''"

record exchange_order =
  eo_exchangeOrderId :: "string option"
  eo_identifier :: "string option"
  eo_market :: string
  eo_side :: order_side
  eo_exchangeStatus :: string
  eo_requestedQuantity :: numeric
  eo_remainingQuantity :: "numeric option"
  eo_requestedPrice :: "numeric option"
  eo_source :: snapshot_source
  eo_capturedAt :: time_input

record local_order =
  lo_orderId :: string
  lo_exchangeOrderId :: "string option"
  lo_identifier :: "string option"
  lo_market :: string
  lo_side :: order_side
  lo_orderType :: order_type
  lo_status :: order_status
  lo_requestedQuantity :: numeric
  lo_remainingQuantity :: numeric
  lo_requestedPrice :: "numeric option"
  lo_reservedFee :: "numeric option"
  lo_remainingFee :: "numeric option"
  lo_updatedAt :: time_input
  lo_createdAt :: "time_input option"

text \<open>
  What the code takes from decimal.js and from the language: the rounding of its arithmetic,
  \<^verbatim>\<open>Decimal.toString\<close>, \<^verbatim>\<open>String\<close> of a number, dates, the decimal read from a text, and the order in which
  \<^verbatim>\<open>sort\<close> leaves rows when the comparison is not a number for some of them.
\<close>

record reconcile_env =
  re_dates :: date_env
  re_rounding :: rounding
  re_decimalText :: "rat \<Rightarrow> string"
  re_numberText :: "js_number \<Rightarrow> string"
  re_readDecimal :: "string \<Rightarrow> numeric"
  re_sortUntimed :: "exchange_order list \<Rightarrow> exchange_order list"

section \<open>Evidence\<close>

datatype mismatch_type =
    UNTRACKED_EXCHANGE_OPEN_ORDER
  | LOCAL_OPEN_ORDER_MISSING_ON_EXCHANGE
  | PARTIAL_FILL_MISMATCH
  | CANCEL_FAILURE_RETRY_NEEDED
  | EXCHANGE_CANCEL_STATE_MISMATCH
  | ORDER_STATE_ADVANCEMENT_BLOCKED
  | ORDER_IDENTITY_CONFLICT
  | BALANCE_LOCK_MISMATCH
  | BALANCE_SNAPSHOT_UNAVAILABLE
  | CLOSED_ORDER_WINDOW_EXCEEDED
  | WEBSOCKET_GAP_MANUAL_REVIEW

datatype reconcile_severity = SEV_INFO | SEV_WARN | SEV_ERROR | SEV_CRITICAL

record mismatch_evidence =
  me_mismatchType :: mismatch_type
  me_severity :: reconcile_severity
  me_market :: "string option"
  me_orderIdentity :: "string option"
  me_currency :: "string option"
  me_evidenceFingerprint :: string
  me_trace :: json_record
  me_occurredAt :: string

datatype advancement_type =
    FILL_CANDIDATE
  | PARTIALLY_FILLED_CANDIDATE
  | CANCEL_CANDIDATE
  | BLOCKED_NO_IDENTITY_MATCH
  | BLOCKED_NO_REMAINING_QUANTITY
  | BLOCKED_IDENTIFIER_CHANGED

record state_advancement =
  sv_localOrderId :: string
  sv_exchangeOrderIdentity :: string
  sv_exchangeStatus :: string
  sv_currentLocalStatus :: order_status
  sv_targetLocalStatus :: "order_status option"
  sv_advancementType :: advancement_type
  sv_reasonCode :: string
  sv_trace :: json_record

section \<open>Identity\<close>

datatype identity_match_type = ByIdentifier | ByUuid | ByFingerprint

fun matchTypeName :: "identity_match_type \<Rightarrow> string" where
  "matchTypeName ByIdentifier = ''identifier''"
| "matchTypeName ByUuid = ''uuid''"
| "matchTypeName ByFingerprint = ''fingerprint''"

text \<open>A match has its type and identity text, a failure its reason.\<close>

datatype identity_match =
    Matched identity_match_type string
  | NotMatched string

definition quoted :: "string \<Rightarrow> string" where
  "quoted s = CHR 0x22 # s @ [CHR 0x22]"

definition versus :: "string \<Rightarrow> string \<Rightarrow> string" where
  "versus exchangeText localText = '': exchange='' @ quoted exchangeText @ '' vs local='' @ quoted localText"

definition normalizeFingerprintDecimal :: "reconcile_env \<Rightarrow> numeric \<Rightarrow> string result" where
  "normalizeFingerprintDecimal env n = bindR (parseFinancialDecimal n) (\<lambda>r. Inr (re_decimalText env r))"

definition buildOrderFingerprint ::
  "reconcile_env \<Rightarrow> string \<Rightarrow> order_side \<Rightarrow> numeric \<Rightarrow> numeric option \<Rightarrow> string result" where
  "buildOrderFingerprint env market side quantity price =
     bindR (normalizeFingerprintDecimal env quantity) (\<lambda>q.
     bindR (case price of None \<Rightarrow> Inr [] | Some p \<Rightarrow> normalizeFingerprintDecimal env p) (\<lambda>p.
     Inr (market @ ''|'' @ sideName side @ ''|'' @ q @ ''|'' @ p)))"

definition exchangeFingerprint :: "reconcile_env \<Rightarrow> exchange_order \<Rightarrow> string result" where
  "exchangeFingerprint env ex =
     buildOrderFingerprint env (eo_market ex) (eo_side ex) (eo_requestedQuantity ex) (eo_requestedPrice ex)"

definition localFingerprint :: "reconcile_env \<Rightarrow> local_order \<Rightarrow> string result" where
  "localFingerprint env lo =
     buildOrderFingerprint env (lo_market lo) (lo_side lo) (lo_requestedQuantity lo) (lo_requestedPrice lo)"

definition describeExchangeOrderIdentity :: "reconcile_env \<Rightarrow> exchange_order \<Rightarrow> string result" where
  "describeExchangeOrderIdentity env ex =
     (case eo_identifier ex of
        Some i \<Rightarrow> Inr (''identifier:'' @ i)
      | None \<Rightarrow> (case eo_exchangeOrderId ex of
          Some u \<Rightarrow> Inr (''uuid:'' @ u)
        | None \<Rightarrow> bindR (exchangeFingerprint env ex) (\<lambda>fp. Inr (''fingerprint:'' @ fp))))"

text \<open>\<open>None\<close> is agreement, \<open>Some\<close> the reason of a conflict. A price that one side did not observe is left out.\<close>

definition compareImmutableFingerprint :: "reconcile_env \<Rightarrow> exchange_order \<Rightarrow> local_order \<Rightarrow> string option result" where
  "compareImmutableFingerprint env ex lo =
     bindR (exchangeFingerprint env ex) (\<lambda>exchangeFp.
     bindR (localFingerprint env lo) (\<lambda>localFp.
     let failure = Inr (Some (''immutable_fingerprint_mismatch'' @ versus exchangeFp localFp))
     in if exchangeFp = localFp then Inr None
        else if eo_requestedPrice ex = None \<or> lo_requestedPrice lo = None
        then bindR (buildOrderFingerprint env (eo_market ex) (eo_side ex) (eo_requestedQuantity ex) None) (\<lambda>exchangeObservedFp.
             bindR (buildOrderFingerprint env (lo_market lo) (lo_side lo) (lo_requestedQuantity lo) None) (\<lambda>localObservedFp.
             if exchangeObservedFp = localObservedFp then Inr None else failure))
        else failure))"

definition matchByFingerprint :: "reconcile_env \<Rightarrow> exchange_order \<Rightarrow> local_order \<Rightarrow> identity_match result" where
  "matchByFingerprint env ex lo =
     bindR (exchangeFingerprint env ex) (\<lambda>exchangeFp.
     bindR (localFingerprint env lo) (\<lambda>localFp.
     Inr (if exchangeFp = localFp then Matched ByFingerprint (''fp:'' @ exchangeFp)
          else NotMatched (''fingerprint_mismatch'' @ versus exchangeFp localFp))))"

definition confirmIdentity ::
  "reconcile_env \<Rightarrow> identity_match_type \<Rightarrow> string \<Rightarrow> exchange_order \<Rightarrow> local_order \<Rightarrow> identity_match result" where
  "confirmIdentity env matchType identity ex lo =
     bindR (compareImmutableFingerprint env ex lo) (\<lambda>conflict.
     Inr (case conflict of Some reason \<Rightarrow> NotMatched reason | None \<Rightarrow> Matched matchType identity))"

definition matchOrderIdentity :: "reconcile_env \<Rightarrow> exchange_order \<Rightarrow> local_order \<Rightarrow> identity_match result" where
  "matchOrderIdentity env ex lo =
     (case (eo_identifier ex, lo_identifier lo) of
        (Some exchangeId, Some localId) \<Rightarrow>
          if exchangeId \<noteq> localId
          then if eo_exchangeOrderId ex \<noteq> None \<and> eo_exchangeOrderId ex = lo_exchangeOrderId lo
               then Inr (NotMatched (''identifier_mismatch_after_uuid_match'' @ versus exchangeId localId))
               else Inr (NotMatched (''identifier_mismatch'' @ versus exchangeId localId))
          else (case (eo_exchangeOrderId ex, lo_exchangeOrderId lo) of
                  (Some exchangeUuid, Some localUuid) \<Rightarrow>
                    if exchangeUuid \<noteq> localUuid
                    then Inr (NotMatched (''uuid_mismatch_after_identifier_match'' @ versus exchangeUuid localUuid))
                    else confirmIdentity env ByIdentifier (''id:'' @ exchangeId) ex lo
                | _ \<Rightarrow> confirmIdentity env ByIdentifier (''id:'' @ exchangeId) ex lo)
      | _ \<Rightarrow>
         (case (eo_exchangeOrderId ex, lo_exchangeOrderId lo) of
            (Some exchangeUuid, Some localUuid) \<Rightarrow>
              if exchangeUuid \<noteq> localUuid then Inr (NotMatched (''uuid_mismatch'' @ versus exchangeUuid localUuid))
              else confirmIdentity env ByUuid (''uuid:'' @ exchangeUuid) ex lo
          | _ \<Rightarrow>
             if eo_identifier ex \<noteq> None \<or> lo_identifier lo \<noteq> None then Inr (NotMatched ''identifier_present_only_on_one_side'')
             else if eo_exchangeOrderId ex \<noteq> None \<or> lo_exchangeOrderId lo \<noteq> None
             then Inr (NotMatched ''uuid_present_only_on_one_side'')
             else matchByFingerprint env ex lo))"

definition isIdentityConflictReason :: "string \<Rightarrow> bool" where
  "isIdentityConflictReason reason \<longleftrightarrow>
     startsWith reason ''identifier_mismatch_after_uuid_match'' \<or>
     startsWith reason ''uuid_mismatch_after_identifier_match'' \<or>
     startsWith reason ''immutable_fingerprint_mismatch''"

section \<open>Searches\<close>

text \<open>The first row on which \<open>f\<close> answers; an error on the way is thrown.\<close>

fun firstR :: "('a \<Rightarrow> 'b option result) \<Rightarrow> 'a list \<Rightarrow> ('a \<times> 'b) option result" where
  "firstR f [] = Inr None"
| "firstR f (x # xs) = bindR (f x) (\<lambda>found. case found of Some y \<Rightarrow> Inr (Some (x, y)) | None \<Rightarrow> firstR f xs)"

type_synonym identity_success = "identity_match_type \<times> string"

fun successOf :: "identity_match \<Rightarrow> identity_success option" where
  "successOf (Matched t i) = Some (t, i)"
| "successOf (NotMatched r) = None"

fun conflictOf :: "identity_match \<Rightarrow> string option" where
  "conflictOf (Matched t i) = None"
| "conflictOf (NotMatched r) = (if isIdentityConflictReason r then Some r else None)"

definition findMatchingLocalOrder ::
  "reconcile_env \<Rightarrow> exchange_order \<Rightarrow> local_order list \<Rightarrow> string list \<Rightarrow> (local_order \<times> identity_success) option result" where
  "findMatchingLocalOrder env ex locals matchedLocalIds =
     firstR (\<lambda>lo. if lo_orderId lo \<in> set matchedLocalIds then Inr None
                  else bindR (matchOrderIdentity env ex lo) (\<lambda>r. Inr (successOf r))) locals"

definition findIdentityConflictLocalOrder ::
  "reconcile_env \<Rightarrow> exchange_order \<Rightarrow> local_order list \<Rightarrow> string list \<Rightarrow> (local_order \<times> string) option result" where
  "findIdentityConflictLocalOrder env ex locals matchedLocalIds =
     firstR (\<lambda>lo. if lo_orderId lo \<in> set matchedLocalIds then Inr None
                  else bindR (matchOrderIdentity env ex lo) (\<lambda>r. Inr (conflictOf r))) locals"

definition findIdentityConflictAnyLocalOrder ::
  "reconcile_env \<Rightarrow> exchange_order \<Rightarrow> local_order list \<Rightarrow> (local_order \<times> string) option result" where
  "findIdentityConflictAnyLocalOrder env ex locals =
     firstR (\<lambda>lo. bindR (matchOrderIdentity env ex lo) (\<lambda>r. Inr (conflictOf r))) locals"

text \<open>Exchange snapshots are given with their positions.\<close>

type_synonym row = "nat \<times> exchange_order"

definition findMatchingExchangeOrder ::
  "reconcile_env \<Rightarrow> local_order \<Rightarrow> row list \<Rightarrow> nat list \<Rightarrow> (row \<times> identity_success) option result" where
  "findMatchingExchangeOrder env lo rows matchedExchangeOrders =
     firstR (\<lambda>(i, ex). if i \<in> set matchedExchangeOrders then Inr None
                       else bindR (matchOrderIdentity env ex lo) (\<lambda>r. Inr (successOf r))) rows"

definition findIdentityConflictExchangeOrder ::
  "reconcile_env \<Rightarrow> local_order \<Rightarrow> row list \<Rightarrow> nat list \<Rightarrow> (row \<times> string) option result" where
  "findIdentityConflictExchangeOrder env lo rows matchedExchangeOrders =
     firstR (\<lambda>(i, ex). if i \<in> set matchedExchangeOrders then Inr None
                       else bindR (matchOrderIdentity env ex lo) (\<lambda>r. Inr (conflictOf r))) rows"

section \<open>Identity keys\<close>

definition isOpenExchangeStatus :: "string \<Rightarrow> bool" where
  "isOpenExchangeStatus status \<longleftrightarrow> status = ''wait'' \<or> status = ''watch''"

definition isUntrackedExchangeOpenCandidate :: "exchange_order \<Rightarrow> bool" where
  "isUntrackedExchangeOpenCandidate ex \<longleftrightarrow>
     eo_source ex \<in> {SRC_open, SRC_ws, SRC_lookup} \<and> isOpenExchangeStatus (eo_exchangeStatus ex)"

definition strongKeys :: "string option \<Rightarrow> string option \<Rightarrow> string list" where
  "strongKeys orderId ident =
     (case orderId of None \<Rightarrow> [] | Some u \<Rightarrow> [''uuid:'' @ u]) @
     (case ident of None \<Rightarrow> [] | Some i \<Rightarrow> [''identifier:'' @ i])"

definition getStrongExchangeIdentityKeys :: "exchange_order \<Rightarrow> string list" where
  "getStrongExchangeIdentityKeys ex = strongKeys (eo_exchangeOrderId ex) (eo_identifier ex)"

definition getStrongLocalIdentityKeys :: "local_order \<Rightarrow> string list" where
  "getStrongLocalIdentityKeys lo = strongKeys (lo_exchangeOrderId lo) (lo_identifier lo)"

definition hasMatchedExchangeIdentity :: "exchange_order \<Rightarrow> string list \<Rightarrow> bool" where
  "hasMatchedExchangeIdentity ex keys \<longleftrightarrow> list_ex (\<lambda>k. k \<in> set keys) (getStrongExchangeIdentityKeys ex)"

definition addExchangeIdentityKeys :: "exchange_order \<Rightarrow> string list \<Rightarrow> string list" where
  "addExchangeIdentityKeys ex keys = fold List.insert (getStrongExchangeIdentityKeys ex) keys"

definition addLocalIdentityKeys :: "local_order \<Rightarrow> string list \<Rightarrow> string list" where
  "addLocalIdentityKeys lo keys = fold List.insert (getStrongLocalIdentityKeys lo) keys"

definition hasSharedStrongIdentity :: "exchange_order \<Rightarrow> local_order \<Rightarrow> bool" where
  "hasSharedStrongIdentity ex lo \<longleftrightarrow>
     (eo_exchangeOrderId ex \<noteq> None \<and> eo_exchangeOrderId ex = lo_exchangeOrderId lo) \<or>
     (eo_identifier ex \<noteq> None \<and> eo_identifier ex = lo_identifier lo)"

definition addExchangeIdentityKeysWithLocalBridge :: "exchange_order \<Rightarrow> local_order list \<Rightarrow> string list \<Rightarrow> string list" where
  "addExchangeIdentityKeysWithLocalBridge ex locals keys =
     fold (\<lambda>lo keys. if hasSharedStrongIdentity ex lo then addLocalIdentityKeys lo keys else keys)
       locals (addExchangeIdentityKeys ex keys)"

definition addMatchedIdentityKeys :: "exchange_order \<Rightarrow> local_order \<Rightarrow> string list \<Rightarrow> string list" where
  "addMatchedIdentityKeys ex lo keys = addLocalIdentityKeys lo (addExchangeIdentityKeys ex keys)"

section \<open>Evidence of order mismatches\<close>

text \<open>A trace leaves out the fields that are undefined.\<close>

definition optionalField :: "string \<Rightarrow> ('a \<Rightarrow> json) \<Rightarrow> 'a option \<Rightarrow> json_record" where
  "optionalField key f v = (case v of None \<Rightarrow> [] | Some x \<Rightarrow> [(key, f x)])"

definition normalizeEvidenceTimestamp :: "reconcile_env \<Rightarrow> time_input \<Rightarrow> string" where
  "normalizeEvidenceTimestamp env t =
     (case newDate (re_dates env) t of
        None \<Rightarrow> stringOfTime (re_dates env) t
      | Some ms \<Rightarrow> de_toISOString (re_dates env) ms)"

definition isFingerprintOnlyExchangeOrder :: "exchange_order \<Rightarrow> bool" where
  "isFingerprintOnlyExchangeOrder ex \<longleftrightarrow> eo_exchangeOrderId ex = None \<and> eo_identifier ex = None"

definition buildUntrackedExchangeEvidenceFingerprint ::
  "reconcile_env \<Rightarrow> exchange_order \<Rightarrow> string \<Rightarrow> string \<Rightarrow> nat \<Rightarrow> string" where
  "buildUntrackedExchangeEvidenceFingerprint env ex identity observedAt index =
     (if \<not> isFingerprintOnlyExchangeOrder ex then ''untracked:'' @ identity @ '':'' @ observedAt
      else ''untracked:'' @ identity @ '':'' @ sourceName (eo_source ex) @ '':''
        @ normalizeEvidenceTimestamp env (eo_capturedAt ex) @ '':row:'' @ natText index @ '':'' @ observedAt)"

definition createUntrackedExchangeOrderMismatch ::
  "reconcile_env \<Rightarrow> exchange_order \<Rightarrow> string \<Rightarrow> nat \<Rightarrow> mismatch_evidence result" where
  "createUntrackedExchangeOrderMismatch env ex observedAt index =
     bindR (describeExchangeOrderIdentity env ex) (\<lambda>identity.
     Inr \<lparr>me_mismatchType = UNTRACKED_EXCHANGE_OPEN_ORDER, me_severity = SEV_WARN, me_market = Some (eo_market ex),
          me_orderIdentity = Some identity, me_currency = None,
          me_evidenceFingerprint = buildUntrackedExchangeEvidenceFingerprint env ex identity observedAt index,
          me_trace = [(''exchangeStatus'', JStr (eo_exchangeStatus ex)), (''market'', JStr (eo_market ex)),
            (''side'', JStr (sideName (eo_side ex))), (''requestedQuantity'', JNum (eo_requestedQuantity ex))]
            @ optionalField ''requestedPrice'' JNum (eo_requestedPrice ex) @ [(''source'', JStr (sourceName (eo_source ex)))]
            @ (if isFingerprintOnlyExchangeOrder ex
               then [(''exchangeSnapshotIndex'', JNumber (JsFinite (of_nat index)))] else []),
          me_occurredAt = observedAt\<rparr>)"

definition buildIdentityConflictEvidenceFingerprint ::
  "exchange_order \<Rightarrow> local_order \<Rightarrow> string \<Rightarrow> string \<Rightarrow> string \<Rightarrow> string" where
  "buildIdentityConflictEvidenceFingerprint ex lo exchangeIdentity reason observedAt =
     ''identity-conflict:'' @ exchangeIdentity
       @ '':exchange-uuid:'' @ (case eo_exchangeOrderId ex of None \<Rightarrow> ''none'' | Some u \<Rightarrow> u)
       @ '':local-uuid:'' @ (case lo_exchangeOrderId lo of None \<Rightarrow> ''none'' | Some u \<Rightarrow> u)
       @ '':reason:'' @ reason @ '':local:'' @ lo_orderId lo @ '':'' @ observedAt"

definition createOrderIdentityConflictMismatch ::
  "reconcile_env \<Rightarrow> exchange_order \<Rightarrow> local_order \<Rightarrow> string \<Rightarrow> string \<Rightarrow> mismatch_evidence result" where
  "createOrderIdentityConflictMismatch env ex lo reason observedAt =
     bindR (describeExchangeOrderIdentity env ex) (\<lambda>exchangeIdentity.
     Inr \<lparr>me_mismatchType = ORDER_IDENTITY_CONFLICT, me_severity = SEV_ERROR, me_market = Some (eo_market ex),
          me_orderIdentity = Some (exchangeIdentity @ ''|local:'' @ lo_orderId lo), me_currency = None,
          me_evidenceFingerprint = buildIdentityConflictEvidenceFingerprint ex lo exchangeIdentity reason observedAt,
          me_trace = [(''reason'', JStr reason)]
            @ optionalField ''exchangeOrderId'' JStr (eo_exchangeOrderId ex)
            @ optionalField ''exchangeIdentifier'' JStr (eo_identifier ex) @ [(''localOrderId'', JStr (lo_orderId lo))]
            @ optionalField ''localExchangeOrderId'' JStr (lo_exchangeOrderId lo)
            @ optionalField ''localIdentifier'' JStr (lo_identifier lo)
            @ [(''exchangeMarket'', JStr (eo_market ex)), (''localMarket'', JStr (lo_market lo)),
               (''exchangeSide'', JStr (sideName (eo_side ex))), (''localSide'', JStr (sideName (lo_side lo))),
               (''exchangeRequestedQuantity'', JNum (eo_requestedQuantity ex)),
               (''localRequestedQuantity'', JNum (lo_requestedQuantity lo))]
            @ optionalField ''exchangeRequestedPrice'' JNum (eo_requestedPrice ex)
            @ optionalField ''localRequestedPrice'' JNum (lo_requestedPrice lo)
            @ [(''source'', JStr (sourceName (eo_source ex)))],
          me_occurredAt = observedAt\<rparr>)"

definition createMissingLocalOrderMismatch :: "local_order \<Rightarrow> string \<Rightarrow> mismatch_evidence" where
  "createMissingLocalOrderMismatch lo observedAt =
     \<lparr>me_mismatchType = LOCAL_OPEN_ORDER_MISSING_ON_EXCHANGE, me_severity = SEV_ERROR, me_market = Some (lo_market lo),
      me_orderIdentity = Some (''local:'' @ lo_orderId lo), me_currency = None,
      me_evidenceFingerprint = ''missing-local:'' @ lo_orderId lo @ '':'' @ observedAt,
      me_trace = [(''orderId'', JStr (lo_orderId lo)), (''status'', JStr (orderStatusName (lo_status lo))),
        (''market'', JStr (lo_market lo)), (''side'', JStr (sideName (lo_side lo))),
        (''requestedQuantity'', JNum (lo_requestedQuantity lo)), (''remainingQuantity'', JNum (lo_remainingQuantity lo)),
        (''updatedAt'', timeJson (lo_updatedAt lo))],
      me_occurredAt = observedAt\<rparr>"

definition createCancelFailureMismatch ::
  "exchange_order \<Rightarrow> local_order \<Rightarrow> identity_success \<Rightarrow> string \<Rightarrow> mismatch_evidence" where
  "createCancelFailureMismatch ex lo identity observedAt =
     \<lparr>me_mismatchType = CANCEL_FAILURE_RETRY_NEEDED, me_severity = SEV_ERROR, me_market = Some (eo_market ex),
      me_orderIdentity = Some (snd identity), me_currency = None,
      me_evidenceFingerprint = ''cancel-failure:'' @ snd identity @ '':'' @ observedAt,
      me_trace = [(''exchangeStatus'', JStr (eo_exchangeStatus ex)), (''localStatus'', JStr (orderStatusName (lo_status lo))),
        (''matchType'', JStr (matchTypeName (fst identity))), (''market'', JStr (eo_market ex))],
      me_occurredAt = observedAt\<rparr>"

definition createExchangeCancelStateMismatch ::
  "exchange_order \<Rightarrow> local_order \<Rightarrow> identity_success \<Rightarrow> string \<Rightarrow> mismatch_evidence" where
  "createExchangeCancelStateMismatch ex lo identity observedAt =
     \<lparr>me_mismatchType = EXCHANGE_CANCEL_STATE_MISMATCH, me_severity = SEV_ERROR, me_market = Some (eo_market ex),
      me_orderIdentity = Some (snd identity), me_currency = None,
      me_evidenceFingerprint = ''exchange-cancel-state:'' @ snd identity @ '':'' @ orderStatusName (lo_status lo) @ '':'' @ observedAt,
      me_trace = [(''exchangeStatus'', JStr (eo_exchangeStatus ex)), (''localStatus'', JStr (orderStatusName (lo_status lo))),
        (''matchType'', JStr (matchTypeName (fst identity))), (''market'', JStr (eo_market ex)),
        (''source'', JStr (sourceName (eo_source ex)))],
      me_occurredAt = observedAt\<rparr>"

definition createOrderStateAdvancementBlockedMismatch ::
  "exchange_order \<Rightarrow> local_order \<Rightarrow> identity_success \<Rightarrow> order_status option \<Rightarrow> string \<Rightarrow> string \<Rightarrow> mismatch_evidence" where
  "createOrderStateAdvancementBlockedMismatch ex lo identity target observedAt reasonCode =
     \<lparr>me_mismatchType = ORDER_STATE_ADVANCEMENT_BLOCKED, me_severity = SEV_ERROR, me_market = Some (eo_market ex),
      me_orderIdentity = Some (snd identity), me_currency = None,
      me_evidenceFingerprint = ''state-advancement-blocked:'' @ snd identity @ '':'' @ orderStatusName (lo_status lo) @ '':''
        @ (case target of None \<Rightarrow> ''undefined'' | Some s \<Rightarrow> orderStatusName s) @ '':'' @ reasonCode @ '':'' @ observedAt,
      me_trace = [(''reasonCode'', JStr reasonCode), (''exchangeStatus'', JStr (eo_exchangeStatus ex)),
        (''localStatus'', JStr (orderStatusName (lo_status lo)))]
        @ optionalField ''targetLocalStatus'' (\<lambda>s. JStr (orderStatusName s)) target
        @ [(''matchType'', JStr (matchTypeName (fst identity))), (''source'', JStr (sourceName (eo_source ex)))],
      me_occurredAt = observedAt\<rparr>"

definition createPartialFillMismatch ::
  "exchange_order \<Rightarrow> local_order \<Rightarrow> identity_success \<Rightarrow> string \<Rightarrow> mismatch_evidence" where
  "createPartialFillMismatch ex lo identity observedAt =
     \<lparr>me_mismatchType = PARTIAL_FILL_MISMATCH, me_severity = SEV_WARN, me_market = Some (eo_market ex),
      me_orderIdentity = Some (snd identity), me_currency = None,
      me_evidenceFingerprint = ''partial-fill-mismatch:'' @ snd identity @ '':'' @ observedAt,
      me_trace = optionalField ''exchangeRemainingQuantity'' JNum (eo_remainingQuantity ex)
        @ [(''localRemainingQuantity'', JNum (lo_remainingQuantity lo)), (''exchangeStatus'', JStr (eo_exchangeStatus ex)),
           (''localStatus'', JStr (orderStatusName (lo_status lo))), (''matchType'', JStr (matchTypeName (fst identity)))],
      me_occurredAt = observedAt\<rparr>"

section \<open>A matched pair\<close>

text \<open>Two texts that do not both read as decimals are compared as they are.\<close>

definition compareRemainingQuantity :: "numeric \<Rightarrow> numeric \<Rightarrow> bool" where
  "compareRemainingQuantity exchangeRemaining localRemaining =
     (case (parseFinancialDecimal exchangeRemaining, parseFinancialDecimal localRemaining) of
        (Inr a, Inr b) \<Rightarrow> a = b
      | _ \<Rightarrow> exchangeRemaining = localRemaining)"

definition advancementCandidate ::
  "exchange_order \<Rightarrow> local_order \<Rightarrow> identity_success \<Rightarrow> order_status \<Rightarrow> advancement_type \<Rightarrow> string \<Rightarrow> json_record
    \<Rightarrow> state_advancement" where
  "advancementCandidate ex lo identity target advancementType reasonCode details =
     \<lparr>sv_localOrderId = lo_orderId lo, sv_exchangeOrderIdentity = snd identity, sv_exchangeStatus = eo_exchangeStatus ex,
      sv_currentLocalStatus = lo_status lo, sv_targetLocalStatus = Some target, sv_advancementType = advancementType,
      sv_reasonCode = reasonCode, sv_trace = (''matchType'', JStr (matchTypeName (fst identity))) # details\<rparr>"

definition terminalAdvancementCandidate ::
  "exchange_order \<Rightarrow> local_order \<Rightarrow> identity_success \<Rightarrow> state_advancement option result" where
  "terminalAdvancementCandidate ex lo identity =
     (let details = optionalField ''exchangeRemainingQuantity'' JNum (eo_remainingQuantity ex)
            @ [(''localStatus'', JStr (orderStatusName (lo_status lo)))]
      in if eo_exchangeStatus ex = ''done''
         then if lo_status lo = FILLED then Inr None
              else bindR (case eo_remainingQuantity ex of
                       None \<Rightarrow> Inr False
                     | Some q \<Rightarrow> bindR (parseFinancialDecimal q) (\<lambda>r. Inr (0 < r))) (\<lambda>hasRemaining.
                   Inr (if hasRemaining
                        then if lo_status lo = PARTIALLY_FILLED then None
                             else Some (advancementCandidate ex lo identity PARTIALLY_FILLED PARTIALLY_FILLED_CANDIDATE
                                    ''exchange_done_with_remaining'' details)
                        else Some (advancementCandidate ex lo identity FILLED FILL_CANDIDATE
                               ''exchange_done_fully_filled'' details)))
         else if eo_exchangeStatus ex = ''cancel'' \<and> lo_status lo = CANCEL_REQUESTED
         then Inr (Some (advancementCandidate ex lo identity CANCELED CANCEL_CANDIDATE ''exchange_cancel_confirmed'' []))
         else Inr None)"

definition createStateAdvancementCandidate ::
  "exchange_order \<Rightarrow> local_order \<Rightarrow> identity_success \<Rightarrow> state_advancement option result" where
  "createStateAdvancementCandidate ex lo identity =
     (case eo_remainingQuantity ex of
        Some remaining \<Rightarrow>
          if isOpenExchangeStatus (eo_exchangeStatus ex)
          then bindR (parseFinancialDecimal remaining) (\<lambda>exchangeRemaining.
               bindR (parseFinancialDecimal (lo_remainingQuantity lo)) (\<lambda>localRemaining.
               if 0 < exchangeRemaining \<and> exchangeRemaining < localRemaining
               then Inr (if lo_status lo = PARTIALLY_FILLED then None
                    else Some (advancementCandidate ex lo identity PARTIALLY_FILLED PARTIALLY_FILLED_CANDIDATE
                           ''exchange_open_remaining_reduced''
                           [(''exchangeRemainingQuantity'', JNum remaining),
                            (''localRemainingQuantity'', JNum (lo_remainingQuantity lo)),
                            (''localStatus'', JStr (orderStatusName (lo_status lo)))]))
               else terminalAdvancementCandidate ex lo identity))
          else terminalAdvancementCandidate ex lo identity
      | None \<Rightarrow> terminalAdvancementCandidate ex lo identity)"

record pair_result =
  pp_localOrderId :: "string option"
  pp_exchangeSource :: "snapshot_source option"
  pp_identityMatch :: "identity_success option"
  pp_mismatches :: "mismatch_evidence list"
  pp_stateAdvancement :: "state_advancement option"

definition pairMismatches :: "exchange_order \<Rightarrow> local_order \<Rightarrow> identity_success \<Rightarrow> string \<Rightarrow> mismatch_evidence list" where
  "pairMismatches ex lo identity observedAt =
     (if lo_status lo = CANCEL_REQUESTED \<and> isOpenExchangeStatus (eo_exchangeStatus ex)
      then [createCancelFailureMismatch ex lo identity observedAt] else [])
     @ (if eo_exchangeStatus ex = ''cancel'' \<and> lo_status lo \<noteq> CANCEL_REQUESTED \<and> lo_status lo \<noteq> CANCELED
        then [createExchangeCancelStateMismatch ex lo identity observedAt] else [])
     @ (case eo_remainingQuantity ex of
          None \<Rightarrow> []
        | Some q \<Rightarrow> if compareRemainingQuantity q (lo_remainingQuantity lo) then []
                    else [createPartialFillMismatch ex lo identity observedAt])"

definition evaluateMatchedPair ::
  "exchange_order \<Rightarrow> local_order \<Rightarrow> identity_success \<Rightarrow> string \<Rightarrow> pair_result result" where
  "evaluateMatchedPair ex lo identity observedAt =
     bindR (createStateAdvancementCandidate ex lo identity) (\<lambda>stateAdvancement.
     let mismatches = pairMismatches ex lo identity observedAt;
         outcome = (\<lambda>ms adv. \<lparr>pp_localOrderId = Some (lo_orderId lo), pp_exchangeSource = Some (eo_source ex),
                      pp_identityMatch = Some identity, pp_mismatches = ms, pp_stateAdvancement = adv\<rparr>);
         blocked = (\<lambda>target reasonCode. outcome (mismatches
                      @ [createOrderStateAdvancementBlockedMismatch ex lo identity target observedAt reasonCode]) None)
     in Inr (case stateAdvancement of
           None \<Rightarrow> outcome mismatches None
         | Some adv \<Rightarrow>
            if fst identity = ByFingerprint then blocked (sv_targetLocalStatus adv) ''fingerprint_only_identity''
            else if (case sv_targetLocalStatus adv of None \<Rightarrow> False
                     | Some target \<Rightarrow> \<not> canTransitionOrderState (lo_status lo) target)
            then blocked (sv_targetLocalStatus adv) ''state_machine_transition_not_allowed''
            else outcome mismatches (Some adv)))"

definition createIdentityConflictResult ::
  "reconcile_env \<Rightarrow> exchange_order \<Rightarrow> local_order \<Rightarrow> string \<Rightarrow> string \<Rightarrow> pair_result result" where
  "createIdentityConflictResult env ex lo reason observedAt =
     bindR (createOrderIdentityConflictMismatch env ex lo reason observedAt) (\<lambda>m.
     Inr \<lparr>pp_localOrderId = Some (lo_orderId lo), pp_exchangeSource = Some (eo_source ex), pp_identityMatch = None,
          pp_mismatches = [m], pp_stateAdvancement = None\<rparr>)"

section \<open>All orders\<close>

record reconcile_state =
  rw_results :: "pair_result list"
  rw_matchedLocalIds :: "string list"
  rw_matchedExchangeOrders :: "nat list"
  rw_matchedExchangeIdentityKeys :: "string list"
  rw_strongerExchangeIdentityKeys :: "string list"

definition pushResult :: "pair_result \<Rightarrow> reconcile_state \<Rightarrow> reconcile_state" where
  "pushResult r st = st\<lparr>rw_results := rw_results st @ [r]\<rparr>"

text \<open>What the loops do with a pair of orders, matched or in conflict.\<close>

definition linkPair :: "row \<Rightarrow> local_order \<Rightarrow> pair_result \<Rightarrow> reconcile_state \<Rightarrow> reconcile_state" where
  "linkPair r lo res st =
     pushResult res (st\<lparr>rw_matchedLocalIds := List.insert (lo_orderId lo) (rw_matchedLocalIds st),
        rw_matchedExchangeOrders := List.insert (fst r) (rw_matchedExchangeOrders st),
        rw_matchedExchangeIdentityKeys := addMatchedIdentityKeys (snd r) lo (rw_matchedExchangeIdentityKeys st)\<rparr>)"

definition linkConflict ::
  "reconcile_env \<Rightarrow> row \<Rightarrow> local_order \<Rightarrow> string \<Rightarrow> string \<Rightarrow> reconcile_state \<Rightarrow> reconcile_state result" where
  "linkConflict env r lo reason observedAt st =
     bindR (createIdentityConflictResult env (snd r) lo reason observedAt) (\<lambda>res. Inr (linkPair r lo res st))"

definition linkMatch ::
  "row \<Rightarrow> local_order \<Rightarrow> identity_success \<Rightarrow> string \<Rightarrow> reconcile_state \<Rightarrow> reconcile_state result" where
  "linkMatch r lo identity observedAt st =
     bindR (evaluateMatchedPair (snd r) lo identity observedAt) (\<lambda>res. Inr (linkPair r lo res st))"

definition exchangeStep ::
  "reconcile_env \<Rightarrow> local_order list \<Rightarrow> string \<Rightarrow> row \<Rightarrow> reconcile_state \<Rightarrow> reconcile_state result" where
  "exchangeStep env locals observedAt r st =
     (let ex = snd r in
      if \<not> isUntrackedExchangeOpenCandidate ex
      then Inr (st\<lparr>rw_strongerExchangeIdentityKeys :=
             addExchangeIdentityKeysWithLocalBridge ex locals (rw_strongerExchangeIdentityKeys st)\<rparr>)
      else if hasMatchedExchangeIdentity ex (rw_matchedExchangeIdentityKeys st) \<or>
              hasMatchedExchangeIdentity ex (rw_strongerExchangeIdentityKeys st)
      then bindR (findIdentityConflictAnyLocalOrder env ex locals) (\<lambda>conflict. case conflict of
             Some (lo, reason) \<Rightarrow> linkConflict env r lo reason observedAt st
           | None \<Rightarrow> Inr (st\<lparr>rw_matchedExchangeOrders := List.insert (fst r) (rw_matchedExchangeOrders st)\<rparr>))
      else bindR (findMatchingLocalOrder env ex locals (rw_matchedLocalIds st)) (\<lambda>found. case found of
             Some (lo, identity) \<Rightarrow> linkMatch r lo identity observedAt st
           | None \<Rightarrow>
              bindR (findIdentityConflictLocalOrder env ex locals (rw_matchedLocalIds st)) (\<lambda>conflict. case conflict of
                Some (lo, reason) \<Rightarrow> linkConflict env r lo reason observedAt st
              | None \<Rightarrow>
                 bindR (createUntrackedExchangeOrderMismatch env ex observedAt (fst r)) (\<lambda>m.
                 Inr (pushResult \<lparr>pp_localOrderId = None, pp_exchangeSource = None, pp_identityMatch = None,
                        pp_mismatches = [m], pp_stateAdvancement = None\<rparr> st)))))"

definition localStep ::
  "reconcile_env \<Rightarrow> row list \<Rightarrow> string \<Rightarrow> local_order \<Rightarrow> reconcile_state \<Rightarrow> reconcile_state result" where
  "localStep env rows observedAt lo st =
     (if lo_orderId lo \<in> set (rw_matchedLocalIds st) then Inr st
      else bindR (findMatchingExchangeOrder env lo rows (rw_matchedExchangeOrders st)) (\<lambda>found. case found of
             Some (r, identity) \<Rightarrow> linkMatch r lo identity observedAt st
           | None \<Rightarrow>
              bindR (findIdentityConflictExchangeOrder env lo rows (rw_matchedExchangeOrders st)) (\<lambda>conflict. case conflict of
                Some (r, reason) \<Rightarrow> linkConflict env r lo reason observedAt st
              | None \<Rightarrow> Inr (pushResult \<lparr>pp_localOrderId = Some (lo_orderId lo), pp_exchangeSource = None,
                          pp_identityMatch = None, pp_mismatches = [createMissingLocalOrderMismatch lo observedAt],
                          pp_stateAdvancement = None\<rparr> st))))"

definition emptyReconcileState :: reconcile_state where
  "emptyReconcileState = \<lparr>rw_results = [], rw_matchedLocalIds = [], rw_matchedExchangeOrders = [],
     rw_matchedExchangeIdentityKeys = [], rw_strongerExchangeIdentityKeys = []\<rparr>"

definition reconcileOrders ::
  "reconcile_env \<Rightarrow> exchange_order list \<Rightarrow> local_order list \<Rightarrow> string \<Rightarrow> pair_result list result" where
  "reconcileOrders env exchangeOrders localOpenOrders observedAt =
     (let rows = enumerate 0 exchangeOrders
      in bindR (foldR (exchangeStep env localOpenOrders observedAt) rows emptyReconcileState) (\<lambda>st.
         bindR (foldR (localStep env rows observedAt) localOpenOrders st) (\<lambda>st'.
         Inr (rw_results st'))))"

section \<open>The window of closed orders and the stream of events\<close>

record closed_order_window =
  cw_windowStart :: time_input
  cw_windowEnd :: time_input
  cw_windowExhausted :: bool
  cw_queryCount :: js_number

definition createClosedOrderWindowExhaustedMismatch ::
  "reconcile_env \<Rightarrow> closed_order_window \<Rightarrow> string \<Rightarrow> mismatch_evidence" where
  "createClosedOrderWindowExhaustedMismatch env w observedAt =
     \<lparr>me_mismatchType = CLOSED_ORDER_WINDOW_EXCEEDED, me_severity = SEV_ERROR, me_market = None,
      me_orderIdentity = None, me_currency = None,
      me_evidenceFingerprint = ''closed-window-exhausted:'' @ stringOfTime (re_dates env) (cw_windowStart w) @ '':''
        @ stringOfTime (re_dates env) (cw_windowEnd w) @ '':'' @ observedAt,
      me_trace = [(''windowStart'', timeJson (cw_windowStart w)), (''windowEnd'', timeJson (cw_windowEnd w)),
        (''queryCount'', JNumber (cw_queryCount w)), (''windowExhausted'', JBool (cw_windowExhausted w))],
      me_occurredAt = observedAt\<rparr>"

definition createClosedOrderWindowExceededMismatch ::
  "closed_order_window \<Rightarrow> local_order \<Rightarrow> time_input \<Rightarrow> string \<Rightarrow> mismatch_evidence" where
  "createClosedOrderWindowExceededMismatch w lo createdAt observedAt =
     \<lparr>me_mismatchType = CLOSED_ORDER_WINDOW_EXCEEDED, me_severity = SEV_WARN, me_market = Some (lo_market lo),
      me_orderIdentity = Some (''local:'' @ lo_orderId lo), me_currency = None,
      me_evidenceFingerprint = ''closed-window-exceeded:'' @ lo_orderId lo @ '':'' @ observedAt,
      me_trace = [(''orderId'', JStr (lo_orderId lo)), (''windowStart'', timeJson (cw_windowStart w)),
        (''windowEnd'', timeJson (cw_windowEnd w)), (''createdAt'', timeJson createdAt),
        (''currentStatus'', JStr (orderStatusName (lo_status lo)))],
      me_occurredAt = observedAt\<rparr>"

text \<open>A comparison with an invalid date is false.\<close>

definition isBefore :: "int option \<Rightarrow> int option \<Rightarrow> bool" where
  "isBefore a b = (case (a, b) of (Some x, Some y) \<Rightarrow> x < y | _ \<Rightarrow> False)"

definition windowExceeded ::
  "reconcile_env \<Rightarrow> closed_order_window \<Rightarrow> string \<Rightarrow> string list \<Rightarrow> local_order \<Rightarrow> mismatch_evidence list" where
  "windowExceeded env w observedAt verified lo =
     (if lo_orderId lo \<in> set verified then []
      else case lo_createdAt lo of
        None \<Rightarrow> []
      | Some createdAt \<Rightarrow>
         if isBefore (newDate (re_dates env) createdAt) (newDate (re_dates env) (cw_windowStart w))
         then [createClosedOrderWindowExceededMismatch w lo createdAt observedAt] else [])"

definition checkClosedOrderWindow ::
  "reconcile_env \<Rightarrow> local_order list \<Rightarrow> closed_order_window \<Rightarrow> string \<Rightarrow> string list \<Rightarrow> mismatch_evidence list" where
  "checkClosedOrderWindow env locals w observedAt verifiedLocalOrderIds =
     (if cw_windowExhausted w then [createClosedOrderWindowExhaustedMismatch env w observedAt] else [])
     @ concat (map (windowExceeded env w observedAt verifiedLocalOrderIds) locals)"

datatype event_type = EV_myOrder | EV_myAsset

fun eventTypeName :: "event_type \<Rightarrow> string" where
  "eventTypeName EV_myOrder = ''myOrder''"
| "eventTypeName EV_myAsset = ''myAsset''"

text \<open>A field of a raw event is a text, a number, or a value of another type.\<close>

datatype wire_value = WireText string | WireNumber js_number | WireOther

record websocket_event =
  we_type :: event_type
  we_occurredAt :: time_input
  we_payload :: "(string \<times> wire_value) list"

record disconnect_evidence =
  dv_lastConnectedAt :: "time_input option"
  dv_disconnectedAt :: "time_input option"
  dv_reconnectedAt :: "time_input option"
  dv_gapDurationMs :: "js_number option"
  dv_staleSince :: "time_input option"
  dv_reconnectCount :: "js_number option"

record websocket_context =
  wc_bootstrapCompleteAt :: "time_input option"
  wc_events :: "websocket_event list"
  wc_disconnectEvidence :: "disconnect_evidence option"

fun isPositiveNumber :: "js_number option \<Rightarrow> bool" where
  "isPositiveNumber (Some (JsFinite r)) = (0 < r)"
| "isPositiveNumber (Some JsInfinity) = True"
| "isPositiveNumber _ = False"

definition hasWebSocketLivenessGapEvidence :: "disconnect_evidence \<Rightarrow> bool" where
  "hasWebSocketLivenessGapEvidence d \<longleftrightarrow>
     dv_disconnectedAt d \<noteq> None \<or> dv_reconnectedAt d \<noteq> None \<or>
     isPositiveNumber (dv_gapDurationMs d) \<or> isPositiveNumber (dv_reconnectCount d)"

definition getWebSocketGapEvidenceAnchor :: "reconcile_env \<Rightarrow> disconnect_evidence \<Rightarrow> string \<Rightarrow> string" where
  "getWebSocketGapEvidenceAnchor env d observedAt =
     (case (case dv_disconnectedAt d of Some t \<Rightarrow> Some t | None \<Rightarrow> dv_reconnectedAt d) of
        Some t \<Rightarrow> normalizeEvidenceTimestamp env t
      | None \<Rightarrow>
         (case (case dv_gapDurationMs d of Some n \<Rightarrow> Some n | None \<Rightarrow> dv_reconnectCount d) of
            Some n \<Rightarrow> re_numberText env n
          | None \<Rightarrow> observedAt))"

definition createWebSocketBootstrapMissingMismatch :: "websocket_context \<Rightarrow> string \<Rightarrow> mismatch_evidence" where
  "createWebSocketBootstrapMissingMismatch wc observedAt =
     \<lparr>me_mismatchType = WEBSOCKET_GAP_MANUAL_REVIEW, me_severity = SEV_ERROR, me_market = None,
      me_orderIdentity = None, me_currency = None,
      me_evidenceFingerprint = ''ws-bootstrap-missing:'' @ observedAt,
      me_trace = [(''eventCount'', JNumber (JsFinite (of_nat (length (wc_events wc))))),
        (''eventTypes'', JArr (map (\<lambda>t. JStr (eventTypeName t)) (rev (remdups (rev (map we_type (wc_events wc)))))))],
      me_occurredAt = observedAt\<rparr>"

definition createWebSocketGapMismatch :: "reconcile_env \<Rightarrow> disconnect_evidence \<Rightarrow> string \<Rightarrow> mismatch_evidence" where
  "createWebSocketGapMismatch env d observedAt =
     \<lparr>me_mismatchType = WEBSOCKET_GAP_MANUAL_REVIEW, me_severity = SEV_ERROR, me_market = None,
      me_orderIdentity = None, me_currency = None,
      me_evidenceFingerprint = ''ws-disconnect:'' @ getWebSocketGapEvidenceAnchor env d observedAt @ '':'' @ observedAt,
      me_trace = optionalField ''lastConnectedAt'' timeJson (dv_lastConnectedAt d)
        @ optionalField ''disconnectedAt'' timeJson (dv_disconnectedAt d)
        @ optionalField ''reconnectedAt'' timeJson (dv_reconnectedAt d)
        @ optionalField ''gapDurationMs'' JNumber (dv_gapDurationMs d)
        @ optionalField ''reconnectCount'' JNumber (dv_reconnectCount d)
        @ optionalField ''staleSince'' timeJson (dv_staleSince d),
      me_occurredAt = observedAt\<rparr>"

definition checkWebSocketGap :: "reconcile_env \<Rightarrow> websocket_context \<Rightarrow> string \<Rightarrow> mismatch_evidence list" where
  "checkWebSocketGap env wc observedAt =
     (if wc_bootstrapCompleteAt wc = None \<and> wc_events wc \<noteq> []
      then [createWebSocketBootstrapMissingMismatch wc observedAt] else [])
     @ (case wc_disconnectEvidence wc of
          None \<Rightarrow> []
        | Some d \<Rightarrow> if hasWebSocketLivenessGapEvidence d then [createWebSocketGapMismatch env d observedAt] else [])"

section \<open>Matches and terms\<close>

text \<open>
  \<^verbatim>\<open>Decimal.toString\<close> prints different values differently and never prints the separator of fingerprints.
\<close>

definition plainDecimalText :: "(rat \<Rightarrow> string) \<Rightarrow> bool" where
  "plainDecimalText txt \<longleftrightarrow> inj txt \<and> (\<forall>r. CHR ''|'' \<notin> set (txt r))"

definition sameValue :: "numeric \<Rightarrow> numeric \<Rightarrow> bool" where
  "sameValue a b \<longleftrightarrow> is_ok (parseFinancialDecimal a) \<and> parseFinancialDecimal a = parseFinancialDecimal b"

definition sameTerms :: "exchange_order \<Rightarrow> local_order \<Rightarrow> bool" where
  "sameTerms ex lo \<longleftrightarrow>
     eo_market ex = lo_market lo \<and> eo_side ex = lo_side lo \<and>
     sameValue (eo_requestedQuantity ex) (lo_requestedQuantity lo) \<and>
     (case (eo_requestedPrice ex, lo_requestedPrice lo) of (Some p, Some p') \<Rightarrow> sameValue p p' | _ \<Rightarrow> True)"

lemma split_last_separator:
  assumes "a @ x # p = b @ x # q" and "x \<notin> set p" and "x \<notin> set q"
  shows "a = b \<and> p = q"
proof -
  have tail: "takeWhile (\<lambda>c. c \<noteq> x) (rev (l @ x # r)) = rev r" if "x \<notin> set r" for l r
    using that by (auto simp: takeWhile_append)
  have "rev p = rev q" using tail [OF assms(2), of a] tail [OF assms(3), of b] assms(1) by metis
  then show ?thesis using assms(1) by simp
qed

lemma sideName_plain: "CHR ''|'' \<notin> set (sideName s)"
  by (cases s) simp_all

lemma fingerprint_inject:
  assumes "m @ ''|'' @ sideName s @ ''|'' @ q @ ''|'' @ p = m' @ ''|'' @ sideName s' @ ''|'' @ q' @ ''|'' @ p'"
    and "CHR ''|'' \<notin> set p" "CHR ''|'' \<notin> set p'" "CHR ''|'' \<notin> set q" "CHR ''|'' \<notin> set q'"
  shows "m = m' \<and> s = s' \<and> q = q' \<and> p = p'"
proof -
  let ?x = "CHR ''|''"
  have eq: "(m @ ?x # sideName s @ ?x # q) @ ?x # p = (m' @ ?x # sideName s' @ ?x # q') @ ?x # p'"
    using assms(1) by simp
  note p = split_last_separator [OF eq assms(2,3)]
  then have eq: "(m @ ?x # sideName s) @ ?x # q = (m' @ ?x # sideName s') @ ?x # q'" by simp
  note q = split_last_separator [OF eq assms(4,5)]
  then have "m = m' \<and> sideName s = sideName s'"
    using split_last_separator [of m ?x "sideName s" m' "sideName s'"] sideName_plain by simp
  then show ?thesis using p q by simp
qed

lemma buildOrderFingerprint_InrE:
  assumes "buildOrderFingerprint env m s q p = Inr fp"
  obtains qv where "parseFinancialDecimal q = Inr qv"
    and "p = None" and "fp = m @ ''|'' @ sideName s @ ''|'' @ re_decimalText env qv @ ''|''"
  | qv p' pv where "parseFinancialDecimal q = Inr qv" and "p = Some p'" and "parseFinancialDecimal p' = Inr pv"
    and "fp = m @ ''|'' @ sideName s @ ''|'' @ re_decimalText env qv @ ''|'' @ re_decimalText env pv"
  using assms by (cases p) (auto simp: buildOrderFingerprint_def normalizeFingerprintDecimal_def bindR_Inr_iff)

lemma fingerprint_eqD:
  assumes plain: "plainDecimalText (re_decimalText env)"
    and a: "buildOrderFingerprint env m s q p = Inr fp" and b: "buildOrderFingerprint env m' s' q' p' = Inr fp"
  shows "m = m' \<and> s = s' \<and> sameValue q q' \<and> (case (p, p') of (Some x, Some y) \<Rightarrow> sameValue x y | _ \<Rightarrow> True)"
proof -
  have bar: "CHR ''|'' \<notin> set (re_decimalText env r)" for r using plain by (simp add: plainDecimalText_def)
  have inj: "re_decimalText env x = re_decimalText env y \<longleftrightarrow> x = y" for x y
    using plain by (auto simp: plainDecimalText_def dest: injD)
  show ?thesis
    using a
  proof (cases rule: buildOrderFingerprint_InrE)
    case first: (1 qv)
    from b show ?thesis
    proof (cases rule: buildOrderFingerprint_InrE)
      case (1 qv')
      then show ?thesis
        using first fingerprint_inject [of m s "re_decimalText env qv" "[]" m' s' "re_decimalText env qv'" "[]"] bar
        by (simp add: inj sameValue_def)
    next
      case (2 qv' y pv')
      then show ?thesis
        using first fingerprint_inject [of m s "re_decimalText env qv" "[]" m' s' "re_decimalText env qv'" "re_decimalText env pv'"] bar
        by (simp add: inj sameValue_def)
    qed
  next
    case first: (2 qv x pv)
    from b show ?thesis
    proof (cases rule: buildOrderFingerprint_InrE)
      case (1 qv')
      then show ?thesis
        using first fingerprint_inject [of m s "re_decimalText env qv" "re_decimalText env pv" m' s' "re_decimalText env qv'" "[]"] bar
        by (simp add: inj sameValue_def)
    next
      case (2 qv' y pv')
      then show ?thesis
        using first fingerprint_inject [of m s "re_decimalText env qv" "re_decimalText env pv" m' s' "re_decimalText env qv'" "re_decimalText env pv'"] bar
        by (simp add: inj sameValue_def)
    qed
  qed
qed

lemma compareImmutable_agreeD:
  assumes plain: "plainDecimalText (re_decimalText env)" and agree: "compareImmutableFingerprint env ex lo = Inr None"
  shows "sameTerms ex lo"
proof -
  from agree obtain f g where f: "exchangeFingerprint env ex = Inr f" and g: "localFingerprint env lo = Inr g"
    by (auto simp: compareImmutableFingerprint_def bindR_Inr_iff)
  show ?thesis
  proof (cases "f = g")
    case True
    then show ?thesis
      using fingerprint_eqD [OF plain, of "eo_market ex" "eo_side ex" "eo_requestedQuantity ex" "eo_requestedPrice ex" f
          "lo_market lo" "lo_side lo" "lo_requestedQuantity lo" "lo_requestedPrice lo"] f g
      by (simp add: sameTerms_def exchangeFingerprint_def localFingerprint_def)
  next
    case False
    then obtain h where one: "eo_requestedPrice ex = None \<or> lo_requestedPrice lo = None"
      and a: "buildOrderFingerprint env (eo_market ex) (eo_side ex) (eo_requestedQuantity ex) None = Inr h"
      and b: "buildOrderFingerprint env (lo_market lo) (lo_side lo) (lo_requestedQuantity lo) None = Inr h"
      using agree f g by (auto simp: compareImmutableFingerprint_def bindR_Inr_iff Let_def split: if_splits)
    then show ?thesis
      using fingerprint_eqD [OF plain a b] by (auto simp: sameTerms_def split: option.splits)
  qed
qed

lemma confirmIdentity_MatchedD:
  "confirmIdentity env t i ex lo = Inr (Matched t' i') \<Longrightarrow> t' = t \<and> i' = i \<and> compareImmutableFingerprint env ex lo = Inr None"
  by (auto simp: confirmIdentity_def bindR_Inr_iff split: option.splits)

text \<open>A match other than by fingerprint rests on a shared identity that nothing contradicts.\<close>

lemma matchOrderIdentity_strongD:
  assumes "plainDecimalText (re_decimalText env)" and "matchOrderIdentity env ex lo = Inr (Matched t i)" and "t \<noteq> ByFingerprint"
  shows "hasSharedStrongIdentity ex lo \<and> sameTerms ex lo"
  using assms
  by (auto simp: matchOrderIdentity_def matchByFingerprint_def hasSharedStrongIdentity_def bindR_Inr_iff
      split: option.splits if_splits dest!: confirmIdentity_MatchedD intro!: compareImmutable_agreeD)

section \<open>Results of a pair\<close>

lemma firstR_SomeD: "firstR f xs = Inr (Some (x, y)) \<Longrightarrow> x \<in> set xs \<and> f x = Inr (Some y)"
  by (induction xs) (auto simp: bindR_Inr_iff split: option.splits)

lemma firstR_NoneD: "firstR f xs = Inr None \<Longrightarrow> x \<in> set xs \<Longrightarrow> f x = Inr None"
  by (induction xs) (auto simp: bindR_Inr_iff split: option.splits)

lemma successOf_SomeD: "successOf r = Some (t, i) \<Longrightarrow> r = Matched t i"
  by (cases r) auto

text \<open>
  Why an order may be advanced: what the exchange says of it and where the local order goes. An order the
  exchange still has open is partially filled when less of it is left there than the local order knows.
\<close>

definition advancementGround :: "exchange_order \<Rightarrow> local_order \<Rightarrow> order_status \<Rightarrow> bool" where
  "advancementGround ex lo target \<longleftrightarrow>
     (target = FILLED \<and> eo_exchangeStatus ex = ''done'' \<and>
        (case eo_remainingQuantity ex of None \<Rightarrow> True | Some q \<Rightarrow> (case parseFinancialDecimal q of Inl e \<Rightarrow> False | Inr r \<Rightarrow> r \<le> 0))) \<or>
     (target = PARTIALLY_FILLED \<and>
        (\<exists>q r. eo_remainingQuantity ex = Some q \<and> parseFinancialDecimal q = Inr r \<and> 0 < r \<and>
          (eo_exchangeStatus ex = ''done'' \<or>
           isOpenExchangeStatus (eo_exchangeStatus ex) \<and> (\<exists>l. parseFinancialDecimal (lo_remainingQuantity lo) = Inr l \<and> r < l)))) \<or>
     (target = CANCELED \<and> eo_exchangeStatus ex = ''cancel'' \<and> lo_status lo = CANCEL_REQUESTED)"

lemma isOpenExchangeStatus_names [simp]:
  "isOpenExchangeStatus ''done'' = False" "isOpenExchangeStatus ''cancel'' = False"
  by (simp_all add: isOpenExchangeStatus_def)

lemma terminalAdvancementCandidate_SomeD:
  assumes "terminalAdvancementCandidate ex lo identity = Inr (Some adv)"
  shows "\<exists>target kind reason details. adv = advancementCandidate ex lo identity target kind reason details \<and> advancementGround ex lo target"
proof (cases "eo_exchangeStatus ex = ''done''")
  case finished: True
  show ?thesis
  proof (cases "eo_remainingQuantity ex")
    case None
    then have "advancementGround ex lo FILLED" by (simp add: advancementGround_def finished)
    then show ?thesis using assms None by (auto simp: terminalAdvancementCandidate_def Let_def finished split: if_splits)
  next
    case (Some q)
    then obtain a where a: "parseFinancialDecimal q = Inr a"
      using assms by (auto simp: terminalAdvancementCandidate_def Let_def finished split: if_splits elim!: bindR_InrE)
    have "advancementGround ex lo (if 0 < a then PARTIALLY_FILLED else FILLED)"
      by (simp add: advancementGround_def finished Some a)
    then show ?thesis using assms Some by (auto simp: terminalAdvancementCandidate_def Let_def finished a split: if_splits)
  qed
next
  case False
  then have "advancementGround ex lo CANCELED"
    using assms by (auto simp: terminalAdvancementCandidate_def advancementGround_def Let_def split: if_splits)
  then show ?thesis using assms False by (auto simp: terminalAdvancementCandidate_def Let_def split: if_splits)
qed

lemma createStateAdvancementCandidate_SomeD:
  assumes "createStateAdvancementCandidate ex lo identity = Inr (Some adv)"
  shows "\<exists>target kind reason details. adv = advancementCandidate ex lo identity target kind reason details \<and> advancementGround ex lo target"
proof (cases "terminalAdvancementCandidate ex lo identity = Inr (Some adv)")
  case True
  then show ?thesis by (rule terminalAdvancementCandidate_SomeD)
next
  case False
  with assms obtain q where remaining: "eo_remainingQuantity ex = Some q" and isOpen: "isOpenExchangeStatus (eo_exchangeStatus ex)"
    by (auto simp: createStateAdvancementCandidate_def split: option.splits if_splits)
  with assms False obtain a b where a: "parseFinancialDecimal q = Inr a" and b: "parseFinancialDecimal (lo_remainingQuantity lo) = Inr b"
    by (auto simp: createStateAdvancementCandidate_def elim!: bindR_InrE)
  show ?thesis
  proof (cases "0 < a \<and> a < b \<and> lo_status lo \<noteq> PARTIALLY_FILLED")
    case True
    then have "advancementGround ex lo PARTIALLY_FILLED" by (simp add: advancementGround_def remaining a b isOpen)
    moreover have "\<exists>details. adv = advancementCandidate ex lo identity PARTIALLY_FILLED PARTIALLY_FILLED_CANDIDATE
        ''exchange_open_remaining_reduced'' details"
      using assms True by (simp add: createStateAdvancementCandidate_def remaining a b isOpen) blast
    ultimately show ?thesis by blast
  next
    case False
    then show ?thesis
      using assms \<open>terminalAdvancementCandidate ex lo identity \<noteq> Inr (Some adv)\<close>
      by (simp add: createStateAdvancementCandidate_def remaining a b isOpen split: if_splits)
  qed
qed

lemma evaluateMatchedPair_shape:
  assumes "evaluateMatchedPair ex lo identity observedAt = Inr res"
  shows "pp_localOrderId res = Some (lo_orderId lo) \<and> pp_identityMatch res = Some identity \<and>
    (\<exists>extra. pp_mismatches res = pairMismatches ex lo identity observedAt @ extra) \<and>
    (\<forall>adv. pp_stateAdvancement res = Some adv \<longrightarrow>
      createStateAdvancementCandidate ex lo identity = Inr (Some adv) \<and> fst identity \<noteq> ByFingerprint \<and>
      (case sv_targetLocalStatus adv of None \<Rightarrow> True | Some target \<Rightarrow> canTransitionOrderState (lo_status lo) target))"
proof -
  from assms obtain found where cand: "createStateAdvancementCandidate ex lo identity = Inr found"
    by (auto simp: evaluateMatchedPair_def elim: bindR_InrE)
  show ?thesis
  proof (cases found)
    case None
    then show ?thesis using assms cand by (auto simp: evaluateMatchedPair_def Let_def)
  next
    case (Some adv)
    then show ?thesis
      using assms cand
      by (cases "fst identity = ByFingerprint"; cases "sv_targetLocalStatus adv")
        (auto simp: evaluateMatchedPair_def Let_def split: if_splits)
  qed
qed

lemma evaluateMatchedPair_advances:
  assumes "evaluateMatchedPair ex lo identity observedAt = Inr res" and "pp_stateAdvancement res = Some adv"
  shows "\<exists>target kind reason details. adv = advancementCandidate ex lo identity target kind reason details \<and>
    advancementGround ex lo target \<and> canTransitionOrderState (lo_status lo) target \<and> fst identity \<noteq> ByFingerprint"
proof -
  note shape = evaluateMatchedPair_shape [OF assms(1)]
  from shape assms(2) have cand: "createStateAdvancementCandidate ex lo identity = Inr (Some adv)"
    and strong: "fst identity \<noteq> ByFingerprint"
    and legal: "case sv_targetLocalStatus adv of None \<Rightarrow> True | Some target \<Rightarrow> canTransitionOrderState (lo_status lo) target"
    by blast+
  obtain target kind reason details where adv: "adv = advancementCandidate ex lo identity target kind reason details"
    and ground: "advancementGround ex lo target"
    using createStateAdvancementCandidate_SomeD [OF cand] by (elim exE conjE)
  have "canTransitionOrderState (lo_status lo) target" using legal by (simp add: adv advancementCandidate_def)
  with adv ground strong show ?thesis by blast
qed

text \<open>
  What an order has come to where the exchange reports it done or canceled. A pair of orders is accounted
  for when an order open on the exchange is not being canceled locally, the remaining quantities are the
  same where the exchange reports one, and an order that has ended on the exchange has ended locally the
  same way, or is filled where the exchange reports it done, or has an advancement to that state.
\<close>

definition reportedEnd :: "exchange_order \<Rightarrow> order_status option" where
  "reportedEnd ex =
     (if eo_exchangeStatus ex = ''cancel'' then Some CANCELED
      else if eo_exchangeStatus ex = ''done''
      then case eo_remainingQuantity ex of
             None \<Rightarrow> Some FILLED
           | Some q \<Rightarrow> (case parseFinancialDecimal q of Inl x \<Rightarrow> None | Inr r \<Rightarrow> Some (if 0 < r then PARTIALLY_FILLED else FILLED))
      else None)"

definition pairAccounted :: "exchange_order \<Rightarrow> local_order \<Rightarrow> state_advancement list \<Rightarrow> bool" where
  "pairAccounted ex lo advs \<longleftrightarrow>
     (isOpenExchangeStatus (eo_exchangeStatus ex) \<longrightarrow> lo_status lo \<noteq> CANCEL_REQUESTED) \<and>
     (case eo_remainingQuantity ex of None \<Rightarrow> True | Some q \<Rightarrow> compareRemainingQuantity q (lo_remainingQuantity lo)) \<and>
     (\<forall>e. reportedEnd ex = Some e \<longrightarrow> lo_status lo = e \<or> eo_exchangeStatus ex = ''done'' \<and> lo_status lo = FILLED \<or>
        (\<exists>adv \<in> set advs. sv_localOrderId adv = lo_orderId lo \<and> sv_currentLocalStatus adv = lo_status lo \<and> sv_targetLocalStatus adv = Some e))"

lemma pairAccounted_mono: "pairAccounted ex lo advs \<Longrightarrow> set advs \<subseteq> set advs' \<Longrightarrow> pairAccounted ex lo advs'"
  by (auto simp: pairAccounted_def)

lemma pairMismatches_Nil_iff:
  "pairMismatches ex lo identity observedAt = [] \<longleftrightarrow>
     (isOpenExchangeStatus (eo_exchangeStatus ex) \<longrightarrow> lo_status lo \<noteq> CANCEL_REQUESTED) \<and>
     (eo_exchangeStatus ex = ''cancel'' \<longrightarrow> lo_status lo = CANCEL_REQUESTED \<or> lo_status lo = CANCELED) \<and>
     (case eo_remainingQuantity ex of None \<Rightarrow> True | Some q \<Rightarrow> compareRemainingQuantity q (lo_remainingQuantity lo))"
  by (auto simp: pairMismatches_def split: option.splits)

text \<open>A pair without findings hands on the candidate, and the candidate is what the end of the order asks for.\<close>

lemma evaluateMatchedPair_silent:
  assumes "evaluateMatchedPair ex lo identity observedAt = Inr res" and "pp_mismatches res = []"
  shows "createStateAdvancementCandidate ex lo identity = Inr (pp_stateAdvancement res) \<and> pairMismatches ex lo identity observedAt = []"
proof -
  from assms(1) obtain found where cand: "createStateAdvancementCandidate ex lo identity = Inr found"
    by (auto simp: evaluateMatchedPair_def elim: bindR_InrE)
  show ?thesis using assms cand by (cases found) (auto simp: evaluateMatchedPair_def Let_def split: if_splits)
qed

lemma candidate_ends:
  assumes cand: "createStateAdvancementCandidate ex lo identity = Inr found" and "reportedEnd ex = Some e"
    and "lo_status lo \<noteq> e" and "eo_exchangeStatus ex = ''done'' \<Longrightarrow> lo_status lo \<noteq> FILLED"
    and "eo_exchangeStatus ex = ''cancel'' \<Longrightarrow> lo_status lo = CANCEL_REQUESTED"
  shows "\<exists>kind reason details. found = Some (advancementCandidate ex lo identity e kind reason details)"
proof -
  have "\<not> isOpenExchangeStatus (eo_exchangeStatus ex)" using assms(2) by (auto simp: reportedEnd_def split: if_splits)
  then have "terminalAdvancementCandidate ex lo identity = Inr found"
    using cand by (simp add: createStateAdvancementCandidate_def split: option.splits)
  then show ?thesis using assms(2-5)
    by (auto simp: terminalAdvancementCandidate_def reportedEnd_def Let_def split: if_splits option.splits sum.splits)
qed

lemma evaluateMatchedPair_clean:
  assumes "evaluateMatchedPair ex lo identity observedAt = Inr res" and "pp_mismatches res = []"
  shows "pairAccounted ex lo (case pp_stateAdvancement res of None \<Rightarrow> [] | Some adv \<Rightarrow> [adv])"
proof -
  note silent = evaluateMatchedPair_silent [OF assms, unfolded pairMismatches_Nil_iff]
  have "lo_status lo = e \<or> eo_exchangeStatus ex = ''done'' \<and> lo_status lo = FILLED \<or>
      (\<exists>kind reason details. pp_stateAdvancement res = Some (advancementCandidate ex lo identity e kind reason details))"
    if "reportedEnd ex = Some e" for e
  proof (cases "lo_status lo = e \<or> eo_exchangeStatus ex = ''done'' \<and> lo_status lo = FILLED")
    case False
    moreover have "eo_exchangeStatus ex = ''cancel'' \<Longrightarrow> e = CANCELED" using that by (simp add: reportedEnd_def)
    ultimately show ?thesis using candidate_ends [OF conjunct1 [OF silent] that] silent by blast
  qed blast
  then show ?thesis using silent unfolding pairAccounted_def by (fastforce simp: advancementCandidate_def)
qed

section \<open>Moves of the loops\<close>

text \<open>A result that only reports: it has evidence, matches nothing and advances nothing.\<close>

definition reportOnly :: "pair_result \<Rightarrow> bool" where
  "reportOnly res \<longleftrightarrow> pp_mismatches res \<noteq> [] \<and> pp_identityMatch res = None \<and> pp_stateAdvancement res = None"

lemma createIdentityConflictResult_reports:
  "createIdentityConflictResult env ex lo reason observedAt = Inr res \<Longrightarrow> reportOnly res"
  by (auto simp: createIdentityConflictResult_def reportOnly_def bindR_Inr_iff)

text \<open>
  The two loops move the shared state in five ways: a snapshot that is not open leaves its identity keys,
  another snapshot of a known order is set aside, a pair is matched and evaluated, a pair in conflict or a
  lone order is reported.
\<close>

inductive reconcile_move ::
  "reconcile_env \<Rightarrow> exchange_order list \<Rightarrow> local_order list \<Rightarrow> string \<Rightarrow> reconcile_state \<Rightarrow> reconcile_state \<Rightarrow> bool"
  for env exs los observedAt where
  closed: "ex \<in> set exs \<Longrightarrow> \<not> isUntrackedExchangeOpenCandidate ex \<Longrightarrow>
    reconcile_move env exs los observedAt st (st\<lparr>rw_strongerExchangeIdentityKeys :=
      addExchangeIdentityKeysWithLocalBridge ex los (rw_strongerExchangeIdentityKeys st)\<rparr>)"
| setAside: "reconcile_move env exs los observedAt st (st\<lparr>rw_matchedExchangeOrders := xs\<rparr>)"
| paired: "snd r \<in> set exs \<Longrightarrow> lo \<in> set los \<Longrightarrow> lo_orderId lo \<notin> set (rw_matchedLocalIds st) \<Longrightarrow>
    matchOrderIdentity env (snd r) lo = Inr (Matched t i) \<Longrightarrow> evaluateMatchedPair (snd r) lo (t, i) observedAt = Inr res \<Longrightarrow>
    reconcile_move env exs los observedAt st (linkPair r lo res st)"
| conflicting: "reportOnly res \<Longrightarrow> reconcile_move env exs los observedAt st (linkPair r lo res st)"
| reported: "reportOnly res \<Longrightarrow> reconcile_move env exs los observedAt st (pushResult res st)"

definition silent :: "pair_result list \<Rightarrow> bool" where
  "silent results \<longleftrightarrow> list_all (\<lambda>res. pp_mismatches res = []) results"

lemma silent_append [simp]: "silent (xs @ ys) \<longleftrightarrow> silent xs \<and> silent ys"
  by (simp add: silent_def)

lemma pushResult_fields [simp]:
  "rw_results (pushResult res st) = rw_results st @ [res]"
  "rw_matchedLocalIds (pushResult res st) = rw_matchedLocalIds st"
  "rw_matchedExchangeOrders (pushResult res st) = rw_matchedExchangeOrders st"
  "rw_matchedExchangeIdentityKeys (pushResult res st) = rw_matchedExchangeIdentityKeys st"
  "rw_strongerExchangeIdentityKeys (pushResult res st) = rw_strongerExchangeIdentityKeys st"
  by (simp_all add: pushResult_def)

lemma linkPair_fields [simp]:
  "rw_results (linkPair r lo res st) = rw_results st @ [res]"
  "set (rw_matchedLocalIds (linkPair r lo res st)) = insert (lo_orderId lo) (set (rw_matchedLocalIds st))"
  "rw_matchedExchangeIdentityKeys (linkPair r lo res st) = addMatchedIdentityKeys (snd r) lo (rw_matchedExchangeIdentityKeys st)"
  "rw_strongerExchangeIdentityKeys (linkPair r lo res st) = rw_strongerExchangeIdentityKeys st"
  by (simp_all add: linkPair_def)

lemma linkConflict_moves:
  assumes "linkConflict env r lo reason observedAt st = Inr st'"
  shows "reconcile_move env exs los observedAt st st' \<and> \<not> silent (rw_results st')"
proof -
  from assms obtain res where "createIdentityConflictResult env (snd r) lo reason observedAt = Inr res"
    and st': "st' = linkPair r lo res st"
    by (auto simp: linkConflict_def elim!: bindR_InrE)
  then have "reportOnly res" by (simp add: createIdentityConflictResult_reports)
  then show ?thesis using conflicting [of res] by (simp add: st' silent_def reportOnly_def)
qed

lemma linkMatch_moves:
  assumes "linkMatch r lo (t, i) observedAt st = Inr st'" and "snd r \<in> set exs" and "lo \<in> set los"
    and "lo_orderId lo \<notin> set (rw_matchedLocalIds st)" and "matchOrderIdentity env (snd r) lo = Inr (Matched t i)"
  shows "reconcile_move env exs los observedAt st st' \<and> lo_orderId lo \<in> set (rw_matchedLocalIds st')"
proof -
  from assms(1) obtain res where "evaluateMatchedPair (snd r) lo (t, i) observedAt = Inr res" and st': "st' = linkPair r lo res st"
    by (auto simp: linkMatch_def elim!: bindR_InrE)
  then have "reconcile_move env exs los observedAt st st'" using paired [OF assms(2-5)] by simp
  then show ?thesis by (simp add: st')
qed

lemma exchangeStep_moves:
  assumes step: "exchangeStep env los observedAt r st = Inr st'" and row: "snd r \<in> set exs"
  shows "reconcile_move env exs los observedAt st st'"
proof (cases "isUntrackedExchangeOpenCandidate (snd r)")
  case False
  then show ?thesis using step closed [OF row] by (auto simp: exchangeStep_def Let_def)
next
  case cand: True
  show ?thesis
  proof (cases "hasMatchedExchangeIdentity (snd r) (rw_matchedExchangeIdentityKeys st) \<or>
      hasMatchedExchangeIdentity (snd r) (rw_strongerExchangeIdentityKeys st)")
    case True
    with step cand obtain conflict where "findIdentityConflictAnyLocalOrder env (snd r) los = Inr conflict"
      by (auto simp: exchangeStep_def Let_def elim!: bindR_InrE)
    with step cand True show ?thesis
      by (auto simp: exchangeStep_def Let_def split: option.splits intro: setAside dest: linkConflict_moves [where exs = exs and los = los])
  next
    case fresh: False
    with step cand obtain found where found: "findMatchingLocalOrder env (snd r) los (rw_matchedLocalIds st) = Inr found"
      by (auto simp: exchangeStep_def Let_def elim!: bindR_InrE)
    show ?thesis
    proof (cases found)
      case (Some p)
      obtain lo t i where p: "p = (lo, t, i)" by (cases p)
      have "lo \<in> set los \<and> lo_orderId lo \<notin> set (rw_matchedLocalIds st) \<and> matchOrderIdentity env (snd r) lo = Inr (Matched t i)"
        using firstR_SomeD [OF found [unfolded Some p findMatchingLocalOrder_def]]
        by (auto simp: bindR_Inr_iff dest: successOf_SomeD split: if_splits)
      then show ?thesis
        using step cand fresh found Some p linkMatch_moves [of r lo t i observedAt st st' exs los env] row
        by (simp add: exchangeStep_def Let_def)
    next
      case None
      with step cand fresh found obtain conflict
        where conflict: "findIdentityConflictLocalOrder env (snd r) los (rw_matchedLocalIds st) = Inr conflict"
        by (auto simp: exchangeStep_def Let_def elim!: bindR_InrE)
      with step cand fresh found None show ?thesis
        by (auto simp: exchangeStep_def Let_def reportOnly_def split: option.splits intro!: reported elim!: bindR_InrE
            dest: linkConflict_moves [where exs = exs and los = los])
    qed
  qed
qed

lemma exchangeStep_open:
  assumes step: "exchangeStep env los observedAt r st = Inr st'" and cand: "isUntrackedExchangeOpenCandidate (snd r)"
    and quiet: "silent (rw_results st')"
  shows "hasMatchedExchangeIdentity (snd r) (rw_matchedExchangeIdentityKeys st) \<or>
    hasMatchedExchangeIdentity (snd r) (rw_strongerExchangeIdentityKeys st) \<or>
    (\<exists>lo \<in> set los. \<exists>t i. matchOrderIdentity env (snd r) lo = Inr (Matched t i))"
proof (rule ccontr)
  assume none: "\<not> ?thesis"
  with step cand obtain found where found: "findMatchingLocalOrder env (snd r) los (rw_matchedLocalIds st) = Inr found"
    by (auto simp: exchangeStep_def Let_def elim!: bindR_InrE)
  have "found = None"
  proof (rule ccontr)
    assume "found \<noteq> None"
    then obtain lo t i where "found = Some (lo, t, i)" by auto
    then show False
      using none firstR_SomeD [of _ los lo "(t, i)"] found
      by (auto simp: findMatchingLocalOrder_def bindR_Inr_iff dest!: firstR_SomeD successOf_SomeD split: if_splits)
  qed
  with step cand none found obtain conflict
    where "findIdentityConflictLocalOrder env (snd r) los (rw_matchedLocalIds st) = Inr conflict"
    by (auto simp: exchangeStep_def Let_def elim!: bindR_InrE)
  then have "\<not> silent (rw_results st')"
    using step cand none found \<open>found = None\<close>
    by (cases conflict) (auto simp: exchangeStep_def Let_def silent_def elim!: bindR_InrE dest: linkConflict_moves [unfolded silent_def])
  then show False using quiet by simp
qed

lemma localStep_moves:
  assumes step: "localStep env rows observedAt lo st = Inr st'" and rows: "snd ` set rows \<subseteq> set exs" and lo: "lo \<in> set los"
  shows "(st' = st \<or> reconcile_move env exs los observedAt st st') \<and>
    (lo_orderId lo \<in> set (rw_matchedLocalIds st') \<or> \<not> silent (rw_results st'))"
proof (cases "lo_orderId lo \<in> set (rw_matchedLocalIds st)")
  case True
  then show ?thesis using step by (simp add: localStep_def)
next
  case new: False
  with step obtain found where found: "findMatchingExchangeOrder env lo rows (rw_matchedExchangeOrders st) = Inr found"
    by (auto simp: localStep_def elim!: bindR_InrE)
  show ?thesis
  proof (cases found)
    case (Some p)
    obtain r t i where p: "p = (r, t, i)" by (cases p)
    have "r \<in> set rows \<and> matchOrderIdentity env (snd r) lo = Inr (Matched t i)"
      using firstR_SomeD [OF found [unfolded Some p findMatchingExchangeOrder_def]]
      by (auto simp: bindR_Inr_iff dest: successOf_SomeD split: if_splits prod.splits)
    then show ?thesis
      using step new found Some p linkMatch_moves [of r lo t i observedAt st st' exs los env] rows lo
      by (auto simp: localStep_def)
  next
    case None
    with step new found obtain conflict where conflict: "findIdentityConflictExchangeOrder env lo rows (rw_matchedExchangeOrders st) = Inr conflict"
      by (auto simp: localStep_def elim!: bindR_InrE)
    show ?thesis
    proof (cases conflict)
      case (Some p)
      then show ?thesis
        using step new found None conflict
        by (cases p) (auto simp: localStep_def dest: linkConflict_moves [where exs = exs and los = los])
    next
      case none: None
      have "reportOnly \<lparr>pp_localOrderId = Some (lo_orderId lo), pp_exchangeSource = None, pp_identityMatch = None,
          pp_mismatches = [createMissingLocalOrderMismatch lo observedAt], pp_stateAdvancement = None\<rparr>"
        by (simp add: reportOnly_def)
      then show ?thesis
        using step new found None conflict none reported [of _ env exs los observedAt st] by (auto simp: localStep_def silent_def)
    qed
  qed
qed

section \<open>The invariant of the loops\<close>

definition isMatch :: "reconcile_env \<Rightarrow> exchange_order \<Rightarrow> local_order \<Rightarrow> bool" where
  "isMatch env ex lo \<longleftrightarrow> (case matchOrderIdentity env ex lo of Inr (Matched t i) \<Rightarrow> True | _ \<Rightarrow> False)"

text \<open>
  An identity key is known when a local order has it, or a snapshot that is no longer open or that is
  matched with a local order.
\<close>

definition knownKey :: "reconcile_env \<Rightarrow> exchange_order list \<Rightarrow> local_order list \<Rightarrow> string \<Rightarrow> bool" where
  "knownKey env exs los k \<longleftrightarrow>
     (\<exists>lo \<in> set los. k \<in> set (getStrongLocalIdentityKeys lo)) \<or>
     (\<exists>ex \<in> set exs. k \<in> set (getStrongExchangeIdentityKeys ex) \<and>
        (\<not> isUntrackedExchangeOpenCandidate ex \<or> (\<exists>lo \<in> set los. isMatch env ex lo)))"

definition trackedOpenOrder :: "reconcile_env \<Rightarrow> exchange_order list \<Rightarrow> local_order list \<Rightarrow> exchange_order \<Rightarrow> bool" where
  "trackedOpenOrder env exs los ex \<longleftrightarrow>
     (\<exists>lo \<in> set los. isMatch env ex lo) \<or> (\<exists>k \<in> set (getStrongExchangeIdentityKeys ex). knownKey env exs los k)"

definition matchedIds :: "pair_result list \<Rightarrow> string list" where
  "matchedIds results =
     List.map_filter (\<lambda>res. if pp_identityMatch res = None then None else pp_localOrderId res) results"

definition evaluatedPair ::
  "reconcile_env \<Rightarrow> exchange_order list \<Rightarrow> local_order list \<Rightarrow> string \<Rightarrow> pair_result \<Rightarrow> bool" where
  "evaluatedPair env exs los observedAt res \<longleftrightarrow>
     (\<exists>ex \<in> set exs. \<exists>lo \<in> set los. \<exists>t i. matchOrderIdentity env ex lo = Inr (Matched t i) \<and>
        evaluateMatchedPair ex lo (t, i) observedAt = Inr res)"

definition ordersInvariant ::
  "reconcile_env \<Rightarrow> exchange_order list \<Rightarrow> local_order list \<Rightarrow> string \<Rightarrow> reconcile_state \<Rightarrow> bool" where
  "ordersInvariant env exs los observedAt st \<longleftrightarrow>
     (\<forall>res \<in> set (rw_results st). reportOnly res \<or> evaluatedPair env exs los observedAt res) \<and>
     distinct (matchedIds (rw_results st)) \<and>
     set (matchedIds (rw_results st)) \<subseteq> set (rw_matchedLocalIds st) \<and>
     (silent (rw_results st) \<longrightarrow> set (rw_matchedLocalIds st) \<subseteq> set (matchedIds (rw_results st))) \<and>
     (\<forall>k \<in> set (rw_strongerExchangeIdentityKeys st). knownKey env exs los k) \<and>
     (silent (rw_results st) \<longrightarrow> (\<forall>k \<in> set (rw_matchedExchangeIdentityKeys st). knownKey env exs los k))"

lemma matchedIds_append [simp]: "matchedIds (xs @ ys) = matchedIds xs @ matchedIds ys"
  by (simp add: matchedIds_def map_filter_def)

lemma matchedIds_single:
  "pp_identityMatch res = None \<Longrightarrow> matchedIds [res] = []"
  "pp_identityMatch res \<noteq> None \<Longrightarrow> pp_localOrderId res = Some i \<Longrightarrow> matchedIds [res] = [i]"
  by (simp_all add: matchedIds_def map_filter_def)

lemma set_fold_insert: "set (fold List.insert xs ys) = set xs \<union> set ys"
  by (induction xs arbitrary: ys) auto

lemma set_addMatchedIdentityKeys:
  "set (addMatchedIdentityKeys ex lo keys) =
     set (getStrongLocalIdentityKeys lo) \<union> set (getStrongExchangeIdentityKeys ex) \<union> set keys"
  by (simp add: addMatchedIdentityKeys_def addLocalIdentityKeys_def addExchangeIdentityKeys_def set_fold_insert Un_assoc)

lemma set_addExchangeIdentityKeysWithLocalBridge:
  "set (addExchangeIdentityKeysWithLocalBridge ex los keys) \<subseteq>
     set (getStrongExchangeIdentityKeys ex) \<union> set keys \<union> (\<Union>lo \<in> set los. set (getStrongLocalIdentityKeys lo))"
proof -
  have "set (fold (\<lambda>lo keys. if hasSharedStrongIdentity ex lo then addLocalIdentityKeys lo keys else keys) los ks) \<subseteq>
      set ks \<union> (\<Union>lo \<in> set los. set (getStrongLocalIdentityKeys lo))" for ks
  proof (induction los arbitrary: ks)
    case (Cons lo los)
    show ?case using Cons.IH [of "if hasSharedStrongIdentity ex lo then addLocalIdentityKeys lo ks else ks"]
      by (auto simp: addLocalIdentityKeys_def set_fold_insert split: if_splits)
  qed simp
  from this [of "addExchangeIdentityKeys ex keys"] show ?thesis
    by (simp add: addExchangeIdentityKeysWithLocalBridge_def addExchangeIdentityKeys_def set_fold_insert)
qed

lemma reconcile_move_monotone:
  "reconcile_move env exs los observedAt st st' \<Longrightarrow>
    set (rw_matchedLocalIds st) \<subseteq> set (rw_matchedLocalIds st') \<and> (silent (rw_results st') \<longrightarrow> silent (rw_results st))"
  by (induction rule: reconcile_move.induct) auto

lemma ordersInvariant_closed:
  assumes inv: "ordersInvariant env exs los observedAt st" and ex: "ex \<in> set exs" "\<not> isUntrackedExchangeOpenCandidate ex"
  shows "ordersInvariant env exs los observedAt (st\<lparr>rw_strongerExchangeIdentityKeys :=
    addExchangeIdentityKeysWithLocalBridge ex los (rw_strongerExchangeIdentityKeys st)\<rparr>)"
proof -
  have "knownKey env exs los k"
    if "k \<in> set (addExchangeIdentityKeysWithLocalBridge ex los (rw_strongerExchangeIdentityKeys st))" for k
    using that set_addExchangeIdentityKeysWithLocalBridge [of ex los "rw_strongerExchangeIdentityKeys st"] inv ex
    by (auto simp: ordersInvariant_def knownKey_def)
  then show ?thesis using inv by (simp add: ordersInvariant_def)
qed

lemma ordersInvariant_report:
  assumes "ordersInvariant env exs los observedAt st" and "reportOnly res"
  shows "ordersInvariant env exs los observedAt (pushResult res st)"
    and "ordersInvariant env exs los observedAt (linkPair r lo res st)"
  using assms by (auto simp: ordersInvariant_def reportOnly_def silent_def matchedIds_single)

lemma ordersInvariant_paired:
  assumes inv: "ordersInvariant env exs los observedAt st" and ex: "snd r \<in> set exs" and lo: "lo \<in> set los"
    and new: "lo_orderId lo \<notin> set (rw_matchedLocalIds st)" and m: "matchOrderIdentity env (snd r) lo = Inr (Matched t i)"
    and res: "evaluateMatchedPair (snd r) lo (t, i) observedAt = Inr res"
  shows "ordersInvariant env exs los observedAt (linkPair r lo res st)"
proof -
  have names: "matchedIds [res] = [lo_orderId lo]"
    using evaluateMatchedPair_shape [OF res] by (simp add: matchedIds_single)
  have "isMatch env (snd r) lo" using m by (simp add: isMatch_def)
  then have keys: "knownKey env exs los k"
    if "k \<in> set (getStrongLocalIdentityKeys lo) \<union> set (getStrongExchangeIdentityKeys (snd r))" for k
    using that ex lo by (auto simp: knownKey_def)
  have "evaluatedPair env exs los observedAt res" using ex lo m res by (auto simp: evaluatedPair_def)
  then show ?thesis
    using inv new keys by (auto simp: ordersInvariant_def names set_addMatchedIdentityKeys)
qed

lemma ordersInvariant_move:
  "reconcile_move env exs los observedAt st st' \<Longrightarrow> ordersInvariant env exs los observedAt st \<Longrightarrow> ordersInvariant env exs los observedAt st'"
proof (induction rule: reconcile_move.induct)
  case (setAside st xs)
  then show ?case by (simp add: ordersInvariant_def)
qed (auto intro: ordersInvariant_closed ordersInvariant_report ordersInvariant_paired)

lemma ordersInvariant_empty: "ordersInvariant env exs los observedAt emptyReconcileState"
  by (simp add: ordersInvariant_def emptyReconcileState_def matchedIds_def map_filter_def)

lemma open_step_tracked:
  assumes inv: "ordersInvariant env exs los observedAt st" and step: "exchangeStep env los observedAt r st = Inr st'"
    and row: "snd r \<in> set exs" and cand: "isUntrackedExchangeOpenCandidate (snd r)" and quiet: "silent (rw_results st')"
  shows "trackedOpenOrder env exs los (snd r)"
proof -
  have "silent (rw_results st)" using reconcile_move_monotone [OF exchangeStep_moves [OF step row]] quiet by simp
  then have "knownKey env exs los k"
    if "k \<in> set (rw_matchedExchangeIdentityKeys st) \<union> set (rw_strongerExchangeIdentityKeys st)" for k
    using inv that by (auto simp: ordersInvariant_def)
  moreover have "isMatch env (snd r) lo" if "matchOrderIdentity env (snd r) lo = Inr (Matched t i)" for lo t i
    using that by (simp add: isMatch_def)
  ultimately show ?thesis
    using exchangeStep_open [OF step cand quiet]
    unfolding trackedOpenOrder_def hasMatchedExchangeIdentity_def list_ex_iff by blast
qed

lemma reconcileOrders_exchangeLoop:
  assumes loop: "foldR (exchangeStep env los observedAt) (enumerate 0 exs) emptyReconcileState = Inr st"
  shows "ordersInvariant env exs los observedAt st \<and>
    (\<forall>ex \<in> set exs. isUntrackedExchangeOpenCandidate ex \<and> silent (rw_results st) \<longrightarrow> trackedOpenOrder env exs los ex)"
proof -
  have rows: "snd r \<in> set exs" if "r \<in> set (enumerate 0 exs)" for r
    using that by (metis imageI map_snd_enumerate set_map)
  have "ordersInvariant env exs los observedAt st \<and> (\<forall>r \<in> set (enumerate 0 exs).
      isUntrackedExchangeOpenCandidate (snd r) \<and> silent (rw_results st) \<longrightarrow> trackedOpenOrder env exs los (snd r))"
  proof (rule foldR_each [OF loop])
    show "ordersInvariant env exs los observedAt emptyReconcileState" by (rule ordersInvariant_empty)
  next
    fix r st st'
    assume r: "r \<in> set (enumerate 0 exs)" and inv: "ordersInvariant env exs los observedAt st"
      and step: "exchangeStep env los observedAt r st = Inr st'"
    show "ordersInvariant env exs los observedAt st' \<and>
        (isUntrackedExchangeOpenCandidate (snd r) \<and> silent (rw_results st') \<longrightarrow> trackedOpenOrder env exs los (snd r))"
      using ordersInvariant_move [OF exchangeStep_moves [OF step rows [OF r]] inv] open_step_tracked [OF inv step rows [OF r]] by blast
  next
    fix r r' st st'
    assume r: "r \<in> set (enumerate 0 exs)" and step: "exchangeStep env los observedAt r st = Inr st'"
      and "isUntrackedExchangeOpenCandidate (snd r') \<and> silent (rw_results st) \<longrightarrow> trackedOpenOrder env exs los (snd r')"
    then show "isUntrackedExchangeOpenCandidate (snd r') \<and> silent (rw_results st') \<longrightarrow> trackedOpenOrder env exs los (snd r')"
      using reconcile_move_monotone [OF exchangeStep_moves [OF step rows [OF r]]] by blast
  qed
  then show ?thesis by (metis (no_types, lifting) imageE map_snd_enumerate set_map)
qed

lemma reconcileOrders_localLoop:
  assumes loop: "foldR (localStep env (enumerate 0 exs) observedAt) los st = Inr st'" and inv: "ordersInvariant env exs los observedAt st"
  shows "ordersInvariant env exs los observedAt st' \<and> (silent (rw_results st') \<longrightarrow> silent (rw_results st)) \<and>
    (\<forall>lo \<in> set los. silent (rw_results st') \<longrightarrow> lo_orderId lo \<in> set (rw_matchedLocalIds st'))"
proof -
  have rows: "snd ` set (enumerate 0 exs) \<subseteq> set exs" by (metis map_snd_enumerate set_map order_refl)
  let ?I = "\<lambda>x. ordersInvariant env exs los observedAt x \<and> (silent (rw_results x) \<longrightarrow> silent (rw_results st))"
  have move: "?I y \<and> set (rw_matchedLocalIds x) \<subseteq> set (rw_matchedLocalIds y) \<and> (silent (rw_results y) \<longrightarrow> silent (rw_results x)) \<and>
      (silent (rw_results y) \<longrightarrow> lo_orderId lo \<in> set (rw_matchedLocalIds y))"
    if lo: "lo \<in> set los" and x: "?I x" and step: "localStep env (enumerate 0 exs) observedAt lo x = Inr y" for lo x y
  proof (cases "y = x")
    case True
    then show ?thesis using localStep_moves [OF step rows lo] x by auto
  next
    case False
    then have "reconcile_move env exs los observedAt x y" using localStep_moves [OF step rows lo] by blast
    then show ?thesis
      using localStep_moves [OF step rows lo] x reconcile_move_monotone ordersInvariant_move by blast
  qed
  have "?I st' \<and> (\<forall>lo \<in> set los. silent (rw_results st') \<longrightarrow> lo_orderId lo \<in> set (rw_matchedLocalIds st'))"
  proof (rule foldR_each [OF loop])
    show "?I st" using inv by simp
  qed (use move in blast)+
  then show ?thesis by blast
qed

text \<open>Every result is sound, no order is matched twice, and a silent comparison has accounted for all orders.\<close>

lemma reconcileOrders_sound:
  assumes "reconcileOrders env exs los observedAt = Inr results"
  shows "(\<forall>res \<in> set results. reportOnly res \<or> evaluatedPair env exs los observedAt res) \<and> distinct (matchedIds results) \<and>
    (silent results \<longrightarrow> (\<forall>lo \<in> set los. lo_orderId lo \<in> set (matchedIds results)) \<and>
      (\<forall>ex \<in> set exs. isUntrackedExchangeOpenCandidate ex \<longrightarrow> trackedOpenOrder env exs los ex))"
proof -
  obtain st st' where first: "foldR (exchangeStep env los observedAt) (enumerate 0 exs) emptyReconcileState = Inr st"
    and second: "foldR (localStep env (enumerate 0 exs) observedAt) los st = Inr st'" and results: "results = rw_results st'"
    using assms by (auto simp: reconcileOrders_def Let_def elim!: bindR_InrE)
  note one = reconcileOrders_exchangeLoop [OF first]
  note two = reconcileOrders_localLoop [OF second conjunct1 [OF one]]
  show ?thesis using one two unfolding results ordersInvariant_def by blast
qed

text \<open>A silent comparison leaves every local order matched by a snapshot, and the pair accounted for.\<close>

lemma reconcileOrders_silent:
  assumes run: "reconcileOrders env exs los observedAt = Inr results" and quiet: "silent results"
    and ids: "distinct (map lo_orderId los)" and lo: "lo \<in> set los"
  shows "\<exists>ex \<in> set exs. isMatch env ex lo \<and> pairAccounted ex lo (List.map_filter pp_stateAdvancement results)"
proof -
  note sound = reconcileOrders_sound [OF run]
  from sound quiet lo have "lo_orderId lo \<in> set (matchedIds results)" by blast
  then obtain res where res: "res \<in> set results" "pp_identityMatch res \<noteq> None" "pp_localOrderId res = Some (lo_orderId lo)"
    by (auto simp: matchedIds_def map_filter_def split: if_splits)
  then have "\<not> reportOnly res" by (simp add: reportOnly_def)
  with sound res(1) obtain ex lo' t i where pair: "ex \<in> set exs" "lo' \<in> set los" "matchOrderIdentity env ex lo' = Inr (Matched t i)"
    and eval: "evaluateMatchedPair ex lo' (t, i) observedAt = Inr res"
    unfolding evaluatedPair_def by blast
  have "lo_orderId lo' = lo_orderId lo" using evaluateMatchedPair_shape [OF eval] res(3) by simp
  then have "lo' = lo" using ids lo pair(2) by (auto simp: distinct_map dest: inj_onD)
  moreover have "pairAccounted ex lo' (List.map_filter pp_stateAdvancement results)"
  proof (rule pairAccounted_mono)
    show "pairAccounted ex lo' (case pp_stateAdvancement res of None \<Rightarrow> [] | Some adv \<Rightarrow> [adv])"
      using evaluateMatchedPair_clean [OF eval] quiet res(1) by (simp add: silent_def list_all_iff)
    show "set (case pp_stateAdvancement res of None \<Rightarrow> [] | Some adv \<Rightarrow> [adv]) \<subseteq> set (List.map_filter pp_stateAdvancement results)"
      using res(1) by (cases "pp_stateAdvancement res") (auto simp: map_filter_def intro: rev_image_eqI [of res])
  qed
  moreover have "isMatch env ex lo'" using pair(3) by (simp add: isMatch_def)
  ultimately show ?thesis using pair(1) by blast
qed

end
