(* ===== verification/Reconcile_Engine.thy ===== *)
theory Reconcile_Engine
  imports Reconcile_Orders "HOL-Library.Product_Lexorder" "HOL-Library.Multiset"
begin

text \<open>
  The reconcile engine: \<^verbatim>\<open>application/live-reconcile/balance-policy.ts\<close>, which explains locked balances by
  the open orders, and \<^verbatim>\<open>engine.ts\<close>, which reads order snapshots from the event stream, puts the
  snapshots in order of strength, runs all checks and decides whether the system must fail closed.

  The theory shows when balances are accepted, which orders a run may advance and what a run without
  findings establishes.
\<close>

section \<open>Balances\<close>

record reported_balance =
  bs_currency :: string
  bs_available :: numeric
  bs_locked :: numeric
  bs_total :: numeric
  bs_updatedAt :: time_input
  bs_metadata :: "json_record option"

datatype balance_status = BALANCE_OK | LOCK_MISMATCH | NOT_AVAILABLE

text \<open>
  Operations of a decimal with a text: \<^verbatim>\<open>eq\<close>, \<^verbatim>\<open>mul\<close> and \<^verbatim>\<open>plus\<close> refuse a text that is no number and go on
  with one that is not finite.
\<close>

fun decimalEq :: "rat \<Rightarrow> numeric \<Rightarrow> bool result" where
  "decimalEq a (Num b) = Inr (a = b)"
| "decimalEq a NegZero = Inr (a = 0)"
| "decimalEq a (NonFinite s) = Inr False"
| "decimalEq a (NotDecimal s) = Inl (DecimalSyntaxError s)"

fun timesText :: "rounding \<Rightarrow> rat \<Rightarrow> numeric \<Rightarrow> numeric result" where
  "timesText rnd a (Num b) = Inr (Num (dtimes rnd a b))"
| "timesText rnd a NegZero = Inr (Num (dtimes rnd a 0))"
| "timesText rnd a (NonFinite s) =
     Inr (NonFinite (if s = ''NaN'' \<or> a = 0 then ''NaN'' else if (a < 0) = (s = ''-Infinity'') then ''Infinity'' else ''-Infinity''))"
| "timesText rnd a (NotDecimal s) = Inl (DecimalSyntaxError s)"

definition plusText :: "rounding \<Rightarrow> numeric \<Rightarrow> numeric \<Rightarrow> numeric result" where
  "plusText rnd x y =
     (case (x, y) of
        (NotDecimal s, _) \<Rightarrow> Inl (DecimalSyntaxError s)
      | (_, NotDecimal s) \<Rightarrow> Inl (DecimalSyntaxError s)
      | (NonFinite s, NonFinite t) \<Rightarrow> Inr (NonFinite (if s = t then s else ''NaN''))
      | (NonFinite s, _) \<Rightarrow> Inr x
      | (_, NonFinite t) \<Rightarrow> Inr y
      | _ \<Rightarrow> bindR (parseFinancialDecimal x) (\<lambda>a. bindR (parseFinancialDecimal y) (\<lambda>b. Inr (Num (dplus rnd a b)))))"

definition createBalanceLockMismatch :: "string \<Rightarrow> json \<Rightarrow> json \<Rightarrow> string \<Rightarrow> string \<Rightarrow> mismatch_evidence" where
  "createBalanceLockMismatch currency exchangeLocked expectedLocked observedAt field =
     \<lparr>me_mismatchType = BALANCE_LOCK_MISMATCH, me_severity = SEV_ERROR, me_market = None, me_orderIdentity = None,
      me_currency = Some currency, me_evidenceFingerprint = ''balance-lock:'' @ currency @ '':'' @ field @ '':'' @ observedAt,
      me_trace = [(''currency'', JStr currency), (''exchangeLocked'', exchangeLocked), (''expectedLocked'', expectedLocked),
        (''field'', JStr field), (''timestamp'', JStr observedAt)],
      me_occurredAt = observedAt\<rparr>"

definition createBalanceSnapshotUnavailableMismatch :: "string \<Rightarrow> string \<Rightarrow> mismatch_evidence" where
  "createBalanceSnapshotUnavailableMismatch source observedAt =
     \<lparr>me_mismatchType = BALANCE_SNAPSHOT_UNAVAILABLE, me_severity = SEV_ERROR, me_market = None, me_orderIdentity = None,
      me_currency = None, me_evidenceFingerprint = ''balance-snapshot-unavailable:'' @ source @ '':'' @ observedAt,
      me_trace = [(''source'', JStr source), (''timestamp'', JStr observedAt)], me_occurredAt = observedAt\<rparr>"

section \<open>Expected locks\<close>

definition getBuyOrderRemainingFee :: "local_order \<Rightarrow> numeric result" where
  "getBuyOrderRemainingFee lo =
     (case lo_remainingFee lo of
        Some fee \<Rightarrow> Inr fee
      | None \<Rightarrow>
         (case lo_reservedFee lo of
            None \<Rightarrow> Inr (Num 0)
          | Some fee \<Rightarrow>
             bindR (parseFinancialDecimal (lo_remainingQuantity lo)) (\<lambda>remaining.
             bindR (decimalEq remaining (lo_requestedQuantity lo)) (\<lambda>untouched.
             Inr (if untouched then fee else Num 0)))))"

record expected_locked =
  el_lockedByCurrency :: "(string \<times> numeric) list"
  el_priceMissingBuyOrders :: "local_order list"

definition lockedOf :: "string \<Rightarrow> (string \<times> numeric) list \<Rightarrow> numeric" where
  "lockedOf currency locked = (case map_of locked currency of None \<Rightarrow> Num 0 | Some n \<Rightarrow> n)"

definition addLocked :: "rounding \<Rightarrow> string \<Rightarrow> numeric \<Rightarrow> expected_locked \<Rightarrow> expected_locked result" where
  "addLocked rnd currency amount e =
     bindR (parseFinancialDecimal (lockedOf currency (el_lockedByCurrency e))) (\<lambda>current.
     bindR (plusText rnd (Num current) amount) (\<lambda>next.
     Inr (e\<lparr>el_lockedByCurrency := AList.update currency next (el_lockedByCurrency e)\<rparr>)))"

definition releasesLock :: "order_status \<Rightarrow> bool" where
  "releasesLock s \<longleftrightarrow> s \<in> {CANCELED, REJECTED, EXPIRED, FAILED}"

definition lockOrder :: "rounding \<Rightarrow> local_order \<Rightarrow> expected_locked \<Rightarrow> expected_locked result" where
  "lockOrder rnd lo e =
     (if releasesLock (lo_status lo) then Inr e
      else case lo_side lo of
        BUY \<Rightarrow>
          (case lo_requestedPrice lo of
             None \<Rightarrow> Inr (e\<lparr>el_priceMissingBuyOrders := el_priceMissingBuyOrders e @ [lo],
                 el_lockedByCurrency := (if map_of (el_lockedByCurrency e) ''KRW'' = None
                   then AList.update ''KRW'' (Num 0) (el_lockedByCurrency e) else el_lockedByCurrency e)\<rparr>)
           | Some price \<Rightarrow>
              bindR (getBuyOrderRemainingFee lo) (\<lambda>fee.
              bindR (parseFinancialDecimal (lo_remainingQuantity lo)) (\<lambda>remaining.
              bindR (timesText rnd remaining price) (\<lambda>notional.
              bindR (plusText rnd notional fee) (\<lambda>amount. addLocked rnd ''KRW'' amount e)))))
      | SELL \<Rightarrow> addLocked rnd (afterLastHyphen (lo_market lo)) (lo_remainingQuantity lo) e)"

definition computeExpectedLocked :: "rounding \<Rightarrow> local_order list \<Rightarrow> expected_locked result" where
  "computeExpectedLocked rnd los = foldR (lockOrder rnd) los \<lparr>el_lockedByCurrency = [], el_priceMissingBuyOrders = []\<rparr>"

section \<open>The balance check\<close>

definition indexByCurrency :: "reported_balance list \<Rightarrow> (string \<times> reported_balance) list" where
  "indexByCurrency balances = fold (\<lambda>b. AList.update (bs_currency b) b) balances []"

text \<open>The keys of two maps as a set in the order of insertion.\<close>

definition unionKeys :: "string list \<Rightarrow> string list \<Rightarrow> string list" where
  "unionKeys xs ys = rev (remdups (rev (xs @ ys)))"

definition appendBalanceFieldMismatch ::
  "string \<Rightarrow> string \<Rightarrow> numeric \<Rightarrow> numeric \<Rightarrow> string \<Rightarrow> mismatch_evidence list result" where
  "appendBalanceFieldMismatch currency field localValue exchangeValue observedAt =
     bindR (parseFinancialDecimal localValue) (\<lambda>v.
     bindR (decimalEq v exchangeValue) (\<lambda>same.
     Inr (if same then [] else [createBalanceLockMismatch currency (JNum exchangeValue) (JNum localValue) observedAt field])))"

definition balanceMismatches ::
  "(string \<times> reported_balance) list \<Rightarrow> (string \<times> reported_balance) list \<Rightarrow> string \<Rightarrow> string \<Rightarrow> mismatch_evidence list result" where
  "balanceMismatches localByCurrency exchangeByCurrency observedAt currency =
     (case (map_of localByCurrency currency, map_of exchangeByCurrency currency) of
        (None, Some ex) \<Rightarrow> Inr [createBalanceLockMismatch currency (JNum (bs_locked ex)) (JStr ''LOCAL_SNAPSHOT_MISSING'')
                              observedAt ''local_snapshot_missing'']
      | (Some lo, None) \<Rightarrow> Inr [createBalanceLockMismatch currency (JStr ''EXCHANGE_SNAPSHOT_MISSING'') (JNum (bs_locked lo))
                              observedAt ''exchange_snapshot_missing'']
      | (None, None) \<Rightarrow> Inr []
      | (Some lo, Some ex) \<Rightarrow>
          bindR (appendBalanceFieldMismatch currency ''available'' (bs_available lo) (bs_available ex) observedAt) (\<lambda>a.
          bindR (appendBalanceFieldMismatch currency ''locked'' (bs_locked lo) (bs_locked ex) observedAt) (\<lambda>b.
          bindR (appendBalanceFieldMismatch currency ''total'' (bs_total lo) (bs_total ex) observedAt) (\<lambda>c.
          Inr (a @ b @ c)))))"

definition appendBalanceSnapshotMismatches ::
  "(string \<times> reported_balance) list \<Rightarrow> (string \<times> reported_balance) list \<Rightarrow> string \<Rightarrow> mismatch_evidence list result" where
  "appendBalanceSnapshotMismatches localByCurrency exchangeByCurrency observedAt =
     bindR (mapR (balanceMismatches localByCurrency exchangeByCurrency observedAt)
       (unionKeys (map fst localByCurrency) (map fst exchangeByCurrency))) (\<lambda>ms. Inr (concat ms))"

definition lockMismatch ::
  "(string \<times> numeric) list \<Rightarrow> (string \<times> reported_balance) list \<Rightarrow> string \<Rightarrow> string \<Rightarrow> mismatch_evidence list result" where
  "lockMismatch expected exchangeByCurrency observedAt currency =
     (let exchangeLocked = (case map_of exchangeByCurrency currency of None \<Rightarrow> Num 0 | Some b \<Rightarrow> bs_locked b);
          expectedLocked = lockedOf currency expected
      in bindR (parseFinancialDecimal expectedLocked) (\<lambda>v.
         bindR (decimalEq v exchangeLocked) (\<lambda>same.
         Inr (if same then [] else [createBalanceLockMismatch currency (JNum exchangeLocked) (JNum expectedLocked) observedAt ''expected_locked'']))))"

definition priceMissingMismatch :: "string \<Rightarrow> local_order \<Rightarrow> mismatch_evidence" where
  "priceMissingMismatch observedAt lo =
     createBalanceLockMismatch ''KRW'' (JStr ''UNKNOWN'') (JStr ''BUY_ORDER_PRICE_MISSING'') observedAt (''buy_price_missing:'' @ lo_orderId lo)"

text \<open>A snapshot that is undefined or empty is not available.\<close>

fun unavailable :: "reported_balance list option \<Rightarrow> bool" where
  "unavailable None = True"
| "unavailable (Some bs) = (bs = [])"

definition checkBalanceLock ::
  "rounding \<Rightarrow> local_order list \<Rightarrow> reported_balance list option \<Rightarrow> reported_balance list option \<Rightarrow> string
    \<Rightarrow> (mismatch_evidence list \<times> balance_status) result" where
  "checkBalanceLock rnd los localBalances exchangeBalances observedAt =
     (let missing = (\<lambda>source. Inr ([createBalanceSnapshotUnavailableMismatch source observedAt], NOT_AVAILABLE))
      in if unavailable localBalances \<and> unavailable exchangeBalances then missing ''BOTH''
         else if unavailable localBalances then missing ''LOCAL''
         else if unavailable exchangeBalances then missing ''EXCHANGE''
         else
           let localByCurrency = indexByCurrency (case localBalances of None \<Rightarrow> [] | Some bs \<Rightarrow> bs);
               exchangeByCurrency = indexByCurrency (case exchangeBalances of None \<Rightarrow> [] | Some bs \<Rightarrow> bs)
           in bindR (computeExpectedLocked rnd los) (\<lambda>expected.
              bindR (appendBalanceSnapshotMismatches localByCurrency exchangeByCurrency observedAt) (\<lambda>m1.
              bindR (mapR (lockMismatch (el_lockedByCurrency expected) exchangeByCurrency observedAt)
                (unionKeys (map fst (el_lockedByCurrency expected)) (map fst exchangeByCurrency))) (\<lambda>m3.
              let mismatches = m1 @ map (priceMissingMismatch observedAt) (el_priceMissingBuyOrders expected) @ concat m3
              in Inr (mismatches, if mismatches \<noteq> [] then LOCK_MISMATCH else BALANCE_OK)))))"

section \<open>Order snapshots from events\<close>

fun isFiniteNumber :: "js_number \<Rightarrow> bool" where
  "isFiniteNumber (JsFinite r) = True"
| "isFiniteNumber _ = False"

fun readStringField :: "reconcile_env \<Rightarrow> (string \<times> wire_value) list \<Rightarrow> string list \<Rightarrow> string option" where
  "readStringField env payload [] = None"
| "readStringField env payload (name # names) =
     (case map_of payload name of
        Some (WireText s) \<Rightarrow> if s \<noteq> [] then Some s else readStringField env payload names
      | Some (WireNumber n) \<Rightarrow> if isFiniteNumber n then Some (re_numberText env n) else readStringField env payload names
      | _ \<Rightarrow> readStringField env payload names)"

text \<open>A field that holds an amount is kept as the decimal that is read from its text.\<close>

definition readAmountField :: "reconcile_env \<Rightarrow> (string \<times> wire_value) list \<Rightarrow> string list \<Rightarrow> numeric option" where
  "readAmountField env payload names = map_option (re_readDecimal env) (readStringField env payload names)"

definition normalizeWebSocketOrderSide :: "string option \<Rightarrow> order_side option" where
  "normalizeWebSocketOrderSide side =
     (case map_option toUpperCase side of
        None \<Rightarrow> None
      | Some s \<Rightarrow> if s = ''BUY'' \<or> s = ''BID'' then Some BUY else if s = ''SELL'' \<or> s = ''ASK'' then Some SELL else None)"

definition isPositiveFinancialDecimalString :: "numeric \<Rightarrow> bool" where
  "isPositiveFinancialDecimalString n = (case parseFinancialDecimal n of Inl e \<Rightarrow> False | Inr r \<Rightarrow> 0 < r)"

definition normalizeWebSocketExchangeStatus :: "string option \<Rightarrow> numeric option \<Rightarrow> string option" where
  "normalizeWebSocketExchangeStatus raw remaining =
     (if raw \<noteq> Some ''trade'' then raw
      else if (case remaining of None \<Rightarrow> False | Some q \<Rightarrow> isPositiveFinancialDecimalString q) then Some ''wait'' else Some ''done'')"

definition remainingNames :: "string list" where
  "remainingNames = [''remainingQuantity'', ''remaining_quantity'', ''remainingVolume'', ''remaining_volume'', ''rv'']"

definition reconstructTradeOrderQuantity :: "reconcile_env \<Rightarrow> (string \<times> wire_value) list \<Rightarrow> numeric option" where
  "reconstructTradeOrderQuantity env payload =
     (case (readAmountField env payload remainingNames,
            readAmountField env payload [''executedQuantity'', ''executed_quantity'', ''executedVolume'', ''executed_volume'', ''ev'']) of
        (Some remaining, Some executed) \<Rightarrow>
          (case (parseFinancialDecimal remaining, parseFinancialDecimal executed) of
             (Inr a, Inr b) \<Rightarrow> Some (Num (dplus (re_rounding env) a b))
           | _ \<Rightarrow> None)
      | _ \<Rightarrow> None)"

definition readWebSocketRequestedQuantity ::
  "reconcile_env \<Rightarrow> (string \<times> wire_value) list \<Rightarrow> string option \<Rightarrow> numeric option" where
  "readWebSocketRequestedQuantity env payload raw =
     (case readAmountField env payload [''requestedQuantity'', ''requested_quantity'', ''orderQuantity'', ''order_quantity''] of
        Some q \<Rightarrow> Some q
      | None \<Rightarrow>
         if raw = Some ''trade'' \<and> readStringField env payload [''type''] \<noteq> Some ''MY_ORDER''
         then reconstructTradeOrderQuantity env payload
         else readAmountField env payload [''volume'', ''v''])"

definition readWebSocketRequestedPrice ::
  "reconcile_env \<Rightarrow> (string \<times> wire_value) list \<Rightarrow> string option \<Rightarrow> numeric option" where
  "readWebSocketRequestedPrice env payload raw =
     (case readAmountField env payload [''requestedPrice'', ''requested_price'', ''orderPrice'', ''order_price''] of
        Some p \<Rightarrow> Some p
      | None \<Rightarrow> if raw = Some ''trade'' then None else readAmountField env payload [''price'', ''p''])"

definition toWebSocketOrderSnapshot :: "reconcile_env \<Rightarrow> websocket_event \<Rightarrow> exchange_order option" where
  "toWebSocketOrderSnapshot env event =
     (if we_type event \<noteq> EV_myOrder then None
      else
        let payload = we_payload event;
            raw = readStringField env payload [''exchangeStatus'', ''exchange_status'', ''state'', ''s''];
            remaining = readAmountField env payload remainingNames
        in case (readStringField env payload [''market'', ''code'', ''cd''],
                 normalizeWebSocketOrderSide (readStringField env payload [''side'', ''ask_bid'', ''ab'']),
                 normalizeWebSocketExchangeStatus raw remaining,
                 readWebSocketRequestedQuantity env payload raw) of
             (Some market, Some side, Some status, Some quantity) \<Rightarrow>
               Some \<lparr>eo_exchangeOrderId = readStringField env payload
                       [''exchangeOrderId'', ''exchange_order_id'', ''orderId'', ''order_id'', ''uuid'', ''uid''],
                     eo_identifier = readStringField env payload [''identifier''],
                     eo_market = market, eo_side = side, eo_exchangeStatus = status, eo_requestedQuantity = quantity,
                     eo_remainingQuantity = remaining, eo_requestedPrice = readWebSocketRequestedPrice env payload raw,
                     eo_source = SRC_ws, eo_capturedAt = we_occurredAt event\<rparr>
           | _ \<Rightarrow> None)"

definition canUseWebSocketOrderSnapshots :: "websocket_context \<Rightarrow> bool" where
  "canUseWebSocketOrderSnapshots wc \<longleftrightarrow>
     wc_bootstrapCompleteAt wc \<noteq> None \<and>
     (case wc_disconnectEvidence wc of
        None \<Rightarrow> True
      | Some d \<Rightarrow> \<not> (dv_disconnectedAt d \<noteq> None \<or> dv_reconnectedAt d \<noteq> None \<or>
                      isPositiveNumber (dv_gapDurationMs d) \<or> isPositiveNumber (dv_reconnectCount d)))"

definition buildWebSocketOrderSnapshots :: "reconcile_env \<Rightarrow> websocket_context \<Rightarrow> exchange_order list" where
  "buildWebSocketOrderSnapshots env wc =
     (if canUseWebSocketOrderSnapshots wc then List.map_filter (toWebSocketOrderSnapshot env) (wc_events wc) else [])"

section \<open>The strength of a snapshot\<close>

fun getExchangeSnapshotSourceRank :: "snapshot_source \<Rightarrow> nat" where
  "getExchangeSnapshotSourceRank SRC_lookup = 0"
| "getExchangeSnapshotSourceRank SRC_closed = 1"
| "getExchangeSnapshotSourceRank SRC_open = 2"
| "getExchangeSnapshotSourceRank SRC_ws = 3"

definition toTimestampMs :: "reconcile_env \<Rightarrow> exchange_order \<Rightarrow> int option" where
  "toTimestampMs env ex = newDate (re_dates env) (eo_capturedAt ex)"

text \<open>
  Later captures come first, at the same time the stronger source. The sort is stable. With an invalid
  capture time the comparison is not consistent and the order is left to the language.
\<close>

definition prioritizeExchangeOrderSnapshots :: "reconcile_env \<Rightarrow> exchange_order list \<Rightarrow> exchange_order list" where
  "prioritizeExchangeOrderSnapshots env exs =
     (if list_all (\<lambda>ex. toTimestampMs env ex \<noteq> None) exs
      then sort_key (\<lambda>ex. (- the (toTimestampMs env ex), getExchangeSnapshotSourceRank (eo_source ex))) exs
      else re_sortUntimed env exs)"

section \<open>Decision and summary\<close>

fun mismatchRequiresManualReview :: "mismatch_type \<Rightarrow> bool" where
  "mismatchRequiresManualReview CANCEL_FAILURE_RETRY_NEEDED = True"
| "mismatchRequiresManualReview EXCHANGE_CANCEL_STATE_MISMATCH = True"
| "mismatchRequiresManualReview ORDER_STATE_ADVANCEMENT_BLOCKED = True"
| "mismatchRequiresManualReview ORDER_IDENTITY_CONFLICT = True"
| "mismatchRequiresManualReview WEBSOCKET_GAP_MANUAL_REVIEW = True"
| "mismatchRequiresManualReview BALANCE_LOCK_MISMATCH = True"
| "mismatchRequiresManualReview BALANCE_SNAPSHOT_UNAVAILABLE = True"
| "mismatchRequiresManualReview CLOSED_ORDER_WINDOW_EXCEEDED = True"
| "mismatchRequiresManualReview UNTRACKED_EXCHANGE_OPEN_ORDER = False"
| "mismatchRequiresManualReview LOCAL_OPEN_ORDER_MISSING_ON_EXCHANGE = False"
| "mismatchRequiresManualReview PARTIAL_FILL_MISMATCH = False"

definition determineFailClosed :: "mismatch_evidence list \<Rightarrow> bool \<times> kill_switch_state option" where
  "determineFailClosed mismatches =
     (if mismatches = [] then (False, None)
      else (True, Some (fold (\<lambda>m target. if mismatchRequiresManualReview (me_mismatchType m) then KS_MANUAL_REVIEW_REQUIRED else target)
              mismatches KS_NEW_ORDERS_BLOCKED)))"

definition isSummaryExchangeOpenOrder :: "exchange_order \<Rightarrow> bool" where
  "isSummaryExchangeOpenOrder ex \<longleftrightarrow>
     eo_source ex \<in> {SRC_open, SRC_lookup, SRC_ws} \<and> (eo_exchangeStatus ex = ''wait'' \<or> eo_exchangeStatus ex = ''watch'')"

definition isSummaryExchangeTerminalOrder :: "exchange_order \<Rightarrow> bool" where
  "isSummaryExchangeTerminalOrder ex \<longleftrightarrow> eo_exchangeStatus ex = ''done'' \<or> eo_exchangeStatus ex = ''cancel''"

definition getSummaryExchangeOpenOrderIdentity :: "exchange_order \<Rightarrow> string option" where
  "getSummaryExchangeOpenOrderIdentity ex =
     (case eo_exchangeOrderId ex of
        Some u \<Rightarrow> Some (''uuid:'' @ u)
      | None \<Rightarrow> map_option (\<lambda>i. ''identifier:'' @ i) (eo_identifier ex))"

definition getSummaryLocalOrderIdentities :: "local_order \<Rightarrow> string list" where
  "getSummaryLocalOrderIdentities lo =
     (case lo_exchangeOrderId lo of None \<Rightarrow> [] | Some u \<Rightarrow> [''uuid:'' @ u]) @
     (case lo_identifier lo of None \<Rightarrow> [] | Some i \<Rightarrow> [''identifier:'' @ i])"

definition hasSummarySharedStrongIdentity :: "exchange_order \<Rightarrow> local_order \<Rightarrow> bool" where
  "hasSummarySharedStrongIdentity ex lo \<longleftrightarrow>
     (eo_exchangeOrderId ex \<noteq> None \<and> eo_exchangeOrderId ex = lo_exchangeOrderId lo) \<or>
     (eo_identifier ex \<noteq> None \<and> eo_identifier ex = lo_identifier lo)"

definition addSummaryExchangeIdentityWithLocalBridge :: "exchange_order \<Rightarrow> local_order list \<Rightarrow> string list \<Rightarrow> string list" where
  "addSummaryExchangeIdentityWithLocalBridge ex los seen =
     fold (\<lambda>lo seen. if hasSummarySharedStrongIdentity ex lo
                       then fold List.insert (getSummaryLocalOrderIdentities lo) seen else seen) los
       (case getSummaryExchangeOpenOrderIdentity ex of None \<Rightarrow> seen | Some k \<Rightarrow> List.insert k seen)"

definition countSummaryStep :: "local_order list \<Rightarrow> exchange_order \<Rightarrow> nat \<times> string list \<Rightarrow> nat \<times> string list" where
  "countSummaryStep los ex = (\<lambda>(number, seen).
     if isSummaryExchangeTerminalOrder ex then (number, addSummaryExchangeIdentityWithLocalBridge ex los seen)
     else if \<not> isSummaryExchangeOpenOrder ex then (number, seen)
     else (case getSummaryExchangeOpenOrderIdentity ex of
             None \<Rightarrow> (Suc number, seen)
           | Some k \<Rightarrow> if k \<in> set seen then (number, seen)
                       else (Suc number, addSummaryExchangeIdentityWithLocalBridge ex los seen)))"

definition countSummaryExchangeOpenOrders :: "exchange_order list \<Rightarrow> local_order list \<Rightarrow> nat" where
  "countSummaryExchangeOpenOrders exs los = fst (fold (countSummaryStep los) exs (0, []))"

datatype reconcile_verdict = CLEAN | MISMATCH_DETECTED

record reconcile_summary =
  sm_result :: reconcile_verdict
  sm_mismatchCount :: nat
  sm_exchangeOpenOrders :: nat
  sm_localOpenOrders :: nat
  sm_balanceStatus :: balance_status
  sm_untrackedExchangeOrders :: nat
  sm_missingLocalOrders :: nat
  sm_cancelFailures :: nat
  sm_windowExceededOrders :: nat

definition countOf :: "mismatch_type \<Rightarrow> mismatch_evidence list \<Rightarrow> nat" where
  "countOf t mismatches = length (filter (\<lambda>m. me_mismatchType m = t) mismatches)"

definition buildSummary :: "mismatch_evidence list \<Rightarrow> nat \<Rightarrow> local_order list \<Rightarrow> balance_status \<Rightarrow> reconcile_summary" where
  "buildSummary mismatches exchangeOpenOrderCount los balanceStatus =
     \<lparr>sm_result = (if mismatches \<noteq> [] then MISMATCH_DETECTED else CLEAN), sm_mismatchCount = length mismatches,
      sm_exchangeOpenOrders = exchangeOpenOrderCount, sm_localOpenOrders = length los, sm_balanceStatus = balanceStatus,
      sm_untrackedExchangeOrders = countOf UNTRACKED_EXCHANGE_OPEN_ORDER mismatches,
      sm_missingLocalOrders = countOf LOCAL_OPEN_ORDER_MISSING_ON_EXCHANGE mismatches,
      sm_cancelFailures = countOf CANCEL_FAILURE_RETRY_NEEDED mismatches,
      sm_windowExceededOrders = countOf CLOSED_ORDER_WINDOW_EXCEEDED mismatches\<rparr>"

section \<open>The engine\<close>

record reconcile_input =
  rn_exchangeOpenOrders :: "exchange_order list"
  rn_exchangeClosedOrders :: "exchange_order list"
  rn_orderLookups :: "exchange_order list"
  rn_websocketContext :: websocket_context
  rn_localOpenOrders :: "local_order list"
  rn_localBalances :: "reported_balance list option"
  rn_exchangeBalances :: "reported_balance list option"
  rn_closedOrderWindow :: closed_order_window
  rn_observedAt :: time_input

record reconcile_output =
  rq_summary :: reconcile_summary
  rq_mismatches :: "mismatch_evidence list"
  rq_stateAdvancements :: "state_advancement list"
  rq_failClosed :: bool
  rq_targetKillSwitchState :: "kill_switch_state option"

definition normalizeObservedAt :: "reconcile_env \<Rightarrow> time_input \<Rightarrow> string result" where
  "normalizeObservedAt env t =
     (case t of
        DateInput None \<Rightarrow> Inl (Failure ''Invalid time value'')
      | DateInput (Some ms) \<Rightarrow> Inr (de_toISOString (re_dates env) ms)
      | TextInput s \<Rightarrow> Inr s)"

definition allExchangeOrders :: "reconcile_env \<Rightarrow> reconcile_input \<Rightarrow> exchange_order list" where
  "allExchangeOrders env inp =
     prioritizeExchangeOrderSnapshots env (rn_exchangeOpenOrders inp @ rn_exchangeClosedOrders inp @ rn_orderLookups inp
       @ buildWebSocketOrderSnapshots env (rn_websocketContext inp))"

definition runReconcileEngine :: "reconcile_env \<Rightarrow> reconcile_input \<Rightarrow> reconcile_output result" where
  "runReconcileEngine env inp =
     bindR (normalizeObservedAt env (rn_observedAt inp)) (\<lambda>observedAt.
     let exs = allExchangeOrders env inp; los = rn_localOpenOrders inp in
     bindR (reconcileOrders env exs los observedAt) (\<lambda>orderResults.
     let verified = List.map_filter (\<lambda>res. if pp_identityMatch res = None then None else pp_localOrderId res) orderResults;
         before = concat (map pp_mismatches orderResults)
           @ checkClosedOrderWindow env los (rn_closedOrderWindow inp) observedAt verified
           @ checkWebSocketGap env (rn_websocketContext inp) observedAt in
     bindR (checkBalanceLock (re_rounding env) los (rn_localBalances inp) (rn_exchangeBalances inp) observedAt) (\<lambda>(found, status).
     let mismatches = before @ found; decision = determineFailClosed mismatches in
     Inr \<lparr>rq_summary = buildSummary mismatches (countSummaryExchangeOpenOrders exs los) los status,
          rq_mismatches = mismatches, rq_stateAdvancements = List.map_filter pp_stateAdvancement orderResults,
          rq_failClosed = fst decision, rq_targetKillSwitchState = snd decision\<rparr>)))"

section \<open>What an accepted balance means\<close>

definition amountOf :: "numeric \<Rightarrow> rat" where
  "amountOf n = (case parseFinancialDecimal n of Inl e \<Rightarrow> 0 | Inr r \<Rightarrow> r)"

definition remainingBuyFee :: "local_order \<Rightarrow> rat" where
  "remainingBuyFee lo =
     (case lo_remainingFee lo of
        Some fee \<Rightarrow> amountOf fee
      | None \<Rightarrow> (case lo_reservedFee lo of
          None \<Rightarrow> 0
        | Some fee \<Rightarrow> if amountOf (lo_remainingQuantity lo) = amountOf (lo_requestedQuantity lo) then amountOf fee else 0))"

definition buyNotional :: "local_order \<Rightarrow> rat" where
  "buyNotional lo = amountOf (lo_remainingQuantity lo) * (case lo_requestedPrice lo of None \<Rightarrow> 0 | Some p \<Rightarrow> amountOf p)"

definition unpricedBuy :: "local_order \<Rightarrow> bool" where
  "unpricedBuy lo \<longleftrightarrow> \<not> releasesLock (lo_status lo) \<and> lo_side lo = BUY \<and> lo_requestedPrice lo = None"

text \<open>
  What an order that holds a lock locks of a currency: a purchase its open notional and fee in KRW, a sale
  its open quantity of the coin.
\<close>

definition lockContribution :: "string \<Rightarrow> local_order \<Rightarrow> rat" where
  "lockContribution c lo =
     (if releasesLock (lo_status lo) \<or> unpricedBuy lo then 0
      else case lo_side lo of
        BUY \<Rightarrow> if c = ''KRW'' then buyNotional lo + remainingBuyFee lo else 0
      | SELL \<Rightarrow> if c = afterLastHyphen (lo_market lo) then amountOf (lo_remainingQuantity lo) else 0)"

definition lockTotal :: "local_order list \<Rightarrow> string \<Rightarrow> rat" where
  "lockTotal los c = sum_list (map (lockContribution c) los)"

definition readableAmount :: "numeric \<Rightarrow> bool" where
  "readableAmount n \<longleftrightarrow> (case parseFinancialDecimal n of Inl e \<Rightarrow> False | Inr r \<Rightarrow> 0 \<le> r)"

definition lockAmounts :: "nat \<Rightarrow> local_order \<Rightarrow> bool" where
  "lockAmounts k lo \<longleftrightarrow>
     readableAmount (lo_remainingQuantity lo) \<and> readableAmount (lo_requestedQuantity lo) \<and>
     (case lo_requestedPrice lo of None \<Rightarrow> True | Some p \<Rightarrow> readableAmount p) \<and>
     (case lo_remainingFee lo of None \<Rightarrow> True | Some f \<Rightarrow> readableAmount f) \<and>
     (case lo_reservedFee lo of None \<Rightarrow> True | Some f \<Rightarrow> readableAmount f) \<and>
     onGrid k (amountOf (lo_remainingQuantity lo)) \<and> onGrid k (buyNotional lo) \<and> onGrid k (remainingBuyFee lo)"

lemma readableAmount_parse: "readableAmount n \<Longrightarrow> parseFinancialDecimal n = Inr (amountOf n) \<and> 0 \<le> amountOf n"
  by (auto simp: readableAmount_def amountOf_def split: sum.splits)

lemma decimalEq_readable: "readableAmount n \<Longrightarrow> decimalEq a n = Inr (a = amountOf n)"
  by (cases n) (auto simp: readableAmount_def amountOf_def)

lemma timesText_readable: "readableAmount n \<Longrightarrow> timesText rnd a n = Inr (Num (dtimes rnd a (amountOf n)))"
  by (cases n) (auto simp: readableAmount_def amountOf_def)

lemma plusText_readable: "readableAmount n \<Longrightarrow> plusText rnd (Num a) n = Inr (Num (dplus rnd a (amountOf n)))"
  by (cases n) (auto simp: readableAmount_def amountOf_def plusText_def)

lemma getBuyOrderRemainingFee_readable:
  assumes "lockAmounts k lo"
  shows "\<exists>fee. getBuyOrderRemainingFee lo = Inr fee \<and> readableAmount fee \<and> amountOf fee = remainingBuyFee lo"
proof -
  have zero: "readableAmount (Num 0)" "amountOf (Num 0) = 0" by (simp_all add: readableAmount_def amountOf_def)
  show ?thesis
    using assms zero decimalEq_readable [of "lo_requestedQuantity lo"] readableAmount_parse [of "lo_remainingQuantity lo"]
    by (auto simp: lockAmounts_def getBuyOrderRemainingFee_def remainingBuyFee_def split: option.splits)
qed

lemma lockContribution_amounts:
  assumes "lockAmounts k lo"
  shows "0 \<le> buyNotional lo" and "0 \<le> remainingBuyFee lo" and "0 \<le> lockContribution c lo" and "onGrid k (lockContribution c lo)"
proof -
  show notional: "0 \<le> buyNotional lo"
    using assms by (auto simp: lockAmounts_def buyNotional_def split: option.splits dest!: readableAmount_parse)
  show fee: "0 \<le> remainingBuyFee lo"
    using getBuyOrderRemainingFee_readable [OF assms] readableAmount_parse by metis
  show "0 \<le> lockContribution c lo"
    using notional fee assms readableAmount_parse [of "lo_remainingQuantity lo"]
    by (auto simp: lockContribution_def lockAmounts_def split: order_side.splits)
  show "onGrid k (lockContribution c lo)"
    using assms by (auto simp: lockContribution_def lockAmounts_def split: order_side.splits intro: onGrid_plus)
qed

lemma lockTotal_amounts:
  assumes "\<forall>lo \<in> set los. lockAmounts k lo"
  shows "0 \<le> lockTotal los c \<and> onGrid k (lockTotal los c)"
  using assms by (induction los) (auto simp: lockTotal_def lockContribution_amounts intro: onGrid_plus)

lemma addLocked_exact:
  assumes dec: "decimal_js rnd" and cur: "parseFinancialDecimal (lockedOf currency (el_lockedByCurrency e)) = Inr v"
    and amount: "readableAmount amount" and fits: "fitsGrid k (v + amountOf amount)"
  shows "addLocked rnd currency amount e =
    Inr (e\<lparr>el_lockedByCurrency := AList.update currency (Num (v + amountOf amount)) (el_lockedByCurrency e)\<rparr>)"
  using decimal_js.rnd_fits [OF dec fits] by (simp add: addLocked_def cur plusText_readable [OF amount] dplus_def)

lemma lockedOf_update [simp]:
  "lockedOf c (AList.update c' n locked) = (if c = c' then n else lockedOf c locked)"
  by (simp add: lockedOf_def)

lemma lockOrder_exact:
  assumes dec: "decimal_js rnd" and lo: "lockAmounts k lo"
    and cur: "\<And>c. parseFinancialDecimal (lockedOf c (el_lockedByCurrency e)) = Inr (v c)" and pos: "\<And>c. 0 \<le> v c"
    and fits: "\<And>c. fitsGrid k (v c + lockContribution c lo)"
  shows "\<exists>e'. lockOrder rnd lo e = Inr e' \<and>
    (\<forall>c. parseFinancialDecimal (lockedOf c (el_lockedByCurrency e')) = Inr (v c + lockContribution c lo)) \<and>
    el_priceMissingBuyOrders e' = el_priceMissingBuyOrders e @ (if unpricedBuy lo then [lo] else [])"
proof (cases "releasesLock (lo_status lo) \<or> unpricedBuy lo")
  case True
  have "map_of (el_lockedByCurrency e) ''KRW'' = None \<longrightarrow> v ''KRW'' = 0"
    using cur [of "''KRW''"] by (auto simp: lockedOf_def)
  with True show ?thesis
    using cur by (auto simp: lockOrder_def lockContribution_def unpricedBuy_def)
next
  case holds: False
  show ?thesis
  proof (cases "lo_side lo")
    case BUY
    with holds obtain price where price: "lo_requestedPrice lo = Some price" by (auto simp: unpricedBuy_def)
    obtain fee where fee: "getBuyOrderRemainingFee lo = Inr fee" "readableAmount fee" "amountOf fee = remainingBuyFee lo"
      using getBuyOrderRemainingFee_readable [OF lo] by (elim exE conjE)
    have contribution: "lockContribution ''KRW'' lo = buyNotional lo + remainingBuyFee lo"
      using holds BUY by (simp add: lockContribution_def)
    note amounts = lockContribution_amounts [OF lo]
    have grid: "onGrid k (buyNotional lo)" "onGrid k (buyNotional lo + remainingBuyFee lo)"
      using lo by (simp_all add: lockAmounts_def onGrid_plus)
    have "fitsGrid k (v ''KRW'' + (buyNotional lo + remainingBuyFee lo))" using fits [of "''KRW''"] by (simp only: contribution)
    note below = fitsGrid_le [OF this]
    have small: "fitsGrid k (buyNotional lo)" "fitsGrid k (buyNotional lo + remainingBuyFee lo)"
      using below [OF grid(1)] below [OF grid(2)] amounts(1,2) pos [of "''KRW''"] by linarith+
    have notional: "timesText rnd (amountOf (lo_remainingQuantity lo)) price = Inr (Num (buyNotional lo))"
      using lo decimal_js.rnd_fits [OF dec small(1)] timesText_readable [of price rnd "amountOf (lo_remainingQuantity lo)"]
      by (simp add: lockAmounts_def price dtimes_def buyNotional_def)
    have amount: "plusText rnd (Num (buyNotional lo)) fee = Inr (Num (buyNotional lo + remainingBuyFee lo))"
      using plusText_readable [OF fee(2)] decimal_js.rnd_fits [OF dec small(2)] by (simp add: fee(3) dplus_def)
    have readable: "readableAmount (Num (buyNotional lo + remainingBuyFee lo))"
      "amountOf (Num (buyNotional lo + remainingBuyFee lo)) = buyNotional lo + remainingBuyFee lo"
      using amounts(1,2) by (simp_all add: readableAmount_def amountOf_def)
    have "parseFinancialDecimal (lo_remainingQuantity lo) = Inr (amountOf (lo_remainingQuantity lo))"
      using lo readableAmount_parse by (simp add: lockAmounts_def)
    then have "lockOrder rnd lo e = Inr (e\<lparr>el_lockedByCurrency :=
        AList.update ''KRW'' (Num (v ''KRW'' + (buyNotional lo + remainingBuyFee lo))) (el_lockedByCurrency e)\<rparr>)"
      using holds BUY addLocked_exact [OF dec cur readable(1), of k] fits [of "''KRW''"]
      by (simp add: lockOrder_def price fee(1) notional amount contribution readable(2))
    then show ?thesis using cur holds BUY by (simp add: contribution) (simp add: lockContribution_def)
  next
    case SELL
    let ?c = "afterLastHyphen (lo_market lo)"
    have contribution: "lockContribution ?c lo = amountOf (lo_remainingQuantity lo)"
      using holds SELL by (simp add: lockContribution_def)
    have "lockOrder rnd lo e = Inr (e\<lparr>el_lockedByCurrency :=
        AList.update ?c (Num (v ?c + amountOf (lo_remainingQuantity lo))) (el_lockedByCurrency e)\<rparr>)"
      using holds SELL addLocked_exact [OF dec cur, of "lo_remainingQuantity lo" k] fits [of ?c] lo
      by (simp add: lockOrder_def contribution lockAmounts_def)
    then show ?thesis using cur holds SELL by (simp add: contribution) (simp add: lockContribution_def)
  qed
qed

lemma lockTotal_Cons: "lockTotal (lo # los) c = lockContribution c lo + lockTotal los c"
  by (simp add: lockTotal_def)

lemma lockOrders_exact:
  assumes dec: "decimal_js rnd" and amounts: "\<forall>lo \<in> set los. lockAmounts k lo"
    and cur: "\<And>c. parseFinancialDecimal (lockedOf c (el_lockedByCurrency e)) = Inr (v c)"
    and pos: "\<And>c. 0 \<le> v c \<and> onGrid k (v c)" and fits: "\<And>c. fitsGrid k (v c + lockTotal los c)"
  shows "\<exists>e'. foldR (lockOrder rnd) los e = Inr e' \<and>
    (\<forall>c. parseFinancialDecimal (lockedOf c (el_lockedByCurrency e')) = Inr (v c + lockTotal los c)) \<and>
    el_priceMissingBuyOrders e' = el_priceMissingBuyOrders e @ filter unpricedBuy los"
  using amounts cur pos fits
proof (induction los arbitrary: e v)
  case Nil
  then show ?case by (simp add: lockTotal_def)
next
  case (Cons lo los)
  have lo: "lockAmounts k lo" and rest: "\<forall>lo \<in> set los. lockAmounts k lo" using Cons.prems(1) by simp_all
  let ?v = "\<lambda>c. v c + lockContribution c lo"
  note own = lockContribution_amounts(3,4) [OF lo]
  have next_pos: "0 \<le> ?v c \<and> onGrid k (?v c)" for c
    using Cons.prems(3) [of c] own by (simp add: onGrid_plus)
  have total: "v c + lockTotal (lo # los) c = ?v c + lockTotal los c" for c by (simp add: lockTotal_Cons)
  have fits1: "fitsGrid k (?v c)" for c
    using fitsGrid_le [OF Cons.prems(4) [of c, unfolded total], of "?v c"] next_pos lockTotal_amounts [OF rest, of c] by simp
  obtain e' where step: "lockOrder rnd lo e = Inr e'"
    and cur': "\<And>c. parseFinancialDecimal (lockedOf c (el_lockedByCurrency e')) = Inr (?v c)"
    and missing: "el_priceMissingBuyOrders e' = el_priceMissingBuyOrders e @ (if unpricedBuy lo then [lo] else [])"
    using lockOrder_exact [OF dec lo Cons.prems(2) _ fits1] Cons.prems(3) by blast
  show ?case
    using Cons.IH [OF rest cur' next_pos] Cons.prems(4) by (auto simp: step missing total)
qed

lemma computeExpectedLocked_exact:
  assumes "decimal_js rnd" and "\<forall>lo \<in> set los. lockAmounts k lo" and "\<And>c. fitsGrid k (lockTotal los c)"
  shows "\<exists>e. computeExpectedLocked rnd los = Inr e \<and>
    (\<forall>c. parseFinancialDecimal (lockedOf c (el_lockedByCurrency e)) = Inr (lockTotal los c)) \<and>
    el_priceMissingBuyOrders e = filter unpricedBuy los"
  using lockOrders_exact [OF assms(1,2), of "\<lparr>el_lockedByCurrency = [], el_priceMissingBuyOrders = []\<rparr>" "\<lambda>c. 0"] assms(3)
  by (simp add: computeExpectedLocked_def lockedOf_def)

lemma mapR_concat_Nil_iff: "mapR f xs = Inr ys \<Longrightarrow> concat ys = [] \<longleftrightarrow> (\<forall>x \<in> set xs. f x = Inr [])"
  by (induction xs arbitrary: ys) (auto elim!: bindR_InrE)

lemma decimalEq_True_iff: "decimalEq a n = Inr True \<longleftrightarrow> parseFinancialDecimal n = Inr a"
  by (cases n) auto

lemma appendBalanceFieldMismatch_Nil_iff:
  "appendBalanceFieldMismatch currency field a b observedAt = Inr [] \<longleftrightarrow> sameValue a b"
proof (cases "parseFinancialDecimal a")
  case (Inr v)
  have "appendBalanceFieldMismatch currency field a b observedAt = Inr [] \<longleftrightarrow> decimalEq v b = Inr True"
    by (cases "decimalEq v b") (simp_all add: appendBalanceFieldMismatch_def Inr)
  then show ?thesis by (auto simp: sameValue_def Inr decimalEq_True_iff)
qed (simp add: appendBalanceFieldMismatch_def sameValue_def)

text \<open>The last snapshots of a currency agree on all three amounts, or neither side has one.\<close>

definition balanceAgrees :: "reported_balance list \<Rightarrow> reported_balance list \<Rightarrow> string \<Rightarrow> bool" where
  "balanceAgrees lb eb c =
     (case (map_of (indexByCurrency lb) c, map_of (indexByCurrency eb) c) of
        (None, None) \<Rightarrow> True
      | (Some a, Some b) \<Rightarrow> sameValue (bs_available a) (bs_available b) \<and> sameValue (bs_locked a) (bs_locked b) \<and>
                            sameValue (bs_total a) (bs_total b)
      | _ \<Rightarrow> False)"

definition lockedBalance :: "reported_balance list \<Rightarrow> string \<Rightarrow> rat result" where
  "lockedBalance eb c = (case map_of (indexByCurrency eb) c of None \<Rightarrow> Inr 0 | Some b \<Rightarrow> parseFinancialDecimal (bs_locked b))"

lemma balanceMismatches_Nil_iff:
  "balanceMismatches (indexByCurrency lb) (indexByCurrency eb) observedAt c = Inr [] \<longleftrightarrow> balanceAgrees lb eb c"
proof (cases "map_of (indexByCurrency lb) c"; cases "map_of (indexByCurrency eb) c")
  fix a b
  assume "map_of (indexByCurrency lb) c = Some a" "map_of (indexByCurrency eb) c = Some b"
  then show ?thesis
    by (auto simp: balanceMismatches_def balanceAgrees_def bindR_Inr_iff appendBalanceFieldMismatch_Nil_iff)
qed (simp_all add: balanceMismatches_def balanceAgrees_def)

lemma set_unionKeys: "set (unionKeys xs ys) = set xs \<union> set ys"
  by (auto simp: unionKeys_def)

lemma map_of_absent: "c \<notin> set (map fst m) \<Longrightarrow> map_of m c = None"
  by (simp add: map_of_eq_None_iff)

lemma appendBalanceSnapshotMismatches_Nil_iff:
  assumes "appendBalanceSnapshotMismatches (indexByCurrency lb) (indexByCurrency eb) observedAt = Inr ms"
  shows "ms = [] \<longleftrightarrow> (\<forall>c. balanceAgrees lb eb c)"
proof -
  let ?keys = "unionKeys (map fst (indexByCurrency lb)) (map fst (indexByCurrency eb))"
  obtain ys where ys: "mapR (balanceMismatches (indexByCurrency lb) (indexByCurrency eb) observedAt) ?keys = Inr ys" and "ms = concat ys"
    using assms by (auto simp: appendBalanceSnapshotMismatches_def elim!: bindR_InrE)
  then have "ms = [] \<longleftrightarrow> (\<forall>c \<in> set ?keys. balanceAgrees lb eb c)"
    using mapR_concat_Nil_iff [OF ys] by (simp add: balanceMismatches_Nil_iff)
  moreover have "balanceAgrees lb eb c" if "c \<notin> set ?keys" for c
    using that by (simp add: balanceAgrees_def set_unionKeys map_of_absent)
  ultimately show ?thesis by blast
qed

lemma lockMismatch_Nil_iff:
  assumes "parseFinancialDecimal (lockedOf c expected) = Inr v"
  shows "lockMismatch expected (indexByCurrency eb) observedAt c = Inr [] \<longleftrightarrow> lockedBalance eb c = Inr v"
proof -
  define locked where "locked = (case map_of (indexByCurrency eb) c of None \<Rightarrow> Num 0 | Some b \<Rightarrow> bs_locked b)"
  have "lockMismatch expected (indexByCurrency eb) observedAt c = Inr [] \<longleftrightarrow> decimalEq v locked = Inr True"
    by (cases "decimalEq v locked") (simp_all add: lockMismatch_def Let_def assms flip: locked_def)
  moreover have "lockedBalance eb c = parseFinancialDecimal locked"
    by (simp add: lockedBalance_def locked_def split: option.split)
  ultimately show ?thesis by (simp add: decimalEq_True_iff)
qed

lemma lockMismatches_Nil_iff:
  assumes exact: "\<forall>c. parseFinancialDecimal (lockedOf c expected) = Inr (v c)"
    and run: "mapR (lockMismatch expected (indexByCurrency eb) observedAt) (unionKeys (map fst expected) (map fst (indexByCurrency eb))) = Inr ys"
  shows "concat ys = [] \<longleftrightarrow> (\<forall>c. lockedBalance eb c = Inr (v c))"
proof -
  let ?keys = "unionKeys (map fst expected) (map fst (indexByCurrency eb))"
  have "lockedBalance eb c = Inr (v c)" if "c \<notin> set ?keys" for c
  proof -
    have "map_of expected c = None" "map_of (indexByCurrency eb) c = None"
      using that by (simp_all add: set_unionKeys map_of_absent)
    then show ?thesis using exact [rule_format, of c] by (simp add: lockedBalance_def lockedOf_def)
  qed
  moreover have "concat ys = [] \<longleftrightarrow> (\<forall>c \<in> set ?keys. lockedBalance eb c = Inr (v c))"
    using mapR_concat_Nil_iff [OF run] lockMismatch_Nil_iff exact by simp
  ultimately show ?thesis by blast
qed

text \<open>
  C33. Balances are accepted exactly when both snapshots are given, agree in every currency, every open
  purchase has a price, and the exchange has locked of each currency what the open orders lock.
\<close>

theorem balance_ok_iff_explained:
  assumes dec: "decimal_js rnd" and amounts: "\<forall>lo \<in> set los. lockAmounts k lo" and fits: "\<And>c. fitsGrid k (lockTotal los c)"
    and run: "checkBalanceLock rnd los (Some lb) (Some eb) observedAt = Inr (ms, status)"
  shows "status = BALANCE_OK \<longleftrightarrow>
    lb \<noteq> [] \<and> eb \<noteq> [] \<and> (\<forall>c. balanceAgrees lb eb c) \<and> list_all (\<lambda>lo. \<not> unpricedBuy lo) los \<and>
    (\<forall>c. lockedBalance eb c = Inr (lockTotal los c))"
proof (cases "lb = [] \<or> eb = []")
  case True
  then show ?thesis using run by (cases "lb = []"; cases "eb = []") (simp_all add: checkBalanceLock_def Let_def)
next
  case False
  obtain e where e: "computeExpectedLocked rnd los = Inr e"
    and exact: "\<forall>c. parseFinancialDecimal (lockedOf c (el_lockedByCurrency e)) = Inr (lockTotal los c)"
    and missing: "el_priceMissingBuyOrders e = filter unpricedBuy los"
    using computeExpectedLocked_exact [OF dec amounts fits] by (elim exE conjE)
  obtain m1 m3 where m1: "appendBalanceSnapshotMismatches (indexByCurrency lb) (indexByCurrency eb) observedAt = Inr m1"
    and m3: "mapR (lockMismatch (el_lockedByCurrency e) (indexByCurrency eb) observedAt)
      (unionKeys (map fst (el_lockedByCurrency e)) (map fst (indexByCurrency eb))) = Inr m3"
    and status: "status = BALANCE_OK \<longleftrightarrow> m1 @ map (priceMissingMismatch observedAt) (el_priceMissingBuyOrders e) @ concat m3 = []"
    using run False by (auto simp: checkBalanceLock_def Let_def e elim!: bindR_InrE split: if_splits)
  show ?thesis
    using False appendBalanceSnapshotMismatches_Nil_iff [OF m1] lockMismatches_Nil_iff [OF exact m3]
    by (simp add: status missing filter_empty_conv list_all_iff)
qed

section \<open>Runs of the engine\<close>

text \<open>\<^verbatim>\<open>Decimal.toString\<close> is faithful, and sorting permutes its rows whatever the comparison answers.\<close>

definition faithfulReconcileEnv :: "reconcile_env \<Rightarrow> bool" where
  "faithfulReconcileEnv env \<longleftrightarrow>
     plainDecimalText (re_decimalText env) \<and> (\<forall>xs. mset (re_sortUntimed env xs) = mset xs)"

definition suppliedSnapshots :: "reconcile_env \<Rightarrow> reconcile_input \<Rightarrow> exchange_order list" where
  "suppliedSnapshots env inp =
     rn_exchangeOpenOrders inp @ rn_exchangeClosedOrders inp @ rn_orderLookups inp
       @ buildWebSocketOrderSnapshots env (rn_websocketContext inp)"

lemma set_allExchangeOrders:
  assumes "faithfulReconcileEnv env"
  shows "set (allExchangeOrders env inp) = set (suppliedSnapshots env inp)"
proof -
  have "set (re_sortUntimed env xs) = set xs" for xs
    using assms by (metis faithfulReconcileEnv_def set_mset_mset)
  then show ?thesis
    by (simp add: allExchangeOrders_def suppliedSnapshots_def prioritizeExchangeOrderSnapshots_def)
qed

lemma runReconcileEngine_InrE:
  assumes "runReconcileEngine env inp = Inr out"
  obtains observedAt results found status where
    "reconcileOrders env (allExchangeOrders env inp) (rn_localOpenOrders inp) observedAt = Inr results"
    and "checkBalanceLock (re_rounding env) (rn_localOpenOrders inp) (rn_localBalances inp) (rn_exchangeBalances inp) observedAt = Inr (found, status)"
    and "rq_mismatches out = concat (map pp_mismatches results)
      @ checkClosedOrderWindow env (rn_localOpenOrders inp) (rn_closedOrderWindow inp) observedAt (matchedIds results)
      @ checkWebSocketGap env (rn_websocketContext inp) observedAt @ found"
    and "rq_stateAdvancements out = List.map_filter pp_stateAdvancement results"
    and "sm_balanceStatus (rq_summary out) = status"
    and "sm_result (rq_summary out) = (if rq_mismatches out \<noteq> [] then MISMATCH_DETECTED else CLEAN)"
    and "rq_failClosed out = (rq_mismatches out \<noteq> [])"
    and "(rq_failClosed out, rq_targetKillSwitchState out) = determineFailClosed (rq_mismatches out)"
proof -
  obtain observedAt where at: "normalizeObservedAt env (rn_observedAt inp) = Inr observedAt"
    using assms by (auto simp: runReconcileEngine_def elim: bindR_InrE)
  obtain results where orders: "reconcileOrders env (allExchangeOrders env inp) (rn_localOpenOrders inp) observedAt = Inr results"
    using assms by (auto simp: runReconcileEngine_def at Let_def elim: bindR_InrE)
  obtain found status where balance: "checkBalanceLock (re_rounding env) (rn_localOpenOrders inp) (rn_localBalances inp)
      (rn_exchangeBalances inp) observedAt = Inr (found, status)"
    using assms by (simp add: runReconcileEngine_def at orders Let_def) (auto elim!: bindR_InrE)
  show ?thesis
    by (rule that [OF orders balance])
      (use assms in \<open>auto simp: runReconcileEngine_def at orders balance Let_def buildSummary_def matchedIds_def determineFailClosed_def\<close>)
qed

lemma advanced_ids:
  assumes "\<forall>res \<in> set results. reportOnly res \<or> evaluatedPair env exs los observedAt res" and "distinct (matchedIds results)"
  shows "distinct (map sv_localOrderId (List.map_filter pp_stateAdvancement results)) \<and>
    set (map sv_localOrderId (List.map_filter pp_stateAdvancement results)) \<subseteq> set (matchedIds results)"
  using assms
proof (induction results)
  case Nil
  then show ?case by (simp add: map_filter_def)
next
  case (Cons res results)
  have split: "matchedIds (res # results) = matchedIds [res] @ matchedIds results" using matchedIds_append [of "[res]" results] by (simp only: append_Cons append_Nil)
  have rest: "distinct (map sv_localOrderId (List.map_filter pp_stateAdvancement results)) \<and>
      set (map sv_localOrderId (List.map_filter pp_stateAdvancement results)) \<subseteq> set (matchedIds results)"
    using Cons by (simp add: split)
  show ?case
  proof (cases "pp_stateAdvancement res")
    case None
    then show ?thesis using rest by (auto simp: split map_filter_def)
  next
    case (Some adv)
    then have "evaluatedPair env exs los observedAt res" using Cons.prems(1) by (auto simp: reportOnly_def)
    then obtain ex lo t i where eval: "evaluateMatchedPair ex lo (t, i) observedAt = Inr res" by (auto simp: evaluatedPair_def)
    have "sv_localOrderId adv = lo_orderId lo"
      using evaluateMatchedPair_advances [OF eval Some] by (auto simp: advancementCandidate_def)
    moreover have "matchedIds [res] = [lo_orderId lo]"
      using evaluateMatchedPair_shape [OF eval] by (simp add: matchedIds_single)
    ultimately show ?thesis using rest Cons.prems(2) Some by (auto simp: split map_filter_def)
  qed
qed

text \<open>What justifies an advancement: an order of the input and a snapshot that is the same order beyond doubt.\<close>

definition justifiedAdvancement :: "exchange_order list \<Rightarrow> local_order list \<Rightarrow> state_advancement \<Rightarrow> bool" where
  "justifiedAdvancement exs los adv \<longleftrightarrow>
     (\<exists>ex \<in> set exs. \<exists>lo \<in> set los. \<exists>target.
        sv_localOrderId adv = lo_orderId lo \<and> sv_currentLocalStatus adv = lo_status lo \<and> sv_targetLocalStatus adv = Some target \<and>
        canTransitionOrderState (lo_status lo) target \<and> hasSharedStrongIdentity ex lo \<and> sameTerms ex lo \<and>
        advancementGround ex lo target)"

lemma evaluatedPair_justified:
  assumes env: "faithfulReconcileEnv env" and pair: "evaluatedPair env exs los observedAt res" and adv: "pp_stateAdvancement res = Some adv"
  shows "justifiedAdvancement exs los adv"
proof -
  obtain ex lo t i where ex: "ex \<in> set exs" and lo: "lo \<in> set los"
    and m: "matchOrderIdentity env ex lo = Inr (Matched t i)" and eval: "evaluateMatchedPair ex lo (t, i) observedAt = Inr res"
    using pair unfolding evaluatedPair_def by blast
  obtain target kind reason details where shape: "adv = advancementCandidate ex lo (t, i) target kind reason details"
    and facts: "advancementGround ex lo target" "canTransitionOrderState (lo_status lo) target" "fst (t, i) \<noteq> ByFingerprint"
    using evaluateMatchedPair_advances [OF eval adv] by (elim exE conjE)
  have "hasSharedStrongIdentity ex lo \<and> sameTerms ex lo"
    using matchOrderIdentity_strongD [OF _ m] env facts(3) by (simp add: faithfulReconcileEnv_def)
  moreover have "sv_localOrderId adv = lo_orderId lo \<and> sv_currentLocalStatus adv = lo_status lo \<and> sv_targetLocalStatus adv = Some target"
    by (simp add: shape advancementCandidate_def)
  ultimately show ?thesis using ex lo facts(1,2) unfolding justifiedAdvancement_def by blast
qed

text \<open>
  C31. A run advances each order at most once, and only an order of the input along a legal transition, on
  the word of a snapshot that shares its identifier or uuid and agrees on market, side, quantity and, where
  both sides state one, price. To filled: the exchange reports it done with nothing left; to partially
  filled: done with a quantity left, or still open with less left than the local order has; to canceled:
  canceled, after a local cancel request.
\<close>

theorem reconcile_advances_justified:
  assumes env: "faithfulReconcileEnv env" and run: "runReconcileEngine env inp = Inr out"
  shows "distinct (map sv_localOrderId (rq_stateAdvancements out)) \<and>
    (\<forall>adv \<in> set (rq_stateAdvancements out). justifiedAdvancement (suppliedSnapshots env inp) (rn_localOpenOrders inp) adv)"
proof -
  obtain observedAt results where orders: "reconcileOrders env (allExchangeOrders env inp) (rn_localOpenOrders inp) observedAt = Inr results"
    and advs: "rq_stateAdvancements out = List.map_filter pp_stateAdvancement results"
    using run by (rule runReconcileEngine_InrE)
  note sound = reconcileOrders_sound [OF orders]
  have "justifiedAdvancement (suppliedSnapshots env inp) (rn_localOpenOrders inp) adv"
    if "adv \<in> set (List.map_filter pp_stateAdvancement results)" for adv
  proof -
    from that obtain res where res: "res \<in> set results" "pp_stateAdvancement res = Some adv"
      by (auto simp: map_filter_def)
    then have "evaluatedPair env (allExchangeOrders env inp) (rn_localOpenOrders inp) observedAt res"
      using sound by (auto simp: reportOnly_def)
    from evaluatedPair_justified [OF env this res(2)] show ?thesis
      by (simp add: justifiedAdvancement_def set_allExchangeOrders [OF env])
  qed
  then show ?thesis using advanced_ids sound unfolding advs by blast
qed

lemma trackedOpenOrder_cong: "set exs = set exs' \<Longrightarrow> trackedOpenOrder env exs los ex = trackedOpenOrder env exs' los ex"
  by (simp add: trackedOpenOrder_def knownKey_def)

text \<open>
  C32. A run that reports CLEAN does not fail closed, and then every local order is matched by a snapshot
  and accounted for: where the exchange reports a remaining quantity, it is the local one; an order it
  reports open is not waiting for a cancellation; an order it reports canceled, done or done with a
  quantity left is locally canceled, filled or partially filled (or filled, where it is done), or the run
  hands out the advancement to that state, so a CLEAN run may leave advancements to be made. Every open
  order of the exchange is tracked, balances are explained, the closed orders were read in full, and the
  stream of events has a base and no gap.
\<close>

theorem clean_reconcile_agrees:
  assumes env: "faithfulReconcileEnv env" and ids: "distinct (map lo_orderId (rn_localOpenOrders inp))"
    and run: "runReconcileEngine env inp = Inr out" and clean: "sm_result (rq_summary out) = CLEAN"
  shows "\<not> rq_failClosed out \<and> rq_targetKillSwitchState out = None \<and>
    (\<forall>lo \<in> set (rn_localOpenOrders inp). \<exists>ex \<in> set (suppliedSnapshots env inp). 
      isMatch env ex lo \<and> pairAccounted ex lo (rq_stateAdvancements out)) \<and>
    (\<forall>ex \<in> set (suppliedSnapshots env inp). isUntrackedExchangeOpenCandidate ex \<longrightarrow>
      trackedOpenOrder env (suppliedSnapshots env inp) (rn_localOpenOrders inp) ex) \<and>
    sm_balanceStatus (rq_summary out) = BALANCE_OK \<and> \<not> cw_windowExhausted (rn_closedOrderWindow inp) \<and>
    (wc_events (rn_websocketContext inp) = [] \<or> wc_bootstrapCompleteAt (rn_websocketContext inp) \<noteq> None) \<and>
    (case wc_disconnectEvidence (rn_websocketContext inp) of None \<Rightarrow> True | Some d \<Rightarrow> \<not> hasWebSocketLivenessGapEvidence d)"
proof -
  obtain observedAt results found status where
    orders: "reconcileOrders env (allExchangeOrders env inp) (rn_localOpenOrders inp) observedAt = Inr results"
    and balance: "checkBalanceLock (re_rounding env) (rn_localOpenOrders inp) (rn_localBalances inp) (rn_exchangeBalances inp) observedAt = Inr (found, status)"
    and mismatches: "rq_mismatches out = concat (map pp_mismatches results)
      @ checkClosedOrderWindow env (rn_localOpenOrders inp) (rn_closedOrderWindow inp) observedAt (matchedIds results)
      @ checkWebSocketGap env (rn_websocketContext inp) observedAt @ found"
    and advs: "rq_stateAdvancements out = List.map_filter pp_stateAdvancement results"
    and status: "sm_balanceStatus (rq_summary out) = status"
    and result: "sm_result (rq_summary out) = (if rq_mismatches out \<noteq> [] then MISMATCH_DETECTED else CLEAN)"
    and closed: "rq_failClosed out = (rq_mismatches out \<noteq> [])"
    and decision: "(rq_failClosed out, rq_targetKillSwitchState out) = determineFailClosed (rq_mismatches out)"
    using run by (rule runReconcileEngine_InrE)
  have none: "rq_mismatches out = []" using clean result by (simp split: if_splits)
  note parts = none [unfolded mismatches append_is_Nil_conv]
  have quiet: "silent results" using parts by (auto simp: silent_def list_all_iff)
  note same = set_allExchangeOrders [OF env, of inp]
  have "status = BALANCE_OK"
    using balance parts by (auto simp: checkBalanceLock_def Let_def split: if_splits elim!: bindR_InrE)
  moreover have "\<forall>lo \<in> set (rn_localOpenOrders inp). \<exists>ex \<in> set (suppliedSnapshots env inp). 
      isMatch env ex lo \<and> pairAccounted ex lo (rq_stateAdvancements out)"
    using reconcileOrders_silent [OF orders quiet ids] by (simp add: same advs)
  moreover have "\<forall>ex \<in> set (suppliedSnapshots env inp). isUntrackedExchangeOpenCandidate ex \<longrightarrow>
      trackedOpenOrder env (suppliedSnapshots env inp) (rn_localOpenOrders inp) ex"
    using reconcileOrders_sound [OF orders] quiet trackedOpenOrder_cong [OF same] by (simp add: same)
  moreover have "\<not> cw_windowExhausted (rn_closedOrderWindow inp)"
    using parts by (auto simp: checkClosedOrderWindow_def split: if_splits)
  moreover have "wc_events (rn_websocketContext inp) = [] \<or> wc_bootstrapCompleteAt (rn_websocketContext inp) \<noteq> None"
    "case wc_disconnectEvidence (rn_websocketContext inp) of None \<Rightarrow> True | Some d \<Rightarrow> \<not> hasWebSocketLivenessGapEvidence d"
    using parts by (auto simp: checkWebSocketGap_def split: if_splits option.splits)
  ultimately show ?thesis using closed decision none by (simp add: status determineFailClosed_def)
qed

section \<open>Examples\<close>

text \<open>A faithful text of amounts: numerator and denominator in decimal digits.\<close>

definition fractionText :: "rat \<Rightarrow> string" where
  "fractionText r = (case quotient_of r of (n, d) \<Rightarrow>
     (if n < 0 then ''-'' else ''+'') @ natText (nat \<bar>n\<bar>) @ ''/'' @ natText (nat d))"

lemma natText_not_slash: "CHR ''/'' \<notin> set (natText n)" "CHR ''|'' \<notin> set (natText n)"
  using natText_digits by fastforce+

lemma fractionText_plain: "plainDecimalText fractionText"
proof -
  have "x = y" if "fractionText x = fractionText y" for x y
  proof -
    obtain n d n' d' where q: "quotient_of x = (n, d)" "quotient_of y = (n', d')" by (metis surj_pair)
    have "0 < d" "0 < d'" using q quotient_of_denom_pos by blast+
    moreover have "(n < 0) = (n' < 0)" using that by (auto simp: fractionText_def q split: if_splits)
    moreover have "natText (nat \<bar>n\<bar>) @ CHR ''/'' # natText (nat d) = natText (nat \<bar>n'\<bar>) @ CHR ''/'' # natText (nat d')"
      using that by (auto simp: fractionText_def q split: if_splits)
    from split_last_separator [OF this natText_not_slash(1) natText_not_slash(1)] have "\<bar>n\<bar> = \<bar>n'\<bar>" "nat d = nat d'" by auto
    ultimately have "quotient_of x = quotient_of y" by (auto simp: q)
    then show ?thesis by (rule quotient_of_inject)
  qed
  moreover have "CHR ''|'' \<notin> set (fractionText r)" for r
    by (auto simp: fractionText_def natText_not_slash split: prod.splits)
  ultimately show ?thesis by (auto simp: plainDecimalText_def inj_def)
qed

definition exampleReconcileEnv :: reconcile_env where
  "exampleReconcileEnv =
     \<lparr>re_dates = \<lparr>de_parse = (\<lambda>s. Some 0), de_toString = (\<lambda>t. []), de_toISOString = (\<lambda>t. ''1970'')\<rparr>,
      re_rounding = exactRound, re_decimalText = fractionText, re_numberText = (\<lambda>n. ''1''),
      re_readDecimal = (\<lambda>s. NotDecimal s), re_sortUntimed = (\<lambda>xs. xs)\<rparr>"

lemma example_faithful: "faithfulReconcileEnv exampleReconcileEnv"
  by (simp add: faithfulReconcileEnv_def exampleReconcileEnv_def fractionText_plain)

definition examplePurchase :: local_order where
  "examplePurchase = \<lparr>lo_orderId = ''o1'', lo_exchangeOrderId = Some ''u1'', lo_identifier = None, lo_market = ''KRW-BTC'',
     lo_side = BUY, lo_orderType = LIMIT, lo_status = ACCEPTED, lo_requestedQuantity = Num 2, lo_remainingQuantity = Num 2,
     lo_requestedPrice = Some (Num 100), lo_reservedFee = Some (Num 1), lo_remainingFee = None,
     lo_updatedAt = DateInput (Some 5), lo_createdAt = Some (DateInput (Some 4))\<rparr>"

definition exampleExchangeOrder :: exchange_order where
  "exampleExchangeOrder = \<lparr>eo_exchangeOrderId = Some ''u1'', eo_identifier = None, eo_market = ''KRW-BTC'', eo_side = BUY,
     eo_exchangeStatus = ''wait'', eo_requestedQuantity = Num 2, eo_remainingQuantity = Some (Num 2),
     eo_requestedPrice = Some (Num 100), eo_source = SRC_open, eo_capturedAt = DateInput (Some 6)\<rparr>"

definition exampleKrw :: reported_balance where
  "exampleKrw = \<lparr>bs_currency = ''KRW'', bs_available = Num 799, bs_locked = Num 201, bs_total = Num 1000,
     bs_updatedAt = DateInput (Some 6), bs_metadata = None\<rparr>"

definition exampleReconcileInput :: "exchange_order \<Rightarrow> reconcile_input" where
  "exampleReconcileInput snapshot =
     \<lparr>rn_exchangeOpenOrders = [snapshot], rn_exchangeClosedOrders = [], rn_orderLookups = [],
      rn_websocketContext = \<lparr>wc_bootstrapCompleteAt = None, wc_events = [], wc_disconnectEvidence = None\<rparr>,
      rn_localOpenOrders = [examplePurchase], rn_localBalances = Some [exampleKrw], rn_exchangeBalances = Some [exampleKrw],
      rn_closedOrderWindow = \<lparr>cw_windowStart = DateInput (Some 0), cw_windowEnd = DateInput (Some 7), cw_windowExhausted = False,
        cw_queryCount = JsFinite 1\<rparr>,
      rn_observedAt = TextInput ''now''\<rparr>"

theorem balance_ok_iff_explained_witness:
  "\<exists>ms. checkBalanceLock exactRound [examplePurchase] (Some [exampleKrw]) (Some [exampleKrw]) ''now'' = Inr (ms, BALANCE_OK) \<and>
    lockedBalance [exampleKrw] ''KRW'' = Inr (lockTotal [examplePurchase] ''KRW'') \<and> balanceAgrees [exampleKrw] [exampleKrw] ''KRW''"
proof -
  have run: "checkBalanceLock exactRound [examplePurchase] (Some [exampleKrw]) (Some [exampleKrw]) ''now'' = Inr ([], BALANCE_OK)"
    by code_simp
  have amounts: "\<forall>lo \<in> set [examplePurchase]. lockAmounts 0 lo"
    by (simp add: examplePurchase_def lockAmounts_def readableAmount_def amountOf_def buyNotional_def remainingBuyFee_def onGrid_def)
  have fits: "fitsGrid 0 (lockTotal [examplePurchase] c)" for c
    by (simp add: examplePurchase_def lockTotal_def lockContribution_def releasesLock_def unpricedBuy_def amountOf_def buyNotional_def
        remainingBuyFee_def fitsGrid_def onGrid_def)
  from balance_ok_iff_explained [OF exact.decimal_js_axioms amounts fits run] run show ?thesis by auto
qed

text \<open>The exchange has the purchase as done with nothing left; the local order still has to learn of it.\<close>

definition examplePurchaseDone :: exchange_order where
  "examplePurchaseDone = exampleExchangeOrder\<lparr>eo_exchangeStatus := ''done'', eo_remainingQuantity := Some (Num 0)\<rparr>"

theorem reconcile_advances_justified_witness:
  "\<exists>out. runReconcileEngine exampleReconcileEnv (exampleReconcileInput examplePurchaseDone) = Inr out \<and>
    map sv_targetLocalStatus (rq_stateAdvancements out) = [Some FILLED] \<and> distinct (map sv_localOrderId (rq_stateAdvancements out))"
proof -
  let ?run = "runReconcileEngine exampleReconcileEnv (exampleReconcileInput examplePurchaseDone)"
  have "case ?run of Inl e \<Rightarrow> False | Inr out \<Rightarrow> map sv_targetLocalStatus (rq_stateAdvancements out) = [Some FILLED]"
    by code_simp
  then obtain out where out: "?run = Inr out" "map sv_targetLocalStatus (rq_stateAdvancements out) = [Some FILLED]"
    by (auto split: sum.splits)
  with reconcile_advances_justified [OF example_faithful out(1)] show ?thesis by (intro exI [of _ out]) simp
qed

text \<open>A clean run with an order the exchange reports done without a remaining quantity.\<close>

theorem clean_reconcile_agrees_witness:
  "\<exists>out. runReconcileEngine exampleReconcileEnv (exampleReconcileInput (examplePurchaseDone\<lparr>eo_remainingQuantity := None\<rparr>)) = Inr out \<and>
    sm_result (rq_summary out) = CLEAN \<and> sm_balanceStatus (rq_summary out) = BALANCE_OK \<and> \<not> rq_failClosed out \<and>
    (\<exists>adv \<in> set (rq_stateAdvancements out). sv_localOrderId adv = ''o1'' \<and> sv_targetLocalStatus adv = Some FILLED)"
proof -
  let ?inp = "exampleReconcileInput (examplePurchaseDone\<lparr>eo_remainingQuantity := None\<rparr>)"
  have "case runReconcileEngine exampleReconcileEnv ?inp of Inl e \<Rightarrow> False | Inr out \<Rightarrow> sm_result (rq_summary out) = CLEAN"
    by code_simp
  then obtain out where out: "runReconcileEngine exampleReconcileEnv ?inp = Inr out" "sm_result (rq_summary out) = CLEAN"
    by (auto split: sum.splits)
  have ids: "distinct (map lo_orderId (rn_localOpenOrders ?inp))" by (simp add: exampleReconcileInput_def)
  note agrees = clean_reconcile_agrees [OF example_faithful ids out]
  have "suppliedSnapshots exampleReconcileEnv ?inp = [examplePurchaseDone\<lparr>eo_remainingQuantity := None\<rparr>]" by code_simp
  moreover have "rn_localOpenOrders ?inp = [examplePurchase]" by (simp add: exampleReconcileInput_def)
  ultimately have "pairAccounted (examplePurchaseDone\<lparr>eo_remainingQuantity := None\<rparr>) examplePurchase (rq_stateAdvancements out)"
    using agrees by auto
  then show ?thesis using out agrees
    by (auto simp: pairAccounted_def reportedEnd_def examplePurchaseDone_def examplePurchase_def)
qed

end
