(* ===== verification/Reconcile_Runtime.thy ===== *)
theory Reconcile_Runtime
  imports Reconcile_Engine Kill_Switch_Control
begin

text \<open>
  One run of the reconcile worker, \<^verbatim>\<open>src/src/runtime/live-reconcile-runtime/service.ts\<close>, and the status it
  reports, \<^verbatim>\<open>status-summary.ts\<close>. The ports (snapshots, repository, kill switch, alerts) are functions on a
  world of any type, which a call returns changed; a rejected promise is an error result. Alerts are best
  effort and cannot fail. The errors for people name the place that throws them, and messages are short tags.

  The theory shows in which order a run acts, when the kill switch really blocks orders after a run, and
  that no credential is stored with the evidence.
\<close>

section \<open>Evidence that may be stored\<close>

definition rawProviderMetadataKeys :: "string list" where
  "rawProviderMetadataKeys =
     [''raw'', ''raw_payload'', ''rawPayload'', ''provider_payload'', ''providerPayload'', ''authorization'', ''Authorization'',
      ''jwt'', ''JWT'', ''accessKey'', ''secretKey'', ''upbitAccessKey'', ''upbitSecretKey'']"

fun isEmptyRecord :: "json \<Rightarrow> bool" where
  "isEmptyRecord (JObj []) = True"
| "isEmptyRecord _ = False"

text \<open>A Date has no entries of its own and becomes an empty record.\<close>

fun sanitizeReconcileEvidenceValue :: "json \<Rightarrow> json"
  and sanitizeEntries :: "json_record \<Rightarrow> json_record" where
  "sanitizeReconcileEvidenceValue (JArr vs) = JArr (map sanitizeReconcileEvidenceValue vs)"
| "sanitizeReconcileEvidenceValue (JObj entries) = JObj (sanitizeEntries entries)"
| "sanitizeReconcileEvidenceValue (JTime t) = JObj []"
| "sanitizeReconcileEvidenceValue v = v"
| "sanitizeEntries [] = []"
| "sanitizeEntries ((key, v) # entries) =
     (if key \<in> set rawProviderMetadataKeys then sanitizeEntries entries
      else let w = sanitizeReconcileEvidenceValue v
           in if isEmptyRecord w then sanitizeEntries entries else (key, w) # sanitizeEntries entries)"

definition sanitizeReconcileEvidenceMetadata :: "json_record option \<Rightarrow> json_record option" where
  "sanitizeReconcileEvidenceMetadata metadata =
     (case metadata of
        None \<Rightarrow> None
      | Some m \<Rightarrow> (case sanitizeEntries m of [] \<Rightarrow> None | entries \<Rightarrow> Some entries))"

record balance_row =
  br_currency :: string
  br_available :: numeric
  br_locked :: numeric
  br_total :: numeric
  br_capturedAt :: time_input
  br_source :: string
  br_metadata :: "json_record option"

definition toBalanceSnapshotRow :: "reported_balance \<Rightarrow> balance_row" where
  "toBalanceSnapshotRow b =
     \<lparr>br_currency = bs_currency b, br_available = bs_available b, br_locked = bs_locked b, br_total = bs_total b,
      br_capturedAt = bs_updatedAt b, br_source = ''REST'', br_metadata = sanitizeReconcileEvidenceMetadata (bs_metadata b)\<rparr>"

section \<open>Ports\<close>

datatype run_status = RUN_RUNNING | RUN_COMPLETED | RUN_FAILED | RUN_MANUAL_REVIEW_REQUIRED

record run_record =
  ru_id :: string
  ru_runStatus :: run_status

record begin_run_input =
  bg_idempotencyKey :: string
  bg_guardProfile :: string
  bg_sourceSummary :: string
  bg_correlationId :: string
  bg_metadata :: json_record

record runtime_snapshot =
  rs_engineInput :: reconcile_input
  rs_idempotencyKey :: "string option"
  rs_sourceSummary :: "string option"
  rs_snapshotMetadata :: "json_record option"

type_synonym ('w, 'a) port = "'w \<Rightarrow> 'w \<times> 'a result"

record 'w reconcile_ports =
  pt_loadSnapshot :: "time_input \<Rightarrow> string \<Rightarrow> ('w, runtime_snapshot) port"
  pt_beginRun :: "begin_run_input \<Rightarrow> ('w, bool \<times> run_record) port"
  pt_appendBalances :: "string \<Rightarrow> balance_row list \<Rightarrow> ('w, unit) port"
  pt_appendOrders :: "string \<Rightarrow> exchange_order list \<Rightarrow> ('w, unit) port"
  pt_appendMismatches :: "string \<Rightarrow> mismatch_evidence list \<Rightarrow> ('w, unit) port"
  pt_completeRun :: "string \<Rightarrow> run_status \<Rightarrow> json_record option \<Rightarrow> ('w, run_record) port"
  pt_killSwitch :: "(control_request \<Rightarrow> ('w, control_result) port) option"
  pt_alerts :: "reconcile_input \<Rightarrow> reconcile_output \<Rightarrow> string \<Rightarrow> 'w \<Rightarrow> 'w"

text \<open>A call followed by what depends on its answer; an error ends the sequence.\<close>

definition call :: "('w, 'a) port \<Rightarrow> ('a \<Rightarrow> ('w, 'b) port) \<Rightarrow> ('w, 'b) port" where
  "call p f w = (case p w of (w', Inl e) \<Rightarrow> (w', Inl e) | (w', Inr a) \<Rightarrow> f a w')"

definition answer :: "'a result \<Rightarrow> ('w, 'a) port" where
  "answer r w = (w, r)"

text \<open>\<^verbatim>\<open>try\<close> and \<^verbatim>\<open>catch\<close>.\<close>

definition recover :: "('w, 'a) port \<Rightarrow> (error \<Rightarrow> ('w, 'a) port) \<Rightarrow> ('w, 'a) port" where
  "recover p handler w = (case p w of (w', Inl e) \<Rightarrow> handler e w' | (w', Inr a) \<Rightarrow> (w', Inr a))"

section \<open>Requests to the kill switch\<close>

definition toIsoString :: "date_env \<Rightarrow> time_input \<Rightarrow> string result" where
  "toIsoString env t =
     (case t of
        DateInput None \<Rightarrow> Inl (Failure ''Invalid time value'')
      | DateInput (Some ms) \<Rightarrow> Inr (de_toISOString env ms)
      | TextInput s \<Rightarrow> Inr s)"

definition instantOf :: "date_env \<Rightarrow> time_input \<Rightarrow> timestamp" where
  "instantOf env t = (case newDate env t of Some ms \<Rightarrow> At (ms * 1000000) | None \<Rightarrow> BadTime (stringOfTime env t))"

definition createReconcileCorrelationId :: "date_env \<Rightarrow> time_input \<Rightarrow> string result" where
  "createReconcileCorrelationId env observedAt = bindR (toIsoString env observedAt) (\<lambda>s. Inr (''live-reconcile-'' @ s))"

definition createReconcileIdempotencyKey :: "date_env \<Rightarrow> time_input \<Rightarrow> string \<Rightarrow> string result" where
  "createReconcileIdempotencyKey env observedAt correlationId =
     bindR (toIsoString env observedAt) (\<lambda>s. Inr (''live-reconcile:'' @ s @ '':'' @ correlationId))"

definition hasEngineMismatch :: "reconcile_output \<Rightarrow> mismatch_type \<Rightarrow> bool" where
  "hasEngineMismatch out t \<longleftrightarrow> list_ex (\<lambda>m. me_mismatchType m = t) (rq_mismatches out)"

definition toKillSwitchReasonCode :: "reconcile_output \<Rightarrow> string" where
  "toKillSwitchReasonCode out =
     (if hasEngineMismatch out ORDER_IDENTITY_CONFLICT then ''live_reconcile_identity_conflict''
      else if hasEngineMismatch out BALANCE_LOCK_MISMATCH then ''live_reconcile_balance_lock_mismatch''
      else if hasEngineMismatch out BALANCE_SNAPSHOT_UNAVAILABLE then ''live_reconcile_balance_snapshot_unavailable''
      else if hasEngineMismatch out WEBSOCKET_GAP_MANUAL_REVIEW then ''live_reconcile_websocket_gap''
      else if hasEngineMismatch out ORDER_STATE_ADVANCEMENT_BLOCKED then ''live_reconcile_order_state_advancement_blocked''
      else if hasEngineMismatch out EXCHANGE_CANCEL_STATE_MISMATCH then ''live_reconcile_exchange_cancel_state_mismatch''
      else if hasEngineMismatch out CANCEL_FAILURE_RETRY_NEEDED then ''live_reconcile_cancel_retry_needed''
      else ''live_reconcile_mismatch'')"

definition toKillSwitchControlTarget :: "reconcile_output \<Rightarrow> control_target option" where
  "toKillSwitchControlTarget out =
     (case (case rq_targetKillSwitchState out of None \<Rightarrow> KS_NEW_ORDERS_BLOCKED | Some s \<Rightarrow> s) of
        KS_NEW_ORDERS_BLOCKED \<Rightarrow> Some CT_NEW_ORDERS_BLOCKED
      | KS_MANUAL_REVIEW_REQUIRED \<Rightarrow> Some CT_MANUAL_REVIEW_REQUIRED
      | _ \<Rightarrow> None)"

definition hasStateAdvancementCandidatesWithoutRuntimeWrite :: "reconcile_output \<Rightarrow> bool" where
  "hasStateAdvancementCandidatesWithoutRuntimeWrite out \<longleftrightarrow> rq_stateAdvancements out \<noteq> []"

definition mustBlock :: "reconcile_output \<Rightarrow> bool" where
  "mustBlock out \<longleftrightarrow> rq_failClosed out \<or> hasStateAdvancementCandidatesWithoutRuntimeWrite out"

definition failClosedRequest ::
  "date_env \<Rightarrow> reconcile_output \<Rightarrow> string \<Rightarrow> time_input \<Rightarrow> string \<Rightarrow> string \<Rightarrow> control_request option" where
  "failClosedRequest env out correlationId observedAt actor runId =
     (let pending = hasStateAdvancementCandidatesWithoutRuntimeWrite out
      in map_option (\<lambda>target.
           \<lparr>cr_targetState = target,
            cr_reasonCode = (if pending then ''live_reconcile_state_advancement_pending'' else toKillSwitchReasonCode out),
            cr_correlationId = correlationId, cr_actor = Some actor,
            cr_message = Some (if pending then ''state advancement pending'' else ''mismatch detected''),
            cr_metadata = Some [(''live_reconcile_run_id'', JStr runId),
              (''mismatch_count'', JNumber (JsFinite (of_nat (sm_mismatchCount (rq_summary out))))),
              (''state_advancement_count'', JNumber (JsFinite (of_nat (length (rq_stateAdvancements out)))))],
            cr_occurredAt = Some (instantOf env observedAt)\<rparr>)
         (if pending then Some CT_MANUAL_REVIEW_REQUIRED else toKillSwitchControlTarget out))"

definition applyFailClosedIfNeeded ::
  "date_env \<Rightarrow> 'w reconcile_ports \<Rightarrow> reconcile_output \<Rightarrow> string \<Rightarrow> time_input \<Rightarrow> string \<Rightarrow> string \<Rightarrow> ('w, control_result option) port" where
  "applyFailClosedIfNeeded env ports out correlationId observedAt actor runId =
     (if \<not> mustBlock out then answer (Inr None)
      else case pt_killSwitch ports of
        None \<Rightarrow> answer (Inl (Failure ''no kill switch provider''))
      | Some apply_request \<Rightarrow>
         (case failClosedRequest env out correlationId observedAt actor runId of
            None \<Rightarrow> answer (Inr None)
          | Some request \<Rightarrow> call (apply_request request) (\<lambda>r. answer (Inr (Some r)))))"

definition snapshotFailureRequest :: "date_env \<Rightarrow> string \<Rightarrow> time_input \<Rightarrow> string \<Rightarrow> string \<Rightarrow> control_request" where
  "snapshotFailureRequest env correlationId observedAt actor runId =
     \<lparr>cr_targetState = CT_MANUAL_REVIEW_REQUIRED, cr_reasonCode = ''live_reconcile_snapshot_provider_failed'',
      cr_correlationId = correlationId, cr_actor = Some actor, cr_message = Some ''snapshot failed'',
      cr_metadata = Some [(''live_reconcile_run_id'', JStr runId), (''failure_phase'', JStr ''snapshot_provider'')],
      cr_occurredAt = Some (instantOf env observedAt)\<rparr>"

definition applySnapshotFailureFailClosed ::
  "date_env \<Rightarrow> 'w reconcile_ports \<Rightarrow> string \<Rightarrow> time_input \<Rightarrow> string \<Rightarrow> string \<Rightarrow> ('w, control_result) port" where
  "applySnapshotFailureFailClosed env ports correlationId observedAt actor runId =
     (case pt_killSwitch ports of
        None \<Rightarrow> answer (Inl (Failure ''no kill switch provider''))
      | Some apply_request \<Rightarrow>
         recover (apply_request (snapshotFailureRequest env correlationId observedAt actor runId))
           (\<lambda>e. answer (Inl (Failure ''kill switch transition not completed''))))"

section \<open>The worker\<close>

definition recordSnapshotLoadFailureRun :: "date_env \<Rightarrow> 'w reconcile_ports \<Rightarrow> time_input \<Rightarrow> string \<Rightarrow> ('w, run_record) port" where
  "recordSnapshotLoadFailureRun env ports observedAt correlationId =
     call (answer (createReconcileIdempotencyKey env observedAt correlationId)) (\<lambda>key.
     call (pt_beginRun ports \<lparr>bg_idempotencyKey = key, bg_guardProfile = ''LIVE_READ_ONLY_RECONCILE'',
        bg_sourceSummary = ''snapshot provider failed before reconcile engine input was available'',
        bg_correlationId = correlationId, bg_metadata = [(''failure_phase'', JStr ''snapshot_provider'')]\<rparr>) (\<lambda>(created, run).
     if \<not> created
     then if ru_runStatus run = RUN_RUNNING
          then pt_completeRun ports (ru_id run) RUN_FAILED
                 (Some [(''failure_phase'', JStr ''snapshot_provider''), (''idempotent_failure_recovery'', JBool True)])
          else answer (Inr run)
     else pt_completeRun ports (ru_id run) RUN_FAILED None))"

definition loadSnapshotOrRecordFailure ::
  "date_env \<Rightarrow> 'w reconcile_ports \<Rightarrow> time_input \<Rightarrow> string \<Rightarrow> string \<Rightarrow> ('w, runtime_snapshot) port" where
  "loadSnapshotOrRecordFailure env ports observedAt correlationId actor =
     recover (pt_loadSnapshot ports observedAt correlationId) (\<lambda>e.
       call (recordSnapshotLoadFailureRun env ports observedAt correlationId) (\<lambda>failedRun.
       call (applySnapshotFailureFailClosed env ports correlationId observedAt actor (ru_id failedRun)) (\<lambda>r.
       answer (Inl (Failure ''live reconcile snapshot load failed'')))))"

definition persistReconcileEngineEvidence ::
  "reconcile_env \<Rightarrow> 'w reconcile_ports \<Rightarrow> string \<Rightarrow> reconcile_input \<Rightarrow> reconcile_output \<Rightarrow> ('w, unit) port" where
  "persistReconcileEngineEvidence env ports runId inp out =
     call (pt_appendBalances ports runId
        (case rn_exchangeBalances inp of None \<Rightarrow> [] | Some bs \<Rightarrow> map toBalanceSnapshotRow bs)) (\<lambda>u.
     call (pt_appendOrders ports runId (rn_exchangeOpenOrders inp @ rn_exchangeClosedOrders inp @ rn_orderLookups inp
        @ buildWebSocketOrderSnapshots env (rn_websocketContext inp))) (\<lambda>u.
     pt_appendMismatches ports runId (rq_mismatches out)))"

definition finalStatus :: "reconcile_output \<Rightarrow> run_status" where
  "finalStatus out =
     (if rq_failClosed out \<or> hasStateAdvancementCandidatesWithoutRuntimeWrite out then RUN_MANUAL_REVIEW_REQUIRED else RUN_COMPLETED)"

section \<open>Status summaries\<close>

datatype status_result = ST_SUCCESS | ST_MISMATCH_DETECTED | ST_FAILED | ST_SKIPPED | ST_UNAVAILABLE
datatype status_balance = SB_OK | SB_STALE | SB_UNAVAILABLE
datatype stream_status = WS_CONNECTED | WS_DISCONNECTED | WS_RECONNECTING | WS_DEGRADED

record status_summary =
  su_lastReconcileAt :: "string option"
  su_result :: status_result
  su_mismatchCount :: "nat option"
  su_openOrderCount :: "nat option"
  su_balanceStatus :: status_balance
  su_websocketStatus :: stream_status
  su_reason :: string

fun verdictName :: "reconcile_verdict \<Rightarrow> string" where
  "verdictName CLEAN = ''CLEAN''"
| "verdictName MISMATCH_DETECTED = ''MISMATCH_DETECTED''"

fun mapReconcileResult :: "reconcile_verdict \<Rightarrow> balance_status option \<Rightarrow> status_result" where
  "mapReconcileResult verdict balanceStatus =
     (if balanceStatus = Some NOT_AVAILABLE \<and> verdict = CLEAN then ST_FAILED
      else if verdict = CLEAN then ST_SUCCESS else ST_MISMATCH_DETECTED)"

fun mapBalanceStatus :: "balance_status option \<Rightarrow> status_balance" where
  "mapBalanceStatus None = SB_UNAVAILABLE"
| "mapBalanceStatus (Some NOT_AVAILABLE) = SB_UNAVAILABLE"
| "mapBalanceStatus (Some LOCK_MISMATCH) = SB_STALE"
| "mapBalanceStatus (Some BALANCE_OK) = SB_OK"

definition createReconcileStatusSummary ::
  "string option \<Rightarrow> reconcile_verdict option \<Rightarrow> nat option \<Rightarrow> nat option \<Rightarrow> balance_status option \<Rightarrow> stream_status \<Rightarrow> status_summary" where
  "createReconcileStatusSummary lastReconcileAt verdict mismatchCount openOrderCount balanceStatus websocketStatus =
     (case verdict of
        None \<Rightarrow> \<lparr>su_lastReconcileAt = None, su_result = ST_SKIPPED, su_mismatchCount = None, su_openOrderCount = None,
          su_balanceStatus = SB_UNAVAILABLE, su_websocketStatus = websocketStatus, su_reason = ''reconcile_not_run''\<rparr>
      | Some v \<Rightarrow> \<lparr>su_lastReconcileAt = lastReconcileAt, su_result = mapReconcileResult v balanceStatus,
          su_mismatchCount = mismatchCount, su_openOrderCount = openOrderCount, su_balanceStatus = mapBalanceStatus balanceStatus,
          su_websocketStatus = websocketStatus, su_reason = ''reconcile_'' @ toLowerCase (verdictName v)\<rparr>)"

definition resolveRuntimeWebSocketStatus :: "reconcile_input \<Rightarrow> reconcile_output \<Rightarrow> stream_status" where
  "resolveRuntimeWebSocketStatus inp out =
     (if (case wc_disconnectEvidence (rn_websocketContext inp) of None \<Rightarrow> False | Some d \<Rightarrow> hasWebSocketLivenessGapEvidence d) \<or>
         hasEngineMismatch out WEBSOCKET_GAP_MANUAL_REVIEW
      then WS_DEGRADED else WS_CONNECTED)"

definition createStatusSummaryFromEngine :: "date_env \<Rightarrow> reconcile_output \<Rightarrow> time_input \<Rightarrow> stream_status \<Rightarrow> status_summary result" where
  "createStatusSummaryFromEngine env out observedAt websocketStatus =
     bindR (toIsoString env observedAt) (\<lambda>s.
     Inr (createReconcileStatusSummary (Some s)
       (Some (if hasStateAdvancementCandidatesWithoutRuntimeWrite out then MISMATCH_DETECTED else sm_result (rq_summary out)))
       (Some (sm_mismatchCount (rq_summary out))) (Some (sm_exchangeOpenOrders (rq_summary out)))
       (Some (sm_balanceStatus (rq_summary out))) websocketStatus))"

text \<open>The status that is shown from the latest stored run.\<close>

record latest_run =
  la_run :: "run_record option"
  la_startedAt :: time_input
  la_finishedAt :: "time_input option"
  la_balanceSnapshotCount :: nat
  la_exchangeOrderSnapshotCount :: nat
  la_openExchangeOrderSnapshotCount :: nat
  la_mismatchEvidenceCount :: nat
  la_mismatchTypes :: "mismatch_type list"

definition resolveLatestBalanceStatus :: "latest_run \<Rightarrow> balance_status" where
  "resolveLatestBalanceStatus l =
     (if la_balanceSnapshotCount l = 0 \<or> BALANCE_SNAPSHOT_UNAVAILABLE \<in> set (la_mismatchTypes l) then NOT_AVAILABLE
      else if BALANCE_LOCK_MISMATCH \<in> set (la_mismatchTypes l) then LOCK_MISMATCH else BALANCE_OK)"

definition resolveLatestWebSocketStatus :: "latest_run \<Rightarrow> stream_status" where
  "resolveLatestWebSocketStatus l =
     (if WEBSOCKET_GAP_MANUAL_REVIEW \<in> set (la_mismatchTypes l) then WS_DEGRADED else WS_CONNECTED)"

definition createManualReviewRequiredStatusSummary :: "latest_run \<Rightarrow> string \<Rightarrow> status_summary" where
  "createManualReviewRequiredStatusSummary l finishedAt =
     \<lparr>su_lastReconcileAt = Some finishedAt, su_result = ST_MISMATCH_DETECTED, su_mismatchCount = Some (la_mismatchEvidenceCount l),
      su_openOrderCount = Some (la_openExchangeOrderSnapshotCount l),
      su_balanceStatus = mapBalanceStatus (Some (resolveLatestBalanceStatus l)),
      su_websocketStatus = resolveLatestWebSocketStatus l,
      su_reason = (if 0 < la_mismatchEvidenceCount l then ''reconcile_manual_review_required''
        else ''reconcile_state_advancement_manual_review_required'')\<rparr>"

definition getReconcileStatus :: "date_env \<Rightarrow> latest_run \<Rightarrow> status_summary result" where
  "getReconcileStatus env l =
     (let ended = toIsoString env (case la_finishedAt l of Some t \<Rightarrow> t | None \<Rightarrow> la_startedAt l)
      in case la_run l of
           None \<Rightarrow> Inr (createReconcileStatusSummary None None None None None WS_DISCONNECTED)
         | Some run \<Rightarrow>
            (case ru_runStatus run of
               RUN_FAILED \<Rightarrow> bindR ended (\<lambda>s. Inr
                 \<lparr>su_lastReconcileAt = Some s, su_result = ST_FAILED, su_mismatchCount = Some (la_mismatchEvidenceCount l),
                  su_openOrderCount = Some (la_exchangeOrderSnapshotCount l),
                  su_balanceStatus = (if 0 < la_balanceSnapshotCount l then SB_OK else SB_UNAVAILABLE),
                  su_websocketStatus = WS_DEGRADED, su_reason = ''reconcile_failed''\<rparr>)
             | RUN_RUNNING \<Rightarrow> bindR (toIsoString env (la_startedAt l)) (\<lambda>s. Inr
                 \<lparr>su_lastReconcileAt = Some s, su_result = ST_UNAVAILABLE, su_mismatchCount = None, su_openOrderCount = None,
                  su_balanceStatus = SB_UNAVAILABLE, su_websocketStatus = WS_DEGRADED, su_reason = ''reconcile_running''\<rparr>)
             | RUN_MANUAL_REVIEW_REQUIRED \<Rightarrow> bindR ended (\<lambda>s. Inr (createManualReviewRequiredStatusSummary l s))
             | RUN_COMPLETED \<Rightarrow> bindR ended (\<lambda>s. Inr (createReconcileStatusSummary (Some s)
                 (Some (if 0 < la_mismatchEvidenceCount l then MISMATCH_DETECTED else CLEAN)) (Some (la_mismatchEvidenceCount l))
                 (Some (la_openExchangeOrderSnapshotCount l)) (Some (resolveLatestBalanceStatus l))
                 (resolveLatestWebSocketStatus l)))))"

section \<open>One run\<close>

fun balanceStatusName :: "balance_status \<Rightarrow> string" where
  "balanceStatusName BALANCE_OK = ''OK''"
| "balanceStatusName LOCK_MISMATCH = ''LOCK_MISMATCH''"
| "balanceStatusName NOT_AVAILABLE = ''NOT_AVAILABLE''"

fun advancementTypeName :: "advancement_type \<Rightarrow> string" where
  "advancementTypeName FILL_CANDIDATE = ''FILL_CANDIDATE''"
| "advancementTypeName PARTIALLY_FILLED_CANDIDATE = ''PARTIALLY_FILLED_CANDIDATE''"
| "advancementTypeName CANCEL_CANDIDATE = ''CANCEL_CANDIDATE''"
| "advancementTypeName BLOCKED_NO_IDENTITY_MATCH = ''BLOCKED_NO_IDENTITY_MATCH''"
| "advancementTypeName BLOCKED_NO_REMAINING_QUANTITY = ''BLOCKED_NO_REMAINING_QUANTITY''"
| "advancementTypeName BLOCKED_IDENTIFIER_CHANGED = ''BLOCKED_IDENTIFIER_CHANGED''"

definition countJson :: "nat \<Rightarrow> json" where
  "countJson n = JNumber (JsFinite (of_nat n))"

definition advancementJson :: "state_advancement \<Rightarrow> json" where
  "advancementJson a = JObj ([(''local_order_id'', JStr (sv_localOrderId a)),
     (''exchange_order_identity'', JStr (sv_exchangeOrderIdentity a)), (''exchange_status'', JStr (sv_exchangeStatus a)),
     (''current_local_status'', JStr (orderStatusName (sv_currentLocalStatus a)))]
     @ optionalField ''target_local_status'' (\<lambda>s. JStr (orderStatusName s)) (sv_targetLocalStatus a)
     @ [(''advancement_type'', JStr (advancementTypeName (sv_advancementType a))), (''reason_code'', JStr (sv_reasonCode a)),
        (''trace'', JObj (sv_trace a))])"

definition createLiveReconcileCompletionMetadata :: "reconcile_output \<Rightarrow> json_record" where
  "createLiveReconcileCompletionMetadata out =
     (let s = rq_summary out in
      [(''live_reconcile_engine_summary'', JObj [(''result'', JStr (verdictName (sm_result s))),
          (''mismatch_count'', countJson (sm_mismatchCount s)),
          (''open_order_count'', JObj [(''exchange'', countJson (sm_exchangeOpenOrders s)), (''local'', countJson (sm_localOpenOrders s))]),
          (''balance_status'', JStr (balanceStatusName (sm_balanceStatus s))),
          (''untracked_exchange_orders'', countJson (sm_untrackedExchangeOrders s)),
          (''missing_local_orders'', countJson (sm_missingLocalOrders s)), (''cancel_failures'', countJson (sm_cancelFailures s)),
          (''window_exceeded_orders'', countJson (sm_windowExceededOrders s))]),
       (''state_advancement_requires_manual_review'', JBool (hasStateAdvancementCandidatesWithoutRuntimeWrite out)),
       (''live_reconcile_state_advancements'', JArr (map advancementJson (rq_stateAdvancements out)))])"

record run_result =
  rz_run :: run_record
  rz_engineOutput :: reconcile_output
  rz_statusSummary :: status_summary
  rz_killSwitchResult :: "control_result option"

definition dispatchAlerts :: "'w reconcile_ports \<Rightarrow> reconcile_input \<Rightarrow> reconcile_output \<Rightarrow> string \<Rightarrow> ('w, unit) port" where
  "dispatchAlerts ports inp out runId w =
     (if rq_stateAdvancements out = [] then (w, Inr ()) else (pt_alerts ports inp out runId w, Inr ()))"

definition reconcileBody ::
  "reconcile_env \<Rightarrow> 'w reconcile_ports \<Rightarrow> reconcile_input \<Rightarrow> string \<Rightarrow> time_input \<Rightarrow> string \<Rightarrow> string \<Rightarrow> ('w, run_result) port" where
  "reconcileBody env ports inp correlationId observedAt actor runId =
     call (answer (runReconcileEngine env inp)) (\<lambda>out.
     call (applyFailClosedIfNeeded (re_dates env) ports out correlationId observedAt actor runId) (\<lambda>killSwitchResult.
     call (persistReconcileEngineEvidence env ports runId inp out) (\<lambda>u.
     call (pt_completeRun ports runId (finalStatus out) (Some (createLiveReconcileCompletionMetadata out))) (\<lambda>completedRun.
     call (answer (createStatusSummaryFromEngine (re_dates env) out observedAt (resolveRuntimeWebSocketStatus inp out))) (\<lambda>summary.
     call (dispatchAlerts ports inp out (ru_id completedRun)) (\<lambda>u.
     answer (Inr \<lparr>rz_run = completedRun, rz_engineOutput = out, rz_statusSummary = summary, rz_killSwitchResult = killSwitchResult\<rparr>)))))))"

definition beginInput :: "runtime_snapshot \<Rightarrow> reconcile_input \<Rightarrow> string \<Rightarrow> string \<Rightarrow> begin_run_input" where
  "beginInput snapshot inp key correlationId =
     \<lparr>bg_idempotencyKey = key, bg_guardProfile = ''LIVE_READ_ONLY_RECONCILE'',
      bg_sourceSummary = (case rs_sourceSummary snapshot of None \<Rightarrow> ''read-only reconcile snapshot'' | Some s \<Rightarrow> s),
      bg_correlationId = correlationId,
      bg_metadata = AList.update ''websocket_event_count'' (countJson (length (wc_events (rn_websocketContext inp))))
        (case rs_snapshotMetadata snapshot of None \<Rightarrow> [] | Some m \<Rightarrow> m)\<rparr>"

definition withObservedAt :: "reconcile_input \<Rightarrow> time_input \<Rightarrow> reconcile_input" where
  "withObservedAt inp observedAt = inp\<lparr>rn_observedAt := observedAt\<rparr>"

definition runOnce ::
  "reconcile_env \<Rightarrow> 'w reconcile_ports \<Rightarrow> string \<Rightarrow> time_input \<Rightarrow> string option \<Rightarrow> ('w, run_result) port" where
  "runOnce env ports actor observedAt givenCorrelationId =
     call (answer (case givenCorrelationId of Some c \<Rightarrow> Inr c | None \<Rightarrow> createReconcileCorrelationId (re_dates env) observedAt)) (\<lambda>correlationId.
     call (loadSnapshotOrRecordFailure (re_dates env) ports observedAt correlationId actor) (\<lambda>snapshot.
     let inp = withObservedAt (rs_engineInput snapshot) observedAt in
     call (answer (case rs_idempotencyKey snapshot of Some k \<Rightarrow> Inr k
       | None \<Rightarrow> createReconcileIdempotencyKey (re_dates env) observedAt correlationId)) (\<lambda>key.
     call (pt_beginRun ports (beginInput snapshot inp key correlationId)) (\<lambda>(created, run).
     if \<not> created then answer (Inl (Failure ''live reconcile idempotency key already used''))
     else recover (reconcileBody env ports inp correlationId observedAt actor (ru_id run)) (\<lambda>e.
       call (pt_completeRun ports (ru_id run) RUN_FAILED None) (\<lambda>failedRun.
       answer (Inl (Failure ''live reconcile run failed'')))))))) "

section \<open>Does a run block orders?\<close>

definition reconcileReasons :: "string list" where
  "reconcileReasons =
     [''live_reconcile_identity_conflict'', ''live_reconcile_balance_lock_mismatch'', ''live_reconcile_balance_snapshot_unavailable'',
      ''live_reconcile_websocket_gap'', ''live_reconcile_order_state_advancement_blocked'',
      ''live_reconcile_exchange_cancel_state_mismatch'', ''live_reconcile_cancel_retry_needed'', ''live_reconcile_mismatch'',
      ''live_reconcile_state_advancement_pending'', ''live_reconcile_snapshot_provider_failed'']"

lemma reconcileReasons_known:
  "list_all (\<lambda>r. canonicalizeKillSwitchReasonCode r = r \<and> isLiveReconcileReason r \<and>
     mapKillSwitchReasonToTargetState r =
       (if r = ''live_reconcile_mismatch'' then Some CT_NEW_ORDERS_BLOCKED
        else if r = ''live_reconcile_identity_conflict'' then Some CT_MANUAL_REVIEW_REQUIRED else None)) reconcileReasons"
  by code_simp

lemma reconcile_request_blocks:
  assumes reason: "cr_reasonCode req \<in> set reconcileReasons"
    and target: "cr_targetState req = CT_NEW_ORDERS_BLOCKED \<or> cr_targetState req = CT_MANUAL_REVIEW_REQUIRED"
  shows "newOrdersBlocked (cs_actionPlan (createKillSwitchControlDecision now req currentState)) \<longleftrightarrow>
    (currentState \<noteq> KS_NORMAL \<and> currentState \<noteq> KS_STRATEGY_PAUSED) \<or> reasonFits req currentState"
proof -
  have known: "canonicalizeKillSwitchReasonCode (cr_reasonCode req) = cr_reasonCode req" "isLiveReconcileReason (cr_reasonCode req)"
    using reason reconcileReasons_known by (auto simp: list_all_iff)
  show ?thesis
    using target
    by (cases currentState) (auto simp: decision_plan decision_simps(1) [OF refl] effectiveTarget_def known isLiveReconcileDowngrade_def
        canTransitionKillSwitchState_def)
qed

lemma determineFailClosed_target:
  "mismatches \<noteq> [] \<Longrightarrow> determineFailClosed mismatches = (True, Some (if list_ex (\<lambda>m. mismatchRequiresManualReview (me_mismatchType m)) mismatches
    then KS_MANUAL_REVIEW_REQUIRED else KS_NEW_ORDERS_BLOCKED))"
proof -
  have "fold (\<lambda>m target. if mismatchRequiresManualReview (me_mismatchType m) then KS_MANUAL_REVIEW_REQUIRED else target) ms start =
      (if list_ex (\<lambda>m. mismatchRequiresManualReview (me_mismatchType m)) ms then KS_MANUAL_REVIEW_REQUIRED else start)" for ms start
    by (induction ms arbitrary: start) auto
  note target = this [of mismatches KS_NEW_ORDERS_BLOCKED]
  assume "mismatches \<noteq> []"
  then show ?thesis unfolding determineFailClosed_def target by simp
qed

text \<open>
  The findings of a run ask for a review, but only because closed orders could not be read in full or lie
  before their window.
\<close>

definition windowFindingsOnly :: "reconcile_output \<Rightarrow> bool" where
  "windowFindingsOnly out \<longleftrightarrow>
     rq_stateAdvancements out = [] \<and> hasEngineMismatch out CLOSED_ORDER_WINDOW_EXCEEDED \<and>
     list_all (\<lambda>m. mismatchRequiresManualReview (me_mismatchType m) \<longrightarrow> me_mismatchType m = CLOSED_ORDER_WINDOW_EXCEEDED) (rq_mismatches out)"

lemma manualReview_cases:
  "list_ex (\<lambda>m. mismatchRequiresManualReview (me_mismatchType m)) (rq_mismatches out) \<longleftrightarrow>
    hasEngineMismatch out ORDER_IDENTITY_CONFLICT \<or> hasEngineMismatch out BALANCE_LOCK_MISMATCH \<or>
    hasEngineMismatch out BALANCE_SNAPSHOT_UNAVAILABLE \<or> hasEngineMismatch out WEBSOCKET_GAP_MANUAL_REVIEW \<or>
    hasEngineMismatch out ORDER_STATE_ADVANCEMENT_BLOCKED \<or> hasEngineMismatch out EXCHANGE_CANCEL_STATE_MISMATCH \<or>
    hasEngineMismatch out CANCEL_FAILURE_RETRY_NEEDED \<or> hasEngineMismatch out CLOSED_ORDER_WINDOW_EXCEEDED"
proof -
  have "mismatchRequiresManualReview t \<longleftrightarrow> t = ORDER_IDENTITY_CONFLICT \<or> t = BALANCE_LOCK_MISMATCH \<or> t = BALANCE_SNAPSHOT_UNAVAILABLE \<or>
      t = WEBSOCKET_GAP_MANUAL_REVIEW \<or> t = ORDER_STATE_ADVANCEMENT_BLOCKED \<or> t = EXCHANGE_CANCEL_STATE_MISMATCH \<or>
      t = CANCEL_FAILURE_RETRY_NEEDED \<or> t = CLOSED_ORDER_WINDOW_EXCEEDED" for t
    by (cases t) simp_all
  then show ?thesis unfolding hasEngineMismatch_def list_ex_iff by blast
qed

lemma windowFindingsOnly_iff:
  "windowFindingsOnly out \<longleftrightarrow> rq_stateAdvancements out = [] \<and> toKillSwitchReasonCode out = ''live_reconcile_mismatch'' \<and>
    list_ex (\<lambda>m. mismatchRequiresManualReview (me_mismatchType m)) (rq_mismatches out)"
proof -
  have other: "list_all (\<lambda>m. mismatchRequiresManualReview (me_mismatchType m) \<longrightarrow> me_mismatchType m = CLOSED_ORDER_WINDOW_EXCEEDED) ms \<longleftrightarrow>
      list_all (\<lambda>m. me_mismatchType m \<notin> {ORDER_IDENTITY_CONFLICT, BALANCE_LOCK_MISMATCH, BALANCE_SNAPSHOT_UNAVAILABLE,
        WEBSOCKET_GAP_MANUAL_REVIEW, ORDER_STATE_ADVANCEMENT_BLOCKED, EXCHANGE_CANCEL_STATE_MISMATCH, CANCEL_FAILURE_RETRY_NEEDED}) ms" for ms
  proof (rule list_all_cong [OF refl])
    fix m assume "m \<in> set ms"
    show "(mismatchRequiresManualReview (me_mismatchType m) \<longrightarrow> me_mismatchType m = CLOSED_ORDER_WINDOW_EXCEEDED) =
      (me_mismatchType m \<notin> {ORDER_IDENTITY_CONFLICT, BALANCE_LOCK_MISMATCH, BALANCE_SNAPSHOT_UNAVAILABLE,
        WEBSOCKET_GAP_MANUAL_REVIEW, ORDER_STATE_ADVANCEMENT_BLOCKED, EXCHANGE_CANCEL_STATE_MISMATCH, CANCEL_FAILURE_RETRY_NEEDED})"
      by (cases "me_mismatchType m") simp_all
  qed
  have reason: "toKillSwitchReasonCode out = ''live_reconcile_mismatch'' \<longleftrightarrow>
      list_all (\<lambda>m. me_mismatchType m \<notin> {ORDER_IDENTITY_CONFLICT, BALANCE_LOCK_MISMATCH, BALANCE_SNAPSHOT_UNAVAILABLE,
        WEBSOCKET_GAP_MANUAL_REVIEW, ORDER_STATE_ADVANCEMENT_BLOCKED, EXCHANGE_CANCEL_STATE_MISMATCH, CANCEL_FAILURE_RETRY_NEEDED}) (rq_mismatches out)"
    by (simp add: toKillSwitchReasonCode_def hasEngineMismatch_def list_ex_iff list_all_iff) blast
  show ?thesis
    unfolding windowFindingsOnly_def other reason manualReview_cases
    by (auto simp: hasEngineMismatch_def list_ex_iff list_all_iff)
qed

lemma reconcile_request_exists:
  assumes run: "runReconcileEngine env inp = Inr out" and block: "mustBlock out"
  shows "\<exists>req. failClosedRequest dates out correlationId observedAt actor runId = Some req \<and>
    cr_targetState req = (if rq_stateAdvancements out \<noteq> [] \<or> list_ex (\<lambda>m. mismatchRequiresManualReview (me_mismatchType m)) (rq_mismatches out)
      then CT_MANUAL_REVIEW_REQUIRED else CT_NEW_ORDERS_BLOCKED) \<and>
    cr_reasonCode req = (if rq_stateAdvancements out \<noteq> [] then ''live_reconcile_state_advancement_pending'' else toKillSwitchReasonCode out)"
proof (cases "rq_stateAdvancements out = []")
  case False
  then show ?thesis by (simp add: failClosedRequest_def hasStateAdvancementCandidatesWithoutRuntimeWrite_def)
next
  case none: True
  have decision: "(rq_failClosed out, rq_targetKillSwitchState out) = determineFailClosed (rq_mismatches out)"
    using run by (rule runReconcileEngine_InrE)
  have "rq_mismatches out \<noteq> []"
    using block decision none by (auto simp: mustBlock_def hasStateAdvancementCandidatesWithoutRuntimeWrite_def determineFailClosed_def)
  note target = decision [unfolded determineFailClosed_target [OF this]]
  let ?manual = "list_ex (\<lambda>m. mismatchRequiresManualReview (me_mismatchType m)) (rq_mismatches out)"
  have "toKillSwitchControlTarget out = Some (if ?manual then CT_MANUAL_REVIEW_REQUIRED else CT_NEW_ORDERS_BLOCKED)"
    using target by (cases ?manual) (simp_all add: toKillSwitchControlTarget_def)
  then show ?thesis using none by (simp add: failClosedRequest_def hasStateAdvancementCandidatesWithoutRuntimeWrite_def)
qed

text \<open>
  C34. A run with findings or pending advancements asks the kill switch for a state that blocks new orders,
  and afterwards new orders are blocked whatever the state was before, with one exception: when the only
  findings that ask for a review concern the window of closed orders, the request is refused because its
  reason stands for a weaker state, and an open kill switch stays open.
\<close>

theorem reconcile_blocks_orders:
  assumes run: "runReconcileEngine env inp = Inr out" and block: "mustBlock out"
  shows "\<exists>req. failClosedRequest dates out correlationId observedAt actor runId = Some req \<and>
    (newOrdersBlocked (cs_actionPlan (createKillSwitchControlDecision now req currentState)) \<longleftrightarrow>
      \<not> ((currentState = KS_NORMAL \<or> currentState = KS_STRATEGY_PAUSED) \<and> windowFindingsOnly out))"
proof -
  let ?manual = "list_ex (\<lambda>m. mismatchRequiresManualReview (me_mismatchType m)) (rq_mismatches out)"
  obtain req where req: "failClosedRequest dates out correlationId observedAt actor runId = Some req"
    "cr_targetState req = (if rq_stateAdvancements out \<noteq> [] \<or> ?manual then CT_MANUAL_REVIEW_REQUIRED else CT_NEW_ORDERS_BLOCKED)"
    "cr_reasonCode req = (if rq_stateAdvancements out \<noteq> [] then ''live_reconcile_state_advancement_pending'' else toKillSwitchReasonCode out)"
    using reconcile_request_exists [OF run block, of dates correlationId observedAt actor runId] by (elim exE conjE)
  have reason: "cr_reasonCode req \<in> set reconcileReasons"
    by (simp add: req toKillSwitchReasonCode_def reconcileReasons_def)
  have known: "mapKillSwitchReasonToTargetState (cr_reasonCode req) =
      (if cr_reasonCode req = ''live_reconcile_mismatch'' then Some CT_NEW_ORDERS_BLOCKED
       else if cr_reasonCode req = ''live_reconcile_identity_conflict'' then Some CT_MANUAL_REVIEW_REQUIRED else None)"
    "canonicalizeKillSwitchReasonCode (cr_reasonCode req) = cr_reasonCode req" "isLiveReconcileReason (cr_reasonCode req)"
    using reason reconcileReasons_known by (auto simp: list_all_iff)
  have conflict: "toKillSwitchReasonCode out = ''live_reconcile_identity_conflict'' \<Longrightarrow> ?manual"
    unfolding manualReview_cases by (auto simp: toKillSwitchReasonCode_def split: if_splits)
  have "reasonFits req currentState \<longleftrightarrow> \<not> windowFindingsOnly out"
    using known conflict by (auto simp: reasonFits_def effectiveTarget_def req windowFindingsOnly_iff split: if_splits)
  then show ?thesis
    using reconcile_request_blocks [OF reason, of now currentState] by (auto simp: req split: if_splits)
qed

section \<open>The order of a run's actions\<close>

datatype reconcile_call =
    CALL_load
  | CALL_begin begin_run_input
  | CALL_killSwitch control_request
  | CALL_balances string "balance_row list"
  | CALL_orders string "exchange_order list"
  | CALL_mismatches string "mismatch_evidence list"
  | CALL_complete string run_status
  | CALL_alerts

text \<open>Ports that keep a log of the calls beside the world of the ports they call.\<close>

definition loggedCall :: "'c \<Rightarrow> ('w, 'a) port \<Rightarrow> ('w \<times> 'c list, 'a) port" where
  "loggedCall c p = (\<lambda>(w, hist). case p w of (w', r) \<Rightarrow> ((w', hist @ [c]), r))"

definition logged :: "'w reconcile_ports \<Rightarrow> ('w \<times> reconcile_call list) reconcile_ports" where
  "logged ports =
     \<lparr>pt_loadSnapshot = (\<lambda>t c. loggedCall CALL_load (pt_loadSnapshot ports t c)),
      pt_beginRun = (\<lambda>b. loggedCall (CALL_begin b) (pt_beginRun ports b)),
      pt_appendBalances = (\<lambda>i rows. loggedCall (CALL_balances i rows) (pt_appendBalances ports i rows)),
      pt_appendOrders = (\<lambda>i rows. loggedCall (CALL_orders i rows) (pt_appendOrders ports i rows)),
      pt_appendMismatches = (\<lambda>i rows. loggedCall (CALL_mismatches i rows) (pt_appendMismatches ports i rows)),
      pt_completeRun = (\<lambda>i s m. loggedCall (CALL_complete i s) (pt_completeRun ports i s m)),
      pt_killSwitch = map_option (\<lambda>p req. loggedCall (CALL_killSwitch req) (p req)) (pt_killSwitch ports),
      pt_alerts = (\<lambda>inp out i (w, hist). (pt_alerts ports inp out i w, hist @ [CALL_alerts]))\<rparr>"

text \<open>A sequence of calls follows a plan: it logs a prefix of it, and all of it when it returns a value.\<close>

definition follows :: "('w \<times> 'c list, 'a) port \<Rightarrow> 'c list \<Rightarrow> ('a \<Rightarrow> bool) \<Rightarrow> bool" where
  "follows p plan Q \<longleftrightarrow>
     (\<forall>w hist w' hist' r. p (w, hist) = ((w', hist'), r) \<longrightarrow>
        (\<exists>k. hist' = hist @ take k plan \<and> (\<forall>a. r = Inr a \<longrightarrow> length plan \<le> k \<and> Q a)))"

lemma followsE:
  assumes "follows p plan Q" and "p (w, hist) = ((w', hist'), r)"
  obtains k where "hist' = hist @ take k plan" and "\<And>a. r = Inr a \<Longrightarrow> length plan \<le> k \<and> Q a"
proof -
  have "\<exists>k. hist' = hist @ take k plan \<and> (\<forall>a. r = Inr a \<longrightarrow> length plan \<le> k \<and> Q a)"
    using assms(1) [unfolded follows_def, rule_format, OF assms(2)] .
  then show thesis using that by (elim exE conjE) simp
qed

lemma followsI:
  assumes "\<And>w hist w' hist' r. p (w, hist) = ((w', hist'), r) \<Longrightarrow>
    \<exists>k. hist' = hist @ take k plan \<and> (\<forall>a. r = Inr a \<longrightarrow> length plan \<le> k \<and> Q a)"
  shows "follows p plan Q"
  unfolding follows_def using assms by blast

lemma follows_answer: "Q a \<Longrightarrow> follows (answer (Inr a)) [] Q"
  by (rule followsI) (auto simp: answer_def)

lemma follows_fail: "follows (answer (Inl e)) plan Q"
  by (rule followsI) (auto simp: answer_def intro: exI [of _ 0])

lemma follows_logged: "follows (loggedCall c p) [c] (\<lambda>a. True)"
  by (rule followsI) (auto simp: loggedCall_def split: prod.splits intro!: exI [of _ 1])

lemma follows_call:
  assumes p: "follows p plan P" and f: "\<And>a. P a \<Longrightarrow> follows (f a) rest Q"
  shows "follows (call p f) (plan @ rest) Q"
proof (rule followsI)
  fix w hist w' hist' r
  assume run: "call p f (w, hist) = ((w', hist'), r)"
  obtain w1 hist1 r1 where first: "p (w, hist) = ((w1, hist1), r1)" by (metis surj_pair)
  obtain k where k: "hist1 = hist @ take k plan" "\<And>a. r1 = Inr a \<Longrightarrow> length plan \<le> k \<and> P a"
    using followsE [OF p first] by metis
  show "\<exists>k. hist' = hist @ take k (plan @ rest) \<and> (\<forall>a. r = Inr a \<longrightarrow> length (plan @ rest) \<le> k \<and> Q a)"
  proof (cases r1)
    case (Inl e)
    then show ?thesis
      using run first k(1) by (auto simp: call_def min_def intro!: exI [of _ "min k (length plan)"])
  next
    case (Inr a)
    then have full: "length plan \<le> k" and "P a" using k(2) by auto
    have second: "f a (w1, hist1) = ((w', hist'), r)" using run first Inr by (simp add: call_def)
    obtain j where j: "hist' = hist1 @ take j rest" "\<And>b. r = Inr b \<Longrightarrow> length rest \<le> j \<and> Q b"
      using followsE [OF f [OF \<open>P a\<close>] second] by metis
    show ?thesis
      using j k(1) full by (intro exI [of _ "length plan + j"]) auto
  qed
qed

definition blockCalls :: "date_env \<Rightarrow> reconcile_output \<Rightarrow> string \<Rightarrow> time_input \<Rightarrow> string \<Rightarrow> string \<Rightarrow> reconcile_call list" where
  "blockCalls env out correlationId observedAt actor runId =
     (if mustBlock out then
        (case failClosedRequest env out correlationId observedAt actor runId of None \<Rightarrow> [] | Some req \<Rightarrow> [CALL_killSwitch req])
      else [])"

definition evidenceCalls :: "reconcile_env \<Rightarrow> reconcile_input \<Rightarrow> reconcile_output \<Rightarrow> string \<Rightarrow> reconcile_call list" where
  "evidenceCalls env inp out runId =
     [CALL_balances runId (case rn_exchangeBalances inp of None \<Rightarrow> [] | Some bs \<Rightarrow> map toBalanceSnapshotRow bs),
      CALL_orders runId (suppliedSnapshots env inp), CALL_mismatches runId (rq_mismatches out)]"

lemma applyFailClosed_follows:
  "follows (applyFailClosedIfNeeded env (logged ports) out correlationId observedAt actor runId)
     (blockCalls env out correlationId observedAt actor runId) (\<lambda>r. True)"
proof (cases "mustBlock out")
  case False
  then show ?thesis by (simp add: applyFailClosedIfNeeded_def blockCalls_def follows_answer)
next
  case must: True
  show ?thesis
  proof (cases "pt_killSwitch ports")
    case None
    then show ?thesis using must by (simp add: applyFailClosedIfNeeded_def logged_def follows_fail)
  next
    case (Some p)
    have "follows (call (loggedCall (CALL_killSwitch req) (p req)) (\<lambda>r. answer (Inr (Some r)))) ([CALL_killSwitch req] @ []) (\<lambda>r. True)" for req
      by (rule follows_call [OF follows_logged]) (simp add: follows_answer)
    then show ?thesis
      using must Some by (simp add: applyFailClosedIfNeeded_def blockCalls_def logged_def follows_answer split: option.split)
  qed
qed

lemma persist_follows:
  "follows (persistReconcileEngineEvidence env (logged ports) runId inp out) (evidenceCalls env inp out runId) (\<lambda>u. True)"
proof -
  have split: "evidenceCalls env inp out runId =
      [CALL_balances runId (case rn_exchangeBalances inp of None \<Rightarrow> [] | Some bs \<Rightarrow> map toBalanceSnapshotRow bs)] @
      [CALL_orders runId (suppliedSnapshots env inp)] @ [CALL_mismatches runId (rq_mismatches out)]"
    by (simp add: evidenceCalls_def)
  show ?thesis
    unfolding split persistReconcileEngineEvidence_def suppliedSnapshots_def [symmetric]
    by (simp only: logged_def reconcile_ports.simps)
      (rule follows_call [OF follows_logged], rule follows_call [OF follows_logged], rule follows_logged)
qed

definition bodyCalls ::
  "reconcile_env \<Rightarrow> reconcile_input \<Rightarrow> reconcile_output \<Rightarrow> string \<Rightarrow> time_input \<Rightarrow> string \<Rightarrow> string \<Rightarrow> reconcile_call list" where
  "bodyCalls env inp out correlationId observedAt actor runId =
     blockCalls (re_dates env) out correlationId observedAt actor runId @ evidenceCalls env inp out runId
     @ [CALL_complete runId (finalStatus out)] @ (if rq_stateAdvancements out = [] then [] else [CALL_alerts])"

lemma alerts_follow:
  "follows (dispatchAlerts (logged ports) inp out runId) (if rq_stateAdvancements out = [] then [] else [CALL_alerts]) (\<lambda>u. True)"
  by (rule followsI) (auto simp: dispatchAlerts_def logged_def split: if_splits intro: exI [of _ 1])

lemma answer_follows: "follows (answer r) [] (\<lambda>a. r = Inr a)"
  by (cases r) (auto intro: follows_answer follows_fail)

lemma body_follows:
  assumes engine: "runReconcileEngine env inp = Inr out"
  shows "follows (reconcileBody env (logged ports) inp correlationId observedAt actor runId)
    (bodyCalls env inp out correlationId observedAt actor runId) (\<lambda>res. rz_engineOutput res = out)"
proof -
  let ?alerts = "if rq_stateAdvancements out = [] then [] else [CALL_alerts]"
  have plan: "bodyCalls env inp out correlationId observedAt actor runId =
      [] @ blockCalls (re_dates env) out correlationId observedAt actor runId @ evidenceCalls env inp out runId
        @ [CALL_complete runId (finalStatus out)] @ [] @ ?alerts @ []"
    by (simp add: bodyCalls_def)
  have complete: "follows (pt_completeRun (logged ports) i s m) [CALL_complete i s] (\<lambda>a. True)" for i s m
    by (simp add: logged_def follows_logged)
  show ?thesis
    unfolding plan reconcileBody_def
  proof (rule follows_call [OF answer_follows])
    fix out' assume "runReconcileEngine env inp = Inr out'"
    then have same: "out' = out" using engine by simp
    show "follows (call (applyFailClosedIfNeeded (re_dates env) (logged ports) out' correlationId observedAt actor runId) (\<lambda>killSwitchResult.
        call (persistReconcileEngineEvidence env (logged ports) runId inp out') (\<lambda>u.
        call (pt_completeRun (logged ports) runId (finalStatus out') (Some (createLiveReconcileCompletionMetadata out'))) (\<lambda>completedRun.
        call (answer (createStatusSummaryFromEngine (re_dates env) out' observedAt (resolveRuntimeWebSocketStatus inp out'))) (\<lambda>summary.
        call (dispatchAlerts (logged ports) inp out' (ru_id completedRun)) (\<lambda>u.
        answer (Inr \<lparr>rz_run = completedRun, rz_engineOutput = out', rz_statusSummary = summary, rz_killSwitchResult = killSwitchResult\<rparr>)))))))
      (blockCalls (re_dates env) out correlationId observedAt actor runId @ evidenceCalls env inp out runId
        @ [CALL_complete runId (finalStatus out)] @ [] @ ?alerts @ []) (\<lambda>res. rz_engineOutput res = out)"
      unfolding same
      by (rule follows_call [OF applyFailClosed_follows], rule follows_call [OF persist_follows], rule follows_call [OF complete],
          rule follows_call [OF answer_follows], rule follows_call [OF alerts_follow]) (simp add: follows_answer)
  qed
qed

text \<open>
  C35. Once a run has begun and the engine has answered, the worker acts in a fixed order whatever its ports
  answer: the kill switch first when the run must block, then the evidence, then the final status, alerts
  last. An error stops it there, and the run is closed as failed. A run that returns has done all of it, and
  is only recorded as completed when there was nothing to block.
\<close>

theorem reconcile_run_ordered:
  assumes load: "pt_loadSnapshot ports observedAt correlationId w = (w1, Inr snapshot)"
    and inp: "inp = withObservedAt (rs_engineInput snapshot) observedAt"
    and key: "(case rs_idempotencyKey snapshot of Some k \<Rightarrow> Inr k
      | None \<Rightarrow> createReconcileIdempotencyKey (re_dates env) observedAt correlationId) = Inr key"
    and begun: "pt_beginRun ports (beginInput snapshot inp key correlationId) w1 = (w2, Inr (True, run))"
    and engine: "runReconcileEngine env inp = Inr out"
    and execution: "runOnce env (logged ports) actor observedAt (Some correlationId) (w, []) = ((w', hist), r)"
  shows "\<exists>k. hist = [CALL_load, CALL_begin (beginInput snapshot inp key correlationId)]
      @ take k (bodyCalls env inp out correlationId observedAt actor (ru_id run))
      @ (case r of Inl e \<Rightarrow> [CALL_complete (ru_id run) RUN_FAILED] | Inr res \<Rightarrow> []) \<and>
    (\<forall>res. r = Inr res \<longrightarrow> length (bodyCalls env inp out correlationId observedAt actor (ru_id run)) \<le> k \<and> rz_engineOutput res = out) \<and>
    (mustBlock out \<longrightarrow> finalStatus out = RUN_MANUAL_REVIEW_REQUIRED \<and>
      (\<exists>req. hd (bodyCalls env inp out correlationId observedAt actor (ru_id run)) = CALL_killSwitch req \<and>
        failClosedRequest (re_dates env) out correlationId observedAt actor (ru_id run) = Some req))"
proof -
  let ?b = "beginInput snapshot inp key correlationId" and ?body = "bodyCalls env inp out correlationId observedAt actor (ru_id run)"
  obtain w3 hist3 r3 where body: "reconcileBody env (logged ports) inp correlationId observedAt actor (ru_id run)
      (w2, [CALL_load, CALL_begin ?b]) = ((w3, hist3), r3)"
    by (metis surj_pair)
  obtain k where k: "hist3 = [CALL_load, CALL_begin ?b] @ take k ?body" "\<And>res. r3 = Inr res \<Longrightarrow> length ?body \<le> k \<and> rz_engineOutput res = out"
    using followsE [OF body_follows [OF engine] body] by metis
  have first: "loadSnapshotOrRecordFailure (re_dates env) (logged ports) observedAt correlationId actor (w, []) = ((w1, [CALL_load]), Inr snapshot)"
    by (simp add: loadSnapshotOrRecordFailure_def recover_def logged_def loggedCall_def load)
  have second: "pt_beginRun (logged ports) ?b (w1, [CALL_load]) = ((w2, [CALL_load, CALL_begin ?b]), Inr (True, run))"
    by (simp add: logged_def loggedCall_def begun)
  have outcome: "((w', hist), r) = recover (reconcileBody env (logged ports) inp correlationId observedAt actor (ru_id run)) (\<lambda>e.
      call (pt_completeRun (logged ports) (ru_id run) RUN_FAILED None) (\<lambda>failedRun. answer (Inl (Failure ''live reconcile run failed''))))
      (w2, [CALL_load, CALL_begin ?b])"
    using execution first second key by (simp add: runOnce_def call_def answer_def Let_def inp)
  have tail: "hist = hist3 @ (case r of Inl e \<Rightarrow> [CALL_complete (ru_id run) RUN_FAILED] | Inr res \<Rightarrow> []) \<and> (\<forall>res. r = Inr res \<longrightarrow> r3 = Inr res)"
  proof (cases r3)
    case (Inr res)
    then show ?thesis using outcome body by (simp add: recover_def)
  next
    case (Inl e)
    obtain w4 r4 where "pt_completeRun ports (ru_id run) RUN_FAILED None w3 = (w4, r4)" by (metis surj_pair)
    then show ?thesis
      using outcome body Inl by (cases r4) (simp_all add: recover_def call_def logged_def loggedCall_def answer_def)
  qed
  have "finalStatus out = RUN_MANUAL_REVIEW_REQUIRED \<and> (\<exists>req. hd ?body = CALL_killSwitch req \<and>
      failClosedRequest (re_dates env) out correlationId observedAt actor (ru_id run) = Some req)" if must: "mustBlock out"
  proof -
    obtain req where "failClosedRequest (re_dates env) out correlationId observedAt actor (ru_id run) = Some req"
      using reconcile_request_exists [OF engine must] by blast
    then show ?thesis using must by (simp add: bodyCalls_def blockCalls_def finalStatus_def mustBlock_def)
  qed
  then show ?thesis using k tail by (intro exI [of _ k]) auto
qed

section \<open>No credential is stored\<close>

fun holdsRawKey :: "json \<Rightarrow> bool" and entriesHoldRawKey :: "json_record \<Rightarrow> bool" where
  "holdsRawKey (JArr vs) = list_ex holdsRawKey vs"
| "holdsRawKey (JObj entries) = entriesHoldRawKey entries"
| "holdsRawKey _ = False"
| "entriesHoldRawKey [] = False"
| "entriesHoldRawKey ((k, v) # entries) = (k \<in> set rawProviderMetadataKeys \<or> holdsRawKey v \<or> entriesHoldRawKey entries)"

lemma sanitize_no_raw_key:
  "\<not> holdsRawKey (sanitizeReconcileEvidenceValue v)"
  "\<not> entriesHoldRawKey (sanitizeEntries entries)"
  by (induction v and entries rule: sanitizeReconcileEvidenceValue_sanitizeEntries.induct)
    (auto simp: Let_def list_ex_iff)

lemma sanitized_metadata: "sanitizeReconcileEvidenceMetadata metadata = Some m \<Longrightarrow> m \<noteq> [] \<and> \<not> entriesHoldRawKey m"
proof (cases metadata)
  case (Some entries)
  assume "sanitizeReconcileEvidenceMetadata metadata = Some m"
  with Some have "m = sanitizeEntries entries \<and> m \<noteq> []"
    by (auto simp: sanitizeReconcileEvidenceMetadata_def split: list.splits)
  then show ?thesis using sanitize_no_raw_key(2) by blast
qed (simp add: sanitizeReconcileEvidenceMetadata_def)

text \<open>Nothing under a key that may hold a raw payload or a credential is stored, at any depth.\<close>

theorem stored_balances_hold_no_credential:
  "list_all (\<lambda>row. case br_metadata row of None \<Rightarrow> True | Some m \<Rightarrow> m \<noteq> [] \<and> \<not> entriesHoldRawKey m) (map toBalanceSnapshotRow balances)"
  using sanitized_metadata by (auto simp: list_all_iff toBalanceSnapshotRow_def split: option.splits)

section \<open>Examples\<close>

text \<open>The only finding is that closed orders could not be read in full.\<close>

definition exhaustedInput :: reconcile_input where
  "exhaustedInput = exampleReconcileInput exampleExchangeOrder
     \<lparr>rn_closedOrderWindow := \<lparr>cw_windowStart = DateInput (Some 0), cw_windowEnd = DateInput (Some 7), cw_windowExhausted = True,
        cw_queryCount = JsFinite 1\<rparr>\<rparr>"

lemma exhausted_run:
  "case runReconcileEngine exampleReconcileEnv exhaustedInput of Inl e \<Rightarrow> False
    | Inr out \<Rightarrow> mustBlock out \<and> windowFindingsOnly out \<and> rq_targetKillSwitchState out = Some KS_MANUAL_REVIEW_REQUIRED"
  by code_simp

lemma missing_order_run:
  "case runReconcileEngine exampleReconcileEnv (exampleReconcileInput exampleExchangeOrder\<lparr>rn_exchangeOpenOrders := []\<rparr>) of Inl e \<Rightarrow> False
    | Inr out \<Rightarrow> mustBlock out \<and> \<not> windowFindingsOnly out"
  by code_simp

theorem reconcile_blocks_orders_witness:
  "(\<exists>out req. runReconcileEngine exampleReconcileEnv exhaustedInput = Inr out \<and>
      failClosedRequest (re_dates exampleReconcileEnv) out ''c1'' (TextInput ''now'') ''worker'' ''r1'' = Some req \<and>
      rq_targetKillSwitchState out = Some KS_MANUAL_REVIEW_REQUIRED \<and>
      \<not> newOrdersBlocked (cs_actionPlan (createKillSwitchControlDecision (At 1) req KS_NORMAL))) \<and>
   (\<exists>out req. runReconcileEngine exampleReconcileEnv (exampleReconcileInput exampleExchangeOrder\<lparr>rn_exchangeOpenOrders := []\<rparr>) = Inr out \<and>
      failClosedRequest (re_dates exampleReconcileEnv) out ''c1'' (TextInput ''now'') ''worker'' ''r1'' = Some req \<and>
      newOrdersBlocked (cs_actionPlan (createKillSwitchControlDecision (At 1) req KS_NORMAL)))"
proof (intro conjI)
  obtain out where run: "runReconcileEngine exampleReconcileEnv exhaustedInput = Inr out" and "mustBlock out" "windowFindingsOnly out"
    "rq_targetKillSwitchState out = Some KS_MANUAL_REVIEW_REQUIRED"
    using exhausted_run by (auto split: sum.splits)
  with reconcile_blocks_orders [OF run, of "re_dates exampleReconcileEnv" "''c1''" "TextInput ''now''" "''worker''" "''r1''" "At 1" KS_NORMAL]
  show "\<exists>out req. runReconcileEngine exampleReconcileEnv exhaustedInput = Inr out \<and>
      failClosedRequest (re_dates exampleReconcileEnv) out ''c1'' (TextInput ''now'') ''worker'' ''r1'' = Some req \<and>
      rq_targetKillSwitchState out = Some KS_MANUAL_REVIEW_REQUIRED \<and>
      \<not> newOrdersBlocked (cs_actionPlan (createKillSwitchControlDecision (At 1) req KS_NORMAL))"
    by auto
next
  let ?inp = "exampleReconcileInput exampleExchangeOrder\<lparr>rn_exchangeOpenOrders := []\<rparr>"
  obtain out where run: "runReconcileEngine exampleReconcileEnv ?inp = Inr out" and "mustBlock out" "\<not> windowFindingsOnly out"
    using missing_order_run by (auto split: sum.splits)
  with reconcile_blocks_orders [OF run, of "re_dates exampleReconcileEnv" "''c1''" "TextInput ''now''" "''worker''" "''r1''" "At 1" KS_NORMAL]
  show "\<exists>out req. runReconcileEngine exampleReconcileEnv ?inp = Inr out \<and>
      failClosedRequest (re_dates exampleReconcileEnv) out ''c1'' (TextInput ''now'') ''worker'' ''r1'' = Some req \<and>
      newOrdersBlocked (cs_actionPlan (createKillSwitchControlDecision (At 1) req KS_NORMAL))"
    by auto
qed

text \<open>Ports of a worker whose repository refuses evidence.\<close>

definition exampleReconcilePorts :: "unit reconcile_ports" where
  "exampleReconcilePorts =
     \<lparr>pt_loadSnapshot = (\<lambda>t c w. (w, Inr \<lparr>rs_engineInput = exhaustedInput, rs_idempotencyKey = Some ''k1'', rs_sourceSummary = None,
        rs_snapshotMetadata = None\<rparr>)),
      pt_beginRun = (\<lambda>b w. (w, Inr (True, \<lparr>ru_id = ''r1'', ru_runStatus = RUN_RUNNING\<rparr>))),
      pt_appendBalances = (\<lambda>i rows w. (w, Inl (Failure ''database''))),
      pt_appendOrders = (\<lambda>i rows w. (w, Inr ())), pt_appendMismatches = (\<lambda>i rows w. (w, Inr ())),
      pt_completeRun = (\<lambda>i s m w. (w, Inr \<lparr>ru_id = i, ru_runStatus = s\<rparr>)),
      pt_killSwitch = Some (\<lambda>req w. (w, Inr (createKillSwitchControlDecision (At 1) req KS_NORMAL))),
      pt_alerts = (\<lambda>inp out i w. w)\<rparr>"

theorem reconcile_run_ordered_witness:
  "\<exists>hist r k out. runOnce exampleReconcileEnv (logged exampleReconcilePorts) ''worker'' (TextInput ''now'') (Some ''c1'') ((), []) = (((), hist), r) \<and>
    hist = [CALL_load, CALL_begin (beginInput \<lparr>rs_engineInput = exhaustedInput, rs_idempotencyKey = Some ''k1'', rs_sourceSummary = None,
        rs_snapshotMetadata = None\<rparr> exhaustedInput ''k1'' ''c1'')]
      @ take k (bodyCalls exampleReconcileEnv exhaustedInput out ''c1'' (TextInput ''now'') ''worker'' ''r1'')
      @ (case r of Inl e \<Rightarrow> [CALL_complete ''r1'' RUN_FAILED] | Inr res \<Rightarrow> []) \<and>
    finalStatus out = RUN_MANUAL_REVIEW_REQUIRED"
proof -
  let ?snap = "\<lparr>rs_engineInput = exhaustedInput, rs_idempotencyKey = Some ''k1'', rs_sourceSummary = None, rs_snapshotMetadata = None\<rparr>"
  obtain out where engine: "runReconcileEngine exampleReconcileEnv exhaustedInput = Inr out" and must: "mustBlock out"
    using exhausted_run by (auto split: sum.splits)
  obtain w hist r where "runOnce exampleReconcileEnv (logged exampleReconcilePorts) ''worker'' (TextInput ''now'') (Some ''c1'') ((), []) = ((w, hist), r)"
    by (metis surj_pair)
  then have run: "runOnce exampleReconcileEnv (logged exampleReconcilePorts) ''worker'' (TextInput ''now'') (Some ''c1'') ((), []) = (((), hist), r)"
    by (cases w) simp
  have load: "pt_loadSnapshot exampleReconcilePorts (TextInput ''now'') ''c1'' () = ((), Inr ?snap)"
    by (simp add: exampleReconcilePorts_def)
  have inp: "exhaustedInput = withObservedAt (rs_engineInput ?snap) (TextInput ''now'')"
    by (simp add: withObservedAt_def exhaustedInput_def exampleReconcileInput_def)
  have key: "(case rs_idempotencyKey ?snap of Some k \<Rightarrow> Inr k | None \<Rightarrow>
      createReconcileIdempotencyKey (re_dates exampleReconcileEnv) (TextInput ''now'') ''c1'') = Inr ''k1''"
    by simp
  have begun: "pt_beginRun exampleReconcilePorts (beginInput ?snap exhaustedInput ''k1'' ''c1'') () = ((), Inr (True, \<lparr>ru_id = ''r1'', ru_runStatus = RUN_RUNNING\<rparr>))"
    by (simp add: exampleReconcilePorts_def)
  obtain k where "hist = [CALL_load, CALL_begin (beginInput ?snap exhaustedInput ''k1'' ''c1'')]
      @ take k (bodyCalls exampleReconcileEnv exhaustedInput out ''c1'' (TextInput ''now'') ''worker'' ''r1'')
      @ (case r of Inl e \<Rightarrow> [CALL_complete ''r1'' RUN_FAILED] | Inr res \<Rightarrow> [])"
    and "finalStatus out = RUN_MANUAL_REVIEW_REQUIRED"
    using reconcile_run_ordered [OF load inp key begun engine run, unfolded run_record.simps] must by blast
  with run show ?thesis by blast
qed

end
