(* ===== verification/Reconcile_Repository.thy ===== *)
theory Reconcile_Repository
  imports Execution_Persistence Order_Groups Reconcile_Runtime
begin

text \<open>
  The repository of reconcile runs, \<^verbatim>\<open>src/src/infrastructure/db/live-reconcile/repository.ts\<close> and
  \<^verbatim>\<open>row-mapper.ts\<close>, over the tables of \<^verbatim>\<open>migrations/000009\<close> to \<^verbatim>\<open>000012\<close> with their checks and unique keys. An
  operation that locks the row of its run until the end of its transaction is one step. What the database
  does is a parameter: storing a text in a \<^verbatim>\<open>numeric(36, s)\<close> column, a time in a \<^verbatim>\<open>timestamptz\<close> column (in
  microseconds), which orders exist, and the id and the time of a new row. Texts for people are left out.

  The theory shows that a finished run is never changed, and that a run is created and a fill reserved at
  most once.
\<close>

section \<open>Tables\<close>

record db_env =
  dx_numeric :: "nat \<Rightarrow> numeric \<Rightarrow> rat result"
  dx_timestamp :: "time_input \<Rightarrow> int result"
  dx_orderExists :: "string \<Rightarrow> bool"
  dx_decimalText :: "rat \<Rightarrow> string"

record run_row =
  rb_id :: string
  rb_idempotencyKey :: string
  rb_status :: run_status
  rb_startedAt :: int
  rb_finishedAt :: "int option"
  rb_guardProfile :: "string option"
  rb_sourceSummary :: "string option"
  rb_correlationId :: "string option"
  rb_metadata :: json_record

record stored_balance =
  sb_runId :: string
  sb_currency :: string
  sb_available :: rat
  sb_locked :: rat
  sb_total :: rat
  sb_capturedAt :: int
  sb_source :: string
  sb_metadata :: json_record

record stored_order =
  sx_runId :: string
  sx_exchangeOrderId :: "string option"
  sx_identifier :: "string option"
  sx_identityFingerprint :: string
  sx_market :: string
  sx_side :: order_side
  sx_status :: string
  sx_requestedQuantity :: rat
  sx_remainingQuantity :: "rat option"
  sx_requestedPrice :: "rat option"
  sx_source :: snapshot_source
  sx_capturedAt :: int

record stored_mismatch =
  sy_runId :: string
  sy_mismatchType :: mismatch_type
  sy_severity :: reconcile_severity
  sy_market :: "string option"
  sy_orderIdentity :: "string option"
  sy_currency :: "string option"
  sy_evidenceFingerprint :: string
  sy_trace :: json_record
  sy_occurredAt :: int

datatype recovery_status = RECOVERABLE | RECOVERY_MANUAL_REVIEW
datatype position_source = FROM_fills | FROM_balances | FROM_local | FROM_manual_review

record 'n position_snapshot =
  pz_exchange :: string
  pz_market :: string
  pz_strategyId :: string
  pz_quantity :: 'n
  pz_averageEntryPrice :: "'n option"
  pz_recoveryStatus :: recovery_status
  pz_source :: position_source
  pz_evidence :: "json_record option"
  pz_metadata :: "json_record option"

record 'n fill_key =
  fk_exchange :: string
  fk_market :: string
  fk_orderId :: "string option"
  fk_exchangeOrderId :: "string option"
  fk_exchangeFillId :: "string option"
  fk_fillFingerprint :: string
  fk_side :: order_side
  fk_price :: 'n
  fk_quantity :: 'n
  fk_metadata :: "json_record option"

record 'r run_child =
  ch_runId :: string
  ch_at :: int
  ch_row :: 'r

record reconcile_db =
  rd_runs :: "run_row list"
  rd_balances :: "stored_balance list"
  rd_orders :: "stored_order list"
  rd_mismatches :: "stored_mismatch list"
  rd_positions :: "rat position_snapshot run_child list"
  rd_fillKeys :: "rat fill_key run_child list"

definition emptyReconcileDb :: reconcile_db where
  "emptyReconcileDb = \<lparr>rd_runs = [], rd_balances = [], rd_orders = [], rd_mismatches = [], rd_positions = [], rd_fillKeys = []\<rparr>"

section \<open>Rows\<close>

text \<open>A row that a table is given: the mapper of the source, then the columns and checks of the table.\<close>

definition notBlank :: "string option \<Rightarrow> bool" where
  "notBlank x \<longleftrightarrow> (case x of None \<Rightarrow> True | Some s \<Rightarrow> \<not> blankText s)"

definition optionalNumeric :: "db_env \<Rightarrow> nat \<Rightarrow> numeric option \<Rightarrow> rat option result" where
  "optionalNumeric env s x = (case x of None \<Rightarrow> Inr None | Some n \<Rightarrow> bindR (dx_numeric env s n) (\<lambda>v. Inr (Some v)))"

definition toLiveReconcileRunRowInput ::
  "string \<Rightarrow> int \<Rightarrow> string \<Rightarrow> string option \<Rightarrow> string option \<Rightarrow> string option \<Rightarrow> json_record option \<Rightarrow> run_row" where
  "toLiveReconcileRunRowInput newId now idempotencyKey guardProfile sourceSummary correlationId metadata =
     \<lparr>rb_id = newId, rb_idempotencyKey = idempotencyKey, rb_status = RUN_RUNNING, rb_startedAt = now, rb_finishedAt = None,
      rb_guardProfile = guardProfile, rb_sourceSummary = sourceSummary, rb_correlationId = correlationId,
      rb_metadata = (case metadata of None \<Rightarrow> [] | Some m \<Rightarrow> m)\<rparr>"

definition toLiveReconcileBalanceSnapshotRowInput :: "db_env \<Rightarrow> string \<Rightarrow> balance_row \<Rightarrow> stored_balance result" where
  "toLiveReconcileBalanceSnapshotRowInput env runId b =
     bindR (dx_numeric env 8 (br_available b)) (\<lambda>available.
     bindR (dx_numeric env 8 (br_locked b)) (\<lambda>locked.
     bindR (dx_numeric env 8 (br_total b)) (\<lambda>total.
     bindR (dx_timestamp env (br_capturedAt b)) (\<lambda>captured.
     checkRow (\<not> blankText (br_currency b) \<and> 0 \<le> available \<and> 0 \<le> locked \<and> 0 \<le> total \<and> total = available + locked)
       \<lparr>sb_runId = runId, sb_currency = br_currency b, sb_available = available, sb_locked = locked, sb_total = total,
        sb_capturedAt = captured, sb_source = br_source b, sb_metadata = (case br_metadata b of None \<Rightarrow> [] | Some m \<Rightarrow> m)\<rparr>))))"

definition buildLiveReconcileOrderIdentityFingerprint :: "db_env \<Rightarrow> exchange_order \<Rightarrow> string result" where
  "buildLiveReconcileOrderIdentityFingerprint env ex =
     bindR (parseFinancialDecimal (eo_requestedQuantity ex)) (\<lambda>quantity.
     bindR (case eo_requestedPrice ex of None \<Rightarrow> Inr ''''
        | Some p \<Rightarrow> bindR (parseFinancialDecimal p) (\<lambda>v. Inr (dx_decimalText env v))) (\<lambda>price.
     Inr (eo_market ex @ ''|'' @ sideName (eo_side ex) @ ''|'' @ dx_decimalText env quantity @ ''|'' @ price)))"

definition toLiveReconcileExchangeOrderSnapshotRowInput :: "db_env \<Rightarrow> string \<Rightarrow> exchange_order \<Rightarrow> stored_order result" where
  "toLiveReconcileExchangeOrderSnapshotRowInput env runId ex =
     bindR (buildLiveReconcileOrderIdentityFingerprint env ex) (\<lambda>fingerprint.
     bindR (dx_numeric env 18 (eo_requestedQuantity ex)) (\<lambda>quantity.
     bindR (optionalNumeric env 18 (eo_remainingQuantity ex)) (\<lambda>remaining.
     bindR (optionalNumeric env 18 (eo_requestedPrice ex)) (\<lambda>price.
     bindR (dx_timestamp env (eo_capturedAt ex)) (\<lambda>captured.
     checkRow (\<not> blankText (eo_market ex) \<and> notBlank (eo_exchangeOrderId ex) \<and> notBlank (eo_identifier ex) \<and> 0 < quantity \<and>
         (case remaining of None \<Rightarrow> True | Some r \<Rightarrow> 0 \<le> r \<and> r \<le> quantity) \<and> (case price of None \<Rightarrow> True | Some p \<Rightarrow> 0 < p))
       \<lparr>sx_runId = runId, sx_exchangeOrderId = eo_exchangeOrderId ex, sx_identifier = eo_identifier ex,
        sx_identityFingerprint = fingerprint, sx_market = eo_market ex, sx_side = eo_side ex, sx_status = eo_exchangeStatus ex,
        sx_requestedQuantity = quantity, sx_remainingQuantity = remaining, sx_requestedPrice = price,
        sx_source = eo_source ex, sx_capturedAt = captured\<rparr>)))))"

definition toLiveReconcileMismatchEvidenceRowInput :: "db_env \<Rightarrow> string \<Rightarrow> mismatch_evidence \<Rightarrow> stored_mismatch result" where
  "toLiveReconcileMismatchEvidenceRowInput env runId m =
     bindR (dx_timestamp env (TextInput (me_occurredAt m))) (\<lambda>occurred.
     checkRow (notBlank (me_market m) \<and> notBlank (me_orderIdentity m) \<and> notBlank (me_currency m) \<and>
         \<not> blankText (me_evidenceFingerprint m))
       \<lparr>sy_runId = runId, sy_mismatchType = me_mismatchType m, sy_severity = me_severity m, sy_market = me_market m,
        sy_orderIdentity = me_orderIdentity m, sy_currency = me_currency m, sy_evidenceFingerprint = me_evidenceFingerprint m,
        sy_trace = me_trace m, sy_occurredAt = occurred\<rparr>)"

definition toLiveReconcilePositionSnapshotRowInput ::
  "db_env \<Rightarrow> string \<Rightarrow> numeric position_snapshot \<times> time_input \<Rightarrow> rat position_snapshot run_child result" where
  "toLiveReconcilePositionSnapshotRowInput env runId = (\<lambda>(p, capturedAt).
     bindR (dx_numeric env 18 (pz_quantity p)) (\<lambda>quantity.
     bindR (optionalNumeric env 18 (pz_averageEntryPrice p)) (\<lambda>price.
     bindR (dx_timestamp env capturedAt) (\<lambda>captured.
     checkRow (\<not> blankText (pz_exchange p) \<and> \<not> blankText (pz_market p) \<and> \<not> blankText (pz_strategyId p) \<and> 0 \<le> quantity \<and>
         (case price of None \<Rightarrow> pz_recoveryStatus p = RECOVERY_MANUAL_REVIEW | Some v \<Rightarrow> 0 \<le> v) \<and>
         (pz_recoveryStatus p = RECOVERY_MANUAL_REVIEW \<or> quantity = 0 \<or> (case price of None \<Rightarrow> True | Some v \<Rightarrow> 0 < v)) \<and>
         (pz_recoveryStatus p \<noteq> RECOVERABLE \<or> pz_source p = FROM_fills))
       \<lparr>ch_runId = runId, ch_at = captured, ch_row =
         \<lparr>pz_exchange = pz_exchange p, pz_market = pz_market p, pz_strategyId = pz_strategyId p, pz_quantity = quantity,
          pz_averageEntryPrice = price, pz_recoveryStatus = pz_recoveryStatus p, pz_source = pz_source p,
          pz_evidence = Some (case pz_evidence p of None \<Rightarrow> [] | Some m \<Rightarrow> m), pz_metadata = Some (case pz_metadata p of None \<Rightarrow> [] | Some m \<Rightarrow> m)\<rparr>\<rparr>))))"

definition toLiveReconcileFillRecoveryKeyRowInput ::
  "db_env \<Rightarrow> string \<Rightarrow> numeric fill_key \<times> time_input \<Rightarrow> rat fill_key run_child result" where
  "toLiveReconcileFillRecoveryKeyRowInput env runId = (\<lambda>(k, filledAt).
     bindR (dx_numeric env 18 (fk_price k)) (\<lambda>price.
     bindR (dx_numeric env 18 (fk_quantity k)) (\<lambda>quantity.
     bindR (dx_timestamp env filledAt) (\<lambda>filled.
     checkRow (\<not> blankText (fk_exchange k) \<and> \<not> blankText (fk_market k) \<and> notBlank (fk_exchangeOrderId k) \<and>
         notBlank (fk_exchangeFillId k) \<and> \<not> blankText (fk_fillFingerprint k) \<and> 0 < price \<and> 0 < quantity \<and>
         (case fk_orderId k of None \<Rightarrow> True | Some i \<Rightarrow> dx_orderExists env i))
       \<lparr>ch_runId = runId, ch_at = filled, ch_row =
         \<lparr>fk_exchange = fk_exchange k, fk_market = fk_market k, fk_orderId = fk_orderId k, fk_exchangeOrderId = fk_exchangeOrderId k,
          fk_exchangeFillId = fk_exchangeFillId k, fk_fillFingerprint = fk_fillFingerprint k, fk_side = fk_side k,
          fk_price = price, fk_quantity = quantity, fk_metadata = Some (case fk_metadata k of None \<Rightarrow> [] | Some m \<Rightarrow> m)\<rparr>\<rparr>))))"

text \<open>The unique keys of the tables.\<close>

definition balanceConflict :: "stored_balance \<Rightarrow> stored_balance \<Rightarrow> bool" where
  "balanceConflict a b \<longleftrightarrow> sb_runId a = sb_runId b \<and> sb_currency a = sb_currency b \<and> sb_capturedAt a = sb_capturedAt b \<and> sb_source a = sb_source b"

definition orderConflict :: "stored_order \<Rightarrow> stored_order \<Rightarrow> bool" where
  "orderConflict a b \<longleftrightarrow> sx_runId a = sx_runId b \<and> sx_source a = sx_source b \<and> sx_capturedAt a = sx_capturedAt b \<and> sx_status a = sx_status b \<and>
     sx_exchangeOrderId a = sx_exchangeOrderId b \<and> sx_identifier a = sx_identifier b \<and>
     (sx_exchangeOrderId a \<noteq> None \<or> sx_identifier a \<noteq> None)"

definition mismatchConflict :: "stored_mismatch \<Rightarrow> stored_mismatch \<Rightarrow> bool" where
  "mismatchConflict a b \<longleftrightarrow> sy_runId a = sy_runId b \<and> sy_evidenceFingerprint a = sy_evidenceFingerprint b"

definition positionConflict :: "rat position_snapshot run_child \<Rightarrow> rat position_snapshot run_child \<Rightarrow> bool" where
  "positionConflict a b \<longleftrightarrow> ch_runId a = ch_runId b \<and> ch_at a = ch_at b \<and> pz_exchange (ch_row a) = pz_exchange (ch_row b) \<and>
     pz_market (ch_row a) = pz_market (ch_row b) \<and> pz_strategyId (ch_row a) = pz_strategyId (ch_row b) \<and> pz_source (ch_row a) = pz_source (ch_row b)"

definition fillConflict :: "rat fill_key run_child \<Rightarrow> rat fill_key run_child \<Rightarrow> bool" where
  "fillConflict a b \<longleftrightarrow> fk_fillFingerprint (ch_row a) = fk_fillFingerprint (ch_row b) \<or>
     fk_exchange (ch_row a) = fk_exchange (ch_row b) \<and> fk_exchangeFillId (ch_row a) \<noteq> None \<and>
     fk_exchangeFillId (ch_row a) = fk_exchangeFillId (ch_row b)"

section \<open>Operations\<close>

text \<open>\<^verbatim>\<open>INSERT ... ON CONFLICT DO NOTHING RETURNING *\<close>: the table afterwards and the rows it took.\<close>

definition insertNew :: "('r \<Rightarrow> 'r \<Rightarrow> bool) \<Rightarrow> 'r list \<Rightarrow> 'r list \<Rightarrow> 'r list" where
  "insertNew conflict rows table = fold (\<lambda>r t. if list_ex (conflict r) t then t else t @ [r]) rows table"

definition findRun :: "string \<Rightarrow> reconcile_db \<Rightarrow> run_row result" where
  "findRun runId db = (case find (\<lambda>r. rb_id r = runId) (rd_runs db) of None \<Rightarrow> Inl (Failure ''no result'') | Some r \<Rightarrow> Inr r)"

definition lockLiveReconcileRunForAppend :: "string \<Rightarrow> reconcile_db \<Rightarrow> bool result" where
  "lockLiveReconcileRunForAppend runId db = bindR (findRun runId db) (\<lambda>r. Inr (rb_status r = RUN_RUNNING))"

definition appendRows ::
  "(reconcile_db \<Rightarrow> 'r list) \<Rightarrow> (('r list \<Rightarrow> 'r list) \<Rightarrow> reconcile_db \<Rightarrow> reconcile_db) \<Rightarrow> ('r \<Rightarrow> 'r \<Rightarrow> bool) \<Rightarrow> ('a \<Rightarrow> 'r result)
    \<Rightarrow> string \<Rightarrow> 'a list \<Rightarrow> reconcile_db \<Rightarrow> ('r list \<times> reconcile_db) result" where
  "appendRows table_of table_update conflict toRow runId snapshots db =
     (if snapshots = [] then Inr ([], db)
      else bindR (lockLiveReconcileRunForAppend runId db) (\<lambda>running.
           if \<not> running then Inr ([], db)
           else bindR (mapR toRow snapshots) (\<lambda>rows.
                let table' = insertNew conflict rows (table_of db)
                in Inr (drop (length (table_of db)) table', table_update (\<lambda>t. table') db))))"

definition appendLiveReconcileBalanceSnapshots ::
  "db_env \<Rightarrow> string \<Rightarrow> balance_row list \<Rightarrow> reconcile_db \<Rightarrow> (stored_balance list \<times> reconcile_db) result" where
  "appendLiveReconcileBalanceSnapshots env runId =
     appendRows rd_balances rd_balances_update balanceConflict (toLiveReconcileBalanceSnapshotRowInput env runId) runId"

definition appendLiveReconcileExchangeOrderSnapshots ::
  "db_env \<Rightarrow> string \<Rightarrow> exchange_order list \<Rightarrow> reconcile_db \<Rightarrow> (stored_order list \<times> reconcile_db) result" where
  "appendLiveReconcileExchangeOrderSnapshots env runId =
     appendRows rd_orders rd_orders_update orderConflict (toLiveReconcileExchangeOrderSnapshotRowInput env runId) runId"

definition appendLiveReconcileMismatchEvidence ::
  "db_env \<Rightarrow> string \<Rightarrow> mismatch_evidence list \<Rightarrow> reconcile_db \<Rightarrow> (stored_mismatch list \<times> reconcile_db) result" where
  "appendLiveReconcileMismatchEvidence env runId =
     appendRows rd_mismatches rd_mismatches_update mismatchConflict (toLiveReconcileMismatchEvidenceRowInput env runId) runId"

definition appendLiveReconcilePositionSnapshots ::
  "db_env \<Rightarrow> string \<Rightarrow> (numeric position_snapshot \<times> time_input) list \<Rightarrow> reconcile_db
    \<Rightarrow> (rat position_snapshot run_child list \<times> reconcile_db) result" where
  "appendLiveReconcilePositionSnapshots env runId =
     appendRows rd_positions rd_positions_update positionConflict (toLiveReconcilePositionSnapshotRowInput env runId) runId"

definition appendLiveReconcileFillRecoveryKeys ::
  "db_env \<Rightarrow> string \<Rightarrow> (numeric fill_key \<times> time_input) list \<Rightarrow> reconcile_db
    \<Rightarrow> (rat fill_key run_child list \<times> reconcile_db) result" where
  "appendLiveReconcileFillRecoveryKeys env runId =
     appendRows rd_fillKeys rd_fillKeys_update fillConflict (toLiveReconcileFillRecoveryKeyRowInput env runId) runId"

definition beginLiveReconcileRun :: "run_row \<Rightarrow> reconcile_db \<Rightarrow> ((bool \<times> run_row) \<times> reconcile_db) result" where
  "beginLiveReconcileRun row db =
     (if blankText (rb_idempotencyKey row) \<or> \<not> notBlank (rb_guardProfile row) \<or> \<not> notBlank (rb_correlationId row)
      then Inl (Failure ''check constraint violated'')
      else case find (\<lambda>r. rb_idempotencyKey r = rb_idempotencyKey row) (rd_runs db) of
             Some existing \<Rightarrow> Inr ((False, existing), db)
           | None \<Rightarrow>
              if list_ex (\<lambda>r. rb_id r = rb_id row) (rd_runs db) then Inl (Failure ''duplicate key'')
              else Inr ((True, row), db\<lparr>rd_runs := rd_runs db @ [row]\<rparr>))"

definition jsonbConcat :: "json_record \<Rightarrow> json_record \<Rightarrow> json_record" where
  "jsonbConcat old new = fold (\<lambda>(k, v). AList.update k v) new old"

definition finishRun :: "run_status \<Rightarrow> json_record option \<Rightarrow> int \<Rightarrow> run_row \<Rightarrow> run_row" where
  "finishRun status metadata now r =
     r\<lparr>rb_status := status, rb_finishedAt := Some now,
       rb_metadata := (case metadata of None \<Rightarrow> rb_metadata r | Some m \<Rightarrow> jsonbConcat (rb_metadata r) m)\<rparr>"

definition completeLiveReconcileRun ::
  "string \<Rightarrow> run_status \<Rightarrow> json_record option \<Rightarrow> int \<Rightarrow> reconcile_db \<Rightarrow> (run_row \<times> reconcile_db) result" where
  "completeLiveReconcileRun runId status metadata now db =
     bindR (findRun runId db) (\<lambda>r.
     if rb_status r = RUN_RUNNING
     then Inr (finishRun status metadata now r,
        db\<lparr>rd_runs := map (\<lambda>x. if rb_id x = runId \<and> rb_status x = RUN_RUNNING then finishRun status metadata now x else x) (rd_runs db)\<rparr>)
     else if rb_status r = status then Inr (r, db)
     else Inl (Failure ''live reconcile run already finalized''))"

section \<open>The latest run\<close>

text \<open>The first row of a descending order; of rows that tie, the database may take any, here the first.\<close>

fun firstByDescending :: "('r \<Rightarrow> 'k::linorder) \<Rightarrow> 'r list \<Rightarrow> 'r option" where
  "firstByDescending key [] = None"
| "firstByDescending key (r # rs) =
     (case firstByDescending key rs of None \<Rightarrow> Some r | Some s \<Rightarrow> if key r < key s then Some s else Some r)"

definition toTimeMs :: "int \<Rightarrow> int" where
  "toTimeMs t = t div 1000"

definition selectLatestVisibleReconcileRun :: "run_row option \<Rightarrow> run_row option \<Rightarrow> run_row option" where
  "selectLatestVisibleReconcileRun finalRun latestRun =
     (case latestRun of
        Some l \<Rightarrow>
         if rb_status l = RUN_RUNNING \<and> (case finalRun of None \<Rightarrow> True | Some f \<Rightarrow> toTimeMs (rb_startedAt f) < toTimeMs (rb_startedAt l))
         then Some l
         else (case finalRun of Some f \<Rightarrow> Some f | None \<Rightarrow> latestRun)
      | None \<Rightarrow> finalRun)"

definition readStoredExchangeOpenOrderCount :: "json_record \<Rightarrow> nat option" where
  "readStoredExchangeOpenOrderCount metadata =
     (case map_of metadata ''live_reconcile_engine_summary'' of
        Some (JObj summary) \<Rightarrow>
         (case map_of summary ''open_order_count'' of
            Some (JObj openOrderCount) \<Rightarrow>
             (case map_of openOrderCount ''exchange'' of
                Some (JNumber (JsFinite r)) \<Rightarrow> if isSafeInteger (JsFinite r) \<and> 0 \<le> r then Some (nat \<lfloor>r\<rfloor>) else None
              | _ \<Rightarrow> None)
          | _ \<Rightarrow> None)
      | _ \<Rightarrow> None)"

definition toObservation :: "stored_order \<Rightarrow> order_observation" where
  "toObservation x = \<lparr>ob_exchangeOrderId = sx_exchangeOrderId x, ob_identifier = sx_identifier x, ob_status = sx_status x,
     ob_capturedAtMs = toTimeMs (sx_capturedAt x)\<rparr>"

record run_summary = latest_run +
  la_positionSnapshotCount :: nat
  la_fillRecoveryKeyCount :: nat

definition latestVisibleRun :: "reconcile_db \<Rightarrow> run_row option" where
  "latestVisibleRun db = selectLatestVisibleReconcileRun
     (firstByDescending (\<lambda>r. (rb_finishedAt r = None, case rb_finishedAt r of None \<Rightarrow> 0 | Some t \<Rightarrow> t, rb_startedAt r))
       (filter (\<lambda>r. rb_status r \<noteq> RUN_RUNNING) (rd_runs db)))
     (firstByDescending rb_startedAt (rd_runs db))"

definition dateOf :: "int \<Rightarrow> time_input" where
  "dateOf t = DateInput (Some (toTimeMs t))"

definition getLatestLiveReconcileSummary :: "reconcile_db \<Rightarrow> run_summary option" where
  "getLatestLiveReconcileSummary db =
     (case latestVisibleRun db of
        None \<Rightarrow> Some \<lparr>la_run = None, la_startedAt = DateInput None, la_finishedAt = None, la_balanceSnapshotCount = 0,
          la_exchangeOrderSnapshotCount = 0, la_openExchangeOrderSnapshotCount = 0, la_mismatchEvidenceCount = 0, la_mismatchTypes = [],
          la_positionSnapshotCount = 0, la_fillRecoveryKeyCount = 0\<rparr>
      | Some r \<Rightarrow>
         let orders = map toObservation (filter (\<lambda>x. sx_runId x = rb_id r) (rd_orders db));
             mismatches = filter (\<lambda>m. sy_runId m = rb_id r) (rd_mismatches db) in
         Option.bind (countCanonicalExchangeOrderSnapshots orders) (\<lambda>orderCount.
         Option.bind (case readStoredExchangeOpenOrderCount (rb_metadata r) of
             Some n \<Rightarrow> Some n | None \<Rightarrow> countCanonicalOpenExchangeOrderSnapshots orders) (\<lambda>openCount.
         Some \<lparr>la_run = Some \<lparr>ru_id = rb_id r, ru_runStatus = rb_status r\<rparr>, la_startedAt = dateOf (rb_startedAt r),
           la_finishedAt = map_option dateOf (rb_finishedAt r),
           la_balanceSnapshotCount = length (filter (\<lambda>b. sb_runId b = rb_id r) (rd_balances db)),
           la_exchangeOrderSnapshotCount = orderCount, la_openExchangeOrderSnapshotCount = openCount,
           la_mismatchEvidenceCount = length mismatches, la_mismatchTypes = remdups (map sy_mismatchType mismatches),
           la_positionSnapshotCount = length (filter (\<lambda>p. ch_runId p = rb_id r) (rd_positions db)),
           la_fillRecoveryKeyCount = length (filter (\<lambda>k. ch_runId k = rb_id r) (rd_fillKeys db))\<rparr>)))"

section \<open>Tables of a run\<close>

text \<open>What the tables that hold the evidence of runs have in common.\<close>

lemma insertNew_extends: "\<exists>taken. insertNew conflict rows table = table @ taken \<and> set taken \<subseteq> set rows"
proof (induction rows arbitrary: table)
  case Nil
  then show ?case by (simp add: insertNew_def)
next
  case (Cons r rows)
  obtain taken where "insertNew conflict rows (if list_ex (conflict r) table then table else table @ [r]) =
      (if list_ex (conflict r) table then table else table @ [r]) @ taken" "set taken \<subseteq> set rows" using Cons.IH by blast
  then show ?case by (cases "list_ex (conflict r) table") (auto simp: insertNew_def intro: exI [of _ "r # taken"])
qed

lemma insertNew_unique:
  "sorted_wrt (\<lambda>a b. \<not> conflict b a) table \<Longrightarrow> sorted_wrt (\<lambda>a b. \<not> conflict b a) (insertNew conflict rows table)"
proof (induction rows arbitrary: table)
  case (Cons r rows)
  have "sorted_wrt (\<lambda>a b. \<not> conflict b a) (if list_ex (conflict r) table then table else table @ [r])"
    using Cons.prems by (auto simp: sorted_wrt_append list_ex_iff)
  then show ?case using Cons.IH by (simp add: insertNew_def)
qed (simp add: insertNew_def)

lemma insertNew_covers: "r \<in> set rows \<Longrightarrow> \<exists>t \<in> set (insertNew conflict rows table). t = r \<or> conflict r t"
proof (induction rows arbitrary: table)
  case (Cons x rows)
  let ?t = "if list_ex (conflict x) table then table else table @ [x]"
  have "set ?t \<subseteq> set (insertNew conflict rows ?t)" using insertNew_extends [of conflict rows ?t] by auto
  then show ?case using Cons by (cases "r = x") (auto simp: insertNew_def list_ex_iff split: if_splits)
qed simp

lemma findRun_InrD: "findRun runId db = Inr r \<Longrightarrow> r \<in> set (rd_runs db) \<and> rb_id r = runId"
  by (auto simp: findRun_def find_Some_iff split: option.splits)

locale run_table =
  fixes table_of :: "reconcile_db \<Rightarrow> 'r list"
    and table_update :: "('r list \<Rightarrow> 'r list) \<Rightarrow> reconcile_db \<Rightarrow> reconcile_db"
    and conflict :: "'r \<Rightarrow> 'r \<Rightarrow> bool"
    and toRow :: "db_env \<Rightarrow> string \<Rightarrow> 'a \<Rightarrow> 'r result"
    and run_of :: "'r \<Rightarrow> string"
  assumes read_update: "table_of (table_update f db) = f (table_of db)"
    and update_same: "table_update (\<lambda>t. table_of db) db = db"
    and row_run: "toRow env runId a = Inr row \<Longrightarrow> run_of row = runId"
begin

lemma append_taken:
  assumes "appendRows table_of table_update conflict (toRow env runId) runId snapshots db = Inr (taken, db')"
  shows "db' = table_update (\<lambda>t. table_of db @ taken) db \<and> table_of db' = table_of db @ taken \<and>
    (\<forall>row \<in> set taken. run_of row = runId) \<and>
    (taken \<noteq> [] \<longrightarrow> (\<exists>r. findRun runId db = Inr r \<and> rb_status r = RUN_RUNNING)) \<and>
    (sorted_wrt (\<lambda>a b. \<not> conflict b a) (table_of db) \<longrightarrow> sorted_wrt (\<lambda>a b. \<not> conflict b a) (table_of db'))"
proof (cases "taken = [] \<and> db' = db")
  case True
  then show ?thesis by (simp add: update_same)
next
  case False
  then have ne: "snapshots \<noteq> []" using assms by (auto simp: appendRows_def)
  obtain r where run: "findRun runId db = Inr r"
    using assms ne by (cases "findRun runId db") (simp_all add: appendRows_def lockLiveReconcileRunForAppend_def)
  have running: "rb_status r = RUN_RUNNING"
    using assms ne run False by (auto simp: appendRows_def lockLiveReconcileRunForAppend_def split: if_splits)
  obtain rows where rows: "mapR (toRow env runId) snapshots = Inr rows"
    using assms ne run running by (cases "mapR (toRow env runId) snapshots") (simp_all add: appendRows_def lockLiveReconcileRunForAppend_def)
  have taken: "taken = drop (length (table_of db)) (insertNew conflict rows (table_of db))"
    and db': "db' = table_update (\<lambda>t. insertNew conflict rows (table_of db)) db"
    using assms ne run running rows by (simp_all add: appendRows_def lockLiveReconcileRunForAppend_def Let_def)
  obtain new where new: "insertNew conflict rows (table_of db) = table_of db @ new" "set new \<subseteq> set rows"
    using insertNew_extends [of conflict rows "table_of db"] by blast
  have "run_of row = runId" if "row \<in> set rows" for row
    using rows that
  proof (induction snapshots arbitrary: rows)
    case (Cons a snapshots)
    then show ?case using row_run by (auto simp: bindR_Inr_iff)
  qed simp
  then show ?thesis
    using run running taken db' new insertNew_unique [of conflict "table_of db" rows] by (auto simp: read_update)
qed

lemma append_stored:
  assumes "appendRows table_of table_update conflict (toRow env runId) runId snapshots db = Inr (taken, db')"
    "findRun runId db = Inr r" "rb_status r = RUN_RUNNING"
  shows "\<exists>rows. mapR (toRow env runId) snapshots = Inr rows \<and> table_of db' = insertNew conflict rows (table_of db)"
proof (cases "snapshots = []")
  case True
  then show ?thesis using assms(1) by (simp add: appendRows_def insertNew_def)
next
  case False
  then have "bindR (mapR (toRow env runId) snapshots) (\<lambda>rows. let table' = insertNew conflict rows (table_of db)
      in Inr (drop (length (table_of db)) table', table_update (\<lambda>t. table') db)) = Inr (taken, db')"
    using assms by (simp add: appendRows_def lockLiveReconcileRunForAppend_def)
  then show ?thesis by (auto simp: Let_def read_update elim!: bindR_InrE)
qed

lemma append_returns:
  assumes "mapR (toRow env runId) snapshots = Inr rows" "findRun runId db = Inr r" "rb_status r = RUN_RUNNING"
  shows "\<exists>taken. appendRows table_of table_update conflict (toRow env runId) runId snapshots db =
    Inr (taken, table_update (\<lambda>t. table_of db @ taken) db)"
proof -
  obtain taken where "insertNew conflict rows (table_of db) = table_of db @ taken"
    using insertNew_extends [of conflict rows "table_of db"] by blast
  then show ?thesis using assms by (auto simp: appendRows_def lockLiveReconcileRunForAppend_def Let_def update_same)
qed

end

interpretation bt: run_table rd_balances rd_balances_update balanceConflict toLiveReconcileBalanceSnapshotRowInput sb_runId
  by unfold_locales (auto simp: toLiveReconcileBalanceSnapshotRowInput_def checkRow_def bindR_Inr_iff split: if_splits)

interpretation ot: run_table rd_orders rd_orders_update orderConflict toLiveReconcileExchangeOrderSnapshotRowInput sx_runId
  by unfold_locales (auto simp: toLiveReconcileExchangeOrderSnapshotRowInput_def checkRow_def bindR_Inr_iff split: if_splits)

interpretation mt: run_table rd_mismatches rd_mismatches_update mismatchConflict toLiveReconcileMismatchEvidenceRowInput sy_runId
  by unfold_locales (auto simp: toLiveReconcileMismatchEvidenceRowInput_def checkRow_def bindR_Inr_iff split: if_splits)

interpretation pt: run_table rd_positions rd_positions_update positionConflict toLiveReconcilePositionSnapshotRowInput ch_runId
  by unfold_locales (auto simp: toLiveReconcilePositionSnapshotRowInput_def checkRow_def bindR_Inr_iff split: if_splits)

interpretation ft: run_table rd_fillKeys rd_fillKeys_update fillConflict toLiveReconcileFillRecoveryKeyRowInput ch_runId
  by unfold_locales (auto simp: toLiveReconcileFillRecoveryKeyRowInput_def checkRow_def bindR_Inr_iff split: if_splits)

section \<open>Sequences of operations\<close>

text \<open>What callers act on: a run that was created for them, and fills that were reserved for them.\<close>

datatype repository_answer = RUN_CREATED run_row | FILL_RESERVED "rat fill_key run_child"

inductive repository_step :: "db_env \<Rightarrow> reconcile_db \<Rightarrow> repository_answer list \<Rightarrow> reconcile_db \<Rightarrow> bool" for env where
  beginning: "beginLiveReconcileRun (toLiveReconcileRunRowInput newId now key guardProfile sourceSummary correlationId metadata) db
      = Inr ((created, r), db') \<Longrightarrow> repository_step env db (if created then [RUN_CREATED r] else []) db'"
| balances: "appendLiveReconcileBalanceSnapshots env runId bs db = Inr (btaken, db') \<Longrightarrow> repository_step env db [] db'"
| orders: "appendLiveReconcileExchangeOrderSnapshots env runId exs db = Inr (otaken, db') \<Longrightarrow> repository_step env db [] db'"
| mismatches: "appendLiveReconcileMismatchEvidence env runId ms db = Inr (mtaken, db') \<Longrightarrow> repository_step env db [] db'"
| positions: "appendLiveReconcilePositionSnapshots env runId ps db = Inr (ptaken, db') \<Longrightarrow> repository_step env db [] db'"
| fills: "appendLiveReconcileFillRecoveryKeys env runId ks db = Inr (taken, db') \<Longrightarrow> repository_step env db (map FILL_RESERVED taken) db'"
| completing: "completeLiveReconcileRun runId status metadata now db = Inr (r, db') \<Longrightarrow> status \<noteq> RUN_RUNNING \<Longrightarrow> repository_step env db [] db'"

inductive repository_run :: "db_env \<Rightarrow> reconcile_db \<Rightarrow> repository_answer list \<Rightarrow> reconcile_db \<Rightarrow> bool" for env where
  idle: "repository_run env db [] db"
| next_step: "repository_run env db answers db1 \<Longrightarrow> repository_step env db1 new db2 \<Longrightarrow> repository_run env db (answers @ new) db2"

definition evidenceOf :: "string \<Rightarrow> reconcile_db \<Rightarrow> stored_balance list \<times> stored_order list \<times> stored_mismatch list \<times>
    rat position_snapshot run_child list \<times> rat fill_key run_child list" where
  "evidenceOf runId db = (filter (\<lambda>x. sb_runId x = runId) (rd_balances db), filter (\<lambda>x. sx_runId x = runId) (rd_orders db),
     filter (\<lambda>x. sy_runId x = runId) (rd_mismatches db), filter (\<lambda>x. ch_runId x = runId) (rd_positions db),
     filter (\<lambda>x. ch_runId x = runId) (rd_fillKeys db))"

definition oneRunPerId :: "reconcile_db \<Rightarrow> bool" where
  "oneRunPerId db \<longleftrightarrow> distinct (map rb_id (rd_runs db)) \<and> distinct (map rb_idempotencyKey (rd_runs db))"

text \<open>A row of evidence is only added to a run that is going on.\<close>

lemma other_run_untouched:
  assumes "\<forall>row \<in> set taken. run_of row = runId" "taken \<noteq> [] \<longrightarrow> (\<exists>x. findRun runId db = Inr x \<and> rb_status x = RUN_RUNNING)"
    and r: "r \<in> set (rd_runs db)" "rb_status r \<noteq> RUN_RUNNING" "oneRunPerId db"
  shows "filter (\<lambda>x. run_of x = rb_id r) taken = []"
proof (cases "taken = []")
  case False
  then obtain x where x: "findRun runId db = Inr x" "rb_status x = RUN_RUNNING" using assms(2) by blast
  have "rb_id r \<noteq> runId"
  proof
    assume "rb_id r = runId"
    then have "r = x" using findRun_InrD [OF x(1)] r by (auto simp: oneRunPerId_def distinct_map dest: inj_onD)
    then show False using x r by simp
  qed
  then show ?thesis using assms(1) by (auto simp: filter_empty_conv)
qed simp

lemmas append_defs = appendLiveReconcileBalanceSnapshots_def appendLiveReconcileExchangeOrderSnapshots_def
  appendLiveReconcileMismatchEvidence_def appendLiveReconcilePositionSnapshots_def appendLiveReconcileFillRecoveryKeys_def

lemma begin_runs:
  assumes "beginLiveReconcileRun row db = Inr ((created, r), db')"
  shows "db' = (if created then db\<lparr>rd_runs := rd_runs db @ [row]\<rparr> else db) \<and> (created \<longrightarrow> r = row) \<and> (oneRunPerId db \<longrightarrow> oneRunPerId db')"
  using assms by (auto simp: beginLiveReconcileRun_def oneRunPerId_def find_None_iff list_ex_iff split: if_splits option.splits) (metis+)

lemma complete_runs:
  assumes "completeLiveReconcileRun runId status metadata now db = Inr (x, db')"
  shows "\<exists>f. db' = db\<lparr>rd_runs := map f (rd_runs db)\<rparr> \<and> (\<forall>r. rb_id (f r) = rb_id r \<and> rb_idempotencyKey (f r) = rb_idempotencyKey r \<and>
    (rb_status r \<noteq> RUN_RUNNING \<longrightarrow> f r = r))"
proof -
  let ?f = "\<lambda>x. if rb_id x = runId \<and> rb_status x = RUN_RUNNING then finishRun status metadata now x else x"
  have "db' = db\<lparr>rd_runs := map ?f (rd_runs db)\<rparr> \<or> db' = db\<lparr>rd_runs := map (\<lambda>x. x) (rd_runs db)\<rparr>"
    using assms by (auto simp: completeLiveReconcileRun_def bindR_Inr_iff split: if_splits)
  then show ?thesis by (rule disjE) (rule exI, rule conjI, assumption, simp add: finishRun_def)+
qed

definition frozen :: "reconcile_db \<Rightarrow> reconcile_db \<Rightarrow> bool" where
  "frozen db db' \<longleftrightarrow> (\<forall>r \<in> set (rd_runs db). rb_status r \<noteq> RUN_RUNNING \<longrightarrow>
     r \<in> set (rd_runs db') \<and> evidenceOf (rb_id r) db' = evidenceOf (rb_id r) db)"

lemma step_frozen:
  assumes "repository_step env db answers db'" "oneRunPerId db"
  shows "oneRunPerId db' \<and> frozen db db'"
  using assms
proof (cases rule: repository_step.cases)
  case (beginning newId now key guardProfile sourceSummary correlationId metadata created x)
  then show ?thesis
    using begin_runs [OF beginning(2)] assms(2) by (cases created) (auto simp: frozen_def evidenceOf_def)
next
  case (balances runId bs taken)
  then show ?thesis
    using bt.append_taken [OF balances(2) [unfolded append_defs]] other_run_untouched [of taken sb_runId runId db] assms(2)
    by (auto simp: frozen_def evidenceOf_def oneRunPerId_def)
next
  case (orders runId exs taken)
  then show ?thesis
    using ot.append_taken [OF orders(2) [unfolded append_defs]] other_run_untouched [of taken sx_runId runId db] assms(2)
    by (auto simp: frozen_def evidenceOf_def oneRunPerId_def)
next
  case (mismatches runId ms taken)
  then show ?thesis
    using mt.append_taken [OF mismatches(2) [unfolded append_defs]] other_run_untouched [of taken sy_runId runId db] assms(2)
    by (auto simp: frozen_def evidenceOf_def oneRunPerId_def)
next
  case (positions runId ps taken)
  then show ?thesis
    using pt.append_taken [OF positions(2) [unfolded append_defs]] other_run_untouched [of taken ch_runId runId db] assms(2)
    by (auto simp: frozen_def evidenceOf_def oneRunPerId_def)
next
  case (fills runId ks taken)
  then show ?thesis
    using ft.append_taken [OF fills(2) [unfolded append_defs]] other_run_untouched [of taken ch_runId runId db] assms(2)
    by (auto simp: frozen_def evidenceOf_def oneRunPerId_def)
next
  case (completing runId status metadata now x)
  then obtain f where "db' = db\<lparr>rd_runs := map f (rd_runs db)\<rparr>" and f: "\<And>r. rb_id (f r) = rb_id r \<and> rb_idempotencyKey (f r) = rb_idempotencyKey r"
    "\<And>r. rb_status r \<noteq> RUN_RUNNING \<Longrightarrow> f r = r" using complete_runs [OF completing(2)] by blast
  then show ?thesis using assms(2) by (force simp: frozen_def evidenceOf_def oneRunPerId_def comp_def image_iff)
qed

lemma run_frozen:
  "repository_run env db answers db' \<Longrightarrow> oneRunPerId db \<Longrightarrow> oneRunPerId db' \<and> frozen db db'"
proof (induction rule: repository_run.induct)
  case (idle db)
  then show ?case by (simp add: frozen_def)
next
  case (next_step db answers db1 new db2)
  then have "oneRunPerId db1" "frozen db db1" "oneRunPerId db2" "frozen db1 db2" using step_frozen by blast+
  then show ?case by (simp add: frozen_def)
qed

lemma filter_by_key: "distinct (map f rows) \<Longrightarrow> r \<in> set rows \<Longrightarrow> filter (\<lambda>x. f x = f r) rows = [r]"
proof (induction rows)
  case (Cons a rows)
  then show ?case by (cases "a = r") (auto simp: filter_empty_conv image_iff)
qed simp

text \<open>
  C38. A finished run is never changed. Whatever operations follow, its row stays, no other row has its id, and
  the balances, orders, findings, positions and reserved fills stored for it stay as they are.
\<close>

theorem finished_run_immutable:
  assumes "repository_run env db answers db'" "oneRunPerId db" "r \<in> set (rd_runs db)" "rb_status r \<noteq> RUN_RUNNING"
  shows "filter (\<lambda>x. rb_id x = rb_id r) (rd_runs db') = [r] \<and> evidenceOf (rb_id r) db' = evidenceOf (rb_id r) db"
proof -
  have one: "distinct (map rb_id (rd_runs db'))" and r: "r \<in> set (rd_runs db')" and "evidenceOf (rb_id r) db' = evidenceOf (rb_id r) db"
    using run_frozen [OF assms(1,2)] assms(3,4) by (auto simp: frozen_def oneRunPerId_def)
  then show ?thesis using filter_by_key [OF one r] by blast
qed

definition runsCreated :: "repository_answer list \<Rightarrow> run_row list" where
  "runsCreated = List.map_filter (\<lambda>a. case a of RUN_CREATED r \<Rightarrow> Some r | FILL_RESERVED k \<Rightarrow> None)"

definition fillsReserved :: "repository_answer list \<Rightarrow> rat fill_key run_child list" where
  "fillsReserved = List.map_filter (\<lambda>a. case a of RUN_CREATED r \<Rightarrow> None | FILL_RESERVED k \<Rightarrow> Some k)"

lemma answers_simps [simp]:
  "runsCreated [] = []" "runsCreated [RUN_CREATED r] = [r]" "runsCreated (map FILL_RESERVED ks) = []"
  "runsCreated (xs @ ys) = runsCreated xs @ runsCreated ys"
  "fillsReserved [] = []" "fillsReserved [RUN_CREATED r] = []" "fillsReserved (map FILL_RESERVED ks) = ks"
  "fillsReserved (xs @ ys) = fillsReserved xs @ fillsReserved ys"
  by (auto simp: runsCreated_def fillsReserved_def List.map_filter_def comp_def)

definition accounted :: "repository_answer list \<Rightarrow> reconcile_db \<Rightarrow> bool" where
  "accounted answers db \<longleftrightarrow> map rb_idempotencyKey (runsCreated answers) = map rb_idempotencyKey (rd_runs db) \<and>
     fillsReserved answers = rd_fillKeys db \<and> sorted_wrt (\<lambda>a b. \<not> fillConflict b a) (rd_fillKeys db)"

lemma step_accounted:
  assumes "repository_step env db new db'" "accounted answers db"
  shows "accounted (answers @ new) db'"
  using assms
proof (cases rule: repository_step.cases)
  case (beginning newId now key guardProfile sourceSummary correlationId metadata created x)
  then show ?thesis using begin_runs [OF beginning(2)] assms(2) by (cases created) (auto simp: accounted_def)
next
  case (balances runId bs taken)
  then show ?thesis using bt.append_taken [OF balances(2) [unfolded append_defs]] assms(2) by (auto simp: accounted_def)
next
  case (orders runId exs taken)
  then show ?thesis using ot.append_taken [OF orders(2) [unfolded append_defs]] assms(2) by (auto simp: accounted_def)
next
  case (mismatches runId ms taken)
  then show ?thesis using mt.append_taken [OF mismatches(2) [unfolded append_defs]] assms(2) by (auto simp: accounted_def)
next
  case (positions runId ps taken)
  then show ?thesis using pt.append_taken [OF positions(2) [unfolded append_defs]] assms(2) by (auto simp: accounted_def)
next
  case (fills runId ks taken)
  then show ?thesis using ft.append_taken [OF fills(2) [unfolded append_defs]] assms(2) by (auto simp: accounted_def)
next
  case (completing runId status metadata now x)
  then obtain f where "db' = db\<lparr>rd_runs := map f (rd_runs db)\<rparr>" "\<And>r. rb_idempotencyKey (f r) = rb_idempotencyKey r"
    using complete_runs [OF completing(2)] by blast
  then show ?thesis using assms(2) completing(1) by (simp add: accounted_def comp_def)
qed

lemma run_accounted:
  "repository_run env db answers db' \<Longrightarrow> accounted [] db \<Longrightarrow> accounted answers db'"
  by (induction rule: repository_run.induct) (auto intro: step_accounted)

text \<open>
  C39. At most once. Over every sequence of operations from empty tables, a run is reported as created for at most
  one caller per idempotency key, and a fill is reserved for at most one caller: no two reservations share a
  fingerprint, nor an exchange and its fill id. The answers that were given are what the tables hold.
\<close>

theorem created_and_reserved_once:
  assumes "repository_run env emptyReconcileDb answers db"
  shows "distinct (map rb_idempotencyKey (runsCreated answers)) \<and>
    sorted_wrt (\<lambda>a b. fk_fillFingerprint (ch_row a) \<noteq> fk_fillFingerprint (ch_row b) \<and>
      \<not> (fk_exchange (ch_row a) = fk_exchange (ch_row b) \<and> fk_exchangeFillId (ch_row a) = fk_exchangeFillId (ch_row b) \<and>
         fk_exchangeFillId (ch_row a) \<noteq> None)) (fillsReserved answers) \<and>
    map rb_idempotencyKey (runsCreated answers) = map rb_idempotencyKey (rd_runs db) \<and> fillsReserved answers = rd_fillKeys db"
proof -
  have "accounted answers db" using run_accounted [OF assms] by (simp add: accounted_def emptyReconcileDb_def)
  moreover have "oneRunPerId db" using run_frozen [OF assms] by (simp add: oneRunPerId_def emptyReconcileDb_def)
  moreover have "sorted_wrt (\<lambda>a b. \<not> fillConflict b a) xs \<Longrightarrow> sorted_wrt (\<lambda>a b. fk_fillFingerprint (ch_row a) \<noteq> fk_fillFingerprint (ch_row b) \<and>
      \<not> (fk_exchange (ch_row a) = fk_exchange (ch_row b) \<and> fk_exchangeFillId (ch_row a) = fk_exchangeFillId (ch_row b) \<and>
         fk_exchangeFillId (ch_row a) \<noteq> None)) xs" for xs
    by (rule sorted_wrt_mono_rel) (auto simp: fillConflict_def)
  ultimately show ?thesis by (simp add: accounted_def oneRunPerId_def)
qed

section \<open>An example\<close>

definition exampleDbEnv :: db_env where
  "exampleDbEnv = \<lparr>dx_numeric = (\<lambda>s. parseFinancialDecimal), dx_timestamp = (\<lambda>t. Inr 5000), dx_orderExists = (\<lambda>i. False),
     dx_decimalText = (\<lambda>v. ''1'')\<rparr>"

definition exampleRunRow :: run_row where
  "exampleRunRow = toLiveReconcileRunRowInput ''r0'' 1000 ''k0'' (Some ''LIVE_READ_ONLY_RECONCILE'') None None None"

definition exampleFillKey :: "numeric fill_key" where
  "exampleFillKey = \<lparr>fk_exchange = ''upbit'', fk_market = ''KRW-BTC'', fk_orderId = None, fk_exchangeOrderId = Some ''o1'',
     fk_exchangeFillId = Some ''f1'', fk_fillFingerprint = ''fp1'', fk_side = BUY, fk_price = Num 1, fk_quantity = Num 2, fk_metadata = None\<rparr>"

definition exampleReserved :: "rat fill_key run_child" where
  "exampleReserved = \<lparr>ch_runId = ''r0'', ch_at = 5000, ch_row =
     \<lparr>fk_exchange = ''upbit'', fk_market = ''KRW-BTC'', fk_orderId = None, fk_exchangeOrderId = Some ''o1'', fk_exchangeFillId = Some ''f1'',
      fk_fillFingerprint = ''fp1'', fk_side = BUY, fk_price = 1, fk_quantity = 2, fk_metadata = Some []\<rparr>\<rparr>"

definition exampleRunningDb :: reconcile_db where
  "exampleRunningDb = emptyReconcileDb\<lparr>rd_runs := [exampleRunRow], rd_fillKeys := [exampleReserved]\<rparr>"

definition exampleFinishedDb :: reconcile_db where
  "exampleFinishedDb = exampleRunningDb\<lparr>rd_runs := [finishRun RUN_COMPLETED None 2000 exampleRunRow]\<rparr>"

lemma example_reserved_row: "toLiveReconcileFillRecoveryKeyRowInput exampleDbEnv ''r0'' (exampleFillKey, DateInput None) = Inr exampleReserved"
  by code_simp

lemmas example_defs = exampleRunningDb_def exampleFinishedDb_def exampleRunRow_def emptyReconcileDb_def toLiveReconcileRunRowInput_def

lemma example_begun:
  "beginLiveReconcileRun exampleRunRow emptyReconcileDb = Inr ((True, exampleRunRow), emptyReconcileDb\<lparr>rd_runs := [exampleRunRow]\<rparr>)"
  by (simp add: beginLiveReconcileRun_def example_defs) code_simp

lemma example_refused:
  "beginLiveReconcileRun exampleRunRow (emptyReconcileDb\<lparr>rd_runs := [exampleRunRow]\<rparr>) =
    Inr ((False, exampleRunRow), emptyReconcileDb\<lparr>rd_runs := [exampleRunRow]\<rparr>)"
  by (simp add: beginLiveReconcileRun_def example_defs) code_simp

lemma example_reservations:
  "appendLiveReconcileFillRecoveryKeys exampleDbEnv ''r0'' [(exampleFillKey, DateInput None)] (emptyReconcileDb\<lparr>rd_runs := [exampleRunRow]\<rparr>)
    = Inr ([exampleReserved], exampleRunningDb)"
  "appendLiveReconcileFillRecoveryKeys exampleDbEnv ''r0'' [(exampleFillKey, DateInput None)] exampleRunningDb = Inr ([], exampleRunningDb)"
  by (simp_all add: appendLiveReconcileFillRecoveryKeys_def appendRows_def lockLiveReconcileRunForAppend_def findRun_def example_reserved_row
      insertNew_def Let_def example_defs fillConflict_def)

lemma example_completed:
  "completeLiveReconcileRun ''r0'' RUN_COMPLETED None 2000 exampleRunningDb = Inr (finishRun RUN_COMPLETED None 2000 exampleRunRow, exampleFinishedDb)"
  by (simp add: completeLiveReconcileRun_def findRun_def example_defs)

lemma example_history:
  "repository_run exampleDbEnv emptyReconcileDb [RUN_CREATED exampleRunRow, FILL_RESERVED exampleReserved] exampleFinishedDb"
proof -
  let ?open = "emptyReconcileDb\<lparr>rd_runs := [exampleRunRow]\<rparr>"
  have "repository_run exampleDbEnv emptyReconcileDb [RUN_CREATED exampleRunRow] ?open"
    using next_step [OF idle beginning [OF example_begun [unfolded exampleRunRow_def]], of exampleDbEnv] by (simp add: exampleRunRow_def)
  moreover have "repository_step exampleDbEnv ?open [] ?open"
    using beginning [OF example_refused [unfolded exampleRunRow_def], of exampleDbEnv] by (simp add: exampleRunRow_def)
  ultimately have "repository_run exampleDbEnv emptyReconcileDb ([RUN_CREATED exampleRunRow] @ []) ?open" by (rule next_step)
  from next_step [OF next_step [OF this fills [OF example_reservations(1)]] fills [OF example_reservations(2)]]
  have "repository_run exampleDbEnv emptyReconcileDb [RUN_CREATED exampleRunRow, FILL_RESERVED exampleReserved] exampleRunningDb" by simp
  from next_step [OF this completing [OF example_completed]] show ?thesis by simp
qed

theorem created_and_reserved_once_witness:
  "\<exists>answers db. repository_run exampleDbEnv emptyReconcileDb answers db \<and> map rb_idempotencyKey (runsCreated answers) = [''k0''] \<and>
    fillsReserved answers = [exampleReserved] \<and> rd_fillKeys db = [exampleReserved]"
  using created_and_reserved_once [OF example_history] example_history
  by (intro exI [of _ "[RUN_CREATED exampleRunRow, FILL_RESERVED exampleReserved]"] exI [of _ exampleFinishedDb])
    (simp add: runsCreated_def fillsReserved_def List.map_filter_def example_defs)

text \<open>Evidence for a run that is finished is not stored, and its status is not set a second time.\<close>

lemma example_refused_evidence:
  "appendLiveReconcileFillRecoveryKeys exampleDbEnv ''r0'' [(exampleFillKey\<lparr>fk_fillFingerprint := ''fp2'', fk_exchangeFillId := None\<rparr>, DateInput None)]
    exampleFinishedDb = Inr ([], exampleFinishedDb)"
  by (simp add: appendLiveReconcileFillRecoveryKeys_def appendRows_def lockLiveReconcileRunForAppend_def findRun_def example_defs finishRun_def)

theorem finished_run_immutable_witness:
  "\<exists>db. appendLiveReconcileFillRecoveryKeys exampleDbEnv ''r0'' [(exampleFillKey\<lparr>fk_fillFingerprint := ''fp2'', fk_exchangeFillId := None\<rparr>, DateInput None)]
      exampleFinishedDb = Inr ([], db) \<and>
    filter (\<lambda>x. rb_id x = ''r0'') (rd_runs db) = [finishRun RUN_COMPLETED None 2000 exampleRunRow] \<and>
    evidenceOf ''r0'' db = ([], [], [], [], [exampleReserved])"
proof -
  have run: "repository_run exampleDbEnv exampleFinishedDb [] exampleFinishedDb"
    using next_step [OF idle fills [OF example_refused_evidence]] by simp
  have "filter (\<lambda>x. rb_id x = ''r0'') (rd_runs exampleFinishedDb) = [finishRun RUN_COMPLETED None 2000 exampleRunRow]"
    using finished_run_immutable [OF run, of "finishRun RUN_COMPLETED None 2000 exampleRunRow"]
    by (simp add: example_defs finishRun_def oneRunPerId_def)
  then show ?thesis using example_refused_evidence by (simp add: evidenceOf_def example_defs exampleReserved_def)
qed

end
