(* ===== verification/Reconcile_Status.thy ===== *)
theory Reconcile_Status
  imports Reconcile_Repository
begin

text \<open>
  The reconcile worker over its repository and the status provider. Findings with the same fingerprint are
  of the same kind, so that none is lost when the repository stores findings once per fingerprint; and the
  status that is read back from the tables after a run agrees with the one that the run returned.
\<close>

section \<open>A finding is named by its fingerprint\<close>

text \<open>
  Findings of one run with the same fingerprint are stored once. No finding is lost to one of another kind:
  the text before the first colon of a fingerprint tells the kind.
\<close>

definition kindOfFingerprint :: "string \<Rightarrow> mismatch_type option" where
  "kindOfFingerprint fingerprint = map_of
     [(''untracked'', UNTRACKED_EXCHANGE_OPEN_ORDER), (''identity-conflict'', ORDER_IDENTITY_CONFLICT),
      (''missing-local'', LOCAL_OPEN_ORDER_MISSING_ON_EXCHANGE), (''cancel-failure'', CANCEL_FAILURE_RETRY_NEEDED),
      (''exchange-cancel-state'', EXCHANGE_CANCEL_STATE_MISMATCH), (''state-advancement-blocked'', ORDER_STATE_ADVANCEMENT_BLOCKED),
      (''partial-fill-mismatch'', PARTIAL_FILL_MISMATCH), (''closed-window-exhausted'', CLOSED_ORDER_WINDOW_EXCEEDED),
      (''closed-window-exceeded'', CLOSED_ORDER_WINDOW_EXCEEDED), (''ws-bootstrap-missing'', WEBSOCKET_GAP_MANUAL_REVIEW),
      (''ws-disconnect'', WEBSOCKET_GAP_MANUAL_REVIEW), (''balance-lock'', BALANCE_LOCK_MISMATCH),
      (''balance-snapshot-unavailable'', BALANCE_SNAPSHOT_UNAVAILABLE)]
     (takeWhile (\<lambda>c. c \<noteq> CHR '':'') fingerprint)"

definition wellNamed :: "mismatch_evidence \<Rightarrow> bool" where
  "wellNamed m \<longleftrightarrow> kindOfFingerprint (me_evidenceFingerprint m) = Some (me_mismatchType m)"

definition orderFinding :: "mismatch_evidence \<Rightarrow> bool" where
  "orderFinding m \<longleftrightarrow> wellNamed m \<and>
     me_mismatchType m \<notin> {BALANCE_LOCK_MISMATCH, BALANCE_SNAPSHOT_UNAVAILABLE, WEBSOCKET_GAP_MANUAL_REVIEW}"

lemmas naming = orderFinding_def wellNamed_def kindOfFingerprint_def

lemma pair_findings:
  "orderFinding (createCancelFailureMismatch ex lo identity observedAt)"
  "orderFinding (createExchangeCancelStateMismatch ex lo identity observedAt)"
  "orderFinding (createPartialFillMismatch ex lo identity observedAt)"
  "orderFinding (createOrderStateAdvancementBlockedMismatch ex lo identity target observedAt reason)"
  "orderFinding (createMissingLocalOrderMismatch lo observedAt)"
  by (simp_all add: createCancelFailureMismatch_def createExchangeCancelStateMismatch_def createPartialFillMismatch_def
      createOrderStateAdvancementBlockedMismatch_def createMissingLocalOrderMismatch_def naming)

lemma pairMismatches_findings: "m \<in> set (pairMismatches ex lo identity observedAt) \<Longrightarrow> orderFinding m"
  by (auto simp: pairMismatches_def pair_findings split: if_splits option.splits)

lemma untracked_finding:
  assumes "createUntrackedExchangeOrderMismatch env ex observedAt index = Inr m"
  shows "orderFinding m"
proof -
  obtain identity where "describeExchangeOrderIdentity env ex = Inr identity"
    using assms by (auto simp: createUntrackedExchangeOrderMismatch_def elim: bindR_InrE)
  then have "me_mismatchType m = UNTRACKED_EXCHANGE_OPEN_ORDER" "\<exists>rest. me_evidenceFingerprint m = ''untracked:'' @ rest"
    using assms by (auto simp: createUntrackedExchangeOrderMismatch_def buildUntrackedExchangeEvidenceFingerprint_def)
  then show ?thesis by (auto simp: naming)
qed

lemma conflict_finding:
  assumes "createOrderIdentityConflictMismatch env ex lo reason observedAt = Inr m"
  shows "orderFinding m"
proof -
  obtain identity where "describeExchangeOrderIdentity env ex = Inr identity"
    using assms by (auto simp: createOrderIdentityConflictMismatch_def elim: bindR_InrE)
  then have "me_mismatchType m = ORDER_IDENTITY_CONFLICT" "\<exists>rest. me_evidenceFingerprint m = ''identity-conflict:'' @ rest"
    using assms by (auto simp: createOrderIdentityConflictMismatch_def buildIdentityConflictEvidenceFingerprint_def)
  then show ?thesis by (auto simp: naming)
qed

lemma evaluated_findings:
  assumes "evaluateMatchedPair ex lo identity observedAt = Inr res"
  shows "list_all orderFinding (pp_mismatches res)"
proof -
  obtain found where found: "createStateAdvancementCandidate ex lo identity = Inr found"
    using assms by (auto simp: evaluateMatchedPair_def elim: bindR_InrE)
  have "pp_mismatches res = pairMismatches ex lo identity observedAt \<or> (\<exists>target reason. pp_mismatches res =
      pairMismatches ex lo identity observedAt @ [createOrderStateAdvancementBlockedMismatch ex lo identity target observedAt reason])"
    using assms found by (cases found) (auto simp: evaluateMatchedPair_def Let_def split: if_splits, blast+)
  then show ?thesis by (auto simp: list_all_iff intro: pair_findings pairMismatches_findings)
qed

definition orderFindings :: "reconcile_state \<Rightarrow> bool" where
  "orderFindings st \<longleftrightarrow> list_all (\<lambda>res. list_all orderFinding (pp_mismatches res)) (rw_results st)"

lemma orderFindings_push: "orderFindings st \<Longrightarrow> list_all orderFinding (pp_mismatches res) \<Longrightarrow> orderFindings (pushResult res st)"
  by (simp add: orderFindings_def)

lemma orderFindings_linkPair: "orderFindings st \<Longrightarrow> list_all orderFinding (pp_mismatches res) \<Longrightarrow> orderFindings (linkPair r lo res st)"
  by (simp add: orderFindings_def)

lemma linkMatch_findings: "linkMatch r lo identity observedAt st = Inr st' \<Longrightarrow> orderFindings st \<Longrightarrow> orderFindings st'"
  by (auto simp: linkMatch_def bindR_Inr_iff intro: orderFindings_linkPair evaluated_findings)

lemma linkConflict_findings: "linkConflict env r lo reason observedAt st = Inr st' \<Longrightarrow> orderFindings st \<Longrightarrow> orderFindings st'"
  by (auto simp: linkConflict_def createIdentityConflictResult_def bindR_Inr_iff intro!: orderFindings_linkPair dest: conflict_finding)

lemma orderFindings_keys [simp]:
  "orderFindings (st\<lparr>rw_strongerExchangeIdentityKeys := xs\<rparr>) = orderFindings st"
  "orderFindings (st\<lparr>rw_matchedExchangeOrders := ns\<rparr>) = orderFindings st"
  by (simp_all add: orderFindings_def)

lemma exchangeStep_findings:
  assumes "exchangeStep env los observedAt r st = Inr st'" "orderFindings st"
  shows "orderFindings st'"
  using assms unfolding exchangeStep_def Let_def
  by (auto split: if_splits option.splits prod.splits elim!: bindR_InrE
      intro!: orderFindings_push)
    ((erule untracked_finding | erule (1) linkMatch_findings | erule (1) linkConflict_findings)+)

lemma localStep_findings:
  assumes "localStep env rows observedAt lo st = Inr st'" "orderFindings st"
  shows "orderFindings st'"
  using assms unfolding localStep_def
  by (auto split: if_splits option.splits prod.splits elim!: bindR_InrE
      intro!: orderFindings_push simp: pair_findings(5))
    ((erule (1) linkMatch_findings | erule (1) linkConflict_findings)+)

lemma reconcileOrders_findings:
  assumes "reconcileOrders env exs los observedAt = Inr results" "m \<in> set (concat (map pp_mismatches results))"
  shows "orderFinding m"
proof -
  obtain st st' where first: "foldR (exchangeStep env los observedAt) (enumerate 0 exs) emptyReconcileState = Inr st"
    and second: "foldR (localStep env (enumerate 0 exs) observedAt) los st = Inr st'" and results: "results = rw_results st'"
    using assms(1) by (auto simp: reconcileOrders_def Let_def elim!: bindR_InrE)
  have "orderFindings st"
    using first by (rule foldR_invariant) (auto simp: orderFindings_def emptyReconcileState_def exchangeStep_findings [unfolded orderFindings_def])
  with second have "orderFindings st'" by (rule foldR_invariant) (rule localStep_findings)
  then show ?thesis using assms(2) results by (auto simp: orderFindings_def list_all_iff)
qed

lemma window_findings: "m \<in> set (checkClosedOrderWindow env los w observedAt verified) \<Longrightarrow> orderFinding m"
proof -
  have "orderFinding (createClosedOrderWindowExhaustedMismatch env w observedAt)"
    "orderFinding (createClosedOrderWindowExceededMismatch w lo createdAt observedAt)" for lo createdAt
    by (simp_all add: createClosedOrderWindowExhaustedMismatch_def createClosedOrderWindowExceededMismatch_def naming)
  then show "m \<in> set (checkClosedOrderWindow env los w observedAt verified) \<Longrightarrow> orderFinding m"
    by (auto simp: checkClosedOrderWindow_def windowExceeded_def split: if_splits option.splits)
qed

lemma stream_findings:
  "m \<in> set (checkWebSocketGap env wc observedAt) \<Longrightarrow> wellNamed m \<and> me_mismatchType m = WEBSOCKET_GAP_MANUAL_REVIEW"
proof -
  have "wellNamed (createWebSocketBootstrapMissingMismatch wc observedAt)" "wellNamed (createWebSocketGapMismatch env d observedAt)" for d
    by (simp_all add: createWebSocketBootstrapMissingMismatch_def createWebSocketGapMismatch_def wellNamed_def kindOfFingerprint_def)
  then show "m \<in> set (checkWebSocketGap env wc observedAt) \<Longrightarrow> wellNamed m \<and> me_mismatchType m = WEBSOCKET_GAP_MANUAL_REVIEW"
    by (auto simp: checkWebSocketGap_def createWebSocketBootstrapMissingMismatch_def createWebSocketGapMismatch_def split: if_splits option.splits)
qed

definition lockFinding :: "mismatch_evidence \<Rightarrow> bool" where
  "lockFinding m \<longleftrightarrow> wellNamed m \<and> me_mismatchType m = BALANCE_LOCK_MISMATCH"

lemma lock_finding: "lockFinding (createBalanceLockMismatch currency a b observedAt field)"
  by (simp add: createBalanceLockMismatch_def lockFinding_def wellNamed_def kindOfFingerprint_def)

lemma mapR_each: "mapR f xs = Inr ys \<Longrightarrow> (\<And>x y. f x = Inr y \<Longrightarrow> P y) \<Longrightarrow> list_all P ys"
  by (induction xs arbitrary: ys) (auto simp: bindR_Inr_iff)

lemma field_findings: "appendBalanceFieldMismatch currency field v w observedAt = Inr ms \<Longrightarrow> list_all lockFinding ms"
  by (auto simp: appendBalanceFieldMismatch_def bindR_Inr_iff lock_finding split: if_splits)

lemma balance_findings: "balanceMismatches l x observedAt currency = Inr ms \<Longrightarrow> list_all lockFinding ms"
  by (auto simp: balanceMismatches_def lock_finding split: option.splits elim!: bindR_InrE dest!: field_findings)

lemma snapshot_findings: "appendBalanceSnapshotMismatches l x observedAt = Inr ms \<Longrightarrow> list_all lockFinding ms"
  by (auto simp: appendBalanceSnapshotMismatches_def elim!: bindR_InrE dest!: mapR_each [where P = "list_all lockFinding"] balance_findings
      simp: list_all_iff)

lemma lock_findings: "lockMismatch expected x observedAt currency = Inr ms \<Longrightarrow> list_all lockFinding ms"
  by (auto simp: lockMismatch_def Let_def bindR_Inr_iff lock_finding split: if_splits)

lemma checkBalanceLock_findings:
  assumes "checkBalanceLock rnd los localBalances exchangeBalances observedAt = Inr (found, status)"
  shows "(status = NOT_AVAILABLE \<and> (\<exists>m. found = [m] \<and> wellNamed m \<and> me_mismatchType m = BALANCE_SNAPSHOT_UNAVAILABLE)) \<or>
    (\<not> unavailable exchangeBalances \<and> list_all lockFinding found \<and> status = (if found \<noteq> [] then LOCK_MISMATCH else BALANCE_OK))"
proof (cases "unavailable localBalances \<or> unavailable exchangeBalances")
  case True
  have "wellNamed (createBalanceSnapshotUnavailableMismatch source observedAt)" for source
    by (simp add: createBalanceSnapshotUnavailableMismatch_def wellNamed_def kindOfFingerprint_def)
  moreover have "\<exists>source. found = [createBalanceSnapshotUnavailableMismatch source observedAt] \<and> status = NOT_AVAILABLE"
    using assms True by (auto simp: checkBalanceLock_def Let_def split: if_splits)
  ultimately show ?thesis by (auto simp: createBalanceSnapshotUnavailableMismatch_def)
next
  case False
  let ?l = "indexByCurrency (case localBalances of None \<Rightarrow> [] | Some bs \<Rightarrow> bs)"
    and ?x = "indexByCurrency (case exchangeBalances of None \<Rightarrow> [] | Some bs \<Rightarrow> bs)"
  obtain expected where expected: "computeExpectedLocked rnd los = Inr expected"
    using assms False by (auto simp: checkBalanceLock_def Let_def elim: bindR_InrE)
  obtain m1 where m1: "appendBalanceSnapshotMismatches ?l ?x observedAt = Inr m1"
    using assms False expected by (auto simp: checkBalanceLock_def Let_def elim: bindR_InrE)
  obtain m3 where m3: "mapR (lockMismatch (el_lockedByCurrency expected) ?x observedAt)
      (unionKeys (map fst (el_lockedByCurrency expected)) (map fst ?x)) = Inr m3"
    using assms False expected m1 by (auto simp: checkBalanceLock_def Let_def elim: bindR_InrE)
  have found: "found = m1 @ map (priceMissingMismatch observedAt) (el_priceMissingBuyOrders expected) @ concat m3"
    and status: "status = (if found \<noteq> [] then LOCK_MISMATCH else BALANCE_OK)"
    using assms False expected m1 m3 by (auto simp: checkBalanceLock_def Let_def split: if_splits)
  have "list_all (list_all lockFinding) m3" using mapR_each [OF m3] lock_findings by blast
  then have "list_all lockFinding found"
    using snapshot_findings [OF m1] found by (auto simp: list_all_iff priceMissingMismatch_def lock_finding)
  then show ?thesis using False status by blast
qed

text \<open>What the kinds among the findings of a run say.\<close>

lemma engine_findings:
  assumes "runReconcileEngine env inp = Inr out"
  shows "list_all wellNamed (rq_mismatches out)"
    and "sm_balanceStatus (rq_summary out) = NOT_AVAILABLE \<longleftrightarrow> hasEngineMismatch out BALANCE_SNAPSHOT_UNAVAILABLE"
    and "sm_balanceStatus (rq_summary out) = LOCK_MISMATCH \<longleftrightarrow> hasEngineMismatch out BALANCE_LOCK_MISMATCH"
    and "sm_balanceStatus (rq_summary out) \<noteq> NOT_AVAILABLE \<Longrightarrow> \<not> unavailable (rn_exchangeBalances inp)"
    and "resolveRuntimeWebSocketStatus inp out = (if hasEngineMismatch out WEBSOCKET_GAP_MANUAL_REVIEW then WS_DEGRADED else WS_CONNECTED)"
    and "sm_mismatchCount (rq_summary out) = length (rq_mismatches out)"
    and "sm_result (rq_summary out) = (if rq_mismatches out \<noteq> [] then MISMATCH_DETECTED else CLEAN)"
    and "rq_failClosed out \<longleftrightarrow> rq_mismatches out \<noteq> []"
    and "rq_mismatches out = [] \<Longrightarrow> sm_balanceStatus (rq_summary out) = BALANCE_OK"
proof -
  obtain observedAt results found status where orders: "reconcileOrders env (allExchangeOrders env inp) (rn_localOpenOrders inp) observedAt = Inr results"
    and balance: "checkBalanceLock (re_rounding env) (rn_localOpenOrders inp) (rn_localBalances inp) (rn_exchangeBalances inp) observedAt = Inr (found, status)"
    and ms: "rq_mismatches out = concat (map pp_mismatches results)
      @ checkClosedOrderWindow env (rn_localOpenOrders inp) (rn_closedOrderWindow inp) observedAt (matchedIds results)
      @ checkWebSocketGap env (rn_websocketContext inp) observedAt @ found"
    and st: "sm_balanceStatus (rq_summary out) = status"
    and result: "sm_result (rq_summary out) = (if rq_mismatches out \<noteq> [] then MISMATCH_DETECTED else CLEAN)"
    and closed: "rq_failClosed out = (rq_mismatches out \<noteq> [])"
    using assms by (rule runReconcileEngine_InrE)
  define earlier where "earlier = concat (map pp_mismatches results)
      @ checkClosedOrderWindow env (rn_localOpenOrders inp) (rn_closedOrderWindow inp) observedAt (matchedIds results)"
  define stream where "stream = checkWebSocketGap env (rn_websocketContext inp) observedAt"
  have parts: "set (rq_mismatches out) = set earlier \<union> set stream \<union> set found" by (auto simp: ms earlier_def stream_def)
  have e: "orderFinding m" if "m \<in> set earlier" for m
    using that reconcileOrders_findings [OF orders] window_findings unfolding earlier_def set_append by blast
  have s: "wellNamed m \<and> me_mismatchType m = WEBSOCKET_GAP_MANUAL_REVIEW" if "m \<in> set stream" for m
    using that stream_findings unfolding stream_def by blast
  note b = checkBalanceLock_findings [OF balance]
  have f: "wellNamed m \<and> me_mismatchType m \<in> {BALANCE_LOCK_MISMATCH, BALANCE_SNAPSHOT_UNAVAILABLE}" if "m \<in> set found" for m
    using b that by (auto simp: lockFinding_def list_all_iff)
  have has: "hasEngineMismatch out t \<longleftrightarrow> (\<exists>m \<in> set earlier \<union> set stream \<union> set found. me_mismatchType m = t)" for t
    unfolding parts [symmetric] by (simp add: hasEngineMismatch_def list_ex_iff)
  show "list_all wellNamed (rq_mismatches out)"
    unfolding list_all_iff parts using e s f by (auto simp: orderFinding_def)
  have kinds: "hasEngineMismatch out BALANCE_SNAPSHOT_UNAVAILABLE \<longleftrightarrow> (\<exists>m \<in> set found. me_mismatchType m = BALANCE_SNAPSHOT_UNAVAILABLE)"
    "hasEngineMismatch out BALANCE_LOCK_MISMATCH \<longleftrightarrow> (\<exists>m \<in> set found. me_mismatchType m = BALANCE_LOCK_MISMATCH)"
    "hasEngineMismatch out WEBSOCKET_GAP_MANUAL_REVIEW \<longleftrightarrow> stream \<noteq> []"
    unfolding has using e s f by (fastforce simp: orderFinding_def, fastforce simp: orderFinding_def, cases stream) (fastforce simp: orderFinding_def)+
  show "sm_balanceStatus (rq_summary out) = NOT_AVAILABLE \<longleftrightarrow> hasEngineMismatch out BALANCE_SNAPSHOT_UNAVAILABLE"
    unfolding kinds st using b by (auto simp: list_all_iff lockFinding_def split: if_splits)
  show "sm_balanceStatus (rq_summary out) = LOCK_MISMATCH \<longleftrightarrow> hasEngineMismatch out BALANCE_LOCK_MISMATCH"
    unfolding kinds st using b by (cases found) (auto simp: lockFinding_def)
  show "sm_balanceStatus (rq_summary out) \<noteq> NOT_AVAILABLE \<Longrightarrow> \<not> unavailable (rn_exchangeBalances inp)"
    unfolding st using b by blast
  show "resolveRuntimeWebSocketStatus inp out = (if hasEngineMismatch out WEBSOCKET_GAP_MANUAL_REVIEW then WS_DEGRADED else WS_CONNECTED)"
    unfolding resolveRuntimeWebSocketStatus_def kinds stream_def by (auto simp: checkWebSocketGap_def split: option.splits)
  show "sm_mismatchCount (rq_summary out) = length (rq_mismatches out)"
    using assms by (auto simp: runReconcileEngine_def Let_def buildSummary_def elim!: bindR_InrE)
  show "sm_result (rq_summary out) = (if rq_mismatches out \<noteq> [] then MISMATCH_DETECTED else CLEAN)" by (rule result)
  show "rq_failClosed out \<longleftrightarrow> rq_mismatches out \<noteq> []" by (rule closed)
  show "rq_mismatches out = [] \<Longrightarrow> sm_balanceStatus (rq_summary out) = BALANCE_OK" unfolding st using b ms by auto
qed

section \<open>The worker over the repository\<close>

definition onTables :: "(reconcile_db \<Rightarrow> ('a \<times> reconcile_db) result) \<Rightarrow> (reconcile_db \<times> 'w, 'a) port" where
  "onTables f = (\<lambda>(db, w). case f db of Inl e \<Rightarrow> ((db, w), Inl e) | Inr (a, db') \<Rightarrow> ((db', w), Inr a))"

definition besides :: "('w, 'a) port \<Rightarrow> (reconcile_db \<times> 'w, 'a) port" where
  "besides p = (\<lambda>(db, w). case p w of (w', r) \<Rightarrow> ((db, w'), r))"

definition runRecord :: "run_row \<Rightarrow> run_record" where
  "runRecord r = \<lparr>ru_id = rb_id r, ru_runStatus = rb_status r\<rparr>"

text \<open>The ports of a worker whose repository is this one; \<open>others\<close> serves the snapshot, the kill switch and the alerts.\<close>

definition repositoryPorts :: "db_env \<Rightarrow> string \<Rightarrow> int \<Rightarrow> int \<Rightarrow> 'w reconcile_ports \<Rightarrow> (reconcile_db \<times> 'w) reconcile_ports" where
  "repositoryPorts env newId started finished others =
     \<lparr>pt_loadSnapshot = (\<lambda>t c. besides (pt_loadSnapshot others t c)),
      pt_beginRun = (\<lambda>b. onTables (\<lambda>db. bindR (beginLiveReconcileRun (toLiveReconcileRunRowInput newId started (bg_idempotencyKey b)
         (Some (bg_guardProfile b)) (Some (bg_sourceSummary b)) (Some (bg_correlationId b)) (Some (bg_metadata b))) db)
         (\<lambda>((created, r), db'). Inr ((created, runRecord r), db')))),
      pt_appendBalances = (\<lambda>i rows. onTables (\<lambda>db. bindR (appendLiveReconcileBalanceSnapshots env i rows db) (\<lambda>(taken, db'). Inr ((), db')))),
      pt_appendOrders = (\<lambda>i exs. onTables (\<lambda>db. bindR (appendLiveReconcileExchangeOrderSnapshots env i exs db) (\<lambda>(taken, db'). Inr ((), db')))),
      pt_appendMismatches = (\<lambda>i ms. onTables (\<lambda>db. bindR (appendLiveReconcileMismatchEvidence env i ms db) (\<lambda>(taken, db'). Inr ((), db')))),
      pt_completeRun = (\<lambda>i s m. onTables (\<lambda>db. bindR (completeLiveReconcileRun i s m finished db) (\<lambda>(r, db'). Inr (runRecord r, db')))),
      pt_killSwitch = map_option (\<lambda>p request. besides (p request)) (pt_killSwitch others),
      pt_alerts = (\<lambda>inp out i (db, w). (db, pt_alerts others inp out i w))\<rparr>"

lemma call_InrE:
  assumes "call p f w = (w', Inr b)"
  obtains w1 a where "p w = (w1, Inr a)" "f a w1 = (w', Inr b)"
  using assms by (auto simp: call_def split: prod.splits sum.splits)

lemma call_failing: "(\<And>a w. snd (f a w) \<noteq> Inr b) \<Longrightarrow> snd (call p f w) \<noteq> Inr b"
  by (auto simp: call_def split: prod.splits sum.splits)

lemma recover_InrE:
  assumes "recover p h w = (w', Inr b)" "\<And>e w. snd (h e w) \<noteq> Inr b"
  shows "p w = (w', Inr b)"
  using assms(1) assms(2) by (auto simp: recover_def split: prod.splits sum.splits) (metis snd_conv)

lemma onTables_InrE:
  assumes "onTables f s = ((db', w'), Inr a)"
  obtains "f (fst s) = Inr (a, db')" "w' = snd s"
  using assms by (auto simp: onTables_def split: prod.splits sum.splits)

lemma besides_keeps: "besides p s = ((db', w'), r) \<Longrightarrow> db' = fst s"
  by (auto simp: besides_def split: prod.splits)

lemma failClosed_keeps_tables:
  "applyFailClosedIfNeeded dates (repositoryPorts env newId started finished others) out c observedAt actor i s = ((db', w'), r) \<Longrightarrow> db' = fst s"
  by (cases s; cases "mustBlock out"; cases "pt_killSwitch others"; cases "failClosedRequest dates out c observedAt actor i")
    (auto simp: applyFailClosedIfNeeded_def repositoryPorts_def answer_def call_def besides_def split: prod.splits sum.splits)

text \<open>What a run that returns has done to the tables.\<close>

lemma begin_created:
  assumes "beginLiveReconcileRun row db = Inr ((True, r), db')"
  shows "r = row \<and> db' = db\<lparr>rd_runs := rd_runs db @ [row]\<rparr> \<and> rb_id row \<notin> rb_id ` set (rd_runs db)"
  using assms by (auto simp: beginLiveReconcileRun_def list_ex_iff split: if_splits option.splits)

lemma persist_tables:
  assumes "persistReconcileEngineEvidence renv (repositoryPorts env newId started finished others) runId inp out s = (s', Inr u)" "fst s = db"
  obtains d1 d2 t1 t2 t3 where
    "appendLiveReconcileBalanceSnapshots env runId (case rn_exchangeBalances inp of None \<Rightarrow> [] | Some bs \<Rightarrow> map toBalanceSnapshotRow bs) db = Inr (t1, d1)"
    "appendLiveReconcileExchangeOrderSnapshots env runId (rn_exchangeOpenOrders inp @ rn_exchangeClosedOrders inp @ rn_orderLookups inp
        @ buildWebSocketOrderSnapshots renv (rn_websocketContext inp)) d1 = Inr (t2, d2)"
    "appendLiveReconcileMismatchEvidence env runId (rq_mismatches out) d2 = Inr (t3, fst s')"
  using assms unfolding persistReconcileEngineEvidence_def repositoryPorts_def reconcile_ports.simps
  by (cases s') (auto elim!: call_InrE onTables_InrE bindR_InrE)

lemma complete_tables:
  assumes "pt_completeRun (repositoryPorts env newId started finished others) runId status metadata s = (s', Inr completed)"
  shows "\<exists>final. completeLiveReconcileRun runId status metadata finished (fst s) = Inr (final, fst s') \<and> completed = runRecord final"
  using assms unfolding repositoryPorts_def reconcile_ports.simps
  by (cases s') (auto elim!: onTables_InrE bindR_InrE)

lemma runOnce_begun:
  fixes others :: "'w reconcile_ports"
  assumes "runOnce renv (repositoryPorts env newId started finished others) actor observedAt given (db, w) = ((db', w'), Inr res)"
  obtains c inp row s2 where "rb_id row = newId" "rb_status row = RUN_RUNNING" "rb_startedAt row = started"
    "newId \<notin> rb_id ` set (rd_runs db)" "fst s2 = db\<lparr>rd_runs := rd_runs db @ [row]\<rparr>"
    "reconcileBody renv (repositoryPorts env newId started finished others) inp c observedAt actor newId s2 = ((db', w'), Inr res)"
proof -
  let ?P = "repositoryPorts env newId started finished others"
  let ?tail = "\<lambda>c inp created run. if \<not> created then answer (Inl (Failure ''live reconcile idempotency key already used''))
     else recover (reconcileBody renv ?P inp c observedAt actor (ru_id run)) (\<lambda>e.
       call (pt_completeRun ?P (ru_id run) RUN_FAILED None) (\<lambda>failedRun. answer (Inl (Failure ''live reconcile run failed''))))"
  let ?rest = "\<lambda>c snapshot. call (answer (case rs_idempotencyKey snapshot of Some k \<Rightarrow> Inr k
       | None \<Rightarrow> createReconcileIdempotencyKey (re_dates renv) observedAt c)) (\<lambda>key.
     call (pt_beginRun ?P (beginInput snapshot (withObservedAt (rs_engineInput snapshot) observedAt) key c))
       (\<lambda>(created, run). ?tail c (withObservedAt (rs_engineInput snapshot) observedAt) created run))"
  let ?corr = "case given of Some c \<Rightarrow> Inr c | None \<Rightarrow> createReconcileCorrelationId (re_dates renv) observedAt"
  have "call (answer ?corr) (\<lambda>c. call (loadSnapshotOrRecordFailure (re_dates renv) ?P observedAt c actor) (?rest c)) (db, w) = ((db', w'), Inr res)"
    using assms by (simp only: runOnce_def Let_def)
  then obtain c s0 where "answer ?corr (db, w) = (s0, Inr c)"
    and "call (loadSnapshotOrRecordFailure (re_dates renv) ?P observedAt c actor) (?rest c) s0 = ((db', w'), Inr res)" by (rule call_InrE)
  then have "call (loadSnapshotOrRecordFailure (re_dates renv) ?P observedAt c actor) (?rest c) (db, w) = ((db', w'), Inr res)" by (simp add: answer_def)
  then obtain s1 snapshot where load: "loadSnapshotOrRecordFailure (re_dates renv) ?P observedAt c actor (db, w) = (s1, Inr snapshot)"
    and rest: "?rest c snapshot s1 = ((db', w'), Inr res)" by (rule call_InrE)
  have "pt_loadSnapshot ?P observedAt c (db, w) = (s1, Inr snapshot)"
    using load unfolding loadSnapshotOrRecordFailure_def
    by (rule recover_InrE) (intro call_failing, simp add: answer_def)
  then have s1: "fst s1 = db" using besides_keeps [of "pt_loadSnapshot others observedAt c" "(db, w)" "fst s1" "snd s1"] by (simp add: repositoryPorts_def)
  let ?inp = "withObservedAt (rs_engineInput snapshot) observedAt"
  from rest obtain key s1' where "answer (case rs_idempotencyKey snapshot of Some k \<Rightarrow> Inr k
       | None \<Rightarrow> createReconcileIdempotencyKey (re_dates renv) observedAt c) s1 = (s1', Inr key)"
    and "call (pt_beginRun ?P (beginInput snapshot ?inp key c)) (\<lambda>(created, run). ?tail c ?inp created run) s1' = ((db', w'), Inr res)"
    by (rule call_InrE)
  then have "call (pt_beginRun ?P (beginInput snapshot ?inp key c)) (\<lambda>(created, run). ?tail c ?inp created run) s1 = ((db', w'), Inr res)"
    by (simp add: answer_def)
  then obtain s2 created run where begun: "pt_beginRun ?P (beginInput snapshot ?inp key c) s1 = (s2, Inr (created, run))"
    and tail: "?tail c ?inp created run s2 = ((db', w'), Inr res)" by (auto elim!: call_InrE)
  have created: created using tail by (auto simp: answer_def split: if_splits)
  let ?row = "toLiveReconcileRunRowInput newId started key (Some ''LIVE_READ_ONLY_RECONCILE'')
      (Some (bg_sourceSummary (beginInput snapshot ?inp key c))) (Some c) (Some (bg_metadata (beginInput snapshot ?inp key c)))"
  have "onTables (\<lambda>db. bindR (beginLiveReconcileRun ?row db) (\<lambda>((created, r), db'). Inr ((created, runRecord r), db'))) s1 = ((fst s2, snd s2), Inr (created, run))"
    using begun by (simp add: repositoryPorts_def beginInput_def)
  then have "bindR (beginLiveReconcileRun ?row db) (\<lambda>((created, r), db'). Inr ((created, runRecord r), db')) = Inr ((created, run), fst s2)"
    using s1 by (elim onTables_InrE) simp
  then obtain r where "beginLiveReconcileRun ?row db = Inr ((True, r), fst s2)" and run: "run = runRecord r"
    using created by (auto elim!: bindR_InrE)
  then have r: "r = ?row" and s2: "fst s2 = db\<lparr>rd_runs := rd_runs db @ [?row]\<rparr>" and new: "rb_id ?row \<notin> rb_id ` set (rd_runs db)"
    using begin_created [of ?row db r "fst s2"] by simp_all
  have id: "ru_id run = newId" using run r by (simp add: runRecord_def toLiveReconcileRunRowInput_def)
  have "reconcileBody renv ?P ?inp c observedAt actor newId s2 = ((db', w'), Inr res)"
    using tail created id by (simp, elim recover_InrE) (intro call_failing, simp add: answer_def)
  with s2 new show ?thesis by (intro that [of ?row s2 ?inp c]) (simp_all add: toLiveReconcileRunRowInput_def)
qed

lemma runOnce_tables:
  fixes others :: "'w reconcile_ports"
  assumes "runOnce renv (repositoryPorts env newId started finished others) actor observedAt given (db, w) = ((db', w'), Inr res)"
  obtains inp out row d1 d2 d3 t1 t2 t3 final where
    "runReconcileEngine renv inp = Inr out" "rb_id row = newId" "rb_status row = RUN_RUNNING" "rb_startedAt row = started"
    "newId \<notin> rb_id ` set (rd_runs db)"
    "appendLiveReconcileBalanceSnapshots env newId (case rn_exchangeBalances inp of None \<Rightarrow> [] | Some bs \<Rightarrow> map toBalanceSnapshotRow bs)
      (db\<lparr>rd_runs := rd_runs db @ [row]\<rparr>) = Inr (t1, d1)"
    "appendLiveReconcileExchangeOrderSnapshots env newId (rn_exchangeOpenOrders inp @ rn_exchangeClosedOrders inp @ rn_orderLookups inp
        @ buildWebSocketOrderSnapshots renv (rn_websocketContext inp)) d1 = Inr (t2, d2)"
    "appendLiveReconcileMismatchEvidence env newId (rq_mismatches out) d2 = Inr (t3, d3)"
    "completeLiveReconcileRun newId (finalStatus out) (Some (createLiveReconcileCompletionMetadata out)) finished d3 = Inr (final, db')"
    "createStatusSummaryFromEngine (re_dates renv) out observedAt (resolveRuntimeWebSocketStatus inp out) = Inr (rz_statusSummary res)"
    "rz_engineOutput res = out" "rz_run res = runRecord final"
proof -
  let ?P = "repositoryPorts env newId started finished others"
  obtain c inp row s2 where row: "rb_id row = newId" "rb_status row = RUN_RUNNING" "rb_startedAt row = started"
    "newId \<notin> rb_id ` set (rd_runs db)" and s2: "fst s2 = db\<lparr>rd_runs := rd_runs db @ [row]\<rparr>"
    and "reconcileBody renv ?P inp c observedAt actor newId s2 = ((db', w'), Inr res)"
    using assms by (rule runOnce_begun)
  then obtain out s3 ks s4 u s5 completed summary s6 v where engine: "runReconcileEngine renv inp = Inr out"
    and block: "applyFailClosedIfNeeded (re_dates renv) ?P out c observedAt actor newId s2 = (s3, Inr ks)"
    and persist: "persistReconcileEngineEvidence renv ?P newId inp out s3 = (s4, Inr u)"
    and complete: "pt_completeRun ?P newId (finalStatus out) (Some (createLiveReconcileCompletionMetadata out)) s4 = (s5, Inr completed)"
    and summary: "createStatusSummaryFromEngine (re_dates renv) out observedAt (resolveRuntimeWebSocketStatus inp out) = Inr summary"
    and alerts: "dispatchAlerts ?P inp out (ru_id completed) s5 = (s6, Inr v)"
    and res: "((db', w'), Inr res) = (s6, Inr \<lparr>rz_run = completed, rz_engineOutput = out, rz_statusSummary = summary, rz_killSwitchResult = ks\<rparr>)"
    unfolding reconcileBody_def by (elim call_InrE) (auto simp: answer_def)
  have s3: "fst s3 = fst s2" using failClosed_keeps_tables [of "re_dates renv" env newId started finished others out c observedAt actor newId s2 "fst s3" "snd s3"] block by simp
  obtain d1 d2 t1 t2 t3 where
    a1: "appendLiveReconcileBalanceSnapshots env newId (case rn_exchangeBalances inp of None \<Rightarrow> [] | Some bs \<Rightarrow> map toBalanceSnapshotRow bs) (fst s2) = Inr (t1, d1)"
    and a2: "appendLiveReconcileExchangeOrderSnapshots env newId (rn_exchangeOpenOrders inp @ rn_exchangeClosedOrders inp @ rn_orderLookups inp
        @ buildWebSocketOrderSnapshots renv (rn_websocketContext inp)) d1 = Inr (t2, d2)"
    and a3: "appendLiveReconcileMismatchEvidence env newId (rq_mismatches out) d2 = Inr (t3, fst s4)"
    using persist s3 by (rule persist_tables)
  obtain final where final: "completeLiveReconcileRun newId (finalStatus out) (Some (createLiveReconcileCompletionMetadata out)) finished (fst s4) = Inr (final, fst s5)"
    "completed = runRecord final"
    using complete_tables [OF complete] by blast
  have "db' = fst s5" using alerts res by (auto simp: dispatchAlerts_def repositoryPorts_def split: if_splits prod.splits)
  with engine row s2 a1 a2 a3 final summary res show ?thesis
    by (intro that [of inp out row t1 d1 t2 d2 t3 "fst s4" final]) simp_all
qed

section \<open>What the tables always satisfy\<close>

definition soundTables :: "reconcile_db \<Rightarrow> bool" where
  "soundTables db \<longleftrightarrow> (\<forall>i. i \<notin> rb_id ` set (rd_runs db) \<longrightarrow> evidenceOf i db = ([], [], [], [], [])) \<and>
     (\<forall>r \<in> set (rd_runs db). rb_finishedAt r = None \<longleftrightarrow> rb_status r = RUN_RUNNING)"

lemma taken_of_known_run:
  assumes "\<forall>row \<in> set taken. run_of row = runId" "taken \<noteq> [] \<longrightarrow> (\<exists>x. findRun runId db = Inr x \<and> rb_status x = RUN_RUNNING)"
    "i \<notin> rb_id ` set (rd_runs db)"
  shows "filter (\<lambda>x. run_of x = i) taken = []"
proof (cases "taken = []")
  case False
  then have "runId \<in> rb_id ` set (rd_runs db)" using assms(2) findRun_InrD by (metis image_eqI)
  then show ?thesis using assms by (auto simp: filter_empty_conv)
qed simp

lemma step_sound:
  assumes "repository_step env db answers db'" "soundTables db"
  shows "soundTables db'"
  using assms
proof (cases rule: repository_step.cases)
  case (beginning newId now key guardProfile sourceSummary correlationId metadata created x)
  then show ?thesis using begin_runs [OF beginning(2)] assms(2)
    by (cases created) (auto simp: soundTables_def evidenceOf_def toLiveReconcileRunRowInput_def)
next
  case (balances runId bs taken)
  then show ?thesis using bt.append_taken [OF balances(2) [unfolded append_defs]] taken_of_known_run [of taken sb_runId runId db] assms(2)
    by (auto simp: soundTables_def evidenceOf_def)
next
  case (orders runId exs taken)
  then show ?thesis using ot.append_taken [OF orders(2) [unfolded append_defs]] taken_of_known_run [of taken sx_runId runId db] assms(2)
    by (auto simp: soundTables_def evidenceOf_def)
next
  case (mismatches runId ms taken)
  then show ?thesis using mt.append_taken [OF mismatches(2) [unfolded append_defs]] taken_of_known_run [of taken sy_runId runId db] assms(2)
    by (auto simp: soundTables_def evidenceOf_def)
next
  case (positions runId ps taken)
  then show ?thesis using pt.append_taken [OF positions(2) [unfolded append_defs]] taken_of_known_run [of taken ch_runId runId db] assms(2)
    by (auto simp: soundTables_def evidenceOf_def)
next
  case (fills runId ks taken)
  then show ?thesis using ft.append_taken [OF fills(2) [unfolded append_defs]] taken_of_known_run [of taken ch_runId runId db] assms(2)
    by (auto simp: soundTables_def evidenceOf_def)
next
  case (completing runId status metadata now x)
  then have "db' = db \<or> db' = db\<lparr>rd_runs := map (\<lambda>x. if rb_id x = runId \<and> rb_status x = RUN_RUNNING then finishRun status metadata now x else x) (rd_runs db)\<rparr>"
    by (auto simp: completeLiveReconcileRun_def elim!: bindR_InrE split: if_splits)
  then show ?thesis
  proof
    assume new: "db' = db\<lparr>rd_runs := map (\<lambda>x. if rb_id x = runId \<and> rb_status x = RUN_RUNNING then finishRun status metadata now x else x) (rd_runs db)\<rparr>"
    have "rb_id ` set (rd_runs db') = rb_id ` set (rd_runs db)" 
    proof -
      have "map rb_id (rd_runs db') = map rb_id (rd_runs db)" by (simp add: new finishRun_def)
      then show ?thesis by (metis list.set_map)
    qed
    then show ?thesis using assms(2) completing(3) unfolding soundTables_def by (auto simp: new evidenceOf_def finishRun_def)
  qed (use assms(2) in simp)
qed

lemma run_sound: "repository_run env db answers db' \<Longrightarrow> soundTables db \<Longrightarrow> soundTables db'"
  by (induction rule: repository_run.induct) (auto intro: step_sound)

lemma reachable_sound:
  assumes "repository_run env emptyReconcileDb answers db"
  shows "soundTables db" "oneRunPerId db"
  using run_sound [OF assms] run_frozen [OF assms] by (auto simp: soundTables_def oneRunPerId_def emptyReconcileDb_def evidenceOf_def)

section \<open>The status that is read back\<close>

lemma firstByDescending_last: "\<forall>r \<in> set rs. key r < key x \<Longrightarrow> firstByDescending key (rs @ [x]) = Some x"
  by (induction rs) auto

lemma jsonbConcat_completion:
  "map_of (jsonbConcat old (createLiveReconcileCompletionMetadata out)) ''live_reconcile_engine_summary'' =
    map_of (createLiveReconcileCompletionMetadata out) ''live_reconcile_engine_summary''"
  by (simp add: jsonbConcat_def createLiveReconcileCompletionMetadata_def Let_def)

lemma stored_open_count:
  assumes "sm_exchangeOpenOrders (rq_summary out) \<le> 9007199254740991"
  shows "readStoredExchangeOpenOrderCount (jsonbConcat old (createLiveReconcileCompletionMetadata out)) = Some (sm_exchangeOpenOrders (rq_summary out))"
proof -
  have "(of_nat (sm_exchangeOpenOrders (rq_summary out)) :: rat) \<le> 9007199254740991" using assms by (metis of_nat_le_iff of_nat_numeral)
  then show ?thesis unfolding readStoredExchangeOpenOrderCount_def jsonbConcat_completion
    by (simp add: createLiveReconcileCompletionMetadata_def Let_def countJson_def)
qed

lemma finished_run_visible:
  assumes sound: "soundTables db" and past: "\<forall>r \<in> set (rd_runs db). rb_startedAt r < rb_startedAt x \<and> (\<forall>t. rb_finishedAt r = Some t \<longrightarrow> t < finished)"
    and x: "rb_finishedAt x = Some finished" "rb_status x \<noteq> RUN_RUNNING" and runs: "rd_runs db' = rd_runs db @ [x]"
  shows "latestVisibleRun db' = Some x"
proof -
  have "firstByDescending (\<lambda>r. (rb_finishedAt r = None, case rb_finishedAt r of None \<Rightarrow> 0 | Some t \<Rightarrow> t, rb_startedAt r))
      (filter (\<lambda>r. rb_status r \<noteq> RUN_RUNNING) (rd_runs db) @ [x]) = Some x"
    using sound past x by (intro firstByDescending_last) (auto simp: soundTables_def split: option.splits)
  moreover have "firstByDescending rb_startedAt (rd_runs db @ [x]) = Some x" using past by (intro firstByDescending_last) auto
  ultimately show ?thesis using x by (simp add: runs latestVisibleRun_def selectLatestVisibleReconcileRun_def)
qed

lemma mapR_members: "mapR f xs = Inr ys \<Longrightarrow> (\<forall>y \<in> set ys. \<exists>x \<in> set xs. f x = Inr y) \<and> (\<forall>x \<in> set xs. \<exists>y \<in> set ys. f x = Inr y)"
proof (induction xs arbitrary: ys)
  case (Cons a xs)
  then obtain b bs where "f a = Inr b" "mapR f xs = Inr bs" "ys = b # bs" by (auto simp: bindR_Inr_iff)
  then show ?case using Cons.IH by fastforce
qed simp

lemma insertNew_from: "t \<in> set (insertNew conflict rows table) \<Longrightarrow> t \<in> set table \<or> t \<in> set rows"
  using insertNew_extends [of conflict rows table] by auto

lemma mismatch_row:
  assumes "toLiveReconcileMismatchEvidenceRowInput env runId m = Inr s"
  shows "sy_runId s = runId \<and> sy_mismatchType s = me_mismatchType m \<and> sy_evidenceFingerprint s = me_evidenceFingerprint m"
  using assms by (auto simp: toLiveReconcileMismatchEvidenceRowInput_def checkRow_def bindR_Inr_iff split: if_splits)

text \<open>The kinds of finding of a run survive the storing of one finding per fingerprint.\<close>

lemma stored_kinds:
  assumes rows: "mapR (toLiveReconcileMismatchEvidenceRowInput env runId) ms = Inr rows" and named: "list_all wellNamed ms"
    and fresh: "\<forall>s \<in> set table. sy_runId s \<noteq> runId"
  shows "sy_mismatchType ` set (filter (\<lambda>s. sy_runId s = runId) (insertNew mismatchConflict rows table)) = me_mismatchType ` set ms"
    (is "sy_mismatchType ` ?stored = _")
proof -
  have origin: "\<exists>m \<in> set ms. sy_mismatchType s = me_mismatchType m \<and> sy_evidenceFingerprint s = me_evidenceFingerprint m" if s: "s \<in> ?stored" for s
  proof -
    have "s \<in> set rows" using s fresh insertNew_from [of s mismatchConflict rows table] by auto
    then show ?thesis using mapR_members [OF rows] mismatch_row by blast
  qed
  have "me_mismatchType m \<in> sy_mismatchType ` ?stored" if m: "m \<in> set ms" for m
  proof -
    obtain y where y: "y \<in> set rows" "toLiveReconcileMismatchEvidenceRowInput env runId m = Inr y"
      using mapR_members [OF rows] m by blast
    obtain s where s: "s \<in> set (insertNew mismatchConflict rows table)" "s = y \<or> mismatchConflict y s"
      using insertNew_covers [OF y(1)] by blast
    have stored: "s \<in> ?stored" and same: "sy_evidenceFingerprint s = me_evidenceFingerprint m"
      using s mismatch_row [OF y(2)] by (auto simp: mismatchConflict_def)
    obtain m' where "m' \<in> set ms" "sy_mismatchType s = me_mismatchType m'" "sy_evidenceFingerprint s = me_evidenceFingerprint m'"
      using origin [OF stored] by blast
    then have "me_mismatchType m' = me_mismatchType m" using named m same by (metis list_all_iff option.inject wellNamed_def)
    then show ?thesis using stored \<open>sy_mismatchType s = me_mismatchType m'\<close> by (metis image_eqI)
  qed
  then show ?thesis using origin by blast
qed

lemma stored_some:
  assumes "mapR (toLiveReconcileBalanceSnapshotRowInput env runId) bs = Inr rows" "bs \<noteq> []"
  shows "filter (\<lambda>b. sb_runId b = runId) (insertNew balanceConflict rows table) \<noteq> []"
proof -
  obtain r where r: "r \<in> set rows" "sb_runId r = runId"
    using mapR_members [OF assms(1)] assms(2) bt.row_run by (metis list.set_intros(1) neq_Nil_conv)
  obtain t where "t \<in> set (insertNew balanceConflict rows table)" "t = r \<or> balanceConflict r t"
    using insertNew_covers [OF r(1)] by blast
  with r(2) have "t \<in> set (insertNew balanceConflict rows table)" "sb_runId t = runId" by (auto simp: balanceConflict_def)
  then show ?thesis by (auto simp: filter_empty_conv)
qed

lemma canonical_count_returns: "\<exists>n. countCanonicalExchangeOrderSnapshots rows = Some n"
proof -
  obtain n p where p: "foldO canonicalStep rows (0, []) = Some (n, p)" "forest p"
    using canonical_groups [OF forest_empty(1), of rows 0] by blast
  obtain roots p' where "foldO collectRoot (map fst p) ([], p) = Some (roots, p')"
    using collect_roots [OF p(2), of "map fst p" "[]"] forest_dom [OF p(2)] by blast
  then show ?thesis using p(1) by (simp add: countCanonicalExchangeOrderSnapshots_def)
qed

lemma find_last: "\<forall>y \<in> set ys. \<not> P y \<Longrightarrow> P x \<Longrightarrow> find P (ys @ [x]) = Some x"
  by (induction ys) auto

text \<open>What the tables hold of a run that has just finished.\<close>

lemma finished_tables:
  assumes row: "rb_id row = runId" "rb_status row = RUN_RUNNING" "runId \<notin> rb_id ` set (rd_runs db)"
    and balances: "appendLiveReconcileBalanceSnapshots env runId bs (db\<lparr>rd_runs := rd_runs db @ [row]\<rparr>) = Inr (t1, d1)"
    and orders: "appendLiveReconcileExchangeOrderSnapshots env runId exs d1 = Inr (t2, d2)"
    and mismatches: "appendLiveReconcileMismatchEvidence env runId ms d2 = Inr (t3, d3)"
    and complete: "completeLiveReconcileRun runId status metadata finished d3 = Inr (final, db')"
  obtains brows mrows where "final = finishRun status metadata finished row" "rd_runs db' = rd_runs db @ [final]"
    "mapR (toLiveReconcileBalanceSnapshotRowInput env runId) bs = Inr brows" "rd_balances db' = insertNew balanceConflict brows (rd_balances db)"
    "mapR (toLiveReconcileMismatchEvidenceRowInput env runId) ms = Inr mrows" "rd_mismatches db' = insertNew mismatchConflict mrows (rd_mismatches db)"
proof -
  let ?runs = "rd_runs db @ [row]"
  have others: "\<forall>y \<in> set (rd_runs db). rb_id y \<noteq> runId" using row(3) by force
  have d1: "d1 = db\<lparr>rd_runs := ?runs, rd_balances := rd_balances db @ t1\<rparr>" using bt.append_taken [OF balances [unfolded append_defs]] by simp
  have d2: "d2 = d1\<lparr>rd_orders := rd_orders d1 @ t2\<rparr>" using ot.append_taken [OF orders [unfolded append_defs]] by simp
  have d3: "d3 = d2\<lparr>rd_mismatches := rd_mismatches d2 @ t3\<rparr>" using mt.append_taken [OF mismatches [unfolded append_defs]] by simp
  have "find (\<lambda>r. rb_id r = runId) ?runs = Some row" using row(1) others by (intro find_last) auto
  then have found: "findRun runId x = Inr row" if "rd_runs x = ?runs" for x using that by (simp add: findRun_def)
  obtain brows where b: "mapR (toLiveReconcileBalanceSnapshotRowInput env runId) bs = Inr brows" "rd_balances d1 = insertNew balanceConflict brows (rd_balances db)"
    using bt.append_stored [OF balances [unfolded append_defs] found row(2)] by auto
  obtain mrows where m: "mapR (toLiveReconcileMismatchEvidenceRowInput env runId) ms = Inr mrows" "rd_mismatches d3 = insertNew mismatchConflict mrows (rd_mismatches db)"
    using mt.append_stored [OF mismatches [unfolded append_defs] found row(2)] d1 d2 by auto
  have f: "findRun runId d3 = Inr row" using d1 d2 d3 by (intro found) simp
  let ?f = "\<lambda>x. if rb_id x = runId \<and> rb_status x = RUN_RUNNING then finishRun status metadata finished x else x"
  have final: "final = finishRun status metadata finished row" "db' = d3\<lparr>rd_runs := map ?f (rd_runs d3)\<rparr>"
    using complete f row(2) by (auto simp: completeLiveReconcileRun_def)
  have "map ?f (rd_runs db) = rd_runs db" using others by (intro map_idI) auto
  then have "rd_runs db' = rd_runs db @ [final]" using final row d1 d2 d3 by simp
  then show thesis using that final(1) b m final(2) d2 d3 by simp
qed

lemma stored_status:
  assumes engine: "runReconcileEngine renv inp = Inr out"
    and b: "0 < la_balanceSnapshotCount l \<or> unavailable (rn_exchangeBalances inp)"
    and k: "set (la_mismatchTypes l) = me_mismatchType ` set (rq_mismatches out)"
    and c: "la_mismatchEvidenceCount l = 0 \<longleftrightarrow> rq_mismatches out = []"
    and run: "la_run l = Some r" "ru_runStatus r = finalStatus out" and t: "la_finishedAt l = Some (dateOf t)"
    and opened: "la_openExchangeOrderSnapshotCount l = sm_exchangeOpenOrders (rq_summary out)"
    and reported: "createStatusSummaryFromEngine env out observedAt (resolveRuntimeWebSocketStatus inp out) = Inr summary"
  obtains st where "getReconcileStatus env l = Inr st" "su_result st = su_result summary" "su_openOrderCount st = su_openOrderCount summary"
    "su_balanceStatus st = su_balanceStatus summary" "su_websocketStatus st = su_websocketStatus summary"
    "su_mismatchCount st = Some 0 \<longleftrightarrow> su_mismatchCount summary = Some 0"
proof -
  note e = engine_findings [OF engine]
  have has: "hasEngineMismatch out t \<longleftrightarrow> t \<in> set (la_mismatchTypes l)" for t
    unfolding k by (auto simp: hasEngineMismatch_def list_ex_iff)
  have balance: "resolveLatestBalanceStatus l = sm_balanceStatus (rq_summary out)"
    using e(2-4) b unfolding resolveLatestBalanceStatus_def has by (cases "sm_balanceStatus (rq_summary out)") auto
  have stream: "resolveLatestWebSocketStatus l = resolveRuntimeWebSocketStatus inp out"
    unfolding e(5) has resolveLatestWebSocketStatus_def by simp
  obtain s where summary: "summary = createReconcileStatusSummary (Some s)
       (Some (if hasStateAdvancementCandidatesWithoutRuntimeWrite out then MISMATCH_DETECTED else sm_result (rq_summary out)))
       (Some (sm_mismatchCount (rq_summary out))) (Some (sm_exchangeOpenOrders (rq_summary out)))
       (Some (sm_balanceStatus (rq_summary out))) (resolveRuntimeWebSocketStatus inp out)"
    using reported by (auto simp: createStatusSummaryFromEngine_def elim: bindR_InrE)
  show thesis
  proof (cases "finalStatus out")
    case RUN_MANUAL_REVIEW_REQUIRED
    then have "rq_mismatches out \<noteq> [] \<or> hasStateAdvancementCandidatesWithoutRuntimeWrite out"
      using e(8) by (auto simp: finalStatus_def split: if_splits)
    then show thesis using run t RUN_MANUAL_REVIEW_REQUIRED e(6,7) c opened balance stream
      by (intro that [of "createManualReviewRequiredStatusSummary l (de_toISOString env (toTimeMs t))"])
        (auto simp: summary getReconcileStatus_def toIsoString_def dateOf_def createManualReviewRequiredStatusSummary_def createReconcileStatusSummary_def)
  next
    case RUN_COMPLETED
    then have "rq_mismatches out = []" "\<not> hasStateAdvancementCandidatesWithoutRuntimeWrite out"
      using e(8) by (auto simp: finalStatus_def split: if_splits)
    then show thesis using run t RUN_COMPLETED e(6,7) c opened balance stream
      by (intro that [of "createReconcileStatusSummary (Some (de_toISOString env (toTimeMs t))) (Some CLEAN) (Some 0)
          (Some (la_openExchangeOrderSnapshotCount l)) (Some (resolveLatestBalanceStatus l)) (resolveLatestWebSocketStatus l)"])
        (auto simp: summary getReconcileStatus_def toIsoString_def dateOf_def createReconcileStatusSummary_def)
  qed (auto simp: finalStatus_def split: if_splits)
qed

lemma runOnce_stored:
  fixes others :: "'w reconcile_ports"
  assumes "runOnce renv (repositoryPorts env newId started finished others) actor observedAt given (db, w) = ((db', w'), Inr res)"
  obtains inp final brows mrows where "runReconcileEngine renv inp = Inr (rz_engineOutput res)" "newId \<notin> rb_id ` set (rd_runs db)"
    "rb_id final = newId" "rb_startedAt final = started" "rb_finishedAt final = Some finished" "rb_status final = finalStatus (rz_engineOutput res)"
    "\<exists>old. rb_metadata final = jsonbConcat old (createLiveReconcileCompletionMetadata (rz_engineOutput res))"
    "rd_runs db' = rd_runs db @ [final]" "rz_run res = runRecord final"
    "createStatusSummaryFromEngine (re_dates renv) (rz_engineOutput res) observedAt (resolveRuntimeWebSocketStatus inp (rz_engineOutput res)) = Inr (rz_statusSummary res)"
    "mapR (toLiveReconcileBalanceSnapshotRowInput env newId) (case rn_exchangeBalances inp of None \<Rightarrow> [] | Some bs \<Rightarrow> map toBalanceSnapshotRow bs) = Inr brows"
    "rd_balances db' = insertNew balanceConflict brows (rd_balances db)"
    "mapR (toLiveReconcileMismatchEvidenceRowInput env newId) (rq_mismatches (rz_engineOutput res)) = Inr mrows"
    "rd_mismatches db' = insertNew mismatchConflict mrows (rd_mismatches db)"
  using assms
proof (rule runOnce_tables)
  fix inp out row d1 d2 d3 t1 t2 t3 final
  assume engine: "runReconcileEngine renv inp = Inr out"
    and row: "rb_id row = newId" "rb_status row = RUN_RUNNING" "rb_startedAt row = started" and new: "newId \<notin> rb_id ` set (rd_runs db)"
    and a: "appendLiveReconcileBalanceSnapshots env newId (case rn_exchangeBalances inp of None \<Rightarrow> [] | Some bs \<Rightarrow> map toBalanceSnapshotRow bs)
        (db\<lparr>rd_runs := rd_runs db @ [row]\<rparr>) = Inr (t1, d1)"
      "appendLiveReconcileExchangeOrderSnapshots env newId (rn_exchangeOpenOrders inp @ rn_exchangeClosedOrders inp @ rn_orderLookups inp
        @ buildWebSocketOrderSnapshots renv (rn_websocketContext inp)) d1 = Inr (t2, d2)"
      "appendLiveReconcileMismatchEvidence env newId (rq_mismatches out) d2 = Inr (t3, d3)"
      "completeLiveReconcileRun newId (finalStatus out) (Some (createLiveReconcileCompletionMetadata out)) finished d3 = Inr (final, db')"
    and summary: "createStatusSummaryFromEngine (re_dates renv) out observedAt (resolveRuntimeWebSocketStatus inp out) = Inr (rz_statusSummary res)"
    and res: "rz_engineOutput res = out" "rz_run res = runRecord final"
  show thesis
    using row(1,2) new a
  proof (rule finished_tables)
    fix brows mrows
    assume f: "final = finishRun (finalStatus out) (Some (createLiveReconcileCompletionMetadata out)) finished row"
    assume "rd_runs db' = rd_runs db @ [final]"
      "mapR (toLiveReconcileBalanceSnapshotRowInput env newId) (case rn_exchangeBalances inp of None \<Rightarrow> [] | Some bs \<Rightarrow> map toBalanceSnapshotRow bs) = Inr brows"
      "rd_balances db' = insertNew balanceConflict brows (rd_balances db)"
      "mapR (toLiveReconcileMismatchEvidenceRowInput env newId) (rq_mismatches out) = Inr mrows"
      "rd_mismatches db' = insertNew mismatchConflict mrows (rd_mismatches db)"
    then show thesis
      using engine new row summary res by (intro that [of inp final brows mrows]) (auto simp: f finishRun_def)
  qed
qed

text \<open>
  C40. The status that is read back agrees with the one that was returned. When a run over tables that the repository
  can have reached has returned, and started and finished later than every run before it, the status read from
  the tables is the status of this run: the same result, open orders, balance status and stream status, and findings
  counted exactly when the run reported some, although findings with the same fingerprint are stored once.
\<close>

theorem stored_status_agrees:
  fixes others :: "'w reconcile_ports"
  assumes run: "runOnce renv (repositoryPorts env newId started finished others) actor observedAt given (db, w) = ((db', w'), Inr res)"
    and reached: "repository_run env emptyReconcileDb answers db"
    and past: "\<forall>r \<in> set (rd_runs db). rb_startedAt r < started \<and> (\<forall>t. rb_finishedAt r = Some t \<longrightarrow> t < finished)"
    and few: "sm_exchangeOpenOrders (rq_summary (rz_engineOutput res)) \<le> 9007199254740991"
  shows "\<exists>s st. getLatestLiveReconcileSummary db' = Some s \<and> la_run s = Some (rz_run res) \<and>
    getReconcileStatus (re_dates renv) (latest_run.truncate s) = Inr st \<and>
    su_result st = su_result (rz_statusSummary res) \<and> su_openOrderCount st = su_openOrderCount (rz_statusSummary res) \<and>
    su_balanceStatus st = su_balanceStatus (rz_statusSummary res) \<and> su_websocketStatus st = su_websocketStatus (rz_statusSummary res) \<and>
    (su_mismatchCount st = Some 0 \<longleftrightarrow> su_mismatchCount (rz_statusSummary res) = Some 0)"
proof -
  define out where "out = rz_engineOutput res"
  obtain inp final brows mrows where engine: "runReconcileEngine renv inp = Inr out" and new: "newId \<notin> rb_id ` set (rd_runs db)"
    and final: "rb_id final = newId" "rb_startedAt final = started" "rb_finishedAt final = Some finished" "rb_status final = finalStatus out"
    and metadata: "\<exists>old. rb_metadata final = jsonbConcat old (createLiveReconcileCompletionMetadata out)"
    and runs: "rd_runs db' = rd_runs db @ [final]" and res: "rz_run res = runRecord final"
    and summary: "createStatusSummaryFromEngine (re_dates renv) out observedAt (resolveRuntimeWebSocketStatus inp out) = Inr (rz_statusSummary res)"
    and balances: "mapR (toLiveReconcileBalanceSnapshotRowInput env newId) (case rn_exchangeBalances inp of None \<Rightarrow> [] | Some bs \<Rightarrow> map toBalanceSnapshotRow bs) = Inr brows"
      "rd_balances db' = insertNew balanceConflict brows (rd_balances db)"
    and mismatches: "mapR (toLiveReconcileMismatchEvidenceRowInput env newId) (rq_mismatches out) = Inr mrows"
      "rd_mismatches db' = insertNew mismatchConflict mrows (rd_mismatches db)"
    using run unfolding out_def by (rule runOnce_stored)
  have sound: "soundTables db" by (rule reachable_sound(1) [OF reached])
  then have fresh: "\<forall>s \<in> set (rd_mismatches db). sy_runId s \<noteq> newId"
    using new unfolding soundTables_def by (auto simp: evidenceOf_def filter_empty_conv)
  have visible: "latestVisibleRun db' = Some final"
    using past final by (intro finished_run_visible [OF sound _ final(3) _ runs]) (auto simp: finalStatus_def)
  have openCount: "readStoredExchangeOpenOrderCount (rb_metadata final) = Some (sm_exchangeOpenOrders (rq_summary out))"
    using metadata stored_open_count few by (auto simp: out_def)
  let ?ms = "filter (\<lambda>s. sy_runId s = newId) (rd_mismatches db')"
  have kinds: "sy_mismatchType ` set ?ms = me_mismatchType ` set (rq_mismatches out)"
    unfolding mismatches(2) by (rule stored_kinds [OF mismatches(1) engine_findings(1) [OF engine] fresh])
  then have none: "?ms = [] \<longleftrightarrow> rq_mismatches out = []" by (metis image_is_empty set_empty)
  obtain n where count: "countCanonicalExchangeOrderSnapshots (map toObservation (filter (\<lambda>x. sx_runId x = newId) (rd_orders db'))) = Some n"
    using canonical_count_returns by blast
  obtain s where s: "getLatestLiveReconcileSummary db' = Some s" "la_run s = Some (runRecord final)" "la_finishedAt s = Some (dateOf finished)"
    "la_balanceSnapshotCount s = length (filter (\<lambda>b. sb_runId b = newId) (rd_balances db'))"
    "la_openExchangeOrderSnapshotCount s = sm_exchangeOpenOrders (rq_summary out)"
    "la_mismatchEvidenceCount s = length ?ms" "la_mismatchTypes s = remdups (map sy_mismatchType ?ms)"
    using visible openCount count final by (simp add: getLatestLiveReconcileSummary_def Let_def runRecord_def)
  have stored: "0 < length (filter (\<lambda>b. sb_runId b = newId) (rd_balances db')) \<or> unavailable (rn_exchangeBalances inp)"
    using stored_some [OF balances(1), of "rd_balances db"] unfolding balances(2) by (cases "rn_exchangeBalances inp") auto
  obtain st where "getReconcileStatus (re_dates renv) (latest_run.truncate s) = Inr st" "su_result st = su_result (rz_statusSummary res)"
    "su_openOrderCount st = su_openOrderCount (rz_statusSummary res)" "su_balanceStatus st = su_balanceStatus (rz_statusSummary res)"
    "su_websocketStatus st = su_websocketStatus (rz_statusSummary res)"
    "su_mismatchCount st = Some 0 \<longleftrightarrow> su_mismatchCount (rz_statusSummary res) = Some 0"
    by (rule stored_status [OF engine _ _ _ _ _ _ _ summary, of "latest_run.truncate s" "runRecord final" finished])
      (use s stored kinds none in \<open>simp_all add: latest_run.truncate_def runRecord_def final\<close>)
  then show ?thesis using s(1,2) res by (intro exI [of _ s] exI [of _ st]) simp
qed

text \<open>A worker over the tables of the example: its run ends in a manual review.\<close>

lemma example_engine:
  "case runReconcileEngine exampleReconcileEnv exhaustedInput of Inl e \<Rightarrow> False
    | Inr out \<Rightarrow> sm_exchangeOpenOrders (rq_summary out) = 1 \<and> sm_result (rq_summary out) = MISMATCH_DETECTED \<and>
       is_ok (mapR (toLiveReconcileMismatchEvidenceRowInput exampleDbEnv ''r1'') (rq_mismatches out))"
  by code_simp

lemma example_evidence:
  "is_ok (mapR (toLiveReconcileBalanceSnapshotRowInput exampleDbEnv ''r1'') (case rn_exchangeBalances exhaustedInput of None \<Rightarrow> [] | Some bs \<Rightarrow> map toBalanceSnapshotRow bs))"
  "is_ok (mapR (toLiveReconcileExchangeOrderSnapshotRowInput exampleDbEnv ''r1'') (rn_exchangeOpenOrders exhaustedInput @ rn_exchangeClosedOrders exhaustedInput
     @ rn_orderLookups exhaustedInput @ buildWebSocketOrderSnapshots exampleReconcileEnv (rn_websocketContext exhaustedInput)))"
  by code_simp+

abbreviation examplePorts :: "(reconcile_db \<times> unit) reconcile_ports" where
  "examplePorts \<equiv> repositoryPorts exampleDbEnv ''r1'' 3000 4000 exampleReconcilePorts"

lemma example_blocks:
  "\<exists>ks. applyFailClosedIfNeeded dates examplePorts out c t actor i s = (s, Inr ks)"
  by (cases s) (auto simp: applyFailClosedIfNeeded_def repositoryPorts_def exampleReconcilePorts_def besides_def answer_def call_def split: option.splits)

lemma example_persists:
  assumes "runReconcileEngine exampleReconcileEnv exhaustedInput = Inr out" "findRun ''r1'' db = Inr r" "rb_status r = RUN_RUNNING"
  shows "\<exists>db'. persistReconcileEngineEvidence exampleReconcileEnv examplePorts ''r1'' exhaustedInput out (db, ()) = ((db', ()), Inr ()) \<and> rd_runs db' = rd_runs db"
proof -
  let ?bs = "case rn_exchangeBalances exhaustedInput of None \<Rightarrow> [] | Some bs \<Rightarrow> map toBalanceSnapshotRow bs"
    and ?exs = "rn_exchangeOpenOrders exhaustedInput @ rn_exchangeClosedOrders exhaustedInput
     @ rn_orderLookups exhaustedInput @ buildWebSocketOrderSnapshots exampleReconcileEnv (rn_websocketContext exhaustedInput)"
  obtain brows orows mrows where rows: "mapR (toLiveReconcileBalanceSnapshotRowInput exampleDbEnv ''r1'') ?bs = Inr brows"
    "mapR (toLiveReconcileExchangeOrderSnapshotRowInput exampleDbEnv ''r1'') ?exs = Inr orows"
    "mapR (toLiveReconcileMismatchEvidenceRowInput exampleDbEnv ''r1'') (rq_mismatches out) = Inr mrows"
    using example_evidence example_engine assms(1) by (auto simp: is_ok_iff)
  have found: "findRun ''r1'' x = Inr r" if "rd_runs x = rd_runs db" for x using that assms(2) by (simp add: findRun_def)
  obtain t1 where d1: "appendLiveReconcileBalanceSnapshots exampleDbEnv ''r1'' ?bs db = Inr (t1, db\<lparr>rd_balances := rd_balances db @ t1\<rparr>)"
    using bt.append_returns [OF rows(1) found assms(3), of db] by (auto simp: append_defs)
  let ?d1 = "db\<lparr>rd_balances := rd_balances db @ t1\<rparr>"
  obtain t2 where d2: "appendLiveReconcileExchangeOrderSnapshots exampleDbEnv ''r1'' ?exs ?d1 = Inr (t2, ?d1\<lparr>rd_orders := rd_orders ?d1 @ t2\<rparr>)"
    using ot.append_returns [OF rows(2) found assms(3), of ?d1] by (auto simp: append_defs)
  let ?d2 = "?d1\<lparr>rd_orders := rd_orders ?d1 @ t2\<rparr>"
  obtain t3 where d3: "appendLiveReconcileMismatchEvidence exampleDbEnv ''r1'' (rq_mismatches out) ?d2 = Inr (t3, ?d2\<lparr>rd_mismatches := rd_mismatches ?d2 @ t3\<rparr>)"
    using mt.append_returns [OF rows(3) found assms(3), of ?d2] by (auto simp: append_defs)
  show ?thesis
    by (rule exI [of _ "?d2\<lparr>rd_mismatches := rd_mismatches ?d2 @ t3\<rparr>"])
      (simp only: persistReconcileEngineEvidence_def repositoryPorts_def reconcile_ports.simps call_def onTables_def d1 d2 d3
        bindR_simps split_conv sum.case, simp)
qed

lemma example_body:
  assumes "runReconcileEngine exampleReconcileEnv exhaustedInput = Inr out" "findRun ''r1'' db = Inr r" "rb_status r = RUN_RUNNING"
  shows "\<exists>db' res. reconcileBody exampleReconcileEnv examplePorts exhaustedInput ''c1'' (TextInput ''now'') ''worker'' ''r1'' (db, ()) = ((db', ()), Inr res) \<and>
    rz_engineOutput res = out \<and> su_result (rz_statusSummary res) = ST_MISMATCH_DETECTED"
proof -
  obtain ks where ks: "applyFailClosedIfNeeded (re_dates exampleReconcileEnv) examplePorts out ''c1'' (TextInput ''now'') ''worker'' ''r1'' (db, ()) = ((db, ()), Inr ks)"
    using example_blocks by blast
  obtain d3 where d3: "persistReconcileEngineEvidence exampleReconcileEnv examplePorts ''r1'' exhaustedInput out (db, ()) = ((d3, ()), Inr ())" "rd_runs d3 = rd_runs db"
    using example_persists [OF assms] by blast
  have "findRun ''r1'' d3 = Inr r" using assms(2) d3(2) by (simp add: findRun_def)
  then obtain final d4 where d4: "pt_completeRun examplePorts ''r1'' (finalStatus out) (Some (createLiveReconcileCompletionMetadata out)) (d3, ()) = ((d4, ()), Inr (runRecord final))"
    using assms(3) by (simp add: repositoryPorts_def onTables_def completeLiveReconcileRun_def)
  have alerts: "dispatchAlerts examplePorts exhaustedInput out i s = (s, Inr ())" for i s
    by (cases s) (simp add: dispatchAlerts_def repositoryPorts_def exampleReconcilePorts_def)
  have "sm_result (rq_summary out) = MISMATCH_DETECTED" using example_engine assms(1) by simp
  then show ?thesis using assms(1)
    by (simp add: reconcileBody_def call_def answer_def ks d3 d4 alerts createStatusSummaryFromEngine_def toIsoString_def createReconcileStatusSummary_def)
qed

lemma example_run_returns:
  "\<exists>db' res. runOnce exampleReconcileEnv examplePorts ''worker'' (TextInput ''now'') (Some ''c1'') (exampleFinishedDb, ()) = ((db', ()), Inr res) \<and>
    sm_exchangeOpenOrders (rq_summary (rz_engineOutput res)) = 1 \<and> su_result (rz_statusSummary res) = ST_MISMATCH_DETECTED"
proof -
  let ?snap = "\<lparr>rs_engineInput = exhaustedInput, rs_idempotencyKey = Some ''k1'', rs_sourceSummary = None, rs_snapshotMetadata = None\<rparr>"
  obtain out where out: "runReconcileEngine exampleReconcileEnv exhaustedInput = Inr out" "sm_exchangeOpenOrders (rq_summary out) = 1"
    using example_engine by (auto split: sum.splits)
  define row where "row = toLiveReconcileRunRowInput ''r1'' 3000 ''k1'' (Some ''LIVE_READ_ONLY_RECONCILE'')
    (Some (bg_sourceSummary (beginInput ?snap exhaustedInput ''k1'' ''c1''))) (Some ''c1'') (Some (bg_metadata (beginInput ?snap exhaustedInput ''k1'' ''c1'')))"
  let ?db = "exampleFinishedDb\<lparr>rd_runs := rd_runs exampleFinishedDb @ [row]\<rparr>"
  have "beginLiveReconcileRun row exampleFinishedDb = Inr ((True, row), ?db)"
    by (simp add: beginLiveReconcileRun_def row_def example_defs finishRun_def blankText_def notBlank_def)
  then have begun: "pt_beginRun examplePorts (beginInput ?snap exhaustedInput ''k1'' ''c1'') (exampleFinishedDb, ()) = ((?db, ()), Inr (True, runRecord row))"
    by (simp add: repositoryPorts_def onTables_def row_def beginInput_def)
  have load: "loadSnapshotOrRecordFailure dates examplePorts t c actor s = (s, Inr ?snap)" for dates t c actor s
    by (cases s) (simp add: loadSnapshotOrRecordFailure_def recover_def repositoryPorts_def exampleReconcilePorts_def besides_def)
  have inp: "withObservedAt exhaustedInput (TextInput ''now'') = exhaustedInput"
    by (simp add: withObservedAt_def exhaustedInput_def exampleReconcileInput_def)
  have "findRun ''r1'' ?db = Inr row" "rb_status row = RUN_RUNNING" "ru_id (runRecord row) = ''r1''"
    by (simp_all add: findRun_def row_def example_defs finishRun_def runRecord_def)
  then show ?thesis using example_body [OF out(1), of ?db row] out(2) begun
    by (auto simp: runOnce_def call_def answer_def load inp recover_def)
qed

theorem stored_status_agrees_witness:
  "\<exists>db' w' res s st. runOnce exampleReconcileEnv examplePorts ''worker'' (TextInput ''now'') (Some ''c1'') (exampleFinishedDb, ()) = ((db', w'), Inr res) \<and>
    getLatestLiveReconcileSummary db' = Some s \<and> la_run s = Some (rz_run res) \<and>
    getReconcileStatus (re_dates exampleReconcileEnv) (latest_run.truncate s) = Inr st \<and> su_result st = ST_MISMATCH_DETECTED"
proof -
  obtain db' res where run: "runOnce exampleReconcileEnv examplePorts ''worker'' (TextInput ''now'') (Some ''c1'') (exampleFinishedDb, ()) = ((db', ()), Inr res)"
    and out: "sm_exchangeOpenOrders (rq_summary (rz_engineOutput res)) = 1" "su_result (rz_statusSummary res) = ST_MISMATCH_DETECTED"
    using example_run_returns by blast
  have past: "\<forall>r \<in> set (rd_runs exampleFinishedDb). rb_startedAt r < 3000 \<and> (\<forall>t. rb_finishedAt r = Some t \<longrightarrow> t < 4000)"
    by (simp add: example_defs finishRun_def)
  have few: "sm_exchangeOpenOrders (rq_summary (rz_engineOutput res)) \<le> 9007199254740991" using out(1) by simp
  obtain s st where "getLatestLiveReconcileSummary db' = Some s" "la_run s = Some (rz_run res)"
    "getReconcileStatus (re_dates exampleReconcileEnv) (latest_run.truncate s) = Inr st" "su_result st = ST_MISMATCH_DETECTED"
    using stored_status_agrees [OF run example_history past few] out(2) by auto
  with run show ?thesis by blast
qed

end
