(* ===== verification/Spec2Isabelle.thy ===== *)
theory Spec2Isabelle
  imports Paper_Evidence Execution_Service Kill_Switch_Control Exit_Runtime Pnl_Coverage Pnl_Queries Entry_Rules Reconcile_Status
begin

text \<open>
  A verification of seemirai, a cost-first trading system for the Upbit KRW market that runs on a paper
  broker and, behind approvals, live. An order is a candidate that a strategy or the exit engine
  proposes; the cost model must allow it, the risk gate must approve it, the execution engine checks
  the evidence of both and calls the broker once per idempotency key, and the outcome is persisted with
  its events, fills and positions. A kill switch restricts the system and is only loosened by review.

  Parts, sources under \<^verbatim>\<open>src/src/\<close> and theories.

  \<^item> \<open>Prelude\<close>, \<open>Decimal_Js\<close>, \<open>Js_Date\<close>: errors as results, numeric texts, JSON records, strings; the
    decimal arithmetic of decimal.js as a rounding with laws (\<open>decimal_rounding\<close>, \<open>decimal_js\<close>), and
    the calendar of JavaScript dates.
  \<^item> \<open>Lifecycle\<close>, \<open>Orders\<close>: \<^verbatim>\<open>domain/state-machines.ts\<close>, \<^verbatim>\<open>domain/live-order-approval\<close>, \<^verbatim>\<open>domain/orders.ts\<close>. The
    transition tables and what every run through them must pass.
  \<^item> \<open>Paper_Fill\<close>, \<open>Paper_Broker\<close>, \<open>Paper_Ledger\<close>: \<^verbatim>\<open>application/execution/paper-fill-simulator.ts\<close> and
    \<^verbatim>\<open>infrastructure/paper\<close>. A fill conserves the quantity, respects price and time in force; the broker
    holds one order per key, answers retries alike and stays solvent over every sequence of operations
    whose orders have limit prices that are not negative and markets of two different currencies.
  \<^item> \<open>Cost_Model\<close>: \<^verbatim>\<open>domain/cost.ts\<close>. When the model allows a trade, and that it fails closed.
  \<^item> \<open>Risk_Gate\<close>, \<open>Risk_Runtime\<close>: \<^verbatim>\<open>application/risk\<close>. When the gate approves, which action it demands, and
    the plan of the runtime: the order's transition and a kill switch that only tightens.
  \<^item> \<open>Entry_Rules\<close>: \<^verbatim>\<open>application/rules\<close>. What the rules demand of a candidate, over the cost model and the gate.
  \<^item> \<open>Execution_Validation\<close>, \<open>Execution_Service\<close>: \<^verbatim>\<open>application/execution/execution-engine\<close>. What passes
    validation, and the asynchronous submit path as a machine of steps: one broker call per key in
    flight, every request answered once, retries get the same order.
  \<^item> \<open>Kill_Switch_Control\<close>: \<^verbatim>\<open>application/risk/kill-switch-control.ts\<close> with its repository. Which control
    requests are accepted, and that the audit log accounts for the durable state as far as control
    requests move it; the risk gate's own update of the same row is outside the machine.
  \<^item> \<open>Execution_Persistence\<close>, \<open>Persistence_Booking\<close>, \<open>Paper_Evidence\<close>:
    \<^verbatim>\<open>infrastructure/db/execution-persistence\<close>. The stored records agree, an outcome is booked once, and
    every order of the paper broker passes the evidence checks.
  \<^item> \<open>Exit_Rules\<close>, \<open>Exit_Submission\<close>, \<open>Exit_Runtime\<close>: \<^verbatim>\<open>application/exit-engine\<close>. What the exit rules
    decide, that the engine accepts the orders built from their decisions, and that the runtime fails
    closed over any engine, broker, store, evidence writer and alerts, stated over the history of the
    calls it makes of them and their answers.
  \<^item> \<open>Pnl_Ledger\<close>, \<open>Pnl_Sources\<close>, \<open>Pnl_Calculator\<close>, \<open>Pnl_Coverage\<close>: \<^verbatim>\<open>application/pnl-accounting\<close>. The
    replay of fills balances cash, cost and realized profit and needs an opening position exactly when the
    search says so; a calculated result hides no gap; facts behind a stored snapshot are not counted twice.
  \<^item> \<open>Pnl_Closeout\<close>, \<open>Pnl_Repository\<close>, \<open>Pnl_Queries\<close>: \<^verbatim>\<open>application/pnl-accounting/closeout.ts\<close> and
    \<^verbatim>\<open>infrastructure/db/pnl-accounting\<close>. The drawdown of a closeout, the snapshot that it stores once however
    transactions interleave, the evidence read back from it, and the facts of the latest reconcile run.

  \<^item> \<open>Reconcile_Orders\<close>, \<open>Reconcile_Engine\<close>, \<open>Reconcile_Runtime\<close>: \<^verbatim>\<open>application/live-reconcile\<close> and
    \<^verbatim>\<open>runtime/live-reconcile-runtime\<close>. What a clean comparison of local and exchange state means, that only
    a proven identity advances an order, that the worker asks the kill switch before it stores evidence,
    and after which findings the kill switch really blocks: a request for review whose only ground is
    the window of closed orders carries a reason that the kill switch refuses.
  \<^item> \<open>Order_Groups\<close>: the union-find of \<^verbatim>\<open>infrastructure/db/live-reconcile/repository.ts\<close>, through the interface
    \<open>representatives\<close>: both counts return, and what they count.
  \<^item> \<open>Reconcile_Repository\<close>, \<open>Reconcile_Status\<close>: the rest of that repository over its tables, each table of
    evidence through the interface \<open>run_table\<close>: a finished run never changes, a run is created and a fill
    reserved once, and the status read back after a run agrees with the one the run returned.

  Interfaces are locales: the laws of rounding, the storage of numerics (\<open>numeric_storage\<close>), the broker
  the engine calls and its idempotency; each is interpreted on the model's own definitions.

  Bounds. A decimal has twenty significant digits; statements that need exact sums speak of amounts on
  a grid of \<open>10\<close> to the power \<open>-k\<close> below the limit at which twenty digits suffice (\<open>fitsGrid\<close>). Database
  columns have the precision and scale of the schema. Nothing in the development uses fuel.

  Not modelled: message texts, alert dispatch, the HTTP and chat interfaces, the exchange client, the
  configuration and process assembly, and the report and read-model code, which hold no state of their own or
  only call services outside the repository.
\<close>

end
